(* ===== verification/Prelude.thy ===== *)
theory Prelude
  imports Main "HOL-Library.Monad_Syntax"
begin

text \<open>
  Shared vocabulary of the development.

  Text is a list of characters, read as the Latin-1 code points; the string functions the Rust
  code calls (trim, to_lowercase, split, strip_prefix, starts_with) are defined on it here.
  Postgres tables are lists of rows; an SQL condition is a three-valued truth value, and a
  statement takes effect exactly on the rows where its condition is true (neither false nor
  NULL). Times are integers counting microseconds.
\<close>

named_theorems sql_simps \<open>reading of SQL conditions as ordinary propositions\<close>
named_theorems row_simps \<open>effect of a row update on the fields of the row\<close>

section \<open>Time\<close>

type_synonym time = int

definition secs :: "int \<Rightarrow> int" where
  "secs n = n * 1000000"

lemma secs_mono [simp]: "secs a \<le> secs b \<longleftrightarrow> a \<le> b"
  by (simp add: secs_def)

lemma secs_less [simp]: "secs a < secs b \<longleftrightarrow> a < b"
  by (simp add: secs_def)

section \<open>Characters and strings\<close>

type_synonym str = string

definition is_space :: "char \<Rightarrow> bool" where
  "is_space c = (let n = of_char c :: nat in (9 \<le> n \<and> n \<le> 13) \<or> n = 32 \<or> n = 133 \<or> n = 160)"

definition lower_char :: "char \<Rightarrow> char" where
  "lower_char c = (let n = of_char c :: nat in
     if (65 \<le> n \<and> n \<le> 90) \<or> (192 \<le> n \<and> n \<le> 222 \<and> n \<noteq> 215) then char_of (n + 32) else c)"

definition ascii_lower_char :: "char \<Rightarrow> char" where
  "ascii_lower_char c = (let n = of_char c :: nat in if 65 \<le> n \<and> n \<le> 90 then char_of (n + 32) else c)"

definition eq_ignore_ascii_case :: "string \<Rightarrow> string \<Rightarrow> bool" where
  "eq_ignore_ascii_case a b = (map ascii_lower_char a = map ascii_lower_char b)"

definition to_lowercase :: "str \<Rightarrow> str" where
  "to_lowercase s = map lower_char s"

definition trim_start :: "str \<Rightarrow> str" where
  "trim_start s = dropWhile is_space s"

definition trim :: "str \<Rightarrow> str" where
  "trim s = rev (dropWhile is_space (rev (dropWhile is_space s)))"

definition btrim :: "str \<Rightarrow> str" where
  "btrim s = rev (dropWhile (\<lambda>c. c = CHR '' '') (rev (dropWhile (\<lambda>c. c = CHR '' '') s)))"

fun strip_prefix :: "str \<Rightarrow> str \<Rightarrow> str option" where
  "strip_prefix [] s = Some s"
| "strip_prefix (p # ps) [] = None"
| "strip_prefix (p # ps) (c # cs) = (if p = c then strip_prefix ps cs else None)"

definition starts_with :: "str \<Rightarrow> str \<Rightarrow> bool" where
  "starts_with p s = (strip_prefix p s \<noteq> None)"

fun split_on :: "char \<Rightarrow> str \<Rightarrow> str list" where
  "split_on d [] = [[]]"
| "split_on d (c # cs) =
     (if c = d then [] # split_on d cs
      else (case split_on d cs of p # ps \<Rightarrow> (c # p) # ps | [] \<Rightarrow> [[c]]))"

fun join_with :: "char \<Rightarrow> str list \<Rightarrow> str" where
  "join_with d [] = []"
| "join_with d [p] = p"
| "join_with d (p # ps) = p @ d # join_with d ps"

fun find_map :: "('a \<Rightarrow> 'b option) \<Rightarrow> 'a list \<Rightarrow> 'b option" where
  "find_map f [] = None"
| "find_map f (x # xs) = (case f x of Some y \<Rightarrow> Some y | None \<Rightarrow> find_map f xs)"

text \<open>Rust's integer parser: an optional sign, then at least one digit, then a range check.\<close>

definition digit_val :: "char \<Rightarrow> int option" where
  "digit_val c = (let n = of_char c :: int in if 48 \<le> n \<and> n \<le> 57 then Some (n - 48) else None)"

fun digits_val :: "int \<Rightarrow> string \<Rightarrow> int option" where
  "digits_val acc [] = Some acc"
| "digits_val acc (c # cs) = (case digit_val c of None \<Rightarrow> None | Some v \<Rightarrow> digits_val (acc * 10 + v) cs)"

definition parse_digits :: "string \<Rightarrow> int option" where
  "parse_digits s = (if s = [] then None else digits_val 0 s)"

fun parse_signed :: "string \<Rightarrow> int option" where
  "parse_signed [] = None"
| "parse_signed (c # cs) =
     (if c = CHR ''-'' then map_option uminus (parse_digits cs)
      else if c = CHR ''+'' then parse_digits cs else parse_digits (c # cs))"

definition parse_i32 :: "string \<Rightarrow> int option" where
  "parse_i32 s = (case parse_signed s of
     Some n \<Rightarrow> if - (2 ^ 31) \<le> n \<and> n < 2 ^ 31 then Some n else None | None \<Rightarrow> None)"

text \<open>Facts about the string functions that the components share.\<close>

lemma lower_char_idem [simp]: "lower_char (lower_char c) = lower_char c"
  by (simp add: lower_char_def Let_def)

lemma to_lowercase_idem [simp]: "to_lowercase (to_lowercase s) = to_lowercase s"
  by (simp add: to_lowercase_def)

lemma to_lowercase_Nil [simp]: "to_lowercase [] = []" "to_lowercase s = [] \<longleftrightarrow> s = []"
  by (simp_all add: to_lowercase_def)

lemma strip_prefix_Some: "strip_prefix p s = Some r \<longleftrightarrow> s = p @ r"
  by (induction p s rule: strip_prefix.induct) auto

lemma strip_prefix_append [simp]: "strip_prefix p (p @ r) = Some r"
  by (simp add: strip_prefix_Some)

lemma starts_with_iff: "starts_with p s \<longleftrightarrow> (\<exists>r. s = p @ r)"
  by (auto simp: starts_with_def strip_prefix_Some)

lemma split_on_nonempty [simp]: "split_on d s \<noteq> []"
  by (induction s) (auto split: list.splits)

lemma join_split [simp]: "join_with d (split_on d s) = s"
proof (induction s)
  case Nil
  then show ?case by simp
next
  case (Cons c cs)
  obtain p ps where "split_on d cs = p # ps"
    by (cases "split_on d cs") auto
  with Cons show ?case
    by (cases ps) auto
qed

lemma split_on_no_sep: "p \<in> set (split_on d s) \<Longrightarrow> d \<notin> set p"
  by (induction s arbitrary: p) (auto split: list.splits if_splits)

lemma split_on_single: "d \<notin> set s \<Longrightarrow> split_on d s = [s]"
  by (induction s) auto

lemma split_on_append:
  "d \<notin> set p \<Longrightarrow> split_on d (p @ d # s) = p # split_on d s"
  by (induction p) auto

lemma split_join:
  assumes "ps \<noteq> []" "\<forall>p\<in>set ps. d \<notin> set p"
  shows "split_on d (join_with d ps) = ps"
  using assms
  by (induction d ps rule: join_with.induct) (auto simp: split_on_single split_on_append)

lemma find_map_Some: "find_map f xs = Some y \<Longrightarrow> \<exists>x\<in>set xs. f x = Some y"
  by (induction xs) (auto split: option.splits)

lemma find_map_None: "find_map f xs = None \<longleftrightarrow> (\<forall>x\<in>set xs. f x = None)"
  by (induction xs) (auto split: option.splits)

lemma find_SomeD: "find P xs = Some x \<Longrightarrow> x \<in> set xs \<and> P x"
  by (auto simp: find_Some_iff)

lemma find_Some_ex: "x \<in> set xs \<Longrightarrow> P x \<Longrightarrow> \<exists>y. find P xs = Some y"
  by (metis find_None_iff not_None_eq)

section \<open>SQL conditions\<close>

text \<open>None is NULL (unknown); a WHERE clause selects the rows where the condition holds.\<close>

type_synonym tri = "bool option"

definition holds :: "tri \<Rightarrow> bool" where
  "holds t = (t = Some True)"

fun tand :: "tri \<Rightarrow> tri \<Rightarrow> tri" where
  "tand (Some False) b = Some False"
| "tand (Some True) b = b"
| "tand None (Some False) = Some False"
| "tand None b = None"

fun tor :: "tri \<Rightarrow> tri \<Rightarrow> tri" where
  "tor (Some True) b = Some True"
| "tor (Some False) b = b"
| "tor None (Some True) = Some True"
| "tor None b = None"

fun tnot :: "tri \<Rightarrow> tri" where
  "tnot None = None"
| "tnot (Some b) = Some (\<not> b)"

fun tcmp :: "('a \<Rightarrow> 'b \<Rightarrow> bool) \<Rightarrow> 'a option \<Rightarrow> 'b option \<Rightarrow> tri" where
  "tcmp f (Some a) (Some b) = Some (f a b)"
| "tcmp f _ _ = None"

abbreviation teq :: "'a option \<Rightarrow> 'a option \<Rightarrow> tri" where
  "teq \<equiv> tcmp (=)"

abbreviation tne :: "'a option \<Rightarrow> 'a option \<Rightarrow> tri" where
  "tne \<equiv> tcmp (\<noteq>)"

abbreviation tbool :: "bool \<Rightarrow> tri" where
  "tbool b \<equiv> Some b"

lemma holds_tand [simp, sql_simps]: "holds (tand a b) \<longleftrightarrow> holds a \<and> holds b"
  by (cases "(a, b)" rule: tand.cases) (auto simp: holds_def)

lemma holds_tor [simp, sql_simps]: "holds (tor a b) \<longleftrightarrow> holds a \<or> holds b"
  by (cases "(a, b)" rule: tor.cases) (auto simp: holds_def)

lemma holds_tbool [simp, sql_simps]: "holds (tbool b) \<longleftrightarrow> b"
  by (simp add: holds_def)

lemma holds_tcmp [simp, sql_simps]: "holds (tcmp f x y) \<longleftrightarrow> (\<exists>a b. x = Some a \<and> y = Some b \<and> f a b)"
  by (cases x; cases y) (auto simp: holds_def)

lemma holds_tnot [simp, sql_simps]: "holds (tnot t) \<longleftrightarrow> t = Some False"
  by (cases t) (auto simp: holds_def)

lemma holds_None [simp]: "\<not> holds None"
  by (simp add: holds_def)

fun coalesce :: "'a option \<Rightarrow> 'a option \<Rightarrow> 'a option" where
  "coalesce (Some a) b = Some a"
| "coalesce None b = b"

lemma coalesce_Some_iff: "coalesce a b = Some v \<longleftrightarrow> a = Some v \<or> (a = None \<and> b = Some v)"
  by (cases a) auto

lemma coalesce_None_iff [simp]: "coalesce a b = None \<longleftrightarrow> a = None \<and> b = None"
  by (cases a) auto

end
