(* ===== verification/Tables.thy ===== *)
theory Tables
  imports Prelude
begin

text \<open>
  Postgres statements on a table held as a list of rows. A SELECT is a filter, an UPDATE maps the
  rows whose condition holds and returns the updated rows (RETURNING), an INSERT appends, a
  DELETE filters. The locale fenced_update is the contract of a single-statement compare-and-set
  on one row, the shape of every task transition: the condition pins the primary key, and the
  SET list leaves the key alone. Its lemmas say that such a statement either rejects and leaves
  the table as it was, or changes exactly the one row with that key.
\<close>

type_synonym 'r table = "'r list"

definition select_where :: "('r \<Rightarrow> tri) \<Rightarrow> 'r table \<Rightarrow> 'r list" where
  "select_where c t = filter (\<lambda>r. holds (c r)) t"

definition fetch_optional :: "('r \<Rightarrow> tri) \<Rightarrow> 'r table \<Rightarrow> 'r option" where
  "fetch_optional c t = find (\<lambda>r. holds (c r)) t"

definition exists_where :: "('r \<Rightarrow> tri) \<Rightarrow> 'r table \<Rightarrow> bool" where
  "exists_where c t = list_ex (\<lambda>r. holds (c r)) t"

definition update_where :: "('r \<Rightarrow> tri) \<Rightarrow> ('r \<Rightarrow> 'r) \<Rightarrow> 'r table \<Rightarrow> 'r table" where
  "update_where c f t = map (\<lambda>r. if holds (c r) then f r else r) t"

definition returning :: "('r \<Rightarrow> tri) \<Rightarrow> ('r \<Rightarrow> 'r) \<Rightarrow> 'r table \<Rightarrow> 'r list" where
  "returning c f t = map f (select_where c t)"

definition update_returning ::
  "('r \<Rightarrow> tri) \<Rightarrow> ('r \<Rightarrow> 'r) \<Rightarrow> 'r table \<Rightarrow> 'r table \<times> 'r option" where
  "update_returning c f t =
     (update_where c f t, case returning c f t of [] \<Rightarrow> None | r # _ \<Rightarrow> Some r)"

definition delete_where :: "('r \<Rightarrow> tri) \<Rightarrow> 'r table \<Rightarrow> 'r table" where
  "delete_where c t = filter (\<lambda>r. \<not> holds (c r)) t"

definition insert_row :: "'r \<Rightarrow> 'r table \<Rightarrow> 'r table" where
  "insert_row r t = t @ [r]"

definition by_key :: "('r \<Rightarrow> 'k) \<Rightarrow> 'k \<Rightarrow> 'r \<Rightarrow> tri" where
  "by_key key k r = tbool (key r = k)"

definition lookup :: "('r \<Rightarrow> 'k) \<Rightarrow> 'k \<Rightarrow> 'r table \<Rightarrow> 'r option" where
  "lookup key k t = fetch_optional (by_key key k) t"

definition unique_key :: "('r \<Rightarrow> 'k) \<Rightarrow> 'r table \<Rightarrow> bool" where
  "unique_key key t = distinct (map key t)"

lemma holds_by_key [simp, sql_simps]: "holds (by_key key k r) \<longleftrightarrow> key r = k"
  by (simp add: by_key_def)

lemma lookup_Some_in: "lookup key k t = Some r \<Longrightarrow> r \<in> set t \<and> key r = k"
  by (auto simp: lookup_def fetch_optional_def find_Some_iff)

lemma lookup_None: "lookup key k t = None \<longleftrightarrow> k \<notin> key ` set t"
  by (auto simp: lookup_def fetch_optional_def find_None_iff)

lemma lookup_Nil [simp]: "lookup key k [] = None"
  by (simp add: lookup_def fetch_optional_def)

lemma lookup_Cons: "lookup key k (r # t) = (if key r = k then Some r else lookup key k t)"
  by (simp add: lookup_def fetch_optional_def)

lemma lookup_in_unique:
  "unique_key key t \<Longrightarrow> r \<in> set t \<Longrightarrow> lookup key (key r) t = Some r"
  by (induction t) (auto simp: lookup_Cons unique_key_def)

lemma lookup_append:
  "lookup key k (t @ u) = (case lookup key k t of Some r \<Rightarrow> Some r | None \<Rightarrow> lookup key k u)"
  by (induction t) (auto simp: lookup_Cons)

lemma lookup_insert_row:
  "lookup key k (insert_row r t) =
     (case lookup key k t of Some q \<Rightarrow> Some q | None \<Rightarrow> if key r = k then Some r else None)"
  by (auto simp: insert_row_def lookup_append lookup_Cons split: option.splits)

lemma unique_insert_row:
  "unique_key key t \<Longrightarrow> lookup key (key r) t = None \<Longrightarrow> unique_key key (insert_row r t)"
  by (auto simp: unique_key_def insert_row_def lookup_None)

lemma map_key_update:
  assumes "\<And>r. key (f r) = key r"
  shows "map key (update_where c f t) = map key t"
  using assms by (auto simp: update_where_def)

lemma unique_update_where:
  assumes "\<And>r. key (f r) = key r" "unique_key key t"
  shows "unique_key key (update_where c f t)"
  using assms by (simp add: unique_key_def map_key_update)

lemma lookup_update_where:
  assumes "\<And>r. key (f r) = key r"
  shows "lookup key k (update_where c f t) =
           map_option (\<lambda>r. if holds (c r) then f r else r) (lookup key k t)"
  using assms by (induction t) (auto simp: lookup_Cons update_where_def)

lemma in_update_where:
  "r \<in> set (update_where c f t) \<longleftrightarrow>
     (\<exists>q\<in>set t. r = (if holds (c q) then f q else q))"
  by (auto simp: update_where_def)

lemma update_where_none:
  "(\<And>r. r \<in> set t \<Longrightarrow> \<not> holds (c r)) \<Longrightarrow> update_where c f t = t"
  by (auto simp: update_where_def intro: map_idI)

lemma length_update_where [simp]: "length (update_where c f t) = length t"
  by (simp add: update_where_def)

lemma unique_delete_where: "unique_key key t \<Longrightarrow> unique_key key (delete_where c t)"
  by (auto simp: unique_key_def delete_where_def distinct_map_filter)

lemma fst_update_returning: "fst (update_returning c f t) = update_where c f t"
  by (simp add: update_returning_def)

lemma snd_update_returning:
  "snd (update_returning c f t) = map_option f (find (\<lambda>r. holds (c r)) t)"
  by (induction t) (auto simp: update_returning_def returning_def select_where_def)

lemma update_returning_find:
  "update_returning c f t = (update_where c f t, map_option f (find (\<lambda>r. holds (c r)) t))"
  using fst_update_returning [of c f t] snd_update_returning [of c f t] by (cases "update_returning c f t") simp

lemma find_fence:
  assumes "unique_key key t" "\<And>r. holds (c r) \<Longrightarrow> key r = k"
  shows "find (\<lambda>r. holds (c r)) t =
           (case lookup key k t of None \<Rightarrow> None | Some r \<Rightarrow> if holds (c r) then Some r else None)"
  using assms(1)
proof (induction t)
  case (Cons a t)
  have "find (\<lambda>r. holds (c r)) t = None" if "key a = k"
    using Cons.prems that assms(2) unfolding unique_key_def find_None_iff
    by (metis distinct.simps(2) image_eqI list.set_map list.simps(9))
  then show ?case
    using Cons assms(2) by (auto simp: lookup_Cons unique_key_def)
qed simp

text \<open>The single-row compare-and-set contract.\<close>

locale fenced_update =
  fixes key :: "'r \<Rightarrow> 'k" and fence :: "'k \<Rightarrow> 'r \<Rightarrow> tri" and upd :: "'r \<Rightarrow> 'r"
  assumes fence_key: "holds (fence k r) \<Longrightarrow> key r = k"
    and upd_key: "key (upd r) = key r"
begin

lemma cas_result:
  assumes "unique_key key t"
  shows "snd (update_returning (fence k) upd t) =
           (case lookup key k t of None \<Rightarrow> None
            | Some r \<Rightarrow> if holds (fence k r) then Some (upd r) else None)"
  using find_fence [of key t "fence k" k] assms fence_key
  by (auto simp: snd_update_returning split: option.splits)

lemma cas_accept:
  assumes "unique_key key t" "lookup key k t = Some r" "holds (fence k r)"
  shows "snd (update_returning (fence k) upd t) = Some (upd r)"
  using assms by (simp add: cas_result)

lemma cas_accepted:
  assumes "snd (update_returning (fence k) upd t) = Some r'" "unique_key key t"
  shows "\<exists>r. lookup key k t = Some r \<and> holds (fence k r) \<and> r' = upd r"
  using assms by (auto simp: cas_result split: option.splits if_splits)

lemma cas_reject:
  assumes "snd (update_returning (fence k) upd t) = None"
  shows "fst (update_returning (fence k) upd t) = t"
  using assms by (auto simp: snd_update_returning find_None_iff fst_update_returning
      intro!: update_where_none)

lemma cas_hit:
  assumes "unique_key key t" "lookup key k t = Some r" "holds (fence k r)"
  shows "update_returning (fence k) upd t = (update_where (by_key key k) upd t, Some (upd r))"
proof -
  have "holds (fence k q) \<longleftrightarrow> key q = k" if "q \<in> set t" for q
    using assms that lookup_in_unique [OF assms(1) that] fence_key [of k q] by auto
  then have "update_where (fence k) upd t = update_where (by_key key k) upd t"
    by (auto simp: update_where_def)
  then show ?thesis
    using cas_accept [OF assms] by (simp add: update_returning_find)
qed

lemma cas_lookup:
  "lookup key j (fst (update_returning (fence k) upd t)) =
     map_option (\<lambda>r. if holds (fence k r) then upd r else r) (lookup key j t)"
  by (simp add: update_returning_def lookup_update_where upd_key)

lemma cas_other_rows:
  assumes "j \<noteq> k"
  shows "lookup key j (fst (update_returning (fence k) upd t)) = lookup key j t"
proof (cases "lookup key j t")
  case (Some r)
  then have "key r = j" by (auto dest: lookup_Some_in)
  then have "\<not> holds (fence k r)" using assms fence_key [of k r] by auto
  then show ?thesis using Some by (simp add: cas_lookup)
qed (simp add: cas_lookup)

lemma cas_unique:
  "unique_key key t \<Longrightarrow> unique_key key (fst (update_returning (fence k) upd t))"
  by (simp add: update_returning_def unique_update_where upd_key)

lemma cas_rows:
  "r \<in> set (fst (update_returning (fence k) upd t)) \<Longrightarrow>
     (r \<in> set t \<and> \<not> holds (fence k r)) \<or> (\<exists>q\<in>set t. holds (fence k q) \<and> r = upd q)"
  by (auto simp: update_returning_def in_update_where split: if_splits)

lemma cas_invariant:
  assumes "\<And>r. r \<in> set t \<Longrightarrow> I r" "\<And>r. holds (fence k r) \<Longrightarrow> I r \<Longrightarrow> I (upd r)"
    "r \<in> set (fst (update_returning (fence k) upd t))"
  shows "I r"
  using cas_rows [OF assms(3)] assms(1,2) by auto

end

end
