(* ===== verification/Tower_Data.thy ===== *)
theory Tower_Data
  imports Tables
begin

text \<open>
  The state the control plane (edgeplane-tower) keeps in Postgres, as far as the task handlers
  use it: domains, missions, tasks, review gates, progress events and agents, one record per row
  type with the column types of the row readers (a nullable column is an option). Columns that
  hold JSON text written by the program (depends_on, required_capabilities) hold the value the
  text encodes. The database record also carries db_up: whether the database answers; a handler
  that meets a database error takes its error branch. Responses the handlers reject with are a
  status code and a detail text.
\<close>

section \<open>Rejections\<close>

record deny =
  status_code :: nat
  detail :: str

type_synonym 'a res = "deny + 'a"

definition deny :: "nat \<Rightarrow> str \<Rightarrow> deny" where
  "deny code msg = \<lparr>status_code = code, detail = msg\<rparr>"

definition internal_error :: deny where
  "internal_error = deny 500 []"

definition not_found :: "str \<Rightarrow> deny" where
  "not_found msg = deny 404 msg"

definition conflict :: "str \<Rightarrow> deny" where
  "conflict msg = deny 409 msg"

definition bad_request :: "str \<Rightarrow> deny" where
  "bad_request msg = deny 400 msg"

definition and_then :: "'e + 'a \<Rightarrow> ('a \<Rightarrow> 'e + 'b) \<Rightarrow> 'e + 'b" where
  "and_then x f = (case x of Inl e \<Rightarrow> Inl e | Inr a \<Rightarrow> f a)"

lemma and_then_Inr [simp]: "and_then x f = Inr b \<longleftrightarrow> (\<exists>a. x = Inr a \<and> f a = Inr b)"
  by (auto simp: and_then_def split: sum.splits)

lemma and_then_simps [simp]: "and_then (Inl e) f = Inl e" "and_then (Inr a) f = f a"
  by (simp_all add: and_then_def)

section \<open>JSON values\<close>

datatype json = JNull | JBool bool | JNum int | JStr str | JList "json list" | JObj "(str \<times> json) list"

definition jopt :: "('a \<Rightarrow> json) \<Rightarrow> 'a option \<Rightarrow> json" where
  "jopt f x = (case x of None \<Rightarrow> JNull | Some v \<Rightarrow> f v)"

fun jget :: "str \<Rightarrow> json \<Rightarrow> json option" where
  "jget k (JObj fs) = map_of fs k"
| "jget k _ = None"

fun jset :: "str \<Rightarrow> json \<Rightarrow> json \<Rightarrow> json" where
  "jset k v (JObj fs) = JObj ((k, v) # filter (\<lambda>f. fst f \<noteq> k) fs)"
| "jset k v j = j"

fun jstr :: "json \<Rightarrow> str option" where
  "jstr (JStr s) = Some s"
| "jstr _ = None"

definition jfield_str :: "str \<Rightarrow> json \<Rightarrow> str option" where
  "jfield_str k j = (case jget k j of Some v \<Rightarrow> jstr v | None \<Rightarrow> None)"

section \<open>Rows\<close>

record domain_row =
  d_id :: str
  d_name :: str
  d_owners :: str
  d_contributors :: str
  d_visibility :: "str option"
  d_kind :: str
  d_description :: str
  d_tags :: str
  d_status :: str
  d_northstar_md :: str
  d_northstar_version :: int
  d_northstar_created_by :: str
  d_northstar_modified_by :: str
  d_northstar_created_at :: "time option"
  d_northstar_modified_at :: "time option"
  d_northstar_s3_path :: "str option"
  d_created_at :: time
  d_updated_at :: time

record mission_row =
  m_id :: str
  m_name :: str
  m_domain_id :: "str option"
  m_description :: str
  m_owners :: str
  m_contributors :: str
  m_tags :: str
  m_status :: str
  m_workstream_md :: str
  m_workstream_version :: int
  m_workstream_created_by :: str
  m_workstream_modified_by :: str
  m_workstream_created_at :: "time option"
  m_workstream_modified_at :: "time option"
  m_brief_md :: str
  m_brief_version :: int
  m_brief_created_by :: str
  m_brief_modified_by :: str
  m_brief_created_at :: "time option"
  m_brief_modified_at :: "time option"
  m_brief_s3_path :: "str option"
  m_created_at :: time
  m_updated_at :: time

datatype task_kind = Assigned | Claimable

record task_row =
  t_id :: str
  t_public_id :: str
  t_mission_id :: str
  t_domain_id :: str
  t_parent_task_id :: "str option"
  t_kind :: task_kind
  t_title :: str
  t_description :: str
  t_input_json :: str
  t_claim_policy :: "str option"
  t_depends_on :: "str list"
  t_produces :: json
  t_consumes :: json
  t_required_capabilities :: "str list"
  t_status :: str
  t_owner :: "str option"
  t_contributors :: "str option"
  t_done_criteria :: "str option"
  t_dependencies_note :: "str option"
  t_related_artifacts_note :: "str option"
  t_claimed_by :: "str option"
  t_result_artifact_id :: "int option"
  t_priority :: int
  t_lease_expires_at :: "time option"
  t_claim_lease_id :: "str option"
  t_version_counter :: int
  t_attempt :: int
  t_max_attempts :: int
  t_finalized_at :: "time option"
  t_finalized_by :: "str option"
  t_created_by_subject :: str
  t_created_at :: time
  t_updated_at :: time

record gate_row =
  g_id :: str
  g_owner_subject :: str
  g_mesh_task_id :: str
  g_run_id :: "str option"
  g_gate_type :: str
  g_required_approvals :: str
  g_status :: str
  g_approval_request_id :: "str option"
  g_ai_pending_action_id :: "str option"
  g_policy_rule_id :: "str option"
  g_created_at :: time
  g_resolved_at :: "time option"

record progress_row =
  p_id :: int
  p_task_id :: str
  p_agent_id :: str
  p_seq :: int
  p_event_type :: str
  p_phase :: "str option"
  p_step :: "str option"
  p_summary :: str
  p_payload_json :: str
  p_occurred_at :: time
  p_agent_run_id :: "str option"

record mesh_agent_row =
  a_id :: str
  a_domain_id :: str
  a_node_id :: "str option"
  a_runtime_kind :: str
  a_runtime_version :: str
  a_capabilities :: "str list"
  a_labels :: json
  a_status :: str
  a_current_task_id :: "str option"
  a_enrolled_by_subject :: str
  a_enrolled_at :: time
  a_last_heartbeat_at :: "time option"
  a_runtime_node_id :: "str option"
  a_profile :: "json option"
  a_machine :: "json option"
  a_runtime :: "json option"
  a_supervision_mode :: "str option"
  a_agent_public_id :: "str option"

record control_agent_row =
  ca_id :: int
  ca_name :: str
  ca_capabilities :: str
  ca_status :: str
  ca_metadata :: str
  ca_created_at :: time
  ca_updated_at :: time
  ca_archived_at :: "time option"
  ca_last_seen_at :: "time option"
  ca_public_id :: str
  ca_home_domain_id :: "str option"
  ca_current_domain_id :: "str option"

record overlap_row =
  o_id :: int
  o_task_id :: str
  o_candidate_task_id :: str

record agent_message_row =
  am_id :: int
  am_from_agent_id :: int
  am_to_agent_id :: int
  am_content :: str
  am_message_type :: str
  am_task_id :: "str option"
  am_read :: bool
  am_created_at :: time

record db =
  db_up :: bool
  domains :: "domain_row table"
  missions :: "mission_row table"
  tasks :: "task_row table"
  gates :: "gate_row table"
  progress :: "progress_row table"
  mesh_agents :: "mesh_agent_row table"
  control_agents :: "control_agent_row table"
  overlaps :: "overlap_row table"
  agent_messages :: "agent_message_row table"
  notices :: "(str \<times> str \<times> str) list"

text \<open>The task-available broadcasts sent so far, as (domain, mission, task).\<close>

definition broadcast_task_available :: "str \<Rightarrow> str \<Rightarrow> str \<Rightarrow> db \<Rightarrow> db" where
  "broadcast_task_available domain_id mission_id task_id d =
     d\<lparr>notices := notices d @ [(domain_id, mission_id, task_id)]\<rparr>"

definition broadcast_all :: "str \<Rightarrow> str \<Rightarrow> str list \<Rightarrow> db \<Rightarrow> db" where
  "broadcast_all domain_id mission_id ids d =
     fold (broadcast_task_available domain_id mission_id) ids d"

section \<open>JSON views of rows\<close>

definition row_to_task :: "task_row \<Rightarrow> json" where
  "row_to_task r = JObj
     [(''id'', JStr (t_id r)),
      (''mission_id'', JStr (t_mission_id r)),
      (''domain_id'', JStr (t_domain_id r)),
      (''parent_task_id'', jopt JStr (t_parent_task_id r)),
      (''kind'', JStr (case t_kind r of Assigned \<Rightarrow> ''assigned'' | Claimable \<Rightarrow> ''claimable'')),
      (''title'', JStr (t_title r)),
      (''description'', JStr (t_description r)),
      (''claim_policy'', jopt JStr (t_claim_policy r)),
      (''depends_on'', JList (map JStr (t_depends_on r))),
      (''produces'', t_produces r),
      (''consumes'', t_consumes r),
      (''required_capabilities'', JList (map JStr (t_required_capabilities r))),
      (''status'', JStr (t_status r)),
      (''claimed_by_agent_id'', jopt JStr (t_claimed_by r)),
      (''result_artifact_id'', jopt JNum (t_result_artifact_id r)),
      (''priority'', JNum (t_priority r)),
      (''lease_expires_at'', jopt JNum (t_lease_expires_at r)),
      (''attempt'', JNum (t_attempt r)),
      (''max_attempts'', JNum (t_max_attempts r)),
      (''finalized_at'', jopt JNum (t_finalized_at r)),
      (''finalized_by_subject'', jopt JStr (t_finalized_by r)),
      (''created_by_subject'', JStr (t_created_by_subject r)),
      (''created_at'', JNum (t_created_at r)),
      (''updated_at'', JNum (t_updated_at r))]"

definition row_to_gate :: "gate_row \<Rightarrow> json" where
  "row_to_gate g = JObj
     [(''id'', JStr (g_id g)),
      (''owner_subject'', JStr (g_owner_subject g)),
      (''mesh_task_id'', JStr (g_mesh_task_id g)),
      (''run_id'', jopt JStr (g_run_id g)),
      (''gate_type'', JStr (g_gate_type g)),
      (''required_approvals'', JStr (g_required_approvals g)),
      (''status'', JStr (g_status g)),
      (''approval_request_id'', jopt JStr (g_approval_request_id g)),
      (''ai_pending_action_id'', jopt JStr (g_ai_pending_action_id g)),
      (''policy_rule_id'', jopt JStr (g_policy_rule_id g)),
      (''created_at'', JNum (g_created_at g)),
      (''resolved_at'', jopt JNum (g_resolved_at g))]"

definition row_to_progress :: "(str \<Rightarrow> json option) \<Rightarrow> progress_row \<Rightarrow> json" where
  "row_to_progress parse_json e = JObj
     [(''id'', JNum (p_id e)),
      (''task_id'', JStr (p_task_id e)),
      (''agent_id'', JStr (p_agent_id e)),
      (''seq'', JNum (p_seq e)),
      (''event_type'', JStr (p_event_type e)),
      (''phase'', jopt JStr (p_phase e)),
      (''step'', jopt JStr (p_step e)),
      (''summary'', JStr (p_summary e)),
      (''payload_json'', case parse_json (p_payload_json e) of Some j \<Rightarrow> j | None \<Rightarrow> JObj []),
      (''occurred_at'', JNum (p_occurred_at e)),
      (''agent_run_id'', jopt JStr (p_agent_run_id e))]"

section \<open>Status vocabulary and well-formed databases\<close>

definition live_statuses :: "str list" where
  "live_statuses = [''claimed'', ''running'']"

definition held_statuses :: "str list" where
  "held_statuses = [''claimed'', ''running'', ''waiting_review'']"

definition terminal_statuses :: "str list" where
  "terminal_statuses = [''done'', ''finished'', ''failed'', ''cancelled'']"

definition status_in :: "str list \<Rightarrow> task_row \<Rightarrow> tri" where
  "status_in ss r = tbool (t_status r \<in> set ss)"

lemma holds_status_in [simp, sql_simps]: "holds (status_in ss r) \<longleftrightarrow> t_status r \<in> set ss"
  by (simp add: status_in_def)

lemma status_in_Some [simp]: "status_in ss r = Some b \<longleftrightarrow> (t_status r \<in> set ss) = b"
  by (auto simp: status_in_def)

definition task_of :: "db \<Rightarrow> str \<Rightarrow> task_row option" where
  "task_of d tid = lookup t_id tid (tasks d)"

definition gate_of :: "db \<Rightarrow> str \<Rightarrow> gate_row option" where
  "gate_of d gid = lookup g_id gid (gates d)"

text \<open>The primary keys Postgres enforces.\<close>

definition keys_ok :: "db \<Rightarrow> bool" where
  "keys_ok d = (unique_key d_id (domains d) \<and> unique_key m_id (missions d) \<and>
     unique_key t_id (tasks d) \<and> unique_key g_id (gates d))"

lemma keys_okD:
  assumes "keys_ok d"
  shows "unique_key t_id (tasks d)" "unique_key g_id (gates d)"
    "unique_key d_id (domains d)" "unique_key m_id (missions d)"
  using assms by (simp_all add: keys_ok_def)

lemma keys_ok_tasks:
  "keys_ok d \<Longrightarrow> unique_key t_id ts \<Longrightarrow> keys_ok (d\<lparr>tasks := ts\<rparr>)"
  by (simp add: keys_ok_def)

lemma task_of_id: "task_of d tid = Some r \<Longrightarrow> t_id r = tid"
  by (auto simp: task_of_def dest: lookup_Some_in)

lemma task_of_in: "task_of d tid = Some r \<Longrightarrow> r \<in> set (tasks d)"
  by (auto simp: task_of_def dest: lookup_Some_in)

text \<open>Writing one task row.\<close>

definition set_row :: "db \<Rightarrow> str \<Rightarrow> (task_row \<Rightarrow> task_row) \<Rightarrow> db" where
  "set_row d tid f = d\<lparr>tasks := update_where (by_key t_id tid) f (tasks d)\<rparr>"

lemma set_row_simps [simp]:
  "gates (set_row d tid f) = gates d" "progress (set_row d tid f) = progress d"
  "domains (set_row d tid f) = domains d" "missions (set_row d tid f) = missions d"
  "db_up (set_row d tid f) = db_up d" "notices (set_row d tid f) = notices d"
  "mesh_agents (set_row d tid f) = mesh_agents d" "control_agents (set_row d tid f) = control_agents d"
  by (simp_all add: set_row_def)

lemma task_of_set_row:
  assumes "\<And>r. t_id (f r) = t_id r"
  shows "task_of (set_row d tid f) x = (if x = tid then map_option f (task_of d x) else task_of d x)"
proof (cases "task_of d x")
  case (Some r)
  then have "t_id r = x" by (rule task_of_id)
  then show ?thesis
    using Some assms by (auto simp: set_row_def task_of_def lookup_update_where)
qed (use assms in \<open>auto simp: set_row_def task_of_def lookup_update_where\<close>)

lemma keys_ok_set_row: "(\<And>r. t_id (f r) = t_id r) \<Longrightarrow> keys_ok d \<Longrightarrow> keys_ok (set_row d tid f)"
  unfolding set_row_def by (intro keys_ok_tasks unique_update_where) (auto dest: keys_okD)

lemma broadcast_all_simps [simp]:
  "tasks (broadcast_all dm m ids d) = tasks d" "gates (broadcast_all dm m ids d) = gates d"
  "progress (broadcast_all dm m ids d) = progress d" "db_up (broadcast_all dm m ids d) = db_up d"
  "domains (broadcast_all dm m ids d) = domains d" "missions (broadcast_all dm m ids d) = missions d"
  "mesh_agents (broadcast_all dm m ids d) = mesh_agents d"
  "control_agents (broadcast_all dm m ids d) = control_agents d"
  "notices (broadcast_all dm m ids d) = notices d @ map (\<lambda>i. (dm, m, i)) ids"
  by (induction ids arbitrary: d) (simp_all add: broadcast_all_def broadcast_task_available_def)

lemma task_of_broadcast [simp]: "task_of (broadcast_all dm m ids d) x = task_of d x"
  by (simp add: task_of_def)

lemma keys_ok_broadcast [simp]: "keys_ok (broadcast_all dm m ids d) = keys_ok d"
  by (simp add: keys_ok_def)

instantiation task_kind :: linorder
begin

fun kind_rank :: "task_kind \<Rightarrow> nat" where
  "kind_rank Assigned = 0"
| "kind_rank Claimable = 1"

definition less_eq_task_kind :: "task_kind \<Rightarrow> task_kind \<Rightarrow> bool" where
  "less_eq_task_kind a b = (kind_rank a \<le> kind_rank b)"

definition less_task_kind :: "task_kind \<Rightarrow> task_kind \<Rightarrow> bool" where
  "less_task_kind a b = (kind_rank a < kind_rank b)"

instance
proof
  fix x y :: task_kind
  assume "x \<le> y" "y \<le> x"
  then show "x = y" by (cases x; cases y) (auto simp: less_eq_task_kind_def)
qed (auto simp: less_eq_task_kind_def less_task_kind_def)

end

section \<open>Sample rows\<close>

definition sample_task :: "str \<Rightarrow> task_row" where
  "sample_task i = \<lparr>t_id = i, t_public_id = ''task-'' @ i, t_mission_id = ''m1'', t_domain_id = ''d1'',
     t_parent_task_id = None, t_kind = Claimable, t_title = ''work'', t_description = [],
     t_input_json = ''{}'', t_claim_policy = Some ''first_claim'', t_depends_on = [],
     t_produces = JNull, t_consumes = JNull, t_required_capabilities = [], t_status = ''ready'',
     t_owner = None, t_contributors = None, t_done_criteria = None, t_dependencies_note = None,
     t_related_artifacts_note = None, t_claimed_by = None, t_result_artifact_id = None,
     t_priority = 0, t_lease_expires_at = None, t_claim_lease_id = None, t_version_counter = 0,
     t_attempt = 0, t_max_attempts = 3, t_finalized_at = None, t_finalized_by = None,
     t_created_by_subject = ''alice'', t_created_at = 0, t_updated_at = 0\<rparr>"

definition sample_claimed :: "str \<Rightarrow> task_row" where
  "sample_claimed i = (sample_task i)\<lparr>t_status := ''claimed'', t_claimed_by := Some ''w7'',
     t_claim_lease_id := Some ''lease-1'', t_lease_expires_at := Some (secs 120)\<rparr>"

definition sample_gate :: "str \<Rightarrow> str \<Rightarrow> gate_row" where
  "sample_gate i st = \<lparr>g_id = i, g_owner_subject = ''alice'', g_mesh_task_id = ''t1'', g_run_id = None,
     g_gate_type = ''review'', g_required_approvals = ''human'', g_status = st,
     g_approval_request_id = None, g_ai_pending_action_id = None, g_policy_rule_id = None,
     g_created_at = 0, g_resolved_at = None\<rparr>"

text \<open>A domain and a mission as the sample states hold them.\<close>

definition sample_domain :: "str \<Rightarrow> str \<Rightarrow> str \<Rightarrow> str \<Rightarrow> str option \<Rightarrow> domain_row" where
  "sample_domain i name owners contributors visibility =
     \<lparr>d_id = i, d_name = name, d_owners = owners, d_contributors = contributors, d_visibility = visibility,
      d_kind = ''work'', d_description = [], d_tags = [], d_status = ''active'', d_northstar_md = [],
      d_northstar_version = 1, d_northstar_created_by = [], d_northstar_modified_by = [],
      d_northstar_created_at = None, d_northstar_modified_at = None, d_northstar_s3_path = None,
      d_created_at = 0, d_updated_at = 0\<rparr>"

definition sample_mission :: "str \<Rightarrow> str \<Rightarrow> str option \<Rightarrow> mission_row" where
  "sample_mission i name domain_id =
     \<lparr>m_id = i, m_name = name, m_domain_id = domain_id, m_description = [], m_owners = ''alice'',
      m_contributors = [], m_tags = [], m_status = ''active'', m_workstream_md = [], m_workstream_version = 1,
      m_workstream_created_by = [], m_workstream_modified_by = [], m_workstream_created_at = None,
      m_workstream_modified_at = None, m_brief_md = [], m_brief_version = 0, m_brief_created_by = [],
      m_brief_modified_by = [], m_brief_created_at = None, m_brief_modified_at = None, m_brief_s3_path = None,
      m_created_at = 0, m_updated_at = 0\<rparr>"

lemma sample_domain_simps [simp]:
  "d_id (sample_domain i n ow co vi) = i" "d_name (sample_domain i n ow co vi) = n"
  "d_owners (sample_domain i n ow co vi) = ow" "d_contributors (sample_domain i n ow co vi) = co"
  "d_visibility (sample_domain i n ow co vi) = vi" "d_kind (sample_domain i n ow co vi) = ''work''"
  by (simp_all add: sample_domain_def)

lemma sample_mission_simps [simp]:
  "m_id (sample_mission i n di) = i" "m_name (sample_mission i n di) = n" "m_domain_id (sample_mission i n di) = di"
  by (simp_all add: sample_mission_def)

definition sample_db :: "task_row list \<Rightarrow> gate_row list \<Rightarrow> db" where
  "sample_db ts gs = \<lparr>db_up = True,
     domains = [sample_domain ''d1'' ''one'' ''alice'' ''agent:w7,agent:w8'' (Some ''private'')],
     missions = [sample_mission ''m1'' ''one'' (Some ''d1'')],
     tasks = ts, gates = gs, progress = [], mesh_agents = [], control_agents = [],
     overlaps = [], agent_messages = [], notices = []\<rparr>"

end
