(* ===== verification/Tower_Auth.thy ===== *)
theory Tower_Auth
  imports Tower_Data "HOL-Library.Char_ord" "HOL-Library.List_Lexorder"
begin

text \<open>
  auth.rs and jwt.rs: who the caller is. The signature check of the JWT library (jwt_decode, with
  its expiry validation), the SHA-256 digest (digest) and the clocks are arguments; everything
  else is the code's: the claim shapes with their unknown-field rejection, the order bearer /
  cookie, JWT / service account / session, revocation and expiry lookups, the node scope cache,
  the public path list and the domain authorization predicates.
\<close>

section \<open>Principals and authorization predicates\<close>

record principal =
  subject :: str
  is_admin :: bool
  session_id :: "int option"
  auth_type :: str
  domain_scope :: "str list"

definition is_admin_email :: "str option \<Rightarrow> str set \<Rightarrow> bool" where
  "is_admin_email email admin_emails =
     (case email of Some e \<Rightarrow> to_lowercase e \<in> admin_emails | None \<Rightarrow> False)"

definition is_admin_groups :: "str list \<Rightarrow> str set \<Rightarrow> bool" where
  "is_admin_groups groups admin_groups = list_ex (\<lambda>g. g \<in> admin_groups) groups"

definition split_csv :: "str \<Rightarrow> str list" where
  "split_csv s = filter (\<lambda>x. x \<noteq> []) (map (\<lambda>x. to_lowercase (trim x)) (split_on CHR '','' s))"

definition authorized_for :: "str \<Rightarrow> str \<Rightarrow> str \<Rightarrow> principal \<Rightarrow> bool" where
  "authorized_for domain_id owners contributors p =
     (if is_admin p then True
      else if list_ex (\<lambda>d. d = domain_id) (domain_scope p) then True
      else let id = to_lowercase (subject p) in
        id \<in> set (split_csv owners) \<or> id \<in> set (split_csv contributors))"

definition authorized_for_domain :: "domain_row \<Rightarrow> principal \<Rightarrow> bool" where
  "authorized_for_domain d p = authorized_for (d_id d) (d_owners d) (d_contributors d) p"

definition authorized_for_owner :: "str \<Rightarrow> str \<Rightarrow> principal \<Rightarrow> bool" where
  "authorized_for_owner domain_id owners p =
     (if is_admin p then True
      else if list_ex (\<lambda>d. d = domain_id) (domain_scope p) then True
      else let id = to_lowercase (subject p) in id \<in> set (split_csv owners))"

definition is_full_trust :: "principal \<Rightarrow> bool" where
  "is_full_trust p = (auth_type p = ''session'' \<or> auth_type p = ''node'')"

section \<open>JSON web tokens\<close>

datatype claim = ClaimStr str | ClaimInt int

type_synonym payload = "(str \<times> claim) list"

record node_claims =
  nc_sub :: str
  nc_node_id :: str
  nc_jti :: str
  nc_iat :: int
  nc_exp :: int

record agent_claims =
  ac_sub :: str
  ac_agent_id :: str
  ac_domain_id :: str
  ac_jti :: str
  ac_iat :: int
  ac_exp :: int

fun claim_str :: "payload \<Rightarrow> str \<Rightarrow> str option" where
  "claim_str p k = (case map_of p k of Some (ClaimStr s) \<Rightarrow> Some s | _ \<Rightarrow> None)"

fun claim_int :: "payload \<Rightarrow> str \<Rightarrow> int option" where
  "claim_int p k = (case map_of p k of Some (ClaimInt n) \<Rightarrow> Some n | _ \<Rightarrow> None)"

text \<open>serde with deny_unknown_fields: every field present once, none besides.\<close>

definition only_fields :: "str list \<Rightarrow> payload \<Rightarrow> bool" where
  "only_fields ks p = (distinct (map fst p) \<and> list_all (\<lambda>k. k \<in> set ks) (map fst p))"

definition read_node_claims :: "payload \<Rightarrow> node_claims option" where
  "read_node_claims p =
     (if \<not> only_fields [''sub'', ''node_id'', ''jti'', ''iat'', ''exp''] p then None
      else do {
        s \<leftarrow> claim_str p ''sub'';
        n \<leftarrow> claim_str p ''node_id'';
        j \<leftarrow> claim_str p ''jti'';
        i \<leftarrow> claim_int p ''iat'';
        e \<leftarrow> claim_int p ''exp'';
        Some \<lparr>nc_sub = s, nc_node_id = n, nc_jti = j, nc_iat = i, nc_exp = e\<rparr>
      })"

definition read_agent_claims :: "payload \<Rightarrow> agent_claims option" where
  "read_agent_claims p =
     (if \<not> only_fields [''sub'', ''agent_id'', ''domain_id'', ''jti'', ''iat'', ''exp''] p then None
      else do {
        s \<leftarrow> claim_str p ''sub'';
        a \<leftarrow> claim_str p ''agent_id'';
        d \<leftarrow> claim_str p ''domain_id'';
        j \<leftarrow> claim_str p ''jti'';
        i \<leftarrow> claim_int p ''iat'';
        e \<leftarrow> claim_int p ''exp'';
        Some \<lparr>ac_sub = s, ac_agent_id = a, ac_domain_id = d, ac_jti = j, ac_iat = i, ac_exp = e\<rparr>
      })"

definition node_payload :: "node_claims \<Rightarrow> payload" where
  "node_payload c = [(''sub'', ClaimStr (nc_sub c)), (''node_id'', ClaimStr (nc_node_id c)),
     (''jti'', ClaimStr (nc_jti c)), (''iat'', ClaimInt (nc_iat c)), (''exp'', ClaimInt (nc_exp c))]"

definition agent_payload :: "agent_claims \<Rightarrow> payload" where
  "agent_payload c = [(''sub'', ClaimStr (ac_sub c)), (''agent_id'', ClaimStr (ac_agent_id c)),
     (''domain_id'', ClaimStr (ac_domain_id c)), (''jti'', ClaimStr (ac_jti c)),
     (''iat'', ClaimInt (ac_iat c)), (''exp'', ClaimInt (ac_exp c))]"

definition verify_node_jwt :: "(str \<Rightarrow> payload option) \<Rightarrow> str \<Rightarrow> node_claims option" where
  "verify_node_jwt jwt_decode token = jwt_decode token \<bind> read_node_claims"

definition verify_agent_jwt :: "(str \<Rightarrow> payload option) \<Rightarrow> str \<Rightarrow> agent_claims option" where
  "verify_agent_jwt jwt_decode token = jwt_decode token \<bind> read_agent_claims"

definition sign_node_jwt ::
  "(payload \<Rightarrow> str option) \<Rightarrow> int \<Rightarrow> str \<Rightarrow> str \<Rightarrow> int \<Rightarrow> (str \<times> str) option" where
  "sign_node_jwt jwt_encode now jti node_id ttl_days =
     map_option (\<lambda>token. (token, jti)) (jwt_encode (node_payload
       \<lparr>nc_sub = ''node:'' @ node_id, nc_node_id = node_id, nc_jti = jti,
        nc_iat = now, nc_exp = now + ttl_days * 86400\<rparr>))"

definition sign_agent_jwt ::
  "(payload \<Rightarrow> str option) \<Rightarrow> int \<Rightarrow> str \<Rightarrow> str \<Rightarrow> str \<Rightarrow> int \<Rightarrow> (str \<times> str) option" where
  "sign_agent_jwt jwt_encode now jti agent_id domain_id ttl_hours =
     map_option (\<lambda>token. (token, jti)) (jwt_encode (agent_payload
       \<lparr>ac_sub = ''agent:'' @ agent_id, ac_agent_id = agent_id, ac_domain_id = domain_id,
        ac_jti = jti, ac_iat = now, ac_exp = now + ttl_hours * 3600\<rparr>))"

section \<open>Credential tables and application state\<close>

record jwt_row =
  jr_jti :: str
  jr_subject_id :: str
  jr_revoked :: bool
  jr_expires_at :: time

record service_account_row =
  sa_id :: str
  sa_name :: str
  sa_revoked :: bool

record sa_token_row =
  sat_id :: int
  sat_service_account_id :: str
  sat_token_hash :: str
  sat_revoked :: bool
  sat_expires_at :: "time option"
  sat_last_used_at :: "time option"

record session_row =
  us_id :: int
  us_subject :: str
  us_email :: "str option"
  us_groups :: "str list option"
  us_token_hash :: str
  us_revoked :: bool
  us_expires_at :: time
  us_last_used_at :: "time option"

type_synonym scope_cache = "str \<Rightarrow> (time \<times> str list) option"

record app_state =
  app_db :: db
  node_tokens :: "jwt_row table"
  agent_tokens :: "jwt_row table"
  service_accounts :: "service_account_row table"
  sa_tokens :: "sa_token_row table"
  sessions :: "session_row table"
  node_scope_cache :: scope_cache
  admin_emails :: "str set"
  admin_groups :: "str set"

section \<open>Node scope cache\<close>

definition NODE_SCOPE_CACHE_TTL :: int where
  "NODE_SCOPE_CACHE_TTL = secs 15"

definition cached_node_scope :: "scope_cache \<Rightarrow> time \<Rightarrow> str \<Rightarrow> str list option" where
  "cached_node_scope cache inst raw_node_id =
     (case cache raw_node_id of
        None \<Rightarrow> None
      | Some (inserted_at, scope) \<Rightarrow>
          if inst - inserted_at < NODE_SCOPE_CACHE_TTL then Some scope else None)"

definition invalidate_node_scope_cache :: "str \<Rightarrow> app_state \<Rightarrow> app_state" where
  "invalidate_node_scope_cache raw_node_id st =
     (if trim raw_node_id = [] then st
      else st\<lparr>node_scope_cache := (node_scope_cache st)(raw_node_id := None)\<rparr>)"

definition node_domains :: "str \<Rightarrow> mesh_agent_row table \<Rightarrow> str list" where
  "node_domains raw_node_id agents =
     sort (remdups (map a_domain_id (select_where
       (\<lambda>a. tand (tor (teq (a_runtime_node_id a) (Some raw_node_id)) (teq (a_node_id a) (Some raw_node_id)))
                (tbool (btrim (a_domain_id a) \<noteq> []))) agents)))"

definition resolve_node_domain_scope ::
  "app_state \<Rightarrow> time \<Rightarrow> str \<Rightarrow> app_state \<times> str list" where
  "resolve_node_domain_scope st inst raw_node_id =
     (if trim raw_node_id = [] then (st, [])
      else case cached_node_scope (node_scope_cache st) inst raw_node_id of
        Some scope \<Rightarrow> (st, scope)
      | None \<Rightarrow>
          if \<not> db_up (app_db st) then (st, [])
          else let scope = node_domains raw_node_id (mesh_agents (app_db st)) in
            (st\<lparr>node_scope_cache := (node_scope_cache st)(raw_node_id \<mapsto> (inst, scope))\<rparr>, scope))"

section \<open>Resolving the caller of a request\<close>

record request =
  req_path :: str
  ext_principal :: "principal option"
  authorization :: "str option"
  cookie :: "str option"

definition bearer_token :: "request \<Rightarrow> str option" where
  "bearer_token req = map_option trim (authorization req \<bind> strip_prefix ''Bearer '')"

definition cookie_token :: "request \<Rightarrow> str option" where
  "cookie_token req =
     cookie req \<bind> (\<lambda>s. find_map
       (\<lambda>pair. map_option trim (strip_prefix ''ep_session_token='' (trim pair)))
       (split_on CHR '';'' s))"

definition token_credential :: "request \<Rightarrow> str option" where
  "token_credential req = (case bearer_token req of Some t \<Rightarrow> Some t | None \<Rightarrow> cookie_token req)"

definition jwt_row_live :: "jwt_row table \<Rightarrow> str \<Rightarrow> time \<Rightarrow> bool" where
  "jwt_row_live t jti now =
     (case fetch_optional (\<lambda>r. tand (tbool (jr_jti r = jti)) (tbool (jr_expires_at r > now))) t of
        None \<Rightarrow> False | Some r \<Rightarrow> \<not> jr_revoked r)"

definition jwt_principal ::
  "(str \<Rightarrow> payload option) \<Rightarrow> app_state \<Rightarrow> time \<Rightarrow> time \<Rightarrow> str \<Rightarrow> app_state \<times> principal option" where
  "jwt_principal jwt_decode st now inst token =
     (case verify_node_jwt jwt_decode token of
        Some c \<Rightarrow>
          if db_up (app_db st) \<and> jwt_row_live (node_tokens st) (nc_jti c) now
          then (let (st', scope) = resolve_node_domain_scope st inst (nc_node_id c) in
            (st', Some \<lparr>subject = nc_sub c, is_admin = False, session_id = None,
                        auth_type = ''node'', domain_scope = scope\<rparr>))
          else (st, None)
      | None \<Rightarrow> (st, None))"

definition agent_jwt_principal ::
  "(str \<Rightarrow> payload option) \<Rightarrow> app_state \<Rightarrow> time \<Rightarrow> str \<Rightarrow> principal option" where
  "agent_jwt_principal jwt_decode st now token =
     (case verify_agent_jwt jwt_decode token of
        Some c \<Rightarrow>
          if db_up (app_db st) \<and> jwt_row_live (agent_tokens st) (ac_jti c) now
          then Some \<lparr>subject = ac_sub c, is_admin = False, session_id = None,
                     auth_type = ''agent'', domain_scope = [ac_domain_id c]\<rparr>
          else None
      | None \<Rightarrow> None)"

definition sa_token_fence :: "str \<Rightarrow> time \<Rightarrow> sa_token_row \<Rightarrow> service_account_row \<Rightarrow> tri" where
  "sa_token_fence hash now sat sa =
     tand (tbool (sa_id sa = sat_service_account_id sat))
       (tand (tbool (sat_token_hash sat = hash))
         (tand (tbool (\<not> sat_revoked sat))
           (tand (tbool (\<not> sa_revoked sa))
             (tor (tbool (sat_expires_at sat = None)) (tcmp (>) (sat_expires_at sat) (Some now))))))"

definition find_sa_token ::
  "app_state \<Rightarrow> str \<Rightarrow> time \<Rightarrow> (sa_token_row \<times> service_account_row) option" where
  "find_sa_token st hash now =
     find (\<lambda>(sat, sa). holds (sa_token_fence hash now sat sa))
       (List.product (sa_tokens st) (service_accounts st))"

definition session_fence :: "str \<Rightarrow> time \<Rightarrow> session_row \<Rightarrow> tri" where
  "session_fence hash now us =
     tand (tbool (us_token_hash us = hash))
       (tand (tbool (\<not> us_revoked us)) (tbool (us_expires_at us > now)))"

definition session_principal :: "app_state \<Rightarrow> session_row \<Rightarrow> principal" where
  "session_principal st us =
     (let groups = (case us_groups us of Some gs \<Rightarrow> gs | None \<Rightarrow> []) in
      \<lparr>subject = us_subject us,
       is_admin = is_admin_email (us_email us) (admin_emails st) \<or> is_admin_groups groups (admin_groups st),
       session_id = Some (us_id us), auth_type = ''session'', domain_scope = []\<rparr>)"

definition service_account_principal :: "sa_token_row \<Rightarrow> service_account_row \<Rightarrow> principal" where
  "service_account_principal sat sa =
     \<lparr>subject = ''sa:'' @ sa_name sa, is_admin = False, session_id = Some (sat_id sat),
      auth_type = ''service_account'', domain_scope = []\<rparr>"

definition touch_sa_token :: "str \<Rightarrow> time \<Rightarrow> app_state \<Rightarrow> app_state" where
  "touch_sa_token hash now st = st\<lparr>sa_tokens :=
     update_where (by_key sat_token_hash hash) (\<lambda>r. r\<lparr>sat_last_used_at := Some now\<rparr>) (sa_tokens st)\<rparr>"

definition touch_session :: "str \<Rightarrow> time \<Rightarrow> app_state \<Rightarrow> app_state" where
  "touch_session hash now st = st\<lparr>sessions :=
     update_where (by_key us_token_hash hash) (\<lambda>r. r\<lparr>us_last_used_at := Some now\<rparr>) (sessions st)\<rparr>"

definition unauthenticated :: deny where
  "unauthenticated = deny 401 ''authentication required''"

definition principal_of_token ::
  "(str \<Rightarrow> payload option) \<Rightarrow> (str \<Rightarrow> str) \<Rightarrow> app_state \<Rightarrow> time \<Rightarrow> time \<Rightarrow> str \<Rightarrow> app_state \<times> principal res" where
  "principal_of_token jwt_decode digest st now inst token =
     (let hash = digest token in
      if length (filter (\<lambda>c. c = CHR ''.'') token) = 2 then
        (case jwt_principal jwt_decode st now inst token of
           (st', Some p) \<Rightarrow> (st', Inr p)
         | (st', None) \<Rightarrow>
             (case agent_jwt_principal jwt_decode st now token of
                Some p \<Rightarrow> (st, Inr p)
              | None \<Rightarrow> (st, Inl unauthenticated)))
      else if starts_with ''ep_sa_'' token then
        (case (if db_up (app_db st) then find_sa_token st hash now else None) of
           Some (sat, sa) \<Rightarrow> (touch_sa_token hash now st, Inr (service_account_principal sat sa))
         | None \<Rightarrow> (st, Inl unauthenticated))
      else if starts_with ''ep_'' token then
        (case (if db_up (app_db st) then fetch_optional (session_fence hash now) (sessions st) else None) of
           Some us \<Rightarrow> (touch_session hash now st, Inr (session_principal st us))
         | None \<Rightarrow> (st, Inl unauthenticated))
      else (st, Inl unauthenticated))"

definition from_request_parts ::
  "(str \<Rightarrow> payload option) \<Rightarrow> (str \<Rightarrow> str) \<Rightarrow> app_state \<Rightarrow> time \<Rightarrow> time \<Rightarrow> request \<Rightarrow> app_state \<times> principal res" where
  "from_request_parts jwt_decode digest st now inst req =
     (case ext_principal req of
        Some p \<Rightarrow> (st, Inr p)
      | None \<Rightarrow>
          (case token_credential req of
             Some token \<Rightarrow> principal_of_token jwt_decode digest st now inst token
           | None \<Rightarrow> (st, Inl unauthenticated)))"

definition public_paths :: "str list" where
  "public_paths = [''/'', ''/health'', ''/mcp/health'', ''/mcp/tools'', ''/raft/status'',
     ''/agent-onboarding.json'', ''/schema-pack'', ''/webhooks/tailscale'',
     ''/integrations/slack/events'', ''/integrations/slack/commands'',
     ''/integrations/slack/interactions'', ''/integrations/teams/events'',
     ''/integrations/google-chat/events'']"

definition is_public_path :: "str \<Rightarrow> bool" where
  "is_public_path path =
     (path \<in> set public_paths \<or> starts_with ''/auth/oidc/'' path \<or>
      path = ''/auth/logout'' \<or> path = ''/runtime/nodes/register'')"

text \<open>What the middleware does with a request: hand it on (with the principal it stored, if it
  resolved one) or answer it.\<close>

datatype middleware_outcome = PassPublic request | PassAs request | Answer deny

definition require_auth ::
  "(str \<Rightarrow> payload option) \<Rightarrow> (str \<Rightarrow> str) \<Rightarrow> app_state \<Rightarrow> time \<Rightarrow> time \<Rightarrow> request \<Rightarrow> app_state \<times> middleware_outcome" where
  "require_auth jwt_decode digest st now inst req =
     (if is_public_path (req_path req) then (st, PassPublic req)
      else case from_request_parts jwt_decode digest st now inst req of
        (st', Inr p) \<Rightarrow> (st', PassAs (req\<lparr>ext_principal := Some p\<rparr>))
      | (st', Inl e) \<Rightarrow> (st', Answer e))"

section \<open>Authorization predicates: lemmas\<close>

lemma list_ex_mem [simp]: "list_ex (\<lambda>d. d = x) xs \<longleftrightarrow> x \<in> set xs"
  by (auto simp: list_ex_iff)

lemma authorized_for_iff:
  "authorized_for d ow co p \<longleftrightarrow> is_admin p \<or> d \<in> set (domain_scope p) \<or>
     to_lowercase (subject p) \<in> set (split_csv ow) \<or> to_lowercase (subject p) \<in> set (split_csv co)"
  by (auto simp: authorized_for_def Let_def)

lemma authorized_for_owner_iff:
  "authorized_for_owner d ow p \<longleftrightarrow> is_admin p \<or> d \<in> set (domain_scope p) \<or>
     to_lowercase (subject p) \<in> set (split_csv ow)"
  by (auto simp: authorized_for_owner_def Let_def)

lemma split_csv_mem:
  "x \<in> set (split_csv s) \<longleftrightarrow> x \<noteq> [] \<and> (\<exists>e\<in>set (split_on CHR '','' s). x = to_lowercase (trim e))"
  by (auto simp: split_csv_def)

text \<open>domain membership reads the owners and contributors columns as lists. For lists of names
  without commas, written joined by commas, a caller that is neither admin nor scoped to the
  domain is let in exactly when its subject, up to letter case and the blanks around a listed
  name, is a non-blank entry of one of the two lists; owner-only actions look at the owners
  alone, and everyone they admit the ordinary check admits too.\<close>

theorem authorized_for_csv:
  assumes "ow \<noteq> []" "co \<noteq> []" "\<forall>e\<in>set ow \<union> set co. CHR '','' \<notin> set e"
  shows "(authorized_for d (join_with CHR '','' ow) (join_with CHR '','' co) p \<longleftrightarrow>
            is_admin p \<or> d \<in> set (domain_scope p) \<or>
            (subject p \<noteq> [] \<and> (\<exists>e\<in>set ow \<union> set co. to_lowercase (trim e) = to_lowercase (subject p))))
       \<and> (authorized_for_owner d (join_with CHR '','' ow) p \<longleftrightarrow>
            is_admin p \<or> d \<in> set (domain_scope p) \<or>
            (subject p \<noteq> [] \<and> (\<exists>e\<in>set ow. to_lowercase (trim e) = to_lowercase (subject p))))
       \<and> (authorized_for_owner d (join_with CHR '','' ow) p \<longrightarrow>
            authorized_for d (join_with CHR '','' ow) (join_with CHR '','' co) p)"
proof -
  have mem: "to_lowercase (subject p) \<in> set (split_csv (join_with CHR '','' es)) \<longleftrightarrow>
      subject p \<noteq> [] \<and> (\<exists>e\<in>set es. to_lowercase (trim e) = to_lowercase (subject p))"
    if "es \<noteq> []" "\<forall>e\<in>set es. CHR '','' \<notin> set e" for es
    unfolding split_csv_mem split_join [OF that] by (auto simp del: to_lowercase_Nil(1)) metis+
  show ?thesis
    using assms by (auto simp: authorized_for_iff authorized_for_owner_iff mem)
qed

definition demo_user :: principal where
  "demo_user = \<lparr>subject = ''Bob'', is_admin = False, session_id = Some 7,
     auth_type = ''session'', domain_scope = []\<rparr>"

lemma authorized_for_csv_witness:
  "authorized_for ''d1'' (join_with CHR '','' [''alice'', '' BOB '']) (join_with CHR '','' [''x'']) demo_user"
  using authorized_for_csv [of "[''alice'', '' BOB '']" "[''x'']" "''d1''" demo_user]
  unfolding bex_Un set_simps by (simp add: demo_user_def) code_simp

section \<open>Tokens: lemmas\<close>

lemma read_node_claims_payload [simp]: "read_node_claims (node_payload c) = Some c"
  by (simp add: read_node_claims_def node_payload_def only_fields_def)

lemma read_agent_claims_payload [simp]: "read_agent_claims (agent_payload c) = Some c"
  by (simp add: read_agent_claims_def agent_payload_def only_fields_def)

lemma claim_str_present: "claim_str p k = Some v \<Longrightarrow> k \<in> set (map fst p)"
  by (auto split: option.splits claim.splits dest!: map_of_SomeD intro: rev_image_eqI)

lemma node_claims_not_agent_claims:
  assumes "read_node_claims p = Some c"
  shows "read_agent_claims p = None"
proof -
  have "only_fields [''sub'', ''node_id'', ''jti'', ''iat'', ''exp''] p"
    using assms by (auto simp: read_node_claims_def simp del: claim_str.simps split: if_splits)
  then have "''agent_id'' \<notin> set (map fst p)"
    by (auto simp: only_fields_def list_all_iff)
  then have "claim_str p ''agent_id'' = None"
    using claim_str_present by (metis not_None_eq)
  then show ?thesis
    by (auto simp: read_agent_claims_def simp del: claim_str.simps split: bind_splits)
qed

text \<open>a signed token reads back as the claims it was signed with, for the kind it was signed
  as, and is never accepted as the other kind: the JWT library being able to decode what it
  encoded, sign_node_jwt then verify_node_jwt gives the node's subject and jti with a lifetime of
  ttl_days days, and verify_agent_jwt rejects it.\<close>

theorem node_token_roundtrip:
  assumes "\<And>p token. jwt_encode p = Some token \<Longrightarrow> jwt_decode token = Some p"
    and "sign_node_jwt jwt_encode now jti node_id ttl = Some (token, j)"
  shows "\<exists>c. verify_node_jwt jwt_decode token = Some c \<and> nc_sub c = ''node:'' @ node_id \<and>
           nc_node_id c = node_id \<and> nc_jti c = j \<and> nc_exp c - nc_iat c = ttl * 86400 \<and>
           verify_agent_jwt jwt_decode token = None"
proof -
  let ?c = "\<lparr>nc_sub = ''node:'' @ node_id, nc_node_id = node_id, nc_jti = jti,
             nc_iat = now, nc_exp = now + ttl * 86400\<rparr>"
  have "jwt_encode (node_payload ?c) = Some token" and j: "j = jti"
    using assms(2) by (auto simp: sign_node_jwt_def)
  then have "jwt_decode token = Some (node_payload ?c)"
    using assms(1) by blast
  then show ?thesis
    by (simp add: verify_node_jwt_def verify_agent_jwt_def j
        node_claims_not_agent_claims [OF read_node_claims_payload])
qed

definition demo_node_payload :: payload where
  "demo_node_payload = node_payload \<lparr>nc_sub = ''node:n1'', nc_node_id = ''n1'', nc_jti = ''j1'',
     nc_iat = 100, nc_exp = 86500\<rparr>"

lemma node_token_roundtrip_witness:
  "\<exists>c. verify_node_jwt (\<lambda>t. if t = ''h.p.s'' then Some demo_node_payload else None) ''h.p.s'' = Some c \<and>
     nc_jti c = ''j1''"
proof -
  let ?e = "\<lambda>p. if p = demo_node_payload then Some ''h.p.s'' else None"
  let ?d = "\<lambda>t. if t = ''h.p.s'' then Some demo_node_payload else None"
  have decode: "?d t = Some p" if "?e p = Some t" for p t
    using that by (simp split: if_splits)
  have signed: "sign_node_jwt ?e 100 ''j1'' ''n1'' 1 = Some (''h.p.s'', ''j1'')"
    by (simp add: sign_node_jwt_def demo_node_payload_def)
  show ?thesis
    using node_token_roundtrip [where jwt_encode = ?e and jwt_decode = ?d, OF decode signed] by auto
qed

section \<open>Credentials: what an accepted caller has shown\<close>

definition live_jwt :: "jwt_row table \<Rightarrow> str \<Rightarrow> time \<Rightarrow> bool" where
  "live_jwt t jti now = (\<exists>r\<in>set t. jr_jti r = jti \<and> \<not> jr_revoked r \<and> now < jr_expires_at r)"

lemma jwt_row_live_imp: "jwt_row_live t jti now \<Longrightarrow> live_jwt t jti now"
  by (auto simp: jwt_row_live_def live_jwt_def fetch_optional_def find_Some_iff split: option.splits)

text \<open>The credential a principal rests on, as the documentation of the tokens tells it.\<close>

inductive valid_credential ::
  "(str \<Rightarrow> payload option) \<Rightarrow> (str \<Rightarrow> str) \<Rightarrow> app_state \<Rightarrow> time \<Rightarrow> str \<Rightarrow> principal \<Rightarrow> bool"
  for jd dg st now token where
  Node: "verify_node_jwt jd token = Some c \<Longrightarrow> live_jwt (node_tokens st) (nc_jti c) now \<Longrightarrow>
     subject p = nc_sub c \<Longrightarrow> auth_type p = ''node'' \<Longrightarrow> \<not> is_admin p \<Longrightarrow>
     valid_credential jd dg st now token p"
| Agent: "verify_agent_jwt jd token = Some c \<Longrightarrow> live_jwt (agent_tokens st) (ac_jti c) now \<Longrightarrow>
     subject p = ac_sub c \<Longrightarrow> auth_type p = ''agent'' \<Longrightarrow> \<not> is_admin p \<Longrightarrow>
     domain_scope p = [ac_domain_id c] \<Longrightarrow> valid_credential jd dg st now token p"
| Service: "sat \<in> set (sa_tokens st) \<Longrightarrow> sa \<in> set (service_accounts st) \<Longrightarrow>
     sat_token_hash sat = dg token \<Longrightarrow> sat_service_account_id sat = sa_id sa \<Longrightarrow>
     \<not> sat_revoked sat \<Longrightarrow> \<not> sa_revoked sa \<Longrightarrow>
     (case sat_expires_at sat of None \<Rightarrow> True | Some e \<Rightarrow> now < e) \<Longrightarrow>
     subject p = ''sa:'' @ sa_name sa \<Longrightarrow> auth_type p = ''service_account'' \<Longrightarrow> \<not> is_admin p \<Longrightarrow>
     domain_scope p = [] \<Longrightarrow> valid_credential jd dg st now token p"
| Session: "us \<in> set (sessions st) \<Longrightarrow> us_token_hash us = dg token \<Longrightarrow> \<not> us_revoked us \<Longrightarrow>
     now < us_expires_at us \<Longrightarrow> subject p = us_subject us \<Longrightarrow> auth_type p = ''session'' \<Longrightarrow>
     domain_scope p = [] \<Longrightarrow>
     (is_admin p \<longleftrightarrow> (\<exists>e. us_email us = Some e \<and> to_lowercase e \<in> admin_emails st) \<or>
        (\<exists>gs. us_groups us = Some gs \<and> set gs \<inter> admin_groups st \<noteq> {})) \<Longrightarrow>
     valid_credential jd dg st now token p"

lemma jwt_principal_valid:
  "snd (jwt_principal jd st now inst token) = Some p \<Longrightarrow> valid_credential jd dg st now token p"
  by (auto simp: jwt_principal_def case_prod_unfold Let_def split: option.splits if_splits
      intro!: valid_credential.Node dest: jwt_row_live_imp)

lemma agent_jwt_principal_valid:
  "agent_jwt_principal jd st now token = Some p \<Longrightarrow> valid_credential jd dg st now token p"
  by (auto simp: agent_jwt_principal_def split: option.splits if_splits
      intro!: valid_credential.Agent dest: jwt_row_live_imp)

lemma find_sa_token_valid:
  "find_sa_token st (dg token) now = Some (sat, sa) \<Longrightarrow>
     valid_credential jd dg st now token (service_account_principal sat sa)"
  by (rule valid_credential.Service [of sat _ sa])
    (auto simp: find_sa_token_def sa_token_fence_def service_account_principal_def
      split: option.splits dest!: find_SomeD)

lemma session_principal_admin:
  "is_admin (session_principal st us) \<longleftrightarrow>
     (\<exists>e. us_email us = Some e \<and> to_lowercase e \<in> admin_emails st) \<or>
     (\<exists>gs. us_groups us = Some gs \<and> set gs \<inter> admin_groups st \<noteq> {})"
  by (cases "us_email us"; cases "us_groups us")
    (auto simp: session_principal_def is_admin_email_def is_admin_groups_def list_ex_iff)

lemma session_principal_simps [simp]:
  "subject (session_principal st us) = us_subject us"
  "auth_type (session_principal st us) = ''session''"
  "domain_scope (session_principal st us) = []"
  by (simp_all add: session_principal_def Let_def)

lemma session_principal_valid:
  "fetch_optional (session_fence (dg token) now) (sessions st) = Some us \<Longrightarrow>
     valid_credential jd dg st now token (session_principal st us)"
  by (rule valid_credential.Session [of us])
    (auto simp: fetch_optional_def session_fence_def session_principal_admin
      simp del: ex_simps dest!: find_SomeD)

lemma principal_of_token_valid:
  "snd (principal_of_token jd dg st now inst token) = Inr p \<Longrightarrow> valid_credential jd dg st now token p"
  using jwt_principal_valid [of jd st now inst token p dg]
  unfolding principal_of_token_def Let_def
  by (auto split: if_splits prod.splits option.splits
      dest: agent_jwt_principal_valid find_sa_token_valid session_principal_valid)

lemma offline_no_principal:
  "\<not> db_up (app_db st) \<Longrightarrow> principal_of_token jd dg st now inst token = (st, Inl unauthenticated)"
  by (simp add: principal_of_token_def jwt_principal_def agent_jwt_principal_def Let_def
      split: option.splits)

text \<open>C12: the authentication middleware lets a request through to a protected path only for a caller
  with a live credential. When it passes a request on with a principal, the request had a bearer
  token or session cookie that is a verified node or agent JWT whose jti is on record, unrevoked
  and unexpired, or the digest of a live service-account token or of a live session; only a session
  can be an administrator, and only through its e-mail or groups. With no database every protected
  request is answered 401.\<close>

theorem require_auth_sound:
  assumes "\<not> is_public_path (req_path req)" "ext_principal req = None"
  shows "(\<forall>req'. snd (require_auth jd dg st now inst req) = PassAs req' \<longrightarrow>
            (\<exists>token p. token_credential req = Some token \<and> ext_principal req' = Some p \<and>
               valid_credential jd dg st now token p \<and> (is_admin p \<longrightarrow> auth_type p = ''session'')))
       \<and> (\<forall>req'. snd (require_auth jd dg st now inst req) \<noteq> PassPublic req')
       \<and> (\<not> db_up (app_db st) \<longrightarrow>
            require_auth jd dg st now inst req = (st, Answer (deny 401 ''authentication required'')))"
proof -
  have admin: "auth_type p = ''session''" if "valid_credential jd dg st now token p" "is_admin p" for token p
    using that by cases auto
  have sound: "\<exists>token. token_credential req = Some token \<and> valid_credential jd dg st now token p"
    if "snd (from_request_parts jd dg st now inst req) = Inr p" for p
    using that assms(2)
    by (auto simp: from_request_parts_def split: option.splits dest: principal_of_token_valid)
  have offline: "from_request_parts jd dg st now inst req = (st, Inl unauthenticated)"
    if "\<not> db_up (app_db st)"
    using that assms(2) by (auto simp: from_request_parts_def offline_no_principal split: option.splits)
  show ?thesis
    using assms(1) sound admin offline
    by (fastforce simp: require_auth_def unauthenticated_def split: prod.splits sum.splits)
qed

definition demo_session :: session_row where
  "demo_session = \<lparr>us_id = 3, us_subject = ''alice'', us_email = Some ''A@x'', us_groups = Some [],
     us_token_hash = ''ep_tok'', us_revoked = False, us_expires_at = 1000, us_last_used_at = None\<rparr>"

definition demo_empty_db :: db where
  "demo_empty_db = \<lparr>db_up = True, domains = [], missions = [], tasks = [], gates = [],
     progress = [], mesh_agents = [], control_agents = [],
     overlaps = [], agent_messages = [], notices = []\<rparr>"

definition demo_app :: app_state where
  "demo_app = \<lparr>app_db = demo_empty_db, node_tokens = [], agent_tokens = [], service_accounts = [],
     sa_tokens = [], sessions = [demo_session], node_scope_cache = (\<lambda>_. None),
     admin_emails = {''a@x''}, admin_groups = {}\<rparr>"

definition demo_request :: request where
  "demo_request = \<lparr>req_path = ''/work/tasks'', ext_principal = None,
     authorization = Some ''Bearer ep_tok'', cookie = None\<rparr>"

lemma demo_request_passes:
  "case snd (require_auth (\<lambda>_. None) (\<lambda>t. t) demo_app 10 0 demo_request) of
     PassAs r \<Rightarrow> map_option is_admin (ext_principal r) = Some True | _ \<Rightarrow> False"
  by code_simp

lemma require_auth_sound_witness:
  "\<exists>token p. token_credential demo_request = Some token \<and> is_admin p \<and>
     valid_credential (\<lambda>_. None) (\<lambda>t. t) demo_app 10 token p \<and> auth_type p = ''session''"
proof -
  have guards: "\<not> is_public_path (req_path demo_request)" "ext_principal demo_request = None"
    by code_simp+
  obtain r where "snd (require_auth (\<lambda>_. None) (\<lambda>t. t) demo_app 10 0 demo_request) = PassAs r"
      "map_option is_admin (ext_principal r) = Some True"
    using demo_request_passes by (auto split: middleware_outcome.splits)
  then show ?thesis
    using require_auth_sound [OF guards, of "\<lambda>_. None" "\<lambda>t. t" demo_app 10 0] by fastforce
qed

section \<open>The node scope cache\<close>

text \<open>
  The enrolled agents at each instant of the monotonic clock are a history H. A cache is honest
  when every entry holds what the table said at the instant the entry was written.
\<close>

definition honest_cache :: "(time \<Rightarrow> mesh_agent_row table) \<Rightarrow> time \<Rightarrow> scope_cache \<Rightarrow> bool" where
  "honest_cache H inst cache =
     (\<forall>n t s. cache n = Some (t, s) \<longrightarrow> t \<le> inst \<and> s = node_domains n (H t))"

lemma honest_cache_later: "honest_cache H i c \<Longrightarrow> i \<le> j \<Longrightarrow> honest_cache H j c"
  by (fastforce simp: honest_cache_def)

lemma honest_cache_invalidate:
  "honest_cache H i (node_scope_cache st) \<Longrightarrow>
     honest_cache H i (node_scope_cache (invalidate_node_scope_cache n st))"
  by (auto simp: honest_cache_def invalidate_node_scope_cache_def)

text \<open>the domain scope a node is given is never more than fifteen seconds old. With an honest
  cache, resolve_node_domain_scope answers with exactly the domains the node's agents were enrolled
  in at some instant less than the TTL ago (nothing when the database is down and no such entry is
  cached, or the id is blank), leaves the cache honest and everything else alone; and right after
  invalidate_node_scope_cache it answers with the present enrolment.\<close>

theorem node_scope_fresh:
  assumes honest: "honest_cache H inst (node_scope_cache st)"
    and now: "mesh_agents (app_db st) = H inst"
  shows "(snd (resolve_node_domain_scope st inst n) =
            (if trim n = [] then []
             else case cached_node_scope (node_scope_cache st) inst n of Some s \<Rightarrow> s
               | None \<Rightarrow> if db_up (app_db st) then node_domains n (H inst) else []))
       \<and> (snd (resolve_node_domain_scope st inst n) \<noteq> [] \<longrightarrow>
            (\<exists>t\<le>inst. inst - t < secs 15 \<and>
               snd (resolve_node_domain_scope st inst n) = node_domains n (H t)))
       \<and> honest_cache H inst (node_scope_cache (fst (resolve_node_domain_scope st inst n)))
       \<and> app_db (fst (resolve_node_domain_scope st inst n)) = app_db st
       \<and> (db_up (app_db st) \<and> trim n \<noteq> [] \<longrightarrow>
            snd (resolve_node_domain_scope (invalidate_node_scope_cache n st) inst n) = node_domains n (H inst))"
proof -
  have cached: "\<exists>t\<le>inst. inst - t < secs 15 \<and> s = node_domains n (H t)"
    if "cached_node_scope (node_scope_cache st) inst n = Some s" for s
    using that honest
    by (force simp: cached_node_scope_def honest_cache_def NODE_SCOPE_CACHE_TTL_def
        split: option.splits if_splits prod.splits)
  have fresh: "\<exists>t\<le>inst. inst - t < secs 15 \<and> node_domains n (H inst) = node_domains n (H t)"
    by (rule exI [of _ inst]) (simp add: secs_def)
  have answer: "snd (resolve_node_domain_scope st inst n) =
      (if trim n = [] then []
       else case cached_node_scope (node_scope_cache st) inst n of Some s \<Rightarrow> s
         | None \<Rightarrow> if db_up (app_db st) then node_domains n (H inst) else [])"
    using now by (auto simp: resolve_node_domain_scope_def Let_def split: option.splits)
  have honest': "honest_cache H inst (node_scope_cache (fst (resolve_node_domain_scope st inst n)))"
    using honest now
    by (auto simp: resolve_node_domain_scope_def Let_def honest_cache_def split: option.splits)
  have dbs: "app_db (fst (resolve_node_domain_scope st inst n)) = app_db st"
    by (auto simp: resolve_node_domain_scope_def Let_def split: option.splits)
  have invalidated: "snd (resolve_node_domain_scope (invalidate_node_scope_cache n st) inst n) =
      node_domains n (H inst)" if "db_up (app_db st) \<and> trim n \<noteq> []"
    using that now
    by (simp add: resolve_node_domain_scope_def invalidate_node_scope_cache_def cached_node_scope_def Let_def)
  show ?thesis
    using answer cached fresh honest' dbs invalidated by (auto split: option.splits)
qed

definition demo_agent :: mesh_agent_row where
  "demo_agent = \<lparr>a_id = ''w7'', a_domain_id = ''dom-1'', a_node_id = None, a_runtime_kind = ''codex'',
     a_runtime_version = '''', a_capabilities = [], a_labels = JObj [], a_status = ''online'',
     a_current_task_id = None, a_enrolled_by_subject = ''alice'', a_enrolled_at = 0, a_last_heartbeat_at = None,
     a_runtime_node_id = Some ''n1'', a_profile = None, a_machine = None, a_runtime = None,
     a_supervision_mode = None, a_agent_public_id = None\<rparr>"

lemma node_scope_fresh_witness:
  "\<exists>t\<le>5. 5 - t < secs 15 \<and> [''dom-1''] = node_domains ''n1'' [demo_agent]"
proof -
  let ?st = "demo_app\<lparr>app_db := demo_empty_db\<lparr>mesh_agents := [demo_agent]\<rparr>\<rparr>"
  have honest: "honest_cache (\<lambda>_. [demo_agent]) 5 (node_scope_cache ?st)"
    by (simp add: honest_cache_def demo_app_def)
  have now: "mesh_agents (app_db ?st) = (\<lambda>_. [demo_agent]) (5 :: time)"
    by simp
  have answer: "snd (resolve_node_domain_scope ?st 5 ''n1'') = [''dom-1'']"
    by code_simp
  show ?thesis
    using node_scope_fresh [OF honest now, of "''n1''", THEN conjunct2, THEN conjunct1]
    unfolding answer by simp
qed

end
