(* ===== verification/Tower_Authz.thy ===== *)
theory Tower_Authz
  imports Tower_Auth
begin

text \<open>
  routes/authz.rs: the guards every privileged handler runs before it acts. A guard answers with
  unit or with the response the caller gets. Guards keyed by a task, mission, agent or gate first
  resolve the owning domain; the locale domain_resolver states what such a resolver promises and
  derives, once, when the composed guard lets a caller through.
\<close>

section \<open>Domain guards\<close>

definition authz_domain :: "db \<Rightarrow> principal \<Rightarrow> str \<Rightarrow> unit res" where
  "authz_domain d p domain_id =
     (if domain_id = [] then Inl (deny 422 ''target has no domain'')
      else if \<not> db_up d then Inl internal_error
      else case lookup d_id domain_id (domains d) of
        None \<Rightarrow> Inl (deny 404 ''Domain not found'')
      | Some r \<Rightarrow>
          if authorized_for domain_id (d_owners r) (d_contributors r) p then Inr ()
          else Inl (deny 403 ''not authorized for domain''))"

definition authz_domain_readable :: "db \<Rightarrow> principal \<Rightarrow> str \<Rightarrow> unit res" where
  "authz_domain_readable d p domain_id =
     (if domain_id = [] then Inl (deny 422 ''target has no domain'')
      else if \<not> db_up d then Inl internal_error
      else case lookup d_id domain_id (domains d) of
        None \<Rightarrow> Inl (deny 404 ''Domain not found'')
      | Some r \<Rightarrow>
          if (case d_visibility r of Some v \<Rightarrow> eq_ignore_ascii_case v ''public'' | None \<Rightarrow> False)
          then Inr ()
          else if authorized_for domain_id (d_owners r) (d_contributors r) p then Inr ()
          else Inl (deny 403 ''not authorized for domain''))"

definition authz_domain_owner :: "db \<Rightarrow> principal \<Rightarrow> str \<Rightarrow> unit res" where
  "authz_domain_owner d p domain_id =
     (if domain_id = [] then Inl (deny 422 ''target has no domain'')
      else if \<not> db_up d then Inl internal_error
      else case lookup d_id domain_id (domains d) of
        None \<Rightarrow> Inl (deny 404 ''Domain not found'')
      | Some r \<Rightarrow>
          if authorized_for_owner domain_id (d_owners r) p then Inr ()
          else Inl (deny 403 ''not authorized (owner-only) for domain''))"

section \<open>Resolving the owning domain\<close>

definition resolve :: "db \<Rightarrow> (db \<Rightarrow> 'k \<Rightarrow> str option option) \<Rightarrow> 'k \<Rightarrow> str \<Rightarrow> str res" where
  "resolve d query k missing =
     (if \<not> db_up d then Inl internal_error
      else case query d k of
        Some (Some v) \<Rightarrow> Inr v
      | _ \<Rightarrow> Inl (deny 404 missing))"

definition mission_domain_query :: "db \<Rightarrow> str \<Rightarrow> str option option" where
  "mission_domain_query d k = map_option m_domain_id (lookup m_id k (missions d))"

definition task_domain_query :: "db \<Rightarrow> str \<Rightarrow> str option option" where
  "task_domain_query d k = map_option (\<lambda>r. Some (t_domain_id r)) (lookup t_id k (tasks d))"

definition agent_domain_query :: "db \<Rightarrow> str \<Rightarrow> str option option" where
  "agent_domain_query d k = map_option (\<lambda>r. Some (a_domain_id r)) (lookup a_id k (mesh_agents d))"

definition control_agent_domain_query :: "db \<Rightarrow> int \<Rightarrow> str option option" where
  "control_agent_domain_query d k =
     map_option (\<lambda>r. coalesce (ca_current_domain_id r) (ca_home_domain_id r))
       (lookup ca_id k (control_agents d))"

definition gate_domain_query :: "db \<Rightarrow> str \<Rightarrow> str option option" where
  "gate_domain_query d k =
     map_option (\<lambda>(g, t). Some (t_domain_id t))
       (find (\<lambda>(g, t). t_id t = g_mesh_task_id g \<and> g_id g = k) (List.product (gates d) (tasks d)))"

definition domain_id_for_mission :: "db \<Rightarrow> str \<Rightarrow> str res" where
  "domain_id_for_mission d mission_id = resolve d mission_domain_query mission_id ''Mission not found''"

definition domain_id_for_task :: "db \<Rightarrow> str \<Rightarrow> str res" where
  "domain_id_for_task d task_id = resolve d task_domain_query task_id ''Task not found''"

definition domain_and_kind_for_task :: "db \<Rightarrow> str \<Rightarrow> (str \<times> task_kind) res" where
  "domain_and_kind_for_task d task_id =
     (if \<not> db_up d then Inl internal_error
      else case lookup t_id task_id (tasks d) of
        None \<Rightarrow> Inl (deny 404 ''Task not found'')
      | Some r \<Rightarrow> Inr (t_domain_id r, t_kind r))"

definition domain_id_for_agent :: "db \<Rightarrow> str \<Rightarrow> str res" where
  "domain_id_for_agent d agent_id = resolve d agent_domain_query agent_id ''Agent not found''"

definition domain_id_for_control_plane_agent :: "db \<Rightarrow> int \<Rightarrow> str res" where
  "domain_id_for_control_plane_agent d agent_id =
     resolve d control_agent_domain_query agent_id ''Agent not found''"

definition domain_id_for_gate :: "db \<Rightarrow> str \<Rightarrow> str res" where
  "domain_id_for_gate d gate_id = resolve d gate_domain_query gate_id ''Gate not found''"

section \<open>Self and task ownership\<close>

definition subject_id_of :: "principal \<Rightarrow> str" where
  "subject_id_of p = (case strip_prefix ''agent:'' (subject p) of Some s \<Rightarrow> s | None \<Rightarrow> subject p)"

definition is_self_control_plane_agent :: "db \<Rightarrow> principal \<Rightarrow> int \<Rightarrow> bool" where
  "is_self_control_plane_agent d p agent_id =
     (if auth_type p \<noteq> ''agent'' then False
      else if \<not> db_up d then False
      else case lookup a_id (subject_id_of p) (mesh_agents d) of
        None \<Rightarrow> False
      | Some a \<Rightarrow>
          (case a_agent_public_id a of
             None \<Rightarrow> False
           | Some pub \<Rightarrow>
               map_option ca_public_id (lookup ca_id agent_id (control_agents d)) = Some pub))"

definition authz_task_owner :: "db \<Rightarrow> principal \<Rightarrow> str \<Rightarrow> str option \<Rightarrow> unit res" where
  "authz_task_owner d p task_id lease_id =
     (if is_full_trust p \<or> is_admin p then Inr ()
      else if \<not> db_up d then Inl internal_error
      else case lookup t_id task_id (tasks d) of
        None \<Rightarrow> Inl (deny 404 ''Task not found'')
      | Some r \<Rightarrow>
          let subject_id = subject_id_of p in
          if t_claimed_by r = Some subject_id \<or> t_owner r = Some subject_id
             \<or> (lease_id \<noteq> None \<and> t_claim_lease_id r = lease_id)
          then Inr () else Inl (deny 403 ''not the task's claimer''))"

section \<open>Composed guards\<close>

definition authz_by_task :: "db \<Rightarrow> principal \<Rightarrow> str \<Rightarrow> unit res" where
  "authz_by_task d p task_id = and_then (domain_id_for_task d task_id) (authz_domain d p)"

definition authz_by_mission :: "db \<Rightarrow> principal \<Rightarrow> str \<Rightarrow> unit res" where
  "authz_by_mission d p mission_id = and_then (domain_id_for_mission d mission_id) (authz_domain d p)"

definition authz_by_agent :: "db \<Rightarrow> principal \<Rightarrow> str \<Rightarrow> unit res" where
  "authz_by_agent d p agent_id = and_then (domain_id_for_agent d agent_id) (authz_domain d p)"

definition authz_by_control_plane_agent :: "db \<Rightarrow> principal \<Rightarrow> int \<Rightarrow> unit res" where
  "authz_by_control_plane_agent d p agent_id =
     and_then (domain_id_for_control_plane_agent d agent_id) (authz_domain d p)"

section \<open>When a guard lets a caller through\<close>

text \<open>Membership of a domain, as a relation on the database.\<close>

definition member :: "db \<Rightarrow> principal \<Rightarrow> str \<Rightarrow> bool" where
  "member d p domain_id = (domain_id \<noteq> [] \<and> (\<exists>r. lookup d_id domain_id (domains d) = Some r \<and>
     authorized_for domain_id (d_owners r) (d_contributors r) p))"

lemma authz_domain_ok: "authz_domain d p k = Inr () \<longleftrightarrow> db_up d \<and> member d p k"
  by (auto simp: authz_domain_def member_def split: option.splits)

lemma authz_domain_codes:
  "authz_domain d p k = Inl e \<Longrightarrow> status_code e \<in> {403, 404, 422, 500}"
  by (auto simp: authz_domain_def deny_def internal_error_def split: option.splits if_splits)

locale domain_resolver =
  fixes res :: "db \<Rightarrow> 'k \<Rightarrow> str res" and dom_of :: "db \<Rightarrow> 'k \<Rightarrow> str option"
  assumes res_ok: "res d k = Inr v \<longleftrightarrow> db_up d \<and> dom_of d k = Some v"
    and res_codes: "res d k = Inl e \<Longrightarrow> status_code e = (if db_up d then 404 else 500)"
begin

lemma guard_ok:
  "and_then (res d k) (authz_domain d p) = Inr u \<longleftrightarrow>
     db_up d \<and> (\<exists>v. dom_of d k = Some v \<and> member d p v)"
  by (auto simp: res_ok authz_domain_ok)

lemma guard_codes:
  "and_then (res d k) (authz_domain d p) = Inl e \<Longrightarrow> status_code e \<in> {403, 404, 422, 500}"
  by (auto simp: and_then_def split: sum.splits if_splits dest!: res_codes authz_domain_codes)

end

lemma resolve_ok: "resolve d q k m = Inr v \<longleftrightarrow> db_up d \<and> q d k = Some (Some v)"
  by (auto simp: resolve_def split: option.splits)

lemma resolve_codes: "resolve d q k m = Inl e \<Longrightarrow> status_code e = (if db_up d then 404 else 500)"
  by (auto simp: resolve_def deny_def internal_error_def split: option.splits if_splits)

definition flat :: "'a option option \<Rightarrow> 'a option" where
  "flat x = x \<bind> (\<lambda>y. y)"

lemma flat_Some [simp]: "flat x = Some v \<longleftrightarrow> x = Some (Some v)"
  by (auto simp: flat_def bind_eq_Some_conv)

interpretation by_task: domain_resolver domain_id_for_task "\<lambda>d k. flat (task_domain_query d k)"
  by unfold_locales (auto simp: domain_id_for_task_def resolve_ok dest: resolve_codes)

interpretation by_mission: domain_resolver domain_id_for_mission "\<lambda>d k. flat (mission_domain_query d k)"
  by unfold_locales (auto simp: domain_id_for_mission_def resolve_ok dest: resolve_codes)

interpretation by_agent: domain_resolver domain_id_for_agent "\<lambda>d k. flat (agent_domain_query d k)"
  by unfold_locales (auto simp: domain_id_for_agent_def resolve_ok dest: resolve_codes)

interpretation by_control: domain_resolver domain_id_for_control_plane_agent
  "\<lambda>d k. flat (control_agent_domain_query d k)"
  by unfold_locales (auto simp: domain_id_for_control_plane_agent_def resolve_ok dest: resolve_codes)

interpretation by_gate: domain_resolver domain_id_for_gate "\<lambda>d k. flat (gate_domain_query d k)"
  by unfold_locales (auto simp: domain_id_for_gate_def resolve_ok dest: resolve_codes)

lemma task_query_Some: "task_domain_query d k = Some (Some v) \<longleftrightarrow> (\<exists>r. task_of d k = Some r \<and> t_domain_id r = v)"
  by (auto simp: task_domain_query_def task_of_def)

lemma authz_by_task_ok:
  "authz_by_task d p k = Inr u \<longleftrightarrow>
     db_up d \<and> (\<exists>r. task_of d k = Some r \<and> member d p (t_domain_id r))"
  unfolding authz_by_task_def by_task.guard_ok by (auto simp: task_query_Some)

lemma domain_id_for_task_ok:
  "domain_id_for_task d k = Inr v \<longleftrightarrow> db_up d \<and> (\<exists>r. task_of d k = Some r \<and> t_domain_id r = v)"
  unfolding by_task.res_ok by (auto simp: task_query_Some)

lemma authz_task_owner_ok:
  "authz_task_owner d p k l = Inr u \<longleftrightarrow>
     is_full_trust p \<or> is_admin p \<or>
     (db_up d \<and> (\<exists>r. task_of d k = Some r \<and>
        (t_claimed_by r = Some (subject_id_of p) \<or> t_owner r = Some (subject_id_of p) \<or>
         (l \<noteq> None \<and> t_claim_lease_id r = l))))"
  by (auto simp: authz_task_owner_def task_of_def Let_def split: option.splits)

text \<open>the domain guards form a ladder and a closed door. Whoever passes the owner-only guard
  passes the ordinary guard, and whoever passes that passes the read guard; the ordinary guard
  passes exactly the members of an existing domain; a read by a non-member passes only in a domain
  whose visibility is public; every refusal is 422, 404, 403 or 500, and with the database down or
  the domain missing all three refuse everybody, administrators included.\<close>

theorem domain_guards_ladder:
  "(authz_domain_owner d p k = Inr () \<longrightarrow> authz_domain d p k = Inr ())
   \<and> (authz_domain d p k = Inr () \<longrightarrow> authz_domain_readable d p k = Inr ())
   \<and> (authz_domain d p k = Inr () \<longleftrightarrow> db_up d \<and> member d p k)
   \<and> (authz_domain_readable d p k = Inr () \<and> \<not> member d p k \<longrightarrow>
        (\<exists>r v. lookup d_id k (domains d) = Some r \<and> d_visibility r = Some v \<and>
           eq_ignore_ascii_case v ''public''))
   \<and> (\<forall>e. authz_domain d p k = Inl e \<or> authz_domain_readable d p k = Inl e \<or>
        authz_domain_owner d p k = Inl e \<longrightarrow> status_code e \<in> {403, 404, 422, 500})
   \<and> (\<not> db_up d \<or> lookup d_id k (domains d) = None \<longrightarrow>
        authz_domain_readable d p k \<noteq> Inr () \<and> authz_domain d p k \<noteq> Inr () \<and>
        authz_domain_owner d p k \<noteq> Inr ())"
proof -
  have owner: "authorized_for_owner k ow p \<Longrightarrow> authorized_for k ow co p" for ow co
    by (auto simp: authorized_for_iff authorized_for_owner_iff)
  have ladder: "authz_domain_owner d p k = Inr () \<Longrightarrow> authz_domain d p k = Inr ()"
    using owner by (auto simp: authz_domain_owner_def authz_domain_def split: option.splits if_splits)
  have readable: "authz_domain d p k = Inr () \<Longrightarrow> authz_domain_readable d p k = Inr ()"
    by (auto simp: authz_domain_readable_def authz_domain_def split: option.splits if_splits)
  have public: "\<exists>r v. lookup d_id k (domains d) = Some r \<and> d_visibility r = Some v \<and>
      eq_ignore_ascii_case v ''public''"
    if "authz_domain_readable d p k = Inr ()" "\<not> member d p k"
    using that by (auto simp: authz_domain_readable_def member_def split: option.splits if_splits)
  have codes: "status_code e \<in> {403, 404, 422, 500}"
    if "authz_domain d p k = Inl e \<or> authz_domain_readable d p k = Inl e \<or> authz_domain_owner d p k = Inl e" for e
    using that authz_domain_codes
    by (auto simp: authz_domain_readable_def authz_domain_owner_def deny_def internal_error_def
        split: option.splits if_splits)
  have closed: "authz_domain_readable d p k \<noteq> Inr ()" if "\<not> db_up d \<or> lookup d_id k (domains d) = None"
    using that by (auto simp: authz_domain_readable_def)
  show ?thesis
    using ladder readable public codes closed authz_domain_ok by blast
qed

lemma domain_guards_ladder_witness:
  "status_code (case authz_domain demo_empty_db demo_user ''d9'' of Inl e \<Rightarrow> e | Inr _ \<Rightarrow> internal_error)
     \<in> {403, 404, 422, 500}"
proof -
  have refused: "authz_domain demo_empty_db demo_user ''d9'' = Inl (deny 404 ''Domain not found'')"
    by code_simp
  show ?thesis
    using domain_guards_ladder [of demo_empty_db demo_user "''d9''"] unfolding refused by simp
qed

end
