(* ===== verification/Task_Transitions.thy ===== *)
theory Task_Transitions
  imports Tower_Authz
begin

text \<open>
  routes/task_transitions.rs: the five fenced task transitions the REST and the MCP surface share
  (heartbeat, progress, complete, fail, block). A transition is one compare-and-set statement on
  the task row: its WHERE clause is the fence, its SET list the update, and a caller the fence
  turns away is classified afterwards. Fences are SQL conditions over nullable columns, written
  in three-valued logic as in the statements.
\<close>

section \<open>Actors and errors\<close>

record actor =
  ac_subject :: str
  ac_subject_id :: str
  ac_is_bypass :: bool
  ac_is_admin :: bool

definition task_actor :: "principal \<Rightarrow> actor" where
  "task_actor p = \<lparr>ac_subject = subject p, ac_subject_id = subject_id_of p,
     ac_is_bypass = is_full_trust p \<or> is_admin p, ac_is_admin = is_admin p\<rparr>"

datatype transition_error = NotFound | Forbidden | Conflict | Invalid str | Database str

definition classify_fenced_rejection ::
  "db \<Rightarrow> actor \<Rightarrow> str \<Rightarrow> str option \<Rightarrow> str list \<Rightarrow> transition_error" where
  "classify_fenced_rejection d ac task_id lease_id already_done_statuses =
     (if \<not> db_up d then Database ''classify_fenced_rejection fetch''
      else case lookup t_id task_id (tasks d) of
        None \<Rightarrow> NotFound
      | Some r \<Rightarrow>
          if t_status r \<in> set already_done_statuses \<or> ac_is_bypass ac then Conflict
          else let owns_directly = t_claimed_by r = Some (ac_subject_id ac)
                 \<or> t_owner r = Some (ac_subject_id ac) \<or> t_finalized_by r = Some (ac_subject_id ac) in
            if owns_directly \<or> lease_id \<noteq> None then Conflict else Forbidden)"

definition rest_transition_error :: "transition_error \<Rightarrow> deny" where
  "rest_transition_error e =
     (case e of
        NotFound \<Rightarrow> not_found ''Task not found''
      | Forbidden \<Rightarrow> deny 403 ''not the task's claimer''
      | Conflict \<Rightarrow> conflict ''Task is not in the required state for this transition''
      | Invalid d \<Rightarrow> bad_request d
      | Database _ \<Rightarrow> internal_error)"

section \<open>Fences\<close>

definition LEASE_TTL_SECS :: int where
  "LEASE_TTL_SECS = 120"

definition is_kind :: "task_kind \<Rightarrow> task_row \<Rightarrow> tri" where
  "is_kind k r = tbool (t_kind r = k)"

definition lease_is :: "str option \<Rightarrow> task_row \<Rightarrow> tri" where
  "lease_is l r = teq (t_claim_lease_id r) l"

definition lease_fresh :: "time \<Rightarrow> task_row \<Rightarrow> tri" where
  "lease_fresh now r =
     tor (teq (t_claim_policy r) (Some ''broadcast'')) (tcmp (\<ge>) (t_lease_expires_at r) (Some now))"

definition claimed_by :: "str \<Rightarrow> task_row \<Rightarrow> tri" where
  "claimed_by a r = teq (t_claimed_by r) (Some a)"

definition owned_by :: "str \<Rightarrow> task_row \<Rightarrow> tri" where
  "owned_by a r = teq (t_owner r) (Some a)"

definition fence_claimable_live :: "str option \<Rightarrow> bool \<Rightarrow> time \<Rightarrow> str \<Rightarrow> task_row \<Rightarrow> tri" where
  "fence_claimable_live lease_id is_bypass now task_id r =
     tand (by_key t_id task_id r)
       (tand (is_kind Claimable r)
         (tand (status_in [''claimed'', ''running''] r)
           (tand (tor (lease_is lease_id r) (tbool is_bypass)) (lease_fresh now r))))"

definition finish_fence :: "str option \<Rightarrow> bool \<Rightarrow> str \<Rightarrow> time \<Rightarrow> str \<Rightarrow> task_row \<Rightarrow> tri" where
  "finish_fence lease_id is_bypass effective_id now task_id r =
     tand (by_key t_id task_id r)
       (tor
         (tand (is_kind Claimable r)
           (tand (status_in [''claimed'', ''running'', ''waiting_review''] r)
             (tor (claimed_by effective_id r)
               (tand (tor (lease_is lease_id r) (tbool is_bypass)) (lease_fresh now r)))))
         (tand (is_kind Assigned r)
           (tand (tnot (status_in [''done'', ''finished'', ''failed'', ''cancelled''] r))
             (tor (owned_by effective_id r) (tor (lease_is lease_id r) (tbool is_bypass))))))"

definition block_fence :: "str option \<Rightarrow> bool \<Rightarrow> str \<Rightarrow> str \<Rightarrow> task_row \<Rightarrow> tri" where
  "block_fence lease_id is_bypass subject_id task_id r =
     tand (by_key t_id task_id r)
       (tand (is_kind Claimable r)
         (tand (status_in [''claimed'', ''running''] r)
           (tor (claimed_by subject_id r) (tor (tbool is_bypass) (lease_is lease_id r)))))"

section \<open>Row updates\<close>

definition heartbeat_update :: "time \<Rightarrow> task_row \<Rightarrow> task_row" where
  "heartbeat_update now r = r\<lparr>t_status := ''running'',
     t_lease_expires_at := Some (now + secs LEASE_TTL_SECS), t_updated_at := now\<rparr>"

definition complete_update :: "bool \<Rightarrow> int option \<Rightarrow> str \<Rightarrow> time \<Rightarrow> task_row \<Rightarrow> task_row" where
  "complete_update has_pending result_artifact_id effective_id now r =
     (if has_pending then r\<lparr>t_status := ''waiting_review'', t_updated_at := now\<rparr>
      else r\<lparr>t_status := ''finished'', t_result_artifact_id := result_artifact_id,
             t_lease_expires_at := None, t_claim_lease_id := None, t_claimed_by := None,
             t_finalized_at := Some now,
             t_finalized_by := coalesce (t_claimed_by r) (Some effective_id), t_updated_at := now\<rparr>)"

definition fail_update :: "str \<Rightarrow> time \<Rightarrow> task_row \<Rightarrow> task_row" where
  "fail_update effective_id now r = r\<lparr>t_status := ''failed'', t_lease_expires_at := None,
     t_claim_lease_id := None, t_claimed_by := None, t_finalized_at := Some now, t_updated_at := now,
     t_finalized_by := coalesce (t_claimed_by r) (Some effective_id)\<rparr>"

definition block_update :: "time \<Rightarrow> task_row \<Rightarrow> task_row" where
  "block_update now r = r\<lparr>t_status := ''blocked'', t_lease_expires_at := None,
     t_claim_lease_id := None, t_updated_at := now\<rparr>"

section \<open>Dependents\<close>

text \<open>unblock_dependents of routes/work.rs: the pending or blocked claimable tasks of the mission
  that list the finished task and all of whose listed dependencies are finished become ready.\<close>

definition deps_satisfied :: "db \<Rightarrow> str list \<Rightarrow> bool" where
  "deps_satisfied d dep_ids =
     (let dep_rows = select_where (\<lambda>r. tbool (t_id r \<in> set dep_ids)) (tasks d) in
      length dep_rows = length dep_ids \<and> list_all (\<lambda>r. t_status r = ''finished'') dep_rows)"

definition unblock_candidate :: "str \<Rightarrow> task_row \<Rightarrow> tri" where
  "unblock_candidate mission_id r =
     tand (tbool (t_mission_id r = mission_id))
       (tand (is_kind Claimable r) (status_in [''pending'', ''blocked''] r))"

definition ready_update :: "time \<Rightarrow> task_row \<Rightarrow> task_row" where
  "ready_update now r = r\<lparr>t_status := ''ready'', t_updated_at := now\<rparr>"

fun unblock_loop :: "time \<Rightarrow> str \<Rightarrow> task_row list \<Rightarrow> db \<Rightarrow> db \<times> str list" where
  "unblock_loop now finished_task_id [] d = (d, [])"
| "unblock_loop now finished_task_id (c # cs) d =
     (if finished_task_id \<notin> set (t_depends_on c) then unblock_loop now finished_task_id cs d
      else if deps_satisfied d (t_depends_on c) then
        (let d' = d\<lparr>tasks := update_where (by_key t_id (t_id c)) (ready_update now) (tasks d)\<rparr>;
             (d'', ids) = unblock_loop now finished_task_id cs d' in
         (d'', t_id c # ids))
      else unblock_loop now finished_task_id cs d)"

definition unblock_dependents :: "time \<Rightarrow> db \<Rightarrow> str \<Rightarrow> str \<Rightarrow> db \<times> str list" where
  "unblock_dependents now d mission_id finished_task_id =
     (if \<not> db_up d then (d, [])
      else unblock_loop now finished_task_id (select_where (unblock_candidate mission_id) (tasks d)) d)"

section \<open>The transitions\<close>

datatype task_transition =
    Heartbeat "str option"
  | AppendProgress str str "str option" "str option" str str "str option"
  | Complete "str option" "str option" "int option"
  | Fail "str option" "str option"
  | Block "str option"

text \<open>An outcome carries the row the statement returned; the surfaces render it with row_to_task
  or row_to_progress.\<close>

datatype transition_outcome =
    TaskOutcome task_row "str list"
  | ProgressOutcome progress_row
  | WaitingReview task_row "str list"

definition pending_gate_ids :: "db \<Rightarrow> str \<Rightarrow> str list" where
  "pending_gate_ids d task_id = map g_id (select_where
     (\<lambda>g. tand (tbool (g_mesh_task_id g = task_id)) (tbool (g_status g = ''pending''))) (gates d))"

definition has_pending_gate :: "db \<Rightarrow> str \<Rightarrow> bool" where
  "has_pending_gate d task_id = exists_where
     (\<lambda>g. tand (tbool (g_mesh_task_id g = task_id)) (tbool (g_status g = ''pending''))) (gates d)"

definition effective_id :: "actor \<Rightarrow> str option \<Rightarrow> str" where
  "effective_id ac agent_id =
     (if ac_is_bypass ac then (case agent_id of Some a \<Rightarrow> a | None \<Rightarrow> ac_subject_id ac)
      else ac_subject_id ac)"

definition heartbeat_transition ::
  "db \<Rightarrow> actor \<Rightarrow> time \<Rightarrow> str \<Rightarrow> str option \<Rightarrow> db \<times> (transition_error + transition_outcome)" where
  "heartbeat_transition d ac now task_id claim_lease_id =
     (if \<not> db_up d then (d, Inl (Database ''heartbeat begin tx''))
      else case update_returning (fence_claimable_live claim_lease_id (ac_is_bypass ac) now task_id)
                  (heartbeat_update now) (tasks d) of
        (ts, Some r) \<Rightarrow> (d\<lparr>tasks := ts\<rparr>, Inr (TaskOutcome r []))
      | (ts, None) \<Rightarrow> (d, Inl (classify_fenced_rejection d ac task_id claim_lease_id [])))"

definition next_seq :: "db \<Rightarrow> str \<Rightarrow> int" where
  "next_seq d task_id =
     (let seqs = map p_seq (select_where (\<lambda>e. tbool (p_task_id e = task_id)) (progress d)) in
      (case seqs of [] \<Rightarrow> - 1 | _ \<Rightarrow> Max (set seqs)) + 1)"

definition progress_transition ::
  "db \<Rightarrow> actor \<Rightarrow> time \<Rightarrow> str \<Rightarrow> str \<Rightarrow> str \<Rightarrow> str option \<Rightarrow> str option \<Rightarrow> str \<Rightarrow> str \<Rightarrow> str option \<Rightarrow>
     db \<times> (transition_error + transition_outcome)" where
  "progress_transition d ac now task_id claim_lease_id event_type phase step summary payload_json agent_run_id =
     (if \<not> db_up d then (d, Inl (Database ''progress begin tx''))
      else case fetch_optional (fence_claimable_live (Some claim_lease_id) (ac_is_bypass ac) now task_id) (tasks d) of
        None \<Rightarrow> (d, Inl (classify_fenced_rejection d ac task_id (Some claim_lease_id) []))
      | Some _ \<Rightarrow>
          let e = \<lparr>p_id = int (length (progress d)) + 1, p_task_id = task_id, p_agent_id = ac_subject_id ac,
                    p_seq = next_seq d task_id, p_event_type = event_type, p_phase = phase, p_step = step,
                    p_summary = summary, p_payload_json = payload_json, p_occurred_at = now,
                    p_agent_run_id = agent_run_id\<rparr> in
          (d\<lparr>progress := insert_row e (progress d)\<rparr>, Inr (ProgressOutcome e)))"

definition complete_transition ::
  "db \<Rightarrow> actor \<Rightarrow> time \<Rightarrow> str \<Rightarrow> str option \<Rightarrow> str option \<Rightarrow> int option \<Rightarrow>
     db \<times> (transition_error + transition_outcome)" where
  "complete_transition d ac now task_id claim_lease_id agent_id result_artifact_id =
     (if \<not> db_up d then (d, Inl (Database ''complete update''))
      else let eff = effective_id ac agent_id; pend = has_pending_gate d task_id in
        case update_returning (finish_fence claim_lease_id (ac_is_bypass ac) eff now task_id)
               (complete_update pend result_artifact_id eff now) (tasks d) of
          (ts, None) \<Rightarrow> (d, Inl (classify_fenced_rejection d ac task_id claim_lease_id [''finished'']))
        | (ts, Some r) \<Rightarrow>
            if pend then (d\<lparr>tasks := ts\<rparr>, Inr (WaitingReview r (pending_gate_ids d task_id)))
            else let (d', unblocked) = unblock_dependents now (d\<lparr>tasks := ts\<rparr>) (t_mission_id r) task_id in
              (broadcast_all (t_domain_id r) (t_mission_id r) unblocked d', Inr (TaskOutcome r unblocked)))"

definition fail_transition ::
  "db \<Rightarrow> actor \<Rightarrow> time \<Rightarrow> str \<Rightarrow> str option \<Rightarrow> str option \<Rightarrow>
     db \<times> (transition_error + transition_outcome)" where
  "fail_transition d ac now task_id claim_lease_id agent_id =
     (if \<not> db_up d then (d, Inl (Database ''fail update''))
      else let eff = effective_id ac agent_id in
        case update_returning (finish_fence claim_lease_id (ac_is_bypass ac) eff now task_id)
               (fail_update eff now) (tasks d) of
          (ts, None) \<Rightarrow> (d, Inl (classify_fenced_rejection d ac task_id claim_lease_id [''failed'']))
        | (ts, Some r) \<Rightarrow> (d\<lparr>tasks := ts\<rparr>, Inr (TaskOutcome r [])))"

definition block_transition ::
  "db \<Rightarrow> actor \<Rightarrow> time \<Rightarrow> str \<Rightarrow> str option \<Rightarrow> db \<times> (transition_error + transition_outcome)" where
  "block_transition d ac now task_id claim_lease_id =
     (if \<not> db_up d then (d, Inl (Database ''block update''))
      else case update_returning (block_fence claim_lease_id (ac_is_bypass ac) (ac_subject_id ac) task_id)
                  (block_update now) (tasks d) of
          (ts, None) \<Rightarrow> (d, Inl (classify_fenced_rejection d ac task_id claim_lease_id [''blocked'']))
        | (ts, Some r) \<Rightarrow> (d\<lparr>tasks := ts\<rparr>, Inr (TaskOutcome r [])))"

fun execute_task_transition ::
  "db \<Rightarrow> actor \<Rightarrow> time \<Rightarrow> str \<Rightarrow> task_transition \<Rightarrow> db \<times> (transition_error + transition_outcome)" where
  "execute_task_transition d ac now task_id (Heartbeat l) = heartbeat_transition d ac now task_id l"
| "execute_task_transition d ac now task_id (AppendProgress l ev ph st su pl ar) =
     progress_transition d ac now task_id l ev ph st su pl ar"
| "execute_task_transition d ac now task_id (Complete l a res) = complete_transition d ac now task_id l a res"
| "execute_task_transition d ac now task_id (Fail l a) = fail_transition d ac now task_id l a"
| "execute_task_transition d ac now task_id (Block l) = block_transition d ac now task_id l"

section \<open>Each transition is a fenced compare-and-set\<close>

lemmas fence_defs = fence_claimable_live_def finish_fence_def block_fence_def is_kind_def
  claimed_by_def owned_by_def lease_is_def lease_fresh_def

lemma complete_update_keeps [simp]:
  "t_id (complete_update pend res eff now r) = t_id r"
  "t_mission_id (complete_update pend res eff now r) = t_mission_id r"
  "t_domain_id (complete_update pend res eff now r) = t_domain_id r"
  by (simp_all add: complete_update_def)

interpretation heartbeat_cas: fenced_update t_id "fence_claimable_live l b now" "heartbeat_update now"
  for l b now
  by unfold_locales (auto simp: fence_claimable_live_def heartbeat_update_def)

interpretation complete_cas: fenced_update t_id "finish_fence l b eff now" "complete_update pend res eff now"
  for l b eff now pend res
  by unfold_locales (auto simp: finish_fence_def)

interpretation fail_cas: fenced_update t_id "finish_fence l b eff now" "fail_update eff now"
  for l b eff now
  by unfold_locales (auto simp: finish_fence_def fail_update_def)

interpretation block_cas: fenced_update t_id "block_fence l b sid" "block_update now"
  for l b sid now
  by unfold_locales (auto simp: block_fence_def block_update_def)

lemma deps_of_length:
  assumes "unique_key t_id ts"
  shows "length (filter (\<lambda>r. t_id r \<in> S) ts) = card (S \<inter> t_id ` set ts)"
proof -
  have "distinct (map t_id (filter (\<lambda>r. t_id r \<in> S) ts))"
    using assms by (simp add: unique_key_def distinct_map_filter)
  then have "length (filter (\<lambda>r. t_id r \<in> S) ts) = card (set (map t_id (filter (\<lambda>r. t_id r \<in> S) ts)))"
    by (metis distinct_card length_map)
  also have "set (map t_id (filter (\<lambda>r. t_id r \<in> S) ts)) = S \<inter> t_id ` set ts"
    by auto
  finally show ?thesis .
qed

text \<open>What the dependency check decides: every listed task exists and is finished, and no task is
  listed twice.\<close>

lemma deps_satisfied_iff:
  assumes "keys_ok d"
  shows "deps_satisfied d ds \<longleftrightarrow>
    distinct ds \<and> (\<forall>x\<in>set ds. \<exists>r. task_of d x = Some r \<and> t_status r = ''finished'')"
proof -
  let ?ids = "t_id ` set (tasks d)"
  have uniq: "unique_key t_id (tasks d)"
    using assms by (rule keys_okD)
  have len: "length (filter (\<lambda>r. t_id r \<in> set ds) (tasks d)) = length ds \<longleftrightarrow>
      distinct ds \<and> set ds \<subseteq> ?ids"
  proof
    assume l: "length (filter (\<lambda>r. t_id r \<in> set ds) (tasks d)) = length ds"
    have "card (set ds \<inter> ?ids) \<le> card (set ds)" "card (set ds) \<le> length ds"
      by (auto intro: card_mono card_length)
    with l have "card (set ds) = length ds" "card (set ds \<inter> ?ids) = card (set ds)"
      by (auto simp: deps_of_length [OF uniq])
    then show "distinct ds \<and> set ds \<subseteq> ?ids"
      by (metis List.finite_set card_distinct card_subset_eq inf.absorb_iff1 inf_le1)
  next
    assume "distinct ds \<and> set ds \<subseteq> ?ids"
    then show "length (filter (\<lambda>r. t_id r \<in> set ds) (tasks d)) = length ds"
      by (auto simp: deps_of_length [OF uniq] distinct_card Int_absorb2)
  qed
  have fin: "list_all (\<lambda>r. t_status r = ''finished'') (filter (\<lambda>r. t_id r \<in> set ds) (tasks d)) \<longleftrightarrow>
      (\<forall>r\<in>set (tasks d). t_id r \<in> set ds \<longrightarrow> t_status r = ''finished'')"
    by (auto simp: list_all_iff)
  have all: "set ds \<subseteq> ?ids \<and> (\<forall>r\<in>set (tasks d). t_id r \<in> set ds \<longrightarrow> t_status r = ''finished'') \<longleftrightarrow>
      (\<forall>x\<in>set ds. \<exists>r. task_of d x = Some r \<and> t_status r = ''finished'')"
    using lookup_in_unique [OF uniq] lookup_Some_in [of t_id _ "tasks d"]
    unfolding task_of_def by (fastforce simp: subset_iff image_iff)
  show ?thesis
    unfolding deps_satisfied_def select_where_def Let_def holds_tbool len fin using all by blast
qed

text \<open>The rows unblock_dependents makes ready.\<close>

definition unblocks :: "db \<Rightarrow> str \<Rightarrow> str \<Rightarrow> task_row \<Rightarrow> bool" where
  "unblocks d mission_id finished_task_id r =
     (holds (unblock_candidate mission_id r) \<and> finished_task_id \<in> set (t_depends_on r) \<and>
      deps_satisfied d (t_depends_on r))"

lemma ready_update_simps [simp]:
  "t_id (ready_update now r) = t_id r" "t_status (ready_update now r) = ''ready''"
  "t_depends_on (ready_update now r) = t_depends_on r" "t_kind (ready_update now r) = t_kind r"
  by (simp_all add: ready_update_def)

lemma task_of_update:
  assumes "\<And>r. t_id (f r) = t_id r"
  shows "task_of (d\<lparr>tasks := update_where c f (tasks d)\<rparr>) x =
           map_option (\<lambda>r. if holds (c r) then f r else r) (task_of d x)"
  using assms by (simp add: task_of_def lookup_update_where)

lemma keys_ok_update:
  "(\<And>r. t_id (f r) = t_id r) \<Longrightarrow> keys_ok d \<Longrightarrow> keys_ok (d\<lparr>tasks := update_where c f (tasks d)\<rparr>)"
  by (intro keys_ok_tasks unique_update_where) (auto dest: keys_okD)

lemma deps_satisfied_ready:
  assumes "keys_ok d" "task_of d i = Some c" "t_status c \<noteq> ''finished''"
  shows "deps_satisfied (d\<lparr>tasks := update_where (by_key t_id i) (ready_update now) (tasks d)\<rparr>) ds
         = deps_satisfied d ds"
proof -
  have same: "(\<exists>r. task_of (d\<lparr>tasks := update_where (by_key t_id i) (ready_update now) (tasks d)\<rparr>) x = Some r
        \<and> t_status r = ''finished'') \<longleftrightarrow> (\<exists>r. task_of d x = Some r \<and> t_status r = ''finished'')" for x
  proof (cases "task_of d x")
    case (Some r)
    then have "t_id r = x" by (rule task_of_id)
    then show ?thesis
      using Some assms(2,3) by (cases "x = i") (auto simp: task_of_update)
  qed (simp add: task_of_update)
  show ?thesis
    by (simp add: deps_satisfied_iff assms(1) keys_ok_update same)
qed

lemma unblock_loop_closed:
  assumes "keys_ok d" "\<forall>c\<in>set cs. \<exists>r. task_of d (t_id c) = Some r \<and> t_status r \<noteq> ''finished''"
  shows "unblock_loop now f cs d =
    (let ids = map t_id (filter (\<lambda>c. f \<in> set (t_depends_on c) \<and> deps_satisfied d (t_depends_on c)) cs) in
     (d\<lparr>tasks := update_where (\<lambda>r. tbool (t_id r \<in> set ids)) (ready_update now) (tasks d)\<rparr>, ids))"
  using assms
proof (induction cs arbitrary: d)
  case Nil
  then show ?case by (simp add: update_where_def)
next
  case (Cons c cs)
  show ?case
  proof (cases "f \<in> set (t_depends_on c) \<and> deps_satisfied d (t_depends_on c)")
    case False
    then show ?thesis using Cons by (auto simp: Let_def)
  next
    case True
    let ?d = "d\<lparr>tasks := update_where (by_key t_id (t_id c)) (ready_update now) (tasks d)\<rparr>"
    obtain r where r: "task_of d (t_id c) = Some r" "t_status r \<noteq> ''finished''"
      using Cons.prems(2) by auto
    have keys: "keys_ok ?d"
      using Cons.prems(1) by (intro keys_ok_update) auto
    have rest: "\<forall>x\<in>set cs. \<exists>r. task_of ?d (t_id x) = Some r \<and> t_status r \<noteq> ''finished''"
    proof
      fix x
      assume "x \<in> set cs"
      then obtain q where "task_of d (t_id x) = Some q" "t_status q \<noteq> ''finished''"
        using Cons.prems(2) by auto
      then show "\<exists>r. task_of ?d (t_id x) = Some r \<and> t_status r \<noteq> ''finished''"
        by (cases "t_id q = t_id c") (simp_all add: task_of_update)
    qed
    have sat: "deps_satisfied ?d ds = deps_satisfied d ds" for ds
      by (rule deps_satisfied_ready [OF Cons.prems(1) r])
    let ?ids = "map t_id (filter (\<lambda>c. f \<in> set (t_depends_on c) \<and> deps_satisfied d (t_depends_on c)) cs)"
    have loop: "unblock_loop now f cs ?d =
        (?d\<lparr>tasks := update_where (\<lambda>r. tbool (t_id r \<in> set ?ids)) (ready_update now) (tasks ?d)\<rparr>, ?ids)"
      unfolding Cons.IH [OF keys rest] by (simp only: Let_def sat)
    have twice: "update_where (\<lambda>r. tbool (t_id r \<in> set ?ids)) (ready_update now)
          (update_where (by_key t_id (t_id c)) (ready_update now) (tasks d)) =
        update_where (\<lambda>r. tbool (t_id r \<in> set (t_id c # ?ids))) (ready_update now) (tasks d)"
      by (auto simp: update_where_def ready_update_def)
    have step: "unblock_loop now f (c # cs) d =
        (let (d'', ids) = unblock_loop now f cs ?d in (d'', t_id c # ids))"
      using True by (simp add: Let_def)
    show ?thesis
      unfolding step loop Let_def case_prod_conv using True twice by simp
  qed
qed

text \<open>Closed form: unblock_dependents is one simultaneous update of the rows it unblocks.\<close>

definition unblock_all :: "time \<Rightarrow> db \<Rightarrow> str \<Rightarrow> str \<Rightarrow> db" where
  "unblock_all now d m f =
     d\<lparr>tasks := update_where (\<lambda>r. tbool (unblocks d m f r)) (ready_update now) (tasks d)\<rparr>"

lemma unblock_dependents_closed:
  assumes "keys_ok d" "db_up d"
  shows "unblock_dependents now d m f =
           (unblock_all now d m f, map t_id (filter (unblocks d m f) (tasks d)))"
proof -
  let ?cs = "select_where (unblock_candidate m) (tasks d)"
  have uniq: "unique_key t_id (tasks d)"
    using assms(1) by (rule keys_okD)
  have cand: "\<forall>c\<in>set ?cs. \<exists>r. task_of d (t_id c) = Some r \<and> t_status r \<noteq> ''finished''"
    using lookup_in_unique [OF uniq]
    by (fastforce simp: select_where_def task_of_def unblock_candidate_def)
  have ids: "filter (\<lambda>c. f \<in> set (t_depends_on c) \<and> deps_satisfied d (t_depends_on c)) ?cs =
      filter (unblocks d m f) (tasks d)"
    by (auto simp: select_where_def unblocks_def intro: filter_cong)
  have rows: "update_where (\<lambda>r. tbool (t_id r \<in> set (map t_id (filter (unblocks d m f) (tasks d)))))
      (ready_update now) (tasks d) = update_where (\<lambda>r. tbool (unblocks d m f r)) (ready_update now) (tasks d)"
    unfolding update_where_def
  proof (rule map_cong [OF refl])
    fix r
    assume "r \<in> set (tasks d)"
    then have "t_id r \<in> t_id ` set (filter (unblocks d m f) (tasks d)) \<longleftrightarrow> unblocks d m f r"
      using lookup_in_unique [OF uniq] by (auto simp: image_iff) (metis option.inject)
    then show "(if holds (tbool (t_id r \<in> set (map t_id (filter (unblocks d m f) (tasks d)))))
        then ready_update now r else r) = (if holds (tbool (unblocks d m f r)) then ready_update now r else r)"
      by simp
  qed
  show ?thesis
    using assms(2) unblock_loop_closed [OF assms(1) cand, of now f]
    unfolding unblock_dependents_def Let_def ids rows unblock_all_def by simp
qed

lemma unblock_all_simps [simp]:
  "gates (unblock_all now d m f) = gates d" "progress (unblock_all now d m f) = progress d"
  "db_up (unblock_all now d m f) = db_up d" "domains (unblock_all now d m f) = domains d"
  "missions (unblock_all now d m f) = missions d" "notices (unblock_all now d m f) = notices d"
  by (simp_all add: unblock_all_def)

lemma task_of_unblock_all:
  "task_of (unblock_all now d m f) x =
     map_option (\<lambda>r. if unblocks d m f r then ready_update now r else r) (task_of d x)"
  unfolding unblock_all_def by (subst task_of_update) (simp_all add: ready_update_def)

section \<open>Who may make a transition\<close>

fun presented_lease :: "task_transition \<Rightarrow> str option" where
  "presented_lease (Heartbeat l) = l"
| "presented_lease (AppendProgress l ev ph st su pl ar) = Some l"
| "presented_lease (Complete l a res) = l"
| "presented_lease (Fail l a) = l"
| "presented_lease (Block l) = l"

fun already_done :: "task_transition \<Rightarrow> str list" where
  "already_done (Complete l a res) = [''finished'']"
| "already_done (Fail l a) = [''failed'']"
| "already_done (Block l) = [''blocked'']"
| "already_done tr = []"

fun transition_fence :: "actor \<Rightarrow> time \<Rightarrow> str \<Rightarrow> task_transition \<Rightarrow> task_row \<Rightarrow> tri" where
  "transition_fence ac now tid (Complete l a res) =
     finish_fence l (ac_is_bypass ac) (effective_id ac a) now tid"
| "transition_fence ac now tid (Fail l a) = finish_fence l (ac_is_bypass ac) (effective_id ac a) now tid"
| "transition_fence ac now tid (Block l) = block_fence l (ac_is_bypass ac) (ac_subject_id ac) tid"
| "transition_fence ac now tid tr = fence_claimable_live (presented_lease tr) (ac_is_bypass ac) now tid"

lemma transition_fence_id: "holds (transition_fence ac now tid tr r) \<Longrightarrow> t_id r = tid"
  by (cases tr) (auto simp: fence_defs)

definition passes_fence :: "db \<Rightarrow> actor \<Rightarrow> time \<Rightarrow> str \<Rightarrow> task_transition \<Rightarrow> bool" where
  "passes_fence d ac now tid tr =
     (db_up d \<and> (\<exists>r. task_of d tid = Some r \<and> holds (transition_fence ac now tid tr r)))"

lemma fence_find:
  assumes "keys_ok d"
  shows "find (\<lambda>r. holds (transition_fence ac now tid tr r)) (tasks d) =
    (case task_of d tid of None \<Rightarrow> None
     | Some r \<Rightarrow> if holds (transition_fence ac now tid tr r) then Some r else None)"
  unfolding task_of_def
  by (rule find_fence) (use assms in \<open>auto dest: keys_okD transition_fence_id\<close>)

lemma transition_rejected:
  assumes "snd (execute_task_transition d ac now tid tr) = Inl e"
  shows "fst (execute_task_transition d ac now tid tr) = d \<and>
    (db_up d \<longrightarrow> e = classify_fenced_rejection d ac tid (presented_lease tr) (already_done tr))"
  using assms
  by (cases tr)
    (auto simp: heartbeat_transition_def progress_transition_def complete_transition_def
      fail_transition_def block_transition_def Let_def
      split: prod.splits option.splits if_splits)

lemma transition_accepted_iff:
  assumes "keys_ok d"
  shows "(\<exists>out. snd (execute_task_transition d ac now tid tr) = Inr out) \<longleftrightarrow> passes_fence d ac now tid tr"
  using fence_find [OF assms, of ac now tid tr]
  by (cases tr)
    (auto simp: heartbeat_transition_def progress_transition_def complete_transition_def
      fail_transition_def block_transition_def Let_def passes_fence_def fetch_optional_def
      update_returning_find split: option.splits if_splits prod.splits)

lemma no_authority_no_pass:
  assumes "\<not> ac_is_bypass ac"
    and "\<And>r. task_of d tid = Some r \<Longrightarrow> t_claimed_by r \<noteq> Some (ac_subject_id ac)
           \<and> t_owner r \<noteq> Some (ac_subject_id ac)
           \<and> (presented_lease tr = None \<or> t_claim_lease_id r \<noteq> presented_lease tr)"
  shows "\<not> passes_fence d ac now tid tr"
  using assms by (cases tr) (auto simp: passes_fence_def fence_defs effective_id_def)

lemma no_pass_rejected:
  assumes "keys_ok d" "\<not> passes_fence d ac now tid tr"
  shows "\<exists>e. execute_task_transition d ac now tid tr = (d, Inl e)"
proof -
  obtain e where "snd (execute_task_transition d ac now tid tr) = Inl e"
    using transition_accepted_iff [OF assms(1)] assms(2) by (metis sum.exhaust)
  then show ?thesis
    using transition_rejected by (metis prod.collapse)
qed

text \<open>The effect of an accepted transition.\<close>

lemma heartbeat_accepted:
  assumes "keys_ok d" "task_of d tid = Some r" "passes_fence d ac now tid (Heartbeat l)"
  shows "heartbeat_transition d ac now tid l =
    (set_row d tid (heartbeat_update now), Inr (TaskOutcome (heartbeat_update now r) []))"
  using assms heartbeat_cas.cas_hit [OF keys_okD(1) [OF assms(1)], of tid r l "ac_is_bypass ac" now]
  by (simp add: heartbeat_transition_def passes_fence_def task_of_def set_row_def)

lemma complete_accepted:
  assumes "keys_ok d" "task_of d tid = Some r" "passes_fence d ac now tid (Complete l a res)"
  shows "complete_transition d ac now tid l a res =
    (let eff = effective_id ac a; pend = has_pending_gate d tid;
         d1 = set_row d tid (complete_update pend res eff now); r' = complete_update pend res eff now r in
     if pend then (d1, Inr (WaitingReview r' (pending_gate_ids d tid)))
     else (let ids = map t_id (filter (unblocks d1 (t_mission_id r) tid) (tasks d1)) in
       (broadcast_all (t_domain_id r) (t_mission_id r) ids (unblock_all now d1 (t_mission_id r) tid),
        Inr (TaskOutcome r' ids))))"
proof -
  let ?f = "complete_update (has_pending_gate d tid) res (effective_id ac a) now"
  have hit: "update_returning (finish_fence l (ac_is_bypass ac) (effective_id ac a) now tid) ?f (tasks d)
      = (update_where (by_key t_id tid) ?f (tasks d), Some (?f r))"
    using assms
    by (intro complete_cas.cas_hit) (auto simp: passes_fence_def task_of_def dest: keys_okD)
  have keys: "keys_ok (set_row d tid ?f)"
    using assms(1) by (intro keys_ok_set_row) simp_all
  have up: "db_up d"
    using assms(3) by (simp add: passes_fence_def)
  show ?thesis
    using up unblock_dependents_closed [OF keys, of now "t_mission_id r" tid]
    unfolding complete_transition_def Let_def hit
    by (cases "has_pending_gate d tid") (simp_all add: set_row_def [symmetric])
qed

lemma fail_accepted:
  assumes "keys_ok d" "task_of d tid = Some r" "passes_fence d ac now tid (Fail l a)"
  shows "fail_transition d ac now tid l a =
    (set_row d tid (fail_update (effective_id ac a) now),
     Inr (TaskOutcome (fail_update (effective_id ac a) now r) []))"
  using assms fail_cas.cas_hit [OF keys_okD(1) [OF assms(1)], of tid r l "ac_is_bypass ac" "effective_id ac a" now]
  by (simp add: fail_transition_def passes_fence_def task_of_def set_row_def Let_def)

lemma block_accepted:
  assumes "keys_ok d" "task_of d tid = Some r" "passes_fence d ac now tid (Block l)"
  shows "block_transition d ac now tid l =
    (set_row d tid (block_update now), Inr (TaskOutcome (block_update now r) []))"
  using assms block_cas.cas_hit [OF keys_okD(1) [OF assms(1)], of tid r l "ac_is_bypass ac" "ac_subject_id ac" now]
  by (simp add: block_transition_def passes_fence_def task_of_def set_row_def)

lemma progress_accepted:
  assumes "keys_ok d" "task_of d tid = Some r" "passes_fence d ac now tid (AppendProgress l ev ph st su pl ar)"
  shows "\<exists>e. progress_transition d ac now tid l ev ph st su pl ar =
      (d\<lparr>progress := progress d @ [e]\<rparr>, Inr (ProgressOutcome e)) \<and>
    p_task_id e = tid \<and> p_seq e = next_seq d tid \<and> p_agent_id e = ac_subject_id ac \<and>
    p_event_type e = ev \<and> p_summary e = su \<and> p_occurred_at e = now"
  using assms fence_find [OF assms(1), of ac now tid "AppendProgress l ev ph st su pl ar"]
  by (simp add: progress_transition_def passes_fence_def fetch_optional_def insert_row_def Let_def)

lemmas accepted_effects = heartbeat_accepted complete_accepted fail_accepted block_accepted

text \<open>C1: no authority, no effect. A caller without the full-trust or admin bypass, that is neither
  the recorded claimer nor the recorded owner of the task and does not present its current lease,
  changes nothing by any of the five transitions, whatever the claim policy (broadcast included),
  the clock and the body: the database is left as it was and an error comes back.\<close>

theorem no_authority_no_effect:
  assumes "keys_ok d" "\<not> ac_is_bypass ac"
    and "\<And>r. task_of d tid = Some r \<Longrightarrow> t_claimed_by r \<noteq> Some (ac_subject_id ac)
           \<and> t_owner r \<noteq> Some (ac_subject_id ac)
           \<and> (presented_lease tr = None \<or> t_claim_lease_id r \<noteq> presented_lease tr)"
  shows "\<exists>e. execute_task_transition d ac now tid tr = (d, Inl e)"
  using no_pass_rejected [OF assms(1) no_authority_no_pass [OF assms(2,3)]] .

definition agent_actor :: "str \<Rightarrow> actor" where
  "agent_actor a = \<lparr>ac_subject = ''agent:'' @ a, ac_subject_id = a, ac_is_bypass = False, ac_is_admin = False\<rparr>"

lemma no_authority_no_effect_witness:
  "\<exists>e. execute_task_transition (sample_db [(sample_claimed ''t1'')\<lparr>t_claim_policy := Some ''broadcast''\<rparr>] [])
     (agent_actor ''mallory'') 5 ''t1'' (Heartbeat (Some ''guess'')) =
     (sample_db [(sample_claimed ''t1'')\<lparr>t_claim_policy := Some ''broadcast''\<rparr>] [], Inl e)"
  by (rule no_authority_no_effect)
    (auto simp: sample_db_def sample_claimed_def sample_task_def agent_actor_def keys_ok_def
      unique_key_def task_of_def lookup_Cons)

text \<open>C11: a refused transition leaves the database as it was and names the reason. With the database
  up it is NotFound exactly when the task does not exist; Forbidden only for a caller without bypass
  that presented no lease and is on record neither as claimer, owner nor finalizer, and never when
  the task already has the status the transition leads to; anything else is Conflict.\<close>

theorem refused_transition_classified:
  assumes "snd (execute_task_transition d ac now tid tr) = Inl e" "db_up d"
  shows "fst (execute_task_transition d ac now tid tr) = d
    \<and> (e = NotFound \<longleftrightarrow> task_of d tid = None)
    \<and> (e = Forbidden \<longleftrightarrow> (\<exists>r. task_of d tid = Some r \<and> \<not> ac_is_bypass ac \<and> presented_lease tr = None
         \<and> t_status r \<notin> set (already_done tr) \<and> t_claimed_by r \<noteq> Some (ac_subject_id ac)
         \<and> t_owner r \<noteq> Some (ac_subject_id ac) \<and> t_finalized_by r \<noteq> Some (ac_subject_id ac)))
    \<and> e \<in> {NotFound, Forbidden, Conflict}"
  using transition_rejected [OF assms(1)] assms(2)
  by (auto simp: classify_fenced_rejection_def task_of_def Let_def split: option.splits)

lemma refused_transition_classified_witness:
  "fst (execute_task_transition (sample_db [] []) (agent_actor ''w7'') 5 ''t1'' (Block None)) = sample_db [] []
   \<and> task_of (sample_db [] []) ''t1'' = None"
proof -
  have e: "snd (execute_task_transition (sample_db [] []) (agent_actor ''w7'') 5 ''t1'' (Block None)) = Inl NotFound"
    and up: "db_up (sample_db [] [])"
    by code_simp+
  show ?thesis
    using refused_transition_classified [OF e up] by simp
qed

lemma pending_gate_iff:
  "has_pending_gate d tid \<longleftrightarrow> pending_gate_ids d tid \<noteq> []"
  by (auto simp: has_pending_gate_def pending_gate_ids_def exists_where_def select_where_def
      list_ex_iff filter_empty_conv)

text \<open>C5: completing a task respects its review gates. When complete is accepted on a task with a
  pending gate, the task goes to waiting_review and every other column keeps its value (the lease,
  the claimer and also the previous result artifact, the submitted one being dropped), no other
  task changes, and the pending gates are reported. With no pending gate the task is finished, its
  lease and claimer are cleared, the submitted artifact is stored and the finalizer is the claimer
  on record, else the caller; a second complete by anyone is then refused with Conflict and
  changes nothing.\<close>

theorem complete_respects_gates:
  assumes "keys_ok d" "task_of d tid = Some r" "passes_fence d ac now tid (Complete l a res)"
    and "execute_task_transition d ac now tid (Complete l a res) = (d', out)"
  shows "(pending_gate_ids d tid \<noteq> [] \<longrightarrow>
      out = Inr (WaitingReview (r\<lparr>t_status := ''waiting_review'', t_updated_at := now\<rparr>) (pending_gate_ids d tid))
      \<and> (\<forall>x. task_of d' x = (if x = tid then Some (r\<lparr>t_status := ''waiting_review'', t_updated_at := now\<rparr>)
                              else task_of d x)))
    \<and> (pending_gate_ids d tid = [] \<longrightarrow>
      (\<exists>r' ids. out = Inr (TaskOutcome r' ids) \<and> task_of d' tid = Some r' \<and> t_status r' = ''finished''
        \<and> t_claim_lease_id r' = None \<and> t_claimed_by r' = None \<and> t_lease_expires_at r' = None
        \<and> t_result_artifact_id r' = res \<and> t_finalized_at r' = Some now
        \<and> t_finalized_by r' = (case t_claimed_by r of Some c \<Rightarrow> Some c | None \<Rightarrow> Some (effective_id ac a)))
      \<and> (\<forall>ac2 now2 l2 a2 res2. execute_task_transition d' ac2 now2 tid (Complete l2 a2 res2) = (d', Inl Conflict)))
    \<and> gates d' = gates d \<and> progress d' = progress d"
proof -
  let ?eff = "effective_id ac a"
  let ?f = "complete_update (has_pending_gate d tid) res ?eff now"
  let ?d1 = "set_row d tid ?f"
  note out = assms(4) [unfolded execute_task_transition.simps complete_accepted [OF assms(1-3)] Let_def]
  have d1: "task_of ?d1 x = (if x = tid then Some (?f r) else task_of d x)" for x
    using assms(2) by (simp add: task_of_set_row)
  have pending: ?thesis if "has_pending_gate d tid"
    using that out d1 by (auto simp: pending_gate_iff [symmetric] complete_update_def)
  have finished: ?thesis if clear: "\<not> has_pending_gate d tid"
  proof -
    let ?ids = "map t_id (filter (unblocks ?d1 (t_mission_id r) tid) (tasks ?d1))"
    have d': "d' = broadcast_all (t_domain_id r) (t_mission_id r) ?ids (unblock_all now ?d1 (t_mission_id r) tid)"
      and o: "out = Inr (TaskOutcome (?f r) ?ids)"
      using out clear by auto
    have keys: "keys_ok d'"
      unfolding d' keys_ok_broadcast unblock_all_def
      using assms(1) by (intro keys_ok_update keys_ok_set_row) simp_all
    have up: "db_up d'"
      using assms(3) by (simp add: d' passes_fence_def unblock_all_def)
    have row: "task_of d' tid = Some (?f r)"
      unfolding d' task_of_broadcast task_of_unblock_all d1
      by (simp add: clear complete_update_def unblocks_def unblock_candidate_def)
    have again: "execute_task_transition d' ac2 now2 tid (Complete l2 a2 res2) = (d', Inl Conflict)"
      for ac2 now2 l2 a2 res2
    proof -
      have "\<not> passes_fence d' ac2 now2 tid (Complete l2 a2 res2)"
        using row clear by (auto simp: passes_fence_def fence_defs complete_update_def)
      then obtain e where e: "snd (execute_task_transition d' ac2 now2 tid (Complete l2 a2 res2)) = Inl e"
        using transition_accepted_iff [OF keys] by (metis sum.exhaust)
      moreover have "classify_fenced_rejection d' ac2 tid l2 [''finished''] = Conflict"
        using row clear up by (simp add: classify_fenced_rejection_def task_of_def complete_update_def)
      ultimately show ?thesis
        using transition_rejected [OF e] up by (metis already_done.simps(1) presented_lease.simps(3) prod.collapse)
    qed
    have rest: "gates d' = gates d" "progress d' = progress d"
      by (simp_all add: d' unblock_all_def)
    show ?thesis
      using clear o row again rest
      by (auto simp: pending_gate_iff [symmetric] complete_update_def split: option.splits)
  qed
  show ?thesis
    using pending finished by blast
qed

lemma complete_respects_gates_witness:
  "\<exists>r'. snd (execute_task_transition (sample_db [sample_claimed ''t1''] []) (agent_actor ''w7'') 5 ''t1''
        (Complete None None (Some 9))) = Inr (TaskOutcome r' []) \<and> t_result_artifact_id r' = Some 9"
proof -
  let ?d = "sample_db [sample_claimed ''t1''] []"
  let ?run = "execute_task_transition ?d (agent_actor ''w7'') 5 ''t1'' (Complete None None (Some 9))"
  have keys: "keys_ok ?d" and row: "task_of ?d ''t1'' = Some (sample_claimed ''t1'')"
    and clear: "pending_gate_ids ?d ''t1'' = []"
    by (code_simp)+
  have pass: "passes_fence ?d (agent_actor ''w7'') 5 ''t1'' (Complete None None (Some 9))"
    unfolding passes_fence_def row
    by (simp add: sample_db_def sample_claimed_def sample_task_def agent_actor_def fence_defs
        effective_id_def)
  have none: "snd ?run = Inr (TaskOutcome (complete_update False (Some 9) ''w7'' 5 (sample_claimed ''t1'')) [])"
    by code_simp
  obtain d' out where run: "?run = (d', out)"
    by (cases ?run)
  show ?thesis
    using complete_respects_gates [OF keys row pass run] clear none run by auto
qed

end
