(* ===== verification/Work_Deps.thy ===== *)
theory Work_Deps
  imports Task_Transitions "HOL-Library.While_Combinator"
begin

text \<open>
  The dependency helpers of routes/work.rs: detect_cycle, the iterative depth-first search over
  the claimable tasks of a mission, compute_initial_status, and what unblock_dependents does. The
  search is a while loop over an explicit colour map (0 white, 1 grey, 2 black) and stack, as in
  the code; it is shown to return on every input, and to answer whether a cycle is reachable.
\<close>

section \<open>The search\<close>

type_synonym graph = "str \<Rightarrow> str list"
type_synonym dfs_state = "(str \<Rightarrow> nat) \<times> (str \<times> nat) list \<times> bool"

definition dependency_graph :: "db \<Rightarrow> str \<Rightarrow> str \<Rightarrow> str list \<Rightarrow> graph" where
  "dependency_graph d mission_id new_id depends_on =
     (fold (\<lambda>r adj. adj(t_id r := t_depends_on r))
        (select_where (\<lambda>r. tand (tbool (t_mission_id r = mission_id)) (is_kind Claimable r)) (tasks d))
        (\<lambda>_. []))(new_id := depends_on)"

fun dfs_step :: "graph \<Rightarrow> dfs_state \<Rightarrow> dfs_state" where
  "dfs_step adj (color, (node, idx) # rest, found) =
     (let neighbors = adj node in
      if idx \<ge> length neighbors then (color(node := 2), rest, False)
      else let nb = neighbors ! idx; s = color nb in
        if s = 1 then (color, (node, Suc idx) # rest, True)
        else if s = 0 then (color(nb := 1), (nb, 0) # (node, Suc idx) # rest, False)
        else (color, (node, Suc idx) # rest, False))"
| "dfs_step adj (color, [], found) = (color, [], found)"

definition dfs_running :: "dfs_state \<Rightarrow> bool" where
  "dfs_running s = (case s of (color, stack, found) \<Rightarrow> stack \<noteq> [] \<and> \<not> found)"

definition dfs_start :: "str \<Rightarrow> dfs_state" where
  "dfs_start new_id = ((\<lambda>_. 0)(new_id := 1), [(new_id, 0)], False)"

definition dfs :: "graph \<Rightarrow> str \<Rightarrow> bool option" where
  "dfs adj new_id = map_option (\<lambda>(color, stack, found). found)
     (while_option dfs_running (dfs_step adj) (dfs_start new_id))"

definition detect_cycle :: "db \<Rightarrow> str \<Rightarrow> str \<Rightarrow> str list \<Rightarrow> (deny + bool) option" where
  "detect_cycle d mission_id new_id depends_on =
     (if \<not> db_up d then Some (Inl internal_error)
      else map_option Inr (dfs (dependency_graph d mission_id new_id depends_on) new_id))"

definition compute_initial_status :: "db \<Rightarrow> str list \<Rightarrow> str" where
  "compute_initial_status d depends_on =
     (if depends_on = [] then ''ready''
      else if db_up d \<and> deps_satisfied d depends_on then ''ready'' else ''pending'')"

section \<open>Correctness of the search\<close>

definition edges :: "graph \<Rightarrow> (str \<times> str) set" where
  "edges adj = {(a, b). b \<in> set (adj a)}"

definition cycle_from :: "graph \<Rightarrow> str \<Rightarrow> bool" where
  "cycle_from adj n = (\<exists>x. (n, x) \<in> (edges adj)\<^sup>* \<and> (x, x) \<in> (edges adj)\<^sup>+)"

fun linked :: "graph \<Rightarrow> (str \<times> nat) list \<Rightarrow> bool" where
  "linked adj ((n, i) # (p, j) # rest) =
     (0 < j \<and> j \<le> length (adj p) \<and> adj p ! (j - 1) = n \<and> linked adj ((p, j) # rest))"
| "linked adj _ = True"

definition examined :: "graph \<Rightarrow> (str \<Rightarrow> nat) \<Rightarrow> (str \<times> nat) list \<Rightarrow> bool" where
  "examined adj c stack = (case stack of [] \<Rightarrow> True
     | (n, i) # rest \<Rightarrow> i \<le> length (adj n) \<and> (\<forall>k<i. c (adj n ! k) = 2) \<and>
         (\<forall>(p, j)\<in>set rest. \<forall>k<j - 1. c (adj p ! k) = 2))"

definition black_closed :: "graph \<Rightarrow> (str \<Rightarrow> nat) \<Rightarrow> bool" where
  "black_closed adj c = (\<forall>n. c n = 2 \<longrightarrow> (\<forall>s\<in>set (adj n). c s = 2) \<and> (n, n) \<notin> (edges adj)\<^sup>+)"

definition dfs_inv :: "graph \<Rightarrow> str \<Rightarrow> dfs_state \<Rightarrow> bool" where
  "dfs_inv adj r s = (case s of (c, stack, found) \<Rightarrow>
     (\<forall>n. c n = 1 \<longleftrightarrow> n \<in> fst ` set stack) \<and> distinct (map fst stack) \<and> (\<forall>n. c n \<le> 2) \<and>
     linked adj stack \<and> (\<not> found \<longrightarrow> examined adj c stack) \<and> black_closed adj c \<and>
     (\<forall>n. c n \<noteq> 0 \<longrightarrow> (r, n) \<in> (edges adj)\<^sup>*) \<and> c r \<noteq> 0 \<and> (found \<longrightarrow> cycle_from adj r))"

lemma black_reach:
  assumes "(n, m) \<in> (edges adj)\<^sup>*" "c n = 2" "black_closed adj c"
  shows "c m = 2"
  using assms by (induction rule: rtrancl_induct) (auto simp: black_closed_def edges_def)

lemma linked_path:
  assumes "linked adj ((n, i) # rest)" "x \<in> fst ` set ((n, i) # rest)"
  shows "(x, n) \<in> (edges adj)\<^sup>*"
  using assms
proof (induction rest arbitrary: n i)
  case (Cons q rest)
  obtain p j where q: "q = (p, j)" by (cases q)
  have edge: "(p, n) \<in> edges adj"
    using Cons.prems(1) unfolding q edges_def by (auto intro: nth_mem)
  show ?case
  proof (cases "x = n")
    case False
    then have "(x, p) \<in> (edges adj)\<^sup>*"
      using Cons unfolding q by auto
    then show ?thesis using edge by (rule rtrancl_into_rtrancl)
  qed simp
qed auto

lemma inv_top:
  assumes "dfs_inv adj r (c, (n, i) # rest, found)"
  shows "c n = 1" "(r, n) \<in> (edges adj)\<^sup>*"
proof -
  show grey: "c n = 1" using assms by (auto simp: dfs_inv_def)
  have "\<forall>n. c n \<noteq> 0 \<longrightarrow> (r, n) \<in> (edges adj)\<^sup>*" using assms by (auto simp: dfs_inv_def)
  then show "(r, n) \<in> (edges adj)\<^sup>*" using grey by simp
qed

lemma inv_start: "dfs_inv adj r (dfs_start r)"
  by (auto simp: dfs_inv_def dfs_start_def examined_def black_closed_def)

lemma inv_pop:
  assumes inv: "dfs_inv adj r (c, (n, i) # rest, False)" and done_: "length (adj n) \<le> i"
  shows "dfs_inv adj r (c(n := 2), rest, False)"
proof -
  note grey = inv_top(1) [OF inv] and reach = inv_top(2) [OF inv]
  have bc: "black_closed adj c"
    and ex: "examined adj c ((n, i) # rest)" and ln: "linked adj ((n, i) # rest)"
    using inv by (auto simp: dfs_inv_def)
  have succ: "\<forall>s\<in>set (adj n). c s = 2"
    using ex done_ by (auto simp: examined_def in_set_conv_nth)
  have no_return: "(n, n) \<notin> (edges adj)\<^sup>+"
  proof
    assume "(n, n) \<in> (edges adj)\<^sup>+"
    then obtain s where "(n, s) \<in> edges adj" "(s, n) \<in> (edges adj)\<^sup>*"
      by (meson tranclD)
    then show False
      using succ grey black_reach [OF _ _ bc] by (fastforce simp: edges_def)
  qed
  have "black_closed adj (c(n := 2))"
    using bc succ no_return by (auto simp: black_closed_def)
  moreover have "examined adj (c(n := 2)) rest"
  proof (cases rest)
    case (Cons q rest')
    obtain p j where q: "q = (p, j)" by (cases q)
    have j: "0 < j" "j \<le> length (adj p)" "adj p ! (j - 1) = n"
      using ln by (auto simp: Cons q)
    have "(c(n := 2)) (adj p ! k) = 2" if "k < j" for k
      using that j ex by (cases "k = j - 1") (auto simp: Cons q examined_def)
    then show ?thesis
      using j ex by (auto simp: Cons q examined_def)
  qed (simp add: examined_def)
  moreover have "linked adj rest"
    using ln by (cases rest) auto
  ultimately show ?thesis
    using inv reach by (auto simp: dfs_inv_def)
qed

lemma inv_next:
  assumes inv: "dfs_inv adj r (c, (n, i) # rest, False)" and i: "i < length (adj n)"
  shows "c (adj n ! i) = 1 \<Longrightarrow> dfs_inv adj r (c, (n, Suc i) # rest, True)"
    and "c (adj n ! i) = 0 \<Longrightarrow> dfs_inv adj r (c(adj n ! i := 1), (adj n ! i, 0) # (n, Suc i) # rest, False)"
    and "c (adj n ! i) = 2 \<Longrightarrow> dfs_inv adj r (c, (n, Suc i) # rest, False)"
proof -
  let ?nb = "adj n ! i"
  have edge: "(n, ?nb) \<in> edges adj"
    using i by (simp add: edges_def)
  note reach = inv_top(2) [OF inv]
  have ln: "linked adj ((n, i) # rest)"
    and ex: "examined adj c ((n, i) # rest)"
    using inv by (auto simp: dfs_inv_def)
  have reach': "(r, ?nb) \<in> (edges adj)\<^sup>*"
    using reach edge by (rule rtrancl_into_rtrancl)
  have ln': "linked adj ((n, Suc i) # rest)"
    using ln by (cases rest) auto
  {
    assume "c ?nb = 1"
    then have "?nb \<in> fst ` set ((n, i) # rest)"
      using inv by (auto simp: dfs_inv_def)
    then have "(?nb, n) \<in> (edges adj)\<^sup>*"
      by (rule linked_path [OF ln])
    then have "(?nb, ?nb) \<in> (edges adj)\<^sup>+"
      using edge by (rule rtrancl_into_trancl1)
    then have "cycle_from adj r"
      using reach' by (auto simp: cycle_from_def)
    then show "dfs_inv adj r (c, (n, Suc i) # rest, True)"
      using inv ln' by (auto simp: dfs_inv_def)
  }
  {
    assume white: "c ?nb = 0"
    have new: "?nb \<noteq> n"
      using white inv_top(1) [OF inv] by auto
    have "\<forall>x. c x = 1 \<longleftrightarrow> x \<in> fst ` set ((n, i) # rest)"
      using inv by (auto simp: dfs_inv_def)
    then have "?nb \<notin> fst ` set ((n, i) # rest)"
      using white by (metis zero_neq_one)
    moreover have "examined adj (c(?nb := 1)) ((?nb, 0) # (n, Suc i) # rest)"
      using ex white i by (fastforce simp: examined_def)
    moreover have "black_closed adj (c(?nb := 1))"
      using inv white by (fastforce simp: dfs_inv_def black_closed_def)
    ultimately show "dfs_inv adj r (c(?nb := 1), (?nb, 0) # (n, Suc i) # rest, False)"
      using inv ln' reach' i white new by (auto simp: dfs_inv_def)
  }
  {
    assume black: "c ?nb = 2"
    then have "examined adj c ((n, Suc i) # rest)"
      using ex i by (auto simp: examined_def less_Suc_eq)
    then show "dfs_inv adj r (c, (n, Suc i) # rest, False)"
      using inv ln' by (auto simp: dfs_inv_def)
  }
qed

lemma inv_step:
  fixes s :: dfs_state
  assumes "dfs_inv adj r s" "dfs_running s"
  shows "dfs_inv adj r (dfs_step adj s)"
proof -
  obtain c n i rest where s: "s = (c, (n, i) # rest, False)"
    using assms(2) by (cases s; cases "fst (snd s)") (auto simp: dfs_running_def)
  have color: "c (adj n ! i) = 0 \<or> c (adj n ! i) = 1 \<or> c (adj n ! i) = 2"
  proof -
    have "c (adj n ! i) \<le> 2"
      using assms(1) by (auto simp: s dfs_inv_def)
    then show ?thesis by arith
  qed
  show ?thesis
  proof (cases "i < length (adj n)")
    case True
    then show ?thesis
      using color inv_next [OF assms(1) [unfolded s]] unfolding s by (auto simp: Let_def)
  next
    case False
    then show ?thesis
      using inv_pop [OF assms(1) [unfolded s]] unfolding s by (simp add: Let_def)
  qed
qed

section \<open>Termination\<close>

definition node_bound :: "graph \<Rightarrow> str \<Rightarrow> str set" where
  "node_bound adj r = insert r (\<Union>n\<in>{n. adj n \<noteq> []}. set (adj n))"

definition finite_graph :: "graph \<Rightarrow> bool" where
  "finite_graph adj = finite {n. adj n \<noteq> []}"

lemma finite_node_bound: "finite_graph adj \<Longrightarrow> finite (node_bound adj r)"
  by (auto simp: finite_graph_def node_bound_def)

definition white_work :: "graph \<Rightarrow> str \<Rightarrow> (str \<Rightarrow> nat) \<Rightarrow> nat" where
  "white_work adj r c = (\<Sum>n\<in>{n\<in>node_bound adj r. c n = 0}. length (adj n) + 2)"

definition dfs_measure :: "graph \<Rightarrow> str \<Rightarrow> dfs_state \<Rightarrow> nat" where
  "dfs_measure adj r s = (case s of (c, stack, found) \<Rightarrow>
     white_work adj r c + sum_list (map (\<lambda>(n, i). length (adj n) - i + 1) stack))"

lemma white_work_visit:
  assumes "finite_graph adj" "n \<in> node_bound adj r" "c n = 0" "v \<noteq> 0"
  shows "white_work adj r c = white_work adj r (c(n := v)) + (length (adj n) + 2)"
proof -
  have "{m\<in>node_bound adj r. c m = 0} = insert n {m\<in>node_bound adj r. (c(n := v)) m = 0}"
    using assms by auto
  then show ?thesis
    using assms finite_node_bound [OF assms(1), of r] by (simp add: white_work_def)
qed

lemma white_work_same: "c n \<noteq> 0 \<Longrightarrow> v \<noteq> 0 \<Longrightarrow> white_work adj r (c(n := v)) = white_work adj r c"
  unfolding white_work_def by (rule sum.cong) auto

lemma measure_step:
  fixes s :: dfs_state
  assumes "finite_graph adj" "dfs_inv adj r s" "dfs_running s"
  shows "dfs_measure adj r (dfs_step adj s) < dfs_measure adj r s"
proof -
  obtain c n i rest where s: "s = (c, (n, i) # rest, False)"
    using assms(3) by (cases s; cases "fst (snd s)") (auto simp: dfs_running_def)
  note grey = inv_top(1) [OF assms(2) [unfolded s]]
  show ?thesis
  proof (cases "i < length (adj n)")
    case False
    then show ?thesis
      using grey unfolding s by (simp add: Let_def dfs_measure_def white_work_same)
  next
    case True
    then have "adj n ! i \<in> set (adj n)" "adj n \<noteq> []"
      by auto
    then have "adj n ! i \<in> node_bound adj r"
      unfolding node_bound_def by blast
    with True show ?thesis
      using white_work_visit [OF assms(1), of "adj n ! i" r c 1]
      unfolding s by (auto simp: Let_def dfs_measure_def)
  qed
qed

lemma dfs_correct:
  assumes "finite_graph adj"
  shows "\<exists>b. dfs adj r = Some b \<and> (b \<longleftrightarrow> cycle_from adj r)"
proof -
  obtain s where s: "while_option dfs_running (dfs_step adj) (dfs_start r) = Some s"
    using measure_while_option_Some [of "dfs_inv adj r" dfs_running "dfs_step adj" "dfs_measure adj r" "dfs_start r"]
      inv_start inv_step measure_step [OF assms] by blast
  have inv: "dfs_inv adj r s"
    using while_option_rule [of "dfs_inv adj r", OF _ s] inv_step inv_start by blast
  obtain c stack found where sv: "s = (c, stack, found)" by (cases s)
  have stop: "stack = [] \<or> found"
    using while_option_stop [OF s] by (simp add: sv dfs_running_def)
  have "found \<longleftrightarrow> cycle_from adj r"
  proof (cases found)
    case False
    then have grey: "\<forall>n. c n \<noteq> 1" and bc: "black_closed adj c" and r: "c r \<noteq> 0" "c r \<le> 2"
      using stop inv by (auto simp: sv dfs_inv_def)
    have "c r = 2"
      using r grey [rule_format, of r] by auto
    then have "c x = 2" if "(r, x) \<in> (edges adj)\<^sup>*" for x
      using that black_reach bc by blast
    then show ?thesis
      using False bc by (auto simp: cycle_from_def black_closed_def)
  qed (use inv in \<open>auto simp: sv dfs_inv_def\<close>)
  then show ?thesis
    by (simp add: dfs_def s sv)
qed

lemma finite_dependency_graph: "finite_graph (dependency_graph d m n ds)"
proof -
  have fold: "finite {k. fold (\<lambda>r adj. adj(t_id r := t_depends_on r)) rows adj k \<noteq> []}"
    if "finite {k. adj k \<noteq> []}" for rows :: "task_row list" and adj :: graph
    using that
  proof (induction rows arbitrary: adj)
    case (Cons r rows)
    have "{k. (adj(t_id r := t_depends_on r)) k \<noteq> []} \<subseteq> insert (t_id r) {k. adj k \<noteq> []}"
      by auto
    then have "finite {k. (adj(t_id r := t_depends_on r)) k \<noteq> []}"
      using Cons.prems by (meson finite_insert finite_subset)
    then show ?case using Cons.IH by simp
  qed simp
  have "{k. dependency_graph d m n ds k \<noteq> []} \<subseteq>
      insert n {k. fold (\<lambda>r adj. adj(t_id r := t_depends_on r))
        (select_where (\<lambda>r. tand (tbool (t_mission_id r = m)) (is_kind Claimable r)) (tasks d)) (\<lambda>_. []) k \<noteq> []}"
    by (auto simp: dependency_graph_def)
  then show ?thesis
    using fold [of "\<lambda>_. []"] unfolding finite_graph_def by (auto intro: finite_subset)
qed

text \<open>C8: cycle detection is total and exact. On every database, mission and dependency list the
  search returns, and it answers True exactly when, in the graph of the mission's claimable tasks
  extended with the new node, a node that lies on a cycle can be reached from the new node.\<close>

theorem detect_cycle_exact:
  "\<exists>b. detect_cycle d m n ds = Some (if db_up d then Inr b else Inl internal_error)
     \<and> (b \<longleftrightarrow> cycle_from (dependency_graph d m n ds) n)"
  using dfs_correct [OF finite_dependency_graph, of d m n ds n]
  by (auto simp: detect_cycle_def)

section \<open>Releasing dependents\<close>

text \<open>A task waiting on another one, as the scheduler is meant to see it.\<close>

definition released :: "db \<Rightarrow> str \<Rightarrow> str \<Rightarrow> task_row \<Rightarrow> bool" where
  "released d m f r = (t_mission_id r = m \<and> t_kind r = Claimable \<and>
     t_status r \<in> {''pending'', ''blocked''} \<and> f \<in> set (t_depends_on r) \<and> distinct (t_depends_on r) \<and>
     (\<forall>x\<in>set (t_depends_on r). \<exists>q. task_of d x = Some q \<and> t_status q = ''finished''))"

lemma unblocks_released: "keys_ok d \<Longrightarrow> unblocks d m f r = released d m f r"
  by (auto simp: unblocks_def unblock_candidate_def is_kind_def released_def deps_satisfied_iff)

text \<open>C9: finishing a task releases exactly the tasks it should. unblock_dependents makes ready
  precisely the claimable tasks of the mission that are pending or blocked, list the finished task,
  and whose listed dependencies, without repetition, all exist and are finished; it reports their
  ids, stamps updated_at, and changes no other row or column, although the code decides row by row
  while it updates.\<close>

theorem unblock_releases_exactly:
  assumes "keys_ok d" "db_up d"
  shows "snd (unblock_dependents now d m f) = map t_id (filter (released d m f) (tasks d))
    \<and> (\<forall>x. task_of (fst (unblock_dependents now d m f)) x =
          map_option (\<lambda>r. if released d m f r then r\<lparr>t_status := ''ready'', t_updated_at := now\<rparr> else r)
            (task_of d x))
    \<and> gates (fst (unblock_dependents now d m f)) = gates d"
proof -
  have same: "unblocks d m f = released d m f"
    using assms(1) by (simp add: fun_eq_iff unblocks_released)
  show ?thesis
    unfolding unblock_dependents_closed [OF assms] fst_conv snd_conv task_of_unblock_all same ready_update_def
    by simp
qed

definition sample_waiting :: "str \<Rightarrow> str list \<Rightarrow> task_row" where
  "sample_waiting i deps = (sample_task i)\<lparr>t_status := ''pending'', t_depends_on := deps\<rparr>"

definition sample_finished :: "str \<Rightarrow> task_row" where
  "sample_finished i = (sample_task i)\<lparr>t_status := ''finished''\<rparr>"

lemma unblock_releases_exactly_witness:
  "map t_id (filter (released (sample_db [sample_finished ''t1'', sample_waiting ''t2'' [''t1'']] []) ''m1'' ''t1'')
     (tasks (sample_db [sample_finished ''t1'', sample_waiting ''t2'' [''t1'']] []))) = [''t2'']"
proof -
  let ?d = "sample_db [sample_finished ''t1'', sample_waiting ''t2'' [''t1'']] []"
  have pre: "keys_ok ?d" "db_up ?d" by code_simp+
  have run: "snd (unblock_dependents 7 ?d ''m1'' ''t1'') = [''t2'']" by code_simp
  show ?thesis
    using unblock_releases_exactly [OF pre, of 7 "''m1''" "''t1''"] unfolding run by simp
qed

text \<open>a task that names the same dependency twice never becomes ready. The check compares the
  number of dependency rows found with the length of the list, so with a repeated id the initial
  status is pending even if every dependency is finished, and no later finish releases the task.\<close>

theorem duplicate_dependency_never_ready:
  assumes "keys_ok d" "\<not> distinct ds"
  shows "compute_initial_status d ds = ''pending''
    \<and> (\<forall>x r now m f. task_of d x = Some r \<and> t_depends_on r = ds \<longrightarrow>
          task_of (fst (unblock_dependents now d m f)) x = Some r)"
proof -
  have "ds \<noteq> []"
    using assms(2) by auto
  then have init: "compute_initial_status d ds = ''pending''"
    using assms by (simp add: compute_initial_status_def deps_satisfied_iff)
  have kept: "task_of (fst (unblock_dependents now d m f)) x = Some r"
    if "task_of d x = Some r" "t_depends_on r = ds" for x r now m f
  proof (cases "db_up d")
    case True
    then show ?thesis
      using that assms unblock_releases_exactly [OF assms(1) True] by (simp add: released_def)
  qed (simp add: unblock_dependents_def that)
  show ?thesis
    using init kept by blast
qed

lemma duplicate_dependency_never_ready_witness:
  "compute_initial_status (sample_db [sample_finished ''t1''] []) [''t1'', ''t1''] = ''pending''"
proof -
  have pre: "keys_ok (sample_db [sample_finished ''t1''] [])" "\<not> distinct [''t1'', ''t1'']"
    by code_simp+
  show ?thesis
    using duplicate_dependency_never_ready [OF pre] by simp
qed

end
