(* ===== verification/Work_Tasks.thy ===== *)
theory Work_Tasks
  imports Work_Deps "HOL-Library.Product_Lexorder"
begin

text \<open>
  The task handlers of routes/work.rs. A handler takes the database, the caller and the request,
  and gives the new database with the response (a rejection or the JSON body); the clock and the
  fresh identifiers (uuid v4) are arguments. The guard every handler starts with is
  authz_by_task / authz_by_mission of Tower_Authz. claim_task and dispatch_task read the row in one
  statement and write it in a later one: their read and write halves are definitions of their own,
  so that other statements can be put between them.
\<close>

section \<open>Stale leases\<close>

definition expire_fence :: "time \<Rightarrow> str \<Rightarrow> task_row \<Rightarrow> tri" where
  "expire_fence now mission_id r =
     tand (tbool (t_mission_id r = mission_id))
       (tand (is_kind Claimable r)
         (tand (status_in [''claimed'', ''running''] r)
           (tand (tne (t_claim_policy r) (Some ''broadcast''))
             (tand (tbool (t_lease_expires_at r \<noteq> None)) (tcmp (<) (t_lease_expires_at r) (Some now))))))"

definition expire_update :: "time \<Rightarrow> task_row \<Rightarrow> task_row" where
  "expire_update now r =
     (let exhausted = t_attempt r + 1 \<ge> t_max_attempts r in
      r\<lparr>t_attempt := t_attempt r + 1,
        t_status := (if exhausted then ''failed'' else ''ready''),
        t_finalized_at := (if exhausted then Some now else t_finalized_at r),
        t_claimed_by := None, t_lease_expires_at := None, t_claim_lease_id := None,
        t_updated_at := now\<rparr>)"

definition expire_stale_leases :: "time \<Rightarrow> str \<Rightarrow> db \<Rightarrow> db" where
  "expire_stale_leases now mission_id d =
     (if db_up d then d\<lparr>tasks := update_where (expire_fence now mission_id) (expire_update now) (tasks d)\<rparr>
      else d)"

section \<open>Listing and reading\<close>

definition list_tasks :: "db \<Rightarrow> principal \<Rightarrow> time \<Rightarrow> str \<Rightarrow> str option \<Rightarrow> db \<times> json res" where
  "list_tasks d p now mission_id status =
     (case authz_by_mission d p mission_id of
        Inl e \<Rightarrow> (d, Inl e)
      | Inr _ \<Rightarrow>
          let d' = expire_stale_leases now mission_id d;
              rows = select_where (\<lambda>r. tand (tbool (t_mission_id r = mission_id)) (tand (is_kind Claimable r)
                (case status of Some s \<Rightarrow> tbool (t_status r = s) | None \<Rightarrow> tbool True))) (tasks d') in
          (d', Inr (JList (map row_to_task (sort_key (\<lambda>r. (- t_priority r, t_created_at r)) rows)))))"

definition task_graph :: "db \<Rightarrow> principal \<Rightarrow> str \<Rightarrow> json res" where
  "task_graph d p mission_id =
     (case authz_by_mission d p mission_id of
        Inl e \<Rightarrow> Inl e
      | Inr _ \<Rightarrow>
          let rows = select_where (\<lambda>r. tand (tbool (t_mission_id r = mission_id)) (is_kind Claimable r)) (tasks d);
              nodes = map (\<lambda>r. JObj [(''id'', JStr (t_id r)), (''title'', JStr (t_title r)),
                                     (''status'', JStr (t_status r))]) rows;
              arcs = concat (map (\<lambda>r. map (\<lambda>dep. JObj [(''from'', JStr dep), (''to'', JStr (t_id r))])
                                      (t_depends_on r)) rows) in
          Inr (JObj [(''nodes'', JList nodes), (''edges'', JList arcs)]))"

definition get_task :: "db \<Rightarrow> principal \<Rightarrow> str \<Rightarrow> json res" where
  "get_task d p task_id =
     (case authz_by_task d p task_id of
        Inl e \<Rightarrow> Inl e
      | Inr _ \<Rightarrow>
          (case lookup t_id task_id (tasks d) of
             Some r \<Rightarrow> Inr (row_to_task r)
           | None \<Rightarrow> Inl (not_found ''Task not found'')))"

definition get_task_progress ::
  "(str \<Rightarrow> json option) \<Rightarrow> db \<Rightarrow> principal \<Rightarrow> str \<Rightarrow> int \<Rightarrow> json res" where
  "get_task_progress parse_json d p task_id since_seq =
     (case authz_by_task d p task_id of
        Inl e \<Rightarrow> Inl e
      | Inr _ \<Rightarrow>
          if lookup t_id task_id (tasks d) = None then Inl (not_found ''Task not found'')
          else let rows = select_where (\<lambda>e. tand (tbool (p_task_id e = task_id)) (tbool (p_seq e > since_seq)))
                 (progress d) in
            Inr (JList (map (row_to_progress parse_json) (sort_key p_seq rows))))"

section \<open>Creation\<close>

record task_create =
  tc_title :: str
  tc_description :: str
  tc_input_json :: str
  tc_claim_policy :: str
  tc_depends_on :: "str list"
  tc_produces :: json
  tc_consumes :: json
  tc_required_capabilities :: "str list"
  tc_priority :: int
  tc_parent_task_id :: "str option"

definition new_public_id :: "str \<Rightarrow> str" where
  "new_public_id hex = ''task-'' @ take 8 hex"

definition dependency_missing :: "db \<Rightarrow> str \<Rightarrow> str \<Rightarrow> bool" where
  "dependency_missing d mission_id dep_id = (\<not> (db_up d \<and> exists_where
     (\<lambda>r. tand (tbool (t_id r = dep_id)) (tand (tbool (t_mission_id r = mission_id)) (is_kind Claimable r)))
     (tasks d)))"

definition new_task_row ::
  "time \<Rightarrow> str \<Rightarrow> str \<Rightarrow> str \<Rightarrow> str \<Rightarrow> str \<Rightarrow> str \<Rightarrow> task_create \<Rightarrow> task_row" where
  "new_task_row now new_id public_id mission_id domain_id creator initial_status body =
     \<lparr>t_id = new_id, t_public_id = public_id, t_mission_id = mission_id, t_domain_id = domain_id,
      t_parent_task_id = tc_parent_task_id body, t_kind = Claimable, t_title = tc_title body,
      t_description = tc_description body, t_input_json = tc_input_json body,
      t_claim_policy = Some (tc_claim_policy body), t_depends_on = tc_depends_on body,
      t_produces = tc_produces body, t_consumes = tc_consumes body,
      t_required_capabilities = tc_required_capabilities body, t_status = initial_status,
      t_owner = None, t_contributors = None, t_done_criteria = None, t_dependencies_note = None,
      t_related_artifacts_note = None, t_claimed_by = None, t_result_artifact_id = None,
      t_priority = tc_priority body, t_lease_expires_at = None, t_claim_lease_id = None,
      t_version_counter = 0, t_attempt = 0, t_max_attempts = 3, t_finalized_at = None,
      t_finalized_by = None, t_created_by_subject = creator, t_created_at = now, t_updated_at = now\<rparr>"

text \<open>None would be a search that does not return; create_task_returns shows it never happens.\<close>

definition create_task ::
  "db \<Rightarrow> principal \<Rightarrow> time \<Rightarrow> str \<Rightarrow> str \<Rightarrow> str \<Rightarrow> task_create \<Rightarrow> (db \<times> json res) option" where
  "create_task d p now new_id hex mission_id body =
     (if \<not> db_up d then Some (d, Inl internal_error)
      else case lookup m_id mission_id (missions d) of
        None \<Rightarrow> Some (d, Inl (not_found ''Mission not found''))
      | Some mi \<Rightarrow>
          let domain_id = (case m_domain_id mi of Some x \<Rightarrow> x | None \<Rightarrow> []) in
          (case authz_domain d p domain_id of
             Inl e \<Rightarrow> Some (d, Inl e)
           | Inr _ \<Rightarrow>
               (case find (dependency_missing d mission_id) (tc_depends_on body) of
                  Some dep \<Rightarrow> Some (d, Inl (bad_request (''Dependency task not found: '' @ dep)))
                | None \<Rightarrow>
                    (case (if tc_depends_on body = [] then Some (Inr False)
                           else detect_cycle d mission_id new_id (tc_depends_on body)) of
                       None \<Rightarrow> None
                     | Some (Inl e) \<Rightarrow> Some (d, Inl e)
                     | Some (Inr True) \<Rightarrow> Some (d, Inl (bad_request ''Dependency cycle detected''))
                     | Some (Inr False) \<Rightarrow>
                         let st = compute_initial_status d (tc_depends_on body);
                             r = new_task_row now new_id (new_public_id hex) mission_id domain_id
                                   (subject p) st body;
                             d' = d\<lparr>tasks := insert_row r (tasks d)\<rparr> in
                         Some (if st = ''ready'' then broadcast_task_available domain_id mission_id new_id d'
                               else d',
                               Inr (row_to_task r))))))"

section \<open>Cancel, retry, unblock\<close>

definition cancel_fence :: "bool \<Rightarrow> str \<Rightarrow> str \<Rightarrow> task_row \<Rightarrow> tri" where
  "cancel_fence is_bypass subject_id task_id r =
     tand (by_key t_id task_id r)
       (tor
         (tand (is_kind Claimable r)
           (tand (tnot (status_in [''finished'', ''cancelled''] r))
             (tor (claimed_by subject_id r) (tbool is_bypass))))
         (tand (is_kind Assigned r)
           (tand (tnot (status_in [''done'', ''finished'', ''failed'', ''cancelled''] r))
             (tor (owned_by subject_id r) (tbool is_bypass)))))"

definition cancel_update :: "str \<Rightarrow> time \<Rightarrow> task_row \<Rightarrow> task_row" where
  "cancel_update subject_id now r = r\<lparr>t_status := ''cancelled'', t_claimed_by := None,
     t_lease_expires_at := None, t_claim_lease_id := None, t_updated_at := now,
     t_finalized_at := Some now, t_finalized_by := coalesce (t_finalized_by r) (Some subject_id)\<rparr>"

definition cancel_task :: "db \<Rightarrow> principal \<Rightarrow> time \<Rightarrow> str \<Rightarrow> db \<times> json res" where
  "cancel_task d p now task_id =
     (case authz_by_task d p task_id of
        Inl e \<Rightarrow> (d, Inl e)
      | Inr _ \<Rightarrow>
          let ac = task_actor p in
          (case update_returning (cancel_fence (ac_is_bypass ac) (ac_subject_id ac) task_id)
                  (cancel_update (ac_subject_id ac) now) (tasks d) of
             (ts, Some r) \<Rightarrow> (d\<lparr>tasks := ts\<rparr>, Inr (row_to_task r))
           | (ts, None) \<Rightarrow>
               (d, Inl (rest_transition_error (classify_fenced_rejection d ac task_id None [''cancelled''])))))"

definition retry_fence :: "str \<Rightarrow> task_row \<Rightarrow> tri" where
  "retry_fence task_id r =
     tand (by_key t_id task_id r) (tand (is_kind Claimable r) (status_in [''failed'', ''cancelled''] r))"

definition retry_update :: "time \<Rightarrow> task_row \<Rightarrow> task_row" where
  "retry_update now r = r\<lparr>t_status := ''ready'', t_claimed_by := None, t_result_artifact_id := None,
     t_lease_expires_at := None, t_claim_lease_id := None, t_finalized_at := None,
     t_finalized_by := None, t_updated_at := now\<rparr>"

definition classify_retry_rejection :: "db \<Rightarrow> str \<Rightarrow> deny" where
  "classify_retry_rejection d task_id =
     (if \<not> db_up d then internal_error
      else case lookup t_id task_id (tasks d) of
        None \<Rightarrow> not_found ''Task not found''
      | Some r \<Rightarrow>
          if t_kind r \<noteq> Claimable then conflict ''Task is not claimable (kind='assigned'); retry does not apply''
          else conflict (''Task cannot be retried from status: '' @ t_status r))"

definition retry_task :: "db \<Rightarrow> principal \<Rightarrow> time \<Rightarrow> str \<Rightarrow> db \<times> json res" where
  "retry_task d p now task_id =
     (case authz_by_task d p task_id of
        Inl e \<Rightarrow> (d, Inl e)
      | Inr _ \<Rightarrow>
          (case update_returning (retry_fence task_id) (retry_update now) (tasks d) of
             (ts, Some r) \<Rightarrow> (d\<lparr>tasks := ts\<rparr>, Inr (row_to_task r))
           | (ts, None) \<Rightarrow> (d, Inl (classify_retry_rejection d task_id))))"

definition unblock_fence :: "bool \<Rightarrow> str \<Rightarrow> str \<Rightarrow> task_row \<Rightarrow> tri" where
  "unblock_fence is_bypass subject_id task_id r =
     tand (by_key t_id task_id r)
       (tand (is_kind Claimable r)
         (tand (status_in [''blocked''] r) (tor (claimed_by subject_id r) (tbool is_bypass))))"

definition unblock_task :: "db \<Rightarrow> principal \<Rightarrow> time \<Rightarrow> str \<Rightarrow> db \<times> json res" where
  "unblock_task d p now task_id =
     (case authz_by_task d p task_id of
        Inl e \<Rightarrow> (d, Inl e)
      | Inr _ \<Rightarrow>
          let ac = task_actor p in
          (case update_returning (unblock_fence (ac_is_bypass ac) (ac_subject_id ac) task_id)
                  (ready_update now) (tasks d) of
             (ts, Some r) \<Rightarrow> (d\<lparr>tasks := ts\<rparr>, Inr (row_to_task r))
           | (ts, None) \<Rightarrow>
               (d, Inl (rest_transition_error (classify_fenced_rejection d ac task_id None [])))))"

section \<open>Claiming\<close>

definition locked :: deny where
  "locked = deny 423 ''Task not available for claiming''"

text \<open>Only a full-trust or admin caller may name the agent it claims for.\<close>

definition claiming_agent :: "principal \<Rightarrow> json option \<Rightarrow> str" where
  "claiming_agent p body =
     (let self_id = subject_id_of p in
      if is_full_trust p \<or> is_admin p
      then (case body \<bind> jget ''agent_id'' \<bind> jstr of Some a \<Rightarrow> a | None \<Rightarrow> self_id)
      else self_id)"

text \<open>The read half: the row fetched up front decides the guards and the claim policy.\<close>

definition claim_read :: "db \<Rightarrow> principal \<Rightarrow> str \<Rightarrow> str res" where
  "claim_read d p task_id =
     (if \<not> db_up d then Inl internal_error
      else case lookup t_id task_id (tasks d) of
        None \<Rightarrow> Inl (not_found ''Task not found'')
      | Some r \<Rightarrow> and_then (authz_domain d p (t_domain_id r)) (\<lambda>_.
          if t_kind r \<noteq> Claimable then Inl (conflict ''Task is not claimable (kind='assigned')'')
          else if t_status r \<noteq> ''ready'' then Inl locked
          else Inr (case t_claim_policy r of Some c \<Rightarrow> c | None \<Rightarrow> [])))"

definition broadcast_claim_update :: "str \<Rightarrow> str \<Rightarrow> time \<Rightarrow> task_row \<Rightarrow> task_row" where
  "broadcast_claim_update agent lease now r = r\<lparr>t_status := ''running'', t_claimed_by := Some agent,
     t_claim_lease_id := Some lease, t_lease_expires_at := Some (now + secs LEASE_TTL_SECS),
     t_updated_at := now\<rparr>"

definition claim_update :: "str \<Rightarrow> str \<Rightarrow> int \<Rightarrow> time \<Rightarrow> task_row \<Rightarrow> task_row" where
  "claim_update agent lease new_version now r = r\<lparr>t_status := ''claimed'', t_claimed_by := Some agent,
     t_claim_lease_id := Some lease, t_version_counter := new_version,
     t_lease_expires_at := Some (now + secs LEASE_TTL_SECS), t_updated_at := now\<rparr>"

definition claim_response :: "str \<Rightarrow> str \<Rightarrow> task_row \<Rightarrow> json" where
  "claim_response task_id lease r =
     jset ''task_id'' (JStr task_id) (jset ''claim_lease_id'' (JStr lease) (row_to_task r))"

text \<open>The write half. The broadcast branch updates by id alone; the exclusive branch locks a row that
  is still ready and compares the version counter it read.\<close>

definition claim_write :: "db \<Rightarrow> str \<Rightarrow> str \<Rightarrow> time \<Rightarrow> str \<Rightarrow> str \<Rightarrow> db \<times> json res" where
  "claim_write d claim_policy agent now lease task_id =
     (if \<not> db_up d then (d, Inl internal_error)
      else if claim_policy = ''broadcast'' then
        (case update_returning (by_key t_id task_id) (broadcast_claim_update agent lease now) (tasks d) of
           (ts, Some r) \<Rightarrow> (d\<lparr>tasks := ts\<rparr>, Inr (claim_response task_id lease r))
         | (ts, None) \<Rightarrow> (d, Inl locked))
      else
        (case fetch_optional (\<lambda>r. tand (by_key t_id task_id r) (status_in [''ready''] r)) (tasks d) of
           None \<Rightarrow> (d, Inl locked)
         | Some q \<Rightarrow>
             (case update_returning
                (\<lambda>r. tand (by_key t_id task_id r) (tbool (t_version_counter r = t_version_counter q)))
                (claim_update agent lease (t_version_counter q + 1) now) (tasks d) of
                (ts, Some r) \<Rightarrow> (d\<lparr>tasks := ts\<rparr>, Inr (claim_response task_id lease r))
              | (ts, None) \<Rightarrow> (d, Inl (conflict ''Claim lost to concurrent claimer'')))))"

definition claim_task :: "db \<Rightarrow> principal \<Rightarrow> time \<Rightarrow> str \<Rightarrow> str \<Rightarrow> json option \<Rightarrow> db \<times> json res" where
  "claim_task d p now lease task_id body =
     (case claim_read d p task_id of
        Inl e \<Rightarrow> (d, Inl e)
      | Inr policy \<Rightarrow> claim_write d policy (claiming_agent p body) now lease task_id)"

section \<open>The REST surface of the shared transitions\<close>

definition rest_transition ::
  "(transition_outcome \<Rightarrow> json) \<Rightarrow> db \<Rightarrow> principal \<Rightarrow> time \<Rightarrow> str \<Rightarrow> task_transition \<Rightarrow> db \<times> json res" where
  "rest_transition render d p now task_id tr =
     (case authz_by_task d p task_id of
        Inl e \<Rightarrow> (d, Inl e)
      | Inr _ \<Rightarrow>
          (case execute_task_transition d (task_actor p) now task_id tr of
             (d', Inr out) \<Rightarrow> (d', Inr (render out))
           | (d', Inl e) \<Rightarrow> (d', Inl (rest_transition_error e))))"

text \<open>The bodies; an outcome a transition never has (unreachable! in the code) renders as null.\<close>

definition render_task :: "transition_outcome \<Rightarrow> json" where
  "render_task out = (case out of TaskOutcome r _ \<Rightarrow> row_to_task r | _ \<Rightarrow> JNull)"

definition render_progress :: "(str \<Rightarrow> json option) \<Rightarrow> transition_outcome \<Rightarrow> json" where
  "render_progress parse_json out = (case out of ProgressOutcome e \<Rightarrow> row_to_progress parse_json e | _ \<Rightarrow> JNull)"

definition render_complete :: "str \<Rightarrow> transition_outcome \<Rightarrow> json" where
  "render_complete task_id out =
     (case out of
        TaskOutcome r ids \<Rightarrow> jset ''unblocked_tasks'' (JList (map JStr ids)) (row_to_task r)
      | WaitingReview r gs \<Rightarrow> JObj [(''status'', JStr ''waiting_review''),
          (''pending_gates'', JList (map JStr gs)), (''task_id'', JStr task_id)]
      | ProgressOutcome _ \<Rightarrow> JNull)"

definition heartbeat_task :: "db \<Rightarrow> principal \<Rightarrow> time \<Rightarrow> str \<Rightarrow> str option \<Rightarrow> db \<times> json res" where
  "heartbeat_task d p now task_id lease = rest_transition render_task d p now task_id (Heartbeat lease)"

record progress_create =
  pc_event_type :: str
  pc_phase :: "str option"
  pc_step :: "str option"
  pc_summary :: str
  pc_payload_json :: str
  pc_agent_run_id :: "str option"
  pc_claim_lease_id :: str

definition append_progress ::
  "(str \<Rightarrow> json option) \<Rightarrow> db \<Rightarrow> principal \<Rightarrow> time \<Rightarrow> str \<Rightarrow> progress_create \<Rightarrow> db \<times> json res" where
  "append_progress parse_json d p now task_id b =
     (if pc_claim_lease_id b = [] then (d, Inl (bad_request ''claim_lease_id is required''))
      else rest_transition (render_progress parse_json) d p now task_id
        (AppendProgress (pc_claim_lease_id b) (pc_event_type b) (pc_phase b) (pc_step b)
           (pc_summary b) (pc_payload_json b) (pc_agent_run_id b)))"

record complete_body =
  cb_result_artifact_id :: "str option"
  cb_claim_lease_id :: "str option"
  cb_agent_id :: "str option"

definition complete_task :: "db \<Rightarrow> principal \<Rightarrow> time \<Rightarrow> str \<Rightarrow> complete_body \<Rightarrow> db \<times> json res" where
  "complete_task d p now task_id b = rest_transition (render_complete task_id) d p now task_id
     (Complete (cb_claim_lease_id b) (cb_agent_id b) (cb_result_artifact_id b \<bind> parse_i32))"

definition fail_task :: "db \<Rightarrow> principal \<Rightarrow> time \<Rightarrow> str \<Rightarrow> str option \<Rightarrow> str option \<Rightarrow> db \<times> json res" where
  "fail_task d p now task_id lease agent_id =
     rest_transition render_task d p now task_id (Fail lease agent_id)"

definition block_task :: "db \<Rightarrow> principal \<Rightarrow> time \<Rightarrow> str \<Rightarrow> db \<times> json res" where
  "block_task d p now task_id = rest_transition render_task d p now task_id (Block None)"

section \<open>Dispatch\<close>

definition dispatch_refusal :: "str \<Rightarrow> str" where
  "dispatch_refusal st = ''dispatch_task requires status='ready' (got '' @ [CHR 0x27] @ st @ [CHR 0x27]
     @ ''); use complete_task for claimed/running tasks''"

text \<open>The read half answers with the status it saw (ready or finished).\<close>

definition dispatch_read :: "db \<Rightarrow> principal \<Rightarrow> str \<Rightarrow> str res" where
  "dispatch_read d p task_id =
     (if \<not> db_up d then Inl internal_error
      else case lookup t_id task_id (tasks d) of
        None \<Rightarrow> Inl (not_found ''Task not found'')
      | Some r \<Rightarrow> and_then (authz_domain d p (t_domain_id r)) (\<lambda>_.
          if t_created_by_subject r \<noteq> subject p \<and> \<not> is_admin p then Inl (deny 403 [])
          else if t_status r = ''finished'' \<or> t_status r = ''ready'' then Inr (t_status r)
          else Inl (bad_request (dispatch_refusal (t_status r)))))"

definition dispatch_update :: "time \<Rightarrow> task_row \<Rightarrow> task_row" where
  "dispatch_update now r = r\<lparr>t_status := ''finished'', t_updated_at := now\<rparr>"

definition dispatch_write :: "db \<Rightarrow> str \<Rightarrow> time \<Rightarrow> str \<Rightarrow> db \<times> json res" where
  "dispatch_write d seen now task_id =
     (if \<not> db_up d then (d, Inl internal_error)
      else if seen = ''finished'' then
        (case lookup t_id task_id (tasks d) of
           Some r \<Rightarrow> (d, Inr (row_to_task r))
         | None \<Rightarrow> (d, Inl internal_error))
      else
        (case update_returning (by_key t_id task_id) (dispatch_update now) (tasks d) of
           (ts, Some r) \<Rightarrow> (d\<lparr>tasks := ts\<rparr>, Inr (row_to_task r))
         | (ts, None) \<Rightarrow> (d, Inl internal_error)))"

definition dispatch_task :: "db \<Rightarrow> principal \<Rightarrow> time \<Rightarrow> str \<Rightarrow> db \<times> json res" where
  "dispatch_task d p now task_id =
     (case dispatch_read d p task_id of
        Inl e \<Rightarrow> (d, Inl e)
      | Inr seen \<Rightarrow> dispatch_write d seen now task_id)"

end
