(* ===== verification/Work_Gates.thy ===== *)
theory Work_Gates
  imports Work_Tasks
begin

text \<open>
  Review gates of routes/work.rs. create_gate is one fenced INSERT: the row appears only while the
  task is still attachable and held by the caller. resolve_gate decides a pending gate and, in the
  same transaction, moves a waiting task on when the gates of the task allow it.
\<close>

record gate_create =
  gc_gate_type :: str
  gc_required_approvals :: str
  gc_run_id :: "str option"
  gc_approval_request_id :: "str option"

definition attach_fence :: "bool \<Rightarrow> str \<Rightarrow> str \<Rightarrow> task_row \<Rightarrow> tri" where
  "attach_fence is_bypass subject_id task_id r =
     tand (by_key t_id task_id r)
       (tor
         (tand (is_kind Claimable r)
           (tand (status_in [''claimed'', ''running'', ''waiting_review''] r)
             (tor (claimed_by subject_id r) (tbool is_bypass))))
         (tand (is_kind Assigned r)
           (tand (tnot (status_in [''done'', ''finished'', ''failed'', ''cancelled''] r))
             (tor (owned_by subject_id r) (tbool is_bypass)))))"

definition new_gate_row :: "str \<Rightarrow> str \<Rightarrow> str \<Rightarrow> time \<Rightarrow> gate_create \<Rightarrow> gate_row" where
  "new_gate_row gate_id owner task_id now b =
     \<lparr>g_id = gate_id, g_owner_subject = owner, g_mesh_task_id = task_id, g_run_id = gc_run_id b,
      g_gate_type = gc_gate_type b, g_required_approvals = gc_required_approvals b,
      g_status = ''pending'', g_approval_request_id = gc_approval_request_id b,
      g_ai_pending_action_id = None, g_policy_rule_id = None, g_created_at = now, g_resolved_at = None\<rparr>"

definition classify_create_gate_rejection :: "db \<Rightarrow> principal \<Rightarrow> str \<Rightarrow> deny" where
  "classify_create_gate_rejection d p task_id =
     (case authz_task_owner d p task_id None of
        Inl e \<Rightarrow> e
      | Inr _ \<Rightarrow> conflict ''Task is not in a gate-attachable status'')"

definition create_gate :: "db \<Rightarrow> principal \<Rightarrow> time \<Rightarrow> str \<Rightarrow> str \<Rightarrow> gate_create \<Rightarrow> db \<times> json res" where
  "create_gate d p now gate_id task_id b =
     (case authz_by_task d p task_id of
        Inl e \<Rightarrow> (d, Inl e)
      | Inr _ \<Rightarrow>
          let ac = task_actor p in
          if exists_where (attach_fence (ac_is_bypass ac) (ac_subject_id ac) task_id) (tasks d)
          then (let g = new_gate_row gate_id (subject p) task_id now b in
            (d\<lparr>gates := insert_row g (gates d)\<rparr>, Inr (row_to_gate g)))
          else (d, Inl (classify_create_gate_rejection d p task_id)))"

definition list_gates :: "db \<Rightarrow> principal \<Rightarrow> str \<Rightarrow> json res" where
  "list_gates d p task_id =
     (case authz_by_task d p task_id of
        Inl e \<Rightarrow> Inl e
      | Inr _ \<Rightarrow>
          if lookup t_id task_id (tasks d) = None then Inl (not_found ''Task not found'')
          else Inr (JList (map row_to_gate (sort_key g_created_at
                 (select_where (\<lambda>g. tbool (g_mesh_task_id g = task_id)) (gates d))))))"

section \<open>Resolving\<close>

definition resolve_fence :: "str \<Rightarrow> str \<Rightarrow> bool \<Rightarrow> str \<Rightarrow> gate_row \<Rightarrow> tri" where
  "resolve_fence task_id subj is_adm gate_id g =
     tand (by_key g_id gate_id g)
       (tand (tbool (g_mesh_task_id g = task_id))
         (tand (tbool (g_status g = ''pending''))
           (tor (tbool (g_owner_subject g = subj)) (tbool is_adm))))"

definition resolve_update :: "str \<Rightarrow> time \<Rightarrow> gate_row \<Rightarrow> gate_row" where
  "resolve_update decision now g = g\<lparr>g_status := decision, g_resolved_at := Some now\<rparr>"

definition gates_of :: "db \<Rightarrow> str \<Rightarrow> gate_row list" where
  "gates_of d task_id = select_where (\<lambda>g. tbool (g_mesh_task_id g = task_id)) (gates d)"

text \<open>bool_or and bool_and over no rows are NULL.\<close>

definition any_rejected :: "gate_row list \<Rightarrow> tri" where
  "any_rejected gs = (if gs = [] then None else Some (list_ex (\<lambda>g. g_status g = ''rejected'') gs))"

definition all_resolved :: "gate_row list \<Rightarrow> tri" where
  "all_resolved gs =
     (if gs = [] then None else Some (list_all (\<lambda>g. g_status g \<in> set [''approved'', ''expired'']) gs))"

definition review_fence :: "gate_row list \<Rightarrow> str \<Rightarrow> task_row \<Rightarrow> tri" where
  "review_fence gs task_id r =
     tand (by_key t_id task_id r)
       (tand (status_in [''waiting_review''] r) (tor (any_rejected gs) (all_resolved gs)))"

definition review_update :: "gate_row list \<Rightarrow> str \<Rightarrow> time \<Rightarrow> task_row \<Rightarrow> task_row" where
  "review_update gs subject_id now r = r\<lparr>
     t_status := (if holds (any_rejected gs) then ''failed'' else ''finished''),
     t_finalized_by := coalesce (t_claimed_by r) (coalesce (t_finalized_by r) (Some subject_id)),
     t_finalized_at := Some now, t_lease_expires_at := None, t_claim_lease_id := None,
     t_claimed_by := None, t_updated_at := now\<rparr>"

definition classify_resolve_rejection :: "db \<Rightarrow> str \<Rightarrow> str \<Rightarrow> deny" where
  "classify_resolve_rejection d task_id gate_id =
     (case fetch_optional (\<lambda>g. tand (by_key g_id gate_id g) (tbool (g_mesh_task_id g = task_id))) (gates d) of
        Some g \<Rightarrow>
          if g_status g \<noteq> ''pending'' then conflict (''Gate is already '' @ g_status g)
          else deny 403 ''Not authorized to resolve this gate''
      | None \<Rightarrow> not_found ''Gate not found'')"

text \<open>The transaction: the gate row, then the task row against the gates as they now are.\<close>

definition resolve_tx ::
  "db \<Rightarrow> principal \<Rightarrow> time \<Rightarrow> str \<Rightarrow> str \<Rightarrow> str \<Rightarrow> (db \<times> gate_row \<times> task_row option) option" where
  "resolve_tx d p now task_id gate_id decision =
     (case update_returning (resolve_fence task_id (subject p) (is_admin p) gate_id)
             (resolve_update decision now) (gates d) of
        (gs, None) \<Rightarrow> None
      | (gs, Some g) \<Rightarrow>
          let d1 = d\<lparr>gates := gs\<rparr>; task_gates = gates_of d1 task_id in
          (case update_returning (review_fence task_gates task_id)
                  (review_update task_gates (subject_id_of p) now) (tasks d1) of
             (ts, t) \<Rightarrow> Some (d1\<lparr>tasks := ts\<rparr>, g, t)))"

definition resolve_gate ::
  "db \<Rightarrow> principal \<Rightarrow> time \<Rightarrow> str \<Rightarrow> str \<Rightarrow> str \<Rightarrow> db \<times> json res" where
  "resolve_gate d p now task_id gate_id decision =
     (if decision \<noteq> ''approved'' \<and> decision \<noteq> ''rejected''
      then (d, Inl (bad_request (''decision must be 'approved' or 'rejected'' @ [CHR 0x27])))
      else case and_then (domain_id_for_gate d gate_id) (authz_domain d p) of
        Inl e \<Rightarrow> (d, Inl e)
      | Inr _ \<Rightarrow>
          (case resolve_tx d p now task_id gate_id decision of
             None \<Rightarrow> (d, Inl (classify_resolve_rejection d task_id gate_id))
           | Some (d1, g, t) \<Rightarrow>
               (case t of
                  Some r \<Rightarrow>
                    if t_status r = ''finished'' then
                      (let (d2, ids) = unblock_dependents now d1 (t_mission_id r) task_id in
                       (broadcast_all (t_domain_id r) (t_mission_id r) ids d2, Inr (row_to_gate g)))
                    else (d1, Inr (row_to_gate g))
                | None \<Rightarrow> (d1, Inr (row_to_gate g)))))"

end
