(* ===== verification/Assigned_Tasks.thy ===== *)
theory Assigned_Tasks
  imports Work_Gates
begin

text \<open>
  routes/tasks.rs: the person-facing tasks (kind assigned) of the unified task table. They live in
  the same rows as the claimable ones, with a free-form status; update_task mints the completion
  token (claim_lease_id) when the status first leaves proposed. A row of kind assigned that lacks
  one of the columns the reader needs is a decode error (500).
\<close>

definition INITIAL_STATUS :: str where
  "INITIAL_STATUS = ''proposed''"

definition is_terminal_status :: "str \<Rightarrow> bool" where
  "is_terminal_status s = (s \<in> set [''done'', ''finished'', ''failed'', ''cancelled''])"

definition decodes_assigned :: "task_row \<Rightarrow> bool" where
  "decodes_assigned r = (t_owner r \<noteq> None \<and> t_contributors r \<noteq> None \<and> t_dependencies_note r \<noteq> None \<and>
     t_done_criteria r \<noteq> None \<and> t_related_artifacts_note r \<noteq> None)"

definition assigned_json :: "task_row \<Rightarrow> json" where
  "assigned_json r = JObj
     [(''id'', JStr (t_id r)), (''public_id'', JStr (t_public_id r)),
      (''mission_id'', JStr (t_mission_id r)), (''domain_id'', JStr (t_domain_id r)),
      (''parent_task_id'', jopt JStr (t_parent_task_id r)),
      (''kind'', JStr (case t_kind r of Assigned \<Rightarrow> ''assigned'' | Claimable \<Rightarrow> ''claimable'')),
      (''title'', JStr (t_title r)), (''description'', JStr (t_description r)),
      (''status'', JStr (t_status r)), (''owner'', jopt JStr (t_owner r)),
      (''contributors'', jopt JStr (t_contributors r)),
      (''dependencies'', jopt JStr (t_dependencies_note r)),
      (''definition_of_done'', jopt JStr (t_done_criteria r)),
      (''related_artifacts'', jopt JStr (t_related_artifacts_note r)),
      (''result_artifact_id'', jopt JNum (t_result_artifact_id r)),
      (''claim_lease_id'', jopt JStr (t_claim_lease_id r)),
      (''attempt'', JNum (t_attempt r)), (''max_attempts'', JNum (t_max_attempts r)),
      (''finalized_at'', jopt JNum (t_finalized_at r)),
      (''created_by_subject'', JStr (t_created_by_subject r)),
      (''created_at'', JNum (t_created_at r)), (''updated_at'', JNum (t_updated_at r))]"

definition redact_lease :: "principal \<Rightarrow> task_row \<Rightarrow> task_row" where
  "redact_lease p r =
     (if is_full_trust p \<or> is_admin p \<or> t_owner r = Some (subject_id_of p) then r
      else r\<lparr>t_claim_lease_id := None\<rparr>)"

definition verify_mission_domain :: "db \<Rightarrow> str \<Rightarrow> str \<Rightarrow> unit res" where
  "verify_mission_domain d mission_id domain_id =
     (if db_up d \<and> exists_where (\<lambda>m. tand (by_key m_id mission_id m) (teq (m_domain_id m) (Some domain_id)))
           (missions d)
      then Inr () else Inl (not_found ''Mission not found''))"

text \<open>A query over assigned rows: a negative LIMIT and an undecodable row are database errors.\<close>

definition query_assigned :: "db \<Rightarrow> (task_row \<Rightarrow> tri) \<Rightarrow> (task_row \<Rightarrow> int) \<Rightarrow> int \<Rightarrow> task_row list res" where
  "query_assigned d cond ord limit =
     (let rows = take (nat limit) (sort_key ord (select_where (\<lambda>r. tand (is_kind Assigned r) (cond r)) (tasks d))) in
      if \<not> db_up d \<or> limit < 0 \<or> \<not> list_all decodes_assigned rows then Inl internal_error else Inr rows)"

definition list_assigned_tasks ::
  "db \<Rightarrow> principal \<Rightarrow> str \<Rightarrow> str \<Rightarrow> str option \<Rightarrow> int option \<Rightarrow> json res" where
  "list_assigned_tasks d p domain_id mission_id status limit =
     and_then (authz_domain_readable d p domain_id) (\<lambda>_.
     and_then (verify_mission_domain d mission_id domain_id) (\<lambda>_.
     and_then (query_assigned d
         (\<lambda>r. tand (tbool (t_mission_id r = mission_id))
            (case status of Some s \<Rightarrow> tbool (t_status r = s) | None \<Rightarrow> tbool True))
         (\<lambda>r. - t_updated_at r) (min (case limit of Some n \<Rightarrow> n | None \<Rightarrow> 100) 500)) (\<lambda>rows.
     Inr (JList (map (\<lambda>r. assigned_json (redact_lease p r)) rows)))))"

definition list_tasks_by_mission :: "db \<Rightarrow> principal \<Rightarrow> str \<Rightarrow> json res" where
  "list_tasks_by_mission d p mission_id =
     and_then (authz_by_mission d p mission_id) (\<lambda>_.
     and_then (query_assigned d (\<lambda>r. tbool (t_mission_id r = mission_id)) t_created_at 200) (\<lambda>rows.
     Inr (JList (map (\<lambda>r. assigned_json (redact_lease p r)) rows))))"

definition fetch_assigned_task :: "db \<Rightarrow> str \<Rightarrow> str \<Rightarrow> task_row option res" where
  "fetch_assigned_task d task_id mission_id =
     (let by_public = fetch_optional (\<lambda>r. tand (tbool (t_public_id r = task_id))
            (tand (tbool (t_mission_id r = mission_id)) (is_kind Assigned r))) (tasks d);
          by_id = fetch_optional (\<lambda>r. tand (by_key t_id task_id r)
            (tand (tbool (t_mission_id r = mission_id)) (is_kind Assigned r))) (tasks d);
          hit = (case by_public of Some r \<Rightarrow> Some r | None \<Rightarrow> by_id) in
      if \<not> db_up d then Inl internal_error
      else case hit of Some r \<Rightarrow> (if decodes_assigned r then Inr (Some r) else Inl internal_error)
        | None \<Rightarrow> Inr None)"

definition found_task :: "task_row option res \<Rightarrow> task_row res" where
  "found_task x = and_then x (\<lambda>t. case t of Some r \<Rightarrow> Inr r | None \<Rightarrow> Inl (not_found ''Task not found''))"

definition get_assigned_task :: "db \<Rightarrow> principal \<Rightarrow> str \<Rightarrow> str \<Rightarrow> str \<Rightarrow> json res" where
  "get_assigned_task d p domain_id mission_id task_id =
     and_then (authz_domain_readable d p domain_id) (\<lambda>_.
     and_then (verify_mission_domain d mission_id domain_id) (\<lambda>_.
     and_then (found_task (fetch_assigned_task d task_id mission_id)) (\<lambda>r.
     Inr (assigned_json (redact_lease p r)))))"

section \<open>Writing\<close>

record assigned_create =
  asc_title :: str
  asc_description :: str
  asc_status :: str
  asc_owner :: str
  asc_contributors :: str
  asc_dependencies_note :: str
  asc_done_criteria :: str
  asc_related_artifacts_note :: str

definition new_assigned_row :: "time \<Rightarrow> str \<Rightarrow> str \<Rightarrow> str \<Rightarrow> str \<Rightarrow> str \<Rightarrow> assigned_create \<Rightarrow> task_row" where
  "new_assigned_row now new_id public_id mission_id domain_id creator b =
     \<lparr>t_id = new_id, t_public_id = public_id, t_mission_id = mission_id, t_domain_id = domain_id,
      t_parent_task_id = None, t_kind = Assigned, t_title = trim (asc_title b),
      t_description = asc_description b, t_input_json = [], t_claim_policy = None, t_depends_on = [],
      t_produces = JObj [], t_consumes = JObj [], t_required_capabilities = [],
      t_status = asc_status b, t_owner = Some (asc_owner b), t_contributors = Some (asc_contributors b),
      t_done_criteria = Some (asc_done_criteria b), t_dependencies_note = Some (asc_dependencies_note b),
      t_related_artifacts_note = Some (asc_related_artifacts_note b), t_claimed_by = None,
      t_result_artifact_id = None, t_priority = 0, t_lease_expires_at = None, t_claim_lease_id = None,
      t_version_counter = 0, t_attempt = 0, t_max_attempts = 3, t_finalized_at = None,
      t_finalized_by = None, t_created_by_subject = creator, t_created_at = now, t_updated_at = now\<rparr>"

definition create_assigned_task ::
  "db \<Rightarrow> principal \<Rightarrow> time \<Rightarrow> str \<Rightarrow> str \<Rightarrow> str \<Rightarrow> str \<Rightarrow> assigned_create \<Rightarrow> db \<times> json res" where
  "create_assigned_task d p now new_id hex domain_id mission_id b =
     (case and_then (authz_domain d p domain_id) (\<lambda>_. verify_mission_domain d mission_id domain_id) of
        Inl e \<Rightarrow> (d, Inl e)
      | Inr _ \<Rightarrow>
          if trim (asc_title b) = [] then (d, Inl (deny 422 ''title is required''))
          else let r = new_assigned_row now new_id (new_public_id hex) mission_id domain_id (subject p) b in
            (d\<lparr>tasks := insert_row r (tasks d)\<rparr>, Inr (assigned_json r)))"

record assigned_update =
  au_title :: "str option"
  au_description :: "str option"
  au_status :: "str option"
  au_owner :: "str option"
  au_contributors :: "str option"
  au_dependencies_note :: "str option"
  au_done_criteria :: "str option"
  au_related_artifacts_note :: "str option"

definition unwrap_or :: "'a option \<Rightarrow> 'a \<Rightarrow> 'a" where
  "unwrap_or x y = (case x of Some v \<Rightarrow> v | None \<Rightarrow> y)"

definition minted_lease :: "task_row \<Rightarrow> str \<Rightarrow> str \<Rightarrow> str option" where
  "minted_lease task status fresh =
     (if t_claim_lease_id task = None \<and> t_status task = INITIAL_STATUS \<and> status \<noteq> INITIAL_STATUS
      then Some fresh else t_claim_lease_id task)"

definition stamped_finalized_at :: "task_row \<Rightarrow> str \<Rightarrow> time \<Rightarrow> time option" where
  "stamped_finalized_at task status now =
     (if \<not> is_terminal_status (t_status task) \<and> is_terminal_status status then Some now
      else if is_terminal_status (t_status task) \<and> \<not> is_terminal_status status then None
      else t_finalized_at task)"

text \<open>The SET list binds values computed from the row that was fetched (task); r is the row the
  statement meets.\<close>

definition assigned_set :: "task_row \<Rightarrow> assigned_update \<Rightarrow> str \<Rightarrow> time \<Rightarrow> task_row \<Rightarrow> task_row" where
  "assigned_set task b fresh now r =
     (let status = unwrap_or (au_status b) (t_status task) in
      r\<lparr>t_title := unwrap_or (au_title b) (t_title task),
        t_description := unwrap_or (au_description b) (t_description task),
        t_status := status,
        t_owner := coalesce (au_owner b) (t_owner task),
        t_contributors := coalesce (au_contributors b) (t_contributors task),
        t_dependencies_note := coalesce (au_dependencies_note b) (t_dependencies_note task),
        t_done_criteria := coalesce (au_done_criteria b) (t_done_criteria task),
        t_related_artifacts_note := coalesce (au_related_artifacts_note b) (t_related_artifacts_note task),
        t_claim_lease_id := minted_lease task status fresh,
        t_finalized_at := stamped_finalized_at task status now,
        t_updated_at := now\<rparr>)"

definition update_task ::
  "db \<Rightarrow> principal \<Rightarrow> time \<Rightarrow> str \<Rightarrow> str \<Rightarrow> str \<Rightarrow> str \<Rightarrow> assigned_update \<Rightarrow> db \<times> json res" where
  "update_task d p now fresh domain_id mission_id task_id b =
     (case and_then (authz_domain d p domain_id) (\<lambda>_.
           and_then (verify_mission_domain d mission_id domain_id) (\<lambda>_.
           found_task (fetch_assigned_task d task_id mission_id))) of
        Inl e \<Rightarrow> (d, Inl e)
      | Inr task \<Rightarrow>
          (case update_returning (by_key t_id (t_id task)) (assigned_set task b fresh now) (tasks d) of
             (ts, Some r) \<Rightarrow> (d\<lparr>tasks := ts\<rparr>, Inr (assigned_json r))
           | (ts, None) \<Rightarrow> (d, Inl internal_error)))"

text \<open>The three statements of delete_task run on their own and their errors are dropped; the foreign
  key of reviewgate (no ON DELETE action) makes the last one fail while a gate names the task.\<close>

definition delete_row :: "db \<Rightarrow> str \<Rightarrow> db" where
  "delete_row d tid =
     (if exists_where (\<lambda>g. tbool (g_mesh_task_id g = tid)) (gates d) then d
      else d\<lparr>tasks := delete_where (by_key t_id tid) (tasks d)\<rparr>)"

definition delete_task :: "db \<Rightarrow> principal \<Rightarrow> str \<Rightarrow> str \<Rightarrow> str \<Rightarrow> db \<times> json res" where
  "delete_task d p domain_id mission_id task_id =
     (case and_then (authz_domain_owner d p domain_id) (\<lambda>_.
           and_then (verify_mission_domain d mission_id domain_id) (\<lambda>_.
           found_task (fetch_assigned_task d task_id mission_id))) of
        Inl e \<Rightarrow> (d, Inl e)
      | Inr task \<Rightarrow>
          let d1 = d\<lparr>overlaps := delete_where (\<lambda>o'. tor (tbool (o_task_id o' = t_id task))
                       (tbool (o_candidate_task_id o' = t_id task))) (overlaps d)\<rparr>;
              d2 = d1\<lparr>agent_messages := update_where (\<lambda>m. teq (am_task_id m) (Some (t_id task)))
                       (\<lambda>m. m\<lparr>am_task_id := None\<rparr>) (agent_messages d1)\<rparr> in
          (delete_row d2 (t_id task),
           Inr (JObj [(''ok'', JBool True), (''deleted_id'', JStr (t_public_id task))])))"

end
