(* ===== verification/Mcp_Tasks.thy ===== *)
theory Mcp_Tasks
  imports Assigned_Tasks
begin

text \<open>
  The mesh-task tools of routes/mcp.rs: the second surface on the task table. A tool takes its
  arguments as a JSON object and answers with a JSON value that says ok or names an error; the
  lifecycle tools share execute_task_transition with the REST handlers.
\<close>

definition str_arg :: "json \<Rightarrow> str \<Rightarrow> str" where
  "str_arg args key = (case jget key args \<bind> jstr of Some s \<Rightarrow> s | None \<Rightarrow> [])"

definition str_arg_or :: "json \<Rightarrow> str \<Rightarrow> str \<Rightarrow> str" where
  "str_arg_or args key dflt = (let v = trim (str_arg args key) in if v = [] then dflt else v)"

definition int_arg :: "json \<Rightarrow> str \<Rightarrow> int option" where
  "int_arg args key = (case jget key args of
     Some (JNum n) \<Rightarrow> if - (2 ^ 63) \<le> n \<and> n < 2 ^ 63 then Some n else None | _ \<Rightarrow> None)"

definition str_list_arg :: "json \<Rightarrow> str \<Rightarrow> str list" where
  "str_list_arg args key = (case jget key args of
     Some (JList vs) \<Rightarrow> List.map_filter jstr vs | _ \<Rightarrow> [])"

definition json_arg :: "json \<Rightarrow> str \<Rightarrow> json" where
  "json_arg args key = (case jget key args of Some v \<Rightarrow> v | None \<Rightarrow> JObj [])"

definition ok_result :: "json \<Rightarrow> json" where
  "ok_result r = JObj [(''ok'', JBool True), (''result'', r)]"

definition err_result :: "str \<Rightarrow> json" where
  "err_result e = JObj [(''ok'', JBool False), (''error'', JStr e), (''result'', JObj [])]"

definition is_ok_result :: "json \<Rightarrow> bool" where
  "is_ok_result j = (jget ''ok'' j = Some (JBool True))"

definition mcp_transition_error :: "transition_error \<Rightarrow> json" where
  "mcp_transition_error e =
     (case e of
        NotFound \<Rightarrow> err_result ''task not found''
      | Forbidden \<Rightarrow> err_result ''not the task's claimer''
      | Conflict \<Rightarrow> err_result ''task is not in the required state for this transition''
      | Invalid d \<Rightarrow> err_result d
      | Database _ \<Rightarrow> err_result ''database_error'')"

definition mcp_authz_domain :: "db \<Rightarrow> principal \<Rightarrow> str \<Rightarrow> json + unit" where
  "mcp_authz_domain d p domain_id =
     (case authz_domain d p domain_id of
        Inr u \<Rightarrow> Inr ()
      | Inl e \<Rightarrow>
          if status_code e = 500
          then Inl (JObj [(''ok'', JBool False), (''error'', JStr ''database_error'')])
          else Inl (JObj [(''ok'', JBool False), (''error'', JStr ''forbidden''),
                          (''detail'', JStr ''not authorized for domain'')]))"

text \<open>Resolve the domain of a task and authorize the caller for it.\<close>

definition mcp_task_guard :: "db \<Rightarrow> principal \<Rightarrow> str \<Rightarrow> str \<Rightarrow> json + unit" where
  "mcp_task_guard d p task_id missing =
     (case domain_id_for_task d task_id of
        Inl _ \<Rightarrow> Inl (err_result missing)
      | Inr domain_id \<Rightarrow> mcp_authz_domain d p domain_id)"

section \<open>Submitting\<close>

definition submitted_row ::
  "time \<Rightarrow> str \<Rightarrow> str \<Rightarrow> str \<Rightarrow> str \<Rightarrow> principal \<Rightarrow> task_kind \<Rightarrow> str \<Rightarrow> (json \<Rightarrow> str) \<Rightarrow> json \<Rightarrow> task_row" where
  "submitted_row now new_id public_id mission_id domain_id p kind st print_json args =
     (let assigned = (\<lambda>key dflt. if kind = Assigned then Some (str_arg_or args key dflt) else None) in
      \<lparr>t_id = new_id, t_public_id = public_id, t_mission_id = mission_id, t_domain_id = domain_id,
       t_parent_task_id = jget ''parent_task_id'' args \<bind> jstr, t_kind = kind,
       t_title = str_arg args ''title'', t_description = str_arg args ''description'',
       t_input_json = print_json (json_arg args ''input_json''),
       t_claim_policy = (if kind = Claimable then Some (str_arg_or args ''claim_policy'' ''first_claim'') else None),
       t_depends_on = str_list_arg args ''depends_on'',
       t_produces = json_arg args ''produces'', t_consumes = json_arg args ''consumes'',
       t_required_capabilities = str_list_arg args ''required_capabilities'', t_status = st,
       t_owner = assigned ''owner'' (subject p), t_contributors = assigned ''contributors'' [],
       t_done_criteria = assigned ''done_criteria'' [],
       t_dependencies_note = assigned ''dependencies_note'' [],
       t_related_artifacts_note = assigned ''related_artifacts_note'' [],
       t_claimed_by = None, t_result_artifact_id = None,
       t_priority = (case int_arg args ''priority'' of Some n \<Rightarrow> (n + 2 ^ 31) mod 2 ^ 32 - 2 ^ 31 | None \<Rightarrow> 0),
       t_lease_expires_at = None, t_claim_lease_id = None, t_version_counter = 0, t_attempt = 0,
       t_max_attempts = 3, t_finalized_at = None, t_finalized_by = None,
       t_created_by_subject = subject p, t_created_at = now, t_updated_at = now\<rparr>)"

definition parse_kind :: "str \<Rightarrow> task_kind option" where
  "parse_kind s = (if s = ''claimable'' then Some Claimable
     else if s = ''assigned'' then Some Assigned else None)"

definition submit_mesh_task ::
  "(json \<Rightarrow> str) \<Rightarrow> db \<Rightarrow> principal \<Rightarrow> time \<Rightarrow> str \<Rightarrow> str \<Rightarrow> json \<Rightarrow> (db \<times> json) option" where
  "submit_mesh_task print_json d p now new_id hex args =
     (let mission_id = str_arg args ''mission_id''; title = str_arg args ''title'' in
      if mission_id = [] \<or> title = [] then Some (d, err_result ''mission_id and title are required'')
      else case domain_id_for_mission d mission_id of
        Inl _ \<Rightarrow> Some (d, err_result ''mission not found'')
      | Inr domain_id \<Rightarrow>
          (case mcp_authz_domain d p domain_id of
             Inl e \<Rightarrow> Some (d, e)
           | Inr _ \<Rightarrow>
               (case parse_kind (str_arg_or args ''kind'' ''claimable'') of
                  None \<Rightarrow> Some (d, err_result (''kind must be 'claimable' or 'assigned'' @ [CHR 0x27]))
                | Some kind \<Rightarrow>
                    let deps = str_list_arg args ''depends_on'' in
                    (case find (dependency_missing d mission_id) deps of
                       Some dep \<Rightarrow> Some (d, err_result (''dependency task not found: '' @ dep))
                     | None \<Rightarrow>
                         (case (if deps = [] then Some (Inr False) else detect_cycle d mission_id new_id deps) of
                            None \<Rightarrow> None
                          | Some (Inl e) \<Rightarrow> Some (d, err_result ''database_error'')
                          | Some (Inr True) \<Rightarrow> Some (d, err_result ''dependency cycle detected'')
                          | Some (Inr False) \<Rightarrow>
                              let st = (if kind = Claimable then compute_initial_status d deps else INITIAL_STATUS);
                                  r = submitted_row now new_id (new_public_id hex) mission_id domain_id p kind st
                                        print_json args in
                              Some (d\<lparr>tasks := insert_row r (tasks d)\<rparr>, ok_result (JObj
                                [(''task_id'', JStr new_id), (''mission_id'', JStr mission_id),
                                 (''domain_id'', JStr domain_id), (''title'', JStr title),
                                 (''kind'', JStr (str_arg_or args ''kind'' ''claimable'')),
                                 (''status'', JStr st)])))))))"

section \<open>Reading\<close>

definition list_mesh_tasks :: "db \<Rightarrow> principal \<Rightarrow> json \<Rightarrow> json" where
  "list_mesh_tasks d p args =
     (let mission_id = str_arg args ''mission_id'' in
      if mission_id = [] then err_result ''mission_id is required''
      else case domain_id_for_mission d mission_id of
        Inl _ \<Rightarrow> err_result ''mission not found''
      | Inr domain_id \<Rightarrow>
          (case mcp_authz_domain d p domain_id of
             Inl e \<Rightarrow> e
           | Inr _ \<Rightarrow>
               let limit = min (unwrap_or (int_arg args ''limit'') 50) 200;
                   rows = select_where (\<lambda>r. tand (tbool (t_mission_id r = mission_id)) (tand (is_kind Claimable r)
                     (case jget ''status'' args \<bind> jstr of Some s \<Rightarrow> tbool (t_status r = s) | None \<Rightarrow> tbool True)))
                     (tasks d) in
               if limit < 0 then err_result ''database_error''
               else ok_result (JList (map (\<lambda>r. JObj
                 [(''id'', JStr (t_id r)), (''mission_id'', JStr (t_mission_id r)),
                  (''domain_id'', JStr (t_domain_id r)), (''title'', JStr (t_title r)),
                  (''status'', JStr (t_status r)), (''priority'', JNum (t_priority r)),
                  (''claimed_by_agent_id'', jopt JStr (t_claimed_by r))])
                 (take (nat limit) (sort_key (\<lambda>r. (- t_priority r, t_created_at r)) rows))))))"

definition get_mesh_task :: "db \<Rightarrow> principal \<Rightarrow> json \<Rightarrow> json" where
  "get_mesh_task d p args =
     (let task_id = str_arg args ''task_id'' in
      if task_id = [] then err_result ''task_id is required''
      else case mcp_task_guard d p task_id ''mesh_task_not_found'' of
        Inl e \<Rightarrow> e
      | Inr _ \<Rightarrow>
          (case lookup t_id task_id (tasks d) of
             None \<Rightarrow> err_result ''mesh_task_not_found''
           | Some r \<Rightarrow>
               let is_owner = is_full_trust p \<or> is_admin p \<or> t_claimed_by r = Some (subject_id_of p) in
               ok_result (JObj
                 [(''id'', JStr (t_id r)), (''mission_id'', JStr (t_mission_id r)),
                  (''domain_id'', JStr (t_domain_id r)), (''title'', JStr (t_title r)),
                  (''description'', JStr (t_description r)), (''status'', JStr (t_status r)),
                  (''priority'', JNum (t_priority r)), (''claimed_by_agent_id'', jopt JStr (t_claimed_by r)),
                  (''claim_lease_id'', if is_owner then jopt JStr (t_claim_lease_id r) else JNull),
                  (''lease_expires_at'', jopt JNum (t_lease_expires_at r))])))"

section \<open>Claiming and the lifecycle tools\<close>

definition clamp :: "int \<Rightarrow> int \<Rightarrow> int \<Rightarrow> int" where
  "clamp lo hi n = max lo (min hi n)"

definition mcp_claim_fence :: "str \<Rightarrow> task_row \<Rightarrow> tri" where
  "mcp_claim_fence task_id r = tand (by_key t_id task_id r) (status_in [''ready''] r)"

definition mcp_claim_update :: "str \<Rightarrow> str \<Rightarrow> time \<Rightarrow> time \<Rightarrow> task_row \<Rightarrow> task_row" where
  "mcp_claim_update agent lease expires now r = r\<lparr>t_status := ''claimed'', t_claimed_by := Some agent,
     t_claim_lease_id := Some lease, t_lease_expires_at := Some expires,
     t_version_counter := t_version_counter r + 1, t_updated_at := now\<rparr>"

definition claim_mesh_task :: "db \<Rightarrow> principal \<Rightarrow> time \<Rightarrow> str \<Rightarrow> json \<Rightarrow> db \<times> json" where
  "claim_mesh_task d p now lease args =
     (let task_id = str_arg args ''task_id'' in
      if task_id = [] then (d, err_result ''task_id is required'')
      else let agent_id = (if is_full_trust p \<or> is_admin p then str_arg args ''agent_id'' else subject_id_of p) in
        if agent_id = [] then (d, err_result ''agent_id is required (or authenticate as an agent)'')
        else case domain_and_kind_for_task d task_id of
          Inl _ \<Rightarrow> (d, err_result ''task not found'')
        | Inr (domain_id, kind) \<Rightarrow>
            (case mcp_authz_domain d p domain_id of
               Inl e \<Rightarrow> (d, e)
             | Inr _ \<Rightarrow>
                 if kind \<noteq> Claimable then (d, err_result ''task is not claimable (kind='assigned')'')
                 else let lease_seconds = clamp 60 3600 (unwrap_or (int_arg args ''lease_seconds'') 300);
                          expires = now + secs lease_seconds in
                   (case update_returning (mcp_claim_fence task_id) (mcp_claim_update agent_id lease expires now)
                           (tasks d) of
                      (ts, Some _) \<Rightarrow> (d\<lparr>tasks := ts\<rparr>, ok_result (JObj
                        [(''task_id'', JStr task_id), (''claim_lease_id'', JStr lease),
                         (''lease_expires_at'', JNum expires)]))
                    | (ts, None) \<Rightarrow> (d, JObj [(''ok'', JBool False), (''error'', JStr ''conflict''),
                        (''detail'', JStr ''task not found or already claimed'')]))))"

definition mcp_transition ::
  "(transition_outcome \<Rightarrow> json) \<Rightarrow> db \<Rightarrow> principal \<Rightarrow> time \<Rightarrow> str \<Rightarrow> task_transition \<Rightarrow> db \<times> json" where
  "mcp_transition render d p now task_id tr =
     (case mcp_task_guard d p task_id ''task not found'' of
        Inl e \<Rightarrow> (d, e)
      | Inr _ \<Rightarrow>
          (case execute_task_transition d (task_actor p) now task_id tr of
             (d', Inr out) \<Rightarrow> (d', render out)
           | (d', Inl e) \<Rightarrow> (d', mcp_transition_error e)))"

definition unexpected_outcome :: json where
  "unexpected_outcome = err_result ''unexpected_transition_outcome''"

definition heartbeat_mesh_task :: "db \<Rightarrow> principal \<Rightarrow> time \<Rightarrow> json \<Rightarrow> db \<times> json" where
  "heartbeat_mesh_task d p now args =
     (let task_id = str_arg args ''task_id''; lease = str_arg args ''claim_lease_id'' in
      if task_id = [] \<or> lease = [] then (d, err_result ''task_id and claim_lease_id are required'')
      else mcp_transition (\<lambda>out. case out of
          TaskOutcome r _ \<Rightarrow> ok_result (JObj [(''task_id'', JStr task_id),
            (''lease_expires_at'', jopt JNum (t_lease_expires_at r))])
        | _ \<Rightarrow> unexpected_outcome) d p now task_id (Heartbeat (Some lease)))"

definition progress_mesh_task :: "(json \<Rightarrow> str) \<Rightarrow> db \<Rightarrow> principal \<Rightarrow> time \<Rightarrow> json \<Rightarrow> db \<times> json" where
  "progress_mesh_task print_json d p now args =
     (let task_id = str_arg args ''task_id''; event_type = str_arg args ''event_type'';
          lease = str_arg args ''claim_lease_id'' in
      if task_id = [] \<or> event_type = [] \<or> lease = []
      then (d, err_result ''task_id, event_type, and claim_lease_id are required'')
      else mcp_transition (\<lambda>out. case out of
          ProgressOutcome e \<Rightarrow> ok_result (JObj [(''event_id'', JNum (p_id e)), (''task_id'', JStr task_id),
            (''event_type'', JStr event_type)])
        | _ \<Rightarrow> unexpected_outcome) d p now task_id
        (AppendProgress lease event_type (jget ''phase'' args \<bind> jstr) (jget ''step'' args \<bind> jstr) []
           (print_json (json_arg args ''payload_json'')) None))"

definition finishing_transition :: "str \<Rightarrow> str option \<Rightarrow> task_transition option" where
  "finishing_transition tool lease =
     (if tool = ''complete_mesh_task'' then Some (Complete lease None None)
      else if tool = ''fail_mesh_task'' then Some (Fail lease None)
      else if tool = ''block_mesh_task'' then Some (Block lease) else None)"

definition finish_mesh_task :: "str \<Rightarrow> db \<Rightarrow> principal \<Rightarrow> time \<Rightarrow> json \<Rightarrow> db \<times> json" where
  "finish_mesh_task tool d p now args =
     (let task_id = str_arg args ''task_id''; lease_str = str_arg args ''claim_lease_id'';
          lease = (if lease_str = [] then None else Some lease_str) in
      if task_id = [] then (d, err_result ''task_id is required'')
      else case mcp_task_guard d p task_id ''task not found'' of
        Inl e \<Rightarrow> (d, e)
      | Inr _ \<Rightarrow>
          (case finishing_transition tool lease of
             None \<Rightarrow> (d, err_result ''unknown_tool'')
           | Some tr \<Rightarrow> mcp_transition (\<lambda>out. case out of
                 TaskOutcome r _ \<Rightarrow> ok_result (JObj [(''task_id'', JStr task_id), (''status'', JStr (t_status r))])
               | WaitingReview r gs \<Rightarrow> ok_result (JObj [(''task_id'', JStr task_id),
                   (''status'', JStr ''waiting_review''), (''pending_gates'', JList (map JStr gs))])
               | ProgressOutcome _ \<Rightarrow> unexpected_outcome) d p now task_id tr))"

end
