(* ===== verification/Task_Lifecycle.thy ===== *)
theory Task_Lifecycle
  imports Mcp_Tasks
begin

text \<open>
  What every writer of the task table has in common. The relation evolves lists the moves a task
  row can make in one request; the locale task_handler is the contract of a request handler: keys
  stay unique, every row of the new table is a row of the old one after at most one move, or a
  newborn row under the fresh id. Every handler of the REST and MCP surfaces is shown to be one.
  Row invariants are then proved once, on the moves.
\<close>

section \<open>The moves of a row\<close>

definition finishable :: "task_row \<Rightarrow> bool" where
  "finishable r = (case t_kind r of
     Claimable \<Rightarrow> t_status r \<in> {''claimed'', ''running'', ''waiting_review''}
   | Assigned \<Rightarrow> \<not> is_terminal_status (t_status r))"

definition cancellable :: "task_row \<Rightarrow> bool" where
  "cancellable r = (case t_kind r of
     Claimable \<Rightarrow> t_status r \<notin> {''finished'', ''cancelled''}
   | Assigned \<Rightarrow> \<not> is_terminal_status (t_status r))"

definition live :: "task_row \<Rightarrow> bool" where
  "live r = (t_kind r = Claimable \<and> t_status r \<in> {''claimed'', ''running''})"

inductive evolves :: "str \<Rightarrow> task_row \<Rightarrow> task_row \<Rightarrow> bool" for l where
  Same: "evolves l r r"
| Beat: "live r \<Longrightarrow> evolves l r (heartbeat_update now r)"
| Completed: "finishable r \<Longrightarrow> evolves l r (complete_update pend res eff now r)"
| Failed: "finishable r \<Longrightarrow> evolves l r (fail_update eff now r)"
| Blocked: "live r \<Longrightarrow> evolves l r (block_update now r)"
| Readied: "t_kind r = Claimable \<Longrightarrow> t_status r \<in> {''pending'', ''blocked''} \<Longrightarrow> evolves l r (ready_update now r)"
| Cancelled: "cancellable r \<Longrightarrow> evolves l r (cancel_update sid now r)"
| Retried: "t_kind r = Claimable \<Longrightarrow> t_status r \<in> {''failed'', ''cancelled''} \<Longrightarrow> evolves l r (retry_update now r)"
| Expired: "live r \<Longrightarrow> evolves l r (expire_update now r)"
| Claimed: "t_kind r = Claimable \<Longrightarrow> t_status r = ''ready'' \<Longrightarrow> st \<in> {''claimed'', ''running''} \<Longrightarrow>
    evolves l r (r\<lparr>t_status := st, t_claimed_by := Some a, t_claim_lease_id := Some l,
      t_version_counter := v, t_lease_expires_at := Some e, t_updated_at := now\<rparr>)"
| Dispatched: "t_status r = ''ready'' \<Longrightarrow> evolves l r (dispatch_update now r)"
| Reviewed: "t_status r = ''waiting_review'' \<Longrightarrow> evolves l r (review_update gs sid now r)"
| Edited: "t_kind r = Assigned \<Longrightarrow> evolves l r (assigned_set r b l now r)"

lemmas move_defs = heartbeat_update_def complete_update_def fail_update_def block_update_def
  ready_update_def cancel_update_def retry_update_def expire_update_def dispatch_update_def
  review_update_def assigned_set_def Let_def

lemma evolves_keeps:
  "evolves l r r' \<Longrightarrow> t_id r' = t_id r \<and> t_kind r' = t_kind r \<and> t_mission_id r' = t_mission_id r \<and>
     t_domain_id r' = t_domain_id r \<and> t_depends_on r' = t_depends_on r \<and>
     t_claim_policy r' = t_claim_policy r \<and> t_created_by_subject r' = t_created_by_subject r"
  by (induction rule: evolves.induct) (auto simp: move_defs)

lemma evolves_lease:
  "evolves l r r' \<Longrightarrow> t_claim_lease_id r' \<in> {None, t_claim_lease_id r, Some l}"
  by (induction rule: evolves.induct) (auto simp: move_defs minted_lease_def)

text \<open>Finished claimable work is final.\<close>

lemma evolves_finished:
  assumes "evolves l r r'" "t_kind r = Claimable" "t_status r = ''finished''"
  shows "r' = r"
proof -
  have "r' = r \<or> t_kind r \<noteq> Claimable \<or> t_status r \<noteq> ''finished''"
    using assms(1)
    by (induction rule: evolves.induct)
      (rule disjI1 [OF refl] | rule disjI2, auto simp: finishable_def cancellable_def live_def)+
  then show ?thesis
    using assms(2,3) by blast
qed

section \<open>The row invariant\<close>

definition row_ok :: "task_row \<Rightarrow> bool" where
  "row_ok r = (case t_kind r of
     Claimable \<Rightarrow> t_owner r = None
       \<and> (t_status r \<in> {''claimed'', ''running'', ''waiting_review''} \<longleftrightarrow> t_claim_lease_id r \<noteq> None)
       \<and> (t_claim_lease_id r = None \<longleftrightarrow> t_lease_expires_at r = None)
       \<and> (t_claim_lease_id r \<noteq> None \<longrightarrow> t_claimed_by r \<noteq> None)
       \<and> t_status r \<in> {''pending'', ''ready'', ''claimed'', ''running'', ''waiting_review'', ''blocked'',
            ''finished'', ''failed'', ''cancelled''}
   | Assigned \<Rightarrow> t_claimed_by r = None \<and> t_lease_expires_at r = None \<and> t_claim_policy r = None)"

lemma row_ok_evolves: "evolves l r r' \<Longrightarrow> row_ok r \<Longrightarrow> row_ok r'"
proof (induction rule: evolves.induct)
  case (Cancelled r sid now)
  then show ?case
    by (cases "t_kind r") (simp_all add: row_ok_def move_defs)
next
  case (Reviewed r gs sid now)
  then show ?case
    by (cases "t_kind r") (simp_all add: row_ok_def move_defs)
next
  case (Completed r pend res eff now)
  then show ?case
    by (cases "t_kind r") (auto simp: row_ok_def move_defs finishable_def)
next
  case (Failed r eff now)
  then show ?case
    by (cases "t_kind r") (simp_all add: row_ok_def move_defs)
next
  case (Dispatched r now)
  then show ?case
    by (cases "t_kind r") (auto simp: row_ok_def move_defs)
next
  case (Edited r b now)
  then show ?case
    by (simp add: row_ok_def move_defs)
qed (auto simp: row_ok_def move_defs live_def)

definition newborn :: "task_row \<Rightarrow> bool" where
  "newborn r = (t_claim_lease_id r = None \<and> t_claimed_by r = None \<and> t_lease_expires_at r = None \<and>
     (case t_kind r of Claimable \<Rightarrow> t_owner r = None \<and> t_status r \<in> {''pending'', ''ready''}
      | Assigned \<Rightarrow> t_claim_policy r = None))"

lemma newborn_row_ok: "newborn r \<Longrightarrow> row_ok r"
  by (auto simp: newborn_def row_ok_def split: task_kind.splits)

section \<open>The contract of a handler\<close>

text \<open>Everything the row depends on exists, as a claimable task of the same mission.\<close>

definition deps_present :: "db \<Rightarrow> task_row \<Rightarrow> bool" where
  "deps_present d r = (\<forall>x\<in>set (t_depends_on r). \<exists>q. task_of d x = Some q \<and> t_kind q = Claimable
     \<and> t_mission_id q = t_mission_id r)"

definition moves_table :: "str \<Rightarrow> str \<Rightarrow> db \<Rightarrow> db \<Rightarrow> bool" where
  "moves_table l i d d' = (keys_ok d' \<and>
     (\<forall>x r. task_of d x = Some r \<and> t_kind r = Claimable \<longrightarrow> task_of d' x \<noteq> None) \<and>
     (\<forall>x r'. task_of d' x = Some r' \<longrightarrow>
        (\<exists>r. task_of d x = Some r \<and> evolves l r r') \<or>
        (task_of d x = None \<and> x = i \<and> newborn r' \<and> deps_present d r')))"

text \<open>An identifier no task and no gate has yet.\<close>

definition fresh_id :: "db \<Rightarrow> str \<Rightarrow> bool" where
  "fresh_id d i = (task_of d i = None \<and> gate_of d i = None)"

locale task_handler =
  fixes run :: "db \<Rightarrow> db" and l :: str and i :: str
  assumes moves: "keys_ok d \<Longrightarrow> fresh_id d i \<Longrightarrow> moves_table l i d (run d)"
begin

lemma keys: "keys_ok d \<Longrightarrow> fresh_id d i \<Longrightarrow> keys_ok (run d)"
  using moves by (simp add: moves_table_def)

lemma origin:
  "keys_ok d \<Longrightarrow> fresh_id d i \<Longrightarrow> task_of (run d) x = Some r' \<Longrightarrow>
     (\<exists>r. task_of d x = Some r \<and> evolves l r r') \<or>
     (task_of d x = None \<and> x = i \<and> newborn r' \<and> deps_present d r')"
  using moves by (simp add: moves_table_def)

lemma claimable_stays:
  "keys_ok d \<Longrightarrow> fresh_id d i \<Longrightarrow> task_of d x = Some r \<Longrightarrow> t_kind r = Claimable \<Longrightarrow>
     \<exists>r'. task_of (run d) x = Some r' \<and> evolves l r r'"
  using moves origin unfolding moves_table_def by (metis not_None_eq option.inject)

lemma preserves_row_ok:
  assumes "keys_ok d" "fresh_id d i" "\<And>x r. task_of d x = Some r \<Longrightarrow> row_ok r"
    "task_of (run d) x = Some r'"
  shows "row_ok r'"
  using origin [OF assms(1,2,4)] assms(3) row_ok_evolves newborn_row_ok by blast

lemma lease_origin:
  assumes "keys_ok d" "fresh_id d i" "task_of (run d) x = Some r'" "t_claim_lease_id r' = Some k"
  shows "k = l \<or> (\<exists>r. task_of d x = Some r \<and> t_claim_lease_id r = Some k)"
proof -
  consider r where "task_of d x = Some r" "evolves l r r'" | "newborn r'"
    using origin [OF assms(1-3)] by blast
  then show ?thesis
    using assms(4) evolves_lease by cases (fastforce simp: newborn_def)+
qed

end

text \<open>Ways to meet the contract.\<close>

lemma moves_same: "keys_ok d \<Longrightarrow> moves_table l i d d"
  by (auto simp: moves_table_def intro: evolves.Same)

lemma moves_update:
  assumes "keys_ok d" "\<And>r. t_id (f r) = t_id r" "\<And>r. holds (c r) \<Longrightarrow> evolves l r (f r)"
  shows "moves_table l i d (d\<lparr>tasks := update_where c f (tasks d)\<rparr>)"
  using assms keys_ok_update [OF assms(2,1)]
  by (auto simp: moves_table_def task_of_update intro: evolves.Same)

lemma moves_eq:
  assumes "moves_table l i d d1" "tasks d2 = tasks d1" "keys_ok d2"
  shows "moves_table l i d d2"
  using assms by (simp add: moves_table_def task_of_def)

lemma moves_cas:
  assumes "keys_ok d" "\<And>r. t_id (f r) = t_id r" "\<And>r. holds (c r) \<Longrightarrow> evolves l r (f r)"
    "update_returning c f (tasks d) = (ts, x)"
  shows "moves_table l i d (d\<lparr>tasks := ts\<rparr>)"
  using moves_update [of d f c l i] assms fst_update_returning [of c f "tasks d"] by simp

lemma moves_insert:
  assumes "keys_ok d" "task_of d i = None" "t_id r = i" "newborn r" "deps_present d r"
  shows "moves_table l i d (d\<lparr>tasks := insert_row r (tasks d)\<rparr>)"
proof -
  have "keys_ok (d\<lparr>tasks := insert_row r (tasks d)\<rparr>)"
    using assms by (intro keys_ok_tasks unique_insert_row) (auto simp: task_of_def dest: keys_okD)
  then show ?thesis
    using assms
    by (auto simp: moves_table_def task_of_def lookup_insert_row intro: evolves.Same
        split: option.splits if_splits)
qed

text \<open>Finishing one row and then releasing its dependents: no row moves twice.\<close>

lemma moves_release:
  assumes "moves_table l i d d1" "keys_ok d1" "db_up d1"
    and "\<And>x r r1. task_of d x = Some r \<Longrightarrow> task_of d1 x = Some r1 \<Longrightarrow>
           t_status r1 \<in> {''pending'', ''blocked''} \<Longrightarrow> r1 = r"
    and "\<And>x. task_of d x = None \<Longrightarrow> task_of d1 x = None"
  shows "moves_table l i d (fst (unblock_dependents now d1 m f))"
proof -
  have keys: "keys_ok (unblock_all now d1 m f)"
    unfolding unblock_all_def using assms(2) by (intro keys_ok_update) simp_all
  have move: "\<exists>r. task_of d x = Some r \<and> evolves l r (if unblocks d1 m f r1 then ready_update now r1 else r1)"
    if x: "task_of d1 x = Some r1" for x r1
  proof -
    obtain r where r: "task_of d x = Some r" "evolves l r r1"
      using assms(1,5) x by (fastforce simp: moves_table_def)
    have "evolves l r (ready_update now r1)" if u: "unblocks d1 m f r1"
    proof -
      have "t_kind r1 = Claimable" "t_status r1 \<in> {''pending'', ''blocked''}"
        using u by (auto simp: unblocks_def unblock_candidate_def is_kind_def)
      moreover from this have "r1 = r"
        using assms(4) r(1) x by blast
      ultimately show ?thesis by (simp add: evolves.Readied)
    qed
    with r show ?thesis by auto
  qed
  show ?thesis
    unfolding unblock_dependents_closed [OF assms(2,3)] fst_conv moves_table_def task_of_unblock_all
  proof (intro conjI allI impI)
    fix x r'
    assume "map_option (\<lambda>r. if unblocks d1 m f r then ready_update now r else r) (task_of d1 x) = Some r'"
    then obtain r1 where "task_of d1 x = Some r1" "(if unblocks d1 m f r1 then ready_update now r1 else r1) = r'"
      unfolding map_option_eq_Some by blast
    then show "(\<exists>r. task_of d x = Some r \<and> evolves l r r') \<or>
        task_of d x = None \<and> x = i \<and> newborn r' \<and> deps_present d r'"
      using move by blast
  next
    fix x r
    assume "task_of d x = Some r \<and> t_kind r = Claimable"
    then have "task_of d1 x \<noteq> None"
      using assms(1) by (auto simp: moves_table_def)
    then show "map_option (\<lambda>r. if unblocks d1 m f r then ready_update now r else r) (task_of d1 x) \<noteq> None"
      by simp
  qed (rule keys)
qed

end
