(* ===== verification/Task_System.thy ===== *)
theory Task_System
  imports Task_Lifecycle
begin

text \<open>
  Every request handler that writes the task table meets the contract task_handler, and the system
  of all of them: the step relation, its reachable databases with the leases ever minted, and the
  properties that hold across any interleaving of requests of both surfaces.
\<close>

lemma move_ids [simp]:
  "t_id (cancel_update s now r) = t_id r" "t_id (retry_update now r) = t_id r"
  "t_id (dispatch_update now r) = t_id r" "t_id (review_update gs s now r) = t_id r"
  "t_id (assigned_set q b fresh now r) = t_id r" "t_id (expire_update now r) = t_id r"
  "t_id (claim_update a lo v now r) = t_id r" "t_id (broadcast_claim_update a lo now r) = t_id r"
  "t_id (mcp_claim_update a lo ex now r) = t_id r"
  by (simp_all add: move_defs claim_update_def broadcast_claim_update_def mcp_claim_update_def)

section \<open>The shared transitions\<close>

lemma moves_set_row:
  assumes "keys_ok d" "task_of d tid = Some r0" "evolves l r0 (f r0)" "\<And>r. t_id (f r) = t_id r"
  shows "moves_table l i d (set_row d tid f)"
proof -
  have "task_of (set_row d tid f) x = Some r' \<Longrightarrow> \<exists>r. task_of d x = Some r \<and> evolves l r r'" for x r'
    using assms(2,3) by (auto simp: task_of_set_row assms(4) intro: evolves.Same split: if_splits)
  then show ?thesis
    using keys_ok_set_row [OF assms(4,1)] by (auto simp: moves_table_def task_of_set_row assms(4))
qed

lemma finishable_fence: "holds (finish_fence l b e now tid r) \<Longrightarrow> finishable r"
  by (auto simp: finish_fence_def finishable_def is_kind_def is_terminal_status_def)

lemma live_fence: "holds (fence_claimable_live l b now tid r) \<Longrightarrow> live r"
  by (auto simp: fence_claimable_live_def live_def is_kind_def)

lemma live_block_fence: "holds (block_fence l b s tid r) \<Longrightarrow> live r"
  by (auto simp: block_fence_def live_def is_kind_def)

lemma complete_status:
  "t_status (complete_update pend res eff now r) \<in> {''waiting_review'', ''finished''}"
  by (simp add: complete_update_def)

lemma complete_moves:
  assumes "keys_ok d" "task_of d tid = Some r" "passes_fence d ac now tid (Complete lo a res)"
  shows "moves_table l i d (fst (complete_transition d ac now tid lo a res))"
proof -
  let ?f = "complete_update (has_pending_gate d tid) res (effective_id ac a) now"
  let ?d1 = "set_row d tid ?f"
  have fin: "finishable r" and up: "db_up d"
    using assms(2,3) by (auto simp: passes_fence_def dest: finishable_fence)
  have d1: "moves_table l i d ?d1"
    using assms(1,2) evolves.Completed [OF fin] by (intro moves_set_row) simp_all
  have keys: "keys_ok ?d1"
    using assms(1) by (intro keys_ok_set_row) simp_all
  have other: "r1 = q" if "task_of d x = Some q" "task_of ?d1 x = Some r1"
      "t_status r1 \<in> {''pending'', ''blocked''}" for x q r1
  proof (cases "x = tid")
    case True
    then have "r1 = ?f q"
      using that(1,2) by (simp add: task_of_set_row)
    then show ?thesis
      using that(3) complete_status [of "has_pending_gate d tid" res "effective_id ac a" now q] by auto
  next
    case False
    then show ?thesis
      using that(1,2) by (simp add: task_of_set_row)
  qed
  have release: "moves_table l i d (fst (unblock_dependents now ?d1 (t_mission_id r) tid))"
  proof (rule moves_release [OF d1 keys])
    show "db_up ?d1" using up by simp
    show "task_of ?d1 x = None" if "task_of d x = None" for x
      using that by (auto simp: task_of_set_row)
  qed (rule other)
  then have all: "moves_table l i d (unblock_all now ?d1 (t_mission_id r) tid)"
    using up by (simp add: unblock_dependents_closed [OF keys])
  then have "moves_table l i d (broadcast_all dm m ids (unblock_all now ?d1 (t_mission_id r) tid))" for dm m ids
    by (simp add: moves_table_def)
  with d1 show ?thesis
    unfolding complete_accepted [OF assms] Let_def by (cases "has_pending_gate d tid") simp_all
qed

lemma transition_moves:
  assumes "keys_ok d"
  shows "moves_table l i d (fst (execute_task_transition d ac now tid tr))"
proof (cases "passes_fence d ac now tid tr")
  case False
  then obtain e where "snd (execute_task_transition d ac now tid tr) = Inl e"
    using transition_accepted_iff [OF assms] by (metis sum.exhaust)
  then show ?thesis
    using transition_rejected moves_same [OF assms] by metis
next
  case True
  then obtain r where r: "task_of d tid = Some r" "holds (transition_fence ac now tid tr r)"
    by (auto simp: passes_fence_def)
  show ?thesis
  proof (cases tr)
    case (Heartbeat lo)
    then have "live r"
      using r(2) by (auto dest: live_fence)
    then show ?thesis
      using True r(1) assms evolves.Beat [of r l now]
      by (simp add: Heartbeat heartbeat_accepted moves_set_row heartbeat_update_def)
  next
    case (AppendProgress lo ev ph st su pl ar)
    then obtain e where "fst (execute_task_transition d ac now tid tr) = d\<lparr>progress := progress d @ [e]\<rparr>"
      using progress_accepted [OF assms r(1)] True by (metis execute_task_transition.simps(2) fst_conv)
    moreover have "keys_ok (d\<lparr>progress := p\<rparr>)" for p
      using assms by (simp add: keys_ok_def)
    ultimately show ?thesis
      using moves_eq [OF moves_same [OF assms, of l i], of "d\<lparr>progress := progress d @ [e]\<rparr>"] by simp
  next
    case (Complete lo a res)
    then show ?thesis
      using complete_moves [OF assms r(1)] True by simp
  next
    case (Fail lo a)
    then have "finishable r"
      using r(2) by (auto dest: finishable_fence)
    then show ?thesis
      using True r(1) assms evolves.Failed [of r l "effective_id ac a" now]
      by (simp add: Fail fail_accepted moves_set_row fail_update_def)
  next
    case (Block lo)
    then have "live r"
      using r(2) by (auto dest: live_block_fence)
    then show ?thesis
      using True r(1) assms evolves.Blocked [of r l now]
      by (simp add: Block block_accepted moves_set_row block_update_def)
  qed
qed

section \<open>Every handler meets the contract\<close>

definition after :: "(db \<times> 'a) option \<Rightarrow> db \<Rightarrow> db" where
  "after x d = (case x of Some (d', _) \<Rightarrow> d' | None \<Rightarrow> d)"

lemma keys_ok_gates: "keys_ok d \<Longrightarrow> unique_key g_id gs \<Longrightarrow> keys_ok (d\<lparr>gates := gs\<rparr>)"
  by (simp add: keys_ok_def)

lemma rest_transition_moves:
  "keys_ok d \<Longrightarrow> moves_table l i d (fst (rest_transition render d p now tid tr))"
  using transition_moves [of d l i "task_actor p" now tid tr]
  by (auto simp: rest_transition_def moves_same split: sum.splits prod.splits)

lemma mcp_transition_moves:
  "keys_ok d \<Longrightarrow> moves_table l i d (fst (mcp_transition render d p now tid tr))"
  using transition_moves [of d l i "task_actor p" now tid tr]
  by (auto simp: mcp_transition_def moves_same split: sum.splits prod.splits)

lemma expire_moves: "keys_ok d \<Longrightarrow> moves_table l i d (expire_stale_leases now m d)"
  unfolding expire_stale_leases_def
  by (auto intro!: moves_update moves_same evolves.Expired
      simp: expire_fence_def expire_update_def live_def is_kind_def Let_def)

lemma cas_moves:
  assumes "keys_ok d" "\<And>r. t_id (f r) = t_id r" "\<And>r. holds (c r) \<Longrightarrow> evolves l r (f r)"
  shows "moves_table l i d (fst (case update_returning c f (tasks d) of
     (ts, Some r) \<Rightarrow> (d\<lparr>tasks := ts\<rparr>, Inr (g r)) | (ts, None) \<Rightarrow> (d, Inl e)))"
  using moves_update [OF assms] moves_same [OF assms(1)]
  by (auto simp: update_returning_find split: option.splits)

interpretation heartbeat_task: task_handler "\<lambda>d. fst (heartbeat_task d p now tid lo)" l i
  for p now tid lo l i
  by unfold_locales (simp add: heartbeat_task_def rest_transition_moves)

interpretation append_progress: task_handler "\<lambda>d. fst (append_progress pj d p now tid b)" l i
  for pj p now tid b l i
  by unfold_locales (simp add: append_progress_def rest_transition_moves moves_same)

interpretation complete_task: task_handler "\<lambda>d. fst (complete_task d p now tid b)" l i
  for p now tid b l i
  by unfold_locales (simp add: complete_task_def rest_transition_moves)

interpretation fail_task: task_handler "\<lambda>d. fst (fail_task d p now tid lo a)" l i
  for p now tid lo a l i
  by unfold_locales (simp add: fail_task_def rest_transition_moves)

interpretation block_task: task_handler "\<lambda>d. fst (block_task d p now tid)" l i
  for p now tid l i
  by unfold_locales (simp add: block_task_def rest_transition_moves)

interpretation list_tasks: task_handler "\<lambda>d. fst (list_tasks d p now m st)" l i
  for p now m st l i
  by unfold_locales (auto simp: list_tasks_def Let_def moves_same expire_moves split: sum.splits)

interpretation cancel_task: task_handler "\<lambda>d. fst (cancel_task d p now tid)" l i
  for p now tid l i
proof unfold_locales
  fix d
  assume keys: "keys_ok d"
  have "cancellable r" if "holds (cancel_fence b s tid r)" for b s r
    using that by (auto simp: cancel_fence_def cancellable_def is_kind_def is_terminal_status_def)
  then show "moves_table l i d (fst (cancel_task d p now tid))"
    using keys unfolding cancel_task_def Let_def
    by (auto split: sum.split intro!: cas_moves moves_same evolves.Cancelled)
qed

interpretation retry_task: task_handler "\<lambda>d. fst (retry_task d p now tid)" l i
  for p now tid l i
  by unfold_locales
    (auto simp: retry_task_def retry_fence_def is_kind_def split: sum.split
      intro!: cas_moves moves_same evolves.Retried)

interpretation unblock_task: task_handler "\<lambda>d. fst (unblock_task d p now tid)" l i
  for p now tid l i
  by unfold_locales
    (auto simp: unblock_task_def unblock_fence_def is_kind_def Let_def split: sum.split
      intro!: cas_moves moves_same evolves.Readied)

lemma claim_write_moves:
  assumes keys: "keys_ok d" and r: "task_of d tid = Some r" and kind: "t_kind r = Claimable"
    and st: "t_status r = ''ready''"
  shows "moves_table l i d (fst (claim_write d policy a now l tid))"
proof -
  have claims: "evolves l r (broadcast_claim_update a l now r)" "evolves l r (claim_update a l v now r)" for v
    using evolves.Claimed [OF kind st, where st = "''running''" and l = l and a = a and v = "t_version_counter r"
        and e = "now + secs LEASE_TTL_SECS" and now = now]
      evolves.Claimed [OF kind st, where st = "''claimed''" and l = l and a = a and v = v
        and e = "now + secs LEASE_TTL_SECS" and now = now]
    by (simp_all add: broadcast_claim_update_def claim_update_def)
  have only: "holds (by_key t_id tid q) \<Longrightarrow> q \<in> set (tasks d) \<Longrightarrow> q = r" for q
    using lookup_in_unique [OF keys_okD(1) [OF keys]] r by (force simp: task_of_def)
  have bc: "moves_table l i d (d\<lparr>tasks := update_where (by_key t_id tid) (broadcast_claim_update a l now) (tasks d)\<rparr>)"
    using moves_set_row [where f = "broadcast_claim_update a l now", OF keys r claims(1)] by (simp add: set_row_def)
  have ex: "moves_table l i d (d\<lparr>tasks := update_where
      (\<lambda>r. tand (by_key t_id tid r) (tbool (t_version_counter r = t_version_counter q)))
      (claim_update a l (t_version_counter q + 1) now) (tasks d)\<rparr>)"
    if "find (\<lambda>r. holds (tand (by_key t_id tid r) (status_in [''ready''] r))) (tasks d) = Some q" for q
  proof -
    have q: "q = r"
      using that only by (auto dest: find_SomeD)
    have "update_where (\<lambda>r. tand (by_key t_id tid r) (tbool (t_version_counter r = t_version_counter q)))
        f (tasks d) = update_where (by_key t_id tid) f (tasks d)" for f
      using only by (auto simp: update_where_def q)
    then show ?thesis
      using moves_set_row [where f = "claim_update a l (t_version_counter q + 1) now", OF keys r claims(2)] by (simp add: set_row_def)
  qed
  show ?thesis
    using bc ex moves_same [OF keys, of l i]
    by (auto simp: claim_write_def update_returning_find fetch_optional_def split: option.splits)
qed

interpretation claim_task: task_handler "\<lambda>d. fst (claim_task d p now l tid b)" l i
  for p now tid b l i
proof unfold_locales
  fix d
  assume keys: "keys_ok d"
  show "moves_table l i d (fst (claim_task d p now l tid b))"
  proof (cases "claim_read d p tid")
    case (Inl e)
    then show ?thesis using moves_same [OF keys] by (simp add: claim_task_def)
  next
    case (Inr policy)
    then obtain r where "task_of d tid = Some r" "t_kind r = Claimable" "t_status r = ''ready''"
      by (auto simp: claim_read_def task_of_def split: option.splits if_splits)
    then show ?thesis
      using claim_write_moves [OF keys] Inr by (simp add: claim_task_def)
  qed
qed

interpretation claim_mesh_task: task_handler "\<lambda>d. fst (claim_mesh_task d p now l args)" l i
  for p now args l i
proof unfold_locales
  fix d
  assume keys: "keys_ok d"
  let ?tid = "str_arg args ''task_id''"
  have hit: "moves_table l i d (d\<lparr>tasks := update_where (mcp_claim_fence ?tid) (mcp_claim_update a l e now) (tasks d)\<rparr>)"
    if kind: "domain_and_kind_for_task d ?tid = Inr (dm, Claimable)" for a e dm
  proof (cases "\<exists>r. task_of d ?tid = Some r \<and> t_status r = ''ready''")
    case True
    then obtain r where r: "task_of d ?tid = Some r" "t_status r = ''ready''" by blast
    have k: "t_kind r = Claimable"
      using kind r by (auto simp: domain_and_kind_for_task_def task_of_def split: if_splits)
    have "q = r" if "t_id q = ?tid" "q \<in> set (tasks d)" for q
      using that lookup_in_unique [OF keys_okD(1) [OF keys]] r by (force simp: task_of_def)
    then have "update_where (mcp_claim_fence ?tid) f (tasks d) = update_where (by_key t_id ?tid) f (tasks d)" for f
      using r(2) by (auto simp: update_where_def mcp_claim_fence_def)
    moreover have "mcp_claim_update a l e now r = r\<lparr>t_status := ''claimed'', t_claimed_by := Some a,
        t_claim_lease_id := Some l, t_version_counter := t_version_counter r + 1,
        t_lease_expires_at := Some e, t_updated_at := now\<rparr>"
      by (cases r) (simp add: mcp_claim_update_def)
    moreover from this have "evolves l r (mcp_claim_update a l e now r)"
      using evolves.Claimed [OF k r(2), where st = "''claimed''" and l = l and a = a
          and v = "t_version_counter r + 1" and e = e and now = now]
      by simp
    ultimately show ?thesis
      using moves_set_row [where f = "mcp_claim_update a l e now", OF keys r(1)] by (simp add: set_row_def)
  next
    case False
    then have "\<not> holds (mcp_claim_fence ?tid q)" if "q \<in> set (tasks d)" for q
      using lookup_in_unique [OF keys_okD(1) [OF keys] that] by (auto simp: mcp_claim_fence_def task_of_def)
    then have "update_where (mcp_claim_fence ?tid) f (tasks d) = tasks d" for f
      by (rule update_where_none)
    then show ?thesis using moves_same [OF keys] by simp
  qed
  show "moves_table l i d (fst (claim_mesh_task d p now l args))"
    using hit moves_same [OF keys, of l i]
    by (auto simp: claim_mesh_task_def Let_def update_returning_find split: sum.split option.split)
qed

interpretation dispatch_task: task_handler "\<lambda>d. fst (dispatch_task d p now tid)" l i
  for p now tid l i
proof unfold_locales
  fix d
  assume keys: "keys_ok d"
  show "moves_table l i d (fst (dispatch_task d p now tid))"
  proof (cases "\<exists>seen. dispatch_read d p tid = Inr seen \<and> seen \<noteq> ''finished''")
    case True
    then obtain r where r: "task_of d tid = Some r" "t_status r = ''ready''"
      by (auto simp: dispatch_read_def task_of_def split: option.splits if_splits)
    have "moves_table l i d (set_row d tid (dispatch_update now))"
      using evolves.Dispatched [OF r(2)] by (intro moves_set_row [OF keys r(1)]) simp_all
    then show ?thesis
      using True moves_same [OF keys, of l i]
      by (auto simp: dispatch_task_def dispatch_write_def update_returning_find set_row_def split: option.split)
  next
    case False
    then show ?thesis
      using moves_same [OF keys, of l i]
      by (auto simp: dispatch_task_def dispatch_write_def split: sum.split option.split)
  qed
qed

lemma compute_initial_status_cases: "compute_initial_status d ds \<in> {''ready'', ''pending''}"
  by (simp add: compute_initial_status_def)

lemma new_task_newborn:
  "newborn (new_task_row now i pub m dm c (compute_initial_status d ds) b)"
  using compute_initial_status_cases [of d ds] by (auto simp: newborn_def new_task_row_def)

lemma no_dependency_missing:
  assumes "keys_ok d" "find (dependency_missing d m) ds = None" "x \<in> set ds"
  shows "\<exists>q. task_of d x = Some q \<and> t_kind q = Claimable \<and> t_mission_id q = m"
  using assms lookup_in_unique [OF keys_okD(1) [OF assms(1)]]
  by (fastforce simp: find_None_iff dependency_missing_def exists_where_def list_ex_iff is_kind_def task_of_def)

lemma deps_present_new:
  assumes "keys_ok d" "find (dependency_missing d (t_mission_id r)) (t_depends_on r) = None"
  shows "deps_present d r"
  using no_dependency_missing [OF assms] by (auto simp: deps_present_def)

interpretation create_task: task_handler "\<lambda>d. after (create_task d p now i hex m b) d" l i
  for p now hex m b l i
proof unfold_locales
  fix d
  assume keys: "keys_ok d" and "fresh_id d i"
  then have fresh: "task_of d i = None"
    by (simp add: fresh_id_def)
  let ?r = "\<lambda>dm. new_task_row now i (new_public_id hex) m dm (subject p)
    (compute_initial_status d (tc_depends_on b)) b"
  have new: "moves_table l i d (d\<lparr>tasks := insert_row (?r dm) (tasks d)\<rparr>)"
    if "find (dependency_missing d m) (tc_depends_on b) = None" for dm
    using new_task_newborn that
    by (intro moves_insert [OF keys fresh] deps_present_new [OF keys]) (simp_all add: new_task_row_def)
  have told: "moves_table l i d
      (broadcast_task_available dm' m i (d\<lparr>tasks := insert_row (?r dm) (tasks d)\<rparr>))"
    if "find (dependency_missing d m) (tc_depends_on b) = None" for dm dm'
    by (rule moves_eq [OF new [OF that, of dm]])
      (use new [OF that, of dm] in \<open>simp_all add: broadcast_task_available_def moves_table_def keys_ok_def\<close>)
  show "moves_table l i d (after (create_task d p now i hex m b) d)"
    using new told moves_same [OF keys, of l i]
    by (auto simp: create_task_def after_def Let_def split: option.split sum.split bool.split)
qed


lemma moves_gates:
  "keys_ok d \<Longrightarrow> unique_key g_id gs \<Longrightarrow> moves_table l i d (d\<lparr>gates := gs\<rparr>)"
  by (rule moves_eq [OF moves_same]) (simp_all add: keys_ok_gates)

interpretation create_gate: task_handler "\<lambda>d. fst (create_gate d p now i tid b)" l i
  for p now tid b l i
proof unfold_locales
  fix d
  assume keys: "keys_ok d" and fresh: "fresh_id d i"
  have "unique_key g_id (insert_row (new_gate_row i ow tid now b) (gates d))" for ow
    using fresh keys by (intro unique_insert_row) (auto simp: fresh_id_def gate_of_def new_gate_row_def dest: keys_okD)
  then show "moves_table l i d (fst (create_gate d p now i tid b))"
    using moves_same [OF keys] moves_gates [OF keys]
    by (auto simp: create_gate_def Let_def split: sum.split)
qed

lemma review_fence_waiting: "holds (review_fence gs tid r) \<Longrightarrow> t_status r = ''waiting_review'' \<and> t_id r = tid"
  by (simp add: review_fence_def)

interpretation gate_cas: fenced_update g_id "resolve_fence tid subj adm" "resolve_update dec now"
  for tid subj adm dec now
  by unfold_locales (auto simp: resolve_fence_def resolve_update_def)

interpretation review_cas: fenced_update t_id "review_fence gs" "review_update gs sid now"
  for gs sid now
  by unfold_locales (auto simp: review_fence_def)

lemma resolve_tx_shape:
  assumes "resolve_tx d p now tid gid dec = Some (d1, g, t)" "keys_ok d"
  shows "\<exists>gs. unique_key g_id gs \<and>
    d1 = d\<lparr>gates := gs, tasks := update_where (review_fence (gates_of (d\<lparr>gates := gs\<rparr>) tid) tid)
      (review_update (gates_of (d\<lparr>gates := gs\<rparr>) tid) (subject_id_of p) now) (tasks d)\<rparr> \<and>
    gs = fst (update_returning (resolve_fence tid (subject p) (is_admin p) gid) (resolve_update dec now) (gates d))"
  using assms gate_cas.cas_unique [OF keys_okD(2) [OF assms(2)], of tid "subject p" "is_admin p" gid dec now]
  by (auto simp: resolve_tx_def Let_def update_returning_find split: option.splits)

lemma resolve_tx_moves:
  assumes "resolve_tx d p now tid gid dec = Some (d1, g, t)" "keys_ok d"
  shows "moves_table l i d d1 \<and> keys_ok d1 \<and>
    (\<forall>x r r1. task_of d x = Some r \<longrightarrow> task_of d1 x = Some r1 \<longrightarrow>
       t_status r1 \<in> {''pending'', ''blocked''} \<longrightarrow> r1 = r) \<and> (\<forall>x. task_of d x = None \<longrightarrow> task_of d1 x = None)"
proof -
  obtain gs where gs: "unique_key g_id gs" and d1: "d1 = d\<lparr>gates := gs,
      tasks := update_where (review_fence (gates_of (d\<lparr>gates := gs\<rparr>) tid) tid)
      (review_update (gates_of (d\<lparr>gates := gs\<rparr>) tid) (subject_id_of p) now) (tasks d)\<rparr>"
    using resolve_tx_shape [OF assms] by blast
  let ?gs = "gates_of (d\<lparr>gates := gs\<rparr>) tid"
  let ?f = "review_update ?gs (subject_id_of p) now"
  let ?d1 = "d\<lparr>tasks := update_where (review_fence ?gs tid) ?f (tasks d)\<rparr>"
  have mt: "moves_table l i d ?d1"
    using assms(2) by (intro moves_update) (auto intro!: evolves.Reviewed dest: review_fence_waiting)
  have keys: "keys_ok d1"
    using mt gs by (simp add: d1 moves_table_def keys_ok_def)
  have "moves_table l i d d1"
    by (rule moves_eq [OF mt _ keys]) (simp add: d1)
  moreover have rows: "task_of d1 x = map_option (\<lambda>r. if holds (review_fence ?gs tid r) then ?f r else r) (task_of d x)" for x
    unfolding d1 task_of_def by (simp add: lookup_update_where)
  moreover have "t_status (?f r) \<notin> {''pending'', ''blocked''}" for r
    by (simp add: review_update_def)
  ultimately show ?thesis
    using keys by (auto split: if_splits)
qed

interpretation resolve_gate: task_handler "\<lambda>d. fst (resolve_gate d p now tid gid dec)" l i
  for p now tid gid dec l i
proof unfold_locales
  fix d
  assume keys: "keys_ok d"
  have told: "moves_table l i d (broadcast_all dm m ids d2) = moves_table l i d d2" for dm m ids d2
    by (simp add: moves_table_def)
  have up: "db_up d" if "and_then (domain_id_for_gate d gid) (authz_domain d p) = Inr u" for u
    using that unfolding by_gate.guard_ok by simp
  have release: "moves_table l i d (fst (unblock_dependents now d1 m tid))"
    if tx: "resolve_tx d p now tid gid dec = Some (d1, g, t)" and u: "db_up d" for d1 g t m
  proof (rule moves_release)
    note * = resolve_tx_moves [OF tx keys, of l i]
    show "moves_table l i d d1" "keys_ok d1" "db_up d1"
      using * u resolve_tx_shape [OF tx keys] by auto
  qed (use resolve_tx_moves [OF tx keys, of l i] in blast)+
  show "moves_table l i d (fst (resolve_gate d p now tid gid dec))"
    using moves_same [OF keys, of l i] resolve_tx_moves [where l = l and i = i, OF _ keys] release up
    unfolding resolve_gate_def
    by (auto simp: told case_prod_unfold Let_def split: sum.split option.split)
qed

interpretation heartbeat_mesh_task: task_handler "\<lambda>d. fst (heartbeat_mesh_task d p now args)" l i
  for p now args l i
  by unfold_locales (simp add: heartbeat_mesh_task_def Let_def mcp_transition_moves moves_same)

interpretation progress_mesh_task: task_handler "\<lambda>d. fst (progress_mesh_task pj d p now args)" l i
  for pj p now args l i
  by unfold_locales (simp add: progress_mesh_task_def Let_def mcp_transition_moves moves_same)

interpretation finish_mesh_task: task_handler "\<lambda>d. fst (finish_mesh_task tool d p now args)" l i
  for tool p now args l i
  by unfold_locales
    (auto simp: finish_mesh_task_def Let_def mcp_transition_moves moves_same split: sum.split option.split)

lemma submitted_newborn:
  "newborn (submitted_row now i pub m dm p kind
     (if kind = Claimable then compute_initial_status d ds else INITIAL_STATUS) pj args)"
  using compute_initial_status_cases [of d ds]
  by (cases kind) (auto simp: newborn_def submitted_row_def Let_def)

interpretation submit_mesh_task: task_handler "\<lambda>d. after (submit_mesh_task pj d p now i hex args) d" l i
  for pj p now hex args l i
proof unfold_locales
  fix d
  assume keys: "keys_ok d" and "fresh_id d i"
  then have fresh: "task_of d i = None"
    by (simp add: fresh_id_def)
  have new: "moves_table l i d (d\<lparr>tasks := insert_row (submitted_row now i pub m dm p kind
      (if kind = Claimable then compute_initial_status d ds else INITIAL_STATUS) pj args) (tasks d)\<rparr>)"
    if "find (dependency_missing d m) (str_list_arg args ''depends_on'') = None" for pub m dm kind ds
    by (rule moves_insert [OF keys fresh _ submitted_newborn deps_present_new [OF keys]])
      (use that in \<open>simp_all add: submitted_row_def Let_def\<close>)
  note cases = new [where kind = Claimable, simplified] new [where kind = Assigned, simplified]
  have kinds: "kind \<noteq> Claimable \<longleftrightarrow> kind = Assigned" for kind
    by (cases kind) auto
  show "moves_table l i d (after (submit_mesh_task pj d p now i hex args) d)"
    using moves_same [OF keys, of l i]
    by (auto simp: submit_mesh_task_def after_def Let_def kinds split: option.split sum.split bool.split
        intro!: cases)
qed

interpretation create_assigned_task: task_handler
  "\<lambda>d. fst (create_assigned_task d p now i hex dm m b)" l i
  for p now hex dm m b l i
proof unfold_locales
  fix d
  assume keys: "keys_ok d" and "fresh_id d i"
  then have fresh: "task_of d i = None"
    by (simp add: fresh_id_def)
  show "moves_table l i d (fst (create_assigned_task d p now i hex dm m b))"
    using moves_same [OF keys, of l i]
    by (auto simp: create_assigned_task_def Let_def new_assigned_row_def newborn_def deps_present_def split: sum.split
        intro!: moves_insert [OF keys fresh])
qed

lemma fetched_assigned:
  assumes "found_task (fetch_assigned_task d tid m) = Inr r" "keys_ok d"
  shows "task_of d (t_id r) = Some r \<and> t_kind r = Assigned \<and> db_up d"
proof -
  have "r \<in> set (tasks d) \<and> t_kind r = Assigned \<and> db_up d"
    using assms(1)
    by (auto simp: found_task_def fetch_assigned_task_def Let_def fetch_optional_def is_kind_def
        split: if_splits option.splits dest!: find_SomeD)
  then show ?thesis
    using lookup_in_unique [OF keys_okD(1) [OF assms(2)]] by (simp add: task_of_def)
qed

interpretation update_task: task_handler "\<lambda>d. fst (update_task d p now l dm m tid b)" l i
  for p now dm m tid b l i
proof unfold_locales
  fix d
  assume keys: "keys_ok d"
  have edit: "moves_table l i d (set_row d (t_id r) (assigned_set r b l now))"
    if "found_task (fetch_assigned_task d tid m) = Inr r" for r
    using fetched_assigned [OF that keys] evolves.Edited [of r l b now] keys
    by (intro moves_set_row) auto
  show "moves_table l i d (fst (update_task d p now l dm m tid b))"
    using moves_same [OF keys, of l i]
    by (auto simp: update_task_def update_returning_find set_row_def [symmetric]
        split: sum.split option.split dest!: edit)
qed

interpretation delete_task: task_handler "\<lambda>d. fst (delete_task d p dm m tid)" l i
  for p dm m tid l i
proof unfold_locales
  fix d
  assume keys: "keys_ok d"
  have lookup_delete: "lookup t_id x (delete_where (by_key t_id k) ts) = (if x = k then None else lookup t_id x ts)"
    for x k and ts :: "task_row table"
    by (induction ts) (auto simp: delete_where_def lookup_Cons)
  have del: "moves_table l i d (delete_row (d\<lparr>overlaps := ov, agent_messages := am\<rparr>) (t_id r))"
    if "found_task (fetch_assigned_task d tid m) = Inr r" for ov am r
    using fetched_assigned [OF that keys] keys unique_delete_where [of t_id "tasks d"]
    by (auto simp: moves_table_def delete_row_def task_of_def lookup_delete keys_ok_def
        intro: evolves.Same split: if_splits)
  show "moves_table l i d (fst (delete_task d p dm m tid))"
    using moves_same [OF keys, of l i] del
    by (auto simp: delete_task_def Let_def split: sum.split)
qed

end
