(* ===== verification/Task_Safety.thy ===== *)
theory Task_Safety
  imports Task_System
begin

text \<open>
  The system as a whole: requests of both surfaces, in any order, over one database. A state is the
  database and the set of lease ids minted so far; each request may mint one lease and one row id,
  both fresh (uuid v4). The rest of the world (domains, missions, agents, an outage of the database)
  may change between requests.
\<close>

section \<open>Requests\<close>

inductive step :: "db \<Rightarrow> str \<Rightarrow> str \<Rightarrow> db \<Rightarrow> bool" where
  Heartbeat_req: "step d l i (fst (heartbeat_task d p now tid lo))"
| Progress_req: "step d l i (fst (append_progress pj d p now tid pb))"
| Complete_req: "step d l i (fst (complete_task d p now tid cb))"
| Fail_req: "step d l i (fst (fail_task d p now tid lo ao))"
| Block_req: "step d l i (fst (block_task d p now tid))"
| List_req: "step d l i (fst (list_tasks d p now m so))"
| Cancel_req: "step d l i (fst (cancel_task d p now tid))"
| Retry_req: "step d l i (fst (retry_task d p now tid))"
| Unblock_req: "step d l i (fst (unblock_task d p now tid))"
| Claim_req: "step d l i (fst (claim_task d p now l tid jo))"
| Dispatch_req: "step d l i (fst (dispatch_task d p now tid))"
| Create_req: "step d l i (after (create_task d p now i hex m tc) d)"
| Create_gate_req: "step d l i (fst (create_gate d p now i tid gc))"
| Resolve_gate_req: "step d l i (fst (resolve_gate d p now tid gid dec))"
| Submit_tool: "step d l i (after (submit_mesh_task print d p now i hex args) d)"
| Claim_tool: "step d l i (fst (claim_mesh_task d p now l args))"
| Heartbeat_tool: "step d l i (fst (heartbeat_mesh_task d p now args))"
| Progress_tool: "step d l i (fst (progress_mesh_task print d p now args))"
| Finish_tool: "step d l i (fst (finish_mesh_task tool d p now args))"
| Create_assigned_req: "step d l i (fst (create_assigned_task d p now i hex dm m ac))"
| Update_assigned_req: "step d l i (fst (update_task d p now l dm m tid au))"
| Delete_assigned_req: "step d l i (fst (delete_task d p dm m tid))"
| World: "tasks d' = tasks d \<Longrightarrow> gates d' = gates d \<Longrightarrow> progress d' = progress d \<Longrightarrow> keys_ok d' \<Longrightarrow> step d l i d'"

lemma step_moves:
  assumes "step d l i d'" "keys_ok d" "fresh_id d i"
  shows "moves_table l i d d'"
  using assms
proof (induction rule: step.cases)
  case (World d' d l i)
  then show ?case by (intro moves_eq [OF moves_same]) auto
qed (use heartbeat_task.moves append_progress.moves complete_task.moves fail_task.moves block_task.moves
      list_tasks.moves cancel_task.moves retry_task.moves unblock_task.moves claim_task.moves
      dispatch_task.moves create_task.moves create_gate.moves resolve_gate.moves submit_mesh_task.moves
      claim_mesh_task.moves heartbeat_mesh_task.moves progress_mesh_task.moves finish_mesh_task.moves
      create_assigned_task.moves update_task.moves delete_task.moves in \<open>simp_all\<close>)

section \<open>Runs\<close>

type_synonym state = "db \<times> str set"

inductive request :: "state \<Rightarrow> state \<Rightarrow> bool" where
  Request: "step d l i d' \<Longrightarrow> l \<notin> M \<Longrightarrow> fresh_id d i \<Longrightarrow> request (d, M) (d', insert l M)"

inductive_cases requestE: "request (d, M) s"

definition initial :: "state \<Rightarrow> bool" where
  "initial s = (case s of (d, M) \<Rightarrow> keys_ok d \<and> tasks d = [] \<and> gates d = [] \<and> progress d = [] \<and> M = {})"

definition reachable :: "state \<Rightarrow> bool" where
  "reachable s = (\<exists>s0. initial s0 \<and> request\<^sup>*\<^sup>* s0 s)"

definition state_ok :: "state \<Rightarrow> bool" where
  "state_ok s = (case s of (d, M) \<Rightarrow> keys_ok d \<and> (\<forall>x r. task_of d x = Some r \<longrightarrow> row_ok r) \<and>
     (\<forall>x r k. task_of d x = Some r \<longrightarrow> t_claim_lease_id r = Some k \<longrightarrow> k \<in> M))"

lemma request_ok:
  assumes "request s s'" "state_ok s"
  shows "state_ok s'"
  using assms
proof (induction rule: request.cases)
  case (Request d l i d' M)
  then have mt: "moves_table l i d d'"
    using step_moves by (auto simp: state_ok_def)
  have origin: "(\<exists>r. task_of d x = Some r \<and> evolves l r r') \<or> newborn r'" if "task_of d' x = Some r'" for x r'
    using mt that by (auto simp: moves_table_def)
  have "row_ok r'" if "task_of d' x = Some r'" for x r'
  proof -
    have "\<forall>x r. task_of d x = Some r \<longrightarrow> row_ok r"
      using Request by (simp add: state_ok_def)
    then show ?thesis
      using origin [OF that] row_ok_evolves newborn_row_ok by blast
  qed
  moreover have "k \<in> insert l M" if "task_of d' x = Some r'" "t_claim_lease_id r' = Some k" for x r' k
    using origin [OF that(1)]
  proof
    assume "\<exists>r. task_of d x = Some r \<and> evolves l r r'"
    then obtain r where "task_of d x = Some r" "evolves l r r'" by blast
    then show ?thesis
      using evolves_lease [of l r r'] that(2) Request by (auto simp: state_ok_def)
  qed (use that(2) in \<open>simp add: newborn_def\<close>)
  ultimately show ?case
    using mt Request by (auto simp: state_ok_def moves_table_def)
qed

lemma run_ok: "request\<^sup>*\<^sup>* s s' \<Longrightarrow> state_ok s \<Longrightarrow> state_ok s'"
  by (induction rule: rtranclp_induct) (auto intro: request_ok)

lemma initial_ok: "initial s \<Longrightarrow> state_ok s"
  by (auto simp: initial_def state_ok_def task_of_def)

lemma reachable_ok: "reachable s \<Longrightarrow> state_ok s"
  unfolding reachable_def using run_ok initial_ok by blast

section \<open>Safety of the whole system\<close>


lemma retired_step:
  assumes "request (d, M) (d', M')" "state_ok (d, M)" "k \<in> M"
    "\<And>r. task_of d x = Some r \<Longrightarrow> t_claim_lease_id r \<noteq> Some k" "task_of d' x = Some r'"
  shows "t_claim_lease_id r' \<noteq> Some k"
proof -
  obtain l i where s: "step d l i d'" "l \<notin> M" "fresh_id d i"
    using assms(1) by (auto elim: requestE)
  have "keys_ok d"
    using assms(2) by (simp add: state_ok_def)
  then have mt: "moves_table l i d d'"
    using s step_moves by blast
  then consider r where "task_of d x = Some r" "evolves l r r'" | "newborn r'"
    using assms(5) unfolding moves_table_def by blast
  then show ?thesis
  proof cases
    case 1
    have "l \<noteq> k"
      using s(2) assms(3) by blast
    then show ?thesis
      using evolves_lease [OF 1(2)] assms(4) [OF 1(1)] by auto
  qed (simp add: newborn_def)
qed

lemma retired_run:
  assumes "request\<^sup>*\<^sup>* s s'" "state_ok s" "k \<in> snd s" "\<And>r. task_of (fst s) x = Some r \<Longrightarrow> t_claim_lease_id r \<noteq> Some k"
  shows "k \<in> snd s' \<and> (\<forall>r'. task_of (fst s') x = Some r' \<longrightarrow> t_claim_lease_id r' \<noteq> Some k)"
  using assms
proof (induction rule: rtranclp_induct)
  case (step s1 s2)
  obtain d1 M1 d2 M2 where s: "s1 = (d1, M1)" "s2 = (d2, M2)"
    by (cases s1; cases s2)
  have ok: "state_ok (d1, M1)"
    using run_ok [OF step.hyps(1) step.prems(1)] s by simp
  have IH: "k \<in> M1" "\<And>r. task_of d1 x = Some r \<Longrightarrow> t_claim_lease_id r \<noteq> Some k"
    using step.IH [OF step.prems] s by auto
  have "k \<in> M2"
    using step.hyps(2) IH(1) s by (auto elim: requestE)
  then show ?case
    using retired_step [OF _ ok IH] step.hyps(2) s by auto
qed auto


section \<open>A sample run\<close>

definition alice :: principal where
  "alice = \<lparr>subject = ''alice'', is_admin = False, session_id = Some 1, auth_type = ''session'', domain_scope = []\<rparr>"

definition worker :: "str \<Rightarrow> principal" where
  "worker a = \<lparr>subject = ''agent:'' @ a, is_admin = False, session_id = None, auth_type = ''agent'', domain_scope = [''d1'']\<rparr>"

definition simple_task :: "str list \<Rightarrow> task_create" where
  "simple_task deps = \<lparr>tc_title = ''t'', tc_description = [], tc_input_json = ''{}'', tc_claim_policy = ''first_claim'',
     tc_depends_on = deps, tc_produces = JNull, tc_consumes = JNull, tc_required_capabilities = [],
     tc_priority = 0, tc_parent_task_id = None\<rparr>"

definition run1 :: db where
  "run1 = after (create_task (sample_db [] []) alice 0 ''t1'' ''abcdefgh'' ''m1'' (simple_task [])) (sample_db [] [])"

definition run2 :: db where
  "run2 = fst (claim_task run1 (worker ''w7'') (secs 1) ''lease-1'' ''t1'' None)"

definition run3 :: db where
  "run3 = fst (list_tasks run2 alice (secs 500) ''m1'' None)"

lemma run_leases:
  "map_option t_claim_lease_id (task_of run2 ''t1'') = Some (Some ''lease-1'')"
  "map_option t_claim_lease_id (task_of run3 ''t1'') = Some None"
  "map_option t_status (task_of run3 ''t1'') = Some ''ready''"
  by code_simp+

lemma run_reachable:
  "reachable (run2, {''lease-1'', ''L0''})" "reachable (run3, {''L2'', ''lease-1'', ''L0''})"
proof -
  have init: "initial (sample_db [] [], {})"
    by (simp add: initial_def sample_db_def keys_ok_def unique_key_def)
  have fresh: "fresh_id (sample_db [] []) ''t1''" "fresh_id run1 ''i2''" "fresh_id run2 ''i3''"
    by code_simp+
  have r1: "request (sample_db [] [], {}) (run1, {''L0''})"
    unfolding run1_def by (rule Request [OF step.Create_req _ fresh(1)]) simp
  have r2: "request (run1, {''L0''}) (run2, {''lease-1'', ''L0''})"
    unfolding run2_def by (rule Request [OF step.Claim_req _ fresh(2)]) simp
  have r3: "request (run2, {''lease-1'', ''L0''}) (run3, {''L2'', ''lease-1'', ''L0''})"
    unfolding run3_def by (rule Request [OF step.List_req _ fresh(3)]) simp
  have to1: "request\<^sup>*\<^sup>* (sample_db [] [], {}) (run1, {''L0''})"
    by (rule r_into_rtranclp) (rule r1)
  have to2: "request\<^sup>*\<^sup>* (sample_db [] [], {}) (run2, {''lease-1'', ''L0''})"
    by (rule rtranclp.rtrancl_into_rtrancl) (rule to1, rule r2)
  have to3: "request\<^sup>*\<^sup>* (sample_db [] [], {}) (run3, {''L2'', ''lease-1'', ''L0''})"
    by (rule rtranclp.rtrancl_into_rtrancl) (rule to2, rule r3)
  show "reachable (run2, {''lease-1'', ''L0''})" "reachable (run3, {''L2'', ''lease-1'', ''L0''})"
    unfolding reachable_def using init to2 to3 by blast+
qed



end
