(* ===== verification/Task_Properties.thy ===== *)
theory Task_Properties
  imports Task_Safety
begin

text \<open>
  What single requests achieve, and where two requests or two surfaces disagree: finality of
  finished work, exclusive claims, the stale write halves of claim and dispatch, retry against
  dependencies, self-assigned tasks, task creation, review gates and lease expiry.
\<close>

section \<open>Finished work\<close>

lemma finished_run:
  assumes "request\<^sup>*\<^sup>* s s'" "state_ok s" "task_of (fst s) x = Some r" "t_kind r = Claimable" "t_status r = ''finished''"
  shows "task_of (fst s') x = Some r"
  using assms
proof (induction rule: rtranclp_induct)
  case (step s1 s2)
  then have here: "task_of (fst s1) x = Some r" by simp
  have ok: "keys_ok (fst s1)"
    using run_ok [OF step.hyps(1) step.prems(1)] by (auto simp: state_ok_def split: prod.splits)
  obtain l i where "step (fst s1) l i (fst s2)" "fresh_id (fst s1) i"
    using step.hyps(2) by (auto elim: request.cases)
  then have mt: "moves_table l i (fst s1) (fst s2)"
    using step_moves ok by blast
  then obtain r' where r': "task_of (fst s2) x = Some r'"
    using here step.prems(3) unfolding moves_table_def by blast
  then have "evolves l r r'"
    using mt here unfolding moves_table_def by (metis option.distinct(1) option.inject)
  then show ?case
    using r' evolves_finished step.prems(3,4) by blast
qed simp

text \<open>C6: finished pool work is final. In any later state a claimable task that has finished is still
  there, with the very same row: no request of either surface, run to its end before the next starts,
  reopens, edits or deletes it.\<close>

theorem finished_is_final:
  assumes "reachable (d, M)" "task_of d x = Some r" "t_kind r = Claimable" "t_status r = ''finished''"
    and "request\<^sup>*\<^sup>* (d, M) (d', M')"
  shows "task_of d' x = Some r"
  using finished_run [OF assms(5) reachable_ok [OF assms(1)]] assms(2-4) by simp

definition run_done :: db where
  "run_done = fst (complete_task run2 (worker ''w7'') (secs 2) ''t1''
     \<lparr>cb_result_artifact_id = Some ''12'', cb_claim_lease_id = Some ''lease-1'', cb_agent_id = None\<rparr>)"

lemma run_done_reachable: "reachable (run_done, {''L3'', ''lease-1'', ''L0''})"
proof -
  obtain s0 where s0: "initial s0" "request\<^sup>*\<^sup>* s0 (run2, {''lease-1'', ''L0''})"
    using run_reachable(1) by (auto simp: reachable_def)
  have fresh: "fresh_id run2 ''i4''"
    by code_simp
  have "request (run2, {''lease-1'', ''L0''}) (run_done, {''L3'', ''lease-1'', ''L0''})"
    unfolding run_done_def by (rule Request [OF step.Complete_req _ fresh]) simp
  then have "request\<^sup>*\<^sup>* s0 (run_done, {''L3'', ''lease-1'', ''L0''})"
    by (rule rtranclp.rtrancl_into_rtrancl [OF s0(2)])
  then show ?thesis
    unfolding reachable_def using s0(1) by blast
qed

lemma finished_is_final_witness:
  "\<exists>r. task_of run_done ''t1'' = Some r \<and> t_status r = ''finished'' \<and> t_result_artifact_id r = Some 12"
proof -
  have row: "map_option t_kind (task_of run_done ''t1'') = Some Claimable"
    "map_option t_status (task_of run_done ''t1'') = Some ''finished''"
    "map_option t_result_artifact_id (task_of run_done ''t1'') = Some (Some 12)"
    by code_simp+
  then obtain r where r: "task_of run_done ''t1'' = Some r" "t_kind r = Claimable" "t_status r = ''finished''"
    by auto
  show ?thesis
    using finished_is_final [OF run_done_reachable r rtranclp.rtrancl_refl] row r by auto
qed

section \<open>Claims\<close>

interpretation locked_cas: fenced_update t_id
  "\<lambda>k r. tand (by_key t_id k r) (tbool (t_version_counter r = v))" "claim_update a l n now"
  for v a l n now
  by unfold_locales auto

lemma find_ready:
  assumes "keys_ok d"
  shows "find (\<lambda>r. holds (tand (by_key t_id tid r) (status_in [''ready''] r))) (tasks d) =
    (case task_of d tid of None \<Rightarrow> None | Some r \<Rightarrow> if t_status r = ''ready'' then Some r else None)"
proof -
  have id: "t_id r = tid" if "holds (tand (by_key t_id tid r) (status_in [''ready''] r))" for r
    using that by simp
  have at: "t_id r = tid" if "lookup t_id tid (tasks d) = Some r" for r
    using that by (auto dest: lookup_Some_in)
  show ?thesis
    using find_fence [OF keys_okD(1) [OF assms], of "\<lambda>r. tand (by_key t_id tid r) (status_in [''ready''] r)" tid] id at
    by (auto simp: task_of_def split: option.splits)
qed

lemma exclusive_claim_write:
  assumes "keys_ok d" "db_up d" "policy \<noteq> ''broadcast''"
  shows "claim_write d policy a now l tid =
    (case task_of d tid of
       Some r \<Rightarrow> if t_status r = ''ready''
         then (set_row d tid (claim_update a l (t_version_counter r + 1) now),
               Inr (claim_response tid l (claim_update a l (t_version_counter r + 1) now r)))
         else (d, Inl locked)
     | None \<Rightarrow> (d, Inl locked))"
proof (cases "task_of d tid")
  case (Some r)
  have hit: "update_returning (\<lambda>q. tand (by_key t_id tid q) (tbool (t_version_counter q = t_version_counter r)))
      (claim_update a l (t_version_counter r + 1) now) (tasks d) =
      (update_where (by_key t_id tid) (claim_update a l (t_version_counter r + 1) now) (tasks d),
       Some (claim_update a l (t_version_counter r + 1) now r))"
    using Some by (intro locked_cas.cas_hit) (auto simp: task_of_def task_of_id keys_okD(1) [OF assms(1)] dest: lookup_Some_in)
  show ?thesis
    using assms(2,3) Some find_ready [OF assms(1), of tid]
    by (auto simp: claim_write_def fetch_optional_def set_row_def hit)
qed (use assms find_ready [OF assms(1), of tid] in \<open>simp add: claim_write_def fetch_optional_def\<close>)

text \<open>C4: an exclusive task is claimed once. When the write half of a claim succeeds on a task that is
  not broadcast, the task was ready; the row now is claimed by the agent with the lease the response
  carries, valid for 120 seconds, and the version counter is one higher; and until something else
  changes the row, the write half of every other claim of either surface (whatever state its read
  half saw) is refused and changes nothing.\<close>

theorem exclusive_claim_once:
  assumes "keys_ok d" "policy \<noteq> ''broadcast''" "claim_write d policy a now l tid = (d1, Inr body)"
  shows "\<exists>r r1. task_of d tid = Some r \<and> t_status r = ''ready'' \<and> task_of d1 tid = Some r1
      \<and> t_status r1 = ''claimed'' \<and> t_claimed_by r1 = Some a \<and> t_claim_lease_id r1 = Some l
      \<and> t_lease_expires_at r1 = Some (now + secs 120) \<and> t_version_counter r1 = t_version_counter r + 1
      \<and> jget ''claim_lease_id'' body = Some (JStr l)
      \<and> (\<forall>x. x \<noteq> tid \<longrightarrow> task_of d1 x = task_of d x)
      \<and> (\<forall>policy2 a2 now2 l2. policy2 \<noteq> ''broadcast'' \<longrightarrow> claim_write d1 policy2 a2 now2 l2 tid = (d1, Inl locked))
      \<and> (\<forall>p2 now2 l2 args. str_arg args ''task_id'' = tid \<longrightarrow>
           fst (claim_mesh_task d1 p2 now2 l2 args) = d1 \<and> \<not> is_ok_result (snd (claim_mesh_task d1 p2 now2 l2 args)))"
proof -
  have up: "db_up d"
    using assms(3) by (auto simp: claim_write_def split: if_splits)
  note eq = exclusive_claim_write [OF assms(1) up assms(2), of a now l tid]
  obtain r where r: "task_of d tid = Some r" "t_status r = ''ready''"
    and out: "d1 = set_row d tid (claim_update a l (t_version_counter r + 1) now)"
      "body = claim_response tid l (claim_update a l (t_version_counter r + 1) now r)"
    using assms(3) unfolding eq by (auto split: option.splits if_splits)
  let ?r1 = "claim_update a l (t_version_counter r + 1) now r"
  have keys: "keys_ok d1" and up1: "db_up d1"
    using assms(1) up by (simp_all add: out keys_ok_set_row)
  have row: "task_of d1 x = (if x = tid then Some ?r1 else task_of d x)" for x
    using r by (simp add: out task_of_set_row)
  have second: "claim_write d1 policy2 a2 now2 l2 tid = (d1, Inl locked)" if "policy2 \<noteq> ''broadcast''" for policy2 a2 now2 l2
    using exclusive_claim_write [OF keys up1 that] row by (simp add: claim_update_def)
  have mcp: "fst (claim_mesh_task d1 p2 now2 l2 args) = d1 \<and> \<not> is_ok_result (snd (claim_mesh_task d1 p2 now2 l2 args))"
    if "str_arg args ''task_id'' = tid" for p2 now2 l2 args
  proof -
    have none: "find (\<lambda>r. holds (mcp_claim_fence tid r)) (tasks d1) = None"
      using find_ready [OF keys, of tid] row by (simp add: mcp_claim_fence_def claim_update_def)
    then have same: "update_where (mcp_claim_fence tid) f (tasks d1) = tasks d1" for f
      by (intro update_where_none) (auto simp: find_None_iff)
    show ?thesis
      using none that
      by (auto simp: claim_mesh_task_def Let_def update_returning_find is_ok_result_def err_result_def
          mcp_authz_domain_def split: sum.splits if_splits)
  qed
  have "jget ''claim_lease_id'' body = Some (JStr l)"
    by (simp add: out claim_response_def row_to_task_def)
  then show ?thesis
    using r row second mcp by (auto simp: claim_update_def LEASE_TTL_SECS_def)
qed

lemma exclusive_claim_once_witness:
  "\<exists>r1. task_of (fst (claim_write run1 ''first_claim'' ''w7'' 0 ''lease-1'' ''t1'')) ''t1'' = Some r1
     \<and> t_claim_lease_id r1 = Some ''lease-1''"
proof -
  let ?out = "claim_write run1 ''first_claim'' ''w7'' 0 ''lease-1'' ''t1''"
  have keys: "keys_ok run1" and ok: "case snd ?out of Inr _ \<Rightarrow> True | Inl _ \<Rightarrow> False"
    by code_simp+
  obtain d1 body where out: "?out = (d1, Inr body)"
    using ok by (cases ?out) (auto split: sum.splits)
  show ?thesis
    using exclusive_claim_once [OF keys _ out] unfolding out by auto
qed

end
