(* ===== verification/Dependency_Properties.thy ===== *)
theory Dependency_Properties
  imports Task_Safety
begin

text \<open>
  Dependencies over runs of the system: every dependency exists when its task is created and stays,
  so the dependency graph never gets a cycle; what create_task answers on each branch.
\<close>

section \<open>The dependency graph of a database\<close>

definition dep_edges :: "db \<Rightarrow> (str \<times> str) set" where
  "dep_edges d = {(x, y). \<exists>r. task_of d x = Some r \<and> y \<in> set (t_depends_on r)}"

definition deps_sound :: "db \<Rightarrow> bool" where
  "deps_sound d = (acyclic (dep_edges d) \<and> (\<forall>x r. task_of d x = Some r \<longrightarrow> deps_present d r))"

lemma acyclic_extend:
  assumes "acyclic E" "E' \<subseteq> E \<union> {n} \<times> Y" "n \<notin> Range E" "n \<notin> Y"
  shows "acyclic E'"
proof -
  have nr: "n \<notin> Range E'"
    using assms(2-4) by auto
  have old: "(x, y) \<in> E\<^sup>+" if "(x, y) \<in> E'\<^sup>+" "x \<noteq> n" for x y
    using that
  proof (induction rule: trancl_induct)
    case (base y)
    then show ?case
      using assms(2) by auto
  next
    case (step y z)
    have "y \<in> Range E'"
      using step.hyps(1) by (metis RangeI trancl_range)
    then have "y \<noteq> n"
      using nr by blast
    then have "(y, z) \<in> E"
      using step.hyps(2) assms(2) by auto
    then show ?case
      using step.IH [OF step.prems] by (rule trancl_into_trancl [rotated])
  qed
  show ?thesis
  proof (rule acyclicI, intro allI notI)
    fix x
    assume c: "(x, x) \<in> E'\<^sup>+"
    then have "x \<in> Range E'"
      by (metis RangeI trancl_range)
    then have "x \<noteq> n"
      using nr by blast
    then show False
      using old [OF c] assms(1) by (auto simp: acyclic_def)
  qed
qed

lemma range_dep_edges: "deps_sound d \<Longrightarrow> task_of d n = None \<Longrightarrow> n \<notin> Range (dep_edges d)"
  by (fastforce simp: deps_sound_def dep_edges_def deps_present_def)

lemma moves_deps_sound:
  assumes "moves_table l i d d'" "fresh_id d i" "deps_sound d"
  shows "deps_sound d'"
proof -
  have free: "task_of d i = None"
    using assms(2) by (simp add: fresh_id_def)
  have origin: "(\<exists>r. task_of d x = Some r \<and> evolves l r r') \<or> (x = i \<and> deps_present d r')"
    if "task_of d' x = Some r'" for x r'
    using assms(1) that unfolding moves_table_def by blast
  have before: "deps_present d r'" if r': "task_of d' x = Some r'" for x r'
    using origin [OF r']
  proof
    assume "\<exists>r. task_of d x = Some r \<and> evolves l r r'"
    then obtain r where r: "task_of d x = Some r" "evolves l r r'" by blast
    then have "deps_present d r"
      using assms(3) by (simp add: deps_sound_def)
    then show ?thesis
      using evolves_keeps [OF r(2)] by (simp add: deps_present_def)
  qed simp
  have kept: "\<exists>q'. task_of d' y = Some q' \<and> t_kind q' = Claimable \<and> t_mission_id q' = m"
    if q: "task_of d y = Some q" "t_kind q = Claimable" "t_mission_id q = m" for y q m
  proof -
    have "task_of d' y \<noteq> None"
      using assms(1) q(1,2) unfolding moves_table_def by blast
    then obtain q' where q': "task_of d' y = Some q'"
      by blast
    have "evolves l q q'"
      using assms(1) q' q(1) unfolding moves_table_def by (metis option.distinct(1) option.inject)
    then show ?thesis
      using q' evolves_keeps q(2,3) by metis
  qed
  have present: "deps_present d' r'" if r': "task_of d' x = Some r'" for x r'
    unfolding deps_present_def
  proof
    fix y
    assume "y \<in> set (t_depends_on r')"
    then obtain q where "task_of d y = Some q" "t_kind q = Claimable" "t_mission_id q = t_mission_id r'"
      using before [OF r'] unfolding deps_present_def by blast
    then show "\<exists>q. task_of d' y = Some q \<and> t_kind q = Claimable \<and> t_mission_id q = t_mission_id r'"
      by (rule kept)
  qed
  let ?Y = "{y. \<exists>q. task_of d y = Some q}"
  have sub: "dep_edges d' \<subseteq> dep_edges d \<union> {i} \<times> ?Y"
  proof
    fix e
    assume "e \<in> dep_edges d'"
    then obtain x y r' where e: "e = (x, y)" "task_of d' x = Some r'" "y \<in> set (t_depends_on r')"
      by (auto simp: dep_edges_def)
    from origin [OF e(2)] show "e \<in> dep_edges d \<union> {i} \<times> ?Y"
    proof
      assume "\<exists>r. task_of d x = Some r \<and> evolves l r r'"
      then show ?thesis
        using e evolves_keeps by (fastforce simp: dep_edges_def)
    next
      assume "x = i \<and> deps_present d r'"
      then show ?thesis
        using e by (auto simp: deps_present_def)
    qed
  qed
  have "acyclic (dep_edges d')"
    by (rule acyclic_extend [OF _ sub]) (use assms(3) free range_dep_edges [OF assms(3) free] in \<open>auto simp: deps_sound_def\<close>)
  then show ?thesis
    using present by (simp add: deps_sound_def)
qed

lemma run_deps_sound:
  assumes "request\<^sup>*\<^sup>* s s'" "state_ok s" "deps_sound (fst s)"
  shows "deps_sound (fst s')"
  using assms
proof (induction rule: rtranclp_induct)
  case (step s1 s2)
  obtain d1 M1 d2 M2 where s: "s1 = (d1, M1)" "s2 = (d2, M2)"
    by (cases s1; cases s2)
  have "keys_ok d1"
    using run_ok [OF step.hyps(1) step.prems(1)] s by (simp add: state_ok_def)
  moreover obtain l i where "step d1 l i d2" "fresh_id d1 i"
    using step.hyps(2) s by (auto elim: requestE)
  ultimately show ?case
    using moves_deps_sound step_moves step.IH step.prems s by (metis fst_conv)
qed

lemma reachable_deps_sound: "reachable (d, M) \<Longrightarrow> deps_sound d"
proof -
  assume "reachable (d, M)"
  then obtain s0 where s0: "initial s0" "request\<^sup>*\<^sup>* s0 (d, M)"
    by (auto simp: reachable_def)
  have "deps_sound (fst s0)"
    using s0(1) by (auto simp: initial_def deps_sound_def dep_edges_def task_of_def acyclic_def)
  then show ?thesis
    using run_deps_sound [OF s0(2) initial_ok [OF s0(1)]] by simp
qed

lemma fold_graph:
  "y \<in> set (fold (\<lambda>r adj. adj(t_id r := t_depends_on r)) rows adj x) \<Longrightarrow>
     (\<exists>r\<in>set rows. t_id r = x \<and> y \<in> set (t_depends_on r)) \<or> y \<in> set (adj x)"
proof (induction rows arbitrary: adj)
  case (Cons r rows)
  then show ?case
    using Cons.IH [of "adj(t_id r := t_depends_on r)"] by (auto split: if_splits)
qed simp

lemma graph_edges:
  assumes "keys_ok d"
  shows "edges (dependency_graph d m n ds) \<subseteq> dep_edges d \<union> {n} \<times> set ds"
proof
  fix e
  assume "e \<in> edges (dependency_graph d m n ds)"
  then obtain x y where e: "e = (x, y)" "y \<in> set (dependency_graph d m n ds x)"
    by (auto simp: edges_def)
  show "e \<in> dep_edges d \<union> {n} \<times> set ds"
  proof (cases "x = n")
    case False
    then obtain r where "r \<in> set (tasks d)" "t_id r = x" "y \<in> set (t_depends_on r)"
      using e(2) by (auto simp: dependency_graph_def select_where_def dest!: fold_graph)
    then show ?thesis
      using e lookup_in_unique [OF keys_okD(1) [OF assms]] by (auto simp: dep_edges_def task_of_def)
  qed (use e in \<open>auto simp: dependency_graph_def\<close>)
qed

lemma no_cycle_found:
  assumes "keys_ok d" "deps_sound d" "db_up d" "task_of d n = None" "find (dependency_missing d m) ds = None"
  shows "detect_cycle d m n ds = Some (Inr False)"
proof -
  have present: "\<exists>q. task_of d y = Some q" if "y \<in> set ds" for y
    using no_dependency_missing [OF assms(1,5) that] by blast
  then have "n \<notin> set ds"
    using assms(4) by force
  then have "acyclic (edges (dependency_graph d m n ds))"
    using acyclic_extend [OF _ graph_edges [OF assms(1)] range_dep_edges [OF assms(2,4)]] assms(2)
    by (simp add: deps_sound_def)
  then have "\<not> cycle_from (dependency_graph d m n ds) n"
    by (auto simp: cycle_from_def acyclic_def)
  then show ?thesis
    using dfs_correct [OF finite_dependency_graph, of d m n ds n] assms(3) by (simp add: detect_cycle_def)
qed

section \<open>Properties\<close>

text \<open>C7: the dependency graph stays acyclic. In every reachable state no claimable or assigned task
  depends on itself through any chain of dependencies, everything a task depends on exists, as a
  claimable task of the same mission, and so the cycle check of a creation whose dependencies exist
  returns, and never finds a cycle.\<close>

theorem dependencies_acyclic:
  assumes "reachable (d, M)"
  shows "acyclic (dep_edges d)
    \<and> (\<forall>x r y. task_of d x = Some r \<longrightarrow> y \<in> set (t_depends_on r) \<longrightarrow>
         (\<exists>q. task_of d y = Some q \<and> t_kind q = Claimable \<and> t_mission_id q = t_mission_id r))
    \<and> (\<forall>m n ds. db_up d \<and> task_of d n = None \<and> find (dependency_missing d m) ds = None \<longrightarrow>
         detect_cycle d m n ds = Some (Inr False))"
proof -
  have ok: "keys_ok d" "deps_sound d"
    using reachable_ok [OF assms] reachable_deps_sound [OF assms] by (auto simp: state_ok_def)
  show ?thesis
    using ok no_cycle_found [OF ok] by (auto simp: deps_sound_def deps_present_def)
qed

lemma dependencies_acyclic_witness:
  "detect_cycle run2 ''m1'' ''t2'' [''t1''] = Some (Inr False)"
proof -
  have "db_up run2" "task_of run2 ''t2'' = None" "find (dependency_missing run2 ''m1'') [''t1''] = None"
    by code_simp+
  then show ?thesis
    using dependencies_acyclic [OF run_reachable(1)] by blast
qed

lemma missing_dependency:
  assumes "keys_ok d" "db_up d"
  shows "dependency_missing d m x \<longleftrightarrow>
    \<not> (\<exists>q. task_of d x = Some q \<and> t_kind q = Claimable \<and> t_mission_id q = m)"
proof
  assume gone: "dependency_missing d m x"
  show "\<not> (\<exists>q. task_of d x = Some q \<and> t_kind q = Claimable \<and> t_mission_id q = m)"
    using gone assms(2)
    by (auto simp: dependency_missing_def exists_where_def list_ex_iff is_kind_def task_of_def dest: lookup_Some_in)
next
  assume absent: "\<not> (\<exists>q. task_of d x = Some q \<and> t_kind q = Claimable \<and> t_mission_id q = m)"
  show "dependency_missing d m x"
  proof (rule ccontr)
    assume "\<not> dependency_missing d m x"
    then have "find (dependency_missing d m) [x] = None"
      by (simp add: find_None_iff)
    then show False
      using no_dependency_missing [OF assms(1), of m "[x]" x] absent by simp
  qed
qed

text \<open>what create_task does once the guard has passed. In every reachable state, when every listed
  dependency is a claimable task of the mission, the request returns the new row: claimable, unowned,
  unleased, created by the caller, ready exactly when the dependencies are distinct and all finished
  and pending otherwise; its agents are notified exactly when it is ready; no other row changes. When
  a dependency is missing the answer is 400 and nothing changes.\<close>

theorem create_task_outcome:
  assumes "reachable (d, M)" "db_up d" "lookup m_id m (missions d) = Some mi"
    and "authz_domain d p (case m_domain_id mi of Some x \<Rightarrow> x | None \<Rightarrow> []) = Inr u" "task_of d i = None"
  shows "((\<forall>x\<in>set (tc_depends_on b). \<exists>q. task_of d x = Some q \<and> t_kind q = Claimable \<and> t_mission_id q = m) \<longrightarrow>
      (\<exists>d' r. create_task d p now i hex m b = Some (d', Inr (row_to_task r)) \<and> task_of d' i = Some r
        \<and> t_kind r = Claimable \<and> t_owner r = None \<and> t_claim_lease_id r = None \<and> t_mission_id r = m
        \<and> t_depends_on r = tc_depends_on b \<and> t_created_by_subject r = subject p
        \<and> t_status r = (if distinct (tc_depends_on b) \<and>
             (\<forall>x\<in>set (tc_depends_on b). \<exists>q. task_of d x = Some q \<and> t_status q = ''finished'')
            then ''ready'' else ''pending'')
        \<and> (\<forall>x. x \<noteq> i \<longrightarrow> task_of d' x = task_of d x)
        \<and> (notices d' = notices d \<longleftrightarrow> t_status r = ''pending'')))
    \<and> ((\<exists>x\<in>set (tc_depends_on b). \<not> (\<exists>q. task_of d x = Some q \<and> t_kind q = Claimable \<and> t_mission_id q = m)) \<longrightarrow>
      (\<exists>e. create_task d p now i hex m b = Some (d, Inl e) \<and> status_code e = 400))"
proof -
  have ok: "keys_ok d" "deps_sound d"
    using reachable_ok [OF assms(1)] reachable_deps_sound [OF assms(1)] by (auto simp: state_ok_def)
  note missing = missing_dependency [OF ok(1) assms(2)]
  show ?thesis
  proof (intro conjI impI)
    let ?dm = "case m_domain_id mi of Some x \<Rightarrow> x | None \<Rightarrow> []"
    let ?st = "compute_initial_status d (tc_depends_on b)"
    let ?r = "new_task_row now i (new_public_id hex) m ?dm (subject p) ?st b"
    let ?d1 = "d\<lparr>tasks := insert_row ?r (tasks d)\<rparr>"
    let ?d' = "if ?st = ''ready'' then broadcast_task_available ?dm m i ?d1 else ?d1"
    assume "\<forall>x\<in>set (tc_depends_on b). \<exists>q. task_of d x = Some q \<and> t_kind q = Claimable \<and> t_mission_id q = m"
    then have here: "find (dependency_missing d m) (tc_depends_on b) = None"
      by (auto simp: find_None_iff missing)
    have "(if tc_depends_on b = [] then Some (Inr False) else detect_cycle d m i (tc_depends_on b)) = Some (Inr False)"
      using no_cycle_found [OF ok assms(2,5) here] by simp
    then have eq: "create_task d p now i hex m b = Some (?d', Inr (row_to_task ?r))"
      using assms(2-4) here by (simp add: create_task_def Let_def)
    have st: "?st = (if distinct (tc_depends_on b) \<and>
        (\<forall>x\<in>set (tc_depends_on b). \<exists>q. task_of d x = Some q \<and> t_status q = ''finished'') then ''ready'' else ''pending'')"
      using assms(2) by (simp add: compute_initial_status_def deps_satisfied_iff [OF ok(1)])
    have rows: "task_of ?d' x = (if x = i then Some ?r else task_of d x)" for x
      using assms(5)
      by (auto simp: task_of_def broadcast_task_available_def lookup_insert_row new_task_row_def split: option.splits)
    have told: "notices ?d' = notices d \<longleftrightarrow> ?st = ''pending''"
      using st by (auto simp: broadcast_task_available_def split: if_splits)
    show "\<exists>d' r. create_task d p now i hex m b = Some (d', Inr (row_to_task r)) \<and> task_of d' i = Some r
        \<and> t_kind r = Claimable \<and> t_owner r = None \<and> t_claim_lease_id r = None \<and> t_mission_id r = m
        \<and> t_depends_on r = tc_depends_on b \<and> t_created_by_subject r = subject p
        \<and> t_status r = (if distinct (tc_depends_on b) \<and>
             (\<forall>x\<in>set (tc_depends_on b). \<exists>q. task_of d x = Some q \<and> t_status q = ''finished'')
            then ''ready'' else ''pending'')
        \<and> (\<forall>x. x \<noteq> i \<longrightarrow> task_of d' x = task_of d x)
        \<and> (notices d' = notices d \<longleftrightarrow> t_status r = ''pending'')"
      by (rule exI [of _ ?d'], rule exI [of _ ?r], simp only: eq rows told st [symmetric])
        (simp add: new_task_row_def st)
  next
    assume "\<exists>x\<in>set (tc_depends_on b). \<not> (\<exists>q. task_of d x = Some q \<and> t_kind q = Claimable \<and> t_mission_id q = m)"
    then obtain x where "find (dependency_missing d m) (tc_depends_on b) = Some x"
      using find_Some_ex [of _ "tc_depends_on b" "dependency_missing d m"] missing by blast
    then show "\<exists>e. create_task d p now i hex m b = Some (d, Inl e) \<and> status_code e = 400"
      using assms(2-4) by (simp add: create_task_def bad_request_def deny_def)
  qed
qed

lemma create_task_outcome_witness:
  "\<exists>d' r. create_task run2 alice 9 ''t2'' ''abcdefgh'' ''m1'' (simple_task [''t1'']) = Some (d', Inr (row_to_task r))
     \<and> t_status r = ''pending''"
proof -
  have mi: "map_option m_domain_id (lookup m_id ''m1'' (missions run2)) = Some (Some ''d1'')"
    by code_simp
  then obtain mi where m: "lookup m_id ''m1'' (missions run2) = Some mi" "m_domain_id mi = Some ''d1''"
    by auto
  have a: "authz_domain run2 alice ''d1'' = Inr ()"
    by code_simp
  have pre: "db_up run2" "task_of run2 ''t2'' = None"
    by code_simp+
  have dep: "map_option (\<lambda>q. (t_kind q, t_mission_id q, t_status q)) (task_of run2 ''t1'') = Some (Claimable, ''m1'', ''claimed'')"
    by code_simp
  then obtain q where q: "task_of run2 ''t1'' = Some q" "t_kind q = Claimable" "t_mission_id q = ''m1''" "t_status q = ''claimed''"
    by auto
  have "authz_domain run2 alice (case m_domain_id mi of Some x \<Rightarrow> x | None \<Rightarrow> []) = Inr ()"
    using a m(2) by simp
  from create_task_outcome [OF run_reachable(1) pre(1) m(1) this pre(2), of "simple_task [''t1'']" 9 "''abcdefgh''"]
  show ?thesis
    using q by (fastforce simp: simple_task_def)
qed

end
