(* ===== verification/Gate_Properties.thy ===== *)
theory Gate_Properties
  imports Task_Safety
begin

text \<open>
  What deciding a review gate does to the gate and to its task, what expiring stale leases does, and
  how completing, dispatching, retrying and deleting behave where two requests interleave or a gate
  or dependency is in the way.
\<close>

section \<open>Resolving a gate\<close>

interpretation gate_cas: fenced_update g_id "resolve_fence tid subj adm" "resolve_update decision now"
  for tid subj adm decision now
  by unfold_locales (auto simp: resolve_fence_def resolve_update_def)

interpretation review_cas: fenced_update t_id "review_fence gs" "review_update gs sid now"
  for gs sid now
  by unfold_locales (auto simp: review_fence_def review_update_def)

definition has_rejected :: "db \<Rightarrow> str \<Rightarrow> bool" where
  "has_rejected d tid = (\<exists>g\<in>set (gates d). g_mesh_task_id g = tid \<and> g_status g = ''rejected'')"

definition all_settled :: "db \<Rightarrow> str \<Rightarrow> bool" where
  "all_settled d tid = (\<forall>g\<in>set (gates d). g_mesh_task_id g = tid \<longrightarrow> g_status g \<in> {''approved'', ''expired''})"

lemma gates_verdict:
  assumes "g \<in> set (gates d)" "g_mesh_task_id g = tid"
  shows "holds (any_rejected (gates_of d tid)) \<longleftrightarrow> has_rejected d tid"
    "holds (all_resolved (gates_of d tid)) \<longleftrightarrow> all_settled d tid"
proof -
  have "gates_of d tid \<noteq> []"
    using assms by (auto simp: gates_of_def select_where_def filter_empty_conv)
  then show "holds (any_rejected (gates_of d tid)) \<longleftrightarrow> has_rejected d tid"
    "holds (all_resolved (gates_of d tid)) \<longleftrightarrow> all_settled d tid"
    by (auto simp: any_rejected_def all_resolved_def has_rejected_def all_settled_def gates_of_def
        select_where_def list_ex_iff list_all_iff holds_def)
qed

lemma review_row:
  assumes "keys_ok d" "task_of d tid = Some r"
  shows "update_returning (review_fence gs tid) (review_update gs sid now) (tasks d) =
    (if t_status r = ''waiting_review'' \<and> (holds (any_rejected gs) \<or> holds (all_resolved gs))
     then (update_where (by_key t_id tid) (review_update gs sid now) (tasks d), Some (review_update gs sid now r))
     else (tasks d, None))"
proof (cases "t_status r = ''waiting_review'' \<and> (holds (any_rejected gs) \<or> holds (all_resolved gs))")
  case True
  then have "holds (review_fence gs tid r)"
    using assms(2) task_of_id by (auto simp: review_fence_def)
  then show ?thesis
    using True review_cas.cas_hit [OF keys_okD(1) [OF assms(1)]] assms(2) by (simp add: task_of_def)
next
  case False
  have none: "\<not> holds (review_fence gs tid q)" if "q \<in> set (tasks d)" for q
    using False that assms lookup_in_unique [OF keys_okD(1) [OF assms(1)] that]
    by (auto simp: review_fence_def task_of_def)
  then have "find (\<lambda>q. holds (review_fence gs tid q)) (tasks d) = None"
    by (simp add: find_None_iff)
  then show ?thesis
    using False none by (simp add: update_returning_find update_where_none)
qed

text \<open>C10: deciding a gate. A decision that goes through was made on a pending gate of that very task by
  the subject that owns the gate or by an admin, and stamps that gate alone. A task waiting for
  review then fails if any of its gates is rejected, finishes if every gate is approved or expired,
  and otherwise waits on; failed or finished, its lease, expiry and claimer are cleared, the
  finalizer is the claimer on record, else the earlier finalizer, else the caller, and the result
  artifact stays what it was. A task in any other status, and every other task, is left as it was.\<close>

theorem gate_decision_moves_task:
  assumes "keys_ok d" "resolve_tx d p now tid gid decision = Some (d', g, t)"
  shows "(\<exists>g0. gate_of d gid = Some g0 \<and> g_status g0 = ''pending'' \<and> g_mesh_task_id g0 = tid
        \<and> (g_owner_subject g0 = subject p \<or> is_admin p)
        \<and> g = g0\<lparr>g_status := decision, g_resolved_at := Some now\<rparr> \<and> gate_of d' gid = Some g)
    \<and> (\<forall>x. x \<noteq> gid \<longrightarrow> gate_of d' x = gate_of d x) \<and> (\<forall>x. x \<noteq> tid \<longrightarrow> task_of d' x = task_of d x)
    \<and> (\<forall>r. task_of d tid = Some r \<longrightarrow>
        (if t_status r = ''waiting_review'' \<and> (has_rejected d' tid \<or> all_settled d' tid)
         then (\<exists>r'. t = Some r' \<and> task_of d' tid = Some r'
           \<and> t_status r' = (if has_rejected d' tid then ''failed'' else ''finished'')
           \<and> t_claim_lease_id r' = None \<and> t_lease_expires_at r' = None \<and> t_claimed_by r' = None
           \<and> t_finalized_by r' = coalesce (t_claimed_by r) (coalesce (t_finalized_by r) (Some (subject_id_of p)))
           \<and> t_finalized_at r' = Some now \<and> t_result_artifact_id r' = t_result_artifact_id r)
         else t = None \<and> task_of d' tid = Some r))"
proof -
  let ?upd = "update_returning (resolve_fence tid (subject p) (is_admin p) gid) (resolve_update decision now) (gates d)"
  obtain gs where gs: "?upd = (gs, Some g)"
    and tx: "update_returning (review_fence (gates_of (d\<lparr>gates := gs\<rparr>) tid) tid)
      (review_update (gates_of (d\<lparr>gates := gs\<rparr>) tid) (subject_id_of p) now) (tasks d) = (tasks d', t)"
    "d' = d\<lparr>gates := gs, tasks := tasks d'\<rparr>"
    using assms(2) unfolding resolve_tx_def by (auto split: prod.splits option.splits simp: Let_def)
  have gates': "gates d' = gs"
    by (subst tx(2)) simp
  have uniq: "unique_key g_id (gates d)"
    using assms(1) by (rule keys_okD)
  obtain g0 where g0: "lookup g_id gid (gates d) = Some g0"
    "holds (resolve_fence tid (subject p) (is_admin p) gid g0)" "g = resolve_update decision now g0"
    using gate_cas.cas_accepted [of tid "subject p" "is_admin p" gid decision now "gates d" g] gs uniq by auto
  have row: "lookup g_id x gs = (if x = gid then Some g else lookup g_id x (gates d))" for x
    using gate_cas.cas_lookup [of x tid "subject p" "is_admin p" gid decision now "gates d"]
      gate_cas.cas_other_rows [of x gid tid "subject p" "is_admin p" decision now "gates d"] gs g0 by auto
  have mine: "g \<in> set gs" "g_mesh_task_id g = tid"
    using row [of gid] g0 by (auto simp: resolve_fence_def resolve_update_def dest: lookup_Some_in)
  have verdict: "holds (any_rejected (gates_of (d\<lparr>gates := gs\<rparr>) tid)) \<longleftrightarrow> has_rejected d' tid"
    "holds (all_resolved (gates_of (d\<lparr>gates := gs\<rparr>) tid)) \<longleftrightarrow> all_settled d' tid"
    using gates_verdict [of g "d\<lparr>gates := gs\<rparr>" tid] mine by (simp_all add: has_rejected_def all_settled_def gates')
  have others: "task_of d' x = task_of d x" if "x \<noteq> tid" for x
    using review_cas.cas_other_rows [OF that, of _ "subject_id_of p" now "tasks d"] tx(1)
    by (metis fst_conv task_of_def)
  have task: "if t_status r = ''waiting_review'' \<and> (has_rejected d' tid \<or> all_settled d' tid)
      then t = Some (review_update (gates_of (d\<lparr>gates := gs\<rparr>) tid) (subject_id_of p) now r) \<and> task_of d' tid = t
      else t = None \<and> task_of d' tid = Some r" if r: "task_of d tid = Some r" for r
  proof -
    let ?f = "review_update (gates_of (d\<lparr>gates := gs\<rparr>) tid) (subject_id_of p) now"
    have keep: "t_id (?f q) = t_id q" for q
      by (simp add: review_update_def)
    have row': "lookup t_id tid (update_where (by_key t_id tid) ?f (tasks d)) = Some (?f r)"
      using r task_of_id [OF r] by (simp add: task_of_def lookup_update_where [where key = t_id and f = ?f, OF keep])
    show ?thesis
      using review_row [OF assms(1) r, of "gates_of (d\<lparr>gates := gs\<rparr>) tid" "subject_id_of p" now] r row'
      unfolding tx(1) verdict task_of_def by (simp split: if_splits)
  qed
  have gate: "\<exists>g0. gate_of d gid = Some g0 \<and> g_status g0 = ''pending'' \<and> g_mesh_task_id g0 = tid
      \<and> (g_owner_subject g0 = subject p \<or> is_admin p)
      \<and> g = g0\<lparr>g_status := decision, g_resolved_at := Some now\<rparr> \<and> gate_of d' gid = Some g"
    using g0 row [of gid] by (simp add: gate_of_def gates' resolve_fence_def resolve_update_def)
  have siblings: "\<forall>x. x \<noteq> gid \<longrightarrow> gate_of d' x = gate_of d x"
    by (simp add: gate_of_def gates' row)
  have outcome: "if t_status r = ''waiting_review'' \<and> (has_rejected d' tid \<or> all_settled d' tid)
      then (\<exists>r'. t = Some r' \<and> task_of d' tid = Some r'
        \<and> t_status r' = (if has_rejected d' tid then ''failed'' else ''finished'')
        \<and> t_claim_lease_id r' = None \<and> t_lease_expires_at r' = None \<and> t_claimed_by r' = None
        \<and> t_finalized_by r' = coalesce (t_claimed_by r) (coalesce (t_finalized_by r) (Some (subject_id_of p)))
        \<and> t_finalized_at r' = Some now \<and> t_result_artifact_id r' = t_result_artifact_id r)
      else t = None \<and> task_of d' tid = Some r" if r: "task_of d tid = Some r" for r
    using task [OF r] by (auto simp: review_update_def verdict split: if_splits)
  show ?thesis
    using gate siblings others outcome by blast
qed

definition reviewed_db :: db where
  "reviewed_db = sample_db [(sample_claimed ''t1'')\<lparr>t_status := ''waiting_review''\<rparr>] [sample_gate ''g1'' ''pending'']"

lemma gate_decision_moves_task_witness:
  "\<exists>d' g t. resolve_tx reviewed_db alice 9 ''t1'' ''g1'' ''approved'' = Some (d', g, t)
     \<and> (\<exists>r'. task_of d' ''t1'' = Some r' \<and> t_status r' = ''finished'' \<and> t_claim_lease_id r' = None)"
proof -
  have keys: "keys_ok reviewed_db"
    by code_simp
  have st: "map_option t_status (task_of reviewed_db ''t1'') = Some ''waiting_review''"
    by code_simp
  have ok: "(case resolve_tx reviewed_db alice 9 ''t1'' ''g1'' ''approved'' of Some (d', g, t) \<Rightarrow>
      map g_status (gates d') = [''approved''] | None \<Rightarrow> False)"
    by code_simp
  then obtain d' g t where tx: "resolve_tx reviewed_db alice 9 ''t1'' ''g1'' ''approved'' = Some (d', g, t)"
    "map g_status (gates d') = [''approved'']"
    by (auto split: option.splits)
  have "\<not> has_rejected d' ''t1''" "all_settled d' ''t1''"
    using tx(2) by (auto simp: has_rejected_def all_settled_def)
  then show ?thesis
    using gate_decision_moves_task [OF keys tx(1)] st tx(1) by fastforce
qed

end
