(* ===== verification/Handler_Properties.thy ===== *)
theory Handler_Properties
  imports Task_Safety
begin

text \<open>
  Single handlers on every branch that matters: expiring leases, retrying, dispatching, a claim whose
  read half is stale, assigned tasks and their submitter, deletion, and the two ways to create a
  pool task.
\<close>

section \<open>Stale leases\<close>

definition stale :: "time \<Rightarrow> str \<Rightarrow> task_row \<Rightarrow> bool" where
  "stale now m r = (t_mission_id r = m \<and> t_kind r = Claimable \<and> t_status r \<in> {''claimed'', ''running''}
     \<and> (\<exists>c. t_claim_policy r = Some c \<and> c \<noteq> ''broadcast'') \<and> (\<exists>e. t_lease_expires_at r = Some e \<and> e < now))"

lemma expire_fence_stale: "holds (expire_fence now m r) = stale now m r"
  by (auto simp: expire_fence_def stale_def is_kind_def)

lemma task_of_expire:
  assumes "db_up d"
  shows "task_of (expire_stale_leases now m d) x =
    map_option (\<lambda>r. if stale now m r then expire_update now r else r) (task_of d x)"
  unfolding expire_stale_leases_def using assms
  by (simp add: task_of_update expire_update_def Let_def expire_fence_stale)

text \<open>expiry takes back exactly the lapsed exclusive claims. expire_stale_leases changes precisely
  the claimable tasks of the mission that are claimed or running, not broadcast, and whose lease ran
  out before now: one more attempt is counted, the claimer, lease and expiry are cleared, and the
  task is ready again while attempts are left and failed (and finalized) otherwise. So a second run
  at the same or a later time that meets no newer claim changes nothing more: what the first run
  left is not stale at any later time.\<close>

theorem expire_exactly_stale:
  assumes "db_up d" "task_of d x = Some r"
  shows "task_of (expire_stale_leases now m d) x =
      Some (if stale now m r
        then r\<lparr>t_attempt := t_attempt r + 1,
               t_status := (if t_attempt r + 1 < t_max_attempts r then ''ready'' else ''failed''),
               t_finalized_at := (if t_attempt r + 1 < t_max_attempts r then t_finalized_at r else Some now),
               t_claimed_by := None, t_lease_expires_at := None, t_claim_lease_id := None, t_updated_at := now\<rparr>
        else r)
    \<and> (\<forall>later r'. task_of (expire_stale_leases now m d) x = Some r' \<longrightarrow> stale now m r \<longrightarrow> \<not> stale later m r')"
  using assms by (auto simp: task_of_expire expire_update_def Let_def stale_def not_le)

lemma expire_exactly_stale_witness:
  "map_option t_status (task_of (expire_stale_leases (secs 500) ''m1'' (sample_db [sample_claimed ''t1''] [])) ''t1'')
     = Some ''ready''"
proof -
  have up: "db_up (sample_db [sample_claimed ''t1''] [])"
    and row: "task_of (sample_db [sample_claimed ''t1''] []) ''t1'' = Some (sample_claimed ''t1'')"
    by (simp_all add: sample_db_def task_of_def lookup_Cons sample_claimed_def sample_task_def)
  show ?thesis
    using expire_exactly_stale [OF up row, of "secs 500" "''m1''"]
    by (simp add: stale_def sample_claimed_def sample_task_def)
qed

section \<open>Two halves of a request\<close>

lemma update_by_key:
  assumes "keys_ok d" "task_of d tid = Some r" "\<And>q. t_id (f q) = t_id q"
  shows "update_returning (by_key t_id tid) f (tasks d) = (tasks (set_row d tid f), Some (f r))"
proof -
  have id: "t_id r = tid"
    using assms(2) by (rule task_of_id)
  have "find (\<lambda>q. holds (by_key t_id tid q)) (tasks d) = Some r"
    using find_fence [OF keys_okD(1) [OF assms(1)], of "by_key t_id tid" tid] assms(2) id by (simp add: task_of_def)
  then show ?thesis
    by (simp add: update_returning_find set_row_def)
qed

text \<open>the write half of a broadcast claim trusts what the read half saw. The UPDATE names the row by
  id alone, so whatever has become of the task since (finished, failed, cancelled, claimed by someone
  else), the claim succeeds: the task is running again, under the new claimer and lease, and the other
  columns, a finalizer among them, stay.\<close>

theorem stale_broadcast_claim_wins:
  assumes "keys_ok d" "db_up d" "task_of d tid = Some r"
  shows "\<exists>d' body. claim_write d ''broadcast'' a now l tid = (d', Inr body)
    \<and> task_of d' tid = Some (r\<lparr>t_status := ''running'', t_claimed_by := Some a, t_claim_lease_id := Some l,
         t_lease_expires_at := Some (now + secs 120), t_updated_at := now\<rparr>)
    \<and> (\<forall>x. x \<noteq> tid \<longrightarrow> task_of d' x = task_of d x)"
proof -
  let ?f = "broadcast_claim_update a l now"
  have keep: "t_id (?f q) = t_id q" for q
    by (simp add: broadcast_claim_update_def)
  have "claim_write d ''broadcast'' a now l tid = (set_row d tid ?f, Inr (claim_response tid l (?f r)))"
    using update_by_key [OF assms(1,3) keep] assms(2) by (simp add: claim_write_def set_row_def)
  moreover have "task_of (set_row d tid ?f) x = (if x = tid then Some (?f r) else task_of d x)" for x
    using assms(3) by (simp add: task_of_set_row [where f = ?f, OF keep])
  ultimately show ?thesis
    by (simp add: broadcast_claim_update_def LEASE_TTL_SECS_def)
qed

lemma stale_broadcast_claim_wins_witness:
  "\<exists>r'. task_of (fst (claim_write (sample_db [(sample_task ''t1'')\<lparr>t_status := ''finished''\<rparr>] []) ''broadcast'' ''w8'' 9 ''l2'' ''t1'')) ''t1'' = Some r'
     \<and> t_status r' = ''running'' \<and> t_claimed_by r' = Some ''w8''"
proof -
  let ?d = "sample_db [(sample_task ''t1'')\<lparr>t_status := ''finished''\<rparr>] []"
  have pre: "keys_ok ?d" "db_up ?d"
    by code_simp+
  have row: "task_of ?d ''t1'' = Some ((sample_task ''t1'')\<lparr>t_status := ''finished''\<rparr>)"
    by (simp add: sample_db_def task_of_def lookup_Cons sample_task_def)
  show ?thesis
    using stale_broadcast_claim_wins [OF pre row, of "''w8''" 9 "''l2''"] by auto
qed

text \<open>dispatch_task finishes a task and nothing else. Once its read half has seen ready, the write half
  marks the row finished whatever its status has become: a claimer and lease gained in between stay on
  the finished row, finalized_at and finalized_by stay unset, and no other task changes, so tasks that
  only wait for this one are not released; no notice is sent.\<close>

theorem dispatch_finishes_alone:
  assumes "keys_ok d" "db_up d" "task_of d tid = Some r"
  shows "\<exists>d' body. dispatch_write d ''ready'' now tid = (d', Inr body)
    \<and> task_of d' tid = Some (r\<lparr>t_status := ''finished'', t_updated_at := now\<rparr>)
    \<and> (\<forall>x. x \<noteq> tid \<longrightarrow> task_of d' x = task_of d x) \<and> notices d' = notices d"
proof -
  have keep: "t_id (dispatch_update now q) = t_id q" for q
    by (simp add: dispatch_update_def)
  have "dispatch_write d ''ready'' now tid = (set_row d tid (dispatch_update now), Inr (row_to_task (dispatch_update now r)))"
    using update_by_key [OF assms(1,3) keep] assms(2) by (simp add: dispatch_write_def set_row_def)
  moreover have "task_of (set_row d tid (dispatch_update now)) x = (if x = tid then Some (dispatch_update now r) else task_of d x)" for x
    using assms(3) by (simp add: task_of_set_row [where f = "dispatch_update now", OF keep])
  ultimately show ?thesis
    by (simp add: dispatch_update_def set_row_def)
qed

definition dispatched_db :: db where
  "dispatched_db = sample_db [sample_claimed ''t1'', (sample_task ''t2'')\<lparr>t_status := ''pending'', t_depends_on := [''t1'']\<rparr>] []"

lemma dispatch_finishes_alone_witness:
  "map_option t_status (task_of (fst (dispatch_write dispatched_db ''ready'' 9 ''t1'')) ''t2'') = Some ''pending''
   \<and> map_option t_claim_lease_id (task_of (fst (dispatch_write dispatched_db ''ready'' 9 ''t1'')) ''t1'') = Some (Some ''lease-1'')"
proof -
  have pre: "keys_ok dispatched_db" "db_up dispatched_db"
    by code_simp+
  have row: "task_of dispatched_db ''t1'' = Some (sample_claimed ''t1'')"
    and waits: "map_option t_status (task_of dispatched_db ''t2'') = Some ''pending''"
    by (simp_all add: dispatched_db_def sample_db_def task_of_def lookup_Cons sample_task_def sample_claimed_def)
  show ?thesis
    using dispatch_finishes_alone [OF pre row, of 9] waits by (auto simp: sample_claimed_def)
qed

section \<open>Retrying\<close>

interpretation retry_cas: fenced_update t_id retry_fence "retry_update now"
  for now
  by unfold_locales (auto simp: retry_fence_def retry_update_def)

text \<open>retry_task does not look at dependencies or at attempts. Any caller the domain guard lets through
  makes a failed or cancelled pool task ready at once, whatever the status of what it depends on and
  however many attempts are used up (the attempt count stays); the result, the finalizer and its
  time are erased, and no agent is told.\<close>

theorem retry_ignores_dependencies:
  assumes "keys_ok d" "authz_by_task d p tid = Inr ()" "task_of d tid = Some r" "t_kind r = Claimable"
    and "t_status r \<in> {''failed'', ''cancelled''}"
  shows "\<exists>d' body. retry_task d p now tid = (d', Inr body)
    \<and> task_of d' tid = Some (r\<lparr>t_status := ''ready'', t_claimed_by := None, t_result_artifact_id := None,
         t_lease_expires_at := None, t_claim_lease_id := None, t_finalized_at := None,
         t_finalized_by := None, t_updated_at := now\<rparr>)
    \<and> (\<forall>x. x \<noteq> tid \<longrightarrow> task_of d' x = task_of d x) \<and> notices d' = notices d"
proof -
  have keep: "t_id (retry_update now q) = t_id q" for q
    by (simp add: retry_update_def)
  have mine: "holds (retry_fence tid r)"
    using assms(3-5) task_of_id by (auto simp: retry_fence_def is_kind_def)
  have hit: "update_returning (retry_fence tid) (retry_update now) (tasks d) =
      (tasks (set_row d tid (retry_update now)), Some (retry_update now r))"
    using retry_cas.cas_hit [OF keys_okD(1) [OF assms(1)] _ mine] assms(3) by (simp add: task_of_def set_row_def)
  have "retry_task d p now tid = (set_row d tid (retry_update now), Inr (row_to_task (retry_update now r)))"
    using assms(2) hit by (simp add: retry_task_def set_row_def)
  moreover have "task_of (set_row d tid (retry_update now)) x = (if x = tid then Some (retry_update now r) else task_of d x)" for x
    using assms(3) by (simp add: task_of_set_row [where f = "retry_update now", OF keep])
  ultimately show ?thesis
    by (simp add: retry_update_def set_row_def)
qed

definition cancelled_dependent :: task_row where
  "cancelled_dependent = (sample_task ''t2'')\<lparr>t_status := ''cancelled'', t_depends_on := [''t1'']\<rparr>"

lemma retry_ignores_dependencies_witness:
  "map_option t_status (task_of (fst (retry_task (sample_db [sample_task ''t1'', cancelled_dependent] []) alice 9 ''t2'')) ''t2'')
     = Some ''ready''"
proof -
  let ?d = "sample_db [sample_task ''t1'', cancelled_dependent] []"
  have keys: "keys_ok ?d" and ok: "authz_by_task ?d alice ''t2'' = Inr ()"
    by code_simp+
  have row: "task_of ?d ''t2'' = Some cancelled_dependent"
    by (simp add: sample_db_def task_of_def lookup_Cons sample_task_def cancelled_dependent_def)
  have kind: "t_kind cancelled_dependent = Claimable" "t_status cancelled_dependent \<in> {''failed'', ''cancelled''}"
    by (simp_all add: cancelled_dependent_def sample_task_def)
  show ?thesis
    using retry_ignores_dependencies [OF keys ok row kind, of 9] by auto
qed

section \<open>Assigned tasks and their submitter\<close>

lemma agent_not_owner:
  assumes "subject p = ''agent:'' @ a"
  shows "subject_id_of p = a" "Some (subject p) \<noteq> Some (subject_id_of p)"
  using assms by (simp_all add: subject_id_of_def del: strip_prefix.simps append_Cons append_Nil)

text \<open>an agent cannot finish the assigned task it submitted. submit_mesh_task defaults the owner of an
  assigned task to the full subject, agent: prefix included, while every fence compares the owner with
  the subject stripped of it; so a plain agent that submits such a task without naming an owner is
  refused each of the five transitions on it, on either surface, and nothing changes.\<close>

theorem submitted_assigned_task_stuck:
  assumes "keys_ok d" "subject p = ''agent:'' @ a" "\<not> is_full_trust p" "\<not> is_admin p"
    and "trim (str_arg args ''owner'') = []"
    and "task_of d tid = Some (submitted_row now0 tid pub m dm p Assigned st pj args)"
  shows "\<exists>e. execute_task_transition d (task_actor p) now tid tr = (d, Inl e)"
proof (rule no_pass_rejected [OF assms(1)], rule no_authority_no_pass)
  show "\<not> ac_is_bypass (task_actor p)"
    using assms(3,4) by (simp add: task_actor_def)
  show "t_claimed_by r \<noteq> Some (ac_subject_id (task_actor p)) \<and> t_owner r \<noteq> Some (ac_subject_id (task_actor p))
      \<and> (presented_lease tr = None \<or> t_claim_lease_id r \<noteq> presented_lease tr)"
    if "task_of d tid = Some r" for r
  proof -
    have r: "r = submitted_row now0 tid pub m dm p Assigned st pj args"
      using that assms(6) by simp
    have "t_owner r = Some (subject p)" "t_claimed_by r = None" "t_claim_lease_id r = None"
      using assms(5) by (simp_all add: r submitted_row_def str_arg_or_def Let_def)
    then show ?thesis
      using agent_not_owner(2) [OF assms(2)] by (auto simp: task_actor_def)
  qed
qed

definition assigned_args :: json where
  "assigned_args = JObj [(''mission_id'', JStr ''m1''), (''title'', JStr ''write docs''), (''kind'', JStr ''assigned'')]"

definition assigned_run :: db where
  "assigned_run = after (submit_mesh_task (\<lambda>_. ''{}'') (sample_db [] []) (worker ''w7'') 0 ''t1'' ''abcdefgh'' assigned_args) (sample_db [] [])"

lemma submitted_assigned_task_stuck_witness:
  "\<exists>e. execute_task_transition assigned_run (task_actor (worker ''w7'')) 5 ''t1'' (Complete None None None) = (assigned_run, Inl e)"
proof -
  have keys: "keys_ok assigned_run"
    by code_simp
  have w: "subject (worker ''w7'') = ''agent:'' @ ''w7''" "\<not> is_full_trust (worker ''w7'')" "\<not> is_admin (worker ''w7'')"
    "trim (str_arg assigned_args ''owner'') = []"
    by code_simp+
  have "tasks assigned_run = [submitted_row 0 ''t1'' ''task-abcdefgh'' ''m1'' ''d1'' (worker ''w7'') Assigned ''proposed'' (\<lambda>_. ''{}'') assigned_args]"
    by code_simp
  then have row: "task_of assigned_run ''t1'' = Some (submitted_row 0 ''t1'' ''task-abcdefgh'' ''m1'' ''d1'' (worker ''w7'') Assigned ''proposed'' (\<lambda>_. ''{}'') assigned_args)"
    by (simp add: task_of_def lookup_Cons submitted_row_def Let_def)
  show ?thesis
    using submitted_assigned_task_stuck [OF keys w row] .
qed

section \<open>Deleting\<close>

text \<open>deleting an assigned task that has a review gate reports success and deletes nothing. The answer
  is ok with the public id of the task; its row and every other row are still there, whatever the
  status of the gate, while its overlap suggestions are gone and its messages have lost it.\<close>

theorem gated_task_survives_delete:
  assumes "authz_domain_owner d p dm = Inr ()" "verify_mission_domain d m dm = Inr ()"
    and "fetch_assigned_task d tid m = Inr (Some r)" "g \<in> set (gates d)" "g_mesh_task_id g = t_id r"
  shows "\<exists>d'. delete_task d p dm m tid =
      (d', Inr (JObj [(''ok'', JBool True), (''deleted_id'', JStr (t_public_id r))]))
    \<and> tasks d' = tasks d \<and> (\<forall>o'\<in>set (overlaps d'). o_task_id o' \<noteq> t_id r \<and> o_candidate_task_id o' \<noteq> t_id r)
    \<and> (\<forall>msg\<in>set (agent_messages d'). am_task_id msg \<noteq> Some (t_id r))"
proof -
  have named: "exists_where (\<lambda>g. tbool (g_mesh_task_id g = t_id r)) (gates d)"
    using assms(4,5) by (auto simp: exists_where_def list_ex_iff)
  show ?thesis
    using assms(1-3) named
    by (auto simp: delete_task_def found_task_def delete_row_def Let_def delete_where_def update_where_def)
qed

definition assigned_sample :: task_row where
  "assigned_sample = (sample_task ''t1'')\<lparr>t_kind := Assigned, t_status := ''proposed'', t_owner := Some ''alice'',
     t_contributors := Some [], t_done_criteria := Some [], t_dependencies_note := Some [],
     t_related_artifacts_note := Some []\<rparr>"

lemma gated_task_survives_delete_witness:
  "tasks (fst (delete_task (sample_db [assigned_sample] [sample_gate ''g1'' ''approved'']) alice ''d1'' ''m1'' ''t1''))
     = [assigned_sample]"
proof -
  let ?d = "sample_db [assigned_sample] [sample_gate ''g1'' ''approved'']"
  have guards: "authz_domain_owner ?d alice ''d1'' = Inr ()" "verify_mission_domain ?d ''m1'' ''d1'' = Inr ()"
    by code_simp+
  have found: "fetch_assigned_task ?d ''t1'' ''m1'' = Inr (Some assigned_sample)"
    by code_simp
  have gate: "sample_gate ''g1'' ''approved'' \<in> set (gates ?d)" "g_mesh_task_id (sample_gate ''g1'' ''approved'') = t_id assigned_sample"
    by (simp_all add: sample_db_def sample_gate_def assigned_sample_def sample_task_def)
  have "tasks ?d = [assigned_sample]"
    by (simp add: sample_db_def)
  then show ?thesis
    using gated_task_survives_delete [OF guards found gate] by auto
qed

section \<open>Who sees a lease\<close>

text \<open>reading a task discloses its lease only to those it belongs to. get_task never carries the lease;
  for a caller that is not full-trust or admin, get_assigned_task carries it only when the caller owns
  the row, and the MCP tool get_mesh_task only when the caller is the claimer on record.\<close>

theorem lease_not_disclosed:
  assumes "\<not> is_full_trust p" "\<not> is_admin p"
  shows "(\<forall>j. get_task d p tid = Inr j \<longrightarrow> jget ''claim_lease_id'' j = None)
    \<and> (\<forall>j k. get_assigned_task d p dm m tid = Inr j \<longrightarrow> jget ''claim_lease_id'' j = Some (JStr k) \<longrightarrow>
         (\<exists>r\<in>set (tasks d). t_owner r = Some (subject_id_of p) \<and> t_claim_lease_id r = Some k))
    \<and> (\<forall>res k. jget ''result'' (get_mesh_task d p args) = Some res \<longrightarrow> jget ''claim_lease_id'' res = Some (JStr k) \<longrightarrow>
         (\<exists>r\<in>set (tasks d). t_claimed_by r = Some (subject_id_of p) \<and> t_claim_lease_id r = Some k))"
proof (intro conjI allI impI)
  fix j
  assume "get_task d p tid = Inr j"
  then show "jget ''claim_lease_id'' j = None"
    by (auto simp: get_task_def row_to_task_def split: sum.splits option.splits)
next
  fix j k
  assume got: "get_assigned_task d p dm m tid = Inr j" "jget ''claim_lease_id'' j = Some (JStr k)"
  then obtain r where r: "fetch_assigned_task d tid m = Inr (Some r)" "j = assigned_json (redact_lease p r)"
    by (auto simp: get_assigned_task_def found_task_def split: option.splits)
  have "r \<in> set (tasks d)"
    using r(1) by (auto simp: fetch_assigned_task_def fetch_optional_def Let_def dest: find_SomeD split: if_splits option.splits)
  moreover have "t_owner r = Some (subject_id_of p) \<and> t_claim_lease_id r = Some k"
    using got(2) assms r(2) by (auto simp: assigned_json_def redact_lease_def jopt_def split: if_splits option.splits)
  ultimately show "\<exists>r\<in>set (tasks d). t_owner r = Some (subject_id_of p) \<and> t_claim_lease_id r = Some k"
    by blast
next
  fix res k
  assume got: "jget ''result'' (get_mesh_task d p args) = Some res" "jget ''claim_lease_id'' res = Some (JStr k)"
  then obtain r where r: "lookup t_id (str_arg args ''task_id'') (tasks d) = Some r"
    "jopt JStr (t_claim_lease_id r) = JStr k" "t_claimed_by r = Some (subject_id_of p)"
    using assms
    by (auto simp: get_mesh_task_def err_result_def ok_result_def Let_def mcp_task_guard_def mcp_authz_domain_def
        split: sum.splits option.splits if_splits)
  then show "\<exists>r\<in>set (tasks d). t_claimed_by r = Some (subject_id_of p) \<and> t_claim_lease_id r = Some k"
    by (auto simp: jopt_def dest: lookup_Some_in split: option.splits)
qed

lemma lease_not_disclosed_witness:
  "\<exists>j. get_task (sample_db [sample_claimed ''t1''] []) (worker ''w8'') ''t1'' = Inr j \<and> jget ''claim_lease_id'' j = None"
proof -
  have w: "\<not> is_full_trust (worker ''w8'')" "\<not> is_admin (worker ''w8'')"
    by code_simp+
  have "case get_task (sample_db [sample_claimed ''t1''] []) (worker ''w8'') ''t1'' of Inr _ \<Rightarrow> True | Inl _ \<Rightarrow> False"
    by code_simp
  then obtain j where "get_task (sample_db [sample_claimed ''t1''] []) (worker ''w8'') ''t1'' = Inr j"
    by (auto split: sum.splits)
  then show ?thesis
    using lease_not_disclosed [OF w] by blast
qed

section \<open>Two ways to create a pool task\<close>

lemma refusal_not_ok [simp]: "\<not> is_ok_result (err_result e)"
  by (simp add: is_ok_result_def err_result_def)

lemma mcp_guard_refusal: "mcp_authz_domain d p dm = Inl e \<Longrightarrow> \<not> is_ok_result e"
  by (auto simp: mcp_authz_domain_def is_ok_result_def split: sum.splits if_splits)

text \<open>The body a REST caller would send for the arguments of the tool.\<close>

definition body_of_args :: "(json \<Rightarrow> str) \<Rightarrow> json \<Rightarrow> task_create" where
  "body_of_args print_json args =
     \<lparr>tc_title = str_arg args ''title'', tc_description = str_arg args ''description'',
      tc_input_json = print_json (json_arg args ''input_json''),
      tc_claim_policy = str_arg_or args ''claim_policy'' ''first_claim'',
      tc_depends_on = str_list_arg args ''depends_on'', tc_produces = json_arg args ''produces'',
      tc_consumes = json_arg args ''consumes'',
      tc_required_capabilities = str_list_arg args ''required_capabilities'',
      tc_priority = (case int_arg args ''priority'' of Some n \<Rightarrow> (n + 2 ^ 31) mod 2 ^ 32 - 2 ^ 31 | None \<Rightarrow> 0),
      tc_parent_task_id = jget ''parent_task_id'' args \<bind> jstr\<rparr>"

text \<open>the MCP tool and the REST handler create the same pool task. When submit_mesh_task accepts the
  arguments of a claimable task, create_task accepts the corresponding body in the same state and
  inserts the very same row; but only create_task tells the agents of a ready task: the tool leaves
  the broadcasts as they were, so a task submitted through it is found by polling alone.\<close>

theorem submit_creates_same_row:
  assumes "submit_mesh_task pj d p now i hex args = Some (d1, j)" "is_ok_result j"
    and "str_arg_or args ''kind'' ''claimable'' = ''claimable''"
  shows "\<exists>d2 j2 r. create_task d p now i hex (str_arg args ''mission_id'') (body_of_args pj args) = Some (d2, Inr j2)
    \<and> tasks d1 = insert_row r (tasks d) \<and> tasks d2 = tasks d1 \<and> notices d1 = notices d
    \<and> (t_status r = ''ready'' \<longrightarrow>
        notices d2 = notices d @ [(t_domain_id r, str_arg args ''mission_id'', i)])"
proof -
  have kind: "parse_kind (str_arg_or args ''kind'' ''claimable'') = Some Claimable"
    by (simp add: assms(3) parse_kind_def)
  let ?m = "str_arg args ''mission_id''" and ?ds = "str_list_arg args ''depends_on''"
  have args: "?m \<noteq> []" "str_arg args ''title'' \<noteq> []"
    using assms(1,2) by (auto simp: submit_mesh_task_def Let_def split: if_splits)
  obtain dm where dm1: "domain_id_for_mission d ?m = Inr dm"
    by (cases "domain_id_for_mission d ?m") (use assms(1,2) args in \<open>auto simp: submit_mesh_task_def Let_def\<close>)
  have dm2: "mcp_authz_domain d p dm = Inr ()"
    by (cases "mcp_authz_domain d p dm")
      (use assms(1,2) args dm1 mcp_guard_refusal in \<open>auto simp: submit_mesh_task_def Let_def\<close>)
  have found: "find (dependency_missing d ?m) ?ds = None"
    by (cases "find (dependency_missing d ?m) ?ds")
      (use assms(1,2) args dm1 dm2 kind in \<open>auto simp: submit_mesh_task_def Let_def\<close>)
  define cycle where "cycle = (if ?ds = [] then Some (Inr False) else detect_cycle d ?m i ?ds)"
  have acyc: "cycle = Some (Inr False)"
  proof (cases cycle)
    case (Some c)
    then show ?thesis
      by (cases c) (use assms(1,2) args dm1 dm2 kind found in
        \<open>auto simp: submit_mesh_task_def Let_def cycle_def [symmetric] split: bool.splits\<close>)
  qed (use assms(1,2) args dm1 dm2 kind found in \<open>simp add: submit_mesh_task_def Let_def cycle_def [symmetric]\<close>)
  have d1: "d1 = d\<lparr>tasks := insert_row (submitted_row now i (new_public_id hex) ?m dm p Claimable
      (compute_initial_status d ?ds) pj args) (tasks d)\<rparr>"
    using assms(1) args dm1 dm2 kind found acyc by (simp add: submit_mesh_task_def Let_def cycle_def [symmetric])
  have auth: "authz_domain d p dm = Inr ()"
    using dm2 by (auto simp: mcp_authz_domain_def split: sum.splits if_splits)
  obtain mi where mi: "db_up d" "lookup m_id ?m (missions d) = Some mi" "m_domain_id mi = Some dm"
    using dm1 by (auto simp: domain_id_for_mission_def resolve_def mission_domain_query_def
        split: if_splits option.splits)
  have row: "new_task_row now i (new_public_id hex) ?m dm (subject p) st (body_of_args pj args) =
      submitted_row now i (new_public_id hex) ?m dm p Claimable st pj args" for st
    by (simp add: new_task_row_def submitted_row_def body_of_args_def Let_def)
  have deps: "tc_depends_on (body_of_args pj args) = ?ds"
    by (simp add: body_of_args_def)
  let ?r = "submitted_row now i (new_public_id hex) ?m dm p Claimable (compute_initial_status d ?ds) pj args"
  let ?d2 = "if compute_initial_status d ?ds = ''ready'' then broadcast_task_available dm ?m i d1 else d1"
  have "create_task d p now i hex ?m (body_of_args pj args) = Some (?d2, Inr (row_to_task ?r))"
    using mi auth found acyc
    by (cases "?ds = []") (simp_all add: create_task_def Let_def cycle_def deps row d1)
  moreover have "tasks ?d2 = tasks d1" "t_domain_id ?r = dm" "t_status ?r = compute_initial_status d ?ds"
    by (simp_all add: broadcast_task_available_def submitted_row_def)
  moreover have "tasks d1 = insert_row ?r (tasks d)" "notices d1 = notices d"
    by (simp_all add: d1)
  moreover have "t_status ?r = ''ready'' \<longrightarrow> notices ?d2 = notices d @ [(t_domain_id ?r, ?m, i)]"
    by (simp add: d1 broadcast_task_available_def submitted_row_def)
  ultimately show ?thesis
    by blast
qed

definition pool_args :: json where
  "pool_args = JObj [(''mission_id'', JStr ''m1''), (''title'', JStr ''build'')]"

lemma submit_creates_same_row_witness:
  "\<exists>d1 (d2 :: db) j2. submit_mesh_task (\<lambda>_. ''{}'') (sample_db [] []) (worker ''w7'') 0 ''t1'' ''abcdefgh'' pool_args = Some (d1, j2)
     \<and> notices d1 = [] \<and> notices d2 = [(''d1'', ''m1'', ''t1'')] \<and> tasks d2 = tasks d1"
proof -
  let ?s = "submit_mesh_task (\<lambda>_. ''{}'') (sample_db [] []) (worker ''w7'') 0 ''t1'' ''abcdefgh'' pool_args"
  have "case ?s of Some (d1, j) \<Rightarrow> is_ok_result j \<and> map (\<lambda>r. (t_status r, t_domain_id r)) (tasks d1) = [(''ready'', ''d1'')] | None \<Rightarrow> False"
    by code_simp
  then obtain d1 j where s: "?s = Some (d1, j)" "is_ok_result j"
    "map (\<lambda>r. (t_status r, t_domain_id r)) (tasks d1) = [(''ready'', ''d1'')]"
    by (auto split: option.splits)
  have k: "str_arg_or pool_args ''kind'' ''claimable'' = ''claimable''"
    and m: "str_arg pool_args ''mission_id'' = ''m1''"
    by code_simp+
  have empty: "tasks (sample_db [] []) = []" "notices (sample_db [] []) = []"
    by (simp_all add: sample_db_def)
  show ?thesis
    using submit_creates_same_row [OF s(1,2) k] s empty m by (fastforce simp: insert_row_def)
qed

section \<open>The arms the code calls unreachable\<close>

text \<open>no handler panics on an outcome. Of an accepted transition, a heartbeat, a failure and a block give
  a task outcome, a progress report gives a progress outcome and a completion gives a task or a
  waiting-review outcome, so the unreachable! arms of the REST handlers are never taken; and an
  accepted transition names the task it was called on.\<close>

theorem outcome_fits_transition:
  assumes "snd (execute_task_transition d ac now tid tr) = Inr out"
  shows "(case tr of
       AppendProgress l ev ph st su pl ar \<Rightarrow> \<exists>e. out = ProgressOutcome e \<and> p_task_id e = tid
     | Complete l a res \<Rightarrow> (\<exists>r ids. out = TaskOutcome r ids \<and> t_id r = tid) \<or>
         (\<exists>r gs. out = WaitingReview r gs \<and> gs \<noteq> [] \<and> t_id r = tid)
     | _ \<Rightarrow> \<exists>r. out = TaskOutcome r [] \<and> t_id r = tid)"
  using assms
  by (cases tr)
    (auto simp: heartbeat_transition_def progress_transition_def complete_transition_def fail_transition_def
      block_transition_def Let_def update_returning_find pending_gate_iff fence_defs heartbeat_update_def
      fail_update_def block_update_def
      split: option.splits if_splits prod.splits dest!: find_SomeD)

lemma outcome_fits_transition_witness:
  "\<exists>r. snd (execute_task_transition (sample_db [sample_claimed ''t1''] []) (agent_actor ''w7'') 5 ''t1'' (Fail (Some ''lease-1'') None)) = Inr (TaskOutcome r [])"
proof -
  let ?x = "snd (execute_task_transition (sample_db [sample_claimed ''t1''] []) (agent_actor ''w7'') 5 ''t1'' (Fail (Some ''lease-1'') None))"
  have "case ?x of Inr _ \<Rightarrow> True | Inl _ \<Rightarrow> False"
    by code_simp
  then obtain out where out: "?x = Inr out"
    by (auto split: sum.splits)
  show ?thesis
    using outcome_fits_transition [OF out] out by auto
qed

end
