(* ===== verification/Progress_Log.thy ===== *)
theory Progress_Log
  imports Task_Safety
begin

text \<open>
  The progress log: append_progress numbers the events of a task with 1 + the highest number so far,
  inside the transaction that locks the task row. Every other handler leaves the log alone, so in
  every reachable state the events of a task are numbered 0, 1, 2, ... in the order they were logged.
\<close>

definition seqs_of :: "db \<Rightarrow> str \<Rightarrow> int list" where
  "seqs_of d tid = map p_seq (filter (\<lambda>e. p_task_id e = tid) (progress d))"

definition log_grows :: "db \<Rightarrow> db \<Rightarrow> bool" where
  "log_grows d d' = (progress d' = progress d \<or>
     (\<exists>e. progress d' = progress d @ [e] \<and> p_seq e = next_seq d (p_task_id e)))"

lemma log_same: "progress d' = progress d \<Longrightarrow> log_grows d d'"
  by (simp add: log_grows_def)

lemma log_unblock_loop: "progress (fst (unblock_loop now f cs d)) = progress d"
  by (induction now f cs d rule: unblock_loop.induct) (auto simp: Let_def split: prod.splits)

lemma log_unblock [simp]: "progress (fst (unblock_dependents now d m f)) = progress d"
  by (simp add: unblock_dependents_def log_unblock_loop)

lemma log_broadcast [simp]: "progress (broadcast_task_available dm m i d) = progress d"
  by (simp add: broadcast_task_available_def)

lemma log_transition: "log_grows d (fst (execute_task_transition d ac now tid tr))"
proof (cases tr)
  case (AppendProgress l ev ph st su pl ar)
  then show ?thesis
    by (auto simp: progress_transition_def log_grows_def insert_row_def Let_def split: option.split)
qed (auto intro!: log_same simp: heartbeat_transition_def complete_transition_def fail_transition_def
    block_transition_def Let_def split_def split: option.split)

lemma log_rest: "log_grows d (fst (rest_transition render d p now tid tr))"
  using log_transition [of d "task_actor p" now tid tr]
  by (auto simp: rest_transition_def log_same split: sum.split prod.split)

lemma log_mcp: "log_grows d (fst (mcp_transition render d p now tid tr))"
  using log_transition [of d "task_actor p" now tid tr]
  by (auto simp: mcp_transition_def log_same split: sum.split prod.split)

lemma log_resolve: "progress (fst (resolve_gate d p now tid gid dec)) = progress d"
  by (auto simp: resolve_gate_def resolve_tx_def Let_def split_def split: sum.split option.splits)

lemma log_create: "progress (after (create_task d p now i hex m tc) d) = progress d"
  by (auto simp: create_task_def after_def Let_def split: option.split sum.split bool.split)

lemma log_submit: "progress (after (submit_mesh_task pj d p now i hex args) d) = progress d"
  by (auto simp: submit_mesh_task_def after_def Let_def split: option.split sum.split bool.split)

lemma log_claim: "progress (fst (claim_task d p now l tid jo)) = progress d"
  by (auto simp: claim_task_def claim_write_def split: sum.split option.split prod.split)

lemma log_delete: "progress (fst (delete_task d p dm m tid)) = progress d"
  by (auto simp: delete_task_def delete_row_def Let_def split: sum.split)

lemma log_others:
  "progress (fst (list_tasks d p now m so)) = progress d"
  "progress (fst (cancel_task d p now tid)) = progress d"
  "progress (fst (retry_task d p now tid)) = progress d"
  "progress (fst (unblock_task d p now tid)) = progress d"
  "progress (fst (dispatch_task d p now tid)) = progress d"
  "progress (fst (create_gate d p now i tid gc)) = progress d"
  "progress (fst (claim_mesh_task d p now l args)) = progress d"
  "progress (fst (create_assigned_task d p now i hex dm m ac)) = progress d"
  "progress (fst (update_task d p now l dm m tid au)) = progress d"
  by (auto simp: list_tasks_def expire_stale_leases_def cancel_task_def retry_task_def unblock_task_def
      dispatch_task_def dispatch_write_def create_gate_def claim_mesh_task_def create_assigned_task_def
      update_task_def Let_def split: sum.split option.split prod.split)

lemma step_log: "step d l i d' \<Longrightarrow> log_grows d d'"
proof (induction rule: step.cases)
  case (Progress_req d l i pj p now tid pb)
  then show ?case
    by (simp add: append_progress_def log_rest log_same)
next
  case (Heartbeat_tool d l i p now args)
  then show ?case
    by (simp add: heartbeat_mesh_task_def Let_def log_mcp log_same)
next
  case (Progress_tool d l i print p now args)
  then show ?case
    by (simp add: progress_mesh_task_def Let_def log_mcp log_same)
next
  case (Finish_tool d l i tool p now args)
  then show ?case
    by (auto simp: finish_mesh_task_def Let_def log_mcp log_same split: sum.split option.split)
qed (simp_all add: heartbeat_task_def complete_task_def fail_task_def block_task_def log_rest log_same
      log_others log_resolve log_create log_submit log_claim log_delete)

section \<open>Numbering\<close>

definition numbered :: "db \<Rightarrow> bool" where
  "numbered d = (\<forall>tid. seqs_of d tid = map int [0..<length (seqs_of d tid)])"

lemma next_seq_numbered:
  assumes "numbered d"
  shows "next_seq d tid = int (length (seqs_of d tid))"
proof -
  have eq: "map p_seq (select_where (\<lambda>e. tbool (p_task_id e = tid)) (progress d)) = seqs_of d tid"
    by (simp add: seqs_of_def select_where_def)
  have sq: "seqs_of d tid = map int [0..<length (seqs_of d tid)]"
    using assms by (simp add: numbered_def)
  show ?thesis
  proof (cases "length (seqs_of d tid)")
    case (Suc n)
    have "set (seqs_of d tid) = int ` {0..<Suc n}"
      by (subst sq) (auto simp: Suc less_Suc_eq)
    moreover have "Max (int ` {0..<Suc n}) = int n"
      by (rule Max_eqI) auto
    ultimately have "Max (set (seqs_of d tid)) = int n"
      by simp
    then show ?thesis
      using Suc by (auto simp: next_seq_def eq Let_def split: list.split)
  qed (simp add: next_seq_def eq)
qed

lemma log_grows_numbered:
  assumes "log_grows d d'" "numbered d"
  shows "numbered d'"
proof -
  consider "progress d' = progress d" | e where "progress d' = progress d @ [e]" "p_seq e = next_seq d (p_task_id e)"
    using assms(1) by (auto simp: log_grows_def)
  then show ?thesis
  proof cases
    case 1
    then show ?thesis
      using assms(2) by (simp add: numbered_def seqs_of_def)
  next
    case 2
    have "seqs_of d' tid = (if p_task_id e = tid then seqs_of d tid @ [int (length (seqs_of d tid))] else seqs_of d tid)" for tid
      using 2 next_seq_numbered [OF assms(2)] by (simp add: seqs_of_def)
    then show ?thesis
      using assms(2) by (simp add: numbered_def)
  qed
qed

lemma run_numbered: "request\<^sup>*\<^sup>* s s' \<Longrightarrow> numbered (fst s) \<Longrightarrow> numbered (fst s')"
proof (induction rule: rtranclp_induct)
  case (step s1 s2)
  then obtain d1 M1 d2 M2 where "s1 = (d1, M1)" "s2 = (d2, M2)"
    by (cases s1; cases s2) blast
  moreover from this obtain l i where "step d1 l i d2"
    using step.hyps(2) by (auto elim: requestE)
  ultimately show ?case
    using step.IH step.prems step_log log_grows_numbered by (metis fst_conv)
qed

text \<open>the progress log of a task is gapless. In every reachable state the events of each task are
  numbered 0, 1, 2, ... in the order in which they were logged, so no number is used twice or left
  out, and a reader that asks for the events after number s gets exactly all later ones.\<close>

theorem progress_log_gapless:
  assumes "reachable (d, M)"
  shows "map p_seq (filter (\<lambda>e. p_task_id e = tid) (progress d)) =
      map int [0..<length (filter (\<lambda>e. p_task_id e = tid) (progress d))]
    \<and> length (filter (\<lambda>e. p_task_id e = tid \<and> p_seq e > int s) (progress d)) =
      length (filter (\<lambda>e. p_task_id e = tid) (progress d)) - Suc s"
proof -
  obtain s0 where s0: "initial s0" "request\<^sup>*\<^sup>* s0 (d, M)"
    using assms by (auto simp: reachable_def)
  have "numbered (fst s0)"
    using s0(1) by (auto simp: initial_def numbered_def seqs_of_def)
  then have "numbered d"
    using run_numbered [OF s0(2)] by simp
  then have sq: "seqs_of d tid = map int [0..<length (seqs_of d tid)]"
    by (simp add: numbered_def)
  let ?es = "filter (\<lambda>e. p_task_id e = tid) (progress d)"
  have late: "length (filter (\<lambda>q. q > int s) (map int [0..<n])) = n - Suc s" for n
    by (induction n) (auto simp: not_less)
  have "length (filter (\<lambda>e. p_task_id e = tid \<and> p_seq e > int s) (progress d)) = length (filter (\<lambda>q. q > int s) (seqs_of d tid))"
    by (simp add: seqs_of_def filter_map comp_def conj_commute)
  also have "\<dots> = length ?es - Suc s"
    by (subst sq) (simp only: late, simp add: seqs_of_def)
  finally show ?thesis
    using sq by (simp add: seqs_of_def)
qed

definition logged_run :: db where
  "logged_run = fst (append_progress (\<lambda>_. None) run2 (worker ''w7'') (secs 3) ''t1''
     \<lparr>pc_event_type = ''info'', pc_phase = None, pc_step = None, pc_summary = ''half way'', pc_payload_json = ''{}'',
      pc_agent_run_id = None, pc_claim_lease_id = ''lease-1''\<rparr>)"

lemma progress_log_gapless_witness:
  "map p_seq (filter (\<lambda>e. p_task_id e = ''t1'') (progress logged_run)) = [0]"
proof -
  obtain s0 where s0: "initial s0" "request\<^sup>*\<^sup>* s0 (run2, {''lease-1'', ''L0''})"
    using run_reachable(1) by (auto simp: reachable_def)
  have fresh: "fresh_id run2 ''i4''"
    by code_simp
  have "request (run2, {''lease-1'', ''L0''}) (logged_run, {''L3'', ''lease-1'', ''L0''})"
    unfolding logged_run_def by (rule Request [OF step.Progress_req _ fresh]) simp
  then have "request\<^sup>*\<^sup>* s0 (logged_run, {''L3'', ''lease-1'', ''L0''})"
    by (rule rtranclp.rtrancl_into_rtrancl [OF s0(2)])
  then have r: "reachable (logged_run, {''L3'', ''lease-1'', ''L0''})"
    unfolding reachable_def using s0(1) by blast
  have len: "length (filter (\<lambda>e. p_task_id e = ''t1'') (progress logged_run)) = 1"
    by code_simp
  show ?thesis
    using progress_log_gapless [OF r, of "''t1''" 0] unfolding len by simp
qed

end
