(* ===== verification/Redaction.thy ===== *)
theory Redaction
  imports Prelude "HOL-Library.Sublist" "HOL-Library.Char_ord"
begin

text \<open>
  crates/edgeplaned-secrets/src/redact.rs: the previews of secrets shown to people and the redactor
  that takes secret values out of a subprocess's output.
\<close>

section \<open>Previews\<close>

text \<open>A bullet is None, a character shown is Some; the marker of an empty secret is a text of its own.\<close>

definition preview :: "str \<Rightarrow> char option list" where
  "preview value =
     (let n = length value in
      if n = 0 then map Some ''(unset)''
      else if n \<le> 7 then replicate n None
      else if n \<le> 11 then replicate (n - 4) None @ map Some (drop (n - 4) value)
      else map Some (take 2 value) @ replicate (n - 6) None @ map Some (drop (n - 4) value))"

lemma preview_shows_little:
  assumes "value \<noteq> []"
  shows "length (preview value) = length value
    \<and> length (filter (\<lambda>c. c \<noteq> None) (preview value)) =
        (if length value \<le> 7 then 0 else if length value \<le> 11 then 4 else 6)"
  using assms by (auto simp: preview_def Let_def filter_map comp_def)

section \<open>The redactor\<close>

text \<open>str::replace: leftmost, non-overlapping.\<close>

function replace_all :: "str \<Rightarrow> str \<Rightarrow> str \<Rightarrow> str" where
  "replace_all pat new [] = []"
| "replace_all pat new (c # cs) =
     (case (if pat = [] then None else strip_prefix pat (c # cs)) of
        Some rest \<Rightarrow> new @ replace_all pat new rest
      | None \<Rightarrow> c # replace_all pat new cs)"
  by pat_completeness auto
termination
proof (relation "measure (\<lambda>(pat, new, s). length s)")
  fix pat new c cs rest
  assume "(if pat = [] then None else strip_prefix pat (c # cs)) = Some rest"
  then have "pat \<noteq> []" "c # cs = pat @ rest"
    by (auto simp: strip_prefix_Some split: if_splits)
  then have "length rest < length (c # cs)"
    by simp
  then show "((pat, new, rest), pat, new, c # cs) \<in> measure (\<lambda>(pat, new, s). length s)"
    by simp
qed auto

definition utf8_len :: "str \<Rightarrow> nat" where
  "utf8_len s = sum_list (map (\<lambda>c. if (of_char c :: nat) < 128 then 1 else 2) s)"

definition REDACTED :: str where
  "REDACTED = ''[REDACTED]''"

text \<open>The values of the map, in whatever order it yields them.\<close>

definition new_redactor :: "str list \<Rightarrow> str list" where
  "new_redactor resolved = sort_key (\<lambda>s. - int (utf8_len s)) (filter (\<lambda>v. v \<noteq> []) resolved)"

definition redact :: "str list \<Rightarrow> str \<Rightarrow> str" where
  "redact secrets text = fold (\<lambda>secret result. replace_all secret REDACTED result) secrets text"

section \<open>Nothing is left\<close>

definition redactable :: "str \<Rightarrow> bool" where
  "redactable s = (s \<noteq> [] \<and> CHR ''['' \<notin> set s \<and> CHR '']'' \<notin> set s \<and> \<not> sublist s ''REDACTED'')"

lemma sublist_split:
  assumes "sublist s (a @ c # b)" "c \<notin> set s"
  shows "sublist s a \<or> sublist s b"
  using assms(1)
proof (induction a)
  case Nil
  then show ?case
    using assms(2) by (auto simp: sublist_Cons_right prefix_Cons)
next
  case (Cons x a)
  then consider "prefix s (x # a @ c # b)" | "sublist s (a @ c # b)"
    by (auto simp: sublist_Cons_right)
  then show ?case
  proof cases
    case 1
    then have "prefix s ((x # a) @ c # b)"
      by simp
    then have "prefix s (x # a)"
      using assms(2) unfolding prefix_append by (auto simp: prefix_Cons)
    then show ?thesis
      by (meson prefix_imp_sublist)
  next
    case 2
    then show ?thesis
      using Cons.IH by (auto simp: sublist_Cons_right)
  qed
qed

lemma sublist_marker:
  assumes "redactable s" "sublist s (REDACTED @ out)"
  shows "sublist s out"
proof -
  have "sublist s ([] @ CHR ''['' # (''REDACTED'' @ CHR '']'' # out))"
    using assms(2) by (simp add: REDACTED_def)
  then have "sublist s (''REDACTED'' @ CHR '']'' # out)"
    using sublist_split [of s "[]" "CHR ''[''" "''REDACTED'' @ CHR '']'' # out"] assms(1)
    by (auto simp: redactable_def)
  then show ?thesis
    using sublist_split [of s "''REDACTED''" "CHR '']''" out] assms(1) by (auto simp: redactable_def)
qed

text \<open>Up to its first marker the output reads like the input.\<close>

lemma prefix_replaced:
  assumes "prefix q (replace_all pat REDACTED t)" "CHR ''['' \<notin> set q"
  shows "prefix q t"
  using assms
proof (induction pat REDACTED t arbitrary: q rule: replace_all.induct)
  case (2 pat c cs)
  show ?case
  proof (cases "if pat = [] then None else strip_prefix pat (c # cs)")
    case None
    then show ?thesis
      using 2(1) [OF None] 2(3,4) None by (cases q) auto
  next
    case (Some rest)
    then show ?thesis
      using 2(3,4) Some by (cases q) (auto simp: REDACTED_def)
  qed
qed simp

lemma replaced_keeps_clean:
  assumes "redactable s" "sublist s (replace_all pat REDACTED t)"
  shows "sublist s t"
  using assms(2)
proof (induction pat REDACTED t rule: replace_all.induct)
  case (1 pat)
  then show ?case by simp
next
  case (2 pat c cs)
  show ?case
  proof (cases "if pat = [] then None else strip_prefix pat (c # cs)")
    case None
    then have out: "replace_all pat REDACTED (c # cs) = c # replace_all pat REDACTED cs"
      by simp
    consider "prefix s (c # replace_all pat REDACTED cs)" | "sublist s (replace_all pat REDACTED cs)"
      using 2(3) unfolding out by (auto simp: sublist_Cons_right)
    then show ?thesis
    proof cases
      case 1
      then have "prefix s (replace_all pat REDACTED (c # cs))"
        by (simp only: out)
      then have "prefix s (c # cs)"
        by (rule prefix_replaced) (use assms(1) in \<open>simp add: redactable_def\<close>)
      then show ?thesis by (rule prefix_imp_sublist)
    next
      case 2
      then show ?thesis
        using "2.hyps"(1) [OF None] by (simp add: sublist_Cons_right)
    qed
  next
    case (Some rest)
    then have "replace_all pat REDACTED (c # cs) = REDACTED @ replace_all pat REDACTED rest"
      and cs: "c # cs = pat @ rest"
      by (auto simp: strip_prefix_Some split: if_splits)
    then have "sublist s rest"
      using 2(2) [OF Some] 2(3) sublist_marker [OF assms(1)] by simp
    then show ?thesis
      unfolding cs sublist_append by simp
  qed
qed

lemma replaced_is_gone:
  assumes "redactable s"
  shows "\<not> sublist s (replace_all s REDACTED t)"
  using assms
proof (induction s REDACTED t rule: replace_all.induct)
  case (1 s)
  then show ?case
    by (simp add: redactable_def)
next
  case (2 s c cs)
  have ne: "s \<noteq> []"
    using 2(3) by (simp add: redactable_def)
  show ?case
  proof (cases "strip_prefix s (c # cs)")
    case None
    then have out: "replace_all s REDACTED (c # cs) = c # replace_all s REDACTED cs"
      by simp
    have "\<not> prefix s (c # replace_all s REDACTED cs)"
    proof
      assume "prefix s (c # replace_all s REDACTED cs)"
      then have "prefix s (replace_all s REDACTED (c # cs))"
        by (simp only: out)
      then have "prefix s (c # cs)"
        by (rule prefix_replaced) (use 2(3) in \<open>simp add: redactable_def\<close>)
      then obtain r where "strip_prefix s (c # cs) = Some r"
        by (auto simp: prefix_def strip_prefix_Some)
      then show False
        using None by simp
    qed
    then show ?thesis
      unfolding out using 2(1) None ne 2(3) by (simp add: sublist_Cons_right)
  next
    case (Some rest)
    then have "replace_all s REDACTED (c # cs) = REDACTED @ replace_all s REDACTED rest"
      using ne by simp
    then show ?thesis
      using 2(2) [of rest] Some ne 2(3) sublist_marker [OF 2(3)] by auto
  qed
qed

lemma redact_keeps_clean: "redactable s \<Longrightarrow> sublist s (redact ps t) \<Longrightarrow> sublist s t"
proof (induction ps arbitrary: t)
  case (Cons p ps)
  then have "sublist s (replace_all p REDACTED t)"
    by (simp add: redact_def)
  then show ?case
    by (rule replaced_keeps_clean [OF Cons.prems(1)])
qed (simp add: redact_def)

lemma redact_clean:
  "s \<in> set secrets \<Longrightarrow> redactable s \<Longrightarrow> \<not> sublist s (redact secrets t)"
proof (induction secrets arbitrary: t)
  case (Cons p ps)
  have out: "redact (p # ps) t = redact ps (replace_all p REDACTED t)"
    by (simp add: redact_def)
  show ?case
  proof (cases "s = p")
    case True
    then show ?thesis
      unfolding out using redact_keeps_clean [OF Cons.prems(2)] replaced_is_gone [OF Cons.prems(2)] by blast
  next
    case False
    then show ?thesis
      unfolding out using Cons by simp
  qed
qed simp

text \<open>C33: redaction leaves no secret behind. Whatever the order of the values and whatever the text, no
  secret that is non-empty, has no bracket and is not a piece of the word REDACTED occurs anywhere in
  the redacted text, neither in what was kept nor across an inserted marker; and a text in which no
  secret occurs is returned as it is.\<close>

theorem redact_removes_secrets:
  "(\<forall>s\<in>set resolved. redactable s \<longrightarrow> \<not> sublist s (redact (new_redactor resolved) text))
   \<and> ((\<forall>s\<in>set resolved. s \<noteq> [] \<longrightarrow> \<not> sublist s text) \<longrightarrow> redact (new_redactor resolved) text = text)"
proof (intro conjI ballI impI)
  fix s
  assume "s \<in> set resolved" "redactable s"
  then show "\<not> sublist s (redact (new_redactor resolved) text)"
    by (intro redact_clean) (auto simp: new_redactor_def redactable_def)
next
  assume none: "\<forall>s\<in>set resolved. s \<noteq> [] \<longrightarrow> \<not> sublist s text"
  have same: "replace_all p REDACTED t = t" if "\<not> sublist p t" for p t
    using that
  proof (induction p REDACTED t rule: replace_all.induct)
    case (2 p c cs)
    have "strip_prefix p (c # cs) = None"
    proof (rule ccontr)
      assume "strip_prefix p (c # cs) \<noteq> None"
      then show False
        using 2(3) by (auto simp: strip_prefix_Some)
    qed
    then show ?case
      using 2(1) 2(3) by (cases p) (simp_all add: sublist_Cons_right)
  qed simp
  have "redact ps text = text" if "\<forall>s\<in>set ps. \<not> sublist s text" for ps
    using that by (induction ps) (auto simp: redact_def same)
  then show "redact (new_redactor resolved) text = text"
    using none by (simp add: new_redactor_def)
qed

lemma redact_removes_secrets_witness:
  "\<not> sublist ''hunter2'' (redact (new_redactor [''hunter2'']) ''pw=hunter2;'')"
proof -
  have "redactable ''hunter2''"
    by code_simp
  then show ?thesis
    using redact_removes_secrets [of "[''hunter2'']" "''pw=hunter2;''"] by simp
qed

end
