(* ===== verification/Seccomp.thy ===== *)
theory Seccomp
  imports Prelude "HOL-Library.Word"
begin

text \<open>
  crates/edgeplaned-sandbox/src/seccomp.rs: the filter a jailed worker runs under. build_filter
  (x86_64) compiles the deny list to a classic BPF program. The machine that runs the program is the
  kernel's; the locale classic_bpf states its documented laws for the three kinds of instruction the
  compiler emits, and what the filter decides is proved for every machine with these laws.
\<close>

section \<open>The syscall table and the deny list\<close>

definition syscalls_low :: "(string \<times> int) list" where
  "syscalls_low = [
   (''read'', 0), (''write'', 1), (''open'', 2), (''close'', 3), (''stat'', 4), (''fstat'', 5),
   (''lstat'', 6), (''poll'', 7), (''lseek'', 8), (''mmap'', 9), (''mprotect'', 10), (''munmap'', 11),
   (''brk'', 12), (''rt_sigaction'', 13), (''rt_sigprocmask'', 14), (''rt_sigreturn'', 15),
   (''ioctl'', 16), (''pread64'', 17), (''pwrite64'', 18), (''readv'', 19), (''writev'', 20),
   (''access'', 21), (''pipe'', 22), (''select'', 23), (''sched_yield'', 24), (''mremap'', 25),
   (''msync'', 26), (''mincore'', 27), (''madvise'', 28), (''shmget'', 29), (''shmat'', 30),
   (''shmctl'', 31), (''dup'', 32), (''dup2'', 33), (''pause'', 34), (''nanosleep'', 35),
   (''getitimer'', 36), (''alarm'', 37), (''setitimer'', 38), (''getpid'', 39), (''sendfile'', 40),
   (''socket'', 41), (''connect'', 42), (''accept'', 43), (''sendto'', 44), (''recvfrom'', 45),
   (''sendmsg'', 46), (''recvmsg'', 47), (''shutdown'', 48), (''bind'', 49), (''listen'', 50),
   (''getsockname'', 51), (''getpeername'', 52), (''socketpair'', 53), (''setsockopt'', 54),
   (''getsockopt'', 55), (''clone'', 56), (''fork'', 57), (''vfork'', 58), (''execve'', 59),
   (''exit'', 60), (''wait4'', 61), (''kill'', 62), (''uname'', 63), (''semget'', 64), (''semop'', 65),
   (''semctl'', 66), (''shmdt'', 67), (''msgget'', 68), (''msgsnd'', 69), (''msgrcv'', 70),
   (''msgctl'', 71), (''fcntl'', 72), (''flock'', 73), (''fsync'', 74), (''fdatasync'', 75),
   (''truncate'', 76), (''ftruncate'', 77), (''getdents'', 78), (''getcwd'', 79), (''chdir'', 80),
   (''fchdir'', 81), (''rename'', 82), (''mkdir'', 83), (''rmdir'', 84), (''creat'', 85), (''link'', 86),
   (''unlink'', 87), (''symlink'', 88), (''readlink'', 89), (''chmod'', 90), (''fchmod'', 91),
   (''chown'', 92), (''fchown'', 93), (''lchown'', 94), (''umask'', 95), (''gettimeofday'', 96),
   (''getrlimit'', 97), (''getrusage'', 98), (''sysinfo'', 99), (''times'', 100), (''ptrace'', 101),
   (''getuid'', 102), (''syslog'', 103), (''getgid'', 104), (''setuid'', 105), (''setgid'', 106),
   (''geteuid'', 107), (''getegid'', 108), (''setpgid'', 109), (''getppid'', 110), (''getpgrp'', 111),
   (''setsid'', 112), (''setreuid'', 113), (''setregid'', 114), (''getgroups'', 115), (''setgroups'', 116),
   (''setresuid'', 117), (''getresuid'', 118), (''setresgid'', 119), (''getresgid'', 120),
   (''getpgid'', 121), (''setfsuid'', 122), (''setfsgid'', 123), (''getsid'', 124)]"

definition syscalls_mid :: "(string \<times> int) list" where
  "syscalls_mid = [
   (''capget'', 125), (''capset'', 126), (''rt_sigpending'', 127), (''rt_sigtimedwait'', 128),
   (''rt_sigqueueinfo'', 129), (''rt_sigsuspend'', 130), (''sigaltstack'', 131), (''utime'', 132),
   (''mknod'', 133), (''uselib'', 134), (''personality'', 135), (''ustat'', 136), (''statfs'', 137),
   (''fstatfs'', 138), (''sysfs'', 139), (''getpriority'', 140), (''setpriority'', 141),
   (''sched_setparam'', 142), (''sched_getparam'', 143), (''sched_setscheduler'', 144),
   (''sched_getscheduler'', 145), (''sched_get_priority_max'', 146), (''sched_get_priority_min'', 147),
   (''sched_rr_get_interval'', 148), (''mlock'', 149), (''munlock'', 150), (''mlockall'', 151),
   (''munlockall'', 152), (''vhangup'', 153), (''modify_ldt'', 154), (''pivot_root'', 155),
   (''_sysctl'', 156), (''prctl'', 157), (''arch_prctl'', 158), (''adjtimex'', 159), (''setrlimit'', 160),
   (''chroot'', 161), (''sync'', 162), (''acct'', 163), (''settimeofday'', 164), (''mount'', 165),
   (''umount2'', 166), (''swapon'', 167), (''swapoff'', 168), (''reboot'', 169), (''sethostname'', 170),
   (''setdomainname'', 171), (''iopl'', 172), (''ioperm'', 173), (''create_module'', 174),
   (''init_module'', 175), (''delete_module'', 176), (''get_kernel_syms'', 177), (''query_module'', 178),
   (''quotactl'', 179), (''nfsservctl'', 180), (''getpmsg'', 181), (''putpmsg'', 182),
   (''afs_syscall'', 183), (''tuxcall'', 184), (''security'', 185), (''gettid'', 186),
   (''readahead'', 187), (''setxattr'', 188), (''lsetxattr'', 189), (''fsetxattr'', 190),
   (''getxattr'', 191), (''lgetxattr'', 192), (''fgetxattr'', 193), (''listxattr'', 194),
   (''llistxattr'', 195), (''flistxattr'', 196), (''removexattr'', 197), (''lremovexattr'', 198),
   (''fremovexattr'', 199), (''tkill'', 200), (''time'', 201), (''futex'', 202),
   (''sched_setaffinity'', 203), (''sched_getaffinity'', 204), (''set_thread_area'', 205),
   (''io_setup'', 206), (''io_destroy'', 207), (''io_getevents'', 208), (''io_submit'', 209),
   (''io_cancel'', 210), (''get_thread_area'', 211), (''lookup_dcookie'', 212), (''epoll_create'', 213),
   (''epoll_ctl_old'', 214), (''epoll_wait_old'', 215), (''remap_file_pages'', 216), (''getdents64'', 217),
   (''set_tid_address'', 218), (''restart_syscall'', 219), (''semtimedop'', 220), (''fadvise64'', 221),
   (''timer_create'', 222), (''timer_settime'', 223), (''timer_gettime'', 224),
   (''timer_getoverrun'', 225), (''timer_delete'', 226), (''clock_settime'', 227),
   (''clock_gettime'', 228), (''clock_getres'', 229), (''clock_nanosleep'', 230), (''exit_group'', 231),
   (''epoll_wait'', 232), (''epoll_ctl'', 233), (''tgkill'', 234), (''utimes'', 235), (''vserver'', 236),
   (''mbind'', 237), (''set_mempolicy'', 238), (''get_mempolicy'', 239), (''mq_open'', 240),
   (''mq_unlink'', 241), (''mq_timedsend'', 242), (''mq_timedreceive'', 243), (''mq_notify'', 244),
   (''mq_getsetattr'', 245), (''kexec_load'', 246), (''waitid'', 247), (''add_key'', 248),
   (''request_key'', 249)]"

definition syscalls_high :: "(string \<times> int) list" where
  "syscalls_high = [
   (''keyctl'', 250), (''ioprio_set'', 251), (''ioprio_get'', 252), (''inotify_init'', 253),
   (''inotify_add_watch'', 254), (''inotify_rm_watch'', 255), (''migrate_pages'', 256), (''openat'', 257),
   (''mkdirat'', 258), (''mknodat'', 259), (''fchownat'', 260), (''futimesat'', 261),
   (''newfstatat'', 262), (''unlinkat'', 263), (''renameat'', 264), (''linkat'', 265),
   (''symlinkat'', 266), (''readlinkat'', 267), (''fchmodat'', 268), (''faccessat'', 269),
   (''pselect6'', 270), (''ppoll'', 271), (''unshare'', 272), (''set_robust_list'', 273),
   (''get_robust_list'', 274), (''splice'', 275), (''tee'', 276), (''sync_file_range'', 277),
   (''vmsplice'', 278), (''move_pages'', 279), (''utimensat'', 280), (''epoll_pwait'', 281),
   (''signalfd'', 282), (''timerfd_create'', 283), (''eventfd'', 284), (''fallocate'', 285),
   (''timerfd_settime'', 286), (''timerfd_gettime'', 287), (''accept4'', 288), (''signalfd4'', 289),
   (''eventfd2'', 290), (''epoll_create1'', 291), (''dup3'', 292), (''pipe2'', 293),
   (''inotify_init1'', 294), (''preadv'', 295), (''pwritev'', 296), (''rt_tgsigqueueinfo'', 297),
   (''perf_event_open'', 298), (''recvmmsg'', 299), (''fanotify_init'', 300), (''fanotify_mark'', 301),
   (''prlimit64'', 302), (''name_to_handle_at'', 303), (''open_by_handle_at'', 304),
   (''clock_adjtime'', 305), (''syncfs'', 306), (''sendmmsg'', 307), (''setns'', 308), (''getcpu'', 309),
   (''process_vm_readv'', 310), (''process_vm_writev'', 311), (''kcmp'', 312), (''finit_module'', 313),
   (''sched_setattr'', 314), (''sched_getattr'', 315), (''renameat2'', 316), (''seccomp'', 317),
   (''getrandom'', 318), (''memfd_create'', 319), (''kexec_file_load'', 320), (''bpf'', 321),
   (''execveat'', 322), (''userfaultfd'', 323), (''membarrier'', 324), (''mlock2'', 325),
   (''copy_file_range'', 326), (''preadv2'', 327), (''pwritev2'', 328), (''pkey_mprotect'', 329),
   (''pkey_alloc'', 330), (''pkey_free'', 331), (''statx'', 332), (''io_pgetevents'', 333),
   (''rseq'', 334), (''pidfd_send_signal'', 424), (''io_uring_setup'', 425), (''io_uring_enter'', 426),
   (''io_uring_register'', 427), (''open_tree'', 428), (''move_mount'', 429), (''fsopen'', 430),
   (''fsconfig'', 431), (''fsmount'', 432), (''fspick'', 433), (''pidfd_open'', 434), (''clone3'', 435),
   (''close_range'', 436), (''openat2'', 437), (''pidfd_getfd'', 438), (''faccessat2'', 439),
   (''process_madvise'', 440), (''epoll_pwait2'', 441), (''mount_setattr'', 442), (''quotactl_fd'', 443),
   (''landlock_create_ruleset'', 444), (''landlock_add_rule'', 445), (''landlock_restrict_self'', 446),
   (''memfd_secret'', 447), (''process_mrelease'', 448), (''futex_waitv'', 449),
   (''set_mempolicy_home_node'', 450)]"

definition BASELINE_DENY :: "string list" where
  "BASELINE_DENY = [
   ''kexec_load'', ''kexec_file_load'', ''reboot'', ''syslog'', ''setuid'', ''setgid'', ''setresuid'',
   ''setresgid'', ''setfsuid'', ''setfsgid'', ''capset'', ''prctl'', ''unshare'', ''ptrace'',
   ''process_vm_readv'', ''process_vm_writev'', ''bpf'', ''mount'', ''umount2'', ''pivot_root'',
   ''chroot'', ''init_module'', ''finit_module'', ''delete_module'', ''mknod'', ''mknodat'', ''add_key'',
   ''request_key'', ''keyctl'', ''perf_event_open'', ''lookup_dcookie'', ''quotactl'', ''settimeofday'',
   ''adjtimex'', ''clock_settime'', ''clock_adjtime'', ''msgget'', ''msgsnd'', ''msgrcv'', ''msgctl'',
   ''semget'', ''semop'', ''semctl'', ''shmget'', ''shmat'', ''shmdt'', ''shmctl'', ''set_mempolicy'',
   ''migrate_pages'', ''move_pages'', ''io_uring_setup'', ''io_uring_enter'', ''io_uring_register'']"

definition syscall_nr :: "string \<Rightarrow> int option" where
  "syscall_nr name = map_option snd (find (\<lambda>(n, _). n = name) (syscalls_low @ syscalls_mid @ syscalls_high))"

section \<open>The compiler\<close>

record sock_filter =
  sf_code :: "16 word"
  sf_jt :: "8 word"
  sf_jf :: "8 word"
  sf_k :: "32 word"

definition bpf_stmt :: "16 word \<Rightarrow> 32 word \<Rightarrow> sock_filter" where
  "bpf_stmt c v = \<lparr>sf_code = c, sf_jt = 0, sf_jf = 0, sf_k = v\<rparr>"

definition bpf_jump :: "16 word \<Rightarrow> 32 word \<Rightarrow> 8 word \<Rightarrow> 8 word \<Rightarrow> sock_filter" where
  "bpf_jump c v t f = \<lparr>sf_code = c, sf_jt = t, sf_jf = f, sf_k = v\<rparr>"

text \<open>BPF_LD | BPF_W | BPF_ABS, BPF_JMP | BPF_JEQ | BPF_K and BPF_RET | BPF_K.\<close>

definition LD_W_ABS :: "16 word" where "LD_W_ABS = 0x20"
definition JEQ_K :: "16 word" where "JEQ_K = 0x15"
definition RET_K :: "16 word" where "RET_K = 0x06"

definition SECCOMP_RET_ALLOW :: "32 word" where "SECCOMP_RET_ALLOW = 0x7fff0000"
definition SECCOMP_RET_ENOSYS :: "32 word" where "SECCOMP_RET_ENOSYS = 0x00050026"
definition AUDIT_ARCH_X86_64 :: "32 word" where "AUDIT_ARCH_X86_64 = 0xc000003e"

definition denied_list :: "string list \<Rightarrow> int list" where
  "denied_list extra_deny = sort (remdups (List.map_filter syscall_nr (BASELINE_DENY @ extra_deny)))"

definition deny_insns :: "int \<Rightarrow> sock_filter list" where
  "deny_insns nr =
     (if nr < 0 \<or> nr > 2 ^ 31 - 1 then []
      else [bpf_jump JEQ_K (word_of_int nr) 0 1, bpf_stmt RET_K SECCOMP_RET_ENOSYS])"

definition build_filter :: "string list \<Rightarrow> sock_filter list" where
  "build_filter extra_deny =
     [bpf_stmt LD_W_ABS 4, bpf_jump JEQ_K AUDIT_ARCH_X86_64 1 0, bpf_stmt RET_K 0, bpf_stmt LD_W_ABS 0]
     @ concat (map deny_insns (denied_list extra_deny)) @ [bpf_stmt RET_K SECCOMP_RET_ALLOW]"

text \<open>install_filter hands the kernel the length as a u16.\<close>

definition sock_fprog_len :: "sock_filter list \<Rightarrow> 16 word" where
  "sock_fprog_len bpf = word_of_nat (length bpf)"

section \<open>The kernel's machine\<close>

text \<open>A machine runs the rest of a program on the seccomp data (a word per offset) with an accumulator;
  jumps are relative to the next instruction.\<close>

locale classic_bpf =
  fixes run :: "sock_filter list \<Rightarrow> (32 word \<Rightarrow> 32 word) \<Rightarrow> 32 word \<Rightarrow> 32 word option"
  assumes run_load: "run (bpf_stmt LD_W_ABS v # p) data a = run p data (data v)"
    and run_jeq: "run (bpf_jump JEQ_K v t f # p) data a = run (drop (unat (if a = v then t else f)) p) data a"
    and run_ret: "run (bpf_stmt RET_K v # p) data a = Some v"
begin

lemma run_deny:
  "run (deny_insns nr @ p) data a =
     (if 0 \<le> nr \<and> nr \<le> 2 ^ 31 - 1 \<and> a = word_of_int nr then Some SECCOMP_RET_ENOSYS else run p data a)"
  by (auto simp: deny_insns_def run_jeq run_ret)

lemma run_denials:
  "run (concat (map deny_insns nrs) @ p) data a =
     (if \<exists>nr\<in>set nrs. 0 \<le> nr \<and> nr \<le> 2 ^ 31 - 1 \<and> a = word_of_int nr then Some SECCOMP_RET_ENOSYS
      else run p data a)"
  by (induction nrs) (auto simp: run_deny)

lemma run_filter:
  "run (build_filter extra) data a =
     (if data 4 \<noteq> AUDIT_ARCH_X86_64 then Some 0
      else if \<exists>nr\<in>set (denied_list extra). 0 \<le> nr \<and> nr \<le> 2 ^ 31 - 1 \<and> data 0 = word_of_int nr
      then Some SECCOMP_RET_ENOSYS else Some SECCOMP_RET_ALLOW)"
  unfolding build_filter_def by (auto simp: run_load run_jeq run_ret run_denials)

end

text \<open>A machine with these laws.\<close>

fun bpf_run :: "sock_filter list \<Rightarrow> (32 word \<Rightarrow> 32 word) \<Rightarrow> 32 word \<Rightarrow> 32 word option" where
  "bpf_run [] data a = None"
| "bpf_run (i # p) data a =
     (if sf_code i = LD_W_ABS then bpf_run p data (data (sf_k i))
      else if sf_code i = JEQ_K then bpf_run (drop (unat (if a = sf_k i then sf_jt i else sf_jf i)) p) data a
      else if sf_code i = RET_K then Some (sf_k i) else None)"

interpretation cbpf: classic_bpf bpf_run
  by unfold_locales (simp_all add: bpf_stmt_def bpf_jump_def LD_W_ABS_def JEQ_K_def RET_K_def)

section \<open>The table\<close>

abbreviation syscall_table :: "(string \<times> int) list" where
  "syscall_table \<equiv> syscalls_low @ syscalls_mid @ syscalls_high"

lemma table_range: "list_all (\<lambda>(n, i). 0 \<le> i \<and> i \<le> 450) syscall_table"
  by code_simp

lemma table_length: "length syscall_table = 362"
  by code_simp

lemma syscall_nr_in: "syscall_nr name = Some nr \<Longrightarrow> (name, nr) \<in> set syscall_table"
  by (auto simp: syscall_nr_def dest: find_SomeD)

lemma syscall_nr_range: "syscall_nr name = Some nr \<Longrightarrow> 0 \<le> nr \<and> nr \<le> 450"
  using syscall_nr_in table_range unfolding list_all_iff by blast

lemma denied_list_set:
  "nr \<in> set (denied_list extra) \<longleftrightarrow> (\<exists>name\<in>set BASELINE_DENY \<union> set extra. syscall_nr name = Some nr)"
  by (auto simp: denied_list_def List.map_filter_def image_iff)

lemma denied_list_length: "length (denied_list extra) \<le> 362"
proof -
  have "set (denied_list extra) \<subseteq> snd ` set syscall_table"
    using syscall_nr_in by (force simp: denied_list_set)
  then have "card (set (denied_list extra)) \<le> card (snd ` set syscall_table)"
    by (intro card_mono) auto
  also have "\<dots> \<le> 362"
    using table_length card_length [of "map snd syscall_table"] by (simp add: image_Un)
  finally show ?thesis
    by (simp add: denied_list_def length_remdups_card_conv)
qed

lemma filter_length: "length (build_filter extra) \<le> 729"
proof -
  have "length (concat (map deny_insns nrs)) \<le> 2 * length nrs" for nrs
    by (induction nrs) (auto simp: deny_insns_def)
  from this [of "denied_list extra"] show ?thesis
    using denied_list_length [of extra] by (simp add: build_filter_def)
qed

section \<open>What the filter decides\<close>

text \<open>C34: the compiled filter is the policy. On every machine with the laws of classic BPF, for every
  list of extra denials, the filter kills a caller of another architecture, answers ENOSYS to exactly
  the syscalls named in the baseline or the extra list (names the table does not know are ignored)
  and allows everything else, in particular every syscall number with the x32 bit (2^30) set. Its
  length always fits the u16 the kernel is given, and the kernel's limit of 4096 instructions.\<close>

theorem seccomp_filter_is_policy:
  assumes "classic_bpf run"
  shows "run (build_filter extra) data a =
      Some (if data 4 \<noteq> AUDIT_ARCH_X86_64 then 0
        else if \<exists>name\<in>set BASELINE_DENY \<union> set extra. \<exists>nr. syscall_nr name = Some nr \<and> data 0 = word_of_int nr
        then SECCOMP_RET_ENOSYS else SECCOMP_RET_ALLOW)
    \<and> (data 4 = AUDIT_ARCH_X86_64 \<and> 2 ^ 30 \<le> uint (data 0) \<longrightarrow>
         run (build_filter extra) data a = Some SECCOMP_RET_ALLOW)
    \<and> unat (sock_fprog_len (build_filter extra)) = length (build_filter extra)
    \<and> length (build_filter extra) \<le> 4096"
proof -
  have deny: "(\<exists>nr\<in>set (denied_list extra). 0 \<le> nr \<and> nr \<le> 2 ^ 31 - 1 \<and> data 0 = word_of_int nr) \<longleftrightarrow>
      (\<exists>name\<in>set BASELINE_DENY \<union> set extra. \<exists>nr. syscall_nr name = Some nr \<and> data 0 = word_of_int nr)"
    using syscall_nr_range by (fastforce simp: denied_list_set)
  have low: "\<not> 2 ^ 30 \<le> uint (data 0)" if "syscall_nr name = Some nr" "data 0 = word_of_int nr" for name nr
    using syscall_nr_range [OF that(1)] that(2) by (simp add: uint_word_of_int take_bit_int_eq_self)
  have run: "run (build_filter extra) data a =
      (if data 4 \<noteq> AUDIT_ARCH_X86_64 then Some 0
       else if \<exists>name\<in>set BASELINE_DENY \<union> set extra. \<exists>nr. syscall_nr name = Some nr \<and> data 0 = word_of_int nr
       then Some SECCOMP_RET_ENOSYS else Some SECCOMP_RET_ALLOW)"
    unfolding classic_bpf.run_filter [OF assms] deny ..
  have len: "unat (sock_fprog_len (build_filter extra)) = length (build_filter extra)"
    using filter_length [of extra] by (simp add: sock_fprog_len_def unat_of_nat)
  show ?thesis
    using run low len filter_length [of extra] by auto
qed

lemma seccomp_filter_is_policy_witness:
  "bpf_run (build_filter []) (\<lambda>i. if i = 4 then AUDIT_ARCH_X86_64 else 101) 0 = Some SECCOMP_RET_ENOSYS"
proof -
  have "''ptrace'' \<in> set BASELINE_DENY" "syscall_nr ''ptrace'' = Some 101"
    by code_simp+
  then show ?thesis
    using seccomp_filter_is_policy [OF cbpf.classic_bpf_axioms, of "[]" "\<lambda>i. if i = 4 then AUDIT_ARCH_X86_64 else 101" 0]
    by (auto split: if_splits)
qed

end
