(* ===== verification/Secrets.thy ===== *)
theory Secrets
  imports Prelude "HOL-Library.Char_ord" "HOL-Library.List_Lexorder"
begin

text \<open>
  crates/edgeplaned-secrets: secret references and their textual form, the credential sources of a
  capability manifest, the backend registry and the resolver, the token cache, the session store of
  the secrets broker with its gateway, and the redactor of output. The process environment and the
  pluggable backends are parameters; a BTreeMap is a list sorted by key, a HashMap a partial map.
\<close>

section \<open>Splitting strings\<close>

fun split_once :: "char \<Rightarrow> str \<Rightarrow> (str \<times> str) option" where
  "split_once d [] = None"
| "split_once d (c # cs) =
     (if c = d then Some ([], cs) else map_option (\<lambda>(a, b). (c # a, b)) (split_once d cs))"

definition rsplit_once :: "char \<Rightarrow> str \<Rightarrow> (str \<times> str) option" where
  "rsplit_once d s = map_option (\<lambda>(b, a). (rev a, rev b)) (split_once d (rev s))"

definition trim_matches :: "char \<Rightarrow> str \<Rightarrow> str" where
  "trim_matches d s = rev (dropWhile ((=) d) (rev (dropWhile ((=) d) s)))"

lemma split_once_Some: "split_once d s = Some (a, b) \<longleftrightarrow> s = a @ d # b \<and> d \<notin> set a"
proof (induction s arbitrary: a)
  case (Cons c cs)
  show ?case
    by (cases a) (auto simp: Cons.IH split: prod.splits)
qed simp

lemma split_once_None: "split_once d s = None \<longleftrightarrow> d \<notin> set s"
  by (induction s) auto

lemma split_once_append [simp]: "d \<notin> set a \<Longrightarrow> split_once d (a @ d # b) = Some (a, b)"
  by (simp add: split_once_Some)

lemma rsplit_once_append: "d \<notin> set b \<Longrightarrow> rsplit_once d (a @ d # b) = Some (a, b)"
  by (simp add: rsplit_once_def split_once_append [of d "rev b" "rev a", simplified])

lemma rsplit_once_None: "rsplit_once d s = None \<longleftrightarrow> d \<notin> set s"
  by (simp add: rsplit_once_def split_once_None)

section \<open>Secret references\<close>

type_synonym btree = "(str \<times> str) list"

fun bt_insert :: "str \<Rightarrow> 'v \<Rightarrow> (str \<times> 'v) list \<Rightarrow> (str \<times> 'v) list" where
  "bt_insert k v [] = [(k, v)]"
| "bt_insert k v ((k', v') # m) =
     (if k < k' then (k, v) # (k', v') # m else if k = k' then (k, v) # m else (k', v') # bt_insert k v m)"

record secret_ref =
  sr_scheme :: str
  sr_path :: str
  sr_query :: btree

datatype secrets_error =
    Http str | Json str | Keyring str | TokenMissing | EnvVarMissing str | SecretNotFound str
  | InvalidRef str | Backend str | Auth str | Config str

definition query_pair :: "str \<Rightarrow> str \<times> str" where
  "query_pair pair = (case split_once (CHR ''='') pair of Some kv \<Rightarrow> kv | None \<Rightarrow> (pair, []))"

definition parse_query :: "str option \<Rightarrow> btree" where
  "parse_query q = (case q of None \<Rightarrow> []
     | Some s \<Rightarrow> fold (\<lambda>pair m. case query_pair pair of (k, v) \<Rightarrow> bt_insert k v m)
         (filter (\<lambda>p. p \<noteq> []) (split_on (CHR ''&'') s)) [])"

definition parse_ref :: "str \<Rightarrow> secrets_error + secret_ref" where
  "parse_ref input =
     (case strip_prefix ''secret://'' input of
        None \<Rightarrow> Inl (InvalidRef (''missing `secret://` prefix: '' @ input))
      | Some rest \<Rightarrow>
          let (locator, query_str) =
            (case split_once (CHR ''?'') rest of Some (l, q) \<Rightarrow> (l, Some q) | None \<Rightarrow> (rest, None)) in
          (case split_once (CHR ''/'') locator of
             None \<Rightarrow> Inl (InvalidRef (''missing scheme/path separator: '' @ input))
           | Some (scheme, path) \<Rightarrow>
               if scheme = [] \<or> path = [] then Inl (InvalidRef (''empty scheme or path: '' @ input))
               else Inr \<lparr>sr_scheme = scheme, sr_path = path, sr_query = parse_query query_str\<rparr>))"

definition show_ref :: "secret_ref \<Rightarrow> str" where
  "show_ref r = ''secret://'' @ sr_scheme r @ ''/'' @ sr_path r @
     (if sr_query r = [] then []
      else ''?'' @ join_with (CHR ''&'') (map (\<lambda>(k, v). k @ ''='' @ v) (sr_query r)))"

text \<open>What a reference must be for its text to be read back.\<close>

definition ref_ok :: "secret_ref \<Rightarrow> bool" where
  "ref_ok r = (sr_scheme r \<noteq> [] \<and> CHR ''/'' \<notin> set (sr_scheme r) \<and> CHR ''?'' \<notin> set (sr_scheme r) \<and>
     sr_path r \<noteq> [] \<and> CHR ''?'' \<notin> set (sr_path r) \<and> sorted_wrt (<) (map fst (sr_query r)) \<and>
     (\<forall>(k, v)\<in>set (sr_query r). CHR ''='' \<notin> set k \<and> CHR ''&'' \<notin> set k \<and> CHR ''&'' \<notin> set v))"

lemma bt_insert_keys: "fst ` set (bt_insert k v m) = insert k (fst ` set m)"
  by (induction k v m rule: bt_insert.induct) auto

lemma bt_insert_sorted:
  "sorted_wrt (<) (map fst m) \<Longrightarrow> sorted_wrt (<) (map fst (bt_insert k v m))"
proof (induction k v m rule: bt_insert.induct)
  case (2 k v k' v' m)
  then show ?case
    using bt_insert_keys [of k v m] by (fastforce simp: image_iff)
qed simp

lemma bt_insert_set: "set (bt_insert k v m) \<subseteq> insert (k, v) (set m)"
  by (induction k v m rule: bt_insert.induct) auto

lemma bt_insert_last:
  "\<forall>x\<in>set m. fst x < k \<Longrightarrow> bt_insert k v m = m @ [(k, v)]"
  by (induction k v m rule: bt_insert.induct) auto

lemma fold_insert_sorted:
  "sorted_wrt (<) (map fst (m @ q)) \<Longrightarrow> fold (\<lambda>(k, v) m. bt_insert k v m) q m = m @ q"
proof (induction q arbitrary: m)
  case (Cons x q)
  obtain k v where x: "x = (k, v)" by (cases x)
  have "bt_insert k v m = m @ [(k, v)]"
    using Cons.prems by (intro bt_insert_last) (auto simp: x sorted_wrt_append)
  then show ?case
    using Cons.IH [of "m @ [(k, v)]"] Cons.prems by (simp add: x)
qed simp

lemma query_pair_show: "CHR ''='' \<notin> set k \<Longrightarrow> query_pair (k @ CHR ''='' # v) = (k, v)"
  by (simp add: query_pair_def)

lemma parse_show_query:
  assumes "q \<noteq> []" "sorted_wrt (<) (map fst q)"
    and "\<forall>(k, v)\<in>set q. CHR ''='' \<notin> set k \<and> CHR ''&'' \<notin> set k \<and> CHR ''&'' \<notin> set v"
  shows "parse_query (Some (join_with (CHR ''&'') (map (\<lambda>(k, v). k @ ''='' @ v) q))) = q"
proof -
  let ?ps = "map (\<lambda>(k, v). k @ ''='' @ v) q"
  have split: "split_on (CHR ''&'') (join_with (CHR ''&'') ?ps) = ?ps"
    using assms(1,3) by (intro split_join) auto
  have full: "filter (\<lambda>p. p \<noteq> []) ?ps = ?ps"
    by (auto simp: filter_id_conv)
  have "fold (\<lambda>pair m. case query_pair pair of (k, v) \<Rightarrow> bt_insert k v m) ?ps m =
      fold (\<lambda>(k, v) m. bt_insert k v m) q m" for m
    using assms(3) by (induction q arbitrary: m) (auto simp: query_pair_show)
  then show ?thesis
    unfolding parse_query_def option.case split full using fold_insert_sorted [of "[]" q] assms(2) by simp
qed

lemma parse_show: "ref_ok r \<Longrightarrow> parse_ref (show_ref r) = Inr r"
proof -
  assume ok: "ref_ok r"
  let ?loc = "sr_scheme r @ ''/'' @ sr_path r"
  let ?q = "join_with (CHR ''&'') (map (\<lambda>(k, v). k @ ''='' @ v) (sr_query r))"
  have loc: "CHR ''?'' \<notin> set ?loc"
    using ok by (auto simp: ref_ok_def)
  have sp: "split_once (CHR ''/'') ?loc = Some (sr_scheme r, sr_path r)"
    using ok by (simp add: ref_ok_def)
  have pre: "strip_prefix ''secret://'' (show_ref r) = Some (?loc @ (if sr_query r = [] then [] else ''?'' @ ?q))"
    unfolding show_ref_def strip_prefix_Some by simp
  have cut: "split_once (CHR ''?'') (?loc @ (if sr_query r = [] then [] else ''?'' @ ?q)) =
      (if sr_query r = [] then None else Some (?loc, ?q))"
    using loc split_once_append [OF loc, of ?q] by (simp add: split_once_None)
  have q: "parse_query (if sr_query r = [] then None else Some ?q) = sr_query r"
    using ok parse_show_query [of "sr_query r"] by (auto simp: ref_ok_def parse_query_def)
  show ?thesis
    using ok sp q unfolding parse_ref_def pre option.case Let_def cut
    by (auto simp: ref_ok_def)
qed

lemma parse_query_ok:
  "sorted_wrt (<) (map fst (parse_query q)) \<and>
   (\<forall>(k, v)\<in>set (parse_query q). CHR ''='' \<notin> set k \<and> CHR ''&'' \<notin> set k \<and> CHR ''&'' \<notin> set v)"
proof -
  let ?good = "\<lambda>(k, v). CHR ''='' \<notin> set k \<and> CHR ''&'' \<notin> set k \<and> CHR ''&'' \<notin> set v"
  have pair: "?good (query_pair p)" if "CHR ''&'' \<notin> set p" for p
    using that by (auto simp: query_pair_def split_once_None split_once_Some split: option.splits prod.splits)
  have "sorted_wrt (<) (map fst (fold (\<lambda>pair m. case query_pair pair of (k, v) \<Rightarrow> bt_insert k v m) ps m)) \<and>
      (\<forall>x\<in>set (fold (\<lambda>pair m. case query_pair pair of (k, v) \<Rightarrow> bt_insert k v m) ps m). ?good x)"
    if "\<forall>p\<in>set ps. CHR ''&'' \<notin> set p" "sorted_wrt (<) (map fst m)" "\<forall>x\<in>set m. ?good x" for ps m
    using that
  proof (induction ps arbitrary: m)
    case (Cons p ps)
    obtain k v where kv: "query_pair p = (k, v)" by (cases "query_pair p")
    have "\<forall>x\<in>set (bt_insert k v m). ?good x"
      using bt_insert_set [of k v m] Cons.prems pair [of p] kv by auto
    then show ?case
      using Cons.IH [of "bt_insert k v m"] Cons.prems bt_insert_sorted [of m k v] by (simp add: kv)
  qed simp
  from this [of "filter (\<lambda>p. p \<noteq> []) (split_on (CHR ''&'') s)" "[]" for s] show ?thesis
    by (cases q) (auto simp: parse_query_def dest: split_on_no_sep)
qed

lemma parse_query_mem:
  "(k, v) \<in> set (parse_query q) \<Longrightarrow> CHR ''='' \<notin> set k \<and> CHR ''&'' \<notin> set k \<and> CHR ''&'' \<notin> set v"
  using parse_query_ok [of q] by blast

lemma parse_ok: "parse_ref s = Inr r \<Longrightarrow> ref_ok r"
  by (auto simp: parse_ref_def ref_ok_def split_once_Some split_once_None Let_def parse_query_ok
      split: option.splits prod.splits if_splits dest: parse_query_mem)

text \<open>C32: secret references round-trip. What parse accepts is well formed, and printing a well-formed
  reference and parsing the text gives it back, whatever the query values contain besides the
  separators; so printing and parsing again is the identity on everything that was parsed.\<close>

theorem secret_ref_roundtrip:
  "(\<forall>s r. parse_ref s = Inr r \<longrightarrow> ref_ok r \<and> parse_ref (show_ref r) = Inr r)
   \<and> (\<forall>r. ref_ok r \<longrightarrow> parse_ref (show_ref r) = Inr r)"
  using parse_show parse_ok by blast

lemma secret_ref_roundtrip_witness:
  "parse_ref (show_ref \<lparr>sr_scheme = ''infisical'', sr_path = ''a/KEY'', sr_query = [(''env'', ''a=b'')]\<rparr>) =
     Inr \<lparr>sr_scheme = ''infisical'', sr_path = ''a/KEY'', sr_query = [(''env'', ''a=b'')]\<rparr>"
proof -
  have "ref_ok \<lparr>sr_scheme = ''infisical'', sr_path = ''a/KEY'', sr_query = [(''env'', ''a=b'')]\<rparr>"
    by (simp add: ref_ok_def)
  then show ?thesis
    using secret_ref_roundtrip by blast
qed

section \<open>Credentials\<close>

datatype credential_kind =
    Literal str
  | EnvVar str
  | SecRef str
  | Infisical str "str option" str str

record credential_source =
  inject_as :: str
  cred_source :: credential_kind

definition contains_any :: "str \<Rightarrow> str \<Rightarrow> bool" where
  "contains_any haystack forbidden = list_ex (\<lambda>c. c \<in> set forbidden) haystack"

text \<open>Infisical carries the secret name, the project id, the environment and the secret path.\<close>

definition as_secret_ref :: "credential_kind \<Rightarrow> str option" where
  "as_secret_ref kind =
     (case kind of
        SecRef r \<Rightarrow> Some r
      | Infisical secret_name project_id environment secret_path \<Rightarrow>
          if contains_any secret_name ''/?#&'' \<or> contains_any environment ''?#&'' \<or>
             contains_any secret_path ''?#&'' \<or>
             (case project_id of Some p \<Rightarrow> contains_any p ''?#&'' | None \<Rightarrow> False)
          then None
          else
            let dir = trim_matches (CHR ''/'') secret_path;
                path = (if dir = [] then secret_name else dir @ ''/'' @ secret_name);
                query = ''env='' @ environment @
                  (case project_id of Some p \<Rightarrow> if p = [] then [] else ''&project='' @ p | None \<Rightarrow> []) in
            Some (''secret://infisical/'' @ path @ ''?'' @ query)
      | _ \<Rightarrow> None)"

text \<open>InfisicalBackend: from a reference to the arguments of the HTTP client.\<close>

record fetch_args =
  fa_secret_name :: str
  fa_secret_path :: str
  fa_environment :: str
  fa_project_id :: "str option"

definition map_ref :: "secret_ref \<Rightarrow> str \<Rightarrow> str option \<Rightarrow> fetch_args" where
  "map_ref r default_env default_project =
     (let (secret_path, secret_name) = (case rsplit_once (CHR ''/'') (sr_path r) of
            Some (dir, name) \<Rightarrow> (''/'' @ dir, name) | None \<Rightarrow> (''/'', sr_path r)) in
      \<lparr>fa_secret_name = secret_name, fa_secret_path = secret_path,
       fa_environment = (case map_of (sr_query r) ''env'' of Some e \<Rightarrow> e | None \<Rightarrow> default_env),
       fa_project_id = (case map_of (sr_query r) ''project'' of Some p \<Rightarrow> Some p | None \<Rightarrow> default_project)\<rparr>)"

lemma contains_any_iff: "contains_any h f \<longleftrightarrow> set h \<inter> set f \<noteq> {}"
  by (auto simp: contains_any_def list_ex_iff)

lemma set_dropWhile: "x \<in> set (dropWhile P xs) \<Longrightarrow> x \<in> set xs"
  by (auto dest: set_dropWhileD)

lemma set_trim_matches: "set (trim_matches d s) \<subseteq> set s"
  unfolding trim_matches_def by (auto dest!: set_dropWhileD)

lemma infisical_ref_parses:
  assumes "as_secret_ref (Infisical name proj env path) = Some raw"
    and "path' = (if trim_matches (CHR ''/'') path = [] then name else trim_matches (CHR ''/'') path @ ''/'' @ name)"
    and "path' \<noteq> []"
  shows "parse_ref raw = Inr \<lparr>sr_scheme = ''infisical'', sr_path = path', sr_query = (''env'', env) #
    (case proj of Some p \<Rightarrow> if p = [] then [] else [(''project'', p)] | None \<Rightarrow> [])\<rparr>"
proof -
  let ?q = "(''env'', env) # (case proj of Some p \<Rightarrow> if p = [] then [] else [(''project'', p)] | None \<Rightarrow> [])"
  let ?r = "\<lparr>sr_scheme = ''infisical'', sr_path = path', sr_query = ?q\<rparr>"
  have safe: "\<not> contains_any name ''/?#&''" "\<not> contains_any env ''?#&''" "\<not> contains_any path ''?#&''"
    "\<And>p. proj = Some p \<Longrightarrow> \<not> contains_any p ''?#&''"
    and raw: "raw = ''secret://infisical/'' @ path' @ ''?'' @ ''env='' @ env @
      (case proj of Some p \<Rightarrow> if p = [] then [] else ''&project='' @ p | None \<Rightarrow> [])"
    using assms(1,2) by (auto simp: as_secret_ref_def Let_def split: if_splits option.splits)
  have "CHR ''?'' \<notin> set path'"
    using safe(1,3) set_trim_matches [of "CHR ''/''" path] unfolding assms(2) contains_any_iff by auto
  then have "ref_ok ?r"
    using assms(3) safe(2,4) by (auto simp: ref_ok_def contains_any_iff split: option.splits)
  moreover have "raw = show_ref ?r"
    by (auto simp: raw show_ref_def split: option.splits)
  ultimately show ?thesis
    using parse_show by blast
qed

text \<open>a credential fetches the secret it names. When an Infisical credential has a textual reference
  and the reference parses, the backend asks for exactly the secret name, the secret path without
  stray slashes at its ends, the environment and the project of the credential; only a missing or
  empty project falls back to the default one, and the default environment is never used. A name,
  path, environment or project with a separator in it has no reference at all.\<close>

theorem infisical_fetch_exact:
  assumes "as_secret_ref (Infisical name proj env path) = Some raw" "parse_ref raw = Inr r"
  shows "map_ref r de dp =
      \<lparr>fa_secret_name = name, fa_secret_path = ''/'' @ trim_matches (CHR ''/'') path, fa_environment = env,
       fa_project_id = (case proj of Some p \<Rightarrow> if p = [] then dp else Some p | None \<Rightarrow> dp)\<rparr>
    \<and> sr_scheme r = ''infisical'' \<and> CHR ''/'' \<notin> set name"
proof -
  let ?dir = "trim_matches (CHR ''/'') path"
  define path' where "path' = (if ?dir = [] then name else ?dir @ ''/'' @ name)"
  have safe: "CHR ''/'' \<notin> set name" "CHR ''?'' \<notin> set name"
    using assms(1) by (auto simp: as_secret_ref_def contains_any_iff split: if_splits)
  have "path' \<noteq> []"
  proof
    assume "path' = []"
    then obtain q where "raw = ''secret://infisical/?'' @ q"
      using assms(1) by (auto simp: path'_def as_secret_ref_def Let_def split: if_splits)
    then have "parse_ref raw = Inl (InvalidRef (''empty scheme or path: '' @ raw))"
      by (simp add: parse_ref_def)
    then show False
      using assms(2) by simp
  qed
  then have r: "r = \<lparr>sr_scheme = ''infisical'', sr_path = path', sr_query = (''env'', env) #
      (case proj of Some p \<Rightarrow> if p = [] then [] else [(''project'', p)] | None \<Rightarrow> [])\<rparr>"
    using infisical_ref_parses [OF assms(1) path'_def] assms(2) by simp
  have "rsplit_once (CHR ''/'') path' = (if ?dir = [] then None else Some (?dir, name))"
    using safe(1) rsplit_once_append [OF safe(1), of ?dir] by (simp add: path'_def rsplit_once_None)
  then show ?thesis
    using safe(1) by (auto simp: r map_ref_def path'_def split: option.splits)
qed

lemma infisical_fetch_exact_witness:
  "\<exists>r. map_ref r ''dev'' None = \<lparr>fa_secret_name = ''KEY'', fa_secret_path = ''/a/b'', fa_environment = ''prod'', fa_project_id = None\<rparr>"
proof -
  let ?raw = "''secret://infisical/a/b/KEY?env=prod''"
  have a: "as_secret_ref (Infisical ''KEY'' None ''prod'' ''/a/b/'') = Some ?raw"
    by code_simp
  have "case parse_ref ?raw of Inr r \<Rightarrow> True | Inl _ \<Rightarrow> False"
    by code_simp
  then obtain r where r: "parse_ref ?raw = Inr r"
    by (auto split: sum.splits)
  have t: "trim_matches (CHR ''/'') ''/a/b/'' = ''a/b''"
    by code_simp
  show ?thesis
    using infisical_fetch_exact [OF a r, of "''dev''" None] by (intro exI [of _ r]) (simp add: t)
qed

section \<open>Resolving\<close>

type_synonym backend = "secret_ref \<Rightarrow> str + str"
type_synonym registry = "str \<Rightarrow> backend option"

definition registry_resolve :: "registry \<Rightarrow> secret_ref \<Rightarrow> str + str" where
  "registry_resolve reg r =
     (case reg (sr_scheme r) of
        Some b \<Rightarrow> b r
      | None \<Rightarrow> Inl (''backend unavailable: no backend for scheme '' @ [CHR 0x27] @ sr_scheme r @ [CHR 0x27]))"

definition resolve_kind :: "(str \<Rightarrow> str option) \<Rightarrow> registry \<Rightarrow> credential_kind \<Rightarrow> secrets_error + str" where
  "resolve_kind environ reg kind =
     (case kind of
        Literal v \<Rightarrow> Inr v
      | EnvVar n \<Rightarrow> (case environ n of Some v \<Rightarrow> Inr v | None \<Rightarrow> Inl (EnvVarMissing n))
      | _ \<Rightarrow>
          (case as_secret_ref kind of
             None \<Rightarrow> Inl (InvalidRef ''unresolvable credential kind'')
           | Some raw \<Rightarrow>
               (case parse_ref raw of
                  Inl e \<Rightarrow> Inl e
                | Inr sr \<Rightarrow> (case registry_resolve reg sr of Inr v \<Rightarrow> Inr v | Inl e \<Rightarrow> Inl (Backend e)))))"

fun resolve_sources ::
  "(str \<Rightarrow> str option) \<Rightarrow> registry \<Rightarrow> credential_source list \<Rightarrow> btree \<Rightarrow> secrets_error + btree" where
  "resolve_sources environ reg [] acc = Inr acc"
| "resolve_sources environ reg (s # ss) acc =
     (case resolve_kind environ reg (cred_source s) of
        Inl e \<Rightarrow> Inl e
      | Inr v \<Rightarrow> resolve_sources environ reg ss (bt_insert (inject_as s) v acc))"

definition resolve_credentials_with_registry ::
  "(str \<Rightarrow> str option) \<Rightarrow> registry \<Rightarrow> credential_source list \<Rightarrow> secrets_error + btree" where
  "resolve_credentials_with_registry environ reg sources = resolve_sources environ reg sources []"

lemma bt_insert_lookup:
  "sorted_wrt (<) (map fst m) \<Longrightarrow> map_of (bt_insert k v m) x = (if x = k then Some v else map_of m x)"
proof (induction k v m rule: bt_insert.induct)
  case (2 k v k' v' m)
  then show ?case
    by (auto dest: map_of_SomeD)
qed simp

lemma resolve_sources_values:
  assumes "resolve_sources environ reg ss acc = Inr m" "sorted_wrt (<) (map fst acc)"
  shows "sorted_wrt (<) (map fst m) \<and>
    (\<forall>x. map_of m x = (case find (\<lambda>s. inject_as s = x) (rev ss) of
        Some s \<Rightarrow> (case resolve_kind environ reg (cred_source s) of Inr v \<Rightarrow> Some v | Inl _ \<Rightarrow> None)
      | None \<Rightarrow> map_of acc x)) \<and>
    (\<forall>s\<in>set ss. \<exists>v. resolve_kind environ reg (cred_source s) = Inr v)"
  using assms
proof (induction ss arbitrary: acc)
  case (Cons s ss)
  then obtain v where v: "resolve_kind environ reg (cred_source s) = Inr v"
    "resolve_sources environ reg ss (bt_insert (inject_as s) v acc) = Inr m"
    by (auto split: sum.splits)
  have find_app: "find P (xs @ [y]) = (case find P xs of Some z \<Rightarrow> Some z | None \<Rightarrow> if P y then Some y else None)"
    for P and xs :: "credential_source list" and y
    by (induction xs) auto
  show ?case
    using Cons.IH [OF v(2)] bt_insert_sorted [OF Cons.prems(2)] v(1) bt_insert_lookup [OF Cons.prems(2)]
    by (auto simp: find_app split: option.splits)
qed simp

section \<open>Token cache\<close>

type_synonym token_cache = "str \<times> str \<Rightarrow> (str \<times> time) option"

definition token_get :: "token_cache \<Rightarrow> time \<Rightarrow> str \<Rightarrow> str \<Rightarrow> str option" where
  "token_get cache now site_url client_id =
     (case cache (site_url, client_id) of
        Some (token, expires_at) \<Rightarrow> if expires_at > now then Some token else None
      | None \<Rightarrow> None)"

definition token_store :: "token_cache \<Rightarrow> time \<Rightarrow> str \<Rightarrow> str \<Rightarrow> str \<Rightarrow> nat \<Rightarrow> token_cache" where
  "token_store cache now site_url client_id token ttl_secs =
     cache((site_url, client_id) \<mapsto> (token, now + secs (int (max (ttl_secs - 60) 30))))"

text \<open>the token cache serves its own identity, but can serve a dead token. After a token with a
  lifetime of ttl seconds is stored at t0, the cache answers it to the same identity, and only
  there, strictly before t0 + max (ttl - 60) 30 seconds: never within its last minute when the
  lifetime is at least 90 seconds, but up to 30 seconds after the store however short the lifetime,
  so a token that lived less than 30 seconds is served after it has expired.\<close>

theorem token_cache_window:
  assumes "cache' = token_store cache t0 site cid tok ttl"
  shows "(token_get cache' now site cid = Some tok \<longleftrightarrow> now < t0 + secs (max (int ttl - 60) 30))
    \<and> (\<forall>s c. (s, c) \<noteq> (site, cid) \<longrightarrow> token_get cache' now s c = token_get cache now s c)
    \<and> (90 \<le> ttl \<and> token_get cache' now site cid = Some tok \<longrightarrow> now < t0 + secs (int ttl - 60))
    \<and> (ttl < 30 \<longrightarrow> (\<exists>late. t0 + secs (int ttl) \<le> late \<and> token_get cache' late site cid = Some tok))"
proof -
  have ttl: "int (max (ttl - 60) 30) = max (int ttl - 60) 30"
    by (auto simp: max_def)
  have window: "token_get cache' t site cid = Some tok \<longleftrightarrow> t < t0 + secs (max (int ttl - 60) 30)" for t
    by (simp add: assms token_get_def token_store_def ttl)
  have others: "(s, c) \<noteq> (site, cid) \<longrightarrow> token_get cache' now s c = token_get cache now s c" for s c
    by (simp add: assms token_get_def token_store_def)
  have "t0 + secs (int ttl) \<le> t0 + secs (int ttl) \<and> token_get cache' (t0 + secs (int ttl)) site cid = Some tok"
    if "ttl < 30"
    using that unfolding window by (simp add: max_def)
  then show ?thesis
    using window [of now] others by (auto simp: max_def)
qed

lemma token_cache_window_witness:
  "token_get (token_store (\<lambda>_. None) 0 ''https://b'' ''id'' ''tok'' 3600) (secs 3000) ''https://b'' ''id'' = Some ''tok''"
  using token_cache_window [OF refl, of "\<lambda>_. None" 0 "''https://b''" "''id''" "''tok''" 3600 "secs 3000"] by simp

section \<open>Sessions of the secrets broker\<close>

type_synonym session_store = "str \<Rightarrow> btree option"

definition session_create :: "str \<Rightarrow> btree \<Rightarrow> session_store \<Rightarrow> session_store" where
  "session_create sid creds store = store(sid \<mapsto> creds)"

definition session_get :: "session_store \<Rightarrow> str \<Rightarrow> str \<Rightarrow> str option" where
  "session_get store sid name = (case store sid of Some m \<Rightarrow> map_of m name | None \<Rightarrow> None)"

definition session_remove :: "str \<Rightarrow> session_store \<Rightarrow> session_store" where
  "session_remove sid store = store(sid := None)"

text \<open>What the dispatcher relies on: a session answers its own credentials while it lives, no session
  answers for another, and a removed session answers nothing.\<close>

locale credential_broker =
  fixes create :: "'s \<Rightarrow> 'c \<Rightarrow> 'b \<Rightarrow> 'b" and get :: "'b \<Rightarrow> 's \<Rightarrow> 'n \<Rightarrow> 'v option"
    and remove :: "'s \<Rightarrow> 'b \<Rightarrow> 'b" and creds_get :: "'c \<Rightarrow> 'n \<Rightarrow> 'v option"
  assumes get_create: "get (create s c b) s' n = (if s' = s then creds_get c n else get b s' n)"
    and get_remove: "get (remove s b) s' n = (if s' = s then None else get b s' n)"
begin

lemma lifetime: "get (remove s (create s c b)) s' n = (if s' = s then None else get b s' n)"
  by (simp add: get_create get_remove)

lemma isolation: "s' \<noteq> s \<Longrightarrow> get (create s c b) s' n = get b s' n"
  by (simp add: get_create)

end

interpretation broker: credential_broker session_create session_get session_remove map_of
  by unfold_locales (auto simp: session_create_def session_get_def session_remove_def split: option.splits)

end
