(* ===== verification/Secret_Profiles.thy ===== *)
theory Secret_Profiles
  imports Tower_Data Secrets
begin

text \<open>
  crates/edgeplaned-secrets: config.rs, client.rs, keyring.rs and the resolver over a configuration: the
  named Infisical profiles with the active one, the HTTP client with its two ways to authenticate
  and the token cache, and the entries of the OS keyring. The HTTP server, the URL encoding and the
  availability of the keyring are parameters; building the HTTP client itself is taken to succeed.
\<close>

section \<open>Configurations and profiles\<close>

record infisical_config =
  ic_site_url :: str
  ic_service_token :: "str option"
  ic_client_id :: "str option"
  ic_client_secret :: "str option"
  ic_default_project_id :: "str option"
  ic_default_environment :: str

definition default_config :: infisical_config where
  "default_config = \<lparr>ic_site_url = ''https://app.infisical.com'', ic_service_token = None, ic_client_id = None,
     ic_client_secret = None, ic_default_project_id = None, ic_default_environment = ''prod''\<rparr>"

definition nonblank :: "str option \<Rightarrow> bool" where
  "nonblank x = (case x of Some t \<Rightarrow> trim t \<noteq> [] | None \<Rightarrow> False)"

definition is_configured :: "infisical_config \<Rightarrow> bool" where
  "is_configured cfg = (nonblank (ic_service_token cfg) \<or> nonblank (ic_client_id cfg))"

definition with_service_token :: "str \<Rightarrow> str \<Rightarrow> infisical_config" where
  "with_service_token site_url token = default_config\<lparr>ic_site_url := site_url, ic_service_token := Some token\<rparr>"

definition with_ua :: "str \<Rightarrow> str \<Rightarrow> str \<Rightarrow> infisical_config" where
  "with_ua site_url client_id client_secret =
     default_config\<lparr>ic_site_url := site_url, ic_client_id := Some client_id, ic_client_secret := Some client_secret\<rparr>"

record profile_map =
  pm_profiles :: "(str \<times> infisical_config) list"
  pm_active :: "str option"

definition empty_profiles :: profile_map where
  "empty_profiles = \<lparr>pm_profiles = [], pm_active = None\<rparr>"

definition active_profile :: "profile_map \<Rightarrow> infisical_config option" where
  "active_profile m = (case pm_active m of Some n \<Rightarrow> map_of (pm_profiles m) n | None \<Rightarrow> None)"

definition set_active :: "str \<Rightarrow> profile_map \<Rightarrow> str + profile_map" where
  "set_active name m =
     (if map_of (pm_profiles m) name \<noteq> None then Inr (m\<lparr>pm_active := Some name\<rparr>)
      else Inl (''profile '' @ [CHR 0x27] @ name @ [CHR 0x27] @ '' not found''))"

definition upsert :: "str \<Rightarrow> infisical_config \<Rightarrow> profile_map \<Rightarrow> profile_map" where
  "upsert name cfg m =
     (let is_first = (pm_profiles m = []);
          m' = m\<lparr>pm_profiles := bt_insert name cfg (pm_profiles m)\<rparr> in
      if is_first \<or> pm_active m = None then m'\<lparr>pm_active := Some name\<rparr> else m')"

definition remove_profile :: "str \<Rightarrow> profile_map \<Rightarrow> bool \<times> profile_map" where
  "remove_profile name m =
     (let removed = (map_of (pm_profiles m) name \<noteq> None);
          m' = m\<lparr>pm_profiles := filter (\<lambda>(k, _). k \<noteq> name) (pm_profiles m)\<rparr> in
      (removed,
       if pm_active m = Some name
       then m'\<lparr>pm_active := (case pm_profiles m' of [] \<Rightarrow> None | (k, _) # _ \<Rightarrow> Some k)\<rparr> else m'))"

definition migrate_legacy :: "infisical_config \<Rightarrow> profile_map \<Rightarrow> profile_map" where
  "migrate_legacy legacy m =
     (if pm_profiles m = [] \<and> is_configured legacy then upsert ''default'' legacy m else m)"

datatype profile_op =
  SetActive str | Upsert str infisical_config | RemoveProfile str | MigrateLegacy infisical_config

definition profile_step :: "profile_op \<Rightarrow> profile_map \<Rightarrow> profile_map" where
  "profile_step op m = (case op of
     SetActive n \<Rightarrow> (case set_active n m of Inr m' \<Rightarrow> m' | Inl _ \<Rightarrow> m)
   | Upsert n cfg \<Rightarrow> upsert n cfg m
   | RemoveProfile n \<Rightarrow> snd (remove_profile n m)
   | MigrateLegacy cfg \<Rightarrow> migrate_legacy cfg m)"

definition profiles_ok :: "profile_map \<Rightarrow> bool" where
  "profiles_ok m = (sorted_wrt (<) (map fst (pm_profiles m)) \<and>
     (case pm_active m of Some n \<Rightarrow> n \<in> fst ` set (pm_profiles m) | None \<Rightarrow> pm_profiles m = []))"

lemma bt_insert_not_Nil [simp]: "bt_insert k v m \<noteq> []"
  by (cases "(k, v, m)" rule: bt_insert.cases) auto

lemma profile_step_ok: "profiles_ok m \<Longrightarrow> profiles_ok (profile_step op m)"
proof -
  assume ok: "profiles_ok m"
  have ins: "profiles_ok (upsert n cfg m)" for n cfg
    using ok bt_insert_sorted [of "pm_profiles m" n cfg] bt_insert_keys [of n cfg "pm_profiles m"]
    by (auto simp: upsert_def profiles_ok_def Let_def split: option.splits)
  have del: "profiles_ok (snd (remove_profile n m))" for n
  proof -
    let ?ps = "filter (\<lambda>(k, _). k \<noteq> n) (pm_profiles m)"
    have "sorted_wrt (<) (map fst ?ps)"
      using ok by (simp add: profiles_ok_def sorted_wrt_map sorted_wrt_filter)
    moreover have "\<And>a. a \<noteq> n \<Longrightarrow> a \<in> fst ` set (pm_profiles m) \<Longrightarrow> a \<in> fst ` set ?ps"
      by force
    ultimately show ?thesis
      using ok by (cases ?ps) (auto simp: remove_profile_def profiles_ok_def Let_def split: option.splits)
  qed
  show ?thesis
    using ok ins del
    by (cases op) (auto simp: profile_step_def migrate_legacy_def set_active_def profiles_ok_def
        dest: map_of_SomeD split: option.splits intro: rev_image_eqI)
qed

text \<open>whatever is done to the profiles, the active one exists. After any sequence of operations on a
  fresh map the names are in order and distinct, the active name is that of a profile, and no profile
  is active only when there is none.\<close>

theorem active_profile_exists:
  "m = fold profile_step ops empty_profiles \<Longrightarrow>
     sorted_wrt (<) (map fst (pm_profiles m)) \<and> (active_profile m = None \<longleftrightarrow> pm_profiles m = []) \<and>
     (\<forall>n. pm_active m = Some n \<longrightarrow> map_of (pm_profiles m) n \<noteq> None)"
proof -
  have "profiles_ok m0 \<Longrightarrow> profiles_ok (fold profile_step ops m0)" for m0
    by (induction ops arbitrary: m0) (auto simp: profile_step_ok)
  moreover have "profiles_ok empty_profiles"
    by (simp add: profiles_ok_def empty_profiles_def)
  moreover assume "m = fold profile_step ops empty_profiles"
  ultimately have "profiles_ok m"
    by simp
  then show ?thesis
    by (auto simp: profiles_ok_def active_profile_def map_of_eq_None_iff split: option.splits)
qed

lemma active_profile_exists_witness:
  "active_profile (fold profile_step [Upsert ''b'' default_config, Upsert ''a'' default_config, RemoveProfile ''b''] empty_profiles) \<noteq> None"
proof -
  let ?m = "fold profile_step [Upsert ''b'' default_config, Upsert ''a'' default_config, RemoveProfile ''b''] empty_profiles"
  have "pm_profiles ?m \<noteq> []"
    by (simp add: profile_step_def upsert_def remove_profile_def empty_profiles_def Let_def)
  then show ?thesis
    using active_profile_exists [OF refl] by blast
qed

section \<open>The HTTP client\<close>

datatype infisical_auth = ServiceToken str | UniversalAuth str str

record infisical_client =
  cl_site_url :: str
  cl_auth :: infisical_auth

definition client_auth :: "infisical_config \<Rightarrow> secrets_error + infisical_auth" where
  "client_auth cfg =
     (case ic_service_token cfg of
        Some token \<Rightarrow>
          if trim token \<noteq> [] then Inr (ServiceToken token) else Inl (Config ''service_token is empty'')
      | None \<Rightarrow>
          (case (ic_client_id cfg, ic_client_secret cfg) of
             (Some i, Some secret) \<Rightarrow>
               if trim i = [] \<or> trim secret = [] then Inl (Config ''client_id or client_secret is empty'')
               else Inr (UniversalAuth i secret)
           | _ \<Rightarrow> Inl (Config ''no auth credentials configured: set service_token or client_id+client_secret'')))"

definition client_new :: "infisical_config \<Rightarrow> secrets_error + infisical_client" where
  "client_new cfg = (case client_auth cfg of
     Inl e \<Rightarrow> Inl e
   | Inr auth \<Rightarrow> Inr \<lparr>cl_site_url = rev (dropWhile ((=) (CHR ''/'')) (rev (ic_site_url cfg))), cl_auth = auth\<rparr>)"

text \<open>A reply is a failure to send, a status outside 2xx with its text, or a body that parses or not.\<close>

datatype http_reply = NoReply str | BadStatus str str | Body "str + json"

record http_server =
  hs_post :: "str \<Rightarrow> json \<Rightarrow> http_reply"
  hs_get :: "str \<Rightarrow> str \<Rightarrow> http_reply"
  hs_encode :: "str \<Rightarrow> str"

definition as_u64 :: "json \<Rightarrow> nat option" where
  "as_u64 j = (case j of JNum n \<Rightarrow> if 0 \<le> n \<and> n < 2 ^ 64 then Some (nat n) else None | _ \<Rightarrow> None)"

definition jindex :: "json \<Rightarrow> str \<Rightarrow> json" where
  "jindex j k = (case jget k j of Some v \<Rightarrow> v | None \<Rightarrow> JNull)"

definition exchange_ua_token ::
  "http_server \<Rightarrow> infisical_client \<Rightarrow> time \<Rightarrow> str \<Rightarrow> str \<Rightarrow> token_cache \<Rightarrow> (secrets_error + str) \<times> token_cache" where
  "exchange_ua_token srv cl now client_id client_secret cache =
     (case hs_post srv (cl_site_url cl @ ''/api/v1/auth/universal-auth/login'')
             (JObj [(''clientId'', JStr client_id), (''clientSecret'', JStr client_secret)]) of
        NoReply e \<Rightarrow> (Inl (Http (''UA login request failed: '' @ e)), cache)
      | BadStatus status text \<Rightarrow> (Inl (Auth (''UA login '' @ status @ '': '' @ text)), cache)
      | Body (Inl e) \<Rightarrow> (Inl (Json e), cache)
      | Body (Inr body) \<Rightarrow>
          (case jstr (jindex body ''accessToken'') of
             None \<Rightarrow> (Inl (Auth ''UA login response missing accessToken''), cache)
           | Some token \<Rightarrow>
               (let ttl = (case as_u64 (jindex body ''expiresIn'') of Some n \<Rightarrow> n | None \<Rightarrow> 7200) in
                (Inr token, token_store cache now (cl_site_url cl) client_id token ttl))))"

definition client_bearer_token ::
  "http_server \<Rightarrow> infisical_client \<Rightarrow> time \<Rightarrow> token_cache \<Rightarrow> (secrets_error + str) \<times> token_cache" where
  "client_bearer_token srv cl now cache =
     (case cl_auth cl of
        ServiceToken t \<Rightarrow> (Inr t, cache)
      | UniversalAuth client_id client_secret \<Rightarrow>
          (case token_get cache now (cl_site_url cl) client_id of
             Some cached \<Rightarrow> (Inr cached, cache)
           | None \<Rightarrow> exchange_ua_token srv cl now client_id client_secret cache))"

definition get_json :: "str \<Rightarrow> http_reply \<Rightarrow> secrets_error + json" where
  "get_json what r = (case r of
     NoReply e \<Rightarrow> Inl (Http (''Infisical '' @ what @ '': '' @ e))
   | BadStatus status body \<Rightarrow> Inl (Http (''Infisical '' @ status @ '': '' @ body))
   | Body (Inl e) \<Rightarrow> Inl (Json e)
   | Body (Inr j) \<Rightarrow> Inr j)"

definition with_token ::
  "http_server \<Rightarrow> infisical_client \<Rightarrow> time \<Rightarrow> token_cache \<Rightarrow> (str \<Rightarrow> secrets_error + 'a) \<Rightarrow> (secrets_error + 'a) \<times> token_cache" where
  "with_token srv cl now cache k =
     (case client_bearer_token srv cl now cache of
        (Inl e, cache') \<Rightarrow> (Inl e, cache')
      | (Inr token, cache') \<Rightarrow> (k token, cache'))"

definition fetch_secret ::
  "http_server \<Rightarrow> infisical_client \<Rightarrow> time \<Rightarrow> str \<Rightarrow> str \<Rightarrow> str \<Rightarrow> str \<Rightarrow> token_cache \<Rightarrow> (secrets_error + str) \<times> token_cache" where
  "fetch_secret srv cl now secret_name project_id environment path cache =
     with_token srv cl now cache (\<lambda>token.
       case get_json ''fetch_secret'' (hs_get srv
              (cl_site_url cl @ ''/api/v3/secrets/raw/'' @ secret_name @ ''?workspaceId='' @ project_id @
               ''&environment='' @ environment @ ''&secretPath='' @ hs_encode srv path) token) of
         Inl e \<Rightarrow> Inl e
       | Inr body \<Rightarrow>
           (case jstr (jindex (jindex body ''secret'') ''secretValue'') of
              Some s \<Rightarrow> Inr s | None \<Rightarrow> Inl (SecretNotFound secret_name)))"

definition names_of :: "str \<Rightarrow> str \<Rightarrow> json \<Rightarrow> str list" where
  "names_of field key body =
     (case jindex body field of JList arr \<Rightarrow> List.map_filter (\<lambda>s. jstr (jindex s key)) arr | _ \<Rightarrow> [])"

definition list_secrets ::
  "http_server \<Rightarrow> infisical_client \<Rightarrow> time \<Rightarrow> str \<Rightarrow> str \<Rightarrow> str \<Rightarrow> token_cache \<Rightarrow> (secrets_error + str list) \<times> token_cache" where
  "list_secrets srv cl now project_id environment path cache =
     with_token srv cl now cache (\<lambda>token.
       case get_json ''list_secrets'' (hs_get srv
              (cl_site_url cl @ ''/api/v3/secrets/raw?workspaceId='' @ project_id @ ''&environment='' @ environment @
               ''&secretPath='' @ hs_encode srv path @ ''&recursive=false'') token) of
         Inl e \<Rightarrow> Inl e | Inr body \<Rightarrow> Inr (names_of ''secrets'' ''secretKey'' body))"

definition list_folders ::
  "http_server \<Rightarrow> infisical_client \<Rightarrow> time \<Rightarrow> str \<Rightarrow> str \<Rightarrow> str \<Rightarrow> token_cache \<Rightarrow> (secrets_error + str list) \<times> token_cache" where
  "list_folders srv cl now project_id environment path cache =
     with_token srv cl now cache (\<lambda>token.
       case get_json ''list_folders'' (hs_get srv
              (cl_site_url cl @ ''/api/v1/folders?workspaceId='' @ project_id @ ''&environment='' @ environment @
               ''&path='' @ hs_encode srv path) token) of
         Inl e \<Rightarrow> Inl e | Inr body \<Rightarrow> Inr (names_of ''folders'' ''name'' body))"

section \<open>Resolving with a configuration\<close>

text \<open>The client is built when the first Infisical source is met; the configuration is the same for all.\<close>

definition resolve_with ::
  "http_server \<Rightarrow> (str \<Rightarrow> str option) \<Rightarrow> infisical_config \<Rightarrow> time \<Rightarrow> credential_kind \<Rightarrow> token_cache \<Rightarrow>
   (secrets_error + str) \<times> token_cache" where
  "resolve_with srv environ cfg now kind cache =
     (case kind of
        Literal v \<Rightarrow> (Inr v, cache)
      | EnvVar n \<Rightarrow> (case environ n of Some v \<Rightarrow> Inr v | None \<Rightarrow> Inl (EnvVarMissing n), cache)
      | SecRef _ \<Rightarrow> (Inl (InvalidRef ''registry-backed secret refs require resolve_credentials_with_registry''), cache)
      | Infisical secret_name project_id environment secret_path \<Rightarrow>
          if \<not> is_configured cfg then (Inl TokenMissing, cache)
          else (case client_new cfg of
                  Inl e \<Rightarrow> (Inl e, cache)
                | Inr cl \<Rightarrow>
                    fetch_secret srv cl now secret_name
                      (case project_id of Some p \<Rightarrow> p
                       | None \<Rightarrow> (case ic_default_project_id cfg of Some p \<Rightarrow> p | None \<Rightarrow> []))
                      environment secret_path cache))"

fun resolve_sources_with ::
  "http_server \<Rightarrow> (str \<Rightarrow> str option) \<Rightarrow> infisical_config \<Rightarrow> time \<Rightarrow> credential_source list \<Rightarrow> btree \<Rightarrow> token_cache \<Rightarrow>
   (secrets_error + btree) \<times> token_cache" where
  "resolve_sources_with srv environ cfg now [] acc cache = (Inr acc, cache)"
| "resolve_sources_with srv environ cfg now (s # ss) acc cache =
     (case resolve_with srv environ cfg now (cred_source s) cache of
        (Inl e, cache') \<Rightarrow> (Inl e, cache')
      | (Inr v, cache') \<Rightarrow> resolve_sources_with srv environ cfg now ss (bt_insert (inject_as s) v acc) cache')"

definition resolve_credentials_with_profiles ::
  "http_server \<Rightarrow> (str \<Rightarrow> str option) \<Rightarrow> profile_map \<Rightarrow> time \<Rightarrow> credential_source list \<Rightarrow> token_cache \<Rightarrow>
   (secrets_error + btree) \<times> token_cache" where
  "resolve_credentials_with_profiles srv environ m now sources cache =
     resolve_sources_with srv environ (case active_profile m of Some cfg \<Rightarrow> cfg | None \<Rightarrow> default_config)
       now sources [] cache"

text \<open>A client can be built only from a configuration that says it is configured; the converse fails,
  since a blank service token or a client id without its secret is accepted by is_configured alone.\<close>

lemma client_new_configured: "client_new cfg = Inr cl \<Longrightarrow> is_configured cfg"
  by (auto simp: client_new_def client_auth_def is_configured_def nonblank_def split: option.splits if_splits sum.splits)

lemma configured_without_client:
  "is_configured (default_config\<lparr>ic_client_id := Some ''id''\<rparr>) \<and> client_new (default_config\<lparr>ic_client_id := Some ''id''\<rparr>) =
     Inl (Config ''no auth credentials configured: set service_token or client_id+client_secret'')"
  by (simp add: is_configured_def nonblank_def client_new_def client_auth_def default_config_def trim_def is_space_def)

section \<open>The OS keyring\<close>

text \<open>The entries of the service, and which operations the keyring refuses for a key: opening the entry,
  reading it, writing it (each with its error) or deleting it.\<close>

record keyring =
  kr_entries :: "str \<Rightarrow> str option"
  kr_open_error :: "str \<Rightarrow> str option"
  kr_read_error :: "str \<Rightarrow> str option"
  kr_write_error :: "str \<Rightarrow> str option"
  kr_keeps :: "str \<Rightarrow> bool"

datatype keyring_result = KrOk | KrUnavailable str

definition key_service_token :: "str \<Rightarrow> str" where
  "key_service_token profile_name = ''infisical-service-token:'' @ profile_name"

definition set_password :: "str \<Rightarrow> str \<Rightarrow> keyring \<Rightarrow> keyring_result \<times> keyring" where
  "set_password key token kr =
     (case kr_write_error kr key of
        Some e \<Rightarrow> (KrUnavailable e, kr)
      | None \<Rightarrow> (KrOk, kr\<lparr>kr_entries := (kr_entries kr)(key \<mapsto> token)\<rparr>))"

definition get_password :: "str \<Rightarrow> keyring \<Rightarrow> str option" where
  "get_password key kr = (if kr_read_error kr key = None then kr_entries kr key else None)"

definition delete_credential :: "str \<Rightarrow> keyring \<Rightarrow> keyring" where
  "delete_credential key kr = (if kr_keeps kr key then kr else kr\<lparr>kr_entries := (kr_entries kr)(key := None)\<rparr>)"

definition store_service_token :: "str \<Rightarrow> str \<Rightarrow> keyring \<Rightarrow> keyring_result \<times> keyring" where
  "store_service_token profile_name token kr =
     (let key = key_service_token profile_name in
      case kr_open_error kr key of
        Some e \<Rightarrow> (KrUnavailable e, kr)
      | None \<Rightarrow> set_password key token kr)"

definition load_service_token :: "str \<Rightarrow> keyring \<Rightarrow> str option" where
  "load_service_token profile_name kr =
     (let key = key_service_token profile_name in
      if kr_open_error kr key = None then get_password key kr else None)"

definition delete_service_token :: "str \<Rightarrow> keyring \<Rightarrow> keyring_result \<times> keyring" where
  "delete_service_token profile_name kr =
     (let key = key_service_token profile_name in
      case kr_open_error kr key of
        Some e \<Rightarrow> (KrUnavailable e, kr)
      | None \<Rightarrow> (KrOk, delete_credential key kr))"

definition migrate_legacy_entry :: "str \<Rightarrow> keyring \<Rightarrow> keyring_result \<times> keyring" where
  "migrate_legacy_entry target_profile kr =
     (let legacy_key = key_service_token ''default'' in
      case kr_open_error kr legacy_key of
        Some e \<Rightarrow> (KrUnavailable e, kr)
      | None \<Rightarrow>
          (case get_password legacy_key kr of
             None \<Rightarrow> (KrOk, kr)
           | Some token \<Rightarrow>
               if token = [] then (KrOk, kr)
               else (case store_service_token target_profile token kr of
                       (result, kr') \<Rightarrow> (result, delete_credential legacy_key kr'))))"

definition reliable :: "keyring \<Rightarrow> bool" where
  "reliable kr = (kr_open_error kr = (\<lambda>_. None) \<and> kr_read_error kr = (\<lambda>_. None) \<and>
     kr_write_error kr = (\<lambda>_. None) \<and> kr_keeps kr = (\<lambda>_. False))"

lemma key_inj [simp]: "key_service_token a = key_service_token b \<longleftrightarrow> a = b"
  by (simp add: key_service_token_def)

lemma store_load: "reliable kr \<Longrightarrow>
   load_service_token b (snd (store_service_token a tok kr)) = (if b = a then Some tok else load_service_token b kr)"
  by (simp add: reliable_def load_service_token_def store_service_token_def set_password_def get_password_def Let_def)

text \<open>what a migration does to the legacy token. On a keyring that refuses nothing, a token under the
  profile default moves to every other profile and is gone from default, and no third profile
  changes; but with the profile default itself as the target the token is written, deleted and lost
  while the migration answers Ok. And if the keyring refuses to write the target, the legacy token is
  deleted all the same.\<close>

theorem legacy_token_migration:
  assumes "load_service_token ''default'' kr = Some tok" "tok \<noteq> []" "kr_keeps kr (key_service_token ''default'') = False"
  shows "(reliable kr \<longrightarrow> fst (migrate_legacy_entry target kr) = KrOk \<and>
      (\<forall>p. load_service_token p (snd (migrate_legacy_entry target kr)) =
         (if p = ''default'' then None else if p = target then Some tok else load_service_token p kr)))
    \<and> (\<forall>e. kr_write_error kr (key_service_token target) = Some e \<longrightarrow>
         fst (migrate_legacy_entry target kr) \<noteq> KrOk \<and>
         (\<forall>p. load_service_token p (snd (migrate_legacy_entry target kr)) =
            (if p = ''default'' then None else load_service_token p kr)))"
proof -
  have legacy: "kr_open_error kr (key_service_token ''default'') = None"
    "get_password (key_service_token ''default'') kr = Some tok"
    using assms(1) by (auto simp: load_service_token_def Let_def split: if_splits)
  have mig: "migrate_legacy_entry target kr = (case store_service_token target tok kr of
      (result, kr') \<Rightarrow> (result, delete_credential (key_service_token ''default'') kr'))"
    using legacy assms(2) by (simp add: migrate_legacy_entry_def Let_def)
  have moved: "load_service_token p (delete_credential (key_service_token ''default'') kr') =
      (if p = ''default'' then None else load_service_token p kr')"
    if "kr_keeps kr' (key_service_token ''default'') = False" for p and kr' :: keyring
    using that by (simp add: load_service_token_def delete_credential_def get_password_def Let_def)
  have "load_service_token p (snd (store_service_token target tok kr)) = (if p = target then Some tok else load_service_token p kr)"
    if "reliable kr" for p
    using store_load that by blast
  moreover have "kr_keeps (snd (store_service_token target tok kr)) = kr_keeps kr"
    by (simp add: store_service_token_def set_password_def Let_def split: option.splits)
  moreover have "reliable kr \<Longrightarrow> fst (store_service_token target tok kr) = KrOk"
    by (simp add: reliable_def store_service_token_def set_password_def Let_def)
  moreover have "snd (store_service_token target tok kr) = kr \<and> fst (store_service_token target tok kr) \<noteq> KrOk"
    if "kr_write_error kr (key_service_token target) = Some e" for e
    using that by (simp add: store_service_token_def set_password_def Let_def split: option.splits)
  ultimately show ?thesis
    using assms(3) by (auto simp: mig moved split: prod.splits)
qed

lemma legacy_token_migration_witness:
  "load_service_token ''default'' (snd (migrate_legacy_entry ''default''
     \<lparr>kr_entries = [key_service_token ''default'' \<mapsto> ''st.1''], kr_open_error = (\<lambda>_. None), kr_read_error = (\<lambda>_. None),
      kr_write_error = (\<lambda>_. None), kr_keeps = (\<lambda>_. False)\<rparr>)) = None"
proof -
  let ?kr = "\<lparr>kr_entries = [key_service_token ''default'' \<mapsto> ''st.1''], kr_open_error = (\<lambda>_. None), kr_read_error = (\<lambda>_. None),
      kr_write_error = (\<lambda>_. None), kr_keeps = (\<lambda>_. False)\<rparr>"
  have "load_service_token ''default'' ?kr = Some ''st.1''" "reliable ?kr"
    by (simp_all add: load_service_token_def get_password_def reliable_def Let_def)
  then show ?thesis
    using legacy_token_migration [of ?kr "''st.1''" "''default''"] by simp
qed

end
