(* ===== verification/Packs.thy ===== *)
theory Packs
  imports Tower_Data Secrets "HOL-Library.AList"
begin

text \<open>
  crates/edgeplaned-packs and the value types of crates/edgeplaned-sandbox: the capability manifest with
  its backend, risk and sandbox profile, the credentials of the YAML form, the policy bundle with its
  first-match evaluation, and the registry of packs. The YAML parser is not modelled: the embedded
  packs enter as parsed manifests.
\<close>

section \<open>Manifests\<close>

record fs_policy =
  extra_ro_bind :: "str list"
  extra_rw_bind :: "str list"
  share_host_tmp :: bool

record network_policy =
  egress_allowlist :: "str list"

record cgroup_limits =
  memory_mib :: nat
  max_pids :: nat
  cpu_weight :: nat

definition default_limits :: cgroup_limits where
  "default_limits = \<lparr>memory_mib = 512, max_pids = 64, cpu_weight = 100\<rparr>"

datatype side_effect_class = NoEffect | ReadOnly | Additive | Mutating | Destructive

record sandbox_profile =
  sp_fs :: fs_policy
  sp_network :: network_policy
  sp_limits :: cgroup_limits

datatype pack_backend = Subprocess str "str list" | Builtin str | Remote str

datatype risk_level = Low | Medium | High | Critical

primrec risk_str :: "risk_level \<Rightarrow> str" where
  "risk_str Low = ''low''"
| "risk_str Medium = ''medium''"
| "risk_str High = ''high''"
| "risk_str Critical = ''critical''"

record capability_manifest =
  cm_name :: str
  cm_version :: nat
  cm_description :: "str option"
  cm_backend :: pack_backend
  cm_risk :: risk_level
  cm_side_effect_class :: side_effect_class
  cm_sandbox_profile :: "sandbox_profile option"
  cm_input_schema :: json
  cm_credentials :: "credential_source list"
  cm_tags :: "str list"

text \<open>The credentials of the YAML form carry the variable they are injected as.\<close>

datatype clix_credential_source =
    ClixEnv str str
  | ClixLiteral str str
  | ClixInfisical str "str option" str str str

primrec convert_credential :: "clix_credential_source \<Rightarrow> credential_source" where
  "convert_credential (ClixEnv env_var inj_as) = \<lparr>inject_as = inj_as, cred_source = EnvVar env_var\<rparr>"
| "convert_credential (ClixLiteral value inj_as) = \<lparr>inject_as = inj_as, cred_source = Literal value\<rparr>"
| "convert_credential (ClixInfisical secret_name project_id environment secret_path inj_as) =
     \<lparr>inject_as = inj_as, cred_source = Infisical secret_name project_id environment secret_path\<rparr>"

section \<open>Policies\<close>

datatype policy_action = ActAllow | ActDeny | ActRequireApproval

record policy_rule =
  pr_capability :: "str option"
  pr_profile :: "str option"
  pr_env :: "str option"
  pr_risk :: "str option"
  pr_action :: policy_action
  pr_reason :: "str option"

record policy_bundle =
  pb_rules :: "policy_rule list"
  pb_default_action :: policy_action

definition default_bundle :: policy_bundle where
  "default_bundle = \<lparr>pb_rules = [], pb_default_action = ActDeny\<rparr>"

definition allow_all :: policy_bundle where
  "allow_all = \<lparr>pb_rules = [], pb_default_action = ActAllow\<rparr>"

record execution_context =
  ec_profile :: str
  ec_env :: str

datatype decision = DAllow | DDeny str | DRequireApproval str

definition rule_matches :: "policy_rule \<Rightarrow> execution_context \<Rightarrow> capability_manifest \<Rightarrow> bool" where
  "rule_matches rule ctx cap =
     ((case pr_capability rule of Some n \<Rightarrow> n = cm_name cap | None \<Rightarrow> True) \<and>
      (case pr_profile rule of Some p \<Rightarrow> p = ec_profile ctx | None \<Rightarrow> True) \<and>
      (case pr_env rule of Some e \<Rightarrow> e = ec_env ctx | None \<Rightarrow> True) \<and>
      (case pr_risk rule of Some r \<Rightarrow> r = risk_str (cm_risk cap) | None \<Rightarrow> True))"

definition rule_decision :: "policy_rule \<Rightarrow> capability_manifest \<Rightarrow> decision" where
  "rule_decision rule cap =
     (let reason = (case pr_reason rule of Some r \<Rightarrow> r | None \<Rightarrow> ''matched policy rule for '' @ cm_name cap) in
      case pr_action rule of
        ActAllow \<Rightarrow> DAllow
      | ActDeny \<Rightarrow> DDeny reason
      | ActRequireApproval \<Rightarrow> DRequireApproval reason)"

definition quote :: "str \<Rightarrow> str" where
  "quote s = [CHR 0x27] @ s @ [CHR 0x27]"

definition default_decision :: "policy_action \<Rightarrow> capability_manifest \<Rightarrow> decision" where
  "default_decision act cap =
     (case act of
        ActAllow \<Rightarrow> (if cm_risk cap = Low \<or> cm_risk cap = Medium then DAllow
          else DRequireApproval (risk_str (cm_risk cap) @ '' risk capability requires approval''))
      | ActDeny \<Rightarrow> DDeny (''no policy rule matched '' @ quote (cm_name cap) @ ''; default action is deny'')
      | ActRequireApproval \<Rightarrow> DRequireApproval
          (''no policy rule matched '' @ quote (cm_name cap) @ ''; default action is require_approval''))"

fun evaluate_rules ::
  "policy_rule list \<Rightarrow> policy_action \<Rightarrow> execution_context \<Rightarrow> capability_manifest \<Rightarrow> decision" where
  "evaluate_rules [] act ctx cap = default_decision act cap"
| "evaluate_rules (rule # rules) act ctx cap =
     (if \<not> rule_matches rule ctx cap then evaluate_rules rules act ctx cap else rule_decision rule cap)"

definition evaluate_policy :: "policy_bundle \<Rightarrow> execution_context \<Rightarrow> capability_manifest \<Rightarrow> decision" where
  "evaluate_policy policy ctx cap = evaluate_rules (pb_rules policy) (pb_default_action policy) ctx cap"

lemma rule_decision_allow [simp]: "rule_decision rule cap = DAllow \<longleftrightarrow> pr_action rule = ActAllow"
  by (auto simp: rule_decision_def Let_def split: policy_action.splits)

lemma default_decision_allow [simp]:
  "default_decision act cap = DAllow \<longleftrightarrow> act = ActAllow \<and> cm_risk cap \<in> {Low, Medium}"
  by (auto simp: default_decision_def split: policy_action.splits)

lemma evaluate_rules_find:
  "evaluate_rules rules act ctx cap =
     (case find (\<lambda>r. rule_matches r ctx cap) rules of
        Some r \<Rightarrow> rule_decision r cap | None \<Rightarrow> default_decision act cap)"
  by (induction rules) auto

lemma allow_iff:
  "evaluate_policy policy ctx cap = DAllow \<longleftrightarrow>
     (case find (\<lambda>r. rule_matches r ctx cap) (pb_rules policy) of
        Some r \<Rightarrow> pr_action r = ActAllow
      | None \<Rightarrow> pb_default_action policy = ActAllow \<and> cm_risk cap \<in> {Low, Medium})"
  by (auto simp: evaluate_policy_def evaluate_rules_find split: option.splits)

section \<open>The registry\<close>

text \<open>The capabilities by full name, and per pack the full names in order of insertion.\<close>

record pack_registry =
  reg_capabilities :: "(str \<times> capability_manifest) list"
  reg_packs :: "str \<Rightarrow> str list option"

definition empty_registry :: pack_registry where
  "empty_registry = \<lparr>reg_capabilities = [], reg_packs = (\<lambda>_. None)\<rparr>"

definition registry_full_name :: "str \<Rightarrow> str \<Rightarrow> str" where
  "registry_full_name pack_name cap_name = pack_name @ ''.'' @ cap_name"

definition registry_insert :: "str \<Rightarrow> capability_manifest \<Rightarrow> str list \<Rightarrow> pack_registry \<Rightarrow> pack_registry" where
  "registry_insert pack_name cap tags reg =
     (let cap' = cap\<lparr>cm_tags := tags\<rparr>;
          name = registry_full_name pack_name (cm_name cap);
          entry = (case reg_packs reg pack_name of Some ns \<Rightarrow> ns | None \<Rightarrow> []) in
      reg\<lparr>reg_packs := (reg_packs reg)(pack_name \<mapsto> entry @ [name]),
          reg_capabilities := AList.update name cap' (reg_capabilities reg)\<rparr>)"

definition get_by_full_name :: "pack_registry \<Rightarrow> str \<Rightarrow> capability_manifest option" where
  "get_by_full_name reg name = map_of (reg_capabilities reg) name"

definition registry_get :: "pack_registry \<Rightarrow> str \<Rightarrow> str \<Rightarrow> capability_manifest option" where
  "registry_get reg pack_name cap_name = map_of (reg_capabilities reg) (registry_full_name pack_name cap_name)"

record capability_summary =
  cs_full_name :: str
  cs_description :: str
  cs_tags :: "str list"
  cs_risk :: risk_level

definition registry_capabilities :: "pack_registry \<Rightarrow> str option \<Rightarrow> capability_summary list" where
  "registry_capabilities reg tag =
     sort_key cs_full_name
       (map (\<lambda>(n, cap). \<lparr>cs_full_name = n,
            cs_description = (case cm_description cap of Some d \<Rightarrow> d | None \<Rightarrow> []),
            cs_tags = cm_tags cap, cs_risk = cm_risk cap\<rparr>)
         (filter (\<lambda>(_, cap). case tag of Some t \<Rightarrow> t \<in> set (cm_tags cap) | None \<Rightarrow> True)
            (reg_capabilities reg)))"

definition pack_tags :: "str \<Rightarrow> str list" where
  "pack_tags pack_name = (case map_of [
     (''kubectl-observe'', [''kubernetes'', ''observe'']),
     (''gh-readonly'', [''git'', ''github'', ''readonly'']),
     (''git-readonly'', [''git'', ''readonly'']),
     (''gcloud-readonly'', [''cloud'', ''gcloud'', ''readonly'']),
     (''docker-observe'', [''container'', ''docker'', ''observe'']),
     (''helm-observe'', [''kubernetes'', ''helm'', ''observe'']),
     (''argocd-observe'', [''kubernetes'', ''argocd'', ''observe'']),
     (''aws-readonly'', [''cloud'', ''aws'', ''readonly'']),
     (''az-readonly'', [''cloud'', ''azure'', ''readonly'']),
     (''incus-readonly'', [''container'', ''incus'', ''readonly'']),
     (''podman-observe'', [''container'', ''podman'', ''observe'']),
     (''terraform-observe'', [''cloud'', ''terraform'', ''observe'']),
     (''gcloud-aiplatform'', [''cloud'', ''gcloud'', ''ai'']),
     (''base'', [''base'', ''system''])] pack_name of Some ts \<Rightarrow> ts | None \<Rightarrow> [])"

text \<open>load_builtin_registry over the parsed packs: the parse of a file is an error or a manifest.\<close>

fun load_capabilities ::
  "str \<Rightarrow> (str + capability_manifest) list \<Rightarrow> pack_registry \<Rightarrow> str + pack_registry" where
  "load_capabilities pack_name [] reg = Inr reg"
| "load_capabilities pack_name (Inl e # caps) reg = Inl e"
| "load_capabilities pack_name (Inr cap # caps) reg =
     load_capabilities pack_name caps (registry_insert pack_name cap (pack_tags pack_name) reg)"

fun load_packs ::
  "(str \<times> (str + unit) \<times> (str + capability_manifest) list) list \<Rightarrow> pack_registry \<Rightarrow> str + pack_registry" where
  "load_packs [] reg = Inr reg"
| "load_packs ((name, pack, caps) # entries) reg =
     (case pack of
        Inl e \<Rightarrow> Inl e
      | Inr _ \<Rightarrow> (case load_capabilities name caps reg of Inl e \<Rightarrow> Inl e | Inr reg' \<Rightarrow> load_packs entries reg'))"

definition load_builtin_registry ::
  "(str \<times> (str + unit) \<times> (str + capability_manifest) list) list \<Rightarrow> str + pack_registry" where
  "load_builtin_registry entries = load_packs entries empty_registry"

text \<open>What a user of the registry relies on.\<close>

lemma registry_get_insert [simp]:
  "get_by_full_name (registry_insert p cap tags reg) n =
     (if n = registry_full_name p (cm_name cap) then Some (cap\<lparr>cm_tags := tags\<rparr>) else get_by_full_name reg n)"
  by (simp add: get_by_full_name_def registry_insert_def Let_def update_conv')

lemma registry_get_full_name [simp]:
  "registry_get reg p c = get_by_full_name reg (registry_full_name p c)"
  by (simp add: registry_get_def get_by_full_name_def)

definition registry_wf :: "pack_registry \<Rightarrow> bool" where
  "registry_wf reg = (distinct (map fst (reg_capabilities reg)) \<and>
     list_all (\<lambda>(n, cap). \<exists>p. n = registry_full_name p (cm_name cap)) (reg_capabilities reg))"

lemma registry_wf_insert:
  assumes "registry_wf reg"
  shows "registry_wf (registry_insert p cap tags reg)"
proof -
  let ?n = "registry_full_name p (cm_name cap)" and ?cap = "cap\<lparr>cm_tags := tags\<rparr>"
  have "set (AList.update ?n ?cap al) \<subseteq> insert (?n, ?cap) (set al)" for al
    by (induction al) auto
  then show ?thesis
    using assms unfolding registry_wf_def registry_insert_def Let_def list_all_iff
    by (fastforce simp: distinct_update)
qed

lemma load_capabilities_wf: "load_capabilities p caps reg = Inr reg' \<Longrightarrow> registry_wf reg \<Longrightarrow> registry_wf reg'"
  by (induction p caps reg rule: load_capabilities.induct) (auto simp: registry_wf_insert)

lemma load_packs_wf: "load_packs es reg = Inr reg' \<Longrightarrow> registry_wf reg \<Longrightarrow> registry_wf reg'"
  by (induction es reg rule: load_packs.induct) (auto dest: load_capabilities_wf split: sum.splits)

end
