(* ===== verification/Receipts.thy ===== *)
theory Receipts
  imports Prelude
begin

text \<open>
  crates/edgeplaned-receipts: the append-only log of capability executions. The table is the list of its
  rows in order of insertion with the id as primary key. Creation times are kept as instants: their
  RFC 3339 texts in UTC sort in the order of time for years of four digits. SQLite leaves the order
  of rows with equal times open; the list keeps their order of insertion.
\<close>

record receipt =
  rc_id :: str
  rc_capability :: str
  rc_args_json :: str
  rc_result_json :: str
  rc_exit_code :: int
  rc_execution_time_ms :: nat
  rc_domain_id :: "str option"
  rc_agent_id :: "str option"
  rc_created_at :: time

record receipt_filter =
  rf_domain_id :: "str option"
  rf_agent_id :: "str option"
  rf_capability :: "str option"
  rf_limit :: nat
  rf_since :: "time option"

type_synonym receipt_table = "receipt list"

text \<open>INSERT ... ON CONFLICT(id) DO NOTHING.\<close>

definition receipt_insert :: "receipt \<Rightarrow> receipt_table \<Rightarrow> receipt_table" where
  "receipt_insert r rows = (if \<exists>x\<in>set rows. rc_id x = rc_id r then rows else rows @ [r])"

definition newest_first :: "receipt_table \<Rightarrow> receipt_table" where
  "newest_first rows = sort_key (\<lambda>r. - rc_created_at r) rows"

definition receipt_last :: "nat \<Rightarrow> receipt_table \<Rightarrow> receipt list" where
  "receipt_last limit rows = take (if limit = 0 then 50 else limit) (newest_first rows)"

definition receipt_get :: "str \<Rightarrow> receipt_table \<Rightarrow> receipt option" where
  "receipt_get i rows = find (\<lambda>r. rc_id r = i) rows"

definition receipt_where :: "receipt_filter \<Rightarrow> receipt \<Rightarrow> tri" where
  "receipt_where f r =
     tand (if rf_domain_id f \<noteq> None then teq (rc_domain_id r) (rf_domain_id f) else Some True)
       (tand (if rf_agent_id f \<noteq> None then teq (rc_agent_id r) (rf_agent_id f) else Some True)
         (tand (if rf_capability f \<noteq> None then teq (Some (rc_capability r)) (rf_capability f) else Some True)
           (if rf_since f \<noteq> None then tcmp (\<ge>) (Some (rc_created_at r)) (rf_since f) else Some True)))"

definition receipt_list :: "receipt_filter \<Rightarrow> receipt_table \<Rightarrow> receipt list" where
  "receipt_list f rows =
     take (if rf_limit f = 0 then 50 else rf_limit f)
       (newest_first (filter (\<lambda>r. holds (receipt_where f r)) rows))"

section \<open>An append-only log\<close>

definition receipts_wf :: "receipt_table \<Rightarrow> bool" where
  "receipts_wf rows = distinct (map rc_id rows)"

lemma receipts_wf_insert [simp]: "receipts_wf rows \<Longrightarrow> receipts_wf (receipt_insert r rows)"
  by (auto simp: receipts_wf_def receipt_insert_def)

lemma receipt_insert_keeps: "receipt_get i rows = Some x \<Longrightarrow> receipt_get i (receipt_insert r rows) = Some x"
  by (induction rows) (auto simp: receipt_get_def receipt_insert_def split: if_splits)

lemma receipt_insert_new:
  "\<forall>x\<in>set rows. rc_id x \<noteq> rc_id r \<Longrightarrow> receipt_insert r rows = rows @ [r]"
  by (auto simp: receipt_insert_def)

lemma receipt_list_sound:
  assumes "x \<in> set (receipt_list f rows)"
  shows "x \<in> set rows \<and> (\<forall>d. rf_domain_id f = Some d \<longrightarrow> rc_domain_id x = Some d) \<and>
    (\<forall>a. rf_agent_id f = Some a \<longrightarrow> rc_agent_id x = Some a) \<and>
    (\<forall>c. rf_capability f = Some c \<longrightarrow> rc_capability x = c) \<and>
    (\<forall>t. rf_since f = Some t \<longrightarrow> t \<le> rc_created_at x)"
proof -
  have "x \<in> set rows" "holds (receipt_where f x)"
    using assms by (auto simp: receipt_list_def newest_first_def dest!: in_set_takeD)
  then show ?thesis
    by (cases "rc_domain_id x"; cases "rc_agent_id x")
      (auto simp: receipt_where_def sql_simps split: if_splits)
qed

text \<open>What the dispatcher needs of a log: an insertion keeps every entry and adds its own.\<close>

locale receipt_log =
  fixes insert :: "'r \<Rightarrow> 'l \<Rightarrow> 'l" and lookup :: "'i \<Rightarrow> 'l \<Rightarrow> 'r option" and ident :: "'r \<Rightarrow> 'i"
  assumes lookup_insert:
    "lookup i (insert r l) = (case lookup i l of Some x \<Rightarrow> Some x | None \<Rightarrow> if ident r = i then Some r else None)"
begin

lemma keeps: "lookup i l = Some x \<Longrightarrow> lookup i (insert r l) = Some x"
  by (simp add: lookup_insert)

lemma records: "lookup (ident r) l = None \<Longrightarrow> lookup (ident r) (insert r l) = Some r"
  by (simp add: lookup_insert)

lemma others: "i \<noteq> ident r \<Longrightarrow> lookup i (insert r l) = lookup i l"
  by (simp add: lookup_insert split: option.splits)

lemma keeps_fold: "lookup i l = Some x \<Longrightarrow> lookup i (fold insert rs l) = Some x"
  by (induction rs arbitrary: l) (simp_all add: keeps)

end

lemma find_append: "find P (xs @ ys) = (case find P xs of Some x \<Rightarrow> Some x | None \<Rightarrow> find P ys)"
  by (induction xs) auto

interpretation receipts: receipt_log receipt_insert receipt_get rc_id
proof unfold_locales
  fix i r l
  show "receipt_get i (receipt_insert r l) =
    (case receipt_get i l of Some x \<Rightarrow> Some x | None \<Rightarrow> if rc_id r = i then Some r else None)"
  proof (cases "\<exists>x\<in>set l. rc_id x = rc_id r")
    case True
    then have "receipt_get (rc_id r) l \<noteq> None"
      by (auto simp: receipt_get_def find_None_iff)
    with True show ?thesis
      by (auto simp: receipt_insert_def split: option.splits)
  next
    case False
    then show ?thesis
      by (auto simp: receipt_insert_def receipt_get_def find_append split: option.splits)
  qed
qed

end
