(* ===== verification/Capability_Dispatcher.thy ===== *)
theory Capability_Dispatcher
  imports Packs Receipts
begin

text \<open>
  crates/edgeplaned-core/src/capability_dispatcher.rs and the secrets gateway of edgeplaned-bin. A dispatch
  is split at its one suspension point: dispatch_start does everything up to handing the command to
  the operating system, dispatch_finish cleans up and builds the result, so that other dispatches and
  gateway requests can run in between. The operating system, the clock, the generator of UUIDs and
  the JSON printer and parser are parameters.
\<close>

section \<open>Requests and results\<close>

record dispatch_request =
  dq_full_name :: str
  dq_args :: json
  dq_profile :: str
  dq_env :: str
  dq_dry_run :: bool
  dq_timeout_secs :: "nat option"
  dq_domain_id :: "str option"
  dq_agent_id :: "str option"

record dispatch_result =
  dr_ok :: bool
  dr_data :: json
  dr_receipt_id :: str
  dr_execution_time_ms :: nat
  dr_exit_code :: int
  dr_hint :: "str option"
  dr_example :: "str option"

definition error_result :: "str \<Rightarrow> str \<Rightarrow> str option \<Rightarrow> dispatch_result" where
  "error_result receipt_id hint example =
     \<lparr>dr_ok = False, dr_data = JNull, dr_receipt_id = receipt_id, dr_execution_time_ms = 0,
      dr_exit_code = -1, dr_hint = Some hint, dr_example = example\<rparr>"

record dispatcher =
  dp_registry :: pack_registry
  dp_secrets :: "registry option"
  dp_policy :: policy_bundle
  dp_receipts :: bool
  dp_broker :: "str option"

text \<open>What the dispatcher uses of its surroundings: the process environment, the JSON library and the
  derived debug form of a backend.\<close>

record surroundings =
  su_environ :: "str \<Rightarrow> str option"
  su_to_string :: "json \<Rightarrow> str"
  su_from_str :: "str \<Rightarrow> json option"
  su_debug :: "pack_backend \<Rightarrow> str"

section \<open>Commands\<close>

text \<open>A command is the program, its arguments and the environment changes in order; running it gives
  a failure to spawn, an expired timeout or an exit, whose code is missing after a signal.\<close>

record spawn =
  sw_command :: str
  sw_args :: "str list"
  sw_env :: "(str \<times> str) list"
  sw_timeout :: nat

datatype outcome = SpawnFailed str | TimedOut | Exited "int option" str str

definition upper_char :: "char \<Rightarrow> str" where
  "upper_char c = (let n = of_char c :: nat in
     if (97 \<le> n \<and> n \<le> 122) \<or> (224 \<le> n \<and> n \<le> 254 \<and> n \<noteq> 247) then [char_of (n - 32)]
     else if n = 223 then ''SS'' else [c])"

definition cap_arg_key :: "str \<Rightarrow> str" where
  "cap_arg_key k = ''CAP_ARG_'' @ map (\<lambda>c. if c = CHR ''-'' then CHR ''_'' else c) (concat (map upper_char k))"

definition cap_arg_val :: "surroundings \<Rightarrow> json \<Rightarrow> str" where
  "cap_arg_val su v = (case v of JStr s \<Rightarrow> s | _ \<Rightarrow> su_to_string su v)"

definition input_env :: "surroundings \<Rightarrow> json \<Rightarrow> (str \<times> str) list" where
  "input_env su args = (case args of JObj fs \<Rightarrow> map (\<lambda>(k, v). (cap_arg_key k, cap_arg_val su v)) fs | _ \<Rightarrow> [])"

definition subprocess_spawn ::
  "surroundings \<Rightarrow> str \<Rightarrow> str list \<Rightarrow> json \<Rightarrow> (str \<times> str) list \<Rightarrow> nat \<Rightarrow> spawn" where
  "subprocess_spawn su cmd static_args input_args credential_env timeout =
     \<lparr>sw_command = cmd, sw_args = static_args, sw_env = input_env su input_args @ credential_env,
      sw_timeout = timeout\<rparr>"

text \<open>The environment the child sees: later settings of a variable win over earlier and inherited ones.\<close>

definition child_env :: "surroundings \<Rightarrow> spawn \<Rightarrow> str \<Rightarrow> str option" where
  "child_env su sp = foldl (\<lambda>m (k, v). m(k \<mapsto> v)) (su_environ su) (sw_env sp)"

definition subprocess_result :: "spawn \<Rightarrow> (nat \<Rightarrow> str) \<Rightarrow> outcome \<Rightarrow> str + str \<times> int" where
  "subprocess_result sp show_nat out =
     (case out of
        SpawnFailed e \<Rightarrow> Inl (''failed to spawn '' @ quote (sw_command sp) @ '': '' @ e)
      | TimedOut \<Rightarrow> Inl (''command '' @ quote (sw_command sp) @ '' timed out after '' @ show_nat (sw_timeout sp) @ ''s'')
      | Exited code stdout stderr \<Rightarrow>
          (let exit_code = (case code of Some c \<Rightarrow> c | None \<Rightarrow> -1) in
           Inr (if exit_code \<noteq> 0 then stderr else stdout, exit_code)))"

definition run_builtin :: "surroundings \<Rightarrow> str \<Rightarrow> json \<Rightarrow> str + str \<times> int" where
  "run_builtin su name input_args =
     (if name = ''echo'' then
        (let msg = (case jget ''message'' input_args of Some v \<Rightarrow> (case jstr v of Some s \<Rightarrow> s | None \<Rightarrow> []) | None \<Rightarrow> []) in
         Inr (su_to_string su (JObj [(''message'', JStr msg)]), 0))
      else Inl (''unknown builtin capability: '' @ quote name))"

definition parse_output :: "surroundings \<Rightarrow> str \<Rightarrow> json" where
  "parse_output su stdout =
     (case su_from_str su stdout of Some j \<Rightarrow> j | None \<Rightarrow> JObj [(''output'', JStr stdout)])"

section \<open>The two halves of a dispatch\<close>

text \<open>After the first half a dispatch is done, or its command waits for the operating system, or its
  in-process backend has answered; in the last two cases a session may be open.\<close>

datatype running =
    Done dispatch_result
  | Waiting "str option" spawn
  | Answered "str option" "str + str \<times> int"

text \<open>The dash of the TokenMissing message is outside Latin-1; a hyphen stands for it.\<close>

primrec error_text :: "secrets_error \<Rightarrow> str" where
  "error_text (Http e) = ''HTTP error: '' @ e"
| "error_text (Json e) = ''JSON error: '' @ e"
| "error_text (Keyring e) = ''Keyring error: '' @ e"
| "error_text TokenMissing = ''No service token configured - store one with store_service_token()''"
| "error_text (EnvVarMissing n) = ''environment variable '' @ [CHR 0x60] @ n @ [CHR 0x60] @ '' is not set''"
| "error_text (SecretNotFound e) = ''Secret not found: '' @ e"
| "error_text (InvalidRef e) = ''invalid secret ref: '' @ e"
| "error_text (Backend e) = ''backend: '' @ e"
| "error_text (Auth e) = ''Authentication error: '' @ e"
| "error_text (Config e) = ''Configuration error: '' @ e"

definition resolved_credentials ::
  "surroundings \<Rightarrow> dispatcher \<Rightarrow> capability_manifest \<Rightarrow> secrets_error + btree" where
  "resolved_credentials su dp cap =
     resolve_credentials_with_registry (su_environ su)
       (case dp_secrets dp of Some reg \<Rightarrow> reg | None \<Rightarrow> (\<lambda>_. None)) (cm_credentials cap)"

text \<open>into_env_pairs sorts by name, which a BTree already is.\<close>

definition credential_env ::
  "dispatcher \<Rightarrow> str \<Rightarrow> btree \<Rightarrow> session_store \<Rightarrow> (str \<times> str) list \<times> str option \<times> session_store" where
  "credential_env dp sid creds store =
     (case dp_broker dp of
        Some socket \<Rightarrow>
          ([(''EP_SECRETS_SOCKET'', socket), (''EP_SECRETS_SESSION'', sid)], Some sid, session_create sid creds store)
      | None \<Rightarrow> (creds, None, store))"

definition dispatch_execute ::
  "surroundings \<Rightarrow> capability_manifest \<Rightarrow> dispatch_request \<Rightarrow> (str \<times> str) list \<Rightarrow> str option \<Rightarrow> running" where
  "dispatch_execute su cap req cenv sess =
     (case cm_backend cap of
        Subprocess cmd args \<Rightarrow> Waiting sess (subprocess_spawn su cmd args (dq_args req) cenv
          (case dq_timeout_secs req of Some t \<Rightarrow> t | None \<Rightarrow> 30))
      | Builtin name \<Rightarrow> Answered sess (run_builtin su name (dq_args req))
      | Remote url \<Rightarrow> Answered sess (Inl (''remote backend not implemented (url='' @ url @ '')'')))"

definition dispatch_start ::
  "surroundings \<Rightarrow> dispatcher \<Rightarrow> dispatch_request \<Rightarrow> str \<Rightarrow> str \<Rightarrow> session_store \<Rightarrow> running \<times> session_store" where
  "dispatch_start su dp req receipt_id sid store =
     (case get_by_full_name (dp_registry dp) (dq_full_name req) of
        None \<Rightarrow> (Done (error_result receipt_id (''capability '' @ quote (dq_full_name req) @ '' not found'') None), store)
      | Some cap \<Rightarrow>
          (case evaluate_policy (dp_policy dp) \<lparr>ec_profile = dq_profile req, ec_env = dq_env req\<rparr> cap of
             DDeny reason \<Rightarrow> (Done (error_result receipt_id (''policy denied: '' @ reason) None), store)
           | DRequireApproval reason \<Rightarrow>
               (Done (error_result receipt_id (''approval required: '' @ reason) None), store)
           | DAllow \<Rightarrow>
               if dq_dry_run req then
                 (Done \<lparr>dr_ok = True,
                    dr_data = JObj [(''dry_run'', JBool True), (''capability'', JStr (dq_full_name req)),
                                    (''backend'', JStr (su_debug su (cm_backend cap)))],
                    dr_receipt_id = receipt_id, dr_execution_time_ms = 0, dr_exit_code = 0,
                    dr_hint = None, dr_example = None\<rparr>, store)
               else
                 (case resolved_credentials su dp cap of
                    Inl e \<Rightarrow> (Done (error_result receipt_id (''credential resolution failed: '' @ error_text e) None), store)
                  | Inr creds \<Rightarrow>
                      (case credential_env dp sid creds store of
                         (cenv, sess, store') \<Rightarrow> (dispatch_execute su cap req cenv sess, store')))))"

definition dispatch_result_of :: "surroundings \<Rightarrow> str \<Rightarrow> nat \<Rightarrow> str + str \<times> int \<Rightarrow> dispatch_result" where
  "dispatch_result_of su receipt_id elapsed_ms res =
     (case res of
        Inl e \<Rightarrow> error_result receipt_id e None
      | Inr (stdout, exit_code) \<Rightarrow>
          if exit_code \<noteq> 0 then
            \<lparr>dr_ok = False, dr_data = JNull, dr_receipt_id = receipt_id, dr_execution_time_ms = elapsed_ms,
             dr_exit_code = exit_code, dr_hint = Some stdout, dr_example = None\<rparr>
          else
            \<lparr>dr_ok = True, dr_data = parse_output su stdout, dr_receipt_id = receipt_id,
             dr_execution_time_ms = elapsed_ms, dr_exit_code = 0, dr_hint = None, dr_example = None\<rparr>)"

definition session_cleanup :: "str option \<Rightarrow> session_store \<Rightarrow> session_store" where
  "session_cleanup sess store = (case sess of Some sid \<Rightarrow> session_remove sid store | None \<Rightarrow> store)"

definition dispatch_finish ::
  "surroundings \<Rightarrow> (nat \<Rightarrow> str) \<Rightarrow> str \<Rightarrow> nat \<Rightarrow> running \<Rightarrow> outcome \<Rightarrow> session_store \<Rightarrow> dispatch_result \<times> session_store" where
  "dispatch_finish su show_nat receipt_id elapsed_ms r out store =
     (case r of
        Done result \<Rightarrow> (result, store)
      | Waiting sess sp \<Rightarrow>
          (dispatch_result_of su receipt_id elapsed_ms (subprocess_result sp show_nat out), session_cleanup sess store)
      | Answered sess res \<Rightarrow> (dispatch_result_of su receipt_id elapsed_ms res, session_cleanup sess store))"

definition dispatch_receipt :: "surroundings \<Rightarrow> dispatch_request \<Rightarrow> dispatch_result \<Rightarrow> time \<Rightarrow> receipt" where
  "dispatch_receipt su req result now =
     \<lparr>rc_id = dr_receipt_id result, rc_capability = dq_full_name req,
      rc_args_json = su_to_string su (dq_args req), rc_result_json = su_to_string su (dr_data result),
      rc_exit_code = dr_exit_code result, rc_execution_time_ms = dr_execution_time_ms result,
      rc_domain_id = dq_domain_id req, rc_agent_id = dq_agent_id req, rc_created_at = now\<rparr>"

definition write_receipt ::
  "surroundings \<Rightarrow> dispatcher \<Rightarrow> dispatch_request \<Rightarrow> dispatch_result \<Rightarrow> time \<Rightarrow> receipt_table \<Rightarrow> receipt_table" where
  "write_receipt su dp req result now rows =
     (if dp_receipts dp then receipt_insert (dispatch_receipt su req result now) rows else rows)"

section \<open>The gateway\<close>

text \<open>handle_connection answers a request line; the agent asks with the session it was given.\<close>

definition gateway_reply :: "(str \<Rightarrow> str + json) \<Rightarrow> session_store \<Rightarrow> str \<Rightarrow> json" where
  "gateway_reply parse store line =
     (case parse line of
        Inl e \<Rightarrow> JObj [(''ok'', JBool False), (''error'', JStr (''invalid JSON: '' @ e))]
      | Inr req \<Rightarrow>
          (case jfield_str ''op'' req of
             None \<Rightarrow> JObj [(''ok'', JBool False), (''error'', JStr ''missing op field'')]
           | Some op \<Rightarrow>
               if op = ''get'' then
                 (let session = (case jfield_str ''session'' req of Some s \<Rightarrow> s | None \<Rightarrow> []);
                      name = (case jfield_str ''name'' req of Some s \<Rightarrow> s | None \<Rightarrow> []) in
                  case session_get store session name of
                    Some v \<Rightarrow> JObj [(''ok'', JBool True), (''value'', JStr v)]
                  | None \<Rightarrow> JObj [(''ok'', JBool False),
                      (''error'', JStr (''secret '' @ quote name @ '' not found in session''))])
               else JObj [(''ok'', JBool False), (''error'', JStr (''unknown op: '' @ op))]))"

section \<open>A whole dispatch\<close>

text \<open>The state of the daemon that a dispatch touches. While the command runs, other dispatches and
  requests may change it: meanwhile stands for whatever they do.\<close>

record daemon_state =
  ds_sessions :: session_store
  ds_receipts :: receipt_table

definition dispatch ::
  "surroundings \<Rightarrow> (nat \<Rightarrow> str) \<Rightarrow> dispatcher \<Rightarrow> dispatch_request \<Rightarrow> str \<Rightarrow> str \<Rightarrow> nat \<Rightarrow> time \<Rightarrow>
   (spawn \<Rightarrow> outcome) \<Rightarrow> (daemon_state \<Rightarrow> daemon_state) \<Rightarrow> daemon_state \<Rightarrow> dispatch_result \<times> daemon_state" where
  "dispatch su show_nat dp req receipt_id sid elapsed_ms now exec meanwhile st =
     (case dispatch_start su dp req receipt_id sid (ds_sessions st) of
        (r, store) \<Rightarrow>
          (let st1 = (case r of Waiting _ _ \<Rightarrow> meanwhile (st\<lparr>ds_sessions := store\<rparr>) | _ \<Rightarrow> st\<lparr>ds_sessions := store\<rparr>);
               out = (case r of Waiting _ sp \<Rightarrow> exec sp | _ \<Rightarrow> TimedOut);
               (result, store2) = dispatch_finish su show_nat receipt_id elapsed_ms r out (ds_sessions st1) in
           (result, st1\<lparr>ds_sessions := store2,
                        ds_receipts := write_receipt su dp req result now (ds_receipts st1)\<rparr>)))"

section \<open>What is run\<close>

definition permitted :: "dispatcher \<Rightarrow> dispatch_request \<Rightarrow> capability_manifest \<Rightarrow> bool" where
  "permitted dp req cap =
     (get_by_full_name (dp_registry dp) (dq_full_name req) = Some cap \<and>
      evaluate_policy (dp_policy dp) \<lparr>ec_profile = dq_profile req, ec_env = dq_env req\<rparr> cap = DAllow \<and>
      \<not> dq_dry_run req)"

lemma start_cases:
  assumes "dispatch_start su dp req rid sid store = (r, store')"
  shows "(\<exists>res. r = Done res \<and> store' = store \<and> dr_receipt_id res = rid) \<or>
    (\<exists>cap creds cenv sess. permitted dp req cap \<and> resolved_credentials su dp cap = Inr creds \<and>
       credential_env dp sid creds store = (cenv, sess, store') \<and> r = dispatch_execute su cap req cenv sess)"
  using assms
  by (auto simp: dispatch_start_def permitted_def error_result_def split: option.splits decision.splits if_splits sum.splits prod.splits)

lemma execute_Waiting:
  "dispatch_execute su cap req cenv sess = Waiting sess' sp \<longleftrightarrow>
     (\<exists>cmd args. cm_backend cap = Subprocess cmd args \<and> sess' = sess \<and>
        sp = subprocess_spawn su cmd args (dq_args req) cenv (case dq_timeout_secs req of Some t \<Rightarrow> t | None \<Rightarrow> 30))"
  by (auto simp: dispatch_execute_def split: pack_backend.splits)

lemma execute_not_Done [simp]:
  "dispatch_execute su cap req cenv sess \<noteq> Done res" "Done res \<noteq> dispatch_execute su cap req cenv sess"
  by (simp_all add: dispatch_execute_def split: pack_backend.splits)

lemma env_untouched:
  "v \<notin> fst ` set kvs \<Longrightarrow> foldl (\<lambda>m (k, x). m(k \<mapsto> x)) env kvs v = env v"
  by (induction kvs arbitrary: env) auto

lemma env_last:
  "foldl (\<lambda>m (k, x). m(k \<mapsto> x)) env kvs v =
     (case map_of (rev kvs) v of Some x \<Rightarrow> Some x | None \<Rightarrow> env v)"
  by (induction kvs arbitrary: env) (auto simp: map_add_def split: option.splits)

lemma input_env_keys: "k \<in> fst ` set (input_env su args) \<Longrightarrow> starts_with ''CAP_ARG_'' k"
  by (auto simp: input_env_def cap_arg_key_def starts_with_iff split: json.splits)

lemma resolved_names:
  assumes "resolved_credentials su dp cap = Inr creds"
  shows "fst ` set creds \<subseteq> inject_as ` set (cm_credentials cap)"
proof
  fix n
  assume "n \<in> fst ` set creds"
  then have "map_of creds n \<noteq> None"
    by (simp add: map_of_eq_None_iff)
  then show "n \<in> inject_as ` set (cm_credentials cap)"
    using resolve_sources_values [of "su_environ su" _ "cm_credentials cap" "[]" creds] assms
    by (auto simp: resolved_credentials_def resolve_credentials_with_registry_def dest!: find_SomeD
        split: option.splits)
qed

lemma start_Waiting:
  assumes "dispatch_start su dp req rid sid store = (Waiting sess sp, store')"
  obtains cap creds cenv cmd args where "permitted dp req cap" "resolved_credentials su dp cap = Inr creds"
    "credential_env dp sid creds store = (cenv, sess, store')" "cm_backend cap = Subprocess cmd args"
    "sp = subprocess_spawn su cmd args (dq_args req) cenv (case dq_timeout_secs req of Some t \<Rightarrow> t | None \<Rightarrow> 30)"
  using start_cases [OF assms] by (metis execute_Waiting running.distinct(1))

lemma spawn_env_untouched:
  assumes "\<not> starts_with ''CAP_ARG_'' v" "v \<notin> fst ` set cenv"
  shows "child_env su (subprocess_spawn su cmd args input cenv t) v = su_environ su v"
proof -
  have "v \<notin> fst ` set (input_env su input @ cenv)"
    using assms input_env_keys [of v su input] by (auto simp: image_Un)
  then show ?thesis
    unfolding child_env_def subprocess_spawn_def by (simp add: env_untouched del: foldl_append set_append)
qed

lemma spawn_env_credential:
  assumes "distinct (map fst cenv)" "map_of cenv v = Some x"
  shows "child_env su (subprocess_spawn su cmd args input cenv t) v = Some x"
proof -
  have "map_of (rev cenv) v = Some x"
    using assms by (simp add: map_of_eq_Some_iff rev_map [symmetric])
  then show ?thesis
    unfolding child_env_def subprocess_spawn_def by (simp add: env_last map_add_def)
qed

text \<open>C35: nothing runs that the policy has not allowed, and the caller controls only arguments. A command
  reaches the operating system only for a registered capability that the policy allows to the profile
  and environment of the request, outside a dry run, and it is exactly the program and the arguments
  of the manifest. Against the environment of the daemon the child sees changes only in variables
  with the prefix CAP_ARG_ and in the injected names: those of the credentials of the manifest, or
  with the broker the two EP_SECRETS variables. The latter win over the former, so a caller cannot
  replace a credential, a search path or the broker's socket.\<close>

theorem dispatch_runs_only_permitted:
  assumes "dispatch_start su dp req rid sid store = (Waiting sess sp, store')"
  shows "\<exists>cap. permitted dp req cap \<and> cm_backend cap = Subprocess (sw_command sp) (sw_args sp) \<and>
    (\<forall>v. child_env su sp v \<noteq> su_environ su v \<longrightarrow> starts_with ''CAP_ARG_'' v \<or>
       v \<in> (case dp_broker dp of Some _ \<Rightarrow> {''EP_SECRETS_SOCKET'', ''EP_SECRETS_SESSION''}
            | None \<Rightarrow> inject_as ` set (cm_credentials cap))) \<and>
    (\<forall>socket. dp_broker dp = Some socket \<longrightarrow> child_env su sp ''EP_SECRETS_SOCKET'' = Some socket \<and>
       child_env su sp ''EP_SECRETS_SESSION'' = Some sid) \<and>
    (dp_broker dp = None \<longrightarrow> (\<exists>creds. resolved_credentials su dp cap = Inr creds \<and>
       (\<forall>v x. map_of creds v = Some x \<longrightarrow> child_env su sp v = Some x)))"
proof -
  obtain cap creds cenv cmd args where cap: "permitted dp req cap" "cm_backend cap = Subprocess cmd args"
    and creds: "resolved_credentials su dp cap = Inr creds"
    and cenv: "credential_env dp sid creds store = (cenv, sess, store')"
    and sp: "sp = subprocess_spawn su cmd args (dq_args req) cenv (case dq_timeout_secs req of Some t \<Rightarrow> t | None \<Rightarrow> 30)"
    using start_Waiting [OF assms] by metis
  have "distinct (map fst creds)"
    using resolve_sources_values [of "su_environ su" _ "cm_credentials cap" "[]" creds] creds
    by (auto simp: resolved_credentials_def resolve_credentials_with_registry_def strict_sorted_iff)
  then have distinct: "distinct (map fst cenv)"
    using cenv by (auto simp: credential_env_def split: option.splits)
  have names: "fst ` set cenv \<subseteq> (case dp_broker dp of Some _ \<Rightarrow> {''EP_SECRETS_SOCKET'', ''EP_SECRETS_SESSION''}
      | None \<Rightarrow> inject_as ` set (cm_credentials cap))"
    using cenv resolved_names [OF creds] by (auto simp: credential_env_def split: option.splits)
  have "child_env su sp v \<noteq> su_environ su v \<Longrightarrow> starts_with ''CAP_ARG_'' v \<or>
      v \<in> (case dp_broker dp of Some _ \<Rightarrow> {''EP_SECRETS_SOCKET'', ''EP_SECRETS_SESSION''}
        | None \<Rightarrow> inject_as ` set (cm_credentials cap))" for v
    using spawn_env_untouched names unfolding sp by blast
  moreover have "map_of cenv v = Some x \<Longrightarrow> child_env su sp v = Some x" for v x
    using spawn_env_credential [OF distinct] unfolding sp by blast
  moreover have "cm_backend cap = Subprocess (sw_command sp) (sw_args sp)"
    by (simp add: sp cap(2) subprocess_spawn_def)
  moreover have "dp_broker dp = None \<Longrightarrow> cenv = creds"
    "dp_broker dp = Some socket \<Longrightarrow> cenv = [(''EP_SECRETS_SOCKET'', socket), (''EP_SECRETS_SESSION'', sid)]" for socket
    using cenv by (simp_all add: credential_env_def)
  ultimately show ?thesis
    using cap(1) creds by (intro exI [of _ cap]) simp
qed

lemma dispatch_runs_only_permitted_witness:
  "\<exists>cap. permitted \<lparr>dp_registry = registry_insert ''p'' \<lparr>cm_name = ''c'', cm_version = 1, cm_description = None,
      cm_backend = Subprocess ''ls'' [''-l''], cm_risk = Low, cm_side_effect_class = ReadOnly, cm_sandbox_profile = None,
      cm_input_schema = JNull, cm_credentials = [], cm_tags = []\<rparr> [] empty_registry,
     dp_secrets = None, dp_policy = allow_all, dp_receipts = False, dp_broker = None\<rparr>
    \<lparr>dq_full_name = ''p.c'', dq_args = JNull, dq_profile = [], dq_env = [], dq_dry_run = False,
     dq_timeout_secs = None, dq_domain_id = None, dq_agent_id = None\<rparr> cap \<and> cm_backend cap = Subprocess ''ls'' [''-l'']"
  (is "\<exists>cap. permitted ?dp ?req cap \<and> _")
proof -
  let ?su = "\<lparr>su_environ = (\<lambda>_. None), su_to_string = (\<lambda>_. []), su_from_str = (\<lambda>_. None), su_debug = (\<lambda>_. [])\<rparr>"
  have "dispatch_start ?su ?dp ?req [] [] (\<lambda>_. None) =
    (Waiting None \<lparr>sw_command = ''ls'', sw_args = [''-l''], sw_env = [], sw_timeout = 30\<rparr>, \<lambda>_. None)"
    by (simp add: dispatch_start_def registry_full_name_def evaluate_policy_def allow_all_def default_decision_def
        resolved_credentials_def resolve_credentials_with_registry_def credential_env_def dispatch_execute_def
        subprocess_spawn_def input_env_def)
  from dispatch_runs_only_permitted [OF this] show ?thesis
    by auto
qed



section \<open>Receipts of dispatches\<close>

lemma finish_receipt_id:
  "dispatch_start su dp req rid sid store = (r, store') \<Longrightarrow>
   dr_receipt_id (fst (dispatch_finish su show_nat rid ms r out st)) = rid"
  using start_cases [of su dp req rid sid store r store']
  by (auto simp: dispatch_finish_def dispatch_result_of_def error_result_def split: running.splits sum.splits)

text \<open>Every dispatch, refused, failed or run, leaves exactly one receipt under the id of its result,
  behind the receipts of whatever ran in the meantime.\<close>

lemma dispatch_one_receipt:
  assumes "dispatch su show_nat dp req rid sid ms now exec meanwhile st = (result, st')" "dp_receipts dp"
    and "\<And>s. ds_receipts (meanwhile s) = ds_receipts s @ others"
    and "\<forall>x\<in>set (ds_receipts st @ others). rc_id x \<noteq> rid"
  shows "\<exists>os. (os = [] \<or> os = others) \<and>
    ds_receipts st' = ds_receipts st @ os @ [dispatch_receipt su req result now] \<and> dr_receipt_id result = rid"
proof -
  obtain r store where r: "dispatch_start su dp req rid sid (ds_sessions st) = (r, store)"
    by fastforce
  have id: "dr_receipt_id result = rid"
    using assms(1) finish_receipt_id [OF r] r
    by (auto simp: dispatch_def Let_def split: prod.splits running.splits) (metis fst_conv)+
  have rc: "rc_id (dispatch_receipt su req result now) = rid"
    by (simp add: dispatch_receipt_def id)
  show ?thesis
    using assms id rc r
    by (auto simp: dispatch_def Let_def write_receipt_def receipt_insert_new split: prod.splits running.splits)
qed

end
