(* ===== verification/Task_Capabilities.thy ===== *)
theory Task_Capabilities
  imports Tower_Data "HOL-Library.Char_ord" "HOL-Library.List_Lexorder"
begin

text \<open>
  crates/edgeplaned-bin/src/capabilities.rs: the vocabulary of coarse capabilities and its translation to the
  allowed tools of an ephemeral subagent. A hash set of fragments is the sorted list without
  repetition that its printer makes of it. The JSON parser and printer are parameters; the dash of a message is written as a hyphen.
\<close>

section \<open>The vocabulary\<close>

definition capability_vocabulary :: "(str \<times> str list) list" where
  "capability_vocabulary = [
   (''shell:read'', [''Bash(ls *)'', ''Bash(cat *)'', ''Bash(head *)'', ''Bash(tail *)'',
      ''Bash(grep *)'', ''Bash(find *)'', ''Bash(pwd)'', ''Bash(echo *)'', ''Bash(date *)'']),
   (''shell:write'', [''Bash(*)'']),
   (''fs:read'', [''Read'', ''Glob'', ''Grep'']),
   (''fs:write'', [''Read'', ''Write'', ''Edit'', ''Glob'', ''Grep'']),
   (''vault:read'', [''Bash(vault note read *)'', ''Bash(vault note list *)'', ''Bash(vault search *)'']),
   (''vault:write'', [''Bash(vault note read *)'', ''Bash(vault note list *)'',
      ''Bash(vault search *)'', ''Bash(vault note write *)'', ''Bash(vault note create *)'',
      ''Bash(vault note patch *)'', ''Bash(vault note append *)'']),
   (''edgeplane:read'', [''Bash(edgeplane agent ls *)'', ''Bash(edgeplane daemon agent ls *)'',
      ''Bash(edgeplane daemon task ls *)'', ''Bash(edgeplane agent cron list)'',
      ''Bash(edgeplane agent cron describe *)'', ''Bash(edgeplane status *)'']),
   (''edgeplane:write'', [''Bash(edgeplane agent ls *)'', ''Bash(edgeplane daemon agent ls *)'',
      ''Bash(edgeplane daemon task ls *)'', ''Bash(edgeplane agent cron list)'',
      ''Bash(edgeplane agent cron describe *)'', ''Bash(edgeplane status *)'',
      ''Bash(edgeplane daemon task submit *)'', ''Bash(edgeplane daemon agent enroll *)'',
      ''Bash(edgeplane agent signal *)'']),
   (''web:fetch'', [''WebFetch'', ''WebSearch'']),
   (''gh:read'', [''Bash(gh repo view *)'', ''Bash(gh issue view *)'', ''Bash(gh issue list *)'',
      ''Bash(gh pr view *)'', ''Bash(gh pr list *)'', ''Bash(gh run list *)'', ''Bash(gh run view *)'',
      ''Bash(gh api *)'']),
   (''gh:write'', [''Bash(gh repo view *)'', ''Bash(gh issue view *)'', ''Bash(gh issue list *)'',
      ''Bash(gh pr view *)'', ''Bash(gh pr list *)'', ''Bash(gh run list *)'', ''Bash(gh run view *)'',
      ''Bash(gh api *)'', ''Bash(gh issue create *)'', ''Bash(gh issue comment *)'',
      ''Bash(gh pr create *)'', ''Bash(gh pr comment *)''])]"

section \<open>Translation\<close>

type_synonym allowed_tools = "str list"

definition tools_from_set :: "str list \<Rightarrow> allowed_tools" where
  "tools_from_set fragments = sort (remdups fragments)"

definition to_cli_string :: "allowed_tools \<Rightarrow> str" where
  "to_cli_string tools = join_with (CHR '','') tools"

fun collect_fragments :: "str list \<Rightarrow> str list \<Rightarrow> str + str list" where
  "collect_fragments [] acc = Inr acc"
| "collect_fragments (cap # caps) acc =
     (case map_of capability_vocabulary cap of
        Some frags \<Rightarrow> collect_fragments caps (acc @ frags)
      | None \<Rightarrow> Inl (''unknown capability: '' @ cap))"

definition translate_capabilities :: "str list \<Rightarrow> str + allowed_tools" where
  "translate_capabilities capabilities =
     (case collect_fragments capabilities [] of Inl e \<Rightarrow> Inl e | Inr fs \<Rightarrow> Inr (tools_from_set fs))"

definition resolve_capabilities :: "str list \<Rightarrow> bool \<Rightarrow> str list \<Rightarrow> str + allowed_tools" where
  "resolve_capabilities parsed strict defaults =
     (if parsed \<noteq> [] then translate_capabilities parsed
      else if strict then Inl ''task is missing required_capabilities - dispatcher must declare blast radius''
      else (case translate_capabilities defaults of
              Inr tools \<Rightarrow> Inr tools
            | Inl _ \<Rightarrow> translate_capabilities [''fs:read'']))"

fun string_items :: "(json \<Rightarrow> str) \<Rightarrow> (nat \<Rightarrow> str) \<Rightarrow> nat \<Rightarrow> json list \<Rightarrow> str + str list" where
  "string_items show show_nat i [] = Inr []"
| "string_items show show_nat i (item # items) =
     (case item of
        JStr s \<Rightarrow> (case string_items show show_nat (i + 1) items of Inl e \<Rightarrow> Inl e | Inr ss \<Rightarrow> Inr (s # ss))
      | other \<Rightarrow> Inl (''required_capabilities['' @ show_nat i @ ''] must be a string, got: '' @ show other))"

definition parse_required_capabilities ::
  "(str \<Rightarrow> str + json) \<Rightarrow> (json \<Rightarrow> str) \<Rightarrow> (nat \<Rightarrow> str) \<Rightarrow> str \<Rightarrow> str + str list" where
  "parse_required_capabilities parse show show_nat raw =
     (let trimmed = trim raw in
      if trimmed = [] then Inr []
      else case parse trimmed of
        Inl e \<Rightarrow> Inl (''required_capabilities is not valid JSON: '' @ e)
      | Inr (JList arr) \<Rightarrow> string_items show show_nat 0 arr
      | Inr other \<Rightarrow> Inl (''required_capabilities must be a JSON array, got: '' @ show other))"

section \<open>What a task is allowed\<close>

definition granted :: "str list \<Rightarrow> str set" where
  "granted caps = {f. \<exists>c\<in>set caps. \<exists>fs. map_of capability_vocabulary c = Some fs \<and> f \<in> set fs}"

definition known :: "str list \<Rightarrow> bool" where
  "known caps = list_all (\<lambda>c. map_of capability_vocabulary c \<noteq> None) caps"

lemma collect_fragments_known:
  "known caps \<Longrightarrow> \<exists>fs. collect_fragments caps acc = Inr fs \<and> set fs = set acc \<union> granted caps"
  by (induction caps acc rule: collect_fragments.induct) (auto simp: known_def granted_def)

lemma collect_fragments_unknown:
  "\<not> known caps \<Longrightarrow> \<exists>c\<in>set caps. map_of capability_vocabulary c = None \<and>
     collect_fragments caps acc = Inl (''unknown capability: '' @ c)"
  by (induction caps acc rule: collect_fragments.induct) (auto simp: known_def split: option.splits)

lemma tools_from_set [simp]: "set (tools_from_set fs) = set fs" "distinct (tools_from_set fs)" "sorted (tools_from_set fs)"
  by (simp_all add: tools_from_set_def)

lemma translate_known:
  "known caps \<Longrightarrow> \<exists>tools. translate_capabilities caps = Inr tools \<and> set tools = granted caps \<and>
     distinct tools \<and> sorted tools"
  using collect_fragments_known [of caps "[]"] by (auto simp: translate_capabilities_def)

lemma translate_unknown:
  "\<not> known caps \<Longrightarrow> \<exists>c\<in>set caps. translate_capabilities caps = Inl (''unknown capability: '' @ c) \<and>
     map_of capability_vocabulary c = None"
  using collect_fragments_unknown [of caps "[]"] by (fastforce simp: translate_capabilities_def)

lemma vocabulary_plain:
  "list_all (\<lambda>(c, fs). list_all (\<lambda>f. f \<noteq> [] \<and> CHR '','' \<notin> set f) fs \<and> fs \<noteq> []) capability_vocabulary"
  by code_simp

lemma granted_plain: "f \<in> granted caps \<Longrightarrow> f \<noteq> [] \<and> CHR '','' \<notin> set f"
  using vocabulary_plain by (fastforce simp: granted_def list_all_iff dest: map_of_SomeD)

lemma cli_string_split:
  assumes "set tools \<subseteq> granted caps" "tools \<noteq> []"
  shows "split_on (CHR '','') (to_cli_string tools) = tools"
  unfolding to_cli_string_def using assms granted_plain by (intro split_join) auto

lemma fs_read_known: "known [''fs:read'']"
  by code_simp

lemma translate_not_Inl [simp]: "known caps \<Longrightarrow> translate_capabilities caps \<noteq> Inl e"
  using translate_known by fastforce

lemma translate_set: "translate_capabilities cs = Inr ts \<Longrightarrow> set ts = granted cs \<and> distinct ts \<and> sorted ts"
  using translate_known [of cs] translate_unknown [of cs] by fastforce

lemma resolve_lenient:
  "\<exists>tools. resolve_capabilities [] False defaults = Inr tools \<and>
     set tools = granted (if known defaults then defaults else [''fs:read''])"
  using translate_known [of defaults] translate_unknown [of defaults] translate_known [OF fs_read_known]
  by (auto simp: resolve_capabilities_def)

text \<open>The writing capability of a family grants what its reading capability grants, except in the shell
  family, where the one fragment of shell:write is not textually among those of shell:read.\<close>

definition subsumes :: "str \<Rightarrow> str \<Rightarrow> bool" where
  "subsumes w r = (case (map_of capability_vocabulary w, map_of capability_vocabulary r) of
     (Some ws, Some rs) \<Rightarrow> list_all (\<lambda>f. f \<in> set ws) rs | _ \<Rightarrow> False)"

lemma write_subsumes_read:
  "subsumes ''fs:write'' ''fs:read'' \<and> subsumes ''vault:write'' ''vault:read'' \<and>
   subsumes ''edgeplane:write'' ''edgeplane:read'' \<and> subsumes ''gh:write'' ''gh:read'' \<and>
   \<not> subsumes ''shell:write'' ''shell:read''"
  by code_simp

lemma subsumes_granted: "subsumes w r \<Longrightarrow> granted [r] \<subseteq> granted [w]"
  by (auto simp: subsumes_def granted_def list_all_iff split: option.splits prod.splits)

text \<open>a subagent is allowed exactly what was declared. Declared capabilities grant the union of their
  entries in the vocabulary, or fail the task when one is unknown; without a declaration strict mode
  always fails, and lenient mode never does: it grants the defaults when all of them are known and
  fs:read alone otherwise. The string handed to the command splits at its commas into exactly the
  granted fragments, without repetition and in order.\<close>

theorem allowed_tools_exact:
  "(\<forall>caps strict defaults. caps \<noteq> [] \<longrightarrow>
      (if known caps then \<exists>tools. resolve_capabilities caps strict defaults = Inr tools \<and> set tools = granted caps
       else \<exists>c\<in>set caps. resolve_capabilities caps strict defaults = Inl (''unknown capability: '' @ c))) \<and>
   (\<forall>defaults. \<exists>e. resolve_capabilities [] True defaults = Inl e) \<and>
   (\<forall>defaults. \<exists>tools. resolve_capabilities [] False defaults = Inr tools \<and>
      set tools = granted (if known defaults then defaults else [''fs:read''])) \<and>
   (\<forall>caps strict defaults tools. resolve_capabilities caps strict defaults = Inr tools \<longrightarrow> distinct tools \<and> sorted tools \<and>
      (tools \<noteq> [] \<longrightarrow> split_on (CHR '','') (to_cli_string tools) = tools))"
proof (intro conjI allI impI)
  fix caps strict defaults
  assume "caps \<noteq> ([] :: str list)"
  then show "if known caps then \<exists>tools. resolve_capabilities caps strict defaults = Inr tools \<and> set tools = granted caps
       else \<exists>c\<in>set caps. resolve_capabilities caps strict defaults = Inl (''unknown capability: '' @ c)"
    using translate_known [of caps] translate_unknown [of caps] by (auto simp: resolve_capabilities_def)
next
  fix defaults
  show "\<exists>e. resolve_capabilities [] True defaults = Inl e"
    by (simp add: resolve_capabilities_def)
  show "\<exists>tools. resolve_capabilities [] False defaults = Inr tools \<and>
      set tools = granted (if known defaults then defaults else [''fs:read''])"
    by (rule resolve_lenient)
next
  fix caps strict defaults tools
  assume r: "resolve_capabilities caps strict defaults = Inr tools"
  have "\<exists>cs. translate_capabilities cs = Inr tools"
    using r unfolding resolve_capabilities_def by (auto split: if_splits sum.splits)
  then obtain cs where cs: "translate_capabilities cs = Inr tools"
    by blast
  show "distinct tools" "sorted tools"
    using translate_set [OF cs] by simp_all
  assume "tools \<noteq> []"
  then show "split_on (CHR '','') (to_cli_string tools) = tools"
    using cli_string_split [of tools cs] translate_set [OF cs] by simp
qed

lemma allowed_tools_exact_witness:
  "\<exists>tools. resolve_capabilities [''fs:read'', ''web:fetch''] True [] = Inr tools \<and>
     set tools = granted [''fs:read'', ''web:fetch'']"
proof -
  have "known [''fs:read'', ''web:fetch'']"
    by code_simp
  then show ?thesis
    using conjunct1 [OF allowed_tools_exact, rule_format, of "[''fs:read'', ''web:fetch'']" True "[]"] by simp
qed

end
