(* ===== verification/Task_Worker.thy ===== *)
theory Task_Worker
  imports Task_Capabilities
begin

text \<open>
  crates/edgeplaned-bin/src/task_worker.rs: the worker that claims ready tasks for the profiles of its node
  and runs each in an ephemeral subagent. A lifecycle is the list of the calls it makes to the
  control plane, the file system and the operating system, in order; how each call is answered is a
  parameter that may depend on the calls before it. The polling loop is a step relation over the
  semaphore and the set of tasks in flight.
\<close>

section \<open>Which tasks\<close>

definition parse_target_profile :: "(str \<Rightarrow> str + json) \<Rightarrow> str \<Rightarrow> str option" where
  "parse_target_profile parse claim_policy =
     (case parse claim_policy of Inl _ \<Rightarrow> None | Inr v \<Rightarrow> jfield_str ''target_profile'' v)"

definition claim_policy_of :: "json \<Rightarrow> str" where
  "claim_policy_of task = (case jfield_str ''claim_policy'' task of Some s \<Rightarrow> s | None \<Rightarrow> ''{}'')"

definition should_claim :: "(str \<Rightarrow> str + json) \<Rightarrow> json \<Rightarrow> str set \<Rightarrow> bool" where
  "should_claim parse task supervised_profiles =
     (case parse_target_profile parse (claim_policy_of task) of
        Some profile \<Rightarrow> profile \<noteq> [] \<and> profile \<in> supervised_profiles
      | None \<Rightarrow> False)"

text \<open>Three round trips; only a failure of the first is an error. A listing is None when its request
  failed.\<close>

record scan_api =
  get_domains :: "str + json list"
  get_missions :: "str \<Rightarrow> json list option"
  get_ready_tasks :: "str \<Rightarrow> json list option"

definition scan_mission :: "(str \<Rightarrow> str + json) \<Rightarrow> scan_api \<Rightarrow> str set \<Rightarrow> json \<Rightarrow> json list" where
  "scan_mission parse api supervised mission =
     (case jfield_str ''id'' mission of
        None \<Rightarrow> []
      | Some mission_id \<Rightarrow>
          (case get_ready_tasks api mission_id of
             None \<Rightarrow> []
           | Some ts \<Rightarrow> filter (\<lambda>t. should_claim parse t supervised) ts))"

definition scan_domain :: "(str \<Rightarrow> str + json) \<Rightarrow> scan_api \<Rightarrow> str set \<Rightarrow> json \<Rightarrow> json list" where
  "scan_domain parse api supervised domain =
     (case jfield_str ''id'' domain of
        None \<Rightarrow> []
      | Some domain_id \<Rightarrow>
          (case get_missions api domain_id of
             None \<Rightarrow> []
           | Some ms \<Rightarrow> concat (map (scan_mission parse api supervised) ms)))"

definition scan_ready_tasks :: "(str \<Rightarrow> str + json) \<Rightarrow> scan_api \<Rightarrow> str set \<Rightarrow> str + json list" where
  "scan_ready_tasks parse api supervised =
     (case get_domains api of
        Inl e \<Rightarrow> Inl (''GET /domains failed: '' @ e)
      | Inr ds \<Rightarrow> Inr (concat (map (scan_domain parse api supervised) ds)))"

section \<open>The prompt\<close>

definition input_prompt :: "(str \<Rightarrow> str + json) \<Rightarrow> json \<Rightarrow> str option" where
  "input_prompt parse task =
     (case jget ''input_json'' task of
        None \<Rightarrow> None
      | Some ij \<Rightarrow>
          (case (case jstr ij of Some s \<Rightarrow> (case parse s of Inr v \<Rightarrow> Some v | Inl _ \<Rightarrow> None) | None \<Rightarrow> Some ij) of
             None \<Rightarrow> None
           | Some v \<Rightarrow> jfield_str ''prompt'' v))"

definition build_prompt :: "(str \<Rightarrow> str + json) \<Rightarrow> json \<Rightarrow> str" where
  "build_prompt parse task =
     (case input_prompt parse task of
        Some p \<Rightarrow> p
      | None \<Rightarrow>
          (case jfield_str ''description'' task of
             Some desc \<Rightarrow>
               if desc \<noteq> [] then desc
               else (case jfield_str ''title'' task of Some t \<Rightarrow> t | None \<Rightarrow> ''Complete the assigned task.'')
           | None \<Rightarrow> (case jfield_str ''title'' task of Some t \<Rightarrow> t | None \<Rightarrow> ''Complete the assigned task.'')))"

text \<open>PathBuf::join: an absolute path replaces the base.\<close>

definition path_join :: "str \<Rightarrow> str \<Rightarrow> str" where
  "path_join base p = (if starts_with ''/'' p then p else base @ ''/'' @ p)"

definition worktree_path_for_task :: "str \<Rightarrow> str \<Rightarrow> str" where
  "worktree_path_for_task ep_home task_id = path_join (path_join ep_home ''worktrees'') task_id"

section \<open>The lifecycle of one task\<close>

text \<open>RunCommand carries the program, its arguments, the directory and the token put into the child's
  environment as EP_AGENT_TOKEN; the two EP_SECRETS variables are always removed from it.\<close>

datatype worker_call =
    Enroll str json
  | ClaimTask str str
  | MakeDir str
  | StartRun str str
  | RunCommand str "str list" str "str option"
  | CompleteRun str str
  | CompleteTask str str
  | FailTask str str
  | DeleteAgent str
  | RemoveDir str

record worker_env =
  we_reply :: "worker_call list \<Rightarrow> worker_call \<Rightarrow> json option"
  we_done :: "worker_call list \<Rightarrow> worker_call \<Rightarrow> bool"
  we_exit :: "worker_call list \<Rightarrow> worker_call \<Rightarrow> bool option"
  we_parse :: "str \<Rightarrow> str + json"
  we_show :: "json \<Rightarrow> str"
  we_show_nat :: "nat \<Rightarrow> str"
  we_home :: str
  we_version :: str

record worker_config =
  wc_strict_capabilities :: bool
  wc_default_capabilities :: "str list"
  wc_subagent_command :: str

definition enroll_body :: "worker_env \<Rightarrow> str \<Rightarrow> str \<Rightarrow> json" where
  "enroll_body env target_profile task_id = JObj
     [(''agent_name'', JStr target_profile),
      (''runtime_kind'', JStr ''claude_headless''),
      (''runtime_version'', JStr (''task-worker-v'' @ we_version env)),
      (''capabilities'', JList [JStr ''shell'', JStr ''fs:read'', JStr ''fs:write'']),
      (''labels'', JObj [(''role'', JStr ''task-subagent''), (''ephemeral'', JBool True),
         (''task_id'', JStr task_id), (''target_profile'', JStr target_profile)])]"

definition task_tools :: "worker_env \<Rightarrow> worker_config \<Rightarrow> json \<Rightarrow> str + allowed_tools" where
  "task_tools env cfg task =
     (let raw_caps = (case jfield_str ''required_capabilities'' task of Some s \<Rightarrow> s | None \<Rightarrow> []) in
      case parse_required_capabilities (we_parse env) (we_show env) (we_show_nat env) raw_caps of
        Inl e \<Rightarrow> Inl e
      | Inr caps \<Rightarrow> resolve_capabilities caps (wc_strict_capabilities cfg) (wc_default_capabilities cfg))"

definition subagent_args :: "str \<Rightarrow> allowed_tools \<Rightarrow> str list" where
  "subagent_args prompt tools =
     [''-p'', prompt, ''--output-format'', ''json'', ''--allowed-tools'', to_cli_string tools]"

text \<open>From the start of the AgentRun on: the run, the tools, the command and the cleanup.\<close>

definition run_in_worktree ::
  "worker_env \<Rightarrow> worker_config \<Rightarrow> json \<Rightarrow> str \<Rightarrow> str \<Rightarrow> str option \<Rightarrow> str \<Rightarrow> worker_call list \<Rightarrow> worker_call list" where
  "run_in_worktree env cfg task task_id agent_id token worktree tr =
     (let start = StartRun agent_id task_id;
          run_id = (case we_reply env tr start of Some j \<Rightarrow> jfield_str ''id'' j | None \<Rightarrow> None);
          tr1 = tr @ [start];
          cleanup = [DeleteAgent agent_id, RemoveDir worktree] in
      case task_tools env cfg task of
        Inl _ \<Rightarrow> tr1 @ FailTask task_id agent_id # cleanup
      | Inr tools \<Rightarrow>
          (let cmd = RunCommand (wc_subagent_command cfg) (subagent_args (build_prompt (we_parse env) task) tools) worktree token;
               ok = (we_exit env tr1 cmd = Some True) in
           tr1 @ [cmd]
             @ (case run_id of Some rid \<Rightarrow> [CompleteRun rid (if ok then ''completed'' else ''failed'')] | None \<Rightarrow> [])
             @ [if ok then CompleteTask task_id agent_id else FailTask task_id agent_id]
             @ cleanup))"

definition run_enrolled ::
  "worker_env \<Rightarrow> worker_config \<Rightarrow> json \<Rightarrow> str \<Rightarrow> str \<Rightarrow> str option \<Rightarrow> worker_call list \<Rightarrow> worker_call list" where
  "run_enrolled env cfg task task_id agent_id token tr =
     (let claim = ClaimTask task_id agent_id;
          tr1 = tr @ [claim];
          worktree = worktree_path_for_task (we_home env) task_id;
          mkdir = MakeDir worktree;
          tr2 = tr1 @ [mkdir] in
      if \<not> we_done env tr claim then tr1 @ [DeleteAgent agent_id]
      else if \<not> we_done env tr1 mkdir then tr2 @ [FailTask task_id agent_id, DeleteAgent agent_id]
      else run_in_worktree env cfg task task_id agent_id token worktree tr2)"

definition run_task_lifecycle :: "worker_env \<Rightarrow> worker_config \<Rightarrow> json \<Rightarrow> worker_call list" where
  "run_task_lifecycle env cfg task =
     (case (jfield_str ''id'' task, jfield_str ''domain_id'' task) of
        (Some task_id, Some domain_id) \<Rightarrow>
          (let target_profile = (case parse_target_profile (we_parse env) (claim_policy_of task) of
                 Some p \<Rightarrow> p | None \<Rightarrow> ''unknown'');
               enroll = Enroll domain_id (enroll_body env target_profile task_id) in
           case we_reply env [] enroll of
             None \<Rightarrow> [enroll]
           | Some resp \<Rightarrow>
               (case jfield_str ''id'' resp of
                  None \<Rightarrow> [enroll]
                | Some agent_id \<Rightarrow>
                    run_enrolled env cfg task task_id agent_id (jfield_str ''agent_token'' resp) [enroll]))
      | _ \<Rightarrow> [])"

section \<open>The polling loop\<close>

text \<open>Free permits of the semaphore, the tasks in flight, the lifecycles that run, and the number of
  finished ones that still hold their permit.\<close>

record worker_state =
  ws_permits :: nat
  ws_in_flight :: "str set"
  ws_running :: "str list"
  ws_ending :: nat

definition worker_init :: "nat \<Rightarrow> worker_state" where
  "worker_init max_concurrent = \<lparr>ws_permits = max_concurrent, ws_in_flight = {}, ws_running = [], ws_ending = 0\<rparr>"

fun poll_tasks :: "json list \<Rightarrow> worker_state \<Rightarrow> worker_state" where
  "poll_tasks [] s = s"
| "poll_tasks (task # ts) s =
     (case jfield_str ''id'' task of
        None \<Rightarrow> poll_tasks ts s
      | Some task_id \<Rightarrow>
          if task_id \<in> ws_in_flight s then poll_tasks ts s
          else if ws_permits s = 0 then s
          else poll_tasks ts
            (s\<lparr>ws_permits := ws_permits s - 1, ws_in_flight := insert task_id (ws_in_flight s),
               ws_running := task_id # ws_running s\<rparr>))"

definition poll_and_claim :: "(str \<Rightarrow> str + json) \<Rightarrow> scan_api \<Rightarrow> str set \<Rightarrow> worker_state \<Rightarrow> worker_state" where
  "poll_and_claim parse api supervised s =
     (case scan_ready_tasks parse api supervised of Inl _ \<Rightarrow> s | Inr ts \<Rightarrow> poll_tasks ts s)"

inductive worker_step :: "worker_state \<Rightarrow> worker_state \<Rightarrow> bool" where
  poll: "worker_step s (poll_and_claim parse api supervised s)"
| lifecycle_over: "ws_running s = xs @ i # ys \<Longrightarrow>
    worker_step s (s\<lparr>ws_running := xs @ ys, ws_in_flight := ws_in_flight s - {i}, ws_ending := ws_ending s + 1\<rparr>)"
| permit_dropped: "0 < ws_ending s \<Longrightarrow>
    worker_step s (s\<lparr>ws_ending := ws_ending s - 1, ws_permits := ws_permits s + 1\<rparr>)"

inductive worker_reachable :: "nat \<Rightarrow> worker_state \<Rightarrow> bool" for n where
  init: "worker_reachable n (worker_init n)"
| step: "worker_reachable n s \<Longrightarrow> worker_step s s' \<Longrightarrow> worker_reachable n s'"

inductive_cases worker_stepE: "worker_step s s'"

section \<open>Bounded concurrency\<close>

definition worker_ok :: "nat \<Rightarrow> worker_state \<Rightarrow> bool" where
  "worker_ok n s = (ws_permits s + length (ws_running s) + ws_ending s = n \<and>
     distinct (ws_running s) \<and> set (ws_running s) = ws_in_flight s)"

lemma poll_tasks_ok: "worker_ok n s \<Longrightarrow> worker_ok n (poll_tasks ts s)"
  by (induction ts s rule: poll_tasks.induct) (auto simp: worker_ok_def split: option.splits)

lemma poll_and_claim_ok: "worker_ok n s \<Longrightarrow> worker_ok n (poll_and_claim parse api supervised s)"
  by (auto simp: poll_and_claim_def poll_tasks_ok split: sum.splits)

lemma worker_step_ok: "worker_step s s' \<Longrightarrow> worker_ok n s \<Longrightarrow> worker_ok n s'"
  by (erule worker_stepE) (simp add: poll_and_claim_ok, auto simp: worker_ok_def)

text \<open>the worker stays within its cap and never runs a task twice at once. In every reachable state
  of the polling loop the permits that are free, the lifecycles that run and those that still hold
  their permit add up to the cap, no task runs in two lifecycles, and the tasks in flight are exactly
  those that run.\<close>

theorem subagents_bounded:
  "worker_reachable n s \<Longrightarrow> ws_permits s + length (ws_running s) + ws_ending s = n \<and>
     distinct (ws_running s) \<and> set (ws_running s) = ws_in_flight s"
proof -
  assume "worker_reachable n s"
  then have "worker_ok n s"
    by induction (auto simp: worker_step_ok, simp add: worker_ok_def worker_init_def)
  then show ?thesis
    by (simp add: worker_ok_def)
qed

lemma subagents_bounded_witness:
  "ws_permits (poll_and_claim (\<lambda>_. Inl []) \<lparr>get_domains = Inl [], get_missions = (\<lambda>_. None), get_ready_tasks = (\<lambda>_. None)\<rparr>
     {} (worker_init 3)) \<le> 3"
  (is "ws_permits ?s \<le> _")
proof -
  have "worker_reachable 3 ?s"
    by (intro worker_reachable.step [OF worker_reachable.init worker_step.poll])
  from subagents_bounded [OF this] show ?thesis
    by linarith
qed

section \<open>Every lifecycle is finished and cleaned up\<close>

text \<open>The calls of a trace that the environment carried out.\<close>

fun carried_out :: "worker_env \<Rightarrow> worker_call list \<Rightarrow> worker_call list \<Rightarrow> worker_call set" where
  "carried_out env pre [] = {}"
| "carried_out env pre (c # cs) = (if we_done env pre c then {c} else {}) \<union> carried_out env (pre @ [c]) cs"

lemma carried_out_subset: "carried_out env pre cs \<subseteq> set cs"
  by (induction env pre cs rule: carried_out.induct) auto

definition enrolled_as :: "worker_env \<Rightarrow> worker_call list \<Rightarrow> str \<Rightarrow> bool" where
  "enrolled_as env tr a = (case tr of
     Enroll d b # _ \<Rightarrow> (case we_reply env [] (Enroll d b) of Some j \<Rightarrow> jfield_str ''id'' j = Some a | None \<Rightarrow> False)
   | _ \<Rightarrow> False)"

definition is_run :: "worker_call \<Rightarrow> bool" where
  "is_run c = (case c of RunCommand _ _ _ _ \<Rightarrow> True | _ \<Rightarrow> False)"

lemma lifecycle_cases:
  obtains (nothing) "run_task_lifecycle env cfg task = []"
  | (refused) d b where "run_task_lifecycle env cfg task = [Enroll d b]"
      "\<And>a. \<not> enrolled_as env [Enroll d b] a"
  | (enrolled) t d b a tok where "run_task_lifecycle env cfg task = run_enrolled env cfg task t a tok [Enroll d b]"
      "jfield_str ''id'' task = Some t" "\<And>x tr. enrolled_as env (Enroll d b # tr) x \<longleftrightarrow> x = a"
proof (cases "jfield_str ''id'' task = None \<or> jfield_str ''domain_id'' task = None")
  case True
  then show ?thesis
    by - (rule nothing, auto simp: run_task_lifecycle_def split: option.splits)
next
  case False
  then obtain t d where td: "jfield_str ''id'' task = Some t" "jfield_str ''domain_id'' task = Some d"
    by auto
  define b where "b = enroll_body env (case parse_target_profile (we_parse env) (claim_policy_of task) of
    Some p \<Rightarrow> p | None \<Rightarrow> ''unknown'') t"
  show ?thesis
  proof (cases "\<exists>a. enrolled_as env [Enroll d b] a")
    case True
    then obtain a resp where "we_reply env [] (Enroll d b) = Some resp" "jfield_str ''id'' resp = Some a"
      by (auto simp: enrolled_as_def split: option.splits)
    then show ?thesis
      using td by (intro enrolled [of t a "jfield_str ''agent_token'' resp" d b])
        (auto simp: run_task_lifecycle_def b_def Let_def enrolled_as_def)
  next
    case False
    then show ?thesis
      using td by (intro refused [of d b])
        (auto simp: run_task_lifecycle_def b_def Let_def enrolled_as_def split: option.splits)
  qed
qed

lemma run_enrolled_shape:
  obtains (unclaimed) "run_enrolled env cfg task t a tok tr = tr @ [ClaimTask t a, DeleteAgent a]"
      "\<not> we_done env tr (ClaimTask t a)"
  | (no_dir) "run_enrolled env cfg task t a tok tr = tr @ [ClaimTask t a, MakeDir (worktree_path_for_task (we_home env) t), FailTask t a, DeleteAgent a]"
      "we_done env tr (ClaimTask t a)" "\<not> we_done env (tr @ [ClaimTask t a]) (MakeDir (worktree_path_for_task (we_home env) t))"
  | (no_tools) "run_enrolled env cfg task t a tok tr =
        tr @ [ClaimTask t a, MakeDir (worktree_path_for_task (we_home env) t), StartRun a t, FailTask t a, DeleteAgent a, RemoveDir (worktree_path_for_task (we_home env) t)]"
      "we_done env tr (ClaimTask t a)" "we_done env (tr @ [ClaimTask t a]) (MakeDir (worktree_path_for_task (we_home env) t))"
      "\<And>tools. task_tools env cfg task \<noteq> Inr tools"
  | (ran) cmd tools rs ok where "run_enrolled env cfg task t a tok tr =
        tr @ [ClaimTask t a, MakeDir (worktree_path_for_task (we_home env) t), StartRun a t, cmd] @ rs @
          [if ok then CompleteTask t a else FailTask t a, DeleteAgent a, RemoveDir (worktree_path_for_task (we_home env) t)]"
      "we_done env tr (ClaimTask t a)" "we_done env (tr @ [ClaimTask t a]) (MakeDir (worktree_path_for_task (we_home env) t))"
      "task_tools env cfg task = Inr tools"
      "cmd = RunCommand (wc_subagent_command cfg) (subagent_args (build_prompt (we_parse env) task) tools) (worktree_path_for_task (we_home env) t) tok"
      "ok \<longleftrightarrow> we_exit env (tr @ [ClaimTask t a, MakeDir (worktree_path_for_task (we_home env) t), StartRun a t]) cmd = Some True"
      "rs = [] \<or> (\<exists>rid. rs = [CompleteRun rid (if ok then ''completed'' else ''failed'')])"
proof -
  show ?thesis
  proof (cases "we_done env tr (ClaimTask t a) \<and> we_done env (tr @ [ClaimTask t a]) (MakeDir (worktree_path_for_task (we_home env) t))")
    case False
    show ?thesis
    proof (cases "we_done env tr (ClaimTask t a)")
      case True
      with False show ?thesis
        by (intro no_dir) (simp_all add: run_enrolled_def Let_def)
    next
      case False
      then show ?thesis
        by (intro unclaimed) (simp_all add: run_enrolled_def Let_def)
    qed
  next
    case claimed: True
    show ?thesis
    proof (cases "task_tools env cfg task")
      case (Inl e)
      with claimed show ?thesis
        by (intro no_tools) (simp_all add: run_enrolled_def run_in_worktree_def Let_def)
    next
      case (Inr tools)
      define w where "w = worktree_path_for_task (we_home env) t"
      define tr3 where "tr3 = tr @ [ClaimTask t a, MakeDir w, StartRun a t]"
      define cmd where "cmd = RunCommand (wc_subagent_command cfg) (subagent_args (build_prompt (we_parse env) task) tools) w tok"
      define ok where "ok = (we_exit env tr3 cmd = Some True)"
      define rid where "rid = (case we_reply env (tr @ [ClaimTask t a, MakeDir w]) (StartRun a t) of
        Some j \<Rightarrow> jfield_str ''id'' j | None \<Rightarrow> None)"
      define rs where "rs = (case rid of Some r \<Rightarrow> [CompleteRun r (if ok then ''completed'' else ''failed'')] | None \<Rightarrow> [])"
      have "run_enrolled env cfg task t a tok tr = tr @ [ClaimTask t a, MakeDir w, StartRun a t, cmd] @ rs @
          [if ok then CompleteTask t a else FailTask t a, DeleteAgent a, RemoveDir w]"
        using claimed by (simp add: run_enrolled_def run_in_worktree_def Let_def Inr rs_def rid_def ok_def cmd_def tr3_def w_def)
      moreover have "rs = [] \<or> (\<exists>r. rs = [CompleteRun r (if ok then ''completed'' else ''failed'')])"
        by (cases rid) (simp_all add: rs_def)
      ultimately show ?thesis
        using claimed Inr cmd_def ok_def unfolding tr3_def w_def by (intro ran) simp_all
    qed
  qed
qed

definition lifecycle_ok :: "worker_env \<Rightarrow> worker_call list \<Rightarrow> bool" where
  "lifecycle_ok env tr \<longleftrightarrow>
     (\<forall>a. enrolled_as env tr a \<longrightarrow> count_list tr (DeleteAgent a) = 1)
   \<and> (\<forall>t a. ClaimTask t a \<in> carried_out env [] tr \<longrightarrow>
        count_list tr (CompleteTask t a) + count_list tr (FailTask t a) = 1)
   \<and> (\<forall>t a. CompleteTask t a \<in> set tr \<longrightarrow> (\<exists>xs c ys. tr = xs @ c # ys \<and> is_run c \<and> we_exit env xs c = Some True))
   \<and> (\<forall>d. MakeDir d \<in> carried_out env [] tr \<longleftrightarrow> RemoveDir d \<in> set tr)
   \<and> (\<forall>xs c ys. tr = xs @ c # ys \<and> is_run c \<longrightarrow>
        (\<exists>t a. ClaimTask t a \<in> carried_out env [] xs) \<and> filter is_run (xs @ ys) = [])"

lemma only_one_split:
  assumes "pre @ c # post = xs @ d # ys" "P d" "filter P (pre @ post) = []"
  shows "xs = pre \<and> d = c \<and> ys = post"
proof -
  have "\<forall>x\<in>set pre \<union> set post. \<not> P x"
    using assms(3) by (auto simp: filter_empty_conv)
  then show ?thesis
    using assms(1,2) by (auto simp: append_eq_append_conv2 append_eq_Cons_conv Cons_eq_append_conv)
qed

lemma lifecycle_ok_enrolled:
  assumes only: "\<And>x tr. enrolled_as env (Enroll d b # tr) x \<longleftrightarrow> x = a"
  shows "lifecycle_ok env (run_enrolled env cfg task t a tok [Enroll d b])"
proof (cases rule: run_enrolled_shape [where env = env and cfg = cfg and task = task and t = t and a = a and tok = tok and tr = "[Enroll d b]"])
  case unclaimed
  then show ?thesis
    by (auto simp: lifecycle_ok_def only is_run_def Cons_eq_append_conv)
next
  case no_dir
  then show ?thesis
    by (auto simp: lifecycle_ok_def only is_run_def Cons_eq_append_conv)
next
  case no_tools
  then show ?thesis
    by (auto simp: lifecycle_ok_def only is_run_def Cons_eq_append_conv)
next
  case (ran cmd tools rs ok)
  let ?w = "worktree_path_for_task (we_home env) t" and ?tr = "run_enrolled env cfg task t a tok [Enroll d b]"
  let ?pre = "[Enroll d b, ClaimTask t a, MakeDir ?w, StartRun a t]"
  let ?post = "rs @ [if ok then CompleteTask t a else FailTask t a, DeleteAgent a, RemoveDir ?w]"
  have tr: "?tr = ?pre @ cmd # ?post"
    using ran(1) by simp
  have rs: "rs = [] \<or> (\<exists>rid s. rs = [CompleteRun rid s])"
    using ran(7) by blast
  have accepted: "ClaimTask t a \<in> carried_out env [] ?pre" "MakeDir ?w \<in> carried_out env [] ?tr"
    using ran(2,3) unfolding tr by simp_all
  have run: "is_run cmd" "filter is_run (?pre @ ?post) = []"
    using ran(5) rs by (auto simp: is_run_def)
  have "\<forall>x. enrolled_as env ?tr x \<longrightarrow> count_list ?tr (DeleteAgent x) = 1"
    using rs ran(5) unfolding tr by (auto simp: only)
  moreover have "\<forall>t' a'. ClaimTask t' a' \<in> carried_out env [] ?tr \<longrightarrow>
      count_list ?tr (CompleteTask t' a') + count_list ?tr (FailTask t' a') = 1"
  proof (intro allI impI)
    fix t' a'
    assume "ClaimTask t' a' \<in> carried_out env [] ?tr"
    then have "ClaimTask t' a' \<in> set ?tr"
      using carried_out_subset by blast
    then have "t' = t \<and> a' = a"
      using rs ran(5) unfolding tr by (cases ok) auto
    then show "count_list ?tr (CompleteTask t' a') + count_list ?tr (FailTask t' a') = 1"
      using rs ran(5) unfolding tr by (cases ok) auto
  qed
  moreover have "\<forall>t' a'. CompleteTask t' a' \<in> set ?tr \<longrightarrow>
      (\<exists>xs c ys. ?tr = xs @ c # ys \<and> is_run c \<and> we_exit env xs c = Some True)"
  proof (cases ok)
    case True
    then have "we_exit env ?pre cmd = Some True"
      using ran(6) by simp
    then show ?thesis
      using run(1) tr by blast
  next
    case False
    then show ?thesis
      using rs ran(5) unfolding tr by auto
  qed
  moreover have "\<forall>x. MakeDir x \<in> carried_out env [] ?tr \<longleftrightarrow> RemoveDir x \<in> set ?tr"
  proof
    fix x
    have "MakeDir x \<in> set ?tr \<longleftrightarrow> x = ?w" "RemoveDir x \<in> set ?tr \<longleftrightarrow> x = ?w"
      using rs ran(5) unfolding tr by (cases ok; auto)+
    then show "MakeDir x \<in> carried_out env [] ?tr \<longleftrightarrow> RemoveDir x \<in> set ?tr"
      using carried_out_subset [of env "[]" ?tr] accepted(2) by blast
  qed
  moreover have "(\<exists>t a. ClaimTask t a \<in> carried_out env [] xs) \<and> filter is_run (xs @ ys) = []"
    if "?tr = xs @ c # ys" "is_run c" for xs c ys
  proof -
    have "xs = ?pre \<and> c = cmd \<and> ys = ?post"
      using that run unfolding tr by (metis only_one_split)
    then show ?thesis
      using accepted(1) run(2) by blast
  qed
  ultimately show ?thesis
    unfolding lifecycle_ok_def by blast
qed



section \<open>What the worker reads of the rows the tower sends\<close>

lemma row_fields:
  "jfield_str ''required_capabilities'' (row_to_task r) = None"
  "jget ''input_json'' (row_to_task r) = None"
  "jfield_str ''description'' (row_to_task r) = Some (t_description r)"
  "jfield_str ''title'' (row_to_task r) = Some (t_title r)"
  by (simp_all add: row_to_task_def jfield_str_def)

lemma row_tools:
  "task_tools env cfg (row_to_task r) =
     resolve_capabilities [] (wc_strict_capabilities cfg) (wc_default_capabilities cfg)"
  by (simp add: task_tools_def row_fields parse_required_capabilities_def trim_def)

lemma row_prompt:
  "build_prompt parse (row_to_task r) = (if t_description r \<noteq> [] then t_description r else t_title r)"
  by (simp add: build_prompt_def input_prompt_def row_fields)

lemma run_enrolled_command:
  assumes "RunCommand cmd args dir tok \<in> set (run_enrolled env cfg task t a tok' [Enroll d b])"
  shows "\<exists>tools. task_tools env cfg task = Inr tools \<and> args = subagent_args (build_prompt (we_parse env) task) tools"
proof (cases rule: run_enrolled_shape [where env = env and cfg = cfg and task = task and t = t and a = a and tok = tok' and tr = "[Enroll d b]"])
  case (ran cmd' tools rs ok)
  have "rs = [] \<or> (\<exists>rid s. rs = [CompleteRun rid s])"
    using ran(7) by blast
  then have "RunCommand cmd args dir tok = cmd'"
    using assms unfolding ran(1) by (cases ok) auto
  then show ?thesis
    using ran(4,5) by simp
qed (use assms in simp_all)

lemma run_enrolled_no_tools:
  assumes "\<And>tools. task_tools env cfg task \<noteq> Inr tools"
  shows "CompleteRun rid s \<notin> set (run_enrolled env cfg task t a tok' [Enroll d b])"
  by (cases rule: run_enrolled_shape [where env = env and cfg = cfg and task = task and t = t and a = a and tok = tok' and tr = "[Enroll d b]"])
    (use assms in simp_all)

lemma lifecycle_command:
  assumes "RunCommand cmd args dir tok \<in> set (run_task_lifecycle env cfg task)"
  shows "\<exists>tools. task_tools env cfg task = Inr tools \<and> args = subagent_args (build_prompt (we_parse env) task) tools"
proof (cases rule: lifecycle_cases [where env = env and cfg = cfg and task = task])
  case (enrolled t d b a tok')
  then have "RunCommand cmd args dir tok \<in> set (run_enrolled env cfg task t a tok' [Enroll d b])"
    using assms by simp
  then show ?thesis
    by (rule run_enrolled_command)
qed (use assms in simp_all)

text \<open>what a task declares never reaches its subagent. The tower sends the required capabilities of a
  task as a JSON array and its input not at all, while the worker looks for a string and for the
  input. So on every row of the tower, strict mode runs no command at all, whatever the row declares,
  and leaves the run it has started open; and in lenient mode the command is given the tools of the
  defaults, even if the row declares fewer, with the description, or without one the title, as prompt.\<close>

theorem declared_capabilities_ignored:
  assumes "run_task_lifecycle env cfg (row_to_task r) = tr"
  shows "(wc_strict_capabilities cfg \<longrightarrow> filter is_run tr = [] \<and> (\<forall>rid s. CompleteRun rid s \<notin> set tr))
    \<and> (\<not> wc_strict_capabilities cfg \<longrightarrow> (\<forall>cmd args dir tok. RunCommand cmd args dir tok \<in> set tr \<longrightarrow>
        (\<exists>tools. set tools = granted (if known (wc_default_capabilities cfg) then wc_default_capabilities cfg else [''fs:read'']) \<and>
           args = subagent_args (if t_description r \<noteq> [] then t_description r else t_title r) tools)))"
proof -
  have tools: "task_tools env cfg (row_to_task r) = resolve_capabilities [] (wc_strict_capabilities cfg) (wc_default_capabilities cfg)"
    by (rule row_tools)
  have strict: "resolve_capabilities [] True ds \<noteq> Inr ts" for ds ts
    by (simp add: resolve_capabilities_def)
  have lenient: "resolve_capabilities [] False ds = Inr ts \<Longrightarrow> set ts = granted (if known ds then ds else [''fs:read''])" for ds ts
    using resolve_lenient [of ds] by auto
  have "\<not> is_run c" if "c \<in> set tr" "wc_strict_capabilities cfg" for c
  proof
    assume "is_run c"
    then obtain cmd args dir tok where "c = RunCommand cmd args dir tok"
      by (auto simp: is_run_def split: worker_call.splits)
    then show False
      using that lifecycle_command [of cmd args dir tok env cfg "row_to_task r"] strict tools
      unfolding assms by auto
  qed
  moreover have "CompleteRun rid s \<notin> set tr" if "wc_strict_capabilities cfg" for rid s
  proof (cases rule: lifecycle_cases [where env = env and cfg = cfg and task = "row_to_task r"])
    case (enrolled t d b a tok')
    have "task_tools env cfg (row_to_task r) \<noteq> Inr ts" for ts
      using strict that tools by simp
    then show ?thesis
      using run_enrolled_no_tools assms unfolding enrolled(1) by blast
  qed (use assms in auto)
  moreover have "\<exists>tools. set tools = granted (if known (wc_default_capabilities cfg) then wc_default_capabilities cfg else [''fs:read'']) \<and>
      args = subagent_args (if t_description r \<noteq> [] then t_description r else t_title r) tools"
    if run: "RunCommand cmd args dir tok \<in> set tr" and lax: "\<not> wc_strict_capabilities cfg" for cmd args dir tok
  proof -
    obtain ts where ts: "task_tools env cfg (row_to_task r) = Inr ts"
      "args = subagent_args (build_prompt (we_parse env) (row_to_task r)) ts"
      using lifecycle_command [of cmd args dir tok env cfg "row_to_task r"] run assms by auto
    then show ?thesis
      using lax tools lenient by (intro exI [of _ ts]) (simp add: row_prompt)
  qed
  ultimately show ?thesis
    by (auto simp: filter_empty_conv)
qed

lemma declared_capabilities_ignored_witness:
  "filter is_run (run_task_lifecycle
      \<lparr>we_reply = (\<lambda>_ _. Some (JObj [(''id'', JStr ''x'')])), we_done = (\<lambda>_ _. True), we_exit = (\<lambda>_ _. Some True),
       we_parse = (\<lambda>_. Inl []), we_show = (\<lambda>_. []), we_show_nat = (\<lambda>_. []), we_home = ''/h'', we_version = ''1''\<rparr>
      \<lparr>wc_strict_capabilities = True, wc_default_capabilities = [], wc_subagent_command = ''claude''\<rparr>
      (row_to_task ((sample_task ''t1'')\<lparr>t_required_capabilities := [''fs:read'']\<rparr>))) = []"
  using declared_capabilities_ignored [OF refl] by simp

end
