(* ===== verification/Watchdog.thy ===== *)
theory Watchdog
  imports Tower_Data
begin

text \<open>
  crates/edgeplaned-work (watchdog.rs, claim.rs) and the task loop of crates/edgeplaned-bin/src/task_loop.rs:
  the connectivity state that the heartbeats of all agents of a node drive, the gate each loop
  passes before it works, the choice of a task, and the streaming of a task's progress. Loops of
  several agents interleave at their suspension points and share one watchdog.
\<close>

section \<open>The watchdog\<close>

datatype offline_policy = Strict | SafeReadonly | Autonomous nat

datatype connectivity = Connected | Degraded time | Offline time

definition policy_of_config :: "str \<Rightarrow> offline_policy" where
  "policy_of_config s =
     (if s = ''safe_readonly'' then SafeReadonly else if s = ''autonomous'' then Autonomous 300 else Strict)"

text \<open>num_seconds truncates, unsigned_abs drops the sign.\<close>

definition elapsed_secs :: "time \<Rightarrow> time \<Rightarrow> nat" where
  "elapsed_secs now since = nat (\<bar>now - since\<bar> div 1000000)"

definition record_heartbeat_success :: "connectivity \<Rightarrow> connectivity" where
  "record_heartbeat_success st = Connected"

definition record_heartbeat_failure :: "nat \<Rightarrow> time \<Rightarrow> connectivity \<Rightarrow> connectivity" where
  "record_heartbeat_failure grace_secs now st =
     (case st of
        Connected \<Rightarrow> Degraded now
      | Degraded since \<Rightarrow> if grace_secs \<le> elapsed_secs now since then Offline since else st
      | Offline _ \<Rightarrow> st)"

definition is_offline :: "connectivity \<Rightarrow> bool" where
  "is_offline st = (case st of Offline _ \<Rightarrow> True | _ \<Rightarrow> False)"

text \<open>The heartbeats a watchdog has seen, newest first, with their times and whether they succeeded.\<close>

type_synonym beats = "(time \<times> bool) list"

fun watch :: "nat \<Rightarrow> beats \<Rightarrow> connectivity" where
  "watch grace [] = Connected"
| "watch grace ((t, ok) # bs) =
     (if ok then record_heartbeat_success (watch grace bs) else record_heartbeat_failure grace t (watch grace bs))"

section \<open>The gate of the task loop\<close>

definition loop_paused :: "offline_policy \<Rightarrow> time \<Rightarrow> connectivity \<Rightarrow> bool" where
  "loop_paused policy now st =
     (case (policy, st) of
        (Strict, Offline _) \<Rightarrow> True
      | (SafeReadonly, Offline _) \<Rightarrow> True
      | (Autonomous max_ttl_secs, Offline since) \<Rightarrow> max_ttl_secs < elapsed_secs now since
      | _ \<Rightarrow> False)"

definition POLL_INTERVAL_MIN :: nat where "POLL_INTERVAL_MIN = 5"
definition POLL_INTERVAL_MAX :: nat where "POLL_INTERVAL_MAX = 30"
definition HEARTBEAT_INTERVAL :: nat where "HEARTBEAT_INTERVAL = 30"

definition back_off :: "nat \<Rightarrow> nat" where
  "back_off poll_interval = min (poll_interval * 2) POLL_INTERVAL_MAX"

text \<open>A loop is at its top, waits for the answer to its own heartbeat, or works on what it claimed. One
  node: its policy, its watchdog with the beats recorded so far, and for every agent the phase and
  the poll interval of its loop.\<close>

datatype loop_phase = AtTop | Beating | Working

record node_loops =
  nl_beats :: beats
  nl_phase :: "nat \<Rightarrow> loop_phase"
  nl_interval :: "nat \<Rightarrow> nat"

definition node_init :: node_loops where
  "node_init = \<lparr>nl_beats = [], nl_phase = (\<lambda>_. AtTop), nl_interval = (\<lambda>_. POLL_INTERVAL_MIN)\<rparr>"

inductive loop_step :: "offline_policy \<Rightarrow> nat \<Rightarrow> node_loops \<Rightarrow> node_loops \<Rightarrow> bool"
  for policy :: offline_policy and grace :: nat where
  paused: "nl_phase s a = AtTop \<Longrightarrow> loop_paused policy now (watch grace (nl_beats s)) \<Longrightarrow>
     loop_step policy grace s (s\<lparr>nl_interval := (nl_interval s)(a := back_off (nl_interval s a))\<rparr>)"
| send_beat: "nl_phase s a = AtTop \<Longrightarrow> \<not> loop_paused policy now (watch grace (nl_beats s)) \<Longrightarrow>
     loop_step policy grace s (s\<lparr>nl_phase := (nl_phase s)(a := Beating)\<rparr>)"
| beat_failed: "nl_phase s a = Beating \<Longrightarrow>
     loop_step policy grace s (s\<lparr>nl_phase := (nl_phase s)(a := AtTop), nl_beats := (now, False) # nl_beats s,
       nl_interval := (nl_interval s)(a := back_off (nl_interval s a))\<rparr>)"
| beat_ok_idle: "nl_phase s a = Beating \<Longrightarrow> i \<in> {back_off (nl_interval s a), POLL_INTERVAL_MIN} \<Longrightarrow>
     loop_step policy grace s (s\<lparr>nl_phase := (nl_phase s)(a := AtTop), nl_beats := (now, True) # nl_beats s,
       nl_interval := (nl_interval s)(a := i)\<rparr>)"
| beat_ok_claimed: "nl_phase s a = Beating \<Longrightarrow>
     loop_step policy grace s (s\<lparr>nl_phase := (nl_phase s)(a := Working), nl_beats := (now, True) # nl_beats s,
       nl_interval := (nl_interval s)(a := POLL_INTERVAL_MIN)\<rparr>)"
| work_done: "nl_phase s a = Working \<Longrightarrow>
     loop_step policy grace s (s\<lparr>nl_phase := (nl_phase s)(a := AtTop)\<rparr>)"

inductive_cases loop_stepE: "loop_step policy grace s s'"

abbreviation loop_steps :: "offline_policy \<Rightarrow> nat \<Rightarrow> node_loops \<Rightarrow> node_loops \<Rightarrow> bool" where
  "loop_steps policy grace \<equiv> (loop_step policy grace)\<^sup>*\<^sup>*"

section \<open>Offline needs its grace\<close>

fun silent_since :: "beats \<Rightarrow> time option" where
  "silent_since [] = None"
| "silent_since ((t, ok) # bs) = (if ok then None else case silent_since bs of Some s \<Rightarrow> Some s | None \<Rightarrow> Some t)"

lemma watch_silent:
  "(watch grace bs = Connected \<longleftrightarrow> silent_since bs = None) \<and>
   (\<forall>s. watch grace bs = Degraded s \<or> watch grace bs = Offline s \<longrightarrow> silent_since bs = Some s)"
  by (induction grace bs rule: watch.induct)
    (auto simp: record_heartbeat_success_def record_heartbeat_failure_def split: connectivity.splits if_splits)

text \<open>The failures of the current silence: the beats since the last success.\<close>

definition outage :: "beats \<Rightarrow> time list" where
  "outage bs = map fst (takeWhile (\<lambda>(_, ok). \<not> ok) bs)"

lemma outage_Cons: "outage ((t, ok) # bs) = (if ok then [] else t # outage bs)"
  by (simp add: outage_def)

lemma silent_since_outage: "silent_since bs = (if outage bs = [] then None else Some (last (outage bs)))"
proof (induction bs)
  case (Cons b bs)
  then show ?case
    by (cases b) (simp add: outage_Cons)
qed (simp add: outage_def)

lemma watch_offline_iff:
  "watch grace bs = Offline s \<longleftrightarrow>
     outage bs \<noteq> [] \<and> s = last (outage bs) \<and> (\<exists>t\<in>set (butlast (outage bs)). grace \<le> elapsed_secs t s)"
proof (induction bs arbitrary: s)
  case (Cons b bs)
  obtain t ok where b: "b = (t, ok)"
    by (cases b)
  show ?case
  proof (cases "ok \<or> outage bs = []")
    case True
    then show ?thesis
      using watch_silent [of grace bs]
      by (auto simp: b outage_Cons record_heartbeat_success_def record_heartbeat_failure_def silent_since_outage)
  next
    case False
    define f where "f = last (outage bs)"
    have IH: "watch grace bs = Offline f \<longleftrightarrow> (\<exists>t\<in>set (butlast (outage bs)). grace \<le> elapsed_secs t f)"
      using Cons.IH [of f] False by (simp add: f_def)
    have now: "outage (b # bs) = t # outage bs" "last (t # outage bs) = f" "butlast (t # outage bs) = t # butlast (outage bs)"
      using False by (simp_all add: b outage_Cons f_def)
    have "watch grace (b # bs) = (if grace \<le> elapsed_secs t f then Offline f else watch grace bs)"
      "watch grace bs = Degraded f \<or> watch grace bs = Offline f"
      using watch_silent [of grace bs] False
      by (cases "watch grace bs"; simp add: b silent_since_outage record_heartbeat_failure_def f_def)+
    then show ?thesis
      using IH unfolding now by (auto split: if_splits)
  qed
qed (simp add: outage_def)

text \<open>the watchdog goes offline exactly after its grace. It is connected exactly when the last
  heartbeat of the node succeeded or there was none; it is offline exactly when some failure of the
  current outage other than the first came at least grace_secs whole seconds apart from the first, and
  then the outage is dated at that first failure; one success ends it from any state.\<close>

theorem offline_after_grace:
  "(watch grace bs = Connected \<longleftrightarrow> outage bs = []) \<and>
   (\<forall>s. watch grace bs = Offline s \<longleftrightarrow> outage bs \<noteq> [] \<and> s = last (outage bs) \<and>
      (\<exists>t\<in>set (butlast (outage bs)). grace \<le> elapsed_secs t s)) \<and>
   (\<forall>s. watch grace bs = Degraded s \<longrightarrow> s = last (outage bs)) \<and>
   (\<forall>t. watch grace ((t, True) # bs) = Connected)"
  using watch_silent [of grace bs] watch_offline_iff [of grace bs]
  by (auto simp: silent_since_outage record_heartbeat_success_def split: if_splits)

lemma offline_after_grace_witness:
  "watch 30 [(secs 31, False), (secs 0, False)] = Offline (secs 0)"
proof -
  have o: "outage [(secs 31, False), (secs 0, False)] = [secs 31, secs 0]"
    by (simp add: outage_def)
  have "(30::nat) \<le> elapsed_secs (secs 31) (secs 0)"
    by (simp add: elapsed_secs_def secs_def)
  then show ?thesis
    using conjunct1 [OF conjunct2 [OF offline_after_grace [of 30 "[(secs 31, False), (secs 0, False)]"]]] o by simp
qed

section \<open>Offline is forever\<close>

lemma paused_step:
  assumes "loop_step policy grace s s'" "\<And>now. loop_paused policy now (watch grace (nl_beats s))" "\<forall>a. nl_phase s a = AtTop"
  shows "nl_beats s' = nl_beats s \<and> (\<forall>a. nl_phase s' a = AtTop)"
  using assms(1) by (rule loop_stepE) (use assms(2,3) in auto)

lemma paused_steps:
  assumes "loop_steps policy grace s s'" "\<And>now. loop_paused policy now (watch grace (nl_beats s))" "\<forall>a. nl_phase s a = AtTop"
  shows "nl_beats s' = nl_beats s \<and> (\<forall>a. nl_phase s' a = AtTop)"
  using assms(1)
proof (induction rule: rtranclp_induct)
  case (step s1 s2)
  then show ?case
    using paused_step [OF step.hyps(2)] assms(2) by simp
qed (use assms(3) in simp)

text \<open>under the strict and the read-only policy an offline node stays offline. Heartbeats are sent only
  by the loops, and only past the gate that an offline watchdog closes. So once the watchdog of a node
  is offline and no loop is past its gate, no sequence of steps, whatever the clock says and whether
  or not the backend is back, ever sends a heartbeat, claims a task or leaves the offline state.\<close>

theorem offline_is_forever:
  assumes "policy = Strict \<or> policy = SafeReadonly" "is_offline (watch grace (nl_beats s))"
    and "\<forall>a. nl_phase s a = AtTop" "loop_steps policy grace s s'"
  shows "nl_beats s' = nl_beats s \<and> is_offline (watch grace (nl_beats s')) \<and> (\<forall>a. nl_phase s' a = AtTop)"
proof -
  have "loop_paused policy now (watch grace (nl_beats s))" for now
    using assms(1,2) by (auto simp: loop_paused_def is_offline_def split: connectivity.splits)
  from paused_steps [OF assms(4) this assms(3)] show ?thesis
    using assms(2) by simp
qed

lemma offline_is_forever_witness:
  "is_offline (watch 0 (nl_beats (node_init\<lparr>nl_beats := [(2, False), (1, False)],
     nl_interval := (\<lambda>_. POLL_INTERVAL_MIN)(7 := back_off POLL_INTERVAL_MIN)\<rparr>)))"
proof -
  let ?s = "node_init\<lparr>nl_beats := [(2, False), (1, False)]\<rparr>"
  have off: "is_offline (watch 0 (nl_beats ?s))"
    by (simp add: is_offline_def record_heartbeat_failure_def)
  have step: "loop_step Strict 0 ?s (?s\<lparr>nl_interval := (nl_interval ?s)(7 := back_off (nl_interval ?s 7))\<rparr>)"
    using off by (intro loop_step.paused [where now = 0])
      (auto simp: node_init_def loop_paused_def is_offline_def split: connectivity.splits)
  have "loop_steps Strict 0 ?s (?s\<lparr>nl_interval := (nl_interval ?s)(7 := back_off (nl_interval ?s 7))\<rparr>)"
    by (rule r_into_rtranclp) (rule step)
  from offline_is_forever [OF disjI1 [OF refl] off _ this] show ?thesis
    by (simp add: node_init_def)
qed

text \<open>Until its time to live is over, an autonomous node does get out: its loop may send a heartbeat, and
  the answer to it connects the watchdog.\<close>

lemma autonomous_recovers:
  assumes "watch grace (nl_beats s) = Offline since" "elapsed_secs now since \<le> ttl" "nl_phase s a = AtTop"
  shows "\<exists>s'. loop_steps (Autonomous ttl) grace s s' \<and> watch grace (nl_beats s') = Connected"
proof -
  let ?s1 = "s\<lparr>nl_phase := (nl_phase s)(a := Beating)\<rparr>"
  let ?s2 = "?s1\<lparr>nl_phase := (nl_phase ?s1)(a := AtTop), nl_beats := (now, True) # nl_beats ?s1,
    nl_interval := (nl_interval ?s1)(a := POLL_INTERVAL_MIN)\<rparr>"
  have "loop_step (Autonomous ttl) grace s ?s1"
    using assms by (intro loop_step.send_beat [where now = now]) (simp_all add: loop_paused_def)
  moreover have "loop_step (Autonomous ttl) grace ?s1 ?s2"
    by (rule loop_step.beat_ok_idle) simp_all
  ultimately show ?thesis
    by (intro exI [of _ ?s2]) (auto simp: record_heartbeat_success_def intro: rtranclp.intros)
qed

section \<open>Choosing and running a task\<close>

record mesh_task =
  mt_id :: str
  mt_status :: str
  mt_claim_policy :: str
  mt_required_capabilities :: "str list"
  mt_depends_on :: "str list"
  mt_consumes :: json

definition eligible :: "str list \<Rightarrow> mesh_task \<Rightarrow> bool" where
  "eligible caps t =
     (list_all (\<lambda>req. req \<in> set caps) (mt_required_capabilities t) \<and>
      \<not> ((case mt_consumes t of JObj fs \<Rightarrow> fs \<noteq> [] | _ \<Rightarrow> False) \<and> mt_depends_on t = []))"

definition filter_eligible :: "mesh_task list \<Rightarrow> str list \<Rightarrow> mesh_task list" where
  "filter_eligible ts caps = filter (eligible caps) ts"

text \<open>A listing that fails counts as empty.\<close>

definition poll_ready_tasks :: "mesh_task list option \<Rightarrow> mesh_task list option \<Rightarrow> mesh_task list" where
  "poll_ready_tasks ready broadcast_running =
     (case ready of Some ts \<Rightarrow> ts | None \<Rightarrow> []) @
     filter (\<lambda>t. mt_claim_policy t = ''broadcast'') (case broadcast_running of Some ts \<Rightarrow> ts | None \<Rightarrow> [])"

text \<open>The control plane answers a claim with the record and the lease, or refuses it.\<close>

definition try_claim_one ::
  "(str \<Rightarrow> (mesh_task \<times> str option) option) \<Rightarrow> mesh_task list \<Rightarrow> str list \<Rightarrow> (mesh_task \<times> str option) option" where
  "try_claim_one claim ts caps =
     (case filter_eligible ts caps of
        [] \<Rightarrow> None
      | candidate # _ \<Rightarrow>
          (case claim (mt_id candidate) of
             Some (t, lease) \<Rightarrow> Some (t\<lparr>mt_status := ''claimed''\<rparr>, lease)
           | None \<Rightarrow> None))"

fun claim_first ::
  "(str \<Rightarrow> mesh_task list) \<Rightarrow> (str \<Rightarrow> (mesh_task \<times> str option) option) \<Rightarrow> str list \<Rightarrow> str list \<Rightarrow>
   (mesh_task \<times> str option) option" where
  "claim_first listing claim caps [] = None"
| "claim_first listing claim caps (m # ms) =
     (case try_claim_one claim (listing m) caps of
        Some outcome \<Rightarrow> Some outcome
      | None \<Rightarrow> claim_first listing claim caps ms)"

text \<open>One event of the progress stream, the seconds since the last lease heartbeat when it is handled, and
  the answer to the heartbeat that is then due.\<close>

datatype lease_reply = LeaseOk | LeaseMismatch | LeaseOther

record stream_event =
  se_is_error :: bool
  se_since_beat :: nat
  se_reply :: lease_reply

fun stream_and_heartbeat :: "bool \<Rightarrow> stream_event list \<Rightarrow> bool" where
  "stream_and_heartbeat success [] = success"
| "stream_and_heartbeat success (e # es) =
     (let success' = (if se_is_error e then False else success) in
      if HEARTBEAT_INTERVAL \<le> se_since_beat e \<and> se_reply e = LeaseMismatch then False
      else stream_and_heartbeat success' es)"

lemma claim_first_eligible:
  "claim_first listing claim caps ms = Some (t, lease) \<Longrightarrow>
     \<exists>m\<in>set ms. \<exists>c\<in>set (listing m). eligible caps c \<and> (\<exists>t'. claim (mt_id c) = Some (t', lease) \<and> t = t'\<lparr>mt_status := ''claimed''\<rparr>)"
proof (induction listing claim caps ms rule: claim_first.induct)
  case (2 listing claim caps m ms)
  show ?case
  proof (cases "try_claim_one claim (listing m) caps")
    case None
    then show ?thesis
      using 2 by auto
  next
    case (Some o')
    then obtain c cs where "filter_eligible (listing m) caps = c # cs" "claim (mt_id c) \<noteq> None"
      "try_claim_one claim (listing m) caps = Some (t, lease)"
      using 2(2) by (auto simp: try_claim_one_def split: list.splits option.splits)
    moreover have "c \<in> set (filter_eligible (listing m) caps)"
      using calculation(1) by simp
    then have "c \<in> set (listing m) \<and> eligible caps c"
      by (simp add: filter_eligible_def)
    moreover obtain t' where "claim (mt_id c) = Some (t', lease)" "t = t'\<lparr>mt_status := ''claimed''\<rparr>"
      using calculation(1,3) by (auto simp: try_claim_one_def split: option.splits)
    ultimately show ?thesis
      by (intro bexI [of _ m] bexI [of _ c]) auto
  qed
qed simp

lemma stream_success_iff:
  "stream_and_heartbeat success es \<longleftrightarrow> success \<and>
     list_all (\<lambda>e. \<not> se_is_error e \<and> \<not> (HEARTBEAT_INTERVAL \<le> se_since_beat e \<and> se_reply e = LeaseMismatch)) es"
  by (induction success es rule: stream_and_heartbeat.induct) (auto simp: Let_def)

end
