(* ===== verification/Agent_Registry.thy ===== *)
theory Agent_Registry
  imports Secrets Tower_Data "HOL-Library.Char_ord" "HOL-Library.List_Lexorder"
begin

text \<open>
  The agents a node daemon knows: the specification of one agent to spawn (daemon.rs AgentSpec) and
  the SQLite registry that stores them (edgeplaned-bin local_registry.rs: the tables agent and
  agent_launch_context with their keys, the cascading foreign key, and the operations on them).
  The clock text of a write is an argument. The column capabilities_json holds the JSON value its
  text denotes. A statement that breaks a key or a foreign key returns an error and changes nothing.
\<close>

section \<open>Specifications\<close>

datatype session_mode = TaskMode | PersistentMode

datatype state_dir_spec = PersistentDir str | EphemeralDir "nat option"

record spawn_overrides =
  so_vault_folder :: "str option"
  so_state_dir_spec :: "state_dir_spec option"
  so_zellij_session :: "str option"

definition no_overrides :: spawn_overrides where
  "no_overrides = \<lparr>so_vault_folder = None, so_state_dir_spec = None, so_zellij_session = None\<rparr>"

record agent_spec =
  as_agent_id :: str
  as_domain_id :: str
  as_runtime_kind :: str
  as_session_mode :: session_mode
  as_capabilities :: "str list"
  as_profile_path :: "str option"
  as_webhook_url :: "str option"
  as_launch_overrides :: spawn_overrides
  as_name :: "str option"
  as_local_alias_id :: "str option"

section \<open>Rows\<close>

record agent_record =
  ar_id :: str
  ar_source :: str
  ar_domain_id :: str
  ar_runtime_kind :: str
  ar_supervision_mode :: str
  ar_capabilities_json :: json
  ar_profile_path :: "str option"
  ar_enrolled_at :: str
  ar_last_synced_at :: "str option"

record launch_context =
  lc_source :: str
  lc_agent_id :: str
  lc_vault_folder :: "str option"
  lc_state_dir_spec :: "state_dir_spec option"
  lc_zellij_session :: "str option"
  lc_systemd_service :: "str option"
  lc_supervise_paused :: bool

record agent_registry =
  rg_agents :: "agent_record table"
  rg_contexts :: "launch_context table"

definition supervision_of :: "session_mode \<Rightarrow> str" where
  "supervision_of m = (case m of TaskMode \<Rightarrow> ''task'' | PersistentMode \<Rightarrow> ''persistent'')"

definition string_list_of :: "json \<Rightarrow> str list" where
  "string_list_of j =
     (case j of
        JList vs \<Rightarrow> if list_all (\<lambda>v. jstr v \<noteq> None) vs then map (\<lambda>v. the (jstr v)) vs else []
      | _ \<Rightarrow> [])"

definition from_spec :: "str \<Rightarrow> agent_spec \<Rightarrow> str \<Rightarrow> agent_record" where
  "from_spec now spec source =
     \<lparr>ar_id = as_agent_id spec, ar_source = source, ar_domain_id = as_domain_id spec,
      ar_runtime_kind = as_runtime_kind spec,
      ar_supervision_mode = supervision_of (as_session_mode spec),
      ar_capabilities_json = JList (map JStr (as_capabilities spec)),
      ar_profile_path = as_profile_path spec, ar_enrolled_at = now, ar_last_synced_at = None\<rparr>"

definition into_spec :: "agent_record \<Rightarrow> agent_spec" where
  "into_spec r =
     \<lparr>as_agent_id = ar_id r, as_domain_id = ar_domain_id r, as_runtime_kind = ar_runtime_kind r,
      as_session_mode = (if ar_supervision_mode r = ''persistent'' then PersistentMode else TaskMode),
      as_capabilities = string_list_of (ar_capabilities_json r), as_profile_path = ar_profile_path r,
      as_webhook_url = None, as_launch_overrides = no_overrides, as_name = None, as_local_alias_id = None\<rparr>"

section \<open>The agent table\<close>

definition agent_key :: "agent_record \<Rightarrow> str \<times> str" where
  "agent_key r = (ar_source r, ar_id r)"

definition context_key :: "launch_context \<Rightarrow> str \<times> str" where
  "context_key c = (lc_source c, lc_agent_id c)"

definition upsert_agent :: "agent_record \<Rightarrow> agent_registry \<Rightarrow> agent_registry" where
  "upsert_agent rec g =
     (if exists_where (by_key agent_key (agent_key rec)) (rg_agents g)
      then g\<lparr>rg_agents := update_where (by_key agent_key (agent_key rec))
        (\<lambda>r. r\<lparr>ar_domain_id := ar_domain_id rec, ar_runtime_kind := ar_runtime_kind rec,
               ar_supervision_mode := ar_supervision_mode rec, ar_capabilities_json := ar_capabilities_json rec,
               ar_profile_path := ar_profile_path rec, ar_last_synced_at := ar_last_synced_at rec\<rparr>) (rg_agents g)\<rparr>
      else g\<lparr>rg_agents := insert_row rec (rg_agents g)\<rparr>)"

definition reassign :: "str \<Rightarrow> str \<Rightarrow> str \<Rightarrow> agent_registry \<Rightarrow> agent_registry \<times> bool" where
  "reassign source agent_id new_domain_id g =
     (g\<lparr>rg_agents := update_where (by_key agent_key (source, agent_id))
          (\<lambda>r. r\<lparr>ar_domain_id := new_domain_id\<rparr>) (rg_agents g)\<rparr>,
      exists_where (by_key agent_key (source, agent_id)) (rg_agents g))"

text \<open>Deleting agent rows deletes the launch contexts that reference them.\<close>

definition delete_agents :: "(str \<times> str \<Rightarrow> bool) \<Rightarrow> agent_registry \<Rightarrow> agent_registry" where
  "delete_agents c g =
     g\<lparr>rg_agents := delete_where (\<lambda>r. tbool (c (agent_key r))) (rg_agents g),
       rg_contexts := delete_where (\<lambda>x. tbool (c (context_key x))) (rg_contexts g)\<rparr>"

definition delete_agent :: "str \<Rightarrow> str \<Rightarrow> agent_registry \<Rightarrow> agent_registry \<times> bool" where
  "delete_agent source agent_id g =
     (delete_agents (\<lambda>k. k = (source, agent_id)) g,
      exists_where (by_key agent_key (source, agent_id)) (rg_agents g))"

definition list_by_source :: "str \<Rightarrow> agent_registry \<Rightarrow> agent_record list" where
  "list_by_source source g =
     sort_key ar_enrolled_at (select_where (\<lambda>r. tbool (ar_source r = source)) (rg_agents g))"

definition list_specs_by_source :: "str \<Rightarrow> agent_registry \<Rightarrow> agent_spec list" where
  "list_specs_by_source source g = map into_spec (list_by_source source g)"

definition list_local_runtime_overrides :: "agent_registry \<Rightarrow> (str \<times> str) list" where
  "list_local_runtime_overrides g =
     map (\<lambda>r. (ar_id r, ar_runtime_kind r))
       (sort_key ar_enrolled_at
         (select_where (\<lambda>r. tbool (\<not> starts_with ''controlplane:'' (map ascii_lower_char (ar_source r)))) (rg_agents g)))"

definition insert_agent :: "agent_record \<Rightarrow> agent_registry \<Rightarrow> agent_registry option" where
  "insert_agent rec g =
     (if exists_where (by_key agent_key (agent_key rec)) (rg_agents g) then None
      else Some (g\<lparr>rg_agents := insert_row rec (rg_agents g)\<rparr>))"

fun insert_agents :: "agent_record list \<Rightarrow> agent_registry \<Rightarrow> agent_registry option" where
  "insert_agents [] g = Some g"
| "insert_agents (r # rs) g = (case insert_agent r g of None \<Rightarrow> None | Some g' \<Rightarrow> insert_agents rs g')"

definition synced_record :: "str \<Rightarrow> str \<Rightarrow> agent_spec \<Rightarrow> agent_record" where
  "synced_record now source spec = (from_spec now spec source)\<lparr>ar_last_synced_at := Some now\<rparr>"

definition replace_source :: "str \<Rightarrow> str \<Rightarrow> agent_spec list \<Rightarrow> agent_registry \<Rightarrow> agent_registry option" where
  "replace_source now source specs g =
     insert_agents (map (synced_record now source) specs) (delete_agents (\<lambda>k. fst k = source) g)"

section \<open>Launch contexts\<close>

definition upsert_launch_context :: "launch_context \<Rightarrow> agent_registry \<Rightarrow> agent_registry option" where
  "upsert_launch_context ctx g =
     (if \<not> exists_where (by_key agent_key (context_key ctx)) (rg_agents g) then None
      else if exists_where (by_key context_key (context_key ctx)) (rg_contexts g)
      then Some (g\<lparr>rg_contexts := update_where (by_key context_key (context_key ctx))
        (\<lambda>c. c\<lparr>lc_vault_folder := lc_vault_folder ctx, lc_state_dir_spec := lc_state_dir_spec ctx,
               lc_zellij_session := lc_zellij_session ctx, lc_systemd_service := lc_systemd_service ctx\<rparr>)
        (rg_contexts g)\<rparr>)
      else Some (g\<lparr>rg_contexts := insert_row ctx (rg_contexts g)\<rparr>))"

definition get_launch_context :: "str \<Rightarrow> str \<Rightarrow> agent_registry \<Rightarrow> launch_context option" where
  "get_launch_context source agent_id g = lookup context_key (source, agent_id) (rg_contexts g)"

definition set_supervise_paused :: "str \<Rightarrow> str \<Rightarrow> bool \<Rightarrow> agent_registry \<Rightarrow> agent_registry \<times> bool" where
  "set_supervise_paused source agent_id paused g =
     (g\<lparr>rg_contexts := update_where (by_key context_key (source, agent_id))
          (\<lambda>c. c\<lparr>lc_supervise_paused := paused\<rparr>) (rg_contexts g)\<rparr>,
      exists_where (by_key context_key (source, agent_id)) (rg_contexts g))"

definition list_launch_contexts_by_source :: "str \<Rightarrow> agent_registry \<Rightarrow> launch_context list" where
  "list_launch_contexts_by_source source g =
     sort_key lc_agent_id (select_where (\<lambda>c. tbool (lc_source c = source)) (rg_contexts g))"

definition list_all_launch_contexts :: "agent_registry \<Rightarrow> launch_context list" where
  "list_all_launch_contexts g = sort_key lc_source (sort_key lc_agent_id (rg_contexts g))"

section \<open>Keys and references\<close>

definition registry_ok :: "agent_registry \<Rightarrow> bool" where
  "registry_ok g \<longleftrightarrow>
     unique_key agent_key (rg_agents g) \<and> unique_key context_key (rg_contexts g) \<and>
     context_key ` set (rg_contexts g) \<subseteq> agent_key ` set (rg_agents g)"

lemma exists_by_key [simp]: "exists_where (by_key key k) t \<longleftrightarrow> k \<in> key ` set t"
  by (auto simp: exists_where_def list_ex_iff)

lemma keys_update [simp]:
  "(\<And>r. key (f r) = key r) \<Longrightarrow> key ` set (update_where c f t) = key ` set t"
  by (metis image_set map_key_update)

lemma keys_delete: "key ` set (delete_where (\<lambda>r. tbool (c (key r))) t) = {k \<in> key ` set t. \<not> c k}"
  by (auto simp: delete_where_def)

lemma upsert_agent_ok: "registry_ok g \<Longrightarrow> registry_ok (upsert_agent rec g)"
  by (auto simp: registry_ok_def upsert_agent_def agent_key_def insert_row_def unique_key_def map_key_update)

lemma reassign_ok: "registry_ok g \<Longrightarrow> registry_ok (fst (reassign s a d g))"
  by (simp add: registry_ok_def reassign_def agent_key_def unique_key_def map_key_update)

lemma delete_agents_ok: "registry_ok g \<Longrightarrow> registry_ok (delete_agents c g)"
  by (auto simp: registry_ok_def delete_agents_def unique_delete_where keys_delete)

lemma insert_agent_ok: "registry_ok g \<Longrightarrow> insert_agent r g = Some g' \<Longrightarrow> registry_ok g'"
  unfolding registry_ok_def insert_agent_def insert_row_def unique_key_def by (fastforce split: if_splits)

lemma insert_agents_ok: "registry_ok g \<Longrightarrow> insert_agents rs g = Some g' \<Longrightarrow> registry_ok g'"
  by (induction rs arbitrary: g) (auto dest: insert_agent_ok split: option.splits)

lemma replace_source_ok: "registry_ok g \<Longrightarrow> replace_source now s specs g = Some g' \<Longrightarrow> registry_ok g'"
  unfolding replace_source_def by (blast intro: insert_agents_ok delete_agents_ok)

lemma context_update_key [simp]:
  "context_key (c\<lparr>lc_vault_folder := v, lc_state_dir_spec := d, lc_zellij_session := z, lc_systemd_service := y\<rparr>) = context_key c"
  by (simp add: context_key_def)

lemma upsert_context_ok: "registry_ok g \<Longrightarrow> upsert_launch_context c g = Some g' \<Longrightarrow> registry_ok g'"
  by (simp add: upsert_launch_context_def registry_ok_def insert_row_def unique_key_def map_key_update split: if_splits)
    (hypsubst, simp add: map_key_update)+

lemma pause_ok: "registry_ok g \<Longrightarrow> registry_ok (fst (set_supervise_paused s a p g))"
  by (simp add: registry_ok_def set_supervise_paused_def context_key_def unique_key_def map_key_update)

lemmas registry_ops_ok =
  upsert_agent_ok reassign_ok delete_agents_ok replace_source_ok upsert_context_ok pause_ok

datatype registry_op =
    OpUpsert agent_record
  | OpReassign str str str
  | OpDelete str str
  | OpReplaceSource str str "agent_spec list"
  | OpUpsertContext launch_context
  | OpPause str str bool

fun registry_run :: "registry_op \<Rightarrow> agent_registry \<Rightarrow> agent_registry" where
  "registry_run (OpUpsert r) g = upsert_agent r g"
| "registry_run (OpReassign s a d) g = fst (reassign s a d g)"
| "registry_run (OpDelete s a) g = fst (delete_agent s a g)"
| "registry_run (OpReplaceSource now s specs) g = (case replace_source now s specs g of None \<Rightarrow> g | Some g' \<Rightarrow> g')"
| "registry_run (OpUpsertContext c) g = (case upsert_launch_context c g of None \<Rightarrow> g | Some g' \<Rightarrow> g')"
| "registry_run (OpPause s a p) g = fst (set_supervise_paused s a p g)"

definition no_agents :: agent_registry where
  "no_agents = \<lparr>rg_agents = [], rg_contexts = []\<rparr>"

lemma registry_run_ok: "registry_ok g \<Longrightarrow> registry_ok (registry_run op g)"
  by (cases op) (auto simp: delete_agent_def intro: registry_ops_ok split: option.split)


section \<open>Replacing a source\<close>

text \<open>What the agent row keeps of a specification.\<close>

definition stored_spec :: "agent_spec \<Rightarrow> agent_spec" where
  "stored_spec s =
     s\<lparr>as_webhook_url := None, as_launch_overrides := no_overrides, as_name := None, as_local_alias_id := None\<rparr>"

lemma string_list_of_strings [simp]: "string_list_of (JList (map JStr xs)) = xs"
  by (simp add: string_list_of_def list_all_iff o_def)

lemma into_from_spec [simp]: "into_spec (from_spec now s source) = stored_spec s"
  by (cases s) (auto simp: into_spec_def from_spec_def stored_spec_def supervision_of_def split: session_mode.split)

lemma into_spec_synced_at [simp]: "into_spec (r\<lparr>ar_last_synced_at := x\<rparr>) = into_spec r"
  by (simp add: into_spec_def)

lemma into_synced [simp]: "into_spec (synced_record now source s) = stored_spec s"
  by (simp add: synced_record_def)

lemma synced_key [simp]:
  "agent_key (synced_record now source s) = (source, as_agent_id s)"
  "ar_source (synced_record now source s) = source"
  "ar_enrolled_at (synced_record now source s) = now"
  by (simp_all add: synced_record_def from_spec_def agent_key_def)

lemma insert_agents_eq:
  "insert_agents rs g =
     (if distinct (map agent_key rs) \<and> agent_key ` set rs \<inter> agent_key ` set (rg_agents g) = {}
      then Some (g\<lparr>rg_agents := rg_agents g @ rs\<rparr>) else None)"
  by (induction rs arbitrary: g) (auto simp: insert_agent_def insert_row_def)

lemma no_source_left: "agent_key r \<in> agent_key ` set (rg_agents (delete_agents (\<lambda>k. fst k = s) g)) \<Longrightarrow> ar_source r \<noteq> s"
  by (auto simp: delete_agents_def delete_where_def agent_key_def)

lemma replace_source_eq:
  "replace_source now s specs g =
     (if distinct (map as_agent_id specs)
      then Some ((delete_agents (\<lambda>k. fst k = s) g)
        \<lparr>rg_agents := rg_agents (delete_agents (\<lambda>k. fst k = s) g) @ map (synced_record now s) specs\<rparr>)
      else None)"
proof -
  have "distinct (map agent_key (map (synced_record now s) specs)) \<longleftrightarrow> distinct (map as_agent_id specs)"
    by (induction specs) auto
  moreover have "agent_key ` set (map (synced_record now s) specs) \<inter>
      agent_key ` set (rg_agents (delete_agents (\<lambda>k. fst k = s) g)) = {}"
    by (auto dest!: no_source_left [where s = s] simp: rev_image_eqI)
       (auto simp: delete_agents_def delete_where_def agent_key_def)
  ultimately show ?thesis
    by (simp add: replace_source_def insert_agents_eq)
qed

lemma insort_key_synced:
  "insort_key ar_enrolled_at (synced_record now s x) (map (synced_record now s) xs) = map (synced_record now s) (x # xs)"
  by (cases xs) auto

lemma list_replaced:
  "replace_source now s specs g = Some g' \<Longrightarrow> list_specs_by_source s g' = map stored_spec specs"
proof -
  assume "replace_source now s specs g = Some g'"
  then have agents: "rg_agents g' = rg_agents (delete_agents (\<lambda>k. fst k = s) g) @ map (synced_record now s) specs"
    by (auto simp: replace_source_eq split: if_splits)
  have "filter (\<lambda>r. ar_source r = s) (rg_agents (delete_agents (\<lambda>k. fst k = s) g)) = []"
    by (auto simp: delete_agents_def delete_where_def agent_key_def filter_empty_conv)
  then have sel: "select_where (\<lambda>r. tbool (ar_source r = s)) (rg_agents g') = map (synced_record now s) specs"
    by (simp add: select_where_def agents filter_map o_def)
  have "sort_key ar_enrolled_at (map (synced_record now s) specs) = map (synced_record now s) specs"
    by (induction specs) (auto simp: insort_key_synced)
  then show ?thesis
    by (simp add: list_specs_by_source_def list_by_source_def sel)
qed

text \<open>Replacing a source is a transaction: it fails, leaving the registry as it was, exactly when the
  new list repeats an agent id; otherwise reading the source back gives the list in its order, with every
  field the row stores (identity, domain, runtime, mode, capabilities, profile) and with the webhook url,
  launch overrides, name and alias cleared, and every other source keeps its agents.\<close>

theorem replace_source_roundtrip:
  "(replace_source now s specs g = None \<longleftrightarrow> \<not> distinct (map as_agent_id specs)) \<and>
   (case replace_source now s specs g of
      None \<Rightarrow> True
    | Some g' \<Rightarrow> list_specs_by_source s g' = map stored_spec specs \<and>
        (\<forall>s'. s' = s \<or> list_specs_by_source s' g' = list_specs_by_source s' g))"
proof -
  have other: "list_specs_by_source s' g' = list_specs_by_source s' g"
    if "replace_source now s specs g = Some g'" "s' \<noteq> s" for s' g'
  proof -
    have "select_where (\<lambda>r. tbool (ar_source r = s')) (rg_agents g') =
        select_where (\<lambda>r. tbool (ar_source r = s')) (rg_agents g)"
      using that by (auto simp: replace_source_eq select_where_def delete_agents_def delete_where_def agent_key_def
          filter_map o_def split: if_splits intro: filter_cong)
    then show ?thesis
      by (simp add: list_specs_by_source_def list_by_source_def)
  qed
  show ?thesis
  proof (cases "replace_source now s specs g")
    case None
    then show ?thesis by (simp add: replace_source_eq split: if_splits)
  next
    case (Some g')
    then have "distinct (map as_agent_id specs)" by (simp add: replace_source_eq split: if_splits)
    with Some show ?thesis
      using other [OF Some] list_replaced [OF Some] by auto
  qed
qed

end
