(* ===== verification/Reconcile.thy ===== *)
theory Reconcile
  imports Agent_Registry "HOL-Library.AList"
begin

text \<open>
  The reconciliation of the agents a node runs with the agents it should run
  (edgeplaned-bin reconcile.rs diff_specs and daemon.rs Spawner::apply_plan). The running agents are an
  association list with distinct keys (the code's hash map); which spawns succeed is a parameter, and
  what is shut down or spawned is logged in order.
\<close>

section \<open>Comparing specifications\<close>

type_synonym running_agents = "(str \<times> agent_spec) list"

definition specs_match_ignoring_id :: "agent_spec \<Rightarrow> agent_spec \<Rightarrow> bool" where
  "specs_match_ignoring_id a b =
     (as_domain_id a = as_domain_id b \<and> as_runtime_kind a = as_runtime_kind b \<and>
      as_session_mode a = as_session_mode b \<and> as_profile_path a = as_profile_path b)"

definition specs_match :: "agent_spec \<Rightarrow> agent_spec \<Rightarrow> bool" where
  "specs_match a b = (as_agent_id a = as_agent_id b \<and> specs_match_ignoring_id a b)"

section \<open>The plan\<close>

record reconcile_plan =
  rp_remove :: "str list"
  rp_spawn :: "agent_spec list"
  rp_restart :: "agent_spec list"
  rp_aliases :: "(str \<times> str) list"

definition matched_by_alias :: "running_agents \<Rightarrow> agent_spec \<Rightarrow> bool" where
  "matched_by_alias running spec = (map_of running (as_agent_id spec) = None \<and> as_local_alias_id spec \<noteq> None)"

definition running_agent :: "running_agents \<Rightarrow> agent_spec \<Rightarrow> agent_spec option" where
  "running_agent running spec =
     (case map_of running (as_agent_id spec) of
        Some r \<Rightarrow> Some r
      | None \<Rightarrow> (case as_local_alias_id spec of Some a \<Rightarrow> map_of running a | None \<Rightarrow> None))"

definition materially_changed :: "running_agents \<Rightarrow> agent_spec \<Rightarrow> agent_spec \<Rightarrow> bool" where
  "materially_changed running existing spec =
     (if matched_by_alias running spec then \<not> specs_match_ignoring_id existing spec
      else \<not> specs_match existing spec)"

definition needs_restart :: "running_agents \<Rightarrow> agent_spec \<Rightarrow> bool" where
  "needs_restart running spec =
     (case running_agent running spec of Some r \<Rightarrow> materially_changed running r spec | None \<Rightarrow> False)"

definition alias_registration :: "running_agents \<Rightarrow> agent_spec \<Rightarrow> (str \<times> str) option" where
  "alias_registration running spec =
     (case running_agent running spec of
        Some r \<Rightarrow>
          if \<not> materially_changed running r spec \<and> matched_by_alias running spec
          then map_option (\<lambda>a. (as_agent_id spec, a)) (as_local_alias_id spec) else None
      | None \<Rightarrow> None)"

definition desired_ids :: "agent_spec list \<Rightarrow> str set" where
  "desired_ids desired = set (map as_agent_id desired)"

definition desired_aliases :: "agent_spec list \<Rightarrow> str set" where
  "desired_aliases desired = set (List.map_filter as_local_alias_id desired)"

definition diff_specs :: "agent_spec list \<Rightarrow> running_agents \<Rightarrow> reconcile_plan" where
  "diff_specs desired running =
     \<lparr>rp_remove = filter (\<lambda>i. i \<notin> desired_ids desired \<and> i \<notin> desired_aliases desired) (map fst running),
      rp_spawn = filter (\<lambda>s. running_agent running s = None) desired,
      rp_restart = filter (needs_restart running) desired,
      rp_aliases = List.map_filter (alias_registration running) desired\<rparr>"

definition is_noop :: "reconcile_plan \<Rightarrow> bool" where
  "is_noop plan = (rp_remove plan = [] \<and> rp_spawn plan = [] \<and> rp_restart plan = [])"

section \<open>Applying a plan\<close>

datatype agent_event = ShutDown str | Spawned agent_spec

record daemon_agents =
  da_running :: running_agents
  da_name_aliases :: "str \<Rightarrow> str option"
  da_attach_aliases :: "str \<Rightarrow> str option"
  da_log :: "agent_event list"

definition stop_agent :: "str \<Rightarrow> daemon_agents \<Rightarrow> daemon_agents" where
  "stop_agent i st =
     (if map_of (da_running st) i = None then st
      else st\<lparr>da_running := AList.delete i (da_running st), da_log := da_log st @ [ShutDown i]\<rparr>)"

definition start_agent :: "(agent_spec \<Rightarrow> bool) \<Rightarrow> agent_spec \<Rightarrow> daemon_agents \<Rightarrow> daemon_agents" where
  "start_agent spawns spec st =
     (if spawns spec
      then st\<lparr>da_running := AList.update (as_agent_id spec) spec (da_running st), da_log := da_log st @ [Spawned spec]\<rparr>
      else st)"

definition restart_agent :: "(agent_spec \<Rightarrow> bool) \<Rightarrow> agent_spec \<Rightarrow> daemon_agents \<Rightarrow> daemon_agents" where
  "restart_agent spawns spec st = start_agent spawns spec (stop_agent (as_agent_id spec) st)"

definition spawn_agent :: "(agent_spec \<Rightarrow> bool) \<Rightarrow> agent_spec \<Rightarrow> daemon_agents \<Rightarrow> daemon_agents" where
  "spawn_agent spawns spec st =
     (let st' = start_agent spawns spec st in
      case as_local_alias_id spec of
        Some a \<Rightarrow> if spawns spec then st'\<lparr>da_name_aliases := (da_name_aliases st')(a \<mapsto> as_agent_id spec)\<rparr> else st'
      | None \<Rightarrow> st')"

definition apply_plan :: "(agent_spec \<Rightarrow> bool) \<Rightarrow> reconcile_plan \<Rightarrow> daemon_agents \<Rightarrow> daemon_agents" where
  "apply_plan spawns plan st =
     (let st1 = fold stop_agent (rp_remove plan) st;
          st2 = fold (restart_agent spawns) (rp_restart plan) st1;
          st3 = fold (spawn_agent spawns) (rp_spawn plan) st2 in
      fold (\<lambda>(public_id, local_id) s. s\<lparr>da_attach_aliases := (da_attach_aliases s)(public_id \<mapsto> local_id)\<rparr>)
        (rp_aliases plan) st3)"

definition reconcile :: "(agent_spec \<Rightarrow> bool) \<Rightarrow> agent_spec list \<Rightarrow> daemon_agents \<Rightarrow> daemon_agents" where
  "reconcile spawns desired st = apply_plan spawns (diff_specs desired (da_running st)) st"

section \<open>Effect on the running agents\<close>

lemma stop_running [simp]:
  "map_of (da_running (stop_agent i st)) k = (if k = i then None else map_of (da_running st) k)"
  by (auto simp: stop_agent_def AList.delete_conv')

lemma stop_all_running:
  "map_of (da_running (fold stop_agent ids st)) k = (if k \<in> set ids then None else map_of (da_running st) k)"
  by (induction ids arbitrary: st) auto

lemma start_running:
  "map_of (da_running (start_agent spawns s st)) k =
     (if spawns s \<and> k = as_agent_id s then Some s else map_of (da_running st) k)"
  by (simp add: start_agent_def AList.update_conv')

lemma restart_running:
  "map_of (da_running (restart_agent spawns s st)) k =
     (if k = as_agent_id s then (if spawns s then Some s else None) else map_of (da_running st) k)"
  by (simp add: restart_agent_def start_running)

lemma spawn_running:
  "map_of (da_running (spawn_agent spawns s st)) k =
     (if spawns s \<and> k = as_agent_id s then Some s else map_of (da_running st) k)"
  by (auto simp: spawn_agent_def Let_def start_running split: option.splits)

text \<open>With distinct agent ids at most one specification answers to a key.\<close>

lemma find_other_id [simp]:
  "k \<notin> as_agent_id ` set ss \<Longrightarrow> find (\<lambda>s. as_agent_id s = k \<and> Q s) ss = None"
  "k \<notin> as_agent_id ` set ss \<Longrightarrow> find (\<lambda>s. as_agent_id s = k) ss = None"
  by (auto simp: find_None_iff)

lemma find_by_id:
  "distinct (map as_agent_id ss) \<Longrightarrow> s \<in> set ss \<Longrightarrow> find (\<lambda>x. as_agent_id x = as_agent_id s) ss = Some s"
  by (induction ss) (auto dest: imageI [of _ _ as_agent_id])

lemma find_id_filter:
  "distinct (map as_agent_id ss) \<Longrightarrow>
   find (\<lambda>s. as_agent_id s = k \<and> Q s) (filter P ss) =
   (case find (\<lambda>s. as_agent_id s = k) ss of Some s \<Rightarrow> if P s \<and> Q s then Some s else None | None \<Rightarrow> None)"
proof (induction ss)
  case (Cons s ss)
  have "as_agent_id s \<notin> as_agent_id ` set (filter P ss)"
    using Cons.prems by auto
  with Cons show ?case
    by (cases "as_agent_id s = k") simp_all
qed simp

lemma restart_all_running:
  assumes "distinct (map as_agent_id ss)"
  shows "map_of (da_running (fold (restart_agent spawns) ss st)) k =
     (case find (\<lambda>s. as_agent_id s = k) ss of
        Some s \<Rightarrow> if spawns s then Some s else None | None \<Rightarrow> map_of (da_running st) k)"
  using assms
  by (induction ss arbitrary: st) (auto simp: restart_running split: option.splits)

lemma spawn_all_running:
  assumes "distinct (map as_agent_id ss)"
  shows "map_of (da_running (fold (spawn_agent spawns) ss st)) k =
     (case find (\<lambda>s. as_agent_id s = k \<and> spawns s) ss of Some s \<Rightarrow> Some s | None \<Rightarrow> map_of (da_running st) k)"
  using assms
  by (induction ss arbitrary: st) (auto simp: spawn_running split: option.splits)

lemma register_running [simp]:
  "da_running (fold (\<lambda>(p, l) s. s\<lparr>da_attach_aliases := (da_attach_aliases s)(p \<mapsto> l)\<rparr>) as st) = da_running st"
  by (induction as arbitrary: st) auto

text \<open>The agent that runs under a key after a reconciliation.\<close>

lemma reconcile_running:
  assumes "distinct (map as_agent_id desired)"
  shows "map_of (da_running (reconcile spawns desired st)) k =
     (case find (\<lambda>s. as_agent_id s = k) desired of
        Some s \<Rightarrow>
          (if running_agent (da_running st) s = None then (if spawns s then Some s else map_of (da_running st) k)
           else if needs_restart (da_running st) s then (if spawns s then Some s else None)
           else map_of (da_running st) k)
      | None \<Rightarrow> (if k \<in> desired_aliases desired then map_of (da_running st) k else None))"
proof -
  let ?R = "da_running st"
  have keys: "i \<in> set (map fst ?R) \<longleftrightarrow> map_of ?R i \<noteq> None" for i
    by (simp add: map_of_eq_None_iff)
  have none: "find (\<lambda>s. as_agent_id s = k) desired = None \<longleftrightarrow> k \<notin> desired_ids desired"
    by (auto simp: find_None_iff desired_ids_def)
  have d: "distinct (map as_agent_id (filter P desired))" for P
    using assms by (simp add: distinct_map_filter)
  have eq: "map_of (da_running (reconcile spawns desired st)) k =
     (case find (\<lambda>s. as_agent_id s = k \<and> spawns s) (filter (\<lambda>s. running_agent ?R s = None) desired) of
        Some s \<Rightarrow> Some s
      | None \<Rightarrow> (case find (\<lambda>s. as_agent_id s = k \<and> True) (filter (needs_restart ?R) desired) of
          Some s \<Rightarrow> if spawns s then Some s else None
        | None \<Rightarrow> if k \<in> desired_ids desired \<or> k \<in> desired_aliases desired then map_of ?R k else None))"
    using keys [of k]
    by (simp add: reconcile_def apply_plan_def diff_specs_def Let_def spawn_all_running [OF d] restart_all_running [OF d]
        stop_all_running split: option.split)
  show ?thesis
  proof (cases "find (\<lambda>s. as_agent_id s = k) desired")
    case None
    with none show ?thesis
      by (simp only: eq find_id_filter [OF assms]) simp
  next
    case (Some s)
    with none have "k \<in> desired_ids desired" by auto
    with Some show ?thesis
      by (simp only: eq find_id_filter [OF assms]) (simp add: needs_restart_def)
  qed
qed

section \<open>Convergence\<close>

text \<open>The shape of the desired list the boot dedup establishes: one specification per id, and no agent is
  listed under an id that is the local alias of another.\<close>

definition well_listed :: "agent_spec list \<Rightarrow> bool" where
  "well_listed desired \<longleftrightarrow> distinct (map as_agent_id desired) \<and> desired_aliases desired \<inter> desired_ids desired = {}"

text \<open>An agent that runs under its local alias and differs from what is wanted.\<close>

definition aliased_changed :: "running_agents \<Rightarrow> agent_spec \<Rightarrow> bool" where
  "aliased_changed running s \<longleftrightarrow> matched_by_alias running s \<and> needs_restart running s"

lemma alias_in: "s \<in> set desired \<Longrightarrow> as_local_alias_id s = Some a \<Longrightarrow> a \<in> desired_aliases desired"
  by (force simp: desired_aliases_def map_filter_def)

lemma id_in: "s \<in> set desired \<Longrightarrow> as_agent_id s \<in> desired_ids desired"
  by (simp add: desired_ids_def)

lemma find_not_id: "k \<notin> desired_ids desired \<Longrightarrow> find (\<lambda>s. as_agent_id s = k) desired = None"
  by (simp add: desired_ids_def)

lemma specs_match_refl [simp]: "specs_match s s" "specs_match_ignoring_id s s"
  by (simp_all add: specs_match_def specs_match_ignoring_id_def)

lemma own_id:
  assumes "well_listed desired" "s \<in> set desired" "spawns s"
  shows "map_of (da_running (reconcile spawns desired st)) (as_agent_id s) =
     (if running_agent (da_running st) s = None \<or> needs_restart (da_running st) s then Some s
      else map_of (da_running st) (as_agent_id s))"
  using assms by (auto simp: reconcile_running well_listed_def find_by_id)

lemma own_alias:
  assumes "well_listed desired" "s \<in> set desired" "as_local_alias_id s = Some a"
  shows "map_of (da_running (reconcile spawns desired st)) a = map_of (da_running st) a"
proof -
  have "a \<in> desired_aliases desired" using assms by (auto intro: alias_in)
  moreover from this assms have "a \<notin> desired_ids desired" by (auto simp: well_listed_def)
  ultimately show ?thesis
    using assms by (simp add: reconcile_running well_listed_def find_not_id)
qed

lemma served_after:
  assumes "well_listed desired" "s \<in> set desired" "spawns s" "\<not> aliased_changed (da_running st) s"
  shows "\<exists>r. running_agent (da_running (reconcile spawns desired st)) s = Some r \<and>
      \<not> materially_changed (da_running (reconcile spawns desired st)) r s"
proof (cases "running_agent (da_running st) s = None \<or> needs_restart (da_running st) s")
  case True
  then show ?thesis
    using own_id [where spawns = spawns, OF assms(1-3), of st]
    by (simp add: running_agent_def materially_changed_def matched_by_alias_def)
next
  case False
  then have same: "map_of (da_running (reconcile spawns desired st)) (as_agent_id s) = map_of (da_running st) (as_agent_id s)"
    using own_id [where spawns = spawns, OF assms(1-3), of st] by auto
  moreover have "map_of (da_running (reconcile spawns desired st)) a = map_of (da_running st) a"
    if "as_local_alias_id s = Some a" for a
    using own_alias [OF assms(1,2) that] .
  ultimately have "running_agent (da_running (reconcile spawns desired st)) s = running_agent (da_running st) s"
    by (auto simp: running_agent_def split: option.splits)
  moreover have "matched_by_alias (da_running (reconcile spawns desired st)) s = matched_by_alias (da_running st) s"
    using same by (simp add: matched_by_alias_def)
  ultimately show ?thesis
    using False by (auto simp: needs_restart_def materially_changed_def split: option.splits)
qed

lemma nothing_else:
  assumes "distinct (map as_agent_id desired)"
    "map_of (da_running (reconcile spawns desired st)) k = Some r"
  shows "k \<in> desired_ids desired \<or> k \<in> desired_aliases desired"
proof (rule ccontr)
  assume "\<not> (k \<in> desired_ids desired \<or> k \<in> desired_aliases desired)"
  with assms find_not_id [of k desired] show False by (simp add: reconcile_running)
qed


section \<open>What a reconciliation leaves alone\<close>

lemma log_stop_all: "set (da_log (fold stop_agent ids st)) \<subseteq> set (da_log st) \<union> ShutDown ` set ids"
proof (induction ids arbitrary: st)
  case (Cons i ids)
  show ?case
    using Cons.IH [of "stop_agent i st"] by (auto simp: stop_agent_def split: if_splits)
qed simp

lemma log_restart_all:
  "set (da_log (fold (restart_agent spawns) ss st)) \<subseteq>
     set (da_log st) \<union> (ShutDown \<circ> as_agent_id) ` set ss \<union> Spawned ` set ss"
proof (induction ss arbitrary: st)
  case (Cons s ss)
  show ?case
    using Cons.IH [of "restart_agent spawns s st"]
    by (auto simp: restart_agent_def start_agent_def stop_agent_def split: if_splits)
qed simp

lemma log_spawn_all:
  "set (da_log (fold (spawn_agent spawns) ss st)) \<subseteq> set (da_log st) \<union> Spawned ` set ss"
proof (induction ss arbitrary: st)
  case (Cons s ss)
  show ?case
    using Cons.IH [of "spawn_agent spawns s st"]
    by (auto simp: spawn_agent_def start_agent_def Let_def split: if_splits option.splits)
qed simp

lemma log_register [simp]:
  "da_log (fold (\<lambda>(p, l) s. s\<lparr>da_attach_aliases := (da_attach_aliases s)(p \<mapsto> l)\<rparr>) as st) = da_log st"
  by (induction as arbitrary: st) auto

lemma reconcile_log:
  assumes "e \<in> set (da_log (reconcile spawns desired st))" "e \<notin> set (da_log st)"
  shows "e \<in> ShutDown ` set (rp_remove (diff_specs desired (da_running st))) \<or>
     e \<in> (ShutDown \<circ> as_agent_id) ` set (rp_restart (diff_specs desired (da_running st))) \<or>
     e \<in> Spawned ` set (rp_restart (diff_specs desired (da_running st))) \<or>
     e \<in> Spawned ` set (rp_spawn (diff_specs desired (da_running st)))"
  using assms log_stop_all log_restart_all log_spawn_all
  unfolding reconcile_def apply_plan_def Let_def log_register by blast

text \<open>A live session is not disturbed: an agent that runs, under the id or the local alias of an entry it
  does not materially differ from, is not shut down by the reconciliation, keeps running with the
  specification it had, and no second agent is spawned for that entry.\<close>

theorem live_agent_kept:
  assumes "well_listed desired" "s \<in> set desired"
    and "running_agent (da_running st) s = Some r" "\<not> materially_changed (da_running st) r s"
    and "da_log st = []"
  shows "running_agent (da_running (reconcile spawns desired st)) s = Some r \<and>
     Spawned s \<notin> set (da_log (reconcile spawns desired st)) \<and>
     ShutDown (as_agent_id s) \<notin> set (da_log (reconcile spawns desired st)) \<and>
     (case as_local_alias_id s of Some a \<Rightarrow> ShutDown a \<notin> set (da_log (reconcile spawns desired st)) | None \<Rightarrow> True)"
proof -
  let ?R = "da_running st"
  have calm: "\<not> needs_restart ?R s" "running_agent ?R s \<noteq> None"
    using assms by (simp_all add: needs_restart_def)
  have d: "distinct (map as_agent_id desired)"
    using assms by (simp add: well_listed_def)
  have same: "x = s" if "x \<in> set desired" "as_agent_id x = as_agent_id s" for x
    using that assms(2) d by (metis distinct_map inj_onD)
  have "map_of (da_running (reconcile spawns desired st)) (as_agent_id s) = map_of ?R (as_agent_id s)"
    using calm d assms(2) by (auto simp: reconcile_running find_by_id)
  then have run: "running_agent (da_running (reconcile spawns desired st)) s = Some r"
    using assms own_alias [OF assms(1,2)] by (auto simp: running_agent_def split: option.splits)
  have spawned: "Spawned s \<notin> set (da_log (reconcile spawns desired st))"
    using reconcile_log [of "Spawned s" spawns desired st] calm assms(5) by (auto simp: diff_specs_def)
  have shut: "ShutDown (as_agent_id s) \<notin> set (da_log (reconcile spawns desired st))"
    using reconcile_log [of "ShutDown (as_agent_id s)" spawns desired st] calm assms(5) same id_in [OF assms(2)]
    by (auto simp: diff_specs_def)
  have "ShutDown a \<notin> set (da_log (reconcile spawns desired st))" if "as_local_alias_id s = Some a" for a
  proof -
    have "a \<in> desired_aliases desired" using assms(2) that by (rule alias_in)
    moreover from this assms(1) have "a \<notin> as_agent_id ` set desired"
      by (auto simp: well_listed_def desired_ids_def)
    ultimately show ?thesis
      using reconcile_log [of "ShutDown a" spawns desired st] assms(5) by (auto simp: diff_specs_def)
  qed
  with run spawned shut show ?thesis
    by (simp split: option.split)
qed

text \<open>A changed agent that runs under its local alias is not restarted but duplicated: the reconciliation
  spawns the new specification under the control-plane id while the old agent keeps running under the
  alias, is never shut down, and no later plan for the same list removes it.\<close>

theorem aliased_restart_duplicates:
  assumes "well_listed desired" "s \<in> set desired" "spawns s"
    and "as_local_alias_id s = Some a" "map_of (da_running st) (as_agent_id s) = None"
    and "map_of (da_running st) a = Some old" "\<not> specs_match_ignoring_id old s"
    and "da_log st = []"
  shows "map_of (da_running (reconcile spawns desired st)) (as_agent_id s) = Some s \<and>
     map_of (da_running (reconcile spawns desired st)) a = Some old \<and>
     ShutDown a \<notin> set (da_log (reconcile spawns desired st)) \<and>
     a \<notin> set (rp_remove (diff_specs desired (da_running (reconcile spawns desired st))))"
proof -
  have n: "needs_restart (da_running st) s"
    using assms by (simp add: needs_restart_def running_agent_def materially_changed_def matched_by_alias_def)
  have in_a: "a \<in> desired_aliases desired" using assms by (auto intro: alias_in)
  moreover from this have "a \<notin> as_agent_id ` set desired"
    using assms(1) by (auto simp: well_listed_def desired_ids_def)
  ultimately have "ShutDown a \<notin> set (da_log (reconcile spawns desired st))"
    using reconcile_log [of "ShutDown a" spawns desired st] assms(8) by (auto simp: diff_specs_def)
  then show ?thesis
    using own_id [where spawns = spawns, OF assms(1-3), of st] own_alias [OF assms(1,2,4), of spawns st] n assms(6) in_a
    by (simp add: diff_specs_def)
qed

section \<open>Witnesses\<close>

definition sample_spec :: "str \<Rightarrow> str option \<Rightarrow> str \<Rightarrow> agent_spec" where
  "sample_spec i alias domain =
     \<lparr>as_agent_id = i, as_domain_id = domain, as_runtime_kind = ''zellij_hosted'', as_session_mode = PersistentMode,
      as_capabilities = [], as_profile_path = None, as_webhook_url = None, as_launch_overrides = no_overrides,
      as_name = None, as_local_alias_id = alias\<rparr>"

definition sample_agents :: "running_agents \<Rightarrow> daemon_agents" where
  "sample_agents r = \<lparr>da_running = r, da_name_aliases = Map.empty, da_attach_aliases = Map.empty, da_log = []\<rparr>"

definition two_desired :: "agent_spec list" where
  "two_desired = [sample_spec ''fleet-eng-1'' (Some ''eng'') ''d1'', sample_spec ''fleet-qa-2'' None ''d1'']"

lemma two_desired_listed: "well_listed two_desired"
  by (simp add: well_listed_def two_desired_def sample_spec_def desired_aliases_def desired_ids_def map_filter_def)

lemma sample_run [simp]: "da_running (sample_agents r) = r" "da_log (sample_agents r) = []"
  by (simp_all add: sample_agents_def)

definition live_eng :: running_agents where
  "live_eng = [(''eng'', sample_spec ''eng'' None ''d1''), (''gone'', sample_spec ''gone'' None ''d1'')]"


theorem live_agent_kept_witness:
  "ShutDown ''eng'' \<notin> set (da_log (reconcile (\<lambda>_. True) two_desired (sample_agents live_eng)))"
proof -
  have in_two: "sample_spec ''fleet-eng-1'' (Some ''eng'') ''d1'' \<in> set two_desired"
    and alias_eng: "as_local_alias_id (sample_spec ''fleet-eng-1'' (Some ''eng'') ''d1'') = Some ''eng''"
    by (simp_all add: two_desired_def) (simp add: sample_spec_def)
  have "running_agent live_eng (sample_spec ''fleet-eng-1'' (Some ''eng'') ''d1'') = Some (sample_spec ''eng'' None ''d1'')"
    "\<not> materially_changed live_eng (sample_spec ''eng'' None ''d1'') (sample_spec ''fleet-eng-1'' (Some ''eng'') ''d1'')"
    by (simp_all add: running_agent_def live_eng_def materially_changed_def matched_by_alias_def
        specs_match_ignoring_id_def sample_spec_def)
  then show ?thesis
    using live_agent_kept [OF two_desired_listed, of "sample_spec ''fleet-eng-1'' (Some ''eng'') ''d1''" "sample_agents live_eng"
        "sample_spec ''eng'' None ''d1''" "\<lambda>_. True"]
      in_two alias_eng
    by (simp split: option.splits)
qed

definition moved_eng :: running_agents where
  "moved_eng = [(''eng'', sample_spec ''eng'' None ''d0'')]"

theorem aliased_restart_duplicates_witness:
  "map_of (da_running (reconcile (\<lambda>_. True) two_desired (sample_agents moved_eng))) ''eng'' = Some (sample_spec ''eng'' None ''d0'') \<and>
   map_of (da_running (reconcile (\<lambda>_. True) two_desired (sample_agents moved_eng))) ''fleet-eng-1'' \<noteq> None"
proof -
  let ?s = "sample_spec ''fleet-eng-1'' (Some ''eng'') ''d1''"
  have "?s \<in> set two_desired" "as_local_alias_id ?s = Some ''eng''" "as_agent_id ?s = ''fleet-eng-1''"
    "map_of moved_eng ''fleet-eng-1'' = None" "map_of moved_eng ''eng'' = Some (sample_spec ''eng'' None ''d0'')"
    "\<not> specs_match_ignoring_id (sample_spec ''eng'' None ''d0'') ?s"
    by (simp_all add: two_desired_def moved_eng_def specs_match_ignoring_id_def) (simp_all add: sample_spec_def)
  then show ?thesis
    using aliased_restart_duplicates [OF two_desired_listed, of ?s "\<lambda>_. True" "''eng''" "sample_agents moved_eng"
        "sample_spec ''eng'' None ''d0''"]
    by simp
qed

end
