(* ===== verification/Agent_Assignment.thy ===== *)
theory Agent_Assignment
  imports Reconcile
begin

text \<open>
  Which agents a node daemon runs (edgeplaned-bin daemon.rs): the specifications read from the control
  plane, the local registry or the configuration file, the launch contexts added to them, the merge of
  local launch overrides into control-plane specifications, the boot dedup, and the persist-and-read-back
  of every later poll, composed with the reconciliation. The reply of the control plane, the clock text and
  which spawns succeed are parameters; a registry that cannot be read is a value of the handle.
\<close>

section \<open>Reading specifications\<close>

definition spec_mode :: "json option \<Rightarrow> session_mode" where
  "spec_mode v = (case v of None \<Rightarrow> TaskMode | Some j \<Rightarrow> if jstr j = Some ''persistent'' then PersistentMode else TaskMode)"

definition nonempty :: "str option \<Rightarrow> str option" where
  "nonempty s = (case s of Some x \<Rightarrow> if x = [] then None else Some x | None \<Rightarrow> None)"

definition jpath_str :: "str \<Rightarrow> str \<Rightarrow> json \<Rightarrow> str option" where
  "jpath_str k k' j = (case jget k j of Some v \<Rightarrow> jfield_str k' v | None \<Rightarrow> None)"

definition agent_spec_from_json :: "json \<Rightarrow> str + agent_spec" where
  "agent_spec_from_json v =
     (case (case jfield_str ''public_id'' v of Some i \<Rightarrow> Some i | None \<Rightarrow> jfield_str ''id'' v) of
        None \<Rightarrow> Inl ''agent record missing public_id''
      | Some i \<Rightarrow>
          (case jfield_str ''domain_id'' v of
             None \<Rightarrow> Inl ''missing domain_id''
           | Some d \<Rightarrow>
               (case jfield_str ''runtime_kind'' v of
                  None \<Rightarrow> Inl ''missing runtime_kind''
                | Some k \<Rightarrow>
                    Inr \<lparr>as_agent_id = i, as_domain_id = d, as_runtime_kind = k,
                      as_session_mode = spec_mode (jget ''supervision_mode'' v),
                      as_capabilities = (case jget ''capabilities'' v of
                        Some (JList xs) \<Rightarrow> List.map_filter jstr xs | _ \<Rightarrow> []),
                      as_profile_path = jpath_str ''profile'' ''path'' v,
                      as_webhook_url = nonempty (jpath_str ''machine'' ''webhook_url'' v),
                      as_launch_overrides = no_overrides,
                      as_name = nonempty (jfield_str ''name'' v), as_local_alias_id = None\<rparr>)))"

definition fetch_node_agents :: "json list option \<Rightarrow> agent_spec list option" where
  "fetch_node_agents reply =
     map_option (List.map_filter (\<lambda>row. case agent_spec_from_json row of Inl _ \<Rightarrow> None | Inr s \<Rightarrow> Some s)) reply"

record yaml_agent =
  ya_agent_id :: str
  ya_runtime_kind :: str
  ya_session_mode :: session_mode
  ya_capabilities :: "str list"
  ya_profile_path :: "str option"

record daemon_config =
  dc_node_id :: "str option"
  dc_domains :: "(str \<times> yaml_agent list) list"

definition yaml_specs :: "daemon_config \<Rightarrow> agent_spec list" where
  "yaml_specs cfg =
     concat (map (\<lambda>(domain, agents).
       map (\<lambda>a. \<lparr>as_agent_id = ya_agent_id a, as_domain_id = domain, as_runtime_kind = ya_runtime_kind a,
                 as_session_mode = ya_session_mode a, as_capabilities = ya_capabilities a,
                 as_profile_path = ya_profile_path a, as_webhook_url = None,
                 as_launch_overrides = no_overrides, as_name = None, as_local_alias_id = None\<rparr>) agents)
       (dc_domains cfg))"

datatype registry_handle = NoRegistry | Unreadable | Readable agent_registry

definition base_agent_specs :: "daemon_config \<Rightarrow> json list option \<Rightarrow> registry_handle \<Rightarrow> agent_spec list" where
  "base_agent_specs cfg reply reg =
     (let local =
        (case reg of
           Readable g \<Rightarrow>
             (case list_specs_by_source ''local'' g of [] \<Rightarrow> yaml_specs cfg | s # ss \<Rightarrow> s # ss)
         | _ \<Rightarrow> yaml_specs cfg) in
      case dc_node_id cfg of
        None \<Rightarrow> local
      | Some _ \<Rightarrow> (case fetch_node_agents reply of Some specs \<Rightarrow> specs | None \<Rightarrow> local))"

definition overrides_of :: "launch_context \<Rightarrow> spawn_overrides" where
  "overrides_of ctx =
     \<lparr>so_vault_folder = lc_vault_folder ctx, so_state_dir_spec = lc_state_dir_spec ctx,
      so_zellij_session = lc_zellij_session ctx\<rparr>"

definition context_spec :: "agent_registry \<Rightarrow> str set \<Rightarrow> launch_context \<Rightarrow> agent_spec option" where
  "context_spec g base_ids ctx =
     (if lc_agent_id ctx \<in> base_ids then None
      else map_option (\<lambda>s. s\<lparr>as_launch_overrides := overrides_of ctx\<rparr>)
        (find (\<lambda>s. as_agent_id s = lc_agent_id ctx) (list_specs_by_source (lc_source ctx) g)))"

definition resolve_agent_specs :: "daemon_config \<Rightarrow> json list option \<Rightarrow> registry_handle \<Rightarrow> agent_spec list" where
  "resolve_agent_specs cfg reply reg =
     (let specs = base_agent_specs cfg reply reg in
      case reg of
        Readable g \<Rightarrow>
          specs @ List.map_filter (context_spec g (set (map as_agent_id specs))) (list_all_launch_contexts g)
      | _ \<Rightarrow> specs)"

section \<open>Merging local launch contexts\<close>

definition profile_from_public_id :: "str \<Rightarrow> str option" where
  "profile_from_public_id public_id =
     (case split_once CHR ''-'' public_id of
        None \<Rightarrow> None
      | Some (_, rest) \<Rightarrow>
          (case rsplit_once CHR ''-'' rest of
             None \<Rightarrow> None
           | Some (profile, _) \<Rightarrow> if profile = [] then None else Some profile))"

definition ends_with :: "str \<Rightarrow> str \<Rightarrow> bool" where
  "ends_with suf s = starts_with (rev suf) (rev s)"

definition merge_key :: "agent_spec \<Rightarrow> (str \<times> bool) option" where
  "merge_key spec =
     (case nonempty (as_name spec) of
        Some n \<Rightarrow> Some (n, True)
      | None \<Rightarrow> map_option (\<lambda>p. (p, False)) (profile_from_public_id (as_agent_id spec)))"

definition context_matches :: "str \<times> bool \<Rightarrow> launch_context \<Rightarrow> bool" where
  "context_matches key ctx =
     (fst key = lc_agent_id ctx \<or> (snd key \<and> ends_with (CHR ''-'' # lc_agent_id ctx) (fst key)))"

definition merge_one :: "launch_context list \<Rightarrow> agent_spec \<Rightarrow> agent_spec" where
  "merge_one ctxs spec =
     (if as_runtime_kind spec \<noteq> ''zellij_hosted'' \<or> as_session_mode spec \<noteq> PersistentMode then spec
      else if so_zellij_session (as_launch_overrides spec) \<noteq> None then spec
      else
        (case merge_key spec of
           None \<Rightarrow> spec
         | Some key \<Rightarrow>
             (case filter (context_matches key) ctxs of
                [ctx] \<Rightarrow> spec\<lparr>as_launch_overrides := overrides_of ctx, as_local_alias_id := Some (lc_agent_id ctx)\<rparr>
              | _ \<Rightarrow> spec)))"

definition merge_federated_overrides :: "launch_context list \<Rightarrow> agent_spec list \<Rightarrow> agent_spec list" where
  "merge_federated_overrides ctxs specs = map (merge_one ctxs) specs"

definition apply_runtime_override :: "(str \<times> str) list \<Rightarrow> agent_spec \<Rightarrow> agent_spec" where
  "apply_runtime_override overrides spec =
     (case nonempty (as_local_alias_id spec) of
        None \<Rightarrow> spec
      | Some alias \<Rightarrow>
          (case map_of (rev overrides) alias of
             None \<Rightarrow> spec
           | Some rt \<Rightarrow>
               if rt = as_runtime_kind spec then spec
               else
                 (let ov = (as_launch_overrides spec)\<lparr>so_zellij_session := None\<rparr>;
                      spec' = spec\<lparr>as_runtime_kind := rt, as_launch_overrides := ov\<rparr> in
                  case (as_profile_path spec, so_state_dir_spec ov) of
                    (None, Some (PersistentDir path)) \<Rightarrow>
                      if rt = ''claude_agent_acp'' then spec'\<lparr>as_profile_path := Some path\<rparr> else spec'
                  | _ \<Rightarrow> spec')))"

definition apply_runtime_overrides :: "(str \<times> str) list \<Rightarrow> agent_spec list \<Rightarrow> agent_spec list" where
  "apply_runtime_overrides overrides specs = map (apply_runtime_override overrides) specs"

definition merge_from :: "agent_registry \<Rightarrow> agent_spec list \<Rightarrow> agent_spec list" where
  "merge_from g specs =
     apply_runtime_overrides (list_local_runtime_overrides g)
       (merge_federated_overrides (list_all_launch_contexts g) specs)"

definition boot_dedup :: "agent_spec list \<Rightarrow> agent_spec list" where
  "boot_dedup specs =
     (let aliased_ids = desired_aliases specs in
      if aliased_ids = {} then specs else filter (\<lambda>s. as_agent_id s \<notin> aliased_ids) specs)"

definition boot_specs :: "daemon_config \<Rightarrow> json list option \<Rightarrow> registry_handle \<Rightarrow> agent_spec list" where
  "boot_specs cfg reply reg =
     (let specs = resolve_agent_specs cfg reply reg in
      case dc_node_id cfg of
        None \<Rightarrow> specs
      | Some _ \<Rightarrow> boot_dedup (case reg of Readable g \<Rightarrow> merge_from g specs | _ \<Rightarrow> specs))"

section \<open>Every later poll\<close>

definition reattach_name :: "agent_spec list \<Rightarrow> agent_spec \<Rightarrow> agent_spec" where
  "reattach_name specs s =
     (case map_of (rev (map (\<lambda>x. (as_agent_id x, as_name x)) specs)) (as_agent_id s) of
        Some name \<Rightarrow> s\<lparr>as_name := name\<rparr> | None \<Rightarrow> s)"

definition persist_and_resolve_specs ::
  "str \<Rightarrow> str option \<Rightarrow> agent_spec list \<Rightarrow> registry_handle \<Rightarrow> registry_handle \<times> agent_spec list" where
  "persist_and_resolve_specs now cp_source specs reg =
     (case (cp_source, reg) of
        (Some source, Readable g) \<Rightarrow>
          (case replace_source now source specs g of
             None \<Rightarrow> (reg, specs)
           | Some g' \<Rightarrow>
               (Readable g', merge_from g' (map (reattach_name specs) (list_specs_by_source source g'))))
      | _ \<Rightarrow> (reg, specs))"

record node_daemon =
  nd_registry :: registry_handle
  nd_agents :: daemon_agents

definition boot :: "(agent_spec \<Rightarrow> bool) \<Rightarrow> daemon_config \<Rightarrow> json list option \<Rightarrow> node_daemon \<Rightarrow> node_daemon" where
  "boot spawns cfg reply nd =
     nd\<lparr>nd_agents := reconcile spawns (boot_specs cfg reply (nd_registry nd)) (nd_agents nd)\<rparr>"

definition poll :: "(agent_spec \<Rightarrow> bool) \<Rightarrow> str \<Rightarrow> str option \<Rightarrow> json list option \<Rightarrow> node_daemon \<Rightarrow> node_daemon" where
  "poll spawns now cp_source reply nd =
     (case fetch_node_agents reply of
        None \<Rightarrow> nd
      | Some specs \<Rightarrow>
          (let (reg, resolved) = persist_and_resolve_specs now cp_source specs (nd_registry nd) in
           nd\<lparr>nd_registry := reg, nd_agents := reconcile spawns resolved (nd_agents nd)\<rparr>))"

section \<open>What the merge keeps\<close>

lemma merge_one_keeps [simp]:
  "as_agent_id (merge_one ctxs s) = as_agent_id s" "as_webhook_url (merge_one ctxs s) = as_webhook_url s"
  by (auto simp: merge_one_def split: option.split list.split)

lemma runtime_override_keeps [simp]:
  "as_agent_id (apply_runtime_override ovs s) = as_agent_id s"
  "as_webhook_url (apply_runtime_override ovs s) = as_webhook_url s"
  "as_local_alias_id (apply_runtime_override ovs s) = as_local_alias_id s"
  by (auto simp: apply_runtime_override_def Let_def split: option.split state_dir_spec.split)

lemma reattach_keeps [simp]:
  "as_agent_id (reattach_name specs s) = as_agent_id s" "as_webhook_url (reattach_name specs s) = as_webhook_url s"
  by (auto simp: reattach_name_def split: option.split)

lemma merge_from_ids [simp]: "map as_agent_id (merge_from g specs) = map as_agent_id specs"
  by (simp add: merge_from_def apply_runtime_overrides_def merge_federated_overrides_def)

lemma merge_from_webhook: "s \<in> set (merge_from g specs) \<Longrightarrow> \<exists>x\<in>set specs. as_webhook_url s = as_webhook_url x"
  by (auto simp: merge_from_def apply_runtime_overrides_def merge_federated_overrides_def)

lemma profile_roundtrip:
  "CHR ''-'' \<notin> set prefix \<Longrightarrow> CHR ''-'' \<notin> set hex \<Longrightarrow> profile \<noteq> [] \<Longrightarrow>
   profile_from_public_id (prefix @ ''-'' @ profile @ ''-'' @ hex) = Some profile"
  by (simp add: profile_from_public_id_def rsplit_once_def)

text \<open>An alias is taken only from the one context that matches.\<close>

lemma merge_alias:
  assumes "as_local_alias_id (merge_one ctxs s) = Some a" "as_local_alias_id s = None"
  shows "\<exists>key ctx. merge_key s = Some key \<and> filter (context_matches key) ctxs = [ctx] \<and> a = lc_agent_id ctx"
  using assms by (auto simp: merge_one_def split: option.splits list.splits if_splits)

lemma stored_ids: "map as_agent_id (map stored_spec specs) = map as_agent_id specs"
  by (simp add: stored_spec_def)

lemma persisted_ids: "map as_agent_id (snd (persist_and_resolve_specs now src specs reg)) = map as_agent_id specs"
  by (auto simp: persist_and_resolve_specs_def list_replaced stored_spec_def o_def
      split: option.split registry_handle.split)

section \<open>Boot\<close>

lemma boot_dedup_aliases: "desired_aliases (boot_dedup specs) \<inter> desired_ids (boot_dedup specs) = {}"
proof -
  have "desired_aliases (filter P specs) \<subseteq> desired_aliases specs" for P
    by (auto simp: desired_aliases_def map_filter_def)
  then show ?thesis
    by (auto simp: boot_dedup_def Let_def desired_ids_def)
qed

lemma reconcile_from_nothing:
  assumes "distinct (map as_agent_id desired)" "da_running st = []"
  shows "map_of (da_running (reconcile spawns desired st)) k = find (\<lambda>s. as_agent_id s = k \<and> spawns s) desired"
proof -
  have "find (\<lambda>s. as_agent_id s = k \<and> spawns s) desired =
      (case find (\<lambda>s. as_agent_id s = k) desired of Some s \<Rightarrow> if spawns s then Some s else None | None \<Rightarrow> None)"
    using find_id_filter [OF assms(1), of k spawns "\<lambda>_. True"] by (simp split: option.split)
  moreover have "running_agent [] s = None" for s
    by (simp add: running_agent_def split: option.split)
  ultimately show ?thesis
    using assms by (simp add: reconcile_running split: option.split)
qed

text \<open>After a federated boot no session is attached twice: no agent that runs carries as its local alias
  the key of another running agent, whatever the control plane and the registry listed.\<close>

theorem boot_single_session:
  assumes "dc_node_id cfg = Some node" "da_running (nd_agents nd) = []"
    and "distinct (map as_agent_id (boot_specs cfg reply (nd_registry nd)))"
    and "map_of (da_running (nd_agents (boot spawns cfg reply nd))) k = Some r" "as_local_alias_id r = Some a"
  shows "map_of (da_running (nd_agents (boot spawns cfg reply nd))) a = None"
proof -
  let ?B = "boot_specs cfg reply (nd_registry nd)"
  have run: "map_of (da_running (nd_agents (boot spawns cfg reply nd))) i =
      find (\<lambda>s. as_agent_id s = i \<and> spawns s) ?B" for i
    using assms(2,3) by (simp add: boot_def reconcile_from_nothing)
  have "find (\<lambda>s. as_agent_id s = k \<and> spawns s) ?B = Some r" using run [of k] assms(4) by simp
  then have "r \<in> set ?B" by (auto dest: find_SomeD)
  then have "a \<in> desired_aliases ?B" using assms(5) by (rule alias_in)
  moreover have "desired_aliases ?B \<inter> desired_ids ?B = {}"
    using assms(1) boot_dedup_aliases by (simp add: boot_specs_def Let_def)
  ultimately have "a \<notin> as_agent_id ` set ?B" by (auto simp: desired_ids_def)
  with run show ?thesis by simp
qed

section \<open>The polls that follow\<close>

text \<open>The webhook of an agent does not survive a poll of a daemon with an active profile: the
  specifications are written to the registry and read back, which has no column for it, so no agent
  spawned or restarted by the poll has a webhook url, even if the control plane sent one.\<close>

theorem poll_forgets_webhook:
  assumes "nd_registry nd = Readable g" "cp_source = Some source"
    and "fetch_node_agents reply = Some specs" "distinct (map as_agent_id specs)"
    and "Spawned s \<in> set (da_log (nd_agents (poll spawns now cp_source reply nd)))"
    and "Spawned s \<notin> set (da_log (nd_agents nd))"
  shows "as_webhook_url s = None"
proof -
  obtain g' where rep: "replace_source now source specs g = Some g'"
    using assms(4) by (simp add: replace_source_eq)
  let ?res = "merge_from g' (map (reattach_name specs) (map stored_spec specs))"
  have "Spawned s \<in> set (da_log (reconcile spawns ?res (nd_agents nd)))"
    using assms rep by (simp add: poll_def persist_and_resolve_specs_def list_replaced)
  from reconcile_log [OF this assms(6)] have "s \<in> set ?res"
    by (auto simp: diff_specs_def)
  from merge_from_webhook [OF this] show ?thesis
    by (auto simp: stored_spec_def)
qed

lemma log_grows_fold:
  assumes "\<And>x y. set (da_log y) \<subseteq> set (da_log (f x y))"
  shows "set (da_log y) \<subseteq> set (da_log (fold f xs y))"
proof (induction xs arbitrary: y)
  case (Cons x xs)
  show ?case using assms [of y x] Cons.IH [of "f x y"] by simp
qed simp

lemma log_grows:
  "set (da_log y) \<subseteq> set (da_log (stop_agent i y))"
  "set (da_log y) \<subseteq> set (da_log (restart_agent spawns s y))"
  "set (da_log y) \<subseteq> set (da_log (spawn_agent spawns s y))"
  by (auto simp: stop_agent_def restart_agent_def spawn_agent_def start_agent_def Let_def split: option.split)

lemma reconcile_removes:
  assumes "distinct (map as_agent_id desired)" "map_of (da_running st) k \<noteq> None"
    and "k \<notin> desired_ids desired" "k \<notin> desired_aliases desired"
  shows "map_of (da_running (reconcile spawns desired st)) k = None"
    "ShutDown k \<in> set (da_log (reconcile spawns desired st))"
proof -
  show "map_of (da_running (reconcile spawns desired st)) k = None"
    using assms by (simp add: reconcile_running find_not_id)
  have stopped: "ShutDown k \<in> set (da_log (fold stop_agent ids x))"
    if "k \<in> set ids" "map_of (da_running x) k \<noteq> None" for ids x
    using that
  proof (induction ids arbitrary: x)
    case (Cons i ids)
    have keeps: "e \<in> set (da_log (fold stop_agent js y))" if "e \<in> set (da_log y)" for e js y
      using that log_grows_fold [of stop_agent, OF log_grows(1)] by blast
    show ?case
    proof (cases "i = k")
      case True
      then have "ShutDown k \<in> set (da_log (stop_agent i x))" using Cons.prems by (auto simp: stop_agent_def)
      then show ?thesis by (simp add: keeps)
    qed (use Cons in auto)
  qed simp
  have later: "e \<in> set (da_log (apply_plan spawns p x))" if "e \<in> set (da_log (fold stop_agent (rp_remove p) x))" for e p x
    using that log_grows_fold [of "restart_agent spawns", OF log_grows(2)]
      log_grows_fold [of "spawn_agent spawns", OF log_grows(3)]
    unfolding apply_plan_def Let_def log_register by blast
  have "k \<in> set (rp_remove (diff_specs desired (da_running st)))"
    using assms by (auto simp: diff_specs_def) (metis map_of_eq_None_iff option.distinct(1))
  then show "ShutDown k \<in> set (da_log (reconcile spawns desired st))"
    unfolding reconcile_def using assms(2) by (intro later stopped) auto
qed

text \<open>The launch-context layer lasts until the first poll only: an agent that a federated boot brings up
  and that the control plane neither lists nor aliases runs after the boot, and the first successful poll
  shuts it down.\<close>

theorem first_poll_stops_local_agent:
  assumes "da_running (nd_agents nd) = []"
    and "distinct (map as_agent_id (boot_specs cfg reply (nd_registry nd)))"
    and "l \<in> set (boot_specs cfg reply (nd_registry nd))" "spawns l"
    and "fetch_node_agents reply' = Some specs" "distinct (map as_agent_id specs)"
    and "as_agent_id l \<notin> desired_ids specs"
    and "as_agent_id l \<notin> desired_aliases (snd (persist_and_resolve_specs now cp_source specs (nd_registry nd)))"
  shows "map_of (da_running (nd_agents (boot spawns cfg reply nd))) (as_agent_id l) = Some l \<and>
     map_of (da_running (nd_agents (poll spawns now cp_source reply' (boot spawns cfg reply nd)))) (as_agent_id l) = None \<and>
     ShutDown (as_agent_id l) \<in> set (da_log (nd_agents (poll spawns now cp_source reply' (boot spawns cfg reply nd))))"
proof -
  let ?B = "boot_specs cfg reply (nd_registry nd)" and ?nd = "boot spawns cfg reply nd"
  let ?res = "snd (persist_and_resolve_specs now cp_source specs (nd_registry nd))"
  have up: "map_of (da_running (nd_agents ?nd)) (as_agent_id l) = Some l"
  proof -
    have "find (\<lambda>s. as_agent_id s = as_agent_id l) ?B = Some l"
      using assms(2,3) by (rule find_by_id)
    then have "find (\<lambda>s. as_agent_id s = as_agent_id l \<and> spawns s) ?B = Some l"
      using find_id_filter [OF assms(2), of "as_agent_id l" spawns "\<lambda>_. True"] assms(4) by simp
    with assms(1,2) show ?thesis by (simp add: boot_def reconcile_from_nothing)
  qed
  have polled: "nd_agents (poll spawns now cp_source reply' ?nd) = reconcile spawns ?res (nd_agents ?nd)"
    using assms(5) by (simp add: poll_def boot_def split: prod.split)
  have ids: "desired_ids ?res = desired_ids specs" "distinct (map as_agent_id ?res)"
    using assms(6) by (simp_all only: desired_ids_def persisted_ids)
  show ?thesis
    using up reconcile_removes [of ?res "nd_agents ?nd" "as_agent_id l" spawns] ids assms(7,8) by (simp add: polled)
qed

section \<open>Witnesses\<close>

definition fleet_row :: "str \<Rightarrow> agent_record" where
  "fleet_row i =
     \<lparr>ar_id = i, ar_source = ''fleet'', ar_domain_id = ''d1'', ar_runtime_kind = ''zellij_hosted'',
      ar_supervision_mode = ''persistent'', ar_capabilities_json = JList [], ar_profile_path = None,
      ar_enrolled_at = ''t0'', ar_last_synced_at = None\<rparr>"

definition fleet_context :: "str \<Rightarrow> launch_context" where
  "fleet_context i =
     \<lparr>lc_source = ''fleet'', lc_agent_id = i, lc_vault_folder = None, lc_state_dir_spec = None,
      lc_zellij_session = Some i, lc_systemd_service = None, lc_supervise_paused = False\<rparr>"

definition fleet_registry :: agent_registry where
  "fleet_registry = \<lparr>rg_agents = [fleet_row ''eng'', fleet_row ''notes''],
     rg_contexts = [fleet_context ''eng'', fleet_context ''notes'']\<rparr>"

definition fleet_node :: node_daemon where
  "fleet_node = \<lparr>nd_registry = Readable fleet_registry, nd_agents = sample_agents []\<rparr>"

definition federated :: daemon_config where
  "federated = \<lparr>dc_node_id = Some ''n1'', dc_domains = []\<rparr>"

definition plane_row :: json where
  "plane_row = JObj [(''public_id'', JStr ''fleet-eng-1''), (''domain_id'', JStr ''d1''),
     (''runtime_kind'', JStr ''zellij_hosted''), (''supervision_mode'', JStr ''persistent''),
     (''machine'', JObj [(''webhook_url'', JStr ''https://hook'')])]"

lemma fleet_boot_ids: "map as_agent_id (boot_specs federated (Some [plane_row]) (Readable fleet_registry)) = [''fleet-eng-1'', ''notes'']"
  by code_simp

lemma fleet_boot_aliases:
  "map as_local_alias_id (boot_specs federated (Some [plane_row]) (Readable fleet_registry)) = [Some ''eng'', None]"
  by code_simp

lemma fleet_boot:
  "\<exists>s l. boot_specs federated (Some [plane_row]) (Readable fleet_registry) = [s, l] \<and> as_agent_id s = ''fleet-eng-1'' \<and>
     as_local_alias_id s = Some ''eng'' \<and> as_agent_id l = ''notes''"
  using fleet_boot_ids fleet_boot_aliases by (auto simp: map_eq_Cons_conv)

lemma fleet_node_sel [simp]:
  "nd_registry fleet_node = Readable fleet_registry" "da_running (nd_agents fleet_node) = []" "da_log (nd_agents fleet_node) = []"
  by (simp_all add: fleet_node_def)

theorem boot_single_session_witness:
  "map_of (da_running (nd_agents (boot (\<lambda>_. True) federated (Some [plane_row]) fleet_node))) ''eng'' = None"
proof -
  obtain s l where b: "boot_specs federated (Some [plane_row]) (Readable fleet_registry) = [s, l]"
    and s: "as_agent_id s = ''fleet-eng-1''" "as_local_alias_id s = Some ''eng''" "as_agent_id l = ''notes''"
    using fleet_boot by blast
  have "map_of (da_running (nd_agents (boot (\<lambda>_. True) federated (Some [plane_row]) fleet_node))) ''fleet-eng-1'' = Some s"
    by (simp add: boot_def reconcile_from_nothing b s)
  from boot_single_session [OF _ _ _ this s(2)] show ?thesis
    using b s by (simp add: federated_def)
qed

definition plane_specs :: "agent_spec list" where
  "plane_specs = the (fetch_node_agents (Some [plane_row]))"

lemma fetch_plane: "fetch_node_agents (Some [plane_row]) = Some plane_specs"
  by (simp add: plane_specs_def fetch_node_agents_def)

lemma plane_ids: "map as_agent_id plane_specs = [''fleet-eng-1'']" "map as_webhook_url plane_specs = [Some ''https://hook'']"
  by code_simp+

theorem poll_forgets_webhook_witness:
  "\<exists>s. Spawned s \<in> set (da_log (nd_agents (poll (\<lambda>_. True) ''t1'' (Some ''controlplane:p'') (Some [plane_row]) fleet_node))) \<and>
     as_webhook_url s = None"
proof -
  let ?P = "poll (\<lambda>_. True) ''t1'' (Some ''controlplane:p'') (Some [plane_row]) fleet_node"
  have "map (\<lambda>e. case e of Spawned s \<Rightarrow> as_agent_id s | ShutDown _ \<Rightarrow> []) (da_log (nd_agents ?P)) = [''fleet-eng-1'']"
    by code_simp
  then obtain e where e: "da_log (nd_agents ?P) = [e]" "(case e of Spawned s \<Rightarrow> as_agent_id s | ShutDown _ \<Rightarrow> []) = ''fleet-eng-1''"
    by (auto simp: map_eq_Cons_conv)
  then obtain s where s: "Spawned s \<in> set (da_log (nd_agents ?P))" by (cases e) auto
  have "distinct (map as_agent_id plane_specs)" by (simp add: plane_ids)
  from poll_forgets_webhook [OF fleet_node_sel(1) refl fetch_plane this s] s show ?thesis by auto
qed

theorem first_poll_stops_local_agent_witness:
  "ShutDown ''notes'' \<in> set (da_log (nd_agents
     (poll (\<lambda>_. True) ''t1'' (Some ''controlplane:p'') (Some [plane_row])
       (boot (\<lambda>_. True) federated (Some [plane_row]) fleet_node))))"
proof -
  obtain s l where b: "boot_specs federated (Some [plane_row]) (Readable fleet_registry) = [s, l]"
    and s: "as_agent_id s = ''fleet-eng-1''" "as_agent_id l = ''notes''"
    using fleet_boot by blast
  have al: "map as_local_alias_id (snd (persist_and_resolve_specs ''t1'' (Some ''controlplane:p'') plane_specs (Readable fleet_registry))) =
      [Some ''eng'']"
    by code_simp
  then obtain z where "snd (persist_and_resolve_specs ''t1'' (Some ''controlplane:p'') plane_specs (Readable fleet_registry)) = [z]"
    "as_local_alias_id z = Some ''eng''"
    by (auto simp: map_eq_Cons_conv)
  then have "desired_aliases (snd (persist_and_resolve_specs ''t1'' (Some ''controlplane:p'') plane_specs (Readable fleet_registry))) =
      {''eng''}"
    by (simp add: desired_aliases_def map_filter_simps)
  then show ?thesis
    using first_poll_stops_local_agent [of fleet_node federated "Some [plane_row]" l "\<lambda>_. True" "Some [plane_row]" plane_specs
        "''t1''" "Some ''controlplane:p''"] b s plane_ids fetch_plane
    by (simp add: desired_ids_def flip: set_map)
qed

end
