(* ===== verification/History_Log.thy ===== *)
theory History_Log
  imports Tables "HOL-Library.Char_ord" "HOL-Library.List_Lexorder"
begin

text \<open>
  The append-only histories of the node's SQLite registry (edgeplaned-bin local_registry.rs): the cron fire
  log and the unit restart log have the same shape, a table whose id is AUTOINCREMENT, listed newest
  first by a text column and swept by age and by a cap on the rows of each group. A history keeps its
  rows in order of insertion and the next id. Among rows with equal texts SQLite leaves the order of a
  listing open; here they keep their order of insertion, as a scan of the index over the group and the
  descending text column yields them.
\<close>

section \<open>Operations\<close>

record 'r history =
  h_rows :: "'r table"
  h_next :: nat

definition empty_history :: "'r history" where
  "empty_history = \<lparr>h_rows = [], h_next = 1\<rparr>"

definition h_append :: "(nat \<Rightarrow> 'r) \<Rightarrow> 'r history \<Rightarrow> 'r history" where
  "h_append mk h = \<lparr>h_rows = insert_row (mk (h_next h)) (h_rows h), h_next = Suc (h_next h)\<rparr>"

definition listed_desc :: "('r \<Rightarrow> str) \<Rightarrow> 'r list \<Rightarrow> 'r list" where
  "listed_desc stamp rs = rev (sort_key stamp (rev rs))"

text \<open>A limit of zero means no LIMIT clause.\<close>

definition with_limit :: "nat \<Rightarrow> 'r list \<Rightarrow> 'r list" where
  "with_limit n rs = (if n = 0 then rs else take n rs)"

definition of_group :: "('r \<Rightarrow> 'k) \<Rightarrow> 'k \<Rightarrow> 'r table \<Rightarrow> 'r list" where
  "of_group grp k t = select_where (\<lambda>r. tbool (grp r = k)) t"

definition kept_ids :: "('r \<Rightarrow> 'k) \<Rightarrow> ('r \<Rightarrow> str) \<Rightarrow> ('r \<Rightarrow> nat) \<Rightarrow> nat \<Rightarrow> 'k \<Rightarrow> 'r table \<Rightarrow> nat set" where
  "kept_ids grp stamp rid n k t = rid ` set (take n (listed_desc stamp (of_group grp k t)))"

definition cap_group :: "('r \<Rightarrow> 'k) \<Rightarrow> ('r \<Rightarrow> str) \<Rightarrow> ('r \<Rightarrow> nat) \<Rightarrow> nat \<Rightarrow> 'k \<Rightarrow> 'r table \<Rightarrow> 'r table" where
  "cap_group grp stamp rid n k t =
     delete_where (\<lambda>r. tand (tbool (grp r = k)) (tnot (tbool (rid r \<in> kept_ids grp stamp rid n k t)))) t"

definition age_pass :: "('r \<Rightarrow> str) \<Rightarrow> str \<Rightarrow> nat \<Rightarrow> 'r table \<Rightarrow> 'r table" where
  "age_pass stamp cutoff history_days t =
     (if 0 < history_days then delete_where (\<lambda>r. tbool (stamp r < cutoff)) t else t)"

definition cap_pass :: "('r \<Rightarrow> 'k) \<Rightarrow> ('r \<Rightarrow> str) \<Rightarrow> ('r \<Rightarrow> nat) \<Rightarrow> nat \<Rightarrow> 'r table \<Rightarrow> 'r table" where
  "cap_pass grp stamp rid n t =
     (if 0 < n then fold (cap_group grp stamp rid n) (remdups (map grp t)) t else t)"

text \<open>The sweep; cutoff is the text of SQLite's datetime('now', '-<history_days> days').\<close>

definition sweep ::
  "('r \<Rightarrow> 'k) \<Rightarrow> ('r \<Rightarrow> str) \<Rightarrow> ('r \<Rightarrow> nat) \<Rightarrow> str \<Rightarrow> nat \<Rightarrow> nat \<Rightarrow> 'r history \<Rightarrow> 'r history \<times> nat" where
  "sweep grp stamp rid cutoff history_days max_rows h =
     (let t = cap_pass grp stamp rid max_rows (age_pass stamp cutoff history_days (h_rows h))
      in (h\<lparr>h_rows := t\<rparr>, length (h_rows h) - length t))"

section \<open>Identifiers\<close>

definition history_ok :: "('r \<Rightarrow> nat) \<Rightarrow> 'r history \<Rightarrow> bool" where
  "history_ok rid h \<longleftrightarrow> unique_key rid (h_rows h) \<and> (\<forall>r\<in>set (h_rows h). rid r < h_next h)"

lemma empty_history_ok [simp]: "history_ok rid empty_history"
  by (simp add: history_ok_def empty_history_def unique_key_def)

lemma h_append_ok: "history_ok rid h \<Longrightarrow> (\<And>i. rid (mk i) = i) \<Longrightarrow> history_ok rid (h_append mk h)"
  by (fastforce simp: history_ok_def h_append_def insert_row_def unique_key_def)

lemma rows_append [simp]: "h_rows (h_append mk h) = h_rows h @ [mk (h_next h)]"
  by (simp add: h_append_def insert_row_def)

section \<open>Listings\<close>

lemma set_listed_desc [simp]: "set (listed_desc stamp rs) = set rs"
  by (simp add: listed_desc_def)

lemma length_listed_desc [simp]: "length (listed_desc stamp rs) = length rs"
  by (simp add: listed_desc_def)

lemma listed_desc_sorted: "sorted_wrt (\<lambda>a b. stamp b \<le> stamp a) (listed_desc stamp rs)"
  using sorted_sort_key [of stamp "rev rs"]
  by (simp add: listed_desc_def sorted_wrt_rev sorted_map)

lemma filter_listed_desc: "filter P (listed_desc stamp rs) = listed_desc stamp (filter P rs)"
  by (simp only: listed_desc_def rev_filter [symmetric] filter_sort)

lemma unique_listed_desc: "unique_key rid rs \<Longrightarrow> distinct (map rid (listed_desc stamp rs))"
  by (simp add: unique_key_def listed_desc_def rev_map [symmetric] distinct_map)

lemma in_of_group [simp]: "r \<in> set (of_group grp k t) \<longleftrightarrow> r \<in> set t \<and> grp r = k"
  by (auto simp: of_group_def select_where_def)

section \<open>The sweep\<close>

lemma cap_group_eq:
  "cap_group grp stamp rid n k t = filter (\<lambda>r. grp r = k \<longrightarrow> rid r \<in> kept_ids grp stamp rid n k t) t"
  by (auto simp: cap_group_def delete_where_def intro!: filter_cong)

lemma filter_take_ids:
  assumes "distinct (map f xs)"
  shows "filter (\<lambda>x. f x \<in> f ` set (take n xs)) xs = take n xs"
proof -
  have "f ` set (take n xs) \<inter> f ` set (drop n xs) = {}"
    using assms by (metis append_take_drop_id distinct_append list.set_map map_append)
  then have "filter (\<lambda>x. f x \<in> f ` set (take n xs)) (drop n xs) = []"
    by (fastforce simp: filter_empty_conv)
  then show ?thesis
    by (subst (2) append_take_drop_id [of n xs, symmetric], subst filter_append) (simp add: filter_id_conv)
qed

lemma unique_filter: "unique_key rid t \<Longrightarrow> unique_key rid (filter P t)"
  by (simp add: unique_key_def distinct_map_filter)

lemma of_group_filter: "of_group grp k (filter P t) = filter P (of_group grp k t)"
  by (simp add: of_group_def select_where_def filter_filter conj_commute)

lemma of_group_cap_other: "j \<noteq> k \<Longrightarrow> of_group grp j (cap_group grp stamp rid n k t) = of_group grp j t"
  by (auto simp: cap_group_eq of_group_def select_where_def intro!: filter_cong)

lemma listed_after_cap:
  assumes "unique_key rid t"
  shows "listed_desc stamp (of_group grp k (cap_group grp stamp rid n k t)) =
           take n (listed_desc stamp (of_group grp k t))"
proof -
  let ?g = "listed_desc stamp (of_group grp k t)"
  have "distinct (map rid ?g)"
    using assms by (intro unique_listed_desc) (simp add: of_group_def select_where_def unique_filter)
  moreover have "of_group grp k (cap_group grp stamp rid n k t) =
      filter (\<lambda>r. rid r \<in> rid ` set (take n ?g)) (of_group grp k t)"
    by (auto simp: cap_group_eq kept_ids_def of_group_def select_where_def intro!: filter_cong)
  ultimately show ?thesis
    by (simp add: filter_listed_desc [symmetric] filter_take_ids)
qed

lemma unique_cap_group: "unique_key rid t \<Longrightarrow> unique_key rid (cap_group grp stamp rid n k t)"
  by (simp add: cap_group_eq unique_filter)

lemma listed_after_caps:
  assumes "unique_key rid t" "distinct ks"
  shows "listed_desc stamp (of_group grp k (fold (cap_group grp stamp rid n) ks t)) =
           (if k \<in> set ks then take n (listed_desc stamp (of_group grp k t)) else listed_desc stamp (of_group grp k t))"
  using assms
proof (induction ks arbitrary: t)
  case (Cons a ks)
  then show ?case
    by (cases "k = a") (simp_all add: unique_cap_group listed_after_cap of_group_cap_other)
qed simp

lemma listed_after_cap_pass:
  assumes "unique_key rid t"
  shows "listed_desc stamp (of_group grp k (cap_pass grp stamp rid n t)) =
           with_limit n (listed_desc stamp (of_group grp k t))"
proof (cases "k \<in> grp ` set t")
  case False
  then have "of_group grp k t = []"
    by (auto simp: of_group_def select_where_def filter_empty_conv)
  with False show ?thesis
    using assms by (simp add: cap_pass_def with_limit_def listed_after_caps)
qed (use assms in \<open>simp add: cap_pass_def with_limit_def listed_after_caps\<close>)

lemma listed_after_age:
  "listed_desc stamp (of_group grp k (age_pass stamp cutoff days t)) =
     filter (\<lambda>r. 0 < days \<longrightarrow> cutoff \<le> stamp r) (listed_desc stamp (of_group grp k t))"
  by (simp add: age_pass_def delete_where_def of_group_filter filter_listed_desc not_less)

lemma unique_age_pass: "unique_key rid t \<Longrightarrow> unique_key rid (age_pass stamp cutoff days t)"
  by (simp add: age_pass_def delete_where_def unique_filter)

lemma cap_pass_subset: "\<exists>P. cap_pass grp stamp rid n t = filter P t"
proof -
  have "\<exists>P. fold (cap_group grp stamp rid n) ks t = filter P t" for ks
  proof (induction ks arbitrary: t)
    case (Cons k ks)
    obtain Q where "cap_group grp stamp rid n k t = filter Q t"
      by (auto simp: cap_group_eq)
    moreover obtain R where "fold (cap_group grp stamp rid n) ks (filter Q t) = filter R (filter Q t)"
      using Cons.IH by blast
    ultimately show ?case by auto
  qed (auto intro: exI [of _ "\<lambda>_. True"])
  then show ?thesis
    by (auto simp: cap_pass_def intro: exI [of _ "\<lambda>_. True"])
qed

lemma sweep_ok: "history_ok rid h \<Longrightarrow> history_ok rid (fst (sweep grp stamp rid cutoff days n h))"
  using cap_pass_subset [of grp stamp rid n "age_pass stamp cutoff days (h_rows h)"]
  by (auto simp: history_ok_def sweep_def Let_def unique_filter unique_age_pass age_pass_def delete_where_def split: if_splits)

text \<open>What a listing of one group shows after a sweep: the newest rows that are not too old, at most max_rows.\<close>

lemma listed_after_sweep:
  assumes "history_ok rid h"
  shows "listed_desc stamp (of_group grp k (h_rows (fst (sweep grp stamp rid cutoff days n h)))) =
           with_limit n (filter (\<lambda>r. 0 < days \<longrightarrow> cutoff \<le> stamp r) (listed_desc stamp (of_group grp k (h_rows h))))"
  using assms by (simp add: sweep_def Let_def history_ok_def listed_after_cap_pass unique_age_pass listed_after_age)

end
