(* ===== verification/Cron.thy ===== *)
theory Cron
  imports History_Log Tower_Data
begin

text \<open>
  The cron scheduler of a node: the configuration with its defaults and validation and the heartbeat intervals
  (edgeplaned-bin cron_config.rs), the state and the fire log in the registry (local_registry.rs), and the
  loop (cron.rs). The TOML parser hands over the fields the file has; the parsers of time zones and of
  cron expressions, the next occurrence of an expression, and the printing and reading of RFC 3339 texts
  belong to other crates and are parameters. The fires of the loop are kept as a trace, newest first.
\<close>

section \<open>The configuration\<close>

definition EP_SUPPORTED_CRON_SCHEMA :: nat where "EP_SUPPORTED_CRON_SCHEMA = 1"

record cron_retention =
  history_days :: nat
  max_rows_per_job :: nat
  gc_interval_minutes :: nat

record cron_job =
  cj_name :: str
  cj_schedule :: str
  cj_session :: str
  cj_prompt :: str
  cj_dispatch :: str
  cj_kind :: str
  cj_interval :: "str option"
  cj_enabled :: bool

record cron_config =
  cc_schema_version :: nat
  cc_timezone :: str
  cc_retention :: cron_retention
  cc_jobs :: "cron_job list"

text \<open>The fields a file may leave out, and their defaults.\<close>

record retention_fields =
  rf_history_days :: "nat option"
  rf_max_rows_per_job :: "nat option"
  rf_gc_interval_minutes :: "nat option"

record job_fields =
  jf_name :: str
  jf_schedule :: "str option"
  jf_session :: "str option"
  jf_prompt :: str
  jf_dispatch :: "str option"
  jf_kind :: "str option"
  jf_interval :: "str option"
  jf_enabled :: "bool option"

record config_fields =
  cf_schema_version :: nat
  cf_timezone :: "str option"
  cf_retention :: "retention_fields option"
  cf_jobs :: "job_fields list option"

definition or_default :: "'a option \<Rightarrow> 'a \<Rightarrow> 'a" where
  "or_default x d = (case x of Some v \<Rightarrow> v | None \<Rightarrow> d)"

definition default_timezone :: str where "default_timezone = ''America/Denver''"

definition default_retention :: cron_retention where
  "default_retention = \<lparr>history_days = 30, max_rows_per_job = 500, gc_interval_minutes = 60\<rparr>"

definition retention_of :: "retention_fields \<Rightarrow> cron_retention" where
  "retention_of f =
     \<lparr>history_days = or_default (rf_history_days f) 30, max_rows_per_job = or_default (rf_max_rows_per_job f) 500,
      gc_interval_minutes = or_default (rf_gc_interval_minutes f) 60\<rparr>"

definition job_of :: "job_fields \<Rightarrow> cron_job" where
  "job_of f =
     \<lparr>cj_name = jf_name f, cj_schedule = or_default (jf_schedule f) [], cj_session = or_default (jf_session f) ''operator'',
      cj_prompt = jf_prompt f, cj_dispatch = or_default (jf_dispatch f) ''signal'', cj_kind = or_default (jf_kind f) ''cron'',
      cj_interval = jf_interval f, cj_enabled = or_default (jf_enabled f) True\<rparr>"

definition config_of :: "config_fields \<Rightarrow> cron_config" where
  "config_of f =
     \<lparr>cc_schema_version = cf_schema_version f, cc_timezone = or_default (cf_timezone f) default_timezone,
      cc_retention = (case cf_retention f of Some r \<Rightarrow> retention_of r | None \<Rightarrow> default_retention),
      cc_jobs = map job_of (or_default (cf_jobs f) [])\<rparr>"

section \<open>Heartbeat intervals\<close>

datatype duration_error =
    EmptyDuration | NumberOverflow | UnitWithoutNumber char | UnknownUnit char | DurationOverflow
  | TrailingNumber | ZeroDuration

definition U64 :: nat where "U64 = 2 ^ 64"

definition to_digit :: "char \<Rightarrow> nat option" where
  "to_digit c = (let n = of_char c :: nat in if 48 \<le> n \<and> n \<le> 57 then Some (n - 48) else None)"

definition checked :: "nat \<Rightarrow> nat option" where
  "checked n = (if n < U64 then Some n else None)"

definition unit_secs :: "char \<Rightarrow> nat option" where
  "unit_secs c =
     (if c = CHR ''s'' then Some 1 else if c = CHR ''m'' then Some 60
      else if c = CHR ''h'' then Some (60 * 60) else if c = CHR ''d'' then Some (60 * 60 * 24) else None)"

definition push_digit :: "nat option \<Rightarrow> nat \<Rightarrow> nat option" where
  "push_digit num d = Option.bind (checked (or_default num 0 * 10)) (\<lambda>n. checked (n + d))"

definition add_unit :: "nat \<Rightarrow> nat \<Rightarrow> nat \<Rightarrow> nat option" where
  "add_unit acc n mult = Option.bind (checked (n * mult)) (\<lambda>p. checked (acc + p))"

fun duration_loop :: "nat \<Rightarrow> nat option \<Rightarrow> str \<Rightarrow> duration_error + nat \<times> nat option" where
  "duration_loop acc num [] = Inr (acc, num)"
| "duration_loop acc num (c # cs) =
     (case to_digit c of
        Some d \<Rightarrow> (case push_digit num d of
                      None \<Rightarrow> Inl NumberOverflow
                    | Some n \<Rightarrow> duration_loop acc (Some n) cs)
      | None \<Rightarrow> (case num of
                     None \<Rightarrow> Inl (UnitWithoutNumber c)
                   | Some n \<Rightarrow> (case unit_secs c of
                                    None \<Rightarrow> Inl (UnknownUnit c)
                                  | Some mult \<Rightarrow> (case add_unit acc n mult of
                                                      None \<Rightarrow> Inl DurationOverflow
                                                    | Some t \<Rightarrow> duration_loop t None cs))))"

definition parse_duration :: "str \<Rightarrow> duration_error + nat" where
  "parse_duration raw =
     (if raw = [] then Inl EmptyDuration
      else and_then (duration_loop 0 None raw) (\<lambda>(secs_sum, num).
        if num \<noteq> None then Inl TrailingNumber else if secs_sum = 0 then Inl ZeroDuration else Inr secs_sum))"

section \<open>Validation\<close>

datatype config_error =
    SchemaTooNew nat | BadTimezone str | EmptyName nat | DuplicateName nat str | EmptySession nat | EmptyPrompt nat
  | EmptySchedule nat | BadSchedule nat str | MissingInterval nat | BadInterval nat duration_error
  | UnknownKind nat str | UnknownDispatch nat str | UnreadableConfig

definition validate_kind :: "(str \<Rightarrow> bool) \<Rightarrow> nat \<Rightarrow> cron_job \<Rightarrow> config_error + unit" where
  "validate_kind schedule_ok idx job =
     (if cj_kind job = ''cron''
      then if cj_schedule job = [] then Inl (EmptySchedule idx)
           else if \<not> schedule_ok (cj_schedule job) then Inl (BadSchedule idx (cj_schedule job)) else Inr ()
      else if cj_kind job = ''heartbeat''
      then (case cj_interval job of
              None \<Rightarrow> Inl (MissingInterval idx)
            | Some raw \<Rightarrow> (case parse_duration raw of Inl e \<Rightarrow> Inl (BadInterval idx e) | Inr _ \<Rightarrow> Inr ()))
      else Inl (UnknownKind idx (cj_kind job)))"

definition validate_job :: "(str \<Rightarrow> bool) \<Rightarrow> str set \<Rightarrow> nat \<Rightarrow> cron_job \<Rightarrow> config_error + unit" where
  "validate_job schedule_ok seen idx job =
     (if cj_name job = [] then Inl (EmptyName idx)
      else if cj_name job \<in> seen then Inl (DuplicateName idx (cj_name job))
      else if cj_session job = [] then Inl (EmptySession idx)
      else if cj_prompt job = [] then Inl (EmptyPrompt idx)
      else and_then (validate_kind schedule_ok idx job) (\<lambda>_.
        if cj_dispatch job \<in> {''signal'', ''bash''} then Inr () else Inl (UnknownDispatch idx (cj_dispatch job))))"

fun validate_jobs :: "(str \<Rightarrow> bool) \<Rightarrow> str set \<Rightarrow> nat \<Rightarrow> cron_job list \<Rightarrow> config_error + unit" where
  "validate_jobs schedule_ok seen idx [] = Inr ()"
| "validate_jobs schedule_ok seen idx (job # js) =
     and_then (validate_job schedule_ok seen idx job) (\<lambda>_.
       validate_jobs schedule_ok (insert (cj_name job) seen) (Suc idx) js)"

definition validate :: "(str \<Rightarrow> bool) \<Rightarrow> (str \<Rightarrow> bool) \<Rightarrow> cron_config \<Rightarrow> config_error + unit" where
  "validate timezone_ok schedule_ok cfg =
     (if EP_SUPPORTED_CRON_SCHEMA < cc_schema_version cfg then Inl (SchemaTooNew (cc_schema_version cfg))
      else if \<not> timezone_ok (cc_timezone cfg) then Inl (BadTimezone (cc_timezone cfg))
      else validate_jobs schedule_ok {} 0 (cc_jobs cfg))"

text \<open>A file that cannot be read or is not TOML of the right shape has no fields.\<close>

definition load ::
  "(str \<Rightarrow> bool) \<Rightarrow> (str \<Rightarrow> bool) \<Rightarrow> config_fields option \<Rightarrow> config_error + cron_config" where
  "load timezone_ok schedule_ok file =
     (case file of
        None \<Rightarrow> Inl UnreadableConfig
      | Some f \<Rightarrow> and_then (validate timezone_ok schedule_ok (config_of f)) (\<lambda>_. Inr (config_of f)))"

section \<open>The registry\<close>

record agent_cron_state =
  cs_job_name :: str
  cs_last_fired_at :: "str option"
  cs_last_status :: "str option"
  cs_last_error :: "str option"
  cs_updated_at :: str

record cron_fire_entry =
  cl_id :: nat
  cl_job_name :: str
  cl_fired_at :: str
  cl_status :: str
  cl_duration_ms :: "int option"
  cl_error_message :: "str option"

record cron_registry =
  cg_state :: "agent_cron_state table"
  cg_log :: "cron_fire_entry history"

definition cron_upsert_state :: "str \<Rightarrow> str \<Rightarrow> str \<Rightarrow> str option \<Rightarrow> agent_cron_state table \<Rightarrow> agent_cron_state table" where
  "cron_upsert_state job_name fired_at status err t =
     (if exists_where (by_key cs_job_name job_name) t
      then update_where (by_key cs_job_name job_name)
             (\<lambda>r. r\<lparr>cs_last_fired_at := Some fired_at, cs_last_status := Some status, cs_last_error := err,
                    cs_updated_at := fired_at\<rparr>) t
      else insert_row \<lparr>cs_job_name = job_name, cs_last_fired_at = Some fired_at, cs_last_status = Some status,
             cs_last_error = err, cs_updated_at = fired_at\<rparr> t)"

definition cron_record_fire ::
  "str \<Rightarrow> str \<Rightarrow> str \<Rightarrow> int option \<Rightarrow> str option \<Rightarrow> cron_registry \<Rightarrow> cron_registry" where
  "cron_record_fire job_name fired_at status duration_ms error_message g =
     \<lparr>cg_state = cron_upsert_state job_name fired_at status error_message (cg_state g),
      cg_log = h_append (\<lambda>i. \<lparr>cl_id = i, cl_job_name = job_name, cl_fired_at = fired_at, cl_status = status,
        cl_duration_ms = duration_ms, cl_error_message = error_message\<rparr>) (cg_log g)\<rparr>"

definition cron_get_state :: "str \<Rightarrow> cron_registry \<Rightarrow> agent_cron_state option" where
  "cron_get_state job_name g = lookup cs_job_name job_name (cg_state g)"

definition cron_list_state :: "cron_registry \<Rightarrow> agent_cron_state list" where
  "cron_list_state g = cg_state g"

definition cron_history_for_job :: "str \<Rightarrow> nat \<Rightarrow> cron_registry \<Rightarrow> cron_fire_entry list" where
  "cron_history_for_job job_name limit g =
     with_limit limit (listed_desc cl_fired_at (of_group cl_job_name job_name (h_rows (cg_log g))))"

definition cron_history_all :: "nat \<Rightarrow> cron_registry \<Rightarrow> cron_fire_entry list" where
  "cron_history_all limit g = with_limit limit (listed_desc cl_fired_at (h_rows (cg_log g)))"

definition cron_gc :: "str \<Rightarrow> nat \<Rightarrow> nat \<Rightarrow> cron_registry \<Rightarrow> cron_registry \<times> nat" where
  "cron_gc cutoff days max_rows g =
     (let (log, deleted) = sweep cl_job_name cl_fired_at cl_id cutoff days max_rows (cg_log g)
      in (g\<lparr>cg_log := log\<rparr>, deleted))"

section \<open>The loop\<close>

text \<open>The parameters of the loop: the parser of cron expressions with the next occurrence strictly after an instant
  in a time zone, and the texts of instants.\<close>

record 'z cron_world =
  cw_zone :: "str \<Rightarrow> 'z option"
  cw_next :: "str \<Rightarrow> ('z \<Rightarrow> time \<Rightarrow> time option) option"
  cw_show :: "time \<Rightarrow> str"
  cw_read :: "str \<Rightarrow> time option"
  cw_debug :: "str \<Rightarrow> str"
  cw_show_int :: "int \<Rightarrow> str"

datatype eval_error =
    StateUnreadable | BadTimestamp str | ScheduleRefused str | NoOccurrence | NoInterval
  | IntervalRefused duration_error | KindRefused str | RecordFailed

text \<open>An error is its outermost message and the whole chain of messages.\<close>

type_synonym chained = "str \<times> str"

text \<open>The answer of a bash process: it could not be spawned, or its success, exit code and standard error.\<close>

record job_observation =
  jo_state_ok :: bool
  jo_now :: time
  jo_agent :: "str \<Rightarrow> (chained + unit) option"
  jo_bash :: "str + bool \<times> int option \<times> str"
  jo_duration_ms :: int
  jo_fired_at :: time
  jo_record_ok :: bool

record cron_fire =
  fr_job :: cron_job
  fr_anchor :: "time option"
  fr_now :: time
  fr_fired_at :: time
  fr_status :: str

record cron_loop =
  lp_config :: cron_config
  lp_registry :: cron_registry
  lp_fires :: "cron_fire list"

definition read_anchor :: "'z cron_world \<Rightarrow> agent_cron_state option \<Rightarrow> eval_error + time option" where
  "read_anchor w st =
     (case Option.bind st cs_last_fired_at of
        None \<Rightarrow> Inr None
      | Some s \<Rightarrow> (case cw_read w s of None \<Rightarrow> Inl (BadTimestamp s) | Some t \<Rightarrow> Inr (Some t)))"

definition cron_due :: "'z cron_world \<Rightarrow> 'z \<Rightarrow> time \<Rightarrow> time \<Rightarrow> cron_job \<Rightarrow> agent_cron_state option \<Rightarrow> eval_error + bool" where
  "cron_due w tz daemon_start now job st =
     and_then (read_anchor w st) (\<lambda>last.
       case cw_next w (cj_schedule job) of
         None \<Rightarrow> Inl (ScheduleRefused (cj_schedule job))
       | Some next \<Rightarrow> (case next tz (or_default last daemon_start) of
                           None \<Rightarrow> Inl NoOccurrence
                         | Some next_fire \<Rightarrow> Inr (next_fire \<le> now)))"

definition heartbeat_due :: "'z cron_world \<Rightarrow> time \<Rightarrow> cron_job \<Rightarrow> agent_cron_state option \<Rightarrow> eval_error + bool" where
  "heartbeat_due w now job st =
     (case cj_interval job of
        None \<Rightarrow> Inl NoInterval
      | Some raw \<Rightarrow> (case parse_duration raw of
            Inl e \<Rightarrow> Inl (IntervalRefused e)
          | Inr interval \<Rightarrow>
              and_then (read_anchor w st) (\<lambda>last.
                case last of None \<Rightarrow> Inr True | Some t \<Rightarrow> Inr (secs (int interval) \<le> max 0 (now - t)))))"

definition job_due :: "'z cron_world \<Rightarrow> 'z \<Rightarrow> time \<Rightarrow> time \<Rightarrow> cron_job \<Rightarrow> agent_cron_state option \<Rightarrow> eval_error + bool" where
  "job_due w tz daemon_start now job st =
     (if cj_kind job = ''cron'' then cron_due w tz daemon_start now job st
      else if cj_kind job = ''heartbeat'' then heartbeat_due w now job st
      else Inl (KindRefused (cj_kind job)))"

definition dispatch_signal :: "'z cron_world \<Rightarrow> job_observation \<Rightarrow> cron_job \<Rightarrow> chained + unit" where
  "dispatch_signal w ob job =
     (case jo_agent ob (cj_session job) of
        None \<Rightarrow> (let msg = ''agent '' @ cw_debug w (cj_session job) @ '' is not supervised locally'' in Inl (msg, msg))
      | Some r \<Rightarrow> r)"

definition dispatch_bash :: "'z cron_world \<Rightarrow> job_observation \<Rightarrow> cron_job \<Rightarrow> chained + unit" where
  "dispatch_bash w ob job =
     (case jo_bash ob of
        Inl e \<Rightarrow> (let ctx = ''spawn `bash -c ...` for cron job '' @ cw_debug w (cj_name job)
                   in Inl (ctx, ctx @ '': '' @ e))
      | Inr (success, code, stderr) \<Rightarrow>
          if success then Inr ()
          else (let msg = ''bash exited '' @ cw_show_int w (or_default code (-1)) @ '': '' @ trim (take 500 stderr)
                in Inl (msg, msg)))"

definition dispatch_job :: "'z cron_world \<Rightarrow> job_observation \<Rightarrow> cron_job \<Rightarrow> chained + unit" where
  "dispatch_job w ob job =
     (if cj_dispatch job = ''signal'' then dispatch_signal w ob job
      else if cj_dispatch job = ''bash'' then dispatch_bash w ob job
      else (let msg = ''unknown dispatch '' @ cw_debug w (cj_dispatch job) @ '' for job '' @ cw_debug w (cj_name job)
            in Inl (msg, msg)))"

definition contains_str :: "str \<Rightarrow> str \<Rightarrow> bool" where
  "contains_str p s \<longleftrightarrow> list_ex (\<lambda>n. starts_with p (drop n s)) [0..<Suc (length s)]"

definition fire_status :: "chained + unit \<Rightarrow> str \<times> str option" where
  "fire_status r =
     (case r of
        Inr _ \<Rightarrow> (''ok'', None)
      | Inl (msg, chain) \<Rightarrow>
          (if contains_str ''not registered'' msg \<or> contains_str ''not supervised'' msg
           then ''agent-not-supervised'' else ''error'', Some chain))"

definition eval_job ::
  "'z cron_world \<Rightarrow> 'z \<Rightarrow> time \<Rightarrow> job_observation \<Rightarrow> cron_job \<Rightarrow> cron_loop \<Rightarrow> cron_loop \<times> (eval_error + unit)" where
  "eval_job w tz daemon_start ob job lp =
     (if \<not> jo_state_ok ob then (lp, Inl StateUnreadable)
      else (let st = cron_get_state (cj_name job) (lp_registry lp) in
        case job_due w tz daemon_start (jo_now ob) job st of
          Inl e \<Rightarrow> (lp, Inl e)
        | Inr False \<Rightarrow> (lp, Inr ())
        | Inr True \<Rightarrow>
            (let (status, err) = fire_status (dispatch_job w ob job);
                 fired = \<lparr>fr_job = job, fr_anchor = Option.bind (Option.bind st cs_last_fired_at) (cw_read w),
                          fr_now = jo_now ob, fr_fired_at = jo_fired_at ob, fr_status = status\<rparr>;
                 lp' = lp\<lparr>lp_fires := fired # lp_fires lp\<rparr>
             in if jo_record_ok ob
                then (lp'\<lparr>lp_registry := cron_record_fire (cj_name job) (cw_show w (jo_fired_at ob)) status
                        (Some (jo_duration_ms ob)) err (lp_registry lp)\<rparr>, Inr ())
                else (lp', Inl RecordFailed))))"

definition process_cron_tick ::
  "'z cron_world \<Rightarrow> time \<Rightarrow> (cron_job \<Rightarrow> job_observation) \<Rightarrow> cron_loop \<Rightarrow> cron_loop" where
  "process_cron_tick w daemon_start obs lp =
     (case cw_zone w (cc_timezone (lp_config lp)) of
        None \<Rightarrow> lp
      | Some tz \<Rightarrow> fold (\<lambda>job l. fst (eval_job w tz daemon_start (obs job) job l))
                         (filter cj_enabled (cc_jobs (lp_config lp))) lp)"

text \<open>A file that does not load leaves the old configuration in place.\<close>

definition reload :: "'z cron_world \<Rightarrow> config_fields option \<Rightarrow> cron_loop \<Rightarrow> cron_loop" where
  "reload w file lp =
     (case load (\<lambda>z. cw_zone w z \<noteq> None) (\<lambda>s. cw_next w s \<noteq> None) file of
        Inl _ \<Rightarrow> lp
      | Inr cfg \<Rightarrow> lp\<lparr>lp_config := cfg\<rparr>)"

definition cron_loop_new :: "'z cron_world \<Rightarrow> config_fields option \<Rightarrow> cron_registry \<Rightarrow> cron_loop" where
  "cron_loop_new w file g =
     \<lparr>lp_config = (case load (\<lambda>z. cw_zone w z \<noteq> None) (\<lambda>s. cw_next w s \<noteq> None) file of
        Inr cfg \<Rightarrow> cfg
      | Inl _ \<Rightarrow> \<lparr>cc_schema_version = 1, cc_timezone = ''America/Denver'', cc_retention = default_retention, cc_jobs = []\<rparr>),
      lp_registry = g, lp_fires = []\<rparr>"

text \<open>The pause before a sweep of either log.\<close>

definition gc_sleep_secs :: "nat \<Rightarrow> nat" where
  "gc_sleep_secs interval_minutes = max 60 (min (interval_minutes * 60) (U64 - 1))"

section \<open>Intervals are sums of segments\<close>

definition dec_from :: "nat \<Rightarrow> str \<Rightarrow> nat" where
  "dec_from v ds = foldl (\<lambda>a c. a * 10 + the (to_digit c)) v ds"

definition is_digits :: "str \<Rightarrow> bool" where
  "is_digits ds \<longleftrightarrow> list_all (\<lambda>c. to_digit c \<noteq> None) ds"

text \<open>A segment is a number and the letter of its unit.\<close>

definition segment_ok :: "str \<times> char \<Rightarrow> bool" where
  "segment_ok g \<longleftrightarrow> fst g \<noteq> [] \<and> is_digits (fst g) \<and> unit_secs (snd g) \<noteq> None"

definition segment_secs :: "str \<times> char \<Rightarrow> nat" where
  "segment_secs g = dec_from 0 (fst g) * the (unit_secs (snd g))"

definition render :: "(str \<times> char) list \<Rightarrow> str" where
  "render gs = concat (map (\<lambda>g. fst g @ [snd g]) gs)"

lemma checked_Some [simp]: "checked n = Some m \<longleftrightarrow> n = m \<and> m < U64"
  by (auto simp: checked_def)

lemma push_digit_Some: "push_digit num d = Some m \<longleftrightarrow> m = or_default num 0 * 10 + d \<and> m < U64"
  by (auto simp: push_digit_def bind_eq_Some_conv)

lemma add_unit_Some: "add_unit acc n mult = Some m \<longleftrightarrow> m = acc + n * mult \<and> m < U64"
  by (auto simp: add_unit_def bind_eq_Some_conv)

lemma unit_not_digit: "unit_secs u \<noteq> None \<Longrightarrow> to_digit u = None"
  by (auto simp: unit_secs_def to_digit_def split: if_splits)

lemma unit_secs_pos: "unit_secs u = Some m \<Longrightarrow> 1 \<le> m"
  by (auto simp: unit_secs_def split: if_splits)

lemma dec_from_Cons [simp]: "dec_from v (c # cs) = dec_from (v * 10 + the (to_digit c)) cs"
  by (simp add: dec_from_def)

lemma dec_from_Nil [simp]: "dec_from v [] = v"
  by (simp add: dec_from_def)

lemma dec_from_ge: "v \<le> dec_from v ds"
proof (induction ds arbitrary: v)
  case (Cons c cs)
  have "v \<le> v * 10 + the (to_digit c)" by simp
  also have "\<dots> \<le> dec_from (v * 10 + the (to_digit c)) cs" by (rule Cons.IH)
  finally show ?case by simp
qed simp

lemma loop_digits:
  assumes "is_digits ds" "ds \<noteq> []" "dec_from (or_default num 0) ds < U64"
  shows "duration_loop acc num (ds @ rest) = duration_loop acc (Some (dec_from (or_default num 0) ds)) rest"
  using assms
proof (induction ds arbitrary: num)
  case (Cons c cs)
  obtain d where d: "to_digit c = Some d"
    using Cons.prems(1) by (auto simp: is_digits_def)
  let ?v = "or_default num 0 * 10 + d"
  have less: "dec_from ?v cs < U64" "?v < U64"
    using Cons.prems(3) d dec_from_ge [of ?v cs] by auto
  then have "push_digit num d = Some ?v"
    by (simp add: push_digit_Some)
  then have step: "duration_loop acc num ((c # cs) @ rest) = duration_loop acc (Some ?v) (cs @ rest)"
    by (simp add: d)
  show ?case
  proof (cases "cs = []")
    case False
    have "duration_loop acc (Some ?v) (cs @ rest) = duration_loop acc (Some (dec_from (or_default (Some ?v) 0) cs)) rest"
      using Cons.prems(1) False less(1) by (intro Cons.IH) (simp_all add: is_digits_def or_default_def)
    then show ?thesis
      using step d by (simp add: or_default_def)
  qed (use step d in simp)
qed simp

lemma loop_segments:
  assumes "list_all segment_ok gs" "acc + sum_list (map segment_secs gs) < U64"
  shows "duration_loop acc None (render gs) = Inr (acc + sum_list (map segment_secs gs), None)"
  using assms
proof (induction gs arbitrary: acc)
  case (Cons g gs)
  obtain ds u where g: "g = (ds, u)" by (cases g)
  obtain m where m: "unit_secs u = Some m" and ds: "is_digits ds" "ds \<noteq> []"
    using Cons.prems(1) by (auto simp: g segment_ok_def)
  have u: "to_digit u = None"
    using unit_not_digit m by simp
  let ?n = "dec_from 0 ds"
  have secs_g: "segment_secs g = ?n * m"
    by (simp add: g segment_secs_def m)
  have sum: "acc + ?n * m + sum_list (map segment_secs gs) < U64"
    using Cons.prems(2) by (simp add: secs_g add.assoc)
  have "?n \<le> ?n * m"
    using unit_secs_pos [OF m] by simp
  then have "?n < U64"
    using sum by linarith
  then have "duration_loop acc None (render (g # gs)) = duration_loop acc (Some ?n) (u # render gs)"
    using loop_digits [OF ds, of None acc] by (simp add: render_def g or_default_def)
  also have "\<dots> = duration_loop (acc + ?n * m) None (render gs)"
  proof -
    have "add_unit acc ?n m = Some (acc + ?n * m)"
      using sum by (simp add: add_unit_Some)
    then show ?thesis
      by (simp add: u m)
  qed
  also have "\<dots> = Inr (acc + ?n * m + sum_list (map segment_secs gs), None)"
    using Cons.prems(1) sum by (intro Cons.IH) simp_all
  finally show ?case
    by (simp add: secs_g add.assoc)
qed (simp add: render_def)

text \<open>Conversely, what the loop accepts is a rest of a number with its unit, if a number has begun, and segments.\<close>

lemma loop_accepts:
  assumes "duration_loop acc num s = Inr (n, None)" "acc < U64"
  shows "n < U64 \<and> (\<exists>gs. list_all segment_ok gs \<and>
     (case num of
        None \<Rightarrow> s = render gs \<and> n = acc + sum_list (map segment_secs gs)
      | Some v \<Rightarrow> \<exists>ds u m. is_digits ds \<and> unit_secs u = Some m \<and> s = ds @ u # render gs \<and>
          n = acc + dec_from v ds * m + sum_list (map segment_secs gs)))"
  using assms
proof (induction acc num s rule: duration_loop.induct)
  case (1 acc num)
  then show ?case
    by (auto simp: render_def intro!: exI [of _ "[]"])
next
  case (2 acc num c cs)
  show ?case
  proof (cases "to_digit c")
    case (Some d)
    then obtain v where v: "push_digit num d = Some v"
      using "2.prems" by (cases "push_digit num d") auto
    then have vv: "v = or_default num 0 * 10 + d"
      by (simp add: push_digit_Some)
    have "duration_loop acc (Some v) cs = Inr (n, None)"
      using "2.prems"(1) by (simp add: Some v)
    from "2.IH"(2) [OF Some v this "2.prems"(2)] obtain gs ds u m where
      IH: "n < U64" "list_all segment_ok gs" "is_digits ds" "unit_secs u = Some m" "cs = ds @ u # render gs"
        "n = acc + dec_from v ds * m + sum_list (map segment_secs gs)"
      by auto
    have digits: "is_digits (c # ds)"
      using IH(3) Some by (simp add: is_digits_def)
    show ?thesis
    proof (cases num)
      case None
      have "list_all segment_ok ((c # ds, u) # gs)" "c # cs = render ((c # ds, u) # gs)"
        "n = acc + sum_list (map segment_secs ((c # ds, u) # gs))"
        using IH digits Some vv None by (simp_all add: segment_ok_def render_def segment_secs_def or_default_def)
      then show ?thesis
        using IH(1) None unfolding None option.case by blast
    next
      case (Some v0)
      have "c # cs = (c # ds) @ u # render gs" "n = acc + dec_from v0 (c # ds) * m + sum_list (map segment_secs gs)"
        using IH \<open>to_digit c = Some d\<close> vv Some by (simp_all add: or_default_def)
      then show ?thesis
        using IH(1,2,4) digits unfolding Some option.case by blast
    qed
  next
    case None
    then obtain v m t where vm: "num = Some v" "unit_secs c = Some m" "add_unit acc v m = Some t"
      "duration_loop t None cs = Inr (n, None)"
      using "2.prems"(1) by (auto split: option.splits)
    have t: "t = acc + v * m" "t < U64"
      using vm(3) by (simp_all add: add_unit_Some)
    from "2.IH"(1) [OF None vm(1-4) t(2)] obtain gs where
      "n < U64" "list_all segment_ok gs" "cs = render gs" "n = t + sum_list (map segment_secs gs)"
      by auto
    moreover have "is_digits []" "c # cs = [] @ c # cs" "dec_from v [] = v"
      by (simp_all add: is_digits_def)
    ultimately show ?thesis
      using vm(2) t(1) unfolding vm(1) option.case by metis
  qed
qed

text \<open>C40: intervals mean what they say. parse_duration returns n seconds exactly for the texts that are a sequence
  of segments, each a decimal number followed by s, m, h or d, whose seconds add up to n, with n not
  zero and below 2^64; it refuses every other text, and no arithmetic wraps around on the way.\<close>

theorem parse_duration_exact:
  "parse_duration s = Inr n \<longleftrightarrow>
     (\<exists>gs. list_all segment_ok gs \<and> s = render gs \<and> n = sum_list (map segment_secs gs)) \<and> 0 < n \<and> n < 2 ^ 64"
proof
  assume "parse_duration s = Inr n"
  then have "duration_loop 0 None s = Inr (n, None)" "0 < n"
    by (auto simp: parse_duration_def split: if_splits)
  then show "(\<exists>gs. list_all segment_ok gs \<and> s = render gs \<and> n = sum_list (map segment_secs gs)) \<and> 0 < n \<and> n < 2 ^ 64"
    using loop_accepts [of 0 None s n] by (auto simp: U64_def)
next
  assume r: "(\<exists>gs. list_all segment_ok gs \<and> s = render gs \<and> n = sum_list (map segment_secs gs)) \<and> 0 < n \<and> n < 2 ^ 64"
  then obtain gs where gs: "list_all segment_ok gs" "s = render gs" "n = sum_list (map segment_secs gs)"
    by blast
  then have "duration_loop 0 None s = Inr (n, None)"
    using loop_segments [of gs 0] r by (simp add: U64_def)
  moreover have "s \<noteq> []"
    using gs r by (cases gs) (auto simp: render_def)
  ultimately show "parse_duration s = Inr n"
    using r by (simp add: parse_duration_def)
qed

lemma parse_duration_exact_witness: "parse_duration ''1d6h'' = Inr 108000"
proof -
  let ?gs = "[(''1'', CHR ''d''), (''6'', CHR ''h'')]"
  have "list_all segment_ok ?gs" "''1d6h'' = render ?gs" "108000 = sum_list (map segment_secs ?gs)"
    by (simp_all add: segment_ok_def render_def segment_secs_def is_digits_def to_digit_def unit_secs_def)
  then show ?thesis
    unfolding parse_duration_exact by fastforce
qed

section \<open>A loaded configuration runs\<close>

lemma validate_jobs_ok:
  assumes "validate_jobs schedule_ok seen idx js = Inr ()"
  shows "distinct (map cj_name js) \<and> (\<forall>j\<in>set js. cj_name j \<notin> seen \<and> (\<exists>i s. validate_job schedule_ok s i j = Inr ()))"
  using assms
proof (induction schedule_ok seen idx js rule: validate_jobs.induct)
  case (2 schedule_ok seen idx job js)
  then have "validate_job schedule_ok seen idx job = Inr ()"
    "validate_jobs schedule_ok (insert (cj_name job) seen) (Suc idx) js = Inr ()"
    by simp_all
  then show ?case
    using "2.IH" by (auto simp: validate_job_def split: if_splits)
qed simp

lemma load_ok:
  assumes "load timezone_ok schedule_ok file = Inr cfg"
  shows "timezone_ok (cc_timezone cfg)" "distinct (map cj_name (cc_jobs cfg))"
    "j \<in> set (cc_jobs cfg) \<Longrightarrow> \<exists>i s. validate_job schedule_ok s i j = Inr ()"
proof -
  have v: "validate timezone_ok schedule_ok cfg = Inr ()"
    using assms by (auto simp: load_def split: option.splits)
  then show "timezone_ok (cc_timezone cfg)"
    by (auto simp: validate_def split: if_splits)
  from v have js: "validate_jobs schedule_ok {} 0 (cc_jobs cfg) = Inr ()"
    by (auto simp: validate_def split: if_splits)
  show "distinct (map cj_name (cc_jobs cfg))"
    using validate_jobs_ok [OF js] by blast
  show "j \<in> set (cc_jobs cfg) \<Longrightarrow> \<exists>i s. validate_job schedule_ok s i j = Inr ()"
    using validate_jobs_ok [OF js] by blast
qed

lemma validated_dispatch: "validate_job schedule_ok s i j = Inr () \<Longrightarrow> cj_dispatch j = ''signal'' \<or> cj_dispatch j = ''bash''"
  by (auto simp: validate_job_def split: if_splits)

lemma validated_due:
  assumes "validate_job (\<lambda>s. cw_next w s \<noteq> None) seen i j = Inr ()" "job_due w tz ds now j st = Inl e"
  shows "e = NoOccurrence \<or> (\<exists>s. e = BadTimestamp s)"
proof -
  have k: "validate_kind (\<lambda>s. cw_next w s \<noteq> None) i j = Inr ()"
    using assms(1) by (auto simp: validate_job_def split: if_splits)
  then show ?thesis
    using assms(2)
    by (auto simp: validate_kind_def job_due_def cron_due_def heartbeat_due_def read_anchor_def and_then_def
        split: if_splits option.splits sum.splits)
qed

text \<open>a configuration that loads never trips the loop. If load accepts a file, its job names are distinct,
  its time zone is one the loop can use, every job has a known dispatch, and evaluating any of its jobs
  fails only for what the file does not decide: the registry cannot be read or written, the stored
  time of the last fire is unreadable, or the expression has no further occurrence.\<close>

theorem loaded_config_runs:
  assumes "load (\<lambda>z. cw_zone w z \<noteq> None) (\<lambda>s. cw_next w s \<noteq> None) file = Inr cfg"
  shows "distinct (map cj_name (cc_jobs cfg)) \<and> cw_zone w (cc_timezone cfg) \<noteq> None \<and>
    (\<forall>j\<in>set (cc_jobs cfg). cj_dispatch j \<in> {''signal'', ''bash''} \<and>
       (\<forall>tz ds ob lp e. snd (eval_job w tz ds ob j lp) = Inl e \<longrightarrow>
          e \<in> {StateUnreadable, NoOccurrence, RecordFailed} \<union> range BadTimestamp))"
proof (intro conjI ballI allI impI)
  fix j assume j: "j \<in> set (cc_jobs cfg)"
  then obtain i s where v: "validate_job (\<lambda>s. cw_next w s \<noteq> None) s i j = Inr ()"
    using load_ok(3) [OF assms] by blast
  show "cj_dispatch j \<in> {''signal'', ''bash''}"
    using validated_dispatch [OF v] by blast
  fix tz ds ob lp e assume "snd (eval_job w tz ds ob j lp) = Inl e"
  then have "e = StateUnreadable \<or> e = RecordFailed \<or>
      job_due w tz ds (jo_now ob) j (cron_get_state (cj_name j) (lp_registry lp)) = Inl e"
    by (auto simp: eval_job_def Let_def split_beta split: if_splits sum.splits bool.splits)
  then show "e \<in> {StateUnreadable, NoOccurrence, RecordFailed} \<union> range BadTimestamp"
    using validated_due [OF v] by blast
qed (use load_ok(1,2) [OF assms] in auto)

section \<open>Runs of the scheduler\<close>

text \<open>One life of the daemon: ticks, reloads and sweeps of the log, in any order. The premise ok restricts what the
  ticks observe.\<close>

inductive cron_run :: "'z cron_world \<Rightarrow> time \<Rightarrow> (job_observation \<Rightarrow> bool) \<Rightarrow> cron_loop \<Rightarrow> bool"
  for w :: "'z cron_world" and daemon_start :: time and ok :: "job_observation \<Rightarrow> bool" where
  loop_started: "cron_run w daemon_start ok (cron_loop_new w toml g)"
| loop_ticked: "cron_run w daemon_start ok lp \<Longrightarrow> (\<And>job. ok (obs job)) \<Longrightarrow>
     cron_run w daemon_start ok (process_cron_tick w daemon_start obs lp)"
| loop_reloaded: "cron_run w daemon_start ok lp \<Longrightarrow> cron_run w daemon_start ok (reload w toml lp)"
| loop_swept: "cron_run w daemon_start ok lp \<Longrightarrow>
     cron_run w daemon_start ok (lp\<lparr>lp_registry := fst (cron_gc cutoff days max_rows (lp_registry lp))\<rparr>)"

lemma cron_gc_state [simp]: "cg_state (fst (cron_gc cutoff days n g)) = cg_state g"
  by (simp add: cron_gc_def split_beta Let_def)

lemma get_state_gc [simp]: "cron_get_state name (fst (cron_gc cutoff days n g)) = cron_get_state name g"
  by (simp add: cron_get_state_def)

lemma get_state_recorded:
  "cron_get_state name (cron_record_fire job t status ms err g) =
     (if name = job then Some \<lparr>cs_job_name = job, cs_last_fired_at = Some t, cs_last_status = Some status,
        cs_last_error = err, cs_updated_at = t\<rparr> else cron_get_state name g)"
proof (cases "exists_where (by_key cs_job_name job) (cg_state g)")
  case True
  then obtain q where q: "lookup cs_job_name job (cg_state g) = Some q"
    by (cases "lookup cs_job_name job (cg_state g)") (auto simp: lookup_None exists_where_def list_ex_iff)
  show ?thesis
  proof (cases "name = job")
    case same: True
    show ?thesis
      using True q lookup_Some_in [OF q]
      by (cases q) (simp add: cron_get_state_def cron_record_fire_def cron_upsert_state_def lookup_update_where same)
  next
    case False
    then have "map_option (\<lambda>r. if holds (by_key cs_job_name job r) then f r else r) (lookup cs_job_name name (cg_state g)) =
        lookup cs_job_name name (cg_state g)" for f
      by (cases "lookup cs_job_name name (cg_state g)") (auto dest: lookup_Some_in)
    with False True show ?thesis
      by (simp add: cron_get_state_def cron_record_fire_def cron_upsert_state_def lookup_update_where)
  qed
next
  case False
  then have "lookup cs_job_name job (cg_state g) = None"
    by (auto simp: lookup_None exists_where_def list_ex_iff)
  with False show ?thesis
    by (auto simp: cron_get_state_def cron_record_fire_def cron_upsert_state_def lookup_insert_row split: option.splits)
qed

definition fires_of :: "str \<Rightarrow> cron_loop \<Rightarrow> cron_fire list" where
  "fires_of name lp = filter (\<lambda>r. cj_name (fr_job r) = name) (lp_fires lp)"

text \<open>What makes a fire due after an anchor.\<close>

definition due_after :: "'z cron_world \<Rightarrow> cron_fire \<Rightarrow> time \<Rightarrow> bool" where
  "due_after w r t \<longleftrightarrow>
     (if cj_kind (fr_job r) = ''cron''
      then \<exists>next tz n. cw_next w (cj_schedule (fr_job r)) = Some next \<and> next tz t = Some n \<and> n \<le> fr_now r
      else \<exists>raw d. cj_interval (fr_job r) = Some raw \<and> parse_duration raw = Inr d \<and> t + secs (int d) \<le> fr_now r)"

fun fires_apart :: "'z cron_world \<Rightarrow> cron_fire list \<Rightarrow> bool" where
  "fires_apart w (r # q # rs) \<longleftrightarrow>
     fr_anchor r = Some (fr_fired_at q) \<and> due_after w r (fr_fired_at q) \<and> fires_apart w (q # rs)"
| "fires_apart w _ \<longleftrightarrow> True"

definition anchored :: "'z cron_world \<Rightarrow> str \<Rightarrow> cron_loop \<Rightarrow> bool" where
  "anchored w name lp \<longleftrightarrow>
     fires_apart w (fires_of name lp) \<and>
     (\<forall>r rs. fires_of name lp = r # rs \<longrightarrow>
        Option.bind (cron_get_state name (lp_registry lp)) cs_last_fired_at = Some (cw_show w (fr_fired_at r)))"

lemma parse_duration_pos: "parse_duration raw = Inr d \<Longrightarrow> 0 < d"
  by (auto simp: parse_duration_def split: if_splits)

lemma due_anchor:
  assumes "job_due w tz ds now job st = Inr True" "Option.bind st cs_last_fired_at = Some s" "cw_read w s = Some t"
    "fr_job r = job" "fr_now r = now"
  shows "due_after w r t"
proof -
  have anchor: "read_anchor w st = Inr (Some t)"
    using assms(2,3) by (simp add: read_anchor_def)
  show ?thesis
  proof (cases "cj_kind job = ''cron''")
    case True
    then have "cron_due w tz ds now job st = Inr True"
      using assms(1) by (simp add: job_due_def)
    then show ?thesis
      using True assms(4,5)
      by (auto simp: cron_due_def anchor due_after_def or_default_def split: option.splits)
  next
    case False
    then have "heartbeat_due w now job st = Inr True"
      using assms(1) by (simp add: job_due_def split: if_splits)
    then obtain raw d where d: "cj_interval job = Some raw" "parse_duration raw = Inr d" "secs (int d) \<le> max 0 (now - t)"
      by (auto simp: heartbeat_due_def anchor split: option.splits sum.splits)
    have "secs 0 < secs (int d)"
      using parse_duration_pos [OF d(2)] by simp
    then have "t + secs (int d) \<le> now"
      using d(3) by (simp add: secs_def max_def split: if_splits)
    then show ?thesis
      using False d assms(4,5) by (simp add: due_after_def)
  qed
qed

lemma eval_keeps_anchored:
  assumes "anchored w name lp" "jo_record_ok ob" "\<And>t. cw_read w (cw_show w t) = Some t"
  shows "anchored w name (fst (eval_job w tz ds ob job lp))"
proof -
  let ?st = "cron_get_state (cj_name job) (lp_registry lp)"
  consider (idle) "fst (eval_job w tz ds ob job lp) = lp"
    | (fired) status err where "job_due w tz ds (jo_now ob) job ?st = Inr True"
      "fst (eval_job w tz ds ob job lp) = lp\<lparr>lp_fires := \<lparr>fr_job = job,
          fr_anchor = Option.bind (Option.bind ?st cs_last_fired_at) (cw_read w), fr_now = jo_now ob,
          fr_fired_at = jo_fired_at ob, fr_status = status\<rparr> # lp_fires lp,
        lp_registry := cron_record_fire (cj_name job) (cw_show w (jo_fired_at ob)) status (Some (jo_duration_ms ob)) err (lp_registry lp)\<rparr>"
  proof (cases "jo_state_ok ob \<and> job_due w tz ds (jo_now ob) job ?st = Inr True")
    case True
    obtain status err where "fire_status (dispatch_job w ob job) = (status, err)"
      by fastforce
    then show ?thesis
      using True assms(2) fired [of status err] by (simp add: eval_job_def Let_def)
  next
    case False
    have "fst (eval_job w tz ds ob job lp) = lp"
      using False by (auto simp: eval_job_def Let_def split: sum.split bool.split)
    then show ?thesis
      by (rule idle)
  qed
  then show ?thesis
  proof cases
    case (fired status err)
    show ?thesis
    proof (cases "cj_name job = name")
      case False
      then show ?thesis
        using assms(1) by (simp add: fired(2) anchored_def fires_of_def get_state_recorded)
    next
      case True
      show ?thesis
      proof (cases "fires_of name lp")
        case Nil
        then show ?thesis
          using True by (simp add: fired(2) anchored_def fires_of_def get_state_recorded)
      next
        case (Cons q qs)
        then have last: "Option.bind ?st cs_last_fired_at = Some (cw_show w (fr_fired_at q))"
          using assms(1) True by (simp add: anchored_def)
        show ?thesis
          using Cons True assms(1) due_anchor [OF fired(1) last assms(3)]
          by (simp add: fired(2) anchored_def fires_of_def get_state_recorded last assms(3))
      qed
    qed
  qed (use assms(1) in simp)
qed

lemma run_anchored:
  assumes "cron_run w ds jo_record_ok lp" "\<And>t. cw_read w (cw_show w t) = Some t"
  shows "anchored w name lp"
  using assms(1)
proof (induction rule: cron_run.induct)
  case (loop_ticked lp obs)
  have "anchored w name (fold (\<lambda>job l. fst (eval_job w tz ds (obs job) job l)) js l)" if "anchored w name l" for tz js l
    using that by (induction js arbitrary: l) (simp_all add: eval_keeps_anchored loop_ticked.hyps assms(2))
  then show ?case
    using loop_ticked.IH by (simp add: process_cron_tick_def split: option.split)
next
  case (loop_reloaded lp toml)
  then show ?case
    by (simp add: reload_def anchored_def fires_of_def split: sum.split)
qed (simp_all add: anchored_def fires_of_def cron_loop_new_def)

text \<open>no occurrence fires twice. Let the texts of instants read back as the instants. In every run in which
  fires can be recorded, across ticks, reloads and sweeps of the log, each fire of a job after its
  first is anchored at the end of the job's previous fire: a cron job fires again only for an occurrence
  that the schedule gives after that end and that has come, so what was missed meanwhile is caught up
  by one fire, and a heartbeat job only when its whole interval has passed since that end.\<close>

theorem cron_fires_apart:
  assumes "cron_run w daemon_start jo_record_ok lp" "\<And>t. cw_read w (cw_show w t) = Some t"
  shows "fires_apart w (filter (\<lambda>r. cj_name (fr_job r) = name) (lp_fires lp))"
  using run_anchored [OF assms, of name] by (simp add: anchored_def fires_of_def)

text \<open>a fire that cannot be recorded is repeated. The time of a fire is kept only in the registry, and is
  written after the dispatch. If that write fails, every later evaluation of a cron job, a minute later or
  at any other time, finds the job due again for the same occurrence and dispatches it again.\<close>

theorem unrecorded_fire_repeats:
  assumes "cj_kind job = ''cron''" "jo_state_ok o1" "jo_state_ok o2" "\<not> jo_record_ok o1" "jo_now o1 \<le> jo_now o2"
    "job_due w tz daemon_start (jo_now o1) job (cron_get_state (cj_name job) (lp_registry lp)) = Inr True"
  shows "let lp1 = fst (eval_job w tz daemon_start o1 job lp); lp2 = fst (eval_job w tz daemon_start o2 job lp1)
         in \<exists>r2 r1. lp_fires lp2 = r2 # r1 # lp_fires lp \<and> fr_job r1 = job \<and> fr_job r2 = job \<and>
              fr_anchor r2 = fr_anchor r1 \<and> fr_now r1 = jo_now o1 \<and> fr_now r2 = jo_now o2"
proof -
  have "job_due w tz daemon_start (jo_now o2) job (cron_get_state (cj_name job) (lp_registry lp)) = Inr True"
    using assms(1,5,6) by (auto simp: job_due_def cron_due_def read_anchor_def split: option.splits)
  then show ?thesis
    using assms(2-4,6) by (simp add: eval_job_def Let_def split_beta)
qed

section \<open>A small world\<close>

definition show_instant :: "time \<Rightarrow> str" where
  "show_instant t = (if t < 0 then CHR ''-'' else CHR ''+'') # replicate (nat \<bar>t\<bar>) CHR ''0''"

definition read_instant :: "str \<Rightarrow> time option" where
  "read_instant s = (case s of [] \<Rightarrow> None | c # cs \<Rightarrow>
     Some (if c = CHR ''-'' then - int (length cs) else int (length cs)))"

lemma read_show_instant [simp]: "read_instant (show_instant t) = Some t"
  by (simp add: read_instant_def show_instant_def)

definition demo_world :: "unit cron_world" where
  "demo_world = \<lparr>cw_zone = (\<lambda>z. if z = ''UTC'' \<or> z = default_timezone then Some () else None),
     cw_next = (\<lambda>s. if s = ''* * * * *'' then Some (\<lambda>_ t. Some ((t div secs 60 + 1) * secs 60)) else None),
     cw_show = show_instant, cw_read = read_instant, cw_debug = (\<lambda>s. s), cw_show_int = (\<lambda>_. [])\<rparr>"

definition demo_fields :: config_fields where
  "demo_fields = \<lparr>cf_schema_version = 1, cf_timezone = None, cf_retention = None,
     cf_jobs = Some [\<lparr>jf_name = ''hb'', jf_schedule = None, jf_session = None, jf_prompt = ''x'', jf_dispatch = None,
       jf_kind = Some ''heartbeat'', jf_interval = Some ''2m'', jf_enabled = None\<rparr>]\<rparr>"

definition demo_job :: cron_job where
  "demo_job = \<lparr>cj_name = ''hb'', cj_schedule = [], cj_session = ''operator'', cj_prompt = ''x'', cj_dispatch = ''signal'',
     cj_kind = ''heartbeat'', cj_interval = Some ''2m'', cj_enabled = True\<rparr>"

definition demo_obs :: "time \<Rightarrow> job_observation" where
  "demo_obs t = \<lparr>jo_state_ok = True, jo_now = t, jo_agent = (\<lambda>_. Some (Inr ())), jo_bash = Inr (True, Some 0, []),
     jo_duration_ms = 1000, jo_fired_at = t + secs 1, jo_record_ok = True\<rparr>"

definition no_cron :: cron_registry where
  "no_cron = \<lparr>cg_state = [], cg_log = empty_history\<rparr>"

lemma two_minutes: "parse_duration ''2m'' = Inr 120"
  by (simp add: parse_duration_def to_digit_def push_digit_def or_default_def checked_def U64_def unit_secs_def add_unit_def)

lemma demo_load: "load (\<lambda>z. cw_zone demo_world z \<noteq> None) (\<lambda>s. cw_next demo_world s \<noteq> None) (Some demo_fields) =
  Inr \<lparr>cc_schema_version = 1, cc_timezone = default_timezone, cc_retention = default_retention, cc_jobs = [demo_job]\<rparr>"
  by (simp add: load_def validate_def config_of_def demo_fields_def demo_world_def job_of_def or_default_def
      EP_SUPPORTED_CRON_SCHEMA_def validate_job_def validate_kind_def two_minutes demo_job_def)

lemma loaded_config_runs_witness: "cj_dispatch demo_job \<in> {''signal'', ''bash''}"
  using loaded_config_runs [OF demo_load] by simp

lemma demo_started: "cron_loop_new demo_world (Some demo_fields) no_cron =
  \<lparr>lp_config = \<lparr>cc_schema_version = 1, cc_timezone = default_timezone, cc_retention = default_retention, cc_jobs = [demo_job]\<rparr>,
   lp_registry = no_cron, lp_fires = []\<rparr>"
  by (simp only: cron_loop_new_def demo_load sum.case)

lemma cron_fires_apart_witness:
  "\<exists>lp. length (lp_fires lp) = 2 \<and>
     fires_apart demo_world (filter (\<lambda>r. cj_name (fr_job r) = ''hb'') (lp_fires (lp :: cron_loop)))"
proof -
  let ?lp0 = "cron_loop_new demo_world (Some demo_fields) no_cron"
  let ?lp1 = "process_cron_tick demo_world 0 (\<lambda>_. demo_obs (secs 5)) ?lp0"
  let ?lp2 = "process_cron_tick demo_world 0 (\<lambda>_. demo_obs (secs 126)) ?lp1"
  have "cron_run demo_world 0 jo_record_ok ?lp2"
    by (intro cron_run.intros) (simp_all add: demo_obs_def)
  moreover have "cw_read demo_world (cw_show demo_world t) = Some t" for t
    by (simp add: demo_world_def)
  moreover have "length (lp_fires ?lp2) = 2"
    unfolding demo_started
    by (simp add: process_cron_tick_def eval_job_def demo_world_def demo_job_def Let_def split_beta job_due_def
        heartbeat_due_def read_anchor_def two_minutes cron_get_state_def no_cron_def cron_record_fire_def
        cron_upsert_state_def exists_where_def lookup_Cons insert_row_def demo_obs_def secs_def)
  ultimately show ?thesis
    using cron_fires_apart by blast
qed

lemma unrecorded_fire_repeats_witness:
  "length (lp_fires (fst (eval_job demo_world () 0 (demo_obs (secs 120))
       (demo_job\<lparr>cj_kind := ''cron'', cj_schedule := ''* * * * *''\<rparr>)
       (fst (eval_job demo_world () 0 ((demo_obs (secs 60))\<lparr>jo_record_ok := False\<rparr>)
          (demo_job\<lparr>cj_kind := ''cron'', cj_schedule := ''* * * * *''\<rparr>)
          (cron_loop_new demo_world (Some demo_fields) no_cron)))))) = 2"
proof -
  let ?job = "demo_job\<lparr>cj_kind := ''cron'', cj_schedule := ''* * * * *''\<rparr>"
  have "job_due demo_world () 0 (secs 60) ?job
      (cron_get_state (cj_name ?job) (lp_registry (cron_loop_new demo_world (Some demo_fields) no_cron))) = Inr True"
    unfolding demo_started
    by (simp add: job_due_def cron_due_def read_anchor_def cron_get_state_def no_cron_def demo_world_def or_default_def secs_def)
  then show ?thesis
    using unrecorded_fire_repeats [of ?job "(demo_obs (secs 60))\<lparr>jo_record_ok := False\<rparr>" "demo_obs (secs 120)" demo_world "()" 0
        "cron_loop_new demo_world (Some demo_fields) no_cron"]
    unfolding demo_started by (auto simp: demo_obs_def Let_def no_cron_def)
qed

section \<open>What the fire log shows\<close>

text \<open>a sweep keeps the newest fires. Of each job, a listing after cron_gc shows the fires it showed before,
  without those older than the cutoff when history_days is not zero, cut off after max_rows_per_job
  when that is not zero, in the same order; the state of the jobs is untouched.\<close>

theorem cron_gc_keeps_newest:
  assumes "history_ok cl_id (cg_log g)" "cron_gc cutoff days max_rows g = (g', deleted)"
  shows "cron_history_for_job job 0 g' =
      with_limit max_rows (filter (\<lambda>r. 0 < days \<longrightarrow> cutoff \<le> cl_fired_at r) (cron_history_for_job job 0 g)) \<and>
    (\<forall>name. cron_get_state name g' = cron_get_state name g) \<and> history_ok cl_id (cg_log g')"
proof -
  have g': "g' = fst (cron_gc cutoff days max_rows g)" "cg_log g' = fst (sweep cl_job_name cl_fired_at cl_id cutoff days max_rows (cg_log g))"
    using assms(2) by (auto simp: cron_gc_def split_beta Let_def)
  show ?thesis
    using listed_after_sweep [OF assms(1), where stamp = cl_fired_at and grp = cl_job_name and k = job]
      sweep_ok [OF assms(1), where stamp = cl_fired_at and grp = cl_job_name]
    by (simp add: cron_history_for_job_def with_limit_def [of 0] g'(2)) (simp add: g'(1))
qed

lemma cron_gc_keeps_newest_witness:
  "map cl_id (cron_history_for_job ''j'' 0 (fst (cron_gc ''2026-02'' 30 1
     (cron_record_fire ''j'' ''2026-04'' ''ok'' None None (cron_record_fire ''j'' ''2026-03'' ''ok'' None None
       (cron_record_fire ''j'' ''2026-01'' ''ok'' None None no_cron)))))) = [3]"
proof -
  let ?g = "cron_record_fire ''j'' ''2026-04'' ''ok'' None None (cron_record_fire ''j'' ''2026-03'' ''ok'' None None
       (cron_record_fire ''j'' ''2026-01'' ''ok'' None None no_cron))"
  have ok: "history_ok cl_id (cg_log ?g)"
    by (simp add: cron_record_fire_def no_cron_def h_append_ok)
  obtain g' d where gc: "cron_gc ''2026-02'' 30 1 ?g = (g', d)"
    by fastforce
  have "map cl_id (with_limit 1 (filter (\<lambda>r. 0 < (30 :: nat) \<longrightarrow> ''2026-02'' \<le> cl_fired_at r) (cron_history_for_job ''j'' 0 ?g))) = [3]"
    by (simp add: cron_history_for_job_def with_limit_def cron_record_fire_def h_append_def insert_row_def no_cron_def
        empty_history_def listed_desc_def of_group_def select_where_def less_eq_char_def less_char_def)
  then show ?thesis
    using conjunct1 [OF cron_gc_keeps_newest [OF ok gc, of "''j''"]] by (simp only: gc fst_conv)
qed

section \<open>The status of a fire\<close>

lemma contains_str_iff: "contains_str p s \<longleftrightarrow> (\<exists>a b. s = a @ p @ b)"
proof
  assume "contains_str p s"
  then obtain n where "starts_with p (drop n s)"
    unfolding contains_str_def list_ex_iff by blast
  then show "\<exists>a b. s = a @ p @ b"
    by (metis append_take_drop_id starts_with_iff)
next
  assume "\<exists>a b. s = a @ p @ b"
  then obtain a b where "s = a @ p @ b" by blast
  then show "contains_str p s"
    by (auto simp: contains_str_def list_ex_iff starts_with_iff intro!: bexI [of _ "length a"])
qed

text \<open>The status of a fire is read off the text of the error: a shell script that fails with one of two phrases at
  hand in its output is reported as an agent that is not supervised.\<close>

lemma bash_failure_misreported:
  assumes "cj_dispatch job = ''bash''" "jo_bash ob = Inr (False, code, stderr)"
    "trim (take 500 stderr) = a @ ''not registered'' @ b"
  shows "fst (fire_status (dispatch_job w ob job)) = ''agent-not-supervised''"
proof -
  have "contains_str ''not registered'' (''bash exited '' @ x @ '': '' @ a @ ''not registered'' @ b)" for x
    unfolding contains_str_iff by (intro exI [of _ "''bash exited '' @ x @ '': '' @ a"] exI [of _ b]) simp
  then show ?thesis
    using assms by (simp add: dispatch_job_def dispatch_bash_def fire_status_def Let_def)
qed

end
