(* ===== verification/Unit_Health.thy ===== *)
theory Unit_Health
  imports History_Log Agent_Registry
begin

text \<open>
  The supervision of systemd units (edgeplaned-bin unit_health.rs) and its log in the registry
  (local_registry.rs, unit_restart_log). Every tick looks at each agent with a unit, restarts dead ones
  within a throttle and active ones once a night, and logs what it did. What one check of an agent
  sees (the clocks, the answers of systemctl, whether the log can be written) is an observation; the
  restarts issued are kept as a trace, newest first, which the program does not store.
\<close>

section \<open>The restart log\<close>

record unit_restart_entry =
  ur_id :: nat
  ur_agent_id :: str
  ur_source :: str
  ur_triggered_at :: str
  ur_reason :: str
  ur_result :: str
  ur_systemctl_exit :: "int option"
  ur_notes :: "str option"

type_synonym unit_restart_log = "unit_restart_entry history"

definition ur_key :: "unit_restart_entry \<Rightarrow> str \<times> str" where
  "ur_key r = (ur_source r, ur_agent_id r)"

definition log_unit_restart ::
  "str \<Rightarrow> str \<Rightarrow> str \<Rightarrow> str \<Rightarrow> str \<Rightarrow> int option \<Rightarrow> str option \<Rightarrow> unit_restart_log \<Rightarrow> unit_restart_log" where
  "log_unit_restart agent_id source triggered_at reason result systemctl_exit notes h =
     h_append (\<lambda>i. \<lparr>ur_id = i, ur_agent_id = agent_id, ur_source = source, ur_triggered_at = triggered_at,
       ur_reason = reason, ur_result = result, ur_systemctl_exit = systemctl_exit, ur_notes = notes\<rparr>) h"

definition unit_restart_history :: "str \<Rightarrow> str \<Rightarrow> nat \<Rightarrow> unit_restart_log \<Rightarrow> unit_restart_entry list" where
  "unit_restart_history source agent_id limit h =
     with_limit limit (listed_desc ur_triggered_at (of_group ur_key (source, agent_id) (h_rows h)))"

definition unit_restart_history_all :: "nat \<Rightarrow> unit_restart_log \<Rightarrow> unit_restart_entry list" where
  "unit_restart_history_all limit h = with_limit limit (listed_desc ur_triggered_at (h_rows h))"

definition unit_restart_gc :: "str \<Rightarrow> nat \<Rightarrow> nat \<Rightarrow> unit_restart_log \<Rightarrow> unit_restart_log \<times> nat" where
  "unit_restart_gc cutoff history_days max_rows_per_agent h =
     sweep ur_key ur_triggered_at ur_id cutoff history_days max_rows_per_agent h"

section \<open>The loop\<close>

record unit_health_config =
  tick_secs :: nat
  retry_throttle_secs :: nat
  post_restart_grace_secs :: nat
  nightly_restart_hour :: "nat option"

definition default_unit_health :: unit_health_config where
  "default_unit_health =
     \<lparr>tick_secs = 60, retry_throttle_secs = 1800, post_restart_grace_secs = 90, nightly_restart_hour = Some 3\<rparr>"

record agent_state =
  last_restart_attempt_at :: "time option"
  last_restart_completed_at :: "time option"
  dead_alert_published :: bool
  last_nightly_date :: "str option"

definition new_agent_state :: agent_state where
  "new_agent_state =
     \<lparr>last_restart_attempt_at = None, last_restart_completed_at = None, dead_alert_published = False, last_nightly_date = None\<rparr>"

datatype supervisor_event =
    UnitDeadDetected str str str str
  | UnitRestarted str str str str str "int option" str
  | SupervisePaused str str str
  | SuperviseResumed str str str
  | NightlyRestartFired str str str str

record restart =
  rs_key :: "str \<times> str"
  rs_service :: str
  rs_reason :: str
  rs_attempt :: time
  rs_completed :: time
  rs_date :: str

text \<open>The answer of systemctl is-active is its success with its output; restart fails to spawn or gives a status
  code, if it has one.\<close>

record observation =
  ob_grace_at :: time
  ob_is_active :: "(bool \<times> str) option"
  ob_today :: str
  ob_throttle_at :: time
  ob_attempt_at :: time
  ob_restart :: "str + int option"
  ob_completed_at :: time
  ob_log_ok :: bool
  ob_at :: str

record unit_health =
  uh_state :: "str \<times> str \<Rightarrow> agent_state option"
  uh_events :: "supervisor_event list"
  uh_log :: unit_restart_log
  uh_restarts :: "restart list"

definition systemctl_is_active :: "(bool \<times> str) option \<Rightarrow> bool" where
  "systemctl_is_active out = (case out of Some (success, stdout) \<Rightarrow> success \<and> trim stdout = ''active'' | None \<Rightarrow> False)"

definition systemctl_restart :: "str + int option \<Rightarrow> str + int" where
  "systemctl_restart out = (case out of Inl e \<Rightarrow> Inl e | Inr code \<Rightarrow> Inr (case code of Some c \<Rightarrow> c | None \<Rightarrow> -1))"

definition elapsed_lt :: "time \<Rightarrow> time option \<Rightarrow> nat \<Rightarrow> bool" where
  "elapsed_lt now since n = (case since of Some t \<Rightarrow> max 0 (now - t) < secs (int n) | None \<Rightarrow> False)"

definition on_state :: "str \<times> str \<Rightarrow> (agent_state \<Rightarrow> agent_state) \<Rightarrow> unit_health \<Rightarrow> unit_health" where
  "on_state key f u = u\<lparr>uh_state := (uh_state u)(key := map_option f (uh_state u key))\<rparr>"

definition send :: "supervisor_event \<Rightarrow> unit_health \<Rightarrow> unit_health" where
  "send ev u = u\<lparr>uh_events := uh_events u @ [ev]\<rparr>"

definition log_to_registry ::
  "observation \<Rightarrow> launch_context \<Rightarrow> str \<Rightarrow> str \<Rightarrow> int option \<Rightarrow> str option \<Rightarrow> unit_health \<Rightarrow> unit_health \<times> bool" where
  "log_to_registry ob ctx reason result exit_code notes u =
     (if ob_log_ok ob
      then (u\<lparr>uh_log := log_unit_restart (lc_agent_id ctx) (lc_source ctx) (ob_at ob) reason result exit_code notes (uh_log u)\<rparr>, True)
      else (u, False))"

definition restart_outcome :: "(int \<Rightarrow> str) \<Rightarrow> str + int \<Rightarrow> str \<times> int option \<times> str option" where
  "restart_outcome show_int exit =
     (case exit of
        Inr code \<Rightarrow> if code = 0 then (''started'', Some 0, None)
                    else (''failed'', Some code, Some (''systemctl exit '' @ show_int code))
      | Inl e \<Rightarrow> (''failed'', None, Some (''spawn failed: '' @ e)))"

definition fire_restart ::
  "(int \<Rightarrow> str) \<Rightarrow> observation \<Rightarrow> launch_context \<Rightarrow> str \<Rightarrow> str \<Rightarrow> unit_health \<Rightarrow> unit_health \<times> bool" where
  "fire_restart show_int ob ctx service reason u =
     (let key = context_key ctx;
          u1 = on_state key (\<lambda>s. s\<lparr>last_restart_attempt_at := Some (ob_attempt_at ob)\<rparr>) u;
          u2 = u1\<lparr>uh_restarts := \<lparr>rs_key = key, rs_service = service, rs_reason = reason, rs_attempt = ob_attempt_at ob,
                 rs_completed = ob_completed_at ob, rs_date = ob_today ob\<rparr> # uh_restarts u1\<rparr>;
          (result, exit_code, notes) = restart_outcome show_int (systemctl_restart (ob_restart ob));
          u3 = on_state key (\<lambda>s. s\<lparr>last_restart_completed_at := Some (ob_completed_at ob)\<rparr>) u2;
          (u4, logged) = log_to_registry ob ctx reason result exit_code notes u3
      in if logged
         then (send (UnitRestarted (lc_agent_id ctx) (lc_source ctx) service reason result exit_code (ob_at ob)) u4, True)
         else (u4, False))"

definition eval_active ::
  "(int \<Rightarrow> str) \<Rightarrow> bool \<Rightarrow> observation \<Rightarrow> launch_context \<Rightarrow> str \<Rightarrow> unit_health \<Rightarrow> unit_health \<times> bool" where
  "eval_active show_int nightly_active ob ctx service u0 =
     (let key = context_key ctx;
          u = on_state key (\<lambda>s. s\<lparr>dead_alert_published := False\<rparr>) u0
      in if nightly_active \<and> \<not> lc_supervise_paused ctx \<and>
            (case uh_state u key of Some s \<Rightarrow> last_nightly_date s \<noteq> Some (ob_today ob) | None \<Rightarrow> True)
         then (let (u1, fired) = fire_restart show_int ob ctx service ''nightly'' u
               in if fired
                  then (send (NightlyRestartFired (lc_agent_id ctx) (lc_source ctx) service (ob_at ob))
                         (on_state key (\<lambda>s. s\<lparr>last_nightly_date := Some (ob_today ob)\<rparr>) u1), True)
                  else (u1, False))
         else (u, True))"

definition alert_dead :: "observation \<Rightarrow> launch_context \<Rightarrow> str \<Rightarrow> unit_health \<Rightarrow> unit_health" where
  "alert_dead ob ctx service u =
     (if (case uh_state u (context_key ctx) of Some s \<Rightarrow> \<not> dead_alert_published s | None \<Rightarrow> True)
      then on_state (context_key ctx) (\<lambda>s. s\<lparr>dead_alert_published := True\<rparr>)
             (send (UnitDeadDetected (lc_agent_id ctx) (lc_source ctx) service (ob_at ob)) u)
      else u)"

definition eval_agent ::
  "(int \<Rightarrow> str) \<Rightarrow> unit_health_config \<Rightarrow> bool \<Rightarrow> observation \<Rightarrow> launch_context \<Rightarrow> str \<Rightarrow> unit_health \<Rightarrow> unit_health \<times> bool" where
  "eval_agent show_int cfg nightly_active ob ctx service u0 =
     (if systemctl_is_active (ob_is_active ob) then eval_active show_int nightly_active ob ctx service u0
      else (let u = alert_dead ob ctx service u0;
                last_attempt = (case uh_state u (context_key ctx) of Some s \<Rightarrow> last_restart_attempt_at s | None \<Rightarrow> None)
            in if lc_supervise_paused ctx then (u, True)
               else if elapsed_lt (ob_throttle_at ob) last_attempt (retry_throttle_secs cfg)
               then log_to_registry ob ctx ''dead'' ''throttled'' None None u
               else fire_restart show_int ob ctx service ''dead'' u))"

definition ensure_state :: "str \<times> str \<Rightarrow> unit_health \<Rightarrow> unit_health" where
  "ensure_state key u =
     (case uh_state u key of Some _ \<Rightarrow> u | None \<Rightarrow> u\<lparr>uh_state := (uh_state u)(key \<mapsto> new_agent_state)\<rparr>)"

definition check_agent ::
  "(int \<Rightarrow> str) \<Rightarrow> unit_health_config \<Rightarrow> bool \<Rightarrow> (launch_context \<Rightarrow> observation) \<Rightarrow> launch_context \<Rightarrow> unit_health \<Rightarrow> unit_health" where
  "check_agent show_int cfg nightly_active obs ctx u0 =
     (case lc_systemd_service ctx of
        None \<Rightarrow> u0
      | Some service \<Rightarrow>
          if starts_with ''edgeplaned'' service then u0
          else (let u = ensure_state (context_key ctx) u0;
                    last_completed = (case uh_state u (context_key ctx) of Some s \<Rightarrow> last_restart_completed_at s | None \<Rightarrow> None)
                in if elapsed_lt (ob_grace_at (obs ctx)) last_completed (post_restart_grace_secs cfg) then u
                   else fst (eval_agent show_int cfg nightly_active (obs ctx) ctx service u)))"

text \<open>A tick reads the launch contexts (None: the registry cannot be read) and the hour of the local clock.\<close>

definition process_tick ::
  "(int \<Rightarrow> str) \<Rightarrow> unit_health_config \<Rightarrow> launch_context list option \<Rightarrow> nat \<Rightarrow> (launch_context \<Rightarrow> observation) \<Rightarrow>
   unit_health \<Rightarrow> unit_health" where
  "process_tick show_int cfg agents now_hour obs u =
     (case agents of
        None \<Rightarrow> u
      | Some cs \<Rightarrow> fold (check_agent show_int cfg (nightly_restart_hour cfg = Some now_hour) obs) cs u)"

definition unit_health_new :: "unit_restart_log \<Rightarrow> unit_health" where
  "unit_health_new log = \<lparr>uh_state = (\<lambda>_. None), uh_events = [], uh_log = log, uh_restarts = []\<rparr>"

definition list_supervised :: "(str \<Rightarrow> str) \<Rightarrow> agent_registry \<Rightarrow> (launch_context \<times> str option) list" where
  "list_supervised unit_state g =
     map (\<lambda>c. (c, map_option unit_state (lc_systemd_service c)))
       (filter (\<lambda>c. lc_systemd_service c \<noteq> None) (list_all_launch_contexts g))"

section \<open>What one check of an agent does\<close>

definition stamps :: "unit_health \<Rightarrow> str \<times> str \<Rightarrow> time option \<times> time option" where
  "stamps u k = (case uh_state u k of
     Some s \<Rightarrow> (last_restart_attempt_at s, last_restart_completed_at s) | None \<Rightarrow> (None, None))"

definition restarts_of :: "str \<times> str \<Rightarrow> unit_health \<Rightarrow> restart list" where
  "restarts_of k u = filter (\<lambda>r. rs_key r = k) (uh_restarts u)"

definition restart_at :: "observation \<Rightarrow> str \<times> str \<Rightarrow> str \<Rightarrow> str \<Rightarrow> restart" where
  "restart_at ob k service reason =
     \<lparr>rs_key = k, rs_service = service, rs_reason = reason, rs_attempt = ob_attempt_at ob,
      rs_completed = ob_completed_at ob, rs_date = ob_today ob\<rparr>"

text \<open>The conditions under which a check of an agent restarts its unit.\<close>

definition may_restart ::
  "unit_health_config \<Rightarrow> bool \<Rightarrow> observation \<Rightarrow> launch_context \<Rightarrow> time option \<times> time option \<Rightarrow> str \<Rightarrow> str \<Rightarrow> bool" where
  "may_restart cfg nightly_active ob ctx st service reason \<longleftrightarrow>
     lc_systemd_service ctx = Some service \<and> \<not> starts_with ''edgeplaned'' service \<and> \<not> lc_supervise_paused ctx \<and>
     \<not> elapsed_lt (ob_grace_at ob) (snd st) (post_restart_grace_secs cfg) \<and>
     (if systemctl_is_active (ob_is_active ob) then reason = ''nightly'' \<and> nightly_active
      else reason = ''dead'' \<and> \<not> elapsed_lt (ob_throttle_at ob) (fst st) (retry_throttle_secs cfg))"

named_theorems health_simps \<open>effect of the steps of the supervision loop on its trace and its stamps\<close>

lemma on_state_restarts [health_simps]: "uh_restarts (on_state k f u) = uh_restarts u"
  by (simp add: on_state_def)

lemma send_fields [health_simps]:
  "uh_restarts (send ev u) = uh_restarts u" "uh_state (send ev u) = uh_state u" "stamps (send ev u) = stamps u"
  by (simp_all add: send_def stamps_def fun_eq_iff)

lemma log_fields [health_simps]:
  "uh_restarts (fst (log_to_registry ob ctx reason res code notes u)) = uh_restarts u"
  "uh_state (fst (log_to_registry ob ctx reason res code notes u)) = uh_state u"
  "snd (log_to_registry ob ctx reason res code notes u) = ob_log_ok ob"
  by (simp_all add: log_to_registry_def)

lemma on_state_same [health_simps]: "uh_state (on_state k f u) k = map_option f (uh_state u k)"
  by (simp add: on_state_def)

lemma on_state_other [health_simps]: "j \<noteq> k \<Longrightarrow> uh_state (on_state k f u) j = uh_state u j"
  by (simp add: on_state_def)

lemma fire_restart_restarts [health_simps]:
  "uh_restarts (fst (fire_restart show_int ob ctx service reason u)) =
     restart_at ob (context_key ctx) service reason # uh_restarts u"
  by (simp add: fire_restart_def Let_def split_beta health_simps restart_at_def)

lemma fire_restart_ok [health_simps]: "snd (fire_restart show_int ob ctx service reason u) = ob_log_ok ob"
  by (simp add: fire_restart_def Let_def split_beta health_simps)

lemma fire_restart_state [health_simps]:
  "uh_state (fst (fire_restart show_int ob ctx service reason u)) =
     (uh_state u)(context_key ctx := map_option (\<lambda>s. s\<lparr>last_restart_attempt_at := Some (ob_attempt_at ob),
        last_restart_completed_at := Some (ob_completed_at ob)\<rparr>) (uh_state u (context_key ctx)))"
  by (cases "uh_state u (context_key ctx)")
    (simp_all add: fire_restart_def Let_def split_beta health_simps on_state_def fun_eq_iff)

lemma alert_dead_fields [health_simps]:
  "uh_restarts (alert_dead ob ctx service u) = uh_restarts u" "stamps (alert_dead ob ctx service u) = stamps u"
  by (auto simp: alert_dead_def health_simps stamps_def on_state_def send_def fun_eq_iff split: option.splits)

lemma alert_dead_state [health_simps]:
  "uh_state (alert_dead ob ctx service u) =
     (uh_state u)(context_key ctx := map_option (\<lambda>s. s\<lparr>dead_alert_published := True\<rparr>) (uh_state u (context_key ctx)))"
  by (auto simp: alert_dead_def on_state_def send_def fun_eq_iff split: option.splits)

lemma ensure_state_fields [health_simps]:
  "uh_restarts (ensure_state k u) = uh_restarts u" "stamps (ensure_state k u) = stamps u"
  "uh_state (ensure_state k u) k \<noteq> None" "j \<noteq> k \<Longrightarrow> uh_state (ensure_state k u) j = uh_state u j"
  by (auto simp: ensure_state_def stamps_def new_agent_state_def fun_eq_iff split: option.splits)

lemma stamps_same: "uh_state u k = Some s \<Longrightarrow>
  stamps u k = (last_restart_attempt_at s, last_restart_completed_at s)"
  by (simp add: stamps_def)

lemma stamp_parts:
  "(case uh_state u k of Some s \<Rightarrow> last_restart_attempt_at s | None \<Rightarrow> None) = fst (stamps u k)"
  "(case uh_state u k of Some s \<Rightarrow> last_restart_completed_at s | None \<Rightarrow> None) = snd (stamps u k)"
  by (simp_all add: stamps_def split: option.splits)

definition unchanged :: "str \<times> str \<Rightarrow> unit_health \<Rightarrow> unit_health \<Rightarrow> bool" where
  "unchanged k u u' \<longleftrightarrow> uh_restarts u' = uh_restarts u \<and> stamps u' k = stamps u k"

definition restarted :: "observation \<Rightarrow> str \<times> str \<Rightarrow> str \<Rightarrow> str \<Rightarrow> unit_health \<Rightarrow> unit_health \<Rightarrow> bool" where
  "restarted ob k service reason u u' \<longleftrightarrow>
     uh_restarts u' = restart_at ob k service reason # uh_restarts u \<and>
     stamps u' k = (Some (ob_attempt_at ob), Some (ob_completed_at ob))"

lemma eval_active_effect:
  assumes "uh_state u (context_key ctx) = Some s"
  shows "unchanged (context_key ctx) u (fst (eval_active show_int nightly ob ctx service u)) \<or>
    (nightly \<and> \<not> lc_supervise_paused ctx \<and> last_nightly_date s \<noteq> Some (ob_today ob) \<and>
     restarted ob (context_key ctx) service ''nightly'' u (fst (eval_active show_int nightly ob ctx service u)))"
  using assms
  by (auto simp: eval_active_def Let_def split_beta health_simps unchanged_def restarted_def stamps_def on_state_def)

lemma eval_agent_effect:
  assumes "uh_state u (context_key ctx) = Some s" "lc_systemd_service ctx = Some service"
    "\<not> starts_with ''edgeplaned'' service"
    "\<not> elapsed_lt (ob_grace_at ob) (snd (stamps u (context_key ctx))) (post_restart_grace_secs cfg)"
  shows "unchanged (context_key ctx) u (fst (eval_agent show_int cfg nightly ob ctx service u)) \<or>
    (\<exists>reason. may_restart cfg nightly ob ctx (stamps u (context_key ctx)) service reason \<and>
      restarted ob (context_key ctx) service reason u (fst (eval_agent show_int cfg nightly ob ctx service u)))"
proof (cases "systemctl_is_active (ob_is_active ob)")
  case True
  then show ?thesis
    using eval_active_effect [OF assms(1), of show_int nightly ob service] assms(2-)
    by (auto simp: eval_agent_def may_restart_def)
next
  case False
  have "restarted ob (context_key ctx) service ''dead'' u
      (fst (fire_restart show_int ob ctx service ''dead'' (alert_dead ob ctx service u)))"
    using assms(1) by (simp add: restarted_def health_simps stamps_def)
  with False show ?thesis
    using assms
    by (auto simp: eval_agent_def Let_def stamp_parts health_simps may_restart_def unchanged_def stamps_def)
qed

lemma check_agent_effect:
  "unchanged (context_key ctx) u (check_agent show_int cfg nightly obs ctx u) \<or>
   (\<exists>service reason. may_restart cfg nightly (obs ctx) ctx (stamps u (context_key ctx)) service reason \<and>
      restarted (obs ctx) (context_key ctx) service reason u (check_agent show_int cfg nightly obs ctx u))"
proof (cases "lc_systemd_service ctx")
  case (Some service)
  let ?k = "context_key ctx" and ?u = "ensure_state (context_key ctx) u"
  obtain s where s: "uh_state ?u ?k = Some s"
    using ensure_state_fields(3) by blast
  show ?thesis
  proof (cases "starts_with ''edgeplaned'' service \<or>
      elapsed_lt (ob_grace_at (obs ctx)) (snd (stamps ?u ?k)) (post_restart_grace_secs cfg)")
    case True
    then show ?thesis
      by (auto simp: check_agent_def Some Let_def stamp_parts unchanged_def health_simps)
  next
    case False
    then have "check_agent show_int cfg nightly obs ctx u =
        fst (eval_agent show_int cfg nightly (obs ctx) ctx service ?u)"
      by (simp add: check_agent_def Some Let_def stamp_parts)
    then show ?thesis
      using eval_agent_effect [OF s Some, of "obs ctx" cfg show_int nightly] False
      by (auto simp: unchanged_def restarted_def health_simps)
  qed
qed (simp add: check_agent_def unchanged_def)

lemma eval_agent_other:
  "j \<noteq> context_key ctx \<Longrightarrow> uh_state (fst (eval_agent show_int cfg nightly ob ctx service u)) j = uh_state u j"
  by (simp add: eval_agent_def eval_active_def Let_def split_beta health_simps)

lemma check_agent_other:
  assumes "j \<noteq> context_key ctx"
  shows "uh_state (check_agent show_int cfg nightly obs ctx u) j = uh_state u j"
    and "restarts_of j (check_agent show_int cfg nightly obs ctx u) = restarts_of j u"
proof -
  show "uh_state (check_agent show_int cfg nightly obs ctx u) j = uh_state u j"
    using assms by (simp add: check_agent_def eval_agent_other health_simps Let_def split: option.split)
  show "restarts_of j (check_agent show_int cfg nightly obs ctx u) = restarts_of j u"
    using check_agent_effect [of ctx u show_int cfg nightly obs] assms
    by (auto simp: restarts_of_def unchanged_def restarted_def restart_at_def)
qed

definition allowed_restart ::
  "unit_health_config \<Rightarrow> nat \<Rightarrow> (launch_context \<Rightarrow> observation) \<Rightarrow> launch_context \<Rightarrow> restart \<Rightarrow> bool" where
  "allowed_restart cfg now_hour obs ctx r \<longleftrightarrow>
     rs_key r = context_key ctx \<and> lc_systemd_service ctx = Some (rs_service r) \<and>
     \<not> starts_with ''edgeplaned'' (rs_service r) \<and> \<not> lc_supervise_paused ctx \<and>
     (if systemctl_is_active (ob_is_active (obs ctx))
      then rs_reason r = ''nightly'' \<and> nightly_restart_hour cfg = Some now_hour else rs_reason r = ''dead'')"

lemma tick_restarts:
  "\<exists>new. uh_restarts (process_tick show_int cfg (Some cs) now_hour obs u) = new @ uh_restarts u \<and>
     (\<forall>r\<in>set new. \<exists>ctx\<in>set cs. allowed_restart cfg now_hour obs ctx r)"
proof -
  let ?n = "nightly_restart_hour cfg = Some now_hour"
  let ?ok = "allowed_restart cfg now_hour obs"
  have step: "\<exists>new. uh_restarts (check_agent show_int cfg ?n obs ctx v) = new @ uh_restarts v \<and> (\<forall>r\<in>set new. ?ok ctx r)"
    for ctx v
  proof (cases "unchanged (context_key ctx) v (check_agent show_int cfg ?n obs ctx v)")
    case False
    then obtain service reason where
      "may_restart cfg ?n (obs ctx) ctx (stamps v (context_key ctx)) service reason"
      "restarted (obs ctx) (context_key ctx) service reason v (check_agent show_int cfg ?n obs ctx v)"
      using check_agent_effect by blast
    then show ?thesis
      by (intro exI [of _ "[restart_at (obs ctx) (context_key ctx) service reason]"])
        (auto simp: restarted_def may_restart_def allowed_restart_def restart_at_def)
  qed (auto simp: unchanged_def)
  have "\<exists>new. uh_restarts (fold (check_agent show_int cfg ?n obs) ds v) = new @ uh_restarts v \<and>
      (\<forall>r\<in>set new. \<exists>ctx\<in>set ds. ?ok ctx r)" for ds v
  proof (induction ds arbitrary: v)
    case (Cons ctx ds)
    obtain n1 where "uh_restarts (check_agent show_int cfg ?n obs ctx v) = n1 @ uh_restarts v" "\<forall>r\<in>set n1. ?ok ctx r"
      using step by blast
    moreover obtain n2 where "uh_restarts (fold (check_agent show_int cfg ?n obs) ds (check_agent show_int cfg ?n obs ctx v)) =
        n2 @ uh_restarts (check_agent show_int cfg ?n obs ctx v)" "\<forall>r\<in>set n2. \<exists>c\<in>set ds. ?ok c r"
      using Cons.IH by blast
    ultimately show ?case
      by (intro exI [of _ "n2 @ n1"]) auto
  qed simp
  then show ?thesis
    by (simp add: process_tick_def)
qed

text \<open>supervision touches only what it may. Whatever a tick observes, the restarts it issues are
  each for an agent of the registry with a unit, with the unit the registry names, never for an agent
  whose supervision is paused and never for a unit whose name starts with edgeplaned; a unit that systemd
  reports active is restarted only in the nightly hour, and one that is not only as dead. A tick that
  cannot read the registry restarts nothing.\<close>

theorem supervision_restraint:
  "\<exists>new. uh_restarts (process_tick show_int cfg agents now_hour obs u) = new @ uh_restarts u \<and>
     (\<forall>r\<in>set new. \<exists>cs. agents = Some cs \<and> (\<exists>ctx\<in>set cs. rs_key r = context_key ctx \<and>
        lc_systemd_service ctx = Some (rs_service r) \<and> \<not> starts_with ''edgeplaned'' (rs_service r) \<and>
        \<not> lc_supervise_paused ctx \<and>
        (if systemctl_is_active (ob_is_active (obs ctx))
         then rs_reason r = ''nightly'' \<and> nightly_restart_hour cfg = Some now_hour else rs_reason r = ''dead'')))"
proof (cases agents)
  case (Some cs)
  then show ?thesis
    using tick_restarts [of show_int cfg cs now_hour obs u] by (simp add: allowed_restart_def)
qed (simp add: process_tick_def)

section \<open>Runs\<close>

text \<open>What one check sees happens in order, between two instants.\<close>

definition seen_between :: "time \<Rightarrow> observation \<Rightarrow> time \<Rightarrow> bool" where
  "seen_between t ob t' \<longleftrightarrow> t \<le> ob_grace_at ob \<and> ob_grace_at ob \<le> ob_throttle_at ob \<and>
     ob_throttle_at ob \<le> ob_attempt_at ob \<and> ob_attempt_at ob \<le> ob_completed_at ob \<and> ob_completed_at ob \<le> t'"

text \<open>The states a loop reaches, each with an instant it has reached it by. Between ticks the operator may change
  the registry as he likes.\<close>

inductive health_run :: "(int \<Rightarrow> str) \<Rightarrow> unit_health_config \<Rightarrow> (observation \<Rightarrow> bool) \<Rightarrow> time \<Rightarrow> unit_health \<Rightarrow> bool"
  for show_int :: "int \<Rightarrow> str" and cfg :: unit_health_config and seen :: "observation \<Rightarrow> bool" where
  started: "health_run show_int cfg seen t (unit_health_new log)"
| unread: "health_run show_int cfg seen t u \<Longrightarrow> t \<le> t' \<Longrightarrow>
     health_run show_int cfg seen t' (process_tick show_int cfg None now_hour obs u)"
| ticked: "health_run show_int cfg seen t u \<Longrightarrow> registry_ok g \<Longrightarrow> t \<le> t' \<Longrightarrow>
     (\<And>ctx. seen_between t (obs ctx) t' \<and> seen (obs ctx)) \<Longrightarrow>
     health_run show_int cfg seen t' (process_tick show_int cfg (Some (list_all_launch_contexts g)) now_hour obs u)"

definition newest_stamps :: "restart list \<Rightarrow> time option \<times> time option" where
  "newest_stamps rs = (case rs of [] \<Rightarrow> (None, None) | r # _ \<Rightarrow> (Some (rs_attempt r), Some (rs_completed r)))"

fun restarts_apart :: "unit_health_config \<Rightarrow> restart list \<Rightarrow> bool" where
  "restarts_apart cfg (r # q # rs) \<longleftrightarrow>
     rs_completed q + secs (int (post_restart_grace_secs cfg)) \<le> rs_attempt r \<and>
     (rs_reason r = ''dead'' \<longrightarrow> rs_attempt q + secs (int (retry_throttle_secs cfg)) \<le> rs_attempt r) \<and>
     restarts_apart cfg (q # rs)"
| "restarts_apart cfg _ \<longleftrightarrow> True"

definition run_inv :: "unit_health_config \<Rightarrow> (str \<times> str) set \<Rightarrow> time \<Rightarrow> time \<Rightarrow> unit_health \<Rightarrow> bool" where
  "run_inv cfg fresh t t' u \<longleftrightarrow>
     (\<forall>k. stamps u k = newest_stamps (restarts_of k u) \<and> restarts_apart cfg (restarts_of k u) \<and>
        (\<forall>r\<in>set (restarts_of k u). rs_attempt r \<le> rs_completed r \<and> rs_completed r \<le> (if k \<in> fresh then t else t')))"

lemma run_invD: "run_inv cfg fresh t t' u \<Longrightarrow> stamps u k = newest_stamps (restarts_of k u) \<and>
     restarts_apart cfg (restarts_of k u) \<and>
     (\<forall>r\<in>set (restarts_of k u). rs_attempt r \<le> rs_completed r \<and> rs_completed r \<le> (if k \<in> fresh then t else t'))"
  unfolding run_inv_def by blast

lemma not_elapsed: "\<not> elapsed_lt now (Some s) n \<Longrightarrow> s \<le> now \<Longrightarrow> s + secs (int n) \<le> now"
  by (simp add: elapsed_lt_def secs_def)

lemma restart_keeps_apart:
  assumes "may_restart cfg nightly ob ctx (newest_stamps rs) service reason" "seen_between t ob t'"
    "restarts_apart cfg rs" "\<forall>r\<in>set rs. rs_attempt r \<le> rs_completed r \<and> rs_completed r \<le> t"
  shows "restarts_apart cfg (restart_at ob k service reason # rs)"
proof (cases rs)
  case (Cons q qs)
  have q: "rs_attempt q \<le> rs_completed q" "rs_completed q \<le> t"
    using assms(4) Cons by auto
  have "rs_completed q + secs (int (post_restart_grace_secs cfg)) \<le> ob_grace_at ob"
    using assms(1,2) q by (intro not_elapsed) (auto simp: may_restart_def newest_stamps_def Cons seen_between_def)
  moreover have "rs_attempt q + secs (int (retry_throttle_secs cfg)) \<le> ob_throttle_at ob" if "reason = ''dead''"
    using assms(1,2) q that
    by (intro not_elapsed) (auto simp: may_restart_def newest_stamps_def Cons seen_between_def split: if_splits)
  ultimately show ?thesis
    using assms(2,3) by (auto simp: Cons restart_at_def seen_between_def)
qed simp

lemma check_keeps_run_inv:
  assumes "run_inv cfg fresh t t' u" "seen_between t (obs ctx) t'" "context_key ctx \<in> fresh" "t \<le> t'"
  shows "run_inv cfg (fresh - {context_key ctx}) t t' (check_agent show_int cfg nightly obs ctx u)"
  unfolding run_inv_def
proof (rule allI)
  fix k
  let ?k = "context_key ctx" and ?u = "check_agent show_int cfg nightly obs ctx u"
  let ?ok = "\<lambda>b rs v. stamps v k = newest_stamps rs \<and> restarts_apart cfg rs \<and>
      (\<forall>r\<in>set rs. rs_attempt r \<le> rs_completed r \<and> rs_completed r \<le> b)"
  have old: "?ok (if k \<in> fresh then t else t') (restarts_of k u) u"
    using run_invD [OF assms(1)] by simp
  have "?ok (if k \<in> fresh - {?k} then t else t') (restarts_of k ?u) ?u"
  proof (cases "k = ?k")
    case False
    then show ?thesis
      using old check_agent_other [OF False] by (simp add: stamps_def)
  next
    case True
    with old assms(3) have old': "?ok t (restarts_of k u) u"
      by simp
    consider (same) "unchanged ?k u ?u" | (fired) service reason where
      "may_restart cfg nightly (obs ctx) ctx (stamps u ?k) service reason"
      "restarted (obs ctx) ?k service reason u ?u"
      using check_agent_effect by blast
    then show ?thesis
    proof cases
      case same
      then show ?thesis
        using old' True assms(4) by (fastforce simp: unchanged_def restarts_of_def)
    next
      case (fired service reason)
      have new: "restarts_of k ?u = restart_at (obs ctx) ?k service reason # restarts_of k u"
        using fired(2) True by (simp add: restarted_def restarts_of_def restart_at_def)
      have apart: "restarts_apart cfg (restarts_of k ?u)"
        unfolding new using fired(1) old' True assms(2) by (intro restart_keeps_apart) auto
      have "\<forall>r\<in>set (restarts_of k ?u). rs_attempt r \<le> rs_completed r \<and> rs_completed r \<le> t'"
        unfolding new using old' assms(2,4) by (auto simp: restart_at_def seen_between_def)
      then show ?thesis
        using apart fired(2) True new by (simp add: restarted_def newest_stamps_def restart_at_def)
    qed
  qed
  then show "stamps ?u k = newest_stamps (restarts_of k ?u) \<and> restarts_apart cfg (restarts_of k ?u) \<and>
      (\<forall>r\<in>set (restarts_of k ?u). rs_attempt r \<le> rs_completed r \<and> rs_completed r \<le> (if k \<in> fresh - {?k} then t else t'))"
    by simp
qed

lemma fold_keeps_run_inv:
  assumes "run_inv cfg fresh t t' u" "context_key ` set cs \<subseteq> fresh" "distinct (map context_key cs)" "t \<le> t'"
    "\<And>ctx. seen_between t (obs ctx) t'"
  shows "run_inv cfg (fresh - context_key ` set cs) t t' (fold (check_agent show_int cfg nightly obs) cs u)"
  using assms(1-3)
proof (induction cs arbitrary: u fresh)
  case (Cons c cs)
  have "run_inv cfg (fresh - {context_key c}) t t' (check_agent show_int cfg nightly obs c u)"
    using Cons.prems assms(4,5) by (intro check_keeps_run_inv) auto
  from Cons.IH [OF this] Cons.prems show ?case
    by (auto simp: Diff_insert2 [symmetric] insert_commute)
qed simp

lemma run_inv_mono: "run_inv cfg UNIV t t u \<Longrightarrow> t \<le> t' \<Longrightarrow> run_inv cfg UNIV t' t' u"
  by (fastforce simp: run_inv_def)

lemma contexts_distinct: "registry_ok g \<Longrightarrow> distinct (map context_key (list_all_launch_contexts g))"
  by (simp add: registry_ok_def unique_key_def list_all_launch_contexts_def distinct_map)

lemma health_run_inv: "health_run show_int cfg seen t u \<Longrightarrow> run_inv cfg UNIV t t u"
proof (induction rule: health_run.induct)
  case (started t log)
  then show ?case
    by (simp add: run_inv_def unit_health_new_def stamps_def restarts_of_def newest_stamps_def)
next
  case (unread t u t' now_hour obs)
  then show ?case
    by (simp add: process_tick_def run_inv_mono)
next
  case (ticked t u g t' obs now_hour)
  have "run_inv cfg UNIV t t' u"
    using ticked.IH by (simp add: run_inv_def)
  then have "run_inv cfg (UNIV - context_key ` set (list_all_launch_contexts g)) t t'
      (process_tick show_int cfg (Some (list_all_launch_contexts g)) now_hour obs u)"
    using ticked.hyps unfolding process_tick_def option.case
    by (intro fold_keeps_run_inv) (auto simp: contexts_distinct)
  then show ?case
    using ticked.hyps(3) by (fastforce simp: run_inv_def split: if_splits)
qed

text \<open>restarts keep their distance. In every run of the supervision loop, for each agent, whatever systemd
  answers and the operator does, a restart begins no sooner than the grace period after the end of
  the agent's previous restart, and a restart of a dead unit no sooner than the retry throttle after
  the beginning of the previous one, of either kind.\<close>

theorem restarts_spaced:
  assumes "health_run show_int cfg seen t u"
  shows "restarts_apart cfg (filter (\<lambda>r. rs_key r = k) (uh_restarts u))"
  using run_invD [OF health_run_inv [OF assms], of k] by (simp add: restarts_of_def)

definition demo_context :: launch_context where
  "demo_context = \<lparr>lc_source = ''local'', lc_agent_id = ''work'', lc_vault_folder = None, lc_state_dir_spec = None,
     lc_zellij_session = None, lc_systemd_service = Some ''work.service'', lc_supervise_paused = False\<rparr>"

definition demo_registry :: agent_registry where
  "demo_registry = \<lparr>rg_agents = [\<lparr>ar_id = ''work'', ar_source = ''local'', ar_domain_id = ''d'', ar_runtime_kind = ''claude'',
     ar_supervision_mode = ''persistent'', ar_capabilities_json = JList [], ar_profile_path = None,
     ar_enrolled_at = ''2026'', ar_last_synced_at = None\<rparr>], rg_contexts = [demo_context]\<rparr>"

definition dead_at :: "time \<Rightarrow> observation" where
  "dead_at t = \<lparr>ob_grace_at = t, ob_is_active = Some (False, ''failed''), ob_today = ''2026-05-20'', ob_throttle_at = t,
     ob_attempt_at = t, ob_restart = Inr (Some 0), ob_completed_at = t + secs 5, ob_log_ok = True, ob_at = ''2026-05-20T12''\<rparr>"

lemma demo_contexts: "registry_ok demo_registry" "list_all_launch_contexts demo_registry = [demo_context]"
  by (simp_all add: registry_ok_def demo_registry_def demo_context_def unique_key_def agent_key_def context_key_def
      list_all_launch_contexts_def)

lemma demo_tick:
  "uh_restarts (process_tick show_int default_unit_health (Some [demo_context]) 12 (\<lambda>_. dead_at t) u) =
     (if elapsed_lt t (snd (stamps u (''local'', ''work''))) 90 \<or> elapsed_lt t (fst (stamps u (''local'', ''work''))) 1800
      then uh_restarts u else restart_at (dead_at t) (''local'', ''work'') ''work.service'' ''dead'' # uh_restarts u)"
  by (simp add: process_tick_def check_agent_def eval_agent_def demo_context_def starts_with_def context_key_def Let_def
      stamp_parts health_simps systemctl_is_active_def dead_at_def default_unit_health_def)

lemma restarts_spaced_witness:
  "\<exists>u :: unit_health. length (uh_restarts u) = 2 \<and>
     restarts_apart default_unit_health (filter (\<lambda>r. rs_key r = (''local'', ''work'')) (uh_restarts u))"
proof -
  let ?tick = "\<lambda>t. process_tick (\<lambda>_. []) default_unit_health (Some [demo_context]) 12 (\<lambda>_. dead_at t)"
  let ?u0 = "unit_health_new empty_history"
  let ?u1 = "?tick 0 ?u0" and ?u2 = "?tick (secs 1800) (?tick 0 ?u0)"
  have step: "health_run (\<lambda>_. []) default_unit_health (\<lambda>_. True) (s + secs 5) (?tick s u)"
    if "health_run (\<lambda>_. []) default_unit_health (\<lambda>_. True) t u" "t \<le> s" for s t u
    unfolding demo_contexts(2) [symmetric] using that
    by (intro health_run.ticked [OF that(1) demo_contexts(1)]) (simp_all add: seen_between_def dead_at_def secs_def)
  have run1: "health_run (\<lambda>_. []) default_unit_health (\<lambda>_. True) (0 + secs 5) ?u1"
    by (rule step [OF health_run.started order_refl])
  then have "health_run (\<lambda>_. []) default_unit_health (\<lambda>_. True) (secs 1800 + secs 5) ?u2"
    by (rule step) (simp add: secs_def)
  moreover have one: "uh_restarts ?u1 = [restart_at (dead_at 0) (''local'', ''work'') ''work.service'' ''dead'']"
    by (subst demo_tick) (simp add: stamps_def unit_health_new_def elapsed_lt_def)
  have "stamps ?u1 (''local'', ''work'') = (Some 0, Some (secs 5))"
    using run_invD [OF health_run_inv [OF run1], of "(''local'', ''work'')"] one
    by (simp add: restarts_of_def newest_stamps_def restart_at_def dead_at_def)
  then have "length (uh_restarts ?u2) = 2"
    by (subst demo_tick) (simp add: elapsed_lt_def secs_def one)
  ultimately show ?thesis
    using restarts_spaced by blast
qed

section \<open>The nightly restart\<close>

text \<open>With a log that can always be written, the date of the last nightly restart is remembered.\<close>

definition nightly_dates :: "str \<times> str \<Rightarrow> unit_health \<Rightarrow> str list" where
  "nightly_dates k u = map rs_date (filter (\<lambda>r. rs_reason r = ''nightly'') (restarts_of k u))"

definition night_inv :: "str \<times> str \<Rightarrow> unit_health \<Rightarrow> bool" where
  "night_inv k u \<longleftrightarrow>
     (case uh_state u k of Some s \<Rightarrow> last_nightly_date s | None \<Rightarrow> None) =
       (case nightly_dates k u of [] \<Rightarrow> None | d # _ \<Rightarrow> Some d) \<and>
     distinct_adj (nightly_dates k u)"

lemma night_inv_eval:
  assumes "night_inv (context_key ctx) u" "uh_state u (context_key ctx) = Some s" "ob_log_ok ob"
  shows "night_inv (context_key ctx) (fst (eval_agent show_int cfg nightly ob ctx service u))"
proof -
  have fired: "night_inv (context_key ctx) (send ev (on_state (context_key ctx)
      (\<lambda>s. s\<lparr>last_nightly_date := Some (ob_today ob)\<rparr>) (fst (fire_restart show_int ob ctx service ''nightly'' v))))"
    if "night_inv (context_key ctx) v" "uh_state v (context_key ctx) = Some s'" "last_nightly_date s' \<noteq> Some (ob_today ob)"
    for v s' ev
    using that by (cases "nightly_dates (context_key ctx) v")
      (auto simp: night_inv_def nightly_dates_def restarts_of_def health_simps restart_at_def)
  have dead: "night_inv (context_key ctx) (fst (fire_restart show_int ob ctx service ''dead'' v))"
    if "night_inv (context_key ctx) v" "uh_state v (context_key ctx) = Some s'" for v s'
    using that by (auto simp: night_inv_def nightly_dates_def restarts_of_def health_simps restart_at_def)
  have same: "night_inv (context_key ctx) v'" if "night_inv (context_key ctx) v" "uh_restarts v' = uh_restarts v"
    "map_option last_nightly_date (uh_state v' (context_key ctx)) = map_option last_nightly_date (uh_state v (context_key ctx))"
    for v v'
    using that by (auto simp: night_inv_def nightly_dates_def restarts_of_def split: option.splits)
  show ?thesis
  proof (cases "systemctl_is_active (ob_is_active ob)")
    case True
    let ?v = "on_state (context_key ctx) (\<lambda>s. s\<lparr>dead_alert_published := False\<rparr>) u"
    have "night_inv (context_key ctx) ?v"
      by (rule same [OF assms(1)]) (simp_all add: health_simps assms(2))
    with True show ?thesis
      using fired [of ?v] assms(2,3)
      by (auto simp: eval_agent_def eval_active_def Let_def split_beta health_simps)
  next
    case False
    have "night_inv (context_key ctx) (alert_dead ob ctx service u)"
      by (rule same [OF assms(1)]) (simp_all add: health_simps assms(2))
    with False show ?thesis
      using dead assms(2)
      by (auto simp: eval_agent_def Let_def health_simps intro: same)
  qed
qed

lemma night_inv_check:
  assumes "night_inv k u" "ob_log_ok (obs ctx)"
  shows "night_inv k (check_agent show_int cfg nightly obs ctx u)"
proof (cases "k = context_key ctx")
  case False
  then show ?thesis
    using assms(1) check_agent_other [OF False] by (simp add: night_inv_def nightly_dates_def)
next
  case True
  have "night_inv k (ensure_state k u)"
    using assms(1) by (auto simp: night_inv_def nightly_dates_def restarts_of_def ensure_state_def new_agent_state_def split: option.splits)
  moreover obtain s where "uh_state (ensure_state k u) k = Some s"
    using ensure_state_fields(3) by blast
  ultimately show ?thesis
    using assms night_inv_eval [of ctx "ensure_state k u" s "obs ctx"]
    by (auto simp: check_agent_def True Let_def split: option.split)
qed

lemma night_inv_run: "health_run show_int cfg ob_log_ok t u \<Longrightarrow> night_inv k u"
proof (induction rule: health_run.induct)
  case (ticked t u g t' obs now_hour)
  have ok: "ob_log_ok (obs ctx)" for ctx
    using ticked.hyps by blast
  have "night_inv k (fold (check_agent show_int cfg n obs) cs v)" if "night_inv k v" for cs v n
    using that by (induction cs arbitrary: v) (simp_all add: night_inv_check ok)
  then show ?case
    using ticked.IH by (simp add: process_tick_def)
qed (simp_all add: night_inv_def nightly_dates_def restarts_of_def unit_health_new_def process_tick_def)

text \<open>one nightly restart a night, as long as the log can be written: in every run in which every write
  to the restart log succeeds, two successive nightly restarts of an agent bear different local dates.\<close>

theorem nightly_once:
  assumes "health_run show_int cfg ob_log_ok t u"
  shows "distinct_adj (map rs_date (filter (\<lambda>r. rs_key r = k \<and> rs_reason r = ''nightly'') (uh_restarts u)))"
  using night_inv_run [OF assms, of k]
  by (simp add: night_inv_def nightly_dates_def restarts_of_def filter_filter conj_commute)

text \<open>without the log the night is not over. The date of a nightly restart is remembered only after
  the restart has been logged. When the log cannot be written, an active unit is restarted again by every
  check of the nightly hour that comes after the grace period of the restart before: the second check
  below restarts the agent a second time on the same date.\<close>

theorem nightly_repeats:
  assumes "nightly_restart_hour cfg = Some h" "lc_systemd_service ctx = Some service"
    "\<not> starts_with ''edgeplaned'' service" "\<not> lc_supervise_paused ctx"
    "systemctl_is_active (ob_is_active o1)" "systemctl_is_active (ob_is_active o2)"
    "\<not> ob_log_ok o1" "\<not> ob_log_ok o2" "ob_today o2 = ob_today o1" "uh_state u (context_key ctx) = None"
    "ob_completed_at o1 + secs (int (post_restart_grace_secs cfg)) \<le> ob_grace_at o2"
  shows "let u1 = process_tick show_int cfg (Some [ctx]) h (\<lambda>_. o1) u;
             u2 = process_tick show_int cfg (Some [ctx]) h (\<lambda>_. o2) u1
         in uh_restarts u2 = restart_at o2 (context_key ctx) service ''nightly'' #
              restart_at o1 (context_key ctx) service ''nightly'' # uh_restarts u"
proof -
  let ?k = "context_key ctx"
  have fire: "uh_restarts (process_tick show_int cfg (Some [ctx]) h (\<lambda>_. ob) v) = restart_at ob ?k service ''nightly'' # uh_restarts v \<and>
      (\<exists>s'. uh_state (process_tick show_int cfg (Some [ctx]) h (\<lambda>_. ob) v) ?k = Some s' \<and>
         last_nightly_date s' = last_nightly_date s \<and> last_restart_completed_at s' = Some (ob_completed_at ob))"
    if "uh_state (ensure_state ?k v) ?k = Some s" "\<not> elapsed_lt (ob_grace_at ob) (last_restart_completed_at s) (post_restart_grace_secs cfg)"
      "last_nightly_date s \<noteq> Some (ob_today ob)" "systemctl_is_active (ob_is_active ob)" "\<not> ob_log_ok ob" for ob v s
    using that assms(1-4)
    by (simp add: process_tick_def check_agent_def eval_agent_def eval_active_def Let_def split_beta health_simps)
  have first: "uh_state (ensure_state ?k u) ?k = Some new_agent_state"
    using assms(10) by (simp add: ensure_state_def)
  obtain s' where u1: "uh_restarts (process_tick show_int cfg (Some [ctx]) h (\<lambda>_. o1) u) =
      restart_at o1 ?k service ''nightly'' # uh_restarts u"
    "uh_state (process_tick show_int cfg (Some [ctx]) h (\<lambda>_. o1) u) ?k = Some s'"
    "last_nightly_date s' = None" "last_restart_completed_at s' = Some (ob_completed_at o1)"
    using fire [OF first, of o1] assms(5,7) by (auto simp: new_agent_state_def elapsed_lt_def)
  let ?u1 = "process_tick show_int cfg (Some [ctx]) h (\<lambda>_. o1) u"
  have "\<not> elapsed_lt (ob_grace_at o2) (last_restart_completed_at s') (post_restart_grace_secs cfg)"
    using u1(4) assms(11) by (simp add: elapsed_lt_def)
  moreover have "uh_state (ensure_state ?k ?u1) ?k = Some s'"
    using u1(2) by (simp add: ensure_state_def)
  ultimately have "uh_restarts (process_tick show_int cfg (Some [ctx]) h (\<lambda>_. o2) ?u1) =
      restart_at o2 ?k service ''nightly'' # uh_restarts ?u1"
    using fire [of ?u1 s' o2] u1(3) assms(6,8) by simp
  then show ?thesis
    using u1(1) by (simp add: Let_def)
qed

definition active_unlogged :: "time \<Rightarrow> observation" where
  "active_unlogged t = \<lparr>ob_grace_at = t, ob_is_active = Some (True, ''active''), ob_today = ''2026-05-20'', ob_throttle_at = t,
     ob_attempt_at = t, ob_restart = Inr (Some 0), ob_completed_at = t + secs 5, ob_log_ok = False, ob_at = ''2026-05-20T03''\<rparr>"

lemma nightly_repeats_witness:
  "length (uh_restarts (process_tick (\<lambda>_. []) default_unit_health (Some [demo_context]) 3 (\<lambda>_. active_unlogged (secs 120))
     (process_tick (\<lambda>_. []) default_unit_health (Some [demo_context]) 3 (\<lambda>_. active_unlogged 0)
       (unit_health_new empty_history)))) = 2"
proof -
  have active: "systemctl_is_active (ob_is_active (active_unlogged t))" for t
    by (simp add: systemctl_is_active_def active_unlogged_def trim_def is_space_def)
  show ?thesis
    using nightly_repeats [of default_unit_health 3 demo_context "''work.service''" "active_unlogged 0" "active_unlogged (secs 120)"
        "unit_health_new empty_history" "\<lambda>_. []", OF _ _ _ _ active active]
    by (simp add: default_unit_health_def demo_context_def starts_with_def active_unlogged_def unit_health_new_def
        context_key_def secs_def Let_def)
qed

lemma nightly_once_witness:
  "distinct_adj (map rs_date (filter (\<lambda>r. rs_key r = (''local'', ''work'') \<and> rs_reason r = ''nightly'')
     (uh_restarts (process_tick (\<lambda>_. []) default_unit_health (Some [demo_context]) 3 (\<lambda>_. (active_unlogged 0)\<lparr>ob_log_ok := True\<rparr>)
       (unit_health_new empty_history)))))"
proof -
  let ?ob = "(active_unlogged 0)\<lparr>ob_log_ok := True\<rparr>"
  have "health_run (\<lambda>_. []) default_unit_health ob_log_ok (secs 5)
      (process_tick (\<lambda>_. []) default_unit_health (Some (list_all_launch_contexts demo_registry)) 3 (\<lambda>_. ?ob) (unit_health_new empty_history))"
    by (rule health_run.ticked [OF health_run.started [of _ _ _ 0] demo_contexts(1)])
      (simp_all add: seen_between_def active_unlogged_def secs_def)
  then show ?thesis
    unfolding demo_contexts(2) by (rule nightly_once)
qed

end
