(* ===== verification/Mgmt_Gateway.thy ===== *)
theory Mgmt_Gateway
  imports Capability_Dispatcher Cron Unit_Health
begin

text \<open>
  The management gateway of the daemon (edgeplaned-bin mgmt_gateway.rs): the session token, the handshake of
  a TCP connection, the loop that answers one JSON-RPC request per line, and the handlers of its methods over
  the agent registry, the cron telemetry and the restart log. Sockets and the JSON text are left out: a
  connection is the list of its lines and the frames written to it. What a request finds outside the daemon
  (files, systemctl, the runtimes, the clock, whether the database opens) is a parameter.
\<close>

section \<open>JSON-RPC\<close>

definition jsonrpc_result :: "json \<Rightarrow> json \<Rightarrow> json" where
  "jsonrpc_result rid r = JObj [(''jsonrpc'', JStr ''2.0''), (''id'', rid), (''result'', r)]"

definition jsonrpc_error :: "json \<Rightarrow> int \<Rightarrow> str \<Rightarrow> json" where
  "jsonrpc_error rid code message =
     JObj [(''jsonrpc'', JStr ''2.0''), (''id'', rid), (''error'', JObj [(''code'', JNum code), (''message'', JStr message)])]"

fun json_u64 :: "json \<Rightarrow> nat option" where
  "json_u64 (JNum n) = (if 0 \<le> n \<and> n < 2 ^ 64 then Some (nat n) else None)"
| "json_u64 _ = None"

fun as_bool :: "json \<Rightarrow> bool option" where
  "as_bool (JBool b) = Some b"
| "as_bool _ = None"

definition param_u64 :: "str \<Rightarrow> json \<Rightarrow> nat option" where
  "param_u64 k params = Option.bind (jget k params) json_u64"

definition param_bool :: "str \<Rightarrow> json \<Rightarrow> bool" where
  "param_bool k params = or_default (Option.bind (jget k params) as_bool) False"

text \<open>The cast from u64 to u32 keeps the low 32 bits.\<close>

definition as_u32 :: "nat \<Rightarrow> nat" where
  "as_u32 n = n mod 2 ^ 32"

definition param_limit :: "nat \<Rightarrow> json \<Rightarrow> nat" where
  "param_limit d params = as_u32 (or_default (param_u64 ''limit'' params) d)"

section \<open>The daemon behind the gateway\<close>

datatype agent_signal = PeerMessage str str json | UserInput str | Cancel

text \<open>The last two fields are traces: the signals delivered and the units restarted, newest first.\<close>

record 'd gateway =
  gw_dispatcher :: 'd
  gw_agents :: agent_registry
  gw_restart_log :: unit_restart_log
  gw_cron :: cron_registry
  gw_reload_queued :: bool
  gw_events :: "supervisor_event list"
  gw_signals :: "(str \<times> agent_signal) list"
  gw_restarted :: "str list"

text \<open>oh_cron_file is None when no path is wired; oh_db and oh_log are the errors of opening the database and of
  writing the restart log.\<close>

record ops_handle =
  oh_supervised :: "str \<Rightarrow> bool"
  oh_signal :: "str \<Rightarrow> agent_signal \<Rightarrow> str + unit"
  oh_cron_wired :: bool
  oh_cron_file :: "config_fields option option"
  oh_cron_path :: str
  oh_zone_ok :: "str \<Rightarrow> bool"
  oh_schedule_ok :: "str \<Rightarrow> bool"
  oh_config_error :: "config_error \<Rightarrow> str"
  oh_events_wired :: bool
  oh_db :: "str + unit"
  oh_log :: "str + unit"
  oh_unit_state :: "str \<Rightarrow> str"
  oh_restart :: "str \<Rightarrow> str + int option"
  oh_now :: str
  oh_cutoff :: "nat \<Rightarrow> str"
  oh_debug :: "str \<Rightarrow> str"

record 'd gw_world =
  ow_registry :: pack_registry
  ow_dispatch :: "dispatch_request \<Rightarrow> 'd \<Rightarrow> dispatch_result \<times> 'd"
  ow_manifest_json :: "capability_manifest \<Rightarrow> str + json"
  ow_parse :: "str \<Rightarrow> json option"
  ow_ops :: "ops_handle option"

type_synonym 'd handled = "'d gateway \<times> json"

definition load_cron :: "ops_handle \<Rightarrow> config_fields option \<Rightarrow> str + cron_config" where
  "load_cron oh cron_toml =
     (case load (oh_zone_ok oh) (oh_schedule_ok oh) cron_toml of
        Inl e \<Rightarrow> Inl (oh_config_error oh e)
      | Inr cfg \<Rightarrow> Inr cfg)"

section \<open>Capabilities\<close>

definition request_of :: "str \<Rightarrow> json \<Rightarrow> dispatch_request" where
  "request_of full_name params =
     \<lparr>dq_full_name = full_name, dq_args = or_default (jget ''args'' params) (JObj []),
      dq_profile = or_default (jfield_str ''profile'' params) [], dq_env = or_default (jfield_str ''env'' params) [],
      dq_dry_run = param_bool ''dry_run'' params, dq_timeout_secs = param_u64 ''timeout_secs'' params,
      dq_domain_id = jfield_str ''domain_id'' params, dq_agent_id = jfield_str ''agent_id'' params\<rparr>"

definition handle_dispatch :: "'d gw_world \<Rightarrow> json \<Rightarrow> json \<Rightarrow> 'd gateway \<Rightarrow> 'd handled" where
  "handle_dispatch w rid params gw =
     (case jfield_str ''full_name'' params of
        None \<Rightarrow> (gw, jsonrpc_error rid (-32602) ''invalid params: missing full_name'')
      | Some full_name \<Rightarrow>
          (let (r, d) = ow_dispatch w (request_of full_name params) (gw_dispatcher gw)
           in (gw\<lparr>gw_dispatcher := d\<rparr>, jsonrpc_result rid (JObj
             [(''ok'', JBool (dr_ok r)), (''data'', dr_data r), (''receipt_id'', JStr (dr_receipt_id r)),
              (''execution_time_ms'', JNum (int (dr_execution_time_ms r))), (''exit_code'', JNum (dr_exit_code r)),
              (''hint'', jopt JStr (dr_hint r)), (''example'', jopt JStr (dr_example r))]))))"

definition handle_capabilities_list :: "'d gw_world \<Rightarrow> json \<Rightarrow> json \<Rightarrow> json" where
  "handle_capabilities_list w rid params =
     jsonrpc_result rid (JList (map (\<lambda>s. JObj
       [(''name'', JStr (cs_full_name s)), (''summary'', JStr (cs_description s)),
        (''tags'', JList (map JStr (cs_tags s))), (''risk'', JStr (risk_str (cs_risk s)))])
       (registry_capabilities (ow_registry w) (jfield_str ''tag'' params))))"

definition handle_capabilities_describe :: "'d gw_world \<Rightarrow> json \<Rightarrow> json \<Rightarrow> json" where
  "handle_capabilities_describe w rid params =
     (case jfield_str ''full_name'' params of
        None \<Rightarrow> jsonrpc_error rid (-32602) ''invalid params: missing full_name''
      | Some full_name \<Rightarrow>
          (case get_by_full_name (ow_registry w) full_name of
             Some m \<Rightarrow> (case ow_manifest_json w m of
                 Inr v \<Rightarrow> jsonrpc_result rid v
               | Inl e \<Rightarrow> jsonrpc_error rid (-32603) (''internal error: '' @ e))
           | None \<Rightarrow> jsonrpc_error rid (-32602) (''capability '' @ quote full_name @ '' not found'')))"

section \<open>Local agents\<close>

definition signal_of :: "json \<Rightarrow> str + agent_signal" where
  "signal_of params =
     (let kind = or_default (jfield_str ''kind'' params) ''user_input'' in
      if kind = ''user_input'' then
        (case jfield_str ''text'' params of
           Some s \<Rightarrow> Inr (UserInput s)
         | None \<Rightarrow> Inl ''missing param: text (required for user_input)'')
      else if kind = ''cancel'' then Inr Cancel
      else if kind = ''peer_message'' then
        Inr (PeerMessage (or_default (jfield_str ''from_agent_id'' params) ''local'')
               (or_default (jfield_str ''channel'' params) ''signal'') (or_default (jget ''body'' params) JNull))
      else Inl (''unknown signal kind '' @ quote kind @ '' (expected user_input|peer_message|cancel)''))"

definition handle_agent_local_signal :: "ops_handle \<Rightarrow> json \<Rightarrow> json \<Rightarrow> 'd gateway \<Rightarrow> 'd handled" where
  "handle_agent_local_signal oh rid params gw =
     (case jfield_str ''agent_id'' params of
        None \<Rightarrow> (gw, jsonrpc_error rid (-32602) ''missing param: agent_id'')
      | Some agent_id \<Rightarrow>
          (case signal_of params of
             Inl msg \<Rightarrow> (gw, jsonrpc_error rid (-32602) msg)
           | Inr sig \<Rightarrow>
               if \<not> oh_supervised oh agent_id
               then (gw, jsonrpc_error rid (-32004) (''agent '' @ quote agent_id @ '' is not supervised locally''))
               else (case oh_signal oh agent_id sig of
                       Inr _ \<Rightarrow> (gw\<lparr>gw_signals := (agent_id, sig) # gw_signals gw\<rparr>, jsonrpc_result rid (JObj [(''ok'', JBool True)]))
                     | Inl e \<Rightarrow> (gw, jsonrpc_error rid (-32000) (''signal failed: '' @ e)))))"

definition local_agent_json :: "agent_record \<Rightarrow> launch_context option \<Rightarrow> json" where
  "local_agent_json r c =
     JObj [(''agent_id'', JStr (ar_id r)), (''source'', JStr (ar_source r)), (''domain_id'', JStr (ar_domain_id r)),
       (''runtime_kind'', JStr (ar_runtime_kind r)), (''supervision_mode'', JStr (ar_supervision_mode r)),
       (''vault_folder'', jopt JStr (Option.bind c lc_vault_folder)),
       (''zellij_session'', jopt JStr (Option.bind c lc_zellij_session))]"

definition agent_in_source :: "agent_registry \<Rightarrow> str \<Rightarrow> str \<Rightarrow> agent_record option" where
  "agent_in_source g source agent_id = find (\<lambda>r. ar_id r = agent_id) (list_by_source source g)"

definition list_local_agents :: "agent_registry \<Rightarrow> json list" where
  "list_local_agents g =
     (let ids = (\<lambda>c. lc_source c @ '':'' @ lc_agent_id c) ` set (list_all_launch_contexts g)
      in List.map_filter (\<lambda>c. map_option (\<lambda>r. local_agent_json r (Some c)) (agent_in_source g (lc_source c) (lc_agent_id c)))
           (list_all_launch_contexts g) @
         map (\<lambda>r. local_agent_json r None)
           (filter (\<lambda>r. ar_source r @ '':'' @ ar_id r \<notin> ids) (list_by_source ''local'' g)))"

definition describe_local_agent :: "agent_registry \<Rightarrow> str \<Rightarrow> json option" where
  "describe_local_agent g agent_id =
     (case find_map (\<lambda>c. if lc_agent_id c \<noteq> agent_id then None
                         else map_option (\<lambda>r. local_agent_json r (Some c)) (agent_in_source g (lc_source c) agent_id))
             (list_all_launch_contexts g) of
        Some j \<Rightarrow> Some j
      | None \<Rightarrow> map_option (\<lambda>r. local_agent_json r None) (agent_in_source g ''local'' agent_id))"

definition handle_agent_local_list :: "ops_handle \<Rightarrow> json \<Rightarrow> 'd gateway \<Rightarrow> json" where
  "handle_agent_local_list oh rid gw =
     (case oh_db oh of
        Inl e \<Rightarrow> jsonrpc_error rid (-32001) (''registry read failed: '' @ e)
      | Inr _ \<Rightarrow> jsonrpc_result rid (JObj [(''agents'', JList (list_local_agents (gw_agents gw)))]))"

definition handle_agent_describe_local :: "ops_handle \<Rightarrow> json \<Rightarrow> json \<Rightarrow> 'd gateway \<Rightarrow> json" where
  "handle_agent_describe_local oh rid params gw =
     (case jfield_str ''agent_id'' params of
        None \<Rightarrow> jsonrpc_error rid (-32602) ''missing param: agent_id''
      | Some agent_id \<Rightarrow>
          (case oh_db oh of
             Inl e \<Rightarrow> jsonrpc_error rid (-32001) (''registry read failed: '' @ e)
           | Inr _ \<Rightarrow>
               (case describe_local_agent (gw_agents gw) agent_id of
                  Some info \<Rightarrow> jsonrpc_result rid
                    (jset ''found'' (JBool True) (jset ''supervised'' (JBool (oh_supervised oh agent_id)) info))
                | None \<Rightarrow> jsonrpc_result rid (JObj [(''found'', JBool False)]))))"

section \<open>The scheduler\<close>

definition job_json :: "cron_job \<Rightarrow> (str \<times> json) list" where
  "job_json j =
     [(''name'', JStr (cj_name j)), (''schedule'', JStr (cj_schedule j)), (''kind'', JStr (cj_kind j)),
      (''interval'', jopt JStr (cj_interval j)), (''session'', JStr (cj_session j)),
      (''dispatch'', JStr (cj_dispatch j)), (''enabled'', JBool (cj_enabled j))]"

definition state_json :: "agent_cron_state option \<Rightarrow> (str \<times> json) list" where
  "state_json st =
     [(''last_fired_at'', jopt JStr (Option.bind st cs_last_fired_at)),
      (''last_status'', jopt JStr (Option.bind st cs_last_status)),
      (''last_error'', jopt JStr (Option.bind st cs_last_error))]"

definition fire_json :: "cron_fire_entry \<Rightarrow> (str \<times> json) list" where
  "fire_json h =
     [(''fired_at'', JStr (cl_fired_at h)), (''status'', JStr (cl_status h)),
      (''duration_ms'', jopt JNum (cl_duration_ms h)), (''error_message'', jopt JStr (cl_error_message h))]"

definition handle_agent_cron_list :: "ops_handle \<Rightarrow> json \<Rightarrow> 'd gateway \<Rightarrow> json" where
  "handle_agent_cron_list oh rid gw =
     (case oh_cron_file oh of
        None \<Rightarrow> jsonrpc_error rid (-32603) ''cron is not wired (no config path)''
      | Some cron_toml \<Rightarrow>
          (case and_then (load_cron oh cron_toml) (\<lambda>cfg. and_then (oh_db oh) (\<lambda>_. Inr cfg)) of
             Inl e \<Rightarrow> jsonrpc_error rid (-32001) (''cron list failed: '' @ e)
           | Inr cfg \<Rightarrow> jsonrpc_result rid (JObj
               [(''timezone'', JStr (cc_timezone cfg)), (''schema_version'', JNum (int (cc_schema_version cfg))),
                (''jobs'', JList (map (\<lambda>j. JObj (job_json j @ state_json (cron_get_state (cj_name j) (gw_cron gw)))) (cc_jobs cfg)))])))"

definition handle_agent_cron_describe :: "ops_handle \<Rightarrow> json \<Rightarrow> json \<Rightarrow> 'd gateway \<Rightarrow> json" where
  "handle_agent_cron_describe oh rid params gw =
     (case jfield_str ''name'' params of
        None \<Rightarrow> jsonrpc_error rid (-32602) ''missing param: name''
      | Some name \<Rightarrow>
          (case oh_cron_file oh of
             None \<Rightarrow> jsonrpc_error rid (-32603) ''cron is not wired''
           | Some cron_toml \<Rightarrow>
               (case and_then (load_cron oh cron_toml) (\<lambda>cfg.
                       case find (\<lambda>j. cj_name j = name) (cc_jobs cfg) of
                         None \<Rightarrow> Inl (''no job named '' @ oh_debug oh name @ '' in '' @ oh_cron_path oh)
                       | Some j \<Rightarrow> and_then (oh_db oh) (\<lambda>_. Inr j)) of
                  Inl e \<Rightarrow> jsonrpc_error rid (-32004) (''cron describe failed: '' @ e)
                | Inr j \<Rightarrow> jsonrpc_result rid (JObj (job_json j @ [(''prompt'', JStr (cj_prompt j))] @
                    state_json (cron_get_state name (gw_cron gw)) @
                    [(''history'', JList (map (\<lambda>h. JObj (fire_json h))
                        (cron_history_for_job name (param_limit 5 params) (gw_cron gw))))])))))"

text \<open>The reload channel holds one message; a second request while one is queued is dropped.\<close>

definition handle_agent_cron_reload :: "ops_handle \<Rightarrow> json \<Rightarrow> 'd gateway \<Rightarrow> 'd handled" where
  "handle_agent_cron_reload oh rid gw =
     (if oh_cron_wired oh
      then (gw\<lparr>gw_reload_queued := True\<rparr>, jsonrpc_result rid (JObj [(''queued'', JBool True)]))
      else (gw, jsonrpc_error rid (-32603) ''cron handle not wired''))"

definition handle_agent_cron_history :: "ops_handle \<Rightarrow> json \<Rightarrow> json \<Rightarrow> 'd gateway \<Rightarrow> json" where
  "handle_agent_cron_history oh rid params gw =
     (case oh_db oh of
        Inl e \<Rightarrow> jsonrpc_error rid (-32001) (''cron history failed: '' @ e)
      | Inr _ \<Rightarrow> jsonrpc_result rid (JObj [(''fires'', JList (map (\<lambda>h. JObj ((''job_name'', JStr (cl_job_name h)) # fire_json h))
          (case jfield_str ''name'' params of
             Some n \<Rightarrow> cron_history_for_job n (param_limit 20 params) (gw_cron gw)
           | None \<Rightarrow> cron_history_all (param_limit 20 params) (gw_cron gw))))]))"

definition handle_agent_cron_gc_now :: "ops_handle \<Rightarrow> json \<Rightarrow> json \<Rightarrow> 'd gateway \<Rightarrow> 'd handled" where
  "handle_agent_cron_gc_now oh rid params gw =
     (case oh_cron_file oh of
        None \<Rightarrow> (gw, jsonrpc_error rid (-32603) ''cron is not wired'')
      | Some cron_toml \<Rightarrow>
          (case and_then (load_cron oh cron_toml) (\<lambda>cfg. and_then (oh_db oh) (\<lambda>_. Inr cfg)) of
             Inl e \<Rightarrow> (gw, jsonrpc_error rid (-32001) (''cron gc failed: '' @ e))
           | Inr cfg \<Rightarrow>
               (let days = or_default (map_option as_u32 (param_u64 ''history_days'' params)) (history_days (cc_retention cfg));
                    max_rows = or_default (map_option as_u32 (param_u64 ''max_rows_per_job'' params)) (max_rows_per_job (cc_retention cfg));
                    (g, deleted) = cron_gc (oh_cutoff oh days) days max_rows (gw_cron gw)
                in (gw\<lparr>gw_cron := g\<rparr>, jsonrpc_result rid (JObj
                  [(''deleted'', JNum (int deleted)), (''history_days'', JNum (int days)), (''max_rows_per_job'', JNum (int max_rows))])))))"

section \<open>Supervision\<close>

definition handle_supervise_list :: "ops_handle \<Rightarrow> json \<Rightarrow> 'd gateway \<Rightarrow> json" where
  "handle_supervise_list oh rid gw =
     (case oh_db oh of
        Inl e \<Rightarrow> jsonrpc_error rid (-32001) (''supervise list failed: '' @ e)
      | Inr _ \<Rightarrow> jsonrpc_result rid (JObj [(''agents'', JList (map (\<lambda>(c, st). JObj
          [(''agent_id'', JStr (lc_agent_id c)), (''source'', JStr (lc_source c)),
           (''systemd_service'', jopt JStr (lc_systemd_service c)), (''supervise_paused'', JBool (lc_supervise_paused c)),
           (''unit_state'', jopt JStr st)]) (list_supervised (oh_unit_state oh) (gw_agents gw))))]))"

definition restart_json :: "unit_restart_entry \<Rightarrow> (str \<times> json) list" where
  "restart_json r =
     [(''triggered_at'', JStr (ur_triggered_at r)), (''reason'', JStr (ur_reason r)), (''result'', JStr (ur_result r)),
      (''systemctl_exit'', jopt JNum (ur_systemctl_exit r)), (''notes'', jopt JStr (ur_notes r))]"

text \<open>An agent is named by its id alone: the first launch context with that id, in the order of the sources, is meant.\<close>

definition context_of :: "agent_registry \<Rightarrow> str \<Rightarrow> launch_context option" where
  "context_of g agent_id = find (\<lambda>c. lc_agent_id c = agent_id) (list_all_launch_contexts g)"

definition handle_supervise_status :: "ops_handle \<Rightarrow> json \<Rightarrow> json \<Rightarrow> 'd gateway \<Rightarrow> json" where
  "handle_supervise_status oh rid params gw =
     (case jfield_str ''agent_id'' params of
        None \<Rightarrow> jsonrpc_error rid (-32602) ''missing param: agent_id''
      | Some agent_id \<Rightarrow>
          (case oh_db oh of
             Inl e \<Rightarrow> jsonrpc_error rid (-32001) (''supervise status failed: '' @ e)
           | Inr _ \<Rightarrow>
               (case context_of (gw_agents gw) agent_id of
                  None \<Rightarrow> jsonrpc_error rid (-32004) (''agent '' @ oh_debug oh agent_id @ '' not found'')
                | Some c \<Rightarrow> jsonrpc_result rid (JObj
                    ((case lc_systemd_service c of Some svc \<Rightarrow> [(''unit_state'', JStr (oh_unit_state oh svc))] | None \<Rightarrow> []) @
                     [(''agent_id'', JStr (lc_agent_id c)), (''source'', JStr (lc_source c)),
                      (''systemd_service'', jopt JStr (lc_systemd_service c)), (''supervise_paused'', JBool (lc_supervise_paused c)),
                      (''history'', JList (map (\<lambda>h. JObj (restart_json h))
                         (unit_restart_history (lc_source c) (lc_agent_id c) (param_limit 5 params) (gw_restart_log gw))))])))))"

definition send_event :: "ops_handle \<Rightarrow> supervisor_event \<Rightarrow> 'd gateway \<Rightarrow> 'd gateway" where
  "send_event oh ev gw = (if oh_events_wired oh then gw\<lparr>gw_events := gw_events gw @ [ev]\<rparr> else gw)"

text \<open>The unit is restarted before the attempt is logged; what fails after that is still reported as a failure.\<close>

definition restart_unit :: "ops_handle \<Rightarrow> str \<Rightarrow> 'd gateway \<Rightarrow> 'd gateway \<times> (str + launch_context \<times> str \<times> int)" where
  "restart_unit oh agent_id gw =
     (case oh_db oh of
        Inl e \<Rightarrow> (gw, Inl e)
      | Inr _ \<Rightarrow>
          (case context_of (gw_agents gw) agent_id of
             None \<Rightarrow> (gw, Inl (''agent '' @ oh_debug oh agent_id @ '' not found''))
           | Some c \<Rightarrow>
               (case lc_systemd_service c of
                  None \<Rightarrow> (gw, Inl (''agent '' @ oh_debug oh agent_id @ '' has no systemd_service''))
                | Some service \<Rightarrow>
                    (case systemctl_restart (oh_restart oh service) of
                       Inl e \<Rightarrow> (gw, Inl e)
                     | Inr code \<Rightarrow>
                         (let gw1 = gw\<lparr>gw_restarted := service # gw_restarted gw\<rparr> in
                          case oh_log oh of
                            Inl e \<Rightarrow> (gw1, Inl e)
                          | Inr _ \<Rightarrow>
                              (gw1\<lparr>gw_restart_log := log_unit_restart (lc_agent_id c) (lc_source c) (oh_now oh) ''manual''
                                 (if code = 0 then ''started'' else ''failed'') (Some code) None (gw_restart_log gw1)\<rparr>,
                               Inr (c, service, code)))))))"

definition handle_supervise_restart :: "ops_handle \<Rightarrow> json \<Rightarrow> json \<Rightarrow> 'd gateway \<Rightarrow> 'd handled" where
  "handle_supervise_restart oh rid params gw =
     (case jfield_str ''agent_id'' params of
        None \<Rightarrow> (gw, jsonrpc_error rid (-32602) ''missing param: agent_id'')
      | Some agent_id \<Rightarrow>
          (case restart_unit oh agent_id gw of
             (gw1, Inl e) \<Rightarrow> (gw1, jsonrpc_error rid (-32004) (''restart failed: '' @ e))
           | (gw1, Inr (c, service, code)) \<Rightarrow>
               (let result = (if code = 0 then ''started'' else ''failed'') in
                (send_event oh (UnitRestarted (lc_agent_id c) (lc_source c) service ''manual'' result (Some code) (oh_now oh)) gw1,
                 jsonrpc_result rid (JObj [(''agent_id'', JStr (lc_agent_id c)), (''source'', JStr (lc_source c)),
                   (''exit_code'', JNum code), (''result'', JStr result)])))))"

fun set_paused_all :: "bool \<Rightarrow> launch_context list \<Rightarrow> agent_registry \<Rightarrow> agent_registry \<times> (str \<times> str) list" where
  "set_paused_all paused [] g = (g, [])"
| "set_paused_all paused (c # cs) g =
     (let (g1, hit) = set_supervise_paused (lc_source c) (lc_agent_id c) paused g;
          (g2, affected) = set_paused_all paused cs g1
      in (g2, if hit then (lc_source c, lc_agent_id c) # affected else affected))"

definition pause_targets :: "bool \<Rightarrow> str option \<Rightarrow> agent_registry \<Rightarrow> launch_context list" where
  "pause_targets all_agents agent_id g =
     filter (\<lambda>c. if all_agents then lc_systemd_service c \<noteq> None else Some (lc_agent_id c) = agent_id) (list_all_launch_contexts g)"

definition handle_supervise_pause_or_resume :: "ops_handle \<Rightarrow> json \<Rightarrow> json \<Rightarrow> bool \<Rightarrow> 'd gateway \<Rightarrow> 'd handled" where
  "handle_supervise_pause_or_resume oh rid params paused gw =
     (let all_agents = param_bool ''all'' params; agent_id = jfield_str ''agent_id'' params in
      if \<not> all_agents \<and> agent_id = None
      then (gw, jsonrpc_error rid (-32602) ''must specify agent_id or all=true'')
      else if all_agents \<and> agent_id \<noteq> None
      then (gw, jsonrpc_error rid (-32602) ''specify either agent_id or all=true, not both'')
      else (case oh_db oh of
              Inl e \<Rightarrow> (gw, jsonrpc_error rid (-32001) (''pause/resume failed: '' @ e))
            | Inr _ \<Rightarrow>
                (let (g, affected) = set_paused_all paused (pause_targets all_agents agent_id (gw_agents gw)) (gw_agents gw)
                 in (fold (\<lambda>(source, aid). send_event oh
                        (if paused then SupervisePaused aid source (oh_now oh) else SuperviseResumed aid source (oh_now oh)))
                        affected (gw\<lparr>gw_agents := g\<rparr>),
                     jsonrpc_result rid (JObj [(''paused'', JBool paused),
                       (''affected'', JList (map (\<lambda>(s, a). JObj [(''source'', JStr s), (''agent_id'', JStr a)]) affected)),
                       (''count'', JNum (int (length affected)))])))))"

definition handle_supervise_history :: "ops_handle \<Rightarrow> json \<Rightarrow> json \<Rightarrow> 'd gateway \<Rightarrow> json" where
  "handle_supervise_history oh rid params gw =
     (case oh_db oh of
        Inl e \<Rightarrow> jsonrpc_error rid (-32001) (''supervise history failed: '' @ e)
      | Inr _ \<Rightarrow> jsonrpc_result rid (JObj [(''restarts'', JList (map (\<lambda>r. JObj
          ([(''agent_id'', JStr (ur_agent_id r)), (''source'', JStr (ur_source r))] @ restart_json r))
          (case jfield_str ''agent_id'' params of
             None \<Rightarrow> unit_restart_history_all (param_limit 20 params) (gw_restart_log gw)
           | Some name \<Rightarrow> (case context_of (gw_agents gw) name of
                 None \<Rightarrow> []
               | Some c \<Rightarrow> unit_restart_history (lc_source c) (lc_agent_id c) (param_limit 20 params) (gw_restart_log gw)))))]))"

section \<open>Methods\<close>

definition handle_agent_method :: "ops_handle \<Rightarrow> json \<Rightarrow> str \<Rightarrow> json \<Rightarrow> 'd gateway \<Rightarrow> 'd handled" where
  "handle_agent_method oh rid method params gw =
     (if method = ''agent.local.signal'' then handle_agent_local_signal oh rid params gw
      else if method = ''agent.local.list'' then (gw, handle_agent_local_list oh rid gw)
      else if method = ''agent.describe_local'' then (gw, handle_agent_describe_local oh rid params gw)
      else if method = ''agent.cron.list'' then (gw, handle_agent_cron_list oh rid gw)
      else if method = ''agent.cron.describe'' then (gw, handle_agent_cron_describe oh rid params gw)
      else if method = ''agent.cron.reload'' then handle_agent_cron_reload oh rid gw
      else if method = ''agent.cron.history'' then (gw, handle_agent_cron_history oh rid params gw)
      else if method = ''agent.cron.gc_now'' then handle_agent_cron_gc_now oh rid params gw
      else if method = ''agent.supervise.list'' then (gw, handle_supervise_list oh rid gw)
      else if method = ''agent.supervise.status'' then (gw, handle_supervise_status oh rid params gw)
      else if method = ''agent.supervise.restart'' then handle_supervise_restart oh rid params gw
      else if method = ''agent.supervise.pause'' then handle_supervise_pause_or_resume oh rid params True gw
      else if method = ''agent.supervise.resume'' then handle_supervise_pause_or_resume oh rid params False gw
      else (gw, handle_supervise_history oh rid params gw))"

definition agent_methods :: "str list" where
  "agent_methods =
     [''agent.local.signal'', ''agent.local.list'', ''agent.describe_local'', ''agent.cron.list'', ''agent.cron.describe'',
      ''agent.cron.reload'', ''agent.cron.history'', ''agent.cron.gc_now'', ''agent.supervise.list'', ''agent.supervise.status'',
      ''agent.supervise.restart'', ''agent.supervise.pause'', ''agent.supervise.resume'', ''agent.supervise.history'']"

definition dispatch_jsonrpc :: "'d gw_world \<Rightarrow> str \<Rightarrow> 'd gateway \<Rightarrow> 'd handled" where
  "dispatch_jsonrpc w raw gw =
     (case ow_parse w raw of
        None \<Rightarrow> (gw, jsonrpc_error JNull (-32700) ''parse error'')
      | Some req \<Rightarrow>
          (let rid = or_default (jget ''id'' req) JNull; params = or_default (jget ''params'' req) (JObj []) in
           case jfield_str ''method'' req of
             None \<Rightarrow> (gw, jsonrpc_error rid (-32600) ''invalid request: missing method'')
           | Some method \<Rightarrow>
               if method = ''dispatch'' then handle_dispatch w rid params gw
               else if method = ''capabilities.list'' then (gw, handle_capabilities_list w rid params)
               else if method = ''capabilities.describe'' then (gw, handle_capabilities_describe w rid params)
               else if method \<in> set agent_methods then
                 (case ow_ops w of
                    Some oh \<Rightarrow> handle_agent_method oh rid method params gw
                  | None \<Rightarrow> (gw, jsonrpc_error rid (-32603) ''agent ops not wired''))
               else (gw, jsonrpc_error rid (-32601) ''method not found'')))"

section \<open>Connections\<close>

text \<open>A frame written to the client: a line of the handshake, a response, or one event of a stream.\<close>

datatype frame = Line str | Response json | Event supervisor_event

text \<open>What a subscriber receives: events, the news that it lagged behind, the end of the channel; and whether the
  client still reads.\<close>

datatype received = Got supervisor_event bool | Lagged nat | Closed

fun stream_events :: "received list \<Rightarrow> frame list" where
  "stream_events [] = []"
| "stream_events (Got ev written # rs) = (if written then Event ev # stream_events rs else [])"
| "stream_events (Lagged skipped # rs) =
     [Response (JObj [(''ok'', JBool False), (''error'', JStr ''lag''), (''skipped'', JNum (int skipped))])]"
| "stream_events (Closed # rs) = []"

definition stream_supervisor_events :: "ops_handle option \<Rightarrow> json \<Rightarrow> received list \<Rightarrow> frame list" where
  "stream_supervisor_events ops rid rs =
     (case ops of
        Some oh \<Rightarrow>
          if oh_events_wired oh
          then Response (jsonrpc_result rid (JObj [(''subscribed'', JBool True)])) # stream_events rs
          else [Response (jsonrpc_error rid (-32603) ''supervisor events not wired (unit-health loop not running)'')]
      | None \<Rightarrow> [Response (jsonrpc_error rid (-32603) ''supervisor events not wired (unit-health loop not running)'')])"

fun handle_jsonrpc_loop :: "(nat \<Rightarrow> 'd gw_world) \<Rightarrow> received list \<Rightarrow> str list \<Rightarrow> 'd gateway \<Rightarrow> 'd gateway \<times> frame list" where
  "handle_jsonrpc_loop w rs [] gw = (gw, [])"
| "handle_jsonrpc_loop w rs (line # ls) gw =
     (let wl = w (length ls); trimmed = trim line in
      if trimmed = [] then handle_jsonrpc_loop w rs ls gw
      else (case ow_parse wl trimmed of
              Some req \<Rightarrow>
                if jfield_str ''method'' req = Some ''events.subscribe''
                then (gw, stream_supervisor_events (ow_ops wl) (or_default (jget ''id'' req) JNull) rs)
                else (let (gw1, r) = dispatch_jsonrpc wl trimmed gw; (gw2, fs) = handle_jsonrpc_loop w rs ls gw1
                      in (gw2, Response r # fs))
            | None \<Rightarrow> (let (gw1, r) = dispatch_jsonrpc wl trimmed gw; (gw2, fs) = handle_jsonrpc_loop w rs ls gw1
                        in (gw2, Response r # fs))))"

text \<open>The token of the state file: the profile its active_profile names, auth, token; an empty one counts as none.\<close>

definition session_token_of :: "json option \<Rightarrow> str option" where
  "session_token_of state_file =
     Option.bind state_file (\<lambda>v. Option.bind (jfield_str ''active_profile'' v) (\<lambda>active.
       Option.bind (jget ''profiles'' v) (\<lambda>ps. Option.bind (jget active ps) (\<lambda>p. Option.bind (jget ''auth'' p) (\<lambda>a.
       Option.bind (jfield_str ''token'' a) (\<lambda>token. if token = [] then None else Some token))))))"

text \<open>At end of input read_line leaves the line empty.\<close>

definition handle_tcp_connection ::
  "(nat \<Rightarrow> 'd gw_world) \<Rightarrow> received list \<Rightarrow> str option \<Rightarrow> str list \<Rightarrow> 'd gateway \<Rightarrow> 'd gateway \<times> frame list" where
  "handle_tcp_connection w rs session_token ls gw =
     (case session_token of
        None \<Rightarrow> handle_jsonrpc_loop w rs ls gw
      | Some expected_token \<Rightarrow>
          (let (line, rest) = (case ls of [] \<Rightarrow> ([], []) | l # r \<Rightarrow> (trim l, r)) in
           if strip_prefix ''AUTH '' line = Some expected_token
           then (let (gw1, fs) = handle_jsonrpc_loop w rs rest gw in (gw1, Line ''OK'' # fs))
           else (gw, [Line ''ERR unauthorized''])))"

text \<open>The connections a gateway serves: the TCP listener is not started without a token.\<close>

datatype connection = UnixConnection "str list" | TcpConnection "str list"

definition serve ::
  "(nat \<Rightarrow> 'd gw_world) \<Rightarrow> received list \<Rightarrow> str option \<Rightarrow> connection \<Rightarrow> 'd gateway \<Rightarrow> 'd gateway \<times> frame list" where
  "serve w rs session_token conn gw =
     (case conn of
        UnixConnection ls \<Rightarrow> handle_jsonrpc_loop w rs ls gw
      | TcpConnection ls \<Rightarrow>
          if session_token = None then (gw, []) else handle_tcp_connection w rs session_token ls gw)"

section \<open>Every request is answered\<close>

definition replies_to :: "json \<Rightarrow> json \<Rightarrow> bool" where
  "replies_to rid j \<longleftrightarrow> (\<exists>r. j = jsonrpc_result rid r) \<or> (\<exists>code msg. j = jsonrpc_error rid code msg)"

named_theorems reply_intros \<open>the handlers reply to the request they are given\<close>

lemma replies_to_result [simp, reply_intros]: "replies_to rid (jsonrpc_result rid r)"
  by (auto simp: replies_to_def)

lemma replies_to_error [simp, reply_intros]: "replies_to rid (jsonrpc_error rid code msg)"
  by (auto simp: replies_to_def)

lemma replies_to_id: "replies_to rid j \<Longrightarrow> jget ''id'' j = Some rid"
  by (auto simp: replies_to_def jsonrpc_result_def jsonrpc_error_def)

lemma capability_replies [reply_intros]:
  "replies_to rid (snd (handle_dispatch w rid params gw))" "replies_to rid (handle_capabilities_list w rid params)"
  "replies_to rid (handle_capabilities_describe w rid params)"
  by (auto simp: handle_dispatch_def handle_capabilities_list_def handle_capabilities_describe_def split_beta Let_def
      split: option.split sum.split)

lemma local_replies [reply_intros]:
  "replies_to rid (snd (handle_agent_local_signal oh rid params gw))" "replies_to rid (handle_agent_local_list oh rid gw)"
  "replies_to rid (handle_agent_describe_local oh rid params gw)"
  by (auto simp: handle_agent_local_signal_def handle_agent_local_list_def handle_agent_describe_local_def
      split: option.split sum.split)

lemma cron_replies [reply_intros]:
  "replies_to rid (handle_agent_cron_list oh rid gw)" "replies_to rid (handle_agent_cron_describe oh rid params gw)"
  "replies_to rid (snd (handle_agent_cron_reload oh rid gw))" "replies_to rid (handle_agent_cron_history oh rid params gw)"
  "replies_to rid (snd (handle_agent_cron_gc_now oh rid params gw))"
  by (auto simp: handle_agent_cron_list_def handle_agent_cron_describe_def handle_agent_cron_reload_def
      handle_agent_cron_history_def handle_agent_cron_gc_now_def Let_def split_beta split: option.split sum.split)

lemma supervise_replies [reply_intros]:
  "replies_to rid (handle_supervise_list oh rid gw)" "replies_to rid (handle_supervise_status oh rid params gw)"
  "replies_to rid (snd (handle_supervise_restart oh rid params gw))"
  "replies_to rid (snd (handle_supervise_pause_or_resume oh rid params paused gw))"
  "replies_to rid (handle_supervise_history oh rid params gw)"
  by (auto simp: handle_supervise_list_def handle_supervise_status_def handle_supervise_restart_def
      handle_supervise_pause_or_resume_def handle_supervise_history_def Let_def split_beta split: option.split sum.split prod.split)

lemma method_replies [reply_intros]: "replies_to rid (snd (handle_agent_method oh rid method params gw))"
  by (simp add: handle_agent_method_def reply_intros)

definition request_id :: "'d gw_world \<Rightarrow> str \<Rightarrow> json" where
  "request_id w raw = (case ow_parse w raw of Some req \<Rightarrow> or_default (jget ''id'' req) JNull | None \<Rightarrow> JNull)"

lemma dispatch_replies: "replies_to (request_id w raw) (snd (dispatch_jsonrpc w raw gw))"
  by (auto simp: dispatch_jsonrpc_def request_id_def Let_def reply_intros split: option.split)

definition subscribes :: "'d gw_world \<Rightarrow> str \<Rightarrow> bool" where
  "subscribes w raw \<longleftrightarrow> (\<exists>req. ow_parse w raw = Some req \<and> jfield_str ''method'' req = Some ''events.subscribe'')"

lemma loop_Cons:
  "handle_jsonrpc_loop w rs (line # ls) gw =
     (let wl = w (length ls); t = trim line in
      if t = [] then handle_jsonrpc_loop w rs ls gw
      else if subscribes wl t then (gw, stream_supervisor_events (ow_ops wl) (request_id wl t) rs)
      else (let (gw1, r) = dispatch_jsonrpc wl t gw; (gw2, fs) = handle_jsonrpc_loop w rs ls gw1 in (gw2, Response r # fs)))"
  by (auto simp: subscribes_def request_id_def Let_def split: option.split)

text \<open>every request is answered, once and in order. As long as a client does not subscribe to the events, the
  gateway writes one frame for each line that is not blank, in the order of the lines, whatever it
  asks for and whatever fails: a JSON-RPC result or error with the id of the request, or with a null id
  when the line is not JSON or has none. A subscription ends the exchange with its stream.\<close>

theorem every_request_answered:
  "(\<forall>i. i < length ls \<longrightarrow> \<not> subscribes (w (length ls - Suc i)) (trim (ls ! i))) \<longrightarrow>
   (\<exists>js. snd (handle_jsonrpc_loop w rs ls gw) = map Response js \<and>
      list_all2 (\<lambda>i j. replies_to (request_id (w (length ls - Suc i)) (trim (ls ! i))) j)
        (filter (\<lambda>i. trim (ls ! i) \<noteq> []) [0..<length ls]) js)"
proof (induction ls arbitrary: gw)
  case (Cons line ls)
  let ?P = "\<lambda>l i j. replies_to (request_id (w (length l - Suc i)) (trim (l ! i))) j"
  have shift: "filter (\<lambda>i. trim ((line # ls) ! i) \<noteq> []) [0..<length (line # ls)] =
      (if trim line = [] then [] else [0]) @ map Suc (filter (\<lambda>i. trim (ls ! i) \<noteq> []) [0..<length ls])"
    by (simp add: upt_conv_Cons map_Suc_upt [symmetric] filter_map o_def del: upt_Suc)
  show ?case
  proof (rule impI)
    assume quiet: "\<forall>i. i < length (line # ls) \<longrightarrow> \<not> subscribes (w (length (line # ls) - Suc i)) (trim ((line # ls) ! i))"
    then have first: "\<not> subscribes (w (length ls)) (trim line)"
      by (metis diff_Suc_Suc diff_zero length_Cons nth_Cons_0 zero_less_Suc)
    have rest: "\<forall>i. i < length ls \<longrightarrow> \<not> subscribes (w (length ls - Suc i)) (trim (ls ! i))"
      using quiet by (metis Suc_mono diff_Suc_Suc length_Cons nth_Cons_Suc)
    obtain gw1 r where d: "dispatch_jsonrpc (w (length ls)) (trim line) gw = (gw1, r)"
      by fastforce
    have r: "?P (line # ls) 0 r"
      using dispatch_replies [of "w (length ls)" "trim line" gw] d by simp
    obtain js where js: "snd (handle_jsonrpc_loop w rs ls (if trim line = [] then gw else gw1)) = map Response js"
      "list_all2 (?P ls) (filter (\<lambda>i. trim (ls ! i) \<noteq> []) [0..<length ls]) js"
      using Cons.IH rest by blast
    have "list_all2 (?P (line # ls)) (map Suc (filter (\<lambda>i. trim (ls ! i) \<noteq> []) [0..<length ls])) js"
      using js(2) by (simp add: list_all2_map1)
    then show "\<exists>js. snd (handle_jsonrpc_loop w rs (line # ls) gw) = map Response js \<and>
        list_all2 (?P (line # ls)) (filter (\<lambda>i. trim ((line # ls) ! i) \<noteq> []) [0..<length (line # ls)]) js"
      using first js(1) d r unfolding shift loop_Cons
      by (intro exI [of _ "if trim line = [] then js else r # js"]) (auto simp: Let_def split_beta)
  qed
qed simp

section \<open>The remote control needs the token\<close>

text \<open>nothing remote without the token. Over TCP, whatever lines a client sends, the gateway does nothing and
  discloses nothing unless it has a session token and the first line, trimmed, is AUTH with exactly that
  token: without a token it writes nothing at all, and with any other first line it writes one refusal
  and keeps its state. With the right first line it acknowledges and serves the rest of the lines as the
  local socket would.\<close>

theorem tcp_requires_token:
  "serve w rs session_token (TcpConnection ls) gw =
     (case session_token of
        None \<Rightarrow> (gw, [])
      | Some t \<Rightarrow>
          if ls \<noteq> [] \<and> trim (hd ls) = ''AUTH '' @ t
          then (let (gw1, fs) = serve w rs session_token (UnixConnection (tl ls)) gw in (gw1, Line ''OK'' # fs))
          else (gw, [Line ''ERR unauthorized'']))"
  by (cases ls) (auto simp: serve_def handle_tcp_connection_def strip_prefix_Some Let_def split: option.split)

section \<open>Pausing\<close>

definition is_target :: "bool \<Rightarrow> str option \<Rightarrow> launch_context \<Rightarrow> bool" where
  "is_target all_agents agent_id c \<longleftrightarrow>
     (if all_agents then lc_systemd_service c \<noteq> None else Some (lc_agent_id c) = agent_id)"

definition with_pause :: "bool \<Rightarrow> (launch_context \<Rightarrow> bool) \<Rightarrow> launch_context \<Rightarrow> launch_context" where
  "with_pause paused T c = (if T c then c\<lparr>lc_supervise_paused := paused\<rparr> else c)"

lemma with_pause_fields [simp]:
  "context_key (with_pause paused T c) = context_key c" "lc_agent_id (with_pause paused T c) = lc_agent_id c"
  "lc_source (with_pause paused T c) = lc_source c" "lc_systemd_service (with_pause paused T c) = lc_systemd_service c"
  by (simp_all add: with_pause_def context_key_def)

lemma set_paused_all_eq:
  assumes "\<forall>c\<in>set cs. context_key c \<in> context_key ` set (rg_contexts g)"
  shows "set_paused_all paused cs g =
     (g\<lparr>rg_contexts := map (with_pause paused (\<lambda>c. context_key c \<in> context_key ` set cs)) (rg_contexts g)\<rparr>, map context_key cs)"
  using assms
proof (induction cs arbitrary: g)
  case (Cons c cs)
  let ?g = "g\<lparr>rg_contexts := map (with_pause paused (\<lambda>x. context_key x = context_key c)) (rg_contexts g)\<rparr>"
  have one: "set_supervise_paused (lc_source c) (lc_agent_id c) paused g = (?g, True)"
    using Cons.prems by (auto simp: set_supervise_paused_def update_where_def with_pause_def context_key_def)
  have "set_paused_all paused cs ?g =
      (?g\<lparr>rg_contexts := map (with_pause paused (\<lambda>x. context_key x \<in> context_key ` set cs)) (rg_contexts ?g)\<rparr>, map context_key cs)"
    using Cons.prems by (intro Cons.IH) (simp add: image_image)
  moreover have "with_pause paused (\<lambda>x. context_key x \<in> context_key ` set cs) (with_pause paused (\<lambda>x. context_key x = context_key c) x) =
      with_pause paused (\<lambda>x. context_key x \<in> context_key ` set (c # cs)) x" for x
    by (auto simp: with_pause_def context_key_def)
  ultimately show ?case
    by (simp add: one context_key_def)
qed (simp add: with_pause_def map_idI)

lemma set_contexts [simp]: "set (list_all_launch_contexts g) = set (rg_contexts g)"
  by (simp add: list_all_launch_contexts_def)

lemma target_keys:
  assumes "registry_ok g" "c \<in> set (rg_contexts g)"
  shows "context_key c \<in> context_key ` set (pause_targets b a g) \<longleftrightarrow> is_target b a c"
proof -
  have "inj_on context_key (set (rg_contexts g))"
    using assms(1) by (simp add: registry_ok_def unique_key_def distinct_map)
  then show ?thesis
    using assms(2) by (auto simp: pause_targets_def is_target_def inj_on_def)
qed

lemma pause_all_targets:
  assumes "registry_ok g"
  shows "set_paused_all paused (pause_targets b a g) g =
     (g\<lparr>rg_contexts := map (with_pause paused (is_target b a)) (rg_contexts g)\<rparr>, map context_key (pause_targets b a g))"
proof -
  have "map (with_pause paused (\<lambda>c. context_key c \<in> context_key ` set (pause_targets b a g))) (rg_contexts g) =
      map (with_pause paused (is_target b a)) (rg_contexts g)"
    using target_keys [OF assms, of _ b a] by (intro map_cong) (auto simp: with_pause_def)
  then show ?thesis
    by (subst set_paused_all_eq) (auto simp: pause_targets_def)
qed

definition pause_event :: "bool \<Rightarrow> str \<Rightarrow> str \<times> str \<Rightarrow> supervisor_event" where
  "pause_event paused at k = (if paused then SupervisePaused (snd k) (fst k) at else SuperviseResumed (snd k) (fst k) at)"

lemma send_pause_events:
  "fold (\<lambda>(source, aid). send_event oh
      (if paused then SupervisePaused aid source (oh_now oh) else SuperviseResumed aid source (oh_now oh))) ks gw =
   (if oh_events_wired oh then gw\<lparr>gw_events := gw_events gw @ map (pause_event paused (oh_now oh)) ks\<rparr> else gw)"
  by (induction ks arbitrary: gw) (auto simp: send_event_def pause_event_def)

text \<open>a pause holds. A pause request that names either all agents or one id sets the flag of exactly the
  launch contexts meant (all with a unit, or those with that id in any source), leaves everything else of
  the registry alone, and publishes one event for each of them. From then on, until a context is changed,
  no tick of the supervision loop restarts any of them, whatever it observes.\<close>

theorem pause_holds:
  assumes "registry_ok (gw_agents gw)" "oh_db oh = Inr ()"
    "all_agents = param_bool ''all'' params" "agent_id = jfield_str ''agent_id'' params" "all_agents \<longleftrightarrow> agent_id = None"
    "handle_supervise_pause_or_resume oh rid params True gw = (gw', resp)"
  shows "gw_agents gw' = (gw_agents gw)\<lparr>rg_contexts :=
      map (\<lambda>c. if is_target all_agents agent_id c then c\<lparr>lc_supervise_paused := True\<rparr> else c) (rg_contexts (gw_agents gw))\<rparr> \<and>
    gw_events gw' = gw_events gw @ (if oh_events_wired oh
      then map (\<lambda>c. SupervisePaused (lc_agent_id c) (lc_source c) (oh_now oh)) (pause_targets all_agents agent_id (gw_agents gw)) else []) \<and>
    (\<exists>new. uh_restarts (process_tick show_int cfg (Some (list_all_launch_contexts (gw_agents gw'))) now_hour obs u) = new @ uh_restarts u \<and>
      (\<forall>c\<in>set (rg_contexts (gw_agents gw)). \<forall>r\<in>set new. is_target all_agents agent_id c \<longrightarrow> rs_key r \<noteq> context_key c))"
proof -
  let ?T = "is_target all_agents agent_id" and ?g = "gw_agents gw"
  have gw': "gw' = (let gw1 = gw\<lparr>gw_agents := ?g\<lparr>rg_contexts := map (with_pause True ?T) (rg_contexts ?g)\<rparr>\<rparr>
      in if oh_events_wired oh
         then gw1\<lparr>gw_events := gw_events gw @ map (pause_event True (oh_now oh)) (map context_key (pause_targets all_agents agent_id ?g))\<rparr>
         else gw1)"
    using assms(2,5,6)
    by (auto simp: handle_supervise_pause_or_resume_def Let_def assms(3,4) [symmetric] pause_all_targets [OF assms(1)]
        send_pause_events [where paused = True, simplified])
  have agents: "gw_agents gw' = ?g\<lparr>rg_contexts := map (with_pause True ?T) (rg_contexts ?g)\<rparr>"
    by (simp add: gw' Let_def)
  let ?cs = "list_all_launch_contexts (gw_agents gw')"
  obtain new where new: "uh_restarts (process_tick show_int cfg (Some ?cs) now_hour obs u) = new @ uh_restarts u"
    "\<forall>r\<in>set new. \<exists>ctx\<in>set ?cs. allowed_restart cfg now_hour obs ctx r"
    using tick_restarts by blast
  have "rs_key r \<noteq> context_key c" if r: "r \<in> set new" and c: "c \<in> set (rg_contexts ?g)" "?T c" for r c
  proof
    assume same: "rs_key r = context_key c"
    obtain ctx where ctx: "ctx \<in> set (rg_contexts (gw_agents gw'))" "allowed_restart cfg now_hour obs ctx r"
      using new(2) r by auto
    then obtain c0 where c0: "c0 \<in> set (rg_contexts ?g)" "ctx = with_pause True ?T c0"
      by (auto simp: agents)
    have "context_key c0 = context_key c"
      using ctx(2) same c0(2) by (simp add: allowed_restart_def)
    then have "c0 = c"
      using assms(1) c0(1) c(1) by (auto simp: registry_ok_def unique_key_def distinct_map inj_on_def)
    then show False
      using ctx(2) c(2) c0(2) by (simp add: allowed_restart_def with_pause_def)
  qed
  then show ?thesis
    using new(1) by (auto simp: agents with_pause_def gw' Let_def pause_event_def context_key_def)
qed

section \<open>Which agents are local\<close>

lemma agent_in_source_None: "agent_in_source g source agent_id = None \<longleftrightarrow> (source, agent_id) \<notin> agent_key ` set (rg_agents g)"
  by (auto simp: agent_in_source_def find_None_iff list_by_source_def select_where_def agent_key_def)

lemma context_has_agent: "registry_ok g \<Longrightarrow> c \<in> set (rg_contexts g) \<Longrightarrow> agent_in_source g (lc_source c) (lc_agent_id c) \<noteq> None"
  by (auto simp: agent_in_source_None registry_ok_def context_key_def)

text \<open>what counts as local. agent.describe_local finds an id exactly when a launch context of any source bears it
  or an agent row of the source local does: an agent the control plane assigned, which has a row but no
  launch context, is not found, and the command line then asks the control plane for it.\<close>

theorem describe_local_exact:
  assumes "registry_ok g"
  shows "describe_local_agent g agent_id = None \<longleftrightarrow>
     agent_id \<notin> lc_agent_id ` set (rg_contexts g) \<and> (''local'', agent_id) \<notin> agent_key ` set (rg_agents g)"
proof -
  have "find_map (\<lambda>c. if lc_agent_id c \<noteq> agent_id then None
        else map_option (\<lambda>r. local_agent_json r (Some c)) (agent_in_source g (lc_source c) agent_id)) (list_all_launch_contexts g) = None \<longleftrightarrow>
      agent_id \<notin> lc_agent_id ` set (rg_contexts g)"
    using context_has_agent [OF assms] by (fastforce simp: find_map_None)
  then show ?thesis
    by (auto simp: describe_local_agent_def agent_in_source_None split: option.split)
qed

section \<open>Limits wrap around\<close>

text \<open>limits are cut to 32 bits. A limit that is a multiple of 2^32 counts as zero, which means no limit: the
  history of the scheduler is then returned whole, where a smaller limit would have cut it. In the
  same way a sweep asked to keep 2^32 days drops nothing by age.\<close>

theorem limits_wrap:
  assumes "n < 2 ^ 64" "n mod 2 ^ 32 = 0" "oh_db oh = Inr ()" "oh_cron_file oh = Some cron_toml"
    "load_cron oh cron_toml = Inr cfg"
  shows "handle_agent_cron_history oh rid (JObj [(''limit'', JNum (int n))]) gw =
      jsonrpc_result rid (JObj [(''fires'', JList (map (\<lambda>h. JObj ((''job_name'', JStr (cl_job_name h)) # fire_json h))
        (listed_desc cl_fired_at (h_rows (cg_log (gw_cron gw))))))]) \<and>
    gw_cron (fst (handle_agent_cron_gc_now oh rid (JObj [(''history_days'', JNum (int n))]) gw)) =
      fst (cron_gc (oh_cutoff oh 0) 0 (max_rows_per_job (cc_retention cfg)) (gw_cron gw))"
proof -
  have limit: "param_limit 20 (JObj [(''limit'', JNum (int n))]) = 0"
    using assms(1,2) by (simp add: param_limit_def param_u64_def or_default_def as_u32_def)
  have days: "map_option as_u32 (param_u64 ''history_days'' (JObj [(''history_days'', JNum (int n))])) = Some 0"
    using assms(1,2) by (simp add: param_u64_def as_u32_def)
  have rows: "param_u64 ''max_rows_per_job'' (JObj [(''history_days'', JNum (int n))]) = None"
    by (simp add: param_u64_def)
  have name: "jfield_str ''name'' (JObj [(''limit'', JNum (int n))]) = None"
    by (simp add: jfield_str_def)
  show ?thesis
    using assms(3-5)
    by (simp add: handle_agent_cron_history_def limit name cron_history_all_def with_limit_def
        handle_agent_cron_gc_now_def days rows or_default_def Let_def split_beta)
qed

section \<open>A small gateway\<close>

definition demo_handle :: ops_handle where
  "demo_handle = \<lparr>oh_supervised = (\<lambda>_. False), oh_signal = (\<lambda>_ _. Inr ()), oh_cron_wired = True,
     oh_cron_file = Some (Some demo_fields), oh_cron_path = ''cron.toml'',
     oh_zone_ok = (\<lambda>z. cw_zone demo_world z \<noteq> None), oh_schedule_ok = (\<lambda>s. cw_next demo_world s \<noteq> None),
     oh_config_error = (\<lambda>_. ''error''), oh_events_wired = True, oh_db = Inr (), oh_log = Inr (),
     oh_unit_state = (\<lambda>_. ''active''), oh_restart = (\<lambda>_. Inr (Some 0)), oh_now = ''2026-05-20'', oh_cutoff = (\<lambda>_. []),
     oh_debug = (\<lambda>s. s)\<rparr>"

definition demo_gateway :: "unit gateway" where
  "demo_gateway = \<lparr>gw_dispatcher = (), gw_agents = demo_registry, gw_restart_log = empty_history,
     gw_cron = cron_record_fire ''hb'' ''2026-05-19'' ''ok'' None None no_cron, gw_reload_queued = False,
     gw_events = [], gw_signals = [], gw_restarted = []\<rparr>"

lemma pause_holds_witness:
  "fst (handle_supervise_pause_or_resume demo_handle JNull (JObj [(''agent_id'', JStr ''work'')]) True demo_gateway) =
     demo_gateway\<lparr>gw_agents := demo_registry\<lparr>rg_contexts := [demo_context\<lparr>lc_supervise_paused := True\<rparr>]\<rparr>,
       gw_events := [SupervisePaused ''work'' ''local'' ''2026-05-20'']\<rparr>"
proof -
  let ?p = "JObj [(''agent_id'', JStr ''work'')]"
  obtain gw' r where h: "handle_supervise_pause_or_resume demo_handle JNull ?p True demo_gateway = (gw', r)"
    by fastforce
  have p: "False = param_bool ''all'' ?p" "Some ''work'' = jfield_str ''agent_id'' ?p"
    by (simp_all add: param_bool_def or_default_def jfield_str_def)
  have ok: "registry_ok (gw_agents demo_gateway)" "oh_db demo_handle = Inr ()"
    by (simp_all add: demo_gateway_def demo_contexts demo_handle_def)
  have ctx: "rg_contexts demo_registry = [demo_context]" "lc_agent_id demo_context = ''work''" "lc_source demo_context = ''local''"
    by (simp_all add: demo_registry_def demo_context_def)
  have "gw_agents gw' = demo_registry\<lparr>rg_contexts := [demo_context\<lparr>lc_supervise_paused := True\<rparr>]\<rparr>"
    "gw_events gw' = [SupervisePaused ''work'' ''local'' ''2026-05-20'']"
    using pause_holds [OF ok p _ h, of "\<lambda>_. []" default_unit_health 3 "\<lambda>_. dead_at 0" "unit_health_new empty_history"]
    by (simp_all add: demo_gateway_def is_target_def ctx pause_targets_def demo_contexts(2) demo_handle_def)
  moreover have "gw' = demo_gateway\<lparr>gw_agents := gw_agents gw', gw_events := gw_events gw'\<rparr>"
    using h by (auto simp: handle_supervise_pause_or_resume_def Let_def split_beta p [symmetric]
        send_pause_events [where paused = True, simplified] split: sum.splits)
  ultimately show ?thesis
    by (simp add: h)
qed

lemma describe_local_exact_witness: "describe_local_agent demo_registry ''work'' \<noteq> None"
  using describe_local_exact [OF demo_contexts(1)] by (simp add: demo_registry_def demo_context_def)

lemma limits_wrap_witness:
  "gw_cron (fst (handle_agent_cron_gc_now demo_handle JNull (JObj [(''history_days'', JNum (int 4294967296))]) demo_gateway)) =
     fst (cron_gc [] 0 500 (gw_cron demo_gateway))"
proof -
  have "load_cron demo_handle (Some demo_fields) =
      Inr \<lparr>cc_schema_version = 1, cc_timezone = default_timezone, cc_retention = default_retention, cc_jobs = [demo_job]\<rparr>"
    using demo_load by (simp only: load_cron_def demo_handle_def ops_handle.simps sum.case)
  then show ?thesis
    using conjunct2 [OF limits_wrap [of 4294967296 demo_handle "Some demo_fields" _ JNull demo_gateway]]
    by (simp add: demo_handle_def default_retention_def)
qed

lemma every_request_answered_witness:
  "\<exists>js. snd (handle_jsonrpc_loop (\<lambda>_. \<lparr>ow_registry = empty_registry, ow_dispatch = (\<lambda>_ d. (error_result [] [] None, d)),
       ow_manifest_json = (\<lambda>_. Inr JNull), ow_parse = (\<lambda>_. None), ow_ops = None\<rparr>) [] [''x'', '' ''] demo_gateway) = map Response js \<and>
     length js = 1"
proof -
  let ?w = "\<lambda>_ :: nat. \<lparr>ow_registry = empty_registry, ow_dispatch = (\<lambda>_ d. (error_result [] [] None, d)),
       ow_manifest_json = (\<lambda>_. Inr JNull), ow_parse = (\<lambda>_. None), ow_ops = None\<rparr> :: unit gw_world"
  have blank: "filter (\<lambda>i. trim ([''x'', '' ''] ! i) \<noteq> []) [0..<length [''x'', '' '']] = [0]"
    by (simp add: trim_def is_space_def upt_conv_Cons)
  obtain js where "snd (handle_jsonrpc_loop ?w [] [''x'', '' ''] demo_gateway) = map Response js"
    "list_all2 (\<lambda>i j. replies_to (request_id (?w (length [''x'', '' ''] - Suc i)) (trim ([''x'', '' ''] ! i))) j) [0] js"
    using every_request_answered [of "[''x'', '' '']" ?w "[]" demo_gateway] unfolding blank
    by (auto simp: subscribes_def)
  then show ?thesis
    using list_all2_lengthD by fastforce
qed

end
