(* ===== verification/Tower_State.thy ===== *)
theory Tower_State
  imports Tower_Authz
begin

text \<open>
  The tables of the tower's fleet side (routes/runtime.rs, routes/work.rs): join tokens, nodes, node
  specifications, node events, jobs, their leases and the execution sessions, with the JSON views of their
  rows, around the application state of Tower_Auth. Text columns written with json_dump hold the value
  dumped. The messages broadcast to the daemons (broadcast_assignment_changed) are kept in the order sent.
  A handler that aborts (chrono panics on a date out of its range) gives the response no_response.
\<close>

section \<open>Rows\<close>

record join_token_row =
  jt_id :: str
  jt_owner_subject :: str
  jt_token_hash :: str
  jt_config :: json
  jt_upgrade_channel :: str
  jt_desired_version :: str
  jt_expires_at :: "time option"
  jt_used_at :: "time option"
  jt_status :: str
  jt_rotation_count :: int
  jt_node_id :: "str option"
  jt_created_at :: time
  jt_updated_at :: time

record node_row =
  n_id :: str
  n_owner_subject :: str
  n_node_name :: str
  n_hostname :: str
  n_status :: str
  n_trust_tier :: str
  n_labels :: json
  n_capacity :: json
  n_capabilities :: "str list"
  n_runtime_version :: str
  n_bootstrap_token_prefix :: str
  n_tailscale_ip :: "str option"
  n_tailscale_fqdn :: "str option"
  n_attach_secret :: "str option"
  n_last_heartbeat_at :: "time option"
  n_registered_at :: time
  n_updated_at :: time

record node_spec_row =
  sp_id :: nat
  sp_owner_subject :: str
  sp_node_id :: str
  sp_config :: json
  sp_desired_version :: str
  sp_upgrade_channel :: str
  sp_drain_state :: str
  sp_health_summary :: str
  sp_config_hash :: str
  sp_last_reconcile_at :: time
  sp_created_at :: time
  sp_updated_at :: time

record node_event_row =
  ev_node_id :: "str option"
  ev_lease_id :: "str option"
  ev_event_type :: str
  ev_payload :: json
  ev_created_at :: time

record job_row =
  j_id :: str
  j_owner_subject :: str
  j_domain_id :: str
  j_task_id :: "int option"
  j_runtime_session_id :: str
  j_runtime_class :: str
  j_image :: str
  j_command :: str
  j_args :: "str list"
  j_env :: json
  j_cwd :: str
  j_mounts :: "json list"
  j_artifact_rules :: json
  j_timeout_seconds :: int
  j_restart_policy :: str
  j_required_capabilities :: "str list"
  j_preferred_labels :: json
  j_status :: str
  j_created_at :: time
  j_updated_at :: time

record lease_row =
  l_id :: str
  l_job_id :: str
  l_node_id :: str
  l_status :: str
  l_claimed_at :: time
  l_heartbeat_at :: "time option"
  l_started_at :: "time option"
  l_finished_at :: "time option"
  l_exit_code :: "int option"
  l_error_message :: str
  l_cleanup_status :: str
  l_created_at :: time
  l_updated_at :: time

record exec_session_row =
  es_id :: str
  es_lease_id :: str
  es_runtime_class :: str
  es_pty_requested :: bool
  es_attach_token_prefix :: str
  es_status :: str
  es_created_at :: time
  es_updated_at :: time

record agent_session_row =
  as_id :: int
  as_agent_row_id :: int
  as_ended_at :: "time option"
  as_end_reason :: "str option"

record tower =
  tw_app :: app_state
  tw_join_tokens :: "join_token_row table"
  tw_nodes :: "node_row table"
  tw_specs :: "node_spec_row table"
  tw_spec_seq :: nat
  tw_events :: "node_event_row table"
  tw_jobs :: "job_row table"
  tw_leases :: "lease_row table"
  tw_exec_sessions :: "exec_session_row table"
  tw_agent_sessions :: "agent_session_row table"
  tw_broadcasts :: "(str \<times> json) list"

abbreviation tw_db :: "tower \<Rightarrow> db" where
  "tw_db s \<equiv> app_db (tw_app s)"

abbreviation tw_up :: "tower \<Rightarrow> bool" where
  "tw_up s \<equiv> db_up (app_db (tw_app s))"

definition set_db :: "db \<Rightarrow> tower \<Rightarrow> tower" where
  "set_db d s = s\<lparr>tw_app := (tw_app s)\<lparr>app_db := d\<rparr>\<rparr>"

definition no_response :: deny where
  "no_response = deny 0 []"

definition forbidden :: "str \<Rightarrow> deny" where
  "forbidden msg = deny 403 msg"

section \<open>JSON views\<close>

definition strs :: "str list \<Rightarrow> json" where
  "strs xs = JList (map JStr xs)"

definition row_to_node :: "node_row \<Rightarrow> json" where
  "row_to_node r = JObj
     [(''id'', JStr (n_id r)),
      (''owner_subject'', JStr (n_owner_subject r)),
      (''node_name'', JStr (n_node_name r)),
      (''hostname'', JStr (n_hostname r)),
      (''status'', JStr (n_status r)),
      (''trust_tier'', JStr (n_trust_tier r)),
      (''labels'', n_labels r),
      (''capacity'', n_capacity r),
      (''capabilities'', strs (n_capabilities r)),
      (''runtime_version'', JStr (n_runtime_version r)),
      (''tailscale_ip'', jopt JStr (n_tailscale_ip r)),
      (''tailscale_fqdn'', jopt JStr (n_tailscale_fqdn r)),
      (''last_heartbeat_at'', jopt JNum (n_last_heartbeat_at r)),
      (''registered_at'', JNum (n_registered_at r)),
      (''updated_at'', JNum (n_updated_at r))]"

definition row_to_job :: "job_row \<Rightarrow> json" where
  "row_to_job r = JObj
     [(''id'', JStr (j_id r)),
      (''owner_subject'', JStr (j_owner_subject r)),
      (''domain_id'', JStr (j_domain_id r)),
      (''task_id'', jopt JNum (j_task_id r)),
      (''runtime_session_id'', JStr (j_runtime_session_id r)),
      (''runtime_class'', JStr (j_runtime_class r)),
      (''image'', JStr (j_image r)),
      (''command'', JStr (j_command r)),
      (''args'', strs (j_args r)),
      (''env'', j_env r),
      (''cwd'', JStr (j_cwd r)),
      (''mounts'', JList (j_mounts r)),
      (''artifact_rules'', j_artifact_rules r),
      (''timeout_seconds'', JNum (j_timeout_seconds r)),
      (''restart_policy'', JStr (j_restart_policy r)),
      (''required_capabilities'', strs (j_required_capabilities r)),
      (''preferred_labels'', j_preferred_labels r),
      (''status'', JStr (j_status r)),
      (''created_at'', JNum (j_created_at r)),
      (''updated_at'', JNum (j_updated_at r))]"

definition row_to_lease :: "lease_row \<Rightarrow> json" where
  "row_to_lease r = JObj
     [(''id'', JStr (l_id r)),
      (''job_id'', JStr (l_job_id r)),
      (''node_id'', JStr (l_node_id r)),
      (''status'', JStr (l_status r)),
      (''claimed_at'', JNum (l_claimed_at r)),
      (''heartbeat_at'', jopt JNum (l_heartbeat_at r)),
      (''started_at'', jopt JNum (l_started_at r)),
      (''finished_at'', jopt JNum (l_finished_at r)),
      (''exit_code'', jopt JNum (l_exit_code r)),
      (''error_message'', JStr (l_error_message r)),
      (''cleanup_status'', JStr (l_cleanup_status r)),
      (''created_at'', JNum (l_created_at r)),
      (''updated_at'', JNum (l_updated_at r))]"

definition row_to_spec :: "node_spec_row \<Rightarrow> json" where
  "row_to_spec r = JObj
     [(''node_id'', JStr (sp_node_id r)),
      (''config'', sp_config r),
      (''desired_version'', JStr (sp_desired_version r)),
      (''upgrade_channel'', JStr (sp_upgrade_channel r)),
      (''drain_state'', JStr (sp_drain_state r)),
      (''health_summary'', JStr (sp_health_summary r)),
      (''config_hash'', JStr (sp_config_hash r)),
      (''last_reconcile_at'', JNum (sp_last_reconcile_at r)),
      (''created_at'', JNum (sp_created_at r)),
      (''updated_at'', JNum (sp_updated_at r))]"

definition row_to_join_token :: "join_token_row \<Rightarrow> json" where
  "row_to_join_token r = JObj
     [(''id'', JStr (jt_id r)),
      (''node_id'', jopt JStr (jt_node_id r)),
      (''upgrade_channel'', JStr (jt_upgrade_channel r)),
      (''desired_version'', JStr (jt_desired_version r)),
      (''status'', JStr (jt_status r)),
      (''expires_at'', jopt JNum (jt_expires_at r)),
      (''used_at'', jopt JNum (jt_used_at r)),
      (''rotation_count'', JNum (jt_rotation_count r)),
      (''config'', jt_config r),
      (''created_at'', JNum (jt_created_at r)),
      (''updated_at'', JNum (jt_updated_at r))]"

definition row_to_execution_session :: "exec_session_row \<Rightarrow> json" where
  "row_to_execution_session r = JObj
     [(''id'', JStr (es_id r)),
      (''lease_id'', JStr (es_lease_id r)),
      (''runtime_class'', JStr (es_runtime_class r)),
      (''pty_requested'', JBool (es_pty_requested r)),
      (''attach_token_prefix'', JStr (es_attach_token_prefix r)),
      (''status'', JStr (es_status r)),
      (''created_at'', JNum (es_created_at r)),
      (''updated_at'', JNum (es_updated_at r))]"

text \<open>Reading a field of an object after writing one.\<close>

definition is_obj :: "json \<Rightarrow> bool" where
  "is_obj j = (case j of JObj fs \<Rightarrow> True | _ \<Rightarrow> False)"

lemma is_obj_jset [simp]: "is_obj (jset k v j) = is_obj j"
  by (cases j) (simp_all add: is_obj_def)

lemma jget_jset_same [simp]: "is_obj j \<Longrightarrow> jget k (jset k v j) = Some v"
  by (cases j) (simp_all add: is_obj_def)

lemma map_of_other: "k \<noteq> k' \<Longrightarrow> map_of (filter (\<lambda>f. fst f \<noteq> k') fs) k = map_of fs k"
  by (induction fs) auto

lemma jget_jset_other: "k \<noteq> k' \<Longrightarrow> jget k (jset k' v j) = jget k j"
  by (cases j) (simp_all add: map_of_other)

declare jset.simps [simp del]

lemma is_obj_views [simp]:
  "is_obj (row_to_node n)" "is_obj (row_to_job j)" "is_obj (row_to_lease l)" "is_obj (row_to_spec sp)"
  "is_obj (row_to_join_token t)" "is_obj (row_to_execution_session es)"
  by (simp_all add: is_obj_def row_to_node_def row_to_job_def row_to_lease_def row_to_spec_def
      row_to_join_token_def row_to_execution_session_def)

section \<open>Node events and broadcasts\<close>

definition log_event :: "str \<Rightarrow> str option \<Rightarrow> str \<Rightarrow> json \<Rightarrow> time \<Rightarrow> tower \<Rightarrow> tower" where
  "log_event node_id lease_id event_type payload now s =
     s\<lparr>tw_events := insert_row
        \<lparr>ev_node_id = Some node_id, ev_lease_id = lease_id, ev_event_type = event_type,
         ev_payload = payload, ev_created_at = now\<rparr> (tw_events s)\<rparr>"

definition broadcast_assignment_changed :: "str \<Rightarrow> json \<Rightarrow> tower \<Rightarrow> tower" where
  "broadcast_assignment_changed runtime_node_id payload s =
     s\<lparr>tw_broadcasts := tw_broadcasts s @ [(runtime_node_id, payload)]\<rparr>"

definition invalidate_scope :: "str \<Rightarrow> tower \<Rightarrow> tower" where
  "invalidate_scope raw_node_id s = s\<lparr>tw_app := invalidate_node_scope_cache raw_node_id (tw_app s)\<rparr>"

lemma log_event_simps [simp]:
  "tw_app (log_event n l t p now s) = tw_app s" "tw_nodes (log_event n l t p now s) = tw_nodes s"
  "tw_join_tokens (log_event n l t p now s) = tw_join_tokens s" "tw_specs (log_event n l t p now s) = tw_specs s"
  "tw_jobs (log_event n l t p now s) = tw_jobs s" "tw_leases (log_event n l t p now s) = tw_leases s"
  "tw_exec_sessions (log_event n l t p now s) = tw_exec_sessions s"
  "tw_spec_seq (log_event n l t p now s) = tw_spec_seq s"
  "tw_broadcasts (log_event n l t p now s) = tw_broadcasts s"
  by (simp_all add: log_event_def)

lemma broadcast_assignment_simps [simp]:
  "tw_app (broadcast_assignment_changed n p s) = tw_app s"
  "tw_nodes (broadcast_assignment_changed n p s) = tw_nodes s"
  "tw_join_tokens (broadcast_assignment_changed n p s) = tw_join_tokens s"
  "tw_specs (broadcast_assignment_changed n p s) = tw_specs s"
  "tw_jobs (broadcast_assignment_changed n p s) = tw_jobs s"
  "tw_leases (broadcast_assignment_changed n p s) = tw_leases s"
  "tw_exec_sessions (broadcast_assignment_changed n p s) = tw_exec_sessions s"
  by (simp_all add: broadcast_assignment_changed_def)

lemma invalidate_scope_simps [simp]:
  "tw_nodes (invalidate_scope n s) = tw_nodes s" "tw_join_tokens (invalidate_scope n s) = tw_join_tokens s"
  "tw_specs (invalidate_scope n s) = tw_specs s" "tw_jobs (invalidate_scope n s) = tw_jobs s"
  "tw_leases (invalidate_scope n s) = tw_leases s" "tw_exec_sessions (invalidate_scope n s) = tw_exec_sessions s"
  "app_db (tw_app (invalidate_scope n s)) = app_db (tw_app s)"
  "node_tokens (tw_app (invalidate_scope n s)) = node_tokens (tw_app s)"
  "agent_tokens (tw_app (invalidate_scope n s)) = agent_tokens (tw_app s)"
  by (simp_all add: invalidate_scope_def invalidate_node_scope_cache_def)

lemma set_db_simps [simp]:
  "app_db (tw_app (set_db d s)) = d" "tw_nodes (set_db d s) = tw_nodes s"
  "node_tokens (tw_app (set_db d s)) = node_tokens (tw_app s)"
  "agent_tokens (tw_app (set_db d s)) = agent_tokens (tw_app s)"
  "tw_join_tokens (set_db d s) = tw_join_tokens s" "tw_jobs (set_db d s) = tw_jobs s"
  "tw_leases (set_db d s) = tw_leases s" "tw_specs (set_db d s) = tw_specs s"
  "tw_exec_sessions (set_db d s) = tw_exec_sessions s"
  by (simp_all add: set_db_def)

end
