(* ===== verification/Runtime_Nodes.thy ===== *)
theory Runtime_Nodes
  imports Tower_State
begin

text \<open>
  The node side of routes/runtime.rs: join tokens, registration, rotation of a node's token, listing,
  heartbeats, configuration and specification, deletion. A handler takes the tower state, the caller and
  the request, and gives the new state with the response. Clocks, fresh identifiers and secrets, the digest,
  the JSON printer and the JWT encoder are arguments. register_node reads in one half and writes in the
  other, with requests of others in between: the halves are register_check and register_write.
\<close>

section \<open>Join tokens\<close>

definition NODE_JWT_TTL_DAYS :: int where "NODE_JWT_TTL_DAYS = 1"

definition owned_row :: "('r \<Rightarrow> str) \<Rightarrow> ('r \<Rightarrow> str) \<Rightarrow> str \<Rightarrow> str \<Rightarrow> 'r \<Rightarrow> tri" where
  "owned_row key owner k who r = tand (by_key key k r) (tbool (owner r = who))"

lemma holds_owned_row [simp]: "holds (owned_row key owner k who r) \<longleftrightarrow> key r = k \<and> owner r = who"
  by (simp add: owned_row_def)

record join_token_create =
  jc_expires_in_seconds :: int
  jc_upgrade_channel :: str
  jc_desired_version :: str
  jc_config :: json

text \<open>now + Duration::seconds(n): both steps of chrono panic out of range (naive_max is NaiveDateTime::MAX).\<close>

definition token_expiry :: "time \<Rightarrow> time \<Rightarrow> int \<Rightarrow> time option option" where
  "token_expiry naive_max now n =
     (if n > 0 then
        if n \<le> (2 ^ 63 - 1) div 1000 \<and> now + secs n \<le> naive_max then Some (Some (now + secs n)) else None
      else Some None)"

definition create_join_token ::
  "(str \<Rightarrow> str) \<Rightarrow> time \<Rightarrow> time \<Rightarrow> str \<Rightarrow> str \<Rightarrow> tower \<Rightarrow> principal \<Rightarrow> join_token_create \<Rightarrow> tower \<times> json res" where
  "create_join_token digest naive_max now token_id token s p body =
     (if auth_type p \<in> {''node'', ''agent''} then
        (s, Inl (forbidden ''node and agent credentials cannot create join tokens''))
      else case token_expiry naive_max now (jc_expires_in_seconds body) of
        None \<Rightarrow> (s, Inl no_response)
      | Some expires_at \<Rightarrow>
          if \<not> tw_up s \<or> lookup jt_id token_id (tw_join_tokens s) \<noteq> None then (s, Inl internal_error)
          else let row = \<lparr>jt_id = token_id, jt_owner_subject = subject p, jt_token_hash = digest token,
                          jt_config = jc_config body, jt_upgrade_channel = jc_upgrade_channel body,
                          jt_desired_version = jc_desired_version body, jt_expires_at = expires_at,
                          jt_used_at = None, jt_status = ''active'', jt_rotation_count = 0, jt_node_id = None,
                          jt_created_at = now, jt_updated_at = now\<rparr> in
            (s\<lparr>tw_join_tokens := insert_row row (tw_join_tokens s)\<rparr>,
             Inr (jset ''token'' (JStr token) (row_to_join_token row))))"

definition get_join_token :: "tower \<Rightarrow> principal \<Rightarrow> str \<Rightarrow> tower \<times> json res" where
  "get_join_token s p token_id =
     (if \<not> tw_up s then (s, Inl internal_error)
      else case fetch_optional (owned_row jt_id jt_owner_subject token_id (subject p)) (tw_join_tokens s) of
        Some row \<Rightarrow> (s, Inr (row_to_join_token row))
      | None \<Rightarrow> (s, Inl (not_found ''join token not found'')))"

definition rotate_update :: "str \<Rightarrow> int \<Rightarrow> time \<Rightarrow> join_token_row \<Rightarrow> join_token_row" where
  "rotate_update new_hash rotation_count now r =
     r\<lparr>jt_token_hash := new_hash, jt_rotation_count := rotation_count + 1, jt_status := ''active'',
       jt_used_at := None, jt_updated_at := now\<rparr>"

definition rotate_join_token ::
  "(str \<Rightarrow> str) \<Rightarrow> time \<Rightarrow> str \<Rightarrow> tower \<Rightarrow> principal \<Rightarrow> str \<Rightarrow> tower \<times> json res" where
  "rotate_join_token digest now new_token s p token_id =
     (if auth_type p \<in> {''node'', ''agent''} then
        (s, Inl (forbidden ''node and agent credentials cannot rotate join tokens''))
      else if \<not> tw_up s then (s, Inl internal_error)
      else case fetch_optional (owned_row jt_id jt_owner_subject token_id (subject p)) (tw_join_tokens s) of
        None \<Rightarrow> (s, Inl (not_found ''join token not found''))
      | Some existing \<Rightarrow>
          (case update_returning (by_key jt_id token_id)
                  (rotate_update (digest new_token) (jt_rotation_count existing) now) (tw_join_tokens s) of
             (ts, Some row) \<Rightarrow> (s\<lparr>tw_join_tokens := ts\<rparr>, Inr (jset ''token'' (JStr new_token) (row_to_join_token row)))
           | (ts, None) \<Rightarrow> (s, Inl internal_error)))"

section \<open>Node specifications\<close>

definition config_hash :: "(str \<Rightarrow> str) \<Rightarrow> (json \<Rightarrow> str) \<Rightarrow> json \<Rightarrow> str" where
  "config_hash digest dump config = digest (dump config)"

definition new_spec_row ::
  "(str \<Rightarrow> str) \<Rightarrow> (json \<Rightarrow> str) \<Rightarrow> nat \<Rightarrow> time \<Rightarrow> str \<Rightarrow> node_row \<Rightarrow> str \<Rightarrow> str \<Rightarrow> node_spec_row" where
  "new_spec_row digest dump i now who node desired_version upgrade_channel =
     (let config = JObj [(''node_name'', JStr (n_node_name node)), (''trust_tier'', JStr (n_trust_tier node)),
                         (''labels'', n_labels node)] in
      \<lparr>sp_id = i, sp_owner_subject = who, sp_node_id = n_id node, sp_config = config,
       sp_desired_version = desired_version, sp_upgrade_channel = upgrade_channel, sp_drain_state = ''active'',
       sp_health_summary = [], sp_config_hash = config_hash digest dump config, sp_last_reconcile_at = now,
       sp_created_at = now, sp_updated_at = now\<rparr>)"

definition ensure_node_spec ::
  "(str \<Rightarrow> str) \<Rightarrow> (json \<Rightarrow> str) \<Rightarrow> time \<Rightarrow> str \<Rightarrow> node_row \<Rightarrow> str \<Rightarrow> str \<Rightarrow> tower \<Rightarrow> tower \<times> node_spec_row" where
  "ensure_node_spec digest dump now who node desired_version upgrade_channel s =
     (case fetch_optional (owned_row sp_node_id sp_owner_subject (n_id node) who) (tw_specs s) of
        Some row \<Rightarrow> (s, row)
      | None \<Rightarrow>
          let row = new_spec_row digest dump (tw_spec_seq s) now who node desired_version upgrade_channel in
          (s\<lparr>tw_specs := insert_row row (tw_specs s), tw_spec_seq := Suc (tw_spec_seq s)\<rparr>, row))"

section \<open>Registration\<close>

record node_register =
  nr_node_name :: str
  nr_hostname :: str
  nr_trust_tier :: str
  nr_labels :: json
  nr_capacity :: json
  nr_capabilities :: "str list"
  nr_runtime_version :: str
  nr_bootstrap_token :: str
  nr_tailscale_ip :: "str option"
  nr_tailscale_fqdn :: "str option"

text \<open>str::get(..n): the first n bytes of the UTF-8 text, if they end between two characters.\<close>

fun byte_prefix :: "nat \<Rightarrow> str \<Rightarrow> str option" where
  "byte_prefix 0 s = Some []"
| "byte_prefix (Suc n) [] = None"
| "byte_prefix (Suc n) (c # cs) =
     (if (of_char c :: nat) < 128 then map_option ((#) c) (byte_prefix n cs)
      else case n of 0 \<Rightarrow> None | Suc m \<Rightarrow> map_option ((#) c) (byte_prefix m cs))"

definition token_prefix :: "str \<Rightarrow> str" where
  "token_prefix s = (case byte_prefix 8 s of Some q \<Rightarrow> q | None \<Rightarrow> s)"

definition register_check :: "(str \<Rightarrow> str) \<Rightarrow> time \<Rightarrow> tower \<Rightarrow> node_register \<Rightarrow> (str \<times> str) res" where
  "register_check digest now s body =
     (if \<not> tw_up s then Inl internal_error
      else case fetch_optional (\<lambda>r. tand (tbool (jt_token_hash r = digest (nr_bootstrap_token body)))
                                      (tbool (jt_status r = ''active''))) (tw_join_tokens s) of
        None \<Rightarrow> Inl (deny 401 ''Invalid bootstrap token'')
      | Some r \<Rightarrow>
          if (case jt_expires_at r of Some e \<Rightarrow> e < now | None \<Rightarrow> False) then Inl (deny 401 ''Bootstrap token expired'')
          else if jt_used_at r \<noteq> None then Inl (deny 401 ''Bootstrap token already used'')
          else if exists_where (by_key n_node_name (nr_node_name body)) (tw_nodes s)
          then Inl (conflict ''node_name already in use'')
          else Inr (jt_id r, jt_owner_subject r))"

definition new_node_row :: "time \<Rightarrow> str \<Rightarrow> str \<Rightarrow> str \<Rightarrow> node_register \<Rightarrow> node_row" where
  "new_node_row now node_id attach_secret who body =
     \<lparr>n_id = node_id, n_owner_subject = who, n_node_name = nr_node_name body, n_hostname = nr_hostname body,
      n_status = ''registered'', n_trust_tier = nr_trust_tier body, n_labels = nr_labels body,
      n_capacity = nr_capacity body, n_capabilities = nr_capabilities body,
      n_runtime_version = nr_runtime_version body,
      n_bootstrap_token_prefix = token_prefix (nr_bootstrap_token body),
      n_tailscale_ip = nr_tailscale_ip body, n_tailscale_fqdn = nr_tailscale_fqdn body,
      n_attach_secret = Some attach_secret, n_last_heartbeat_at = None, n_registered_at = now, n_updated_at = now\<rparr>"

definition use_token :: "time \<Rightarrow> str \<Rightarrow> join_token_row \<Rightarrow> join_token_row" where
  "use_token now node_id r =
     r\<lparr>jt_used_at := Some now, jt_status := ''used'', jt_node_id := Some node_id, jt_updated_at := now\<rparr>"

text \<open>INSERT INTO nodetoken: the table has jti as its key and a foreign key to the node.\<close>

definition insert_node_token :: "str \<Rightarrow> str \<Rightarrow> time \<Rightarrow> tower \<Rightarrow> tower" where
  "insert_node_token jti node_id now s =
     (if lookup n_id node_id (tw_nodes s) = None \<or> lookup jr_jti jti (node_tokens (tw_app s)) \<noteq> None then s
      else s\<lparr>tw_app := (tw_app s)\<lparr>node_tokens := insert_row
             \<lparr>jr_jti = jti, jr_subject_id = node_id, jr_revoked = False,
              jr_expires_at = now + secs (NODE_JWT_TTL_DAYS * 86400)\<rparr> (node_tokens (tw_app s))\<rparr>\<rparr>)"

definition register_write ::
  "(str \<Rightarrow> str) \<Rightarrow> (json \<Rightarrow> str) \<Rightarrow> (payload \<Rightarrow> str option) \<Rightarrow> time \<Rightarrow> int \<Rightarrow> str \<Rightarrow> str \<Rightarrow> str \<Rightarrow>
     tower \<Rightarrow> node_register \<Rightarrow> str \<Rightarrow> str \<Rightarrow> tower \<times> json res" where
  "register_write digest dump jwt_encode now iat node_id attach_secret jti s body token_id who =
     (if \<not> tw_up s \<or> lookup n_id node_id (tw_nodes s) \<noteq> None
         \<or> exists_where (by_key n_node_name (nr_node_name body)) (tw_nodes s)
      then (s, Inl internal_error)
      else
        let node = new_node_row now node_id attach_secret who body;
            s1 = s\<lparr>tw_nodes := insert_row node (tw_nodes s)\<rparr>;
            s2 = s1\<lparr>tw_join_tokens := update_where (by_key jt_id token_id) (use_token now node_id) (tw_join_tokens s1)\<rparr>;
            s3 = log_event node_id None ''node.registered''
                   (JObj [(''node_id'', JStr node_id), (''node_name'', JStr (nr_node_name body))]) now s2;
            s4 = fst (ensure_node_spec digest dump now who node [] ''stable'' s3) in
        (case sign_node_jwt jwt_encode iat jti node_id NODE_JWT_TTL_DAYS of
           None \<Rightarrow> (s4, Inl internal_error)
         | Some (node_jwt, j) \<Rightarrow>
             (insert_node_token j node_id now s4,
              Inr (jset ''node_jwt'' (JStr node_jwt)
                    (jset ''attach_secret'' (JStr attach_secret) (row_to_node node))))))"

definition register_node ::
  "(str \<Rightarrow> str) \<Rightarrow> (json \<Rightarrow> str) \<Rightarrow> (payload \<Rightarrow> str option) \<Rightarrow> time \<Rightarrow> int \<Rightarrow> str \<Rightarrow> str \<Rightarrow> str \<Rightarrow>
     tower \<Rightarrow> node_register \<Rightarrow> tower \<times> json res" where
  "register_node digest dump jwt_encode now iat node_id attach_secret jti s body =
     (case register_check digest now s body of
        Inl e \<Rightarrow> (s, Inl e)
      | Inr (token_id, who) \<Rightarrow>
          register_write digest dump jwt_encode now iat node_id attach_secret jti s body token_id who)"

section \<open>A node's token\<close>

definition node_of :: "tower \<Rightarrow> str \<Rightarrow> node_row option" where
  "node_of s node_id = lookup n_id node_id (tw_nodes s)"

definition owned_node :: "tower \<Rightarrow> str \<Rightarrow> str \<Rightarrow> node_row option" where
  "owned_node s node_id who = fetch_optional (owned_row n_id n_owner_subject node_id who) (tw_nodes s)"

definition may_rotate :: "tower \<Rightarrow> principal \<Rightarrow> str \<Rightarrow> bool" where
  "may_rotate s p node_id =
     (if is_admin p then True
      else if auth_type p = ''node'' then subject p = ''node:'' @ node_id
      else tw_up s \<and> owned_node s node_id (subject p) \<noteq> None)"

definition revoke_node_fence :: "str \<Rightarrow> jwt_row \<Rightarrow> tri" where
  "revoke_node_fence node_id r = tand (tbool (jr_subject_id r = node_id)) (tbool (\<not> jr_revoked r))"

definition revoke_node_tokens :: "str \<Rightarrow> tower \<Rightarrow> tower" where
  "revoke_node_tokens node_id s = s\<lparr>tw_app := (tw_app s)\<lparr>node_tokens :=
     update_where (revoke_node_fence node_id) (\<lambda>r. r\<lparr>jr_revoked := True\<rparr>) (node_tokens (tw_app s))\<rparr>\<rparr>"

definition rotate_node_token ::
  "(payload \<Rightarrow> str option) \<Rightarrow> time \<Rightarrow> int \<Rightarrow> str \<Rightarrow> tower \<Rightarrow> principal \<Rightarrow> str \<Rightarrow> tower \<times> json res" where
  "rotate_node_token jwt_encode now iat jti s p node_id =
     (if \<not> may_rotate s p node_id then (s, Inl (forbidden ''not authorized to rotate this node's token''))
      else
        let s1 = (if tw_up s then revoke_node_tokens node_id s else s) in
        (case sign_node_jwt jwt_encode iat jti node_id NODE_JWT_TTL_DAYS of
           None \<Rightarrow> (s1, Inl internal_error)
         | Some (node_jwt, j) \<Rightarrow>
             (if tw_up s then insert_node_token j node_id now s1 else s1,
              Inr (JObj [(''node_jwt'', JStr node_jwt)]))))"

section \<open>Listing and heartbeats\<close>

text \<open>ORDER BY ... DESC LIMIT n: rows of equal keys in any order, here that of the table; a negative
  limit is an error of the database.\<close>

definition page_desc :: "('r \<Rightarrow> int) \<Rightarrow> int option \<Rightarrow> 'r list \<Rightarrow> 'r list res" where
  "page_desc key lim rows =
     (let n = min (case lim of Some k \<Rightarrow> k | None \<Rightarrow> 100) 500 in
      if n < 0 then Inl internal_error else Inr (take (nat n) (sort_key (\<lambda>r. - key r) rows)))"

definition list_nodes :: "tower \<Rightarrow> principal \<Rightarrow> str option \<Rightarrow> int option \<Rightarrow> tower \<times> json res" where
  "list_nodes s p status lim =
     (if \<not> tw_up s then (s, Inl internal_error)
      else (s, and_then (page_desc n_registered_at lim (select_where (\<lambda>r.
            tand (tbool (n_owner_subject r = subject p))
              (case status of Some st \<Rightarrow> tbool (n_status r = st) | None \<Rightarrow> tbool True)) (tw_nodes s)))
          (\<lambda>rows. Inr (JList (map row_to_node rows)))))"

record node_heartbeat =
  nh_status :: str
  nh_labels :: "json option"
  nh_capacity :: "json option"
  nh_capabilities :: "str list option"
  nh_runtime_version :: "str option"
  nh_tailscale_ip :: "str option"
  nh_tailscale_fqdn :: "str option"

definition opt_or :: "'a \<Rightarrow> 'a option \<Rightarrow> 'a" where
  "opt_or d x = (case x of Some v \<Rightarrow> v | None \<Rightarrow> d)"

text \<open>The printed labels and capacity are never the empty text, so the CASE always takes the new value.\<close>

definition node_heartbeat_update :: "time \<Rightarrow> node_heartbeat \<Rightarrow> node_row \<Rightarrow> node_row" where
  "node_heartbeat_update now body r =
     r\<lparr>n_status := nh_status body, n_last_heartbeat_at := Some now, n_updated_at := now,
       n_labels := opt_or (JObj []) (nh_labels body),
       n_capacity := opt_or (JObj []) (nh_capacity body),
       n_capabilities := (let cs = opt_or [] (nh_capabilities body) in if cs = [] then n_capabilities r else cs),
       n_runtime_version := (let v = opt_or [] (nh_runtime_version body) in if v = [] then n_runtime_version r else v),
       n_tailscale_ip := coalesce (nh_tailscale_ip body) (n_tailscale_ip r),
       n_tailscale_fqdn := coalesce (nh_tailscale_fqdn body) (n_tailscale_fqdn r)\<rparr>"

definition heartbeat_node ::
  "time \<Rightarrow> tower \<Rightarrow> principal \<Rightarrow> str \<Rightarrow> node_heartbeat \<Rightarrow> tower \<times> json res" where
  "heartbeat_node now s p node_id body =
     (if \<not> tw_up s then (s, Inl internal_error)
      else if owned_node s node_id (subject p) = None then (s, Inl (not_found ''node not found''))
      else case update_returning (by_key n_id node_id) (node_heartbeat_update now body) (tw_nodes s) of
        (ns, None) \<Rightarrow> (s, Inl internal_error)
      | (ns, Some row) \<Rightarrow>
          (log_event node_id None ''node.heartbeat'' (JObj [(''status'', JStr (nh_status body))]) now (s\<lparr>tw_nodes := ns\<rparr>),
           Inr (row_to_node row)))"

section \<open>Configuration and specification\<close>

definition with_spec ::
  "(str \<Rightarrow> str) \<Rightarrow> (json \<Rightarrow> str) \<Rightarrow> time \<Rightarrow> tower \<Rightarrow> str \<Rightarrow> str \<Rightarrow>
     (tower \<Rightarrow> node_row \<Rightarrow> node_spec_row \<Rightarrow> tower \<times> json res) \<Rightarrow> tower \<times> json res" where
  "with_spec digest dump now s who node_id k =
     (if \<not> tw_up s then (s, Inl internal_error)
      else case owned_node s node_id who of
        None \<Rightarrow> (s, Inl (not_found ''node not found''))
      | Some node \<Rightarrow> (case ensure_node_spec digest dump now who node [] ''stable'' s of (s1, spec) \<Rightarrow> k s1 node spec))"

definition or_insert :: "str \<Rightarrow> json \<Rightarrow> json \<Rightarrow> json" where
  "or_insert k v j = (case j of JObj fs \<Rightarrow> if map_of fs k = None then JObj (fs @ [(k, v)]) else j | _ \<Rightarrow> j)"

definition get_node_config ::
  "(str \<Rightarrow> str) \<Rightarrow> (json \<Rightarrow> str) \<Rightarrow> time \<Rightarrow> tower \<Rightarrow> principal \<Rightarrow> str \<Rightarrow> tower \<times> json res" where
  "get_node_config digest dump now s p node_id =
     with_spec digest dump now s (subject p) node_id (\<lambda>s1 node spec.
       let config = fold (\<lambda>(k, v). or_insert k v)
             [(''node_name'', JStr (n_node_name node)), (''hostname'', JStr (n_hostname node)),
              (''trust_tier'', JStr (n_trust_tier node)), (''labels'', n_labels node),
              (''capabilities'', strs (n_capabilities node)),
              (''upgrade_channel'', JStr (sp_upgrade_channel spec)),
              (''desired_version'', JStr (sp_desired_version spec))] (sp_config spec) in
       (s1, Inr (JObj [(''node_id'', JStr node_id), (''config'', config), (''spec'', row_to_spec spec)])))"

definition drain_update :: "str \<Rightarrow> time \<Rightarrow> node_spec_row \<Rightarrow> node_spec_row" where
  "drain_update drain_state now r = r\<lparr>sp_drain_state := drain_state, sp_updated_at := now\<rparr>"

definition spec_answer :: "nat \<Rightarrow> tower \<Rightarrow> json res" where
  "spec_answer i s = (case lookup sp_id i (tw_specs s) of
     Some row \<Rightarrow> Inr (JObj [(''spec'', row_to_spec row)]) | None \<Rightarrow> Inl internal_error)"

definition mutate_node_spec_state ::
  "(str \<Rightarrow> str) \<Rightarrow> (json \<Rightarrow> str) \<Rightarrow> time \<Rightarrow> tower \<Rightarrow> str \<Rightarrow> str \<Rightarrow> str \<Rightarrow> tower \<times> json res" where
  "mutate_node_spec_state digest dump now s node_id who drain_state =
     with_spec digest dump now s who node_id (\<lambda>s1 node spec.
       let s2 = s1\<lparr>tw_specs := update_where (by_key sp_id (sp_id spec)) (drain_update drain_state now) (tw_specs s1)\<rparr>;
           s3 = log_event node_id None (''node.spec.'' @ drain_state)
                  (JObj [(''drain_state'', JStr drain_state)]) now s2 in
       (s3, spec_answer (sp_id spec) s3))"

definition cordon_node ::
  "(str \<Rightarrow> str) \<Rightarrow> (json \<Rightarrow> str) \<Rightarrow> time \<Rightarrow> tower \<Rightarrow> principal \<Rightarrow> str \<Rightarrow> tower \<times> json res" where
  "cordon_node digest dump now s p node_id = mutate_node_spec_state digest dump now s node_id (subject p) ''cordoned''"

definition drain_node ::
  "(str \<Rightarrow> str) \<Rightarrow> (json \<Rightarrow> str) \<Rightarrow> time \<Rightarrow> tower \<Rightarrow> principal \<Rightarrow> str \<Rightarrow> tower \<times> json res" where
  "drain_node digest dump now s p node_id = mutate_node_spec_state digest dump now s node_id (subject p) ''draining''"

definition upgrade_node ::
  "(str \<Rightarrow> str) \<Rightarrow> (json \<Rightarrow> str) \<Rightarrow> time \<Rightarrow> tower \<Rightarrow> principal \<Rightarrow> str \<Rightarrow> tower \<times> json res" where
  "upgrade_node digest dump now s p node_id = mutate_node_spec_state digest dump now s node_id (subject p) ''upgrading''"

record node_reconcile =
  rc_drain_state :: "str option"
  rc_desired_version :: "str option"
  rc_health_summary :: "str option"

definition reconcile_update :: "node_reconcile \<Rightarrow> time \<Rightarrow> node_spec_row \<Rightarrow> node_spec_row" where
  "reconcile_update body now r =
     r\<lparr>sp_last_reconcile_at := now, sp_updated_at := now,
       sp_drain_state := opt_or (sp_drain_state r) (rc_drain_state body),
       sp_desired_version := opt_or (sp_desired_version r) (rc_desired_version body),
       sp_health_summary := opt_or (sp_health_summary r) (rc_health_summary body)\<rparr>"

definition reconcile_node ::
  "(str \<Rightarrow> str) \<Rightarrow> (json \<Rightarrow> str) \<Rightarrow> time \<Rightarrow> tower \<Rightarrow> principal \<Rightarrow> str \<Rightarrow> node_reconcile \<Rightarrow> tower \<times> json res" where
  "reconcile_node digest dump now s p node_id body =
     with_spec digest dump now s (subject p) node_id (\<lambda>s1 node spec.
       case update_returning (by_key sp_id (sp_id spec)) (reconcile_update body now) (tw_specs s1) of
         (ss, None) \<Rightarrow> (s1, Inl internal_error)
       | (ss, Some row) \<Rightarrow>
           (log_event node_id None ''node.spec.reconcile'' (JObj [(''node_id'', JStr node_id)]) now (s1\<lparr>tw_specs := ss\<rparr>),
            Inr (JObj [(''spec'', row_to_spec row)])))"

section \<open>Ownership and deletion\<close>

definition is_authorized_for_node :: "principal \<Rightarrow> str \<Rightarrow> str \<Rightarrow> bool" where
  "is_authorized_for_node p node_id owner_subject =
     (if is_admin p then True
      else if auth_type p = ''node'' then subject p = ''node:'' @ node_id
      else subject p = owner_subject)"

definition require_node_owner :: "tower \<Rightarrow> principal \<Rightarrow> str \<Rightarrow> str res" where
  "require_node_owner s p node_id =
     (if \<not> tw_up s then Inl internal_error
      else case node_of s node_id of
        None \<Rightarrow> Inl (not_found ''Node not found'')
      | Some r \<Rightarrow> if n_owner_subject r \<noteq> subject p \<and> \<not> is_admin p then Inl (forbidden []) else Inr (n_owner_subject r))"

definition get_node_attach_secret :: "tower \<Rightarrow> principal \<Rightarrow> str \<Rightarrow> tower \<times> json res" where
  "get_node_attach_secret s p node_id =
     (s, and_then (require_node_owner s p node_id) (\<lambda>_.
       case (case node_of s node_id of Some r \<Rightarrow> n_attach_secret r | None \<Rightarrow> None) of
         Some secret \<Rightarrow>
           if secret \<noteq> [] then Inr (JObj [(''node_id'', JStr node_id), (''attach_secret'', JStr secret)])
           else Inl (not_found ''node has no attach_secret'')
       | None \<Rightarrow> Inl (not_found ''node has no attach_secret'')))"

definition on_node :: "str \<Rightarrow> mesh_agent_row \<Rightarrow> tri" where
  "on_node node_id a = tor (teq (a_runtime_node_id a) (Some node_id)) (teq (a_node_id a) (Some node_id))"

definition detach :: "time \<Rightarrow> mesh_agent_row \<Rightarrow> mesh_agent_row" where
  "detach now a = a\<lparr>a_runtime_node_id := None, a_node_id := None, a_status := ''offline'',
     a_last_heartbeat_at := Some now\<rparr>"

definition delete_check :: "(nat \<Rightarrow> str) \<Rightarrow> tower \<Rightarrow> principal \<Rightarrow> str \<Rightarrow> bool \<Rightarrow> nat res" where
  "delete_check show_nat s p node_id force =
     (if \<not> tw_up s then Inl internal_error
      else case node_of s node_id of
        None \<Rightarrow> Inl (not_found ''node not found'')
      | Some r \<Rightarrow>
          if \<not> (is_admin p \<or> subject p = n_owner_subject r) then Inl (forbidden ''node does not belong to you'')
          else let agent_count = length (select_where (on_node node_id) (mesh_agents (tw_db s))) in
            if agent_count > 0 \<and> \<not> force then
              Inl (conflict (''node has '' @ show_nat agent_count @ '' assigned agent'' @
                (if agent_count = 1 then '''' else ''s'') @ ''; pass ?force=true to detach and delete''))
            else Inr agent_count)"

text \<open>The transaction. meshagent.runtime_node_id references the node, so an agent assigned since the count
  makes the deletion of the node fail and the transaction roll back; nodetoken rows cascade.\<close>

definition delete_tx :: "time \<Rightarrow> tower \<Rightarrow> str \<Rightarrow> nat \<Rightarrow> tower \<times> json res" where
  "delete_tx now s node_id agent_count =
     (if \<not> tw_up s then (s, Inl internal_error)
      else
        let d = tw_db s;
            agents = (if agent_count > 0 then update_where (on_node node_id) (detach now) (mesh_agents d)
                      else mesh_agents d);
            revoked = length (select_where (revoke_node_fence node_id) (node_tokens (tw_app s)));
            tokens = update_where (revoke_node_fence node_id) (\<lambda>r. r\<lparr>jr_revoked := True\<rparr>) (node_tokens (tw_app s)) in
        if exists_where (\<lambda>a. teq (a_runtime_node_id a) (Some node_id)) agents then (s, Inl internal_error)
        else
          let s1 = set_db (d\<lparr>mesh_agents := agents\<rparr>) s;
              s2 = s1\<lparr>tw_app := (tw_app s1)\<lparr>node_tokens := delete_where (by_key jr_subject_id node_id) tokens\<rparr>,
                      tw_join_tokens := update_where
                        (\<lambda>t. tand (teq (jt_node_id t) (Some node_id)) (tbool (jt_status t \<noteq> ''revoked'')))
                        (\<lambda>t. t\<lparr>jt_status := ''revoked'', jt_updated_at := now\<rparr>) (tw_join_tokens s),
                      tw_specs := delete_where (by_key sp_node_id node_id) (tw_specs s),
                      tw_nodes := delete_where (by_key n_id node_id) (tw_nodes s)\<rparr> in
          (if agent_count > 0 then invalidate_scope node_id s2 else s2,
           Inr (JObj [(''deleted'', JBool True), (''node_id'', JStr node_id),
                      (''detached_agents'', JNum (int agent_count)), (''revoked_tokens'', JNum (int revoked))])))"

definition delete_node ::
  "(nat \<Rightarrow> str) \<Rightarrow> time \<Rightarrow> tower \<Rightarrow> principal \<Rightarrow> str \<Rightarrow> bool \<Rightarrow> tower \<times> json res" where
  "delete_node show_nat now s p node_id force =
     (case delete_check show_nat s p node_id force of
        Inl e \<Rightarrow> (s, Inl e)
      | Inr agent_count \<Rightarrow> delete_tx now s node_id agent_count)"

end
