(* ===== verification/Node_Properties.thy ===== *)
theory Node_Properties
  imports Runtime_Nodes
begin

text \<open>
  Properties of the node side: what registration needs and gives, the race on a join token, what rotation
  and deletion of a node do to its credentials, and what a heartbeat writes. The JWT library is a pair of
  an encoder and a decoder, where the decoder reads back what the encoder wrote, and a token has the two dots
  of a compact JWT.
\<close>

section \<open>Tokens in the authenticator\<close>

definition compact_jwt :: "str \<Rightarrow> bool" where
  "compact_jwt token = (length (filter (\<lambda>c. c = CHR ''.'') token) = 2)"

definition node_principal :: "str \<Rightarrow> str list \<Rightarrow> principal" where
  "node_principal node_id scope = \<lparr>subject = ''node:'' @ node_id, is_admin = False, session_id = None,
     auth_type = ''node'', domain_scope = scope\<rparr>"

definition claims_for_node :: "str \<Rightarrow> str \<Rightarrow> int \<Rightarrow> node_claims" where
  "claims_for_node node_id jti iat = \<lparr>nc_sub = ''node:'' @ node_id, nc_node_id = node_id, nc_jti = jti,
     nc_iat = iat, nc_exp = iat + NODE_JWT_TTL_DAYS * 86400\<rparr>"

lemma node_token_principal:
  assumes "jd token = Some (node_payload c)" "compact_jwt token" "db_up (app_db st)"
    "jwt_row_live (node_tokens st) (nc_jti c) now"
  shows "snd (principal_of_token jd dg st now inst token) =
           Inr \<lparr>subject = nc_sub c, is_admin = False, session_id = None, auth_type = ''node'',
                domain_scope = snd (resolve_node_domain_scope st inst (nc_node_id c))\<rparr>"
  using assms by (simp add: principal_of_token_def compact_jwt_def jwt_principal_def verify_node_jwt_def
      split: prod.splits)

lemma node_token_refused:
  assumes "jd token = Some (node_payload c)" "compact_jwt token"
    "\<not> jwt_row_live (node_tokens st) (nc_jti c) now"
  shows "principal_of_token jd dg st now inst token = (st, Inl unauthenticated)"
  using assms by (simp add: principal_of_token_def compact_jwt_def jwt_principal_def verify_node_jwt_def
      agent_jwt_principal_def verify_agent_jwt_def node_claims_not_agent_claims [OF read_node_claims_payload])

lemma sign_node_exact:
  "sign_node_jwt enc iat jti node_id ttl = Some (token, j) \<longleftrightarrow>
     j = jti \<and> enc (node_payload \<lparr>nc_sub = ''node:'' @ node_id, nc_node_id = node_id, nc_jti = jti,
       nc_iat = iat, nc_exp = iat + ttl * 86400\<rparr>) = Some token"
  by (auto simp: sign_node_jwt_def)

lemma fetch_insert_new:
  "fetch_optional c (insert_row r t) =
     (case fetch_optional c t of Some q \<Rightarrow> Some q | None \<Rightarrow> if holds (c r) then Some r else None)"
  by (induction t) (auto simp: fetch_optional_def insert_row_def)

lemma fetch_None: "fetch_optional c t = None \<longleftrightarrow> (\<forall>r\<in>set t. \<not> holds (c r))"
  by (auto simp: fetch_optional_def find_None_iff)

lemma fetch_SomeD: "fetch_optional c t = Some r \<Longrightarrow> r \<in> set t \<and> holds (c r)"
  unfolding fetch_optional_def by (rule find_SomeD)

lemma jwt_live_insert:
  assumes "lookup jr_jti (jr_jti r) t = None"
  shows "jwt_row_live (insert_row r t) (jr_jti r) now \<longleftrightarrow> jr_expires_at r > now \<and> \<not> jr_revoked r"
proof -
  have "fetch_optional (\<lambda>q. tand (tbool (jr_jti q = jr_jti r)) (tbool (jr_expires_at q > now))) t = None"
    using assms by (auto simp: fetch_None lookup_None) (metis image_eqI)
  then show ?thesis by (simp add: jwt_row_live_def fetch_insert_new)
qed

lemma jwt_live_insert_other:
  assumes "jr_jti r \<noteq> jti"
  shows "jwt_row_live (insert_row r t) jti now = jwt_row_live t jti now"
  using assms by (auto simp: jwt_row_live_def fetch_insert_new split: option.splits)

lemma ensure_node_spec_frame:
  "tw_app (fst (ensure_node_spec dg dump now who node dv uc s)) = tw_app s"
  "tw_nodes (fst (ensure_node_spec dg dump now who node dv uc s)) = tw_nodes s"
  "tw_join_tokens (fst (ensure_node_spec dg dump now who node dv uc s)) = tw_join_tokens s"
  "tw_jobs (fst (ensure_node_spec dg dump now who node dv uc s)) = tw_jobs s"
  "tw_leases (fst (ensure_node_spec dg dump now who node dv uc s)) = tw_leases s"
  "tw_exec_sessions (fst (ensure_node_spec dg dump now who node dv uc s)) = tw_exec_sessions s"
  by (simp_all add: ensure_node_spec_def Let_def split: option.splits)

lemma insert_node_token_frame [simp]:
  "tw_nodes (insert_node_token j n now s) = tw_nodes s"
  "tw_join_tokens (insert_node_token j n now s) = tw_join_tokens s"
  "tw_specs (insert_node_token j n now s) = tw_specs s"
  "tw_jobs (insert_node_token j n now s) = tw_jobs s"
  "tw_leases (insert_node_token j n now s) = tw_leases s"
  "tw_exec_sessions (insert_node_token j n now s) = tw_exec_sessions s"
  "app_db (tw_app (insert_node_token j n now s)) = app_db (tw_app s)"
  "agent_tokens (tw_app (insert_node_token j n now s)) = agent_tokens (tw_app s)"
  by (simp_all add: insert_node_token_def)

section \<open>Registration\<close>

definition active_token :: "(str \<Rightarrow> str) \<Rightarrow> tower \<Rightarrow> str \<Rightarrow> join_token_row option" where
  "active_token dg s bootstrap = fetch_optional (\<lambda>r. tand (tbool (jt_token_hash r = dg bootstrap))
     (tbool (jt_status r = ''active''))) (tw_join_tokens s)"

lemma register_check_iff:
  "register_check dg now s body = Inr (tid, who) \<longleftrightarrow> tw_up s \<and>
     (\<exists>r. active_token dg s (nr_bootstrap_token body) = Some r \<and> jt_used_at r = None \<and>
        (\<forall>e. jt_expires_at r = Some e \<longrightarrow> now \<le> e) \<and> tid = jt_id r \<and> who = jt_owner_subject r) \<and>
     (\<forall>n\<in>set (tw_nodes s). n_node_name n \<noteq> nr_node_name body)"
  unfolding register_check_def active_token_def [symmetric]
  by (cases "active_token dg s (nr_bootstrap_token body)")
    (auto simp: exists_where_def list_ex_iff not_less split: option.splits)

lemma active_tokenD:
  "active_token dg s b = Some r \<Longrightarrow> r \<in> set (tw_join_tokens s) \<and> jt_token_hash r = dg b \<and> jt_status r = ''active''"
  by (auto simp: active_token_def dest: fetch_SomeD)

lemma register_write_ok:
  assumes "register_write dg dump enc now iat nid sec jti s body tid who = (s', Inr resp)"
  shows "tw_nodes s' = insert_row (new_node_row now nid sec who body) (tw_nodes s) \<and> node_of s nid = None
       \<and> tw_join_tokens s' = update_where (by_key jt_id tid) (use_token now nid) (tw_join_tokens s)
       \<and> tw_app s' = (tw_app s)\<lparr>node_tokens :=
            (if lookup jr_jti jti (node_tokens (tw_app s)) \<noteq> None then node_tokens (tw_app s)
             else insert_row \<lparr>jr_jti = jti, jr_subject_id = nid, jr_revoked = False,
                    jr_expires_at = now + secs 86400\<rparr> (node_tokens (tw_app s)))\<rparr>
       \<and> (\<exists>token. enc (node_payload (claims_for_node nid jti iat)) = Some token
            \<and> jget ''node_jwt'' resp = Some (JStr token))"
proof -
  have g: "tw_up s" "lookup n_id nid (tw_nodes s) = None"
    "\<not> exists_where (by_key n_node_name (nr_node_name body)) (tw_nodes s)"
    using assms by (auto simp: register_write_def split: if_splits)
  have sign: "sign_node_jwt enc iat jti nid NODE_JWT_TTL_DAYS =
      map_option (\<lambda>t. (t, jti)) (enc (node_payload (claims_for_node nid jti iat)))"
    by (simp add: sign_node_jwt_def claims_for_node_def)
  show ?thesis
  proof (cases "enc (node_payload (claims_for_node nid jti iat))")
    case None
    then show ?thesis using assms g sign by (simp add: register_write_def Let_def)
  next
    case (Some token)
    let ?node = "new_node_row now nid sec who body"
    define s1 where "s1 = s\<lparr>tw_nodes := insert_row ?node (tw_nodes s)\<rparr>"
    define s2 where "s2 = s1\<lparr>tw_join_tokens := update_where (by_key jt_id tid) (use_token now nid) (tw_join_tokens s1)\<rparr>"
    define s4 where "s4 = fst (ensure_node_spec dg dump now who ?node [] ''stable'' (log_event nid None ''node.registered''
       (JObj [(''node_id'', JStr nid), (''node_name'', JStr (nr_node_name body))]) now s2))"
    have "register_write dg dump enc now iat nid sec jti s body tid who =
        (insert_node_token jti nid now s4,
         Inr (jset ''node_jwt'' (JStr token) (jset ''attach_secret'' (JStr sec) (row_to_node ?node))))"
      unfolding register_write_def Let_def sign Some s4_def s2_def s1_def
      by (simp only: g simp_thms if_False option.map option.case prod.case)
    then have eq: "s' = insert_node_token jti nid now s4"
      "resp = jset ''node_jwt'' (JStr token) (jset ''attach_secret'' (JStr sec) (row_to_node ?node))"
      unfolding assms prod.inject sum.inject by blast+
    have n: "lookup n_id nid (insert_row ?node (tw_nodes s)) = Some ?node"
      using g(2) by (simp add: lookup_insert_row new_node_row_def)
    have s4: "tw_nodes s4 = insert_row ?node (tw_nodes s)" "tw_app s4 = tw_app s"
      "tw_join_tokens s4 = update_where (by_key jt_id tid) (use_token now nid) (tw_join_tokens s)"
      by (simp_all add: s4_def s2_def s1_def ensure_node_spec_frame)
    show ?thesis
      using g(2) Some n s4
      by (simp add: eq node_of_def insert_node_token_def NODE_JWT_TTL_DAYS_def)
  qed
qed

lemma use_token_key [simp]: "jt_id (use_token now n r) = jt_id r"
  "jt_status (use_token now n r) = ''used''" "jt_token_hash (use_token now n r) = jt_token_hash r"
  "jt_owner_subject (use_token now n r) = jt_owner_subject r"
  by (simp_all add: use_token_def)

lemma used_token_refused:
  assumes "unique_key jt_token_hash (tw_join_tokens s)" "r \<in> set (tw_join_tokens s)"
    "jt_token_hash r = dg (nr_bootstrap_token body)" "tw_up s"
    "tw_join_tokens s' = update_where (by_key jt_id (jt_id r)) (use_token now nid) (tw_join_tokens s)" "tw_up s'"
  shows "register_check dg t s' body = Inl (deny 401 ''Invalid bootstrap token'')"
proof -
  have uniq: "q = r" if "q \<in> set (tw_join_tokens s)" "jt_token_hash q = jt_token_hash r" for q
    using assms(1,2) that unfolding unique_key_def distinct_map inj_on_def by blast
  have "\<not> (jt_token_hash q' = dg (nr_bootstrap_token body) \<and> jt_status q' = ''active'')"
    if q': "q' \<in> set (tw_join_tokens s')" for q'
  proof -
    obtain q where q: "q \<in> set (tw_join_tokens s)"
        "q' = (if jt_id q = jt_id r then use_token now nid q else q)"
      using q' unfolding assms(5) in_update_where holds_by_key by blast
    show ?thesis
    proof (cases "jt_id q = jt_id r")
      case True
      then show ?thesis using q(2) by simp
    next
      case False
      then have "jt_token_hash q \<noteq> jt_token_hash r" using uniq [OF q(1)] by metis
      then show ?thesis using False q(2) assms(3) by simp
    qed
  qed
  then have "fetch_optional (\<lambda>q. tand (tbool (jt_token_hash q = dg (nr_bootstrap_token body)))
      (tbool (jt_status q = ''active''))) (tw_join_tokens s') = None"
    unfolding fetch_None by simp
  then show ?thesis using assms(6) by (simp add: register_check_def)
qed

text \<open>registering a node needs a live join token and spends it. When register_node answers with a node, some
  join token on record had the digest of the presented one, was active, unused and not expired; the one
  new row is the node described, owned by the owner of that token, under an id that was free; that token
  is marked used for the node and no other token changes; the JWT in the answer authenticates as that node for a
  day; and presenting the same bootstrap token again, for whatever node, is answered 401.\<close>

theorem registration_spends_token:
  assumes jwt: "\<And>p t. enc p = Some t \<Longrightarrow> jd t = Some p \<and> compact_jwt t"
    and ok: "register_node dg dump enc now iat nid sec jti s body = (s', Inr resp)"
    and jti: "lookup jr_jti jti (node_tokens (tw_app s)) = None"
    and keys: "unique_key jt_id (tw_join_tokens s)" "unique_key jt_token_hash (tw_join_tokens s)"
  shows "\<exists>r token. r \<in> set (tw_join_tokens s) \<and> jt_token_hash r = dg (nr_bootstrap_token body) \<and>
           jt_status r = ''active'' \<and> jt_used_at r = None \<and> (\<forall>e. jt_expires_at r = Some e \<longrightarrow> now \<le> e)
       \<and> node_of s nid = None
       \<and> tw_nodes s' = insert_row (new_node_row now nid sec (jt_owner_subject r) body) (tw_nodes s)
       \<and> lookup jt_id (jt_id r) (tw_join_tokens s') = Some (use_token now nid r)
       \<and> (\<forall>k. k \<noteq> jt_id r \<longrightarrow> lookup jt_id k (tw_join_tokens s') = lookup jt_id k (tw_join_tokens s))
       \<and> jget ''node_jwt'' resp = Some (JStr token)
       \<and> (\<forall>t i dg'. t < now + secs 86400 \<longrightarrow>
            (\<exists>scope. snd (principal_of_token jd dg' (tw_app s') t i token) = Inr (node_principal nid scope)))
       \<and> (\<forall>t b. nr_bootstrap_token b = nr_bootstrap_token body \<longrightarrow>
            register_check dg t s' b = Inl (deny 401 ''Invalid bootstrap token''))"
proof -
  obtain tid who where c: "register_check dg now s body = Inr (tid, who)"
    and w: "register_write dg dump enc now iat nid sec jti s body tid who = (s', Inr resp)"
    using ok by (auto simp: register_node_def split: sum.splits)
  obtain r where r: "r \<in> set (tw_join_tokens s)" "jt_token_hash r = dg (nr_bootstrap_token body)"
      "jt_status r = ''active''" "jt_used_at r = None" "\<forall>e. jt_expires_at r = Some e \<longrightarrow> now \<le> e"
      "tid = jt_id r" "who = jt_owner_subject r" "tw_up s"
    using c active_tokenD unfolding register_check_iff by blast
  obtain token where e: "enc (node_payload (claims_for_node nid jti iat)) = Some token"
      "jget ''node_jwt'' resp = Some (JStr token)"
    using register_write_ok [OF w] by blast
  note w' = register_write_ok [OF w] and d = jwt [OF e(1)]
  have app: "db_up (app_db (tw_app s'))" using w' r(8) by simp
  have live: "jwt_row_live (node_tokens (tw_app s')) jti t" if "t < now + secs 86400" for t
    using w' jti that jwt_live_insert [of "\<lparr>jr_jti = jti, jr_subject_id = nid, jr_revoked = False,
      jr_expires_at = now + secs 86400\<rparr>" "node_tokens (tw_app s)" t] by simp
  have auth: "\<exists>scope. snd (principal_of_token jd dg' (tw_app s') t i token) = Inr (node_principal nid scope)"
    if "t < now + secs 86400" for t i dg'
    using node_token_principal [of jd token "claims_for_node nid jti iat" "tw_app s'" t dg' i] d app live [OF that]
    by (auto simp: claims_for_node_def node_principal_def)
  have look: "lookup jt_id k (tw_join_tokens s') =
      map_option (\<lambda>q. if jt_id q = tid then use_token now nid q else q) (lookup jt_id k (tw_join_tokens s))" for k
    using w' by (simp add: lookup_update_where)
  have "lookup jt_id (jt_id r) (tw_join_tokens s') = Some (use_token now nid r)"
    using look [of "jt_id r"] lookup_in_unique [OF keys(1) r(1)] r(6) by simp
  moreover have "lookup jt_id k (tw_join_tokens s') = lookup jt_id k (tw_join_tokens s)" if "k \<noteq> jt_id r" for k
    using look [of k] that r(6) by (cases "lookup jt_id k (tw_join_tokens s)") (auto dest: lookup_Some_in)
  moreover have "register_check dg t s' b = Inl (deny 401 ''Invalid bootstrap token'')"
    if "nr_bootstrap_token b = nr_bootstrap_token body" for t b
    using used_token_refused [OF keys(2) r(1), of dg b s' now nid t] r that w' app by simp
  ultimately show ?thesis
    using r w' e(2) auth by (intro exI [of _ r] exI [of _ token]) auto
qed

section \<open>Witness\<close>

definition demo_join_token :: join_token_row where
  "demo_join_token = \<lparr>jt_id = ''jt1'', jt_owner_subject = ''alice'', jt_token_hash = ''boot-secret'',
     jt_config = JObj [], jt_upgrade_channel = ''stable'', jt_desired_version = [], jt_expires_at = Some 1000,
     jt_used_at = None, jt_status = ''active'', jt_rotation_count = 0, jt_node_id = None, jt_created_at = 0, jt_updated_at = 0\<rparr>"

definition demo_tower :: tower where
  "demo_tower = \<lparr>tw_app = demo_app, tw_join_tokens = [demo_join_token], tw_nodes = [], tw_specs = [],
     tw_spec_seq = 0, tw_events = [], tw_jobs = [], tw_leases = [], tw_exec_sessions = [],
     tw_agent_sessions = [], tw_broadcasts = []\<rparr>"

definition demo_register :: "str \<Rightarrow> node_register" where
  "demo_register name = \<lparr>nr_node_name = name, nr_hostname = name, nr_trust_tier = ''untrusted'', nr_labels = JNull,
     nr_capacity = JNull, nr_capabilities = [''shell''], nr_runtime_version = ''1'', nr_bootstrap_token = ''boot-secret'',
     nr_tailscale_ip = None, nr_tailscale_fqdn = None\<rparr>"

text \<open>A JWT library that knows three payloads.\<close>

definition demo_enc :: "payload \<Rightarrow> str option" where
  "demo_enc p = (if p = node_payload (claims_for_node ''n1'' ''j1'' 0) then Some ''a.1.b''
     else if p = node_payload (claims_for_node ''n2'' ''j2'' 0) then Some ''a.2.b''
     else if p = node_payload (claims_for_node ''n1'' ''j0'' 0) then Some ''a.0.b'' else None)"

definition demo_dec :: "str \<Rightarrow> payload option" where
  "demo_dec t = (if t = ''a.1.b'' then Some (node_payload (claims_for_node ''n1'' ''j1'' 0))
     else if t = ''a.2.b'' then Some (node_payload (claims_for_node ''n2'' ''j2'' 0))
     else if t = ''a.0.b'' then Some (node_payload (claims_for_node ''n1'' ''j0'' 0)) else None)"

lemma demo_jwt: "demo_enc p = Some t \<Longrightarrow> demo_dec t = Some p \<and> compact_jwt t"
  by (auto simp: demo_enc_def demo_dec_def compact_jwt_def split: if_splits)

lemma registration_spends_token_witness:
  "\<exists>s' token scope. snd (principal_of_token demo_dec id (tw_app s') 50 0 token) = Inr (node_principal ''n1'' scope)
     \<and> register_check id 60 s' (demo_register ''x'') = Inl (deny 401 ''Invalid bootstrap token'')"
proof -
  let ?run = "register_node id (\<lambda>_. []) demo_enc 5 0 ''n1'' ''s'' ''j1'' demo_tower (demo_register ''n1'')"
  have "case snd ?run of Inr _ \<Rightarrow> True | Inl _ \<Rightarrow> False"
    by code_simp
  then obtain s' resp where run: "?run = (s', Inr resp)"
    by (cases ?run) (auto split: sum.splits)
  have keys: "lookup jr_jti ''j1'' (node_tokens (tw_app demo_tower)) = None"
    "unique_key jt_id (tw_join_tokens demo_tower)" "unique_key jt_token_hash (tw_join_tokens demo_tower)"
    by (simp_all add: demo_tower_def demo_app_def unique_key_def)
  have time: "(50::time) < 5 + secs 86400" by (simp add: secs_def)
  have body: "nr_bootstrap_token (demo_register ''x'') = nr_bootstrap_token (demo_register ''n1'')"
    by (simp add: demo_register_def)
  show ?thesis
    using registration_spends_token [where jd = demo_dec, OF demo_jwt run keys] time body by blast
qed

end
