(* ===== verification/Runtime_Jobs.thy ===== *)
theory Runtime_Jobs
  imports Runtime_Nodes
begin

text \<open>
  The job side of routes/runtime.rs: jobs, the leases that bind a job to a node, and the execution sessions
  of a lease. claim_lease is one UPDATE whose subselect picks the oldest pending lease of the node; run by
  two callers at once, both subselects read before either update: its halves are claim_pick and claim_take.
\<close>

section \<open>Jobs\<close>

record job_create =
  jb_domain_id :: str
  jb_task_id :: "int option"
  jb_runtime_session_id :: str
  jb_runtime_class :: str
  jb_image :: str
  jb_command :: str
  jb_args :: "str list"
  jb_env :: json
  jb_cwd :: str
  jb_mounts :: "json list"
  jb_artifact_rules :: json
  jb_timeout_seconds :: int
  jb_restart_policy :: str
  jb_required_capabilities :: "str list"
  jb_preferred_labels :: json

definition new_job_row :: "time \<Rightarrow> str \<Rightarrow> str \<Rightarrow> job_create \<Rightarrow> job_row" where
  "new_job_row now job_id who body =
     \<lparr>j_id = job_id, j_owner_subject = who, j_domain_id = jb_domain_id body, j_task_id = jb_task_id body,
      j_runtime_session_id = jb_runtime_session_id body, j_runtime_class = jb_runtime_class body,
      j_image = jb_image body, j_command = jb_command body, j_args = jb_args body, j_env = jb_env body,
      j_cwd = jb_cwd body, j_mounts = jb_mounts body, j_artifact_rules = jb_artifact_rules body,
      j_timeout_seconds = jb_timeout_seconds body, j_restart_policy = jb_restart_policy body,
      j_required_capabilities = jb_required_capabilities body, j_preferred_labels = jb_preferred_labels body,
      j_status = ''pending'', j_created_at = now, j_updated_at = now\<rparr>"

definition job_guard :: "db \<Rightarrow> principal \<Rightarrow> str \<Rightarrow> unit res" where
  "job_guard d p domain_id =
     (if domain_id = [] then (if is_admin p then Inr () else Inl (forbidden [])) else authz_domain d p domain_id)"

definition create_job :: "time \<Rightarrow> str \<Rightarrow> tower \<Rightarrow> principal \<Rightarrow> job_create \<Rightarrow> tower \<times> json res" where
  "create_job now job_id s p body =
     (case job_guard (tw_db s) p (jb_domain_id body) of
        Inl e \<Rightarrow> (s, Inl e)
      | Inr _ \<Rightarrow>
          if \<not> tw_up s \<or> lookup j_id job_id (tw_jobs s) \<noteq> None then (s, Inl internal_error)
          else let row = new_job_row now job_id (subject p) body in
            (s\<lparr>tw_jobs := insert_row row (tw_jobs s)\<rparr>, Inr (row_to_job row)))"

definition list_jobs :: "tower \<Rightarrow> principal \<Rightarrow> str option \<Rightarrow> int option \<Rightarrow> tower \<times> json res" where
  "list_jobs s p status lim =
     (if \<not> tw_up s then (s, Inl internal_error)
      else (s, and_then (page_desc j_created_at lim (select_where (\<lambda>r.
            tand (tbool (j_owner_subject r = subject p))
              (case status of Some st \<Rightarrow> tbool (j_status r = st) | None \<Rightarrow> tbool True)) (tw_jobs s)))
          (\<lambda>rows. Inr (JList (map row_to_job rows)))))"

section \<open>Leases\<close>

definition owned_job :: "tower \<Rightarrow> str \<Rightarrow> str \<Rightarrow> job_row option" where
  "owned_job s job_id who = fetch_optional (owned_row j_id j_owner_subject job_id who) (tw_jobs s)"

definition new_lease_row :: "time \<Rightarrow> str \<Rightarrow> str \<Rightarrow> str \<Rightarrow> lease_row" where
  "new_lease_row now lease_id job_id node_id =
     \<lparr>l_id = lease_id, l_job_id = job_id, l_node_id = node_id, l_status = ''pending'', l_claimed_at = now,
      l_heartbeat_at = None, l_started_at = None, l_finished_at = None, l_exit_code = None,
      l_error_message = [], l_cleanup_status = '' '', l_created_at = now, l_updated_at = now\<rparr>"

definition create_lease :: "time \<Rightarrow> str \<Rightarrow> tower \<Rightarrow> principal \<Rightarrow> str \<Rightarrow> json \<Rightarrow> tower \<times> json res" where
  "create_lease now lease_id s p job_id body =
     (if \<not> tw_up s then (s, Inl internal_error)
      else if owned_job s job_id (subject p) = None then (s, Inl (not_found ''job not found''))
      else
        let node_id = opt_or [] (jfield_str ''node_id'' body) in
        if lookup l_id lease_id (tw_leases s) \<noteq> None then (s, Inl internal_error)
        else let row = new_lease_row now lease_id job_id node_id in
          (log_event node_id (Some lease_id) ''lease.created''
             (JObj [(''job_id'', JStr job_id), (''node_id'', JStr node_id)]) now
             (s\<lparr>tw_leases := insert_row row (tw_leases s)\<rparr>),
           Inr (row_to_lease row)))"

text \<open>The subselect of claim_lease: the oldest pending lease of the node (of equal ages, any).\<close>

definition claim_pick :: "tower \<Rightarrow> str \<Rightarrow> str option" where
  "claim_pick s node_id =
     (case sort_key l_created_at (select_where (\<lambda>r. tand (tbool (l_node_id r = node_id))
             (tbool (l_status r = ''pending''))) (tw_leases s)) of
        [] \<Rightarrow> None | r # _ \<Rightarrow> Some (l_id r))"

definition claim_mark :: "time \<Rightarrow> lease_row \<Rightarrow> lease_row" where
  "claim_mark now r = r\<lparr>l_status := ''claimed'', l_claimed_at := now, l_updated_at := now\<rparr>"

definition claim_take :: "time \<Rightarrow> tower \<Rightarrow> str \<Rightarrow> str option \<Rightarrow> tower \<times> json res" where
  "claim_take now s node_id picked =
     (if \<not> tw_up s then (s, Inl internal_error)
      else case update_returning (\<lambda>r. teq (Some (l_id r)) picked) (claim_mark now) (tw_leases s) of
        (ls, None) \<Rightarrow> (s, Inr JNull)
      | (ls, Some row) \<Rightarrow>
          (log_event node_id (Some (l_id row)) ''lease.claimed'' (JObj [(''node_id'', JStr node_id)]) now
             (s\<lparr>tw_leases := ls\<rparr>), Inr (row_to_lease row)))"

definition claim_lease :: "time \<Rightarrow> tower \<Rightarrow> principal \<Rightarrow> str \<Rightarrow> tower \<times> json res" where
  "claim_lease now s p node_id =
     (if \<not> tw_up s then (s, Inl internal_error)
      else if owned_node s node_id (subject p) = None then (s, Inl (not_found ''node not found''))
      else claim_take now s node_id (claim_pick s node_id))"

text \<open>SELECT ... FROM joblease l JOIN runtimejob j ON j.id = l.job_id WHERE l.id = $1 AND j.owner_subject = $2.\<close>

definition owned_lease :: "tower \<Rightarrow> str \<Rightarrow> str \<Rightarrow> lease_row option" where
  "owned_lease s lease_id who =
     map_option fst (find (\<lambda>(l, j). j_id j = l_job_id l \<and> l_id l = lease_id \<and> j_owner_subject j = who)
       (List.product (tw_leases s) (tw_jobs s)))"

definition get_lease :: "tower \<Rightarrow> principal \<Rightarrow> str \<Rightarrow> tower \<times> json res" where
  "get_lease s p lease_id =
     (if \<not> tw_up s then (s, Inl internal_error)
      else case owned_lease s lease_id (subject p) of
        Some row \<Rightarrow> (s, Inr (row_to_lease row))
      | None \<Rightarrow> (s, Inl (not_found ''lease not found'')))"

record lease_status =
  ls_status :: str
  ls_heartbeat_at :: "time option"
  ls_started_at :: "time option"

definition status_update :: "time \<Rightarrow> lease_status \<Rightarrow> lease_row \<Rightarrow> lease_row" where
  "status_update now body r =
     r\<lparr>l_status := ls_status body, l_heartbeat_at := Some (opt_or now (ls_heartbeat_at body)),
       l_started_at := coalesce (ls_started_at body) (l_started_at r), l_updated_at := now\<rparr>"

definition update_lease_status ::
  "time \<Rightarrow> tower \<Rightarrow> principal \<Rightarrow> str \<Rightarrow> lease_status \<Rightarrow> tower \<times> json res" where
  "update_lease_status now s p lease_id body =
     (if \<not> tw_up s then (s, Inl internal_error)
      else if owned_lease s lease_id (subject p) = None then (s, Inl (not_found ''lease not found''))
      else case update_returning (by_key l_id lease_id) (status_update now body) (tw_leases s) of
        (ls, None) \<Rightarrow> (s, Inl internal_error)
      | (ls, Some row) \<Rightarrow>
          (log_event (l_node_id row) (Some lease_id) ''lease.status'' (JObj [(''status'', JStr (ls_status body))]) now
             (s\<lparr>tw_leases := ls\<rparr>), Inr (row_to_lease row)))"

record lease_complete =
  lc_exit_code :: int
  lc_error_message :: str

definition exit_status :: "int \<Rightarrow> str" where
  "exit_status exit_code = (if exit_code = 0 then ''completed'' else ''failed'')"

definition complete_lease_update :: "time \<Rightarrow> lease_complete \<Rightarrow> lease_row \<Rightarrow> lease_row" where
  "complete_lease_update now body r =
     r\<lparr>l_status := exit_status (lc_exit_code body), l_exit_code := Some (lc_exit_code body),
       l_error_message := lc_error_message body, l_finished_at := Some now, l_updated_at := now\<rparr>"

definition complete_lease ::
  "time \<Rightarrow> tower \<Rightarrow> principal \<Rightarrow> str \<Rightarrow> lease_complete \<Rightarrow> tower \<times> json res" where
  "complete_lease now s p lease_id body =
     (if \<not> tw_up s then (s, Inl internal_error)
      else if owned_lease s lease_id (subject p) = None then (s, Inl (not_found ''lease not found''))
      else case update_returning (by_key l_id lease_id) (complete_lease_update now body) (tw_leases s) of
        (ls, None) \<Rightarrow> (s, Inl internal_error)
      | (ls, Some row) \<Rightarrow>
          (log_event (l_node_id row) (Some lease_id) ''lease.complete''
             (JObj [(''exit_code'', JNum (lc_exit_code body)), (''error_message'', JStr (lc_error_message body))]) now
             (s\<lparr>tw_leases := ls,
                tw_jobs := update_where (by_key j_id (l_job_id row))
                  (\<lambda>j. j\<lparr>j_status := exit_status (lc_exit_code body), j_updated_at := now\<rparr>) (tw_jobs s)\<rparr>),
           Inr (row_to_lease row)))"

definition append_lease_logs :: "time \<Rightarrow> tower \<Rightarrow> principal \<Rightarrow> str \<Rightarrow> str \<Rightarrow> tower \<times> json res" where
  "append_lease_logs now s p lease_id logs =
     (if \<not> tw_up s then (s, Inl internal_error)
      else if owned_lease s lease_id (subject p) = None then (s, Inl (not_found ''lease not found''))
      else
        let node_id = (case lookup l_id lease_id (tw_leases s) of Some l \<Rightarrow> l_node_id l | None \<Rightarrow> []) in
        (log_event node_id (Some lease_id) ''lease.logs'' (JObj [(''logs'', JStr logs)]) now s, Inr JNull))"

section \<open>Execution sessions\<close>

record exec_session_create =
  ec_lease_id :: str
  ec_runtime_class :: str
  ec_pty_requested :: bool

definition create_execution_session ::
  "time \<Rightarrow> str \<Rightarrow> str \<Rightarrow> tower \<Rightarrow> principal \<Rightarrow> exec_session_create \<Rightarrow> tower \<times> json res" where
  "create_execution_session now esid prefix_hex s p body =
     (if \<not> tw_up s then (s, Inl internal_error)
      else if owned_lease s (ec_lease_id body) (subject p) = None then (s, Inl (not_found ''lease not found''))
      else if lookup es_id esid (tw_exec_sessions s) \<noteq> None then (s, Inl internal_error)
      else let row = \<lparr>es_id = esid, es_lease_id = ec_lease_id body, es_runtime_class = ec_runtime_class body,
                      es_pty_requested = ec_pty_requested body, es_attach_token_prefix = prefix_hex,
                      es_status = ''pending'', es_created_at = now, es_updated_at = now\<rparr> in
        (s\<lparr>tw_exec_sessions := insert_row row (tw_exec_sessions s)\<rparr>, Inr (row_to_execution_session row)))"

definition owned_session :: "tower \<Rightarrow> str \<Rightarrow> str \<Rightarrow> exec_session_row option" where
  "owned_session s esid who =
     find (\<lambda>es. es_id es = esid \<and> owned_lease s (es_lease_id es) who \<noteq> None) (tw_exec_sessions s)"

definition get_attach_token :: "str \<Rightarrow> tower \<Rightarrow> principal \<Rightarrow> str \<Rightarrow> tower \<times> json res" where
  "get_attach_token token s p esid =
     (if \<not> tw_up s then (s, Inl internal_error)
      else case owned_session s esid (subject p) of
        None \<Rightarrow> (s, Inl (not_found ''execution session not found''))
      | Some row \<Rightarrow> (s, Inr (JObj [(''session_id'', JStr esid), (''attach_token'', JStr token),
                                  (''attach_token_prefix'', JStr (es_attach_token_prefix row))])))"

definition attach_execution_session :: "time \<Rightarrow> tower \<Rightarrow> principal \<Rightarrow> str \<Rightarrow> tower \<times> json res" where
  "attach_execution_session now s p esid =
     (if \<not> tw_up s then (s, Inl internal_error)
      else if owned_session s esid (subject p) = None then (s, Inl (not_found ''execution session not found''))
      else case update_returning (by_key es_id esid)
              (\<lambda>r. r\<lparr>es_status := ''attached'', es_updated_at := now\<rparr>) (tw_exec_sessions s) of
        (es, None) \<Rightarrow> (s, Inl internal_error)
      | (es, Some row) \<Rightarrow> (s\<lparr>tw_exec_sessions := es\<rparr>, Inr (row_to_execution_session row)))"

end
