(* ===== verification/Mesh_Agents.thy ===== *)
theory Mesh_Agents
  imports Runtime_Nodes
begin

text \<open>
  The agents of the mesh: their tokens, enrolment, heartbeat, status, profile and deletion (routes/work.rs),
  assignment to a node and revocation (routes/runtime.rs), and the upsert by name of the persistent
  identity an agent is linked to (routes/agents.rs). The text of a database error, the printer of JSON and
  Postgres's jsonb_set on the metadata text are arguments.
\<close>

section \<open>The persistent identity of an agent\<close>

definition is_reserved_agent_name :: "str \<Rightarrow> bool" where
  "is_reserved_agent_name name =
     (let trimmed = trim name in
      eq_ignore_ascii_case trimmed ''anonymous'' \<or> starts_with ''system:'' trimmed \<or> starts_with ''system/'' trimmed)"

definition generate_public_id :: "str \<Rightarrow> str \<Rightarrow> str" where
  "generate_public_id uuid name = name @ ''-'' @ take 8 (filter (\<lambda>c. c \<noteq> CHR ''-'') uuid)"

definition refresh_identity :: "time \<Rightarrow> str \<Rightarrow> control_agent_row \<Rightarrow> control_agent_row" where
  "refresh_identity now capabilities r =
     r\<lparr>ca_capabilities := capabilities, ca_updated_at := now, ca_last_seen_at := Some now, ca_archived_at := None\<rparr>"

definition new_identity :: "time \<Rightarrow> int \<Rightarrow> str \<Rightarrow> str \<Rightarrow> str \<Rightarrow> str \<Rightarrow> str \<Rightarrow> control_agent_row" where
  "new_identity now row_id public_id name capabilities status metadata =
     \<lparr>ca_id = row_id, ca_name = name, ca_capabilities = capabilities, ca_status = status, ca_metadata = metadata,
      ca_created_at = now, ca_updated_at = now, ca_archived_at = None, ca_last_seen_at = Some now,
      ca_public_id = public_id, ca_home_domain_id = None, ca_current_domain_id = None\<rparr>"

definition upsert_agent_by_name ::
  "str \<Rightarrow> time \<Rightarrow> int \<Rightarrow> str \<Rightarrow> str \<Rightarrow> str \<Rightarrow> db \<Rightarrow> str + (db \<times> str)" where
  "upsert_agent_by_name db_error now row_id uuid name capabilities d =
     (if is_reserved_agent_name name then Inl ''reserved agent name''
      else if \<not> db_up d then Inl db_error
      else case lookup ca_name name (control_agents d) of
        Some r \<Rightarrow> Inr (d\<lparr>control_agents := update_where (by_key ca_name name) (refresh_identity now capabilities)
                          (control_agents d)\<rparr>, ca_public_id r)
      | None \<Rightarrow>
          let public_id = generate_public_id uuid name in
          if lookup ca_id row_id (control_agents d) \<noteq> None
             \<or> lookup ca_public_id public_id (control_agents d) \<noteq> None
          then Inl db_error
          else Inr (d\<lparr>control_agents := insert_row
                      (new_identity now row_id public_id name capabilities ''offline'' ''{}'') (control_agents d)\<rparr>,
                    public_id))"

section \<open>Views and tokens\<close>

definition row_to_agent :: "mesh_agent_row \<Rightarrow> json" where
  "row_to_agent a = JObj
     [(''id'', JStr (a_id a)),
      (''public_id'', JStr (opt_or (a_id a) (a_agent_public_id a))),
      (''agent_public_id'', jopt JStr (a_agent_public_id a)),
      (''domain_id'', JStr (a_domain_id a)),
      (''node_id'', jopt JStr (a_node_id a)),
      (''runtime_kind'', JStr (a_runtime_kind a)),
      (''runtime_version'', JStr (a_runtime_version a)),
      (''capabilities'', strs (a_capabilities a)),
      (''labels'', a_labels a),
      (''status'', JStr (a_status a)),
      (''current_task_id'', jopt JStr (a_current_task_id a)),
      (''enrolled_at'', JNum (a_enrolled_at a)),
      (''last_heartbeat_at'', jopt JNum (a_last_heartbeat_at a)),
      (''runtime_node_id'', jopt JStr (a_runtime_node_id a)),
      (''supervision_mode'', jopt JStr (a_supervision_mode a)),
      (''profile'', jopt id (a_profile a)),
      (''machine'', jopt id (a_machine a)),
      (''runtime'', jopt id (a_runtime a)),
      (''discovered_capabilities'', JList [])]"

definition AGENT_TTL_HOURS :: int where "AGENT_TTL_HOURS = 12"

text \<open>The token is signed before its row is written: without the row no token is given out.\<close>

definition issue_agent_token ::
  "(payload \<Rightarrow> str option) \<Rightarrow> time \<Rightarrow> int \<Rightarrow> str \<Rightarrow> tower \<Rightarrow> str \<Rightarrow> str \<Rightarrow> (tower \<times> str) option" where
  "issue_agent_token jwt_encode now iat jti s agent_id domain_id =
     (case sign_agent_jwt jwt_encode iat jti agent_id domain_id AGENT_TTL_HOURS of
        None \<Rightarrow> None
      | Some (token, j) \<Rightarrow>
          if \<not> tw_up s \<or> lookup jr_jti j (agent_tokens (tw_app s)) \<noteq> None then None
          else Some (s\<lparr>tw_app := (tw_app s)\<lparr>agent_tokens := insert_row
                 \<lparr>jr_jti = j, jr_subject_id = agent_id, jr_revoked = False,
                  jr_expires_at = now + secs (AGENT_TTL_HOURS * 3600)\<rparr> (agent_tokens (tw_app s))\<rparr>\<rparr>, token))"

definition mint_agent_token ::
  "(payload \<Rightarrow> str option) \<Rightarrow> time \<Rightarrow> int \<Rightarrow> str \<Rightarrow> tower \<Rightarrow> principal \<Rightarrow> str \<Rightarrow> tower \<times> json res" where
  "mint_agent_token jwt_encode now iat jti s p agent_id =
     (if \<not> (is_full_trust p \<or> is_admin p) then
        (s, Inl (forbidden ''full-trust principal required to mint agent tokens''))
      else case domain_id_for_agent (tw_db s) agent_id of
        Inl e \<Rightarrow> (s, Inl e)
      | Inr domain_id \<Rightarrow>
          (case authz_domain (tw_db s) p domain_id of
             Inl e \<Rightarrow> (s, Inl e)
           | Inr _ \<Rightarrow>
               (case issue_agent_token jwt_encode now iat jti s agent_id domain_id of
                  Some (s', tok) \<Rightarrow> (s', Inr (JObj [(''agent_token'', JStr tok), (''expires_in'', JNum (12 * 3600))]))
                | None \<Rightarrow> (s, Inl internal_error))))"

section \<open>Enrolment\<close>

record agent_enroll =
  ae_runtime_kind :: str
  ae_runtime_version :: str
  ae_capabilities :: "str list"
  ae_labels :: json
  ae_node_id :: "str option"
  ae_runtime_node_id :: "str option"
  ae_profile :: "json option"
  ae_machine :: "json option"
  ae_runtime :: "json option"
  ae_agent_name :: "str option"

definition domain_exists :: "db \<Rightarrow> str \<Rightarrow> bool" where
  "domain_exists d domain_id = (db_up d \<and> lookup d_id domain_id (domains d) \<noteq> None)"

definition enroll_node_guard :: "tower \<Rightarrow> principal \<Rightarrow> str option \<Rightarrow> unit res" where
  "enroll_node_guard s p runtime_node_id =
     (case runtime_node_id of
        None \<Rightarrow> Inr ()
      | Some rn \<Rightarrow>
          (case (if tw_up s then node_of s rn else None) of
             None \<Rightarrow> Inl (bad_request ''RuntimeNode not found'')
           | Some r \<Rightarrow> if n_owner_subject r \<noteq> subject p \<and> \<not> is_admin p
               then Inl (bad_request ''RuntimeNode does not belong to you'') else Inr ()))"

text \<open>The identity link: a blank name asks for none; an error of the upsert is a 400.\<close>

definition link_identity ::
  "str \<Rightarrow> (json \<Rightarrow> str) \<Rightarrow> time \<Rightarrow> int \<Rightarrow> str \<Rightarrow> str option \<Rightarrow> str list \<Rightarrow> db \<Rightarrow> (db \<times> str option) res" where
  "link_identity db_error dump now row_id uuid agent_name capabilities d =
     (case agent_name of
        None \<Rightarrow> Inr (d, None)
      | Some n \<Rightarrow>
          if trim n = [] then Inr (d, None)
          else case upsert_agent_by_name db_error now row_id uuid (trim n) (dump (strs capabilities)) d of
            Inl e \<Rightarrow> Inl (bad_request e)
          | Inr (d', pid) \<Rightarrow> Inr (d', Some pid))"

definition new_mesh_agent ::
  "time \<Rightarrow> str \<Rightarrow> str \<Rightarrow> str \<Rightarrow> agent_enroll \<Rightarrow> str option \<Rightarrow> str option \<Rightarrow> mesh_agent_row" where
  "new_mesh_agent now agent_id domain_id who body supervision pid =
     \<lparr>a_id = agent_id, a_domain_id = domain_id, a_node_id = ae_node_id body,
      a_runtime_kind = ae_runtime_kind body, a_runtime_version = ae_runtime_version body,
      a_capabilities = ae_capabilities body, a_labels = ae_labels body, a_status = ''online'',
      a_current_task_id = None, a_enrolled_by_subject = who, a_enrolled_at = now, a_last_heartbeat_at = None,
      a_runtime_node_id = ae_runtime_node_id body, a_profile = ae_profile body, a_machine = ae_machine body,
      a_runtime = ae_runtime body, a_supervision_mode = supervision, a_agent_public_id = pid\<rparr>"

definition insert_mesh_agent :: "mesh_agent_row \<Rightarrow> tower \<Rightarrow> tower option" where
  "insert_mesh_agent row s =
     (if \<not> tw_up s \<or> lookup a_id (a_id row) (mesh_agents (tw_db s)) \<noteq> None
         \<or> (case a_runtime_node_id row of Some rn \<Rightarrow> node_of s rn = None | None \<Rightarrow> False)
      then None
      else Some (set_db ((tw_db s)\<lparr>mesh_agents := insert_row row (mesh_agents (tw_db s))\<rparr>) s))"

definition invalidate_both :: "str option \<Rightarrow> str option \<Rightarrow> tower \<Rightarrow> tower" where
  "invalidate_both node_id runtime_node_id s =
     (let s1 = (case node_id of Some n \<Rightarrow> invalidate_scope n s | None \<Rightarrow> s) in
      case runtime_node_id of
        Some n \<Rightarrow> if node_id \<noteq> Some n then invalidate_scope n s1 else s1
      | None \<Rightarrow> s1)"

definition assigned_message :: "json \<Rightarrow> json" where
  "assigned_message agent = JObj [(''type'', JStr ''agent.assigned''),
     (''agent_id'', opt_or JNull (jget ''id'' agent)), (''agent'', agent)]"

definition enroll_agent ::
  "str \<Rightarrow> (json \<Rightarrow> str) \<Rightarrow> (payload \<Rightarrow> str option) \<Rightarrow> time \<Rightarrow> int \<Rightarrow> str \<Rightarrow> int \<Rightarrow> str \<Rightarrow> str \<Rightarrow>
     tower \<Rightarrow> principal \<Rightarrow> str \<Rightarrow> agent_enroll \<Rightarrow> tower \<times> json res" where
  "enroll_agent db_error dump jwt_encode now iat agent_id row_id uuid jti s p domain_id body =
     (if \<not> domain_exists (tw_db s) domain_id then (s, Inl (not_found ''Domain not found''))
      else case authz_domain (tw_db s) p domain_id of
        Inl e \<Rightarrow> (s, Inl e)
      | Inr _ \<Rightarrow>
      (case enroll_node_guard s p (ae_runtime_node_id body) of
        Inl e \<Rightarrow> (s, Inl e)
      | Inr _ \<Rightarrow>
      (case link_identity db_error dump now row_id uuid (ae_agent_name body) (ae_capabilities body) (tw_db s) of
        Inl e \<Rightarrow> (s, Inl e)
      | Inr (d, pid) \<Rightarrow>
          let s1 = set_db d s; row = new_mesh_agent now agent_id domain_id (subject p) body None pid in
          (case insert_mesh_agent row s1 of
             None \<Rightarrow> (s1, Inl internal_error)
           | Some s2 \<Rightarrow>
               let agent_json = row_to_agent row;
                   s3 = invalidate_both (ae_node_id body) (ae_runtime_node_id body) s2;
                   s4 = (case ae_runtime_node_id body of
                           Some rn \<Rightarrow> broadcast_assignment_changed rn (assigned_message agent_json) s3
                         | None \<Rightarrow> s3) in
               (case issue_agent_token jwt_encode now iat jti s4 agent_id domain_id of
                  Some (s5, tok) \<Rightarrow> (s5, Inr (jset ''agent_token'' (JStr tok) agent_json))
                | None \<Rightarrow> (s4, Inr agent_json))))))"

section \<open>The handlers of one agent\<close>

definition list_domain_agents :: "tower \<Rightarrow> principal \<Rightarrow> str \<Rightarrow> tower \<times> json res" where
  "list_domain_agents s p domain_id =
     (s, and_then (authz_domain (tw_db s) p domain_id) (\<lambda>_.
        if \<not> domain_exists (tw_db s) domain_id then Inl (not_found ''Domain not found'')
        else Inr (JList (map row_to_agent (sort_key a_enrolled_at
               (select_where (by_key a_domain_id domain_id) (mesh_agents (tw_db s))))))))"

definition acts_for_agent :: "principal \<Rightarrow> str \<Rightarrow> bool" where
  "acts_for_agent p agent_id = (is_full_trust p \<or> is_admin p \<or> subject_id_of p = agent_id)"

definition agent_exists :: "db \<Rightarrow> str \<Rightarrow> bool" where
  "agent_exists d agent_id = (db_up d \<and> lookup a_id agent_id (mesh_agents d) \<noteq> None)"

text \<open>The guard the three self-service handlers share.\<close>

definition self_guard :: "db \<Rightarrow> principal \<Rightarrow> str \<Rightarrow> unit res" where
  "self_guard d p agent_id =
     (if \<not> agent_exists d agent_id then Inl (not_found ''Agent not found'')
      else and_then (authz_by_agent d p agent_id) (\<lambda>_.
        if acts_for_agent p agent_id then Inr () else Inl (forbidden [])))"

definition write_agent :: "tower \<Rightarrow> str \<Rightarrow> (mesh_agent_row \<Rightarrow> mesh_agent_row) \<Rightarrow> tower \<times> json res" where
  "write_agent s agent_id f =
     (case update_returning (by_key a_id agent_id) f (mesh_agents (tw_db s)) of
        (as, Some row) \<Rightarrow> (set_db ((tw_db s)\<lparr>mesh_agents := as\<rparr>) s, Inr (row_to_agent row))
      | (as, None) \<Rightarrow> (s, Inl internal_error))"

definition agent_heartbeat :: "time \<Rightarrow> tower \<Rightarrow> principal \<Rightarrow> str \<Rightarrow> tower \<times> json res" where
  "agent_heartbeat now s p agent_id =
     (case self_guard (tw_db s) p agent_id of
        Inl e \<Rightarrow> (s, Inl e)
      | Inr _ \<Rightarrow> write_agent s agent_id (\<lambda>a. a\<lparr>a_last_heartbeat_at := Some now\<rparr>))"

definition agent_statuses :: "str list" where
  "agent_statuses = [''online'', ''busy'', ''idle'', ''offline'', ''errored'']"

definition set_agent_status :: "tower \<Rightarrow> principal \<Rightarrow> str \<Rightarrow> str \<Rightarrow> tower \<times> json res" where
  "set_agent_status s p agent_id status =
     (if status \<notin> set agent_statuses then
        (s, Inl (bad_request (''Invalid status: '' @ status @
           ''. Must be one of: online, busy, idle, offline, errored'')))
      else case self_guard (tw_db s) p agent_id of
        Inl e \<Rightarrow> (s, Inl e)
      | Inr _ \<Rightarrow> write_agent s agent_id (\<lambda>a. a\<lparr>a_status := status\<rparr>))"

record agent_profile_update =
  ap_profile :: "json option"
  ap_machine :: "json option"
  ap_runtime :: "json option"

definition update_agent_profile ::
  "tower \<Rightarrow> principal \<Rightarrow> str \<Rightarrow> agent_profile_update \<Rightarrow> tower \<times> json res" where
  "update_agent_profile s p agent_id body =
     (case self_guard (tw_db s) p agent_id of
        Inl e \<Rightarrow> (s, Inl e)
      | Inr _ \<Rightarrow> write_agent s agent_id (\<lambda>a. a\<lparr>a_profile := coalesce (ap_profile body) (a_profile a),
          a_machine := coalesce (ap_machine body) (a_machine a),
          a_runtime := coalesce (ap_runtime body) (a_runtime a)\<rparr>))"

definition get_mesh_agent :: "tower \<Rightarrow> principal \<Rightarrow> str \<Rightarrow> tower \<times> json res" where
  "get_mesh_agent s p agent_id =
     (s, and_then (authz_by_agent (tw_db s) p agent_id) (\<lambda>_.
        case lookup a_id agent_id (mesh_agents (tw_db s)) of
          Some a \<Rightarrow> Inr (row_to_agent a) | None \<Rightarrow> Inl (not_found ''Agent not found'')))"

definition revoke_agent_tokens :: "str \<Rightarrow> tower \<Rightarrow> tower" where
  "revoke_agent_tokens agent_id s = s\<lparr>tw_app := (tw_app s)\<lparr>agent_tokens :=
     update_where (by_key jr_subject_id agent_id) (\<lambda>r. r\<lparr>jr_revoked := True\<rparr>) (agent_tokens (tw_app s))\<rparr>\<rparr>"

definition remove_agent :: "str \<Rightarrow> tower \<Rightarrow> tower" where
  "remove_agent agent_id s =
     set_db ((tw_db s)\<lparr>mesh_agents := delete_where (by_key a_id agent_id) (mesh_agents (tw_db s))\<rparr>) s"

definition delete_mesh_agent :: "tower \<Rightarrow> principal \<Rightarrow> str \<Rightarrow> tower \<times> json res" where
  "delete_mesh_agent s p agent_id =
     (if \<not> tw_up s then (s, Inl internal_error)
      else case lookup a_id agent_id (mesh_agents (tw_db s)) of
        None \<Rightarrow> (s, Inl (not_found ''Agent not found''))
      | Some a \<Rightarrow>
          (case authz_domain (tw_db s) p (a_domain_id a) of
             Inl e \<Rightarrow> (s, Inl e)
           | Inr _ \<Rightarrow>
               if a_enrolled_by_subject a \<noteq> subject p \<and> \<not> is_admin p then (s, Inl (forbidden []))
               else
                 let s1 = remove_agent agent_id s;
                     s2 = invalidate_both (a_node_id a) (a_runtime_node_id a) s1;
                     s3 = revoke_agent_tokens agent_id s2;
                     s4 = (case a_node_id a of
                             Some node \<Rightarrow> broadcast_assignment_changed node
                               (JObj [(''type'', JStr ''agent.deleted''), (''agent_id'', JStr agent_id),
                                      (''domain_id'', JStr (a_domain_id a))]) s3
                           | None \<Rightarrow> s3) in
                 (s4, Inr JNull)))"

section \<open>Assignment to a node\<close>

record node_agent_assign =
  na_domain_id :: str
  na_runtime_kind :: str
  na_runtime_version :: str
  na_capabilities :: "str list"
  na_labels :: json
  na_supervision_mode :: "str option"
  na_profile :: "json option"
  na_machine :: "json option"
  na_runtime :: "json option"
  na_agent_name :: "str option"

definition assign_body :: "str \<Rightarrow> node_agent_assign \<Rightarrow> agent_enroll" where
  "assign_body node_id body =
     \<lparr>ae_runtime_kind = na_runtime_kind body, ae_runtime_version = na_runtime_version body,
      ae_capabilities = na_capabilities body, ae_labels = na_labels body, ae_node_id = Some node_id,
      ae_runtime_node_id = Some node_id, ae_profile = na_profile body, ae_machine = na_machine body,
      ae_runtime = na_runtime body, ae_agent_name = na_agent_name body\<rparr>"

definition node_short_name :: "tower \<Rightarrow> str \<Rightarrow> str" where
  "node_short_name s node_id =
     (case node_of s node_id of
        Some r \<Rightarrow> hd (split_on CHR ''.'' (opt_or (n_node_name r) (n_tailscale_fqdn r)))
      | None \<Rightarrow> ''node'')"

text \<open>UPDATE agent SET metadata = jsonb_set(...): an error (metadata that is not JSON) is only logged.\<close>

definition stamp_node :: "(str \<Rightarrow> str \<Rightarrow> str option) \<Rightarrow> time \<Rightarrow> str \<Rightarrow> str \<Rightarrow> db \<Rightarrow> db" where
  "stamp_node jsonb_set_node now pid short d =
     (case lookup ca_public_id pid (control_agents d) of
        None \<Rightarrow> d
      | Some r \<Rightarrow>
          (case jsonb_set_node (ca_metadata r) short of
             None \<Rightarrow> d
           | Some md \<Rightarrow> d\<lparr>control_agents := update_where (by_key ca_public_id pid)
               (\<lambda>r. r\<lparr>ca_metadata := md, ca_updated_at := now\<rparr>) (control_agents d)\<rparr>))"

definition assign_node_agent ::
  "str \<Rightarrow> (json \<Rightarrow> str) \<Rightarrow> (str \<Rightarrow> str \<Rightarrow> str option) \<Rightarrow> time \<Rightarrow> str \<Rightarrow> int \<Rightarrow> str \<Rightarrow>
     tower \<Rightarrow> principal \<Rightarrow> str \<Rightarrow> node_agent_assign \<Rightarrow> tower \<times> json res" where
  "assign_node_agent db_error dump jsonb_set_node now agent_id row_id uuid s p node_id body =
     (case require_node_owner s p node_id of
        Inl e \<Rightarrow> (s, Inl e)
      | Inr _ \<Rightarrow>
      if \<not> domain_exists (tw_db s) (na_domain_id body) then (s, Inl (not_found ''Domain not found''))
      else (case authz_domain (tw_db s) p (na_domain_id body) of
        Inl e \<Rightarrow> (s, Inl e)
      | Inr _ \<Rightarrow>
      (case link_identity db_error dump now row_id uuid (na_agent_name body) (na_capabilities body) (tw_db s) of
        Inl e \<Rightarrow> (s, Inl e)
      | Inr (d, pid) \<Rightarrow>
          let d1 = (case pid of Some i \<Rightarrow> stamp_node jsonb_set_node now i (node_short_name s node_id) d | None \<Rightarrow> d);
              s1 = set_db d1 s;
              row = new_mesh_agent now agent_id (na_domain_id body) (subject p) (assign_body node_id body)
                      (Some (opt_or ''task'' (na_supervision_mode body))) pid in
          (case insert_mesh_agent row s1 of
             None \<Rightarrow> (s1, Inl internal_error)
           | Some s2 \<Rightarrow>
               (broadcast_assignment_changed node_id (assigned_message (row_to_agent row)) (invalidate_scope node_id s2),
                Inr (row_to_agent row))))))"

definition revoke_node_agent :: "tower \<Rightarrow> principal \<Rightarrow> str \<Rightarrow> str \<Rightarrow> tower \<times> json res" where
  "revoke_node_agent s p node_id agent_id =
     (case require_node_owner s p node_id of
        Inl e \<Rightarrow> (s, Inl e)
      | Inr _ \<Rightarrow>
          (case fetch_optional (\<lambda>a. tand (by_key a_id agent_id a) (on_node node_id a)) (mesh_agents (tw_db s)) of
             None \<Rightarrow> (s, Inl (not_found ''Agent not found on this node''))
           | Some a \<Rightarrow>
               (broadcast_assignment_changed node_id
                  (JObj [(''type'', JStr ''agent.revoked''), (''agent_id'', JStr agent_id),
                         (''domain_id'', JStr (a_domain_id a))])
                  (invalidate_scope node_id (remove_agent agent_id s)),
                Inr JNull)))"

text \<open>The agents of a node, joined with their domains: an agent of a missing domain is left out.\<close>

definition node_agent_json :: "db \<Rightarrow> mesh_agent_row \<Rightarrow> json option" where
  "node_agent_json d a = map_option (\<lambda>m. jset ''domain_kind'' (JStr (d_kind m))
     (jset ''domain_name'' (JStr (d_name m)) (row_to_agent a))) (lookup d_id (a_domain_id a) (domains d))"

definition node_agent_rows :: "db \<Rightarrow> str \<Rightarrow> mesh_agent_row list" where
  "node_agent_rows d node_id = sort_key a_enrolled_at (select_where (on_node node_id) (mesh_agents d))"

definition list_node_agents :: "tower \<Rightarrow> principal \<Rightarrow> str \<Rightarrow> tower \<times> json res" where
  "list_node_agents s p node_id =
     (if \<not> tw_up s then (s, Inl internal_error)
      else case node_of s node_id of
        None \<Rightarrow> (s, Inl (not_found ''node not found''))
      | Some r \<Rightarrow>
          if \<not> is_authorized_for_node p node_id (n_owner_subject r)
          then (s, Inl (forbidden ''node does not belong to you''))
          else (s, Inr (JList (List.map_filter (node_agent_json (tw_db s)) (node_agent_rows (tw_db s) node_id)))))"

end
