(* ===== verification/Node_Credentials.thy ===== *)
theory Node_Credentials
  imports Node_Properties Runtime_Jobs Mesh_Agents
begin

text \<open>
  What becomes of a node's credentials: two registrations racing for one join token, what the token of a
  registered node may be used for, rotation with its failure, and the deletion of a node.
\<close>

section \<open>Two registrations with one token\<close>

lemma register_write_succeeds:
  assumes "tw_up s" "node_of s nid = None" "\<forall>n\<in>set (tw_nodes s). n_node_name n \<noteq> nr_node_name body"
    "enc (node_payload (claims_for_node nid jti iat)) = Some token"
  shows "\<exists>s' resp. register_write dg dump enc now iat nid sec jti s body tid who = (s', Inr resp)"
proof -
  have sign: "sign_node_jwt enc iat jti nid NODE_JWT_TTL_DAYS = Some (token, jti)"
    using assms(4) by (simp add: sign_node_jwt_def claims_for_node_def)
  have "\<not> (\<not> tw_up s \<or> lookup n_id nid (tw_nodes s) \<noteq> None
      \<or> exists_where (by_key n_node_name (nr_node_name body)) (tw_nodes s))"
    using assms(1-3) by (simp add: node_of_def exists_where_def list_ex_iff)
  then show ?thesis unfolding register_write_def Let_def sign by (simp only: if_False option.case prod.case) blast
qed

lemma node_of_insert:
  "tw_nodes s' = insert_row n (tw_nodes s) \<Longrightarrow>
     node_of s' k = (case node_of s k of Some q \<Rightarrow> Some q | None \<Rightarrow> if n_id n = k then Some n else None)"
  by (simp add: node_of_def lookup_insert_row)

lemma new_node_simps [simp]:
  "n_id (new_node_row now nid sec who body) = nid" "n_node_name (new_node_row now nid sec who body) = nr_node_name body"
  "n_owner_subject (new_node_row now nid sec who body) = who"
  by (simp_all add: new_node_row_def)

text \<open>a join token can enrol two nodes. When two registrations with different node names both read the
  token before either writes, both succeed: the two nodes are on record, each with its token's owner,
  and the token row names the second alone. The statement that marks the token used does not ask
  whether it still is unused.\<close>

theorem join_token_race:
  assumes read: "register_check dg now s b1 = Inr (tid, who)" "register_check dg now s b2 = Inr (tid, who)"
    and names: "nr_node_name b1 \<noteq> nr_node_name b2" "n1 \<noteq> n2"
    and free: "node_of s n1 = None" "node_of s n2 = None"
    and signs: "enc (node_payload (claims_for_node n1 j1 iat)) = Some t1"
      "enc (node_payload (claims_for_node n2 j2 iat)) = Some t2"
    and keys: "unique_key jt_id (tw_join_tokens s)"
  shows "\<exists>s1 r1 s2 r2 row.
           register_write dg dump enc now iat n1 sec1 j1 s b1 tid who = (s1, Inr r1)
         \<and> register_write dg dump enc now iat n2 sec2 j2 s1 b2 tid who = (s2, Inr r2)
         \<and> node_of s2 n1 = Some (new_node_row now n1 sec1 who b1)
         \<and> node_of s2 n2 = Some (new_node_row now n2 sec2 who b2)
         \<and> lookup jt_id tid (tw_join_tokens s2) = Some row \<and> jt_node_id row = Some n2"
proof -
  obtain r where r: "r \<in> set (tw_join_tokens s)" "tid = jt_id r" and up: "tw_up s"
      and free1: "\<forall>n\<in>set (tw_nodes s). n_node_name n \<noteq> nr_node_name b1"
    using read(1) active_tokenD unfolding register_check_iff by blast
  have free2: "\<forall>n\<in>set (tw_nodes s). n_node_name n \<noteq> nr_node_name b2"
    using read(2) unfolding register_check_iff by blast
  obtain s1 r1 where w1: "register_write dg dump enc now iat n1 sec1 j1 s b1 tid who = (s1, Inr r1)"
    using register_write_succeeds [where enc = enc and jti = j1 and iat = iat, OF up free(1) free1 signs(1)] by blast
  note e1 = register_write_ok [OF w1]
  have nodes1: "tw_nodes s1 = insert_row (new_node_row now n1 sec1 who b1) (tw_nodes s)" using e1 by blast
  have up1: "tw_up s1" using e1 up by simp
  have f1: "node_of s1 n2 = None" using names(2) free(2) by (simp add: node_of_insert [OF nodes1])
  have g1: "\<forall>n\<in>set (tw_nodes s1). n_node_name n \<noteq> nr_node_name b2"
    using free2 names(1) by (simp add: nodes1 insert_row_def)
  obtain s2 r2 where w2: "register_write dg dump enc now iat n2 sec2 j2 s1 b2 tid who = (s2, Inr r2)"
    using register_write_succeeds [where enc = enc and jti = j2 and iat = iat, OF up1 f1 g1 signs(2)] by blast
  note e2 = register_write_ok [OF w2]
  have nodes2: "tw_nodes s2 = insert_row (new_node_row now n2 sec2 who b2) (tw_nodes s1)" using e2 by blast
  have "node_of s2 n1 = Some (new_node_row now n1 sec1 who b1)" "node_of s2 n2 = Some (new_node_row now n2 sec2 who b2)"
    using free names(2) by (simp_all add: node_of_insert [OF nodes2] node_of_insert [OF nodes1])
  moreover have "lookup jt_id tid (tw_join_tokens s2) = Some (use_token now n2 (use_token now n1 r))"
    using e1 e2 r lookup_in_unique [OF keys r(1)] by (simp add: lookup_update_where)
  ultimately show ?thesis using w1 w2 by (intro exI conjI) (auto simp: use_token_def)
qed

section \<open>Rotation\<close>

lemma jwt_live_iff:
  assumes "unique_key jr_jti t"
  shows "jwt_row_live t j now \<longleftrightarrow>
           (case lookup jr_jti j t of None \<Rightarrow> False | Some r \<Rightarrow> now < jr_expires_at r \<and> \<not> jr_revoked r)"
proof -
  have "fetch_optional (\<lambda>r. tand (tbool (jr_jti r = j)) (tbool (jr_expires_at r > now))) t =
      (case lookup jr_jti j t of None \<Rightarrow> None | Some r \<Rightarrow> if now < jr_expires_at r then Some r else None)"
    unfolding fetch_optional_def
    by (subst find_fence [OF assms, where k = j]) (auto split: option.splits dest: lookup_Some_in)
  then show ?thesis by (auto simp: jwt_row_live_def split: option.splits if_splits)
qed

lemma revoked_lookup:
  "lookup jr_jti j (node_tokens (tw_app (revoke_node_tokens nid s))) =
     map_option (\<lambda>r. if jr_subject_id r = nid \<and> \<not> jr_revoked r then r\<lparr>jr_revoked := True\<rparr> else r)
       (lookup jr_jti j (node_tokens (tw_app s)))"
  by (simp add: revoke_node_tokens_def revoke_node_fence_def lookup_update_where)

lemma revoked_unique:
  "unique_key jr_jti (node_tokens (tw_app s)) \<Longrightarrow> unique_key jr_jti (node_tokens (tw_app (revoke_node_tokens nid s)))"
  by (simp add: revoke_node_tokens_def unique_update_where)

lemma revoke_frame [simp]:
  "tw_nodes (revoke_node_tokens nid s) = tw_nodes s" "app_db (tw_app (revoke_node_tokens nid s)) = app_db (tw_app s)"
  by (simp_all add: revoke_node_tokens_def)

lemma revoked_live:
  assumes "unique_key jr_jti (node_tokens (tw_app s))"
  shows "jwt_row_live (node_tokens (tw_app (revoke_node_tokens nid s))) j t \<longleftrightarrow>
           jwt_row_live (node_tokens (tw_app s)) j t \<and>
           (\<forall>r. lookup jr_jti j (node_tokens (tw_app s)) = Some r \<longrightarrow> jr_subject_id r \<noteq> nid)"
  unfolding jwt_live_iff [OF assms] jwt_live_iff [OF revoked_unique [OF assms]] revoked_lookup
  by (cases "lookup jr_jti j (node_tokens (tw_app s))") auto

text \<open>Which node a JWT on record was issued for.\<close>

definition issued_for :: "tower \<Rightarrow> str \<Rightarrow> str \<Rightarrow> bool" where
  "issued_for s jti nid = (\<exists>r. lookup jr_jti jti (node_tokens (tw_app s)) = Some r \<and> jr_subject_id r = nid)"

text \<open>rotating a node's token replaces the credential of that node and no other. It is open to an
  administrator, to the node itself and to its owner only. After it every JWT issued for the node before is
  refused, the new one authenticates as the node for a day, and whether any other JWT is live is as before.
  Without a signature the answer is an error but the old tokens are revoked all the same, so the node
  is left with no credential at all.\<close>

theorem rotation_replaces_credential:
  assumes jwt: "\<And>p t. enc p = Some t \<Longrightarrow> jd t = Some p \<and> compact_jwt t"
    and keys: "unique_key jr_jti (node_tokens (tw_app s))" "lookup jr_jti jti (node_tokens (tw_app s)) = None"
    and up: "tw_up s" "node_of s nid \<noteq> None" "may_rotate s p nid"
    and run: "rotate_node_token enc now iat jti s p nid = (s', res)"
  shows "(is_admin p \<or> subject p = ''node:'' @ nid \<or> owned_node s nid (subject p) \<noteq> None)
       \<and> (\<forall>old c t i dg. jd old = Some (node_payload c) \<and> compact_jwt old \<and> issued_for s (nc_jti c) nid \<longrightarrow>
            snd (principal_of_token jd dg (tw_app s') t i old) = Inl unauthenticated)
       \<and> (\<forall>j t. j \<noteq> jti \<and> \<not> issued_for s j nid \<longrightarrow>
            jwt_row_live (node_tokens (tw_app s')) j t = jwt_row_live (node_tokens (tw_app s)) j t)
       \<and> (case enc (node_payload (claims_for_node nid jti iat)) of
            None \<Rightarrow> res = Inl internal_error \<and> (\<forall>j t. issued_for s' j nid \<longrightarrow> \<not> jwt_row_live (node_tokens (tw_app s')) j t)
          | Some token \<Rightarrow> res = Inr (JObj [(''node_jwt'', JStr token)]) \<and>
              (\<forall>t i dg. t < now + secs 86400 \<longrightarrow>
                (\<exists>scope. snd (principal_of_token jd dg (tw_app s') t i token) = Inr (node_principal nid scope))))"
proof -
  let ?r = "revoke_node_tokens nid s" and ?e = "enc (node_payload (claims_for_node nid jti iat))"
  let ?row = "\<lparr>jr_jti = jti, jr_subject_id = nid, jr_revoked = False, jr_expires_at = now + secs 86400\<rparr>"
  have sign: "sign_node_jwt enc iat jti nid NODE_JWT_TTL_DAYS = map_option (\<lambda>t. (t, jti)) ?e"
    by (simp add: sign_node_jwt_def claims_for_node_def)
  have fresh: "lookup jr_jti jti (node_tokens (tw_app ?r)) = None" using keys(2) by (simp add: revoked_lookup)
  have s': "s' = (case ?e of None \<Rightarrow> ?r | Some _ \<Rightarrow> insert_node_token jti nid now ?r)"
    "res = (case ?e of None \<Rightarrow> Inl internal_error | Some t \<Rightarrow> Inr (JObj [(''node_jwt'', JStr t)]))"
    using run up(1,3) sign by (simp_all add: rotate_node_token_def Let_def split: option.splits)
  have tokens: "node_tokens (tw_app s') = (case ?e of None \<Rightarrow> node_tokens (tw_app ?r)
      | Some _ \<Rightarrow> insert_row ?row (node_tokens (tw_app ?r)))"
    using fresh up(2) by (auto simp: s' insert_node_token_def node_of_def NODE_JWT_TTL_DAYS_def split: option.splits)
  have other: "jwt_row_live (node_tokens (tw_app s')) j t = jwt_row_live (node_tokens (tw_app ?r)) j t" if "j \<noteq> jti" for j t
    using that jwt_live_insert_other [of ?row j] by (simp add: tokens split: option.splits)
  have new: "issued_for s j nid \<Longrightarrow> j \<noteq> jti" for j using keys(2) by (auto simp: issued_for_def)
  have dead: "\<not> jwt_row_live (node_tokens (tw_app s')) j t" if "issued_for s j nid" for j t
    using that other [OF new [OF that]] revoked_live [OF keys(1), of nid j t] by (auto simp: issued_for_def)
  have rotate: "is_admin p \<or> subject p = ''node:'' @ nid \<or> owned_node s nid (subject p) \<noteq> None"
    using up(3) by (auto simp: may_rotate_def split: if_splits)
  have old: "snd (principal_of_token jd dg (tw_app s') t i old) = Inl unauthenticated"
    if "jd old = Some (node_payload c)" "compact_jwt old" "issued_for s (nc_jti c) nid" for old c t i dg
    using node_token_refused [of jd old c "tw_app s'" t dg i] that dead [OF that(3)] by simp
  have others: "jwt_row_live (node_tokens (tw_app s')) j t = jwt_row_live (node_tokens (tw_app s)) j t"
    if "j \<noteq> jti" "\<not> issued_for s j nid" for j t
    using other [OF that(1)] revoked_live [OF keys(1), of nid j t] that(2) by (auto simp: issued_for_def)
  have last: "case ?e of None \<Rightarrow> res = Inl internal_error \<and> (\<forall>j t. issued_for s' j nid \<longrightarrow> \<not> jwt_row_live (node_tokens (tw_app s')) j t)
      | Some token \<Rightarrow> res = Inr (JObj [(''node_jwt'', JStr token)]) \<and> (\<forall>t i dg. t < now + secs 86400 \<longrightarrow>
          (\<exists>scope. snd (principal_of_token jd dg (tw_app s') t i token) = Inr (node_principal nid scope)))"
  proof (cases ?e)
    case None
    have "issued_for s j nid" if "issued_for s' j nid" for j
      using that None by (auto simp: issued_for_def tokens revoked_lookup split: if_splits)
    then show ?thesis using None s'(2) dead by auto
  next
    case (Some token)
    have live: "jwt_row_live (node_tokens (tw_app s')) jti t" if "t < now + secs 86400" for t
      using that fresh jwt_live_insert [of ?row "node_tokens (tw_app ?r)" t] by (simp add: tokens Some)
    have up': "db_up (app_db (tw_app s'))" using up(1) by (simp add: s' Some)
    show ?thesis
      using Some s'(2) jwt [OF Some] live up' node_token_principal [of jd token "claims_for_node nid jti iat" "tw_app s'"]
      by (auto simp: claims_for_node_def node_principal_def)
  qed
  show ?thesis using rotate old others last by blast
qed

section \<open>What a node may do with its own token\<close>

text \<open>a node's own token does not let it send heartbeats or take work. For a registered node whose owner is
  not literally its own subject, a caller with that node's JWT is told by heartbeat_node and claim_lease
  that there is no such node and is refused the attach secret, with nothing changed, though it may
  list its agents and rotate its token; the daemon started with the credential of its registration sends its
  heartbeats and fetches its secret with this token.\<close>

theorem node_token_cannot_heartbeat:
  assumes "tw_up s" "node_of s nid = Some r" "n_owner_subject r \<noteq> ''node:'' @ nid" "unique_key n_id (tw_nodes s)"
  shows "heartbeat_node now s (node_principal nid scope) nid body = (s, Inl (not_found ''node not found''))
       \<and> claim_lease now s (node_principal nid scope) nid = (s, Inl (not_found ''node not found''))
       \<and> get_node_attach_secret s (node_principal nid scope) nid = (s, Inl (forbidden []))
       \<and> may_rotate s (node_principal nid scope) nid
       \<and> (\<exists>agents. list_node_agents s (node_principal nid scope) nid = (s, Inr agents))"
proof -
  have "owned_node s nid (''node:'' @ nid) = None"
    unfolding owned_node_def fetch_None
  proof (intro ballI)
    fix q
    assume "q \<in> set (tw_nodes s)"
    then have "n_id q = nid \<longrightarrow> q = r"
      using lookup_in_unique [OF assms(4)] assms(2) by (auto simp: node_of_def)
    then show "\<not> holds (owned_row n_id n_owner_subject nid (''node:'' @ nid) q)" using assms(3) by auto
  qed
  then show ?thesis
    using assms by (simp add: heartbeat_node_def claim_lease_def get_node_attach_secret_def require_node_owner_def
        may_rotate_def list_node_agents_def is_authorized_for_node_def node_principal_def)
qed

section \<open>Deletion\<close>

lemma detach_simps [simp]:
  "a_id (detach now a) = a_id a" "a_domain_id (detach now a) = a_domain_id a"
  "a_runtime_node_id (detach now a) = None" "a_node_id (detach now a) = None"
  by (simp_all add: detach_def)

lemma on_node_iff: "holds (on_node nid a) \<longleftrightarrow> a_runtime_node_id a = Some nid \<or> a_node_id a = Some nid"
  by (auto simp: on_node_def)

lemma no_agents_on_node:
  "length (select_where (on_node nid) as) = 0 \<longleftrightarrow> (\<forall>a\<in>set as. \<not> holds (on_node nid a))"
  by (simp add: select_where_def filter_empty_conv)

lemma scope_of_detached:
  assumes "\<forall>a\<in>set as. \<not> holds (on_node nid a)"
  shows "node_domains nid as = []"
proof -
  have "select_where (\<lambda>a. tand (tor (teq (a_runtime_node_id a) (Some nid)) (teq (a_node_id a) (Some nid)))
      (tbool (btrim (a_domain_id a) \<noteq> []))) as = []"
    using assms by (auto simp: select_where_def filter_empty_conv on_node_def)
  then show ?thesis by (simp add: node_domains_def)
qed

lemma detach_all:
  "\<forall>a\<in>set (update_where (on_node nid) (detach now) as). \<not> holds (on_node nid a)"
  by (auto simp: update_where_def on_node_iff)

lemma delete_where_filter: "delete_where (by_key key k) t = filter (\<lambda>r. key r \<noteq> k) t"
  by (simp add: delete_where_def)

lemma delete_revoked:
  "filter (\<lambda>r. jr_subject_id r \<noteq> nid) (update_where (revoke_node_fence nid) (jr_revoked_update f) t) =
     filter (\<lambda>r. jr_subject_id r \<noteq> nid) t"
  by (induction t) (auto simp: update_where_def revoke_node_fence_def)

text \<open>What the mutating half leaves, when the count it is given is the number of agents on the node.\<close>

lemma delete_tx_outcome:
  assumes "tw_up s" "cnt = length (select_where (on_node nid) (mesh_agents (tw_db s)))"
    and "delete_tx now s nid cnt = (s', res)"
  shows "(\<exists>j. res = Inr j)"
    "tw_nodes s' = filter (\<lambda>n. n_id n \<noteq> nid) (tw_nodes s)"
    "tw_specs s' = filter (\<lambda>x. sp_node_id x \<noteq> nid) (tw_specs s)"
    "node_tokens (tw_app s') = filter (\<lambda>r. jr_subject_id r \<noteq> nid) (node_tokens (tw_app s))"
    "tw_join_tokens s' = update_where (\<lambda>t. tand (teq (jt_node_id t) (Some nid)) (tbool (jt_status t \<noteq> ''revoked'')))
       (\<lambda>t. t\<lparr>jt_status := ''revoked'', jt_updated_at := now\<rparr>) (tw_join_tokens s)"
    "tw_db s' = (tw_db s)\<lparr>mesh_agents := update_where (on_node nid) (detach now) (mesh_agents (tw_db s))\<rparr>"
    "tw_jobs s' = tw_jobs s" "tw_leases s' = tw_leases s"
proof -
  let ?as = "mesh_agents (tw_db s)"
  have agents: "(if cnt > 0 then update_where (on_node nid) (detach now) ?as else ?as)
      = update_where (on_node nid) (detach now) ?as"
    using no_agents_on_node [of nid ?as] assms(2) update_where_none [of ?as "on_node nid" "detach now"] by auto
  have fk: "\<not> exists_where (\<lambda>a. teq (a_runtime_node_id a) (Some nid)) (update_where (on_node nid) (detach now) ?as)"
    using detach_all [of nid now ?as] by (auto simp: exists_where_def list_ex_iff on_node_iff)
  note run = assms(3) [unfolded delete_tx_def Let_def agents, simplified assms(1) fk, simplified]
  show "\<exists>j. res = Inr j"
    "tw_nodes s' = filter (\<lambda>n. n_id n \<noteq> nid) (tw_nodes s)"
    "tw_specs s' = filter (\<lambda>x. sp_node_id x \<noteq> nid) (tw_specs s)"
    "node_tokens (tw_app s') = filter (\<lambda>r. jr_subject_id r \<noteq> nid) (node_tokens (tw_app s))"
    "tw_join_tokens s' = update_where (\<lambda>t. tand (teq (jt_node_id t) (Some nid)) (tbool (jt_status t \<noteq> ''revoked'')))
       (\<lambda>t. t\<lparr>jt_status := ''revoked'', jt_updated_at := now\<rparr>) (tw_join_tokens s)"
    "tw_db s' = (tw_db s)\<lparr>mesh_agents := update_where (on_node nid) (detach now) ?as\<rparr>"
    "tw_jobs s' = tw_jobs s" "tw_leases s' = tw_leases s"
    using run by (auto simp: delete_where_filter delete_revoked split: if_splits)
qed

text \<open>deleting a node removes it with its credentials and its specification, and nothing else. Only its owner
  or an administrator can, and only with force while agents are assigned to it; any refusal leaves
  the state as it was. Afterwards the node, its specification rows and its tokens are gone and no others, no
  join token that named it is usable, no agent is on it, every agent is still on record and those that were
  not on it are unchanged, and the jobs and leases are as they were, those pending for the node included.\<close>

theorem delete_node_exact:
  assumes run: "delete_node show_nat now s p nid force = (s', res)"
  shows "(\<forall>e. res = Inl e \<longrightarrow> s' = s)
       \<and> (\<forall>j. res = Inr j \<longrightarrow>
            (\<exists>r. node_of s nid = Some r \<and> (is_admin p \<or> n_owner_subject r = subject p))
          \<and> (force \<or> (\<forall>a\<in>set (mesh_agents (tw_db s)). \<not> holds (on_node nid a)))
          \<and> tw_nodes s' = filter (\<lambda>n. n_id n \<noteq> nid) (tw_nodes s)
          \<and> tw_specs s' = filter (\<lambda>x. sp_node_id x \<noteq> nid) (tw_specs s)
          \<and> node_tokens (tw_app s') = filter (\<lambda>r. jr_subject_id r \<noteq> nid) (node_tokens (tw_app s))
          \<and> (\<forall>t\<in>set (tw_join_tokens s'). jt_node_id t = Some nid \<longrightarrow> jt_status t = ''revoked'')
          \<and> (\<forall>a\<in>set (mesh_agents (tw_db s')). \<not> holds (on_node nid a))
          \<and> map a_id (mesh_agents (tw_db s')) = map a_id (mesh_agents (tw_db s))
          \<and> (\<forall>a\<in>set (mesh_agents (tw_db s)). \<not> holds (on_node nid a) \<longrightarrow> a \<in> set (mesh_agents (tw_db s')))
          \<and> tw_jobs s' = tw_jobs s \<and> tw_leases s' = tw_leases s)"
proof (cases "delete_check show_nat s p nid force")
  case (Inl e)
  then have "s' = s" "res = Inl e" using run by (auto simp: delete_node_def)
  then show ?thesis by simp
next
  case (Inr cnt)
  have up: "tw_up s" and cnt: "cnt = length (select_where (on_node nid) (mesh_agents (tw_db s)))"
    and who: "\<exists>r. node_of s nid = Some r \<and> (is_admin p \<or> n_owner_subject r = subject p)"
    and force: "force \<or> cnt = 0"
    using Inr by (auto simp: delete_check_def Let_def split: if_splits option.splits)
  have tx: "delete_tx now s nid cnt = (s', res)" using run Inr by (simp add: delete_node_def)
  note out = delete_tx_outcome [OF up cnt tx]
  have force': "force \<or> (\<forall>a\<in>set (mesh_agents (tw_db s)). \<not> holds (on_node nid a))"
    using force unfolding cnt no_agents_on_node .
  have tok: "\<forall>t\<in>set (tw_join_tokens s'). jt_node_id t = Some nid \<longrightarrow> jt_status t = ''revoked''"
    unfolding out(5) by (auto simp: update_where_def)
  have ids: "map a_id (mesh_agents (tw_db s')) = map a_id (mesh_agents (tw_db s))"
    by (simp add: out(6) map_key_update)
  have kept: "\<forall>a\<in>set (mesh_agents (tw_db s)). \<not> holds (on_node nid a) \<longrightarrow> a \<in> set (mesh_agents (tw_db s'))"
    by (auto simp: out(6) update_where_def)
  have none: "\<forall>a\<in>set (mesh_agents (tw_db s')). \<not> holds (on_node nid a)"
    using detach_all by (simp add: out(6))
  obtain j where "res = Inr j" using out(1) by blast
  then show ?thesis using out(2-4,7,8) who force' tok ids kept none by (intro conjI allI impI) (simp_all only: sum.distinct)
qed

section \<open>Witnesses\<close>

lemma join_token_race_witness:
  "\<exists>s2. node_of s2 ''n1'' \<noteq> None \<and> node_of s2 ''n2'' \<noteq> None \<and> length (tw_join_tokens demo_tower) = 1"
proof -
  have read: "register_check id 5 demo_tower (demo_register ''n1'') = Inr (''jt1'', ''alice'')"
    "register_check id 5 demo_tower (demo_register ''n2'') = Inr (''jt1'', ''alice'')"
    by code_simp+
  have rest: "nr_node_name (demo_register ''n1'') \<noteq> nr_node_name (demo_register ''n2'')" "''n1'' \<noteq> ''n2''"
    "node_of demo_tower ''n1'' = None" "node_of demo_tower ''n2'' = None"
    by (simp_all add: demo_register_def demo_tower_def node_of_def)
  have signs: "demo_enc (node_payload (claims_for_node ''n1'' ''j1'' 0)) = Some ''a.1.b''"
    "demo_enc (node_payload (claims_for_node ''n2'' ''j2'' 0)) = Some ''a.2.b''"
    by code_simp+
  have keys: "unique_key jt_id (tw_join_tokens demo_tower)" "length (tw_join_tokens demo_tower) = 1"
    by (simp_all add: demo_tower_def unique_key_def)
  from join_token_race [where enc = demo_enc and ?j1.0 = "''j1''" and ?j2.0 = "''j2''" and iat = 0 and dump = "\<lambda>_. []"
      and ?sec1.0 = "[]" and ?sec2.0 = "[]", OF read rest signs keys(1)]
  obtain s2 where "node_of s2 ''n1'' = Some (new_node_row 5 ''n1'' [] ''alice'' (demo_register ''n1''))"
      "node_of s2 ''n2'' = Some (new_node_row 5 ''n2'' [] ''alice'' (demo_register ''n2''))"
    by (elim exE conjE) (rule that)
  then show ?thesis using keys(2) by (intro exI [of _ s2]) simp
qed

definition demo_node :: node_row where
  "demo_node = new_node_row 0 ''n1'' ''s'' ''alice'' (demo_register ''n1'')"

definition demo_fleet :: tower where
  "demo_fleet = demo_tower\<lparr>tw_nodes := [demo_node], tw_app := demo_app\<lparr>node_tokens :=
     [\<lparr>jr_jti = ''j0'', jr_subject_id = ''n1'', jr_revoked = False, jr_expires_at = secs 86400\<rparr>]\<rparr>\<rparr>"

definition demo_owner :: principal where
  "demo_owner = \<lparr>subject = ''alice'', is_admin = False, session_id = Some 1, auth_type = ''session'', domain_scope = []\<rparr>"

lemma rotation_replaces_credential_witness:
  "\<exists>(s'::tower) scope. snd (principal_of_token demo_dec id (tw_app s') 5 0 ''a.0.b'') = Inl unauthenticated
     \<and> snd (principal_of_token demo_dec id (tw_app s') 5 0 ''a.1.b'') = Inr (node_principal ''n1'' scope)"
proof -
  obtain s' res where run: "rotate_node_token demo_enc 1 0 ''j1'' demo_fleet demo_owner ''n1'' = (s', res)"
    by fastforce
  have keys: "unique_key jr_jti (node_tokens (tw_app demo_fleet))"
    "lookup jr_jti ''j1'' (node_tokens (tw_app demo_fleet)) = None" "tw_up demo_fleet"
    "node_of demo_fleet ''n1'' \<noteq> None"
    by (simp_all add: demo_fleet_def demo_tower_def demo_app_def unique_key_def demo_empty_db_def node_of_def
        lookup_Cons demo_node_def)
  have may: "may_rotate demo_fleet demo_owner ''n1''" by code_simp
  have old: "demo_dec ''a.0.b'' = Some (node_payload (claims_for_node ''n1'' ''j0'' 0))" "compact_jwt ''a.0.b''"
    "issued_for demo_fleet (nc_jti (claims_for_node ''n1'' ''j0'' 0)) ''n1''"
    "demo_enc (node_payload (claims_for_node ''n1'' ''j1'' 0)) = Some ''a.1.b''"
    by (simp_all add: demo_dec_def compact_jwt_def issued_for_def demo_fleet_def claims_for_node_def lookup_Cons demo_enc_def)
  have time: "(5::time) < 1 + secs 86400" by (simp add: secs_def)
  note claim = rotation_replaces_credential [where jd = demo_dec, OF demo_jwt keys may run]
  have "snd (principal_of_token demo_dec id (tw_app s') 5 0 ''a.0.b'') = Inl unauthenticated"
    using claim [THEN conjunct2, THEN conjunct1, THEN spec [of _ "''a.0.b''"], THEN spec [of _ "claims_for_node ''n1'' ''j0'' 0"],
        THEN spec [of _ 5], THEN spec [of _ 0], THEN spec [of _ id]] old(1-3) by simp
  moreover obtain scope where
      "snd (principal_of_token demo_dec id (tw_app s') 5 0 ''a.1.b'') = Inr (node_principal ''n1'' scope)"
    using claim [THEN conjunct2, THEN conjunct2, THEN conjunct2, unfolded old(4) option.case, THEN conjunct2,
        THEN spec [of _ 5], THEN spec [of _ 0], THEN spec [of _ id]] time by auto
  ultimately show ?thesis by blast
qed

lemma node_token_cannot_heartbeat_witness:
  "\<exists>agents. snd (list_node_agents demo_fleet (node_principal ''n1'' []) ''n1'') = Inr agents
     \<and> claim_lease 0 demo_fleet (node_principal ''n1'' []) ''n1'' = (demo_fleet, Inl (not_found ''node not found''))"
proof -
  have "tw_up demo_fleet" "node_of demo_fleet ''n1'' = Some demo_node"
    "n_owner_subject demo_node \<noteq> ''node:'' @ ''n1''" "unique_key n_id (tw_nodes demo_fleet)"
    by (simp_all add: demo_fleet_def demo_tower_def demo_app_def unique_key_def demo_empty_db_def node_of_def
        lookup_Cons demo_node_def)
  from node_token_cannot_heartbeat [OF this, of 0 "[]"] show ?thesis by force
qed

lemma delete_node_exact_witness:
  "\<exists>s' j. delete_node (\<lambda>_. []) 9 demo_fleet demo_owner ''n1'' False = (s', Inr j) \<and> tw_nodes s' = []
     \<and> node_tokens (tw_app s') = []"
proof -
  let ?run = "delete_node (\<lambda>_. []) 9 demo_fleet demo_owner ''n1'' False"
  have "case snd ?run of Inr _ \<Rightarrow> True | Inl _ \<Rightarrow> False" by code_simp
  then obtain s' j where run: "?run = (s', Inr j)"
    by (cases ?run) (auto split: sum.splits)
  have "tw_nodes s' = filter (\<lambda>n. n_id n \<noteq> ''n1'') (tw_nodes demo_fleet)"
    "node_tokens (tw_app s') = filter (\<lambda>r. jr_subject_id r \<noteq> ''n1'') (node_tokens (tw_app demo_fleet))"
    using delete_node_exact [OF run] by blast+
  then show ?thesis using run by (simp add: demo_fleet_def demo_node_def)
qed

end
