(* ===== verification/Fleet_System.thy ===== *)
theory Fleet_System
  imports Node_Credentials
begin

text \<open>
  The fleet as a system: the locale fleet_handler is the contract of a request of routes/runtime.rs on the tables
  of the fleet (the tables stay well formed, and the rows of every owner but those the request
  may act for are left as they were); it is interpreted for every handler, and the step relation is built of
  the handlers. Isolation of owners then holds in every reachable state.
\<close>

section \<open>Well-formed tables and views\<close>

definition spec_ok :: "tower \<Rightarrow> node_spec_row \<Rightarrow> bool" where
  "spec_ok s x = (sp_id x < tw_spec_seq s \<and>
     (\<exists>n\<in>set (tw_nodes s). n_id n = sp_node_id x \<and> n_owner_subject n = sp_owner_subject x))"

definition token_ok :: "tower \<Rightarrow> join_token_row \<Rightarrow> bool" where
  "token_ok s t = (\<forall>n\<in>set (tw_nodes s). jt_node_id t = Some (n_id n) \<longrightarrow> n_owner_subject n = jt_owner_subject t)"

definition fleet_ok :: "tower \<Rightarrow> bool" where
  "fleet_ok s = (unique_key jt_id (tw_join_tokens s) \<and> unique_key n_id (tw_nodes s) \<and>
     unique_key sp_id (tw_specs s) \<and> unique_key j_id (tw_jobs s) \<and> unique_key l_id (tw_leases s) \<and>
     (\<forall>x\<in>set (tw_specs s). spec_ok s x) \<and> (\<forall>t\<in>set (tw_join_tokens s). token_ok s t))"

text \<open>What a subject owns.\<close>

definition untouched :: "str \<Rightarrow> tower \<Rightarrow> tower \<Rightarrow> bool" where
  "untouched who s s' =
     (filter (\<lambda>t. jt_owner_subject t = who) (tw_join_tokens s') = filter (\<lambda>t. jt_owner_subject t = who) (tw_join_tokens s) \<and>
      filter (\<lambda>n. n_owner_subject n = who) (tw_nodes s') = filter (\<lambda>n. n_owner_subject n = who) (tw_nodes s) \<and>
      filter (\<lambda>x. sp_owner_subject x = who) (tw_specs s') = filter (\<lambda>x. sp_owner_subject x = who) (tw_specs s) \<and>
      filter (\<lambda>j. j_owner_subject j = who) (tw_jobs s') = filter (\<lambda>j. j_owner_subject j = who) (tw_jobs s))"

lemma untouched_refl [simp]: "untouched who s s"
  by (simp add: untouched_def)

text \<open>The parties of a lease: the owner of its job and the owner of its node.\<close>

definition lease_party :: "tower \<Rightarrow> str \<Rightarrow> lease_row \<Rightarrow> bool" where
  "lease_party s who l =
     ((\<exists>j\<in>set (tw_jobs s). j_id j = l_job_id l \<and> j_owner_subject j = who) \<or>
      (\<exists>n\<in>set (tw_nodes s). n_id n = l_node_id l \<and> n_owner_subject n = who))"

definition leases_kept :: "str \<Rightarrow> tower \<Rightarrow> tower \<Rightarrow> bool" where
  "leases_kept who s s' = (\<forall>l\<in>set (tw_leases s). lease_party s who l \<or> l \<in> set (tw_leases s'))"

text \<open>A node id that no row mentions, as a fresh UUID is.\<close>

definition node_fresh :: "str \<Rightarrow> tower \<Rightarrow> bool" where
  "node_fresh i s = (node_of s i = None \<and> (\<forall>t\<in>set (tw_join_tokens s). jt_node_id t \<noteq> Some i))"

locale fleet_handler =
  fixes run :: "tower \<Rightarrow> tower" and acts :: "tower \<Rightarrow> str" and i :: str
  assumes keeps: "fleet_ok s \<Longrightarrow> node_fresh i s \<Longrightarrow> fleet_ok (run s)"
    and respects: "fleet_ok s \<Longrightarrow> node_fresh i s \<Longrightarrow> who \<noteq> acts s \<Longrightarrow> untouched who s (run s)"
    and parties: "fleet_ok s \<Longrightarrow> node_fresh i s \<Longrightarrow> leases_kept (acts s) s (run s)"

section \<open>Writes on owned rows\<close>

lemma filter_insert [simp]: "\<not> P r \<Longrightarrow> filter P (insert_row r t) = filter P t"
  by (simp add: insert_row_def)

lemma filter_update:
  "(\<And>r. r \<in> set t \<Longrightarrow> holds (c r) \<Longrightarrow> \<not> P r \<and> \<not> P (f r)) \<Longrightarrow> filter P (update_where c f t) = filter P t"
  by (induction t) (auto simp: update_where_def)

lemma filter_delete:
  "(\<And>r. r \<in> set t \<Longrightarrow> holds (c r) \<Longrightarrow> \<not> P r) \<Longrightarrow> filter P (delete_where c t) = filter P t"
  by (induction t) (auto simp: delete_where_def)

lemma owned_only:
  assumes "unique_key key t" "fetch_optional (owned_row key owner k who) t = Some r" "q \<in> set t" "key q = k"
  shows "q = r"
proof -
  have "r \<in> set t" "key r = k" using fetch_SomeD [OF assms(2)] by auto
  then show ?thesis using assms(1,3,4) unfolding unique_key_def distinct_map inj_on_def by metis
qed

lemma owned_update:
  assumes "unique_key key t" "fetch_optional (owned_row key owner k who) t = Some r"
    "\<And>r. owner (f r) = owner r" "other \<noteq> who"
  shows "filter (\<lambda>q. owner q = other) (update_where (by_key key k) f t) = filter (\<lambda>q. owner q = other) t"
  using owned_only [OF assms(1,2)] fetch_SomeD [OF assms(2)] assms(3,4) by (intro filter_update) auto

lemma fleet_keys:
  assumes "fleet_ok s"
  shows "unique_key jt_id (tw_join_tokens s)" "unique_key n_id (tw_nodes s)" "unique_key sp_id (tw_specs s)"
    "unique_key j_id (tw_jobs s)" "unique_key l_id (tw_leases s)"
  using assms by (simp_all add: fleet_ok_def)

lemma spec_okD: "fleet_ok s \<Longrightarrow> x \<in> set (tw_specs s) \<Longrightarrow> spec_ok s x"
  by (simp add: fleet_ok_def)

lemma token_okD: "fleet_ok s \<Longrightarrow> t \<in> set (tw_join_tokens s) \<Longrightarrow> token_ok s t"
  by (simp add: fleet_ok_def)

lemma same_leases: "tw_leases s' = tw_leases s \<Longrightarrow> leases_kept who s s'"
  by (simp add: leases_kept_def)

text \<open>What a request that writes one table owes.\<close>

lemma fleet_handlerI:
  assumes "\<And>s. fleet_ok s \<Longrightarrow> node_fresh i s \<Longrightarrow>
     fleet_ok (run s) \<and> (\<forall>who. who \<noteq> acts s \<longrightarrow> untouched who s (run s)) \<and> leases_kept (acts s) s (run s)"
  shows "fleet_handler run acts i"
  using assms by unfold_locales blast+

definition good_write :: "str \<Rightarrow> tower \<Rightarrow> tower \<Rightarrow> bool" where
  "good_write who s s' = (fleet_ok s' \<and> (\<forall>other. other \<noteq> who \<longrightarrow> untouched other s s') \<and> leases_kept who s s')"

lemma good_refl [simp]: "fleet_ok s \<Longrightarrow> good_write who s s"
  by (simp add: good_write_def same_leases)

lemma good_handler: "(\<And>s. fleet_ok s \<Longrightarrow> node_fresh i s \<Longrightarrow> good_write (acts s) s (run s)) \<Longrightarrow> fleet_handler run acts i"
  by (rule fleet_handlerI) (simp add: good_write_def)

lemma good_event [simp]: "good_write who s (log_event n l t p now s') = good_write who s s'"
  by (simp add: good_write_def untouched_def fleet_ok_def spec_ok_def token_ok_def leases_kept_def)

lemma good_cong:
  assumes "good_write who s q" "tw_join_tokens q' = tw_join_tokens q" "tw_nodes q' = tw_nodes q" "tw_specs q' = tw_specs q"
    "tw_spec_seq q' = tw_spec_seq q" "tw_jobs q' = tw_jobs q" "tw_leases q' = tw_leases q"
  shows "good_write who s q'"
  using assms by (simp add: good_write_def fleet_ok_def untouched_def leases_kept_def spec_ok_def token_ok_def)

lemma good_tokens:
  assumes "fleet_ok s" "unique_key jt_id ts" "\<forall>t\<in>set ts. token_ok s t"
    "\<And>other. other \<noteq> who \<Longrightarrow> filter (\<lambda>t. jt_owner_subject t = other) ts = filter (\<lambda>t. jt_owner_subject t = other) (tw_join_tokens s)"
  shows "good_write who s (s\<lparr>tw_join_tokens := ts\<rparr>)"
  using assms by (simp add: good_write_def fleet_ok_def spec_ok_def token_ok_def untouched_def leases_kept_def)

lemma good_node:
  assumes "fleet_ok s" "owned_node s nid who = Some r" "\<And>n. n_id (f n) = n_id n \<and> n_owner_subject (f n) = n_owner_subject n"
  shows "good_write who s (s\<lparr>tw_nodes := update_where (by_key n_id nid) f (tw_nodes s)\<rparr>)"
proof -
  have "unique_key n_id (update_where (by_key n_id nid) f (tw_nodes s))"
    using assms(3) fleet_keys(2) [OF assms(1)] by (intro unique_update_where) auto
  moreover have "spec_ok (s\<lparr>tw_nodes := update_where (by_key n_id nid) f (tw_nodes s)\<rparr>) x" if x: "x \<in> set (tw_specs s)" for x
  proof -
    let ?g = "\<lambda>n. (n_id n, n_owner_subject n)"
    have "map ?g (update_where (by_key n_id nid) f (tw_nodes s)) = map ?g (tw_nodes s)"
      using assms(3) by (intro map_key_update) simp
    then have "?g ` set (update_where (by_key n_id nid) f (tw_nodes s)) = ?g ` set (tw_nodes s)"
      by (metis set_map)
    then have "(sp_node_id x, sp_owner_subject x) \<in> ?g ` set (update_where (by_key n_id nid) f (tw_nodes s))
        \<longleftrightarrow> (sp_node_id x, sp_owner_subject x) \<in> ?g ` set (tw_nodes s)" by (rule arg_cong)
    moreover have "sp_id x < tw_spec_seq s \<and> (sp_node_id x, sp_owner_subject x) \<in> ?g ` set (tw_nodes s)"
      using spec_okD [OF assms(1) x] unfolding spec_ok_def by force
    ultimately show ?thesis unfolding spec_ok_def by force
  qed
  moreover have "token_ok (s\<lparr>tw_nodes := update_where (by_key n_id nid) f (tw_nodes s)\<rparr>) t" if "t \<in> set (tw_join_tokens s)" for t
    using that assms(1,3) by (auto simp: fleet_ok_def token_ok_def update_where_def)
  moreover have "filter (\<lambda>n. n_owner_subject n = other) (update_where (by_key n_id nid) f (tw_nodes s)) =
      filter (\<lambda>n. n_owner_subject n = other) (tw_nodes s)" if "other \<noteq> who" for other
    using owned_update [OF fleet_keys(2) [OF assms(1)] assms(2) [unfolded owned_node_def], of f other] assms(3) that by simp
  ultimately show ?thesis
    using assms(1) by (simp add: good_write_def fleet_ok_def untouched_def leases_kept_def)
qed

lemma good_spec:
  assumes "fleet_ok s" "x \<in> set (tw_specs s)" "sp_owner_subject x = who"
    "\<And>q. sp_id (f q) = sp_id q \<and> sp_node_id (f q) = sp_node_id q \<and> sp_owner_subject (f q) = sp_owner_subject q"
  shows "good_write who s (s\<lparr>tw_specs := update_where (by_key sp_id (sp_id x)) f (tw_specs s)\<rparr>)"
proof -
  have uniq: "q = x" if "q \<in> set (tw_specs s)" "sp_id q = sp_id x" for q
    using that assms(2) fleet_keys(3) [OF assms(1)] unfolding unique_key_def distinct_map inj_on_def by blast
  have "unique_key sp_id (update_where (by_key sp_id (sp_id x)) f (tw_specs s))"
    using assms(4) fleet_keys(3) [OF assms(1)] by (intro unique_update_where) auto
  moreover have "filter (\<lambda>q. sp_owner_subject q = other) (update_where (by_key sp_id (sp_id x)) f (tw_specs s)) =
      filter (\<lambda>q. sp_owner_subject q = other) (tw_specs s)" if "other \<noteq> who" for other
    using uniq that assms(3,4) by (intro filter_update) (metis holds_by_key)
  ultimately show ?thesis
    using assms(1,4) by (auto simp: good_write_def fleet_ok_def untouched_def leases_kept_def spec_ok_def token_ok_def update_where_def)
qed

lemma good_leases:
  assumes "fleet_ok s" "unique_key l_id ls" "\<And>l. l \<in> set (tw_leases s) \<Longrightarrow> \<not> lease_party s who l \<Longrightarrow> l \<in> set ls"
  shows "good_write who s (s\<lparr>tw_leases := ls\<rparr>)"
  using assms by (auto simp: good_write_def fleet_ok_def untouched_def leases_kept_def spec_ok_def token_ok_def)


lemma good_trans:
  assumes "good_write who s s1" "good_write who s1 s2"
    "tw_leases s1 = tw_leases s" "tw_jobs s1 = tw_jobs s" "tw_nodes s1 = tw_nodes s"
  shows "good_write who s s2"
  using assms by (auto simp: good_write_def untouched_def leases_kept_def lease_party_def)

lemma good_ensured:
  assumes "fleet_ok s" "owned_node s nid who = Some node"
  shows "good_write who s (fst (ensure_node_spec dg dump now who node dv uc s))"
    "snd (ensure_node_spec dg dump now who node dv uc s) \<in> set (tw_specs (fst (ensure_node_spec dg dump now who node dv uc s)))"
    "sp_owner_subject (snd (ensure_node_spec dg dump now who node dv uc s)) = who"
proof -
  let ?q = "fetch_optional (owned_row sp_node_id sp_owner_subject (n_id node) who) (tw_specs s)"
  let ?row = "new_spec_row dg dump (tw_spec_seq s) now who node dv uc"
  have node: "node \<in> set (tw_nodes s)" "n_owner_subject node = who"
    using fetch_SomeD [OF assms(2) [unfolded owned_node_def]] by auto
  have "lookup sp_id (tw_spec_seq s) (tw_specs s) = None"
    using assms(1) by (auto simp: fleet_ok_def spec_ok_def lookup_None)
  then have "good_write who s (s\<lparr>tw_specs := insert_row ?row (tw_specs s), tw_spec_seq := Suc (tw_spec_seq s)\<rparr>)"
    using assms(1) node
    by (auto simp: good_write_def fleet_ok_def untouched_def leases_kept_def spec_ok_def token_ok_def new_spec_row_def
        Let_def insert_row_def unique_key_def less_Suc_eq lookup_None)
  then show "good_write who s (fst (ensure_node_spec dg dump now who node dv uc s))"
    using assms(1) by (cases ?q) (simp_all add: ensure_node_spec_def Let_def)
  show "snd (ensure_node_spec dg dump now who node dv uc s) \<in> set (tw_specs (fst (ensure_node_spec dg dump now who node dv uc s)))"
    "sp_owner_subject (snd (ensure_node_spec dg dump now who node dv uc s)) = who"
    by (cases ?q; auto simp: ensure_node_spec_def Let_def insert_row_def new_spec_row_def dest: fetch_SomeD)+
qed

section \<open>The handlers of tokens and nodes\<close>

interpretation created_token: fleet_handler
  "\<lambda>s. fst (create_join_token dg nmax now tid token s p body)" "\<lambda>s. subject p" i for dg nmax now tid token p body i
proof (rule good_handler)
  fix s assume ok: "fleet_ok s"
  have "good_write (subject p) s (s\<lparr>tw_join_tokens := insert_row r (tw_join_tokens s)\<rparr>)"
    if "lookup jt_id tid (tw_join_tokens s) = None" "jt_id r = tid" "jt_owner_subject r = subject p" "jt_node_id r = None" for r
    using ok that by (intro good_tokens unique_insert_row fleet_keys)
      (auto simp: fleet_ok_def token_ok_def insert_row_def)
  then show "good_write (subject p) s (fst (create_join_token dg nmax now tid token s p body))"
    using ok by (auto simp: create_join_token_def Let_def split: option.splits)
qed

interpretation rotated_token: fleet_handler
  "\<lambda>s. fst (rotate_join_token dg now token s p tid)" "\<lambda>s. subject p" i for dg now token p tid i
proof (rule good_handler)
  fix s assume ok: "fleet_ok s"
  have "good_write (subject p) s (s\<lparr>tw_join_tokens := update_where (by_key jt_id tid) (rotate_update h c now) (tw_join_tokens s)\<rparr>)"
    if "fetch_optional (owned_row jt_id jt_owner_subject tid (subject p)) (tw_join_tokens s) = Some r" for r h c
    using ok owned_update [OF fleet_keys(1) [OF ok] that, of "rotate_update h c now"]
    by (intro good_tokens unique_update_where fleet_keys)
      (auto simp: fleet_ok_def token_ok_def update_where_def rotate_update_def)
  then show "good_write (subject p) s (fst (rotate_join_token dg now token s p tid))"
    using ok by (auto simp: rotate_join_token_def update_returning_def Let_def split: option.splits)
qed

interpretation heartbeat: fleet_handler
  "\<lambda>s. fst (heartbeat_node now s p nid body)" "\<lambda>s. subject p" i for now p nid body i
proof (rule good_handler)
  fix s assume ok: "fleet_ok s"
  have "good_write (subject p) s (s\<lparr>tw_nodes := update_where (by_key n_id nid) (node_heartbeat_update now body) (tw_nodes s)\<rparr>)"
    if "owned_node s nid (subject p) = Some r" for r
    using good_node [OF ok that] by (simp add: node_heartbeat_update_def)
  then show "good_write (subject p) s (fst (heartbeat_node now s p nid body))"
    using ok by (auto simp: heartbeat_node_def update_returning_def split: option.splits)
qed

lemma with_spec_good:
  assumes "fleet_ok s"
    "\<And>s1 node x. fleet_ok s1 \<Longrightarrow> x \<in> set (tw_specs s1) \<Longrightarrow> sp_owner_subject x = who \<Longrightarrow> good_write who s1 (fst (k s1 node x))"
  shows "good_write who s (fst (with_spec dg dump now s who nid k))"
proof (cases "owned_node s nid who")
  case (Some node)
  note g = good_ensured [OF assms(1) Some, of dg dump now "[]" "''stable''"]
  let ?e = "ensure_node_spec dg dump now who node [] ''stable'' s"
  have ok: "fleet_ok (fst ?e)" using g(1) by (simp add: good_write_def)
  have "good_write who s (fst (k (fst ?e) node (snd ?e)))"
    by (rule good_trans [OF g(1) assms(2) [OF ok g(2,3)]]) (simp_all add: ensure_node_spec_frame)
  then show ?thesis using assms(1) Some by (simp add: with_spec_def case_prod_beta)
qed (simp add: with_spec_def assms(1))

text \<open>The handlers on a specification share the guard; each writes the row it is given.\<close>

lemma spec_handler:
  assumes "\<And>s1 node x. fleet_ok s1 \<Longrightarrow> x \<in> set (tw_specs s1) \<Longrightarrow> sp_owner_subject x = who \<Longrightarrow> good_write who s1 (fst (k s1 node x))"
  shows "fleet_handler (\<lambda>s. fst (with_spec dg dump now s who nid k)) (\<lambda>s. who) i"
  using with_spec_good assms by (intro good_handler) blast

lemma drain_good:
  assumes "fleet_ok s" "x \<in> set (tw_specs s)" "sp_owner_subject x = who"
  shows "good_write who s (s\<lparr>tw_specs := update_where (by_key sp_id (sp_id x)) (drain_update st now) (tw_specs s)\<rparr>)"
    "good_write who s (s\<lparr>tw_specs := update_where (by_key sp_id (sp_id x)) (reconcile_update rb now) (tw_specs s)\<rparr>)"
  using good_spec [OF assms] by (simp_all add: drain_update_def reconcile_update_def)

interpretation read_config: fleet_handler "\<lambda>s. fst (get_node_config dg dump now s p nid)" "\<lambda>s. subject p" i
  for dg dump now p nid i
  unfolding get_node_config_def by (rule spec_handler) (simp add: Let_def)

interpretation spec_state: fleet_handler "\<lambda>s. fst (mutate_node_spec_state dg dump now s nid who st)" "\<lambda>s. who" i
  for dg dump now nid who st i
  unfolding mutate_node_spec_state_def by (rule spec_handler) (simp add: Let_def drain_good)

interpretation reconciled: fleet_handler "\<lambda>s. fst (reconcile_node dg dump now s p nid body)" "\<lambda>s. subject p" i
  for dg dump now p nid body i
  unfolding reconcile_node_def
  by (rule spec_handler) (auto simp: update_returning_def drain_good split: option.splits)

text \<open>Registration acts for the owner of the join token that was read.\<close>

lemma good_registered:
  assumes ok: "fleet_ok s" and fresh: "node_fresh nid s"
    and tok: "t \<in> set (tw_join_tokens s)" "jt_id t = tid" "jt_owner_subject t = who"
  shows "good_write who s (s\<lparr>tw_nodes := insert_row (new_node_row now nid sec who body) (tw_nodes s),
     tw_join_tokens := update_where (by_key jt_id tid) (use_token now nid) (tw_join_tokens s)\<rparr>)" (is "good_write who s ?s'")
proof -
  have only: "q = t" if "q \<in> set (tw_join_tokens s)" "jt_id q = tid" for q
    using that tok fleet_keys(1) [OF ok] unfolding unique_key_def distinct_map inj_on_def by blast
  have nodes: "unique_key n_id (tw_nodes ?s')"
    using fresh fleet_keys(2) [OF ok] by (auto simp: node_fresh_def node_of_def intro!: unique_insert_row)
  have tokens: "unique_key jt_id (tw_join_tokens ?s')"
    using fleet_keys(1) [OF ok] by (auto intro!: unique_update_where)
  have spec: "spec_ok ?s' x" if "x \<in> set (tw_specs s)" for x
    using spec_okD [OF ok that] by (auto simp: spec_ok_def insert_row_def)
  have new: "n_id n \<noteq> nid" if "n \<in> set (tw_nodes s)" for n
    using fresh that by (auto simp: node_fresh_def node_of_def lookup_None)
  have token: "token_ok ?s' q" if q: "q \<in> set (tw_join_tokens ?s')" for q
  proof -
    obtain r where r: "r \<in> set (tw_join_tokens s)" "q = (if jt_id r = tid then use_token now nid r else r)"
      using q by (auto simp: in_update_where)
    have id: "jt_node_id r \<noteq> Some nid" using fresh r(1) by (simp add: node_fresh_def)
    show ?thesis
    proof (cases "jt_id r = tid")
      case True
      then have "q = use_token now nid t" using r only by simp
      then show ?thesis using new tok(3) by (auto simp: token_ok_def insert_row_def use_token_def)
    next
      case False
      then have "q = r" using r(2) by simp
      then show ?thesis using id token_okD [OF ok r(1)] by (auto simp: token_ok_def insert_row_def)
    qed
  qed
  have "filter (\<lambda>q. jt_owner_subject q = other) (tw_join_tokens ?s') = filter (\<lambda>q. jt_owner_subject q = other) (tw_join_tokens s)"
    if "other \<noteq> who" for other
    using that only tok(3) by (simp, intro filter_update) (metis holds_by_key use_token_key(4))
  then show ?thesis
    using ok nodes tokens spec token
    by (simp add: good_write_def fleet_ok_def untouched_def leases_kept_def spec_ok_def)
qed

lemma register_write_good:
  assumes "fleet_ok s" "node_fresh nid s" "t \<in> set (tw_join_tokens s)" "jt_id t = tid" "jt_owner_subject t = who"
  shows "good_write who s (fst (register_write dg dump enc now iat nid sec jti s body tid who))"
proof -
  let ?n = "new_node_row now nid sec who body"
  let ?s1 = "log_event nid None ''node.registered'' (JObj [(''node_id'', JStr nid), (''node_name'', JStr (nr_node_name body))]) now
     (s\<lparr>tw_nodes := insert_row ?n (tw_nodes s), tw_join_tokens := update_where (by_key jt_id tid) (use_token now nid) (tw_join_tokens s)\<rparr>)"
  let ?s2 = "fst (ensure_node_spec dg dump now who ?n [] ''stable'' ?s1)"
  have g1: "good_write who s ?s1" using good_registered [OF assms] by simp
  have ok1: "fleet_ok ?s1" using g1 by (simp add: good_write_def)
  have "owned_node ?s1 nid who = Some ?n"
    using fleet_keys(2) [OF ok1] find_fence [of n_id "tw_nodes ?s1" "owned_row n_id n_owner_subject nid who" nid]
      assms(2) by (simp add: owned_node_def fetch_optional_def node_fresh_def node_of_def lookup_insert_row)
  note g2 = good_ensured(1) [OF ok1 this, of dg dump now "[]" "''stable''"]
  have "good_write who s ?s2"
    using g1 g2 unfolding good_write_def untouched_def leases_kept_def by (simp add: ensure_node_spec_frame)
  moreover have "good_write who s (insert_node_token j nid now q) = good_write who s q" for j q
    by (simp add: good_write_def untouched_def leases_kept_def fleet_ok_def spec_ok_def token_ok_def insert_node_token_def)
  ultimately show ?thesis
    using assms(1) by (simp add: register_write_def Let_def split: option.splits prod.splits)
qed

interpretation registered: fleet_handler
  "\<lambda>s. fst (register_node dg dump enc now iat i sec jti s body)"
  "\<lambda>s. case active_token dg s (nr_bootstrap_token body) of Some r \<Rightarrow> jt_owner_subject r | None \<Rightarrow> []" i
  for dg dump enc now iat sec jti body i
proof (rule good_handler)
  fix s assume ok: "fleet_ok s" "node_fresh i s"
  show "good_write (case active_token dg s (nr_bootstrap_token body) of Some r \<Rightarrow> jt_owner_subject r | None \<Rightarrow> []) s
     (fst (register_node dg dump enc now iat i sec jti s body))"
  proof (cases "register_check dg now s body")
    case (Inr tw)
    obtain tid who where tw: "tw = (tid, who)" by (cases tw)
    then obtain r where r: "active_token dg s (nr_bootstrap_token body) = Some r" "tid = jt_id r" "who = jt_owner_subject r"
      using Inr register_check_iff [of dg now s body tid who] by auto
    show ?thesis
      using register_write_good [OF ok, of r tid who] active_tokenD [OF r(1)] r Inr tw by (simp add: register_node_def)
  qed (simp add: register_node_def ok)
qed

text \<open>Rotation of a node's token and the read-only handlers write none of the tables.\<close>

interpretation node_rotated: fleet_handler "\<lambda>s. fst (rotate_node_token enc now iat jti s p nid)" "\<lambda>s. subject p" i
  for enc now iat jti p nid i
  by (rule good_handler) (simp add: good_write_def fleet_ok_def untouched_def leases_kept_def spec_ok_def token_ok_def
      rotate_node_token_def revoke_node_tokens_def insert_node_token_def Let_def split: option.splits prod.splits)

text \<open>Deletion acts for the owner of the node, whoever asks.\<close>

lemma delete_tx_good:
  assumes ok: "fleet_ok s" and node: "node_of s nid = Some r"
  shows "good_write (n_owner_subject r) s (fst (delete_tx now s nid cnt))"
proof -
  let ?c = "\<lambda>t. tand (teq (jt_node_id t) (Some nid)) (tbool (jt_status t \<noteq> ''revoked''))"
  let ?f = "\<lambda>t. t\<lparr>jt_status := ''revoked'', jt_updated_at := now\<rparr>"
  have r: "r \<in> set (tw_nodes s)" "n_id r = nid" using node by (auto simp: node_of_def dest: lookup_Some_in)
  have only: "n = r" if "n \<in> set (tw_nodes s)" "n_id n = nid" for n
    using that r fleet_keys(2) [OF ok] unfolding unique_key_def distinct_map inj_on_def by blast
  have tok: "jt_owner_subject t = n_owner_subject r" if "t \<in> set (tw_join_tokens s)" "jt_node_id t = Some nid" for t
    using token_okD [OF ok that(1)] that(2) r by (simp add: token_ok_def)
  have spec: "sp_owner_subject x = n_owner_subject r" if "x \<in> set (tw_specs s)" "sp_node_id x = nid" for x
    using spec_okD [OF ok that(1)] that(2) only by (auto simp: spec_ok_def)
  have frames: "filter (\<lambda>t. jt_owner_subject t = other) (update_where ?c ?f (tw_join_tokens s)) =
        filter (\<lambda>t. jt_owner_subject t = other) (tw_join_tokens s)"
      "filter (\<lambda>n. n_owner_subject n = other) (delete_where (by_key n_id nid) (tw_nodes s)) =
        filter (\<lambda>n. n_owner_subject n = other) (tw_nodes s)"
      "filter (\<lambda>x. sp_owner_subject x = other) (delete_where (by_key sp_node_id nid) (tw_specs s)) =
        filter (\<lambda>x. sp_owner_subject x = other) (tw_specs s)"
    if "other \<noteq> n_owner_subject r" for other
    using that tok spec only by (auto intro!: filter_update filter_delete)
  have kept: "\<exists>n\<in>set (delete_where (by_key n_id nid) (tw_nodes s)). n_id n = sp_node_id x \<and> n_owner_subject n = sp_owner_subject x"
    if x: "x \<in> set (tw_specs s)" "sp_node_id x \<noteq> nid" for x
    using spec_okD [OF ok x(1)] x(2) by (auto simp: spec_ok_def delete_where_def)
  let ?s' = "s\<lparr>tw_join_tokens := update_where ?c ?f (tw_join_tokens s),
      tw_specs := delete_where (by_key sp_node_id nid) (tw_specs s), tw_nodes := delete_where (by_key n_id nid) (tw_nodes s)\<rparr>"
  have ok': "fleet_ok ?s'"
  proof -
    have "unique_key jt_id (tw_join_tokens ?s')" using fleet_keys(1) [OF ok] by (simp add: unique_update_where)
    moreover have "\<forall>x\<in>set (tw_specs ?s'). spec_ok ?s' x"
      using kept spec_okD [OF ok] by (simp add: spec_ok_def) (simp add: delete_where_def)
    moreover have "\<forall>t\<in>set (tw_join_tokens ?s'). token_ok ?s' t"
      using token_okD [OF ok] by (auto simp: token_ok_def update_where_def delete_where_def)
    ultimately show ?thesis using ok by (simp add: fleet_ok_def unique_delete_where)
  qed
  have good: "good_write (n_owner_subject r) s ?s'"
    using ok' frames by (simp add: good_write_def untouched_def leases_kept_def)
  show ?thesis
  proof (cases "snd (delete_tx now s nid cnt)")
    case (Inl e)
    then have "fst (delete_tx now s nid cnt) = s" by (auto simp: delete_tx_def Let_def split: if_splits)
    then show ?thesis using ok by simp
  next
    case (Inr j)
    then show ?thesis by (intro good_cong [OF good]) (auto simp: delete_tx_def Let_def set_db_def invalidate_scope_def split: if_splits)
  qed
qed

interpretation deleted: fleet_handler "\<lambda>s. fst (delete_node show_nat now s p nid force)"
  "\<lambda>s. case node_of s nid of Some r \<Rightarrow> n_owner_subject r | None \<Rightarrow> subject p" i
  for show_nat now p nid force i
proof (rule good_handler)
  fix s assume ok: "fleet_ok s"
  show "good_write (case node_of s nid of Some r \<Rightarrow> n_owner_subject r | None \<Rightarrow> subject p) s
     (fst (delete_node show_nat now s p nid force))"
    using ok delete_tx_good [OF ok, of nid] by (auto simp: delete_node_def delete_check_def Let_def split: option.splits sum.splits)
qed

section \<open>The handlers of jobs and leases\<close>

interpretation created_job: fleet_handler "\<lambda>s. fst (create_job now jid s p body)" "\<lambda>s. subject p" i for now jid p body i
proof (rule good_handler)
  fix s assume ok: "fleet_ok s"
  have "good_write (subject p) s (s\<lparr>tw_jobs := insert_row (new_job_row now jid (subject p) body) (tw_jobs s)\<rparr>)"
    if "lookup j_id jid (tw_jobs s) = None"
    using ok that by (simp add: good_write_def fleet_ok_def untouched_def leases_kept_def spec_ok_def token_ok_def
        unique_insert_row new_job_row_def)
  then show "good_write (subject p) s (fst (create_job now jid s p body))"
    using ok by (simp add: create_job_def Let_def split: sum.splits)
qed

text \<open>A write on one lease of a party.\<close>

lemma good_lease:
  assumes ok: "fleet_ok s" and l: "l \<in> set (tw_leases s)" "lease_party s who l" and f: "\<And>q. l_id (f q) = l_id q"
  shows "good_write who s (s\<lparr>tw_leases := update_where (by_key l_id (l_id l)) f (tw_leases s)\<rparr>)"
proof (rule good_leases [OF ok])
  show "unique_key l_id (update_where (by_key l_id (l_id l)) f (tw_leases s))"
    using f fleet_keys(5) [OF ok] by (rule unique_update_where)
  fix q assume q: "q \<in> set (tw_leases s)" "\<not> lease_party s who q"
  have "l_id q \<noteq> l_id l"
    using q l fleet_keys(5) [OF ok] unfolding unique_key_def distinct_map inj_on_def by blast
  then show "q \<in> set (update_where (by_key l_id (l_id l)) f (tw_leases s))"
    using q(1) by (auto simp: in_update_where intro!: bexI [of _ q])
qed

lemma owned_leaseD:
  assumes "owned_lease s lid who = Some l"
  shows "l \<in> set (tw_leases s)" "l_id l = lid" "lease_party s who l" "\<exists>j\<in>set (tw_jobs s). j_id j = l_job_id l \<and> j_owner_subject j = who"
  using assms by (auto simp: owned_lease_def lease_party_def dest!: find_SomeD)

interpretation created_lease: fleet_handler "\<lambda>s. fst (create_lease now lid s p jid body)" "\<lambda>s. subject p" i
  for now lid p jid body i
proof (rule good_handler)
  fix s assume ok: "fleet_ok s"
  have "good_write (subject p) s (s\<lparr>tw_leases := insert_row r (tw_leases s)\<rparr>)" if "lookup l_id (l_id r) (tw_leases s) = None" for r
    using that fleet_keys(5) [OF ok] by (intro good_leases [OF ok] unique_insert_row) (auto simp: insert_row_def)
  then show "good_write (subject p) s (fst (create_lease now lid s p jid body))"
    using ok by (simp add: create_lease_def Let_def new_lease_row_def)
qed

interpretation status_set: fleet_handler "\<lambda>s. fst (update_lease_status now s p lid body)" "\<lambda>s. subject p" i
  for now p lid body i
proof (rule good_handler)
  fix s assume ok: "fleet_ok s"
  have "good_write (subject p) s (s\<lparr>tw_leases := update_where (by_key l_id lid) (status_update now body) (tw_leases s)\<rparr>)"
    if "owned_lease s lid (subject p) = Some l" for l
    using good_lease [OF ok owned_leaseD(1,3) [OF that], of "status_update now body"] owned_leaseD(2) [OF that]
    by (simp add: status_update_def)
  then show "good_write (subject p) s (fst (update_lease_status now s p lid body))"
    using ok by (auto simp: update_lease_status_def update_returning_def split: option.splits)
qed

interpretation logged: fleet_handler "\<lambda>s. fst (append_lease_logs now s p lid logs)" "\<lambda>s. subject p" i for now p lid logs i
  by (rule good_handler) (simp add: append_lease_logs_def Let_def)

text \<open>claim_lease acts for the owner of the node; the subselect names a pending lease of it.\<close>

lemma claim_pickD:
  assumes "claim_pick s nid = Some k"
  shows "\<exists>l\<in>set (tw_leases s). l_id l = k \<and> l_node_id l = nid \<and> l_status l = ''pending''"
proof -
  let ?c = "\<lambda>r. tand (tbool (l_node_id r = nid)) (tbool (l_status r = ''pending''))"
  show ?thesis
  proof (cases "sort_key l_created_at (select_where ?c (tw_leases s))")
    case (Cons l ls)
    have "l \<in> set (sort_key l_created_at (select_where ?c (tw_leases s)))" unfolding Cons by simp
    then have "l \<in> set (select_where ?c (tw_leases s))" by simp
    then have "l \<in> set (tw_leases s) \<and> l_node_id l = nid \<and> l_status l = ''pending''" by (simp add: select_where_def)
    moreover have "l_id l = k" using assms Cons by (simp add: claim_pick_def)
    ultimately show ?thesis by blast
  qed (use assms in \<open>simp add: claim_pick_def\<close>)
qed

interpretation claimed: fleet_handler "\<lambda>s. fst (claim_lease now s p nid)" "\<lambda>s. subject p" i for now p nid i
proof (rule good_handler)
  fix s assume ok: "fleet_ok s"
  have "good_write (subject p) s (s\<lparr>tw_leases := update_where (\<lambda>r. teq (Some (l_id r)) picked) (claim_mark now) (tw_leases s)\<rparr>)"
    if n: "owned_node s nid (subject p) = Some n" and picked: "picked = claim_pick s nid" for n picked
  proof (cases picked)
    case (Some k)
    obtain l where l: "l \<in> set (tw_leases s)" "l_id l = k" "l_node_id l = nid"
      using claim_pickD [of s nid k] picked Some by auto
    have "lease_party s (subject p) l"
      using fetch_SomeD [OF n [unfolded owned_node_def]] l(3) by (auto simp: lease_party_def)
    then have "good_write (subject p) s (s\<lparr>tw_leases := update_where (by_key l_id (l_id l)) (claim_mark now) (tw_leases s)\<rparr>)"
      using l(1) by (intro good_lease [OF ok]) (simp_all add: claim_mark_def)
    moreover have "update_where (\<lambda>r. teq (Some (l_id r)) picked) (claim_mark now) (tw_leases s) =
        update_where (by_key l_id (l_id l)) (claim_mark now) (tw_leases s)"
      using l(2) Some by (simp add: update_where_def)
    ultimately show ?thesis by simp
  qed (use ok in \<open>simp add: update_where_none\<close>)
  then show "good_write (subject p) s (fst (claim_lease now s p nid))"
    using ok by (auto simp: claim_lease_def claim_take_def update_returning_def split: option.splits)
qed

interpretation completed: fleet_handler "\<lambda>s. fst (complete_lease now s p lid body)" "\<lambda>s. subject p" i for now p lid body i
proof (rule good_handler)
  fix s assume ok: "fleet_ok s"
  let ?ls = "update_where (by_key l_id lid) (complete_lease_update now body) (tw_leases s)"
  let ?f = "\<lambda>j. j\<lparr>j_status := exit_status (lc_exit_code body), j_updated_at := now\<rparr>"
  have "good_write (subject p) s (s\<lparr>tw_leases := ?ls, tw_jobs := update_where (by_key j_id (l_job_id r)) ?f (tw_jobs s)\<rparr>)"
    if o: "owned_lease s lid (subject p) = Some l" and r: "find (\<lambda>r. l_id r = lid) (tw_leases s) = Some r" for l r
  proof -
    note D = owned_leaseD [OF o]
    have "r \<in> set (tw_leases s)" "l_id r = lid" using r by (auto dest: find_SomeD)
    then have "r = l" using D(1,2) fleet_keys(5) [OF ok] unfolding unique_key_def distinct_map inj_on_def by blast
    then have job: "j_owner_subject j = subject p" if "j \<in> set (tw_jobs s)" "j_id j = l_job_id r" for j
      using D(4) that fleet_keys(4) [OF ok] \<open>r = l\<close> unfolding unique_key_def distinct_map inj_on_def by metis
    have g: "good_write (subject p) s (s\<lparr>tw_leases := ?ls\<rparr>)"
      using good_lease [OF ok D(1,3), of "complete_lease_update now body"] D(2) by (simp add: complete_lease_update_def)
    have "unique_key j_id (update_where (by_key j_id (l_job_id r)) ?f (tw_jobs s))"
      using fleet_keys(4) [OF ok] by (intro unique_update_where) auto
    moreover have "filter (\<lambda>j. j_owner_subject j = other) (update_where (by_key j_id (l_job_id r)) ?f (tw_jobs s)) =
        filter (\<lambda>j. j_owner_subject j = other) (tw_jobs s)" if "other \<noteq> subject p" for other
      using job that by (intro filter_update) auto
    ultimately show ?thesis
      using g by (simp add: good_write_def fleet_ok_def untouched_def leases_kept_def spec_ok_def token_ok_def)
  qed
  then show "good_write (subject p) s (fst (complete_lease now s p lid body))"
    using ok by (auto simp: complete_lease_def update_returning_find complete_lease_update_def split: option.splits)
qed

interpretation session_created: fleet_handler "\<lambda>s. fst (create_execution_session now esid px s p body)" "\<lambda>s. subject p" i
  for now esid px p body i
  by (rule good_handler) (simp add: create_execution_session_def Let_def good_cong [OF good_refl])

interpretation session_attached: fleet_handler "\<lambda>s. fst (attach_execution_session now s p esid)" "\<lambda>s. subject p" i
  for now p esid i
  by (rule good_handler) (auto simp: attach_execution_session_def update_returning_def good_cong [OF good_refl] split: option.splits)

section \<open>The system\<close>

context fleet_handler
begin

lemma good: "fleet_ok s \<Longrightarrow> node_fresh i s \<Longrightarrow> good_write (acts s) s (run s)"
  using keeps respects parties by (simp add: good_write_def)

end

lemma some_fresh: "\<exists>i. node_fresh i s"
proof -
  let ?used = "n_id ` set (tw_nodes s) \<union> (\<Union>t\<in>set (tw_join_tokens s). set_option (jt_node_id t))"
  have "finite ?used" by simp
  then obtain i where "i \<notin> ?used" using ex_new_if_finite [OF infinite_UNIV_listI] by blast
  then show ?thesis by (intro exI [of _ i]) (auto simp: node_fresh_def node_of_def lookup_None)
qed

text \<open>One request, with the subject it acts for. A new node has a fresh identifier.\<close>

inductive fleet_step ::
  "(str \<Rightarrow> str) \<Rightarrow> (json \<Rightarrow> str) \<Rightarrow> (payload \<Rightarrow> str option) \<Rightarrow> str \<Rightarrow> tower \<Rightarrow> tower \<Rightarrow> bool"
  for dg dump enc where
  create_join_token: "fleet_step dg dump enc (subject p) s (fst (create_join_token dg nmax now tid token s p tbody))"
| rotate_join_token: "fleet_step dg dump enc (subject p) s (fst (rotate_join_token dg now token s p tid))"
| register_node: "node_fresh i s \<Longrightarrow> who = (case active_token dg s (nr_bootstrap_token body) of Some r \<Rightarrow> jt_owner_subject r | None \<Rightarrow> []) \<Longrightarrow>
    fleet_step dg dump enc who s (fst (register_node dg dump enc now iat i sec jti s body))"
| rotate_node_token: "fleet_step dg dump enc (subject p) s (fst (rotate_node_token enc now iat jti s p nid))"
| heartbeat_node: "fleet_step dg dump enc (subject p) s (fst (heartbeat_node now s p nid hbody))"
| get_node_config: "fleet_step dg dump enc (subject p) s (fst (get_node_config dg dump now s p nid))"
| cordon_node: "fleet_step dg dump enc (subject p) s (fst (cordon_node dg dump now s p nid))"
| drain_node: "fleet_step dg dump enc (subject p) s (fst (drain_node dg dump now s p nid))"
| upgrade_node: "fleet_step dg dump enc (subject p) s (fst (upgrade_node dg dump now s p nid))"
| reconcile_node: "fleet_step dg dump enc (subject p) s (fst (reconcile_node dg dump now s p nid rbody))"
| delete_node: "who = (case node_of s nid of Some r \<Rightarrow> n_owner_subject r | None \<Rightarrow> subject p) \<Longrightarrow>
    fleet_step dg dump enc who s (fst (delete_node show_nat now s p nid force))"
| create_job: "fleet_step dg dump enc (subject p) s (fst (create_job now jid s p jbody))"
| create_lease: "fleet_step dg dump enc (subject p) s (fst (create_lease now lid s p jid lbody))"
| claim_lease: "fleet_step dg dump enc (subject p) s (fst (claim_lease now s p nid))"
| update_lease_status: "fleet_step dg dump enc (subject p) s (fst (update_lease_status now s p lid sbody))"
| complete_lease: "fleet_step dg dump enc (subject p) s (fst (complete_lease now s p lid cbody))"
| append_lease_logs: "fleet_step dg dump enc (subject p) s (fst (append_lease_logs now s p lid logs))"
| create_execution_session: "fleet_step dg dump enc (subject p) s (fst (create_execution_session now esid px s p ebody))"
| attach_execution_session: "fleet_step dg dump enc (subject p) s (fst (attach_execution_session now s p esid))"

lemma step_good: "fleet_step dg dump enc who s s' \<Longrightarrow> fleet_ok s \<Longrightarrow> good_write who s s'"
proof (induction rule: fleet_step.induct)
  case (register_node i s who body now iat sec jti)
  then show ?case using registered.good [OF register_node(3,1)] by simp
next
  case (delete_node who s nid p show_nat now force)
  then show ?case using some_fresh [of s] deleted.good by metis
qed (use some_fresh in \<open>auto simp: cordon_node_def drain_node_def upgrade_node_def
  intro: created_token.good rotated_token.good node_rotated.good heartbeat.good read_config.good spec_state.good
    reconciled.good created_job.good created_lease.good claimed.good status_set.good completed.good logged.good
    session_created.good session_attached.good\<close>)

definition fleet_start :: "tower \<Rightarrow> bool" where
  "fleet_start s = (tw_join_tokens s = [] \<and> tw_nodes s = [] \<and> tw_specs s = [] \<and> tw_jobs s = [] \<and> tw_leases s = [])"

inductive fleet_reachable ::
  "(str \<Rightarrow> str) \<Rightarrow> (json \<Rightarrow> str) \<Rightarrow> (payload \<Rightarrow> str option) \<Rightarrow> tower \<Rightarrow> bool" for dg dump enc where
  start: "fleet_start s \<Longrightarrow> fleet_reachable dg dump enc s"
| step: "fleet_reachable dg dump enc s \<Longrightarrow> fleet_step dg dump enc who s s' \<Longrightarrow> fleet_reachable dg dump enc s'"

text \<open>A run of requests none of which acts for the subject.\<close>

inductive run_of_others ::
  "(str \<Rightarrow> str) \<Rightarrow> (json \<Rightarrow> str) \<Rightarrow> (payload \<Rightarrow> str option) \<Rightarrow> str \<Rightarrow> tower \<Rightarrow> tower \<Rightarrow> bool" for dg dump enc who where
  stop: "run_of_others dg dump enc who s s"
| more: "run_of_others dg dump enc who s s1 \<Longrightarrow> fleet_step dg dump enc other s1 s2 \<Longrightarrow> other \<noteq> who \<Longrightarrow>
    run_of_others dg dump enc who s s2"

lemma reachable_fleet_ok: "fleet_reachable dg dump enc s \<Longrightarrow> fleet_ok s"
  by (induction rule: fleet_reachable.induct)
    (auto simp: fleet_start_def fleet_ok_def unique_key_def dest: step_good simp: good_write_def)

lemma others_frame: "run_of_others dg dump enc who s s' \<Longrightarrow> fleet_ok s \<Longrightarrow> fleet_ok s' \<and> untouched who s s'"
proof (induction rule: run_of_others.induct)
  case (more s s1 other s2)
  then have "good_write other s1 s2" using step_good by blast
  then show ?case using more by (simp add: good_write_def untouched_def)
qed simp

text \<open>C16: owners are isolated from each other. In every reachable state of the fleet the join tokens, nodes,
  specifications and jobs of a subject are the same rows in the same order after any run of requests that do not
  act for that subject, whatever else happens; a registration acts for the owner of the join token it
  presents, the deletion of a node for the node's owner, every other request for its caller. And no request
  touches a lease unless it acts for the owner of the lease's job or of its node.\<close>

theorem fleet_isolation:
  assumes "fleet_reachable dg dump enc s" "run_of_others dg dump enc who s s'"
  shows "untouched who s s' \<and> (\<forall>other s2. fleet_step dg dump enc other s' s2 \<longrightarrow> leases_kept other s' s2)"
proof -
  have ok: "fleet_ok s'" "untouched who s s'"
    using others_frame [OF assms(2) reachable_fleet_ok [OF assms(1)]] by simp_all
  have "leases_kept other s' s2" if "fleet_step dg dump enc other s' s2" for other s2
    using step_good [OF that ok(1)] by (simp add: good_write_def)
  then show ?thesis using ok(2) by blast
qed

section \<open>Witness\<close>

definition demo_subject :: "str \<Rightarrow> principal" where
  "demo_subject name = \<lparr>subject = name, is_admin = False, session_id = Some 1, auth_type = ''session'', domain_scope = []\<rparr>"

definition demo_token_request :: "str \<Rightarrow> str \<Rightarrow> tower \<Rightarrow> tower" where
  "demo_token_request tid name s = fst (create_join_token id 1000000000 1 tid ''secret'' s (demo_subject name)
     \<lparr>jc_expires_in_seconds = 60, jc_upgrade_channel = ''stable'', jc_desired_version = [], jc_config = JObj []\<rparr>)"

lemma demo_token_step: "fleet_step id dump enc name s (demo_token_request tid name s)"
  using fleet_step.create_join_token [of id dump enc "demo_subject name"] by (simp add: demo_token_request_def demo_subject_def)

lemma fleet_isolation_witness:
  "\<exists>(s'::tower). map jt_id (tw_join_tokens s') = [''t1'', ''t2'']
     \<and> map jt_id (filter (\<lambda>t. jt_owner_subject t = ''alice'') (tw_join_tokens s')) = [''t1'']"
proof -
  let ?s0 = "demo_tower\<lparr>tw_join_tokens := []\<rparr>"
  let ?s1 = "demo_token_request ''t1'' ''alice'' ?s0" and ?dump = "\<lambda>_. []" and ?enc = "\<lambda>_. None"
  let ?s2 = "demo_token_request ''t2'' ''bob'' ?s1"
  have r: "fleet_reachable id ?dump ?enc ?s1"
    by (rule fleet_reachable.step [OF fleet_reachable.start demo_token_step]) (simp add: fleet_start_def demo_tower_def)
  have o: "run_of_others id ?dump ?enc ''alice'' ?s1 ?s2"
    by (rule run_of_others.more [OF run_of_others.stop demo_token_step]) simp
  have "map jt_id (filter (\<lambda>t. jt_owner_subject t = ''alice'') (tw_join_tokens ?s1)) = [''t1'']"
    "map jt_id (tw_join_tokens ?s2) = [''t1'', ''t2'']" by code_simp+
  then show ?thesis using fleet_isolation [OF r o] by (intro exI [of _ ?s2]) (simp add: untouched_def)
qed

end
