(* ===== verification/Lease_Properties.thy ===== *)
theory Lease_Properties
  imports Node_Credentials
begin

text \<open>
  The queue of leases of a node: what a sequence of claims hands out, two claims at once, and leases whose job
  and node have different owners.
\<close>

section \<open>Claims one after another\<close>

definition pending_of :: "str \<Rightarrow> lease_row \<Rightarrow> tri" where
  "pending_of nid r = tand (tbool (l_node_id r = nid)) (tbool (l_status r = ''pending''))"

definition pending_leases :: "tower \<Rightarrow> str \<Rightarrow> lease_row list" where
  "pending_leases s nid = sort_key l_created_at (select_where (pending_of nid) (tw_leases s))"

lemma claim_pick_pending: "claim_pick s nid = (case pending_leases s nid of [] \<Rightarrow> None | r # _ \<Rightarrow> Some (l_id r))"
  by (simp add: claim_pick_def pending_leases_def pending_of_def [abs_def])

lemma pending_in: "r \<in> set (pending_leases s nid) \<longleftrightarrow> r \<in> set (tw_leases s) \<and> l_node_id r = nid \<and> l_status r = ''pending''"
  by (simp add: pending_leases_def select_where_def pending_of_def)

lemma pending_distinct: "unique_key l_id (tw_leases s) \<Longrightarrow> distinct (map l_id (pending_leases s nid))"
  by (simp add: pending_leases_def select_where_def unique_key_def distinct_map_filter distinct_map inj_on_def distinct_sort)

text \<open>Marking the picked lease takes it out of the queue and leaves the order of the others.\<close>

lemma pending_marked:
  assumes "unique_key l_id (tw_leases s)" "pending_leases s nid = l # ls"
    "tw_leases s' = update_where (by_key l_id (l_id l)) (claim_mark now) (tw_leases s)"
  shows "pending_leases s' nid = ls"
proof -
  have "select_where (pending_of nid) (update_where (by_key l_id k) (claim_mark now) t) =
      filter (\<lambda>r. l_id r \<noteq> k) (select_where (pending_of nid) t)" for k t
    by (induction t) (auto simp: select_where_def update_where_def pending_of_def claim_mark_def)
  then have "pending_leases s' nid = filter (\<lambda>r. l_id r \<noteq> l_id l) (pending_leases s nid)"
    by (simp add: pending_leases_def assms(3) filter_sort)
  moreover have "l_id r \<noteq> l_id l" if "r \<in> set ls" for r
  proof -
    have "l_id l \<notin> set (map l_id ls)" using pending_distinct [OF assms(1), of nid] unfolding assms(2) by simp
    then show ?thesis using that by (metis in_set_conv_nth length_map nth_map nth_mem)
  qed
  ultimately show ?thesis using assms(2) by simp
qed

lemma find_nothing [simp]: "find (\<lambda>r. False) t = None"
  by (simp add: find_None_iff)

lemma claim_lease_step:
  assumes "tw_up s" "owned_node s nid (subject p) \<noteq> None" "unique_key l_id (tw_leases s)"
  shows "case pending_leases s nid of
           [] \<Rightarrow> claim_lease now s p nid = (s, Inr JNull)
         | l # ls \<Rightarrow> \<exists>s'. claim_lease now s p nid = (s', Inr (row_to_lease (claim_mark now l)))
             \<and> tw_leases s' = update_where (by_key l_id (l_id l)) (claim_mark now) (tw_leases s)
             \<and> tw_app s' = tw_app s \<and> tw_nodes s' = tw_nodes s \<and> tw_jobs s' = tw_jobs s"
proof (cases "pending_leases s nid")
  case Nil
  then show ?thesis using assms
    by (auto simp: claim_lease_def claim_take_def claim_pick_pending update_returning_find)
next
  case (Cons l ls)
  then have l: "l \<in> set (tw_leases s)" using pending_in [of l s nid] by simp
  have "find (\<lambda>r. l_id r = l_id l) (tw_leases s) = Some l"
    using lookup_in_unique [OF assms(3) l] by (simp add: lookup_def fetch_optional_def)
  moreover have "update_where (\<lambda>r. teq (Some (l_id r)) (Some (l_id l))) (claim_mark now) (tw_leases s) =
      update_where (by_key l_id (l_id l)) (claim_mark now) (tw_leases s)"
    by (simp add: update_where_def)
  ultimately show ?thesis using assms(1,2) Cons
    by (simp add: claim_lease_def claim_take_def claim_pick_pending update_returning_find)
qed

fun claim_run :: "time list \<Rightarrow> tower \<Rightarrow> principal \<Rightarrow> str \<Rightarrow> json res list" where
  "claim_run [] s p nid = []"
| "claim_run (now # ts) s p nid = (case claim_lease now s p nid of (s', r) \<Rightarrow> r # claim_run ts s' p nid)"

text \<open>the leases of a node are a queue. A sequence of claims by its owner hands out the leases
  pending for the node, the oldest first, each one once and each marked with the time of its claim; when they
  are used up every further claim answers that there is none.\<close>

theorem claims_drain_queue:
  assumes "tw_up s" "owned_node s nid (subject p) \<noteq> None" "unique_key l_id (tw_leases s)"
  shows "claim_run ts s p nid =
           map (\<lambda>(now, l). Inr (row_to_lease (claim_mark now l))) (zip ts (pending_leases s nid))
           @ replicate (length ts - length (pending_leases s nid)) (Inr JNull)"
  using assms
proof (induction ts arbitrary: s)
  case (Cons now ts)
  note step = claim_lease_step [OF Cons.prems, of now]
  show ?case
  proof (cases "pending_leases s nid")
    case Nil
    then show ?thesis using step Cons.IH [OF Cons.prems] by simp
  next
    case (Cons l ls)
    then obtain s' where s': "claim_lease now s p nid = (s', Inr (row_to_lease (claim_mark now l)))"
        "tw_leases s' = update_where (by_key l_id (l_id l)) (claim_mark now) (tw_leases s)"
        "tw_app s' = tw_app s" "tw_nodes s' = tw_nodes s"
      using step by auto
    have "unique_key l_id (tw_leases s')"
      using Cons.prems(3) unfolding s'(2) by (intro unique_update_where) (simp_all add: claim_mark_def)
    moreover have "owned_node s' nid (subject p) \<noteq> None" using Cons.prems(2) by (simp add: owned_node_def s'(4))
    ultimately have "claim_run ts s' p nid = map (\<lambda>(now, l). Inr (row_to_lease (claim_mark now l))) (zip ts (pending_leases s' nid))
        @ replicate (length ts - length (pending_leases s' nid)) (Inr JNull)"
      using Cons.IH [of s'] Cons.prems(1) s'(3) by simp
    then show ?thesis using pending_marked [OF Cons.prems(3) Cons s'(2)] Cons s'(1) by simp
  qed
qed simp


section \<open>Two claims at once\<close>

lemma claim_take_picked:
  assumes "tw_up s" "unique_key l_id (tw_leases s)" "lookup l_id k (tw_leases s) = Some l"
  shows "\<exists>s'. claim_take now s nid (Some k) = (s', Inr (row_to_lease (claim_mark now l)))
       \<and> tw_leases s' = update_where (by_key l_id k) (claim_mark now) (tw_leases s) \<and> tw_app s' = tw_app s"
proof -
  have "find (\<lambda>r. l_id r = k) (tw_leases s) = Some l"
    using assms(3) by (simp add: lookup_def fetch_optional_def)
  moreover have "update_where (\<lambda>r. teq (Some (l_id r)) (Some k)) (claim_mark now) (tw_leases s) =
      update_where (by_key l_id k) (claim_mark now) (tw_leases s)"
    by (simp add: update_where_def)
  ultimately show ?thesis using assms(1) by (simp add: claim_take_def update_returning_find)
qed

text \<open>one lease can be claimed twice. When the subselects of two claims of a node both read before either
  update is done, both claims succeed with the same lease, and the other pending leases stay pending: the
  outer UPDATE names the lease by its id alone and does not ask whether it still is pending.\<close>

theorem lease_claimed_twice:
  assumes "tw_up s" "unique_key l_id (tw_leases s)" "claim_pick s nid = Some k"
  shows "\<exists>l s1 s2. lookup l_id k (tw_leases s) = Some l \<and> l_status l = ''pending''
       \<and> claim_take t1 s nid (claim_pick s nid) = (s1, Inr (row_to_lease (claim_mark t1 l)))
       \<and> claim_take t2 s1 nid (claim_pick s nid) = (s2, Inr (row_to_lease (claim_mark t2 l)))
       \<and> pending_leases s2 nid = tl (pending_leases s nid)"
proof -
  obtain l ls where q: "pending_leases s nid = l # ls" "k = l_id l"
    using assms(3) by (auto simp: claim_pick_pending split: list.splits)
  have l: "l \<in> set (tw_leases s)" "l_status l = ''pending''" using pending_in [of l s nid] q(1) by simp_all
  have look: "lookup l_id k (tw_leases s) = Some l" using lookup_in_unique [OF assms(2) l(1)] q(2) by simp
  obtain s1 where s1: "claim_take t1 s nid (Some k) = (s1, Inr (row_to_lease (claim_mark t1 l)))"
      "tw_leases s1 = update_where (by_key l_id k) (claim_mark t1) (tw_leases s)" "tw_app s1 = tw_app s"
    using claim_take_picked [OF assms(1,2) look] by blast
  have u: "unique_key l_id (tw_leases s1)"
    using assms(2) unfolding s1(2) by (intro unique_update_where) (simp_all add: claim_mark_def)
  have "lookup l_id k (tw_leases s1) = Some (claim_mark t1 l)"
    using look q(2) by (simp add: s1(2) lookup_update_where claim_mark_def)
  then obtain s2 where s2: "claim_take t2 s1 nid (Some k) = (s2, Inr (row_to_lease (claim_mark t2 (claim_mark t1 l))))"
      "tw_leases s2 = update_where (by_key l_id k) (claim_mark t2) (tw_leases s1)"
    using claim_take_picked [of s1 k "claim_mark t1 l" t2] assms(1) s1(3) u by auto
  have "tw_leases s2 = update_where (by_key l_id k) (claim_mark t2) (tw_leases s)"
    unfolding s2(2) s1(2) by (simp add: update_where_def claim_mark_def)
  then have "pending_leases s2 nid = ls"
    using pending_marked [OF assms(2) q(1), of s2 t2] q(2) by simp
  then show ?thesis
    using look l(2) s1(1) s2(1) q(1) assms(3) by (intro exI [of _ l] exI [of _ s1] exI [of _ s2]) (simp add: claim_mark_def)
qed

section \<open>Whose lease it is\<close>

lemma owned_lease_iff:
  assumes "unique_key l_id (tw_leases s)" "unique_key j_id (tw_jobs s)" "lookup l_id lid (tw_leases s) = Some l"
    "lookup j_id (l_job_id l) (tw_jobs s) = Some j"
  shows "owned_lease s lid who = (if j_owner_subject j = who then Some l else None)"
proof -
  have mem: "l \<in> set (tw_leases s)" "l_id l = lid" "j \<in> set (tw_jobs s)" "j_id j = l_job_id l"
    using assms(3,4) by (auto dest: lookup_Some_in)
  have only: "l' = l" if "l' \<in> set (tw_leases s)" "l_id l' = lid" for l'
    using that mem assms(1) unfolding unique_key_def distinct_map inj_on_def by blast
  have onlyj: "j' = j" if "j' \<in> set (tw_jobs s)" "j_id j' = l_job_id l" for j'
    using that mem assms(2) unfolding unique_key_def distinct_map inj_on_def by metis
  let ?P = "\<lambda>(l, j). j_id j = l_job_id l \<and> l_id l = lid \<and> j_owner_subject j = who"
  show ?thesis
  proof (cases "find ?P (List.product (tw_leases s) (tw_jobs s))")
    case None
    then have "\<not> ?P (l, j)" using mem unfolding find_None_iff by auto
    then show ?thesis using None mem by (simp add: owned_lease_def)
  next
    case (Some x)
    then have "x \<in> set (List.product (tw_leases s) (tw_jobs s))" "?P x" by (auto dest: find_SomeD)
    then show ?thesis using Some only onlyj by (auto simp: owned_lease_def)
  qed
qed

text \<open>a job can be put on the node of another owner, which takes it and cannot report on it. Creating a
  lease asks for the job's owner only and writes any node id; the next claim of that node's owner is handed the
  lease as if it were its own, but its attempts to read it, to set its status, to complete it and to append its
  logs are answered 404 and change nothing, so that no report of the node ever reaches the job.\<close>

theorem foreign_lease_stuck:
  assumes up: "tw_up s" and keys: "unique_key l_id (tw_leases s)" "unique_key j_id (tw_jobs s)"
    and q: "pending_leases s nid = l # ls" and job: "lookup j_id (l_job_id l) (tw_jobs s) = Some j"
    and node: "owned_node s nid (subject p) \<noteq> None" "subject p \<noteq> j_owner_subject j"
  shows "\<exists>s'. claim_lease now s p nid = (s', Inr (row_to_lease (claim_mark now l)))
       \<and> get_lease s' p (l_id l) = (s', Inl (not_found ''lease not found''))
       \<and> (\<forall>t body. update_lease_status t s' p (l_id l) body = (s', Inl (not_found ''lease not found'')))
       \<and> (\<forall>t body. complete_lease t s' p (l_id l) body = (s', Inl (not_found ''lease not found'')))
       \<and> (\<forall>t logs. append_lease_logs t s' p (l_id l) logs = (s', Inl (not_found ''lease not found'')))
       \<and> tw_jobs s' = tw_jobs s"
proof -
  obtain s' where s': "claim_lease now s p nid = (s', Inr (row_to_lease (claim_mark now l)))"
      "tw_leases s' = update_where (by_key l_id (l_id l)) (claim_mark now) (tw_leases s)"
      "tw_app s' = tw_app s" "tw_jobs s' = tw_jobs s"
    using claim_lease_step [OF up node(1) keys(1), of now] q by auto
  have l: "l \<in> set (tw_leases s)" using pending_in [of l s nid] q by simp
  have "lookup l_id (l_id l) (tw_leases s') = Some (claim_mark now l)"
    using lookup_in_unique [OF keys(1) l] by (simp add: s'(2) lookup_update_where claim_mark_def)
  moreover have "unique_key l_id (tw_leases s')"
    using keys(1) unfolding s'(2) by (intro unique_update_where) (simp_all add: claim_mark_def)
  moreover have "l_job_id (claim_mark now l) = l_job_id l" by (simp add: claim_mark_def)
  ultimately have "owned_lease s' (l_id l) (subject p) = None"
    using owned_lease_iff [of s' "l_id l" "claim_mark now l" j "subject p"] keys(2) job node(2) s'(4) by simp
  then show ?thesis using s' up
    by (intro exI [of _ s']) (simp add: get_lease_def update_lease_status_def complete_lease_def append_lease_logs_def)
qed


section \<open>Witnesses\<close>

definition demo_queued_job :: "str \<Rightarrow> str \<Rightarrow> job_row" where
  "demo_queued_job i who = new_job_row 0 i who \<lparr>jb_domain_id = [], jb_task_id = None, jb_runtime_session_id = [],
     jb_runtime_class = ''container'', jb_image = [], jb_command = ''sh'', jb_args = [], jb_env = JObj [], jb_cwd = [],
     jb_mounts = [], jb_artifact_rules = JObj [], jb_timeout_seconds = 60, jb_restart_policy = ''never'',
     jb_required_capabilities = [], jb_preferred_labels = JObj []\<rparr>"

definition demo_queue :: tower where
  "demo_queue = demo_fleet\<lparr>tw_jobs := [demo_queued_job ''j1'' ''bob'', demo_queued_job ''j2'' ''alice''],
     tw_leases := [new_lease_row 7 ''l2'' ''j2'' ''n1'', new_lease_row 3 ''l1'' ''j1'' ''n1'']\<rparr>"

lemma demo_queue_facts:
  "tw_up demo_queue" "owned_node demo_queue ''n1'' (subject demo_owner) \<noteq> None" "unique_key l_id (tw_leases demo_queue)"
  "unique_key j_id (tw_jobs demo_queue)"
  "pending_leases demo_queue ''n1'' = [new_lease_row 3 ''l1'' ''j1'' ''n1'', new_lease_row 7 ''l2'' ''j2'' ''n1'']"
  "lookup j_id ''j1'' (tw_jobs demo_queue) = Some (demo_queued_job ''j1'' ''bob'')"
  by code_simp+

lemma claims_drain_queue_witness:
  "\<exists>a b. claim_run [10, 20, 30] demo_queue demo_owner ''n1'' = [Inr a, Inr b, Inr JNull] \<and> jget ''id'' a = Some (JStr ''l1'')"
  using claims_drain_queue [OF demo_queue_facts(1-3), of "[10, 20, 30]"]
  by (simp add: demo_queue_facts(5) row_to_lease_def new_lease_row_def claim_mark_def numeral_eq_Suc)

lemma lease_claimed_twice_witness:
  "\<exists>(s1::tower) (s2::tower) a b. claim_take 10 demo_queue ''n1'' (Some ''l1'') = (s1, Inr a)
     \<and> claim_take 20 s1 ''n1'' (Some ''l1'') = (s2, Inr b) \<and> length (pending_leases s2 ''n1'') = 1"
proof -
  have pick: "claim_pick demo_queue ''n1'' = Some ''l1''" by code_simp
  obtain l and s1 s2 :: tower where
      "claim_take 10 demo_queue ''n1'' (claim_pick demo_queue ''n1'') = (s1, Inr (row_to_lease (claim_mark 10 l)))"
      "claim_take 20 s1 ''n1'' (claim_pick demo_queue ''n1'') = (s2, Inr (row_to_lease (claim_mark 20 l)))"
      "pending_leases s2 ''n1'' = tl (pending_leases demo_queue ''n1'')"
    using lease_claimed_twice [OF demo_queue_facts(1,3) pick, of 10 20] by blast
  then show ?thesis by (simp add: pick demo_queue_facts(5))
qed

lemma foreign_lease_stuck_witness:
  "\<exists>(s'::tower) a. claim_lease 10 demo_queue demo_owner ''n1'' = (s', Inr a)
     \<and> get_lease s' demo_owner ''l1'' = (s', Inl (not_found ''lease not found''))"
proof -
  have job: "lookup j_id (l_job_id (new_lease_row 3 ''l1'' ''j1'' ''n1'')) (tw_jobs demo_queue) = Some (demo_queued_job ''j1'' ''bob'')"
    and who: "subject demo_owner \<noteq> j_owner_subject (demo_queued_job ''j1'' ''bob'')"
    by code_simp+
  have l: "l_id (new_lease_row 3 ''l1'' ''j1'' ''n1'') = ''l1''" by (simp add: new_lease_row_def)
  from foreign_lease_stuck [OF demo_queue_facts(1,3,4,5) job demo_queue_facts(2) who, of 10]
  show ?thesis unfolding l by blast
qed

end
