(* ===== verification/Fleet_Agents.thy ===== *)
theory Fleet_Agents
  imports Mesh_Agents
begin

text \<open>
  The persistent agents of the control plane (routes/agents.rs, models/agent.rs): registration with its
  home domain, reading, renaming, restarting, moving between domains, and messages. An identifier is a row
  id or a public id. metadata is a text: reading it as JSON and printing it back are arguments, as is
  the printer of the current date.
\<close>

section \<open>Identifiers and views\<close>

datatype agent_ident = IdNum int | PublicId str

definition agent_ident_of :: "str \<Rightarrow> agent_ident" where
  "agent_ident_of v = (case parse_i32 v of Some n \<Rightarrow> IdNum n | None \<Rightarrow> PublicId v)"

definition resolve_id :: "db \<Rightarrow> agent_ident \<Rightarrow> int option res" where
  "resolve_id d ident = (case ident of
     IdNum i \<Rightarrow> Inr (Some i)
   | PublicId pid \<Rightarrow>
       if \<not> db_up d then Inl internal_error
       else Inr (map_option ca_id (fetch_optional
              (\<lambda>r. tand (tbool (ca_public_id r = pid)) (tbool (ca_archived_at r = None))) (control_agents d))))"

definition resolve_agent_or_404 :: "db \<Rightarrow> agent_ident \<Rightarrow> int res" where
  "resolve_agent_or_404 d ident =
     and_then (resolve_id d ident) (\<lambda>x. case x of Some i \<Rightarrow> Inr i | None \<Rightarrow> Inl (not_found ''Agent not found''))"

definition extract_metadata_fields :: "(str \<Rightarrow> json option) \<Rightarrow> str \<Rightarrow> str option \<times> str option" where
  "extract_metadata_fields parse_json metadata =
     (case parse_json metadata of
        None \<Rightarrow> (None, None)
      | Some v \<Rightarrow> (jfield_str ''runtime'' v, jfield_str ''node_id'' v))"

definition agent_json ::
  "(str \<Rightarrow> json option) \<Rightarrow> str option \<Rightarrow> str option \<Rightarrow> control_agent_row \<Rightarrow> json" where
  "agent_json parse_json domain_name runtime_node_id r =
     (case extract_metadata_fields parse_json (ca_metadata r) of (rt, nid) \<Rightarrow> JObj
       [(''id'', JNum (ca_id r)), (''public_id'', JStr (ca_public_id r)), (''name'', JStr (ca_name r)),
        (''capabilities'', JStr (ca_capabilities r)), (''status'', JStr (ca_status r)),
        (''metadata'', JStr (ca_metadata r)), (''home_domain_id'', jopt JStr (ca_home_domain_id r)),
        (''current_domain_id'', jopt JStr (ca_current_domain_id r)), (''domain_name'', jopt JStr domain_name),
        (''runtime'', jopt JStr rt), (''node_id'', jopt JStr nid), (''runtime_node_id'', jopt JStr runtime_node_id),
        (''created_at'', JNum (ca_created_at r)), (''updated_at'', JNum (ca_updated_at r))])"

text \<open>LEFT JOIN domain m ON m.id = a.current_domain_id.\<close>

definition joined_domain_name :: "db \<Rightarrow> control_agent_row \<Rightarrow> str option" where
  "joined_domain_name d r =
     (case ca_current_domain_id r of
        None \<Rightarrow> None | Some k \<Rightarrow> map_option d_name (lookup d_id k (domains d)))"

definition list_agents ::
  "(str \<Rightarrow> json option) \<Rightarrow> tower \<Rightarrow> str option \<Rightarrow> int option \<Rightarrow> bool \<Rightarrow> tower \<times> json res" where
  "list_agents parse_json s status lim include_archived =
     (if \<not> tw_up s then (s, Inl internal_error)
      else (s, and_then (page_desc ca_updated_at lim (select_where (\<lambda>r.
            tand (case status of Some st \<Rightarrow> tbool (ca_status r = st) | None \<Rightarrow> tbool True)
              (tbool (include_archived \<or> ca_archived_at r = None))) (control_agents (tw_db s))))
          (\<lambda>rows. Inr (JList (map (\<lambda>r. agent_json parse_json (joined_domain_name (tw_db s) r) None r) rows)))))"

section \<open>Registration\<close>

record agent_create =
  ac_name :: str
  ac_capabilities :: str
  ac_status :: str
  ac_metadata :: str

definition reregister :: "time \<Rightarrow> agent_create \<Rightarrow> control_agent_row \<Rightarrow> control_agent_row" where
  "reregister now body r =
     r\<lparr>ca_capabilities := ac_capabilities body, ca_status := ac_status body, ca_metadata := ac_metadata body,
       ca_updated_at := now, ca_last_seen_at := Some now, ca_archived_at := None\<rparr>"

text \<open>Up to five redraws of the 48-bit identifier; the last one is used whether or not it is free.\<close>

fun draw_id :: "nat \<Rightarrow> (str \<Rightarrow> bool) \<Rightarrow> (nat \<Rightarrow> str) \<Rightarrow> nat \<Rightarrow> str" where
  "draw_id 0 taken draws i = draws i"
| "draw_id (Suc n) taken draws i = (if taken (draws i) then draw_id n taken draws (Suc i) else draws i)"

definition home_domain_row :: "time \<Rightarrow> str \<Rightarrow> str \<Rightarrow> domain_row" where
  "home_domain_row now domain_id agent_name =
     \<lparr>d_id = domain_id, d_name = agent_name, d_owners = agent_name, d_contributors = [],
      d_visibility = Some ''public'', d_kind = ''work'', d_description = ''Home domain for '' @ agent_name,
      d_tags = [], d_status = ''active'', d_northstar_md = [], d_northstar_version = 1,
      d_northstar_created_by = [], d_northstar_modified_by = [], d_northstar_created_at = None,
      d_northstar_modified_at = None, d_northstar_s3_path = None, d_created_at = now, d_updated_at = now\<rparr>"

definition inbox_mission_row :: "time \<Rightarrow> str \<Rightarrow> str \<Rightarrow> str \<Rightarrow> mission_row" where
  "inbox_mission_row now mission_id domain_id agent_name =
     \<lparr>m_id = mission_id, m_name = ''Inbox'', m_domain_id = Some domain_id,
      m_description = ''Default inbox mission'', m_owners = agent_name, m_contributors = [], m_tags = [],
      m_status = ''active'', m_workstream_md = [], m_workstream_version = 1, m_workstream_created_by = [],
      m_workstream_modified_by = [], m_workstream_created_at = None, m_workstream_modified_at = None,
      m_brief_md = [], m_brief_version = 0, m_brief_created_by = [], m_brief_modified_by = [],
      m_brief_created_at = None, m_brief_modified_at = None, m_brief_s3_path = None,
      m_created_at = now, m_updated_at = now\<rparr>"

text \<open>The transaction: the domain insert skips a taken name, fails on a taken id or blank owners (the CHECK
  of the table); then the inbox mission and both pointers of the agent.\<close>

definition provision_home_domain :: "time \<Rightarrow> (nat \<Rightarrow> str) \<Rightarrow> str \<Rightarrow> int \<Rightarrow> str \<Rightarrow> db \<Rightarrow> db option" where
  "provision_home_domain now draws mission_id agent_id agent_name d =
     (if \<not> db_up d then None
      else
        let candidate = draw_id 5 (\<lambda>k. lookup d_id k (domains d) \<noteq> None) draws 0;
            named = lookup d_name agent_name (domains d) in
        if btrim agent_name = [] \<or> (named = None \<and> lookup d_id candidate (domains d) \<noteq> None)
           \<or> lookup m_id mission_id (missions d) \<noteq> None then None
        else
          let domain_id = (case named of Some r \<Rightarrow> d_id r | None \<Rightarrow> candidate) in
          Some (d\<lparr>domains := (if named = None then insert_row (home_domain_row now candidate agent_name) (domains d)
                              else domains d),
                  missions := insert_row (inbox_mission_row now mission_id domain_id agent_name) (missions d),
                  control_agents := update_where (by_key ca_id agent_id)
                    (\<lambda>r. r\<lparr>ca_home_domain_id := Some domain_id, ca_current_domain_id := Some domain_id\<rparr>)
                    (control_agents d)\<rparr>))"

definition register_identity :: "time \<Rightarrow> int \<Rightarrow> str \<Rightarrow> agent_create \<Rightarrow> db \<Rightarrow> (db \<times> control_agent_row) option" where
  "register_identity now row_id uuid body d =
     (case lookup ca_name (ac_name body) (control_agents d) of
        Some r \<Rightarrow> Some (d\<lparr>control_agents := update_where (by_key ca_name (ac_name body)) (reregister now body)
                         (control_agents d)\<rparr>, reregister now body r)
      | None \<Rightarrow>
          let pid = generate_public_id uuid (ac_name body);
              row = new_identity now row_id pid (ac_name body) (ac_capabilities body) (ac_status body) (ac_metadata body) in
          if lookup ca_id row_id (control_agents d) \<noteq> None \<or> lookup ca_public_id pid (control_agents d) \<noteq> None
          then None
          else Some (d\<lparr>control_agents := insert_row row (control_agents d)\<rparr>, row))"

definition create_agent ::
  "(str \<Rightarrow> json option) \<Rightarrow> time \<Rightarrow> int \<Rightarrow> str \<Rightarrow> (nat \<Rightarrow> str) \<Rightarrow> str \<Rightarrow> tower \<Rightarrow> agent_create \<Rightarrow> tower \<times> json res" where
  "create_agent parse_json now row_id uuid draws mission_id s body =
     (if is_reserved_agent_name (ac_name body) then (s, Inl (conflict ''Reserved agent name''))
      else if \<not> tw_up s then (s, Inl internal_error)
      else case register_identity now row_id uuid body (tw_db s) of
        None \<Rightarrow> (s, Inl internal_error)
      | Some (d, row) \<Rightarrow>
          (case (if ca_home_domain_id row = None
                 then provision_home_domain now draws mission_id (ca_id row) (ac_name body) d else None) of
             Some d' \<Rightarrow>
               (set_db d' s,
                (case lookup ca_id (ca_id row) (control_agents d') of
                   Some r \<Rightarrow> Inr (agent_json parse_json (joined_domain_name d' r) None r)
                 | None \<Rightarrow> Inr (agent_json parse_json None None row)))
           | None \<Rightarrow> (set_db d s, Inr (agent_json parse_json None None row))))"

section \<open>Reading and changing one agent\<close>

definition get_control_agent :: "(str \<Rightarrow> json option) \<Rightarrow> tower \<Rightarrow> agent_ident \<Rightarrow> tower \<times> json res" where
  "get_control_agent parse_json s ident =
     (s, and_then (resolve_agent_or_404 (tw_db s) ident) (\<lambda>i.
        if \<not> tw_up s then Inl internal_error
        else case lookup ca_id i (control_agents (tw_db s)) of
          None \<Rightarrow> Inl (not_found ''Agent not found'')
        | Some r \<Rightarrow> Inr (agent_json parse_json (joined_domain_name (tw_db s) r)
            (case sort_key (\<lambda>a. - a_enrolled_at a) (select_where
                   (\<lambda>a. tand (teq (a_agent_public_id a) (Some (ca_public_id r))) (tbool (a_runtime_node_id a \<noteq> None)))
                   (mesh_agents (tw_db s))) of
               [] \<Rightarrow> None | a # _ \<Rightarrow> a_runtime_node_id a) r)))"

definition with_agent :: "tower \<Rightarrow> principal \<Rightarrow> agent_ident \<Rightarrow> (int \<Rightarrow> tower \<times> json res) \<Rightarrow> tower \<times> json res" where
  "with_agent s p ident k =
     (case and_then (resolve_agent_or_404 (tw_db s) ident)
             (\<lambda>i. and_then (authz_by_control_plane_agent (tw_db s) p i) (\<lambda>_. Inr i)) of
        Inl e \<Rightarrow> (s, Inl e) | Inr i \<Rightarrow> k i)"

definition set_agents :: "control_agent_row table \<Rightarrow> tower \<Rightarrow> tower" where
  "set_agents rs s = set_db ((tw_db s)\<lparr>control_agents := rs\<rparr>) s"

definition delete_control_agent :: "tower \<Rightarrow> principal \<Rightarrow> agent_ident \<Rightarrow> tower \<times> json res" where
  "delete_control_agent s p ident = with_agent s p ident (\<lambda>i.
     if lookup ca_id i (control_agents (tw_db s)) = None then (s, Inl (not_found ''Agent not found''))
     else (set_agents (delete_where (by_key ca_id i) (control_agents (tw_db s))) s, Inr JNull))"

definition write_control_agent ::
  "(str \<Rightarrow> json option) \<Rightarrow> tower \<Rightarrow> int \<Rightarrow> (control_agent_row \<Rightarrow> control_agent_row) \<Rightarrow> tower \<times> json res" where
  "write_control_agent parse_json s i f =
     (case update_returning (by_key ca_id i) f (control_agents (tw_db s)) of
        (rs, Some row) \<Rightarrow> (set_agents rs s, Inr (agent_json parse_json None None row))
      | (rs, None) \<Rightarrow> (s, Inl internal_error))"

definition restart_control_agent ::
  "(str \<Rightarrow> json option) \<Rightarrow> time \<Rightarrow> tower \<Rightarrow> principal \<Rightarrow> agent_ident \<Rightarrow> tower \<times> json res" where
  "restart_control_agent parse_json now s p ident = with_agent s p ident (\<lambda>i.
     let s1 = s\<lparr>tw_agent_sessions := update_where
           (\<lambda>x. tand (tbool (as_agent_row_id x = i)) (tbool (as_ended_at x = None)))
           (\<lambda>x. x\<lparr>as_ended_at := Some now, as_end_reason := Some ''restart_requested''\<rparr>) (tw_agent_sessions s)\<rparr> in
     write_control_agent parse_json s1 i (\<lambda>r. r\<lparr>ca_status := ''offline'', ca_updated_at := now\<rparr>))"

definition cleared_metadata :: "(str \<Rightarrow> json option) \<Rightarrow> (json \<Rightarrow> str) \<Rightarrow> str \<Rightarrow> str \<Rightarrow> str" where
  "cleared_metadata parse_json dump now_iso metadata =
     (let obj = (if metadata = [] then JObj []
                 else case parse_json metadata of Some (JObj fs) \<Rightarrow> JObj fs | _ \<Rightarrow> JObj []) in
      dump (jset ''last_context_clear_at'' (JStr now_iso) obj))"

definition clear_agent_context ::
  "(str \<Rightarrow> json option) \<Rightarrow> (json \<Rightarrow> str) \<Rightarrow> time \<Rightarrow> str \<Rightarrow> tower \<Rightarrow> principal \<Rightarrow> agent_ident \<Rightarrow> tower \<times> json res" where
  "clear_agent_context parse_json dump now now_iso s p ident = with_agent s p ident (\<lambda>i.
     case lookup ca_id i (control_agents (tw_db s)) of
       None \<Rightarrow> (s, Inl (not_found ''Agent not found''))
     | Some r \<Rightarrow> write_control_agent parse_json s i
         (\<lambda>q. q\<lparr>ca_metadata := cleared_metadata parse_json dump now_iso (ca_metadata r), ca_updated_at := now\<rparr>))"

record agent_update =
  au_name :: "str option"
  au_capabilities :: "str option"
  au_status :: "str option"
  au_metadata :: "str option"

definition updated_agent :: "time \<Rightarrow> agent_update \<Rightarrow> control_agent_row \<Rightarrow> control_agent_row \<Rightarrow> control_agent_row" where
  "updated_agent now body r q =
     q\<lparr>ca_name := opt_or (ca_name r) (au_name body),
       ca_capabilities := opt_or (ca_capabilities r) (au_capabilities body),
       ca_status := opt_or (ca_status r) (au_status body),
       ca_metadata := opt_or (ca_metadata r) (au_metadata body), ca_updated_at := now\<rparr>"

text \<open>A name another agent has violates the unique index and is an internal error.\<close>

definition update_control_agent ::
  "(str \<Rightarrow> json option) \<Rightarrow> time \<Rightarrow> tower \<Rightarrow> principal \<Rightarrow> agent_ident \<Rightarrow> agent_update \<Rightarrow> tower \<times> json res" where
  "update_control_agent parse_json now s p ident body = with_agent s p ident (\<lambda>i.
     case lookup ca_id i (control_agents (tw_db s)) of
       None \<Rightarrow> (s, Inl (not_found ''Agent not found''))
     | Some r \<Rightarrow>
         if exists_where (\<lambda>q. tbool (ca_name q = opt_or (ca_name r) (au_name body) \<and> ca_id q \<noteq> i))
              (control_agents (tw_db s))
         then (s, Inl internal_error)
         else write_control_agent parse_json s i (updated_agent now body r))"

section \<open>Moving between domains\<close>

definition attach_domain ::
  "(str \<Rightarrow> json option) \<Rightarrow> time \<Rightarrow> tower \<Rightarrow> principal \<Rightarrow> agent_ident \<Rightarrow> str option \<Rightarrow> tower \<times> json res" where
  "attach_domain parse_json now s p ident domain_id =
     (case resolve_agent_or_404 (tw_db s) ident of
        Inl e \<Rightarrow> (s, Inl e)
      | Inr i \<Rightarrow>
      if \<not> is_admin p \<and> \<not> is_self_control_plane_agent (tw_db s) p i then
        (s, Inl (forbidden ''only an admin or the agent itself may change its domain''))
      else case (case domain_id of
              Some mid \<Rightarrow> if domain_exists (tw_db s) mid then Inr (Some mid) else Inl (not_found ''Domain not found'')
            | None \<Rightarrow> Inr (if tw_up s then (case lookup ca_id i (control_agents (tw_db s)) of
                              Some r \<Rightarrow> ca_home_domain_id r | None \<Rightarrow> None) else None)) of
        Inl e \<Rightarrow> (s, Inl e)
      | Inr new_current \<Rightarrow>
          if \<not> tw_up s then (s, Inl internal_error)
          else case lookup ca_id i (control_agents (tw_db s)) of
            None \<Rightarrow> (s, Inl (not_found ''Agent not found''))
          | Some r \<Rightarrow>
              let r' = r\<lparr>ca_current_domain_id := new_current, ca_updated_at := now\<rparr>;
                  s' = set_agents (update_where (by_key ca_id i)
                         (\<lambda>r. r\<lparr>ca_current_domain_id := new_current, ca_updated_at := now\<rparr>) (control_agents (tw_db s))) s in
              (s', Inr (agent_json parse_json (joined_domain_name (tw_db s') r') None r')))"

section \<open>Messages\<close>

definition message_json :: "agent_message_row \<Rightarrow> json" where
  "message_json m = JObj
     [(''id'', JNum (am_id m)), (''from_agent_id'', JNum (am_from_agent_id m)), (''to_agent_id'', JNum (am_to_agent_id m)),
      (''content'', JStr (am_content m)), (''message_type'', JStr (am_message_type m)),
      (''task_id'', jopt JStr (am_task_id m)), (''read'', JBool (am_read m)), (''created_at'', JNum (am_created_at m))]"

record message_send =
  ms_to_agent_id :: agent_ident
  ms_content :: str
  ms_message_type :: str
  ms_task_id :: "str option"

definition send_agent_message ::
  "time \<Rightarrow> int \<Rightarrow> tower \<Rightarrow> principal \<Rightarrow> agent_ident \<Rightarrow> message_send \<Rightarrow> tower \<times> json res" where
  "send_agent_message now row_id s p from_ident body = with_agent s p from_ident (\<lambda>from_id.
     case resolve_id (tw_db s) (ms_to_agent_id body) of
       Inl e \<Rightarrow> (s, Inl e)
     | Inr None \<Rightarrow> (s, Inl (not_found ''Recipient agent not found''))
     | Inr (Some to_id) \<Rightarrow>
         if lookup am_id row_id (agent_messages (tw_db s)) \<noteq> None then (s, Inl internal_error)
         else let m = \<lparr>am_id = row_id, am_from_agent_id = from_id, am_to_agent_id = to_id, am_content = ms_content body,
                       am_message_type = ms_message_type body, am_task_id = ms_task_id body, am_read = False,
                       am_created_at = now\<rparr> in
           (set_db ((tw_db s)\<lparr>agent_messages := insert_row m (agent_messages (tw_db s))\<rparr>) s, Inr (message_json m)))"

definition list_agent_messages ::
  "tower \<Rightarrow> principal \<Rightarrow> agent_ident \<Rightarrow> int option \<Rightarrow> int option \<Rightarrow> tower \<times> json res" where
  "list_agent_messages s p ident lim since_id = with_agent s p ident (\<lambda>i.
     let n = min (opt_or 50 lim) 200 in
     if n < 0 then (s, Inl internal_error)
     else (s, Inr (JList (map message_json (take (nat n) (sort_key am_id (select_where
            (\<lambda>m. tand (tbool (am_from_agent_id m = i \<or> am_to_agent_id m = i)) (tbool (am_id m > opt_or 0 since_id)))
            (agent_messages (tw_db s)))))))))"

end
