(* ===== verification/Agent_Identity.thy ===== *)
theory Agent_Identity
  imports Node_Credentials Fleet_Agents
begin

text \<open>
  What enrolling an agent gives, whom the identity link of an agent lets act, and what the ways of removing an
  agent do to its tokens.
\<close>

section \<open>Agent tokens\<close>

definition agent_principal :: "str \<Rightarrow> str \<Rightarrow> principal" where
  "agent_principal agent_id domain_id = \<lparr>subject = ''agent:'' @ agent_id, is_admin = False, session_id = None,
     auth_type = ''agent'', domain_scope = [domain_id]\<rparr>"

definition claims_for_agent :: "str \<Rightarrow> str \<Rightarrow> str \<Rightarrow> int \<Rightarrow> agent_claims" where
  "claims_for_agent agent_id domain_id jti iat = \<lparr>ac_sub = ''agent:'' @ agent_id, ac_agent_id = agent_id,
     ac_domain_id = domain_id, ac_jti = jti, ac_iat = iat, ac_exp = iat + AGENT_TTL_HOURS * 3600\<rparr>"

lemma agent_claims_not_node_claims: "read_node_claims (agent_payload c) = None"
  by (simp add: read_node_claims_def agent_payload_def only_fields_def)

lemma agent_token_principal:
  assumes "jd token = Some (agent_payload (claims_for_agent aid did jti iat))" "compact_jwt token" "db_up (app_db st)"
  shows "snd (principal_of_token jd dg st now inst token) =
           (if jwt_row_live (agent_tokens st) jti now then Inr (agent_principal aid did) else Inl unauthenticated)"
  using assms by (simp add: principal_of_token_def compact_jwt_def jwt_principal_def verify_node_jwt_def
      agent_claims_not_node_claims agent_jwt_principal_def verify_agent_jwt_def claims_for_agent_def agent_principal_def)

definition agent_token_row :: "time \<Rightarrow> str \<Rightarrow> str \<Rightarrow> jwt_row" where
  "agent_token_row now jti aid = \<lparr>jr_jti = jti, jr_subject_id = aid, jr_revoked = False,
     jr_expires_at = now + secs (AGENT_TTL_HOURS * 3600)\<rparr>"

lemma issue_agent_token_iff:
  "issue_agent_token enc now iat jti s aid did = Some (s', token) \<longleftrightarrow>
     enc (agent_payload (claims_for_agent aid did jti iat)) = Some token \<and> tw_up s \<and>
     lookup jr_jti jti (agent_tokens (tw_app s)) = None \<and>
     s' = s\<lparr>tw_app := (tw_app s)\<lparr>agent_tokens := insert_row (agent_token_row now jti aid) (agent_tokens (tw_app s))\<rparr>\<rparr>"
proof -
  have "sign_agent_jwt enc iat jti aid did AGENT_TTL_HOURS =
      map_option (\<lambda>t. (t, jti)) (enc (agent_payload (claims_for_agent aid did jti iat)))"
    by (simp add: sign_agent_jwt_def claims_for_agent_def)
  then show ?thesis
    by (cases "enc (agent_payload (claims_for_agent aid did jti iat))")
      (auto simp: issue_agent_token_def agent_token_row_def)
qed

section \<open>Enrolment\<close>

lemma upsert_frame:
  assumes "upsert_agent_by_name err now row_id uuid name caps d = Inr (d', pid)" "unique_key ca_name (control_agents d)"
  shows "mesh_agents d' = mesh_agents d \<and> domains d' = domains d \<and> db_up d' = db_up d \<and> db_up d
       \<and> (\<exists>r. lookup ca_name name (control_agents d') = Some r \<and> ca_public_id r = pid)
       \<and> (\<forall>k. k \<noteq> name \<longrightarrow> lookup ca_name k (control_agents d') = lookup ca_name k (control_agents d))"
proof -
  have other: "map_option (\<lambda>r. if ca_name r = name then refresh_identity now caps r else r)
      (lookup ca_name k (control_agents d)) = lookup ca_name k (control_agents d)" if "k \<noteq> name" for k
    using that by (cases "lookup ca_name k (control_agents d)") (auto dest: lookup_Some_in)
  have key: "ca_name (refresh_identity now caps r) = ca_name r" "ca_public_id (refresh_identity now caps r) = ca_public_id r" for r
    by (simp_all add: refresh_identity_def)
  show ?thesis
  proof (cases "lookup ca_name name (control_agents d)")
    case None
    then show ?thesis using assms(1)
      by (auto simp: upsert_agent_by_name_def Let_def lookup_insert_row new_identity_def split: if_splits option.splits)
  next
    case (Some r)
    then show ?thesis using assms(1) other key
      by (auto simp: upsert_agent_by_name_def lookup_update_where split: if_splits dest: lookup_Some_in)
  qed
qed

lemma link_identity_frame:
  assumes "link_identity err dump now row_id uuid nm caps d = Inr (d', pid)" "unique_key ca_name (control_agents d)" "db_up d"
  shows "mesh_agents d' = mesh_agents d \<and> domains d' = domains d \<and> db_up d'
       \<and> (\<forall>q. pid = Some q \<longrightarrow> (\<exists>n r. nm = Some n \<and> lookup ca_name (trim n) (control_agents d') = Some r \<and> ca_public_id r = q))
       \<and> (\<forall>k. map_option trim nm \<noteq> Some k \<longrightarrow> lookup ca_name k (control_agents d') = lookup ca_name k (control_agents d))"
proof (cases "d' = d \<and> pid = None")
  case False
  then obtain n q where n: "nm = Some n" "pid = Some q"
      "upsert_agent_by_name err now row_id uuid (trim n) (dump (strs caps)) d = Inr (d', q)"
    using assms(1) by (auto simp: link_identity_def split: option.splits if_splits sum.splits)
  from upsert_frame [OF n(3) assms(2)] show ?thesis using n(1,2) by auto
qed (use assms(3) in simp)

text \<open>An agent on record is live in the tower: the frame of the writes after the insert.\<close>

lemma enrol_tail:
  "tw_nodes (invalidate_both a b s) = tw_nodes s" "app_db (tw_app (invalidate_both a b s)) = app_db (tw_app s)"
  "agent_tokens (tw_app (invalidate_both a b s)) = agent_tokens (tw_app s)"
  by (simp_all add: invalidate_both_def Let_def split: option.splits)

lemma is_obj_agent: "is_obj (row_to_agent a)"
  by (simp add: is_obj_def row_to_agent_def)


section \<open>The identity of another agent\<close>

lemma enrol_succeeds:
  assumes "tw_up s" "member (tw_db s) p did" "ae_runtime_node_id body = None"
    "link_identity err dump now row_id uuid (ae_agent_name body) (ae_capabilities body) (tw_db s) = Inr (d, pid)"
    "db_up d" "lookup a_id aid (mesh_agents d) = None"
    "enc (agent_payload (claims_for_agent aid did jti iat)) = Some token" "lookup jr_jti jti (agent_tokens (tw_app s)) = None"
  shows "\<exists>s' resp. enroll_agent err dump enc now iat aid row_id uuid jti s p did body = (s', Inr resp)
       \<and> jget ''agent_token'' resp = Some (JStr token)
       \<and> tw_db s' = d\<lparr>mesh_agents := insert_row (new_mesh_agent now aid did (subject p) body None pid) (mesh_agents d)\<rparr>
       \<and> agent_tokens (tw_app s') = insert_row (agent_token_row now jti aid) (agent_tokens (tw_app s))"
proof -
  let ?row = "new_mesh_agent now aid did (subject p) body None pid"
  define s2 where "s2 = set_db (d\<lparr>mesh_agents := insert_row ?row (mesh_agents d)\<rparr>) (set_db d s)"
  define s3 where "s3 = invalidate_both (ae_node_id body) None s2"
  have g: "domain_exists (tw_db s) did" "authz_domain (tw_db s) p did = Inr ()"
    using assms(1,2) by (auto simp: domain_exists_def member_def authz_domain_ok)
  have ins: "insert_mesh_agent ?row (set_db d s) = Some s2"
    using assms(3,5,6) by (simp add: insert_mesh_agent_def s2_def new_mesh_agent_def)
  have s3: "tw_db s3 = d\<lparr>mesh_agents := insert_row ?row (mesh_agents d)\<rparr>" "agent_tokens (tw_app s3) = agent_tokens (tw_app s)"
    by (simp_all add: s3_def enrol_tail s2_def)
  obtain s5 where i: "issue_agent_token enc now iat jti s3 aid did = Some (s5, token)" "tw_db s5 = tw_db s3"
      "agent_tokens (tw_app s5) = insert_row (agent_token_row now jti aid) (agent_tokens (tw_app s))"
    using assms(5,7,8) s3 by (simp add: issue_agent_token_iff)
  have "enroll_agent err dump enc now iat aid row_id uuid jti s p did body =
      (s5, Inr (jset ''agent_token'' (JStr token) (row_to_agent ?row)))"
    using i(1) unfolding s3_def
    by (simp only: enroll_agent_def Let_def g assms(3,4) ins enroll_node_guard_def not_True_eq_False if_False sum.case
        prod.case option.case)
  then show ?thesis using i(2,3) s3(1) by (simp add: is_obj_agent)
qed

lemma self_by_link:
  assumes "db_up d" "lookup a_id aid (mesh_agents d) = Some a" "a_agent_public_id a = Some (ca_public_id r)"
    "lookup ca_id i (control_agents d) = Some r"
  shows "is_self_control_plane_agent d (agent_principal aid did) i"
  using assms by (simp add: is_self_control_plane_agent_def agent_principal_def subject_id_of_def)

lemma attach_by_self:
  assumes "tw_up s" "is_self_control_plane_agent (tw_db s) q i" "domain_exists (tw_db s) did"
    "lookup ca_id i (control_agents (tw_db s)) = Some r"
  shows "\<exists>s' ans. attach_domain pj t s q (IdNum i) (Some did) = (s', Inr ans)
       \<and> domains (tw_db s') = domains (tw_db s) \<and> tw_up s'
       \<and> lookup ca_id i (control_agents (tw_db s')) = Some (r\<lparr>ca_current_domain_id := Some did, ca_updated_at := t\<rparr>)"
  using assms by (simp add: attach_domain_def resolve_agent_or_404_def resolve_id_def and_then_def Let_def set_agents_def
      lookup_update_where) (use lookup_Some_in [OF assms(4)] in simp)

text \<open>C19: whoever may enrol an agent may take over any persistent agent. Enrolling with the name of an
  existing agent, in a domain of the caller's own, links the new agent to that one's identity without
  asking anybody; the token in the answer then counts as the agent itself and moves it into the caller's
  domain, after which the caller passes the guard of the agent's handlers, and deletes it, for instance.\<close>

theorem identity_takeover:
  assumes jwt: "\<And>q t. enc q = Some t \<Longrightarrow> jd t = Some q \<and> compact_jwt t"
    and victim: "lookup ca_name nm (control_agents (tw_db s)) = Some v" "unique_key ca_id (control_agents (tw_db s))"
    and nm: "trim nm = nm" "nm \<noteq> []" "\<not> is_reserved_agent_name nm"
    and caller: "tw_up s" "member (tw_db s) p did"
    and body: "ae_agent_name body = Some nm" "ae_runtime_node_id body = None"
    and fresh: "lookup a_id aid (mesh_agents (tw_db s)) = None" "lookup jr_jti jti (agent_tokens (tw_app s)) = None"
    and signs: "enc (agent_payload (claims_for_agent aid did jti iat)) = Some token"
  shows "\<exists>(s1::tower) resp (s2::tower) ans (s3::tower).
           enroll_agent err dump enc now iat aid row_id uuid jti s p did body = (s1, Inr resp)
         \<and> jget ''agent_token'' resp = Some (JStr token)
         \<and> snd (principal_of_token jd dg (tw_app s1) now i token) = Inr (agent_principal aid did)
         \<and> attach_domain pj t s1 (agent_principal aid did) (IdNum (ca_id v)) (Some did) = (s2, Inr ans)
         \<and> delete_control_agent s2 p (IdNum (ca_id v)) = (s3, Inr JNull)
         \<and> lookup ca_id (ca_id v) (control_agents (tw_db s3)) = None"
proof -
  let ?caps = "dump (strs (ae_capabilities body))"
  define r where "r = refresh_identity now ?caps v"
  define d where "d = (tw_db s)\<lparr>control_agents := update_where (by_key ca_name nm) (refresh_identity now ?caps) (control_agents (tw_db s))\<rparr>"
  have v: "v \<in> set (control_agents (tw_db s))" "ca_name v = nm" using victim(1) by (auto dest: lookup_Some_in)
  have link: "link_identity err dump now row_id uuid (ae_agent_name body) (ae_capabilities body) (tw_db s) = Inr (d, Some (ca_public_id v))"
    using victim(1) nm caller(1) body(1) by (simp add: link_identity_def upsert_agent_by_name_def d_def)
  obtain s1 resp where s1: "enroll_agent err dump enc now iat aid row_id uuid jti s p did body = (s1, Inr resp)"
      "jget ''agent_token'' resp = Some (JStr token)"
      "tw_db s1 = d\<lparr>mesh_agents := insert_row (new_mesh_agent now aid did (subject p) body None (Some (ca_public_id v))) (mesh_agents d)\<rparr>"
      "agent_tokens (tw_app s1) = insert_row (agent_token_row now jti aid) (agent_tokens (tw_app s))"
    using enrol_succeeds [where enc = enc and jti = jti and iat = iat, OF caller body(2) link _ _ signs fresh(2)] caller(1) fresh(1)
    by (auto simp: d_def)
  have up1: "tw_up s1" using s1(3) caller(1) by (simp add: d_def)
  have ca1: "lookup ca_id (ca_id v) (control_agents (tw_db s1)) = Some r"
    using lookup_in_unique [OF victim(2) v(1)] v(2)
    by (simp add: s1(3) d_def r_def lookup_update_where refresh_identity_def)
  have pub: "ca_public_id r = ca_public_id v" by (simp add: r_def refresh_identity_def)
  have "lookup a_id aid (mesh_agents (tw_db s1)) = Some (new_mesh_agent now aid did (subject p) body None (Some (ca_public_id v)))"
    using fresh(1) by (simp add: s1(3) d_def lookup_insert_row new_mesh_agent_def)
  then have self: "is_self_control_plane_agent (tw_db s1) (agent_principal aid did) (ca_id v)"
    using self_by_link [OF up1 _ _ ca1] pub by (simp add: new_mesh_agent_def)
  have dom1: "domain_exists (tw_db s1) did" and mem1: "member (tw_db s1) p did"
    using caller by (auto simp: domain_exists_def member_def s1(3) d_def)
  obtain s2 ans where s2: "attach_domain pj t s1 (agent_principal aid did) (IdNum (ca_id v)) (Some did) = (s2, Inr ans)"
      "tw_up s2" "domains (tw_db s2) = domains (tw_db s1)"
      "lookup ca_id (ca_id v) (control_agents (tw_db s2)) = Some (r\<lparr>ca_current_domain_id := Some did, ca_updated_at := t\<rparr>)"
    using attach_by_self [OF up1 self dom1 ca1, of pj t] by blast
  have "member (tw_db s2) p did" using mem1 s2(3) by (simp add: member_def)
  have auth: "authz_by_control_plane_agent (tw_db s2) p (ca_id v) = Inr ()"
    unfolding authz_by_control_plane_agent_def by_control.guard_ok using \<open>member (tw_db s2) p did\<close> s2(2,4) by (simp add: control_agent_domain_query_def)
  have gone: "lookup ca_id k (delete_where (by_key ca_id k) t) = None" for k t
    by (auto simp: lookup_None delete_where_def)
  have "\<exists>s3. delete_control_agent s2 p (IdNum (ca_id v)) = (s3, Inr JNull) \<and> lookup ca_id (ca_id v) (control_agents (tw_db s3)) = None"
    using auth s2(4) gone by (simp add: delete_control_agent_def with_agent_def resolve_agent_or_404_def resolve_id_def
        and_then_def set_agents_def)
  moreover have "snd (principal_of_token jd dg (tw_app s1) now i token) = Inr (agent_principal aid did)"
  proof -
    have "jwt_row_live (agent_tokens (tw_app s1)) jti now"
      using jwt_live_insert [of "agent_token_row now jti aid" "agent_tokens (tw_app s)" now] fresh(2)
      by (simp add: s1(4) agent_token_row_def AGENT_TTL_HOURS_def secs_def)
    then show ?thesis
      using agent_token_principal [of jd token aid did jti iat "tw_app s1" dg now i] jwt [OF signs] up1 by simp
  qed
  ultimately show ?thesis using s1 s2(1) by blast
qed

section \<open>Tokens of removed agents\<close>

lemma removed_agent: "lookup a_id aid (delete_where (by_key a_id aid) t) = None"
  by (auto simp: lookup_None delete_where_def)

lemma invalidate_both_frame:
  "app_db (tw_app (revoke_agent_tokens aid s)) = app_db (tw_app s)"
  "agent_tokens (tw_app (revoke_agent_tokens aid s)) =
     update_where (by_key jr_subject_id aid) (\<lambda>r. r\<lparr>jr_revoked := True\<rparr>) (agent_tokens (tw_app s))"
  "agent_tokens (tw_app (remove_agent aid s)) = agent_tokens (tw_app s)"
  "app_db (tw_app (remove_agent aid s)) =
     (tw_db s)\<lparr>mesh_agents := delete_where (by_key a_id aid) (mesh_agents (tw_db s))\<rparr>"
  by (simp_all add: revoke_agent_tokens_def remove_agent_def)

text \<open>an agent taken off its node keeps its token. Of the two ways to remove an agent, delete_mesh_agent
  revokes its tokens, so each of them is refused from then on; revoke_node_agent deletes the row of the agent
  and leaves every token as live as it was: the bearer goes on as that agent, with the scope of its domain.\<close>

theorem revoked_agent_keeps_token:
  assumes token: "jd token = Some (agent_payload (claims_for_agent aid did jti iat))" "compact_jwt token"
    and row: "unique_key jr_jti (agent_tokens (tw_app s))"
      "lookup jr_jti jti (agent_tokens (tw_app s)) = Some r" "jr_subject_id r = aid"
    and live: "jwt_row_live (agent_tokens (tw_app s)) jti t"
  shows "(delete_mesh_agent s p aid = (s1, Inr j1) \<longrightarrow> lookup a_id aid (mesh_agents (tw_db s1)) = None \<and>
            snd (principal_of_token jd dg (tw_app s1) t i token) = Inl unauthenticated)
       \<and> (revoke_node_agent s q nid aid = (s2, Inr j2) \<longrightarrow> lookup a_id aid (mesh_agents (tw_db s2)) = None \<and>
            snd (principal_of_token jd dg (tw_app s2) t i token) = Inr (agent_principal aid did))"
proof (intro conjI impI)
  assume run: "delete_mesh_agent s p aid = (s1, Inr j1)"
  then have up: "tw_up s" by (simp add: delete_mesh_agent_def split: if_splits)
  have "tw_db s1 = (tw_db s)\<lparr>mesh_agents := delete_where (by_key a_id aid) (mesh_agents (tw_db s))\<rparr> \<and>
      agent_tokens (tw_app s1) = update_where (by_key jr_subject_id aid) (\<lambda>r. r\<lparr>jr_revoked := True\<rparr>) (agent_tokens (tw_app s))"
    using run by (auto simp: delete_mesh_agent_def Let_def invalidate_both_frame enrol_tail
        split: if_splits option.splits sum.splits)
  then have d: "tw_db s1 = (tw_db s)\<lparr>mesh_agents := delete_where (by_key a_id aid) (mesh_agents (tw_db s))\<rparr>"
    and tk: "agent_tokens (tw_app s1) = update_where (by_key jr_subject_id aid) (\<lambda>r. r\<lparr>jr_revoked := True\<rparr>) (agent_tokens (tw_app s))"
    by simp_all
  have "\<not> jwt_row_live (agent_tokens (tw_app s1)) jti t"
    using row by (subst jwt_live_iff) (simp_all add: tk unique_update_where lookup_update_where)
  then show "snd (principal_of_token jd dg (tw_app s1) t i token) = Inl unauthenticated"
    using agent_token_principal [where jd = jd and token = token and aid = aid and did = did and jti = jti and iat = iat, OF token, of "tw_app s1" dg t i] up d by simp
  show "lookup a_id aid (mesh_agents (tw_db s1)) = None" by (simp add: d removed_agent)
next
  assume run: "revoke_node_agent s q nid aid = (s2, Inr j2)"
  then have up: "tw_up s" by (auto simp: revoke_node_agent_def require_node_owner_def split: if_splits)
  have d: "tw_db s2 = (tw_db s)\<lparr>mesh_agents := delete_where (by_key a_id aid) (mesh_agents (tw_db s))\<rparr>"
    "agent_tokens (tw_app s2) = agent_tokens (tw_app s)"
    using run by (auto simp: revoke_node_agent_def invalidate_both_frame split: sum.splits option.splits)
  show "snd (principal_of_token jd dg (tw_app s2) t i token) = Inr (agent_principal aid did)"
    using agent_token_principal [where jd = jd and token = token and aid = aid and did = did and jti = jti and iat = iat, OF token, of "tw_app s2" dg t i] up d live by simp
  show "lookup a_id aid (mesh_agents (tw_db s2)) = None" by (simp add: d removed_agent)
qed

section \<open>An agent on a foreign node\<close>

lemma enrol_nodes:
  "enroll_agent err dump enc now iat aid row_id uuid jti s p did body = (s', x) \<Longrightarrow> tw_nodes s' = tw_nodes s"
  by (auto simp: enroll_agent_def Let_def insert_mesh_agent_def issue_agent_token_iff enrol_tail
      split: if_splits sum.splits option.splits)

text \<open>an agent can be put on anybody's node. The guard of enroll_agent looks at runtime_node_id; the legacy
  node_id of the request is written unchecked. A member of any domain can so enrol an agent that the owner
  of a node, and the node, are then told to run, and that keeps the owner from deleting the node.\<close>

theorem agent_on_foreign_node:
  assumes node: "tw_up s" "node_of s nid = Some r" "n_owner_subject r \<noteq> subject p"
    and caller: "member (tw_db s) p did"
    and body: "ae_agent_name body = None" "ae_runtime_node_id body = None" "ae_node_id body = Some nid"
    and fresh: "lookup a_id aid (mesh_agents (tw_db s)) = None" "lookup jr_jti jti (agent_tokens (tw_app s)) = None"
    and signs: "enc (agent_payload (claims_for_agent aid did jti iat)) = Some token"
  shows "\<exists>(s1::tower) resp a. enroll_agent err dump enc now iat aid row_id uuid jti s p did body = (s1, Inr resp)
       \<and> a \<in> set (node_agent_rows (tw_db s1) nid) \<and> a_id a = aid \<and> node_agent_json (tw_db s1) a \<noteq> None
       \<and> (\<forall>q sn t. subject q = n_owner_subject r \<longrightarrow> (\<exists>e. delete_node sn t s1 q nid False = (s1, Inl e) \<and> status_code e = 409))"
proof -
  let ?a = "new_mesh_agent now aid did (subject p) body None None"
  have link: "link_identity err dump now row_id uuid (ae_agent_name body) (ae_capabilities body) (tw_db s) = Inr (tw_db s, None)"
    using body(1) by (simp add: link_identity_def)
  obtain s1 resp where s1: "enroll_agent err dump enc now iat aid row_id uuid jti s p did body = (s1, Inr resp)"
      "tw_db s1 = (tw_db s)\<lparr>mesh_agents := insert_row ?a (mesh_agents (tw_db s))\<rparr>"
    using enrol_succeeds [where enc = enc and jti = jti and iat = iat, OF node(1) caller body(2) link node(1) fresh(1) signs fresh(2)]
    by blast
  have nodes: "tw_nodes s1 = tw_nodes s"
    using s1(1) by (rule enrol_nodes)
  have on: "holds (on_node nid ?a)" using body(3) by (simp add: on_node_def new_mesh_agent_def)
  then have rows: "?a \<in> set (node_agent_rows (tw_db s1) nid)"
    by (simp add: node_agent_rows_def s1(2) select_where_def insert_row_def)
  obtain m where "lookup d_id did (domains (tw_db s)) = Some m" using caller by (auto simp: member_def)
  then have json: "node_agent_json (tw_db s1) ?a \<noteq> None"
    by (simp add: node_agent_json_def s1(2) new_mesh_agent_def)
  have "\<exists>e. delete_node sn t s1 q nid False = (s1, Inl e) \<and> status_code e = 409" if "subject q = n_owner_subject r" for q sn t
  proof -
    have "select_where (on_node nid) (mesh_agents (tw_db s1)) \<noteq> []"
      using on by (simp add: s1(2) select_where_def insert_row_def)
    moreover have "node_of s1 nid = Some r" "tw_up s1" using node(1,2) nodes s1(2) by (simp_all add: node_of_def)
    ultimately show ?thesis using that by (simp add: delete_node_def delete_check_def Let_def conflict_def deny_def)
  qed
  then show ?thesis using s1(1) rows json by (intro exI [of _ s1] exI [of _ resp] exI [of _ ?a]) (simp add: new_mesh_agent_def)
qed

section \<open>Witnesses\<close>

text \<open>A JWT library that knows one agent token.\<close>

definition demo_agent_payload :: payload where
  "demo_agent_payload = agent_payload (claims_for_agent ''a9'' ''d9'' ''j9'' 0)"

definition demo_agent_enc :: "payload \<Rightarrow> str option" where
  "demo_agent_enc q = (if q = demo_agent_payload then Some ''a.9.b'' else None)"

definition demo_agent_dec :: "str \<Rightarrow> payload option" where
  "demo_agent_dec t = (if t = ''a.9.b'' then Some demo_agent_payload else None)"

lemma demo_agent_jwt: "demo_agent_enc q = Some t \<Longrightarrow> demo_agent_dec t = Some q \<and> compact_jwt t"
  by (auto simp: demo_agent_enc_def demo_agent_dec_def compact_jwt_def split: if_splits)

definition demo_mallory :: principal where
  "demo_mallory = \<lparr>subject = ''mallory'', is_admin = False, session_id = Some 2, auth_type = ''session'', domain_scope = []\<rparr>"

definition demo_victim :: control_agent_row where
  "demo_victim = (new_identity 0 7 ''planner-1'' ''planner'' [] ''online'' ''{}'')
     \<lparr>ca_home_domain_id := Some ''d1'', ca_current_domain_id := Some ''d1''\<rparr>"

definition demo_people :: tower where
  "demo_people = set_db (demo_empty_db\<lparr>control_agents := [demo_victim],
     domains := [sample_domain ''d1'' ''ops'' ''alice'' [] None, sample_domain ''d9'' ''mine'' ''mallory'' [] None]\<rparr>)
     demo_fleet"

definition demo_enrol :: "str option \<Rightarrow> str option \<Rightarrow> agent_enroll" where
  "demo_enrol name node = \<lparr>ae_runtime_kind = ''x'', ae_runtime_version = [], ae_capabilities = [], ae_labels = JObj [],
     ae_node_id = node, ae_runtime_node_id = None, ae_profile = None, ae_machine = None, ae_runtime = None,
     ae_agent_name = name\<rparr>"

lemma demo_people_facts:
  "tw_up demo_people" "unique_key ca_name (control_agents (tw_db demo_people))"
  "unique_key ca_id (control_agents (tw_db demo_people))"
  "lookup ca_name ''planner'' (control_agents (tw_db demo_people)) = Some demo_victim"
  "lookup a_id ''a9'' (mesh_agents (tw_db demo_people)) = None"
  "lookup jr_jti ''j9'' (agent_tokens (tw_app demo_people)) = None"
  "node_of demo_people ''n1'' = Some demo_node"
  by code_simp+

lemma demo_member: "member (tw_db demo_people) demo_mallory ''d9''"
proof -
  have "authz_domain (tw_db demo_people) demo_mallory ''d9'' = Inr ()" by code_simp
  then show ?thesis using authz_domain_ok by blast
qed

lemma demo_signs: "demo_agent_enc (agent_payload (claims_for_agent ''a9'' ''d9'' ''j9'' 0)) = Some ''a.9.b''"
  by (simp add: demo_agent_enc_def demo_agent_payload_def)


lemma identity_takeover_witness:
  "\<exists>(s3::tower) s2. delete_control_agent s2 demo_mallory (IdNum 7) = (s3, Inr JNull) \<and> lookup ca_id 7 (control_agents (tw_db s3)) = None"
proof -
  have nm: "trim ''planner'' = ''planner''" "''planner'' \<noteq> []" "\<not> is_reserved_agent_name ''planner''" by code_simp+
  have body: "ae_agent_name (demo_enrol (Some ''planner'') None) = Some ''planner''"
    "ae_runtime_node_id (demo_enrol (Some ''planner'') None) = None" by (simp_all add: demo_enrol_def)
  have id: "ca_id demo_victim = 7" by code_simp
  from identity_takeover [where jd = demo_agent_dec and enc = demo_agent_enc and aid = "''a9''" and did = "''d9''"
      and jti = "''j9''" and iat = 0 and err = "[]" and dump = "\<lambda>_. []" and now = 5 and row_id = 8 and uuid = "''u''" and dg = id
      and i = 0 and pj = "\<lambda>_. None" and t = 6, OF demo_agent_jwt demo_people_facts(4,3) nm demo_people_facts(1) demo_member
      body demo_people_facts(5,6) demo_signs]
  show ?thesis unfolding id by blast
qed


definition demo_staff :: tower where
  "demo_staff = demo_people\<lparr>tw_app := (tw_app demo_people)\<lparr>
     app_db := (tw_db demo_people)\<lparr>mesh_agents := [new_mesh_agent 0 ''a9'' ''d9'' ''mallory'' (demo_enrol None (Some ''n1'')) None None]\<rparr>,
     agent_tokens := [agent_token_row 0 ''j9'' ''a9'']\<rparr>\<rparr>"

lemma revoked_agent_keeps_token_witness:
  "\<exists>(s2::tower). mesh_agents (tw_db s2) = []
     \<and> snd (principal_of_token demo_agent_dec id (tw_app s2) 60 0 ''a.9.b'') = Inr (agent_principal ''a9'' ''d9'')"
proof -
  have token: "demo_agent_dec ''a.9.b'' = Some (agent_payload (claims_for_agent ''a9'' ''d9'' ''j9'' 0))" "compact_jwt ''a.9.b''"
    by (simp_all add: demo_agent_dec_def demo_agent_payload_def compact_jwt_def)
  have rows: "unique_key jr_jti (agent_tokens (tw_app demo_staff))"
    "lookup jr_jti ''j9'' (agent_tokens (tw_app demo_staff)) = Some (agent_token_row 0 ''j9'' ''a9'')"
    "jr_subject_id (agent_token_row 0 ''j9'' ''a9'') = ''a9''" "jwt_row_live (agent_tokens (tw_app demo_staff)) ''j9'' 60"
    by code_simp+
  let ?run = "revoke_node_agent demo_staff demo_owner ''n1'' ''a9''"
  have "snd ?run = Inr JNull \<and> mesh_agents (tw_db (fst ?run)) = []" by code_simp
  then obtain s2 where run: "?run = (s2, Inr JNull)" and gone: "mesh_agents (tw_db s2) = []" by (cases ?run) auto
  have "snd (principal_of_token demo_agent_dec id (tw_app s2) 60 0 ''a.9.b'') = Inr (agent_principal ''a9'' ''d9'')"
    using revoked_agent_keeps_token [where jd = demo_agent_dec and aid = "''a9''" and did = "''d9''" and jti = "''j9''" and iat = 0
        and s = demo_staff and t = 60 and q = demo_owner and nid = "''n1''" and ?s2.0 = s2 and ?j2.0 = JNull and dg = id and i = 0,
        OF token rows] run by blast
  then show ?thesis using gone by (intro exI [of _ s2] conjI)
qed

lemma agent_on_foreign_node_witness:
  "\<exists>(s1::tower) e. delete_node (\<lambda>_. []) 9 s1 demo_owner ''n1'' False = (s1, Inl e) \<and> status_code e = 409"
proof -
  have who: "n_owner_subject demo_node \<noteq> subject demo_mallory" "subject demo_owner = n_owner_subject demo_node" by code_simp+
  have body: "ae_agent_name (demo_enrol None (Some ''n1'')) = None" "ae_runtime_node_id (demo_enrol None (Some ''n1'')) = None"
    "ae_node_id (demo_enrol None (Some ''n1'')) = Some ''n1''" by (simp_all add: demo_enrol_def)
  from agent_on_foreign_node [where enc = demo_agent_enc and aid = "''a9''" and did = "''d9''" and jti = "''j9''" and iat = 0
      and err = "[]" and dump = "\<lambda>_. []" and now = 5 and row_id = 8 and uuid = "''u''",
      OF demo_people_facts(1,7) who(1) demo_member body demo_people_facts(5,6) demo_signs]
  show ?thesis using who(2) by blast
qed

end
