(* ===== verification/Domains.thy ===== *)
theory Domains
  imports Fleet_Agents
begin

text \<open>
  Domains and missions (routes/domains.rs, routes/missions.rs, models/domain.rs, models/mission.rs): creation, reading,
  change, deletion, the transfer of ownership and the two documents with their version. update_domain reads the
  row, merges the request into it and writes every column back: its halves are update_domain_read and
  update_domain_write. The agent table is the only one with foreign keys to a domain. visibility is NOT NULL
  in the schema.
\<close>

section \<open>Domains\<close>

definition unprocessable :: "str \<Rightarrow> deny" where
  "unprocessable msg = deny 422 msg"

definition can_read :: "domain_row \<Rightarrow> principal \<Rightarrow> bool" where
  "can_read r p = (to_lowercase (opt_or [] (d_visibility r)) = ''public'' \<or> authorized_for_domain r p)"

definition can_write :: "domain_row \<Rightarrow> principal \<Rightarrow> bool" where
  "can_write r p = authorized_for_domain r p"

definition can_own :: "domain_row \<Rightarrow> principal \<Rightarrow> bool" where
  "can_own r p = (is_admin p \<or> to_lowercase (subject p) \<in> set (split_csv (d_owners r)))"

definition domain_json :: "domain_row \<Rightarrow> json" where
  "domain_json r = JObj
     [(''id'', JStr (d_id r)), (''name'', JStr (d_name r)), (''description'', JStr (d_description r)),
      (''owners'', JStr (d_owners r)), (''contributors'', JStr (d_contributors r)), (''tags'', JStr (d_tags r)),
      (''visibility'', JStr (opt_or [] (d_visibility r))), (''status'', JStr (d_status r)),
      (''northstar_md'', JStr (d_northstar_md r)), (''northstar_version'', JNum (d_northstar_version r)),
      (''northstar_created_by'', JStr (d_northstar_created_by r)),
      (''northstar_modified_by'', JStr (d_northstar_modified_by r)),
      (''northstar_created_at'', jopt JNum (d_northstar_created_at r)),
      (''northstar_modified_at'', jopt JNum (d_northstar_modified_at r)),
      (''northstar_s3_path'', jopt JStr (d_northstar_s3_path r)),
      (''created_at'', JNum (d_created_at r)), (''updated_at'', JNum (d_updated_at r))]"

text \<open>The page is cut before the rows the caller may not read are dropped.\<close>

definition list_domains :: "db \<Rightarrow> principal \<Rightarrow> int option \<Rightarrow> json res" where
  "list_domains d p lim =
     (if \<not> db_up d then Inl internal_error
      else and_then (page_desc d_updated_at lim (domains d))
             (\<lambda>rows. Inr (JList (map domain_json (filter (\<lambda>r. can_read r p) rows)))))"

record domain_create =
  dc_name :: str
  dc_description :: str
  dc_owners :: str
  dc_contributors :: str
  dc_tags :: str
  dc_visibility :: str
  dc_status :: str

definition default_owners :: "principal \<Rightarrow> str \<Rightarrow> str" where
  "default_owners p owners = (if trim owners = [] then subject p else owners)"

definition new_domain_row :: "time \<Rightarrow> str \<Rightarrow> str \<Rightarrow> domain_create \<Rightarrow> domain_row" where
  "new_domain_row now domain_id owners body =
     \<lparr>d_id = domain_id, d_name = trim (dc_name body), d_owners = owners, d_contributors = dc_contributors body,
      d_visibility = Some (dc_visibility body), d_kind = ''work'', d_description = dc_description body,
      d_tags = dc_tags body, d_status = dc_status body, d_northstar_md = [], d_northstar_version = 1,
      d_northstar_created_by = [], d_northstar_modified_by = [], d_northstar_created_at = None,
      d_northstar_modified_at = None, d_northstar_s3_path = None, d_created_at = now, d_updated_at = now\<rparr>"

text \<open>A violated unique index, of the id or of the name, is answered 409; the CHECK on owners 500.\<close>

definition create_domain ::
  "(nat \<Rightarrow> str) \<Rightarrow> time \<Rightarrow> db \<Rightarrow> principal \<Rightarrow> domain_create \<Rightarrow> db \<times> json res" where
  "create_domain draws now d p body =
     (if trim (dc_name body) = [] then (d, Inl (unprocessable ''name is required''))
      else let owners = default_owners p (dc_owners body) in
        if split_csv owners = [] then (d, Inl (unprocessable ''owners must include at least one owner''))
        else let i = draw_id 5 (\<lambda>k. db_up d \<and> lookup d_id k (domains d) \<noteq> None) draws 0;
                 row = new_domain_row now i owners body in
          if \<not> db_up d \<or> btrim owners = [] then (d, Inl internal_error)
          else if lookup d_id i (domains d) \<noteq> None \<or> lookup d_name (d_name row) (domains d) \<noteq> None
          then (d, Inl (conflict ''Domain name already exists''))
          else (d\<lparr>domains := insert_row row (domains d)\<rparr>, Inr (domain_json row)))"

definition fetch_domain :: "db \<Rightarrow> str \<Rightarrow> domain_row res" where
  "fetch_domain d domain_id =
     (if \<not> db_up d then Inl internal_error
      else case lookup d_id domain_id (domains d) of
        None \<Rightarrow> Inl (not_found ''Domain not found'') | Some r \<Rightarrow> Inr r)"

definition get_domain :: "db \<Rightarrow> principal \<Rightarrow> str \<Rightarrow> json res" where
  "get_domain d p domain_id = and_then (fetch_domain d domain_id) (\<lambda>r.
     if can_read r p then Inr (domain_json r) else Inl (forbidden []))"

record domain_update =
  du_description :: "str option"
  du_owners :: "str option"
  du_contributors :: "str option"
  du_tags :: "str option"
  du_visibility :: "str option"
  du_status :: "str option"

text \<open>The columns of the UPDATE statement, all of them bound from the row read before.\<close>

definition merged :: "domain_row \<Rightarrow> domain_update \<Rightarrow> domain_row \<Rightarrow> domain_row" where
  "merged seen body r =
     r\<lparr>d_description := opt_or (d_description seen) (du_description body), d_owners := opt_or (d_owners seen) (du_owners body),
       d_contributors := opt_or (d_contributors seen) (du_contributors body), d_tags := opt_or (d_tags seen) (du_tags body),
       d_visibility := Some (opt_or (opt_or [] (d_visibility seen)) (du_visibility body)),
       d_status := opt_or (d_status seen) (du_status body)\<rparr>"

definition update_domain_read :: "db \<Rightarrow> principal \<Rightarrow> str \<Rightarrow> domain_update \<Rightarrow> domain_row res" where
  "update_domain_read d p domain_id body = and_then (fetch_domain d domain_id) (\<lambda>r.
     if \<not> can_write r p then Inl (forbidden [])
     else if split_csv (opt_or (d_owners r) (du_owners body)) = []
     then Inl (unprocessable ''owners must include at least one owner'')
     else Inr r)"

definition update_domain_write :: "time \<Rightarrow> db \<Rightarrow> str \<Rightarrow> domain_row \<Rightarrow> domain_update \<Rightarrow> db \<times> json res" where
  "update_domain_write now d domain_id seen body =
     (if \<not> db_up d \<or> btrim (opt_or (d_owners seen) (du_owners body)) = [] then (d, Inl internal_error)
      else case update_returning (by_key d_id domain_id) (\<lambda>r. (merged seen body r)\<lparr>d_updated_at := now\<rparr>) (domains d) of
        (rs, None) \<Rightarrow> (d, Inl internal_error)
      | (rs, Some row) \<Rightarrow> (d\<lparr>domains := rs\<rparr>, Inr (domain_json row)))"

definition update_domain :: "time \<Rightarrow> db \<Rightarrow> principal \<Rightarrow> str \<Rightarrow> domain_update \<Rightarrow> db \<times> json res" where
  "update_domain now d p domain_id body =
     (case update_domain_read d p domain_id body of
        Inl e \<Rightarrow> (d, Inl e) | Inr seen \<Rightarrow> update_domain_write now d domain_id seen body)"

text \<open>DELETE FROM domain fails while an agent points to the domain; the answer does not depend on it.\<close>

definition domain_referenced :: "db \<Rightarrow> str \<Rightarrow> bool" where
  "domain_referenced d domain_id = exists_where (\<lambda>a. tor (teq (ca_home_domain_id a) (Some domain_id))
     (teq (ca_current_domain_id a) (Some domain_id))) (control_agents d)"

definition deleted_answer :: "str \<Rightarrow> json" where
  "deleted_answer i = JObj [(''ok'', JBool True), (''deleted_id'', JStr i)]"

definition delete_domain :: "db \<Rightarrow> principal \<Rightarrow> str \<Rightarrow> db \<times> json res" where
  "delete_domain d p domain_id =
     (case fetch_domain d domain_id of
        Inl e \<Rightarrow> (d, Inl e)
      | Inr r \<Rightarrow>
          if \<not> can_own r p then (d, Inl (forbidden []))
          else if exists_where (\<lambda>m. teq (m_domain_id m) (Some domain_id)) (missions d)
          then (d, Inl (conflict ''Domain has linked missions; move or delete missions first''))
          else (if domain_referenced d domain_id then d
                else d\<lparr>domains := delete_where (by_key d_id domain_id) (domains d)\<rparr>,
                Inr (deleted_answer domain_id)))"

definition transfer_owner :: "time \<Rightarrow> db \<Rightarrow> principal \<Rightarrow> str \<Rightarrow> json \<Rightarrow> db \<times> json res" where
  "transfer_owner now d p domain_id body =
     (if \<not> is_admin p then (d, Inl (forbidden ''admin required''))
      else case jfield_str ''new_owner'' body of
        None \<Rightarrow> (d, Inl (unprocessable ''new_owner is required''))
      | Some new_owner \<Rightarrow>
          if new_owner = [] then (d, Inl (unprocessable ''new_owner is required''))
          else if \<not> db_up d then (d, Inl internal_error)
          else if lookup d_id domain_id (domains d) \<noteq> None \<and> btrim new_owner = [] then (d, Inl internal_error)
          else case update_returning (by_key d_id domain_id) (\<lambda>r. r\<lparr>d_owners := new_owner, d_updated_at := now\<rparr>) (domains d) of
            (rs, None) \<Rightarrow> (d, Inl (not_found ''Domain not found''))
          | (rs, Some row) \<Rightarrow> (d\<lparr>domains := rs\<rparr>, Inr (domain_json row)))"

section \<open>The northstar document\<close>

definition document_json :: "str \<Rightarrow> int \<Rightarrow> str \<Rightarrow> time option \<Rightarrow> json" where
  "document_json content version modified_by modified_at =
     JObj [(''content'', JStr content), (''version'', JNum version), (''modified_by'', JStr modified_by),
           (''modified_at'', jopt JNum modified_at)]"

definition northstar_json :: "domain_row \<Rightarrow> json" where
  "northstar_json r = document_json (d_northstar_md r) (d_northstar_version r) (d_northstar_modified_by r) (d_northstar_modified_at r)"

definition get_domain_northstar :: "db \<Rightarrow> principal \<Rightarrow> str \<Rightarrow> json res" where
  "get_domain_northstar d p domain_id = and_then (fetch_domain d domain_id) (\<lambda>r.
     if can_read r p then Inr (northstar_json r) else Inl (forbidden []))"

definition northstar_update :: "time \<Rightarrow> str \<Rightarrow> str \<Rightarrow> domain_row \<Rightarrow> domain_row" where
  "northstar_update now content who r =
     r\<lparr>d_northstar_md := content, d_northstar_version := d_northstar_version r + 1, d_northstar_modified_by := who,
       d_northstar_modified_at := Some now, d_updated_at := now\<rparr>"

definition max_i32 :: int where "max_i32 = 2 ^ 31 - 1"

text \<open>integer + 1 is an error of the database above 2^31 - 1.\<close>

definition put_domain_northstar :: "time \<Rightarrow> db \<Rightarrow> principal \<Rightarrow> str \<Rightarrow> str \<Rightarrow> db \<times> json res" where
  "put_domain_northstar now d p domain_id content =
     (case fetch_domain d domain_id of
        Inl e \<Rightarrow> (d, Inl e)
      | Inr r \<Rightarrow>
          if \<not> can_write r p then (d, Inl (forbidden []))
          else if d_northstar_version r + 1 > max_i32 then (d, Inl internal_error)
          else case update_returning (by_key d_id domain_id) (northstar_update now content (subject p)) (domains d) of
            (rs, None) \<Rightarrow> (d, Inl (not_found ''Domain not found''))
          | (rs, Some row) \<Rightarrow> (d\<lparr>domains := rs\<rparr>, Inr (northstar_json row)))"

section \<open>Missions\<close>

text \<open>The guards of missions.rs look at the lists of the domain only, not at the scope of a token.\<close>

definition domain_writable :: "principal \<Rightarrow> str \<Rightarrow> str \<Rightarrow> bool" where
  "domain_writable p owners contributors =
     (if is_admin p then True
      else let i = to_lowercase (subject p) in i \<in> set (split_csv owners) \<or> i \<in> set (split_csv contributors))"

definition domain_readable :: "str \<Rightarrow> principal \<Rightarrow> str \<Rightarrow> str \<Rightarrow> bool" where
  "domain_readable visibility p owners contributors =
     (if is_admin p then True
      else if to_lowercase visibility = ''public'' then True
      else let i = to_lowercase (subject p) in i \<in> set (split_csv owners) \<or> i \<in> set (split_csv contributors))"

definition domain_ownable :: "principal \<Rightarrow> str \<Rightarrow> bool" where
  "domain_ownable p owners = (if is_admin p then True else to_lowercase (subject p) \<in> set (split_csv owners))"

definition for_readers :: "db \<Rightarrow> principal \<Rightarrow> str \<Rightarrow> 'a res \<Rightarrow> 'a res" where
  "for_readers d p domain_id k = and_then (fetch_domain d domain_id) (\<lambda>r.
     if domain_readable (opt_or [] (d_visibility r)) p (d_owners r) (d_contributors r) then k else Inl (forbidden []))"

definition for_writers :: "db \<Rightarrow> principal \<Rightarrow> str \<Rightarrow> db \<times> json res \<Rightarrow> db \<times> json res" where
  "for_writers d p domain_id k =
     (case fetch_domain d domain_id of
        Inl e \<Rightarrow> (d, Inl e)
      | Inr r \<Rightarrow> if domain_writable p (d_owners r) (d_contributors r) then k else (d, Inl (forbidden [])))"

definition mission_json :: "mission_row \<Rightarrow> json" where
  "mission_json m = JObj
     [(''id'', JStr (m_id m)), (''domain_id'', jopt JStr (m_domain_id m)), (''name'', JStr (m_name m)),
      (''description'', JStr (m_description m)), (''owners'', JStr (m_owners m)),
      (''contributors'', JStr (m_contributors m)), (''tags'', JStr (m_tags m)), (''status'', JStr (m_status m)),
      (''workstream_md'', JStr (m_workstream_md m)), (''workstream_version'', JNum (m_workstream_version m)),
      (''workstream_created_by'', JStr (m_workstream_created_by m)),
      (''workstream_modified_by'', JStr (m_workstream_modified_by m)),
      (''workstream_created_at'', jopt JNum (m_workstream_created_at m)),
      (''workstream_modified_at'', jopt JNum (m_workstream_modified_at m)),
      (''brief_md'', JStr (m_brief_md m)), (''brief_version'', JNum (m_brief_version m)),
      (''brief_created_by'', JStr (m_brief_created_by m)), (''brief_modified_by'', JStr (m_brief_modified_by m)),
      (''brief_created_at'', jopt JNum (m_brief_created_at m)), (''brief_modified_at'', jopt JNum (m_brief_modified_at m)),
      (''brief_s3_path'', jopt JStr (m_brief_s3_path m)), (''created_at'', JNum (m_created_at m)),
      (''updated_at'', JNum (m_updated_at m))]"

definition in_domain :: "str \<Rightarrow> str \<Rightarrow> mission_row \<Rightarrow> tri" where
  "in_domain mission_id domain_id m = tand (by_key m_id mission_id m) (teq (m_domain_id m) (Some domain_id))"

definition list_missions :: "db \<Rightarrow> principal \<Rightarrow> str \<Rightarrow> int option \<Rightarrow> json res" where
  "list_missions d p domain_id lim = for_readers d p domain_id
     (and_then (page_desc m_updated_at lim (select_where (\<lambda>m. teq (m_domain_id m) (Some domain_id)) (missions d)))
        (\<lambda>ms. Inr (JList (map mission_json ms))))"

record mission_create =
  mc_name :: str
  mc_description :: str
  mc_owners :: str
  mc_contributors :: str
  mc_tags :: str
  mc_status :: str
  mc_workstream_md :: str

definition new_mission_row :: "time \<Rightarrow> str \<Rightarrow> str \<Rightarrow> str \<Rightarrow> str \<Rightarrow> mission_create \<Rightarrow> mission_row" where
  "new_mission_row now mission_id domain_id owners who body =
     (let by = (if mc_workstream_md body = [] then [] else who);
          at = (if mc_workstream_md body = [] then None else Some now) in
      \<lparr>m_id = mission_id, m_name = mc_name body, m_domain_id = Some domain_id, m_description = mc_description body,
       m_owners = owners, m_contributors = mc_contributors body, m_tags = mc_tags body, m_status = mc_status body,
       m_workstream_md = mc_workstream_md body, m_workstream_version = 1, m_workstream_created_by = by,
       m_workstream_modified_by = by, m_workstream_created_at = at, m_workstream_modified_at = at,
       m_brief_md = [], m_brief_version = 0, m_brief_created_by = [], m_brief_modified_by = [],
       m_brief_created_at = None, m_brief_modified_at = None, m_brief_s3_path = None,
       m_created_at = now, m_updated_at = now\<rparr>)"

definition create_mission ::
  "(nat \<Rightarrow> str) \<Rightarrow> time \<Rightarrow> db \<Rightarrow> principal \<Rightarrow> str \<Rightarrow> mission_create \<Rightarrow> db \<times> json res" where
  "create_mission draws now d p domain_id body = for_writers d p domain_id
     (let owners = default_owners p (mc_owners body) in
      if split_csv owners = [] then (d, Inl (unprocessable ''owners must include at least one owner''))
      else let i = draw_id 5 (\<lambda>k. lookup m_id k (missions d) \<noteq> None) draws 0;
               row = new_mission_row now i domain_id owners (subject p) body in
        if btrim owners = [] \<or> lookup m_id i (missions d) \<noteq> None then (d, Inl internal_error)
        else (d\<lparr>missions := insert_row row (missions d)\<rparr>, Inr (mission_json row)))"

definition get_mission :: "db \<Rightarrow> principal \<Rightarrow> str \<Rightarrow> str \<Rightarrow> json res" where
  "get_mission d p domain_id mission_id = for_readers d p domain_id
     (case fetch_optional (in_domain mission_id domain_id) (missions d) of
        None \<Rightarrow> Inl (not_found ''Mission not found'') | Some m \<Rightarrow> Inr (mission_json m))"

record mission_update =
  mu_name :: "str option"
  mu_description :: "str option"
  mu_owners :: "str option"
  mu_contributors :: "str option"
  mu_tags :: "str option"
  mu_status :: "str option"

definition mission_merged :: "time \<Rightarrow> mission_row \<Rightarrow> mission_update \<Rightarrow> mission_row \<Rightarrow> mission_row" where
  "mission_merged now seen body m =
     m\<lparr>m_name := opt_or (m_name seen) (mu_name body), m_description := opt_or (m_description seen) (mu_description body),
       m_owners := opt_or (m_owners seen) (mu_owners body),
       m_contributors := opt_or (m_contributors seen) (mu_contributors body),
       m_tags := opt_or (m_tags seen) (mu_tags body), m_status := opt_or (m_status seen) (mu_status body),
       m_updated_at := now\<rparr>"

definition update_mission :: "time \<Rightarrow> db \<Rightarrow> principal \<Rightarrow> str \<Rightarrow> str \<Rightarrow> mission_update \<Rightarrow> db \<times> json res" where
  "update_mission now d p domain_id mission_id body = for_writers d p domain_id
     (case fetch_optional (in_domain mission_id domain_id) (missions d) of
        None \<Rightarrow> (d, Inl (not_found ''Mission not found''))
      | Some seen \<Rightarrow>
          let owners = opt_or (m_owners seen) (mu_owners body) in
          if split_csv owners = [] then (d, Inl (unprocessable ''owners must include at least one owner''))
          else if btrim owners = [] then (d, Inl internal_error)
          else case update_returning (by_key m_id mission_id) (mission_merged now seen body) (missions d) of
            (ms, None) \<Rightarrow> (d, Inl internal_error)
          | (ms, Some row) \<Rightarrow> (d\<lparr>missions := ms\<rparr>, Inr (mission_json row)))"

definition delete_mission :: "(nat \<Rightarrow> str) \<Rightarrow> db \<Rightarrow> principal \<Rightarrow> str \<Rightarrow> str \<Rightarrow> db \<times> json res" where
  "delete_mission show_nat d p domain_id mission_id =
     (case fetch_domain d domain_id of
        Inl e \<Rightarrow> (d, Inl e)
      | Inr r \<Rightarrow>
          if \<not> domain_ownable p (d_owners r) then (d, Inl (forbidden []))
          else if \<not> exists_where (in_domain mission_id domain_id) (missions d)
          then (d, Inl (not_found ''Mission not found''))
          else let task_count = length (select_where (by_key t_mission_id mission_id) (tasks d)) in
            if task_count > 0 then
              (d, Inl (conflict (''Mission has linked entities: {tasks: '' @ show_nat task_count @ ''}'')))
            else (d\<lparr>missions := delete_where (by_key m_id mission_id) (missions d)\<rparr>, Inr (deleted_answer mission_id)))"

section \<open>The brief\<close>

definition brief_json :: "mission_row \<Rightarrow> json" where
  "brief_json m = document_json (m_brief_md m) (m_brief_version m) (m_brief_modified_by m) (m_brief_modified_at m)"

definition get_mission_brief :: "db \<Rightarrow> principal \<Rightarrow> str \<Rightarrow> str \<Rightarrow> json res" where
  "get_mission_brief d p domain_id mission_id = for_readers d p domain_id
     (case fetch_optional (in_domain mission_id domain_id) (missions d) of
        None \<Rightarrow> Inl (not_found ''Mission not found'') | Some m \<Rightarrow> Inr (brief_json m))"

definition brief_update :: "time \<Rightarrow> str \<Rightarrow> str \<Rightarrow> mission_row \<Rightarrow> mission_row" where
  "brief_update now content who m =
     m\<lparr>m_brief_md := content, m_brief_version := m_brief_version m + 1, m_brief_modified_by := who,
       m_brief_modified_at := Some now, m_updated_at := now\<rparr>"

definition write_brief :: "time \<Rightarrow> db \<Rightarrow> principal \<Rightarrow> (mission_row \<Rightarrow> tri) \<Rightarrow> str \<Rightarrow> db \<times> json res" where
  "write_brief now d p c content =
     (if \<not> db_up d then (d, Inl internal_error)
      else if exists_where (\<lambda>m. tand (c m) (tbool (m_brief_version m + 1 > max_i32))) (missions d) then (d, Inl internal_error)
      else case update_returning c (brief_update now content (subject p)) (missions d) of
        (ms, None) \<Rightarrow> (d, Inl (not_found ''Mission not found''))
      | (ms, Some row) \<Rightarrow> (d\<lparr>missions := ms\<rparr>, Inr (brief_json row)))"

definition put_mission_brief :: "time \<Rightarrow> db \<Rightarrow> principal \<Rightarrow> str \<Rightarrow> str \<Rightarrow> str \<Rightarrow> db \<times> json res" where
  "put_mission_brief now d p domain_id mission_id content = for_writers d p domain_id
     (write_brief now d p (in_domain mission_id domain_id) content)"

definition get_mission_brief_flat :: "db \<Rightarrow> principal \<Rightarrow> str \<Rightarrow> json res" where
  "get_mission_brief_flat d p mission_id = and_then (authz_by_mission d p mission_id) (\<lambda>_.
     case lookup m_id mission_id (missions d) of
       None \<Rightarrow> Inl (not_found ''Mission not found'') | Some m \<Rightarrow> Inr (brief_json m))"

definition put_mission_brief_flat :: "time \<Rightarrow> db \<Rightarrow> principal \<Rightarrow> str \<Rightarrow> str \<Rightarrow> db \<times> json res" where
  "put_mission_brief_flat now d p mission_id content =
     (case authz_by_mission d p mission_id of
        Inl e \<Rightarrow> (d, Inl e) | Inr _ \<Rightarrow> write_brief now d p (by_key m_id mission_id) content)"

end
