(* ===== verification/Domain_Properties.thy ===== *)
theory Domain_Properties
  imports Domains Node_Properties
begin

text \<open>
  Properties of domains and missions: the locale domain_handler is the contract of every handler that writes the
  tables (keys stay unique, every domain keeps an owner) and is interpreted for each of them; who may change the
  owners; races of PATCH and transfer; deletion; the version of the documents; the two guards of a brief.
\<close>

section \<open>The invariant of the tables\<close>

definition owned :: "domain_row \<Rightarrow> bool" where
  "owned r = (split_csv (d_owners r) \<noteq> [])"

definition domains_ok :: "db \<Rightarrow> bool" where
  "domains_ok d = (unique_key d_id (domains d) \<and> unique_key d_name (domains d) \<and> unique_key m_id (missions d) \<and>
     (\<forall>r\<in>set (domains d). owned r))"

text \<open>A change of owners is made by an administrator or somebody the domain authorizes.\<close>

definition owners_lawful :: "principal \<Rightarrow> db \<Rightarrow> db \<Rightarrow> bool" where
  "owners_lawful p d d' = (\<forall>k r r'. lookup d_id k (domains d) = Some r \<longrightarrow> lookup d_id k (domains d') = Some r' \<longrightarrow>
     d_owners r' = d_owners r \<or> is_admin p \<or> authorized_for_domain r p)"

locale domain_handler =
  fixes run :: "db \<Rightarrow> db" and p :: principal
  assumes keeps_ok: "domains_ok d \<Longrightarrow> domains_ok (run d)"
    and lawful: "domains_ok d \<Longrightarrow> owners_lawful p d (run d)"

lemma lawful_same [simp]: "domains d' = domains d \<Longrightarrow> owners_lawful p d d'"
  by (simp add: owners_lawful_def)

lemma lawful_insert: "domains d' = insert_row q (domains d) \<Longrightarrow> owners_lawful p d d'"
  by (simp add: owners_lawful_def lookup_insert_row)

lemma lawful_update:
  assumes "domains d' = update_where (by_key d_id k) f (domains d)" "\<And>r. d_id (f r) = d_id r"
    "\<And>r. lookup d_id k (domains d) = Some r \<Longrightarrow> d_owners (f r) = d_owners r \<or> is_admin p \<or> authorized_for_domain r p"
  shows "owners_lawful p d d'"
  unfolding owners_lawful_def assms(1) lookup_update_where [of d_id, OF assms(2)]
  using assms(3) by (auto split: if_splits dest: lookup_Some_in)

lemma lawful_delete:
  assumes "domains d' = delete_where c (domains d)" "domains_ok d"
  shows "owners_lawful p d d'"
proof -
  have "r' = r" if "lookup d_id k (domains d) = Some r" "lookup d_id k (domains d') = Some r'" for k r r'
  proof -
    have "r' \<in> set (domains d)" "r \<in> set (domains d)" "d_id r' = d_id r"
      using that assms(1) by (auto dest!: lookup_Some_in simp: delete_where_def)
    then show ?thesis using assms(2) unfolding domains_ok_def unique_key_def distinct_map inj_on_def by blast
  qed
  then show ?thesis unfolding owners_lawful_def by blast
qed

lemma set_insert_row [simp]: "set (insert_row r t) = insert r (set t)"
  by (simp add: insert_row_def)

lemma in_delete_where [simp]: "r \<in> set (delete_where c t) \<longleftrightarrow> r \<in> set t \<and> \<not> holds (c r)"
  by (auto simp: delete_where_def)

lemma domains_updated:
  assumes "domains_ok d" "\<And>r. d_id (f r) = d_id r \<and> d_name (f r) = d_name r" "\<And>r. owned r \<Longrightarrow> owned (f r)"
  shows "domains_ok (d\<lparr>domains := update_where c f (domains d)\<rparr>)"
proof -
  have "unique_key d_id (update_where c f (domains d))" "unique_key d_name (update_where c f (domains d))"
    using assms by (auto simp: domains_ok_def intro!: unique_update_where)
  moreover have "\<forall>r\<in>set (update_where c f (domains d)). owned r"
    using assms(1,3) by (auto simp: domains_ok_def update_where_def)
  ultimately show ?thesis using assms(1) by (simp add: domains_ok_def)
qed

lemma missions_updated:
  assumes "domains_ok d" "\<And>m. m_id (f m) = m_id m"
  shows "domains_ok (d\<lparr>missions := update_where c f (missions d)\<rparr>)"
  using assms by (auto simp: domains_ok_def intro!: unique_update_where)

lemma mission_added: "domains_ok d \<Longrightarrow> lookup m_id (m_id m) (missions d) = None \<Longrightarrow> domains_ok (d\<lparr>missions := insert_row m (missions d)\<rparr>)"
  by (simp add: domains_ok_def unique_insert_row)

lemma domain_added:
  "domains_ok d \<Longrightarrow> lookup d_id (d_id r) (domains d) = None \<Longrightarrow> lookup d_name (d_name r) (domains d) = None \<Longrightarrow> owned r \<Longrightarrow>
     domains_ok (d\<lparr>domains := insert_row r (domains d)\<rparr>)"
  by (auto simp: domains_ok_def unique_insert_row)

interpretation created: domain_handler "\<lambda>d. fst (create_domain draws now d p body)" p for draws now p body
  by unfold_locales (auto simp: create_domain_def Let_def new_domain_row_def owned_def intro!: domain_added lawful_insert)

lemma merged_simps [simp]:
  "d_id (merged q b r) = d_id r" "d_name (merged q b r) = d_name r"
  "d_owners (merged q b r) = opt_or (d_owners q) (du_owners b)"
  by (simp_all add: merged_def)

lemma update_write_ok:
  assumes "domains_ok d" "split_csv (opt_or (d_owners seen) (du_owners body)) \<noteq> []"
  shows "domains_ok (fst (update_domain_write now d k seen body))"
  using assms by (auto simp: update_domain_write_def update_returning_def owned_def intro!: domains_updated split: option.splits)

lemma update_readD:
  assumes "update_domain_read d p k body = Inr r"
  shows "db_up d" "lookup d_id k (domains d) = Some r" "can_write r p" "split_csv (opt_or (d_owners r) (du_owners body)) \<noteq> []"
  using assms by (auto simp: update_domain_read_def fetch_domain_def and_then_def split: if_splits option.splits)

interpretation updated: domain_handler "\<lambda>d. fst (update_domain now d p k body)" p for now p k body
proof
  fix d assume ok: "domains_ok d"
  show "domains_ok (fst (update_domain now d p k body))"
    using ok by (auto simp: update_domain_def dest: update_readD intro!: update_write_ok split: sum.splits)
  show "owners_lawful p d (fst (update_domain now d p k body))"
  proof (cases "update_domain_read d p k body")
    case (Inr r)
    note R = update_readD [OF Inr]
    have "owners_lawful p d (d\<lparr>domains := update_where (by_key d_id k) (\<lambda>q. (merged r body q)\<lparr>d_updated_at := now\<rparr>) (domains d)\<rparr>)"
      using R(2,3) by (intro lawful_update [where k = k and f = "\<lambda>q. (merged r body q)\<lparr>d_updated_at := now\<rparr>"]) (auto simp: can_write_def)
    then show ?thesis using Inr by (auto simp: update_domain_def update_domain_write_def update_returning_def split: option.splits)
  qed (simp add: update_domain_def)
qed

interpretation deleted: domain_handler "\<lambda>d. fst (delete_domain d p k)" p for p k
  by unfold_locales (auto simp: delete_domain_def domains_ok_def [of "_\<lparr>domains := _\<rparr>"] unique_delete_where split: sum.splits
      intro!: lawful_delete simp: domains_ok_def)

text \<open>A transfer keeps the invariant when the new owner names somebody.\<close>

definition names_owner :: "json \<Rightarrow> bool" where
  "names_owner body = (\<forall>x. jfield_str ''new_owner'' body = Some x \<longrightarrow> split_csv x \<noteq> [])"

interpretation transferred: domain_handler
  "\<lambda>d. if names_owner body then fst (transfer_owner now d p k body) else d" p for now p k body
  by unfold_locales (auto simp: transfer_owner_def update_returning_def owned_def names_owner_def
      intro!: domains_updated lawful_update split: option.splits)

interpretation northstar: domain_handler "\<lambda>d. fst (put_domain_northstar now d p k content)" p for now p k content
  by unfold_locales (auto simp: put_domain_northstar_def update_returning_def northstar_update_def owned_def
      intro!: domains_updated lawful_update split: option.splits sum.splits)

lemma for_writers_cases: "fst (for_writers d p i k) = d \<or> fst (for_writers d p i k) = fst k"
  by (auto simp: for_writers_def split: sum.splits)

text \<open>The handlers of missions leave the domains alone.\<close>

lemma mission_handlerI:
  assumes "\<And>d. domains_ok d \<Longrightarrow> domains_ok (run d)" "\<And>d. domains (run d) = domains d"
  shows "domain_handler run p"
  using assms by unfold_locales auto

lemma create_mission_frame:
  "domains_ok d \<Longrightarrow> domains_ok (fst (create_mission draws now d p k body))" "domains (fst (create_mission draws now d p k body)) = domains d"
  by (auto simp: create_mission_def for_writers_def Let_def new_mission_row_def intro!: mission_added split: sum.splits)

lemma update_mission_frame:
  "domains_ok d \<Longrightarrow> domains_ok (fst (update_mission now d p k m ubody))" "domains (fst (update_mission now d p k m ubody)) = domains d"
  by (auto simp: update_mission_def for_writers_def Let_def update_returning_def mission_merged_def intro!: missions_updated
      split: sum.splits option.splits)

lemma delete_mission_frame:
  "domains_ok d \<Longrightarrow> domains_ok (fst (delete_mission sn d p k m))" "domains (fst (delete_mission sn d p k m)) = domains d"
  by (auto simp: delete_mission_def Let_def domains_ok_def unique_delete_where split: sum.splits)

lemma write_brief_frame:
  "domains_ok d \<Longrightarrow> domains_ok (fst (write_brief now d p c content))" "domains (fst (write_brief now d p c content)) = domains d"
  by (auto simp: write_brief_def update_returning_def brief_update_def intro!: missions_updated split: option.splits)

interpretation mission_created: domain_handler "\<lambda>d. fst (create_mission draws now d p k body)" p for draws now p k body
  by (rule mission_handlerI) (simp_all add: create_mission_frame)

interpretation mission_changed: domain_handler "\<lambda>d. fst (update_mission now d p k m body)" p for now p k m body
  by (rule mission_handlerI) (simp_all add: update_mission_frame)

interpretation mission_deleted: domain_handler "\<lambda>d. fst (delete_mission sn d p k m)" p for sn p k m
  by (rule mission_handlerI) (simp_all add: delete_mission_frame)

interpretation brief: domain_handler "\<lambda>d. fst (put_mission_brief now d p k m content)" p for now p k m content
  by (rule mission_handlerI) (auto simp: put_mission_brief_def for_writers_def write_brief_frame split: sum.splits)

interpretation brief_flat: domain_handler "\<lambda>d. fst (put_mission_brief_flat now d p m content)" p for now p m content
  by (rule mission_handlerI) (auto simp: put_mission_brief_flat_def write_brief_frame split: sum.splits)

text \<open>Registration of an agent makes its home domain.\<close>

lemma provision_ok:
  assumes "domains_ok d" "provision_home_domain now draws mid i nm d = Some d'" "split_csv nm \<noteq> []"
  shows "domains_ok d'"
proof -
  let ?c = "draw_id 5 (\<lambda>k. lookup d_id k (domains d) \<noteq> None) draws 0"
  let ?ds = "if lookup d_name nm (domains d) = None then insert_row (home_domain_row now ?c nm) (domains d) else domains d"
  have g: "lookup d_name nm (domains d) = None \<Longrightarrow> lookup d_id ?c (domains d) = None" "lookup m_id mid (missions d) = None"
    and d': "domains d' = ?ds" "\<exists>k. missions d' = insert_row (inbox_mission_row now mid k nm) (missions d)"
    using assms(2) by (auto simp: provision_home_domain_def Let_def split: if_splits)
  have "domains_ok (d\<lparr>domains := ?ds\<rparr>)"
    using assms(1,3) g(1) domain_added [OF assms(1), of "home_domain_row now ?c nm"]
    by (simp add: home_domain_row_def owned_def)
  then show ?thesis using d' g(2) by (auto simp: domains_ok_def inbox_mission_row_def unique_insert_row)
qed


section \<open>The system of domains\<close>

text \<open>One request, by its caller. Transfers name an owner and agents have names that name one; what else happens
  is the subject of transfer_orphans_domain below.\<close>

inductive domain_step :: "principal \<Rightarrow> db \<Rightarrow> db \<Rightarrow> bool" where
  create_domain: "domain_step p d (fst (create_domain draws now d p cbody))"
| update_domain: "domain_step p d (fst (update_domain now d p k ubody))"
| delete_domain: "domain_step p d (fst (delete_domain d p k))"
| transfer_owner: "names_owner tbody \<Longrightarrow> domain_step p d (fst (transfer_owner now d p k tbody))"
| put_northstar: "domain_step p d (fst (put_domain_northstar now d p k content))"
| create_mission: "domain_step p d (fst (create_mission draws now d p k mbody))"
| update_mission: "domain_step p d (fst (update_mission now d p k m mubody))"
| delete_mission: "domain_step p d (fst (delete_mission sn d p k m))"
| put_brief: "domain_step p d (fst (put_mission_brief now d p k m content))"
| put_brief_flat: "domain_step p d (fst (put_mission_brief_flat now d p m content))"
| home_domain: "provision_home_domain now draws mid i nm d = Some d' \<Longrightarrow> split_csv nm \<noteq> [] \<Longrightarrow> domain_step p d d'"

lemma domain_step_good:
  assumes "domain_step p d d'" "domains_ok d"
  shows "domains_ok d' \<and> owners_lawful p d d'"
  using assms
proof (induction rule: domain_step.induct)
  case (transfer_owner tbody p d now k)
  then show ?case using transferred.keeps_ok [where body = tbody] transferred.lawful [where body = tbody] by simp
next
  case (home_domain now draws mid i nm d d' p)
  then have "domains d' = domains d \<or> (\<exists>q. domains d' = insert_row q (domains d))"
    by (auto simp: provision_home_domain_def Let_def split: if_splits)
  then show ?case using home_domain provision_ok by (auto intro: lawful_insert)
qed (simp_all add: created.keeps_ok created.lawful updated.keeps_ok updated.lawful deleted.keeps_ok deleted.lawful
  northstar.keeps_ok northstar.lawful mission_created.keeps_ok mission_created.lawful mission_changed.keeps_ok
  mission_changed.lawful mission_deleted.keeps_ok mission_deleted.lawful brief.keeps_ok brief.lawful
  brief_flat.keeps_ok brief_flat.lawful)

inductive domains_reachable :: "db \<Rightarrow> bool" where
  start: "domains d = [] \<Longrightarrow> missions d = [] \<Longrightarrow> domains_reachable d"
| step: "domains_reachable d \<Longrightarrow> domain_step p d d' \<Longrightarrow> domains_reachable d'"

lemma reachable_domains_ok: "domains_reachable d \<Longrightarrow> domains_ok d"
  by (induction rule: domains_reachable.induct) (auto simp: domains_ok_def unique_key_def dest: domain_step_good)


section \<open>Who can become the owner\<close>

text \<open>A subject as the lists of a domain read it back.\<close>

definition plain_subject :: "str \<Rightarrow> bool" where
  "plain_subject x = (x \<noteq> [] \<and> trim x = x \<and> CHR '','' \<notin> set x)"

lemma split_plain: "plain_subject x \<Longrightarrow> split_csv x = [to_lowercase x]"
  by (simp add: plain_subject_def split_csv_def split_on_single)

lemma stripped_empty:
  assumes "dropWhile P (rev (dropWhile P x)) = []"
  shows "\<forall>c\<in>set x. P c"
proof -
  have "\<forall>c\<in>set (dropWhile P x). P c" using assms by (simp add: dropWhile_eq_Nil_conv)
  moreover have "\<forall>c\<in>set (takeWhile P x). P c" by (auto dest: set_takeWhileD)
  moreover have "set x = set (takeWhile P x) \<union> set (dropWhile P x)"
    unfolding set_append [symmetric] takeWhile_dropWhile_id by (rule refl)
  ultimately show ?thesis by blast
qed

lemma blank_text:
  assumes "btrim x = []"
  shows "trim x = []" "CHR '','' \<notin> set x"
proof -
  have "dropWhile (\<lambda>c. c = CHR '' '') (rev (dropWhile (\<lambda>c. c = CHR '' '') x)) = []"
    using assms unfolding btrim_def rev_is_Nil_conv .
  then have blank: "\<forall>c\<in>set x. c = CHR '' ''" by (rule stripped_empty)
  moreover have "is_space CHR '' ''" by (simp add: is_space_def)
  ultimately have "\<forall>c\<in>set x. is_space c" by metis
  then have "dropWhile is_space x = []" unfolding dropWhile_eq_Nil_conv .
  then show "trim x = []" unfolding trim_def by (simp only: rev.simps dropWhile.simps)
  show "CHR '','' \<notin> set x" using blank by force
qed

lemma plain_btrim: "plain_subject x \<Longrightarrow> btrim x \<noteq> []"
  using blank_text(1) [of x] unfolding plain_subject_def by metis

lemma blank_names_nobody: "btrim x = [] \<Longrightarrow> split_csv x = []"
  using blank_text [of x] by (simp add: split_csv_def split_on_single)

definition seize :: "principal \<Rightarrow> domain_update" where
  "seize p = \<lparr>du_description = None, du_owners = Some (subject p), du_contributors = None, du_tags = None,
     du_visibility = None, du_status = None\<rparr>"

text \<open>every member of a domain can make itself its only owner. Transferring a domain is for
  administrators, yet the PATCH of a domain lets anybody authorized for it, a contributor or a token of an agent
  or a node with the domain in its scope, replace the list of owners by itself; from then on it passes
  the owner's guard, and nobody else does who is not an administrator.\<close>

theorem member_seizes_domain:
  assumes "domains_ok d" "db_up d" "lookup d_id k (domains d) = Some r" "authorized_for_domain r p" "plain_subject (subject p)"
  shows "\<exists>d' j r'. update_domain now d p k (seize p) = (d', Inr j) \<and> lookup d_id k (domains d') = Some r'
       \<and> can_own r' p \<and> (\<forall>q. can_own r' q \<longrightarrow> is_admin q \<or> to_lowercase (subject q) = to_lowercase (subject p))
       \<and> (\<forall>q t body. \<not> is_admin q \<longrightarrow> transfer_owner t d q k body = (d, Inl (forbidden ''admin required'')))"
proof -
  have split: "split_csv (subject p) = [to_lowercase (subject p)]" using split_plain assms(5) by blast
  have read: "update_domain_read d p k (seize p) = Inr r"
    using assms(2-4) split
    by (simp add: update_domain_read_def fetch_domain_def and_then_def can_write_def seize_def opt_or_def)
  have bt: "btrim (subject p) \<noteq> []"
    using assms(5) by (rule plain_btrim)
  let ?f = "\<lambda>q. (merged r (seize p) q)\<lparr>d_updated_at := now\<rparr>"
  have r: "d_id r = k" using assms(3) by (auto dest: lookup_Some_in)
  have "find (\<lambda>q. d_id q = k) (domains d) = Some r" using assms(3) by (simp add: lookup_def fetch_optional_def)
  then have run: "update_domain now d p k (seize p) =
      (d\<lparr>domains := update_where (by_key d_id k) ?f (domains d)\<rparr>, Inr (domain_json (?f r)))"
    using read assms(2) bt by (simp add: update_domain_def update_domain_write_def update_returning_find seize_def opt_or_def)
  have "lookup d_id k (update_where (by_key d_id k) ?f (domains d)) = Some (?f r)"
    using assms(3) r by (simp add: lookup_update_where)
  moreover have "d_owners (?f r) = subject p" by (simp add: seize_def opt_or_def)
  ultimately show ?thesis using run split by (auto simp: can_own_def transfer_owner_def)
qed

section \<open>Transfers\<close>

lemma transfer_run:
  assumes "domains_ok d" "db_up d" "lookup d_id k (domains d) = Some r" "is_admin p" "btrim x \<noteq> []"
  shows "\<exists>d' j. transfer_owner now d p k (JObj [(''new_owner'', JStr x)]) = (d', Inr j)
       \<and> domains d' = update_where (by_key d_id k) (\<lambda>r. r\<lparr>d_owners := x, d_updated_at := now\<rparr>) (domains d) \<and> db_up d'"
proof -
  have "find (\<lambda>q. d_id q = k) (domains d) = Some r" using assms(3) by (simp add: lookup_def fetch_optional_def)
  moreover have "x \<noteq> []" using assms(5) by (auto simp: btrim_def)
  ultimately show ?thesis using assms by (simp add: transfer_owner_def jfield_str_def update_returning_find)
qed

text \<open>An administrator can leave a domain without owner: the transfer asks for a text that is not blank, and a
  comma is one. No principal passes the owner's guard any more but administrators.\<close>

theorem transfer_orphans_domain:
  assumes "domains_ok d" "db_up d" "lookup d_id k (domains d) = Some r" "is_admin p"
  shows "\<exists>d' j r'. transfer_owner now d p k (JObj [(''new_owner'', JStr '','')]) = (d', Inr j)
       \<and> lookup d_id k (domains d') = Some r' \<and> split_csv (d_owners r') = [] \<and> (\<forall>q. can_own r' q \<longrightarrow> is_admin q)"
proof -
  have bt: "btrim '','' \<noteq> []" and sp: "split_csv '','' = []" by code_simp+
  obtain d' j where t: "transfer_owner now d p k (JObj [(''new_owner'', JStr '','')]) = (d', Inr j)"
      "domains d' = update_where (by_key d_id k) (\<lambda>r. r\<lparr>d_owners := '','', d_updated_at := now\<rparr>) (domains d)"
    using transfer_run [OF assms bt] by blast
  have "lookup d_id k (domains d') = Some (r\<lparr>d_owners := '','', d_updated_at := now\<rparr>)"
    using assms(3) by (auto simp: t(2) lookup_update_where dest: lookup_Some_in)
  then show ?thesis using t(1) sp by (auto simp: can_own_def)
qed

text \<open>A PATCH that was under way undoes a transfer: it writes back every column it has read, so a change of the
  tags alone, read before the transfer and written after it, restores the owners of before.\<close>

theorem stale_patch_undoes_transfer:
  assumes ok: "domains_ok d" "db_up d" and read: "update_domain_read d q k body = Inr r" "du_owners body = None"
    and admin: "is_admin p" "btrim x \<noteq> []"
  shows "\<exists>d1 j1 d2 j2 r2. transfer_owner t1 d p k (JObj [(''new_owner'', JStr x)]) = (d1, Inr j1)
       \<and> update_domain_write t2 d1 k r body = (d2, Inr j2)
       \<and> lookup d_id k (domains d2) = Some r2 \<and> d_owners r2 = d_owners r"
proof -
  note R = update_readD [OF read(1)]
  obtain d1 j1 where t: "transfer_owner t1 d p k (JObj [(''new_owner'', JStr x)]) = (d1, Inr j1)"
      "domains d1 = update_where (by_key d_id k) (\<lambda>r. r\<lparr>d_owners := x, d_updated_at := t1\<rparr>) (domains d)" "db_up d1"
    using transfer_run [OF ok R(2) admin] by blast
  have look: "lookup d_id k (domains d1) = Some (r\<lparr>d_owners := x, d_updated_at := t1\<rparr>)"
    using R(2) by (auto simp: t(2) lookup_update_where dest: lookup_Some_in)
  then have "find (\<lambda>q. d_id q = k) (domains d1) = Some (r\<lparr>d_owners := x, d_updated_at := t1\<rparr>)"
    by (simp add: lookup_def fetch_optional_def)
  moreover have "btrim (d_owners r) \<noteq> []"
  proof
    assume "btrim (d_owners r) = []"
    then have "split_csv (d_owners r) = []" by (rule blank_names_nobody)
    then show False using R(4) read(2) by (simp add: opt_or_def)
  qed
  ultimately have "\<exists>d2 j2. update_domain_write t2 d1 k r body = (d2, Inr j2) \<and>
      domains d2 = update_where (by_key d_id k) (\<lambda>q. (merged r body q)\<lparr>d_updated_at := t2\<rparr>) (domains d1)"
    using t(3) read(2) by (simp add: update_domain_write_def update_returning_find opt_or_def)
  then obtain d2 j2 where w: "update_domain_write t2 d1 k r body = (d2, Inr j2)"
      "domains d2 = update_where (by_key d_id k) (\<lambda>q. (merged r body q)\<lparr>d_updated_at := t2\<rparr>) (domains d1)"
    by blast
  have "\<exists>r2. lookup d_id k (domains d2) = Some r2 \<and> d_owners r2 = d_owners r"
    using look read(2) by (auto simp: w(2) lookup_update_where opt_or_def dest: lookup_Some_in)
  then show ?thesis using t(1) w(1) by blast
qed

text \<open>Deleting a domain that an agent calls home is answered like a deletion and deletes nothing.\<close>

theorem delete_domain_exact:
  assumes "delete_domain d p k = (d', res)"
  shows "(\<forall>e. res = Inl e \<longrightarrow> d' = d)
       \<and> (\<forall>j. res = Inr j \<longrightarrow> j = deleted_answer k \<and> (\<exists>r. lookup d_id k (domains d) = Some r \<and> can_own r p)
            \<and> (\<forall>m\<in>set (missions d). m_domain_id m \<noteq> Some k)
            \<and> d' = (if domain_referenced d k then d else d\<lparr>domains := delete_where (by_key d_id k) (domains d)\<rparr>))"
  using assms by (auto simp: delete_domain_def fetch_domain_def exists_where_def list_ex_iff split: if_splits option.splits)

section \<open>The documents\<close>

fun northstar_run :: "(time \<times> principal \<times> str) list \<Rightarrow> db \<Rightarrow> str \<Rightarrow> db \<times> json res list" where
  "northstar_run [] d k = (d, [])"
| "northstar_run ((now, p, content) # ws) d k =
     (case put_domain_northstar now d p k content of (d1, r) \<Rightarrow>
      case northstar_run ws d1 k of (d2, rs) \<Rightarrow> (d2, r # rs))"

lemma put_northstar_outcome:
  assumes "db_up d" "lookup d_id k (domains d) = Some r" "can_write r p" "d_northstar_version r < max_i32"
  shows "put_domain_northstar now d p k content =
           (d\<lparr>domains := update_where (by_key d_id k) (northstar_update now content (subject p)) (domains d)\<rparr>,
            Inr (northstar_json (northstar_update now content (subject p) r)))"
proof -
  have "find (\<lambda>q. d_id q = k) (domains d) = Some r" using assms(2) by (simp add: lookup_def fetch_optional_def)
  then show ?thesis using assms by (simp add: put_domain_northstar_def fetch_domain_def update_returning_find)
qed

definition northstar_write :: "time \<times> principal \<times> str \<Rightarrow> domain_row \<Rightarrow> domain_row" where
  "northstar_write w = (case w of (now, p, content) \<Rightarrow> northstar_update now content (subject p))"

lemma fold_northstar:
  "d_northstar_version (fold northstar_write ws r) = d_northstar_version r + int (length ws)"
  "d_owners (fold northstar_write ws r) = d_owners r" "d_contributors (fold northstar_write ws r) = d_contributors r"
  "ws \<noteq> [] \<Longrightarrow> d_northstar_md (fold northstar_write ws r) = snd (snd (last ws))"
  "ws \<noteq> [] \<Longrightarrow> d_northstar_modified_by (fold northstar_write ws r) = subject (fst (snd (last ws)))"
  by (induction ws arbitrary: r) (auto simp: northstar_write_def northstar_update_def split: prod.splits)

lemma enumerate_Suc: "enumerate (Suc n) xs = map (\<lambda>(i, x). (Suc i, x)) (enumerate n xs)"
  by (induction xs arbitrary: n) auto

lemma northstar_run_fold:
  assumes "db_up d" "lookup d_id k (domains d) = Some r" "\<forall>(now, p, content)\<in>set ws. can_write r p"
    "d_northstar_version r + int (length ws) \<le> max_i32"
  shows "snd (northstar_run ws d k) = map (\<lambda>(i, now, p, content).
           Inr (document_json content (d_northstar_version r + 1 + int i) (subject p) (Some now))) (enumerate 0 ws)
       \<and> lookup d_id k (domains (fst (northstar_run ws d k))) = Some (fold northstar_write ws r)"
  using assms
proof (induction ws arbitrary: d r)
  case (Cons w ws)
  obtain now p content where w: "w = (now, p, content)" by (cases w)
  let ?f = "northstar_update now content (subject p)"
  let ?d = "d\<lparr>domains := update_where (by_key d_id k) ?f (domains d)\<rparr>"
  have put: "put_domain_northstar now d p k content = (?d, Inr (northstar_json (?f r)))"
    using Cons.prems by (intro put_northstar_outcome) (auto simp: w)
  have look: "lookup d_id k (domains ?d) = Some (?f r)"
    using Cons.prems(2) by (auto simp: lookup_update_where northstar_update_def dest: lookup_Some_in)
  have "can_write (?f r) q = can_write r q" for q
    by (simp add: can_write_def authorized_for_domain_def northstar_update_def)
  then have IH: "snd (northstar_run ws ?d k) = map (\<lambda>(i, now, p, content).
         Inr (document_json content (d_northstar_version (?f r) + 1 + int i) (subject p) (Some now))) (enumerate 0 ws)
       \<and> lookup d_id k (domains (fst (northstar_run ws ?d k))) = Some (fold northstar_write ws (?f r))"
    using Cons.prems look by (intro Cons.IH) (auto simp: northstar_update_def)
  have "northstar_write w r = ?f r" "d_northstar_version (?f r) = d_northstar_version r + 1"
    "northstar_json (?f r) = document_json content (d_northstar_version r + 1) (subject p) (Some now)"
    by (simp_all add: w northstar_write_def northstar_json_def northstar_update_def)
  then show ?case
    using IH put by (simp add: w enumerate_Suc case_prod_beta add.commute add.left_commute)
qed simp

text \<open>the version of a northstar counts its writes. A sequence of writes by members of the domain is
  accepted as a whole while the version fits in 32 bits: the answer to the n-th write carries its own text and the
  version n above the first, and at the end the document is the last text, under the name of its writer, and the
  people of the domain are as they were.\<close>

theorem northstar_versions:
  assumes "db_up d" "lookup d_id k (domains d) = Some r" "\<forall>(now, p, content)\<in>set ws. can_write r p"
    "d_northstar_version r + int (length ws) \<le> max_i32" "ws \<noteq> []"
  shows "\<exists>d' r'. northstar_run ws d k = (d', map (\<lambda>(i, now, p, content).
             Inr (document_json content (d_northstar_version r + 1 + int i) (subject p) (Some now))) (enumerate 0 ws))
       \<and> lookup d_id k (domains d') = Some r' \<and> d_northstar_version r' = d_northstar_version r + int (length ws)
       \<and> d_northstar_md r' = snd (snd (last ws)) \<and> d_northstar_modified_by r' = subject (fst (snd (last ws)))
       \<and> d_owners r' = d_owners r \<and> d_contributors r' = d_contributors r"
  using northstar_run_fold [OF assms(1-4)] fold_northstar [of ws r] assms(5)
  by (intro exI [of _ "fst (northstar_run ws d k)"] exI [of _ "fold northstar_write ws r"]) (simp add: prod_eq_iff)

section \<open>Two ways to a brief\<close>

text \<open>A token with a domain in its scope is a member of it for the flat routes and nobody for the nested ones:
  the guards of missions.rs look at the lists of the domain only.\<close>

theorem scope_ignored_by_missions:
  assumes "db_up d" "lookup d_id k (domains d) = Some r" "k \<noteq> []" "k \<in> set (domain_scope p)" "\<not> is_admin p"
    "to_lowercase (subject p) \<notin> set (split_csv (d_owners r)) \<union> set (split_csv (d_contributors r))"
    "domains_ok d" "lookup m_id m (missions d) = Some mi" "m_domain_id mi = Some k" "m_brief_version mi < max_i32"
  shows "put_mission_brief now d p k m content = (d, Inl (forbidden []))
       \<and> create_mission draws now d p k body = (d, Inl (forbidden []))
       \<and> (\<exists>d' j. put_mission_brief_flat now d p m content = (d', Inr j))"
proof -
  have nested: "for_writers d p k x = (d, Inl (forbidden []))" for x
    using assms(1,2,5,6) by (simp add: for_writers_def fetch_domain_def domain_writable_def Let_def)
  have "authorized_for k (d_owners r) (d_contributors r) p"
    using assms(4) by (auto simp: authorized_for_def list_ex_iff)
  then have "authz_by_mission d p m = Inr ()"
    using assms(1-3,8,9) unfolding authz_by_mission_def by_mission.guard_ok by (simp add: mission_domain_query_def member_def)
  moreover have f: "find (\<lambda>q. m_id q = m) (missions d) = Some mi"
    using assms(8) by (simp add: lookup_def fetch_optional_def)
  moreover have "\<not> exists_where (\<lambda>q. tand (by_key m_id m q) (tbool (m_brief_version q + 1 > max_i32))) (missions d)"
  proof -
    have "q = mi" if "q \<in> set (missions d)" "m_id q = m" for q
      using that lookup_in_unique [of m_id "missions d" q] assms(7,8) by (simp add: domains_ok_def)
    then show ?thesis using assms(10) by (auto simp: exists_where_def list_ex_iff)
  qed
  ultimately have "\<exists>d' j. put_mission_brief_flat now d p m content = (d', Inr j)"
    using assms(1) by (simp add: put_mission_brief_flat_def write_brief_def update_returning_find)
  then show ?thesis by (simp add: put_mission_brief_def create_mission_def nested)
qed

section \<open>Witnesses\<close>

definition demo_writer :: "str \<Rightarrow> principal" where
  "demo_writer name = \<lparr>subject = name, is_admin = False, session_id = Some 1, auth_type = ''session'', domain_scope = []\<rparr>"

definition demo_new_domain :: "db \<Rightarrow> db" where
  "demo_new_domain d = fst (create_domain (\<lambda>_. ''d7'') 1 d (demo_writer ''alice'')
     \<lparr>dc_name = ''ops'', dc_description = [], dc_owners = [], dc_contributors = ''bob'', dc_tags = [],
      dc_visibility = ''private'', dc_status = ''active''\<rparr>)"


definition demo_domains :: db where
  "demo_domains = demo_empty_db\<lparr>domains := [sample_domain ''d7'' ''ops'' ''alice'' ''bob'' (Some ''private'')]\<rparr>"

lemma demo_domains_facts:
  "domains_ok demo_domains" "db_up demo_domains"
  "lookup d_id ''d7'' (domains demo_domains) = Some (sample_domain ''d7'' ''ops'' ''alice'' ''bob'' (Some ''private''))"
  "authorized_for_domain (sample_domain ''d7'' ''ops'' ''alice'' ''bob'' (Some ''private'')) (demo_writer ''bob'')"
  by code_simp+

lemma member_seizes_domain_witness:
  "\<exists>d' j r'. update_domain 5 demo_domains (demo_writer ''bob'') ''d7'' (seize (demo_writer ''bob'')) = (d', Inr j)
     \<and> lookup d_id ''d7'' (domains d') = Some r' \<and> \<not> can_own r' (demo_writer ''alice'')"
proof -
  have plain: "plain_subject (subject (demo_writer ''bob''))" by code_simp
  have alice: "\<not> is_admin (demo_writer ''alice'')"
    "to_lowercase (subject (demo_writer ''alice'')) \<noteq> to_lowercase (subject (demo_writer ''bob''))" by code_simp+
  obtain d' j r' where "update_domain 5 demo_domains (demo_writer ''bob'') ''d7'' (seize (demo_writer ''bob'')) = (d', Inr j)"
      "lookup d_id ''d7'' (domains d') = Some r'"
      "\<forall>q. can_own r' q \<longrightarrow> is_admin q \<or> to_lowercase (subject q) = to_lowercase (subject (demo_writer ''bob''))"
    using member_seizes_domain [OF demo_domains_facts plain, of 5] by blast
  then show ?thesis using alice by blast
qed

lemma northstar_versions_witness:
  "\<exists>d' r'. northstar_run [(1, demo_writer ''alice'', ''one''), (2, demo_writer ''bob'', ''two'')] demo_domains ''d7'' =
       (d', [Inr (document_json ''one'' 2 ''alice'' (Some 1)), Inr (document_json ''two'' 3 ''bob'' (Some 2))])
     \<and> lookup d_id ''d7'' (domains d') = Some r' \<and> d_northstar_md r' = ''two''"
proof -
  let ?ws = "[(1, demo_writer ''alice'', ''one''), (2, demo_writer ''bob'', ''two'')]"
  let ?r = "sample_domain ''d7'' ''ops'' ''alice'' ''bob'' (Some ''private'')"
  have "\<forall>(now, p, content)\<in>set ?ws. can_write ?r p" by code_simp
  moreover have v: "d_northstar_version ?r = 1" by (simp add: sample_domain_def)
  moreover have "d_northstar_version ?r + int (length ?ws) \<le> max_i32" by (simp add: v max_i32_def)
  ultimately show ?thesis
    using northstar_versions [OF demo_domains_facts(2,3), of ?ws] by (auto simp: demo_writer_def)
qed

end
