(* ===== verification/Runs.thy ===== *)
theory Runs
  imports Runtime_Nodes
begin

text \<open>
  Agent runs with their checkpoints (routes/runs.rs, models/run.rs) and budgets with the usage that is reported
  (routes/budgets.rs). start_run looks for a run of the same idempotency key and inserts otherwise: its halves are
  start_lookup and start_insert. The printer of JSON and the parser of dates are arguments. The database of the
  rest of the tower is there for the guard of domains and for the foreign keys.
\<close>

section \<open>Rows\<close>

record run_row =
  r_id :: str
  r_owner_subject :: str
  r_mesh_agent_id :: "str option"
  r_mesh_task_id :: "str option"
  r_runtime_kind :: str
  r_runtime_session_id :: "str option"
  r_status :: str
  r_started_at :: "time option"
  r_ended_at :: "time option"
  r_resume_token :: str
  r_last_checkpoint_at :: "time option"
  r_total_cost_cents :: int
  r_parent_run_id :: "str option"
  r_metadata_json :: "str option"
  r_idempotency_key :: "str option"
  r_created_at :: time
  r_updated_at :: time

record checkpoint_row =
  cp_id :: str
  cp_run_id :: str
  cp_seq :: int
  cp_kind :: str
  cp_payload_json :: str
  cp_created_at :: time

record policy_row =
  bp_id :: str
  bp_owner_subject :: str
  bp_scope_type :: str
  bp_scope_id :: str
  bp_window_type :: str
  bp_hard_cap_cents :: int
  bp_soft_cap_cents :: "int option"
  bp_token_hard_cap :: "int option"
  bp_token_soft_cap :: "int option"
  bp_action_on_breach :: str
  bp_active :: bool
  bp_created_at :: time
  bp_updated_at :: time

record window_row =
  bw_id :: str
  bw_policy_id :: str
  bw_window_start :: time
  bw_state :: str
  bw_updated_at :: time

record usage_row =
  us_id :: str
  us_owner_subject :: str
  us_run_id :: "str option"
  us_mesh_task_id :: "str option"
  us_mesh_agent_id :: "str option"
  us_domain_id :: "str option"
  us_mission_id :: "str option"
  us_runtime_kind :: str
  us_provider :: str
  us_model :: str
  us_input_tokens :: int
  us_output_tokens :: int
  us_reasoning_tokens :: int
  us_tool_calls :: int
  us_wall_ms :: int
  us_cost_cents :: int
  us_recorded_at :: time
  us_source :: str

record run_state =
  rn_db :: db
  rn_runs :: "run_row table"
  rn_checkpoints :: "checkpoint_row table"
  rn_policies :: "policy_row table"
  rn_windows :: "window_row table"
  rn_usage :: "usage_row table"

abbreviation rn_up :: "run_state \<Rightarrow> bool" where
  "rn_up s \<equiv> db_up (rn_db s)"

section \<open>Views\<close>

definition row_to_run :: "run_row \<Rightarrow> json" where
  "row_to_run r = JObj
     [(''id'', JStr (r_id r)), (''owner_subject'', JStr (r_owner_subject r)),
      (''mesh_agent_id'', jopt JStr (r_mesh_agent_id r)), (''mesh_task_id'', jopt JStr (r_mesh_task_id r)),
      (''runtime_kind'', JStr (r_runtime_kind r)), (''runtime_session_id'', jopt JStr (r_runtime_session_id r)),
      (''status'', JStr (r_status r)), (''started_at'', jopt JNum (r_started_at r)),
      (''ended_at'', jopt JNum (r_ended_at r)), (''resume_token'', JStr (r_resume_token r)),
      (''last_checkpoint_at'', jopt JNum (r_last_checkpoint_at r)),
      (''total_cost_cents'', JNum (r_total_cost_cents r)), (''parent_run_id'', jopt JStr (r_parent_run_id r)),
      (''metadata_json'', jopt JStr (r_metadata_json r)), (''idempotency_key'', jopt JStr (r_idempotency_key r)),
      (''created_at'', JNum (r_created_at r)), (''updated_at'', JNum (r_updated_at r))]"

definition row_to_checkpoint :: "checkpoint_row \<Rightarrow> json" where
  "row_to_checkpoint c = JObj
     [(''id'', JStr (cp_id c)), (''run_id'', JStr (cp_run_id c)), (''seq'', JNum (cp_seq c)),
      (''kind'', JStr (cp_kind c)), (''payload_json'', JStr (cp_payload_json c)), (''created_at'', JNum (cp_created_at c))]"

definition row_to_policy :: "policy_row \<Rightarrow> json" where
  "row_to_policy b = JObj
     [(''id'', JStr (bp_id b)), (''owner_subject'', JStr (bp_owner_subject b)), (''scope_type'', JStr (bp_scope_type b)),
      (''scope_id'', JStr (bp_scope_id b)), (''window_type'', JStr (bp_window_type b)),
      (''hard_cap_cents'', JNum (bp_hard_cap_cents b)), (''soft_cap_cents'', jopt JNum (bp_soft_cap_cents b)),
      (''token_hard_cap'', jopt JNum (bp_token_hard_cap b)), (''token_soft_cap'', jopt JNum (bp_token_soft_cap b)),
      (''action_on_breach'', JStr (bp_action_on_breach b)), (''active'', JBool (bp_active b)),
      (''created_at'', JNum (bp_created_at b)), (''updated_at'', JNum (bp_updated_at b))]"

section \<open>Runs\<close>

record start_request =
  sr_runtime_kind :: str
  sr_agent_id :: "str option"
  sr_task_id :: "str option"
  sr_idempotency_key :: "str option"
  sr_runtime_session_id :: "str option"

definition keyed_run :: "str \<Rightarrow> str \<Rightarrow> run_row \<Rightarrow> tri" where
  "keyed_run who key r = tand (tbool (r_owner_subject r = who)) (teq (r_idempotency_key r) (Some key))"

text \<open>An error of the lookup counts as no run.\<close>

definition start_lookup :: "run_state \<Rightarrow> principal \<Rightarrow> start_request \<Rightarrow> run_row option" where
  "start_lookup s p body =
     (case sr_idempotency_key body of
        None \<Rightarrow> None
      | Some key \<Rightarrow> if rn_up s then fetch_optional (keyed_run (subject p) key) (rn_runs s) else None)"

definition new_run_row :: "time \<Rightarrow> str \<Rightarrow> str \<Rightarrow> str \<Rightarrow> start_request \<Rightarrow> run_row" where
  "new_run_row now run_id resume_token who body =
     \<lparr>r_id = run_id, r_owner_subject = who, r_mesh_agent_id = sr_agent_id body, r_mesh_task_id = sr_task_id body,
      r_runtime_kind = sr_runtime_kind body, r_runtime_session_id = sr_runtime_session_id body,
      r_status = ''starting'', r_started_at = Some now, r_ended_at = None, r_resume_token = resume_token,
      r_last_checkpoint_at = None, r_total_cost_cents = 0, r_parent_run_id = None, r_metadata_json = None,
      r_idempotency_key = sr_idempotency_key body, r_created_at = now, r_updated_at = now\<rparr>"

definition agent_fk :: "db \<Rightarrow> str option \<Rightarrow> bool" where
  "agent_fk d x = (case x of None \<Rightarrow> True | Some i \<Rightarrow> lookup a_id i (mesh_agents d) \<noteq> None)"

definition task_fk :: "db \<Rightarrow> str option \<Rightarrow> bool" where
  "task_fk d x = (case x of None \<Rightarrow> True | Some i \<Rightarrow> lookup t_id i (tasks d) \<noteq> None)"

text \<open>UNIQUE (owner_subject, idempotency_key), where NULL keys differ, and the foreign keys.\<close>

definition start_insert ::
  "time \<Rightarrow> str \<Rightarrow> str \<Rightarrow> run_state \<Rightarrow> principal \<Rightarrow> start_request \<Rightarrow> run_state \<times> json res" where
  "start_insert now run_id resume_token s p body =
     (if \<not> rn_up s \<or> lookup r_id run_id (rn_runs s) \<noteq> None \<or> \<not> agent_fk (rn_db s) (sr_agent_id body)
         \<or> \<not> task_fk (rn_db s) (sr_task_id body)
         \<or> (case sr_idempotency_key body of None \<Rightarrow> False | Some key \<Rightarrow> exists_where (keyed_run (subject p) key) (rn_runs s))
      then (s, Inl internal_error)
      else let row = new_run_row now run_id resume_token (subject p) body in
        (s\<lparr>rn_runs := insert_row row (rn_runs s)\<rparr>, Inr (row_to_run row)))"

definition start_run ::
  "time \<Rightarrow> str \<Rightarrow> str \<Rightarrow> run_state \<Rightarrow> principal \<Rightarrow> start_request \<Rightarrow> run_state \<times> json res" where
  "start_run now run_id resume_token s p body =
     (case start_lookup s p body of
        Some r \<Rightarrow> (s, Inr (row_to_run r)) | None \<Rightarrow> start_insert now run_id resume_token s p body)"

definition owned_run :: "run_state \<Rightarrow> str \<Rightarrow> str \<Rightarrow> run_row option" where
  "owned_run s run_id who = fetch_optional (owned_row r_id r_owner_subject run_id who) (rn_runs s)"

definition opt_filter :: "str option \<Rightarrow> str option \<Rightarrow> tri" where
  "opt_filter wanted v = (case wanted of None \<Rightarrow> Some True | Some w \<Rightarrow> teq v (Some w))"

text \<open>ORDER BY started_at DESC NULLS LAST LIMIT n.\<close>

definition list_runs ::
  "run_state \<Rightarrow> principal \<Rightarrow> str option \<Rightarrow> str option \<Rightarrow> str option \<Rightarrow> int option \<Rightarrow> json res" where
  "list_runs s p agent_id task_id status lim =
     (let n = min (opt_or 50 lim) 200;
          rows = select_where (\<lambda>r. tand (tbool (r_owner_subject r = subject p)) (tand (opt_filter agent_id (r_mesh_agent_id r))
                   (tand (opt_filter task_id (r_mesh_task_id r)) (opt_filter status (Some (r_status r)))))) (rn_runs s);
          sorted = sort_key (\<lambda>r. - the (r_started_at r)) (filter (\<lambda>r. r_started_at r \<noteq> None) rows)
                   @ filter (\<lambda>r. r_started_at r = None) rows in
      if \<not> rn_up s \<or> n < 0 then Inl internal_error
      else Inr (JList (map row_to_run (take (nat n) sorted))))"

definition get_run :: "run_state \<Rightarrow> principal \<Rightarrow> str \<Rightarrow> json res" where
  "get_run s p run_id =
     (if \<not> rn_up s then Inl internal_error
      else case owned_run s run_id (subject p) of
        Some r \<Rightarrow> Inr (row_to_run r) | None \<Rightarrow> Inl (not_found ''Run not found''))"

definition TERMINAL_STATUSES :: "str list" where
  "TERMINAL_STATUSES = [''completed'', ''failed'', ''cancelled'']"

definition run_transition_update :: "time \<Rightarrow> str \<Rightarrow> run_row \<Rightarrow> run_row" where
  "run_transition_update now new_status r =
     (if new_status \<in> set TERMINAL_STATUSES
      then r\<lparr>r_status := new_status, r_ended_at := Some now, r_updated_at := now\<rparr>
      else r\<lparr>r_status := new_status, r_updated_at := now\<rparr>)"

definition run_transition :: "time \<Rightarrow> run_state \<Rightarrow> str \<Rightarrow> str \<Rightarrow> str \<Rightarrow> run_state \<times> json res" where
  "run_transition now s run_id new_status who =
     (if \<not> rn_up s then (s, Inl internal_error)
      else case update_returning (owned_row r_id r_owner_subject run_id who) (run_transition_update now new_status) (rn_runs s) of
        (rs, Some r) \<Rightarrow> (s\<lparr>rn_runs := rs\<rparr>, Inr (row_to_run r))
      | (rs, None) \<Rightarrow> (s, Inl (not_found ''Run not found'')))"

definition pause_run :: "time \<Rightarrow> run_state \<Rightarrow> principal \<Rightarrow> str \<Rightarrow> run_state \<times> json res" where
  "pause_run now s p run_id = run_transition now s run_id ''paused'' (subject p)"

definition cancel_run :: "time \<Rightarrow> run_state \<Rightarrow> principal \<Rightarrow> str \<Rightarrow> run_state \<times> json res" where
  "cancel_run now s p run_id = run_transition now s run_id ''cancelled'' (subject p)"

definition complete_run :: "time \<Rightarrow> run_state \<Rightarrow> principal \<Rightarrow> str \<Rightarrow> run_state \<times> json res" where
  "complete_run now s p run_id = run_transition now s run_id ''completed'' (subject p)"

definition fail_run :: "time \<Rightarrow> run_state \<Rightarrow> principal \<Rightarrow> str \<Rightarrow> run_state \<times> json res" where
  "fail_run now s p run_id = run_transition now s run_id ''failed'' (subject p)"

section \<open>Checkpoints\<close>

definition checkpoints_of :: "run_state \<Rightarrow> str \<Rightarrow> checkpoint_row list" where
  "checkpoints_of s run_id = select_where (by_key cp_run_id run_id) (rn_checkpoints s)"

definition resume_run :: "run_state \<Rightarrow> principal \<Rightarrow> str \<Rightarrow> str \<Rightarrow> json res" where
  "resume_run s p run_id token =
     (if \<not> rn_up s then Inl internal_error
      else case owned_run s run_id (subject p) of
        None \<Rightarrow> Inl (not_found ''Run not found'')
      | Some r \<Rightarrow>
          if r_resume_token r \<noteq> token then Inl (forbidden ''invalid_resume_token'')
          else Inr (JObj [(''run'', row_to_run r),
                 (''last_checkpoint'', case sort_key (\<lambda>c. - cp_seq c) (checkpoints_of s run_id) of
                    [] \<Rightarrow> JNull | c # _ \<Rightarrow> row_to_checkpoint c),
                 (''resume_token'', JStr token)]))"

definition list_checkpoints :: "run_state \<Rightarrow> principal \<Rightarrow> str \<Rightarrow> json res" where
  "list_checkpoints s p run_id =
     (if \<not> rn_up s \<or> owned_run s run_id (subject p) = None then Inl (not_found ''Run not found'')
      else Inr (JList (map row_to_checkpoint (sort_key cp_seq (checkpoints_of s run_id)))))"

text \<open>COALESCE((SELECT MAX(seq)+1 FROM runcheckpoint WHERE run_id=$2), 0), an integer of 32 bits.\<close>

definition next_checkpoint_seq :: "run_state \<Rightarrow> str \<Rightarrow> int" where
  "next_checkpoint_seq s run_id =
     (case checkpoints_of s run_id of [] \<Rightarrow> 0 | c # cs \<Rightarrow> fold max (map cp_seq cs) (cp_seq c) + 1)"

definition insert_checkpoint ::
  "(json \<Rightarrow> str) \<Rightarrow> time \<Rightarrow> str \<Rightarrow> int \<Rightarrow> run_state \<Rightarrow> str \<Rightarrow> str \<Rightarrow> json \<Rightarrow> (run_state \<times> checkpoint_row) option" where
  "insert_checkpoint dump now checkpoint_id seq s run_id kind body =
     (if seq > 2 ^ 31 - 1 \<or> lookup cp_id checkpoint_id (rn_checkpoints s) \<noteq> None
         \<or> exists_where (\<lambda>c. tand (by_key cp_run_id run_id c) (by_key cp_seq seq c)) (rn_checkpoints s) then None
      else let c = \<lparr>cp_id = checkpoint_id, cp_run_id = run_id, cp_seq = seq, cp_kind = kind,
                    cp_payload_json = dump body, cp_created_at = now\<rparr> in
        Some (s\<lparr>rn_checkpoints := insert_row c (rn_checkpoints s)\<rparr>, c))"

definition touch_run :: "time \<Rightarrow> str \<Rightarrow> run_state \<Rightarrow> run_state" where
  "touch_run now run_id s = s\<lparr>rn_runs := update_where (by_key r_id run_id)
     (\<lambda>r. r\<lparr>r_last_checkpoint_at := Some now, r_updated_at := now\<rparr>) (rn_runs s)\<rparr>"

definition create_checkpoint ::
  "(json \<Rightarrow> str) \<Rightarrow> time \<Rightarrow> str \<Rightarrow> run_state \<Rightarrow> principal \<Rightarrow> str \<Rightarrow> str \<Rightarrow> json \<Rightarrow> run_state \<times> json res" where
  "create_checkpoint dump now checkpoint_id s p run_id kind body =
     (if \<not> rn_up s \<or> owned_run s run_id (subject p) = None then (s, Inl (not_found ''Run not found''))
      else case insert_checkpoint dump now checkpoint_id (next_checkpoint_seq s run_id) s run_id kind body of
        Some (s1, c) \<Rightarrow> (touch_run now run_id s1, Inr (row_to_checkpoint c))
      | None \<Rightarrow> (touch_run now run_id s, Inl internal_error))"

end
