(* ===== verification/Budgets.thy ===== *)
theory Budgets
  imports Runs
begin

text \<open>
  Budget policies, their windows and the usage records (routes/budgets.rs). A batch of usage is checked as a whole
  and then inserted record by record, each in a statement of its own. The parser of dates is an argument.
\<close>

section \<open>Policies\<close>

record policy_create =
  pc_scope_type :: str
  pc_scope_id :: str
  pc_window_type :: str
  pc_hard_cap_cents :: int
  pc_soft_cap_cents :: "int option"
  pc_token_hard_cap :: "int option"
  pc_token_soft_cap :: "int option"
  pc_action_on_breach :: str

definition new_policy_row :: "time \<Rightarrow> str \<Rightarrow> str \<Rightarrow> policy_create \<Rightarrow> policy_row" where
  "new_policy_row now policy_id who body =
     \<lparr>bp_id = policy_id, bp_owner_subject = who, bp_scope_type = pc_scope_type body, bp_scope_id = pc_scope_id body,
      bp_window_type = pc_window_type body, bp_hard_cap_cents = pc_hard_cap_cents body,
      bp_soft_cap_cents = pc_soft_cap_cents body, bp_token_hard_cap = pc_token_hard_cap body,
      bp_token_soft_cap = pc_token_soft_cap body, bp_action_on_breach = pc_action_on_breach body,
      bp_active = True, bp_created_at = now, bp_updated_at = now\<rparr>"

definition create_budget_policy ::
  "time \<Rightarrow> str \<Rightarrow> run_state \<Rightarrow> principal \<Rightarrow> policy_create \<Rightarrow> run_state \<times> json res" where
  "create_budget_policy now policy_id s p body =
     (if \<not> rn_up s \<or> lookup bp_id policy_id (rn_policies s) \<noteq> None then (s, Inl internal_error)
      else let row = new_policy_row now policy_id (subject p) body in
        (s\<lparr>rn_policies := insert_row row (rn_policies s)\<rparr>, Inr (row_to_policy row)))"

definition list_budget_policies :: "run_state \<Rightarrow> principal \<Rightarrow> json res" where
  "list_budget_policies s p =
     (if \<not> rn_up s then Inl internal_error
      else Inr (JList (map row_to_policy (sort_key (\<lambda>b. - bp_created_at b)
             (select_where (\<lambda>b. tand (tbool (bp_owner_subject b = subject p)) (tbool (bp_active b))) (rn_policies s))))))"

definition owned_policy :: "run_state \<Rightarrow> str \<Rightarrow> str \<Rightarrow> policy_row option" where
  "owned_policy s policy_id who = fetch_optional (owned_row bp_id bp_owner_subject policy_id who) (rn_policies s)"

definition get_budget_policy :: "run_state \<Rightarrow> principal \<Rightarrow> str \<Rightarrow> json res" where
  "get_budget_policy s p policy_id =
     (if \<not> rn_up s then Inl internal_error
      else case owned_policy s policy_id (subject p) of
        Some b \<Rightarrow> Inr (row_to_policy b) | None \<Rightarrow> Inl (not_found ''Budget policy not found''))"

definition delete_budget_policy :: "time \<Rightarrow> run_state \<Rightarrow> principal \<Rightarrow> str \<Rightarrow> run_state \<times> json res" where
  "delete_budget_policy now s p policy_id =
     (if \<not> rn_up s \<or> owned_policy s policy_id (subject p) = None
      then (s, Inl (not_found ''Budget policy not found''))
      else (s\<lparr>rn_policies := update_where (owned_row bp_id bp_owner_subject policy_id (subject p))
                (\<lambda>b. b\<lparr>bp_active := False, bp_updated_at := now\<rparr>) (rn_policies s)\<rparr>,
            Inr (JObj [(''deleted'', JStr policy_id)])))"

definition latest_window :: "run_state \<Rightarrow> str \<Rightarrow> window_row option" where
  "latest_window s policy_id =
     (case sort_key (\<lambda>w. - bw_window_start w) (select_where (by_key bw_policy_id policy_id) (rn_windows s)) of
        [] \<Rightarrow> None | w # _ \<Rightarrow> Some w)"

definition override_budget_window :: "time \<Rightarrow> run_state \<Rightarrow> principal \<Rightarrow> str \<Rightarrow> run_state \<times> json res" where
  "override_budget_window now s p policy_id =
     (if (\<not> rn_up s \<or> owned_policy s policy_id (subject p) = None) \<and> \<not> is_admin p
      then (s, Inl (not_found ''Budget policy not found''))
      else if \<not> rn_up s then (s, Inl internal_error)
      else case latest_window s policy_id of
        None \<Rightarrow> (s, Inl (not_found ''No active window found''))
      | Some w \<Rightarrow>
          (s\<lparr>rn_windows := update_where (by_key bw_id (bw_id w)) (\<lambda>w. w\<lparr>bw_state := ''open'', bw_updated_at := now\<rparr>) (rn_windows s)\<rparr>,
           Inr (JObj [(''reset'', JStr policy_id)])))"

section \<open>Usage\<close>

record usage_item =
  ui_runtime_kind :: str
  ui_input_tokens :: int
  ui_output_tokens :: int
  ui_reasoning_tokens :: int
  ui_tool_calls :: int
  ui_wall_ms :: int
  ui_provider :: str
  ui_model :: str
  ui_run_id :: "str option"
  ui_mesh_task_id :: "str option"
  ui_mesh_agent_id :: "str option"
  ui_domain_id :: "str option"
  ui_mission_id :: "str option"
  ui_source :: str

text \<open>The distinct non-empty domains of a batch, in order, are checked until one is refused.\<close>

fun check_domains :: "db \<Rightarrow> principal \<Rightarrow> str list \<Rightarrow> usage_item list \<Rightarrow> unit res" where
  "check_domains d p seen [] = Inr ()"
| "check_domains d p seen (u # us) =
     (case ui_domain_id u of
        None \<Rightarrow> check_domains d p seen us
      | Some k \<Rightarrow>
          if k = [] \<or> k \<in> set seen then check_domains d p seen us
          else case authz_domain d p k of
            Inl e \<Rightarrow> Inl e | Inr _ \<Rightarrow> check_domains d p (k # seen) us)"

definition new_usage_row :: "time \<Rightarrow> str \<Rightarrow> str \<Rightarrow> usage_item \<Rightarrow> usage_row" where
  "new_usage_row now record_id who u =
     \<lparr>us_id = record_id, us_owner_subject = who, us_run_id = ui_run_id u, us_mesh_task_id = ui_mesh_task_id u,
      us_mesh_agent_id = ui_mesh_agent_id u, us_domain_id = ui_domain_id u, us_mission_id = ui_mission_id u,
      us_runtime_kind = ui_runtime_kind u, us_provider = ui_provider u, us_model = ui_model u,
      us_input_tokens = ui_input_tokens u, us_output_tokens = ui_output_tokens u,
      us_reasoning_tokens = ui_reasoning_tokens u, us_tool_calls = ui_tool_calls u, us_wall_ms = ui_wall_ms u,
      us_cost_cents = 0, us_recorded_at = now, us_source = ui_source u\<rparr>"

definition run_fk :: "run_state \<Rightarrow> str option \<Rightarrow> bool" where
  "run_fk s x = (case x of None \<Rightarrow> True | Some i \<Rightarrow> lookup r_id i (rn_runs s) \<noteq> None)"

definition insert_usage :: "time \<Rightarrow> str \<Rightarrow> str \<Rightarrow> usage_item \<Rightarrow> run_state \<Rightarrow> run_state option" where
  "insert_usage now record_id who u s =
     (if \<not> rn_up s \<or> lookup us_id record_id (rn_usage s) \<noteq> None \<or> \<not> run_fk s (ui_run_id u)
         \<or> \<not> agent_fk (rn_db s) (ui_mesh_agent_id u) \<or> \<not> task_fk (rn_db s) (ui_mesh_task_id u) then None
      else Some (s\<lparr>rn_usage := insert_row (new_usage_row now record_id who u) (rn_usage s)\<rparr>))"

text \<open>The records one by one, each with its fresh identifier; the first error ends the loop.\<close>

fun insert_usages :: "time \<Rightarrow> str \<Rightarrow> (str \<times> usage_item) list \<Rightarrow> run_state \<Rightarrow> run_state \<times> bool" where
  "insert_usages now who [] s = (s, True)"
| "insert_usages now who ((i, u) # us) s =
     (case insert_usage now i who u s of
        None \<Rightarrow> (s, False) | Some s' \<Rightarrow> insert_usages now who us s')"

definition record_usage_batch ::
  "time \<Rightarrow> run_state \<Rightarrow> principal \<Rightarrow> (str \<times> usage_item) list \<Rightarrow> run_state \<times> json res" where
  "record_usage_batch now s p records =
     (case check_domains (rn_db s) p [] (map snd records) of
        Inl e \<Rightarrow> (s, Inl e)
      | Inr _ \<Rightarrow>
          (case insert_usages now (subject p) records s of
             (s', True) \<Rightarrow> (s', Inr (JObj [(''recorded'', JNum (int (length records)))]))
           | (s', False) \<Rightarrow> (s', Inl internal_error)))"

definition usage_fence :: "str \<Rightarrow> str option \<Rightarrow> time option \<Rightarrow> usage_row \<Rightarrow> tri" where
  "usage_fence who domain_id since u =
     tand (tbool (us_owner_subject u = who)) (tand (opt_filter domain_id (us_domain_id u))
       (case since of None \<Rightarrow> Some True | Some t \<Rightarrow> tbool (us_recorded_at u \<ge> t)))"

definition get_usage_summary ::
  "(str \<Rightarrow> time option) \<Rightarrow> run_state \<Rightarrow> principal \<Rightarrow> str option \<Rightarrow> str option \<Rightarrow> json res" where
  "get_usage_summary parse_since s p domain_id since =
     (if \<not> rn_up s then Inl internal_error
      else let rows = select_where (usage_fence (subject p) domain_id (since \<bind> parse_since)) (rn_usage s) in
        Inr (JObj [(''total_cost_cents'', JNum (sum_list (map us_cost_cents rows))),
                   (''total_input_tokens'', JNum (sum_list (map us_input_tokens rows))),
                   (''total_output_tokens'', JNum (sum_list (map us_output_tokens rows))),
                   (''total_tool_calls'', JNum (sum_list (map us_tool_calls rows))),
                   (''record_count'', JNum (int (length rows)))]))"

end
