(* ===== verification/Run_Properties.thy ===== *)
theory Run_Properties
  imports Budgets Domain_Properties
begin

text \<open>
  Properties of runs: the locale run_handler is the contract of every statement that writes the tables of runs (the
  ledger stays well formed, and a run keeps its owner, its key and its resume token); it is interpreted for each.
  From it: checkpoints are numbered without gaps, a start is idempotent for ever, a finished run can be reopened.
\<close>

section \<open>The ledger of runs\<close>

definition run_statuses :: "str list" where
  "run_statuses = [''starting'', ''paused'', ''completed'', ''failed'', ''cancelled'']"

definition run_key :: "run_row \<Rightarrow> (str \<times> str) option" where
  "run_key r = map_option (Pair (r_owner_subject r)) (r_idempotency_key r)"

definition keys_once :: "run_row table \<Rightarrow> bool" where
  "keys_once t = (\<forall>r\<in>set t. \<forall>q\<in>set t. run_key r \<noteq> None \<longrightarrow> run_key q = run_key r \<longrightarrow> r_id q = r_id r)"

definition run_sound :: "run_row \<Rightarrow> bool" where
  "run_sound r = (r_status r \<in> set run_statuses \<and> (r_status r \<in> set TERMINAL_STATUSES \<longrightarrow> r_ended_at r \<noteq> None))"

definition seqs :: "run_state \<Rightarrow> str \<Rightarrow> int list" where
  "seqs s i = map cp_seq (checkpoints_of s i)"

definition ledger_ok :: "run_state \<Rightarrow> bool" where
  "ledger_ok s = (unique_key r_id (rn_runs s) \<and> keys_once (rn_runs s) \<and> (\<forall>r\<in>set (rn_runs s). run_sound r) \<and>
     (\<forall>i. seqs s i = map int [0..<length (seqs s i)]))"

text \<open>What a run never loses.\<close>

definition identity :: "run_row \<Rightarrow> str \<times> str \<times> str option \<times> str" where
  "identity r = (r_id r, r_owner_subject r, r_idempotency_key r, r_resume_token r)"

definition runs_kept :: "run_state \<Rightarrow> run_state \<Rightarrow> bool" where
  "runs_kept s s' = (identity ` set (rn_runs s) \<subseteq> identity ` set (rn_runs s') \<and>
     (\<forall>i. \<exists>rest. checkpoints_of s' i = checkpoints_of s i @ rest))"

locale run_handler =
  fixes run :: "run_state \<Rightarrow> run_state"
  assumes keeps_ok: "ledger_ok s \<Longrightarrow> ledger_ok (run s)"
    and kept: "runs_kept s (run s)"

lemma runs_kept_refl [simp]: "runs_kept s s"
  by (simp add: runs_kept_def)

lemma runs_kept_trans: "runs_kept s s' \<Longrightarrow> runs_kept s' s'' \<Longrightarrow> runs_kept s s''"
proof -
  assume a: "runs_kept s s'" and b: "runs_kept s' s''"
  have "identity ` set (rn_runs s) \<subseteq> identity ` set (rn_runs s'')" using a b unfolding runs_kept_def by blast
  moreover have "\<exists>rest. checkpoints_of s'' i = checkpoints_of s i @ rest" for i
  proof -
    obtain x y where "checkpoints_of s' i = checkpoints_of s i @ x" "checkpoints_of s'' i = checkpoints_of s' i @ y"
      using a b unfolding runs_kept_def by blast
    then show ?thesis by simp
  qed
  ultimately show ?thesis by (simp add: runs_kept_def)
qed

lemma untouched_handler:
  assumes "\<And>s. rn_runs (run s) = rn_runs s" "\<And>s. rn_checkpoints (run s) = rn_checkpoints s"
  shows "run_handler run"
  by unfold_locales (simp_all add: ledger_ok_def runs_kept_def seqs_def checkpoints_of_def assms)

text \<open>An update of runs that keeps what identifies them.\<close>

lemma identity_key: "identity r = identity q \<Longrightarrow> r_id r = r_id q \<and> run_key r = run_key q"
  by (simp add: identity_def run_key_def)

lemma identities_updated:
  assumes "\<And>r. identity (f r) = identity r"
  shows "identity ` set (update_where c f t) = identity ` set t"
proof -
  have "identity (if holds (c r) then f r else r) = identity r" for r using assms by simp
  then show ?thesis unfolding update_where_def set_map image_image by (rule image_cong [OF refl])
qed

lemma keys_once_identities:
  assumes "identity ` set t' \<subseteq> identity ` set t" "keys_once t"
  shows "keys_once t'"
  unfolding keys_once_def
proof (intro ballI impI)
  fix r q assume *: "r \<in> set t'" "q \<in> set t'" "run_key r \<noteq> None" "run_key q = run_key r"
  obtain r' q' where "r' \<in> set t" "identity r = identity r'" "q' \<in> set t" "identity q = identity q'"
    using *(1,2) assms(1) by blast
  then show "r_id q = r_id r" using *(3,4) assms(2) identity_key unfolding keys_once_def by metis
qed

lemma runs_updated:
  assumes "\<And>r. identity (f r) = identity r" "\<And>r. run_sound r \<Longrightarrow> run_sound (f r)" "ledger_ok s"
  shows "ledger_ok (s\<lparr>rn_runs := update_where c f (rn_runs s)\<rparr>)"
proof -
  have "\<And>r. r_id (f r) = r_id r" using assms(1) identity_key by blast
  then have "unique_key r_id (update_where c f (rn_runs s))" using assms(3) by (simp add: ledger_ok_def unique_update_where)
  moreover have "keys_once (update_where c f (rn_runs s))"
    using assms(3) identities_updated [of f c "rn_runs s", OF assms(1)] keys_once_identities by (metis ledger_ok_def order_refl)
  moreover have "\<forall>r\<in>set (update_where c f (rn_runs s)). run_sound r"
    using assms(2,3) by (auto simp: update_where_def ledger_ok_def)
  ultimately show ?thesis using assms(3) by (simp add: ledger_ok_def seqs_def checkpoints_of_def)
qed

lemma update_keeps_runs: "(\<And>r. identity (f r) = identity r) \<Longrightarrow> runs_kept s (s\<lparr>rn_runs := update_where c f (rn_runs s)\<rparr>)"
  by (simp add: runs_kept_def identities_updated checkpoints_of_def)

lemma transition_identity [simp]: "identity (run_transition_update now st r) = identity r"
  by (simp add: run_transition_update_def identity_def)

lemma transition_sound: "st \<in> set run_statuses \<Longrightarrow> run_sound (run_transition_update now st r)"
  by (simp add: run_transition_update_def run_sound_def)

lemma run_transition_fst:
  "fst (run_transition now s i st who) =
     (if rn_up s then s\<lparr>rn_runs := update_where (owned_row r_id r_owner_subject i who) (run_transition_update now st) (rn_runs s)\<rparr> else s)"
proof -
  have "update_where (owned_row r_id r_owner_subject i who) (run_transition_update now st) (rn_runs s) = rn_runs s"
    if "find (\<lambda>r. holds (owned_row r_id r_owner_subject i who r)) (rn_runs s) = None"
    using that unfolding find_None_iff by (intro update_where_none) blast
  then show ?thesis by (auto simp: run_transition_def update_returning_find split: option.splits)
qed

interpretation transition: run_handler "\<lambda>s. if st \<in> set run_statuses then fst (run_transition now s i st who) else s" for st now i who
  by unfold_locales (auto simp: run_transition_fst transition_sound intro!: runs_updated update_keeps_runs)

lemma touch_run_ok: "ledger_ok s \<Longrightarrow> ledger_ok (touch_run now i s)"
  unfolding touch_run_def by (rule runs_updated) (simp_all add: identity_def run_sound_def)

lemma touch_run_kept: "runs_kept s (touch_run now i s)"
  unfolding touch_run_def by (rule update_keeps_runs) (simp add: identity_def)

lemma start_insert_cases:
  obtains "start_insert now i token s p body = (s, Inl internal_error)"
  | (made) row where "row = new_run_row now i token (subject p) body" "lookup r_id i (rn_runs s) = None" "rn_up s"
      "\<forall>key. sr_idempotency_key body = Some key \<longrightarrow> \<not> exists_where (keyed_run (subject p) key) (rn_runs s)"
      "start_insert now i token s p body = (s\<lparr>rn_runs := insert_row row (rn_runs s)\<rparr>, Inr (row_to_run row))"
  unfolding start_insert_def Let_def by (cases "sr_idempotency_key body") (fastforce split: if_splits)+

lemma keyed_run_holds [simp]: "holds (keyed_run who key r) \<longleftrightarrow> run_key r = Some (who, key)"
  by (auto simp: keyed_run_def run_key_def)

lemma run_added:
  assumes "ledger_ok s" "lookup r_id (r_id row) (rn_runs s) = None" "run_sound row"
    "\<And>who key. run_key row = Some (who, key) \<Longrightarrow> \<not> exists_where (keyed_run who key) (rn_runs s)"
  shows "ledger_ok (s\<lparr>rn_runs := insert_row row (rn_runs s)\<rparr>)"
proof -
  have new: "run_key q \<noteq> run_key row" if "q \<in> set (rn_runs s)" "run_key row \<noteq> None" for q
    using assms(4) that by (cases "run_key row") (auto simp: exists_where_def list_ex_iff)
  have "keys_once (insert_row row (rn_runs s))"
    unfolding keys_once_def insert_row_def
  proof (intro ballI impI)
    fix r q assume *: "r \<in> set (rn_runs s @ [row])" "q \<in> set (rn_runs s @ [row])" "run_key r \<noteq> None" "run_key q = run_key r"
    consider "r \<in> set (rn_runs s)" "q \<in> set (rn_runs s)" | "r = row" "q = row"
      | "r \<in> set (rn_runs s)" "q = row" | "r = row" "q \<in> set (rn_runs s)"
      using *(1,2) by (simp only: set_append Un_iff list.set empty_iff insert_iff) blast
    then show "r_id q = r_id r"
    proof cases
      case 1
      then show ?thesis using assms(1) *(3,4) unfolding ledger_ok_def keys_once_def by blast
    next
      case 2
      then show ?thesis by simp
    next
      case 3
      then show ?thesis using new [of r] *(3,4) by metis
    next
      case 4
      then show ?thesis using new [of q] *(3,4) by metis
    qed
  qed
  moreover have "\<forall>r\<in>set (insert_row row (rn_runs s)). run_sound r" using assms(1,3) by (simp add: ledger_ok_def insert_row_def)
  ultimately show ?thesis using assms(1,2) by (simp add: ledger_ok_def unique_insert_row seqs_def checkpoints_of_def)
qed

lemma new_run_simps [simp]:
  "r_id (new_run_row now i token who body) = i"
  "run_key (new_run_row now i token who body) = map_option (Pair who) (sr_idempotency_key body)"
  "run_sound (new_run_row now i token who body)"
  by (simp_all add: new_run_row_def run_key_def run_sound_def run_statuses_def TERMINAL_STATUSES_def)

interpretation started: run_handler "\<lambda>s. fst (start_insert now i token s p body)" for now i token p body
proof
  fix s :: run_state
  show "runs_kept s (fst (start_insert now i token s p body))"
    by (cases rule: start_insert_cases [of now i token s p body]) (auto simp: runs_kept_def checkpoints_of_def insert_row_def)
  assume "ledger_ok s"
  then show "ledger_ok (fst (start_insert now i token s p body))"
    by (cases rule: start_insert_cases [of now i token s p body]) (auto intro!: run_added)
qed

section \<open>Checkpoints\<close>

lemma max_upto: "fold max (map int [1..<Suc n]) 0 = int n"
  by (induction n) simp_all

lemma next_seq_length:
  assumes "ledger_ok s"
  shows "next_checkpoint_seq s i = int (length (checkpoints_of s i))"
proof (cases "checkpoints_of s i")
  case Nil
  then show ?thesis by (simp add: next_checkpoint_seq_def)
next
  case (Cons c cs)
  have "map cp_seq (c # cs) = map int [0..<Suc (length cs)]"
    using assms Cons unfolding ledger_ok_def seqs_def by (metis length_Cons length_map)
  then have "cp_seq c = 0" "map cp_seq cs = map int [1..<Suc (length cs)]"
    by (auto simp: upt_conv_Cons simp del: upt_Suc)
  then show ?thesis using Cons max_upto [of "length cs"] by (simp add: next_checkpoint_seq_def)
qed

lemma insert_checkpoint_cases:
  assumes "insert_checkpoint dump now j seq s i kind body = Some (s', c)"
  shows "s' = s\<lparr>rn_checkpoints := rn_checkpoints s @ [c]\<rparr>" "cp_run_id c = i" "cp_seq c = seq" "seq \<notin> set (seqs s i)"
    "cp_payload_json c = dump body" "cp_kind c = kind"
  using assms by (auto simp: insert_checkpoint_def Let_def insert_row_def seqs_def checkpoints_of_def select_where_def
      exists_where_def list_ex_iff split: if_splits)

lemma checkpoints_of_append:
  "checkpoints_of (s\<lparr>rn_checkpoints := rn_checkpoints s @ [c]\<rparr>) i = checkpoints_of s i @ (if cp_run_id c = i then [c] else [])"
  by (simp add: checkpoints_of_def select_where_def)

text \<open>A number read earlier is at most the number of checkpoints by now; the unique index takes only that one.\<close>

lemma insert_checkpoint_ok:
  assumes "ledger_ok s" "insert_checkpoint dump now j seq s i kind body = Some (s', c)" "0 \<le> seq" "seq \<le> next_checkpoint_seq s i"
  shows "ledger_ok s' \<and> seq = next_checkpoint_seq s i"
proof -
  note C = insert_checkpoint_cases [OF assms(2)]
  let ?n = "length (seqs s i)"
  have n: "next_checkpoint_seq s i = int ?n" using next_seq_length [OF assms(1)] by (simp add: seqs_def)
  have "seqs s i = map int [0..<?n]" using assms(1) by (simp add: ledger_ok_def)
  then have mem: "int k \<in> set (seqs s i) \<longleftrightarrow> k < ?n" for k
    by (metis (no_types, lifting) atLeast0LessThan atLeastLessThan_upt imageE image_eqI lessThan_iff of_nat_eq_iff set_map)
  have "seq = int ?n"
  proof (rule ccontr)
    assume "seq \<noteq> int ?n"
    then have "nat seq < ?n" "int (nat seq) = seq" using assms(3,4) n by auto
    then show False using C(4) mem by metis
  qed
  moreover have "seqs s' k = map int [0..<length (seqs s' k)]" for k
  proof -
    have "seqs s' k = seqs s k @ (if k = i then [seq] else [])"
      unfolding seqs_def C(1) checkpoints_of_append using C(2,3) by simp
    moreover have "seqs s k = map int [0..<length (seqs s k)]" using assms(1) by (simp add: ledger_ok_def)
    ultimately show ?thesis using \<open>seq = int ?n\<close>
      by (cases "k = i") (simp_all del: upt_Suc add: upt_Suc_append)
  qed
  ultimately show ?thesis using assms(1) n C(1) by (simp add: ledger_ok_def)
qed

lemma create_checkpoint_cases:
  obtains (refused) "create_checkpoint dump now j s p i kind body = (s, Inl (not_found ''Run not found''))"
  | (failed) "create_checkpoint dump now j s p i kind body = (touch_run now i s, Inl internal_error)"
  | (made) s1 c where "insert_checkpoint dump now j (next_checkpoint_seq s i) s i kind body = Some (s1, c)"
      "create_checkpoint dump now j s p i kind body = (touch_run now i s1, Inr (row_to_checkpoint c))"
proof (cases "\<not> rn_up s \<or> owned_run s i (subject p) = None")
  case True
  then show thesis using refused by (simp add: create_checkpoint_def)
next
  case False
  then show thesis using failed made
    by (cases "insert_checkpoint dump now j (next_checkpoint_seq s i) s i kind body")
      (auto simp: create_checkpoint_def simp del: de_Morgan_disj)
qed

lemma next_seq_nonneg: "ledger_ok s \<Longrightarrow> 0 \<le> next_checkpoint_seq s i"
  by (simp add: next_seq_length)

interpretation checkpointed: run_handler "\<lambda>s. fst (create_checkpoint dump now j s p i kind body)" for dump now j p i kind body
proof
  fix s :: run_state
  show "runs_kept s (fst (create_checkpoint dump now j s p i kind body))"
  proof (cases rule: create_checkpoint_cases [of dump now j s p i kind body])
    case (made s1 c)
    have "runs_kept s s1" unfolding insert_checkpoint_cases(1) [OF made(1)] runs_kept_def checkpoints_of_append by simp
    then show ?thesis using made(2) touch_run_kept runs_kept_trans by (metis fst_conv)
  qed (simp_all add: touch_run_kept)
  assume "ledger_ok s"
  then show "ledger_ok (fst (create_checkpoint dump now j s p i kind body))"
    by (cases rule: create_checkpoint_cases [of dump now j s p i kind body])
      (simp_all add: touch_run_ok insert_checkpoint_ok next_seq_nonneg)
qed

text \<open>The same with a number that was read from an earlier snapshot, when another writer came between.\<close>

definition stale_checkpoint ::
  "(json \<Rightarrow> str) \<Rightarrow> time \<Rightarrow> str \<Rightarrow> run_state \<Rightarrow> run_state \<Rightarrow> str \<Rightarrow> str \<Rightarrow> json \<Rightarrow> run_state \<times> json res" where
  "stale_checkpoint dump now j seen s i kind body =
     (case insert_checkpoint dump now j (next_checkpoint_seq seen i) s i kind body of
        Some (s1, c) \<Rightarrow> (touch_run now i s1, Inr (row_to_checkpoint c))
      | None \<Rightarrow> (touch_run now i s, Inl internal_error))"

section \<open>The system of runs\<close>

lemma stale_checkpoint_good:
  assumes "ledger_ok s" "ledger_ok seen" "runs_kept seen s"
  shows "ledger_ok (fst (stale_checkpoint dump now j seen s i kind body))"
    and "runs_kept s (fst (stale_checkpoint dump now j seen s i kind body))"
    and "checkpoints_of seen i \<noteq> checkpoints_of s i \<Longrightarrow>
      stale_checkpoint dump now j seen s i kind body = (touch_run now i s, Inl internal_error)"
proof -
  obtain rest where rest: "checkpoints_of s i = checkpoints_of seen i @ rest" using assms(3) unfolding runs_kept_def by blast
  have le: "next_checkpoint_seq seen i \<le> next_checkpoint_seq s i"
    unfolding next_seq_length [OF assms(1)] next_seq_length [OF assms(2)] rest by simp
  have eq: "checkpoints_of seen i = checkpoints_of s i" if "next_checkpoint_seq seen i = next_checkpoint_seq s i"
    using that unfolding next_seq_length [OF assms(1)] next_seq_length [OF assms(2)] rest by simp
  have good: "ledger_ok s1 \<and> runs_kept s s1 \<and> next_checkpoint_seq seen i = next_checkpoint_seq s i"
    if "insert_checkpoint dump now j (next_checkpoint_seq seen i) s i kind body = Some (s1, c)" for s1 c
    using insert_checkpoint_ok [OF assms(1) that next_seq_nonneg [OF assms(2)] le] insert_checkpoint_cases(1) [OF that]
    by (auto simp: runs_kept_def checkpoints_of_append)
  show "ledger_ok (fst (stale_checkpoint dump now j seen s i kind body))"
    using good assms(1) by (auto simp: stale_checkpoint_def intro: touch_run_ok split: option.splits)
  show "runs_kept s (fst (stale_checkpoint dump now j seen s i kind body))"
    using good touch_run_kept runs_kept_trans by (fastforce simp: stale_checkpoint_def split: option.splits)
  show "stale_checkpoint dump now j seen s i kind body = (touch_run now i s, Inl internal_error)"
    if "checkpoints_of seen i \<noteq> checkpoints_of s i"
    using that good eq by (auto simp: stale_checkpoint_def split: option.splits)
qed

text \<open>What the rest of the tower does to these tables: the foreign keys to agents and tasks are ON DELETE SET NULL.\<close>

definition set_null :: "(str \<Rightarrow> bool) \<Rightarrow> str option \<Rightarrow> str option" where
  "set_null gone x = (case x of None \<Rightarrow> None | Some i \<Rightarrow> if gone i then None else Some i)"

definition tower_changes :: "db \<Rightarrow> run_state \<Rightarrow> run_state" where
  "tower_changes d s =
     (let no_agent = (\<lambda>i. lookup a_id i (mesh_agents d) = None); no_task = (\<lambda>i. lookup t_id i (tasks d) = None) in
      s\<lparr>rn_db := d,
        rn_runs := update_where (\<lambda>_. Some True) (\<lambda>r. r\<lparr>r_mesh_agent_id := set_null no_agent (r_mesh_agent_id r),
          r_mesh_task_id := set_null no_task (r_mesh_task_id r)\<rparr>) (rn_runs s),
        rn_usage := update_where (\<lambda>_. Some True) (\<lambda>u. u\<lparr>us_mesh_agent_id := set_null no_agent (us_mesh_agent_id u),
          us_mesh_task_id := set_null no_task (us_mesh_task_id u)\<rparr>) (rn_usage s)\<rparr>)"

inductive run_step :: "run_state \<Rightarrow> run_state \<Rightarrow> bool" where
  start_insert: "run_step s (fst (start_insert now i token s p body))"
| pause: "run_step s (fst (pause_run now s p i))"
| cancel: "run_step s (fst (cancel_run now s p i))"
| complete: "run_step s (fst (complete_run now s p i))"
| fail: "run_step s (fst (fail_run now s p i))"
| checkpoint: "run_step s (fst (create_checkpoint dump now j s p i kind payload))"
| create_policy: "run_step s (fst (create_budget_policy now i s p policy))"
| delete_policy: "run_step s (fst (delete_budget_policy now s p i))"
| override_window: "run_step s (fst (override_budget_window now s p i))"
| usage: "run_step s (fst (record_usage_batch now s p items))"
| other_tables: "run_step s (tower_changes d s)"

text \<open>Sequences of requests; a checkpoint may be numbered from any snapshot on the way.\<close>

inductive run_steps :: "run_state \<Rightarrow> run_state \<Rightarrow> bool" where
  stay: "run_steps s s"
| step: "run_steps s s' \<Longrightarrow> run_step s' s'' \<Longrightarrow> run_steps s s''"
| late: "run_steps s seen \<Longrightarrow> run_steps seen s' \<Longrightarrow> run_steps s (fst (stale_checkpoint dump now j seen s' i kind payload))"

lemma insert_usages_frame: "rn_db (fst (insert_usages now who us s)) = rn_db s \<and> rn_runs (fst (insert_usages now who us s)) = rn_runs s
   \<and> rn_checkpoints (fst (insert_usages now who us s)) = rn_checkpoints s"
  by (induction now who us s rule: insert_usages.induct) (auto simp: insert_usage_def split: option.splits)

lemma record_usage_frame:
  "rn_runs (fst (record_usage_batch now s p items)) = rn_runs s" "rn_checkpoints (fst (record_usage_batch now s p items)) = rn_checkpoints s"
  using insert_usages_frame [of now "subject p" items s]
  by (cases "insert_usages now (subject p) items s", auto simp: record_usage_batch_def split: sum.splits bool.splits)+

interpretation usage: run_handler "\<lambda>s. fst (record_usage_batch now s p items)" for now p items
  by (rule untouched_handler) (rule record_usage_frame)+

interpretation policy_made: run_handler "\<lambda>s. fst (create_budget_policy now i s p policy)" for now i p policy
  by (rule untouched_handler) (simp_all add: create_budget_policy_def Let_def)

interpretation policy_deleted: run_handler "\<lambda>s. fst (delete_budget_policy now s p i)" for now p i
  by (rule untouched_handler) (simp_all add: delete_budget_policy_def)

interpretation window_reset: run_handler "\<lambda>s. fst (override_budget_window now s p i)" for now p i
  by (rule untouched_handler) (auto simp: override_budget_window_def split: option.splits)

lemma ledger_frame:
  assumes "rn_runs t = rn_runs s" "rn_checkpoints t = rn_checkpoints s"
  shows "ledger_ok t \<longleftrightarrow> ledger_ok s" "runs_kept u t \<longleftrightarrow> runs_kept u s"
  using assms by (simp_all add: ledger_ok_def runs_kept_def seqs_def checkpoints_of_def)

interpretation other: run_handler "\<lambda>s. tower_changes d s" for d
proof
  fix s :: run_state
  let ?f = "\<lambda>r. r\<lparr>r_mesh_agent_id := set_null (\<lambda>i. lookup a_id i (mesh_agents d) = None) (r_mesh_agent_id r),
          r_mesh_task_id := set_null (\<lambda>i. lookup t_id i (tasks d) = None) (r_mesh_task_id r)\<rparr>"
  let ?t = "s\<lparr>rn_runs := update_where (\<lambda>_. Some True) ?f (rn_runs s)\<rparr>"
  have frame: "rn_runs (tower_changes d s) = rn_runs ?t" "rn_checkpoints (tower_changes d s) = rn_checkpoints ?t"
    by (simp_all add: tower_changes_def Let_def)
  show "runs_kept s (tower_changes d s)"
    unfolding ledger_frame(2) [OF frame] by (rule update_keeps_runs) (simp add: identity_def)
  show "ledger_ok s \<Longrightarrow> ledger_ok (tower_changes d s)"
    unfolding ledger_frame(1) [OF frame] by (rule runs_updated) (simp_all add: identity_def run_sound_def)
qed

lemma run_step_good:
  assumes "run_step s s'" "ledger_ok s"
  shows "ledger_ok s' \<and> runs_kept s s'"
  using assms
proof (induction rule: run_step.induct)
  case (pause s now p i)
  then show ?case using transition.keeps_ok [of s "''paused''"] transition.kept [of s "''paused''"]
    by (simp add: pause_run_def run_statuses_def)
next
  case (cancel s now p i)
  then show ?case using transition.keeps_ok [of s "''cancelled''"] transition.kept [of s "''cancelled''"]
    by (simp add: cancel_run_def run_statuses_def)
next
  case (complete s now p i)
  then show ?case using transition.keeps_ok [of s "''completed''"] transition.kept [of s "''completed''"]
    by (simp add: complete_run_def run_statuses_def)
next
  case (fail s now p i)
  then show ?case using transition.keeps_ok [of s "''failed''"] transition.kept [of s "''failed''"]
    by (simp add: fail_run_def run_statuses_def)
qed (simp_all add: started.keeps_ok started.kept checkpointed.keeps_ok checkpointed.kept policy_made.keeps_ok policy_made.kept
  policy_deleted.keeps_ok policy_deleted.kept window_reset.keeps_ok window_reset.kept usage.keeps_ok usage.kept
  other.keeps_ok other.kept)

lemma run_steps_good: "run_steps s s' \<Longrightarrow> ledger_ok s \<Longrightarrow> ledger_ok s' \<and> runs_kept s s'"
proof (induction rule: run_steps.induct)
  case (step s s' s'')
  then show ?case using run_step_good runs_kept_trans by blast
next
  case (late s seen s' dump now j i kind payload)
  then have "ledger_ok seen" "ledger_ok s'" "runs_kept s seen" "runs_kept seen s'" by blast+
  then show ?case using stale_checkpoint_good(1,2) [of s' seen] runs_kept_trans by metis
qed simp

lemma ledger_start: "rn_runs s = [] \<Longrightarrow> rn_checkpoints s = [] \<Longrightarrow> ledger_ok s"
  by (simp add: ledger_ok_def unique_key_def keys_once_def seqs_def checkpoints_of_def select_where_def)

lemma ledger_seqs: "ledger_ok s \<Longrightarrow> map cp_seq (checkpoints_of s i) = map int [0..<length (checkpoints_of s i)]"
  by (metis ledger_ok_def length_map seqs_def)

lemma reached_twice:
  assumes "rn_runs s0 = []" "rn_checkpoints s0 = []" "run_steps s0 seen" "run_steps seen s"
  shows "ledger_ok seen" "ledger_ok s" "runs_kept seen s"
proof -
  show ok: "ledger_ok seen" using run_steps_good [OF assms(3) ledger_start] assms(1,2) by blast
  show "ledger_ok s" "runs_kept seen s" using run_steps_good [OF assms(4) ok] by blast+
qed

text \<open>C21: The checkpoints of a run are numbered 0, 1, 2, ... in the order they were written and none is lost, in
  every state the handlers reach, also when writers overlap: one that took its number before somebody else wrote
  is answered 500 and leaves no checkpoint. A run that ended has the time of its end, and a run is never in
  another status than the five the handlers write.\<close>

theorem checkpoints_gapless:
  assumes "rn_runs s0 = []" "rn_checkpoints s0 = []" "run_steps s0 seen" "run_steps seen s"
  shows "map cp_seq (checkpoints_of s i) = map int [0..<length (checkpoints_of s i)]
    \<and> (\<exists>rest. checkpoints_of s i = checkpoints_of seen i @ rest)
    \<and> (checkpoints_of seen i \<noteq> checkpoints_of s i \<longrightarrow>
         snd (stale_checkpoint dump now j seen s i kind payload) = Inl internal_error \<and>
         rn_checkpoints (fst (stale_checkpoint dump now j seen s i kind payload)) = rn_checkpoints s)
    \<and> (\<forall>r\<in>set (rn_runs s). r_status r \<in> set run_statuses \<and> (r_status r \<in> set TERMINAL_STATUSES \<longrightarrow> r_ended_at r \<noteq> None))"
proof -
  note R = reached_twice [OF assms]
  have "stale_checkpoint dump now j seen s i kind payload = (touch_run now i s, Inl internal_error)"
    if "checkpoints_of seen i \<noteq> checkpoints_of s i"
    using stale_checkpoint_good(3) [OF R(2,1,3) that] .
  moreover have "\<forall>r\<in>set (rn_runs s). run_sound r" using R(2) by (simp add: ledger_ok_def)
  moreover have "\<exists>rest. checkpoints_of s i = checkpoints_of seen i @ rest" using R(3) unfolding runs_kept_def by blast
  ultimately show ?thesis using ledger_seqs [OF R(2)] by (simp add: touch_run_def run_sound_def)
qed

section \<open>Idempotent starts\<close>

lemma start_run_key:
  assumes "start_run now i token s p body = (s1, Inr ans)" "sr_idempotency_key body = Some key"
  shows "\<exists>r\<in>set (rn_runs s1). run_key r = Some (subject p, key) \<and> ans = row_to_run r"
proof (cases "start_lookup s p body")
  case (Some r)
  then have "r \<in> set (rn_runs s)" "run_key r = Some (subject p, key)"
    using assms(2) by (auto simp: start_lookup_def fetch_optional_def find_Some_iff split: if_splits)
  then show ?thesis using Some assms(1) by (auto simp: start_run_def)
next
  case None
  then have run: "start_insert now i token s p body = (s1, Inr ans)" using assms(1) by (simp add: start_run_def)
  then show ?thesis
    by (cases rule: start_insert_cases [of now i token s p body]) (use assms(2) in \<open>auto simp: insert_row_def\<close>)
qed

lemma run_of_key:
  assumes "ledger_ok s" "r \<in> set (rn_runs s)" "run_key r = Some (who, key)"
  shows "fetch_optional (keyed_run who key) (rn_runs s) = Some r"
proof -
  have "find (\<lambda>q. holds (keyed_run who key q)) (rn_runs s) \<noteq> None" using assms(2,3) by (auto simp: find_None_iff)
  then obtain q where q: "find (\<lambda>q. holds (keyed_run who key q)) (rn_runs s) = Some q" by blast
  then have mem: "q \<in> set (rn_runs s)" "run_key q = Some (who, key)" by (auto simp: find_Some_iff)
  then have "r_id q = r_id r" using assms unfolding ledger_ok_def keys_once_def by (metis option.distinct(1))
  then have "q = r" using assms(1,2) mem(1) lookup_in_unique unfolding ledger_ok_def by (metis option.inject)
  then show ?thesis using q by (simp add: fetch_optional_def)
qed

text \<open>C20: A start with an idempotency key is answered with one run for ever: whatever requests come in between, a later
  start of the same caller with the same key inserts nothing and answers the run of the first, with the same
  identifier and resume token; and a start that looked before the first was written is refused with 500 by the
  unique index, so the key never has a second run.\<close>

theorem start_run_idempotent:
  assumes "rn_runs s0 = []" "rn_checkpoints s0 = []" "run_steps s0 s" "start_run now i token s p body = (s1, Inr ans)"
    "run_steps s1 s2" "sr_idempotency_key body = Some key" "sr_idempotency_key body2 = Some key" "subject p2 = subject p" "rn_up s2"
  shows "\<exists>r r2. ans = row_to_run r \<and> start_run now2 i2 token2 s2 p2 body2 = (s2, Inr (row_to_run r2))
      \<and> r_id r2 = r_id r \<and> r_resume_token r2 = r_resume_token r
      \<and> start_insert now2 i2 token2 s2 p2 body2 = (s2, Inl internal_error)"
proof -
  have "s1 = s \<or> run_step s s1"
    using assms(4) run_step.start_insert [of s now i token p body]
    by (cases "start_lookup s p body") (auto simp: start_run_def)
  then have "run_steps s0 s1" using assms(3) run_steps.step by blast
  note R = reached_twice [OF assms(1,2) this assms(5)]
  obtain r where r: "r \<in> set (rn_runs s1)" "run_key r = Some (subject p, key)" "ans = row_to_run r"
    using start_run_key [OF assms(4,6)] by blast
  then obtain r2 where r2: "r2 \<in> set (rn_runs s2)" "identity r = identity r2"
    using R(3) unfolding runs_kept_def by blast
  then have key: "run_key r2 = Some (subject p2, key)" using r(2) identity_key assms(8) by metis
  have "start_run now2 i2 token2 s2 p2 body2 = (s2, Inr (row_to_run r2))"
    using run_of_key [OF R(2) r2(1) key] assms(7,9) by (simp add: start_run_def start_lookup_def)
  moreover have "exists_where (keyed_run (subject p2) key) (rn_runs s2)"
    using r2(1) key by (auto simp: exists_where_def list_ex_iff)
  then have "start_insert now2 i2 token2 s2 p2 body2 = (s2, Inl internal_error)"
    using assms(7) by (simp add: start_insert_def)
  ultimately show ?thesis using r(3) r2(2)
    by (intro exI [of _ r] exI [of _ r2] conjI) (simp_all add: identity_def)
qed

section \<open>Finished runs\<close>

text \<open>The end of a run is not final: its owner can pause a completed, failed or cancelled run, which is then answered
  and stored as paused though it keeps the time of its end, and can end it again in another way; no handler ever
  puts a run in the status running.\<close>

theorem finished_run_reopened:
  assumes "rn_runs s0 = []" "rn_checkpoints s0 = []" "run_steps s0 s" "rn_up s"
    "lookup r_id i (rn_runs s) = Some r" "r_owner_subject r = subject p" "r_status r \<in> set TERMINAL_STATUSES"
  shows "\<exists>s' r'. pause_run now s p i = (s', Inr (row_to_run r')) \<and> lookup r_id i (rn_runs s') = Some r'
      \<and> r_status r' = ''paused'' \<and> r_ended_at r' = r_ended_at r \<and> r_ended_at r' \<noteq> None
      \<and> (\<exists>s'' r''. fail_run now s' p i = (s'', Inr (row_to_run r'')) \<and> lookup r_id i (rn_runs s'') = Some r'' \<and> r_status r'' = ''failed'')
      \<and> (\<forall>q\<in>set (rn_runs s'). r_status q \<noteq> ''running'')"
proof -
  have one: "\<exists>s'. run_transition now s i st (subject p) = (s', Inr (row_to_run (run_transition_update now st r)))
      \<and> lookup r_id i (rn_runs s') = Some (run_transition_update now st r) \<and> rn_up s'"
    if "ledger_ok s" "rn_up s" "lookup r_id i (rn_runs s) = Some r" "r_owner_subject r = subject p" for s r st
  proof -
    let ?fence = "owned_row r_id r_owner_subject i (subject p)"
    have id: "r_id r = i" using that(3) by (auto dest: lookup_Some_in)
    then have "find (\<lambda>q. holds (?fence q)) (rn_runs s) = Some r"
      using find_fence [of r_id "rn_runs s" ?fence i] that by (simp add: ledger_ok_def)
    moreover note id
    moreover have "\<And>q. r_id (run_transition_update now st q) = r_id q" by (simp add: run_transition_update_def)
    ultimately show ?thesis using that
      by (simp add: run_transition_def update_returning_find lookup_update_where)
  qed
  have ok: "ledger_ok s" using reached_twice(1) [OF assms(1-3) run_steps.stay] .
  obtain s' where s': "pause_run now s p i = (s', Inr (row_to_run (run_transition_update now ''paused'' r)))"
    "lookup r_id i (rn_runs s') = Some (run_transition_update now ''paused'' r)" "rn_up s'"
    using one [OF ok assms(4-6), of "''paused''"] unfolding pause_run_def by blast
  have "run_steps s0 s'" using run_steps.step [OF assms(3) run_step.pause, of now p i] s'(1) by simp
  then have ok': "ledger_ok s'" by (rule reached_twice(1) [OF assms(1,2) _ run_steps.stay])
  have own: "r_owner_subject (run_transition_update now ''paused'' r) = subject p"
    using assms(6) by (simp add: run_transition_update_def)
  have ended: "r_ended_at r \<noteq> None"
    using ok assms(5,7) lookup_Some_in [OF assms(5)] unfolding ledger_ok_def run_sound_def by blast
  have "\<forall>q\<in>set (rn_runs s'). r_status q \<noteq> ''running''"
    using ok' unfolding ledger_ok_def run_sound_def run_statuses_def by auto
  moreover obtain s'' where "fail_run now s' p i = (s'', Inr (row_to_run (run_transition_update now ''failed'' (run_transition_update now ''paused'' r))))"
    "lookup r_id i (rn_runs s'') = Some (run_transition_update now ''failed'' (run_transition_update now ''paused'' r))"
    using one [OF ok' s'(3,2) own, of "''failed''"] unfolding fail_run_def by blast
  moreover have "r_status (run_transition_update now st q) = st" "r_ended_at (run_transition_update now ''paused'' q) = r_ended_at q" for st q
    by (simp_all add: run_transition_update_def TERMINAL_STATUSES_def)
  ultimately show ?thesis using s' ended
    by (intro exI [of _ s'] exI [of _ "run_transition_update now ''paused'' r"]) auto
qed

section \<open>Usage\<close>

lemma insert_usages_exact:
  "insert_usages now who us s = (s', ok) \<Longrightarrow>
     \<exists>k\<le>length us. s' = s\<lparr>rn_usage := rn_usage s @ map (\<lambda>(i, u). new_usage_row now i who u) (take k us)\<rparr> \<and>
       (ok \<longleftrightarrow> k = length us) \<and> (\<not> ok \<longrightarrow> insert_usage now (fst (us ! k)) who (snd (us ! k)) s' = None)"
proof (induction now who us s arbitrary: s' ok rule: insert_usages.induct)
  case (1 now who s)
  then show ?case by simp
next
  case (2 now who i u us s)
  show ?case
  proof (cases "insert_usage now i who u s")
    case None
    then show ?thesis using "2.prems" by (intro exI [of _ 0]) auto
  next
    case (Some t)
    then have t: "t = s\<lparr>rn_usage := rn_usage s @ [new_usage_row now i who u]\<rparr>"
      by (auto simp: insert_usage_def insert_row_def split: if_splits)
    obtain k where k: "k \<le> length us"
      "s' = t\<lparr>rn_usage := rn_usage t @ map (\<lambda>(i, u). new_usage_row now i who u) (take k us)\<rparr>"
      "ok \<longleftrightarrow> k = length us" "\<not> ok \<longrightarrow> insert_usage now (fst (us ! k)) who (snd (us ! k)) s' = None"
      using "2.IH" [OF Some, of s' ok] "2.prems" Some by auto
    then show ?thesis using t by (intro exI [of _ "Suc k"]) auto
  qed
qed

lemma check_domains_ok:
  "check_domains d p seen us = Inr x \<Longrightarrow> u \<in> set us \<Longrightarrow> ui_domain_id u = Some k \<Longrightarrow> k \<noteq> [] \<Longrightarrow>
     k \<in> set seen \<or> authz_domain d p k = Inr ()"
  by (induction d p seen us rule: check_domains.induct) (auto split: option.splits if_splits sum.splits)

lemma check_domains_refused:
  "check_domains d p seen us = Inl e \<Longrightarrow> \<exists>u\<in>set us. \<exists>k. ui_domain_id u = Some k \<and> authz_domain d p k = Inl e"
  by (induction d p seen us rule: check_domains.induct) (auto split: option.splits if_splits sum.splits)

definition usage_total :: "(usage_row \<Rightarrow> int) \<Rightarrow> str \<Rightarrow> run_state \<Rightarrow> int" where
  "usage_total f who s = sum_list (map f (filter (\<lambda>u. us_owner_subject u = who) (rn_usage s)))"

definition batch_total :: "(usage_item \<Rightarrow> int) \<Rightarrow> (str \<times> usage_item) list \<Rightarrow> int" where
  "batch_total f us = sum_list (map (f \<circ> snd) us)"

lemma get_usage_summary_total:
  assumes "rn_up s"
  shows "get_usage_summary since s q None None = Inr (JObj
     [(''total_cost_cents'', JNum (usage_total us_cost_cents (subject q) s)),
      (''total_input_tokens'', JNum (usage_total us_input_tokens (subject q) s)),
      (''total_output_tokens'', JNum (usage_total us_output_tokens (subject q) s)),
      (''total_tool_calls'', JNum (usage_total us_tool_calls (subject q) s)),
      (''record_count'', JNum (usage_total (\<lambda>_. 1) (subject q) s))])"
proof -
  have "select_where (usage_fence (subject q) None None) (rn_usage s) = filter (\<lambda>u. us_owner_subject u = subject q) (rn_usage s)"
    by (simp add: select_where_def usage_fence_def opt_filter_def)
  moreover have "int (length l) = sum_list (map (\<lambda>_. 1) l)" for l :: "usage_row list" by (induction l) simp_all
  ultimately show ?thesis using assms by (simp add: get_usage_summary_def usage_total_def Let_def)
qed

lemma new_usage_totals:
  assumes "\<And>i u. f (new_usage_row now i who u) = g u"
  shows "usage_total f q (s\<lparr>rn_usage := rn_usage s @ map (\<lambda>(i, u). new_usage_row now i who u) us\<rparr>) =
      usage_total f q s + (if q = who then batch_total g us else 0)"
proof -
  have "us_owner_subject (new_usage_row now i who u) = who" for i u by (simp add: new_usage_row_def)
  then show ?thesis using assms
    by (induction us rule: rev_induct) (auto simp: usage_total_def batch_total_def)
qed


section \<open>Concrete requests\<close>

definition demo_run_start :: "str \<Rightarrow> start_request" where
  "demo_run_start agent = \<lparr>sr_runtime_kind = ''claude'', sr_agent_id = None, sr_task_id = None,
     sr_idempotency_key = Some ''k1'', sr_runtime_session_id = Some agent\<rparr>"

definition demo_ledger :: run_state where
  "demo_ledger = \<lparr>rn_db = demo_empty_db\<lparr>domains := [sample_domain ''d7'' ''ops'' ''alice'' [] None]\<rparr>,
     rn_runs = [], rn_checkpoints = [], rn_policies = [], rn_windows = [], rn_usage = []\<rparr>"

definition demo_started_run :: run_state where
  "demo_started_run = fst (start_run 1 ''r1'' ''t1'' demo_ledger (demo_writer ''alice'') (demo_run_start ''s1''))"

definition demo_note :: "str \<Rightarrow> run_state \<Rightarrow> run_state" where
  "demo_note j s = fst (create_checkpoint (\<lambda>_. ''{}'') 2 j s (demo_writer ''alice'') ''r1'' ''note'' JNull)"

definition demo_usage :: "str \<Rightarrow> usage_item" where
  "demo_usage run = \<lparr>ui_runtime_kind = ''claude'', ui_input_tokens = 100, ui_output_tokens = 20, ui_reasoning_tokens = 0,
     ui_tool_calls = 3, ui_wall_ms = 5, ui_provider = ''unknown'', ui_model = ''unknown'', ui_run_id = Some run,
     ui_mesh_task_id = None, ui_mesh_agent_id = None, ui_domain_id = Some ''d7'', ui_mission_id = None, ui_source = ''adapter''\<rparr>"

lemma row_to_run_inject: "row_to_run a = row_to_run b \<Longrightarrow> r_id a = r_id b \<and> r_resume_token a = r_resume_token b"
  by (simp add: row_to_run_def)

lemma demo_started_run_steps: "run_steps demo_ledger demo_started_run"
proof -
  have eq: "demo_started_run = fst (start_insert 1 ''r1'' ''t1'' demo_ledger (demo_writer ''alice'') (demo_run_start ''s1''))" by code_simp
  show ?thesis unfolding eq by (rule run_steps.step [OF run_steps.stay run_step.start_insert])
qed

lemma demo_note_steps: "run_steps s (demo_note j s)"
  unfolding demo_note_def by (rule run_steps.step [OF run_steps.stay run_step.checkpoint])

text \<open>Two checkpoints are numbered 0 and 1; a third writer that counted before the second is refused.\<close>

lemma checkpoints_gapless_witness:
  "map cp_seq (checkpoints_of (demo_note ''c2'' (demo_note ''c1'' demo_started_run)) ''r1'') = [0, 1] \<and>
   snd (stale_checkpoint (\<lambda>_. ''{}'') 3 ''c3'' (demo_note ''c1'' demo_started_run)
     (demo_note ''c2'' (demo_note ''c1'' demo_started_run)) ''r1'' ''note'' JNull) = Inl internal_error"
proof -
  have start: "rn_runs demo_ledger = []" "rn_checkpoints demo_ledger = []" by (simp_all add: demo_ledger_def)
  have "run_steps demo_ledger (demo_note ''c1'' demo_started_run)"
    using demo_started_run_steps run_steps.step run_step.checkpoint unfolding demo_note_def by blast
  note g = checkpoints_gapless [OF start this demo_note_steps [of _ "''c2''"], of "''r1''" "\<lambda>_. ''{}''" 3 "''c3''" "''note''" JNull]
  have "length (checkpoints_of (demo_note ''c2'' (demo_note ''c1'' demo_started_run)) ''r1'') = 2" by code_simp
  moreover have "checkpoints_of (demo_note ''c1'' demo_started_run) ''r1'' \<noteq> checkpoints_of (demo_note ''c2'' (demo_note ''c1'' demo_started_run)) ''r1''"
    by code_simp
  ultimately show ?thesis using g by (simp add: upt_rec)
qed

lemma start_run_idempotent_witness:
  "\<exists>r2. start_run 9 ''r9'' ''t9'' (demo_note ''c1'' demo_started_run) (demo_writer ''alice'') (demo_run_start ''s2'')
      = (demo_note ''c1'' demo_started_run, Inr (row_to_run r2)) \<and> r_id r2 = ''r1'' \<and> r_resume_token r2 = ''t1''"
proof -
  let ?row = "new_run_row 1 ''r1'' ''t1'' ''alice'' (demo_run_start ''s1'')"
  have start: "rn_runs demo_ledger = []" "rn_checkpoints demo_ledger = []" by (simp_all add: demo_ledger_def)
  have same: "r_id (new_run_row 1 ''r1'' ''t1'' ''alice'' (demo_run_start ''s1'')) = ''r1''" "r_resume_token (new_run_row 1 ''r1'' ''t1'' ''alice'' (demo_run_start ''s1'')) = ''t1''"
    by (simp_all add: new_run_row_def)
  have run: "start_run 1 ''r1'' ''t1'' demo_ledger (demo_writer ''alice'') (demo_run_start ''s1'') = (demo_started_run, Inr (row_to_run ?row))"
    by code_simp
  have key: "sr_idempotency_key (demo_run_start x) = Some ''k1''" for x by (simp add: demo_run_start_def)
  have up: "rn_up (demo_note ''c1'' demo_started_run)" by code_simp
  obtain r r2 where r: "row_to_run ?row = row_to_run r"
    "start_run 9 ''r9'' ''t9'' (demo_note ''c1'' demo_started_run) (demo_writer ''alice'') (demo_run_start ''s2'')
      = (demo_note ''c1'' demo_started_run, Inr (row_to_run r2))" "r_id r2 = r_id r" "r_resume_token r2 = r_resume_token r"
    using start_run_idempotent [OF start run_steps.stay run demo_note_steps [of _ "''c1''"] key key refl up, of 9 "''r9''" "''t9''"] by blast
  have "r_id r = ''r1''" "r_resume_token r = ''t1''" using row_to_run_inject [OF r(1)] unfolding same by simp_all
  then have "r_id r2 = ''r1''" "r_resume_token r2 = ''t1''" unfolding r(3,4) .
  then show ?thesis using r(2) by (intro exI [of _ r2] conjI)
qed

lemma finished_run_reopened_witness:
  "\<exists>s' r'. pause_run 5 (fst (complete_run 4 demo_started_run (demo_writer ''alice'') ''r1'')) (demo_writer ''alice'') ''r1'' = (s', Inr (row_to_run r'))
     \<and> r_status r' = ''paused'' \<and> r_ended_at r' \<noteq> None"
proof -
  let ?s = "fst (complete_run 4 demo_started_run (demo_writer ''alice'') ''r1'')"
  let ?row = "(new_run_row 1 ''r1'' ''t1'' ''alice'' (demo_run_start ''s1''))\<lparr>r_status := ''completed'', r_ended_at := Some 4, r_updated_at := 4\<rparr>"
  have start: "rn_runs demo_ledger = []" "rn_checkpoints demo_ledger = []" by (simp_all add: demo_ledger_def)
  have steps: "run_steps demo_ledger ?s" using demo_started_run_steps run_steps.step run_step.complete by blast
  have "rn_up ?s" "lookup r_id ''r1'' (rn_runs ?s) = Some ?row" by code_simp+
  moreover have "r_owner_subject ?row = subject (demo_writer ''alice'')" "r_status ?row \<in> set TERMINAL_STATUSES" by code_simp+
  ultimately show ?thesis using finished_run_reopened [OF start steps, of "''r1''" ?row "demo_writer ''alice''" 5] by blast
qed


end
