(* ===== verification/Documents.thy ===== *)
theory Documents
  imports Domains "HOL-Library.Word"
begin

text \<open>
  Documents and artifacts of missions (routes/docs.rs, routes/artifacts.rs). Every handler of one row reads the row,
  then its mission, then asks the domain of the mission; those that change it then write the row back with the
  version they read plus one, so each is split into a read and a write. Base64, the digest in hexadecimal and the
  syntax of header values are arguments. No foreign key binds a document to its mission. The binary is built
  with the release profile, where i32 arithmetic wraps.
\<close>

section \<open>Rows and guards\<close>

definition as_i32 :: "int \<Rightarrow> int" where
  "as_i32 x = sint (word_of_int x :: 32 word)"

record doc_row =
  doc_id :: int
  doc_mission_id :: str
  doc_title :: str
  doc_body :: str
  doc_doc_type :: str
  doc_status :: str
  doc_version :: int
  doc_provenance :: str
  doc_created_at :: time
  doc_updated_at :: time

record artifact_row =
  ar_id :: int
  ar_mission_id :: str
  ar_name :: str
  ar_artifact_type :: str
  ar_uri :: str
  ar_storage_backend :: str
  ar_content_sha256 :: str
  ar_size_bytes :: int
  ar_mime_type :: str
  ar_storage_class :: str
  ar_content_b64 :: "str option"
  ar_external_pointer :: bool
  ar_external_uri :: str
  ar_status :: str
  ar_version :: int
  ar_provenance :: str
  ar_created_at :: time
  ar_updated_at :: time

text \<open>The two tables with the sequences their identifiers come from.\<close>

record doc_store =
  ds_db :: db
  ds_docs :: "doc_row table"
  ds_doc_seq :: int
  ds_artifacts :: "artifact_row table"
  ds_artifact_seq :: int

definition row_to_doc :: "doc_row \<Rightarrow> json" where
  "row_to_doc r = JObj
     [(''id'', JNum (doc_id r)), (''mission_id'', JStr (doc_mission_id r)), (''title'', JStr (doc_title r)),
      (''body'', JStr (doc_body r)), (''doc_type'', JStr (doc_doc_type r)), (''status'', JStr (doc_status r)),
      (''version'', JNum (doc_version r)), (''provenance'', JStr (doc_provenance r)),
      (''created_at'', JNum (doc_created_at r)), (''updated_at'', JNum (doc_updated_at r))]"

definition row_to_artifact :: "artifact_row \<Rightarrow> json" where
  "row_to_artifact r = JObj
     [(''id'', JNum (ar_id r)), (''mission_id'', JStr (ar_mission_id r)), (''name'', JStr (ar_name r)),
      (''artifact_type'', JStr (ar_artifact_type r)), (''uri'', JStr (ar_uri r)),
      (''storage_backend'', JStr (ar_storage_backend r)), (''content_sha256'', JStr (ar_content_sha256 r)),
      (''size_bytes'', JNum (ar_size_bytes r)), (''mime_type'', JStr (ar_mime_type r)),
      (''storage_class'', JStr (ar_storage_class r)), (''content_b64'', jopt JStr (ar_content_b64 r)),
      (''external_pointer'', JBool (ar_external_pointer r)), (''external_uri'', JStr (ar_external_uri r)),
      (''status'', JStr (ar_status r)), (''version'', JNum (ar_version r)), (''provenance'', JStr (ar_provenance r)),
      (''created_at'', JNum (ar_created_at r)), (''updated_at'', JNum (ar_updated_at r))]"

definition in_list :: "str \<Rightarrow> str \<Rightarrow> bool" where
  "in_list sub s = list_ex (\<lambda>x. to_lowercase (trim x) = sub) (split_on (CHR '','') s)"

definition can_read_domain :: "db \<Rightarrow> principal \<Rightarrow> str \<Rightarrow> bool" where
  "can_read_domain d p domain_id =
     (if is_admin p then True
      else if \<not> db_up d then False
      else case lookup d_id domain_id (domains d) of
        None \<Rightarrow> False
      | Some r \<Rightarrow>
          if to_lowercase (opt_or [] (d_visibility r)) = ''public'' then True
          else let sub = to_lowercase (subject p) in in_list sub (d_owners r) \<or> in_list sub (d_contributors r))"

definition can_write_domain :: "db \<Rightarrow> principal \<Rightarrow> str \<Rightarrow> bool" where
  "can_write_domain d p domain_id =
     (if is_admin p then True
      else if \<not> db_up d then False
      else case lookup d_id domain_id (domains d) of
        None \<Rightarrow> False
      | Some r \<Rightarrow> let sub = to_lowercase (subject p) in in_list sub (d_owners r) \<or> in_list sub (d_contributors r))"

text \<open>The mission of a row and the right to its domain; a mission without a domain is for administrators.\<close>

definition mission_gate :: "(db \<Rightarrow> principal \<Rightarrow> str \<Rightarrow> bool) \<Rightarrow> db \<Rightarrow> principal \<Rightarrow> str \<Rightarrow> unit res" where
  "mission_gate may d p mission_id =
     (if \<not> db_up d then Inl internal_error
      else case lookup m_id mission_id (missions d) of
        None \<Rightarrow> Inl (not_found ''Mission not found'')
      | Some m \<Rightarrow>
          (case m_domain_id m of
             Some domain_id \<Rightarrow> if may d p domain_id then Inr () else Inl (forbidden [])
           | None \<Rightarrow> if is_admin p then Inr () else Inl (forbidden [])))"

definition gated_row ::
  "(db \<Rightarrow> principal \<Rightarrow> str \<Rightarrow> bool) \<Rightarrow> str \<Rightarrow> ('r \<Rightarrow> int) \<Rightarrow> ('r \<Rightarrow> str) \<Rightarrow> db \<Rightarrow> 'r table \<Rightarrow> principal \<Rightarrow> int \<Rightarrow> 'r res" where
  "gated_row may msg key mission_of d t p i =
     (if \<not> db_up d then Inl internal_error
      else case lookup key i t of
        None \<Rightarrow> Inl (not_found msg)
      | Some r \<Rightarrow> and_then (mission_gate may d p (mission_of r)) (\<lambda>_. Inr r))"

text \<open>The rows of a page a caller sees who is no administrator.\<close>

definition visible_rows :: "db \<Rightarrow> principal \<Rightarrow> ('r \<Rightarrow> str) \<Rightarrow> 'r list \<Rightarrow> 'r list" where
  "visible_rows d p mission_of rows =
     (if is_admin p then rows
      else filter (\<lambda>r. case lookup m_id (mission_of r) (missions d) of
             None \<Rightarrow> False
           | Some m \<Rightarrow> (case m_domain_id m of None \<Rightarrow> False | Some domain_id \<Rightarrow> can_read_domain d p domain_id)) rows)"

definition in_mission :: "str option \<Rightarrow> ('r \<Rightarrow> str) \<Rightarrow> 'r \<Rightarrow> tri" where
  "in_mission mission_id mission_of r = (case mission_id of None \<Rightarrow> Some True | Some k \<Rightarrow> by_key mission_of k r)"

text \<open>A text field of a request, or a default.\<close>

definition text_or :: "str \<Rightarrow> str \<Rightarrow> json \<Rightarrow> str" where
  "text_or dflt k payload = (case jfield_str k payload of Some x \<Rightarrow> x | None \<Rightarrow> dflt)"

definition jfield_bool :: "str \<Rightarrow> json \<Rightarrow> bool option" where
  "jfield_bool k j = (case jget k j of Some (JBool b) \<Rightarrow> Some b | _ \<Rightarrow> None)"

definition jfield_i64 :: "str \<Rightarrow> json \<Rightarrow> int option" where
  "jfield_i64 k j = (case jget k j of Some (JNum n) \<Rightarrow> if - (2 ^ 63) \<le> n \<and> n < 2 ^ 63 then Some n else None | _ \<Rightarrow> None)"

definition required_mission :: "json \<Rightarrow> str res" where
  "required_mission payload =
     (case jfield_str ''mission_id'' payload of
        Some s \<Rightarrow> if s \<noteq> [] then Inr s else Inl (unprocessable ''mission_id is required'')
      | None \<Rightarrow> Inl (unprocessable ''mission_id is required''))"

definition deleted_id :: "int \<Rightarrow> json" where
  "deleted_id i = JObj [(''ok'', JBool True), (''deleted_id'', JNum i)]"

section \<open>Documents\<close>

definition new_doc_row :: "time \<Rightarrow> int \<Rightarrow> str \<Rightarrow> json \<Rightarrow> doc_row" where
  "new_doc_row now i mission_id payload =
     \<lparr>doc_id = i, doc_mission_id = mission_id, doc_title = text_or [] ''title'' payload,
      doc_body = text_or [] ''body'' payload, doc_doc_type = text_or ''narrative'' ''doc_type'' payload,
      doc_status = text_or ''draft'' ''status'' payload, doc_version = 1,
      doc_provenance = text_or [] ''provenance'' payload, doc_created_at = now, doc_updated_at = now\<rparr>"

definition create_doc :: "time \<Rightarrow> doc_store \<Rightarrow> principal \<Rightarrow> json \<Rightarrow> doc_store \<times> json res" where
  "create_doc now s p payload =
     (case required_mission payload of
        Inl e \<Rightarrow> (s, Inl e)
      | Inr mission_id \<Rightarrow>
          (case mission_gate can_write_domain (ds_db s) p mission_id of
             Inl e \<Rightarrow> (s, Inl e)
           | Inr _ \<Rightarrow>
               if ds_doc_seq s > max_i32 then (s, Inl internal_error)
               else let row = new_doc_row now (ds_doc_seq s) mission_id payload in
                 (s\<lparr>ds_docs := insert_row row (ds_docs s), ds_doc_seq := ds_doc_seq s + 1\<rparr>, Inr (row_to_doc row))))"

definition list_docs :: "doc_store \<Rightarrow> principal \<Rightarrow> str option \<Rightarrow> int option \<Rightarrow> json res" where
  "list_docs s p mission_id lim =
     (if \<not> db_up (ds_db s) then Inl internal_error
      else and_then (page_desc doc_updated_at lim (select_where (in_mission mission_id doc_mission_id) (ds_docs s)))
             (\<lambda>rows. Inr (JList (map row_to_doc (visible_rows (ds_db s) p doc_mission_id rows)))))"

definition doc_for :: "(db \<Rightarrow> principal \<Rightarrow> str \<Rightarrow> bool) \<Rightarrow> doc_store \<Rightarrow> principal \<Rightarrow> int \<Rightarrow> doc_row res" where
  "doc_for may s p i = gated_row may ''Doc not found'' doc_id doc_mission_id (ds_db s) (ds_docs s) p i"

definition get_doc :: "doc_store \<Rightarrow> principal \<Rightarrow> int \<Rightarrow> json res" where
  "get_doc s p i = and_then (doc_for can_read_domain s p i) (\<lambda>r. Inr (row_to_doc r))"

definition doc_merged :: "time \<Rightarrow> doc_row \<Rightarrow> json \<Rightarrow> doc_row \<Rightarrow> doc_row" where
  "doc_merged now seen payload r =
     r\<lparr>doc_title := text_or (doc_title seen) ''title'' payload, doc_body := text_or (doc_body seen) ''body'' payload,
       doc_doc_type := text_or (doc_doc_type seen) ''doc_type'' payload,
       doc_status := text_or (doc_status seen) ''status'' payload,
       doc_provenance := text_or (doc_provenance seen) ''provenance'' payload,
       doc_version := as_i32 (doc_version seen + 1), doc_updated_at := now\<rparr>"

definition doc_write :: "(doc_row \<Rightarrow> doc_row) \<Rightarrow> int \<Rightarrow> doc_store \<Rightarrow> doc_store \<times> json res" where
  "doc_write f i s =
     (if \<not> db_up (ds_db s) then (s, Inl internal_error)
      else case update_returning (by_key doc_id i) f (ds_docs s) of
        (t, None) \<Rightarrow> (s, Inl internal_error)
      | (t, Some r) \<Rightarrow> (s\<lparr>ds_docs := t\<rparr>, Inr (row_to_doc r)))"

definition update_doc :: "time \<Rightarrow> doc_store \<Rightarrow> principal \<Rightarrow> int \<Rightarrow> json \<Rightarrow> doc_store \<times> json res" where
  "update_doc now s p i payload =
     (case doc_for can_write_domain s p i of
        Inl e \<Rightarrow> (s, Inl e) | Inr seen \<Rightarrow> doc_write (doc_merged now seen payload) i s)"

definition doc_published :: "time \<Rightarrow> doc_row \<Rightarrow> doc_row \<Rightarrow> doc_row" where
  "doc_published now seen r =
     r\<lparr>doc_status := ''published'', doc_version := as_i32 (doc_version seen + 1), doc_updated_at := now\<rparr>"

definition publish_doc :: "time \<Rightarrow> doc_store \<Rightarrow> principal \<Rightarrow> int \<Rightarrow> doc_store \<times> json res" where
  "publish_doc now s p i =
     (case doc_for can_write_domain s p i of
        Inl e \<Rightarrow> (s, Inl e) | Inr seen \<Rightarrow> doc_write (doc_published now seen) i s)"

definition delete_doc :: "doc_store \<Rightarrow> principal \<Rightarrow> int \<Rightarrow> doc_store \<times> json res" where
  "delete_doc s p i =
     (case doc_for can_write_domain s p i of
        Inl e \<Rightarrow> (s, Inl e)
      | Inr _ \<Rightarrow> (s\<lparr>ds_docs := delete_where (by_key doc_id i) (ds_docs s)\<rparr>, Inr (deleted_id i)))"

section \<open>Artifacts\<close>

text \<open>The fields that say where the content is.\<close>

record storage =
  st_uri :: str
  st_backend :: str
  st_class :: str
  st_content_b64 :: "str option"
  st_external_pointer :: bool
  st_external_uri :: str
  st_sha256 :: str
  st_size :: int

definition resolve_storage ::
  "(str \<Rightarrow> str + 'b list) \<Rightarrow> ('b list \<Rightarrow> str) \<Rightarrow> json \<Rightarrow> storage res" where
  "resolve_storage decode digest payload =
     (let b64 = trim (text_or [] ''content_b64'' payload); pointer = opt_or False (jfield_bool ''external_pointer'' payload);
          ext = text_or [] ''external_uri'' payload; uri = text_or [] ''uri'' payload;
          backend = text_or [] ''storage_backend'' payload; class = text_or [] ''storage_class'' payload in
      if b64 \<noteq> [] then
        (case decode b64 of
           Inl e \<Rightarrow> Inl (unprocessable (''Invalid content_b64: '' @ e))
         | Inr body \<Rightarrow>
             let sha = digest body in
             Inr \<lparr>st_uri = if uri = [] then ''db-inline://artifacts/'' @ sha else uri, st_backend = ''inline'',
                  st_class = ''db_inline'', st_content_b64 = Some b64, st_external_pointer = False,
                  st_external_uri = [], st_sha256 = sha, st_size = as_i32 (int (length body))\<rparr>)
      else if pointer \<or> ext \<noteq> [] then
        (let resolved = (if ext \<noteq> [] then ext else uri) in
         if resolved = [] then Inl (unprocessable ''external pointer mode requires external_uri or uri'')
         else Inr \<lparr>st_uri = resolved, st_backend = ''external'', st_class = ''external_pointer'', st_content_b64 = None,
                   st_external_pointer = True, st_external_uri = resolved, st_sha256 = [], st_size = 0\<rparr>)
      else Inr \<lparr>st_uri = uri,
                st_backend = if backend \<noteq> [] then backend else if starts_with ''s3://'' uri then ''s3'' else [],
                st_class = class, st_content_b64 = None, st_external_pointer = False, st_external_uri = ext,
                st_sha256 = text_or [] ''content_sha256'' payload,
                st_size = as_i32 (opt_or 0 (jfield_i64 ''size_bytes'' payload))\<rparr>)"

definition new_artifact_row :: "time \<Rightarrow> int \<Rightarrow> str \<Rightarrow> json \<Rightarrow> storage \<Rightarrow> artifact_row" where
  "new_artifact_row now i mission_id payload st =
     \<lparr>ar_id = i, ar_mission_id = mission_id, ar_name = text_or [] ''name'' payload,
      ar_artifact_type = text_or ''file'' ''artifact_type'' payload, ar_uri = st_uri st,
      ar_storage_backend = st_backend st, ar_content_sha256 = st_sha256 st, ar_size_bytes = st_size st,
      ar_mime_type = text_or ''application/octet-stream'' ''mime_type'' payload, ar_storage_class = st_class st,
      ar_content_b64 = st_content_b64 st, ar_external_pointer = st_external_pointer st,
      ar_external_uri = st_external_uri st, ar_status = text_or ''draft'' ''status'' payload, ar_version = 1,
      ar_provenance = text_or [] ''provenance'' payload, ar_created_at = now, ar_updated_at = now\<rparr>"

definition create_artifact ::
  "(str \<Rightarrow> str + 'b list) \<Rightarrow> ('b list \<Rightarrow> str) \<Rightarrow> time \<Rightarrow> doc_store \<Rightarrow> principal \<Rightarrow> json \<Rightarrow> doc_store \<times> json res" where
  "create_artifact decode digest now s p payload =
     (case required_mission payload of
        Inl e \<Rightarrow> (s, Inl e)
      | Inr mission_id \<Rightarrow>
          if trim (text_or [] ''content_b64'' payload) \<noteq> [] \<and> opt_or False (jfield_bool ''external_pointer'' payload)
          then (s, Inl (unprocessable ''content_b64 and external_pointer cannot both be set''))
          else case mission_gate can_write_domain (ds_db s) p mission_id of
            Inl e \<Rightarrow> (s, Inl e)
          | Inr _ \<Rightarrow>
              (case resolve_storage decode digest payload of
                 Inl e \<Rightarrow> (s, Inl e)
               | Inr st \<Rightarrow>
                   if ds_artifact_seq s > max_i32 then (s, Inl internal_error)
                   else let row = new_artifact_row now (ds_artifact_seq s) mission_id payload st in
                     (s\<lparr>ds_artifacts := insert_row row (ds_artifacts s), ds_artifact_seq := ds_artifact_seq s + 1\<rparr>,
                      Inr (row_to_artifact row))))"

definition list_artifacts :: "doc_store \<Rightarrow> principal \<Rightarrow> str option \<Rightarrow> int option \<Rightarrow> json res" where
  "list_artifacts s p mission_id lim =
     (if \<not> db_up (ds_db s) then Inl internal_error
      else and_then (page_desc ar_updated_at lim (select_where (in_mission mission_id ar_mission_id) (ds_artifacts s)))
             (\<lambda>rows. Inr (JList (map row_to_artifact (visible_rows (ds_db s) p ar_mission_id rows)))))"

definition artifact_for :: "(db \<Rightarrow> principal \<Rightarrow> str \<Rightarrow> bool) \<Rightarrow> doc_store \<Rightarrow> principal \<Rightarrow> int \<Rightarrow> artifact_row res" where
  "artifact_for may s p i = gated_row may ''Artifact not found'' ar_id ar_mission_id (ds_db s) (ds_artifacts s) p i"

definition get_artifact :: "doc_store \<Rightarrow> principal \<Rightarrow> int \<Rightarrow> json res" where
  "get_artifact s p i = and_then (artifact_for can_read_domain s p i) (\<lambda>r. Inr (row_to_artifact r))"

text \<open>The content type and the bytes.\<close>

definition get_artifact_content ::
  "(str \<Rightarrow> str + 'b list) \<Rightarrow> (str \<Rightarrow> bool) \<Rightarrow> doc_store \<Rightarrow> principal \<Rightarrow> int \<Rightarrow> (str \<times> 'b list) res" where
  "get_artifact_content decode header_value s p i =
     and_then (artifact_for can_read_domain s p i) (\<lambda>r.
       if ar_storage_backend r = ''s3'' then Inl (conflict ''S3 content not available through this node'')
       else case ar_content_b64 r of
         None \<Rightarrow> Inl (conflict ''Artifact does not have retrievable managed content'')
       | Some b64 \<Rightarrow>
           (case decode b64 of
              Inl e \<Rightarrow> Inl (unprocessable (''Invalid inline artifact content: '' @ e))
            | Inr body \<Rightarrow>
                let mime = (if ar_mime_type r = [] then ''application/octet-stream'' else ar_mime_type r) in
                Inr (if header_value mime then mime else ''application/octet-stream'', body)))"

definition clamp_secs :: "int \<Rightarrow> int \<Rightarrow> int \<Rightarrow> int" where
  "clamp_secs lo hi x = max lo (min hi x)"

definition parse_i64 :: "str \<Rightarrow> int option" where
  "parse_i64 s = (case parse_signed s of
     Some n \<Rightarrow> if - (2 ^ 63) \<le> n \<and> n < 2 ^ 63 then Some n else None | None \<Rightarrow> None)"

text \<open>The status and the body of the answer. A mission that is gone counts as one without a domain.\<close>

definition get_artifact_download_url ::
  "doc_store \<Rightarrow> principal \<Rightarrow> int \<Rightarrow> str option \<Rightarrow> (nat \<times> json) res" where
  "get_artifact_download_url s p i expires =
     (if \<not> db_up (ds_db s) then Inl internal_error
      else case lookup ar_id i (ds_artifacts s) of
        None \<Rightarrow> Inl (not_found ''Artifact not found'')
      | Some r \<Rightarrow>
          if (case lookup m_id (ar_mission_id r) (missions (ds_db s)) \<bind> m_domain_id of
                Some domain_id \<Rightarrow> \<not> can_read_domain (ds_db s) p domain_id | None \<Rightarrow> \<not> is_admin p)
          then Inl (forbidden ''Forbidden'')
          else if ar_storage_backend r = ''s3''
          then Inr (409, JObj [(''detail'', JStr ''S3 presigning requires the Python API''), (''artifact_id'', JNum i),
                               (''uri'', JStr (ar_uri r))])
          else Inr (200, JObj [(''artifact_id'', JNum i), (''uri'', JStr (ar_uri r)),
                 (''expires_seconds'', JNum (clamp_secs 1 3600 (opt_or 60 (expires \<bind> parse_i64)))),
                 (''download_url'', JStr (ar_uri r))]))"

text \<open>What a PATCH sets, from the request and the row that was read.\<close>

definition patched_storage ::
  "(str \<Rightarrow> str + 'b list) \<Rightarrow> ('b list \<Rightarrow> str) \<Rightarrow> artifact_row \<Rightarrow> json \<Rightarrow> storage res" where
  "patched_storage decode digest seen payload =
     (let uri = text_or (ar_uri seen) ''uri'' payload;
          pointer = opt_or (ar_external_pointer seen) (jfield_bool ''external_pointer'' payload);
          ext = text_or (ar_external_uri seen) ''external_uri'' payload;
          b64 = trim (text_or [] ''content_b64'' payload) in
      if b64 \<noteq> [] then
        (case decode b64 of
           Inl e \<Rightarrow> Inl (unprocessable (''Invalid content_b64: '' @ e))
         | Inr body \<Rightarrow>
             let sha = digest body in
             Inr \<lparr>st_uri = if uri = [] then ''db-inline://artifacts/'' @ sha else uri, st_backend = ''inline'',
                  st_class = ''db_inline'', st_content_b64 = Some b64, st_external_pointer = pointer,
                  st_external_uri = ext, st_sha256 = sha, st_size = as_i32 (int (length body))\<rparr>)
      else Inr \<lparr>st_uri = uri, st_backend = text_or (ar_storage_backend seen) ''storage_backend'' payload,
                st_class = text_or (ar_storage_class seen) ''storage_class'' payload,
                st_content_b64 = ar_content_b64 seen, st_external_pointer = pointer, st_external_uri = ext,
                st_sha256 = text_or (ar_content_sha256 seen) ''content_sha256'' payload,
                st_size = (case jfield_i64 ''size_bytes'' payload of Some v \<Rightarrow> as_i32 v | None \<Rightarrow> ar_size_bytes seen)\<rparr>)"

definition artifact_merged :: "time \<Rightarrow> artifact_row \<Rightarrow> json \<Rightarrow> storage \<Rightarrow> artifact_row \<Rightarrow> artifact_row" where
  "artifact_merged now seen payload st r =
     r\<lparr>ar_name := text_or (ar_name seen) ''name'' payload,
       ar_artifact_type := text_or (ar_artifact_type seen) ''artifact_type'' payload, ar_uri := st_uri st,
       ar_storage_backend := st_backend st, ar_content_sha256 := st_sha256 st, ar_size_bytes := st_size st,
       ar_mime_type := text_or (ar_mime_type seen) ''mime_type'' payload, ar_storage_class := st_class st,
       ar_content_b64 := st_content_b64 st, ar_external_pointer := st_external_pointer st,
       ar_external_uri := st_external_uri st, ar_status := text_or (ar_status seen) ''status'' payload,
       ar_provenance := text_or (ar_provenance seen) ''provenance'' payload,
       ar_version := as_i32 (ar_version seen + 1), ar_updated_at := now\<rparr>"

definition artifact_write :: "(artifact_row \<Rightarrow> artifact_row) \<Rightarrow> int \<Rightarrow> doc_store \<Rightarrow> doc_store \<times> json res" where
  "artifact_write f i s =
     (if \<not> db_up (ds_db s) then (s, Inl internal_error)
      else case update_returning (by_key ar_id i) f (ds_artifacts s) of
        (t, None) \<Rightarrow> (s, Inl internal_error)
      | (t, Some r) \<Rightarrow> (s\<lparr>ds_artifacts := t\<rparr>, Inr (row_to_artifact r)))"

definition update_artifact ::
  "(str \<Rightarrow> str + 'b list) \<Rightarrow> ('b list \<Rightarrow> str) \<Rightarrow> time \<Rightarrow> doc_store \<Rightarrow> principal \<Rightarrow> int \<Rightarrow> json \<Rightarrow> doc_store \<times> json res" where
  "update_artifact decode digest now s p i payload =
     (case artifact_for can_write_domain s p i of
        Inl e \<Rightarrow> (s, Inl e)
      | Inr seen \<Rightarrow>
          (case patched_storage decode digest seen payload of
             Inl e \<Rightarrow> (s, Inl e) | Inr st \<Rightarrow> artifact_write (artifact_merged now seen payload st) i s))"

definition artifact_published :: "time \<Rightarrow> artifact_row \<Rightarrow> artifact_row \<Rightarrow> artifact_row" where
  "artifact_published now seen r =
     r\<lparr>ar_status := ''published'', ar_version := as_i32 (ar_version seen + 1), ar_updated_at := now\<rparr>"

definition publish_artifact :: "time \<Rightarrow> doc_store \<Rightarrow> principal \<Rightarrow> int \<Rightarrow> doc_store \<times> json res" where
  "publish_artifact now s p i =
     (case artifact_for can_write_domain s p i of
        Inl e \<Rightarrow> (s, Inl e) | Inr seen \<Rightarrow> artifact_write (artifact_published now seen) i s)"

definition delete_artifact :: "doc_store \<Rightarrow> principal \<Rightarrow> int \<Rightarrow> doc_store \<times> json res" where
  "delete_artifact s p i =
     (case artifact_for can_write_domain s p i of
        Inl e \<Rightarrow> (s, Inl e)
      | Inr _ \<Rightarrow> (s\<lparr>ds_artifacts := delete_where (by_key ar_id i) (ds_artifacts s)\<rparr>, Inr (deleted_id i)))"

end
