(* ===== verification/Profiles.thy ===== *)
theory Profiles
  imports Documents
begin

text \<open>
  The profiles of a user (routes/profiles.rs): tarballs in base64 with their digest and size, one of them the default.
  Each handler is a few statements without a transaction; the statements are definitions of their own so that
  those of different requests can alternate. Base64, the digest, and the printer and parser of JSON are arguments.
  A name of the accepted form is ASCII, so its length in bytes is its number of characters.
\<close>

record profile_row =
  up_id :: int
  up_name :: str
  up_owner_subject :: str
  up_description :: str
  up_is_default :: bool
  up_manifest_json :: str
  up_tarball_b64 :: "str option"
  up_mirror_uri :: str
  up_mirror_sha256 :: str
  up_mirror_size_bytes :: int
  up_mirrored_at :: "time option"
  up_sha256 :: "str option"
  up_size_bytes :: int
  up_created_at :: time
  up_updated_at :: time

record profile_store =
  pf_up :: bool
  pf_rows :: "profile_row table"
  pf_seq :: int

definition row_to_profile :: "(str \<Rightarrow> json option) \<Rightarrow> bool \<Rightarrow> profile_row \<Rightarrow> json" where
  "row_to_profile parse include_tarball r = JObj
     ([(''id'', JNum (up_id r)), (''name'', JStr (up_name r)), (''owner_subject'', JStr (up_owner_subject r)),
       (''description'', JStr (up_description r)), (''is_default'', JBool (up_is_default r)),
       (''manifest'', opt_or (JList []) (parse (up_manifest_json r))), (''mirror_uri'', JStr (up_mirror_uri r)),
       (''mirror_sha256'', JStr (up_mirror_sha256 r)), (''mirror_size_bytes'', JNum (up_mirror_size_bytes r)),
       (''mirrored_at'', jopt JNum (up_mirrored_at r)), (''sha256'', jopt JStr (up_sha256 r)),
       (''size_bytes'', JNum (up_size_bytes r)), (''created_at'', JNum (up_created_at r)),
       (''updated_at'', JNum (up_updated_at r))]
      @ (if include_tarball then [(''tarball_b64'', JStr (opt_or [] (up_tarball_b64 r)))] else []))"

definition lower_or_digit :: "char \<Rightarrow> bool" where
  "lower_or_digit c = (let n = of_char c :: nat in (97 \<le> n \<and> n \<le> 122) \<or> (48 \<le> n \<and> n \<le> 57))"

definition validate_name :: "str \<Rightarrow> bool" where
  "validate_name name =
     (if length name > 63 then False
      else case name of
        [] \<Rightarrow> False
      | c # cs \<Rightarrow> lower_or_digit c \<and> list_all (\<lambda>c. lower_or_digit c \<or> c = CHR ''_'' \<or> c = CHR ''-'') cs)"

definition compute_sha256_and_size ::
  "(str \<Rightarrow> str + 'b list) \<Rightarrow> ('b list \<Rightarrow> str) \<Rightarrow> str \<Rightarrow> str + str \<times> int" where
  "compute_sha256_and_size decode digest tarball =
     (case decode tarball of
        Inl e \<Rightarrow> Inl (''Invalid base64: '' @ e)
      | Inr bytes \<Rightarrow> Inr (digest bytes, as_i32 (int (length bytes))))"

record profile_create =
  pb_name :: str
  pb_description :: "str option"
  pb_is_default :: bool
  pb_manifest :: "json option"
  pb_tarball_b64 :: str
  pb_expected_sha256 :: "str option"

record profile_patch =
  pp_description :: "str option"
  pp_is_default :: "bool option"
  pp_manifest :: "json option"
  pp_tarball_b64 :: "str option"
  pp_expected_sha256 :: "str option"

definition profile_of :: "str \<Rightarrow> str \<Rightarrow> profile_row \<Rightarrow> tri" where
  "profile_of who name r = tand (tbool (up_owner_subject r = who)) (by_key up_name name r)"

definition manifest_text :: "(json \<Rightarrow> str) \<Rightarrow> json option \<Rightarrow> str" where
  "manifest_text dump m = (case m of Some j \<Rightarrow> dump j | None \<Rightarrow> ''[]'')"

section \<open>Statements\<close>

text \<open>Errors of these two are ignored by the handlers.\<close>

definition clear_default :: "time \<Rightarrow> str \<Rightarrow> str option \<Rightarrow> profile_store \<Rightarrow> profile_store" where
  "clear_default now who except s =
     (if \<not> pf_up s then s
      else s\<lparr>pf_rows := update_where
             (\<lambda>r. tand (tbool (up_owner_subject r = who)) (tand (tbool (up_is_default r))
                    (case except of None \<Rightarrow> Some True | Some name \<Rightarrow> tbool (up_name r \<noteq> name))))
             (\<lambda>r. r\<lparr>up_is_default := False, up_updated_at := now\<rparr>) (pf_rows s)\<rparr>)"

definition clear_all :: "time \<Rightarrow> str \<Rightarrow> profile_store \<Rightarrow> profile_store" where
  "clear_all now who s =
     (if \<not> pf_up s then s
      else s\<lparr>pf_rows := update_where (\<lambda>r. tbool (up_owner_subject r = who))
             (\<lambda>r. r\<lparr>up_is_default := False, up_updated_at := now\<rparr>) (pf_rows s)\<rparr>)"

definition fetch_profile :: "profile_store \<Rightarrow> str \<Rightarrow> str \<Rightarrow> profile_row res" where
  "fetch_profile s who name =
     (if \<not> pf_up s then Inl internal_error
      else case fetch_optional (profile_of who name) (pf_rows s) of
        None \<Rightarrow> Inl (not_found ''Profile not found'') | Some r \<Rightarrow> Inr r)"

definition new_profile_row ::
  "(json \<Rightarrow> str) \<Rightarrow> time \<Rightarrow> int \<Rightarrow> str \<Rightarrow> profile_create \<Rightarrow> str \<times> int \<Rightarrow> profile_row" where
  "new_profile_row dump now i who body content =
     \<lparr>up_id = i, up_name = pb_name body, up_owner_subject = who, up_description = opt_or [] (pb_description body),
      up_is_default = pb_is_default body, up_manifest_json = manifest_text dump (pb_manifest body),
      up_tarball_b64 = Some (pb_tarball_b64 body), up_mirror_uri = [], up_mirror_sha256 = [],
      up_mirror_size_bytes = 0, up_mirrored_at = None, up_sha256 = Some (fst content),
      up_size_bytes = snd content, up_created_at = now, up_updated_at = now\<rparr>"

text \<open>A violated unique index on owner and name uses up a number of the sequence all the same.\<close>

definition insert_profile ::
  "(str \<Rightarrow> json option) \<Rightarrow> (json \<Rightarrow> str) \<Rightarrow> time \<Rightarrow> str \<Rightarrow> profile_create \<Rightarrow> str \<times> int \<Rightarrow> profile_store \<Rightarrow> profile_store \<times> json res" where
  "insert_profile parse dump now who body content s =
     (if \<not> pf_up s \<or> pf_seq s > max_i32 then (s, Inl internal_error)
      else if exists_where (profile_of who (pb_name body)) (pf_rows s)
      then (s\<lparr>pf_seq := pf_seq s + 1\<rparr>, Inl (conflict ''A profile with this name already exists''))
      else let row = new_profile_row dump now (pf_seq s) who body content in
        (s\<lparr>pf_rows := insert_row row (pf_rows s), pf_seq := pf_seq s + 1\<rparr>, Inr (row_to_profile parse False row)))"

definition write_profile ::
  "(str \<Rightarrow> json option) \<Rightarrow> str \<Rightarrow> str \<Rightarrow> (profile_row \<Rightarrow> profile_row) \<Rightarrow> profile_store \<Rightarrow> profile_store \<times> json res" where
  "write_profile parse who name f s =
     (if \<not> pf_up s then (s, Inl internal_error)
      else case update_returning (profile_of who name) f (pf_rows s) of
        (t, None) \<Rightarrow> (s, Inl internal_error)
      | (t, Some r) \<Rightarrow> (s\<lparr>pf_rows := t\<rparr>, Inr (row_to_profile parse False r)))"

section \<open>Handlers\<close>

definition list_profiles :: "(str \<Rightarrow> json option) \<Rightarrow> profile_store \<Rightarrow> principal \<Rightarrow> int option \<Rightarrow> json res" where
  "list_profiles parse s p lim =
     (if \<not> pf_up s then Inl internal_error
      else and_then (page_desc up_updated_at lim (select_where (\<lambda>r. tbool (up_owner_subject r = subject p)) (pf_rows s)))
             (\<lambda>rows. Inr (JList (map (row_to_profile parse False) rows))))"

text \<open>What create_profile checks before it writes; a failing look for the name counts as none.\<close>

definition create_check ::
  "(str \<Rightarrow> str + 'b list) \<Rightarrow> ('b list \<Rightarrow> str) \<Rightarrow> profile_store \<Rightarrow> principal \<Rightarrow> profile_create \<Rightarrow> (str \<times> int) res" where
  "create_check decode digest s p body =
     (if \<not> validate_name (pb_name body)
      then Inl (bad_request ''Invalid profile name. Must match ^[a-z0-9][a-z0-9_-]{0,62}$'')
      else case compute_sha256_and_size decode digest (pb_tarball_b64 body) of
        Inl e \<Rightarrow> Inl (bad_request e)
      | Inr content \<Rightarrow>
          if pf_up s \<and> exists_where (profile_of (subject p) (pb_name body)) (pf_rows s)
          then Inl (conflict ''A profile with this name already exists'') else Inr content)"

definition create_profile ::
  "(str \<Rightarrow> json option) \<Rightarrow> (json \<Rightarrow> str) \<Rightarrow> (str \<Rightarrow> str + 'b list) \<Rightarrow> ('b list \<Rightarrow> str) \<Rightarrow> time \<Rightarrow>
   profile_store \<Rightarrow> principal \<Rightarrow> profile_create \<Rightarrow> profile_store \<times> json res" where
  "create_profile parse dump decode digest now s p body =
     (case create_check decode digest s p body of
        Inl e \<Rightarrow> (s, Inl e)
      | Inr content \<Rightarrow>
          insert_profile parse dump now (subject p) body content
            (if pb_is_default body then clear_default now (subject p) None s else s))"

definition get_profile :: "(str \<Rightarrow> json option) \<Rightarrow> profile_store \<Rightarrow> principal \<Rightarrow> str \<Rightarrow> json res" where
  "get_profile parse s p name = and_then (fetch_profile s (subject p) name) (\<lambda>r. Inr (row_to_profile parse False r))"

text \<open>The digest and size of a tarball, checked against the digest the request expects.\<close>

definition expected_content ::
  "(str \<Rightarrow> str + 'b list) \<Rightarrow> ('b list \<Rightarrow> str) \<Rightarrow> str \<Rightarrow> str option \<Rightarrow> (str \<times> int) res" where
  "expected_content decode digest tarball expected =
     (case compute_sha256_and_size decode digest tarball of
        Inl e \<Rightarrow> Inl (bad_request e)
      | Inr content \<Rightarrow>
          if (case expected of Some x \<Rightarrow> x \<noteq> fst content | None \<Rightarrow> False)
          then Inl (conflict ''SHA256 mismatch: tarball does not match expected_sha256'') else Inr content)"

definition profile_set ::
  "time \<Rightarrow> str \<Rightarrow> bool \<Rightarrow> str \<Rightarrow> str \<Rightarrow> str \<times> int \<Rightarrow> profile_row \<Rightarrow> profile_row" where
  "profile_set now description is_default manifest tarball content r =
     r\<lparr>up_description := description, up_is_default := is_default, up_manifest_json := manifest,
       up_tarball_b64 := Some tarball, up_sha256 := Some (fst content), up_size_bytes := snd content, up_updated_at := now\<rparr>"

text \<open>What a PUT and a PATCH read first gives the update they write at the end.\<close>

definition replace_prepare ::
  "(json \<Rightarrow> str) \<Rightarrow> (str \<Rightarrow> str + 'b list) \<Rightarrow> ('b list \<Rightarrow> str) \<Rightarrow> time \<Rightarrow> profile_store \<Rightarrow> principal \<Rightarrow> str \<Rightarrow> profile_create \<Rightarrow>
   (bool \<times> (profile_row \<Rightarrow> profile_row)) res" where
  "replace_prepare dump decode digest now s p name body =
     and_then (fetch_profile s (subject p) name) (\<lambda>_.
       and_then (expected_content decode digest (pb_tarball_b64 body) (pb_expected_sha256 body)) (\<lambda>content.
         Inr (pb_is_default body, profile_set now (opt_or [] (pb_description body)) (pb_is_default body)
                (manifest_text dump (pb_manifest body)) (pb_tarball_b64 body) content)))"

definition patch_prepare ::
  "(json \<Rightarrow> str) \<Rightarrow> (str \<Rightarrow> str + 'b list) \<Rightarrow> ('b list \<Rightarrow> str) \<Rightarrow> time \<Rightarrow> profile_store \<Rightarrow> principal \<Rightarrow> str \<Rightarrow> profile_patch \<Rightarrow>
   (bool \<times> (profile_row \<Rightarrow> profile_row)) res" where
  "patch_prepare dump decode digest now s p name body =
     and_then (fetch_profile s (subject p) name) (\<lambda>row.
       let is_default = opt_or (up_is_default row) (pp_is_default body);
           set_to = profile_set now (opt_or (up_description row) (pp_description body)) is_default
             (case pp_manifest body of Some m \<Rightarrow> dump m | None \<Rightarrow> up_manifest_json row) in
       case pp_tarball_b64 body of
         Some tb \<Rightarrow> and_then (expected_content decode digest tb (pp_expected_sha256 body)) (\<lambda>content.
           Inr (is_default, set_to tb content))
       | None \<Rightarrow> Inr (is_default, set_to (opt_or [] (up_tarball_b64 row)) (opt_or [] (up_sha256 row), up_size_bytes row)))"

definition commit_profile ::
  "(str \<Rightarrow> json option) \<Rightarrow> time \<Rightarrow> principal \<Rightarrow> str \<Rightarrow> bool \<times> (profile_row \<Rightarrow> profile_row) \<Rightarrow> profile_store \<Rightarrow> profile_store \<times> json res" where
  "commit_profile parse now p name change s =
     write_profile parse (subject p) name (snd change)
       (if fst change then clear_default now (subject p) (Some name) s else s)"

definition replace_profile ::
  "(str \<Rightarrow> json option) \<Rightarrow> (json \<Rightarrow> str) \<Rightarrow> (str \<Rightarrow> str + 'b list) \<Rightarrow> ('b list \<Rightarrow> str) \<Rightarrow> time \<Rightarrow>
   profile_store \<Rightarrow> principal \<Rightarrow> str \<Rightarrow> profile_create \<Rightarrow> profile_store \<times> json res" where
  "replace_profile parse dump decode digest now s p name body =
     (case replace_prepare dump decode digest now s p name body of
        Inl e \<Rightarrow> (s, Inl e) | Inr change \<Rightarrow> commit_profile parse now p name change s)"

definition patch_profile ::
  "(str \<Rightarrow> json option) \<Rightarrow> (json \<Rightarrow> str) \<Rightarrow> (str \<Rightarrow> str + 'b list) \<Rightarrow> ('b list \<Rightarrow> str) \<Rightarrow> time \<Rightarrow>
   profile_store \<Rightarrow> principal \<Rightarrow> str \<Rightarrow> profile_patch \<Rightarrow> profile_store \<times> json res" where
  "patch_profile parse dump decode digest now s p name body =
     (case patch_prepare dump decode digest now s p name body of
        Inl e \<Rightarrow> (s, Inl e) | Inr change \<Rightarrow> commit_profile parse now p name change s)"

text \<open>204 has no body.\<close>

definition delete_profile :: "profile_store \<Rightarrow> principal \<Rightarrow> str \<Rightarrow> profile_store \<times> unit res" where
  "delete_profile s p name =
     (if \<not> pf_up s then (s, Inl internal_error)
      else if \<not> exists_where (profile_of (subject p) name) (pf_rows s) then (s, Inl (not_found ''Profile not found''))
      else (s\<lparr>pf_rows := delete_where (profile_of (subject p) name) (pf_rows s)\<rparr>, Inr ()))"

definition download_profile :: "(str \<Rightarrow> json option) \<Rightarrow> profile_store \<Rightarrow> principal \<Rightarrow> str \<Rightarrow> json res" where
  "download_profile parse s p name = and_then (fetch_profile s (subject p) name) (\<lambda>r.
     if opt_or [] (up_tarball_b64 r) = [] then Inl (not_found ''Profile has no tarball'')
     else Inr (row_to_profile parse True r))"

definition set_default :: "(str \<Rightarrow> json option) \<Rightarrow> time \<Rightarrow> principal \<Rightarrow> str \<Rightarrow> profile_store \<Rightarrow> profile_store \<times> json res" where
  "set_default parse now p name s =
     write_profile parse (subject p) name (\<lambda>r. r\<lparr>up_is_default := True, up_updated_at := now\<rparr>) s"

definition activate_profile :: "(str \<Rightarrow> json option) \<Rightarrow> time \<Rightarrow> profile_store \<Rightarrow> principal \<Rightarrow> str \<Rightarrow> profile_store \<times> json res" where
  "activate_profile parse now s p name =
     (case fetch_profile s (subject p) name of
        Inl e \<Rightarrow> (s, Inl e) | Inr _ \<Rightarrow> set_default parse now p name (clear_all now (subject p) s))"

end
