(* ===== verification/Document_Properties.thy ===== *)
theory Document_Properties
  imports Documents Domain_Properties
begin

text \<open>
  Properties of documents and artifacts. A table of rows with identifiers from a sequence and a version changes in a
  confined way; the locale document_handler is the contract of the handlers for both tables and is interpreted for
  each of them. Then: overlapping edits, deleted missions, and what the digest of an artifact says.
\<close>

lemma as_i32_id: "- (2 ^ 31) \<le> x \<Longrightarrow> x < 2 ^ 31 \<Longrightarrow> as_i32 x = x"
  by (simp add: as_i32_def sint_sbintrunc' signed_take_bit_int_eq_self)

section \<open>Confined changes of a table\<close>

definition row_confined ::
  "('r \<Rightarrow> str) \<Rightarrow> ('r \<Rightarrow> int) \<Rightarrow> (str \<Rightarrow> bool) \<Rightarrow> bool \<Rightarrow> 'r option \<Rightarrow> 'r option \<Rightarrow> bool" where
  "row_confined mission ver may fresh x y =
     (case (x, y) of
        (None, None) \<Rightarrow> True
      | (None, Some r') \<Rightarrow> fresh \<and> may (mission r') \<and> ver r' = 1
      | (Some r, None) \<Rightarrow> may (mission r)
      | (Some r, Some r') \<Rightarrow> r' = r \<or> may (mission r) \<and> mission r' = mission r \<and> ver r' = as_i32 (ver r + 1))"

definition confined ::
  "('r \<Rightarrow> int) \<Rightarrow> ('r \<Rightarrow> str) \<Rightarrow> ('r \<Rightarrow> int) \<Rightarrow> (str \<Rightarrow> bool) \<Rightarrow> int \<Rightarrow> 'r table \<Rightarrow> 'r table \<Rightarrow> bool" where
  "confined key mission ver may n t t' = (\<forall>i. row_confined mission ver may (i = n) (lookup key i t) (lookup key i t'))"

definition id_numbered :: "('r \<Rightarrow> int) \<Rightarrow> int \<Rightarrow> 'r table \<Rightarrow> bool" where
  "id_numbered key n t = (unique_key key t \<and> (\<forall>r\<in>set t. key r < n))"

lemma row_confined_same [simp]: "row_confined mission ver may fresh x x"
  by (cases x) (simp_all add: row_confined_def)

lemma confined_same [simp]: "confined key mission ver may n t t"
  by (simp add: confined_def)

lemma id_numbered_fresh: "id_numbered key n t \<Longrightarrow> lookup key n t = None"
  by (auto simp: id_numbered_def lookup_None)

lemma confined_insert:
  assumes "id_numbered key n t" "key r = n" "may (mission r)" "ver r = 1"
  shows "confined key mission ver may n t (insert_row r t)"
  using assms id_numbered_fresh [OF assms(1)] by (auto simp: confined_def row_confined_def lookup_insert_row split: option.splits)

lemma id_numbered_insert: "id_numbered key n t \<Longrightarrow> key r = n \<Longrightarrow> id_numbered key (n + 1) (insert_row r t)"
  using id_numbered_fresh [of key n t] by (auto simp: id_numbered_def unique_insert_row)

lemma confined_update:
  assumes "lookup key i t = Some r" "may (mission r)" "\<And>q. key (f q) = key q" "mission (f r) = mission r" "ver (f r) = as_i32 (ver r + 1)"
  shows "confined key mission ver may n t (update_where (by_key key i) f t)"
  unfolding confined_def lookup_update_where [of key, OF assms(3)]
proof
  fix j
  show "row_confined mission ver may (j = n) (lookup key j t) (map_option (\<lambda>q. if holds (by_key key i q) then f q else q) (lookup key j t))"
  proof (cases "j = i")
    case True
    then show ?thesis using assms(1,2,4,5) by (auto simp: row_confined_def dest: lookup_Some_in)
  next
    case False
    then show ?thesis by (cases "lookup key j t") (auto simp: row_confined_def dest: lookup_Some_in)
  qed
qed

lemma id_numbered_update: "id_numbered key n t \<Longrightarrow> (\<And>q. key (f q) = key q) \<Longrightarrow> id_numbered key n (update_where c f t)"
  unfolding id_numbered_def by (simp add: unique_update_where) (auto simp: update_where_def)

lemma lookup_delete:
  assumes "unique_key key t"
  shows "lookup key i (delete_where (by_key key j) t) = (if i = j then None else lookup key i t)"
  by (induction t) (auto simp: lookup_Cons delete_where_def)

lemma confined_delete:
  assumes "id_numbered key n t" "lookup key i t = Some r" "may (mission r)"
  shows "confined key mission ver may n t (delete_where (by_key key i) t)"
  using assms by (auto simp: confined_def row_confined_def lookup_delete id_numbered_def split: option.splits)

lemma id_numbered_delete: "id_numbered key n t \<Longrightarrow> id_numbered key n (delete_where c t)"
  by (auto simp: id_numbered_def unique_delete_where)

section \<open>The contract of the handlers\<close>

definition may_write :: "db \<Rightarrow> principal \<Rightarrow> str \<Rightarrow> bool" where
  "may_write d p mission_id = (mission_gate can_write_domain d p mission_id = Inr ())"

definition store_ok :: "doc_store \<Rightarrow> bool" where
  "store_ok s = (id_numbered doc_id (ds_doc_seq s) (ds_docs s) \<and> id_numbered ar_id (ds_artifact_seq s) (ds_artifacts s))"

definition store_confined :: "principal \<Rightarrow> doc_store \<Rightarrow> doc_store \<Rightarrow> bool" where
  "store_confined p s s' =
     (ds_db s' = ds_db s \<and>
      confined doc_id doc_mission_id doc_version (may_write (ds_db s) p) (ds_doc_seq s) (ds_docs s) (ds_docs s') \<and>
      confined ar_id ar_mission_id ar_version (may_write (ds_db s) p) (ds_artifact_seq s) (ds_artifacts s) (ds_artifacts s'))"

locale document_handler =
  fixes run :: "doc_store \<Rightarrow> doc_store" and p :: principal
  assumes keeps_ok: "store_ok s \<Longrightarrow> store_ok (run s)"
    and stays_confined: "store_ok s \<Longrightarrow> store_confined p s (run s)"

lemma store_confined_same [simp]: "store_confined p s s"
  by (simp add: store_confined_def)

lemma handlerI:
  assumes "\<And>s. store_ok s \<Longrightarrow> store_ok (run s) \<and> store_confined p s (run s)"
  shows "document_handler run p"
  using assms by unfold_locales auto

lemma gated_rowD:
  assumes "gated_row can_write_domain msg key mission d t p i = Inr r"
  shows "db_up d" "lookup key i t = Some r" "may_write d p (mission r)"
  using assms by (auto simp: gated_row_def may_write_def split: if_splits option.splits)

lemma unit_gate: "mission_gate may d p m = Inr x \<Longrightarrow> mission_gate may d p m = Inr ()"
  by simp

lemma find_key: "find (\<lambda>r. key r = i) t = lookup key i t"
  by (simp add: lookup_def fetch_optional_def)

lemma doc_write_good:
  assumes "store_ok s" "doc_for can_write_domain s p i = Inr seen" "\<And>q. doc_id (f q) = doc_id q"
    "doc_mission_id (f seen) = doc_mission_id seen" "doc_version (f seen) = as_i32 (doc_version seen + 1)"
  shows "store_ok (fst (doc_write f i s)) \<and> store_confined p s (fst (doc_write f i s))"
proof -
  note G = gated_rowD [OF assms(2) [unfolded doc_for_def]]
  have w: "fst (doc_write f i s) = s\<lparr>ds_docs := update_where (by_key doc_id i) f (ds_docs s)\<rparr>"
    using G(1,2) by (simp add: doc_write_def update_returning_find find_key)
  show ?thesis unfolding w
    using assms(1) id_numbered_update [of doc_id _ _ f, OF _ assms(3)]
      confined_update [of doc_id, OF G(2) _ assms(3-5), where may = "may_write (ds_db s) p" and n = "ds_doc_seq s"] G(3)
    by (simp add: store_ok_def store_confined_def)
qed

lemma artifact_write_good:
  assumes "store_ok s" "artifact_for can_write_domain s p i = Inr seen" "\<And>q. ar_id (f q) = ar_id q"
    "ar_mission_id (f seen) = ar_mission_id seen" "ar_version (f seen) = as_i32 (ar_version seen + 1)"
  shows "store_ok (fst (artifact_write f i s)) \<and> store_confined p s (fst (artifact_write f i s))"
proof -
  note G = gated_rowD [OF assms(2) [unfolded artifact_for_def]]
  have w: "fst (artifact_write f i s) = s\<lparr>ds_artifacts := update_where (by_key ar_id i) f (ds_artifacts s)\<rparr>"
    using G(1,2) by (simp add: artifact_write_def update_returning_find find_key)
  show ?thesis unfolding w
    using assms(1) id_numbered_update [of ar_id _ _ f, OF _ assms(3)]
      confined_update [of ar_id, OF G(2) _ assms(3-5), where may = "may_write (ds_db s) p" and n = "ds_artifact_seq s"] G(3)
    by (simp add: store_ok_def store_confined_def)
qed

interpretation doc_created: document_handler "\<lambda>s. fst (create_doc now s p payload)" p for now p payload
  by (rule handlerI) (auto simp: create_doc_def Let_def new_doc_row_def store_ok_def store_confined_def may_write_def
      intro!: id_numbered_insert confined_insert split: sum.splits)

interpretation doc_updated: document_handler "\<lambda>s. fst (update_doc now s p i payload)" p for now p i payload
proof (rule handlerI)
  fix s assume "store_ok s"
  then show "store_ok (fst (update_doc now s p i payload)) \<and> store_confined p s (fst (update_doc now s p i payload))"
    using doc_write_good [of s p i _ "doc_merged now _ payload"]
    by (cases "doc_for can_write_domain s p i") (simp_all add: update_doc_def doc_merged_def)
qed

interpretation doc_published: document_handler "\<lambda>s. fst (publish_doc now s p i)" p for now p i
proof (rule handlerI)
  fix s assume "store_ok s"
  then show "store_ok (fst (publish_doc now s p i)) \<and> store_confined p s (fst (publish_doc now s p i))"
    using doc_write_good [of s p i _ "doc_published now _"]
    by (cases "doc_for can_write_domain s p i") (simp_all add: publish_doc_def doc_published_def)
qed

interpretation doc_deleted: document_handler "\<lambda>s. fst (delete_doc s p i)" p for p i
  by (rule handlerI) (auto simp: delete_doc_def doc_for_def store_ok_def store_confined_def dest: gated_rowD
      intro!: id_numbered_delete confined_delete split: sum.splits)

interpretation artifact_created: document_handler "\<lambda>s. fst (create_artifact decode digest now s p payload)" p
  for decode :: "str \<Rightarrow> str + 'b list" and digest now p payload
  by (rule handlerI) (auto simp: create_artifact_def Let_def new_artifact_row_def store_ok_def store_confined_def may_write_def
      intro!: id_numbered_insert confined_insert split: sum.splits)

interpretation artifact_updated: document_handler "\<lambda>s. fst (update_artifact decode digest now s p i payload)" p
  for decode :: "str \<Rightarrow> str + 'b list" and digest now p i payload
proof (rule handlerI)
  fix s assume ok: "store_ok s"
  show "store_ok (fst (update_artifact decode digest now s p i payload)) \<and>
      store_confined p s (fst (update_artifact decode digest now s p i payload))"
  proof (cases "artifact_for can_write_domain s p i")
    case (Inr seen)
    then show ?thesis using ok artifact_write_good [OF ok Inr, of "artifact_merged now seen payload _"]
      by (cases "patched_storage decode digest seen payload") (simp_all add: update_artifact_def artifact_merged_def)
  qed (simp add: update_artifact_def ok)
qed

interpretation artifact_published: document_handler "\<lambda>s. fst (publish_artifact now s p i)" p for now p i
proof (rule handlerI)
  fix s assume "store_ok s"
  then show "store_ok (fst (publish_artifact now s p i)) \<and> store_confined p s (fst (publish_artifact now s p i))"
    using artifact_write_good [of s p i _ "artifact_published now _"]
    by (cases "artifact_for can_write_domain s p i") (simp_all add: publish_artifact_def artifact_published_def)
qed

interpretation artifact_deleted: document_handler "\<lambda>s. fst (delete_artifact s p i)" p for p i
  by (rule handlerI) (auto simp: delete_artifact_def artifact_for_def store_ok_def store_confined_def dest: gated_rowD
      intro!: id_numbered_delete confined_delete split: sum.splits)

section \<open>The system of documents\<close>

text \<open>One request of a caller on the two tables; other_tables is whatever happens to domains and missions.\<close>

inductive document_step :: "(str \<Rightarrow> str + 'b list) \<Rightarrow> ('b list \<Rightarrow> str) \<Rightarrow> principal \<Rightarrow> doc_store \<Rightarrow> doc_store \<Rightarrow> bool"
  for decode :: "str \<Rightarrow> str + 'b list" and digest :: "'b list \<Rightarrow> str" where
  create_doc: "document_step decode digest p s (fst (create_doc now s p payload))"
| update_doc: "document_step decode digest p s (fst (update_doc now s p i payload))"
| publish_doc: "document_step decode digest p s (fst (publish_doc now s p i))"
| delete_doc: "document_step decode digest p s (fst (delete_doc s p i))"
| create_artifact: "document_step decode digest p s (fst (create_artifact decode digest now s p payload))"
| update_artifact: "document_step decode digest p s (fst (update_artifact decode digest now s p i payload))"
| publish_artifact: "document_step decode digest p s (fst (publish_artifact now s p i))"
| delete_artifact: "document_step decode digest p s (fst (delete_artifact s p i))"

inductive documents_reachable :: "(str \<Rightarrow> str + 'b list) \<Rightarrow> ('b list \<Rightarrow> str) \<Rightarrow> doc_store \<Rightarrow> bool"
  for decode :: "str \<Rightarrow> str + 'b list" and digest :: "'b list \<Rightarrow> str" where
  start: "ds_docs s = [] \<Longrightarrow> ds_artifacts s = [] \<Longrightarrow> documents_reachable decode digest s"
| step: "documents_reachable decode digest s \<Longrightarrow> document_step decode digest p s s' \<Longrightarrow> documents_reachable decode digest s'"
| other_tables: "documents_reachable decode digest s \<Longrightarrow> documents_reachable decode digest (s\<lparr>ds_db := d\<rparr>)"

lemma document_step_good:
  "document_step decode digest p s s' \<Longrightarrow> store_ok s \<Longrightarrow> store_ok s' \<and> store_confined p s s'"
  by (induction rule: document_step.induct)
    (simp_all add: doc_created.keeps_ok doc_created.stays_confined doc_updated.keeps_ok doc_updated.stays_confined
      doc_published.keeps_ok doc_published.stays_confined doc_deleted.keeps_ok doc_deleted.stays_confined
      artifact_created.keeps_ok artifact_created.stays_confined artifact_updated.keeps_ok artifact_updated.stays_confined
      artifact_published.keeps_ok artifact_published.stays_confined artifact_deleted.keeps_ok artifact_deleted.stays_confined)

lemma documents_reachable_ok: "documents_reachable decode digest s \<Longrightarrow> store_ok s"
  by (induction rule: documents_reachable.induct)
    (auto simp: store_ok_def id_numbered_def unique_key_def dest: document_step_good)


section \<open>Overlapping edits\<close>

lemma doc_write_run:
  assumes "db_up (ds_db s)" "lookup doc_id i (ds_docs s) = Some r"
  shows "doc_write f i s = (s\<lparr>ds_docs := update_where (by_key doc_id i) f (ds_docs s)\<rparr>, Inr (row_to_doc (f r)))"
  using assms by (simp add: doc_write_def update_returning_find find_key)

lemma lookup_written:
  assumes "lookup key i t = Some r" "\<And>q. key (f q) = key q"
  shows "lookup key i (update_where (by_key key i) f t) = Some (f r)"
  using assms lookup_Some_in [OF assms(1)] by (simp add: lookup_update_where)

text \<open>Two edits of one document that overlap, both having read it before either writes, are both answered 200 with the
  same version, and of the first nothing is left: each of the five fields has what the second sent or what both had
  read. In particular an edit that overlaps a publication and sends no status takes the publication back.\<close>

theorem overlapping_edits_lost:
  assumes "doc_for can_write_domain s p i = Inr seen" "doc_for can_write_domain s q i = Inr seen'"
  shows "\<exists>s1 s2 j1 j2.
      doc_write (doc_merged t1 seen first) i s = (s1, Inr j1) \<and> doc_write (doc_merged t2 seen' second) i s1 = (s2, Inr j2)
      \<and> jget ''version'' j1 = jget ''version'' j2
      \<and> lookup doc_id i (ds_docs s2) = lookup doc_id i (ds_docs (fst (update_doc t2 s q i second)))
      \<and> (\<exists>s3 j3. doc_write (doc_published t1 seen) i s = (s3, Inr j3) \<and> jget ''status'' j3 = Some (JStr ''published'') \<and>
           (jfield_str ''status'' second = None \<longrightarrow>
              map_option doc_status (lookup doc_id i (ds_docs (fst (doc_write (doc_merged t2 seen' second) i s3)))) = Some (doc_status seen)))"
proof -
  note G = gated_rowD [OF assms(1) [unfolded doc_for_def]] and G' = gated_rowD [OF assms(2) [unfolded doc_for_def]]
  have same: "seen' = seen" using G(2) G'(2) by simp
  let ?m1 = "doc_merged t1 seen first" and ?m2 = "doc_merged t2 seen second" and ?pub = "doc_published t1 seen"
  have ids: "\<And>r. doc_id (?m1 r) = doc_id r" "\<And>r. doc_id (?m2 r) = doc_id r" "\<And>r. doc_id (?pub r) = doc_id r"
    by (simp_all add: doc_merged_def doc_published_def)
  let ?s1 = "s\<lparr>ds_docs := update_where (by_key doc_id i) ?m1 (ds_docs s)\<rparr>"
  let ?s3 = "s\<lparr>ds_docs := update_where (by_key doc_id i) ?pub (ds_docs s)\<rparr>"
  have one: "lookup doc_id i (ds_docs ?s1) = Some (?m1 seen)" "lookup doc_id i (ds_docs ?s3) = Some (?pub seen)"
    using lookup_written [OF G(2) ids(1)] lookup_written [OF G(2) ids(3)] by simp_all
  have two: "lookup doc_id i (update_where (by_key doc_id i) ?m2 (ds_docs ?s1)) = Some (?m2 (?m1 seen))"
    "lookup doc_id i (update_where (by_key doc_id i) ?m2 (ds_docs ?s3)) = Some (?m2 (?pub seen))"
    using lookup_written [OF one(1) ids(2)] lookup_written [OF one(2) ids(2)] by simp_all
  have alone: "lookup doc_id i (ds_docs (fst (update_doc t2 s q i second))) = Some (?m2 seen)"
    using assms(2) doc_write_run [OF G(1,2), of ?m2] lookup_written [OF G(2) ids(2)] same by (simp add: update_doc_def)
  have over: "?m2 (?m1 seen) = ?m2 seen" by (simp add: doc_merged_def)
  have w1: "doc_write ?m1 i s = (?s1, Inr (row_to_doc (?m1 seen)))" "doc_write ?pub i s = (?s3, Inr (row_to_doc (?pub seen)))"
    using doc_write_run [OF G(1,2)] by simp_all
  have up: "db_up (ds_db ?s1)" "db_up (ds_db ?s3)" using G(1) by simp_all
  note w2 = doc_write_run [OF up(1) one(1), of ?m2] doc_write_run [OF up(2) one(2), of ?m2]
  let ?s2 = "?s1\<lparr>ds_docs := update_where (by_key doc_id i) ?m2 (ds_docs ?s1)\<rparr>"
  have pub: "\<exists>s3 j3. doc_write ?pub i s = (s3, Inr j3) \<and> jget ''status'' j3 = Some (JStr ''published'') \<and>
       (jfield_str ''status'' second = None \<longrightarrow>
          map_option doc_status (lookup doc_id i (ds_docs (fst (doc_write ?m2 i s3)))) = Some (doc_status seen))"
    using two(2) w2(2)
    by (intro exI [of _ ?s3] exI [of _ "row_to_doc (?pub seen)"] conjI)
      (simp_all add: w1(2) row_to_doc_def doc_merged_def doc_published_def text_or_def)
  have same_version: "jget ''version'' (row_to_doc (?m1 seen)) = jget ''version'' (row_to_doc (?m2 (?m1 seen)))"
    by (simp add: row_to_doc_def doc_merged_def)
  have kept: "lookup doc_id i (ds_docs ?s2) = lookup doc_id i (ds_docs (fst (update_doc t2 s q i second)))"
    using two(1) alone over by simp
  show ?thesis unfolding same
    by (rule exI [of _ ?s1], rule exI [of _ ?s2], rule exI [of _ "row_to_doc (?m1 seen)"],
        rule exI [of _ "row_to_doc (?m2 (?m1 seen))"])
      (intro conjI w1(1) w2(1) same_version kept pub)
qed

section \<open>Deleted missions\<close>

lemma gone_mission: "db_up d \<Longrightarrow> lookup m_id m (missions d) = None \<Longrightarrow> mission_gate may d q m = Inl (not_found ''Mission not found'')"
  by (simp add: mission_gate_def)

text \<open>Deleting a mission leaves its documents and artifacts behind, out of everybody's reach: the deletion asks for
  linked tasks only, and from then on each of them is answered 404 to administrators too, whether it is read,
  changed, published or deleted, and stays in its table.\<close>

theorem deleted_mission_orphans:
  assumes "delete_mission sn (ds_db s) p k m = (d', Inr j)" "lookup doc_id i (ds_docs s) = Some r" "doc_mission_id r = m"
  shows "\<forall>q payload now. let s' = s\<lparr>ds_db := d'\<rparr>; gone = Inl (not_found ''Mission not found'') in
      get_doc s' q i = gone \<and> update_doc now s' q i payload = (s', gone) \<and> publish_doc now s' q i = (s', gone)
      \<and> delete_doc s' q i = (s', gone)
      \<and> (\<forall>a ar. lookup ar_id a (ds_artifacts s) = Some ar \<longrightarrow> ar_mission_id ar = m \<longrightarrow>
           get_artifact s' q a = gone \<and> publish_artifact now s' q a = (s', gone) \<and> delete_artifact s' q a = (s', gone))"
proof -
  have up: "db_up (ds_db s)" using assms(1) by (auto simp: delete_mission_def fetch_domain_def split: if_splits)
  have d': "d' = ds_db s\<lparr>missions := delete_where (by_key m_id m) (missions (ds_db s))\<rparr>"
    using assms(1) by (auto simp: delete_mission_def Let_def split: sum.splits if_splits)
  have gone: "lookup m_id m (missions d') = None" unfolding d' by (auto simp: lookup_None delete_where_def)
  have up': "db_up d'" using up by (simp add: d')
  have docs: "doc_for may (s\<lparr>ds_db := d'\<rparr>) q i = Inl (not_found ''Mission not found'')" for may q
    using assms(2,3) up' gone_mission [OF up' gone] by (simp add: doc_for_def gated_row_def)
  have arts: "artifact_for may (s\<lparr>ds_db := d'\<rparr>) q a = Inl (not_found ''Mission not found'')"
    if "lookup ar_id a (ds_artifacts s) = Some ar" "ar_mission_id ar = m" for may q a ar
    using that up' gone_mission [OF up' gone] by (simp add: artifact_for_def gated_row_def)
  show ?thesis
    using docs arts by (simp add: get_doc_def update_doc_def publish_doc_def delete_doc_def get_artifact_def
        publish_artifact_def delete_artifact_def Let_def)
qed

section \<open>The content of an artifact\<close>

text \<open>Content that is uploaded comes back: an artifact created with content in base64 is stored with the digest and the
  size of the decoded bytes, without an external pointer, and whoever may read its domain is sent exactly these
  bytes, under the media type of the request or, when that is empty or no header value, as octets.\<close>

theorem artifact_content_roundtrip:
  assumes "store_ok s" "create_artifact decode digest now s p payload = (s', Inr j)"
    "trim (text_or [] ''content_b64'' payload) = b64" "b64 \<noteq> []" "header_value ''application/octet-stream''"
  shows "\<exists>body r. decode b64 = Inr body \<and> lookup ar_id (ds_artifact_seq s) (ds_artifacts s') = Some r \<and> j = row_to_artifact r
      \<and> ar_content_sha256 r = digest body \<and> (int (length body) < 2 ^ 31 \<longrightarrow> ar_size_bytes r = int (length body))
      \<and> \<not> ar_external_pointer r \<and> ar_storage_backend r = ''inline''
      \<and> (\<forall>q. mission_gate can_read_domain (ds_db s') q (ar_mission_id r) = Inr () \<longrightarrow>
           (\<exists>mime. get_artifact_content decode header_value s' q (ds_artifact_seq s) = Inr (mime, body) \<and> header_value mime))"
proof -
  obtain mission where m: "required_mission payload = Inr mission"
    using assms(2) by (cases "required_mission payload") (auto simp: create_artifact_def)
  obtain body where body: "decode b64 = Inr body"
    using assms(2-4) m by (cases "decode b64") (auto simp: create_artifact_def resolve_storage_def Let_def split: if_splits sum.splits)
  obtain st where st: "resolve_storage decode digest payload = Inr st" "st_content_b64 st = Some b64" "st_sha256 st = digest body"
    "st_size st = as_i32 (int (length body))" "\<not> st_external_pointer st" "st_backend st = ''inline''"
    using assms(3,4) body by (auto simp: resolve_storage_def Let_def)
  let ?r = "new_artifact_row now (ds_artifact_seq s) mission payload st"
  have s': "s' = s\<lparr>ds_artifacts := insert_row ?r (ds_artifacts s), ds_artifact_seq := ds_artifact_seq s + 1\<rparr>"
    "j = row_to_artifact ?r" "mission_gate can_write_domain (ds_db s) p mission = Inr ()"
    using assms(2) m st(1) by (auto simp: create_artifact_def Let_def split: if_splits sum.splits)
  have up: "db_up (ds_db s')" using s'(1,3) by (auto simp: mission_gate_def split: if_splits)
  have r: "lookup ar_id (ds_artifact_seq s) (ds_artifacts s') = Some ?r"
  proof -
    have "lookup ar_id (ds_artifact_seq s) (ds_artifacts s) = None"
      using assms(1) by (intro id_numbered_fresh) (simp add: store_ok_def)
    moreover have "ar_id ?r = ds_artifact_seq s" by (simp add: new_artifact_row_def)
    ultimately show ?thesis by (simp add: s'(1) lookup_insert_row)
  qed
  have size: "as_i32 (int (length body)) = int (length body)" if "int (length body) < 2 ^ 31"
    using that by (intro as_i32_id) simp_all
  have "\<exists>mime. get_artifact_content decode header_value s' q (ds_artifact_seq s) = Inr (mime, body) \<and> header_value mime"
    if "mission_gate can_read_domain (ds_db s') q (ar_mission_id ?r) = Inr ()" for q
    using that up r body st(2,6) assms(5)
    by (auto simp: get_artifact_content_def artifact_for_def gated_row_def new_artifact_row_def Let_def)
  then show ?thesis using body r s'(2) st size by (intro exI [of _ body] exI [of _ ?r]) (auto simp: new_artifact_row_def)
qed

text \<open>What the digest says is not checked later: a PATCH that sends no content sets any digest and any size, and a
  PATCH with content keeps a pointer to the outside and the address made of the old digest.\<close>

theorem artifact_digest_unchecked:
  assumes "store_ok s" "artifact_for can_write_domain s p i = Inr seen" "ar_content_b64 seen = Some b64"
    "trim (text_or [] ''content_b64'' payload) = []" "jfield_str ''content_sha256'' payload = Some x"
  shows "\<exists>s' j r. update_artifact decode digest now s p i payload = (s', Inr j) \<and> lookup ar_id i (ds_artifacts s') = Some r
      \<and> ar_content_sha256 r = x \<and> ar_content_b64 r = Some b64"
proof -
  note G = gated_rowD [OF assms(2) [unfolded artifact_for_def]]
  obtain st where st: "patched_storage decode digest seen payload = Inr st" "st_sha256 st = x" "st_content_b64 st = Some b64"
    using assms(3-5) by (auto simp: patched_storage_def Let_def text_or_def)
  let ?f = "artifact_merged now seen payload st"
  have "update_artifact decode digest now s p i payload =
      (s\<lparr>ds_artifacts := update_where (by_key ar_id i) ?f (ds_artifacts s)\<rparr>, Inr (row_to_artifact (?f seen)))"
    using assms(2) st(1) G(1,2) by (simp add: update_artifact_def artifact_write_def update_returning_find find_key)
  moreover have "lookup ar_id i (update_where (by_key ar_id i) ?f (ds_artifacts s)) = Some (?f seen)"
    by (rule lookup_written [OF G(2)]) (simp add: artifact_merged_def)
  ultimately show ?thesis using st(2,3) by (auto simp: artifact_merged_def)
qed

section \<open>Concrete requests\<close>

definition demo_store :: doc_store where
  "demo_store = \<lparr>ds_db = demo_empty_db\<lparr>domains := [sample_domain ''d7'' ''ops'' ''alice'' ''bob'' (Some ''private'')],
     missions := [sample_mission ''m1'' ''inbox'' (Some ''d7'')]\<rparr>,
     ds_docs = [], ds_doc_seq = 1, ds_artifacts = [], ds_artifact_seq = 1\<rparr>"

definition demo_doc_text :: json where
  "demo_doc_text = JObj [(''mission_id'', JStr ''m1''), (''title'', JStr ''plan''), (''body'', JStr ''x'')]"

definition demo_with_doc :: doc_store where
  "demo_with_doc = fst (create_doc 1 demo_store (demo_writer ''alice'') demo_doc_text)"

definition demo_decode :: "str \<Rightarrow> str + char list" where
  "demo_decode s = (if CHR ''!'' \<in> set s then Inl ''bad'' else Inr s)"

lemma demo_doc_step:
  "document_step demo_decode (\<lambda>x. x) (demo_writer ''alice'') demo_store demo_with_doc"
  unfolding demo_with_doc_def by (rule document_step.create_doc)


lemma demo_doc_seen:
  "\<exists>seen. doc_for can_write_domain demo_with_doc (demo_writer ''alice'') 1 = Inr seen \<and>
     doc_for can_write_domain demo_with_doc (demo_writer ''bob'') 1 = Inr seen"
proof -
  have "doc_for can_write_domain demo_with_doc (demo_writer ''alice'') 1 = doc_for can_write_domain demo_with_doc (demo_writer ''bob'') 1"
    "case doc_for can_write_domain demo_with_doc (demo_writer ''bob'') 1 of Inr _ \<Rightarrow> True | Inl _ \<Rightarrow> False" by code_simp+
  then show ?thesis by (cases "doc_for can_write_domain demo_with_doc (demo_writer ''bob'') 1") auto
qed

lemma overlapping_edits_lost_witness:
  "\<exists>seen s1 s2 j1 j2.
      doc_write (doc_merged 2 seen (JObj [(''title'', JStr ''a'')])) 1 demo_with_doc = (s1, Inr j1)
      \<and> doc_write (doc_merged 3 seen (JObj [(''body'', JStr ''b'')])) 1 s1 = (s2, Inr j2)
      \<and> jget ''version'' j1 = jget ''version'' j2"
proof -
  obtain seen where seen: "doc_for can_write_domain demo_with_doc (demo_writer ''alice'') 1 = Inr seen"
    "doc_for can_write_domain demo_with_doc (demo_writer ''bob'') 1 = Inr seen"
    using demo_doc_seen by blast
  show ?thesis
    using overlapping_edits_lost [OF seen, of 2 "JObj [(''title'', JStr ''a'')]" 3 "JObj [(''body'', JStr ''b'')]"] by blast
qed

lemma deleted_mission_orphans_witness:
  "\<exists>d' j. delete_mission (\<lambda>_. []) (ds_db demo_with_doc) (demo_writer ''alice'') ''d7'' ''m1'' = (d', Inr j)
     \<and> (\<forall>q. get_doc (demo_with_doc\<lparr>ds_db := d'\<rparr>) q 1 = Inl (not_found ''Mission not found''))"
proof -
  have "case snd (delete_mission (\<lambda>_. []) (ds_db demo_with_doc) (demo_writer ''alice'') ''d7'' ''m1'') of Inr _ \<Rightarrow> True | Inl _ \<Rightarrow> False"
    by code_simp
  then obtain d' j where del: "delete_mission (\<lambda>_. []) (ds_db demo_with_doc) (demo_writer ''alice'') ''d7'' ''m1'' = (d', Inr j)"
    by (cases "delete_mission (\<lambda>_. []) (ds_db demo_with_doc) (demo_writer ''alice'') ''d7'' ''m1''") (auto split: sum.splits)
  obtain r where r: "lookup doc_id 1 (ds_docs demo_with_doc) = Some r" "doc_mission_id r = ''m1''"
  proof -
    have "map_option doc_mission_id (lookup doc_id 1 (ds_docs demo_with_doc)) = Some ''m1''" by code_simp
    then show thesis using that by (auto simp del: One_nat_def)
  qed
  have "get_doc (demo_with_doc\<lparr>ds_db := d'\<rparr>) q 1 = Inl (not_found ''Mission not found'')" for q
    using deleted_mission_orphans [OF del r, rule_format] unfolding Let_def by blast
  then show ?thesis using del by blast
qed

lemma artifact_content_roundtrip_witness:
  "\<exists>s' j. create_artifact demo_decode rev 1 demo_store (demo_writer ''bob'')
        (JObj [(''mission_id'', JStr ''m1''), (''content_b64'', JStr '' data '')]) = (s', Inr j)
      \<and> (\<exists>mime. get_artifact_content demo_decode (\<lambda>_. True) s' (demo_writer ''alice'') 1 = Inr (mime, ''data''))"
proof -
  let ?payload = "JObj [(''mission_id'', JStr ''m1''), (''content_b64'', JStr '' data '')]"
  have "case snd (create_artifact demo_decode rev 1 demo_store (demo_writer ''bob'') ?payload) of Inr _ \<Rightarrow> True | Inl _ \<Rightarrow> False"
    by code_simp
  then obtain s' j where run: "create_artifact demo_decode rev 1 demo_store (demo_writer ''bob'') ?payload = (s', Inr j)"
    by (cases "create_artifact demo_decode rev 1 demo_store (demo_writer ''bob'') ?payload") (auto split: sum.splits)
  have ok: "store_ok demo_store" by (simp add: demo_store_def store_ok_def id_numbered_def unique_key_def)
  have b64: "trim (text_or [] ''content_b64'' ?payload) = ''data''" by code_simp
  have dec: "demo_decode ''data'' = Inr ''data''" by code_simp
  have seq: "ds_artifact_seq demo_store = 1" by (simp add: demo_store_def)
  obtain body r where r: "demo_decode ''data'' = Inr body" "lookup ar_id 1 (ds_artifacts s') = Some r"
    "\<forall>q. mission_gate can_read_domain (ds_db s') q (ar_mission_id r) = Inr () \<longrightarrow>
       (\<exists>mime. get_artifact_content demo_decode (\<lambda>_. True) s' q 1 = Inr (mime, body) \<and> True)"
    using artifact_content_roundtrip [OF ok run b64, of "\<lambda>_. True"] unfolding seq by auto
  have s': "s' = fst (create_artifact demo_decode rev 1 demo_store (demo_writer ''bob'') ?payload)" using run by simp
  have "map_option ar_mission_id (lookup ar_id 1 (ds_artifacts s')) = Some ''m1''"
    "mission_gate can_read_domain (ds_db s') (demo_writer ''alice'') ''m1'' = Inr ()" unfolding s' by code_simp+
  then have "\<exists>mime. get_artifact_content demo_decode (\<lambda>_. True) s' (demo_writer ''alice'') 1 = Inr (mime, body) \<and> True"
    using r(2,3) by simp
  then show ?thesis using run r(1) dec by auto
qed

end
