(* ===== verification/Profile_Properties.thy ===== *)
theory Profile_Properties
  imports Profiles Document_Properties
begin

text \<open>
  Properties of profiles: the locale profile_statement is the contract of each statement of the handlers (keys stay
  unique, a stored tarball agrees with its digest and size) and is interpreted for each, so the contract holds
  however requests alternate; the single default holds only when they do not.
\<close>

section \<open>Stored tarballs\<close>

definition content_ok :: "(str \<Rightarrow> str + 'b list) \<Rightarrow> ('b list \<Rightarrow> str) \<Rightarrow> profile_row \<Rightarrow> bool" where
  "content_ok decode digest r =
     (\<exists>tarball body. up_tarball_b64 r = Some tarball \<and> decode tarball = Inr body \<and> up_sha256 r = Some (digest body) \<and>
        up_size_bytes r = as_i32 (int (length body)))"

definition profile_rows_ok :: "(str \<Rightarrow> str + 'b list) \<Rightarrow> ('b list \<Rightarrow> str) \<Rightarrow> profile_store \<Rightarrow> bool" where
  "profile_rows_ok decode digest s =
     (id_numbered up_id (pf_seq s) (pf_rows s) \<and> unique_key (\<lambda>r. (up_owner_subject r, up_name r)) (pf_rows s) \<and>
      (\<forall>r\<in>set (pf_rows s). validate_name (up_name r) \<and> content_ok decode digest r))"

locale profile_statement =
  fixes decode :: "str \<Rightarrow> str + 'b list" and digest :: "'b list \<Rightarrow> str" and run :: "profile_store \<Rightarrow> profile_store"
  assumes keeps_ok: "profile_rows_ok decode digest s \<Longrightarrow> profile_rows_ok decode digest (run s)"

definition same_identity :: "(profile_row \<Rightarrow> profile_row) \<Rightarrow> bool" where
  "same_identity f = (\<forall>r. up_id (f r) = up_id r \<and> up_owner_subject (f r) = up_owner_subject r \<and> up_name (f r) = up_name r)"

lemma profiles_updated:
  assumes "profile_rows_ok decode digest s" "same_identity f" "\<And>r. content_ok decode digest r \<Longrightarrow> content_ok decode digest (f r)"
  shows "profile_rows_ok decode digest (s\<lparr>pf_rows := update_where c f (pf_rows s)\<rparr>)"
proof -
  have "id_numbered up_id (pf_seq s) (update_where c f (pf_rows s))"
    using assms(1,2) by (intro id_numbered_update) (simp_all add: profile_rows_ok_def same_identity_def)
  moreover have "unique_key (\<lambda>r. (up_owner_subject r, up_name r)) (update_where c f (pf_rows s))"
    using assms(1,2) by (intro unique_update_where) (simp_all add: profile_rows_ok_def same_identity_def)
  moreover have "validate_name (up_name r) \<and> content_ok decode digest r" if "r \<in> set (update_where c f (pf_rows s))" for r
  proof -
    obtain q where q: "q \<in> set (pf_rows s)" "r = q \<or> r = f q" using \<open>r \<in> _\<close> by (auto simp: in_update_where split: if_splits)
    then have "validate_name (up_name q) \<and> content_ok decode digest q" using assms(1) by (simp add: profile_rows_ok_def)
    then show ?thesis using q(2) assms(2,3) by (auto simp: same_identity_def)
  qed
  ultimately show ?thesis by (simp add: profile_rows_ok_def)
qed

lemma update_miss: "find (\<lambda>r. holds (c r)) t = None \<Longrightarrow> update_where c f t = t"
  unfolding find_None_iff by (intro update_where_none) blast

lemma write_profile_fst:
  "fst (write_profile parse who name f s) = (if pf_up s then s\<lparr>pf_rows := update_where (profile_of who name) f (pf_rows s)\<rparr> else s)"
  using update_miss [of "profile_of who name" "pf_rows s" f]
  by (auto simp: write_profile_def update_returning_find split: option.splits)

interpretation clearing: profile_statement decode digest "clear_default now who except" for decode :: "str \<Rightarrow> str + 'b list" and digest now who except
  by unfold_locales (auto simp: clear_default_def same_identity_def content_ok_def intro!: profiles_updated)

interpretation clearing_all: profile_statement decode digest "clear_all now who" for decode :: "str \<Rightarrow> str + 'b list" and digest now who
  by unfold_locales (auto simp: clear_all_def same_identity_def content_ok_def intro!: profiles_updated)

interpretation defaulting: profile_statement decode digest "\<lambda>s. fst (set_default parse now p name s)"
  for decode :: "str \<Rightarrow> str + 'b list" and digest parse now p name
  by unfold_locales (auto simp: set_default_def write_profile_fst same_identity_def content_ok_def intro!: profiles_updated)

interpretation deleting: profile_statement decode digest "\<lambda>s. fst (delete_profile s p name)"
  for decode :: "str \<Rightarrow> str + 'b list" and digest p name
  by unfold_locales (auto simp: delete_profile_def profile_rows_ok_def id_numbered_delete unique_delete_where)

text \<open>The update of a PUT or a PATCH sets a tarball with its digest, whatever state it was prepared in.\<close>

definition sound_change :: "(str \<Rightarrow> str + 'b list) \<Rightarrow> ('b list \<Rightarrow> str) \<Rightarrow> (profile_row \<Rightarrow> profile_row) \<Rightarrow> bool" where
  "sound_change decode digest f = (same_identity f \<and> (\<forall>r. content_ok decode digest (f r)))"

lemma sound_profile_set:
  assumes "decode tarball = Inr body" "content = (digest body, as_i32 (int (length body)))"
  shows "sound_change decode digest (profile_set now d def m tarball content)"
  using assms by (simp add: sound_change_def same_identity_def content_ok_def profile_set_def)

lemma expected_contentD:
  "expected_content decode digest tarball expected = Inr content \<Longrightarrow>
     \<exists>body. decode tarball = Inr body \<and> content = (digest body, as_i32 (int (length body)))"
  by (auto simp: expected_content_def compute_sha256_and_size_def split: sum.splits if_splits option.splits)

lemma replace_sound:
  assumes "replace_prepare dump decode digest now s p name body = Inr change"
  shows "sound_change decode digest (snd change)"
  using assms by (auto simp: replace_prepare_def dest!: expected_contentD intro: sound_profile_set)

lemma fetch_profileD:
  "fetch_profile s who name = Inr r \<Longrightarrow> pf_up s \<and> r \<in> set (pf_rows s) \<and> up_owner_subject r = who \<and> up_name r = name"
  by (auto simp: fetch_profile_def fetch_optional_def profile_of_def find_Some_iff split: if_splits option.splits)

lemma patch_sound:
  assumes "patch_prepare dump decode digest now s p name body = Inr change" "profile_rows_ok decode digest s"
  shows "sound_change decode digest (snd change)"
proof -
  obtain r where r: "fetch_profile s (subject p) name = Inr r"
    using assms(1) by (auto simp: patch_prepare_def)
  then have "content_ok decode digest r" using assms(2) fetch_profileD unfolding profile_rows_ok_def by blast
  then show ?thesis using assms(1) r
    by (cases "pp_tarball_b64 body")
      (auto simp: patch_prepare_def Let_def content_ok_def opt_or_def dest!: expected_contentD intro!: sound_profile_set)
qed

interpretation writing: profile_statement decode digest
  "\<lambda>s. if sound_change decode digest f then fst (write_profile parse who name f s) else s"
  for decode :: "str \<Rightarrow> str + 'b list" and digest parse who name f
  by unfold_locales (auto simp: write_profile_fst sound_change_def intro!: profiles_updated)

text \<open>The insert stores what the check computed.\<close>

definition checked_content :: "(str \<Rightarrow> str + 'b list) \<Rightarrow> ('b list \<Rightarrow> str) \<Rightarrow> profile_create \<Rightarrow> str \<times> int \<Rightarrow> bool" where
  "checked_content decode digest body content =
     (validate_name (pb_name body) \<and> compute_sha256_and_size decode digest (pb_tarball_b64 body) = Inr content)"

lemma create_check_content: "create_check decode digest s p body = Inr content \<Longrightarrow> checked_content decode digest body content"
  by (auto simp: create_check_def checked_content_def split: if_splits sum.splits)

lemma insert_profile_cases:
  obtains (failed) "insert_profile parse dump now who body content s = (s, Inl internal_error)"
  | (taken) e where "insert_profile parse dump now who body content s = (s\<lparr>pf_seq := pf_seq s + 1\<rparr>, Inl e)"
  | (made) "\<not> exists_where (profile_of who (pb_name body)) (pf_rows s)"
      "insert_profile parse dump now who body content s =
        (s\<lparr>pf_rows := insert_row (new_profile_row dump now (pf_seq s) who body content) (pf_rows s), pf_seq := pf_seq s + 1\<rparr>,
         Inr (row_to_profile parse False (new_profile_row dump now (pf_seq s) who body content)))"
  by (cases "\<not> pf_up s \<or> pf_seq s > max_i32"; cases "exists_where (profile_of who (pb_name body)) (pf_rows s)")
    (simp_all add: insert_profile_def Let_def)

lemma profile_added:
  assumes "profile_rows_ok decode digest s" "up_id r = pf_seq s" "validate_name (up_name r)" "content_ok decode digest r"
    "\<not> exists_where (profile_of (up_owner_subject r) (up_name r)) (pf_rows s)"
  shows "profile_rows_ok decode digest (s\<lparr>pf_rows := insert_row r (pf_rows s), pf_seq := pf_seq s + 1\<rparr>)"
proof -
  have "id_numbered up_id (pf_seq s + 1) (insert_row r (pf_rows s))"
    using assms(1,2) by (intro id_numbered_insert) (simp_all add: profile_rows_ok_def)
  moreover have "unique_key (\<lambda>r. (up_owner_subject r, up_name r)) (insert_row r (pf_rows s))"
    using assms(1,5) by (intro unique_insert_row)
      (auto simp: profile_rows_ok_def lookup_None exists_where_def list_ex_iff profile_of_def)
  ultimately show ?thesis using assms(1,3,4) by (auto simp: profile_rows_ok_def insert_row_def)
qed

interpretation inserting: profile_statement decode digest
  "\<lambda>s. if checked_content decode digest body content then fst (insert_profile parse dump now who body content s) else s"
  for decode :: "str \<Rightarrow> str + 'b list" and digest parse dump now who body content
proof
  fix s assume ok: "profile_rows_ok decode digest s"
  have "profile_rows_ok decode digest (fst (insert_profile parse dump now who body content s))"
    if c: "checked_content decode digest body content"
  proof (cases rule: insert_profile_cases [of parse dump now who body content s])
    case failed
    then show ?thesis using ok by simp
  next
    case taken
    then show ?thesis using ok by (auto simp: profile_rows_ok_def id_numbered_def)
  next
    case made
    have "content_ok decode digest (new_profile_row dump now (pf_seq s) who body content)"
      using c by (auto simp: checked_content_def compute_sha256_and_size_def content_ok_def new_profile_row_def split: sum.splits)
    then show ?thesis using made c unfolding made(2) fst_conv
      by (intro profile_added [OF ok]) (simp_all add: new_profile_row_def checked_content_def)
  qed
  then show "profile_rows_ok decode digest
      (if checked_content decode digest body content then fst (insert_profile parse dump now who body content s) else s)"
    using ok by simp
qed

section \<open>Alternating requests\<close>

text \<open>The statements of any number of requests in any order; what a PUT, a PATCH or a POST writes was prepared in some
  earlier state.\<close>

inductive profiles_reachable ::
  "(str \<Rightarrow> json option) \<Rightarrow> (json \<Rightarrow> str) \<Rightarrow> (str \<Rightarrow> str + 'b list) \<Rightarrow> ('b list \<Rightarrow> str) \<Rightarrow> profile_store \<Rightarrow> bool"
  for parse dump and decode :: "str \<Rightarrow> str + 'b list" and digest where
  start: "pf_rows s = [] \<Longrightarrow> profiles_reachable parse dump decode digest s"
| clear_default: "profiles_reachable parse dump decode digest s \<Longrightarrow>
    profiles_reachable parse dump decode digest (clear_default now who except s)"
| clear_all: "profiles_reachable parse dump decode digest s \<Longrightarrow> profiles_reachable parse dump decode digest (clear_all now who s)"
| insert: "profiles_reachable parse dump decode digest seen \<Longrightarrow> create_check decode digest seen p body = Inr content \<Longrightarrow>
    profiles_reachable parse dump decode digest s \<Longrightarrow>
    profiles_reachable parse dump decode digest (fst (insert_profile parse dump now (subject p) body content s))"
| replace: "profiles_reachable parse dump decode digest seen \<Longrightarrow>
    replace_prepare dump decode digest now seen p name body = Inr change \<Longrightarrow> profiles_reachable parse dump decode digest s \<Longrightarrow>
    profiles_reachable parse dump decode digest (fst (write_profile parse (subject p) name (snd change) s))"
| patch: "profiles_reachable parse dump decode digest seen \<Longrightarrow>
    patch_prepare dump decode digest now seen p name pbody = Inr change \<Longrightarrow> profiles_reachable parse dump decode digest s \<Longrightarrow>
    profiles_reachable parse dump decode digest (fst (write_profile parse (subject p) name (snd change) s))"
| set_default: "profiles_reachable parse dump decode digest s \<Longrightarrow>
    profiles_reachable parse dump decode digest (fst (set_default parse now p name s))"
| delete: "profiles_reachable parse dump decode digest s \<Longrightarrow>
    profiles_reachable parse dump decode digest (fst (delete_profile s p name))"

lemma profiles_reachable_ok: "profiles_reachable parse dump decode digest s \<Longrightarrow> profile_rows_ok decode digest s"
proof (induction rule: profiles_reachable.induct)
  case (start s)
  then show ?case by (simp add: profile_rows_ok_def id_numbered_def unique_key_def)
next
  case (clear_default s now who except)
  then show ?case by (intro clearing.keeps_ok)
next
  case (clear_all s now who)
  then show ?case by (intro clearing_all.keeps_ok)
next
  case (insert seen p body content s now)
  then show ?case
    using inserting.keeps_ok [of decode digest s body content parse dump now "subject p"] create_check_content by fastforce
next
  case (replace seen now p name body change s)
  then show ?case
    using writing.keeps_ok [of decode digest s "snd change" parse "subject p" name] replace_sound by fastforce
next
  case (patch seen now p name pbody change s)
  then show ?case
    using writing.keeps_ok [of decode digest s "snd change" parse "subject p" name] patch_sound by fastforce
next
  case (set_default s now p name)
  then show ?case by (intro defaulting.keeps_ok)
next
  case (delete s p name)
  then show ?case by (intro deleting.keeps_ok)
qed

text \<open>C24: A profile is downloaded as it was stored: in every state reached by the statements of requests in any order, the
  answer of a download is the one row of that name of the caller, its tarball decodes, and the digest and
  the size it states are those of the decoded bytes, though a PATCH writes back what it read before others wrote.\<close>

theorem downloaded_content_sound:
  assumes "profiles_reachable parse dump decode digest s" "download_profile parse s p name = Inr j"
  shows "\<exists>r tarball body. r \<in> set (pf_rows s) \<and> j = row_to_profile parse True r
      \<and> up_owner_subject r = subject p \<and> up_name r = name \<and> validate_name name
      \<and> (\<forall>q\<in>set (pf_rows s). up_owner_subject q = subject p \<longrightarrow> up_name q = name \<longrightarrow> q = r)
      \<and> up_tarball_b64 r = Some tarball \<and> decode tarball = Inr body \<and> up_sha256 r = Some (digest body)
      \<and> up_size_bytes r = as_i32 (int (length body))"
proof -
  have ok: "profile_rows_ok decode digest s" using assms(1) by (rule profiles_reachable_ok)
  obtain r where r: "fetch_profile s (subject p) name = Inr r" "j = row_to_profile parse True r"
    using assms(2) by (auto simp: download_profile_def split: if_splits)
  note F = fetch_profileD [OF r(1)]
  then obtain tarball body where c: "up_tarball_b64 r = Some tarball" "decode tarball = Inr body" "up_sha256 r = Some (digest body)"
    "up_size_bytes r = as_i32 (int (length body))" "validate_name name"
    using ok unfolding profile_rows_ok_def content_ok_def by blast
  have "q = r" if "q \<in> set (pf_rows s)" "up_owner_subject q = subject p" "up_name q = name" for q
  proof -
    have inj: "inj_on (\<lambda>r. (up_owner_subject r, up_name r)) (set (pf_rows s))"
      using ok by (simp add: profile_rows_ok_def unique_key_def distinct_map)
    then show ?thesis using that F inj_onD [OF inj, of q r] by simp
  qed
  then show ?thesis using r(2) F c by blast
qed

section \<open>The default\<close>

definition one_default :: "profile_store \<Rightarrow> bool" where
  "one_default s = (\<forall>r\<in>set (pf_rows s). \<forall>q\<in>set (pf_rows s).
     up_is_default r \<longrightarrow> up_is_default q \<longrightarrow> up_owner_subject r = up_owner_subject q \<longrightarrow> up_name r = up_name q)"

text \<open>Whole requests, one after another.\<close>

inductive profile_requests ::
  "(str \<Rightarrow> json option) \<Rightarrow> (json \<Rightarrow> str) \<Rightarrow> (str \<Rightarrow> str + 'b list) \<Rightarrow> ('b list \<Rightarrow> str) \<Rightarrow> profile_store \<Rightarrow> bool"
  for parse dump and decode :: "str \<Rightarrow> str + 'b list" and digest where
  start: "pf_rows s = [] \<Longrightarrow> profile_requests parse dump decode digest s"
| create: "profile_requests parse dump decode digest s \<Longrightarrow>
    profile_requests parse dump decode digest (fst (create_profile parse dump decode digest now s p body))"
| replace: "profile_requests parse dump decode digest s \<Longrightarrow>
    profile_requests parse dump decode digest (fst (replace_profile parse dump decode digest now s p name body))"
| patch: "profile_requests parse dump decode digest s \<Longrightarrow>
    profile_requests parse dump decode digest (fst (patch_profile parse dump decode digest now s p name pbody))"
| delete: "profile_requests parse dump decode digest s \<Longrightarrow> profile_requests parse dump decode digest (fst (delete_profile s p name))"
| activate: "profile_requests parse dump decode digest s \<Longrightarrow>
    profile_requests parse dump decode digest (fst (activate_profile parse now s p name))"

definition no_other_default :: "str \<Rightarrow> str \<Rightarrow> profile_store \<Rightarrow> bool" where
  "no_other_default who name s = (\<forall>r\<in>set (pf_rows s). up_owner_subject r = who \<longrightarrow> up_is_default r \<longrightarrow> up_name r = name)"

lemma one_default_sub:
  assumes "one_default s" "\<And>r. r \<in> set (pf_rows t) \<Longrightarrow> \<exists>q\<in>set (pf_rows s). up_owner_subject q = up_owner_subject r \<and> up_name q = up_name r \<and> (up_is_default r \<longrightarrow> up_is_default q)"
  shows "one_default t"
  unfolding one_default_def
proof (intro ballI impI)
  fix r q assume *: "r \<in> set (pf_rows t)" "q \<in> set (pf_rows t)" "up_is_default r" "up_is_default q" "up_owner_subject r = up_owner_subject q"
  then obtain r' q' where "r' \<in> set (pf_rows s)" "q' \<in> set (pf_rows s)" "up_is_default r'" "up_is_default q'"
    "up_owner_subject r' = up_owner_subject r" "up_name r' = up_name r" "up_owner_subject q' = up_owner_subject q" "up_name q' = up_name q"
    using assms(2) by metis
  then show "up_name r = up_name q" using assms(1) *(5) unfolding one_default_def by metis
qed

lemma clear_default_one: "one_default s \<Longrightarrow> one_default (clear_default now who except s)"
  by (erule one_default_sub) (auto simp: clear_default_def in_update_where split: if_splits)

lemma clear_all_one: "one_default s \<Longrightarrow> one_default (clear_all now who s)"
  by (erule one_default_sub) (auto simp: clear_all_def in_update_where split: if_splits)

lemma cleared_row:
  assumes "r \<in> set (pf_rows (clear_default now who except s))" "pf_up s" "up_owner_subject r = who" "up_is_default r"
  shows "except = Some (up_name r)"
proof -
  let ?c = "\<lambda>r. tand (tbool (up_owner_subject r = who)) (tand (tbool (up_is_default r))
                    (case except of None \<Rightarrow> Some True | Some name \<Rightarrow> tbool (up_name r \<noteq> name)))"
  obtain q where "r = (if holds (?c q) then q\<lparr>up_is_default := False, up_updated_at := now\<rparr> else q)"
    using assms(1,2) by (auto simp: clear_default_def in_update_where)
  note r = this
  have miss: "\<not> holds (?c q)"
  proof
    assume "holds (?c q)"
    then have "r = q\<lparr>up_is_default := False, up_updated_at := now\<rparr>" using r by (simp only: if_True)
    then show False using assms(4) by simp
  qed
  then have "r = q" using r by (simp only: if_False)
  then show ?thesis using miss assms(3,4) by (cases except) simp_all
qed

lemma cleared_all_row:
  assumes "r \<in> set (pf_rows (clear_all now who s))" "pf_up s" "up_owner_subject r = who"
  shows "\<not> up_is_default r"
proof -
  obtain q where "r = (if up_owner_subject q = who then q\<lparr>up_is_default := False, up_updated_at := now\<rparr> else q)"
    using assms(1,2) by (auto simp: clear_all_def in_update_where)
  then show ?thesis using assms(3) by (cases "up_owner_subject q = who") simp_all
qed

lemma clear_default_other: "pf_up s \<Longrightarrow> no_other_default who name (clear_default now who (Some name) s)"
  unfolding no_other_default_def using cleared_row by blast

lemma cleared_all: "pf_up s \<Longrightarrow> no_other_default who name (clear_all now who s)"
  unfolding no_other_default_def using cleared_all_row by blast

lemma write_one_default:
  assumes "one_default s" "same_identity f" "\<And>r. up_is_default (f r) \<Longrightarrow> no_other_default who name s"
  shows "one_default (fst (write_profile parse who name f s))"
  unfolding one_default_def
proof (intro ballI impI)
  let ?c = "\<lambda>r. up_owner_subject r = who \<and> up_name r = name"
  fix r q assume *: "r \<in> set (pf_rows (fst (write_profile parse who name f s)))" "q \<in> set (pf_rows (fst (write_profile parse who name f s)))"
    "up_is_default r" "up_is_default q" "up_owner_subject r = up_owner_subject q"
  have origin: "\<exists>r'\<in>set (pf_rows s). up_owner_subject r' = up_owner_subject r \<and> up_name r' = up_name r \<and> (r = r' \<or> ?c r' \<and> r = f r')"
    if "r \<in> set (pf_rows (fst (write_profile parse who name f s)))" for r
    using that assms(2) by (auto simp: write_profile_fst in_update_where profile_of_def same_identity_def split: if_splits)
  obtain r' q' where r': "r' \<in> set (pf_rows s)" "up_owner_subject r' = up_owner_subject r" "up_name r' = up_name r" "r = r' \<or> ?c r' \<and> r = f r'"
    and q': "q' \<in> set (pf_rows s)" "up_owner_subject q' = up_owner_subject q" "up_name q' = up_name q" "q = q' \<or> ?c q' \<and> q = f q'"
    using origin *(1,2) by metis
  show "up_name r = up_name q"
  proof (cases "r = r' \<and> q = q'")
    case True
    then show ?thesis using assms(1) r'(1) q'(1) *(3-5) unfolding one_default_def by blast
  next
    case False
    then have "no_other_default who name s" using assms(3) *(3,4) r'(4) q'(4) by metis
    then show ?thesis using False r' q' *(3-5) unfolding no_other_default_def by metis
  qed
qed

lemma commit_one_default:
  assumes "one_default s" "sound_change decode digest (snd change)" "\<And>r. up_is_default (snd change r) = fst change" "pf_up s"
  shows "one_default (fst (commit_profile parse now p name change s))"
proof -
  let ?t = "if fst change then clear_default now (subject p) (Some name) s else s"
  have "one_default ?t" using assms(1) clear_default_one by simp
  moreover have "no_other_default (subject p) name ?t" if "fst change"
    using that clear_default_other [OF assms(4)] by simp
  ultimately show ?thesis
    unfolding commit_profile_def using assms(2,3) by (intro write_one_default) (auto simp: sound_change_def)
qed

lemma prepared_default:
  "replace_prepare dump decode digest now s p name body = Inr change \<Longrightarrow> up_is_default (snd change r) = fst change"
  "patch_prepare dump decode digest now s p name pbody = Inr change \<Longrightarrow> up_is_default (snd change r) = fst change"
  by (auto simp: replace_prepare_def patch_prepare_def profile_set_def Let_def split: option.splits)

lemma prepared_up:
  "replace_prepare dump decode digest now s p name body = Inr change \<Longrightarrow> pf_up s"
  "patch_prepare dump decode digest now s p name pbody = Inr change \<Longrightarrow> pf_up s"
  by (auto simp: replace_prepare_def patch_prepare_def dest: fetch_profileD)

lemma one_default_seq: "one_default (s\<lparr>pf_seq := k\<rparr>) = one_default s"
proof -
  have "pf_rows (s\<lparr>pf_seq := k\<rparr>) = pf_rows s" by simp
  then show ?thesis unfolding one_default_def by (rule ssubst) (rule refl)
qed

lemma insert_one_default:
  assumes "one_default s" "pb_is_default body \<Longrightarrow> \<forall>r\<in>set (pf_rows s). up_owner_subject r = who \<longrightarrow> \<not> up_is_default r"
  shows "one_default (fst (insert_profile parse dump now who body content s))"
proof (cases rule: insert_profile_cases [of parse dump now who body content s])
  case made
  let ?new = "new_profile_row dump now (pf_seq s) who body content"
  have new: "up_owner_subject ?new = who" "up_is_default ?new = pb_is_default body" by (simp_all add: new_profile_row_def)
  have rows: "pf_rows (fst (insert_profile parse dump now who body content s)) = pf_rows s @ [?new]"
    unfolding made(2) by (simp add: insert_row_def)
  show ?thesis
    unfolding one_default_def rows
  proof (intro ballI impI)
    fix r q assume *: "r \<in> set (pf_rows s @ [?new])" "q \<in> set (pf_rows s @ [?new])" "up_is_default r" "up_is_default q"
      "up_owner_subject r = up_owner_subject q"
    consider "r = ?new" "q = ?new" | "r \<in> set (pf_rows s)" "q \<in> set (pf_rows s)" | "r = ?new" "q \<in> set (pf_rows s)" | "r \<in> set (pf_rows s)" "q = ?new"
      using *(1,2) by (simp only: set_append Un_iff list.set empty_iff insert_iff) blast
    then show "up_name r = up_name q"
    proof cases
      case 1
      then show ?thesis by simp
    next
      case 2
      then show ?thesis using assms(1) *(3-5) unfolding one_default_def by blast
    next
      case 3
      then show ?thesis using assms(2) new *(3-5) by metis
    next
      case 4
      then show ?thesis using assms(2) new *(3-5) by metis
    qed
  qed
next
  case failed
  then show ?thesis using assms(1) by simp
next
  case taken
  then show ?thesis using assms(1) one_default_seq by simp
qed

lemma clear_default_none: "pf_up s \<Longrightarrow> \<forall>r\<in>set (pf_rows (clear_default now who None s)). up_owner_subject r = who \<longrightarrow> \<not> up_is_default r"
  using cleared_row [where except = None] by blast

lemma insert_down: "\<not> pf_up s \<Longrightarrow> insert_profile parse dump now who body content s = (s, Inl internal_error)"
  by (simp add: insert_profile_def)

lemma create_one_default:
  assumes "one_default s"
  shows "one_default (fst (create_profile parse dump decode digest now s p body))"
proof (cases "create_check decode digest s p body")
  case (Inr content)
  let ?t = "if pb_is_default body then clear_default now (subject p) None s else s"
  have t: "one_default ?t" using assms clear_default_one by simp
  have "one_default (fst (insert_profile parse dump now (subject p) body content ?t))"
  proof (cases "pf_up s")
    case True
    then show ?thesis using clear_default_none by (intro insert_one_default [OF t]) auto
  next
    case False
    then have "\<not> pf_up ?t" by (simp add: clear_default_def)
    then show ?thesis using t insert_down by (metis fst_conv)
  qed
  then show ?thesis using Inr by (simp add: create_profile_def)
qed (simp add: create_profile_def assms)

lemma activate_one_default:
  assumes "one_default s"
  shows "one_default (fst (activate_profile parse now s p name))"
proof (cases "fetch_profile s (subject p) name")
  case (Inr r)
  then have "pf_up s" by (auto dest: fetch_profileD)
  then have "one_default (fst (set_default parse now p name (clear_all now (subject p) s)))"
    unfolding set_default_def using clear_all_one [OF assms] cleared_all
    by (intro write_one_default) (auto simp: same_identity_def)
  then show ?thesis using Inr by (simp add: activate_profile_def)
qed (simp add: activate_profile_def assms)

lemma profile_requests_one:
  assumes "profile_requests parse dump decode digest s"
  shows "profiles_reachable parse dump decode digest s \<and> one_default s"
  using assms
proof (induction rule: profile_requests.induct)
  case (start s)
  then show ?case by (simp add: one_default_def profiles_reachable.start)
next
  case (create s now p body)
  have "profiles_reachable parse dump decode digest (fst (create_profile parse dump decode digest now s p body))"
  proof (cases "create_check decode digest s p body")
    case (Inr content)
    have "profiles_reachable parse dump decode digest (if pb_is_default body then clear_default now (subject p) None s else s)"
      using create.IH by (simp add: profiles_reachable.clear_default)
    then show ?thesis using create.IH profiles_reachable.insert [OF _ Inr] Inr by (simp add: create_profile_def)
  qed (simp add: create_profile_def create.IH)
  then show ?case using create_one_default create.IH by blast
next
  case (replace s now p name body)
  show ?case
  proof (cases "replace_prepare dump decode digest now s p name body")
    case (Inr change)
    have run: "fst (replace_profile parse dump decode digest now s p name body) = fst (commit_profile parse now p name change s)"
      using Inr by (simp add: replace_profile_def)
    have "profiles_reachable parse dump decode digest (if fst change then clear_default now (subject p) (Some name) s else s)"
      using replace.IH by (simp add: profiles_reachable.clear_default)
    then have "profiles_reachable parse dump decode digest (fst (commit_profile parse now p name change s))"
      unfolding commit_profile_def using replace.IH profiles_reachable.replace [OF _ Inr] by blast
    then show ?thesis unfolding run
      using commit_one_default [OF _ replace_sound [OF Inr] prepared_default(1) [OF Inr] prepared_up(1) [OF Inr]] replace.IH by blast
  qed (simp add: replace_profile_def replace.IH)
next
  case (patch s now p name pbody)
  show ?case
  proof (cases "patch_prepare dump decode digest now s p name pbody")
    case (Inr change)
    have run: "fst (patch_profile parse dump decode digest now s p name pbody) = fst (commit_profile parse now p name change s)"
      using Inr by (simp add: patch_profile_def)
    have "profiles_reachable parse dump decode digest (if fst change then clear_default now (subject p) (Some name) s else s)"
      using patch.IH by (simp add: profiles_reachable.clear_default)
    then have "profiles_reachable parse dump decode digest (fst (commit_profile parse now p name change s))"
      unfolding commit_profile_def using patch.IH profiles_reachable.patch [OF _ Inr] by blast
    moreover have "sound_change decode digest (snd change)"
      using patch.IH profiles_reachable_ok patch_sound [OF Inr] by blast
    ultimately show ?thesis unfolding run
      using commit_one_default [OF _ _ prepared_default(2) [OF Inr] prepared_up(2) [OF Inr]] patch.IH by blast
  qed (simp add: patch_profile_def patch.IH)
next
  case (delete s p name)
  have "\<exists>q\<in>set (pf_rows s). up_owner_subject q = up_owner_subject r \<and> up_name q = up_name r \<and> (up_is_default r \<longrightarrow> up_is_default q)"
    if "r \<in> set (pf_rows (fst (delete_profile s p name)))" for r
    using that by (auto simp: delete_profile_def split: if_splits)
  then have "one_default (fst (delete_profile s p name))"
    using one_default_sub delete.IH by blast
  then show ?case using delete.IH profiles_reachable.delete by blast
next
  case (activate s now p name)
  have "profiles_reachable parse dump decode digest (fst (activate_profile parse now s p name))"
    using activate.IH
    by (cases "fetch_profile s (subject p) name") (simp_all add: activate_profile_def profiles_reachable.set_default profiles_reachable.clear_all)
  then show ?case using activate_one_default activate.IH by blast
qed

text \<open>Requests that do not overlap keep the default single: in every state that whole requests reach a user has at most
  one default profile, and an activation that is answered 200 makes exactly the profile it names the default
  of its owner and changes no other owner's.\<close>

theorem default_is_single:
  assumes "profile_requests parse dump decode digest s"
  shows "(\<forall>r\<in>set (pf_rows s). \<forall>q\<in>set (pf_rows s). up_is_default r \<longrightarrow> up_is_default q \<longrightarrow>
        up_owner_subject r = up_owner_subject q \<longrightarrow> r = q)
    \<and> (\<forall>s' j. activate_profile parse now s p name = (s', Inr j) \<longrightarrow>
        (\<forall>r\<in>set (pf_rows s'). if up_owner_subject r = subject p then up_is_default r \<longleftrightarrow> up_name r = name
           else r \<in> set (pf_rows s)))"
proof -
  have ok: "profile_rows_ok decode digest s" "one_default s"
    using profile_requests_one [OF assms] profiles_reachable_ok by blast+
  have inj: "inj_on (\<lambda>r. (up_owner_subject r, up_name r)) (set (pf_rows s))"
    using ok(1) by (simp add: profile_rows_ok_def unique_key_def distinct_map)
  have single: "r = q" if "r \<in> set (pf_rows s)" "q \<in> set (pf_rows s)" "up_is_default r" "up_is_default q"
    "up_owner_subject r = up_owner_subject q" for r q
  proof -
    have "up_name r = up_name q" using ok(2) that unfolding one_default_def by blast
    then show ?thesis using that inj_onD [OF inj, of r q] by simp
  qed
  have "if up_owner_subject r = subject p then up_is_default r \<longleftrightarrow> up_name r = name else r \<in> set (pf_rows s)"
    if act: "activate_profile parse now s p name = (s', Inr j)" and r: "r \<in> set (pf_rows s')" for s' j r
  proof -
    obtain x where x: "fetch_profile s (subject p) name = Inr x" using act by (cases "fetch_profile s (subject p) name") (auto simp: activate_profile_def)
    then have up: "pf_up s" by (auto dest: fetch_profileD)
    let ?c = "clear_all now (subject p) s" and ?f = "\<lambda>r. r\<lparr>up_is_default := True, up_updated_at := now\<rparr>"
    have "s' = fst (set_default parse now p name ?c)" using act x by (simp add: activate_profile_def)
    then have "r \<in> set (update_where (profile_of (subject p) name) ?f (pf_rows ?c))"
      using r up by (simp add: set_default_def write_profile_fst clear_all_def)
    then obtain q where q: "q \<in> set (pf_rows ?c)" "r = (if up_owner_subject q = subject p \<and> up_name q = name then ?f q else q)"
      by (auto simp: in_update_where profile_of_def)
    show ?thesis
    proof (cases "up_owner_subject q = subject p")
      case True
      then have "\<not> up_is_default q" using cleared_all_row [OF q(1) up] by blast
      then show ?thesis using q(2) True by (cases "up_name q = name") simp_all
    next
      case False
      then have "r = q" using q(2) by simp
      moreover have "q \<in> set (pf_rows s)"
        using q(1) False up by (auto simp: clear_all_def in_update_where split: if_splits)
      ultimately show ?thesis using False by simp
    qed
  qed
  then show ?thesis using single by blast
qed

lemma map_member: "z \<in> set xs \<Longrightarrow> f z \<in> set (map f xs)"
  by simp

text \<open>Overlapping activations break it: when two activations of different profiles of a user both clear the default
  before either sets it, both are answered 200 and both profiles are the default.\<close>

theorem overlapping_activations:
  assumes "profile_rows_ok decode digest s" "fetch_profile s (subject p) a = Inr x" "fetch_profile s (subject p) b = Inr y" "a \<noteq> b"
  shows "\<exists>s3 s4 j1 j2.
      set_default parse t1 p a (clear_all t2 (subject p) (clear_all t1 (subject p) s)) = (s3, Inr j1)
      \<and> set_default parse t2 p b s3 = (s4, Inr j2)
      \<and> (\<forall>r\<in>set (pf_rows s4). up_owner_subject r = subject p \<longrightarrow> (up_is_default r \<longleftrightarrow> up_name r \<in> {a, b}))
      \<and> (\<exists>r\<in>set (pf_rows s4). up_name r = a \<and> up_is_default r) \<and> (\<exists>r\<in>set (pf_rows s4). up_name r = b \<and> up_is_default r)"
proof -
  have up: "pf_up s" using assms(2) by (auto dest: fetch_profileD)
  let ?who = "subject p"
  let ?clear = "\<lambda>t r. if up_owner_subject r = ?who then r\<lparr>up_is_default := False, up_updated_at := t\<rparr> else r"
  let ?set = "\<lambda>t n r. if up_owner_subject r = ?who \<and> up_name r = n then r\<lparr>up_is_default := True, up_updated_at := t\<rparr> else r"
  have clear: "clear_all t ?who u = u\<lparr>pf_rows := map (?clear t) (pf_rows u)\<rparr>" if "pf_up u" for t u
    using that by (simp add: clear_all_def update_where_def)
  have set_ok: "\<exists>j. set_default parse t p n u = (u\<lparr>pf_rows := map (?set t n) (pf_rows u)\<rparr>, Inr j)"
    if "pf_up u" "\<exists>r\<in>set (pf_rows u). up_owner_subject r = ?who \<and> up_name r = n" for t n u
  proof -
    have "find (\<lambda>r. holds (profile_of ?who n r)) (pf_rows u) \<noteq> None"
      using that(2) unfolding find_None_iff profile_of_def by auto
    then show ?thesis using that(1)
      by (auto simp: set_default_def write_profile_def update_returning_find update_where_def profile_of_def)
  qed
  let ?u = "s\<lparr>pf_rows := map (?clear t2) (map (?clear t1) (pf_rows s))\<rparr>"
  have cleared: "clear_all t2 ?who (clear_all t1 ?who s) = ?u" using clear up by simp
  have mem: "x \<in> set (pf_rows s)" "y \<in> set (pf_rows s)" "up_owner_subject x = ?who" "up_owner_subject y = ?who" "up_name x = a" "up_name y = b"
    using fetch_profileD [OF assms(2)] fetch_profileD [OF assms(3)] by blast+
  have xa: "\<exists>r\<in>set (pf_rows ?u). up_owner_subject r = ?who \<and> up_name r = a"
    using mem(1,3,5) by (intro bexI [of _ "?clear t2 (?clear t1 x)"]) simp_all
  have yb: "\<exists>r\<in>set (pf_rows ?u). up_owner_subject r = ?who \<and> up_name r = b"
    using mem(2,4,6) by (intro bexI [of _ "?clear t2 (?clear t1 y)"]) simp_all
  let ?v = "?u\<lparr>pf_rows := map (?set t1 a) (pf_rows ?u)\<rparr>"
  obtain j1 where j1: "set_default parse t1 p a ?u = (?v, Inr j1)" using set_ok [of ?u a t1] up xa by auto
  have "\<exists>r\<in>set (pf_rows ?v). up_owner_subject r = ?who \<and> up_name r = b"
  proof -
    obtain z where z: "z \<in> set (pf_rows ?u)" "up_owner_subject z = ?who" "up_name z = b" using yb by blast
    have v: "pf_rows ?v = map (?set t1 a) (pf_rows ?u)" by simp
    have "?set t1 a z \<in> set (pf_rows ?v)" unfolding v by (rule map_member [OF z(1)])
    moreover have "up_owner_subject (?set t1 a z) = ?who" "up_name (?set t1 a z) = b" using z(2,3) by simp_all
    ultimately show ?thesis by blast
  qed
  then obtain j2 where j2: "set_default parse t2 p b ?v = (?v\<lparr>pf_rows := map (?set t2 b) (pf_rows ?v)\<rparr>, Inr j2)"
    using set_ok [of ?v b t2] up by auto
  obtain g where g: "\<And>r :: profile_row. ?set t2 b (?set t1 a (?clear t2 (?clear t1 r))) = g r"
    by (rule that) (rule refl)
  have all: "up_owner_subject (g r) = up_owner_subject r" "up_name (g r) = up_name r"
    "up_owner_subject r = ?who \<Longrightarrow> up_is_default (g r) \<longleftrightarrow> up_name r = a \<or> up_name r = b" for r
    unfolding g [symmetric] by auto
  let ?w = "?v\<lparr>pf_rows := map (?set t2 b) (pf_rows ?v)\<rparr>"
  have "pf_rows ?w = map (\<lambda>r. ?set t2 b (?set t1 a (?clear t2 (?clear t1 r)))) (pf_rows s)" by simp
  then have rows: "pf_rows ?w = map g (pf_rows s)" unfolding g .
  have "g x \<in> set (pf_rows ?w)" "g y \<in> set (pf_rows ?w)"
    unfolding rows by (rule map_member [OF mem(1)], rule map_member [OF mem(2)])
  moreover have "up_name (g x) = a \<and> up_is_default (g x)" "up_name (g y) = b \<and> up_is_default (g y)"
    using all(2) [of x] all(3) [OF mem(3)] all(2) [of y] all(3) [OF mem(4)] mem(5,6) by metis+
  moreover have "\<forall>r\<in>set (pf_rows ?w). up_owner_subject r = ?who \<longrightarrow> (up_is_default r \<longleftrightarrow> up_name r \<in> {a, b})"
  proof (intro ballI impI)
    fix r assume *: "r \<in> set (pf_rows ?w)" "up_owner_subject r = ?who"
    then obtain z where "r = g z" unfolding rows set_map by (elim imageE)
    then show "up_is_default r \<longleftrightarrow> up_name r \<in> {a, b}" using all [of z] * by simp
  qed
  ultimately show ?thesis unfolding cleared using j1 j2 by blast
qed

section \<open>Concrete requests\<close>

definition demo_profile :: "str \<Rightarrow> profile_create" where
  "demo_profile name = \<lparr>pb_name = name, pb_description = None, pb_is_default = True, pb_manifest = None,
     pb_tarball_b64 = ''abc'', pb_expected_sha256 = None\<rparr>"

definition demo_profiles :: profile_store where
  "demo_profiles = \<lparr>pf_up = True, pf_rows = [], pf_seq = 1\<rparr>"

definition demo_made :: "str \<Rightarrow> profile_store \<Rightarrow> profile_store" where
  "demo_made name s = fst (create_profile (\<lambda>_. None) (\<lambda>_. []) demo_decode rev 1 s (demo_writer ''alice'') (demo_profile name))"

definition demo_two :: profile_store where
  "demo_two = demo_made ''b'' (demo_made ''a'' demo_profiles)"

lemma demo_two_requests: "profile_requests (\<lambda>_. None) (\<lambda>_. []) demo_decode rev demo_two"
  unfolding demo_two_def demo_made_def
  by (intro profile_requests.create profile_requests.start) (simp add: demo_profiles_def)

lemma demo_two_reachable: "profiles_reachable (\<lambda>_. None) (\<lambda>_. []) demo_decode rev demo_two"
  using profile_requests_one [OF demo_two_requests] by (rule conjunct1)

lemma demo_fetch:
  "(\<exists>x. fetch_profile demo_two (subject (demo_writer ''alice'')) ''a'' = Inr x) \<and>
   (\<exists>y. fetch_profile demo_two (subject (demo_writer ''alice'')) ''b'' = Inr y)"
proof -
  have "case fetch_profile demo_two (subject (demo_writer ''alice'')) ''a'' of Inr _ \<Rightarrow> True | Inl _ \<Rightarrow> False"
    "case fetch_profile demo_two (subject (demo_writer ''alice'')) ''b'' of Inr _ \<Rightarrow> True | Inl _ \<Rightarrow> False" by code_simp+
  then show ?thesis by (auto split: sum.splits)
qed

lemma downloaded_content_sound_witness:
  "\<exists>j r tarball. download_profile (\<lambda>_. None) demo_two (demo_writer ''alice'') ''a'' = Inr j \<and> r \<in> set (pf_rows demo_two)
     \<and> j = row_to_profile (\<lambda>_. None) True r \<and> up_tarball_b64 r = Some tarball \<and> up_sha256 r = Some (rev tarball)"
proof -
  have "case download_profile (\<lambda>_. None) demo_two (demo_writer ''alice'') ''a'' of Inr _ \<Rightarrow> True | Inl _ \<Rightarrow> False" by code_simp
  then obtain j where j: "download_profile (\<lambda>_. None) demo_two (demo_writer ''alice'') ''a'' = Inr j" by (auto split: sum.splits)
  obtain r tarball body where r: "r \<in> set (pf_rows demo_two)" "j = row_to_profile (\<lambda>_. None) True r"
    "up_tarball_b64 r = Some tarball" "demo_decode tarball = Inr body" "up_sha256 r = Some (rev body)"
    using downloaded_content_sound [OF demo_two_reachable j] by blast
  have "body = tarball" using r(4) by (simp add: demo_decode_def split: if_splits)
  then show ?thesis using j r by blast
qed

lemma default_is_single_witness:
  "\<exists>s' j. activate_profile (\<lambda>_. None) 5 demo_two (demo_writer ''alice'') ''a'' = (s', Inr j)
     \<and> (\<forall>r\<in>set (pf_rows s'). up_owner_subject r = ''alice'' \<longrightarrow> (up_is_default r \<longleftrightarrow> up_name r = ''a''))"
proof -
  have "case snd (activate_profile (\<lambda>_. None) 5 demo_two (demo_writer ''alice'') ''a'') of Inr _ \<Rightarrow> True | Inl _ \<Rightarrow> False" by code_simp
  then obtain s' j where run: "activate_profile (\<lambda>_. None) 5 demo_two (demo_writer ''alice'') ''a'' = (s', Inr j)"
    by (cases "activate_profile (\<lambda>_. None) 5 demo_two (demo_writer ''alice'') ''a''") (auto split: sum.splits)
  have who: "subject (demo_writer ''alice'') = ''alice''" by (simp add: demo_writer_def)
  have "\<forall>r\<in>set (pf_rows s'). if up_owner_subject r = ''alice'' then up_is_default r \<longleftrightarrow> up_name r = ''a'' else r \<in> set (pf_rows demo_two)"
    using default_is_single [OF demo_two_requests, THEN conjunct2, rule_format, OF run] unfolding who by blast
  then have "\<forall>r\<in>set (pf_rows s'). up_owner_subject r = ''alice'' \<longrightarrow> (up_is_default r \<longleftrightarrow> up_name r = ''a'')" by metis
  then show ?thesis using run by blast
qed

lemma overlapping_activations_witness:
  "\<exists>s4 r q. r \<in> set (pf_rows s4) \<and> q \<in> set (pf_rows s4) \<and> up_name r = ''a'' \<and> up_name q = ''b'' \<and> up_is_default r \<and> up_is_default q
     \<and> (\<exists>s3 j. set_default (\<lambda>_. None) 6 (demo_writer ''alice'') ''b'' s3 = (s4, Inr j))"
proof -
  obtain x y where xy: "fetch_profile demo_two (subject (demo_writer ''alice'')) ''a'' = Inr x"
    "fetch_profile demo_two (subject (demo_writer ''alice'')) ''b'' = Inr y"
    using demo_fetch by (elim conjE exE)
  have ab: "(''a'' :: str) \<noteq> ''b''" by simp
  obtain s3 s4 j2 r q where "set_default (\<lambda>_. None) 6 (demo_writer ''alice'') ''b'' s3 = (s4, Inr j2)"
    "r \<in> set (pf_rows s4)" "up_name r = ''a''" "up_is_default r" "q \<in> set (pf_rows s4)" "up_name q = ''b''" "up_is_default q"
    using overlapping_activations [OF profiles_reachable_ok [OF demo_two_reachable] xy ab, of "\<lambda>_. None" 5 6]
    by (elim exE conjE bexE) (rule that)
  then show ?thesis by (intro exI [of _ s4] exI [of _ r] exI [of _ q] exI [of _ s3] exI [of _ j2] conjI)
qed

end
