(* ===== verification/Cursor_Feeds.thy ===== *)
theory Cursor_Feeds
  imports Tables
begin

text \<open>
  Reading a growing table with a cursor: the rows whose number is above the cursor, in order of the number, at
  most n of them, and the cursor moves to the highest number read. The event streams of the tower
  (poll_ledger_stream, global_sse) and the message relays of the daemon all read this way. The lemmas say what
  such a reader sees over a run of polls: never a row twice, always in order, and every row as long as rows become
  visible in the order of their numbers.
\<close>

section \<open>One poll and a run of polls\<close>

definition cursor_page :: "('r \<Rightarrow> int) \<Rightarrow> nat \<Rightarrow> int \<Rightarrow> 'r list \<Rightarrow> 'r list" where
  "cursor_page key n c t = take n (sort_key key (filter (\<lambda>r. c < key r) t))"

definition cursor_after :: "('r \<Rightarrow> int) \<Rightarrow> int \<Rightarrow> 'r list \<Rightarrow> int" where
  "cursor_after key c page = fold (\<lambda>r m. max (key r) m) page c"

text \<open>The rows delivered by successive polls, each seeing the table of its moment, and the cursor left.\<close>

fun cursor_run :: "('r \<Rightarrow> int) \<Rightarrow> nat \<Rightarrow> int \<Rightarrow> 'r list list \<Rightarrow> int \<times> 'r list" where
  "cursor_run key n c [] = (c, [])"
| "cursor_run key n c (t # ts) =
     (let page = cursor_page key n c t; (c', rest) = cursor_run key n (cursor_after key c page) ts in (c', page @ rest))"

text \<open>The numbers seen at successive polls come up in order: a new one is above all seen before.\<close>

fun in_order :: "int list list \<Rightarrow> bool" where
  "in_order (t # u # ts) =
     (set t \<subseteq> set u \<and> (\<forall>i\<in>set u - set t. \<forall>j\<in>set t. j < i) \<and> in_order (u # ts))"
| "in_order _ = True"

section \<open>Facts of one poll\<close>

lemma cursor_after_ge: "c \<le> cursor_after key c page"
proof (induction page arbitrary: c)
  case (Cons q page)
  have "cursor_after key c (q # page) = cursor_after key (max (key q) c) page" by (simp add: cursor_after_def)
  then show ?case using Cons.IH [of "max (key q) c"] by simp
qed (simp add: cursor_after_def)

lemma cursor_after_bound: "r \<in> set page \<Longrightarrow> key r \<le> cursor_after key c page"
proof (induction page arbitrary: c)
  case (Cons q page)
  have eq: "cursor_after key c (q # page) = cursor_after key (max (key q) c) page" by (simp add: cursor_after_def)
  show ?case
  proof (cases "r = q")
    case True
    then show ?thesis using cursor_after_ge [of "max (key q) c" key page] by (simp add: eq)
  next
    case False
    then show ?thesis using Cons.IH Cons.prems by (simp add: eq)
  qed
qed simp

lemma cursor_after_in: "cursor_after key c page = c \<or> (\<exists>r\<in>set page. cursor_after key c page = key r)"
proof (induction page arbitrary: c)
  case (Cons q page)
  have eq: "cursor_after key c (q # page) = cursor_after key (max (key q) c) page" by (simp add: cursor_after_def)
  show ?case using Cons.IH [of "max (key q) c"] by (auto simp: eq max_def split: if_splits)
qed (simp add: cursor_after_def)

lemma cursor_page_sub: "r \<in> set (cursor_page key n c t) \<Longrightarrow> r \<in> set t \<and> c < key r"
  by (auto simp: cursor_page_def dest: in_set_takeD)

lemma cursor_page_sorted:
  assumes "distinct (map key t)"
  shows "sorted_wrt (<) (map key (cursor_page key n c t))"
proof -
  let ?s = "sort_key key (filter (\<lambda>r. c < key r) t)"
  have "distinct (filter (\<lambda>r. c < key r) t) \<and> inj_on key (set (filter (\<lambda>r. c < key r) t))"
    using distinct_map_filter [OF assms] by (simp add: distinct_map)
  then have "distinct (map key ?s)" by (simp add: distinct_map)
  then have "sorted_wrt (<) (map key ?s)" by (simp add: strict_sorted_iff)
  then show ?thesis by (simp add: cursor_page_def take_map [symmetric] sorted_wrt_take)
qed

lemma cursor_page_least:
  assumes "r \<in> set t" "c < key r" "r \<notin> set (cursor_page key n c t)"
  shows "\<forall>q\<in>set (cursor_page key n c t). key q \<le> key r"
    and "length (cursor_page key n c t) = n"
proof -
  let ?s = "sort_key key (filter (\<lambda>r. c < key r) t)"
  have rs: "r \<in> set ?s" using assms(1,2) by simp
  have split: "?s = take n ?s @ drop n ?s" by simp
  have rd: "r \<in> set (drop n ?s)"
    using rs assms(3) set_append [of "take n ?s" "drop n ?s"] by (auto simp: cursor_page_def)
  have "sorted (map key (take n ?s @ drop n ?s))" by simp
  then show "\<forall>q\<in>set (cursor_page key n c t). key q \<le> key r"
    using rd by (auto simp: sorted_append cursor_page_def simp del: append_take_drop_id)
  have "n < length ?s" using rd by (cases "n < length ?s") simp_all
  then show "length (cursor_page key n c t) = n" by (simp add: cursor_page_def)
qed

section \<open>Runs\<close>

lemma cursor_run_Cons:
  "snd (cursor_run key n c (t # ts)) =
     cursor_page key n c t @ snd (cursor_run key n (cursor_after key c (cursor_page key n c t)) ts)"
  "fst (cursor_run key n c (t # ts)) = fst (cursor_run key n (cursor_after key c (cursor_page key n c t)) ts)"
  by (simp_all add: Let_def split: prod.splits)

lemma cursor_run_above: "r \<in> set (snd (cursor_run key n c ts)) \<Longrightarrow> c < key r \<and> (\<exists>t\<in>set ts. r \<in> set t)"
proof (induction ts arbitrary: c)
  case (Cons t ts)
  let ?c = "cursor_after key c (cursor_page key n c t)"
  have "r \<in> set (cursor_page key n c t) \<or> r \<in> set (snd (cursor_run key n ?c ts))"
    using Cons.prems unfolding cursor_run_Cons by simp
  then show ?case
  proof
    assume "r \<in> set (cursor_page key n c t)"
    then show ?thesis using cursor_page_sub [of r key n c t] by auto
  next
    assume "r \<in> set (snd (cursor_run key n ?c ts))"
    then show ?thesis using Cons.IH [of ?c] cursor_after_ge [of c key "cursor_page key n c t"] by force
  qed
qed simp

lemma cursor_run_sorted:
  assumes "\<forall>t\<in>set ts. distinct (map key t)"
  shows "sorted_wrt (<) (map key (snd (cursor_run key n c ts)))"
  using assms
proof (induction ts arbitrary: c)
  case (Cons t ts)
  let ?p = "cursor_page key n c t"
  let ?c = "cursor_after key c ?p"
  have "\<forall>a\<in>set ?p. \<forall>b\<in>set (snd (cursor_run key n ?c ts)). key a < key b"
  proof (intro ballI)
    fix a b
    assume a: "a \<in> set ?p" and b: "b \<in> set (snd (cursor_run key n ?c ts))"
    show "key a < key b" using cursor_after_bound [OF a, of key c] cursor_run_above [OF b] by simp
  qed
  then show ?case
    using Cons.IH [of ?c] Cons.prems cursor_page_sorted [of key t n c] unfolding cursor_run_Cons
    by (auto simp: sorted_wrt_append)
qed simp

lemma cursor_run_keys_once:
  assumes "\<forall>t\<in>set ts. distinct (map key t)"
  shows "distinct (map key (snd (cursor_run key n c ts)))"
  using cursor_run_sorted [OF assms] strict_sorted_iff by blast

lemma in_order_tail: "in_order (t # ts) \<Longrightarrow> in_order ts"
  by (cases ts) simp_all

lemma in_order_last:
  "in_order (t # ts) \<Longrightarrow> ts \<noteq> [] \<Longrightarrow> \<forall>i\<in>set (last ts). i \<in> set t \<or> (\<forall>j\<in>set t. j < i)"
proof (induction ts arbitrary: t)
  case (Cons v vs)
  show ?case
  proof (cases "vs = []")
    case False
    have "\<forall>i\<in>set (last vs). i \<in> set v \<or> (\<forall>j\<in>set v. j < i)"
      using Cons.IH [of v] Cons.prems(1) False by simp
    then show ?thesis using Cons.prems(1) False by auto
  qed (use Cons.prems in auto)
qed simp

lemma cursor_page_covers:
  assumes "distinct (map key t)" "r \<in> set t" "c < key r" "key r \<le> cursor_after key c (cursor_page key n c t)"
  shows "r \<in> set (cursor_page key n c t)"
proof (rule ccontr)
  let ?p = "cursor_page key n c t"
  assume out: "r \<notin> set ?p"
  have le: "\<forall>q\<in>set ?p. key q \<le> key r" using cursor_page_least(1) [OF assms(2,3) out] .
  obtain q where q: "q \<in> set ?p" "cursor_after key c ?p = key q"
    using cursor_after_in [of key c ?p] assms(3,4) by auto
  have "key q = key r" using le q assms(4) by auto
  then have "q = r" using cursor_page_sub [OF q(1)] assms(1,2) by (auto simp: distinct_map inj_on_def)
  then show False using q(1) out by simp
qed

text \<open>When the numbers come up in order, all rows from the start up to the cursor have been delivered.\<close>

lemma cursor_run_complete:
  assumes "in_order (map (map key) ts)" "ts \<noteq> []" "\<forall>t\<in>set ts. distinct (map key t)" "cursor_run key n c ts = (c', rows)"
  shows "\<forall>r\<in>set (last ts). c < key r \<and> key r \<le> c' \<longrightarrow> key r \<in> key ` set rows"
  using assms
proof (induction ts arbitrary: c c' rows)
  case (Cons t ts)
  let ?p = "cursor_page key n c t"
  let ?c = "cursor_after key c ?p"
  have run: "fst (cursor_run key n ?c ts) = c'" "rows = ?p @ snd (cursor_run key n ?c ts)"
    using Cons.prems(4) cursor_run_Cons [of key n c t ts] by simp_all
  have here: "r \<in> set ?p" if "r \<in> set t \<and> c < key r \<and> key r \<le> ?c" for r
    using cursor_page_covers [of key t r c n] that Cons.prems(3) by simp
  show ?case
  proof (cases ts)
    case Nil
    then show ?thesis using run here by auto
  next
    case (Cons u us)
    have tl: "in_order (map (map key) ts)" using Cons.prems(1) in_order_tail [of "map key t"] by simp
    have IH: "\<forall>r\<in>set (last ts). ?c < key r \<and> key r \<le> c' \<longrightarrow> key r \<in> key ` set (snd (cursor_run key n ?c ts))"
      using Cons.IH [OF tl, of ?c c' "snd (cursor_run key n ?c ts)"] run(1) Cons Cons.prems(3) by (auto simp: prod_eq_iff)
    have old: "key r \<in> key ` set t" if r: "r \<in> set (last ts) \<and> c < key r \<and> key r \<le> ?c" for r
    proof (rule ccontr)
      assume new: "key r \<notin> key ` set t"
      obtain q where q: "q \<in> set t" "?c = key q"
        using cursor_after_in [of key c ?p] r cursor_page_sub [of _ key n c t] by auto
      have "key r \<in> set (last (map (map key) ts))" using r Cons by (simp add: last_map split: if_splits)
      then have "\<forall>j\<in>set (map key t). j < key r"
        using in_order_last [of "map key t" "map (map key) ts"] Cons.prems(1) Cons new by auto
      then show False using q r by auto
    qed
    show ?thesis
    proof (intro ballI impI)
      fix r
      assume r: "r \<in> set (last (t # ts))" "c < key r \<and> key r \<le> c'"
      have rl: "r \<in> set (last ts)" using r(1) Cons by simp
      show "key r \<in> key ` set rows"
      proof (cases "key r \<le> ?c")
        case True
        obtain q where "q \<in> set t" "key q = key r" using old [of r] rl r(2) True by auto
        then show ?thesis using here [of q] r(2) True run(2) by (auto intro: rev_image_eqI)
      next
        case False
        then show ?thesis using IH rl r(2) run(2) by auto
      qed
    qed
  qed
qed simp

text \<open>A row left above the cursor means that a full page was delivered.\<close>

lemma cursor_run_full:
  "ts \<noteq> [] \<Longrightarrow> r \<in> set (last ts) \<Longrightarrow> fst (cursor_run key n c ts) < key r \<Longrightarrow> n \<le> length (snd (cursor_run key n c ts))"
proof (induction ts arbitrary: c)
  case (Cons t ts)
  let ?p = "cursor_page key n c t"
  show ?case
  proof (cases "ts = []")
    case True
    have low: "cursor_after key c ?p < key r" using Cons.prems True by (simp add: Let_def)
    have "r \<notin> set ?p" using low cursor_after_bound [of r ?p key c] by auto
    moreover have "c < key r" using low cursor_after_ge [of c key ?p] by simp
    ultimately show ?thesis using cursor_page_least(2) [of r t c key n] Cons.prems(2) True unfolding cursor_run_Cons by simp
  next
    case False
    then show ?thesis using Cons.IH [of "cursor_after key c ?p"] Cons.prems unfolding cursor_run_Cons by simp
  qed
qed simp

text \<open>A row at or below the cursor is never delivered any more.\<close>

lemma cursor_run_skips: "key r \<le> c \<Longrightarrow> r \<notin> set (snd (cursor_run key n c ts))"
  using cursor_run_above [of r key n c ts] by force

end
