(* ===== verification/Messages.thy ===== *)
theory Messages
  imports Documents Fleet_Agents Mcp_Tasks Cursor_Feeds
begin

text \<open>
  Messages between mesh agents (routes/work.rs, the mesh message tools of routes/mcp.rs): sending to a domain or
  a mission, reading a domain, a mission or the inbox of an agent, the roster of a domain. The printer and the
  reader of JSON text are arguments. A message number comes from a sequence of 32-bit integers.
\<close>

section \<open>Rows\<close>

record mesh_message_row =
  mm_id :: int
  mm_domain_id :: str
  mm_mission_id :: "str option"
  mm_from_agent_id :: str
  mm_to_agent_id :: "str option"
  mm_task_id :: "str option"
  mm_channel :: str
  mm_body_json :: "str option"
  mm_in_reply_to :: "int option"
  mm_created_at :: time
  mm_read_at :: "time option"

record message_store =
  mg_db :: db
  mg_messages :: "mesh_message_row table"
  mg_seq :: int

definition i32_ok :: "int \<Rightarrow> bool" where
  "i32_ok n = (- (2 ^ 31) \<le> n \<and> n < 2 ^ 31)"

definition body_value :: "(str \<Rightarrow> json option) \<Rightarrow> mesh_message_row \<Rightarrow> json" where
  "body_value parse_json r = opt_or (JObj []) (Option.bind (mm_body_json r) parse_json)"

definition row_to_message :: "(str \<Rightarrow> json option) \<Rightarrow> mesh_message_row \<Rightarrow> json" where
  "row_to_message parse_json r = JObj
     [(''id'', JNum (mm_id r)), (''domain_id'', JStr (mm_domain_id r)), (''mission_id'', jopt JStr (mm_mission_id r)),
      (''from_agent_id'', JStr (mm_from_agent_id r)), (''to_agent_id'', jopt JStr (mm_to_agent_id r)),
      (''task_id'', jopt JStr (mm_task_id r)), (''channel'', JStr (mm_channel r)), (''body_json'', body_value parse_json r),
      (''in_reply_to'', jopt JNum (mm_in_reply_to r)), (''created_at'', JNum (mm_created_at r)),
      (''read_at'', jopt JNum (mm_read_at r))]"

section \<open>Sending\<close>

record message_create =
  mc_to_agent_id :: "str option"
  mc_task_id :: "str option"
  mc_channel :: "str option"
  mc_body :: "json option"
  mc_body_json :: "str option"
  mc_in_reply_to :: "int option"

definition body_text :: "(json \<Rightarrow> str) \<Rightarrow> message_create \<Rightarrow> str" where
  "body_text dump body =
     (case mc_body body of Some v \<Rightarrow> dump v | None \<Rightarrow> opt_or ''{}'' (mc_body_json body))"

text \<open>The INSERT: the number of the sequence, and a reply number that must fit the integer column.\<close>

definition insert_message :: "mesh_message_row \<Rightarrow> message_store \<Rightarrow> (message_store \<times> mesh_message_row) option" where
  "insert_message r s =
     (let row = r\<lparr>mm_id := mg_seq s\<rparr> in
      if \<not> db_up (mg_db s) \<or> \<not> i32_ok (mg_seq s) \<or> (case mm_in_reply_to r of Some n \<Rightarrow> \<not> i32_ok n | None \<Rightarrow> False)
         \<or> lookup mm_id (mg_seq s) (mg_messages s) \<noteq> None then None
      else Some (s\<lparr>mg_messages := insert_row row (mg_messages s), mg_seq := mg_seq s + 1\<rparr>, row))"

definition new_message ::
  "time \<Rightarrow> str \<Rightarrow> str option \<Rightarrow> str \<Rightarrow> str \<Rightarrow> message_create \<Rightarrow> mesh_message_row" where
  "new_message now domain_id mission_id sender text body =
     \<lparr>mm_id = 0, mm_domain_id = domain_id, mm_mission_id = mission_id, mm_from_agent_id = sender,
      mm_to_agent_id = mc_to_agent_id body, mm_task_id = mc_task_id body,
      mm_channel = opt_or ''coordination'' (mc_channel body), mm_body_json = Some text,
      mm_in_reply_to = mc_in_reply_to body, mm_created_at = now, mm_read_at = None\<rparr>"

definition created_message :: "message_store \<Rightarrow> (message_store \<times> mesh_message_row) option \<Rightarrow> message_store \<times> json res" where
  "created_message s x =
     (case x of
        None \<Rightarrow> (s, Inl internal_error)
      | Some (s', r) \<Rightarrow> (s', Inr (JObj [(''id'', JNum (mm_id r)), (''created_at'', JNum (mm_created_at r))])))"

definition send_domain_message ::
  "(json \<Rightarrow> str) \<Rightarrow> time \<Rightarrow> message_store \<Rightarrow> principal \<Rightarrow> str \<Rightarrow> message_create \<Rightarrow> message_store \<times> json res" where
  "send_domain_message dump now s p domain_id body =
     (if \<not> domain_exists (mg_db s) domain_id then (s, Inl (not_found ''Domain not found''))
      else case authz_domain (mg_db s) p domain_id of
        Inl e \<Rightarrow> (s, Inl e)
      | Inr _ \<Rightarrow> created_message s
          (insert_message (new_message now domain_id None (subject p) (body_text dump body) body) s))"

definition send_mission_message ::
  "(json \<Rightarrow> str) \<Rightarrow> time \<Rightarrow> message_store \<Rightarrow> principal \<Rightarrow> str \<Rightarrow> message_create \<Rightarrow> message_store \<times> json res" where
  "send_mission_message dump now s p mission_id body =
     (case and_then (domain_id_for_mission (mg_db s) mission_id)
             (\<lambda>domain_id. and_then (authz_domain (mg_db s) p domain_id) (\<lambda>_. Inr domain_id)) of
        Inl e \<Rightarrow> (s, Inl e)
      | Inr domain_id \<Rightarrow> created_message s
          (insert_message (new_message now domain_id (Some mission_id) (subject p) (body_text dump body) body) s))"

section \<open>Reading\<close>

definition on_channel :: "str option \<Rightarrow> mesh_message_row \<Rightarrow> tri" where
  "on_channel channel r = (case channel of None \<Rightarrow> tbool True | Some c \<Rightarrow> tbool (mm_channel r = c))"

definition list_domain_messages ::
  "(str \<Rightarrow> json option) \<Rightarrow> message_store \<Rightarrow> principal \<Rightarrow> str \<Rightarrow> str option \<Rightarrow> int option \<Rightarrow> json res" where
  "list_domain_messages parse_json s p domain_id channel since_id =
     and_then (authz_domain (mg_db s) p domain_id) (\<lambda>_.
       if \<not> domain_exists (mg_db s) domain_id then Inl (not_found ''Domain not found'')
       else Inr (JList (map (row_to_message parse_json) (sort_key mm_id (select_where
              (\<lambda>r. tand (tand (tbool (mm_domain_id r = domain_id)) (on_channel channel r))
                     (tbool (opt_or 0 since_id < mm_id r))) (mg_messages s))))))"

definition list_mission_messages ::
  "(str \<Rightarrow> json option) \<Rightarrow> message_store \<Rightarrow> principal \<Rightarrow> str \<Rightarrow> str option \<Rightarrow> int option \<Rightarrow> json res" where
  "list_mission_messages parse_json s p mission_id channel since_id =
     and_then (authz_by_mission (mg_db s) p mission_id) (\<lambda>_.
       if lookup m_id mission_id (missions (mg_db s)) = None then Inl (not_found ''Mission not found'')
       else Inr (JList (map (row_to_message parse_json) (sort_key mm_id (select_where
              (\<lambda>r. tand (tand (teq (mm_mission_id r) (Some mission_id)) (on_channel channel r))
                     (tbool (opt_or 0 since_id < mm_id r))) (mg_messages s))))))"

text \<open>What an agent of a domain hears: what is addressed to it, and what its domain broadcasts.\<close>

definition hears :: "str \<Rightarrow> str \<Rightarrow> mesh_message_row \<Rightarrow> tri" where
  "hears agent_id domain_id r =
     tor (teq (mm_to_agent_id r) (Some agent_id))
       (tand (tbool (mm_to_agent_id r = None)) (tbool (mm_domain_id r = domain_id)))"

definition mark_read :: "time \<Rightarrow> int list \<Rightarrow> mesh_message_row table \<Rightarrow> mesh_message_row table" where
  "mark_read now ids = update_where (\<lambda>r. tand (tbool (mm_id r \<in> set ids)) (tbool (mm_read_at r = None)))
     (\<lambda>r. r\<lparr>mm_read_at := Some now\<rparr>)"

text \<open>Only direct messages are marked; the answer shows the rows as they were read.\<close>

definition get_agent_messages ::
  "(str \<Rightarrow> json option) \<Rightarrow> time \<Rightarrow> message_store \<Rightarrow> principal \<Rightarrow> str \<Rightarrow> int \<Rightarrow> message_store \<times> json res" where
  "get_agent_messages parse_json now s p agent_id since_id =
     (case authz_by_agent (mg_db s) p agent_id of
        Inl e \<Rightarrow> (s, Inl e)
      | Inr _ \<Rightarrow>
          (case lookup a_id agent_id (mesh_agents (mg_db s)) of
             None \<Rightarrow> (s, Inl (not_found ''Agent not found''))
           | Some a \<Rightarrow>
               let rows = sort_key mm_id (select_where (\<lambda>r. tand (tbool (since_id < mm_id r))
                            (hears agent_id (a_domain_id a) r)) (mg_messages s));
                   direct_ids = map mm_id (filter (\<lambda>r. mm_to_agent_id r \<noteq> None) rows) in
               (s\<lparr>mg_messages := (if direct_ids = [] then mg_messages s else mark_read now direct_ids (mg_messages s))\<rparr>,
                Inr (JList (map (row_to_message parse_json) rows)))))"

text \<open>The groups of the roster are a map in the code; here they stand in the order of their first agent.\<close>

definition domain_roster :: "db \<Rightarrow> principal \<Rightarrow> str \<Rightarrow> json res" where
  "domain_roster d p domain_id =
     and_then (authz_domain d p domain_id) (\<lambda>_.
       if \<not> domain_exists d domain_id then Inl (not_found ''Domain not found'')
       else
         let agents = sort_key a_enrolled_at (select_where (\<lambda>a. tbool (a_domain_id a = domain_id)) (mesh_agents d)) in
         Inr (JObj
           [(''domain_id'', JStr domain_id), (''agents'', JList (map row_to_agent agents)),
            (''by_status'', JObj (map (\<lambda>st. (st, JList (map row_to_agent (filter (\<lambda>a. a_status a = st) agents))))
                                      (remdups (map a_status agents)))),
            (''total'', JNum (int (length agents)))]))"

section \<open>The tools\<close>

definition sender_of :: "principal \<Rightarrow> json \<Rightarrow> str" where
  "sender_of p args =
     (let supplied = str_arg args ''sender_agent_id'' in
      if (is_full_trust p \<or> is_admin p) \<and> supplied \<noteq> [] then supplied else subject_id_of p)"

definition tool_body :: "json \<Rightarrow> json" where
  "tool_body args =
     (case json_arg args ''content'' of JStr t \<Rightarrow> JObj [(''text'', JStr t)] | body \<Rightarrow> body)"

definition send_mesh_message ::
  "(json \<Rightarrow> str) \<Rightarrow> time \<Rightarrow> message_store \<Rightarrow> principal \<Rightarrow> json \<Rightarrow> message_store \<times> json" where
  "send_mesh_message dump now s p args =
     (let domain_id = str_arg args ''domain_id''; from_agent_id = sender_of p args in
      if domain_id = [] then (s, err_result ''domain_id is required'')
      else case mcp_authz_domain (mg_db s) p domain_id of
        Inl e \<Rightarrow> (s, e)
      | Inr _ \<Rightarrow>
          if from_agent_id = [] then (s, err_result ''sender_agent_id is required (or authenticate as an agent)'')
          else case insert_message
              \<lparr>mm_id = 0, mm_domain_id = domain_id, mm_mission_id = jfield_str ''mission_id'' args,
               mm_from_agent_id = from_agent_id, mm_to_agent_id = jfield_str ''recipient_agent_id'' args,
               mm_task_id = None, mm_channel = str_arg_or args ''channel'' ''coordination'',
               mm_body_json = Some (dump (tool_body args)), mm_in_reply_to = None, mm_created_at = now,
               mm_read_at = None\<rparr> s of
            None \<Rightarrow> (s, err_result ''database_error'')
          | Some (s', r) \<Rightarrow> (s', ok_result (JObj [(''message_id'', JNum (mm_id r)), (''domain_id'', JStr domain_id)])))"

definition tool_message :: "mesh_message_row \<Rightarrow> json" where
  "tool_message r = JObj
     [(''id'', JNum (mm_id r)), (''domain_id'', JStr (mm_domain_id r)), (''from_agent_id'', JStr (mm_from_agent_id r)),
      (''to_agent_id'', jopt JStr (mm_to_agent_id r)), (''channel'', JStr (mm_channel r)),
      (''body_json'', JStr (opt_or ''{}'' (mm_body_json r))), (''read_at'', jopt JNum (mm_read_at r))]"

definition list_mesh_messages :: "message_store \<Rightarrow> principal \<Rightarrow> json \<Rightarrow> json" where
  "list_mesh_messages s p args =
     (let agent_id = str_arg args ''agent_id''; lim = min (opt_or 20 (int_arg args ''limit'')) 100 in
      if agent_id = [] then err_result ''agent_id is required''
      else case domain_id_for_agent (mg_db s) agent_id of
        Inl _ \<Rightarrow> err_result ''agent not found''
      | Inr domain_id \<Rightarrow>
          (case mcp_authz_domain (mg_db s) p domain_id of
             Inl e \<Rightarrow> e
           | Inr _ \<Rightarrow>
               if \<not> is_full_trust p \<and> \<not> is_admin p \<and> subject_id_of p \<noteq> agent_id then
                 JObj [(''ok'', JBool False), (''error'', JStr ''forbidden''),
                       (''detail'', JStr ''may only read own agent's messages'')]
               else if lim < 0 then err_result ''database_error''
               else ok_result (JList (map tool_message (take (nat lim) (sort_key (\<lambda>r. - mm_created_at r)
                      (select_where (hears agent_id domain_id) (mg_messages s))))))))"

section \<open>Event streams\<close>

text \<open>The rows of ledgerevent; the stream of a domain or a mission polls them, the global one the progress log.\<close>

record ledger_row =
  le_id :: int
  le_event_id :: str
  le_domain_id :: "str option"
  le_mission_id :: "str option"
  le_entity_type :: str
  le_entity_id :: str
  le_action :: str
  le_payload_json :: str
  le_state :: str
  le_created_by_subject :: str
  le_git_commit :: str
  le_git_path :: str
  le_published_at :: "time option"
  le_created_at :: time
  le_updated_at :: time

datatype stream_filter = DomainStream str | MissionStream str

definition stream_keeps :: "stream_filter \<Rightarrow> ledger_row \<Rightarrow> bool" where
  "stream_keeps f r = (case f of DomainStream v \<Rightarrow> le_domain_id r = Some v | MissionStream v \<Rightarrow> le_mission_id r = Some v)"

definition stream_column :: "stream_filter \<Rightarrow> str \<times> json" where
  "stream_column f = (case f of DomainStream v \<Rightarrow> (''domain_id'', JStr v) | MissionStream v \<Rightarrow> (''mission_id'', JStr v))"

definition ledger_event_json :: "stream_filter \<Rightarrow> ledger_row \<Rightarrow> json" where
  "ledger_event_json f r = JObj
     [(''type'', JStr ''event''), (''id'', JNum (le_id r)), (''event_id'', JStr (le_event_id r)),
      (''entity_type'', JStr (le_entity_type r)), (''entity_id'', JStr (le_entity_id r)), (''action'', JStr (le_action r)),
      (''state'', JStr (le_state r)), (''created_at'', JNum (le_created_at r)), stream_column f]"

record stream_state =
  sm_last_id :: int
  sm_ticks :: nat

definition stream_start :: stream_state where
  "stream_start = \<lparr>sm_last_id = 0, sm_ticks = 0\<rparr>"

definition ping_json :: json where
  "ping_json = JObj [(''type'', JStr ''ping'')]"

text \<open>One turn of poll_ledger_stream while the socket takes what is sent; a failed query reads as no rows.\<close>

definition ledger_turn :: "stream_filter \<Rightarrow> ledger_row list option \<Rightarrow> stream_state \<Rightarrow> stream_state \<times> json list" where
  "ledger_turn f table st =
     (let page = (case table of None \<Rightarrow> [] | Some t \<Rightarrow> cursor_page le_id 50 (sm_last_id st) (filter (stream_keeps f) t));
          ticks = sm_ticks st + 1 in
      (\<lparr>sm_last_id = cursor_after le_id (sm_last_id st) page, sm_ticks = (if 15 \<le> ticks then 0 else ticks)\<rparr>,
       map (ledger_event_json f) page @ (if 15 \<le> ticks then [ping_json] else [])))"

fun poll_ledger_stream :: "stream_filter \<Rightarrow> stream_state \<Rightarrow> ledger_row list option list \<Rightarrow> stream_state \<times> json list" where
  "poll_ledger_stream f st [] = (st, [])"
| "poll_ledger_stream f st (t # ts) =
     (let (st', out) = ledger_turn f t st; (st'', rest) = poll_ledger_stream f st' ts in (st'', out @ rest))"

definition progress_event_json :: "progress_row \<Rightarrow> json" where
  "progress_event_json r = JObj
     [(''id'', JNum (p_id r)), (''task_id'', JStr (p_task_id r)), (''agent_id'', JStr (p_agent_id r)), (''seq'', JNum (p_seq r)),
      (''event_type'', JStr (p_event_type r)), (''phase'', jopt JStr (p_phase r)), (''step'', jopt JStr (p_step r)),
      (''summary'', JStr (p_summary r)), (''occurred_at'', JNum (p_occurred_at r))]"

text \<open>One turn of the task behind global_sse: any event puts the heartbeat off.\<close>

definition sse_turn :: "progress_row list option \<Rightarrow> stream_state \<Rightarrow> stream_state \<times> json list" where
  "sse_turn table st =
     (let page = (case table of None \<Rightarrow> [] | Some t \<Rightarrow> cursor_page p_id 100 (sm_last_id st) t);
          ticks = (if page = [] then sm_ticks st else 0) + 1 in
      (\<lparr>sm_last_id = cursor_after p_id (sm_last_id st) page, sm_ticks = (if 15 \<le> ticks then 0 else ticks)\<rparr>,
       map progress_event_json page @ (if 15 \<le> ticks then [ping_json] else [])))"

fun sse_turns :: "stream_state \<Rightarrow> progress_row list option list \<Rightarrow> stream_state \<times> json list" where
  "sse_turns st [] = (st, [])"
| "sse_turns st (t # ts) =
     (let (st', out) = sse_turn t st; (st'', rest) = sse_turns st' ts in (st'', out @ rest))"

definition global_sse :: "principal \<Rightarrow> progress_row list option list \<Rightarrow> json list res" where
  "global_sse p tables =
     (if \<not> is_admin p then Inl (forbidden ''admin required'') else Inr (snd (sse_turns stream_start tables)))"

definition domain_stream :: "db \<Rightarrow> principal \<Rightarrow> str \<Rightarrow> ledger_row list option list \<Rightarrow> json list res" where
  "domain_stream d p domain_id tables =
     and_then (authz_domain d p domain_id) (\<lambda>_. Inr (snd (poll_ledger_stream (DomainStream domain_id) stream_start tables)))"

definition mission_stream :: "db \<Rightarrow> principal \<Rightarrow> str \<Rightarrow> ledger_row list option list \<Rightarrow> json list res" where
  "mission_stream d p mission_id tables =
     and_then (and_then (domain_id_for_mission d mission_id) (authz_domain d p))
       (\<lambda>_. Inr (snd (poll_ledger_stream (MissionStream mission_id) stream_start tables)))"

end
