(* ===== verification/Message_Relay.thy ===== *)
theory Message_Relay
  imports Messages
begin

text \<open>
  The message relays of the daemon (task_loop.rs): run_message_relay and run_webhook_relay poll the inbox of a
  persistent agent with a cursor that starts at zero. The first successful poll only moves the cursor; every later
  one delivers what it returns. A relay never stops, so a run is a list of polls, each with its response. The reader
  of JSON text and the printer of a value are arguments. The route polled is the inbox of a control-plane agent
  (list_messages of routes/agents.rs), whose page holds fifty messages.
\<close>

section \<open>A poll\<close>

record relay =
  rl_last_id :: int
  rl_startup_drain :: bool

definition relay_start :: relay where
  "relay_start = \<lparr>rl_last_id = 0, rl_startup_drain = True\<rparr>"

definition message_id :: "json \<Rightarrow> int option" where
  "message_id msg = int_arg msg ''id''"

definition high_water :: "json list \<Rightarrow> int option" where
  "high_water msgs = (case List.map_filter message_id msgs of [] \<Rightarrow> None | i # is \<Rightarrow> Some (fold max is i))"

definition seen_id :: "json \<Rightarrow> int \<Rightarrow> int" where
  "seen_id msg high = (case message_id msg of Some i \<Rightarrow> max i high | None \<Rightarrow> high)"

text \<open>The cursor after a response, and the messages the loop goes on to deliver.\<close>

definition relay_poll :: "json list option \<Rightarrow> relay \<Rightarrow> relay \<times> json list" where
  "relay_poll response st =
     (case response of
        None \<Rightarrow> (st, [])
      | Some msgs \<Rightarrow>
          if rl_startup_drain st
          then (\<lparr>rl_last_id = opt_or (rl_last_id st) (high_water msgs), rl_startup_drain = False\<rparr>, [])
          else (st\<lparr>rl_last_id := fold seen_id msgs (rl_last_id st)\<rparr>, msgs))"

section \<open>What is delivered\<close>

record peer_message =
  pm_from_agent_id :: str
  pm_channel :: str
  pm_body :: json

definition sender_text :: "(json \<Rightarrow> str) \<Rightarrow> json \<Rightarrow> str" where
  "sender_text dump msg =
     (case jget ''from_agent_id'' msg of
        Some v \<Rightarrow> opt_or (dump v) (jstr v) | None \<Rightarrow> ''unknown'')"

definition channel_text :: "json \<Rightarrow> str" where
  "channel_text msg =
     (case jfield_str ''channel'' msg of
        Some c \<Rightarrow> c | None \<Rightarrow> opt_or ''coordination'' (jfield_str ''message_type'' msg))"

definition relay_body :: "(str \<Rightarrow> json option) \<Rightarrow> json \<Rightarrow> json" where
  "relay_body parse_json msg =
     (case Option.bind (jfield_str ''body_json'' msg) parse_json of
        Some b \<Rightarrow> b
      | None \<Rightarrow>
          (case jfield_str ''content'' msg of
             Some content \<Rightarrow> JObj [(''text'', JStr content)]
           | None \<Rightarrow> opt_or (JObj []) (jget ''body_json'' msg)))"

definition peer_message_of :: "(str \<Rightarrow> json option) \<Rightarrow> (json \<Rightarrow> str) \<Rightarrow> json \<Rightarrow> peer_message" where
  "peer_message_of parse_json dump msg =
     \<lparr>pm_from_agent_id = sender_text dump msg, pm_channel = channel_text msg, pm_body = relay_body parse_json msg\<rparr>"

text \<open>Where a message goes: to the session supervisor when one is registered and takes it, else to the buffer
  of the task loop, else to the signal call of the runtime.\<close>

datatype delivery = ToSession peer_message | ToBuffer peer_message | ToRuntime peer_message

definition route_message :: "bool option \<Rightarrow> bool \<Rightarrow> peer_message \<Rightarrow> delivery" where
  "route_message session_takes buffered m =
     (if session_takes = Some True then ToSession m else if buffered then ToBuffer m else ToRuntime m)"

text \<open>session_takes: the registered endpoint took the signal (Some True), refused it (Some False), or there is none.\<close>

definition message_relay ::
  "(str \<Rightarrow> json option) \<Rightarrow> (json \<Rightarrow> str) \<Rightarrow> (nat \<Rightarrow> bool option) \<Rightarrow> bool \<Rightarrow> json list option \<Rightarrow> relay \<Rightarrow> relay \<times> delivery list" where
  "message_relay parse_json dump takes buffered response st =
     (let (st', msgs) = relay_poll response st in
      (st', map (\<lambda>(i, msg). route_message (takes i) buffered (peer_message_of parse_json dump msg)) (enumerate 0 msgs)))"

definition webhook_text :: "(str \<Rightarrow> json option) \<Rightarrow> json \<Rightarrow> str option" where
  "webhook_text parse_json msg =
     (case jfield_str ''content'' msg of
        Some t \<Rightarrow> Some t
      | None \<Rightarrow> Option.bind (Option.bind (jfield_str ''body_json'' msg) parse_json) (jfield_str ''text''))"

text \<open>The texts posted to the webhook; a refused post is logged and not retried.\<close>

definition webhook_relay :: "(str \<Rightarrow> json option) \<Rightarrow> json list option \<Rightarrow> relay \<Rightarrow> relay \<times> str list" where
  "webhook_relay parse_json response st =
     (let (st', msgs) = relay_poll response st in (st', List.map_filter (webhook_text parse_json) msgs))"

section \<open>Polling the tower\<close>

text \<open>The request of a poll, answered by list_messages for the agent whose credential the daemon holds.\<close>

definition inbox_response :: "tower \<Rightarrow> principal \<Rightarrow> agent_ident \<Rightarrow> int \<Rightarrow> json list option" where
  "inbox_response s p ident since =
     (case snd (list_agent_messages s p ident None (Some since)) of Inr (JList ms) \<Rightarrow> Some ms | _ \<Rightarrow> None)"

fun relay_run :: "principal \<Rightarrow> agent_ident \<Rightarrow> relay \<Rightarrow> tower list \<Rightarrow> relay \<times> json list" where
  "relay_run p ident st [] = (st, [])"
| "relay_run p ident st (s # ss) =
     (let (st', out) = relay_poll (inbox_response s p ident (rl_last_id st)) st;
          (st'', rest) = relay_run p ident st' ss in (st'', out @ rest))"

section \<open>Reconnecting\<close>

text \<open>run_notify_ws: a pause after every attempt, two seconds at first and after a connection, else doubled up to sixty.\<close>

fun notify_pauses :: "nat \<Rightarrow> bool list \<Rightarrow> nat list" where
  "notify_pauses backoff [] = []"
| "notify_pauses backoff (connected # rest) =
     (let b = (if connected then 2 else backoff) in b # notify_pauses (min (b * 2) 60) rest)"

definition wakes :: "(str \<Rightarrow> json option) \<Rightarrow> str \<Rightarrow> bool" where
  "wakes parse_json txt = (Option.bind (parse_json txt) (jfield_str ''type'') = Some ''task_available'')"

end
