(* ===== verification/Message_Properties.thy ===== *)
theory Message_Properties
  imports Message_Relay Document_Properties Agent_Identity
begin

text \<open>
  Properties of messages: what a send adds and to whom it is attributed, that a direct message reaches its addressee,
  what reading an inbox changes, and what the relay of a persistent agent delivers over a run of polls.
\<close>

section \<open>The inbox of a control-plane agent as a cursor feed\<close>

definition inbox_of :: "principal \<Rightarrow> agent_ident \<Rightarrow> tower \<Rightarrow> agent_message_row list option" where
  "inbox_of p ident s =
     (case and_then (resolve_agent_or_404 (tw_db s) ident)
             (\<lambda>i. and_then (authz_by_control_plane_agent (tw_db s) p i) (\<lambda>_. Inr i)) of
        Inl _ \<Rightarrow> None
      | Inr i \<Rightarrow> Some (filter (\<lambda>m. am_from_agent_id m = i \<or> am_to_agent_id m = i) (agent_messages (tw_db s))))"

definition inbox_ok :: "tower \<Rightarrow> bool" where
  "inbox_ok s = (unique_key am_id (agent_messages (tw_db s)) \<and> (\<forall>m\<in>set (agent_messages (tw_db s)). i32_ok (am_id m)))"

lemma message_id_json: "i32_ok (am_id m) \<Longrightarrow> message_id (message_json m) = Some (am_id m)"
  by (simp add: message_id_def int_arg_def message_json_def i32_ok_def)

lemma inbox_response_page:
  "inbox_response s p ident since = map_option (\<lambda>t. map message_json (cursor_page am_id 50 since t)) (inbox_of p ident s)"
  by (auto simp: inbox_response_def list_agent_messages_def with_agent_def inbox_of_def Let_def opt_or_def cursor_page_def
      select_where_def filter_filter conj_commute split: sum.splits)

lemma fold_seen_id:
  "\<forall>m\<in>set rows. i32_ok (am_id m) \<Longrightarrow> fold seen_id (map message_json rows) c = cursor_after am_id c rows"
  by (induction rows arbitrary: c) (simp_all add: cursor_after_def seen_id_def message_id_json)

lemma fold_max_cursor: "fold max (map am_id rows) c = cursor_after am_id c rows"
  by (induction rows arbitrary: c) (simp_all add: cursor_after_def)

text \<open>Numbers below the cursor do not move it: the drain, which takes the maximum of the page alone, ends alike.\<close>

lemma drain_high_water:
  assumes "\<forall>m\<in>set (cursor_page am_id n c t). i32_ok (am_id m)"
  shows "opt_or c (high_water (map message_json (cursor_page am_id n c t))) = cursor_after am_id c (cursor_page am_id n c t)"
proof -
  have ids: "List.map_filter message_id (map message_json rows) = map am_id rows" if "\<forall>m\<in>set rows. i32_ok (am_id m)" for rows
    using that by (induction rows) (simp_all add: map_filter_simps message_id_json)
  show ?thesis
  proof (cases "cursor_page am_id n c t")
    case Nil
    then show ?thesis by (simp add: high_water_def map_filter_simps opt_or_def cursor_after_def)
  next
    case (Cons m rows)
    have "c < am_id m" using cursor_page_sub [of m am_id n c t] Cons by simp
    then show ?thesis
      using ids [OF assms] unfolding Cons
      by (simp add: high_water_def opt_or_def fold_max_cursor cursor_after_def max_def)
  qed
qed

lemma inbox_of_rows: "inbox_ok s \<Longrightarrow> inbox_of p ident s = Some t \<Longrightarrow> distinct (map am_id t) \<and> (\<forall>m\<in>set t. i32_ok (am_id m))"
  by (auto simp: inbox_of_def inbox_ok_def unique_key_def distinct_map_filter split: sum.splits)

lemma relay_run_cursor:
  assumes "\<forall>s\<in>set ss. inbox_ok s" "\<not> rl_startup_drain st"
  shows "relay_run p ident st ss =
    (st\<lparr>rl_last_id := fst (cursor_run am_id 50 (rl_last_id st) (List.map_filter (inbox_of p ident) ss))\<rparr>,
     map message_json (snd (cursor_run am_id 50 (rl_last_id st) (List.map_filter (inbox_of p ident) ss))))"
  using assms
proof (induction ss arbitrary: st)
  case (Cons s ss)
  show ?case
  proof (cases "inbox_of p ident s")
    case None
    then show ?thesis using Cons by (simp add: inbox_response_page relay_poll_def map_filter_simps)
  next
    case (Some t)
    let ?page = "cursor_page am_id 50 (rl_last_id st) t"
    have ok: "\<forall>m\<in>set ?page. i32_ok (am_id m)"
      using inbox_of_rows [OF _ Some] Cons.prems(1) cursor_page_sub [of _ am_id 50 "rl_last_id st" t] by auto
    show ?thesis
      using Cons Some fold_seen_id [OF ok, of "rl_last_id st"]
      by (simp add: inbox_response_page relay_poll_def map_filter_simps Let_def split: prod.splits)
  qed
qed (simp add: map_filter_simps)

section \<open>The relay\<close>

text \<open>The inboxes a relay was shown: those of the polls that were answered.\<close>

definition inboxes :: "principal \<Rightarrow> agent_ident \<Rightarrow> tower list \<Rightarrow> agent_message_row list list" where
  "inboxes p ident ss = List.map_filter (inbox_of p ident) ss"

lemma inboxes_ok:
  "\<forall>s\<in>set ss. inbox_ok s \<Longrightarrow> t \<in> set (inboxes p ident ss) \<Longrightarrow> distinct (map am_id t)"
  using inbox_of_rows [of _ p ident t] by (auto simp: inboxes_def List.map_filter_def)

text \<open>C25: what a relay delivers. A relay starts, its first answered poll shows the inbox t, and then it polls the
  states ss. Nothing of that first page is delivered: the cursor starts at its highest number, so of an inbox longer
  than a page the rest is still delivered. From there on every message delivered lay in the inbox at some poll, is
  numbered above the cursor, and none comes twice: the numbers strictly increase. When the numbers become visible in
  order, nothing up to the last number is left out; and a message the last inbox still holds above it means that a
  full page of fifty was delivered meanwhile.\<close>

theorem relay_delivers_once:
  assumes ok: "inbox_ok s" "\<forall>s\<in>set ss. inbox_ok s" and first: "inbox_of p ident s = Some t"
    and run: "relay_run p ident relay_start (s # ss) = (st, out)"
  defines "start \<equiv> cursor_after am_id 0 (cursor_page am_id 50 0 t)"
  shows "\<exists>rows. out = map message_json rows \<and> sorted_wrt (<) (map am_id rows) \<and>
    (\<forall>m\<in>set rows. start < am_id m \<and> (\<exists>u\<in>set (inboxes p ident ss). m \<in> set u)) \<and>
    (inboxes p ident ss \<noteq> [] \<longrightarrow>
       (in_order (map (map am_id) (inboxes p ident ss)) \<longrightarrow>
          (\<forall>m\<in>set (last (inboxes p ident ss)). start < am_id m \<and> am_id m \<le> rl_last_id st \<longrightarrow> am_id m \<in> am_id ` set rows)) \<and>
       (\<forall>m\<in>set (last (inboxes p ident ss)). rl_last_id st < am_id m \<longrightarrow> 50 \<le> length rows))"
proof -
  let ?page = "cursor_page am_id 50 0 t" and ?feed = "inboxes p ident ss"
  let ?run = "cursor_run am_id 50 start ?feed"
  have ids: "\<forall>m\<in>set ?page. i32_ok (am_id m)"
    using inbox_of_rows [OF ok(1) first] cursor_page_sub [of _ am_id 50 0 t] by auto
  have step: "relay_poll (inbox_response s p ident 0) relay_start = (\<lparr>rl_last_id = start, rl_startup_drain = False\<rparr>, [])"
    using drain_high_water [OF ids] by (simp add: inbox_response_page first relay_poll_def relay_start_def start_def)
  have out: "rl_last_id st = fst ?run" "out = map message_json (snd ?run)"
    using run step relay_run_cursor [OF ok(2), of "\<lparr>rl_last_id = start, rl_startup_drain = False\<rparr>" p ident]
    by (auto simp: relay_start_def inboxes_def Let_def split: prod.splits)
  have d: "\<forall>u\<in>set ?feed. distinct (map am_id u)" using inboxes_ok [OF ok(2)] by blast
  have all: "in_order (map (map am_id) ?feed) \<Longrightarrow> ?feed \<noteq> [] \<Longrightarrow>
      \<forall>m\<in>set (last ?feed). start < am_id m \<and> am_id m \<le> rl_last_id st \<longrightarrow> am_id m \<in> am_id ` set (snd ?run)"
    using cursor_run_complete [OF _ _ d, of 50 start "fst ?run" "snd ?run"] out(1) by simp
  show ?thesis
    using out(2) cursor_run_sorted [OF d, of 50 start] cursor_run_above [of _ am_id 50 start ?feed] all
      cursor_run_full [of ?feed _ am_id 50 start] out(1)
    by (intro exI [of _ "snd ?run"] conjI ballI impI) auto
qed

definition demo_inbox :: "int list \<Rightarrow> tower" where
  "demo_inbox ids = set_db ((tw_db demo_people)\<lparr>agent_messages := map (\<lambda>i.
     \<lparr>am_id = i, am_from_agent_id = 7, am_to_agent_id = 7, am_content = ''hi'', am_message_type = ''signal'',
      am_task_id = None, am_read = False, am_created_at = i\<rparr>) ids\<rparr>) demo_people"

lemma demo_inbox_facts:
  "inbox_ok (demo_inbox [2, 1])" "\<forall>s\<in>set [demo_inbox [2, 1, 4], demo_inbox [2, 1, 4, 5]]. inbox_ok s"
  "map_option (map am_id) (inbox_of demo_owner (PublicId ''planner-1'') (demo_inbox [2, 1])) = Some [2, 1]"
  "map am_id (last (inboxes demo_owner (PublicId ''planner-1'') [demo_inbox [2, 1, 4], demo_inbox [2, 1, 4, 5]])) = [2, 1, 4, 5]"
  "cursor_after am_id 0 (cursor_page am_id 50 0 (the (inbox_of demo_owner (PublicId ''planner-1'') (demo_inbox [2, 1])))) = 2"
  by code_simp+

text \<open>Two messages before the relay starts, then one and one more: the numbers delivered are above 2 and increase.\<close>

lemma relay_delivers_once_witness:
  "\<exists>rows. snd (relay_run demo_owner (PublicId ''planner-1'') relay_start [demo_inbox [2, 1], demo_inbox [2, 1, 4], demo_inbox [2, 1, 4, 5]])
      = map message_json rows \<and> sorted_wrt (<) (map am_id rows) \<and> (\<forall>m\<in>set rows. 2 < am_id m)"
proof -
  let ?p = demo_owner and ?a = "PublicId ''planner-1''"
  let ?later = "[demo_inbox [2, 1, 4], demo_inbox [2, 1, 4, 5]]"
  obtain t where t: "inbox_of ?p ?a (demo_inbox [2, 1]) = Some t" using demo_inbox_facts(3) by blast
  obtain st out where run: "relay_run ?p ?a relay_start (demo_inbox [2, 1] # ?later) = (st, out)" by (rule prod.exhaust)
  have start: "cursor_after am_id 0 (cursor_page am_id 50 0 t) = 2" using demo_inbox_facts(5) t by simp
  obtain rows where rows: "out = map message_json rows" "sorted_wrt (<) (map am_id rows)" "\<forall>m\<in>set rows. 2 < am_id m"
    using relay_delivers_once [OF demo_inbox_facts(1,2) t run] unfolding start by blast
  have "snd (relay_run ?p ?a relay_start (demo_inbox [2, 1] # ?later)) = map message_json rows"
    using rows(1) by (simp only: run snd_conv)
  then show ?thesis using rows(2,3) by blast
qed

section \<open>Inboxes of mesh agents\<close>

definition messages_ok :: "message_store \<Rightarrow> bool" where
  "messages_ok s = id_numbered mm_id (mg_seq s) (mg_messages s)"

lemma authz_by_agent_ok:
  "authz_by_agent d p x = Inr u \<longleftrightarrow> db_up d \<and> (\<exists>a. lookup a_id x (mesh_agents d) = Some a \<and> member d p (a_domain_id a))"
  unfolding authz_by_agent_def by_agent.guard_ok by (auto simp: agent_domain_query_def)

lemma holds_hears:
  "holds (hears x dm r) \<longleftrightarrow> mm_to_agent_id r = Some x \<or> mm_to_agent_id r = None \<and> mm_domain_id r = dm"
  by (auto simp: hears_def)

lemma lookup_mark_read:
  "lookup mm_id i (mark_read now ids t) =
     map_option (\<lambda>r. if i \<in> set ids \<and> mm_read_at r = None then r\<lparr>mm_read_at := Some now\<rparr> else r) (lookup mm_id i t)"
proof -
  have "lookup mm_id i (mark_read now ids t) = map_option (\<lambda>r. if holds (tand (tbool (mm_id r \<in> set ids)) (tbool (mm_read_at r = None)))
      then r\<lparr>mm_read_at := Some now\<rparr> else r) (lookup mm_id i t)"
    unfolding mark_read_def by (rule lookup_update_where) simp
  then show ?thesis by (cases "lookup mm_id i t") (auto dest: lookup_Some_in)
qed

lemma mark_read_Nil [simp]: "mark_read now [] t = t"
  by (simp add: mark_read_def update_where_def)

lemma inbox_lemma:
  assumes ok: "messages_ok s" and run: "get_agent_messages parse_json now s p x since = (s', Inr resp)"
  shows "\<exists>a rows. lookup a_id x (mesh_agents (mg_db s)) = Some a \<and> member (mg_db s) p (a_domain_id a) \<and>
    resp = JList (map (row_to_message parse_json) rows) \<and> sorted_wrt (<) (map mm_id rows) \<and>
    set rows = {r \<in> set (mg_messages s). since < mm_id r \<and>
                  (mm_to_agent_id r = Some x \<or> mm_to_agent_id r = None \<and> mm_domain_id r = a_domain_id a)} \<and>
    mg_db s' = mg_db s \<and> mg_seq s' = mg_seq s \<and>
    (\<forall>i. lookup mm_id i (mg_messages s') =
       map_option (\<lambda>r. if since < i \<and> mm_to_agent_id r = Some x \<and> mm_read_at r = None
                       then r\<lparr>mm_read_at := Some now\<rparr> else r) (lookup mm_id i (mg_messages s)))"
proof -
  obtain a where a: "lookup a_id x (mesh_agents (mg_db s)) = Some a" "member (mg_db s) p (a_domain_id a)"
    and auth: "authz_by_agent (mg_db s) p x = Inr ()"
    using run authz_by_agent_ok [of "mg_db s" p x "()"]
    by (cases "authz_by_agent (mg_db s) p x") (auto simp: get_agent_messages_def)
  define rows where "rows = sort_key mm_id (select_where (\<lambda>r. tand (tbool (since < mm_id r)) (hears x (a_domain_id a) r)) (mg_messages s))"
  define direct where "direct = map mm_id (filter (\<lambda>r. mm_to_agent_id r \<noteq> None) rows)"
  have key: "unique_key mm_id (mg_messages s)" using ok by (simp add: messages_ok_def id_numbered_def)
  have set_rows: "set rows = {r \<in> set (mg_messages s). since < mm_id r \<and>
      (mm_to_agent_id r = Some x \<or> mm_to_agent_id r = None \<and> mm_domain_id r = a_domain_id a)}"
    by (auto simp: rows_def select_where_def holds_hears)
  have "cursor_page mm_id (length rows) since (filter (\<lambda>r. holds (hears x (a_domain_id a) r)) (mg_messages s)) = rows"
    by (simp add: cursor_page_def rows_def select_where_def conj_commute)
  then have sorted: "sorted_wrt (<) (map mm_id rows)"
    using cursor_page_sorted [of mm_id "filter (\<lambda>r. holds (hears x (a_domain_id a) r)) (mg_messages s)" "length rows" since] key
    by (simp add: unique_key_def distinct_map_filter)
  have out: "s' = s\<lparr>mg_messages := mark_read now direct (mg_messages s)\<rparr>" "resp = JList (map (row_to_message parse_json) rows)"
    using run auth a(1) by (auto simp: get_agent_messages_def Let_def rows_def direct_def split: if_splits)
  have ids: "i \<in> set direct \<longleftrightarrow> since < i \<and> mm_to_agent_id r = Some x" if r: "lookup mm_id i (mg_messages s) = Some r" for i r
  proof -
    have rr: "r \<in> set (mg_messages s)" "mm_id r = i" using lookup_Some_in [OF r] by auto
    have one: "q = r" if "q \<in> set (mg_messages s)" "mm_id q = i" for q
      using that rr key unfolding unique_key_def distinct_map inj_on_def by metis
    have "i \<in> set direct \<longleftrightarrow> (\<exists>q\<in>set rows. mm_to_agent_id q \<noteq> None \<and> mm_id q = i)" by (force simp: direct_def)
    also have "\<dots> \<longleftrightarrow> r \<in> set rows \<and> mm_to_agent_id r \<noteq> None" using one rr set_rows by blast
    also have "\<dots> \<longleftrightarrow> since < i \<and> mm_to_agent_id r = Some x" unfolding set_rows using rr by auto
    finally show ?thesis .
  qed
  have marks: "lookup mm_id i (mg_messages s') =
       map_option (\<lambda>r. if since < i \<and> mm_to_agent_id r = Some x \<and> mm_read_at r = None
                       then r\<lparr>mm_read_at := Some now\<rparr> else r) (lookup mm_id i (mg_messages s))" for i
  proof (cases "lookup mm_id i (mg_messages s)")
    case (Some r)
    show ?thesis unfolding out(1) by (simp add: lookup_mark_read Some ids [OF Some] conj_assoc)
  qed (simp add: out(1) lookup_mark_read)
  have frame: "mg_db s' = mg_db s" "mg_seq s' = mg_seq s" by (simp_all add: out(1))
  show ?thesis
    by (rule exI [of _ a], rule exI [of _ rows]) (use a out(2) sorted set_rows frame marks in blast)
qed

text \<open>C26: reading an inbox. When get_agent_messages answers, the caller was a member of the domain of the agent, the
  answer is exactly what the agent hears above the given number - what is addressed to it, from any domain, and the
  broadcasts of its own - in order of the numbers and as it stood before; and exactly the direct messages among them that were
  unread carry the time of reading afterwards. Broadcasts, messages read before and all the rest are as they were.\<close>

theorem inbox_reads_exactly:
  assumes ok: "messages_ok s" and run: "get_agent_messages parse_json now s p x since = (s', Inr resp)"
  shows "\<exists>a rows. lookup a_id x (mesh_agents (mg_db s)) = Some a \<and> member (mg_db s) p (a_domain_id a) \<and>
    resp = JList (map (row_to_message parse_json) rows) \<and> sorted_wrt (<) (map mm_id rows) \<and>
    set rows = {r \<in> set (mg_messages s). since < mm_id r \<and>
                  (mm_to_agent_id r = Some x \<or> mm_to_agent_id r = None \<and> mm_domain_id r = a_domain_id a)} \<and>
    mg_db s' = mg_db s \<and> mg_seq s' = mg_seq s \<and>
    (\<forall>i. lookup mm_id i (mg_messages s') =
       map_option (\<lambda>r. if since < i \<and> mm_to_agent_id r = Some x \<and> mm_read_at r = None
                       then r\<lparr>mm_read_at := Some now\<rparr> else r) (lookup mm_id i (mg_messages s)))"
  by (rule inbox_lemma [OF assms])

definition demo_messages :: message_store where
  "demo_messages = \<lparr>mg_db = (tw_db demo_people)\<lparr>mesh_agents := [demo_agent\<lparr>a_domain_id := ''d1''\<rparr>]\<rparr>, mg_messages = [], mg_seq = 1\<rparr>"

definition demo_direct_note :: message_create where
  "demo_direct_note = \<lparr>mc_to_agent_id = Some ''w7'', mc_task_id = None, mc_channel = None, mc_body = None, mc_body_json = None,
     mc_in_reply_to = None\<rparr>"

text \<open>Mallory is a member of d9 only, the agent w7 lives in d1.\<close>

definition demo_sent :: message_store where
  "demo_sent = fst (send_domain_message (\<lambda>_. []) 5 demo_messages demo_mallory ''d9'' demo_direct_note)"

text \<open>A response in a sample run.\<close>

lemma ran_ok: "case snd x of Inr _ \<Rightarrow> True | Inl _ \<Rightarrow> False \<Longrightarrow> \<exists>r. x = (fst x, Inr r)"
  by (cases x) (auto split: sum.splits)

lemma ran_list:
  "case snd x of Inr (JList ms) \<Rightarrow> P ms | _ \<Rightarrow> False \<Longrightarrow> \<exists>ms. x = (fst x, Inr (JList ms)) \<and> P ms"
  by (cases x) (auto split: sum.splits json.splits)

lemma demo_sent_facts:
  "messages_ok demo_sent" "\<not> member (mg_db demo_messages) demo_mallory ''d1''"
  "case snd (send_domain_message (\<lambda>_. []) 5 demo_messages demo_mallory ''d9'' demo_direct_note) of Inr _ \<Rightarrow> True | Inl _ \<Rightarrow> False"
  "case snd (get_agent_messages (\<lambda>_. None) 6 demo_sent demo_owner ''w7'' 0) of Inr (JList ms) \<Rightarrow> length ms = 1 | _ \<Rightarrow> False"
proof -
  show "messages_ok demo_sent" by code_simp
  show "\<not> member (mg_db demo_messages) demo_mallory ''d1''"
  proof -
    have "authz_domain (mg_db demo_messages) demo_mallory ''d1'' \<noteq> Inr ()" "db_up (mg_db demo_messages)" by code_simp+
    then show ?thesis by (simp add: authz_domain_ok)
  qed
  show "case snd (send_domain_message (\<lambda>_. []) 5 demo_messages demo_mallory ''d9'' demo_direct_note) of Inr _ \<Rightarrow> True | Inl _ \<Rightarrow> False"
    by code_simp
  show "case snd (get_agent_messages (\<lambda>_. None) 6 demo_sent demo_owner ''w7'' 0) of Inr (JList ms) \<Rightarrow> length ms = 1 | _ \<Rightarrow> False"
    by code_simp
qed

lemma inbox_reads_exactly_witness:
  "\<exists>(s' :: message_store) resp r. get_agent_messages (\<lambda>_. None) 6 demo_sent demo_owner ''w7'' 0 = (s', Inr resp)
     \<and> mg_messages demo_sent = [r] \<and> mm_read_at r = None \<and> lookup mm_id 1 (mg_messages s') = Some (r\<lparr>mm_read_at := Some 6\<rparr>) \<and> member (mg_db demo_sent) demo_owner ''d1''"
proof -
  obtain s' resp where run: "get_agent_messages (\<lambda>_. None) 6 demo_sent demo_owner ''w7'' 0 = (s', Inr resp)"
    using ran_list [OF demo_sent_facts(4)] by blast
  obtain r where r: "mg_messages demo_sent = [r]" "mm_id r = 1" "mm_to_agent_id r = Some ''w7''" "mm_read_at r = None"
  proof
    show "mg_messages demo_sent = [hd (mg_messages demo_sent)]" "mm_id (hd (mg_messages demo_sent)) = 1"
      "mm_to_agent_id (hd (mg_messages demo_sent)) = Some ''w7''" "mm_read_at (hd (mg_messages demo_sent)) = None"
      by code_simp+
  qed
  have agent: "map_option a_domain_id (lookup a_id ''w7'' (mesh_agents (mg_db demo_sent))) = Some ''d1''" by code_simp
  have "lookup mm_id 1 (mg_messages s') = Some (r\<lparr>mm_read_at := Some 6\<rparr>) \<and> member (mg_db demo_sent) demo_owner ''d1''"
    using inbox_reads_exactly [OF demo_sent_facts(1) run] r agent by (auto simp: lookup_Cons)
  then show ?thesis using run r(1,4) by blast
qed

section \<open>Direct messages\<close>

lemma insert_messageD:
  assumes "insert_message r s = Some (s', q)"
  shows "s' = s\<lparr>mg_messages := mg_messages s @ [q], mg_seq := mg_seq s + 1\<rparr>" "q = r\<lparr>mm_id := mg_seq s\<rparr>"
  using assms by (auto simp: insert_message_def Let_def insert_row_def split: if_splits)

text \<open>a direct message reaches its addressee. A member of some domain sends through it to an agent: the message takes the
  next number, the subject of the caller as its sender and the body given. Whoever reads the inbox of that agent after it, asking
  from a lower number, is shown it, and it is marked read at that moment - and nothing asks which domain the agent belongs to, so
  the sender need not be a member of it.\<close>

theorem direct_message_arrives:
  assumes ok: "messages_ok s" and send: "send_domain_message dump now s p k body = (s1, Inr resp)"
    and to: "mc_to_agent_id body = Some x"
    and read: "get_agent_messages parse_json later s1 q x since = (s2, Inr (JList ms))" and since: "since < mg_seq s"
  shows "member (mg_db s) p k \<and> messages_ok s1 \<and>
    (\<exists>m\<in>set ms. jget ''id'' m = Some (JNum (mg_seq s)) \<and> jfield_str ''from_agent_id'' m = Some (subject p) \<and>
       jfield_str ''domain_id'' m = Some k \<and> jget ''body_json'' m = Some (opt_or (JObj []) (parse_json (body_text dump body)))) \<and>
    map_option mm_read_at (lookup mm_id (mg_seq s) (mg_messages s2)) = Some (Some later)"
proof -
  let ?r = "new_message now k None (subject p) (body_text dump body) body"
  obtain m where ins: "insert_message ?r s = Some (s1, m)" and mem: "member (mg_db s) p k"
    using send authz_domain_ok [of "mg_db s" p k]
    by (cases "authz_domain (mg_db s) p k") (auto simp: send_domain_message_def created_message_def split: if_splits option.splits)
  note I = insert_messageD [OF ins]
  have m: "mm_id m = mg_seq s" "mm_to_agent_id m = Some x" "mm_from_agent_id m = subject p" "mm_domain_id m = k"
    "mm_body_json m = Some (body_text dump body)" "mm_read_at m = None"
    using to by (simp_all add: I(2) new_message_def)
  have fresh: "lookup mm_id (mg_seq s) (mg_messages s) = None" using ok id_numbered_fresh by (simp add: messages_ok_def)
  have ok1: "messages_ok s1"
    using ok id_numbered_insert [of mm_id "mg_seq s" "mg_messages s" m] m(1) by (simp add: messages_ok_def I(1) insert_row_def)
  obtain a :: mesh_agent_row and rows :: "mesh_message_row list" where rows: "ms = map (row_to_message parse_json) rows"
      "set rows = {r \<in> set (mg_messages s1). since < mm_id r \<and>
                  (mm_to_agent_id r = Some x \<or> mm_to_agent_id r = None \<and> mm_domain_id r = a_domain_id a)}"
      "\<forall>i. lookup mm_id i (mg_messages s2) =
       map_option (\<lambda>r. if since < i \<and> mm_to_agent_id r = Some x \<and> mm_read_at r = None
                       then r\<lparr>mm_read_at := Some later\<rparr> else r) (lookup mm_id i (mg_messages s1))"
    using inbox_lemma [OF ok1 read] unfolding json.inject by (elim exE conjE) (rule that)
  have "m \<in> set rows" using since m unfolding rows(2) by (simp add: I(1))
  then have "row_to_message parse_json m \<in> set ms" unfolding rows(1) by simp
  moreover have "lookup mm_id (mg_seq s) (mg_messages s1) = Some m"
    using lookup_insert_row [of mm_id "mg_seq s" m "mg_messages s"] fresh m(1) by (simp add: I(1) insert_row_def)
  then have "lookup mm_id (mg_seq s) (mg_messages s2) = Some (m\<lparr>mm_read_at := Some later\<rparr>)"
    using rows(3) since m by simp
  ultimately show ?thesis
    using mem ok1 m by (intro conjI bexI [of _ "row_to_message parse_json m"])
      (simp_all add: row_to_message_def jfield_str_def body_value_def)
qed

lemma direct_message_arrives_witness:
  "\<not> member (mg_db demo_messages) demo_mallory ''d1'' \<and> member (mg_db demo_messages) demo_mallory ''d9'' \<and>
   (\<exists>(s2 :: message_store) ms. get_agent_messages (\<lambda>_. None) 6 demo_sent demo_owner ''w7'' 0 = (s2, Inr (JList ms)) \<and>
      (\<exists>m\<in>set ms. jfield_str ''from_agent_id'' m = Some ''mallory''))"
proof -
  obtain resp where send: "send_domain_message (\<lambda>_. []) 5 demo_messages demo_mallory ''d9'' demo_direct_note = (demo_sent, Inr resp)"
    using ran_ok [OF demo_sent_facts(3)] unfolding demo_sent_def by blast
  obtain s2 ms where read: "get_agent_messages (\<lambda>_. None) 6 demo_sent demo_owner ''w7'' 0 = (s2, Inr (JList ms))"
    using ran_list [OF demo_sent_facts(4)] by blast
  have ok: "messages_ok demo_messages" "mc_to_agent_id demo_direct_note = Some ''w7''" "0 < mg_seq demo_messages" by code_simp+
  have "subject demo_mallory = ''mallory''" by code_simp
  then show ?thesis using direct_message_arrives [OF ok(1) send ok(2) read ok(3)] demo_sent_facts(2) read by auto
qed

end
