(* ===== verification/Workspaces.thy ===== *)
theory Workspaces
  imports Messages
begin

text \<open>
  Mission workspaces (the workspace tools of routes/mcp.rs): a lease with the snapshot it was taken from, its
  heartbeat and release, fetching an artifact under it, and the commit of a change set to the documents and artifacts
  of the mission, which also tries to enqueue ledger events. The printer of JSON text and the length of what base64
  decodes to are arguments; the dash of one message is written as a hyphen.
\<close>

section \<open>Rows\<close>

record workspace_lease_row =
  wl_id :: str
  wl_domain_id :: str
  wl_mission_id :: str
  wl_actor_subject :: str
  wl_agent_id :: str
  wl_workspace_label :: str
  wl_status :: str
  wl_base_snapshot_json :: str
  wl_lease_seconds :: int
  wl_last_heartbeat_at :: time
  wl_expires_at :: time
  wl_release_reason :: str
  wl_released_at :: "time option"
  wl_created_at :: time
  wl_updated_at :: time

record workspace_state =
  wk_store :: doc_store
  wk_leases :: "workspace_lease_row table"
  wk_ledger :: "ledger_row table"
  wk_ledger_seq :: int

abbreviation wk_db :: "workspace_state \<Rightarrow> db" where
  "wk_db s \<equiv> ds_db (wk_store s)"

definition lease_row_to_json :: "workspace_lease_row \<Rightarrow> json" where
  "lease_row_to_json r = JObj
     [(''id'', JStr (wl_id r)), (''domain_id'', JStr (wl_domain_id r)), (''mission_id'', JStr (wl_mission_id r)),
      (''actor_subject'', JStr (wl_actor_subject r)), (''agent_id'', JStr (wl_agent_id r)),
      (''workspace_label'', JStr (wl_workspace_label r)), (''status'', JStr (wl_status r)),
      (''lease_seconds'', JNum (wl_lease_seconds r)), (''last_heartbeat_at'', JNum (wl_last_heartbeat_at r)),
      (''expires_at'', JNum (wl_expires_at r))]"

text \<open>A number in decimal.\<close>

definition digit_char :: "nat \<Rightarrow> char" where
  "digit_char n = char_of (48 + n)"

fun nat_digits :: "nat \<Rightarrow> str" where
  "nat_digits n = (if n < 10 then [digit_char n] else nat_digits (n div 10) @ [digit_char (n mod 10)])"

declare nat_digits.simps [simp del]

definition show_dec :: "int \<Rightarrow> str" where
  "show_dec n = (if n < 0 then CHR ''-'' # nat_digits (nat (- n)) else nat_digits (nat n))"

section \<open>The snapshot\<close>

definition newest :: "('r \<Rightarrow> time) \<Rightarrow> nat \<Rightarrow> 'r list \<Rightarrow> 'r list" where
  "newest ord n rows = take n (sort_key (\<lambda>r. - ord r) rows)"

definition snapshot_tasks :: "db \<Rightarrow> str \<Rightarrow> task_row list" where
  "snapshot_tasks d mission_id = newest t_updated_at 200 (select_where
     (\<lambda>r. tand (tand (tbool (t_mission_id r = mission_id)) (is_kind Claimable r))
            (tbool (t_status r \<notin> {''finished'', ''cancelled''}))) (tasks d))"

definition snapshot_docs :: "doc_store \<Rightarrow> str \<Rightarrow> doc_row list" where
  "snapshot_docs s mission_id = newest doc_updated_at 100 (select_where (by_key doc_mission_id mission_id) (ds_docs s))"

definition snapshot_artifacts :: "doc_store \<Rightarrow> str \<Rightarrow> artifact_row list" where
  "snapshot_artifacts s mission_id = newest ar_updated_at 100 (select_where (by_key ar_mission_id mission_id) (ds_artifacts s))"

definition snapshot_index :: "doc_store \<Rightarrow> str \<Rightarrow> json" where
  "snapshot_index s mission_id = JObj
     (map (\<lambda>r. (''doc:'' @ show_dec (doc_id r), JNum (doc_version r))) (snapshot_docs s mission_id) @
      map (\<lambda>r. (''artifact:'' @ show_dec (ar_id r), JNum (ar_version r))) (snapshot_artifacts s mission_id))"

definition snapshot_task_json :: "task_row \<Rightarrow> json" where
  "snapshot_task_json r = JObj
     [(''id'', JStr (t_id r)), (''title'', JStr (t_title r)), (''description'', JStr (t_description r)),
      (''status'', JStr (t_status r)), (''priority'', JNum (t_priority r)),
      (''claimed_by_agent_id'', JStr (opt_or [] (t_claimed_by r))), (''claim_policy'', JStr (opt_or [] (t_claim_policy r))),
      (''updated_at'', JNum (t_updated_at r))]"

definition snapshot_doc_json :: "doc_row \<Rightarrow> json" where
  "snapshot_doc_json r = JObj
     [(''id'', JNum (doc_id r)), (''title'', JStr (doc_title r)), (''doc_type'', JStr (doc_doc_type r)),
      (''status'', JStr (doc_status r)), (''version'', JNum (doc_version r)), (''updated_at'', JNum (doc_updated_at r))]"

definition snapshot_artifact_json :: "artifact_row \<Rightarrow> json" where
  "snapshot_artifact_json r = JObj
     [(''id'', JNum (ar_id r)), (''name'', JStr (ar_name r)), (''artifact_type'', JStr (ar_artifact_type r)),
      (''storage_backend'', JStr (ar_storage_backend r)), (''mime_type'', JStr (ar_mime_type r)),
      (''size_bytes'', JNum (ar_size_bytes r)), (''status'', JStr (ar_status r)), (''version'', JNum (ar_version r)),
      (''updated_at'', JNum (ar_updated_at r))]"

definition build_workspace_snapshot :: "doc_store \<Rightarrow> str \<Rightarrow> str \<Rightarrow> json" where
  "build_workspace_snapshot s domain_id mission_id = JObj
     [(''domain_id'', JStr domain_id), (''mission_id'', JStr mission_id),
      (''tasks'', JList (map snapshot_task_json (snapshot_tasks (ds_db s) mission_id))),
      (''docs'', JList (map snapshot_doc_json (snapshot_docs s mission_id))),
      (''artifacts'', JList (map snapshot_artifact_json (snapshot_artifacts s mission_id))),
      (''index'', snapshot_index s mission_id)]"

section \<open>The life of a lease\<close>

definition mission_domain :: "db \<Rightarrow> str \<Rightarrow> json + str" where
  "mission_domain d mission_id =
     (if \<not> db_up d then Inl (err_result ''database_error'')
      else case lookup m_id mission_id (missions d) of
        None \<Rightarrow> Inl (err_result ''Mission not found'')
      | Some m \<Rightarrow>
          (case m_domain_id m of
             Some k \<Rightarrow> if k \<noteq> [] then Inr k else Inl (err_result ''Mission is not linked to a domain'')
           | None \<Rightarrow> Inl (err_result ''Mission is not linked to a domain'')))"

definition load_mission_workspace ::
  "(json \<Rightarrow> str) \<Rightarrow> time \<Rightarrow> str \<Rightarrow> workspace_state \<Rightarrow> principal \<Rightarrow> json \<Rightarrow> workspace_state \<times> json" where
  "load_mission_workspace dump now lease_id s p args =
     (let mission_id = str_arg args ''mission_id'';
          lease_seconds = clamp_secs 60 3600 (opt_or 900 (int_arg args ''lease_seconds'')) in
      if mission_id = [] then (s, err_result ''mission_id is required'')
      else case mission_domain (wk_db s) mission_id of
        Inl e \<Rightarrow> (s, e)
      | Inr domain_id \<Rightarrow>
          (case mcp_authz_domain (wk_db s) p domain_id of
             Inl e \<Rightarrow> (s, e)
           | Inr _ \<Rightarrow>
               if lookup wl_id lease_id (wk_leases s) \<noteq> None then (s, err_result ''database_error'')
               else
                 let lease = \<lparr>wl_id = lease_id, wl_domain_id = domain_id, wl_mission_id = mission_id,
                       wl_actor_subject = subject p, wl_agent_id = str_arg args ''agent_id'',
                       wl_workspace_label = str_arg args ''workspace_label'', wl_status = ''active'',
                       wl_base_snapshot_json = dump (snapshot_index (wk_store s) mission_id),
                       wl_lease_seconds = lease_seconds, wl_last_heartbeat_at = now,
                       wl_expires_at = now + secs lease_seconds, wl_release_reason = [], wl_released_at = None,
                       wl_created_at = now, wl_updated_at = now\<rparr> in
                 (s\<lparr>wk_leases := insert_row lease (wk_leases s)\<rparr>,
                  ok_result (JObj [(''lease'', lease_row_to_json lease),
                    (''workspace_snapshot'', build_workspace_snapshot (wk_store s) domain_id mission_id)]))))"

text \<open>The lease named, when the caller is who took it or an administrator.\<close>

definition own_lease :: "workspace_state \<Rightarrow> principal \<Rightarrow> str \<Rightarrow> json + workspace_lease_row" where
  "own_lease s p lease_id =
     (if lease_id = [] then Inl (err_result ''lease_id is required'')
      else if \<not> db_up (wk_db s) then Inl (err_result ''database_error'')
      else case lookup wl_id lease_id (wk_leases s) of
        None \<Rightarrow> Inl (err_result ''Workspace lease not found'')
      | Some l \<Rightarrow>
          if wl_actor_subject l \<noteq> subject p \<and> \<not> is_admin p then Inl (err_result ''forbidden'') else Inr l)"

definition active_lease :: "workspace_state \<Rightarrow> principal \<Rightarrow> str \<Rightarrow> json + workspace_lease_row" where
  "active_lease s p lease_id = and_then (own_lease s p lease_id)
     (\<lambda>l. if wl_status l \<noteq> ''active'' then Inl (err_result ''Workspace lease is not active'') else Inr l)"

definition heartbeat_workspace_lease ::
  "time \<Rightarrow> workspace_state \<Rightarrow> principal \<Rightarrow> json \<Rightarrow> workspace_state \<times> json" where
  "heartbeat_workspace_lease now s p args =
     (case active_lease s p (str_arg args ''lease_id'') of
        Inl e \<Rightarrow> (s, e)
      | Inr l \<Rightarrow>
          let expires = now + secs (wl_lease_seconds l) in
          (s\<lparr>wk_leases := update_where (by_key wl_id (wl_id l))
               (\<lambda>r. r\<lparr>wl_last_heartbeat_at := now, wl_expires_at := expires, wl_updated_at := now\<rparr>) (wk_leases s)\<rparr>,
           ok_result (JObj [(''lease'', JObj [(''id'', JStr (wl_id l)), (''status'', JStr (wl_status l)),
             (''last_heartbeat_at'', JNum now), (''expires_at'', JNum expires)])])))"

definition release_mission_workspace ::
  "time \<Rightarrow> workspace_state \<Rightarrow> principal \<Rightarrow> json \<Rightarrow> workspace_state \<times> json" where
  "release_mission_workspace now s p args =
     (case own_lease s p (str_arg args ''lease_id'') of
        Inl e \<Rightarrow> (s, e)
      | Inr l \<Rightarrow>
          if wl_status l = ''released'' \<or> wl_status l = ''expired''
          then (s, ok_result (JObj [(''lease'', lease_row_to_json l)]))
          else
            let reason = str_arg args ''reason'' in
            (s\<lparr>wk_leases := update_where (by_key wl_id (wl_id l))
                 (\<lambda>r. r\<lparr>wl_status := ''released'', wl_release_reason := reason, wl_released_at := Some now,
                        wl_updated_at := now\<rparr>) (wk_leases s)\<rparr>,
             ok_result (JObj [(''lease'', JObj [(''id'', JStr (wl_id l)), (''status'', JStr ''released''),
               (''release_reason'', JStr reason), (''released_at'', JNum now)])])))"

text \<open>decoded_size: the number of bytes a base64 text decodes to, when it does.\<close>

definition fetch_workspace_artifact ::
  "(str \<Rightarrow> int option) \<Rightarrow> workspace_state \<Rightarrow> principal \<Rightarrow> json \<Rightarrow> json" where
  "fetch_workspace_artifact decoded_size s p args =
     (let lease_id = str_arg args ''lease_id''; artifact_id = as_i32 (opt_or 0 (int_arg args ''artifact_id'')) in
      if lease_id = [] then err_result ''lease_id is required''
      else if artifact_id \<le> 0 then err_result ''artifact_id is required''
      else case active_lease s p lease_id of
        Inl e \<Rightarrow> e
      | Inr l \<Rightarrow>
          (case lookup ar_id artifact_id (ds_artifacts (wk_store s)) of
             None \<Rightarrow> err_result ''Artifact not found''
           | Some a \<Rightarrow>
               if ar_mission_id a \<noteq> wl_mission_id l then err_result ''Artifact is outside lease mission scope''
               else if str_arg_or args ''mode'' ''content'' = ''content'' then
                 (if ar_storage_backend a = ''s3'' then err_result ''S3 artifact content fetch requires Python API''
                  else case ar_content_b64 a of
                    Some b64 \<Rightarrow>
                      if b64 \<noteq> [] then ok_result (JObj
                        [(''artifact_id'', JNum artifact_id), (''mode'', JStr ''content''), (''mime_type'', JStr (ar_mime_type a)),
                         (''size_bytes'', JNum (opt_or 0 (decoded_size b64))), (''content_b64'', JStr b64)])
                      else err_result ''Artifact does not have retrievable inline content''
                  | None \<Rightarrow> err_result ''Artifact does not have retrievable inline content'')
               else if ar_storage_backend a \<noteq> ''s3''
               then err_result ''Artifact is not S3-backed - use content mode or Python API for download URL''
               else err_result ''S3 presigned URL generation requires Python API''))"

section \<open>The commit\<close>

text \<open>The columns of ledgerevent an INSERT must give: they are NOT NULL and have no default (only id has one).\<close>

definition ledger_required :: "str list" where
  "ledger_required = [''event_id'', ''entity_type'', ''entity_id'', ''action'', ''payload_json'', ''state'',
     ''created_by_subject'', ''attempt_count'', ''last_error'', ''git_commit'', ''git_path'', ''created_at'', ''updated_at'']"

definition insert_ledger :: "str list \<Rightarrow> ledger_row \<Rightarrow> workspace_state \<Rightarrow> workspace_state option" where
  "insert_ledger columns r s =
     (if list_all (\<lambda>c. c \<in> set columns) ledger_required
      then Some (s\<lparr>wk_ledger := insert_row (r\<lparr>le_id := wk_ledger_seq s\<rparr>) (wk_ledger s), wk_ledger_seq := wk_ledger_seq s + 1\<rparr>)
      else None)"

definition commit_event_columns :: "str list" where
  "commit_event_columns = [''event_id'', ''domain_id'', ''mission_id'', ''entity_type'', ''entity_id'', ''action'',
     ''payload_json'', ''state'', ''created_by_subject'', ''created_at'', ''updated_at'']"

text \<open>The result of the statement is dropped; a refused row leaves a gap in the sequence.\<close>

definition enqueue_event ::
  "time \<Rightarrow> str \<Rightarrow> principal \<Rightarrow> workspace_lease_row \<Rightarrow> str \<Rightarrow> str \<Rightarrow> workspace_state \<Rightarrow> workspace_state" where
  "enqueue_event now event_id p l entity_type entity_id s =
     (case insert_ledger commit_event_columns
        \<lparr>le_id = 0, le_event_id = event_id, le_domain_id = Some (wl_domain_id l), le_mission_id = Some (wl_mission_id l),
         le_entity_type = entity_type, le_entity_id = entity_id, le_action = ''workspace_commit'', le_payload_json = ''{}'',
         le_state = ''pending'', le_created_by_subject = subject p, le_git_commit = [], le_git_path = [],
         le_published_at = None, le_created_at = now, le_updated_at = now\<rparr> s of
        Some s' \<Rightarrow> s' | None \<Rightarrow> s\<lparr>wk_ledger_seq := wk_ledger_seq s + 1\<rparr>)"

definition set_text :: "json \<Rightarrow> str \<Rightarrow> (str \<Rightarrow> 'r \<Rightarrow> 'r) \<Rightarrow> 'r \<Rightarrow> 'r" where
  "set_text j k put r = (case jfield_str k j of Some v \<Rightarrow> put v r | None \<Rightarrow> r)"

definition names_field :: "json \<Rightarrow> str list \<Rightarrow> bool" where
  "names_field j ks = list_ex (\<lambda>k. jfield_str k j \<noteq> None) ks"

definition commit_doc_row :: "time \<Rightarrow> json \<Rightarrow> doc_row \<Rightarrow> doc_row \<Rightarrow> doc_row" where
  "commit_doc_row now change seen r =
     (let r1 = r\<lparr>doc_version := as_i32 (doc_version seen + 1), doc_updated_at := now\<rparr> in
      set_text change ''status'' (\<lambda>v r. r\<lparr>doc_status := v\<rparr>)
        (set_text change ''doc_type'' (\<lambda>v r. r\<lparr>doc_doc_type := v\<rparr>)
          (set_text change ''title'' (\<lambda>v r. r\<lparr>doc_title := v\<rparr>)
            (set_text change ''content'' (\<lambda>v r. r\<lparr>doc_body := v\<rparr>) r1))))"

definition change_fields :: "json \<Rightarrow> json" where
  "change_fields change = (case jget ''fields'' change of Some f \<Rightarrow> f | None \<Rightarrow> JNull)"

definition artifact_fields :: "str list" where
  "artifact_fields = [''name'', ''artifact_type'', ''uri'', ''storage_backend'', ''content_sha256'', ''mime_type'', ''status'', ''provenance'']"

definition commit_artifact_row :: "time \<Rightarrow> json \<Rightarrow> artifact_row \<Rightarrow> artifact_row \<Rightarrow> artifact_row" where
  "commit_artifact_row now given seen r =
     (let r1 = r\<lparr>ar_version := as_i32 (ar_version seen + 1), ar_updated_at := now\<rparr>;
          r2 = set_text given ''uri'' (\<lambda>v r. r\<lparr>ar_uri := v\<rparr>)
                 (set_text given ''artifact_type'' (\<lambda>v r. r\<lparr>ar_artifact_type := v\<rparr>)
                   (set_text given ''name'' (\<lambda>v r. r\<lparr>ar_name := v\<rparr>) r1));
          r3 = set_text given ''mime_type'' (\<lambda>v r. r\<lparr>ar_mime_type := v\<rparr>)
                 (set_text given ''content_sha256'' (\<lambda>v r. r\<lparr>ar_content_sha256 := v\<rparr>)
                   (set_text given ''storage_backend'' (\<lambda>v r. r\<lparr>ar_storage_backend := v\<rparr>) r2)) in
      set_text given ''provenance'' (\<lambda>v r. r\<lparr>ar_provenance := v\<rparr>)
        (set_text given ''status'' (\<lambda>v r. r\<lparr>ar_status := v\<rparr>) r3))"

definition applied_json :: "str \<Rightarrow> int \<Rightarrow> int \<Rightarrow> json" where
  "applied_json kind i version = JObj
     [(''entity_type'', JStr kind), (''entity_id'', JNum i), (''version'', JNum version)]"

text \<open>One change: what is written and reported, or None where the loop goes on to the next change at once.\<close>

definition apply_change ::
  "time \<Rightarrow> workspace_lease_row \<Rightarrow> json \<Rightarrow> doc_store \<Rightarrow> (doc_store \<times> json list) option" where
  "apply_change now l change s =
     (let entity_type = text_or [] ''entity_type'' change; entity_id = text_or [] ''entity_id'' change in
      if entity_type = ''doc'' then
        (case parse_i32 entity_id of
           None \<Rightarrow> None
         | Some i \<Rightarrow>
             (case fetch_optional (\<lambda>r. tand (by_key doc_id i r) (by_key doc_mission_id (wl_mission_id l) r)) (ds_docs s) of
                None \<Rightarrow> None
              | Some seen \<Rightarrow>
                  if \<not> names_field change [''content'', ''title'', ''doc_type'', ''status''] then None
                  else Some (s\<lparr>ds_docs := update_where (by_key doc_id i) (commit_doc_row now change seen) (ds_docs s)\<rparr>,
                             [applied_json ''doc'' i (as_i32 (doc_version seen + 1))])))
      else if entity_type = ''artifact'' then
        (case parse_i32 entity_id of
           None \<Rightarrow> None
         | Some i \<Rightarrow>
             (case fetch_optional (\<lambda>r. tand (by_key ar_id i r) (by_key ar_mission_id (wl_mission_id l) r)) (ds_artifacts s) of
                None \<Rightarrow> None
              | Some seen \<Rightarrow>
                  let given = change_fields change in
                  Some (if names_field given artifact_fields
                        then s\<lparr>ds_artifacts := update_where (by_key ar_id i) (commit_artifact_row now given seen) (ds_artifacts s)\<rparr>
                        else s,
                        [applied_json ''artifact'' i (as_i32 (ar_version seen + 1))])))
      else Some (s, []))"

fun commit_changes ::
  "time \<Rightarrow> (nat \<Rightarrow> str) \<Rightarrow> principal \<Rightarrow> workspace_lease_row \<Rightarrow> nat \<Rightarrow> json list \<Rightarrow> workspace_state \<Rightarrow> workspace_state \<times> json list" where
  "commit_changes now draws p l n [] s = (s, [])"
| "commit_changes now draws p l n (change # changes) s =
     (case apply_change now l change (wk_store s) of
        None \<Rightarrow> commit_changes now draws p l n changes s
      | Some (store, out) \<Rightarrow>
          let s1 = enqueue_event now (draws n) p l (text_or [] ''entity_type'' change) (text_or [] ''entity_id'' change)
                     (s\<lparr>wk_store := store\<rparr>);
              (s2, rest) = commit_changes now draws p l (Suc n) changes s1 in
          (s2, out @ rest))"

definition commit_mission_workspace ::
  "time \<Rightarrow> (nat \<Rightarrow> str) \<Rightarrow> workspace_state \<Rightarrow> principal \<Rightarrow> json \<Rightarrow> workspace_state \<times> json" where
  "commit_mission_workspace now draws s p args =
     (if str_arg args ''lease_id'' = [] then (s, err_result ''lease_id is required'')
      else case jget ''change_set'' args of
        Some (JList (c # cs)) \<Rightarrow>
          (case active_lease s p (str_arg args ''lease_id'') of
             Inl e \<Rightarrow> (s, e)
           | Inr l \<Rightarrow>
               let (s', applied) = commit_changes now draws p l 0 (c # cs) s in
               (s', ok_result (JObj
                 [(''applied_count'', JNum (int (length applied))), (''applied'', JList applied),
                  (''workspace_snapshot'', build_workspace_snapshot (wk_store s') (wl_domain_id l) (wl_mission_id l))])))
      | _ \<Rightarrow> (s, err_result ''change_set must be a non-empty array''))"

definition tool_domain_northstar :: "db \<Rightarrow> principal \<Rightarrow> json \<Rightarrow> json" where
  "tool_domain_northstar d p args =
     (let domain_id = str_arg args ''domain_id'' in
      if domain_id = [] then err_result ''domain_id is required''
      else case mcp_authz_domain d p domain_id of
        Inl e \<Rightarrow> e
      | Inr _ \<Rightarrow>
          (case lookup d_id domain_id (domains d) of
             Some r \<Rightarrow> ok_result (JObj [(''domain_id'', JStr domain_id), (''content'', JStr (d_northstar_md r)),
                        (''version'', JNum (d_northstar_version r))])
           | None \<Rightarrow> err_result (''domain '' @ [CHR 0x27] @ domain_id @ [CHR 0x27] @ '' not found'')))"

end
