(* ===== verification/Presign.thy ===== *)
theory Presign
  imports Workspaces
begin

text \<open>
  Presigned object-storage URLs (get_artifact_download_url of routes/mcp.rs): percent encoding, the signing key and the
  request that is signed. SHA-256, HMAC and the hexadecimal printer are arguments, as are the two printed forms of
  the current time; a text stands for its bytes.
\<close>

section \<open>Percent encoding\<close>

definition unreserved :: "char \<Rightarrow> bool" where
  "unreserved c = (let n = of_char c :: nat in
     65 \<le> n \<and> n \<le> 90 \<or> 97 \<le> n \<and> n \<le> 122 \<or> 48 \<le> n \<and> n \<le> 57 \<or> c \<in> {CHR ''-'', CHR ''_'', CHR ''.'', CHR ''~''})"

definition upper_hex :: "nat \<Rightarrow> char" where
  "upper_hex n = (if n < 10 then char_of (48 + n) else char_of (55 + n))"

definition encode_byte :: "char \<Rightarrow> str" where
  "encode_byte c = (if unreserved c then [c] else let n = of_char c :: nat in [CHR ''%'', upper_hex (n div 16), upper_hex (n mod 16)])"

definition uri_encode :: "str \<Rightarrow> str" where
  "uri_encode s = concat (map encode_byte s)"

definition uri_encode_path :: "str \<Rightarrow> str" where
  "uri_encode_path s = join_with (CHR ''/'') (map uri_encode (split_on (CHR ''/'') s))"

section \<open>The URL\<close>

record object_storage =
  os_endpoint :: str
  os_region :: str
  os_access_key :: str
  os_secret_key :: str
  os_secure :: "str option"

record signer =
  sg_sha256_hex :: "str \<Rightarrow> str"
  sg_hmac :: "str \<Rightarrow> str \<Rightarrow> str"
  sg_hex :: "str \<Rightarrow> str"

definition sigv4_signing_key :: "signer \<Rightarrow> str \<Rightarrow> str \<Rightarrow> str \<Rightarrow> str \<Rightarrow> str" where
  "sigv4_signing_key g secret date region service =
     sg_hmac g (sg_hmac g (sg_hmac g (sg_hmac g (''AWS4'' @ secret) date) region) service) ''aws4_request''"

fun strip_all_prefix :: "nat \<Rightarrow> str \<Rightarrow> str \<Rightarrow> str" where
  "strip_all_prefix 0 p s = s"
| "strip_all_prefix (Suc n) p s = (case strip_prefix p s of Some r \<Rightarrow> strip_all_prefix n p r | None \<Rightarrow> s)"

text \<open>trim_start_matches takes a prefix off as often as it is there, at most as often as there are characters.\<close>

definition bare_endpoint :: "str \<Rightarrow> str" where
  "bare_endpoint e =
     (let a = strip_all_prefix (length e) ''https://'' e; b = strip_all_prefix (length a) ''http://'' a in
      rev (dropWhile (\<lambda>c. c = CHR ''/'') (rev b)))"

text \<open>Host, the path that is signed, the path of the URL.\<close>

definition s3_location :: "object_storage \<Rightarrow> str \<Rightarrow> str \<Rightarrow> str \<times> str \<times> str" where
  "s3_location os bucket key =
     (if os_endpoint os = []
      then (bucket @ ''.s3.'' @ os_region os @ ''.amazonaws.com'', ''/'' @ uri_encode_path key, ''/'' @ key)
      else (bare_endpoint (os_endpoint os), ''/'' @ uri_encode_path bucket @ ''/'' @ uri_encode_path key,
            ''/'' @ bucket @ ''/'' @ key))"

definition lines_of :: "str list \<Rightarrow> str" where
  "lines_of xs = join_with (CHR 0x0A) xs"

text \<open>The parameters are written in the order that sorting gives them.\<close>

definition query_text :: "(str \<times> str) list \<Rightarrow> str" where
  "query_text ps = join_with (CHR ''&'') (map (\<lambda>(k, v). uri_encode k @ ''='' @ uri_encode v) ps)"

definition presigned_url ::
  "signer \<Rightarrow> object_storage \<Rightarrow> str \<Rightarrow> str \<Rightarrow> (int \<Rightarrow> str) \<Rightarrow> int \<Rightarrow> str \<Rightarrow> str \<Rightarrow> str" where
  "presigned_url g os date_stamp amz_date show expires bucket key =
     (case s3_location os bucket key of (host, canonical_path, url_path) \<Rightarrow>
        let scope = date_stamp @ ''/'' @ os_region os @ ''/s3/aws4_request'';
            qs = query_text [(''X-Amz-Algorithm'', ''AWS4-HMAC-SHA256''), (''X-Amz-Credential'', os_access_key os @ ''/'' @ scope),
                   (''X-Amz-Date'', amz_date), (''X-Amz-Expires'', show expires), (''X-Amz-SignedHeaders'', ''host'')];
            request = lines_of [''GET'', canonical_path, qs, ''host:'' @ host, [], ''host'', ''UNSIGNED-PAYLOAD''];
            to_sign = lines_of [''AWS4-HMAC-SHA256'', amz_date, scope, sg_sha256_hex g request];
            signature = sg_hex g (sg_hmac g (sigv4_signing_key g (os_secret_key os) date_stamp (os_region os) ''s3'') to_sign);
            scheme = (case os_secure os of Some v \<Rightarrow> if to_lowercase v = ''false'' \<or> v = ''0'' then ''http'' else ''https'' | None \<Rightarrow> ''https'') in
        scheme @ ''://'' @ host @ url_path @ ''?'' @ qs @ ''&X-Amz-Signature='' @ signature)"

fun split_first :: "char \<Rightarrow> str \<Rightarrow> (str \<times> str) option" where
  "split_first d [] = None"
| "split_first d (c # s) = (if c = d then Some ([], s) else map_option (\<lambda>(a, b). (c # a, b)) (split_first d s))"

definition s3_target :: "str \<Rightarrow> json + (str \<times> str)" where
  "s3_target uri =
     (case strip_prefix ''s3://'' uri of
        None \<Rightarrow> Inl (err_result ''uri must be an s3:// URI'')
      | Some rest \<Rightarrow>
          (case split_first (CHR ''/'') rest of
             Some (b, k) \<Rightarrow> if b \<noteq> [] \<and> k \<noteq> [] then Inr (b, k) else Inl (err_result ''invalid s3 URI'')
           | None \<Rightarrow> Inl (err_result ''invalid s3 URI'')))"

definition presign_artifact ::
  "signer \<Rightarrow> object_storage \<Rightarrow> str \<Rightarrow> str \<Rightarrow> (int \<Rightarrow> str) \<Rightarrow> doc_store \<Rightarrow> principal \<Rightarrow> json \<Rightarrow> json" where
  "presign_artifact g os date_stamp amz_date show s p args =
     (let artifact_id = as_i32 (opt_or 0 (int_arg args ''artifact_id''));
          expires = clamp_secs 1 3600 (opt_or 60 (int_arg args ''expires_seconds'')) in
      if artifact_id \<le> 0 then err_result ''artifact_id is required''
      else if \<not> db_up (ds_db s) then err_result ''database_error''
      else case lookup ar_id artifact_id (ds_artifacts s) of
        None \<Rightarrow> err_result ''Artifact not found''
      | Some a \<Rightarrow>
          (case domain_id_for_mission (ds_db s) (ar_mission_id a) of
             Inl _ \<Rightarrow> err_result ''Artifact mission not found''
           | Inr domain_id \<Rightarrow>
               (case mcp_authz_domain (ds_db s) p domain_id of
                  Inl e \<Rightarrow> e
                | Inr _ \<Rightarrow>
                    if ar_storage_backend a \<noteq> ''s3'' \<or> \<not> starts_with ''s3://'' (ar_uri a)
                    then err_result ''Artifact does not have retrievable S3-backed content''
                    else case s3_target (ar_uri a) of
                      Inl e \<Rightarrow> e
                    | Inr (bucket, key) \<Rightarrow>
                        if os_access_key os = [] \<or> os_secret_key os = []
                        then err_result ''object storage not configured (missing access key or secret)''
                        else ok_result (JObj [(''url'', JStr (presigned_url g os date_stamp amz_date show expires bucket key)),
                                              (''expires_seconds'', JNum expires)]))))"

end
