(* ===== verification/Publication.thy ===== *)
theory Publication
  imports Workspaces
begin

text \<open>
  Publication of ledger events to git (routes/persistence.rs and the publication tools of routes/mcp.rs):
  connections, bindings, the policy and the routes of a domain, the plan that picks a branch and a path, and the two
  publishers. Git, the temporary directory and the environment variables are an argument: what each command
  answered. The printers of JSON text and of a time are arguments.
\<close>

section \<open>Rows\<close>

record repo_connection_row =
  cn_id :: int
  cn_owner_subject :: str
  cn_name :: str
  cn_provider :: str
  cn_host :: str
  cn_repo_path :: str
  cn_default_branch :: str
  cn_credential_ref :: str
  cn_options_json :: str
  cn_created_at :: time
  cn_updated_at :: time

record repo_binding_row =
  bd_id :: int
  bd_owner_subject :: str
  bd_name :: str
  bd_connection_id :: int
  bd_branch_override :: str
  bd_base_path :: str
  bd_active :: bool
  bd_created_at :: time
  bd_updated_at :: time

record persistence_policy_row =
  po_id :: int
  po_domain_id :: str
  po_default_binding_id :: "int option"
  po_fallback_mode :: str
  po_require_approval :: bool
  po_created_at :: time
  po_updated_at :: time

record persistence_route_row =
  rt_id :: int
  rt_domain_id :: str
  rt_entity_kind :: str
  rt_event_kind :: str
  rt_binding_id :: int
  rt_branch_override :: str
  rt_path_template :: str
  rt_format :: str
  rt_active :: bool
  rt_created_at :: time
  rt_updated_at :: time

record publication_row =
  pb_id :: int
  pb_owner_subject :: str
  pb_domain_id :: "str option"
  pb_ledger_event_id :: "int option"
  pb_entity_kind :: str
  pb_entity_id :: str
  pb_event_kind :: str
  pb_binding_id :: int
  pb_repo_url :: str
  pb_branch :: str
  pb_file_path :: str
  pb_commit_sha :: str
  pb_status :: str
  pb_error :: str
  pb_detail_json :: str
  pb_created_at :: time
  pb_updated_at :: time

text \<open>A table with the sequence of its numbers.\<close>

record 'r serial_table =
  nb_rows :: "'r table"
  nb_next :: int

record publish_state =
  pz_work :: workspace_state
  pz_connections :: "repo_connection_row serial_table"
  pz_bindings :: "repo_binding_row serial_table"
  pz_policies :: "persistence_policy_row serial_table"
  pz_routes :: "persistence_route_row serial_table"
  pz_records :: "publication_row serial_table"

abbreviation pz_db :: "publish_state \<Rightarrow> db" where
  "pz_db s \<equiv> wk_db (pz_work s)"

abbreviation pz_ledger :: "publish_state \<Rightarrow> ledger_row table" where
  "pz_ledger s \<equiv> wk_ledger (pz_work s)"

text \<open>An INSERT with the next number, and one that on a taken key updates the row there; both use a number up.\<close>

definition numbered_insert :: "(int \<Rightarrow> 'r) \<Rightarrow> 'r serial_table \<Rightarrow> ('r serial_table \<times> 'r) option" where
  "numbered_insert mk t =
     (if max_i32 < nb_next t then None
      else Some (\<lparr>nb_rows = insert_row (mk (nb_next t)) (nb_rows t), nb_next = nb_next t + 1\<rparr>, mk (nb_next t)))"

definition numbered_upsert ::
  "('r \<Rightarrow> tri) \<Rightarrow> ('r \<Rightarrow> 'r) \<Rightarrow> (int \<Rightarrow> 'r) \<Rightarrow> 'r serial_table \<Rightarrow> ('r serial_table \<times> 'r) option" where
  "numbered_upsert taken upd mk t =
     (case fetch_optional taken (nb_rows t) of
        None \<Rightarrow> numbered_insert mk t
      | Some r \<Rightarrow>
          if max_i32 < nb_next t then None
          else Some (\<lparr>nb_rows = update_where taken upd (nb_rows t), nb_next = nb_next t + 1\<rparr>, upd r))"

definition numbered_delete :: "('r \<Rightarrow> tri) \<Rightarrow> 'r serial_table \<Rightarrow> 'r serial_table" where
  "numbered_delete c t = t\<lparr>nb_rows := delete_where c (nb_rows t)\<rparr>"

definition is_domain_owner :: "db \<Rightarrow> principal \<Rightarrow> str \<Rightarrow> bool" where
  "is_domain_owner d p domain_id =
     (if is_admin p then True
      else db_up d \<and> (case lookup d_id domain_id (domains d) of
        Some r \<Rightarrow> in_list (to_lowercase (subject p)) (d_owners r) | None \<Rightarrow> False))"

section \<open>Connections and bindings\<close>

definition row_to_connection :: "repo_connection_row \<Rightarrow> json" where
  "row_to_connection r = JObj
     [(''id'', JNum (cn_id r)), (''owner_subject'', JStr (cn_owner_subject r)), (''name'', JStr (cn_name r)),
      (''provider'', JStr (cn_provider r)), (''host'', JStr (cn_host r)), (''repo_path'', JStr (cn_repo_path r)),
      (''default_branch'', JStr (cn_default_branch r)), (''credential_ref'', JStr (cn_credential_ref r)),
      (''options_json'', JStr (cn_options_json r)), (''created_at'', JNum (cn_created_at r)),
      (''updated_at'', JNum (cn_updated_at r))]"

definition row_to_binding :: "repo_binding_row \<Rightarrow> json" where
  "row_to_binding r = JObj
     [(''id'', JNum (bd_id r)), (''owner_subject'', JStr (bd_owner_subject r)), (''name'', JStr (bd_name r)),
      (''connection_id'', JNum (bd_connection_id r)), (''branch_override'', JStr (bd_branch_override r)),
      (''base_path'', JStr (bd_base_path r)), (''active'', JBool (bd_active r)), (''created_at'', JNum (bd_created_at r)),
      (''updated_at'', JNum (bd_updated_at r))]"

definition list_connections :: "publish_state \<Rightarrow> principal \<Rightarrow> json res" where
  "list_connections s p =
     (if \<not> db_up (pz_db s) then Inl internal_error
      else Inr (JList (map row_to_connection (sort_key (\<lambda>r. - cn_updated_at r)
             (select_where (by_key cn_owner_subject (subject p)) (nb_rows (pz_connections s)))))))"

definition list_bindings :: "publish_state \<Rightarrow> principal \<Rightarrow> json res" where
  "list_bindings s p =
     (if \<not> db_up (pz_db s) then Inl internal_error
      else Inr (JList (map row_to_binding (sort_key (\<lambda>r. - bd_updated_at r)
             (select_where (by_key bd_owner_subject (subject p)) (nb_rows (pz_bindings s)))))))"

text \<open>The unique constraint (owner_subject, name) refuses a second row of the name.\<close>

definition create_connection :: "time \<Rightarrow> publish_state \<Rightarrow> principal \<Rightarrow> json \<Rightarrow> publish_state \<times> json res" where
  "create_connection now s p payload =
     (let name = trim (text_or [] ''name'' payload); repo_path = trim (text_or [] ''repo_path'' payload) in
      if name = [] \<or> repo_path = [] then (s, Inl (bad_request ''name and repo_path are required''))
      else if \<not> db_up (pz_db s)
           \<or> list_ex (\<lambda>r. cn_owner_subject r = subject p \<and> cn_name r = name) (nb_rows (pz_connections s))
      then (s, Inl internal_error)
      else case numbered_insert (\<lambda>i.
          \<lparr>cn_id = i, cn_owner_subject = subject p, cn_name = name, cn_provider = trim (text_or ''github_app'' ''provider'' payload),
           cn_host = trim (text_or ''github.com'' ''host'' payload), cn_repo_path = repo_path,
           cn_default_branch = trim (text_or ''main'' ''default_branch'' payload),
           cn_credential_ref = trim (text_or [] ''credential_ref'' payload),
           cn_options_json = text_or ''{}'' ''options_json'' payload, cn_created_at = now, cn_updated_at = now\<rparr>)
          (pz_connections s) of
        None \<Rightarrow> (s, Inl internal_error)
      | Some (t, r) \<Rightarrow> (s\<lparr>pz_connections := t\<rparr>, Inr (row_to_connection r)))"

definition trim_slashes :: "str \<Rightarrow> str" where
  "trim_slashes s = rev (dropWhile (\<lambda>c. c = CHR ''/'') (rev (dropWhile (\<lambda>c. c = CHR ''/'') s)))"

definition create_binding :: "time \<Rightarrow> publish_state \<Rightarrow> principal \<Rightarrow> json \<Rightarrow> publish_state \<times> json res" where
  "create_binding now s p payload =
     (let name = trim (text_or [] ''name'' payload);
          connection_id = as_i32 (opt_or 0 (jfield_i64 ''connection_id'' payload)) in
      if name = [] \<or> connection_id \<le> 0 then (s, Inl (bad_request ''name and connection_id are required''))
      else if \<not> db_up (pz_db s) then (s, Inl internal_error)
      else case lookup cn_id connection_id (nb_rows (pz_connections s)) of
        None \<Rightarrow> (s, Inl (not_found ''connection not found''))
      | Some c \<Rightarrow>
          if cn_owner_subject c \<noteq> subject p \<and> \<not> is_admin p then (s, Inl (not_found ''connection not found''))
          else if list_ex (\<lambda>r. bd_owner_subject r = subject p \<and> bd_name r = name) (nb_rows (pz_bindings s))
          then (s, Inl internal_error)
          else case numbered_insert (\<lambda>i.
              \<lparr>bd_id = i, bd_owner_subject = subject p, bd_name = name, bd_connection_id = connection_id,
               bd_branch_override = trim (text_or [] ''branch_override'' payload),
               bd_base_path = trim_slashes (trim (text_or ''domains'' ''base_path'' payload)),
               bd_active = opt_or True (jfield_bool ''active'' payload), bd_created_at = now, bd_updated_at = now\<rparr>)
              (pz_bindings s) of
            None \<Rightarrow> (s, Inl internal_error)
          | Some (t, r) \<Rightarrow> (s\<lparr>pz_bindings := t\<rparr>, Inr (row_to_binding r)))"

section \<open>The policy of a domain\<close>

definition row_to_persistence_policy :: "persistence_policy_row \<Rightarrow> json" where
  "row_to_persistence_policy r = JObj
     [(''id'', JNum (po_id r)), (''domain_id'', JStr (po_domain_id r)),
      (''default_binding_id'', jopt JNum (po_default_binding_id r)), (''fallback_mode'', JStr (po_fallback_mode r)),
      (''require_approval'', JBool (po_require_approval r)), (''created_at'', JNum (po_created_at r)),
      (''updated_at'', JNum (po_updated_at r))]"

definition row_to_route :: "persistence_route_row \<Rightarrow> json" where
  "row_to_route r = JObj
     [(''id'', JNum (rt_id r)), (''domain_id'', JStr (rt_domain_id r)), (''entity_kind'', JStr (rt_entity_kind r)),
      (''event_kind'', JStr (rt_event_kind r)), (''binding_id'', JNum (rt_binding_id r)),
      (''branch_override'', JStr (rt_branch_override r)), (''path_template'', JStr (rt_path_template r)),
      (''format'', JStr (rt_format r)), (''active'', JBool (rt_active r)), (''created_at'', JNum (rt_created_at r)),
      (''updated_at'', JNum (rt_updated_at r))]"

definition active_routes :: "publish_state \<Rightarrow> str \<Rightarrow> persistence_route_row list" where
  "active_routes s domain_id =
     sort_key rt_id (select_where (\<lambda>r. tand (by_key rt_domain_id domain_id r) (tbool (rt_active r))) (nb_rows (pz_routes s)))"

definition get_policy :: "publish_state \<Rightarrow> principal \<Rightarrow> str \<Rightarrow> json res" where
  "get_policy s p domain_id =
     (if \<not> is_domain_owner (pz_db s) p domain_id then Inl (forbidden [])
      else if \<not> db_up (pz_db s) then Inl internal_error
      else Inr (JObj [(''policy'', jopt row_to_persistence_policy (lookup po_domain_id domain_id (nb_rows (pz_policies s)))),
                      (''routes'', JList (map row_to_route (active_routes s domain_id)))]))"

definition upsert_policy ::
  "time \<Rightarrow> str \<Rightarrow> int option \<Rightarrow> str \<Rightarrow> bool \<Rightarrow> persistence_policy_row serial_table \<Rightarrow> persistence_policy_row serial_table option" where
  "upsert_policy now domain_id binding_id fallback approval t =
     map_option fst (numbered_upsert (by_key po_domain_id domain_id)
       (\<lambda>r. r\<lparr>po_default_binding_id := binding_id, po_fallback_mode := fallback, po_require_approval := approval, po_updated_at := now\<rparr>)
       (\<lambda>i. \<lparr>po_id = i, po_domain_id = domain_id, po_default_binding_id = binding_id, po_fallback_mode = fallback,
             po_require_approval = approval, po_created_at = now, po_updated_at = now\<rparr>) t)"

definition default_template :: str where
  "default_template = ''domains/{domain_id}/{entity_kind}/{entity_id}.json''"

definition route_row ::
  "time \<Rightarrow> str \<Rightarrow> str \<Rightarrow> str \<Rightarrow> int \<Rightarrow> str \<Rightarrow> json \<Rightarrow> int \<Rightarrow> persistence_route_row" where
  "route_row now domain_id entity_kind event_kind binding_id branch item i =
     \<lparr>rt_id = i, rt_domain_id = domain_id, rt_entity_kind = entity_kind, rt_event_kind = event_kind,
      rt_binding_id = binding_id, rt_branch_override = branch, rt_path_template = text_or default_template ''path_template'' item,
      rt_format = text_or ''json_v1'' ''format'' item, rt_active = opt_or True (jfield_bool ''active'' item),
      rt_created_at = now, rt_updated_at = now\<rparr>"

definition json_items :: "str \<Rightarrow> json \<Rightarrow> json list" where
  "json_items k j = (case jget k j of Some (JList xs) \<Rightarrow> xs | _ \<Rightarrow> [])"

text \<open>The routes of put_policy one after the other; an item without an entity kind is passed over.\<close>

fun put_routes ::
  "time \<Rightarrow> str \<Rightarrow> json list \<Rightarrow> persistence_route_row serial_table \<Rightarrow> persistence_route_row serial_table \<times> bool" where
  "put_routes now domain_id [] t = (t, True)"
| "put_routes now domain_id (item # items) t =
     (let entity_kind = trim (text_or [] ''entity_kind'' item) in
      if entity_kind = [] then put_routes now domain_id items t
      else case numbered_insert (route_row now domain_id entity_kind (trim (text_or [] ''event_kind'' item))
                  (as_i32 (opt_or 0 (jfield_i64 ''binding_id'' item))) (trim (text_or [] ''branch_override'' item)) item) t of
        None \<Rightarrow> (t, False)
      | Some (t', _) \<Rightarrow> put_routes now domain_id items t')"

definition put_policy :: "time \<Rightarrow> publish_state \<Rightarrow> principal \<Rightarrow> str \<Rightarrow> json \<Rightarrow> publish_state \<times> json res" where
  "put_policy now s p domain_id payload =
     (if \<not> is_domain_owner (pz_db s) p domain_id then (s, Inl (forbidden []))
      else if \<not> db_up (pz_db s) then (s, Inl internal_error)
      else case upsert_policy now domain_id (map_option as_i32 (jfield_i64 ''default_binding_id'' payload))
                  (text_or ''fail_closed'' ''fallback_mode'' payload) (opt_or False (jfield_bool ''require_approval'' payload))
                  (pz_policies s) of
        None \<Rightarrow> (s, Inl internal_error)
      | Some ps \<Rightarrow>
          let cleared = numbered_delete (by_key rt_domain_id domain_id) (pz_routes s);
              (rs, done_all) = put_routes now domain_id (json_items ''routes'' payload) cleared in
          (s\<lparr>pz_policies := ps, pz_routes := rs\<rparr>,
           if done_all then Inr (JObj [(''ok'', JBool True), (''domain_id'', JStr domain_id), (''updated_by'', JStr (subject p))])
           else Inl internal_error))"

section \<open>The plan\<close>

text \<open>The replacement of a text (str::replace), from the left; the pattern is not empty.\<close>

function replace_text :: "str \<Rightarrow> str \<Rightarrow> str \<Rightarrow> str" where
  "replace_text pat to [] = []"
| "replace_text pat to (c # s) =
     (case strip_prefix pat (c # s) of
        Some rest \<Rightarrow> if pat = [] then c # s else to @ replace_text pat to rest
      | None \<Rightarrow> c # replace_text pat to s)"
  by pat_completeness auto

termination
  by (relation "measure (\<lambda>(pat, to, s). length s)") (auto simp: strip_prefix_Some Cons_eq_append_conv)

definition render_path :: "str \<Rightarrow> str \<Rightarrow> str \<Rightarrow> str \<Rightarrow> str" where
  "render_path tpl domain_id entity_kind entity_id =
     replace_text ''{entity_id}'' entity_id (replace_text ''{entity_kind}'' entity_kind (replace_text ''{domain_id}'' domain_id tpl))"

definition rel_path_of :: "str \<Rightarrow> str \<Rightarrow> str \<Rightarrow> str \<Rightarrow> str \<Rightarrow> str" where
  "rel_path_of tpl domain_id entity_kind entity_id event_kind =
     dropWhile (\<lambda>c. c = CHR ''/'') (replace_text ''{event_kind}'' event_kind (render_path tpl domain_id entity_kind entity_id))"

record publish_plan_info =
  pl_binding_id :: int
  pl_binding_name :: str
  pl_provider :: str
  pl_host :: str
  pl_repo_path :: str
  pl_branch :: str
  pl_path_template :: str
  pl_rel_path :: str
  pl_format :: str
  pl_credential_ref :: str

text \<open>The matching routes, those for the event before those for any event; the plan takes the first.\<close>

definition matching_routes :: "publish_state \<Rightarrow> str \<Rightarrow> str \<Rightarrow> str \<Rightarrow> persistence_route_row list" where
  "matching_routes s domain_id entity_kind event_kind =
     (let matching = (\<lambda>ev. select_where (\<lambda>r. tand (tand (by_key rt_domain_id domain_id r) (by_key rt_entity_kind entity_kind r))
            (tand (tbool (rt_active r)) (by_key rt_event_kind ev r))) (nb_rows (pz_routes s))) in
      matching event_kind @ matching [])"

definition best_route :: "publish_state \<Rightarrow> str \<Rightarrow> str \<Rightarrow> str \<Rightarrow> persistence_route_row option" where
  "best_route s domain_id entity_kind event_kind =
     (case matching_routes s domain_id entity_kind event_kind of [] \<Rightarrow> None | r # _ \<Rightarrow> Some r)"

definition filled :: "str \<Rightarrow> str option" where
  "filled s = (if s = [] then None else Some s)"

definition quoted :: "str \<Rightarrow> str" where
  "quoted s = [CHR 0x27] @ s @ [CHR 0x27]"

text \<open>Binding, template, format and branch: from the route, else from the policy of the domain.\<close>

definition plan_source ::
  "publish_state \<Rightarrow> str \<Rightarrow> str \<Rightarrow> str \<Rightarrow> str + (int \<times> str \<times> str \<times> str option)" where
  "plan_source s domain_id entity_kind event_kind =
     (case best_route s domain_id entity_kind event_kind of
        Some r \<Rightarrow> Inr (rt_binding_id r, rt_path_template r, rt_format r, filled (rt_branch_override r))
      | None \<Rightarrow>
          (case Option.bind (lookup po_domain_id domain_id (nb_rows (pz_policies s))) po_default_binding_id of
             Some i \<Rightarrow> Inr (i, [], ''json_v1'', None)
           | None \<Rightarrow> Inl (''no persistence route/default binding for domain '' @ quoted domain_id @ '' entity '' @ quoted entity_kind
                          @ '' event '' @ quoted event_kind)))"

definition resolve_publish_plan_inner ::
  "publish_state \<Rightarrow> str \<Rightarrow> str \<Rightarrow> str \<Rightarrow> str \<Rightarrow> str \<Rightarrow> str + publish_plan_info" where
  "resolve_publish_plan_inner s owner_subject domain_id entity_kind event_kind entity_id =
     (if \<not> db_up (pz_db s) then Inl ''db_error: ''
      else case plan_source s domain_id entity_kind event_kind of
        Inl e \<Rightarrow> Inl e
      | Inr (binding_id, path_tpl, format, route_branch) \<Rightarrow>
          (case lookup bd_id binding_id (nb_rows (pz_bindings s)) of
             None \<Rightarrow> Inl (''binding '' @ quoted (show_dec binding_id) @ '' not found'')
           | Some b \<Rightarrow>
               if \<not> bd_active b \<or> bd_owner_subject b \<noteq> owner_subject
               then Inl (''binding '' @ quoted (show_dec binding_id) @ '' is not available for current principal'')
               else case lookup cn_id (bd_connection_id b) (nb_rows (pz_connections s)) of
                 None \<Rightarrow> Inl (''connection '' @ quoted (show_dec (bd_connection_id b)) @ '' not found'')
               | Some c \<Rightarrow>
                   if cn_owner_subject c \<noteq> owner_subject
                   then Inl (''connection '' @ quoted (show_dec (bd_connection_id b)) @ '' is not available for current principal'')
                   else
                     let tpl = (if path_tpl = [] then bd_base_path b @ ''/{domain_id}/'' @ entity_kind @ ''/{entity_id}.json''
                                else path_tpl) in
                     Inr \<lparr>pl_binding_id = binding_id, pl_binding_name = bd_name b, pl_provider = cn_provider c,
                          pl_host = cn_host c, pl_repo_path = cn_repo_path c,
                          pl_branch = opt_or (cn_default_branch c) (coalesce route_branch (filled (bd_branch_override b))),
                          pl_path_template = tpl, pl_rel_path = rel_path_of tpl domain_id entity_kind entity_id event_kind,
                          pl_format = format, pl_credential_ref = cn_credential_ref c\<rparr>))"

definition publish_plan :: "publish_state \<Rightarrow> principal \<Rightarrow> json \<Rightarrow> json res" where
  "publish_plan s p payload =
     (let domain_id = trim (text_or [] ''domain_id'' payload); entity_kind = trim (text_or [] ''entity_kind'' payload);
          event_kind = trim (text_or [] ''event_kind'' payload); entity_id = trim (text_or [] ''entity_id'' payload) in
      if domain_id = [] \<or> entity_kind = [] \<or> event_kind = [] \<or> entity_id = []
      then Inl (bad_request ''domain_id, entity_kind, event_kind, entity_id are required'')
      else if \<not> is_domain_owner (pz_db s) p domain_id then Inl (forbidden [])
      else case resolve_publish_plan_inner s (subject p) domain_id entity_kind event_kind entity_id of
        Inl msg \<Rightarrow> Inl (conflict msg)
      | Inr pl \<Rightarrow> Inr (JObj
          [(''domain_id'', JStr domain_id), (''entity_kind'', JStr entity_kind), (''event_kind'', JStr event_kind),
           (''entity_id'', JStr entity_id), (''binding_id'', JNum (pl_binding_id pl)), (''binding_name'', JStr (pl_binding_name pl)),
           (''provider'', JStr (pl_provider pl)), (''repo'', JStr (pl_host pl @ ''/'' @ pl_repo_path pl)),
           (''branch'', JStr (pl_branch pl)), (''path'', JStr (pl_rel_path pl)), (''format'', JStr (pl_format pl))]))"

section \<open>The publishers\<close>

text \<open>What the machine answers: environment variables, whether a temporary directory could be made, and of each git command
  whether it ran at all and then whether it succeeded.\<close>

record git_world =
  gw_var :: "str \<Rightarrow> str option"
  gw_tempdir :: bool
  gw_clone :: "str \<Rightarrow> str \<Rightarrow> bool option"
  gw_commit_ran :: bool
  gw_head :: "str option"
  gw_push :: "str \<Rightarrow> bool option"

text \<open>What a publisher did outside: the clone it asked for and the files it wrote, below the clone or, as
  Path::join has it, where a path that starts with a slash says.\<close>

datatype place = InClone str | Absolute str

definition joined :: "str \<Rightarrow> place" where
  "joined rel = (case rel of c # r \<Rightarrow> if c = CHR ''/'' then Absolute rel else InClone rel | [] \<Rightarrow> InClone rel)"

record git_effect =
  ge_clone :: "(str \<times> str) option"
  ge_files :: "(place \<times> str) list"
  ge_pushed :: bool

definition no_effect :: git_effect where
  "no_effect = \<lparr>ge_clone = None, ge_files = [], ge_pushed = False\<rparr>"

definition authed_url :: "str \<Rightarrow> str \<Rightarrow> str \<Rightarrow> str" where
  "authed_url token host repo_path =
     (if token = [] then ''https://'' @ host @ ''/'' @ repo_path
      else ''https://x-access-token:'' @ token @ ''@'' @ host @ ''/'' @ repo_path)"

definition resolve_git_url :: "(str \<Rightarrow> str option) \<Rightarrow> publish_plan_info \<Rightarrow> str" where
  "resolve_git_url var pl =
     (let r = pl_credential_ref pl;
          token = (case strip_prefix ''env:'' r of
                     Some v \<Rightarrow> opt_or [] (var v)
                   | None \<Rightarrow> if r \<noteq> [] then opt_or [] (var r) else opt_or [] (var ''GIT_PUBLISH_TOKEN'')) in
      authed_url token (pl_host pl) (pl_repo_path pl))"

definition pending_events :: "publish_state \<Rightarrow> str \<Rightarrow> nat \<Rightarrow> ledger_row list" where
  "pending_events s domain_id n =
     take n (sort_key le_created_at (select_where (\<lambda>r. tand (teq (le_domain_id r) (Some domain_id)) (by_key le_state ''pending'' r)) (pz_ledger s)))"

definition mark_published :: "time \<Rightarrow> str \<Rightarrow> str \<Rightarrow> int \<Rightarrow> publish_state \<Rightarrow> publish_state" where
  "mark_published now sha rel i s =
     s\<lparr>pz_work := (pz_work s)\<lparr>wk_ledger := update_where (by_key le_id i)
        (\<lambda>r. r\<lparr>le_state := ''published'', le_git_commit := sha, le_git_path := rel, le_published_at := Some now, le_updated_at := now\<rparr>)
        (pz_ledger s)\<rparr>\<rparr>"

definition published_answer :: "int \<Rightarrow> str \<Rightarrow> str \<Rightarrow> str \<Rightarrow> json" where
  "published_answer n sha branch url = JObj
     [(''published_count'', JNum n), (''commit_sha'', JStr sha), (''branch'', JStr branch), (''repo_url'', JStr url)]"

text \<open>The document written for an event: a payload that is neither an object nor null has no field to set, and the handler stops there.\<close>

definition event_document ::
  "(str \<Rightarrow> json option) \<Rightarrow> str \<Rightarrow> principal \<Rightarrow> str \<Rightarrow> ledger_row \<Rightarrow> json option" where
  "event_document parse_json now_text p binding_name e =
     (let stamp = (\<lambda>d. jset ''publication'' (JObj [(''binding'', JStr binding_name), (''route_entity_kind'', JStr (le_entity_type e)),
                         (''route_event_kind'', JStr (le_action e))])
                    (jset ''published_by'' (JStr (subject p)) (jset ''published_at'' (JStr now_text) d))) in
      case opt_or (JObj []) (parse_json (le_payload_json e)) of
        JObj fs \<Rightarrow> Some (stamp (JObj fs)) | JNull \<Rightarrow> Some (stamp (JObj [])) | _ \<Rightarrow> None)"

definition event_path :: "publish_plan_info \<Rightarrow> str \<Rightarrow> ledger_row \<Rightarrow> str" where
  "event_path pl domain_id e = rel_path_of (pl_path_template pl) domain_id (le_entity_type e) (le_entity_id e) (le_action e)"

definition record_publication ::
  "time \<Rightarrow> principal \<Rightarrow> str \<Rightarrow> publish_plan_info \<Rightarrow> str \<Rightarrow> ledger_row \<Rightarrow> publish_state \<Rightarrow> publish_state" where
  "record_publication now p domain_id pl sha e s =
     (case numbered_insert (\<lambda>i.
        \<lparr>pb_id = i, pb_owner_subject = subject p, pb_domain_id = Some domain_id, pb_ledger_event_id = Some (le_id e),
         pb_entity_kind = le_entity_type e, pb_entity_id = le_entity_id e, pb_event_kind = le_action e,
         pb_binding_id = pl_binding_id pl, pb_repo_url = ''https://'' @ pl_host pl @ ''/'' @ pl_repo_path pl, pb_branch = pl_branch pl,
         pb_file_path = event_path pl domain_id e, pb_commit_sha = sha, pb_status = ''succeeded'', pb_error = [],
         pb_detail_json = ''{'' @ [CHR 0x22] @ ''format'' @ [CHR 0x22] @ '':'' @ [CHR 0x22] @ pl_format pl @ [CHR 0x22] @ ''}'',
         pb_created_at = now, pb_updated_at = now\<rparr>) (pz_records s) of
        Some (t, _) \<Rightarrow> s\<lparr>pz_records := t\<rparr> | None \<Rightarrow> s)"

definition publish_event ::
  "time \<Rightarrow> principal \<Rightarrow> str \<Rightarrow> publish_plan_info \<Rightarrow> str \<Rightarrow> ledger_row \<Rightarrow> publish_state \<Rightarrow> publish_state" where
  "publish_event now p domain_id pl sha e s =
     record_publication now p domain_id pl sha e (mark_published now sha (event_path pl domain_id e) (le_id e) s)"

text \<open>publish_execute: the state, what happened outside, the answer.\<close>

definition publish_execute ::
  "(str \<Rightarrow> json option) \<Rightarrow> (json \<Rightarrow> str) \<Rightarrow> (time \<Rightarrow> str) \<Rightarrow> git_world \<Rightarrow> time \<Rightarrow> publish_state \<Rightarrow> principal \<Rightarrow> json
     \<Rightarrow> publish_state \<times> git_effect \<times> json res" where
  "publish_execute parse_json pretty show_time g now s p payload =
     (let domain_id = trim (text_or [] ''domain_id'' payload);
          lim = clamp_secs 1 500 (opt_or 500 (jfield_i64 ''limit'' payload)) in
      if domain_id = [] then (s, no_effect, Inl (bad_request ''domain_id is required''))
      else if \<not> is_domain_owner (pz_db s) p domain_id then (s, no_effect, Inl (forbidden []))
      else if \<not> db_up (pz_db s) then (s, no_effect, Inl internal_error)
      else case pending_events s domain_id (nat lim) of
        [] \<Rightarrow> (s, no_effect, Inr (published_answer 0 [] [] []))
      | first # rest \<Rightarrow>
          (case resolve_publish_plan_inner s (subject p) domain_id (le_entity_type first) (le_action first) (le_entity_id first) of
             Inl msg \<Rightarrow> (s, no_effect, Inl (conflict msg))
           | Inr pl \<Rightarrow>
               let url = resolve_git_url (gw_var g) pl; events = first # rest;
                   docs = map (event_document parse_json (show_time now) p (pl_binding_name pl)) events;
                   tried = no_effect\<lparr>ge_clone := Some (pl_branch pl, url)\<rparr>;
                   wrote = tried\<lparr>ge_files := map (\<lambda>(e, d). (joined (event_path pl domain_id e), pretty (the d)))
                             (takeWhile (\<lambda>(e, d). d \<noteq> None) (zip events docs))\<rparr>;
                   sha = opt_or [] (gw_head g) in
               if \<not> gw_tempdir g then (s, no_effect, Inl internal_error)
               else if gw_clone g (pl_branch pl) url \<noteq> Some True then (s, tried, Inl (conflict ''git clone failed''))
               else if None \<in> set docs then (s, wrote, Inl no_response)
               else if gw_push g (pl_branch pl) \<noteq> Some True
               then (s, wrote, Inl (conflict ''git push failed; ledger events were not marked published''))
               else (fold (publish_event now p domain_id pl sha) events s, wrote\<lparr>ge_pushed := True\<rparr>,
                     Inr (published_answer (int (length events)) sha (pl_branch pl) (authed_url [] (pl_host pl) (pl_repo_path pl))))))"

definition row_to_publication_record :: "publication_row \<Rightarrow> json" where
  "row_to_publication_record r = JObj
     [(''id'', JNum (pb_id r)), (''owner_subject'', JStr (pb_owner_subject r)), (''domain_id'', jopt JStr (pb_domain_id r)),
      (''ledger_event_id'', jopt JNum (pb_ledger_event_id r)), (''entity_kind'', JStr (pb_entity_kind r)),
      (''entity_id'', JStr (pb_entity_id r)), (''event_kind'', JStr (pb_event_kind r)), (''binding_id'', JNum (pb_binding_id r)),
      (''repo_url'', JStr (pb_repo_url r)), (''branch'', JStr (pb_branch r)), (''file_path'', JStr (pb_file_path r)),
      (''commit_sha'', JStr (pb_commit_sha r)), (''status'', JStr (pb_status r)), (''error'', JStr (pb_error r)),
      (''detail_json'', JStr (pb_detail_json r)), (''created_at'', JNum (pb_created_at r)), (''updated_at'', JNum (pb_updated_at r))]"

definition records_of :: "publish_state \<Rightarrow> principal \<Rightarrow> str option \<Rightarrow> int \<Rightarrow> publication_row list option" where
  "records_of s p domain_id lim =
     (if \<not> db_up (pz_db s) \<or> lim < 0 then None
      else Some (take (nat lim) (sort_key (\<lambda>r. - pb_created_at r) (select_where
        (\<lambda>r. tand (by_key pb_owner_subject (subject p) r)
               (case domain_id of None \<Rightarrow> tbool True | Some k \<Rightarrow> teq (pb_domain_id r) (Some k))) (nb_rows (pz_records s))))))"

definition list_publication_records :: "publish_state \<Rightarrow> principal \<Rightarrow> str option \<Rightarrow> int option \<Rightarrow> json res" where
  "list_publication_records s p domain_id lim =
     (case records_of s p domain_id (min (opt_or 20 lim) 500) of
        None \<Rightarrow> Inl internal_error
      | Some rows \<Rightarrow> Inr (JObj [(''records'', JList (map row_to_publication_record rows))]))"

definition get_publication_record :: "publish_state \<Rightarrow> principal \<Rightarrow> int \<Rightarrow> json res" where
  "get_publication_record s p i =
     (if \<not> db_up (pz_db s) then Inl internal_error
      else case lookup pb_id i (nb_rows (pz_records s)) of
        None \<Rightarrow> Inl (not_found ''publication record not found'')
      | Some r \<Rightarrow>
          if pb_owner_subject r \<noteq> subject p \<and> \<not> is_admin p then Inl (not_found ''publication record not found'')
          else if (case pb_domain_id r of Some k \<Rightarrow> \<not> is_domain_owner (pz_db s) p k | None \<Rightarrow> False) then Inl (forbidden [])
          else Inr (JObj [(''record'', row_to_publication_record r)]))"

section \<open>The tools\<close>

text \<open>provision_domain_persistence stops at a missing binding name after it has written the connection.\<close>

definition connection_input :: "json \<Rightarrow> str \<Rightarrow> json" where
  "connection_input args k = (case jget k args of Some (JObj fs) \<Rightarrow> JObj fs | _ \<Rightarrow> JObj [])"

definition upsert_connection ::
  "(json \<Rightarrow> str) \<Rightarrow> time \<Rightarrow> principal \<Rightarrow> json \<Rightarrow> repo_connection_row serial_table \<Rightarrow> (repo_connection_row serial_table \<times> repo_connection_row) option" where
  "upsert_connection dump now p c t =
     (let name = trim (text_or [] ''name'' c);
          fill = (\<lambda>r. r\<lparr>cn_provider := text_or ''github_app'' ''provider'' c, cn_host := text_or ''github.com'' ''host'' c,
                        cn_repo_path := trim (text_or [] ''repo_path'' c), cn_default_branch := text_or ''main'' ''default_branch'' c,
                        cn_credential_ref := text_or [] ''credential_ref'' c,
                        cn_options_json := (case jget ''options'' c of Some v \<Rightarrow> dump v | None \<Rightarrow> ''{}''), cn_updated_at := now\<rparr>) in
      numbered_upsert (\<lambda>r. tand (by_key cn_owner_subject (subject p) r) (by_key cn_name name r)) fill
        (\<lambda>i. fill \<lparr>cn_id = i, cn_owner_subject = subject p, cn_name = name, cn_provider = [], cn_host = [], cn_repo_path = [],
                   cn_default_branch = [], cn_credential_ref = [], cn_options_json = [], cn_created_at = now, cn_updated_at = now\<rparr>) t)"

definition upsert_binding ::
  "time \<Rightarrow> principal \<Rightarrow> json \<Rightarrow> int \<Rightarrow> repo_binding_row serial_table \<Rightarrow> (repo_binding_row serial_table \<times> repo_binding_row) option" where
  "upsert_binding now p b connection_id t =
     (let name = trim (text_or [] ''name'' b);
          fill = (\<lambda>r. r\<lparr>bd_connection_id := connection_id, bd_branch_override := text_or [] ''branch_override'' b,
                        bd_base_path := trim_slashes (text_or ''domains'' ''base_path'' b),
                        bd_active := opt_or True (jfield_bool ''active'' b), bd_updated_at := now\<rparr>) in
      numbered_upsert (\<lambda>r. tand (by_key bd_owner_subject (subject p) r) (by_key bd_name name r)) fill
        (\<lambda>i. fill \<lparr>bd_id = i, bd_owner_subject = subject p, bd_name = name, bd_connection_id = 0, bd_branch_override = [],
                   bd_base_path = [], bd_active = True, bd_created_at = now, bd_updated_at = now\<rparr>) t)"

definition without :: "str list \<Rightarrow> json \<Rightarrow> json" where
  "without ks j = (case j of JObj fs \<Rightarrow> JObj (filter (\<lambda>f. fst f \<notin> set ks) fs) | _ \<Rightarrow> j)"

definition named_binding :: "publish_state \<Rightarrow> principal \<Rightarrow> str \<Rightarrow> int option" where
  "named_binding s p name =
     map_option bd_id (fetch_optional (\<lambda>r. tand (by_key bd_owner_subject (subject p) r) (by_key bd_name name r)) (nb_rows (pz_bindings s)))"

fun provision_routes :: "time \<Rightarrow> publish_state \<Rightarrow> principal \<Rightarrow> str \<Rightarrow> str \<Rightarrow> int \<Rightarrow> json list \<Rightarrow> persistence_route_row serial_table \<Rightarrow> persistence_route_row serial_table" where
  "provision_routes now s p domain_id bind_name bind_id [] t = t"
| "provision_routes now s p domain_id bind_name bind_id (item # items) t =
     (let target = text_or bind_name ''binding_name'' item; entity_kind = text_or [] ''entity_kind'' item;
          target_id = (if target = bind_name then Some bind_id else named_binding s p target) in
      provision_routes now s p domain_id bind_name bind_id items
        (case target_id of
           None \<Rightarrow> t
         | Some i \<Rightarrow>
             if entity_kind = [] then t
             else (case numbered_insert (route_row now domain_id entity_kind (text_or [] ''event_kind'' item) i
                         (text_or [] ''branch_override'' item) item) t of
                     Some (t', _) \<Rightarrow> t' | None \<Rightarrow> t)))"

definition provision_domain_persistence ::
  "(json \<Rightarrow> str) \<Rightarrow> time \<Rightarrow> publish_state \<Rightarrow> principal \<Rightarrow> json \<Rightarrow> publish_state \<times> json" where
  "provision_domain_persistence dump now s p args =
     (let domain_id = str_arg args ''domain_id'' in
      if domain_id = [] then (s, err_result ''domain_id is required'')
      else case mcp_authz_domain (pz_db s) p domain_id of
        Inl e \<Rightarrow> (s, e)
      | Inr _ \<Rightarrow>
          let c = connection_input args ''connection''; b = connection_input args ''binding'' in
          if trim (text_or [] ''name'' c) = [] \<or> trim (text_or [] ''repo_path'' c) = []
          then (s, err_result ''connection.name and connection.repo_path are required'')
          else case upsert_connection dump now p c (pz_connections s) of
            None \<Rightarrow> (s, err_result ''database_error'')
          | Some (cs, conn) \<Rightarrow>
              let s1 = s\<lparr>pz_connections := cs\<rparr>; bind_name = trim (text_or [] ''name'' b) in
              if bind_name = [] then (s1, err_result ''binding.name is required'')
              else case upsert_binding now p b (cn_id conn) (pz_bindings s1) of
                None \<Rightarrow> (s1, err_result ''database_error'')
              | Some (bs, bound) \<Rightarrow>
                  let s2 = s1\<lparr>pz_bindings := bs,
                             pz_policies := opt_or (pz_policies s1) (upsert_policy now domain_id (Some (bd_id bound))
                               (str_arg_or args ''fallback_mode'' ''fail_closed'') (opt_or False (jfield_bool ''require_approval'' args)) (pz_policies s1))\<rparr>;
                      s3 = s2\<lparr>pz_routes := provision_routes now s2 p domain_id bind_name (bd_id bound) (json_items ''routes'' args)
                             (numbered_delete (by_key rt_domain_id domain_id) (pz_routes s2))\<rparr> in
                  (s3, ok_result (JObj [(''ok'', JBool True), (''domain_id'', JStr domain_id), (''connection'', without [''options_json''] (row_to_connection conn)),
                         (''binding'', row_to_binding bound), (''routes'', JList (map (\<lambda>r. without [''created_at'', ''updated_at''] (row_to_route r)) (active_routes s3 domain_id)))])))"

text \<open>The columns of the route table; the statement of resolve_publish_plan asks for two that it does not have.\<close>

definition route_columns :: "str list" where
  "route_columns = [''id'', ''domain_id'', ''entity_kind'', ''event_kind'', ''binding_id'', ''branch_override'', ''path_template'',
     ''format'', ''active'', ''created_at'', ''updated_at'']"

definition plan_query_columns :: "str list" where
  "plan_query_columns = [''id'', ''format'', ''branch'', ''rel_path_template'', ''binding_id'', ''domain_id'', ''entity_kind'', ''active'', ''event_kind'']"

definition joined_route ::
  "publish_state \<Rightarrow> persistence_route_row \<Rightarrow> (repo_binding_row \<times> repo_connection_row) option" where
  "joined_route s r =
     (case lookup bd_id (rt_binding_id r) (nb_rows (pz_bindings s)) of
        None \<Rightarrow> None
      | Some b \<Rightarrow> map_option (Pair b) (lookup cn_id (bd_connection_id b) (nb_rows (pz_connections s))))"

definition resolve_publish_plan :: "publish_state \<Rightarrow> principal \<Rightarrow> json \<Rightarrow> json" where
  "resolve_publish_plan s p args =
     (let domain_id = str_arg args ''domain_id''; entity_kind = str_arg args ''entity_kind'' in
      if domain_id = [] \<or> entity_kind = [] then err_result ''domain_id and entity_kind are required''
      else case mcp_authz_domain (pz_db s) p domain_id of
        Inl e \<Rightarrow> e
      | Inr _ \<Rightarrow>
          if \<not> list_all (\<lambda>c. c \<in> set route_columns) plan_query_columns then err_result ''database_error''
          else (case find_map (\<lambda>r. map_option (Pair r) (joined_route s r)) (matching_routes s domain_id entity_kind (str_arg args ''event_kind'')) of
                  None \<Rightarrow> err_result ''no_publish_plan_found''
                | Some (r, b, c) \<Rightarrow> ok_result (JObj
                    [(''binding_id'', JNum (bd_id b)), (''binding_name'', JStr (bd_name b)), (''connection_id'', JNum (cn_id c)),
                     (''provider'', JStr (cn_provider c)), (''host'', JStr (cn_host c)), (''repo_path'', JStr (cn_repo_path c)),
                     (''branch'', JStr (rt_branch_override r)), (''rel_path'', JStr (rt_path_template r)),
                     (''format'', JStr (rt_format r))])))"

definition get_publication_status :: "publish_state \<Rightarrow> principal \<Rightarrow> json \<Rightarrow> json" where
  "get_publication_status s p args =
     (case records_of s p (filled (str_arg args ''domain_id'')) (min (opt_or 20 (int_arg args ''limit'')) 200) of
        None \<Rightarrow> err_result ''database_error''
      | Some rows \<Rightarrow> ok_result (JList (map (\<lambda>r. JObj
          [(''id'', JNum (pb_id r)), (''owner_subject'', JStr (pb_owner_subject r)), (''domain_id'', jopt JStr (pb_domain_id r)),
           (''entity_kind'', JStr (pb_entity_kind r)), (''entity_id'', JStr (pb_entity_id r)), (''event_kind'', JStr (pb_event_kind r)),
           (''binding_id'', JNum (pb_binding_id r)), (''status'', JStr (pb_status r)), (''error'', JStr (pb_error r)),
           (''commit_sha'', JStr (pb_commit_sha r)), (''created_at'', JNum (pb_created_at r)), (''updated_at'', JNum (pb_updated_at r))]) rows)))"

text \<open>The first active route of the domain with the binding and connection it names, whoever owns them.\<close>

definition first_route ::
  "publish_state \<Rightarrow> str \<Rightarrow> (persistence_route_row \<times> repo_binding_row \<times> repo_connection_row) option" where
  "first_route s domain_id =
     find_map (\<lambda>r. map_option (Pair r) (joined_route s r)) (active_routes s domain_id)"

text \<open>Only a clone that cannot be started stops the tool; what the commands answer is not looked at.\<close>

definition publish_pending_ledger_events ::
  "git_world \<Rightarrow> time \<Rightarrow> publish_state \<Rightarrow> principal \<Rightarrow> json \<Rightarrow> publish_state \<times> git_effect \<times> json" where
  "publish_pending_ledger_events g now s p args =
     (let domain_id = str_arg args ''domain_id'' in
      if domain_id = [] then (s, no_effect, err_result ''domain_id is required'')
      else case mcp_authz_domain (pz_db s) p domain_id of
        Inl e \<Rightarrow> (s, no_effect, e)
      | Inr _ \<Rightarrow>
          (case pending_events s domain_id 500 of
             [] \<Rightarrow> (s, no_effect, ok_result (published_answer 0 [] [] []))
           | e # es \<Rightarrow>
               (case first_route s domain_id of
                  None \<Rightarrow> (s, no_effect, err_result ''no publish route configured for domain'')
                | Some (r, b, c) \<Rightarrow>
                    let events = e # es;
                        branch = opt_or (cn_default_branch c) (filled (bd_branch_override b));
                        token = (case strip_prefix ''env:'' (cn_credential_ref c) of
                                   Some v \<Rightarrow> opt_or [] (gw_var g v) | None \<Rightarrow> opt_or [] (gw_var g ''GIT_PUBLISH_TOKEN''));
                        url = authed_url token (cn_host c) (cn_repo_path c);
                        rel = (\<lambda>e. render_path (rt_path_template r) domain_id (le_entity_type e) (le_entity_id e));
                        sha = (if gw_commit_ran g then opt_or [] (gw_head g) else []) in
                    if \<not> gw_tempdir g then (s, no_effect, err_result ''internal_error'')
                    else if gw_clone g branch url = None
                    then (s, no_effect\<lparr>ge_clone := Some (branch, url)\<rparr>, err_result ''git_clone_failed'')
                    else (fold (\<lambda>e. mark_published now sha (rel e) (le_id e)) events s,
                          \<lparr>ge_clone = Some (branch, url), ge_files = map (\<lambda>e. (joined (rel e), le_payload_json e)) events,
                           ge_pushed = (gw_push g branch = Some True)\<rparr>,
                          ok_result (published_answer (int (length events)) sha branch (authed_url [] (cn_host c) (cn_repo_path c)))))))"

end
