(* ===== verification/Routes.thy ===== *)
theory Routes
  imports Tower_Auth
begin

text \<open>
  The surface of the tower: the router() functions of crates/edgeplane-tower/src/routes, their merge in
  routes/mod.rs and the application around them in server.rs. A table of routes is a list of patterns
  with a handler for each method, as the functions write it. How the framework looks a path up in
  a table is a parameter; router_semantics states what its documentation promises.
\<close>

section \<open>Patterns and tables\<close>

datatype http_method = MGet | MPost | MPut | MPatch | MDelete

datatype route_segment = Lit str | Param str

type_synonym route_pattern = "route_segment list"
type_synonym method_router = "(http_method \<times> str) list"
type_synonym route_table = "(route_pattern \<times> method_router) list"

section \<open>The tables of the modules\<close>

definition health_router :: route_table where
  "health_router =
     [([Lit ''''], [(MGet, ''health::root_handler'')]),
      ([Lit ''health''], [(MGet, ''health::health_handler'')])]"

definition raft_router :: route_table where
  "raft_router =
     [([Lit ''raft'', Lit ''status''], [(MGet, ''raft::raft_status'')])]"

definition auth_router :: route_table where
  "auth_router =
     [([Lit ''auth'', Lit ''sessions''], [(MPost, ''auth::create_session'')]),
      ([Lit ''auth'', Lit ''sessions'', Lit ''refresh''], [(MPost, ''auth::refresh_session'')]),
      ([Lit ''auth'', Lit ''sessions'', Lit ''current''], [(MDelete, ''auth::revoke_session'')]),
      ([Lit ''auth'', Lit ''me''], [(MGet, ''auth::whoami'')]),
      ([Lit ''auth'', Lit ''whoami''], [(MGet, ''auth::whoami'')]),
      ([Lit ''auth'', Lit ''service-accounts''], [(MGet, ''auth::list_service_accounts''), (MPost, ''auth::create_service_account'')]),
      ([Lit ''auth'', Lit ''service-accounts'', Param ''id''], [(MDelete, ''auth::revoke_service_account'')]),
      ([Lit ''auth'', Lit ''token''], [(MPost, ''auth::client_credentials_grant'')]),
      ([Lit ''auth'', Lit ''token'', Lit ''revoke''], [(MPost, ''auth::revoke_sa_token'')])]"

definition oidc_web_router :: route_table where
  "oidc_web_router =
     [([Lit ''auth'', Lit ''oidc'', Lit ''device'', Lit ''authorize''], [(MPost, ''oidc_web::device_authorize'')]),
      ([Lit ''auth'', Lit ''oidc'', Lit ''device'', Lit ''verify''], [(MGet, ''oidc_web::device_verify'')]),
      ([Lit ''auth'', Lit ''oidc'', Lit ''device'', Lit ''token''], [(MPost, ''oidc_web::device_token'')]),
      ([Lit ''auth'', Lit ''oidc'', Lit ''device'', Lit ''success''], [(MGet, ''oidc_web::device_success'')]),
      ([Lit ''auth'', Lit ''oidc'', Lit ''cli-initiate''], [(MGet, ''oidc_web::cli_initiate'')]),
      ([Lit ''auth'', Lit ''oidc'', Lit ''cli-poll'', Param ''cli_nonce''], [(MGet, ''oidc_web::cli_poll'')]),
      ([Lit ''auth'', Lit ''oidc'', Lit ''start''], [(MGet, ''oidc_web::oidc_start'')]),
      ([Lit ''auth'', Lit ''oidc'', Lit ''callback''], [(MGet, ''oidc_web::oidc_callback'')]),
      ([Lit ''auth'', Lit ''oidc'', Lit ''cli-success''], [(MGet, ''oidc_web::cli_success_page'')]),
      ([Lit ''auth'', Lit ''oidc'', Lit ''exchange''], [(MPost, ''oidc_web::exchange_grant'')]),
      ([Lit ''auth'', Lit ''logout''], [(MGet, ''oidc_web::logout'')])]"

definition domains_router :: route_table where
  "domains_router =
     [([Lit ''domains''], [(MGet, ''domains::list_domains''), (MPost, ''domains::create_domain'')]),
      ([Lit ''domains'', Param ''domain_id''], [(MGet, ''domains::get_domain''), (MPatch, ''domains::update_domain''), (MDelete, ''domains::delete_domain'')]),
      ([Lit ''domains'', Param ''domain_id'', Lit ''northstar''], [(MGet, ''domains::get_domain_northstar_handler''), (MPut, ''domains::put_domain_northstar_handler'')]),
      ([Lit ''domains'', Param ''domain_id'', Lit ''owner''], [(MPost, ''domains::transfer_owner'')])]"

definition agents_router :: route_table where
  "agents_router =
     [([Lit ''agents''], [(MGet, ''agents::list_agents''), (MPost, ''agents::create_agent'')]),
      ([Lit ''agents'', Param ''agent_id''], [(MGet, ''agents::get_agent''), (MPatch, ''agents::update_agent''), (MDelete, ''agents::delete_agent'')]),
      ([Lit ''agents'', Param ''agent_id'', Lit ''restart''], [(MPost, ''agents::restart_agent'')]),
      ([Lit ''agents'', Param ''agent_id'', Lit ''clear-context''], [(MPost, ''agents::clear_agent_context'')]),
      ([Lit ''agents'', Param ''agent_id'', Lit ''domain''], [(MPatch, ''agents::attach_domain'')]),
      ([Lit ''agents'', Param ''agent_id'', Lit ''message''], [(MPost, ''agents::send_message'')]),
      ([Lit ''agents'', Param ''agent_id'', Lit ''messages''], [(MGet, ''agents::list_messages'')])]"

definition missions_router :: route_table where
  "missions_router =
     [([Lit ''domains'', Param ''domain_id'', Lit ''m''], [(MGet, ''missions::list_missions''), (MPost, ''missions::create_mission'')]),
      ([Lit ''domains'', Param ''domain_id'', Lit ''m'', Param ''mission_id''], [(MGet, ''missions::get_mission''), (MPatch, ''missions::update_mission''), (MDelete, ''missions::delete_mission'')]),
      ([Lit ''domains'', Param ''domain_id'', Lit ''m'', Param ''mission_id'', Lit ''brief''], [(MGet, ''missions::get_mission_brief_handler''), (MPut, ''missions::put_mission_brief_handler'')]),
      ([Lit ''missions'', Param ''mission_id'', Lit ''brief''], [(MGet, ''missions::get_mission_brief_flat''), (MPut, ''missions::put_mission_brief_flat'')])]"

definition tasks_router :: route_table where
  "tasks_router =
     [([Lit ''domains'', Param ''domain_id'', Lit ''m'', Param ''mission_id'', Lit ''t''], [(MGet, ''tasks::list_tasks''), (MPost, ''tasks::create_task'')]),
      ([Lit ''domains'', Param ''domain_id'', Lit ''m'', Param ''mission_id'', Lit ''t'', Param ''task_id''], [(MGet, ''tasks::get_task''), (MPatch, ''tasks::update_task''), (MDelete, ''tasks::delete_task'')]),
      ([Lit ''domains'', Param ''domain_id'', Lit ''m'', Param ''mission_id'', Lit ''t'', Param ''task_id'', Lit ''overlaps''], [(MGet, ''tasks::list_overlaps'')]),
      ([Lit ''missions'', Param ''mission_id'', Lit ''t''], [(MGet, ''tasks::list_tasks_by_mission'')])]"

definition runs_router :: route_table where
  "runs_router =
     [([Lit ''runs''], [(MGet, ''runs::list_runs''), (MPost, ''runs::start_run'')]),
      ([Lit ''runs'', Param ''run_id''], [(MGet, ''runs::get_run'')]),
      ([Lit ''runs'', Param ''run_id'', Lit ''pause''], [(MPost, ''runs::pause_run'')]),
      ([Lit ''runs'', Param ''run_id'', Lit ''cancel''], [(MPost, ''runs::cancel_run'')]),
      ([Lit ''runs'', Param ''run_id'', Lit ''complete''], [(MPost, ''runs::complete_run'')]),
      ([Lit ''runs'', Param ''run_id'', Lit ''completed''], [(MPost, ''runs::complete_run'')]),
      ([Lit ''runs'', Param ''run_id'', Lit ''fail''], [(MPost, ''runs::fail_run'')]),
      ([Lit ''runs'', Param ''run_id'', Lit ''failed''], [(MPost, ''runs::fail_run'')]),
      ([Lit ''runs'', Param ''run_id'', Lit ''resume''], [(MPost, ''runs::resume_run'')]),
      ([Lit ''runs'', Param ''run_id'', Lit ''checkpoint''], [(MPost, ''runs::create_checkpoint'')]),
      ([Lit ''runs'', Param ''run_id'', Lit ''checkpoints''], [(MGet, ''runs::list_checkpoints'')])]"

definition profiles_router :: route_table where
  "profiles_router =
     [([Lit ''me'', Lit ''profiles''], [(MGet, ''profiles::list_profiles''), (MPost, ''profiles::create_profile'')]),
      ([Lit ''me'', Lit ''profiles'', Param ''name''], [(MGet, ''profiles::get_profile''), (MPut, ''profiles::replace_profile''), (MPatch, ''profiles::patch_profile''), (MDelete, ''profiles::delete_profile'')]),
      ([Lit ''me'', Lit ''profiles'', Param ''name'', Lit ''download''], [(MGet, ''profiles::download_profile'')]),
      ([Lit ''me'', Lit ''profiles'', Param ''name'', Lit ''activate''], [(MPost, ''profiles::activate_profile'')])]"

definition hooks_router :: route_table where
  "hooks_router =
     [([Lit ''hooks'', Lit ''claude'', Lit ''session-start''], [(MPost, ''hooks::claude_session_start'')]),
      ([Lit ''hooks'', Lit ''claude'', Lit ''session-end''], [(MPost, ''hooks::claude_session_end'')]),
      ([Lit ''hooks'', Lit ''claude'', Lit ''tool-audit''], [(MPost, ''hooks::claude_tool_audit'')]),
      ([Lit ''hooks'', Lit ''codex'', Lit ''session-start''], [(MPost, ''hooks::codex_session_start'')]),
      ([Lit ''hooks'', Lit ''codex'', Lit ''session-end''], [(MPost, ''hooks::codex_session_end'')]),
      ([Lit ''hooks'', Lit ''codex'', Lit ''tool-audit''], [(MPost, ''hooks::codex_tool_audit'')])]"

definition scheduled_jobs_router :: route_table where
  "scheduled_jobs_router =
     [([Lit ''scheduled-jobs''], [(MGet, ''scheduled_jobs::list_jobs''), (MPost, ''scheduled_jobs::create_job'')]),
      ([Lit ''scheduled-jobs'', Param ''id''], [(MGet, ''scheduled_jobs::get_job''), (MPut, ''scheduled_jobs::update_job''), (MDelete, ''scheduled_jobs::delete_job'')]),
      ([Lit ''scheduled-jobs'', Param ''id'', Lit ''run''], [(MPost, ''scheduled_jobs::trigger_job'')])]"

definition work_router :: route_table where
  "work_router =
     [([Lit ''work'', Lit ''missions'', Param ''mission_id'', Lit ''tasks''], [(MGet, ''work::list_tasks''), (MPost, ''work::create_task'')]),
      ([Lit ''work'', Lit ''missions'', Param ''mission_id'', Lit ''graph''], [(MGet, ''work::task_graph'')]),
      ([Lit ''work'', Lit ''tasks'', Param ''task_id''], [(MGet, ''work::get_task'')]),
      ([Lit ''work'', Lit ''tasks'', Param ''task_id'', Lit ''cancel''], [(MPost, ''work::cancel_task'')]),
      ([Lit ''work'', Lit ''tasks'', Param ''task_id'', Lit ''retry''], [(MPost, ''work::retry_task'')]),
      ([Lit ''work'', Lit ''tasks'', Param ''task_id'', Lit ''claim''], [(MPost, ''work::claim_task'')]),
      ([Lit ''work'', Lit ''tasks'', Param ''task_id'', Lit ''heartbeat''], [(MPost, ''work::heartbeat_task'')]),
      ([Lit ''work'', Lit ''tasks'', Param ''task_id'', Lit ''progress''], [(MGet, ''work::get_task_progress''), (MPost, ''work::append_progress'')]),
      ([Lit ''work'', Lit ''tasks'', Param ''task_id'', Lit ''complete''], [(MPost, ''work::complete_task'')]),
      ([Lit ''work'', Lit ''tasks'', Param ''task_id'', Lit ''fail''], [(MPost, ''work::fail_task'')]),
      ([Lit ''work'', Lit ''tasks'', Param ''task_id'', Lit ''block''], [(MPost, ''work::block_task'')]),
      ([Lit ''work'', Lit ''tasks'', Param ''task_id'', Lit ''unblock''], [(MPost, ''work::unblock_task'')]),
      ([Lit ''work'', Lit ''tasks'', Param ''task_id'', Lit ''dispatched''], [(MPost, ''work::dispatch_task'')]),
      ([Lit ''work'', Lit ''tasks'', Param ''task_id'', Lit ''gates''], [(MGet, ''work::list_gates''), (MPost, ''work::create_gate'')]),
      ([Lit ''work'', Lit ''tasks'', Param ''task_id'', Lit ''gates'', Param ''gate_id'', Lit ''resolve''], [(MPost, ''work::resolve_gate'')]),
      ([Lit ''work'', Lit ''domains'', Param ''domain_id'', Lit ''agents'', Lit ''enroll''], [(MPost, ''work::enroll_agent'')]),
      ([Lit ''work'', Lit ''domains'', Param ''domain_id'', Lit ''agents''], [(MGet, ''work::list_domain_agents'')]),
      ([Lit ''work'', Lit ''domains'', Param ''domain_id'', Lit ''messages''], [(MGet, ''work::list_domain_messages''), (MPost, ''work::send_domain_message'')]),
      ([Lit ''work'', Lit ''domains'', Param ''domain_id'', Lit ''roster''], [(MGet, ''work::domain_roster'')]),
      ([Lit ''work'', Lit ''domains'', Param ''domain_id'', Lit ''stream''], [(MGet, ''work::domain_stream'')]),
      ([Lit ''work'', Lit ''agents'', Param ''agent_id'', Lit ''heartbeat''], [(MPost, ''work::agent_heartbeat'')]),
      ([Lit ''work'', Lit ''agents'', Param ''agent_id'', Lit ''status''], [(MPost, ''work::set_agent_status'')]),
      ([Lit ''work'', Lit ''agents'', Param ''agent_id'', Lit ''profile''], [(MPatch, ''work::update_agent_profile'')]),
      ([Lit ''work'', Lit ''agents'', Param ''agent_id''], [(MGet, ''work::get_agent''), (MDelete, ''work::delete_agent'')]),
      ([Lit ''work'', Lit ''agents'', Param ''agent_id'', Lit ''messages''], [(MGet, ''work::get_agent_messages'')]),
      ([Lit ''work'', Lit ''agents'', Param ''agent_id'', Lit ''notify''], [(MGet, ''work::agent_notify_ws'')]),
      ([Lit ''work'', Lit ''agents'', Param ''agent_id'', Lit ''token''], [(MPost, ''work::mint_agent_token'')]),
      ([Lit ''work'', Lit ''missions'', Param ''mission_id'', Lit ''messages''], [(MGet, ''work::list_mission_messages''), (MPost, ''work::send_mission_message'')]),
      ([Lit ''work'', Lit ''missions'', Param ''mission_id'', Lit ''stream''], [(MGet, ''work::mission_stream'')]),
      ([Lit ''sse''], [(MGet, ''work::global_sse'')])]"

definition runtime_router :: route_table where
  "runtime_router =
     [([Lit ''runtime'', Lit ''tokens''], [(MPost, ''runtime::create_join_token'')]),
      ([Lit ''runtime'', Lit ''join-tokens''], [(MPost, ''runtime::create_join_token'')]),
      ([Lit ''runtime'', Lit ''tokens'', Param ''token_id''], [(MGet, ''runtime::get_join_token'')]),
      ([Lit ''runtime'', Lit ''join-tokens'', Param ''token_id''], [(MGet, ''runtime::get_join_token'')]),
      ([Lit ''runtime'', Lit ''tokens'', Param ''token_id'', Lit ''rotate''], [(MPost, ''runtime::rotate_join_token'')]),
      ([Lit ''runtime'', Lit ''join-tokens'', Param ''token_id'', Lit ''rotate''], [(MPost, ''runtime::rotate_join_token'')]),
      ([Lit ''runtime'', Lit ''releases'', Lit ''latest.json''], [(MGet, ''runtime::get_release_manifest'')]),
      ([Lit ''runtime'', Lit ''releases'', Lit ''latest'', Lit ''download''], [(MGet, ''runtime::download_release'')]),
      ([Lit ''runtime'', Lit ''channels''], [(MGet, ''runtime::list_channels'')]),
      ([Lit ''runtime'', Lit ''nodes'', Lit ''register''], [(MPost, ''runtime::register_node'')]),
      ([Lit ''runtime'', Lit ''nodes''], [(MGet, ''runtime::list_nodes'')]),
      ([Lit ''runtime'', Lit ''nodes'', Param ''node_id''], [(MDelete, ''runtime::delete_node'')]),
      ([Lit ''runtime'', Lit ''nodes'', Param ''node_id'', Lit ''rotate-token''], [(MPost, ''runtime::rotate_node_token'')]),
      ([Lit ''runtime'', Lit ''nodes'', Param ''node_id'', Lit ''heartbeat''], [(MPost, ''runtime::heartbeat_node'')]),
      ([Lit ''runtime'', Lit ''nodes'', Param ''node_id'', Lit ''config''], [(MGet, ''runtime::get_node_config'')]),
      ([Lit ''runtime'', Lit ''nodes'', Param ''node_id'', Lit ''attach-secret''], [(MGet, ''runtime::get_node_attach_secret'')]),
      ([Lit ''runtime'', Lit ''nodes'', Param ''node_id'', Lit ''install-bundle''], [(MGet, ''runtime::get_node_install_bundle'')]),
      ([Lit ''runtime'', Lit ''nodes'', Param ''node_id'', Lit ''install-script''], [(MGet, ''runtime::get_node_install_script'')]),
      ([Lit ''runtime'', Lit ''nodes'', Param ''node_id'', Lit ''reconcile''], [(MPost, ''runtime::reconcile_node'')]),
      ([Lit ''runtime'', Lit ''nodes'', Param ''node_id'', Lit ''cordon''], [(MPost, ''runtime::cordon_node'')]),
      ([Lit ''runtime'', Lit ''nodes'', Param ''node_id'', Lit ''drain''], [(MPost, ''runtime::drain_node'')]),
      ([Lit ''runtime'', Lit ''nodes'', Param ''node_id'', Lit ''upgrade''], [(MPost, ''runtime::upgrade_node'')]),
      ([Lit ''runtime'', Lit ''nodes'', Param ''node_id'', Lit ''leases'', Lit ''claim''], [(MPost, ''runtime::claim_lease'')]),
      ([Lit ''runtime'', Lit ''jobs''], [(MGet, ''runtime::list_jobs''), (MPost, ''runtime::create_job'')]),
      ([Lit ''runtime'', Lit ''jobs'', Param ''job_id'', Lit ''leases''], [(MPost, ''runtime::create_lease'')]),
      ([Lit ''runtime'', Lit ''leases'', Param ''lease_id''], [(MGet, ''runtime::get_lease'')]),
      ([Lit ''runtime'', Lit ''leases'', Param ''lease_id'', Lit ''status''], [(MPost, ''runtime::update_lease_status'')]),
      ([Lit ''runtime'', Lit ''leases'', Param ''lease_id'', Lit ''complete''], [(MPost, ''runtime::complete_lease'')]),
      ([Lit ''runtime'', Lit ''leases'', Param ''lease_id'', Lit ''logs''], [(MPost, ''runtime::append_lease_logs'')]),
      ([Lit ''runtime'', Lit ''execution-sessions''], [(MPost, ''runtime::create_execution_session'')]),
      ([Lit ''runtime'', Lit ''execution-sessions'', Param ''session_id'', Lit ''attach-token''], [(MGet, ''runtime::get_attach_token'')]),
      ([Lit ''runtime'', Lit ''execution-sessions'', Param ''session_id'', Lit ''attach''], [(MPost, ''runtime::attach_execution_session'')]),
      ([Lit ''runtime'', Lit ''execution-sessions'', Param ''session_id'', Lit ''pty''], [(MGet, ''runtime::execution_session_pty'')]),
      ([Lit ''runtime'', Lit ''nodes'', Param ''node_id'', Lit ''agents'', Param ''agent_id'', Lit ''attach''], [(MGet, ''runtime::agent_attach_proxy'')]),
      ([Lit ''runtime'', Lit ''nodes'', Param ''node_id'', Lit ''agents''], [(MGet, ''runtime::list_node_agents''), (MPost, ''runtime::assign_node_agent'')]),
      ([Lit ''runtime'', Lit ''nodes'', Param ''node_id'', Lit ''agents'', Param ''agent_id''], [(MDelete, ''runtime::revoke_node_agent'')]),
      ([Lit ''runtime'', Lit ''nodes'', Param ''node_id'', Lit ''notify''], [(MGet, ''runtime::node_notify_ws'')])]"

definition budgets_router :: route_table where
  "budgets_router =
     [([Lit ''budgets''], [(MGet, ''budgets::list_budget_policies''), (MPost, ''budgets::create_budget_policy'')]),
      ([Lit ''budgets'', Lit ''usage''], [(MGet, ''budgets::get_usage_summary'')]),
      ([Lit ''budgets'', Lit ''usage'', Lit ''batch''], [(MPost, ''budgets::record_usage_batch'')]),
      ([Lit ''budgets'', Param ''policy_id''], [(MGet, ''budgets::get_budget_policy''), (MDelete, ''budgets::delete_budget_policy'')]),
      ([Lit ''budgets'', Param ''policy_id'', Lit ''override''], [(MPost, ''budgets::override_budget_window'')])]"

definition event_triggers_router :: route_table where
  "event_triggers_router =
     [([Lit ''event-triggers''], [(MPost, ''event_triggers::create_trigger''), (MGet, ''event_triggers::list_triggers'')]),
      ([Lit ''event-triggers'', Param ''id''], [(MGet, ''event_triggers::get_trigger''), (MDelete, ''event_triggers::deactivate_trigger'')])]"

definition feedback_router :: route_table where
  "feedback_router =
     [([Lit ''feedback'', Lit ''agent''], [(MPost, ''feedback::create_agent_feedback'')]),
      ([Lit ''feedback'', Lit ''human''], [(MPost, ''feedback::create_human_feedback'')]),
      ([Lit ''feedback''], [(MGet, ''feedback::list_feedback'')]),
      ([Lit ''feedback'', Param ''id'', Lit ''triage''], [(MPatch, ''feedback::update_triage'')]),
      ([Lit ''feedback'', Lit ''summary''], [(MGet, ''feedback::feedback_summary'')])]"

definition onboarding_router :: route_table where
  "onboarding_router =
     [([Lit ''agent-onboarding.json''], [(MGet, ''onboarding::agent_onboarding_manifest'')])]"

definition remotectl_router :: route_table where
  "remotectl_router =
     [([Lit ''remotectl'', Lit ''targets''], [(MPost, ''remotectl::create_target''), (MGet, ''remotectl::list_targets'')]),
      ([Lit ''remotectl'', Lit ''targets'', Param ''target_id''], [(MGet, ''remotectl::get_target''), (MPatch, ''remotectl::update_target''), (MDelete, ''remotectl::delete_target'')]),
      ([Lit ''remotectl'', Lit ''launches''], [(MPost, ''remotectl::create_launch''), (MGet, ''remotectl::list_launches'')]),
      ([Lit ''remotectl'', Lit ''launches'', Param ''launch_id''], [(MGet, ''remotectl::get_launch''), (MDelete, ''remotectl::delete_launch'')]),
      ([Lit ''remotectl'', Lit ''launches'', Param ''launch_id'', Lit ''heartbeat''], [(MPost, ''remotectl::heartbeat_launch'')]),
      ([Lit ''remotectl'', Lit ''launches'', Param ''launch_id'', Lit ''complete''], [(MPost, ''remotectl::complete_launch'')])]"

definition artifacts_router :: route_table where
  "artifacts_router =
     [([Lit ''artifacts''], [(MGet, ''artifacts::list_artifacts''), (MPost, ''artifacts::create_artifact'')]),
      ([Lit ''artifacts'', Param ''artifact_id''], [(MGet, ''artifacts::get_artifact''), (MPatch, ''artifacts::update_artifact''), (MDelete, ''artifacts::delete_artifact'')]),
      ([Lit ''artifacts'', Param ''artifact_id'', Lit ''content''], [(MGet, ''artifacts::get_artifact_content'')]),
      ([Lit ''artifacts'', Param ''artifact_id'', Lit ''download-url''], [(MGet, ''artifacts::get_artifact_download_url'')]),
      ([Lit ''artifacts'', Param ''artifact_id'', Lit ''publish''], [(MPost, ''artifacts::publish_artifact'')])]"

definition docs_router :: route_table where
  "docs_router =
     [([Lit ''docs''], [(MGet, ''docs::list_docs''), (MPost, ''docs::create_doc'')]),
      ([Lit ''docs'', Param ''doc_id''], [(MGet, ''docs::get_doc''), (MPatch, ''docs::update_doc''), (MDelete, ''docs::delete_doc'')]),
      ([Lit ''docs'', Param ''doc_id'', Lit ''publish''], [(MPost, ''docs::publish_doc'')])]"

definition persistence_router :: route_table where
  "persistence_router =
     [([Lit ''persistence'', Lit ''connections''], [(MGet, ''persistence::list_connections''), (MPost, ''persistence::create_connection'')]),
      ([Lit ''persistence'', Lit ''bindings''], [(MGet, ''persistence::list_bindings''), (MPost, ''persistence::create_binding'')]),
      ([Lit ''persistence'', Lit ''domains'', Param ''domain_id'', Lit ''policy''], [(MGet, ''persistence::get_policy''), (MPut, ''persistence::put_policy'')]),
      ([Lit ''persistence'', Lit ''publish'', Lit ''plan''], [(MPost, ''persistence::publish_plan'')]),
      ([Lit ''persistence'', Lit ''publish'', Lit ''execute''], [(MPost, ''persistence::publish_execute'')]),
      ([Lit ''persistence'', Lit ''publish'', Lit ''records''], [(MGet, ''persistence::list_publication_records'')]),
      ([Lit ''persistence'', Lit ''publish'', Lit ''records'', Param ''record_id''], [(MGet, ''persistence::get_publication_record'')])]"

definition schema_pack_router :: route_table where
  "schema_pack_router =
     [([Lit ''schema-pack''], [(MGet, ''schema_pack::get_schema_pack'')])]"

definition chat_integrations_router :: route_table where
  "chat_integrations_router =
     [([Lit ''integrations'', Lit ''chat'', Lit ''bindings''], [(MPost, ''chat_integrations::create_binding''), (MGet, ''chat_integrations::list_bindings'')]),
      ([Lit ''integrations'', Lit ''chat'', Lit ''bindings'', Param ''binding_id''], [(MDelete, ''chat_integrations::delete_binding'')])]"

definition ingestion_router :: route_table where
  "ingestion_router =
     [([Lit ''ingest'', Lit ''github''], [(MPost, ''ingestion::ingest_github'')]),
      ([Lit ''ingest'', Lit ''drive''], [(MPost, ''ingestion::ingest_drive'')]),
      ([Lit ''ingest'', Lit ''slack''], [(MPost, ''ingestion::ingest_slack'')]),
      ([Lit ''ingest'', Lit ''jobs''], [(MGet, ''ingestion::list_jobs'')]),
      ([Lit ''ingest'', Lit ''jobs'', Param ''job_id''], [(MGet, ''ingestion::get_job'')])]"

definition search_router :: route_table where
  "search_router =
     [([Lit ''search'', Lit ''tasks''], [(MGet, ''search::search_tasks'')]),
      ([Lit ''search'', Lit ''docs''], [(MGet, ''search::search_docs'')]),
      ([Lit ''search'', Lit ''missions''], [(MGet, ''search::search_missions'')])]"

definition google_chat_integrations_router :: route_table where
  "google_chat_integrations_router =
     [([Lit ''integrations'', Lit ''google-chat'', Lit ''events''], [(MPost, ''google_chat_integrations::google_chat_events'')])]"

definition teams_integrations_router :: route_table where
  "teams_integrations_router =
     [([Lit ''integrations'', Lit ''teams'', Lit ''events''], [(MPost, ''teams_integrations::teams_events'')])]"

definition explorer_router :: route_table where
  "explorer_router =
     [([Lit ''explorer'', Lit ''tree''], [(MGet, ''explorer::explorer_tree'')]),
      ([Lit ''explorer'', Lit ''node'', Param ''node_type'', Param ''node_id''], [(MGet, ''explorer::explorer_node'')])]"

definition mcp_router :: route_table where
  "mcp_router =
     [([Lit ''mcp'', Lit ''tools''], [(MGet, ''mcp::list_tools'')]),
      ([Lit ''mcp'', Lit ''health''], [(MGet, ''mcp::mcp_health'')]),
      ([Lit ''mcp'', Lit ''call''], [(MPost, ''mcp::call_tool'')])]"

definition ops_router :: route_table where
  "ops_router =
     [([Lit ''ops'', Lit ''backups''], [(MPost, ''ops::trigger_backup''), (MGet, ''ops::list_backups'')]),
      ([Lit ''ops'', Lit ''secrets'', Lit ''status''], [(MGet, ''ops::get_secrets_status'')]),
      ([Lit ''ops'', Lit ''secrets'', Lit ''bootstrap''], [(MPost, ''ops::post_secrets_bootstrap'')]),
      ([Lit ''ops'', Lit ''secrets'', Lit ''rotate''], [(MPost, ''ops::post_secrets_rotate'')])]"

definition slack_integrations_router :: route_table where
  "slack_integrations_router =
     [([Lit ''integrations'', Lit ''slack'', Lit ''bindings''], [(MPost, ''slack_integrations::create_binding''), (MGet, ''slack_integrations::list_bindings'')]),
      ([Lit ''integrations'', Lit ''slack'', Lit ''bindings'', Param ''binding_id''], [(MDelete, ''slack_integrations::delete_binding'')]),
      ([Lit ''integrations'', Lit ''slack'', Lit ''events''], [(MPost, ''slack_integrations::slack_events'')]),
      ([Lit ''integrations'', Lit ''slack'', Lit ''commands''], [(MPost, ''slack_integrations::slack_commands'')]),
      ([Lit ''integrations'', Lit ''slack'', Lit ''interactions''], [(MPost, ''slack_integrations::slack_interactions'')])]"

definition webhooks_tailscale_router :: route_table where
  "webhooks_tailscale_router =
     [([Lit ''webhooks'', Lit ''tailscale''], [(MPost, ''webhooks_tailscale::tailscale_webhook'')])]"

definition probe_router :: route_table where
  "probe_router =
     [([Lit ''healthz''], [(MGet, ''health::healthz_handler'')]),
      ([Lit ''readyz''], [(MGet, ''health::readyz_handler'')])]"

definition build_router :: route_table where
  "build_router =
     health_router @ raft_router @ auth_router @ oidc_web_router @ domains_router @ agents_router @
     missions_router @ tasks_router @ runs_router @ profiles_router @ hooks_router @ scheduled_jobs_router @
     work_router @ runtime_router @ budgets_router @ event_triggers_router @ feedback_router @
     onboarding_router @ remotectl_router @ artifacts_router @ docs_router @ persistence_router @
     schema_pack_router @ chat_integrations_router @ ingestion_router @ search_router @
     google_chat_integrations_router @ teams_integrations_router @ explorer_router @ mcp_router @ ops_router @
     slack_integrations_router @ webhooks_tailscale_router"

lemmas router_defs =
  health_router_def raft_router_def auth_router_def oidc_web_router_def domains_router_def
  agents_router_def missions_router_def tasks_router_def runs_router_def profiles_router_def
  hooks_router_def scheduled_jobs_router_def work_router_def runtime_router_def budgets_router_def
  event_triggers_router_def feedback_router_def onboarding_router_def remotectl_router_def
  artifacts_router_def docs_router_def persistence_router_def schema_pack_router_def
  chat_integrations_router_def ingestion_router_def search_router_def google_chat_integrations_router_def
  teams_integrations_router_def explorer_router_def mcp_router_def ops_router_def
  slack_integrations_router_def webhooks_tailscale_router_def

section \<open>Paths and patterns\<close>

text \<open>The segments of a path, which starts with a slash: "/" has the one segment "".\<close>

definition path_segments :: "str \<Rightarrow> str list" where
  "path_segments p = tl (split_on CHR ''/'' p)"

definition path_of :: "str list \<Rightarrow> str" where
  "path_of segs = CHR ''/'' # join_with CHR ''/'' segs"

fun fits :: "route_pattern \<Rightarrow> str list \<Rightarrow> bool" where
  "fits [] segs \<longleftrightarrow> segs = []"
| "fits (p # ps) [] \<longleftrightarrow> False"
| "fits (p # ps) (s # ss) \<longleftrightarrow> (case p of Lit l \<Rightarrow> s = l | Param n \<Rightarrow> s \<noteq> []) \<and> fits ps ss"

text \<open>Nesting puts a prefix before every path; the path "/" becomes the prefix itself.\<close>

definition nest :: "str \<Rightarrow> route_table \<Rightarrow> route_table" where
  "nest prefix tbl = map (\<lambda>(pat, ms). (Lit prefix # (if pat = [Lit ''''] then [] else pat), ms)) tbl"

text \<open>server.rs build_app: the probes without a prefix, everything else below /api.\<close>

definition build_app :: route_table where
  "build_app = probe_router @ nest ''api'' build_router"

section \<open>How a path is looked up\<close>

text \<open>The framework finds a route exactly when some pattern fits, and a pattern of literals wins.\<close>

locale router_semantics =
  fixes find_route :: "route_table \<Rightarrow> str list \<Rightarrow> (route_pattern \<times> method_router) option"
  assumes finds: "find_route tbl segs = None \<longleftrightarrow> (\<forall>r\<in>set tbl. \<not> fits (fst r) segs)"
    and found_fits: "find_route tbl segs = Some r \<Longrightarrow> r \<in> set tbl \<and> fits (fst r) segs"
    and literal_first: "find_route tbl segs = Some r \<Longrightarrow> map Lit segs \<in> fst ` set tbl \<Longrightarrow> fst r = map Lit segs"

definition matched_route :: "route_table \<Rightarrow> str list \<Rightarrow> (route_pattern \<times> method_router) option" where
  "matched_route tbl segs =
     (case find (\<lambda>r. fst r = map Lit segs) tbl of
        Some r \<Rightarrow> Some r
      | None \<Rightarrow> find (\<lambda>r. fits (fst r) segs) tbl)"

datatype reached = Handler str | MethodNotAllowed | Unrouted

definition reach ::
  "(route_table \<Rightarrow> str list \<Rightarrow> (route_pattern \<times> method_router) option) \<Rightarrow> route_table \<Rightarrow> http_method \<Rightarrow> str \<Rightarrow> reached" where
  "reach find_route tbl m path =
     (case find_route tbl (path_segments path) of
        None \<Rightarrow> Unrouted
      | Some r \<Rightarrow> (case map_of (snd r) m of Some h \<Rightarrow> Handler h | None \<Rightarrow> MethodNotAllowed))"

lemma fits_literals: "fits (map Lit segs) segs' \<longleftrightarrow> segs' = segs"
proof (induction segs arbitrary: segs')
  case (Cons s ss)
  then show ?case
    by (cases segs') auto
qed simp

lemma fits_length: "fits pat segs \<Longrightarrow> length segs = length pat"
  by (induction pat segs rule: fits.induct) auto

lemma fits_append:
  "fits pat (xs @ ys) \<longleftrightarrow> fits (take (length xs) pat) xs \<and> fits (drop (length xs) pat) ys"
proof (induction xs arbitrary: pat)
  case (Cons x xs)
  then show ?case
    by (cases pat) auto
qed simp

interpretation axum: router_semantics matched_route
proof
  fix tbl segs and r :: "route_pattern \<times> method_router"
  have lit: "find (\<lambda>r. fst r = map Lit segs) tbl = Some x \<Longrightarrow> x \<in> set tbl \<and> fits (fst x) segs \<and> fst x = map Lit segs"
    for x :: "route_pattern \<times> method_router"
    using find_SomeD [of "\<lambda>r. fst r = map Lit segs" tbl x] by (simp add: fits_literals)
  show "matched_route tbl segs = None \<longleftrightarrow> (\<forall>r\<in>set tbl. \<not> fits (fst r) segs)"
    using lit by (fastforce simp: matched_route_def find_None_iff fits_literals split: option.splits)
  show "matched_route tbl segs = Some r \<Longrightarrow> r \<in> set tbl \<and> fits (fst r) segs"
    using lit find_SomeD [of "\<lambda>r. fits (fst r) segs" tbl r] by (auto simp: matched_route_def split: option.splits)
  show "matched_route tbl segs = Some r \<Longrightarrow> map Lit segs \<in> fst ` set tbl \<Longrightarrow> fst r = map Lit segs"
    using lit by (auto simp: matched_route_def find_None_iff split: option.splits)
qed

lemma path_segments_path_of:
  assumes "segs \<noteq> []" "\<forall>s\<in>set segs. CHR ''/'' \<notin> set s"
  shows "path_segments (path_of segs) = segs"
  using split_join [OF assms] by (simp add: path_segments_def path_of_def)

lemma path_of_path_segments: "p = CHR ''/'' # q \<Longrightarrow> path_of (path_segments p) = p"
  by (simp add: path_of_def path_segments_def)

section \<open>Requests known by their shape\<close>

text \<open>A request is written like a pattern, its parameters being any texts without a slash. Two patterns
  meet when some path fits both; one covers the other when every path of the other fits it.\<close>

definition fill :: "(str \<Rightarrow> str) \<Rightarrow> route_pattern \<Rightarrow> str list" where
  "fill \<sigma> pat = map (\<lambda>s. case s of Lit l \<Rightarrow> l | Param n \<Rightarrow> \<sigma> n) pat"

fun meets :: "route_pattern \<Rightarrow> route_pattern \<Rightarrow> bool" where
  "meets [] [] \<longleftrightarrow> True"
| "meets (Lit a # ps) (Lit b # qs) \<longleftrightarrow> a = b \<and> meets ps qs"
| "meets (Lit a # ps) (Param n # qs) \<longleftrightarrow> meets ps qs"
| "meets (Param n # ps) (Lit b # qs) \<longleftrightarrow> b \<noteq> [] \<and> meets ps qs"
| "meets (Param n # ps) (Param k # qs) \<longleftrightarrow> meets ps qs"
| "meets _ _ \<longleftrightarrow> False"

fun covers :: "route_pattern \<Rightarrow> route_pattern \<Rightarrow> bool" where
  "covers [] [] \<longleftrightarrow> True"
| "covers (Lit a # ps) (Lit b # qs) \<longleftrightarrow> a = b \<and> covers ps qs"
| "covers (Param n # ps) (Lit b # qs) \<longleftrightarrow> b \<noteq> [] \<and> covers ps qs"
| "covers (Param n # ps) (Param k # qs) \<longleftrightarrow> covers ps qs"
| "covers _ _ \<longleftrightarrow> False"

lemma fits_meets: "fits p (fill \<sigma> q) \<Longrightarrow> meets p q"
  by (induction p q rule: meets.induct) (auto simp: fill_def)

lemma covers_fits: "covers p q \<Longrightarrow> \<forall>n. \<sigma> n \<noteq> [] \<Longrightarrow> fits p (fill \<sigma> q)"
  by (induction p q rule: covers.induct) (auto simp: fill_def)

definition the_only :: "http_method \<Rightarrow> route_pattern \<Rightarrow> route_table \<Rightarrow> reached option" where
  "the_only m q rs =
     (case rs of
        [] \<Rightarrow> Some Unrouted
      | [r] \<Rightarrow> (if covers (fst r) q then Some (case map_of (snd r) m of Some h \<Rightarrow> Handler h | None \<Rightarrow> MethodNotAllowed) else None)
      | _ \<Rightarrow> None)"

definition target :: "route_table \<Rightarrow> http_method \<Rightarrow> route_pattern \<Rightarrow> reached option" where
  "target tbl m q = the_only m q (filter (\<lambda>r. meets (fst r) q) tbl)"

definition plain_values :: "(str \<Rightarrow> str) \<Rightarrow> bool" where
  "plain_values \<sigma> \<longleftrightarrow> (\<forall>n. \<sigma> n \<noteq> [] \<and> CHR ''/'' \<notin> set (\<sigma> n))"

definition plain_pattern :: "route_pattern \<Rightarrow> bool" where
  "plain_pattern q \<longleftrightarrow> q \<noteq> [] \<and> list_all (\<lambda>s. case s of Lit l \<Rightarrow> CHR ''/'' \<notin> set l | Param _ \<Rightarrow> True) q"

lemma segments_of_fill:
  assumes "plain_pattern q" "plain_values \<sigma>"
  shows "path_segments (path_of (fill \<sigma> q)) = fill \<sigma> q"
  using assms
  by (intro path_segments_path_of)
    (auto simp: fill_def plain_pattern_def plain_values_def list_all_iff split: route_segment.splits)

text \<open>What a table does with a request of a known shape can be computed from the patterns alone.\<close>

lemma reach_target:
  assumes "router_semantics find_route" "target tbl m q = Some a" "plain_pattern q" "plain_values \<sigma>"
  shows "reach find_route tbl m (path_of (fill \<sigma> q)) = a"
proof (cases "filter (\<lambda>r. meets (fst r) q) tbl")
  case Nil
  then have "\<forall>r\<in>set tbl. \<not> fits (fst r) (fill \<sigma> q)"
    using fits_meets by (fastforce simp: filter_empty_conv)
  then have "find_route tbl (fill \<sigma> q) = None"
    unfolding router_semantics.finds [OF assms(1)] .
  then show ?thesis
    using Nil assms(2) by (simp add: reach_def target_def the_only_def segments_of_fill [OF assms(3,4)])
next
  case (Cons r rs)
  then have rs: "rs = []" and c: "covers (fst r) q"
    and a: "a = (case map_of (snd r) m of Some h \<Rightarrow> Handler h | None \<Rightarrow> MethodNotAllowed)"
    using assms(2) by (auto simp: target_def the_only_def split: list.splits if_splits)
  have "fits (fst r) (fill \<sigma> q)"
    using covers_fits [OF c] assms(4) by (simp add: plain_values_def)
  moreover have only: "{x \<in> set tbl. meets (fst x) q} = {r}"
    using arg_cong [OF Cons, of set] rs by simp
  moreover have "r \<in> set tbl"
    using only by blast
  ultimately have "find_route tbl (fill \<sigma> q) \<noteq> None"
    using router_semantics.finds [OF assms(1), of tbl "fill \<sigma> q"] by blast
  then obtain x where x: "find_route tbl (fill \<sigma> q) = Some x"
    by blast
  then have "x \<in> {x \<in> set tbl. meets (fst x) q}"
    using router_semantics.found_fits [OF assms(1) x] fits_meets by blast
  then have "x = r"
    unfolding only by simp
  then show ?thesis
    using x by (simp add: reach_def a segments_of_fill [OF assms(3,4)])
qed


section \<open>Tables by their first segment\<close>

text \<open>Every module keeps to a few first segments, so a request can only meet the routes of its own modules.\<close>

definition rooted :: "str list \<Rightarrow> route_table \<Rightarrow> bool" where
  "rooted roots tbl \<longleftrightarrow> list_all (\<lambda>r. case fst r of Lit l # _ \<Rightarrow> l \<in> set roots | _ \<Rightarrow> False) tbl"

lemma rooted_mem: "rooted roots tbl \<Longrightarrow> r \<in> set tbl \<Longrightarrow> \<exists>l q. fst r = Lit l # q \<and> l \<in> set roots"
  by (cases "fst r"; cases "hd (fst r)") (auto simp: rooted_def list_all_iff)

lemma root_of_meets:
  "meets pat (Lit l # q) \<Longrightarrow> (case pat of Lit k # _ \<Rightarrow> k \<in> set roots | _ \<Rightarrow> False) \<Longrightarrow> l \<in> set roots"
  by (cases "(pat, Lit l # q)" rule: meets.cases) auto

lemma rooted_meets: "rooted roots tbl \<Longrightarrow> l \<notin> set roots \<Longrightarrow> filter (\<lambda>r. meets (fst r) (Lit l # q)) tbl = []"
  unfolding rooted_def list_all_iff filter_empty_conv using root_of_meets by blast

lemma health_rooted: "rooted ['''', ''health''] health_router"
  by code_simp

lemma raft_rooted: "rooted [''raft''] raft_router"
  by code_simp

lemma auth_rooted: "rooted [''auth''] auth_router"
  by code_simp

lemma oidc_web_rooted: "rooted [''auth''] oidc_web_router"
  by code_simp

lemma domains_rooted: "rooted [''domains''] domains_router"
  by code_simp

lemma agents_rooted: "rooted [''agents''] agents_router"
  by code_simp

lemma missions_rooted: "rooted [''domains'', ''missions''] missions_router"
  by code_simp

lemma tasks_rooted: "rooted [''domains'', ''missions''] tasks_router"
  by code_simp

lemma runs_rooted: "rooted [''runs''] runs_router"
  by code_simp

lemma profiles_rooted: "rooted [''me''] profiles_router"
  by code_simp

lemma hooks_rooted: "rooted [''hooks''] hooks_router"
  by code_simp

lemma scheduled_jobs_rooted: "rooted [''scheduled-jobs''] scheduled_jobs_router"
  by code_simp

lemma work_rooted: "rooted [''work'', ''sse''] work_router"
  by code_simp

lemma runtime_rooted: "rooted [''runtime''] runtime_router"
  by code_simp

lemma budgets_rooted: "rooted [''budgets''] budgets_router"
  by code_simp

lemma event_triggers_rooted: "rooted [''event-triggers''] event_triggers_router"
  by code_simp

lemma feedback_rooted: "rooted [''feedback''] feedback_router"
  by code_simp

lemma onboarding_rooted: "rooted [''agent-onboarding.json''] onboarding_router"
  by code_simp

lemma remotectl_rooted: "rooted [''remotectl''] remotectl_router"
  by code_simp

lemma artifacts_rooted: "rooted [''artifacts''] artifacts_router"
  by code_simp

lemma docs_rooted: "rooted [''docs''] docs_router"
  by code_simp

lemma persistence_rooted: "rooted [''persistence''] persistence_router"
  by code_simp

lemma schema_pack_rooted: "rooted [''schema-pack''] schema_pack_router"
  by code_simp

lemma chat_integrations_rooted: "rooted [''integrations''] chat_integrations_router"
  by code_simp

lemma ingestion_rooted: "rooted [''ingest''] ingestion_router"
  by code_simp

lemma search_rooted: "rooted [''search''] search_router"
  by code_simp

lemma google_chat_integrations_rooted: "rooted [''integrations''] google_chat_integrations_router"
  by code_simp

lemma teams_integrations_rooted: "rooted [''integrations''] teams_integrations_router"
  by code_simp

lemma explorer_rooted: "rooted [''explorer''] explorer_router"
  by code_simp

lemma mcp_rooted: "rooted [''mcp''] mcp_router"
  by code_simp

lemma ops_rooted: "rooted [''ops''] ops_router"
  by code_simp

lemma slack_integrations_rooted: "rooted [''integrations''] slack_integrations_router"
  by code_simp

lemma webhooks_tailscale_rooted: "rooted [''webhooks''] webhooks_tailscale_router"
  by code_simp

lemmas routers_rooted =
  health_rooted raft_rooted auth_rooted oidc_web_rooted domains_rooted agents_rooted missions_rooted
  tasks_rooted runs_rooted profiles_rooted hooks_rooted scheduled_jobs_rooted work_rooted runtime_rooted
  budgets_rooted event_triggers_rooted feedback_rooted onboarding_rooted remotectl_rooted artifacts_rooted
  docs_rooted persistence_rooted schema_pack_rooted chat_integrations_rooted ingestion_rooted search_rooted
  google_chat_integrations_rooted teams_integrations_rooted explorer_rooted mcp_rooted ops_rooted
  slack_integrations_rooted webhooks_tailscale_rooted

lemmas elsewhere = routers_rooted [THEN rooted_meets]

lemma target_work: "target build_router m (Lit ''work'' # q) = target work_router m (Lit ''work'' # q)"
  by (simp add: target_def build_router_def elsewhere)

lemma target_agents: "target build_router m (Lit ''agents'' # q) = target agents_router m (Lit ''agents'' # q)"
  by (simp add: target_def build_router_def elsewhere)

lemma target_runs: "target build_router m (Lit ''runs'' # q) = target runs_router m (Lit ''runs'' # q)"
  by (simp add: target_def build_router_def elsewhere)

lemma target_runtime: "target build_router m (Lit ''runtime'' # q) = target runtime_router m (Lit ''runtime'' # q)"
  by (simp add: target_def build_router_def elsewhere)

lemma target_domains:
  "target build_router m (Lit ''domains'' # q) = target (domains_router @ missions_router @ tasks_router) m (Lit ''domains'' # q)"
  by (simp add: target_def build_router_def elsewhere)

lemma target_missions:
  "target build_router m (Lit ''missions'' # q) = target (missions_router @ tasks_router) m (Lit ''missions'' # q)"
  by (simp add: target_def build_router_def elsewhere)

lemma probe_rooted: "rooted [''healthz'', ''readyz''] probe_router"
  by code_simp

lemma nest_rooted: "rooted [prefix] (nest prefix tbl)"
  by (induction tbl) (auto simp: nest_def rooted_def)

lemma meets_nest:
  assumes "l \<noteq> []"
  shows "filter (\<lambda>r. meets (fst r) (Lit p # Lit l # q)) (nest p tbl) = nest p (filter (\<lambda>r. meets (fst r) (Lit l # q)) tbl)"
proof (induction tbl)
  case (Cons r tbl)
  have "fst r = [Lit ''''] \<Longrightarrow> \<not> meets (fst r) (Lit l # q)"
    using assms by simp
  then show ?case
    using Cons assms by (cases r) (auto simp: nest_def)
qed (simp add: nest_def)

lemma the_only_nest:
  assumes "l \<noteq> []" "\<forall>r\<in>set rs. meets (fst r) (Lit l # q)"
  shows "the_only m (Lit p # Lit l # q) (nest p rs) = the_only m (Lit l # q) rs"
  using assms by (auto simp: the_only_def nest_def split: list.splits)

lemma target_api:
  assumes "l \<noteq> []"
  shows "target build_app m (Lit ''api'' # Lit l # q) = target build_router m (Lit l # q)"
proof -
  have "filter (\<lambda>r. meets (fst r) (Lit ''api'' # Lit l # q)) build_app =
      nest ''api'' (filter (\<lambda>r. meets (fst r) (Lit l # q)) build_router)"
    by (simp add: build_app_def rooted_meets [OF probe_rooted] meets_nest [OF assms])
  then show ?thesis
    using assms by (simp add: target_def the_only_nest)
qed

lemma target_outside_api:
  "l \<notin> {''api'', ''healthz'', ''readyz''} \<Longrightarrow> target build_app m (Lit l # q) = Some Unrouted"
  by (simp add: target_def build_app_def rooted_meets [OF probe_rooted] rooted_meets [OF nest_rooted] the_only_def)

lemmas target_roots = target_api target_work target_agents target_runs target_runtime target_domains target_missions

end
