(* ===== verification/Daemon_Requests.thy ===== *)
theory Daemon_Requests
  imports Routes Watchdog
begin

text \<open>
  The application around the routes (crates/edgeplane-tower/src/server.rs: the fallback, the proxy, the cache
  headers) and the daemon's client of it (edgeplaned-core/src/client.rs with the requests that the daemon
  and its work crate send). Each request is a method with the shape of its path.
\<close>

section \<open>The application (server.rs)\<close>

definition trim_end_char :: "char \<Rightarrow> str \<Rightarrow> str" where
  "trim_end_char c s = rev (dropWhile (\<lambda>x. x = c) (rev s))"

record in_request =
  ir_method :: http_method
  ir_path :: str
  ir_query :: "str option"
  ir_auth :: "str option"
  ir_body :: "str option"  \<comment> \<open>None: reading it failed or it is over 10 MiB\<close>

record out_request =
  or_method :: http_method
  or_url :: str
  or_auth :: "str option"
  or_body :: str

definition NOT_FOUND :: nat where "NOT_FOUND = 404"
definition METHOD_NOT_ALLOWED :: nat where "METHOD_NOT_ALLOWED = 405"
definition BAD_GATEWAY :: nat where "BAD_GATEWAY = 502"

text \<open>The answer of the upstream is a status with its body, if the body could be read.\<close>

definition proxy_fallback ::
  "str option \<Rightarrow> (out_request \<Rightarrow> (nat \<times> str option) option) \<Rightarrow> in_request \<Rightarrow> nat \<times> str" where
  "proxy_fallback api_proxy send req =
     (case api_proxy of
        None \<Rightarrow> (NOT_FOUND, [])
      | Some base \<Rightarrow>
          let path_query = ir_path req @ (case ir_query req of Some q \<Rightarrow> CHR ''?'' # q | None \<Rightarrow> []);
              url = trim_end_char CHR ''/'' base @ path_query in
          (case ir_body req of
             None \<Rightarrow> (BAD_GATEWAY, [])
           | Some b \<Rightarrow>
               (case send \<lparr>or_method = ir_method req, or_url = url, or_auth = ir_auth req, or_body = b\<rparr> of
                  Some (status, Some body) \<Rightarrow> (status, body)
                | _ \<Rightarrow> (BAD_GATEWAY, []))))"

text \<open>With a build of the web interface the fallback is the file service, without one it is the proxy.\<close>

datatype front = Web_build "in_request \<Rightarrow> nat \<times> str" | No_web_build

definition app_fallback ::
  "front \<Rightarrow> str option \<Rightarrow> (out_request \<Rightarrow> (nat \<times> str option) option) \<Rightarrow> in_request \<Rightarrow> nat \<times> str" where
  "app_fallback fr api_proxy send req =
     (case fr of Web_build serve \<Rightarrow> serve req | No_web_build \<Rightarrow> proxy_fallback api_proxy send req)"

definition tower_answer ::
  "(route_table \<Rightarrow> str list \<Rightarrow> (route_pattern \<times> method_router) option) \<Rightarrow> (str \<Rightarrow> in_request \<Rightarrow> nat \<times> str) \<Rightarrow>
   (in_request \<Rightarrow> nat \<times> str) \<Rightarrow> in_request \<Rightarrow> nat \<times> str" where
  "tower_answer find_route handle fallback req =
     (case reach find_route build_app (ir_method req) (ir_path req) of
        Handler h \<Rightarrow> handle h req
      | MethodNotAllowed \<Rightarrow> (METHOD_NOT_ALLOWED, [])
      | Unrouted \<Rightarrow> fallback req)"

text \<open>Assets whose names carry a digest may be kept for ever, documents are revalidated.\<close>

definition web_cache_control :: "str \<Rightarrow> (str \<rightharpoonup> str) \<Rightarrow> (str \<rightharpoonup> str)" where
  "web_cache_control path headers =
     (if starts_with ''/assets/'' path \<or> starts_with ''/_app/'' path
      then headers(''cache-control'' \<mapsto> ''public, max-age=31536000, immutable'')
      else if (case headers ''content-type'' of Some ct \<Rightarrow> starts_with ''text/html'' ct | None \<Rightarrow> False)
      then headers(''cache-control'' \<mapsto> ''no-cache'')
      else headers)"

section \<open>The client of the daemon (client.rs)\<close>

text \<open>One token for all clones of a client: setting it changes what every later request carries.\<close>

record backend_client =
  bc_base_url :: str
  bc_token :: str
  bc_api_prefix :: str

definition new_client :: "str \<Rightarrow> str \<Rightarrow> backend_client" where
  "new_client base token = \<lparr>bc_base_url = base, bc_token = token, bc_api_prefix = []\<rparr>"

definition with_api_prefix :: "str \<Rightarrow> backend_client \<Rightarrow> backend_client" where
  "with_api_prefix prefix c = c\<lparr>bc_api_prefix := prefix\<rparr>"

definition client_url :: "backend_client \<Rightarrow> str \<Rightarrow> str" where
  "client_url c path = trim_end_char CHR ''/'' (bc_base_url c) @ bc_api_prefix c @ path"

definition auth_header :: "backend_client \<Rightarrow> str" where
  "auth_header c = ''Bearer '' @ bc_token c"

definition set_token :: "str \<Rightarrow> backend_client \<Rightarrow> backend_client" where
  "set_token token c = c\<lparr>bc_token := token\<rparr>"

text \<open>daemon.rs: the prefix is EP_API_PREFIX, or /api when that is not set.\<close>

definition daemon_client :: "str \<Rightarrow> str \<Rightarrow> str option \<Rightarrow> backend_client" where
  "daemon_client backend_url token ep_api_prefix =
     with_api_prefix (case ep_api_prefix of Some p \<Rightarrow> p | None \<Rightarrow> ''/api'') (new_client backend_url token)"

definition error_for_status :: "nat \<Rightarrow> bool" where
  "error_for_status status \<longleftrightarrow> 400 \<le> status \<and> status \<le> 599"

section \<open>The requests of the daemon\<close>

type_synonym call = "http_method \<times> route_pattern"

definition get_domain_roster_call :: call where "get_domain_roster_call = (MGet, [Lit ''domains'', Param ''domain_id'', Lit ''roster''])"
definition get_agent_call :: call where "get_agent_call = (MGet, [Lit ''agents'', Param ''agent_id''])"
definition update_agent_profile_call :: call where "update_agent_profile_call = (MPatch, [Lit ''agents'', Param ''agent_id'', Lit ''profile''])"
definition mint_agent_token_call :: call where "mint_agent_token_call = (MPost, [Lit ''work'', Lit ''agents'', Param ''agent_id'', Lit ''token''])"
definition rotate_node_token_call :: call where "rotate_node_token_call = (MPost, [Lit ''runtime'', Lit ''nodes'', Param ''node_id'', Lit ''rotate-token''])"
definition list_tasks_call :: call where "list_tasks_call = (MGet, [Lit ''work'', Lit ''missions'', Param ''mission_id'', Lit ''tasks''])"
definition claim_task_call :: call where "claim_task_call = (MPost, [Lit ''work'', Lit ''tasks'', Param ''task_id'', Lit ''claim''])"
definition lease_heartbeat_call :: call where "lease_heartbeat_call = (MPost, [Lit ''work'', Lit ''tasks'', Param ''task_id'', Lit ''heartbeat''])"
definition post_progress_call :: call where "post_progress_call = (MPost, [Lit ''work'', Lit ''tasks'', Param ''task_id'', Lit ''progress''])"
definition complete_task_call :: call where "complete_task_call = (MPost, [Lit ''work'', Lit ''tasks'', Param ''task_id'', Lit ''complete''])"
definition dependency_progress_call :: call where "dependency_progress_call = (MGet, [Lit ''work'', Lit ''tasks'', Param ''task_id'', Lit ''progress''])"
definition fail_task_call :: call where "fail_task_call = (MPost, [Lit ''work'', Lit ''tasks'', Param ''task_id'', Lit ''fail''])"
definition send_mission_message_call :: call where "send_mission_message_call = (MPost, [Lit ''missions'', Param ''mission_id'', Lit ''messages''])"
definition poll_messages_call :: call where "poll_messages_call = (MGet, [Lit ''missions'', Param ''mission_id'', Lit ''messages''])"
definition agent_heartbeat_call :: call where "agent_heartbeat_call = (MPost, [Lit ''agents'', Param ''agent_id'', Lit ''heartbeat''])"
definition agent_busy_call :: call where "agent_busy_call = (MPost, [Lit ''agents'', Param ''agent_id'', Lit ''status''])"
definition agent_idle_call :: call where "agent_idle_call = (MPost, [Lit ''agents'', Param ''agent_id'', Lit ''status''])"
definition list_missions_call :: call where "list_missions_call = (MGet, [Lit ''domains'', Param ''domain_id'', Lit ''m''])"
definition inbox_call :: call where "inbox_call = (MGet, [Lit ''agents'', Param ''agent_id'', Lit ''messages''])"
definition list_domains_call :: call where "list_domains_call = (MGet, [Lit ''domains''])"
definition create_domain_call :: call where "create_domain_call = (MPost, [Lit ''domains''])"
definition enroll_call :: call where "enroll_call = (MPost, [Lit ''work'', Lit ''domains'', Param ''domain_id'', Lit ''agents'', Lit ''enroll''])"
definition start_run_call :: call where "start_run_call = (MPost, [Lit ''runs''])"
definition complete_run_call :: call where "complete_run_call = (MPost, [Lit ''runs'', Param ''run_id'', Lit ''complete''])"
definition delete_agent_call :: call where "delete_agent_call = (MDelete, [Lit ''work'', Lit ''agents'', Param ''agent_id''])"
definition attach_secret_call :: call where "attach_secret_call = (MGet, [Lit ''runtime'', Lit ''nodes'', Param ''node_id'', Lit ''attach-secret''])"
definition node_heartbeat_call :: call where "node_heartbeat_call = (MPost, [Lit ''runtime'', Lit ''nodes'', Param ''node_id'', Lit ''heartbeat''])"
definition node_agents_call :: call where "node_agents_call = (MGet, [Lit ''runtime'', Lit ''nodes'', Param ''node_id'', Lit ''agents''])"

lemmas call_defs =
  get_domain_roster_call_def get_agent_call_def update_agent_profile_call_def mint_agent_token_call_def
  rotate_node_token_call_def list_tasks_call_def claim_task_call_def lease_heartbeat_call_def
  post_progress_call_def complete_task_call_def dependency_progress_call_def fail_task_call_def
  send_mission_message_call_def poll_messages_call_def agent_heartbeat_call_def agent_busy_call_def
  agent_idle_call_def list_missions_call_def inbox_call_def list_domains_call_def
  create_domain_call_def enroll_call_def start_run_call_def complete_run_call_def
  delete_agent_call_def attach_secret_call_def node_heartbeat_call_def node_agents_call_def

text \<open>The registration and the notification sockets write their paths without the client; the one of a task
  loop leaves the prefix out (task_loop.rs run_notify_ws).\<close>

definition register_call :: call where
  "register_call = (MPost, [Lit ''api'', Lit ''runtime'', Lit ''nodes'', Lit ''register''])"

definition node_notify_call :: call where
  "node_notify_call = (MGet, [Lit ''runtime'', Lit ''nodes'', Param ''node_id'', Lit ''notify''])"

definition agent_notify_call :: call where
  "agent_notify_call = (MGet, [Lit ''agents'', Param ''agent_id'', Lit ''notify''])"

text \<open>Where a request that carries the prefix, and one that does not, ends up.\<close>

definition lands ::
  "(route_table \<Rightarrow> str list \<Rightarrow> (route_pattern \<times> method_router) option) \<Rightarrow> (str \<Rightarrow> str) \<Rightarrow> str list \<Rightarrow> call \<Rightarrow> reached" where
  "lands find_route \<sigma> prefix c = reach find_route build_app (fst c) (path_of (prefix @ fill \<sigma> (snd c)))"

end
