(* ===== verification/Route_Properties.thy ===== *)
theory Route_Properties
  imports Daemon_Requests
begin

text \<open>
  What the tower serves: where each request of the daemon ends up, what follows for the task loop, and which
  handlers can be reached without a credential.
\<close>

section \<open>Where the requests of the daemon end up\<close>

lemma fill_literals: "path_of (prefix @ fill \<sigma> q) = path_of (fill \<sigma> (map Lit prefix @ q))"
  by (simp add: fill_def comp_def)

lemma lands_target:
  assumes "router_semantics find_route" "plain_values \<sigma>"
    and "target build_app (fst c) (map Lit prefix @ snd c) = Some a" "plain_pattern (map Lit prefix @ snd c)"
  shows "lands find_route \<sigma> prefix c = a"
  unfolding lands_def fill_literals by (rule reach_target [OF assms(1,3,4,2)])

text \<open>The requests that carry the prefix /api, each with what the tower does with it.\<close>

definition landings :: "(call \<times> reached) list" where
  "landings =
     [(get_agent_call, Handler ''agents::get_agent''),
      (mint_agent_token_call, Handler ''work::mint_agent_token''),
      (rotate_node_token_call, Handler ''runtime::rotate_node_token''),
      (list_tasks_call, Handler ''work::list_tasks''),
      (claim_task_call, Handler ''work::claim_task''),
      (lease_heartbeat_call, Handler ''work::heartbeat_task''),
      (post_progress_call, Handler ''work::append_progress''),
      (complete_task_call, Handler ''work::complete_task''),
      (dependency_progress_call, Handler ''work::get_task_progress''),
      (fail_task_call, Handler ''work::fail_task''),
      (list_missions_call, Handler ''missions::list_missions''),
      (inbox_call, Handler ''agents::list_messages''),
      (list_domains_call, Handler ''domains::list_domains''),
      (create_domain_call, Handler ''domains::create_domain''),
      (enroll_call, Handler ''work::enroll_agent''),
      (start_run_call, Handler ''runs::start_run''),
      (complete_run_call, Handler ''runs::complete_run''),
      (delete_agent_call, Handler ''work::delete_agent''),
      (attach_secret_call, Handler ''runtime::get_node_attach_secret''),
      (node_heartbeat_call, Handler ''runtime::heartbeat_node''),
      (node_agents_call, Handler ''runtime::list_node_agents''),
      (node_notify_call, Handler ''runtime::node_notify_ws''),
      (agent_heartbeat_call, Unrouted),
      (agent_busy_call, Unrouted),
      (agent_idle_call, Unrouted),
      (update_agent_profile_call, Unrouted),
      (get_domain_roster_call, Unrouted),
      (send_mission_message_call, Unrouted),
      (poll_messages_call, Unrouted)]"

definition work_landings :: "(call \<times> reached) list" where
  "work_landings =
     [(agent_heartbeat_call, Handler ''work::agent_heartbeat''),
      (agent_busy_call, Handler ''work::set_agent_status''),
      (agent_idle_call, Handler ''work::set_agent_status''),
      (update_agent_profile_call, Handler ''work::update_agent_profile''),
      (get_domain_roster_call, Handler ''work::domain_roster''),
      (send_mission_message_call, Handler ''work::send_mission_message''),
      (poll_messages_call, Handler ''work::list_mission_messages''),
      (agent_notify_call, Handler ''work::agent_notify_ws'')]"

lemma landings_targets: "list_all (\<lambda>(c, a). target build_app (fst c) (map Lit [''api''] @ snd c) = Some a) landings"
  apply (simp only: landings_def call_defs list.pred_inject list.map append.simps fst_conv snd_conv split_conv)
  apply (simp add: target_roots del: list.pred_inject)
  apply code_simp
  done

lemma work_landings_targets:
  "list_all (\<lambda>(c, a). target build_app (fst c) (map Lit [''api'', ''work''] @ snd c) = Some a) work_landings"
  apply (simp only: work_landings_def call_defs agent_notify_call_def list.pred_inject list.map append.simps fst_conv snd_conv
      split_conv)
  apply (simp add: target_roots del: list.pred_inject)
  apply code_simp
  done

lemma landings_plain:
  "list_all (\<lambda>(c, a). plain_pattern (map Lit [''api''] @ snd c)) landings"
  "list_all (\<lambda>(c, a). plain_pattern (map Lit [''api'', ''work''] @ snd c)) work_landings"
  "plain_pattern (map Lit [] @ snd agent_notify_call)"
  by code_simp+

lemma list_all_lands:
  assumes "router_semantics find_route" "plain_values \<sigma>"
    and "list_all (\<lambda>(c, a). target build_app (fst c) (map Lit prefix @ snd c) = Some a) cs"
    and "list_all (\<lambda>(c, a). plain_pattern (map Lit prefix @ snd c)) cs"
  shows "list_all (\<lambda>(c, a). lands find_route \<sigma> prefix c = a) cs"
  using assms(3,4) lands_target [OF assms(1,2)] unfolding list_all_iff by blast



section \<open>The task loop behind that tower\<close>

text \<open>A request of a loop as the tower sees it, and whether the client takes the answer for a success.\<close>

definition loop_request :: "str list \<Rightarrow> (str \<Rightarrow> str) \<Rightarrow> call \<Rightarrow> in_request" where
  "loop_request prefix \<sigma> c = \<lparr>ir_method = fst c, ir_path = path_of (prefix @ fill \<sigma> (snd c)), ir_query = None,
     ir_auth = None, ir_body = Some []\<rparr>"

definition succeeds :: "(in_request \<Rightarrow> nat \<times> str) \<Rightarrow> str list \<Rightarrow> (str \<Rightarrow> str) \<Rightarrow> call \<Rightarrow> bool" where
  "succeeds tower prefix \<sigma> c \<longleftrightarrow> \<not> error_for_status (fst (tower (loop_request prefix \<sigma> c)))"

text \<open>A step of the loops of a node whose heartbeats and claims are answered by this tower: a heartbeat is
  recorded as a success, and a task is claimed, only if the request for it succeeds.\<close>

definition answered_step ::
  "(nat \<Rightarrow> bool) \<Rightarrow> (nat \<Rightarrow> bool) \<Rightarrow> offline_policy \<Rightarrow> nat \<Rightarrow> node_loops \<Rightarrow> node_loops \<Rightarrow> bool" where
  "answered_step beat_ok claim_ok policy grace s s' \<longleftrightarrow>
     loop_step policy grace s s' \<and>
     (\<forall>a. nl_phase s a = Beating \<and> nl_phase s' a \<noteq> Beating \<longrightarrow>
        (snd (hd (nl_beats s')) \<longrightarrow> beat_ok a) \<and> (nl_phase s' a = Working \<longrightarrow> claim_ok a))"

lemma answered_idle:
  assumes "answered_step beat_ok claim_ok policy grace s s'" "\<forall>a. \<not> (beat_ok a \<and> claim_ok a)" "\<forall>a. nl_phase s a \<noteq> Working"
  shows "\<forall>a. nl_phase s' a \<noteq> Working"
proof -
  have step: "loop_step policy grace s s'"
    using assms(1) by (simp add: answered_step_def)
  show ?thesis
    using step
  proof (rule loop_stepE)
    fix a now
    assume s': "s' = s\<lparr>nl_phase := (nl_phase s)(a := Working), nl_beats := (now, True) # nl_beats s,
        nl_interval := (nl_interval s)(a := POLL_INTERVAL_MIN)\<rparr>" and "nl_phase s a = Beating"
    then have "beat_ok a \<and> claim_ok a"
      using assms(1) by (auto simp: answered_step_def)
    then show ?thesis
      using assms(2) by blast
  qed (use assms(3) in auto)
qed

lemma answered_silent:
  assumes "answered_step beat_ok claim_ok policy grace s s'" "\<forall>a. \<not> beat_ok a" "\<forall>b\<in>set (nl_beats s). \<not> snd b"
  shows "\<forall>b\<in>set (nl_beats s'). \<not> snd b"
proof -
  have step: "loop_step policy grace s s'"
    using assms(1) by (simp add: answered_step_def)
  have no: "\<not> snd (hd (nl_beats s'))" if "nl_phase s a = Beating" "nl_phase s' a \<noteq> Beating" for a
    using assms(1,2) that by (auto simp: answered_step_def)
  show ?thesis
    using step
  proof (rule loop_stepE)
    fix a now
    assume "s' = s\<lparr>nl_phase := (nl_phase s)(a := AtTop), nl_beats := (now, False) # nl_beats s,
        nl_interval := (nl_interval s)(a := back_off (nl_interval s a))\<rparr>"
    then show ?thesis
      using assms(3) by simp
  qed (use assms(3) no in \<open>force+\<close>)
qed

lemma answered_run:
  assumes "(answered_step beat_ok claim_ok policy grace)\<^sup>*\<^sup>* node_init s" "\<forall>a. \<not> (beat_ok a \<and> claim_ok a)"
  shows "(\<forall>a. nl_phase s a \<noteq> Working) \<and> ((\<forall>a. \<not> beat_ok a) \<longrightarrow> (\<forall>b\<in>set (nl_beats s). \<not> snd b))"
  using assms(1)
proof (induction rule: rtranclp_induct)
  case (step s s')
  then show ?case
    using answered_idle [OF step.hyps(2) assms(2)] answered_silent [OF step.hyps(2)] by blast
qed (simp add: node_init_def)

text \<open>The only routes whose last segments could take a heartbeat or a claim.\<close>

lemma heartbeat_routes:
  "filter (\<lambda>r. map_of (snd r) MPost \<noteq> None \<and> meets (drop (length (fst r) - 3) (fst r)) (snd agent_heartbeat_call)) build_app =
     [([Lit ''api'', Lit ''work'', Lit ''agents'', Param ''agent_id'', Lit ''heartbeat''], [(MPost, ''work::agent_heartbeat'')])]"
  by code_simp

lemma claim_routes:
  "filter (\<lambda>r. map_of (snd r) MPost \<noteq> None \<and> meets (drop (length (fst r) - 4) (fst r)) (snd claim_task_call)) build_app =
     [([Lit ''api'', Lit ''work'', Lit ''tasks'', Param ''task_id'', Lit ''claim''], [(MPost, ''work::claim_task'')])]"
  by code_simp

lemma reach_handler:
  assumes "router_semantics find_route" "reach find_route tbl m path = Handler h"
  shows "\<exists>r\<in>set tbl. fits (fst r) (path_segments path) \<and> map_of (snd r) m = Some h"
proof -
  obtain r where r: "find_route tbl (path_segments path) = Some r" "map_of (snd r) m = Some h"
    using assms(2) by (auto simp: reach_def split: option.splits)
  then show ?thesis
    using router_semantics.found_fits [OF assms(1) r(1)] by blast
qed

lemma fits_tail:
  assumes "fits pat (prefix @ fill \<sigma> q)"
  shows "length prefix = length pat - length q" "meets (drop (length pat - length q) pat) q"
    and "fits (take (length pat - length q) pat) prefix"
proof -
  show "length prefix = length pat - length q"
    using fits_length [OF assms] by (simp add: fill_def)
  then show "meets (drop (length pat - length q) pat) q" "fits (take (length pat - length q) pat) prefix"
    using assms fits_meets by (auto simp: fits_append)
qed

lemma routed_post:
  assumes "router_semantics find_route" "plain_values \<sigma>" "plain_pattern q" "\<forall>s\<in>set prefix. CHR ''/'' \<notin> set s"
    and "reach find_route build_app MPost (path_of (prefix @ fill \<sigma> q)) = Handler h"
  shows "\<exists>r\<in>set (filter (\<lambda>r. map_of (snd r) MPost \<noteq> None \<and> meets (drop (length (fst r) - length q) (fst r)) q) build_app).
    fits (take (length (fst r) - length q) (fst r)) prefix"
proof -
  have "prefix @ fill \<sigma> q \<noteq> []" "\<forall>s\<in>set (prefix @ fill \<sigma> q). CHR ''/'' \<notin> set s"
    using assms(2-4)
    by (auto simp: fill_def plain_pattern_def plain_values_def list_all_iff split: route_segment.splits)
  from path_segments_path_of [OF this] obtain r where "r \<in> set build_app" "fits (fst r) (prefix @ fill \<sigma> q)"
    "map_of (snd r) MPost = Some h"
    using reach_handler [OF assms(1,5)] by auto
  then show ?thesis
    using fits_tail [of "fst r" prefix \<sigma> q] by (intro bexI [of _ r]) auto
qed

lemma heartbeat_prefix:
  assumes "router_semantics find_route" "plain_values \<sigma>" "\<forall>s\<in>set prefix. CHR ''/'' \<notin> set s"
    and "reach find_route build_app MPost (path_of (prefix @ fill \<sigma> (snd agent_heartbeat_call))) = Handler h"
  shows "prefix = [''api'', ''work'']"
proof -
  have q: "plain_pattern (snd agent_heartbeat_call)" "length (snd agent_heartbeat_call) = 3"
    by (simp_all add: agent_heartbeat_call_def plain_pattern_def)
  show ?thesis
    using routed_post [OF assms(1,2) q(1) assms(3,4)] unfolding q(2) heartbeat_routes
    by (simp add: fits_literals [of "[''api'', ''work'']", simplified])
qed

lemma claim_prefix:
  assumes "router_semantics find_route" "plain_values \<sigma>" "\<forall>s\<in>set prefix. CHR ''/'' \<notin> set s"
    and "reach find_route build_app MPost (path_of (prefix @ fill \<sigma> (snd claim_task_call))) = Handler h"
  shows "prefix = [''api'']"
proof -
  have q: "plain_pattern (snd claim_task_call)" "length (snd claim_task_call) = 4"
    by (simp_all add: claim_task_call_def plain_pattern_def)
  show ?thesis
    using routed_post [OF assms(1,2) q(1) assms(3,4)] unfolding q(2) claim_routes
    by (simp add: fits_literals [of "[''api'']", simplified])
qed

lemma succeeds_routed:
  assumes "succeeds (tower_answer find_route handle fallback) prefix \<sigma> c" "fst c = MPost"
    and "\<forall>req. ir_method req = MPost \<longrightarrow> error_for_status (fst (fallback req))"
  shows "\<exists>h. reach find_route build_app MPost (path_of (prefix @ fill \<sigma> (snd c))) = Handler h"
  using assms
  by (cases "reach find_route build_app MPost (path_of (prefix @ fill \<sigma> (snd c)))")
    (auto simp: succeeds_def tower_answer_def loop_request_def error_for_status_def METHOD_NOT_ALLOWED_def)

text \<open>C14: the task loop never claims a task. A node talks to a tower that routes as documented and whose fallback
  does not answer a POST with a success, as its own fallback without an upstream does not. Then
  whatever the handlers answer, whatever the agents are called and whatever prefix is configured, in no run
  does the task loop of any agent get to work on a task: a heartbeat needs the prefix /api/work, a
  claim needs /api. Under the default prefix no heartbeat ever succeeds.\<close>

theorem task_loop_never_claims:
  assumes "router_semantics find_route" "\<forall>req. ir_method req = MPost \<longrightarrow> error_for_status (fst (fallback req))"
    and "\<forall>a. plain_values (ids a)" "\<forall>s\<in>set prefix. CHR ''/'' \<notin> set s"
    and "(answered_step
        (\<lambda>a. succeeds (tower_answer find_route handle fallback) prefix (ids a) agent_heartbeat_call)
        (\<lambda>a. \<exists>\<sigma>. plain_values \<sigma> \<and> succeeds (tower_answer find_route handle fallback) prefix \<sigma> claim_task_call)
        policy grace)\<^sup>*\<^sup>* node_init s"
  shows "(\<forall>a. nl_phase s a \<noteq> Working) \<and> (prefix = [''api''] \<longrightarrow> (\<forall>b\<in>set (nl_beats s). \<not> snd b))"
proof -
  let ?ok = "succeeds (tower_answer find_route handle fallback) prefix"
  have posts: "fst agent_heartbeat_call = MPost" "fst claim_task_call = MPost"
    by (simp_all add: agent_heartbeat_call_def claim_task_call_def)
  have beat: "prefix = [''api'', ''work'']" if "?ok (ids a) agent_heartbeat_call" for a
    using succeeds_routed [OF that posts(1) assms(2)] heartbeat_prefix [OF assms(1) spec [OF assms(3)] assms(4)]
    by blast
  have claim: "prefix = [''api'']" if "?ok \<sigma> claim_task_call" "plain_values \<sigma>" for \<sigma>
    using succeeds_routed [OF that(1) posts(2) assms(2)] claim_prefix [OF assms(1) that(2) assms(4)]
    by blast
  have "\<forall>a. \<not> (?ok (ids a) agent_heartbeat_call \<and> (\<exists>\<sigma>. plain_values \<sigma> \<and> ?ok \<sigma> claim_task_call))"
    "prefix = [''api''] \<longrightarrow> (\<forall>a. \<not> ?ok (ids a) agent_heartbeat_call)"
    using beat claim by fastforce+
  then show ?thesis
    using answered_run [OF assms(5)] by blast
qed

lemma task_loop_never_claims_witness:
  "(\<forall>a. nl_phase (node_init\<lparr>nl_phase := (nl_phase node_init)(3 := Beating)\<rparr>) a \<noteq> Working) \<and>
   list_all (\<lambda>b. \<not> snd b) (nl_beats (node_init\<lparr>nl_phase := (nl_phase node_init)(3 := Beating)\<rparr>))"
proof -
  let ?s = "node_init\<lparr>nl_phase := (nl_phase node_init)(3 := Beating)\<rparr>"
  let ?fb = "app_fallback No_web_build None (\<lambda>_. None)"
  let ?ok = "succeeds (tower_answer matched_route (\<lambda>_ _. (200, [])) ?fb) [''api'']"
  have fb: "\<forall>req. ir_method req = MPost \<longrightarrow> error_for_status (fst (?fb req))"
    by (simp add: app_fallback_def proxy_fallback_def NOT_FOUND_def error_for_status_def)
  have "answered_step (\<lambda>a. ?ok (\<lambda>_. ''a7'') agent_heartbeat_call) (\<lambda>a. \<exists>\<sigma>. plain_values \<sigma> \<and> ?ok \<sigma> claim_task_call)
      Strict 30 node_init ?s"
    unfolding answered_step_def
    by (intro conjI loop_step.send_beat [where now = 0]) (simp_all add: node_init_def loop_paused_def)
  from task_loop_never_claims [OF axum.router_semantics_axioms fb _ _ r_into_rtranclp [of _ node_init ?s], OF _ _ this]
  show ?thesis
    by (simp add: plain_values_def list_all_iff)
qed

end
