(* ===== verification/Public_Surface.thy ===== *)
theory Public_Surface
  imports Routes
begin

text \<open>
  The handlers behind the routes that the authentication middleware (Tower_Auth, require_auth) lets pass
  without a credential.
\<close>

section \<open>Public paths by their segments\<close>

definition exact_public_paths :: "str list" where
  "exact_public_paths = public_paths @ [''/auth/logout'', ''/runtime/nodes/register'']"

fun below_oidc :: "str list \<Rightarrow> bool" where
  "below_oidc (a # b # c # _) \<longleftrightarrow> a = ''auth'' \<and> b = ''oidc''"
| "below_oidc _ \<longleftrightarrow> False"

lemma oidc_segments: "starts_with ''/auth/oidc/'' path \<Longrightarrow> below_oidc (path_segments path)"
proof -
  assume "starts_with ''/auth/oidc/'' path"
  then obtain r where "path = ''/auth/oidc/'' @ r"
    by (auto simp: starts_with_iff)
  then have "path_segments path = ''auth'' # ''oidc'' # split_on CHR ''/'' r"
    using split_on_append [of "CHR ''/''" "''auth''" "''oidc'' @ CHR ''/'' # r"]
      split_on_append [of "CHR ''/''" "''oidc''" r] by (simp add: path_segments_def)
  then show ?thesis
    by (cases "split_on CHR ''/'' r") auto
qed

lemma public_segments:
  assumes "is_public_path path"
  shows "path_segments path \<in> path_segments ` set exact_public_paths \<or> below_oidc (path_segments path)"
  using assms oidc_segments by (auto simp: is_public_path_def exact_public_paths_def)

section \<open>The routes they meet\<close>

definition may_be_public :: "route_pattern \<Rightarrow> bool" where
  "may_be_public pat \<longleftrightarrow>
     list_ex (\<lambda>p. meets pat (map Lit (path_segments p))) exact_public_paths \<or>
     3 \<le> length pat \<and> meets (take 2 pat) [Lit ''auth'', Lit ''oidc'']"

definition public_roots :: "str list" where
  "public_roots = ['''', ''health'', ''mcp'', ''raft'', ''agent-onboarding.json'', ''schema-pack'', ''webhooks'',
     ''integrations'', ''auth'', ''runtime'']"

lemma public_path_roots: "list_all (\<lambda>p. hd (path_segments p) \<in> set public_roots \<and> path_segments p \<noteq> []) exact_public_paths"
  by code_simp

lemma public_rooted:
  assumes "rooted roots tbl" "list_all (\<lambda>x. x \<notin> set public_roots) roots"
  shows "filter (\<lambda>r. may_be_public (fst r)) tbl = []"
proof -
  have "\<not> may_be_public (fst r)" if mem: "r \<in> set tbl" for r
  proof
    assume pub: "may_be_public (fst r)"
    obtain l q where pat: "fst r = Lit l # q" "l \<in> set roots"
      using rooted_mem [OF assms(1) mem] by blast
    have no: "l \<notin> set public_roots"
      using assms(2) pat(2) by (auto simp: list_all_iff)
    have "l \<noteq> ''auth''"
      using no by (auto simp: public_roots_def)
    then obtain p where p: "p \<in> set exact_public_paths" "meets (Lit l # q) (map Lit (path_segments p))"
      using pub pat(1) by (cases q) (auto simp: may_be_public_def list_ex_iff)
    then have "l = hd (path_segments p)"
      using public_path_roots by (cases "path_segments p") (auto simp: list_all_iff)
    then show False
      using no p(1) public_path_roots by (auto simp: list_all_iff)
  qed
  then show ?thesis
    by (auto simp: filter_empty_conv)
qed

lemma public_of_modules:
  "filter (\<lambda>r. may_be_public (fst r)) health_router = health_router"
  "filter (\<lambda>r. may_be_public (fst r)) raft_router = raft_router"
  "filter (\<lambda>r. may_be_public (fst r)) auth_router = []"
  "filter (\<lambda>r. may_be_public (fst r)) oidc_web_router = oidc_web_router"
  "filter (\<lambda>r. may_be_public (fst r)) runtime_router =
     [([Lit ''runtime'', Lit ''nodes'', Lit ''register''], [(MPost, ''runtime::register_node'')]),
      ([Lit ''runtime'', Lit ''nodes'', Param ''node_id''], [(MDelete, ''runtime::delete_node'')])]"
  "filter (\<lambda>r. may_be_public (fst r)) onboarding_router = onboarding_router"
  "filter (\<lambda>r. may_be_public (fst r)) schema_pack_router = schema_pack_router"
  "filter (\<lambda>r. may_be_public (fst r)) chat_integrations_router = []"
  "filter (\<lambda>r. may_be_public (fst r)) google_chat_integrations_router = google_chat_integrations_router"
  "filter (\<lambda>r. may_be_public (fst r)) teams_integrations_router = teams_integrations_router"
  "filter (\<lambda>r. may_be_public (fst r)) mcp_router =
     [([Lit ''mcp'', Lit ''tools''], [(MGet, ''mcp::list_tools'')]), ([Lit ''mcp'', Lit ''health''], [(MGet, ''mcp::mcp_health'')])]"
  "filter (\<lambda>r. may_be_public (fst r)) slack_integrations_router =
     [([Lit ''integrations'', Lit ''slack'', Lit ''events''], [(MPost, ''slack_integrations::slack_events'')]),
      ([Lit ''integrations'', Lit ''slack'', Lit ''commands''], [(MPost, ''slack_integrations::slack_commands'')]),
      ([Lit ''integrations'', Lit ''slack'', Lit ''interactions''], [(MPost, ''slack_integrations::slack_interactions'')])]"
  "filter (\<lambda>r. may_be_public (fst r)) webhooks_tailscale_router = webhooks_tailscale_router"
  by code_simp+

definition public_handlers :: "str list" where
  "public_handlers =
     [''health::root_handler'', ''health::health_handler'', ''raft::raft_status'', ''mcp::list_tools'', ''mcp::mcp_health'',
      ''onboarding::agent_onboarding_manifest'', ''schema_pack::get_schema_pack'',
      ''oidc_web::device_authorize'', ''oidc_web::device_verify'', ''oidc_web::device_token'', ''oidc_web::device_success'',
      ''oidc_web::cli_initiate'', ''oidc_web::cli_poll'', ''oidc_web::oidc_start'', ''oidc_web::oidc_callback'',
      ''oidc_web::cli_success_page'', ''oidc_web::exchange_grant'', ''oidc_web::logout'',
      ''runtime::register_node'', ''webhooks_tailscale::tailscale_webhook'',
      ''slack_integrations::slack_events'', ''slack_integrations::slack_commands'', ''slack_integrations::slack_interactions'',
      ''google_chat_integrations::google_chat_events'', ''teams_integrations::teams_events'']"

definition node_route :: "route_pattern \<times> method_router" where
  "node_route = ([Lit ''runtime'', Lit ''nodes'', Param ''node_id''], [(MDelete, ''runtime::delete_node'')])"

lemmas private_modules = routers_rooted [THEN public_rooted]

lemma public_routes:
  "filter (\<lambda>r. may_be_public (fst r)) build_router =
     filter (\<lambda>r. may_be_public (fst r)) (health_router @ raft_router @ auth_router @ oidc_web_router @ runtime_router @
       onboarding_router @ schema_pack_router @ chat_integrations_router @ google_chat_integrations_router @
       teams_integrations_router @ mcp_router @ slack_integrations_router @ webhooks_tailscale_router)"
  by (simp add: build_router_def public_of_modules private_modules public_roots_def)

lemma public_routes_handlers:
  "list_all (\<lambda>r. r = node_route \<or> list_all (\<lambda>(m, h). h \<in> set public_handlers) (snd r))
     (filter (\<lambda>r. may_be_public (fst r)) build_router)"
  unfolding public_routes filter_append public_of_modules by code_simp

lemma fits_meets_literals: "fits pat segs \<Longrightarrow> meets pat (map Lit segs)"
  using fits_meets [of pat undefined "map Lit segs"] by (simp add: fill_def comp_def)

lemma may_be_publicI:
  assumes "is_public_path path" "fits pat (path_segments path)"
  shows "may_be_public pat"
proof (cases "below_oidc (path_segments path)")
  case True
  then obtain c segs where segs: "path_segments path = [''auth'', ''oidc''] @ c # segs"
    by (cases "path_segments path" rule: below_oidc.cases) auto
  then have "fits (take 2 pat) [''auth'', ''oidc'']" "3 \<le> length pat"
    using assms(2) fits_append [of pat "[''auth'', ''oidc'']" "c # segs"] fits_length [OF assms(2)] by (simp_all add: numeral_2_eq_2)
  then show ?thesis
    using fits_meets_literals [of "take 2 pat" "[''auth'', ''oidc'']"] by (simp add: may_be_public_def)
next
  case False
  then show ?thesis
    using public_segments [OF assms(1)] fits_meets_literals [OF assms(2)]
    by (auto simp: may_be_public_def list_ex_iff)
qed

lemma node_route_public:
  "list_all (\<lambda>p. meets (fst node_route) (map Lit (path_segments p)) \<longrightarrow>
     path_segments p = [''runtime'', ''nodes'', ''register'']) exact_public_paths"
  by code_simp

lemma node_route_register:
  assumes "is_public_path path" "fits (fst node_route) (path_segments path)"
  shows "path_segments path = [''runtime'', ''nodes'', ''register'']"
proof -
  have "\<not> below_oidc (path_segments path)"
    using assms(2) by (cases "path_segments path" rule: below_oidc.cases) (auto simp: node_route_def)
  then show ?thesis
    using public_segments [OF assms(1)] fits_meets_literals [OF assms(2)] node_route_public by (auto simp: list_all_iff)
qed

lemma register_routed: "map Lit [''runtime'', ''nodes'', ''register''] \<in> fst ` set build_router"
proof -
  have "([Lit ''runtime'', Lit ''nodes'', Lit ''register''], [(MPost, ''runtime::register_node'')])
      \<in> set (filter (\<lambda>r. may_be_public (fst r)) runtime_router)"
    unfolding public_of_modules by simp
  then show ?thesis
    by (force simp: build_router_def)
qed

text \<open>C15: what the tower answers without a credential. If the middleware hands a request on without having resolved
  a principal, and the request reaches a handler, then that handler is one of the twenty-five of the list:
  health and status, the catalogue of the MCP tools, the onboarding documents, the login pages, the
  registration of a node (which asks for its join token) and the webhooks (which check signatures of their own).
  The route /runtime/nodes/{node_id}, whose shape the public path of the registration fits, is not among them.\<close>

theorem public_surface:
  assumes "router_semantics find_route" "snd (require_auth jwt_decode digest st now inst req) = PassPublic req'"
    and "reach find_route build_router m (req_path req') = Handler h"
  shows "h \<in> set public_handlers"
proof -
  have pub: "is_public_path (req_path req')"
    using assms(2) by (auto simp: require_auth_def split: if_splits prod.splits sum.splits)
  obtain r where find: "find_route build_router (path_segments (req_path req')) = Some r" and h: "map_of (snd r) m = Some h"
    using assms(3) by (auto simp: reach_def split: option.splits)
  have r: "r \<in> set build_router" "fits (fst r) (path_segments (req_path req'))"
    using router_semantics.found_fits [OF assms(1) find] by simp_all
  have "r \<noteq> node_route"
  proof
    assume node: "r = node_route"
    then have "path_segments (req_path req') = [''runtime'', ''nodes'', ''register'']"
      using node_route_register [OF pub] r(2) by simp
    then have "fst r = map Lit [''runtime'', ''nodes'', ''register'']"
      using router_semantics.literal_first [OF assms(1) find] register_routed by simp
    then show False
      using node by (simp add: node_route_def)
  qed
  moreover have "r \<in> set (filter (\<lambda>r. may_be_public (fst r)) build_router)"
    using r may_be_publicI [OF pub] by simp
  ultimately have "list_all (\<lambda>(m, h). h \<in> set public_handlers) (snd r)"
    using public_routes_handlers unfolding list_all_iff by blast
  then show ?thesis
    using map_of_SomeD [OF h] by (auto simp: list_all_iff)
qed

text \<open>The registration is reached so, with its own method only.\<close>

lemma reach_register: "reach matched_route build_router m ''/runtime/nodes/register'' =
  (if m = MPost then Handler ''runtime::register_node'' else MethodNotAllowed)"
proof -
  let ?segs = "[''runtime'', ''nodes'', ''register'']"
  have segs: "path_segments ''/runtime/nodes/register'' = ?segs"
    by (simp add: path_segments_def)
  obtain r where r: "r \<in> set build_router" "fst r = map Lit ?segs"
    using register_routed by auto
  then have "matched_route build_router ?segs \<noteq> None"
    using axum.finds [of build_router ?segs] fits_literals [of ?segs ?segs] by force
  then obtain r' where found: "matched_route build_router ?segs = Some r'"
    by blast
  have r': "r' \<in> set build_router" "fst r' = map Lit ?segs"
    using axum.found_fits [OF found] axum.literal_first [OF found register_routed] by simp_all
  have "may_be_public (fst r')"
    unfolding r'(2) by code_simp
  then have "r' \<in> set (filter (\<lambda>r. may_be_public (fst r)) build_router)"
    using r'(1) by simp
  then have "snd r' = [(MPost, ''runtime::register_node'')]"
    using r'(2) unfolding public_routes filter_append public_of_modules
    by (cases r') (auto simp: health_router_def raft_router_def oidc_web_router_def onboarding_router_def
      schema_pack_router_def google_chat_integrations_router_def teams_integrations_router_def
      webhooks_tailscale_router_def)
  then show ?thesis
    by (simp add: reach_def segs found)
qed

lemma public_surface_witness:
  "is_public_path ''/runtime/nodes/register'' \<and>
   reach matched_route build_router MPost ''/runtime/nodes/register'' = Handler ''runtime::register_node'' \<and>
   ''runtime::register_node'' \<in> set public_handlers"
proof -
  let ?req = "demo_request\<lparr>req_path := ''/runtime/nodes/register''\<rparr>"
  have pub: "is_public_path ''/runtime/nodes/register''"
    by (simp add: is_public_path_def)
  then have "snd (require_auth (\<lambda>_. None) (\<lambda>t. t) demo_app 10 0 ?req) = PassPublic ?req"
    by (simp add: require_auth_def)
  moreover have "reach matched_route build_router MPost (req_path ?req) = Handler ''runtime::register_node''"
    by (simp add: reach_register)
  ultimately have "''runtime::register_node'' \<in> set public_handlers"
    by (rule public_surface [OF axum.router_semantics_axioms])
  then show ?thesis
    using pub reach_register by simp
qed

end
