(* ===== verification/Webhooks.thy ===== *)
theory Webhooks
  imports Presign Publication Secrets
begin

text \<open>
  The chat and webhook integrations of the tower (routes/slack_integrations.rs, teams_integrations.rs,
  google_chat_integrations.rs, chat_integrations.rs, webhooks_tailscale.rs): who may call them, the receipts that
  make an event count once, and the bindings of channels to domains. SHA-256, HMAC, the UTF-8 check, the
  lossy UTF-8 reader and the JSON reader and printer are arguments; a text stands for its bytes.
\<close>

section \<open>Rows\<close>

record receipt_row =
  rc_id :: int
  rc_provider :: str
  rc_event_key :: str
  rc_event_type :: str
  rc_created_at :: time

record channel_binding_row =
  cb_id :: int
  cb_provider :: str
  cb_domain_id :: str
  cb_workspace_external_id :: str
  cb_channel_id :: str
  cb_channel_name :: str
  cb_channel_metadata_json :: str
  cb_created_by :: str
  cb_created_at :: time
  cb_updated_at :: time

record chat_state =
  ch_up :: bool
  ch_receipts :: "receipt_row serial_table"
  ch_bindings :: "channel_binding_row serial_table"

text \<open>An answer is a status with its body.\<close>

type_synonym answer = "nat \<times> json"

definition answer_500 :: answer where "answer_500 = (500, JNull)"

definition detail :: "nat \<Rightarrow> str \<Rightarrow> answer" where
  "detail status msg = (status, JObj [(''detail'', JStr msg)])"

definition ok_answer :: answer where "ok_answer = (200, JObj [(''ok'', JBool True)])"

definition duplicate_answer :: answer where
  "duplicate_answer = (200, JObj [(''ok'', JBool True), (''duplicate'', JBool True)])"

section \<open>Signatures\<close>

definition byte_of :: "char \<Rightarrow> 8 word" where
  "byte_of c = word_of_nat (of_char c)"

definition constant_time_eq :: "str \<Rightarrow> str \<Rightarrow> bool" where
  "constant_time_eq a b =
     (if length a \<noteq> length b then False
      else fold (\<lambda>(x, y) acc. or acc (xor (byte_of x) (byte_of y))) (zip a b) 0 = 0)"

text \<open>The reader of request headers gives the text of a header that is there and printable.\<close>

type_synonym headers = "str \<Rightarrow> str option"
type_synonym environment = "str \<Rightarrow> str option"

definition var_text :: "environment \<Rightarrow> str \<Rightarrow> str" where
  "var_text env k = opt_or [] (env k)"

definition header_text :: "headers \<Rightarrow> str \<Rightarrow> str" where
  "header_text hs k = opt_or [] (hs k)"

definition hook_body_text :: "(str \<Rightarrow> bool) \<Rightarrow> str \<Rightarrow> str" where
  "hook_body_text utf8 body = (if utf8 body then body else [])"

definition hmac_hex :: "signer \<Rightarrow> str \<Rightarrow> str \<Rightarrow> str" where
  "hmac_hex g key msg = sg_hex g (sg_hmac g key msg)"

definition refusal :: "nat \<Rightarrow> str \<Rightarrow> str \<Rightarrow> answer" where
  "refusal status code reason = (status, JObj [(''code'', JStr code), (''reason'', JStr reason)])"

text \<open>A check gives None when the request is genuine.\<close>

definition verify_slack :: "signer \<Rightarrow> (str \<Rightarrow> bool) \<Rightarrow> environment \<Rightarrow> headers \<Rightarrow> str \<Rightarrow> answer option" where
  "verify_slack g utf8 env hs body =
     (let secret = var_text env ''SLACK_SIGNING_SECRET'';
          timestamp = header_text hs ''x-slack-request-timestamp'';
          sig_header = header_text hs ''x-slack-signature'';
          expected = ''v0='' @ hmac_hex g secret (''v0:'' @ timestamp @ '':'' @ hook_body_text utf8 body) in
      if secret = [] then Some (refusal 401 ''slack_signature_invalid'' ''SLACK_SIGNING_SECRET not configured'')
      else if timestamp = [] \<or> sig_header = []
      then Some (refusal 401 ''slack_signature_invalid'' ''missing_timestamp_or_signature'')
      else if \<not> constant_time_eq expected sig_header
      then Some (refusal 401 ''slack_signature_invalid'' ''hmac_mismatch'')
      else None)"

text \<open>Teams and Google Chat are checked alike: a signature when a signing secret is set, else a token in a header
  or in the payload.\<close>

definition verify_signature_or_token ::
  "signer \<Rightarrow> (str \<Rightarrow> json option) \<Rightarrow> str \<Rightarrow> str \<Rightarrow> str \<Rightarrow> answer \<Rightarrow> str \<Rightarrow> headers \<Rightarrow> str \<Rightarrow> answer option" where
  "verify_signature_or_token g parse signing_secret verification_token code unset token_header hs body =
     (if signing_secret \<noteq> [] then
        let timestamp = header_text hs ''x-edgeplane-timestamp'';
            signature = header_text hs ''x-edgeplane-signature'';
            expected = hmac_hex g signing_secret (timestamp @ ''.'' @ sg_sha256_hex g body) in
        if \<not> constant_time_eq expected signature then Some (refusal 401 code ''hmac_invalid'') else None
      else if verification_token \<noteq> [] then
        (case hs token_header of
           Some t \<Rightarrow>
             if constant_time_eq t verification_token then None
             else Some (refusal 401 code ''token_missing_or_invalid'')
         | None \<Rightarrow>
             (case Option.bind (parse body) (jfield_str ''token'') of
                Some t \<Rightarrow>
                  if constant_time_eq t verification_token then None
                  else Some (refusal 401 code ''token_missing_or_invalid'')
              | None \<Rightarrow> Some (refusal 401 code ''token_missing_or_invalid'')))
      else Some unset)"

definition verify_teams :: "signer \<Rightarrow> (str \<Rightarrow> json option) \<Rightarrow> environment \<Rightarrow> headers \<Rightarrow> str \<Rightarrow> answer option" where
  "verify_teams g parse env =
     verify_signature_or_token g parse (var_text env ''TEAMS_SIGNING_SECRET'') (var_text env ''TEAMS_VERIFICATION_TOKEN'')
       ''teams_signature_invalid'' (refusal 401 ''teams_signature_invalid'' ''teams_verification_token_missing'')
       ''x-edgeplane-teams-token''"

definition verify_google_chat :: "signer \<Rightarrow> (str \<Rightarrow> json option) \<Rightarrow> environment \<Rightarrow> headers \<Rightarrow> str \<Rightarrow> answer option" where
  "verify_google_chat g parse env =
     verify_signature_or_token g parse (var_text env ''GOOGLE_CHAT_SIGNING_SECRET'')
       (var_text env ''GOOGLE_CHAT_VERIFICATION_TOKEN'') ''google_chat_signature_invalid''
       (refusal 401 ''google_chat_signature_invalid'' ''google_chat_verification_token_missing'') ''x-goog-chat-token''"

text \<open>The last t= and the last v1= of the header count.\<close>

definition signature_part :: "str \<Rightarrow> str \<times> str \<Rightarrow> str \<times> str" where
  "signature_part part acc =
     (case strip_prefix ''t='' (trim part) of
        Some v \<Rightarrow> (v, snd acc)
      | None \<Rightarrow> (case strip_prefix ''v1='' (trim part) of Some v \<Rightarrow> (fst acc, v) | None \<Rightarrow> acc))"

definition signature_parts :: "str \<Rightarrow> str \<times> str" where
  "signature_parts sig_header = fold signature_part (split_on CHR '','' sig_header) ([], [])"

definition verify_tailscale ::
  "signer \<Rightarrow> (str \<Rightarrow> bool) \<Rightarrow> environment \<Rightarrow> int \<Rightarrow> headers \<Rightarrow> str \<Rightarrow> answer option" where
  "verify_tailscale g utf8 env now_secs hs body =
     (let secret = var_text env ''TS_WEBHOOK_SECRET'';
          sig_header = header_text hs ''tailscale-webhook-signature'';
          (timestamp, provided_sig) = signature_parts sig_header;
          ts = opt_or 0 (parse_i64 timestamp);
          expected = hmac_hex g secret (timestamp @ ''.'' @ hook_body_text utf8 body) in
      if secret = [] then Some (refusal 500 ''ts_webhook_unconfigured'' ''TS_WEBHOOK_SECRET not set'')
      else if sig_header = [] then Some (refusal 401 ''ts_sig_missing'' ''Tailscale-Webhook-Signature header absent'')
      else if timestamp = [] \<or> provided_sig = []
      then Some (refusal 401 ''ts_sig_malformed'' ''cannot parse t= or v1= from signature header'')
      else if 300 < \<bar>now_secs - ts\<bar>
      then Some (refusal 401 ''ts_sig_expired'' ''webhook timestamp outside 5-minute replay window'')
      else if \<not> constant_time_eq expected provided_sig then Some (refusal 401 ''ts_sig_invalid'' ''HMAC mismatch'')
      else None)"

section \<open>Receipts and bindings\<close>

definition binding_exists :: "chat_state \<Rightarrow> str \<Rightarrow> str \<Rightarrow> str \<Rightarrow> bool" where
  "binding_exists s provider domain_id channel_id =
     (ch_up s \<and> list_ex (\<lambda>r. cb_provider r = provider \<and> cb_domain_id r = domain_id \<and> cb_channel_id r = channel_id)
        (nb_rows (ch_bindings s)))"

text \<open>INSERT ... ON CONFLICT (event_key) DO NOTHING: a refused row uses up a number too. None is a database error.\<close>

definition record_receipt :: "time \<Rightarrow> str \<Rightarrow> str \<Rightarrow> str \<Rightarrow> chat_state \<Rightarrow> (chat_state \<times> bool) option" where
  "record_receipt now provider event_key event_type s =
     (let t = ch_receipts s in
      if \<not> ch_up s \<or> max_i32 < nb_next t then None
      else if list_ex (\<lambda>r. rc_event_key r = event_key) (nb_rows t) then Some (s\<lparr>ch_receipts := t\<lparr>nb_next := nb_next t + 1\<rparr>\<rparr>, False)
      else Some (s\<lparr>ch_receipts :=
          \<lparr>nb_rows = insert_row \<lparr>rc_id = nb_next t, rc_provider = provider, rc_event_key = event_key,
             rc_event_type = event_type, rc_created_at = now\<rparr> (nb_rows t), nb_next = nb_next t + 1\<rparr>\<rparr>, True))"

text \<open>A new event is answered with fresh, a repeated one with again.\<close>

definition receive ::
  "time \<Rightarrow> str \<Rightarrow> str \<Rightarrow> str \<Rightarrow> answer \<Rightarrow> answer \<Rightarrow> chat_state \<Rightarrow> chat_state \<times> answer" where
  "receive now provider event_key event_type again fresh s =
     (case record_receipt now provider event_key event_type s of
        None \<Rightarrow> (s, answer_500)
      | Some (s', inserted) \<Rightarrow> (s', if inserted then fresh else again))"

definition bound_or_unnamed :: "chat_state \<Rightarrow> str \<Rightarrow> str \<Rightarrow> str \<Rightarrow> bool" where
  "bound_or_unnamed s provider domain_id channel_id \<longleftrightarrow>
     domain_id = [] \<or> channel_id = [] \<or> binding_exists s provider domain_id channel_id"

definition event_key_of :: "signer \<Rightarrow> str \<Rightarrow> str \<Rightarrow> str \<Rightarrow> str \<Rightarrow> str \<Rightarrow> str" where
  "event_key_of g provider event_type domain_id channel_id body =
     provider @ '':'' @ event_type @ '':'' @ domain_id @ '':'' @ channel_id @ '':'' @ sg_sha256_hex g body"

definition inbound_event_key :: "signer \<Rightarrow> str \<Rightarrow> str \<Rightarrow> str \<Rightarrow> str \<Rightarrow> str" where
  "inbound_event_key g event_type body domain_id channel_id = event_key_of g ''slack'' event_type domain_id channel_id body"

section \<open>Slack\<close>

definition trimmed_field :: "str \<Rightarrow> json \<Rightarrow> str" where
  "trimmed_field k j = trim (opt_or [] (jfield_str k j))"

definition opt_else :: "'a option \<Rightarrow> 'a option \<Rightarrow> 'a option" where
  "opt_else x y = (case x of Some _ \<Rightarrow> x | None \<Rightarrow> y)"

text \<open>The channel is in the event, in its item or at the top.\<close>

definition slack_channel :: "json \<Rightarrow> str" where
  "slack_channel payload =
     (let event = opt_or (JObj []) (jget ''event'' payload) in
      opt_or [] (opt_else (jfield_str ''channel'' event)
        (opt_else (Option.bind (jget ''item'' event) (jfield_str ''channel'')) (jfield_str ''channel_id'' payload))))"

definition slack_events ::
  "signer \<Rightarrow> (str \<Rightarrow> bool) \<Rightarrow> (str \<Rightarrow> json option) \<Rightarrow> environment \<Rightarrow> time \<Rightarrow> headers \<Rightarrow> str \<Rightarrow> chat_state \<Rightarrow> chat_state \<times> answer" where
  "slack_events g utf8 parse env now hs body s =
     (case verify_slack g utf8 env hs body of
        Some e \<Rightarrow> (s, e)
      | None \<Rightarrow>
          (case parse body of
             None \<Rightarrow> (s, detail 400 ''Invalid Slack payload'')
           | Some payload \<Rightarrow>
               if jfield_str ''type'' payload = Some ''url_verification''
               then (s, (200, JObj [(''challenge'', JStr (opt_or [] (jfield_str ''challenge'' payload)))]))
               else
                 let channel_id = slack_channel payload;
                     domain_id = trimmed_field ''domain_id'' payload;
                     event_type = opt_or ''event'' (jfield_str ''type'' payload) in
                 if \<not> bound_or_unnamed s ''slack'' domain_id channel_id
                 then (s, detail 403 ''Slack channel is not bound to domain'')
                 else receive now ''slack'' (inbound_event_key g event_type body domain_id channel_id) ''event''
                   duplicate_answer ok_answer s))"

definition hex_digit :: "char \<Rightarrow> nat option" where
  "hex_digit c = (let n = of_char c :: nat in
     if 48 \<le> n \<and> n \<le> 57 then Some (n - 48)
     else if 97 \<le> n \<and> n \<le> 102 then Some (n - 97 + 10)
     else if 65 \<le> n \<and> n \<le> 70 then Some (n - 65 + 10) else None)"

fun percent_decode :: "str \<Rightarrow> str" where
  "percent_decode [] = []"
| "percent_decode (c # cs) =
     (case cs of
        a # b # rest \<Rightarrow>
          (if c = CHR ''%'' then
             (case (hex_digit a, hex_digit b) of
                (Some h, Some l) \<Rightarrow> char_of (h * 16 + l) # percent_decode rest
              | _ \<Rightarrow> c # percent_decode cs)
           else c # percent_decode cs)
      | _ \<Rightarrow> c # percent_decode cs)"

definition plus_to_space :: "str \<Rightarrow> str" where
  "plus_to_space s = map (\<lambda>c. if c = CHR ''+'' then CHR '' '' else c) s"

definition urlencoding_decode :: "(str \<Rightarrow> str) \<Rightarrow> str \<Rightarrow> str" where
  "urlencoding_decode lossy s = lossy (percent_decode (plus_to_space s))"

definition form_insert :: "str \<Rightarrow> str \<Rightarrow> (str \<rightharpoonup> str) \<Rightarrow> (str \<rightharpoonup> str)" where
  "form_insert k v mp = (case mp k of Some _ \<Rightarrow> mp | None \<Rightarrow> mp(k \<mapsto> v))"

definition form_pair :: "(str \<Rightarrow> str) \<Rightarrow> str \<Rightarrow> (str \<rightharpoonup> str) \<Rightarrow> (str \<rightharpoonup> str)" where
  "form_pair lossy pair mp =
     (case split_once CHR ''='' pair of
        Some (k, v) \<Rightarrow> form_insert (urlencoding_decode lossy k) (urlencoding_decode lossy v) mp
      | None \<Rightarrow> mp)"

definition parse_form :: "(str \<Rightarrow> bool) \<Rightarrow> (str \<Rightarrow> str) \<Rightarrow> str \<Rightarrow> (str \<rightharpoonup> str)" where
  "parse_form utf8 lossy body = fold (form_pair lossy) (split_on CHR ''&'' (hook_body_text utf8 body)) Map.empty"

fun whitespace_tokens :: "str \<Rightarrow> str \<Rightarrow> str list" where
  "whitespace_tokens acc [] = (if acc = [] then [] else [rev acc])"
| "whitespace_tokens acc (c # cs) =
     (if is_space c then (if acc = [] then [] else [rev acc]) @ whitespace_tokens [] cs
      else whitespace_tokens (c # acc) cs)"

definition extract_kv_domain_id :: "str \<Rightarrow> str" where
  "extract_kv_domain_id txt =
     (case find_map (strip_prefix ''domain_id='') (whitespace_tokens [] txt) of Some v \<Rightarrow> trim v | None \<Rightarrow> [])"

definition slack_ephemeral_response :: "str \<Rightarrow> answer" where
  "slack_ephemeral_response txt = (200, JObj [(''response_type'', JStr ''ephemeral''), (''text'', JStr txt)])"

definition slack_commands ::
  "signer \<Rightarrow> (str \<Rightarrow> bool) \<Rightarrow> (str \<Rightarrow> str) \<Rightarrow> environment \<Rightarrow> time \<Rightarrow> headers \<Rightarrow> str \<Rightarrow> chat_state \<Rightarrow> chat_state \<times> answer" where
  "slack_commands g utf8 lossy env now hs body s =
     (case verify_slack g utf8 env hs body of
        Some e \<Rightarrow> (s, e)
      | None \<Rightarrow>
          let form = parse_form utf8 lossy body;
              channel_id = opt_or [] (form ''channel_id'');
              given = trim (opt_or [] (form ''domain_id''));
              domain_id = (if given = [] then extract_kv_domain_id (opt_or [] (form ''text'')) else given) in
          if \<not> bound_or_unnamed s ''slack'' domain_id channel_id
          then (s, slack_ephemeral_response (''Channel `'' @ channel_id @ ''` is not bound to domain `'' @ domain_id @ ''`.''))
          else receive now ''slack'' (inbound_event_key g ''command'' body domain_id channel_id) ''command''
            (slack_ephemeral_response ''Duplicate command received. Ignoring replay.'')
            (slack_ephemeral_response ''Command received. Supported: task.create, approval.request, search'') s)"

definition slack_interactions ::
  "signer \<Rightarrow> (str \<Rightarrow> bool) \<Rightarrow> (str \<Rightarrow> str) \<Rightarrow> (str \<Rightarrow> json option) \<Rightarrow> environment \<Rightarrow> time \<Rightarrow> headers \<Rightarrow> str \<Rightarrow> chat_state \<Rightarrow>
   chat_state \<times> answer" where
  "slack_interactions g utf8 lossy parse env now hs body s =
     (case verify_slack g utf8 env hs body of
        Some e \<Rightarrow> (s, e)
      | None \<Rightarrow>
          (case parse (opt_or ''{}'' (parse_form utf8 lossy body ''payload'')) of
             None \<Rightarrow> (s, detail 400 ''Invalid Slack interaction payload'')
           | Some payload \<Rightarrow>
               let channel_id = opt_or [] (Option.bind (jget ''channel'' payload) (jfield_str ''id''));
                   domain_id = trimmed_field ''domain_id'' payload;
                   interaction_type = opt_or ''interaction'' (jfield_str ''type'' payload) in
               if \<not> bound_or_unnamed s ''slack'' domain_id channel_id
               then (s, detail 403 ''Slack channel is not bound to domain'')
               else receive now ''slack'' (inbound_event_key g interaction_type body domain_id channel_id) ''interaction''
                 duplicate_answer ok_answer s))"

section \<open>Teams and Google Chat\<close>

definition nonempty_or_event :: "str \<Rightarrow> str" where
  "nonempty_or_event event_type = (if event_type = [] then ''event'' else event_type)"

definition connected_answer :: "str \<Rightarrow> answer" where
  "connected_answer provider =
     (200, JObj [(''ok'', JBool True), (''provider'', JStr provider), (''text'', JStr ''Event received.'')])"

definition teams_events ::
  "signer \<Rightarrow> (str \<Rightarrow> json option) \<Rightarrow> environment \<Rightarrow> time \<Rightarrow> headers \<Rightarrow> str \<Rightarrow> chat_state \<Rightarrow> chat_state \<times> answer" where
  "teams_events g parse env now hs body s =
     (case verify_teams g parse env hs body of
        Some e \<Rightarrow> (s, e)
      | None \<Rightarrow>
          (case parse body of
             None \<Rightarrow> (s, detail 400 ''Invalid Teams payload'')
           | Some payload \<Rightarrow>
               let text_at = (\<lambda>k k'. opt_or [] (case opt_else (jget k payload) (jget k' payload) of Some (JStr x) \<Rightarrow> Some x | _ \<Rightarrow> None));
                   event_type = text_at ''type'' ''eventType'';
                   channel_id = trim (text_at ''channel_id'' ''conversationId'');
                   domain_id = trimmed_field ''domain_id'' payload in
               if \<not> bound_or_unnamed s ''teams'' domain_id channel_id
               then (s, detail 403 ''Teams channel is not bound to domain'')
               else receive now ''teams'' (event_key_of g ''teams'' (nonempty_or_event event_type) domain_id channel_id body) ''event''
                 duplicate_answer (connected_answer ''teams'') s))"

definition google_chat_events ::
  "signer \<Rightarrow> (str \<Rightarrow> json option) \<Rightarrow> environment \<Rightarrow> time \<Rightarrow> headers \<Rightarrow> str \<Rightarrow> chat_state \<Rightarrow> chat_state \<times> answer" where
  "google_chat_events g parse env now hs body s =
     (case verify_google_chat g parse env hs body of
        Some e \<Rightarrow> (s, e)
      | None \<Rightarrow>
          (case parse body of
             None \<Rightarrow> (s, detail 400 ''Invalid Google Chat payload'')
           | Some payload \<Rightarrow>
               let event_type = opt_or [] (jfield_str ''type'' payload) in
               if event_type = ''ADDED_TO_SPACE''
               then (s, (200, JObj [(''text'', JStr ''Edgeplane connected. Bind this space to a domain to enable actions.'')]))
               else
                 let channel_id = trim (opt_or [] (Option.bind (jget ''space'' payload) (jfield_str ''name'')));
                     domain_id = trimmed_field ''domain_id'' payload in
                 if \<not> bound_or_unnamed s ''google_chat'' domain_id channel_id
                 then (s, detail 403 ''Google Chat space is not bound to domain'')
                 else receive now ''google_chat''
                   (event_key_of g ''google_chat'' (nonempty_or_event event_type) domain_id channel_id body) ''event''
                   duplicate_answer (connected_answer ''google_chat'') s))"

section \<open>Tailscale\<close>

text \<open>The events are logged only; the answer counts them.\<close>

datatype tailscale_event =
  NodeCreated | NodeDeleted | NodeKeyExpiringInOneDay | NodeKeyExpired | PolicyUpdate | SubnetIPForwardingNotEnabled
| Unknown_event str

definition tailscale_event_of :: "str \<Rightarrow> tailscale_event" where
  "tailscale_event_of x =
     (if x = ''nodeCreated'' then NodeCreated else if x = ''nodeDeleted'' then NodeDeleted
      else if x = ''nodeKeyExpiringInOneDay'' then NodeKeyExpiringInOneDay
      else if x = ''nodeKeyExpired'' then NodeKeyExpired else if x = ''policyUpdate'' then PolicyUpdate
      else if x = ''subnetIPForwardingNotEnabled'' then SubnetIPForwardingNotEnabled else Unknown_event x)"

fun tailscale_event_text :: "tailscale_event \<Rightarrow> str" where
  "tailscale_event_text NodeCreated = ''nodeCreated''"
| "tailscale_event_text NodeDeleted = ''nodeDeleted''"
| "tailscale_event_text NodeKeyExpiringInOneDay = ''nodeKeyExpiringInOneDay''"
| "tailscale_event_text NodeKeyExpired = ''nodeKeyExpired''"
| "tailscale_event_text PolicyUpdate = ''policyUpdate''"
| "tailscale_event_text SubnetIPForwardingNotEnabled = ''subnetIPForwardingNotEnabled''"
| "tailscale_event_text (Unknown_event x) = x"

definition tailscale_webhook ::
  "signer \<Rightarrow> (str \<Rightarrow> bool) \<Rightarrow> (str \<Rightarrow> json option) \<Rightarrow> environment \<Rightarrow> int \<Rightarrow> headers \<Rightarrow> str \<Rightarrow> answer" where
  "tailscale_webhook g utf8 parse env now_secs hs body =
     (case verify_tailscale g utf8 env now_secs hs body of
        Some e \<Rightarrow> e
      | None \<Rightarrow>
          (case parse body of
             None \<Rightarrow> (400, JObj [(''code'', JStr ''invalid_json'')])
           | Some payload \<Rightarrow>
               let events = (case payload of JList xs \<Rightarrow> xs | _ \<Rightarrow> [payload]) in
               (200, JObj [(''ok'', JBool True), (''received'', JNum (int (length events)))])))"

section \<open>Bindings\<close>

definition row_to_channel_binding :: "(str \<Rightarrow> json option) \<Rightarrow> channel_binding_row \<Rightarrow> json" where
  "row_to_channel_binding parse r = JObj
     [(''id'', JNum (cb_id r)), (''provider'', JStr (cb_provider r)), (''domain_id'', JStr (cb_domain_id r)),
      (''workspace_external_id'', JStr (cb_workspace_external_id r)), (''channel_id'', JStr (cb_channel_id r)),
      (''channel_name'', JStr (cb_channel_name r)),
      (''channel_metadata'', opt_or (JObj []) (parse (cb_channel_metadata_json r))),
      (''created_by'', JStr (cb_created_by r)), (''created_at'', JNum (cb_created_at r)),
      (''updated_at'', JNum (cb_updated_at r))]"

record binding_body =
  bb_domain_id :: str
  bb_channel_id :: str
  bb_provider :: str
  bb_workspace_external_id :: str
  bb_channel_name :: str
  bb_channel_metadata :: "json option"

text \<open>The Slack routes trim and lower the provider, the general ones take it as it is.\<close>

definition slack_provider :: "str \<Rightarrow> str" where
  "slack_provider p = (if p = [] then ''slack'' else to_lowercase (trim p))"

definition chat_provider :: "str \<Rightarrow> str" where
  "chat_provider p = (if p = [] then ''slack'' else p)"

definition create_channel_binding ::
  "(str \<Rightarrow> str) \<Rightarrow> (json \<Rightarrow> str) \<Rightarrow> (str \<Rightarrow> json option) \<Rightarrow> time \<Rightarrow> principal \<Rightarrow> binding_body \<Rightarrow> chat_state \<Rightarrow> chat_state \<times> answer" where
  "create_channel_binding norm print parse now p body s =
     (let provider = norm (bb_provider body);
          metadata_json = (case bb_channel_metadata body of Some v \<Rightarrow> print v | None \<Rightarrow> ''{}'') in
      if \<not> ch_up s then (s, answer_500)
      else case find (\<lambda>r. cb_provider r = provider \<and> cb_domain_id r = bb_domain_id body \<and> cb_channel_id r = bb_channel_id body)
          (nb_rows (ch_bindings s)) of
        Some r \<Rightarrow> (s, (200, row_to_channel_binding parse r))
      | None \<Rightarrow>
          (case numbered_insert (\<lambda>i.
              \<lparr>cb_id = i, cb_provider = provider, cb_domain_id = bb_domain_id body,
               cb_workspace_external_id = bb_workspace_external_id body, cb_channel_id = bb_channel_id body,
               cb_channel_name = bb_channel_name body, cb_channel_metadata_json = metadata_json,
               cb_created_by = subject p, cb_created_at = now, cb_updated_at = now\<rparr>) (ch_bindings s) of
             None \<Rightarrow> (s, answer_500)
           | Some (t, r) \<Rightarrow> (s\<lparr>ch_bindings := t\<rparr>, (201, row_to_channel_binding parse r))))"

definition list_channel_bindings ::
  "(str \<Rightarrow> str) \<Rightarrow> (str \<Rightarrow> json option) \<Rightarrow> str \<Rightarrow> str \<Rightarrow> int option \<Rightarrow> chat_state \<Rightarrow> answer" where
  "list_channel_bindings norm parse domain_id provider limit s =
     (let n = min (opt_or 100 limit) 500 in
      if \<not> ch_up s \<or> n < 0 then answer_500
      else (200, JList (map (row_to_channel_binding parse) (take (nat n) (sort_key (\<lambda>r. - cb_updated_at r)
        (filter (\<lambda>r. cb_provider r = norm provider \<and> cb_domain_id r = domain_id) (nb_rows (ch_bindings s))))))))"

definition delete_channel_binding :: "str \<Rightarrow> int \<Rightarrow> chat_state \<Rightarrow> chat_state \<times> answer" where
  "delete_channel_binding missing binding_id s =
     (if \<not> ch_up s \<or> \<not> list_ex (\<lambda>r. cb_id r = binding_id) (nb_rows (ch_bindings s)) then (s, detail 404 missing)
      else (s\<lparr>ch_bindings := numbered_delete (by_key cb_id binding_id) (ch_bindings s)\<rparr>,
        (200, JObj [(''ok'', JBool True), (''deleted_id'', JNum binding_id)])))"

definition slack_create_binding where "slack_create_binding = create_channel_binding slack_provider"
definition slack_list_bindings where "slack_list_bindings = list_channel_bindings slack_provider"
definition slack_delete_binding where "slack_delete_binding = delete_channel_binding ''Slack binding not found''"
definition chat_create_binding where "chat_create_binding = create_channel_binding chat_provider"
definition chat_list_bindings where "chat_list_bindings = list_channel_bindings chat_provider"
definition chat_delete_binding where "chat_delete_binding = delete_channel_binding ''Chat binding not found''"

end
