(* ===== verification/Webhook_Properties.thy ===== *)
theory Webhook_Properties
  imports Webhooks
begin

text \<open>
  The integrations: unsigned requests are refused, each body counts once, form bodies are read as they were
  written, and what the bindings of channels do not protect.
\<close>

section \<open>Comparing and decoding\<close>

lemma byte_of_inject: "byte_of x = byte_of y \<longleftrightarrow> x = y"
proof
  have "unat (byte_of c) = of_char c" for c
    by (simp add: byte_of_def unsigned_of_nat take_bit_eq_mod)
  then show "byte_of x = byte_of y \<Longrightarrow> x = y"
    by (metis of_char_eq_iff)
qed simp

lemma fold_or_zero:
  "fold (\<lambda>(x, y) acc. or acc (xor (byte_of x) (byte_of y))) ps z = 0 \<longleftrightarrow> z = 0 \<and> (\<forall>(x, y)\<in>set ps. x = y)"
proof (induction ps arbitrary: z)
  case (Cons p ps)
  have or0: "or a b = 0 \<longleftrightarrow> a = 0 \<and> b = 0" for a b :: "8 word"
    by (simp add: or_eq_0_iff)
  have xor0: "xor (byte_of x) (byte_of y) = 0 \<longleftrightarrow> x = y" for x y
    using byte_of_inject [of x y] by (metis xor.assoc xor.left_neutral xor_self_eq)
  show ?case
    by (cases p) (auto simp: Cons.IH or0 xor0)
qed simp

lemma constant_time_eq_iff: "constant_time_eq a b \<longleftrightarrow> a = b"
proof -
  have "length a = length b \<Longrightarrow> (\<forall>(x, y)\<in>set (zip a b). x = y) \<longleftrightarrow> a = b"
    by (induction a b rule: list_induct2) auto
  then show ?thesis
    by (auto simp: constant_time_eq_def fold_or_zero)
qed

lemma hex_digit_upper: "n < 16 \<Longrightarrow> hex_digit (upper_hex n) = Some n"
  by (auto simp: hex_digit_def upper_hex_def Let_def)

lemma percent_decode_plain: "c \<noteq> CHR ''%'' \<Longrightarrow> percent_decode (c # cs) = c # percent_decode cs"
  by (auto split: list.splits)

lemma nibbles: "(of_char c :: nat) div 16 < 16" "(of_char c :: nat) mod 16 < 16"
proof -
  have "(of_char c :: nat) < 16 * 16"
    by simp
  then show "(of_char c :: nat) div 16 < 16"
    by (rule less_mult_imp_div_less)
qed simp

lemma percent_decode_encoded:
  "percent_decode (CHR ''%'' # upper_hex (of_char c div 16) # upper_hex (of_char c mod 16) # cs) = c # percent_decode cs"
  using nibbles [of c] by (simp add: hex_digit_upper)

lemma percent_decode_uri_encode: "percent_decode (uri_encode s) = s"
proof (induction s)
  case (Cons c s)
  then show ?case
  proof (cases "unreserved c")
    case True
    then have "c \<noteq> CHR ''%''"
      by (auto simp: unreserved_def)
    then show ?thesis
      using Cons True percent_decode_plain [of c] by (simp add: uri_encode_def encode_byte_def)
  next
    case False
    then show ?thesis
      using Cons percent_decode_encoded [of c] by (simp add: uri_encode_def encode_byte_def Let_def)
  qed
qed (simp add: uri_encode_def)

lemma upper_hex_unreserved: "n < 16 \<Longrightarrow> unreserved (upper_hex n)"
  by (auto simp: unreserved_def upper_hex_def Let_def)

lemma uri_encode_chars: "c \<in> set (uri_encode s) \<Longrightarrow> unreserved c \<or> c = CHR ''%''"
  using upper_hex_unreserved [OF nibbles(1)] upper_hex_unreserved [OF nibbles(2)]
  by (auto simp: uri_encode_def encode_byte_def Let_def split: if_splits)

lemma uri_encode_no_separator: "CHR ''&'' \<notin> set (uri_encode s)" "CHR ''='' \<notin> set (uri_encode s)" "CHR ''+'' \<notin> set (uri_encode s)"
proof -
  have "\<not> unreserved CHR ''&''" "\<not> unreserved CHR ''=''" "\<not> unreserved CHR ''+''"
    by (simp_all add: unreserved_def)
  then show "CHR ''&'' \<notin> set (uri_encode s)" "CHR ''='' \<notin> set (uri_encode s)" "CHR ''+'' \<notin> set (uri_encode s)"
    using uri_encode_chars [of _ s] by blast+
qed

lemma plus_to_space_id: "CHR ''+'' \<notin> set s \<Longrightarrow> plus_to_space s = s"
  by (auto simp: plus_to_space_def intro: map_idI)

lemma urlencoding_decode_encoded: "urlencoding_decode lossy (uri_encode s) = lossy s"
  by (simp add: urlencoding_decode_def plus_to_space_id uri_encode_no_separator percent_decode_uri_encode)

section \<open>Forms\<close>

definition form_body :: "(str \<times> str) list \<Rightarrow> str" where
  "form_body ps = join_with CHR ''&'' (map (\<lambda>(k, v). uri_encode k @ CHR ''='' # uri_encode v) ps)"

lemma form_insert_add: "form_insert k v mp = Map.empty(k \<mapsto> v) ++ mp"
  by (auto simp: form_insert_def map_add_def fun_eq_iff split: option.splits)

lemma fold_form_pairs:
  assumes "\<forall>(k, v)\<in>set ps. lossy k = k \<and> lossy v = v"
  shows "fold (form_pair lossy) (map (\<lambda>(k, v). uri_encode k @ CHR ''='' # uri_encode v) ps) mp = map_of ps ++ mp"
  using assms
proof (induction ps arbitrary: mp)
  case (Cons p ps)
  obtain k v where p: "p = (k, v)"
    by (cases p)
  then have "form_pair lossy (uri_encode k @ CHR ''='' # uri_encode v) mp = form_insert k v mp"
    using Cons.prems by (simp add: form_pair_def split_once_append uri_encode_no_separator urlencoding_decode_encoded)
  moreover have "map_of ps ++ (Map.empty(k \<mapsto> v) ++ mp) = map_of (p # ps) ++ mp"
    by (simp add: p map_add_assoc)
  ultimately show ?case
    using Cons by (simp add: p form_insert_add fun_upd_def)
qed simp

text \<open>a form is read as it was written. Take any list of keys and values, percent-encode both as the tower itself
  encodes (uri_encode) and join them as a form. Reading it back gives each key the value it had first in the
  list and no other key anything, provided the text is UTF-8, as everything that is encoded is.\<close>

theorem form_roundtrip:
  assumes "utf8 (form_body ps)" "\<forall>(k, v)\<in>set ps. lossy k = k \<and> lossy v = v"
  shows "parse_form utf8 lossy (form_body ps) = map_of ps"
proof (cases "ps = []")
  case True
  then show ?thesis
    using assms(1) by (simp add: parse_form_def hook_body_text_def form_body_def form_pair_def)
next
  case False
  let ?parts = "map (\<lambda>(k, v). uri_encode k @ CHR ''='' # uri_encode v) ps"
  have "split_on CHR ''&'' (form_body ps) = ?parts"
    unfolding form_body_def using False by (intro split_join) (auto simp: uri_encode_no_separator)
  then show ?thesis
    using assms(1) fold_form_pairs [OF assms(2), of Map.empty] by (simp add: parse_form_def hook_body_text_def)
qed

lemma form_roundtrip_witness:
  "parse_form (\<lambda>_. True) (\<lambda>x. x) (form_body [(''text'', ''a&b=c d''), (''text'', ''x'')]) = [''text'' \<mapsto> ''a&b=c d'']"
  using form_roundtrip [of "\<lambda>_. True" "[(''text'', ''a&b=c d''), (''text'', ''x'')]" "\<lambda>x. x"] by simp

section \<open>Genuine requests\<close>

datatype chat_hook = Slack_event | Slack_command | Slack_interaction | Teams_event | Google_event

record hook_world =
  hw_signer :: signer
  hw_utf8 :: "str \<Rightarrow> bool"
  hw_lossy :: "str \<Rightarrow> str"
  hw_parse :: "str \<Rightarrow> json option"
  hw_env :: environment

fun handle_hook :: "hook_world \<Rightarrow> chat_hook \<Rightarrow> time \<Rightarrow> headers \<Rightarrow> str \<Rightarrow> chat_state \<Rightarrow> chat_state \<times> answer" where
  "handle_hook w Slack_event now hs body s = slack_events (hw_signer w) (hw_utf8 w) (hw_parse w) (hw_env w) now hs body s"
| "handle_hook w Slack_command now hs body s = slack_commands (hw_signer w) (hw_utf8 w) (hw_lossy w) (hw_env w) now hs body s"
| "handle_hook w Slack_interaction now hs body s =
     slack_interactions (hw_signer w) (hw_utf8 w) (hw_lossy w) (hw_parse w) (hw_env w) now hs body s"
| "handle_hook w Teams_event now hs body s = teams_events (hw_signer w) (hw_parse w) (hw_env w) now hs body s"
| "handle_hook w Google_event now hs body s = google_chat_events (hw_signer w) (hw_parse w) (hw_env w) now hs body s"

text \<open>What a genuine request shows, in terms of secrets, headers and the body alone.\<close>

definition slack_genuine :: "hook_world \<Rightarrow> headers \<Rightarrow> str \<Rightarrow> bool" where
  "slack_genuine w hs body \<longleftrightarrow>
     (\<exists>secret ts. hw_env w ''SLACK_SIGNING_SECRET'' = Some secret \<and> secret \<noteq> [] \<and>
        hs ''x-slack-request-timestamp'' = Some ts \<and> ts \<noteq> [] \<and>
        hs ''x-slack-signature'' = Some (''v0='' @ hmac_hex (hw_signer w) secret
          (''v0:'' @ ts @ '':'' @ (if hw_utf8 w body then body else []))))"

definition shared_genuine :: "hook_world \<Rightarrow> str \<Rightarrow> str \<Rightarrow> str \<Rightarrow> headers \<Rightarrow> str \<Rightarrow> bool" where
  "shared_genuine w secret_var token_var token_header hs body \<longleftrightarrow>
     (case hw_env w secret_var of
        Some (c # secret) \<Rightarrow>
          opt_or [] (hs ''x-edgeplane-signature'') =
            hmac_hex (hw_signer w) (c # secret) (opt_or [] (hs ''x-edgeplane-timestamp'') @ ''.'' @ sg_sha256_hex (hw_signer w) body)
      | _ \<Rightarrow>
          (case hw_env w token_var of
             Some (c # tok) \<Rightarrow>
               (case hs token_header of
                  Some t \<Rightarrow> t = c # tok
                | None \<Rightarrow> Option.bind (hw_parse w body) (jfield_str ''token'') = Some (c # tok))
           | _ \<Rightarrow> False))"

fun genuine :: "hook_world \<Rightarrow> chat_hook \<Rightarrow> headers \<Rightarrow> str \<Rightarrow> bool" where
  "genuine w Teams_event hs body =
     shared_genuine w ''TEAMS_SIGNING_SECRET'' ''TEAMS_VERIFICATION_TOKEN'' ''x-edgeplane-teams-token'' hs body"
| "genuine w Google_event hs body =
     shared_genuine w ''GOOGLE_CHAT_SIGNING_SECRET'' ''GOOGLE_CHAT_VERIFICATION_TOKEN'' ''x-goog-chat-token'' hs body"
| "genuine w k hs body = slack_genuine w hs body"

lemma refusal_status [simp]: "fst (refusal n c r) = n"
  by (simp add: refusal_def)

lemma verify_slack_cases:
  "(case verify_slack (hw_signer w) (hw_utf8 w) (hw_env w) hs body of
      None \<Rightarrow> slack_genuine w hs body | Some a \<Rightarrow> \<not> slack_genuine w hs body \<and> fst a = 401)"
  by (auto simp: verify_slack_def slack_genuine_def constant_time_eq_iff var_text_def header_text_def hook_body_text_def opt_or_def Let_def
      split: option.splits)

lemma verify_shared_cases:
  "(case verify_signature_or_token (hw_signer w) (hw_parse w) (var_text (hw_env w) sv) (var_text (hw_env w) tv) code
        (refusal 401 code r) th hs body of
      None \<Rightarrow> shared_genuine w sv tv th hs body | Some a \<Rightarrow> \<not> shared_genuine w sv tv th hs body \<and> fst a = 401)"
proof (cases "var_text (hw_env w) sv")
  case (Cons c secret)
  then have "hw_env w sv = Some (c # secret)"
    by (simp add: var_text_def opt_or_def split: option.splits)
  then show ?thesis
    using Cons by (auto simp: refusal_def verify_signature_or_token_def shared_genuine_def constant_time_eq_iff header_text_def Let_def)
next
  case Nil
  then have no: "\<nexists>c secret. hw_env w sv = Some (c # secret)"
    by (auto simp: var_text_def opt_or_def split: option.splits)
  show ?thesis
  proof (cases "var_text (hw_env w) tv")
    case (Cons c tok)
    then have "hw_env w tv = Some (c # tok)"
      by (simp add: var_text_def opt_or_def split: option.splits)
    then show ?thesis
      using Cons Nil no
      by (auto simp: refusal_def verify_signature_or_token_def shared_genuine_def constant_time_eq_iff split: option.splits list.splits)
  next
    case Nil
    then have "\<nexists>c tok. hw_env w tv = Some (c # tok)"
      by (auto simp: var_text_def opt_or_def split: option.splits)
    then show ?thesis
      using Nil \<open>var_text (hw_env w) sv = []\<close> no
      by (auto simp: refusal_def verify_signature_or_token_def shared_genuine_def split: option.splits list.splits)
  qed
qed

text \<open>The key a body is counted under; it does not depend on the headers.\<close>

fun hook_provider :: "chat_hook \<Rightarrow> str" where
  "hook_provider Teams_event = ''teams''"
| "hook_provider Google_event = ''google_chat''"
| "hook_provider k = ''slack''"

fun hook_type :: "chat_hook \<Rightarrow> str" where
  "hook_type Slack_command = ''command''"
| "hook_type Slack_interaction = ''interaction''"
| "hook_type k = ''event''"

fun fresh_answer :: "chat_hook \<Rightarrow> answer" where
  "fresh_answer Slack_command = slack_ephemeral_response ''Command received. Supported: task.create, approval.request, search''"
| "fresh_answer Teams_event = connected_answer ''teams''"
| "fresh_answer Google_event = connected_answer ''google_chat''"
| "fresh_answer k = ok_answer"

fun again_answer :: "chat_hook \<Rightarrow> answer" where
  "again_answer Slack_command = slack_ephemeral_response ''Duplicate command received. Ignoring replay.''"
| "again_answer k = duplicate_answer"

fun hook_key :: "hook_world \<Rightarrow> chat_hook \<Rightarrow> str \<Rightarrow> str" where
  "hook_key w Slack_event body =
     (case hw_parse w body of
        Some payload \<Rightarrow> inbound_event_key (hw_signer w) (opt_or ''event'' (jfield_str ''type'' payload)) body
          (trimmed_field ''domain_id'' payload) (slack_channel payload)
      | None \<Rightarrow> [])"
| "hook_key w Slack_command body =
     (let form = parse_form (hw_utf8 w) (hw_lossy w) body; given = trim (opt_or [] (form ''domain_id'')) in
      inbound_event_key (hw_signer w) ''command'' body
        (if given = [] then extract_kv_domain_id (opt_or [] (form ''text'')) else given) (opt_or [] (form ''channel_id'')))"
| "hook_key w Slack_interaction body =
     (case hw_parse w (opt_or ''{}'' (parse_form (hw_utf8 w) (hw_lossy w) body ''payload'')) of
        Some payload \<Rightarrow> inbound_event_key (hw_signer w) (opt_or ''interaction'' (jfield_str ''type'' payload)) body
          (trimmed_field ''domain_id'' payload) (opt_or [] (Option.bind (jget ''channel'' payload) (jfield_str ''id'')))
      | None \<Rightarrow> [])"
| "hook_key w Teams_event body =
     (case hw_parse w body of
        Some payload \<Rightarrow>
          let text_at = (\<lambda>k k'. opt_or [] (case opt_else (jget k payload) (jget k' payload) of Some (JStr x) \<Rightarrow> Some x | _ \<Rightarrow> None)) in
          event_key_of (hw_signer w) ''teams'' (nonempty_or_event (text_at ''type'' ''eventType''))
            (trimmed_field ''domain_id'' payload) (trim (text_at ''channel_id'' ''conversationId'')) body
      | None \<Rightarrow> [])"
| "hook_key w Google_event body =
     (case hw_parse w body of
        Some payload \<Rightarrow>
          event_key_of (hw_signer w) ''google_chat'' (nonempty_or_event (opt_or [] (jfield_str ''type'' payload)))
            (trimmed_field ''domain_id'' payload) (trim (opt_or [] (Option.bind (jget ''space'' payload) (jfield_str ''name'')))) body
      | None \<Rightarrow> [])"

lemmas hook_answers = detail_def ok_answer_def duplicate_answer_def connected_answer_def slack_ephemeral_response_def answer_500_def

text \<open>A genuine request is either answered at once, or its body is counted.\<close>

definition hook_outcome :: "hook_world \<Rightarrow> chat_hook \<Rightarrow> time \<Rightarrow> str \<Rightarrow> chat_state \<Rightarrow> chat_state \<times> answer \<Rightarrow> bool" where
  "hook_outcome w k now body s out \<longleftrightarrow>
     fst out = s \<and> fst (snd out) \<in> {200, 400, 403} \<and> snd out \<noteq> fresh_answer k \<or>
     out = receive now (hook_provider k) (hook_key w k body) (hook_type k) (again_answer k) (fresh_answer k) s"

lemma slack_handled:
  assumes "verify_slack (hw_signer w) (hw_utf8 w) (hw_env w) hs body = None"
  shows "hook_outcome w Slack_event now body s (handle_hook w Slack_event now hs body s)"
    and "hook_outcome w Slack_command now body s (handle_hook w Slack_command now hs body s)"
    and "hook_outcome w Slack_interaction now body s (handle_hook w Slack_interaction now hs body s)"
  using assms
  by (auto simp: hook_outcome_def slack_events_def slack_commands_def slack_interactions_def hook_answers Let_def split: option.split)

lemma teams_handled:
  assumes "verify_teams (hw_signer w) (hw_parse w) (hw_env w) hs body = None"
  shows "hook_outcome w Teams_event now body s (handle_hook w Teams_event now hs body s)"
  using assms by (auto simp: hook_outcome_def teams_events_def hook_answers Let_def split: option.split)

lemma google_handled:
  assumes "verify_google_chat (hw_signer w) (hw_parse w) (hw_env w) hs body = None"
  shows "hook_outcome w Google_event now body s (handle_hook w Google_event now hs body s)"
  using assms by (auto simp: hook_outcome_def google_chat_events_def hook_answers Let_def split: option.split)

lemma hook_refused_or_handled:
  "(if genuine w k hs body then hook_outcome w k now body s (handle_hook w k now hs body s)
    else fst (handle_hook w k now hs body s) = s \<and> fst (snd (handle_hook w k now hs body s)) = 401)"
proof (cases k)
  case Slack_event
  then show ?thesis
    using verify_slack_cases [of w hs body] slack_handled(1)
    by (cases "verify_slack (hw_signer w) (hw_utf8 w) (hw_env w) hs body") (simp_all add: slack_events_def)
next
  case Slack_command
  then show ?thesis
    using verify_slack_cases [of w hs body] slack_handled(2)
    by (cases "verify_slack (hw_signer w) (hw_utf8 w) (hw_env w) hs body") (simp_all add: slack_commands_def)
next
  case Slack_interaction
  then show ?thesis
    using verify_slack_cases [of w hs body] slack_handled(3)
    by (cases "verify_slack (hw_signer w) (hw_utf8 w) (hw_env w) hs body") (simp_all add: slack_interactions_def)
next
  case Teams_event
  then show ?thesis
    using verify_shared_cases [of w "''TEAMS_SIGNING_SECRET''" "''TEAMS_VERIFICATION_TOKEN''" "''x-edgeplane-teams-token''" hs body
        "''teams_signature_invalid''" "''teams_verification_token_missing''"] teams_handled
    by (cases "verify_teams (hw_signer w) (hw_parse w) (hw_env w) hs body") (simp_all add: verify_teams_def teams_events_def)
next
  case Google_event
  then show ?thesis
    using verify_shared_cases [of w "''GOOGLE_CHAT_SIGNING_SECRET''" "''GOOGLE_CHAT_VERIFICATION_TOKEN''"
        "''x-goog-chat-token''" hs body "''google_chat_signature_invalid''" "''google_chat_verification_token_missing''"]
      google_handled
    by (cases "verify_google_chat (hw_signer w) (hw_parse w) (hw_env w) hs body")
      (simp_all add: verify_google_chat_def google_chat_events_def)
qed

lemma receive_status: "fst (snd (receive now pr key ty (again_answer k) (fresh_answer k) s)) \<in> {200, 500}"
  by (cases k) (auto simp: receive_def hook_answers split: option.split)

definition tailscale_genuine :: "hook_world \<Rightarrow> int \<Rightarrow> headers \<Rightarrow> str \<Rightarrow> bool" where
  "tailscale_genuine w now_secs hs body \<longleftrightarrow>
     (\<exists>secret ts sig h. hw_env w ''TS_WEBHOOK_SECRET'' = Some secret \<and> secret \<noteq> [] \<and>
        hs ''tailscale-webhook-signature'' = Some h \<and> signature_parts h = (ts, sig) \<and> ts \<noteq> [] \<and> sig \<noteq> [] \<and>
        \<bar>now_secs - opt_or 0 (parse_i64 ts)\<bar> \<le> 300 \<and>
        sig = hmac_hex (hw_signer w) secret (ts @ ''.'' @ (if hw_utf8 w body then body else [])))"

lemma signature_parts_Nil: "signature_parts [] = ([], [])"
  by (simp add: signature_parts_def signature_part_def trim_def)

lemma verify_tailscale_cases:
  "(case verify_tailscale (hw_signer w) (hw_utf8 w) (hw_env w) now_secs hs body of
      None \<Rightarrow> tailscale_genuine w now_secs hs body
    | Some a \<Rightarrow> \<not> tailscale_genuine w now_secs hs body \<and> fst a \<in> {401, 500})"
proof -
  obtain ts sig where parts: "signature_parts (header_text hs ''tailscale-webhook-signature'') = (ts, sig)"
    by (cases "signature_parts (header_text hs ''tailscale-webhook-signature'')")
  have header: "header_text hs ''tailscale-webhook-signature'' = (case hs ''tailscale-webhook-signature'' of Some h \<Rightarrow> h | None \<Rightarrow> [])"
    by (simp add: header_text_def opt_or_def)
  have secret: "var_text (hw_env w) ''TS_WEBHOOK_SECRET'' = (case hw_env w ''TS_WEBHOOK_SECRET'' of Some x \<Rightarrow> x | None \<Rightarrow> [])"
    by (simp add: var_text_def opt_or_def)
  show ?thesis
    using parts unfolding verify_tailscale_def tailscale_genuine_def secret header
    by (auto simp: Let_def constant_time_eq_iff hook_body_text_def signature_parts_Nil split: option.splits)
qed


definition empty_chat :: chat_state where
  "empty_chat = \<lparr>ch_up = True, ch_receipts = \<lparr>nb_rows = [], nb_next = 1\<rparr>, ch_bindings = \<lparr>nb_rows = [], nb_next = 1\<rparr>\<rparr>"

definition demo_hooks :: hook_world where
  "demo_hooks = \<lparr>hw_signer = \<lparr>sg_sha256_hex = (\<lambda>x. x), sg_hmac = (\<lambda>k m. k @ m), sg_hex = (\<lambda>x. x)\<rparr>,
     hw_utf8 = (\<lambda>_. True), hw_lossy = (\<lambda>x. x), hw_parse = (\<lambda>_. Some (JObj [])),
     hw_env = [''SLACK_SIGNING_SECRET'' \<mapsto> ''k'']\<rparr>"

definition demo_headers :: headers where
  "demo_headers = [''x-slack-request-timestamp'' \<mapsto> ''7'', ''x-slack-signature'' \<mapsto> ''v0=kv0:7:b'']"

lemma demo_genuine: "genuine demo_hooks Slack_event demo_headers ''b''" "\<not> genuine demo_hooks Teams_event demo_headers ''b''"
  by (simp_all add: demo_hooks_def demo_headers_def slack_genuine_def shared_genuine_def hmac_hex_def)


section \<open>Every body counts once\<close>

abbreviation receipts :: "chat_state \<Rightarrow> receipt_row list" where
  "receipts s \<equiv> nb_rows (ch_receipts s)"

definition chat_wf :: "chat_state \<Rightarrow> bool" where
  "chat_wf s \<longleftrightarrow> unique_key rc_event_key (receipts s) \<and> unique_key rc_id (receipts s) \<and>
     (\<forall>r\<in>set (receipts s). rc_id r < nb_next (ch_receipts s)) \<and>
     unique_key cb_id (nb_rows (ch_bindings s)) \<and> (\<forall>r\<in>set (nb_rows (ch_bindings s)). cb_id r < nb_next (ch_bindings s))"

text \<open>What a request may do to the tables: receipts are only added, and what is well formed stays so.\<close>

locale chat_writer =
  fixes step :: "chat_state \<Rightarrow> chat_state"
  assumes appends: "\<exists>new. receipts (step s) = receipts s @ new"
    and keeps_wf: "chat_wf s \<Longrightarrow> chat_wf (step s)"
begin

lemma key_stays: "k \<in> rc_event_key ` set (receipts s) \<Longrightarrow> k \<in> rc_event_key ` set (receipts (step s))"
  using appends [of s] by auto

end

lemma record_receipt_appends: "record_receipt now pr key ty s = Some (s', b) \<Longrightarrow>
    receipts s' = receipts s @ (if b then [\<lparr>rc_id = nb_next (ch_receipts s), rc_provider = pr, rc_event_key = key,
             rc_event_type = ty, rc_created_at = now\<rparr>] else []) \<and> nb_next (ch_receipts s') = nb_next (ch_receipts s) + 1 \<and>
    (b \<longleftrightarrow> key \<notin> rc_event_key ` set (receipts s)) \<and> ch_bindings s' = ch_bindings s"
  by (auto simp: record_receipt_def insert_row_def list_ex_iff Let_def split: if_splits)

lemma record_receipt_wf: "chat_wf s \<Longrightarrow> record_receipt now pr key ty s = Some (s', b) \<Longrightarrow> chat_wf s'"
  using record_receipt_appends [of now pr key ty s s' b]
  by (fastforce simp: chat_wf_def unique_key_def split: if_splits)

lemma receive_cases:
  "fst (receive now pr key ty again fresh s) = s \<and> snd (receive now pr key ty again fresh s) = answer_500 \<or>
   (\<exists>s' b. record_receipt now pr key ty s = Some (s', b) \<and>
      receive now pr key ty again fresh s = (s', if b then fresh else again))"
  by (auto simp: receive_def split: option.split)

lemma hook_state_cases:
  "fst (handle_hook w k now hs body s) = s \<or>
   (\<exists>b. record_receipt now (hook_provider k) (hook_key w k body) (hook_type k) s = Some (fst (handle_hook w k now hs body s), b) \<and>
      snd (handle_hook w k now hs body s) = (if b then fresh_answer k else again_answer k))"
proof (cases "fst (handle_hook w k now hs body s) = s")
  case False
  then have "handle_hook w k now hs body s =
      receive now (hook_provider k) (hook_key w k body) (hook_type k) (again_answer k) (fresh_answer k) s"
    using hook_refused_or_handled [of w k hs body now s] by (auto simp: hook_outcome_def split: if_splits)
  then show ?thesis
    using False receive_cases [of now "hook_provider k" "hook_key w k body" "hook_type k" "again_answer k" "fresh_answer k" s]
    by force
qed simp

lemma hook_writes: "chat_writer (\<lambda>s. fst (handle_hook w k now hs body s))"
proof
  fix s
  show "\<exists>new. receipts (fst (handle_hook w k now hs body s)) = receipts s @ new"
    using hook_state_cases [of w k now hs body s] record_receipt_appends by (metis append_Nil2)
  show "chat_wf s \<Longrightarrow> chat_wf (fst (handle_hook w k now hs body s))"
    using hook_state_cases [of w k now hs body s] record_receipt_wf by metis
qed

interpretation hook: chat_writer "\<lambda>s. fst (handle_hook w k now hs body s)" for w k now hs body
  by (rule hook_writes)

interpretation binding_created: chat_writer "\<lambda>s. fst (create_channel_binding norm print parse now p b s)" for norm print parse now p b
proof
  fix s
  show "\<exists>new. receipts (fst (create_channel_binding norm print parse now p b s)) = receipts s @ new"
    by (auto simp: create_channel_binding_def Let_def split: option.split)
  show "chat_wf s \<Longrightarrow> chat_wf (fst (create_channel_binding norm print parse now p b s))"
    by (auto simp: create_channel_binding_def chat_wf_def numbered_insert_def insert_row_def unique_key_def Let_def
        split: option.splits if_splits)
qed

interpretation binding_deleted: chat_writer "\<lambda>s. fst (delete_channel_binding missing i s)" for missing i
proof
  fix s
  show "\<exists>new. receipts (fst (delete_channel_binding missing i s)) = receipts s @ new"
    by (auto simp: delete_channel_binding_def)
  show "chat_wf s \<Longrightarrow> chat_wf (fst (delete_channel_binding missing i s))"
    by (auto simp: delete_channel_binding_def chat_wf_def numbered_delete_def unique_key_def delete_where_def distinct_map_filter)
qed

interpretation outage: chat_writer "\<lambda>s. s\<lparr>ch_up := b\<rparr>" for b
  by unfold_locales (auto simp: chat_wf_def)

text \<open>Requests to the integrations in any order, with the database going and coming back.\<close>

inductive chat_step :: "hook_world \<Rightarrow> chat_state \<Rightarrow> chat_state \<Rightarrow> bool" for w :: hook_world where
  hook_called: "chat_step w s (fst (handle_hook w k now hs body s))"
| created: "chat_step w s (fst (create_channel_binding norm print (hw_parse w) now p b s))"
| deleted: "chat_step w s (fst (delete_channel_binding missing i s))"
| database: "chat_step w s (s\<lparr>ch_up := up\<rparr>)"

abbreviation chat_steps :: "hook_world \<Rightarrow> chat_state \<Rightarrow> chat_state \<Rightarrow> bool" where
  "chat_steps w \<equiv> (chat_step w)\<^sup>*\<^sup>*"

lemma chat_step_keeps: "chat_step w s s' \<Longrightarrow> (chat_wf s \<longrightarrow> chat_wf s') \<and> (\<exists>new. receipts s' = receipts s @ new)"
proof (induction rule: chat_step.induct)
  case (hook_called s k now hs body)
  show ?case
    by (intro conjI impI hook.keeps_wf hook.appends)
next
  case (created s norm print now p b)
  show ?case
    by (intro conjI impI binding_created.keeps_wf binding_created.appends)
next
  case (deleted s missing i)
  show ?case
    by (intro conjI impI binding_deleted.keeps_wf binding_deleted.appends)
next
  case (database s up)
  show ?case
    by (intro conjI impI outage.keeps_wf outage.appends)
qed

lemma chat_steps_keep:
  assumes "chat_steps w s s'"
  shows "(chat_wf s \<longrightarrow> chat_wf s') \<and> (\<exists>new. receipts s' = receipts s @ new)"
  using assms
proof (induction rule: rtranclp_induct)
  case (step s1 s2)
  then show ?case
    using chat_step_keeps [OF step.hyps(2)] by auto
qed simp

text \<open>C31: every body counts once. Once a request to an endpoint has added a receipt, no later request with the
  same body to the same endpoint adds one or is answered like a new one, whatever its headers and its time, and
  whatever requests and outages come between. In a store that starts well formed no two receipts ever share
  their key or their number.\<close>

theorem body_counted_once:
  assumes "chat_wf s" "receipts (fst (handle_hook w k now hs body s)) \<noteq> receipts s"
    and "chat_steps w (fst (handle_hook w k now hs body s)) s'"
  shows "receipts (fst (handle_hook w k now' hs' body s')) = receipts s' \<and>
    snd (handle_hook w k now' hs' body s') \<noteq> fresh_answer k \<and>
    distinct (map rc_event_key (receipts s')) \<and> distinct (map rc_id (receipts s'))"
proof -
  let ?s1 = "fst (handle_hook w k now hs body s)"
  obtain b where rec: "record_receipt now (hook_provider k) (hook_key w k body) (hook_type k) s = Some (?s1, b)"
    using hook_state_cases [of w k now hs body s] assms(2) by auto
  have "b"
    using record_receipt_appends [OF rec] assms(2) by (cases b) simp_all
  then have "hook_key w k body \<in> rc_event_key ` set (receipts ?s1)"
    using record_receipt_appends [OF rec] by simp
  then have key: "hook_key w k body \<in> rc_event_key ` set (receipts s')"
    using chat_steps_keep [OF assms(3)] by auto
  have wf: "chat_wf s'"
    using chat_steps_keep [OF assms(3)] hook.keeps_wf [OF assms(1)] by blast
  have neq: "again_answer k \<noteq> fresh_answer k" "answer_500 \<noteq> fresh_answer k"
    by (cases k; simp add: hook_answers)+
  have "fst (snd (handle_hook w k now' hs' body s')) = 401 \<Longrightarrow> snd (handle_hook w k now' hs' body s') \<noteq> fresh_answer k"
    by (cases k) (auto simp: hook_answers)
  then have "receipts (fst (handle_hook w k now' hs' body s')) = receipts s' \<and>
      snd (handle_hook w k now' hs' body s') \<noteq> fresh_answer k"
    using hook_refused_or_handled [of w k hs' body now' s'] neq key
      receive_cases [of now' "hook_provider k" "hook_key w k body" "hook_type k" "again_answer k" "fresh_answer k" s']
      record_receipt_appends [of now' "hook_provider k" "hook_key w k body" "hook_type k" s']
    by (fastforce simp: hook_outcome_def split: if_splits)
  then show ?thesis
    using wf by (simp add: chat_wf_def unique_key_def)
qed

lemma demo_first: "handle_hook demo_hooks Slack_event 0 demo_headers ''b'' empty_chat =
  (empty_chat\<lparr>ch_receipts := \<lparr>nb_rows = [\<lparr>rc_id = 1, rc_provider = ''slack'', rc_event_key = ''slack:event:::b'',
     rc_event_type = ''event'', rc_created_at = 0\<rparr>], nb_next = 2\<rparr>\<rparr>, ok_answer)"
  by code_simp

lemma body_counted_once_witness:
  "snd (handle_hook demo_hooks Slack_event 9 demo_headers ''b'' (fst (handle_hook demo_hooks Slack_event 0 demo_headers ''b'' empty_chat)))
     \<noteq> ok_answer"
proof -
  have "chat_wf empty_chat"
    by (simp add: chat_wf_def empty_chat_def unique_key_def)
  moreover have "receipts (fst (handle_hook demo_hooks Slack_event 0 demo_headers ''b'' empty_chat)) \<noteq> receipts empty_chat"
    by (simp only: demo_first) (simp add: empty_chat_def)
  ultimately show ?thesis
    using body_counted_once [of empty_chat demo_hooks Slack_event 0 demo_headers "''b''"
        "fst (handle_hook demo_hooks Slack_event 0 demo_headers ''b'' empty_chat)" 9 demo_headers] by simp
qed

section \<open>What the checks leave out\<close>

text \<open>Whoever is logged in binds a channel to any domain: the handler asks for a caller and not who it is.\<close>

lemma any_caller_binds:
  assumes "ch_up s" "nb_next (ch_bindings s) \<le> max_i32"
  shows "binding_exists (fst (slack_create_binding print parse now p
     \<lparr>bb_domain_id = d, bb_channel_id = c, bb_provider = [], bb_workspace_external_id = x, bb_channel_name = nm,
      bb_channel_metadata = meta\<rparr> s)) ''slack'' d c"
proof (cases "find (\<lambda>r. cb_provider r = ''slack'' \<and> cb_domain_id r = d \<and> cb_channel_id r = c) (nb_rows (ch_bindings s))")
  case None
  then show ?thesis
    using assms
    by (simp add: slack_create_binding_def create_channel_binding_def slack_provider_def numbered_insert_def insert_row_def
        binding_exists_def Let_def)
next
  case (Some r)
  then show ?thesis
    using assms(1) find_SomeD [OF Some]
    by (auto simp: slack_create_binding_def create_channel_binding_def slack_provider_def binding_exists_def list_ex_iff Let_def)
qed

text \<open>A body that is not UTF-8 is signed as the empty text, so one signature is right for all such bodies.\<close>

lemma unreadable_bodies_share_signature:
  "\<not> hw_utf8 w b \<Longrightarrow> \<not> hw_utf8 w b' \<Longrightarrow> slack_genuine w hs b \<longleftrightarrow> slack_genuine w hs b'"
  by (simp add: slack_genuine_def)

text \<open>The time stamp of a Slack request is signed and never compared with the clock.\<close>

lemma slack_request_never_expires:
  "slack_genuine w hs body \<Longrightarrow> fst (snd (handle_hook w Slack_event now hs body s)) \<noteq> 401"
  using hook_refused_or_handled [of w Slack_event hs body now s]
    receive_status [of now "hook_provider Slack_event" "hook_key w Slack_event body" "hook_type Slack_event" Slack_event s]
  by (auto simp: hook_outcome_def)

end
