(* ===== verification/Spec2Isabelle.thy ===== *)
theory Spec2Isabelle
  imports Task_Properties Dependency_Properties Gate_Properties Handler_Properties Progress_Log
    Redaction Seccomp Secret_Profiles Capability_Dispatcher Task_Worker Watchdog Agent_Assignment
    Mgmt_Gateway Fleet_System Lease_Properties Agent_Identity Domain_Properties Run_Properties Profile_Properties
    Message_Properties Workspace_Properties Route_Properties Public_Surface
    Webhook_Properties
begin

text \<open>
  A verification development for edgeplane.

  THE PROGRAM. edgeplane runs agents on nodes under a control plane. The tower (crates/edgeplane-tower)
  is an HTTP server over Postgres: it authenticates people, services and nodes, keeps domains,
  missions and agents, and coordinates tasks: pool tasks that agents claim under a lease, review gates
  that hold a task back, dependencies that release it, assigned tasks for people. The same task table
  is written by two surfaces, the REST routes and the MCP tools. The daemon (crates/edgeplaned and its
  sibling crates edgeplaned-bin, -core, -work, -packs, -receipts, -sandbox, -secrets) runs on a node: it
  learns which agents to run, reconciles the running ones with that list, sends heartbeats, claims and
  runs tasks, and runs capabilities (commands with a manifest) in a sandbox with brokered secrets and
  redacted output, logging receipts. The command line (crates/edgeplane) calls both.

  CONVENTIONS. Prelude: text is a list of characters read as Latin-1 code points, with the string functions
  of Rust the code calls; SQL conditions are three-valued (Some True, Some False, None for NULL). Tables:
  a table is a list of rows; SELECT, UPDATE ... RETURNING, INSERT and DELETE; the locale fenced_update is
  the contract of a one-row compare-and-set and is interpreted on every task transition. Tower_Data: the
  rows and the database record, with db_up for an outage; a handler gives the new database and a
  response, which is a rejection (status and detail) or a JSON body. Clocks, fresh identifiers, digests,
  signature checks, answers of other processes and of the operating system are parameters. Times are
  integers of microseconds. A handler that waits between two statements is split there, so that other
  requests can be put between the halves.

  THE TOWER.
  Tower_Auth (auth.rs, jwt.rs): claims, the order of credentials, service accounts, sessions, the node scope
    cache, the middleware; what lets a request in, the round trip of node tokens, the age of a scope.
  Tower_Authz (routes/authz.rs): the guards; the locale domain_resolver says what a resolver of the owning
    domain promises and derives the composed guard once; interpreted for tasks, missions, agents, gates.
  Task_Transitions (routes/task_transitions.rs): heartbeat, progress, complete, fail and block as fence,
    update and classification of the rejection; no effect without authority, retired leases.
  Work_Deps, Work_Tasks, Work_Gates (routes/work.rs): the depth-first search for cycles, creation, listing with
    lease expiry, claim, release, retry, cancel, dispatch, deletion, review gates.
  Assigned_Tasks (routes/tasks.rs), Mcp_Tasks (routes/mcp.rs): the other two writers of the task table.
  Task_Lifecycle, Task_System: the locale task_handler is the contract of every handler (keys stay unique,
    each row makes at most one lawful move, newborn rows carry the fresh id), it is interpreted for every
    handler, and the step relation of the whole system is built of them.
  Task_Safety, Task_Properties, Dependency_Properties, Gate_Properties, Handler_Properties, Progress_Log:
    the properties: the invariant of every reachable row, leases that are never reused, exclusive
    claims, finality, gates, acyclic dependencies, exact release of dependents, exact expiry, the
    gapless progress log, and the places where two surfaces or two requests disagree.

  Tower_State, Runtime_Nodes, Runtime_Jobs (routes/runtime.rs): the tables of the fleet; join tokens, registration,
    token rotation, heartbeats, specifications and deletion of nodes; jobs, leases, execution sessions.
  Mesh_Agents (routes/work.rs and runtime.rs), Fleet_Agents (routes/agents.rs): enrolment, assignment, tokens and
    deletion of mesh agents; the persistent agents they are linked to, with their domains and messages.
  Node_Properties, Node_Credentials: what registration needs and gives, two registrations racing for one join
    token, rotation and its failure, what a node's own token may be used for, the deletion of a node.
  Fleet_System: the locale fleet_handler is the contract of a request of runtime.rs (the tables stay well formed, what
    other subjects own is left as it was, a lease is touched for its parties only); it is interpreted for every
    handler that writes, the step relation fleet_step is built of them, and owners are isolated in every run.
  Lease_Properties: the leases of a node as a queue, two claims at once, jobs put on the nodes of others.
  Agent_Identity: what enrolling an agent gives, whom its identity link lets act, tokens of removed agents.

  Domains (routes/domains.rs, routes/missions.rs): the domains, their owners, missions and the two documents.
  Domain_Properties: the locale domain_handler is the contract of their handlers (every domain keeps an owner, owners are
    changed by their own people only), interpreted for each; how a member becomes the owner, transfers that are
    undone or leave nobody, what a deletion does, the version of a document.
  Runs (routes/runs.rs, models/run.rs), Budgets (routes/budgets.rs): runs with their checkpoints, policies, usage.
  Run_Properties: the locale run_handler is the contract of what writes them (the ledger is well formed, runs keep their
    identity and checkpoints); idempotent starts, gapless checkpoints under overlapping writers, exact accounting.
  Documents (routes/docs.rs, routes/artifacts.rs): documents and artifacts of missions, with versions.
  Document_Properties: the locale document_handler is the contract of their handlers (what the caller may not write stays,
    versions count up, identifiers are fresh); lost edits, deleted missions, the content of an artifact.
  Profiles (routes/profiles.rs): the tarballs of a user, one of them the default, statement by statement.
  Profile_Properties: the locale profile_statement is the contract of each statement, so stored tarballs agree with their
    digest in every interleaving; the default is single as long as requests do not overlap.

  Cursor_Feeds: reading a feed above a cursor page by page, proved once for any feed; Messages (routes/work.rs and
    mcp.rs): mesh messages, inboxes, the roster, the message tools and the two event streams.
  Message_Properties: what an inbox shows and marks, a relay delivers each message once, messages across domains.
  Workspaces (routes/mcp.rs): workspace leases, snapshots, fetches, commits; Publication (routes/persistence.rs and
    mcp.rs): connections, bindings, policies and the two publishers, with git as an environment; Presign
    (mcp.rs): the signed URLs. Workspace_Properties: commits stay in the mission of their lease, what they
    ignore, the ledger that stays empty, what a publication needs.
  Routes (every router() of routes/, routes/mod.rs, server.rs): the table of routes; the locale router_semantics is
    the contract of the framework's lookup. Public_Surface: the handlers reachable without a credential.
  Webhooks (routes/slack_integrations.rs, teams_integrations.rs, google_chat_integrations.rs, chat_integrations.rs,
    webhooks_tailscale.rs): signatures, receipts, bindings, the reader of form bodies. Webhook_Properties: the locale
    chat_writer is the contract of what writes the receipts, interpreted for every handler; unsigned requests are
    refused, every body counts once, a form is read as it was written.
  Daemon_Requests (server.rs, edgeplaned-core client.rs and what calls it): the fallback of the tower and every
    request of the daemon. Route_Properties: where each request ends up, and what that means for the task loop.

  THE DAEMON.
  Packs (edgeplaned-packs), Receipts (edgeplaned-receipts), Secrets, Redaction, Secret_Profiles
    (edgeplaned-secrets), Seccomp (edgeplaned-sandbox, seccomp.rs), Capability_Dispatcher (edgeplaned-core,
    capability_dispatcher.rs, and the secrets gateway): what a capability may run, with which environment,
    what is redacted and logged. The locale classic_bpf states the laws of the kernel's filter machine.
  Task_Capabilities, Task_Worker (edgeplaned-bin): the tools granted to a subagent, and the worker with its
    lifecycle (a list of calls with their answers as parameters) and its polling loop (a step relation).
  Watchdog (edgeplaned-work and task_loop.rs): connectivity, the gate of the loop, claiming.
  Message_Relay (task_loop.rs): the two relays of an agent's messages and the pauses of its notification socket.
  Agent_Registry, Reconcile, Agent_Assignment (edgeplaned-bin local_registry.rs, reconcile.rs, daemon.rs): the
    agents of a node, stored, diffed, assigned at boot and at every poll.
  History_Log: the log with an identifier per row, listed newest first and swept by age and by count, that the
    registry keeps three times (local_registry.rs); its laws are proved once for any row type.
  Unit_Health (edgeplaned-bin unit_health.rs, unit_restart_log): the supervision of systemd units, tick by tick;
    the grace period, the throttle and the nightly restart.
  Cron (edgeplaned-bin cron_config.rs, cron.rs, the cron tables): the configuration with its defaults and its
    checks, and the loop that fires jobs; TOML, time zones, cron expressions and dates are parameters.
  Mgmt_Gateway (edgeplaned-bin mgmt_gateway.rs): the JSON-RPC methods for the agents of the node and the
    handshake; a connection is the list of its lines and the frames written to it.

  FUEL AND TERMINATION. detect_cycle is a while loop over a colour map and a stack; it is proved to return on
  every input (its measure is the number of white nodes and the edges left on the stack), so no fuel is
  needed. replace_all shortens its text at every call; all other recursion is structural. Lease times, retry
  counts and intervals are integers where the columns are 64-bit and far from their bounds; sock_fprog_len and
  the BPF words keep their width.

  NOT MODELLED. Connections, migrations, logging, tracing, sockets, pseudo terminals and processes; the OIDC
  redirects; YAML and JSON text (values are modelled, parsers are parameters); the terminal interface and
  the argument parsing of the command line; the read-only listing handlers of the tower that no
  property needs. PROJECT.json lists these parts with the reason.
\<close>

end
